(* ===== verification/Prelude.thy ===== *)
theory Prelude
  imports Main
begin

text \<open>
  Shared vocabulary of the development: the type of a Go function that may return an error and
  that works on a mutable world, the combinators for Go's \<open>if err != nil\<close> idioms, their
  weakest-precondition equations (collection \<open>wp_simps\<close>), the rules for invariants
  (collection \<open>keeps_intros\<close>), and a few generic lemmas on lists.
\<close>

named_theorems wp_simps \<open>weakest precondition equations\<close>
named_theorems keeps_intros \<open>invariant preservation rules\<close>

section \<open>Fallible stateful functions\<close>

text \<open>
  A Go method \<open>func (ctx, ...) (T, error)\<close> that reads and writes the state \<open>'w\<close> becomes a
  function from the state to a result (\<open>Inl\<close> the error, \<open>Inr\<close> the value) and the new state.
  The state is returned also with an error: Go undoes nothing by itself.
\<close>

type_synonym ('w, 'e, 'a) act = "'w \<Rightarrow> ('e + 'a) \<times> 'w"

definition ret :: "'a \<Rightarrow> ('w, 'e, 'a) act" where
  "ret x = (\<lambda>w. (Inr x, w))"

definition fail :: "'e \<Rightarrow> ('w, 'e, 'a) act" where
  "fail e = (\<lambda>w. (Inl e, w))"

text \<open>\<open>x, err := m; if err != nil { h(err) } else { f(x) }\<close>\<close>

definition onResult :: "('w, 'd, 'a) act \<Rightarrow> ('d \<Rightarrow> ('w, 'e, 'b) act) \<Rightarrow> ('a \<Rightarrow> ('w, 'e, 'b) act) \<Rightarrow> ('w, 'e, 'b) act" where
  "onResult m h f = (\<lambda>w. case m w of (r, w1) \<Rightarrow> (case r of Inl e \<Rightarrow> h e w1 | Inr x \<Rightarrow> f x w1))"

text \<open>\<open>x, err := m; if err != nil { return err }; f(x)\<close>\<close>

definition andThen :: "('w, 'e, 'a) act \<Rightarrow> ('a \<Rightarrow> ('w, 'e, 'b) act) \<Rightarrow> ('w, 'e, 'b) act" where
  "andThen m f = onResult m fail f"

text \<open>\<open>_ = m\<close>: the error is dropped (or only logged).\<close>

definition ignoring :: "('w, 'd, 'a) act \<Rightarrow> ('w, 'e, unit) act" where
  "ignoring m = onResult m (\<lambda>_. ret ()) (\<lambda>_. ret ())"

text \<open>The error as a value, for code that goes on and looks at it later.\<close>

definition attempt :: "('w, 'd, 'a) act \<Rightarrow> ('w, 'e, 'd + 'a) act" where
  "attempt m = onResult m (\<lambda>e. ret (Inl e)) (\<lambda>x. ret (Inr x))"

definition gets :: "('w \<Rightarrow> 'a) \<Rightarrow> ('w, 'e, 'a) act" where
  "gets f = (\<lambda>w. (Inr (f w), w))"

definition modify :: "('w \<Rightarrow> 'w) \<Rightarrow> ('w, 'e, unit) act" where
  "modify f = (\<lambda>w. (Inr (), f w))"

text \<open>\<open>for _, x := range xs { if err := f(x); err != nil { return err } }\<close>\<close>

fun forEach :: "('x \<Rightarrow> ('w, 'e, unit) act) \<Rightarrow> 'x list \<Rightarrow> ('w, 'e, unit) act" where
  "forEach f [] = ret ()"
| "forEach f (x # xs) = andThen (f x) (\<lambda>_. forEach f xs)"

section \<open>Weakest preconditions\<close>

definition wp :: "('w, 'e, 'a) act \<Rightarrow> ('a \<Rightarrow> 'w \<Rightarrow> bool) \<Rightarrow> ('e \<Rightarrow> 'w \<Rightarrow> bool) \<Rightarrow> 'w \<Rightarrow> bool" where
  "wp m Q E w = (case m w of (r, w1) \<Rightarrow> (case r of Inl e \<Rightarrow> E e w1 | Inr x \<Rightarrow> Q x w1))"

lemma wp_ret [wp_simps]: "wp (ret x) Q E = Q x"
  by (simp add: wp_def ret_def fun_eq_iff)

lemma wp_fail [wp_simps]: "wp (fail e) Q E = E e"
  by (simp add: wp_def fail_def fun_eq_iff)

lemma wp_onResult [wp_simps]:
  "wp (onResult m h f) Q E = wp m (\<lambda>x. wp (f x) Q E) (\<lambda>e. wp (h e) Q E)"
  by (auto simp: wp_def onResult_def fun_eq_iff split: prod.splits sum.splits)

lemma wp_andThen [wp_simps]:
  "wp (andThen m f) Q E = wp m (\<lambda>x. wp (f x) Q E) E"
  unfolding andThen_def wp_onResult wp_fail by simp

lemma wp_ignoring [wp_simps]: "wp (ignoring m) Q E = wp m (\<lambda>_. Q ()) (\<lambda>_. Q ())"
  by (simp add: ignoring_def wp_simps)

lemma wp_attempt [wp_simps]:
  "wp (attempt m) Q E = wp m (\<lambda>x. Q (Inr x)) (\<lambda>e. Q (Inl e))"
  by (simp add: attempt_def wp_simps)

lemma wp_gets [wp_simps]: "wp (gets f) Q E = (\<lambda>w. Q (f w) w)"
  by (simp add: wp_def gets_def fun_eq_iff)

lemma wp_modify [wp_simps]: "wp (modify f) Q E = (\<lambda>w. Q () (f w))"
  by (simp add: wp_def modify_def fun_eq_iff)

lemma wp_if [wp_simps]: "wp (if b then m else n) Q E = (if b then wp m Q E else wp n Q E)"
  by simp

lemma wp_case_option [wp_simps]:
  "wp (case v of None \<Rightarrow> m | Some x \<Rightarrow> f x) Q E =
   (case v of None \<Rightarrow> wp m Q E | Some x \<Rightarrow> wp (f x) Q E)"
  by (simp split: option.split)

lemma wp_case_sum [wp_simps]:
  "wp (case v of Inl e \<Rightarrow> h e | Inr x \<Rightarrow> f x) Q E =
   (case v of Inl e \<Rightarrow> wp (h e) Q E | Inr x \<Rightarrow> wp (f x) Q E)"
  by (simp split: sum.split)

lemma if_app [wp_simps]: "(if b then f else g) w = (if b then f w else g w)"
  by simp

lemma case_option_app [wp_simps]:
  "(case v of None \<Rightarrow> f | Some x \<Rightarrow> g x) w = (case v of None \<Rightarrow> f w | Some x \<Rightarrow> g x w)"
  by (cases v) auto

lemma case_sum_app [wp_simps]:
  "(case v of Inl e \<Rightarrow> f e | Inr x \<Rightarrow> g x) w = (case v of Inl e \<Rightarrow> f e w | Inr x \<Rightarrow> g x w)"
  by (cases v) auto

lemma wp_mono:
  "wp m Q E w \<Longrightarrow> (\<And>x w'. Q x w' \<Longrightarrow> Q' x w') \<Longrightarrow> (\<And>e w'. E e w' \<Longrightarrow> E' e w') \<Longrightarrow> wp m Q' E' w"
  by (auto simp: wp_def split: prod.splits sum.splits)

lemma wp_conj: "wp m Q E w \<Longrightarrow> wp m Q' E' w \<Longrightarrow> wp m (\<lambda>x w. Q x w \<and> Q' x w) (\<lambda>e w. E e w \<and> E' e w) w"
  by (auto simp: wp_def split: prod.splits sum.splits)

lemma wp_Inr: "wp m Q E w \<Longrightarrow> m w = (Inr x, w') \<Longrightarrow> Q x w'"
  by (simp add: wp_def)

lemma wp_Inl: "wp m Q E w \<Longrightarrow> m w = (Inl e, w') \<Longrightarrow> E e w'"
  by (simp add: wp_def)

lemma wpI: "(\<And>x w'. m w = (Inr x, w') \<Longrightarrow> Q x w') \<Longrightarrow> (\<And>e w'. m w = (Inl e, w') \<Longrightarrow> E e w') \<Longrightarrow> wp m Q E w"
  by (auto simp: wp_def split: prod.splits sum.splits)

lemma wp_snd: "wp m (\<lambda>_. P) (\<lambda>_. P) w = P (snd (m w))"
  by (auto simp: wp_def split: prod.splits sum.splits)

section \<open>Invariants\<close>

text \<open>\<open>keeps I m\<close>: \<open>m\<close> preserves \<open>I\<close>, whether it succeeds or returns an error.\<close>

definition keeps :: "('w \<Rightarrow> bool) \<Rightarrow> ('w, 'e, 'a) act \<Rightarrow> bool" where
  "keeps I m \<longleftrightarrow> (\<forall>w. I w \<longrightarrow> I (snd (m w)))"

lemma keepsI: "(\<And>w. I w \<Longrightarrow> wp m (\<lambda>_. I) (\<lambda>_. I) w) \<Longrightarrow> keeps I m"
  by (simp add: keeps_def wp_snd)

lemma keepsD: "keeps I m \<Longrightarrow> I w \<Longrightarrow> I (snd (m w))"
  by (simp add: keeps_def)

lemma keeps_wp: "keeps I m \<Longrightarrow> I w \<Longrightarrow> wp m (\<lambda>_. I) (\<lambda>_. I) w"
  by (simp add: keeps_def wp_snd)

lemma keeps_ret [keeps_intros]: "keeps I (ret x)"
  by (simp add: keeps_def ret_def)

lemma keeps_fail [keeps_intros]: "keeps I (fail e)"
  by (simp add: keeps_def fail_def)

lemma keeps_gets [keeps_intros]: "keeps I (gets f)"
  by (simp add: keeps_def gets_def)

lemma keeps_onResult [keeps_intros]:
  assumes "keeps I m" and "\<And>e. keeps I (h e)" and "\<And>x. keeps I (f x)"
  shows "keeps I (onResult m h f)"
  using assms unfolding keeps_def wp_snd [symmetric] wp_onResult
  by (auto intro: wp_mono)

lemma keeps_andThen [keeps_intros]:
  "keeps I m \<Longrightarrow> (\<And>x. keeps I (f x)) \<Longrightarrow> keeps I (andThen m f)"
  unfolding andThen_def by (intro keeps_intros)

lemma keeps_ignoring [keeps_intros]: "keeps I m \<Longrightarrow> keeps I (ignoring m)"
  unfolding ignoring_def by (intro keeps_intros)

lemma keeps_attempt [keeps_intros]: "keeps I m \<Longrightarrow> keeps I (attempt m)"
  unfolding attempt_def by (intro keeps_intros)

lemma keeps_if [keeps_intros]: "(b \<Longrightarrow> keeps I m) \<Longrightarrow> (\<not> b \<Longrightarrow> keeps I n) \<Longrightarrow> keeps I (if b then m else n)"
  by simp

lemma keeps_case_option [keeps_intros]:
  "(v = None \<Longrightarrow> keeps I m) \<Longrightarrow> (\<And>x. v = Some x \<Longrightarrow> keeps I (f x)) \<Longrightarrow> keeps I (case v of None \<Rightarrow> m | Some x \<Rightarrow> f x)"
  by (cases v) auto

lemma keeps_case_sum [keeps_intros]:
  "(\<And>e. v = Inl e \<Longrightarrow> keeps I (h e)) \<Longrightarrow> (\<And>x. v = Inr x \<Longrightarrow> keeps I (f x)) \<Longrightarrow> keeps I (case v of Inl e \<Rightarrow> h e | Inr x \<Rightarrow> f x)"
  by (cases v) auto

lemma keeps_forEach [keeps_intros]: "(\<And>x. x \<in> set xs \<Longrightarrow> keeps I (f x)) \<Longrightarrow> keeps I (forEach f xs)"
  by (induction xs) (simp_all add: keeps_intros)

section \<open>Lists\<close>

text \<open>Go's idiom of a \<open>seen\<close> map over a slice: keep the first occurrence of each element.\<close>

fun dedupFrom :: "'a list \<Rightarrow> 'a list \<Rightarrow> 'a list" where
  "dedupFrom seen [] = []"
| "dedupFrom seen (x # xs) =
     (if x \<in> set seen then dedupFrom seen xs else x # dedupFrom (x # seen) xs)"

lemma set_dedupFrom: "set (dedupFrom seen xs) = set xs - set seen"
  by (induction seen xs rule: dedupFrom.induct) auto

lemma distinct_dedupFrom: "distinct (dedupFrom seen xs)"
  by (induction seen xs rule: dedupFrom.induct) (auto simp: set_dedupFrom)

lemma dedupFrom_distinct: "distinct xs \<Longrightarrow> set xs \<inter> set seen = {} \<Longrightarrow> dedupFrom seen xs = xs"
  by (induction seen xs rule: dedupFrom.induct) auto

lemma dedupFrom_cong: "set seen = set seen' \<Longrightarrow> dedupFrom seen xs = dedupFrom seen' xs"
proof (induction xs arbitrary: seen seen')
  case (Cons x xs)
  from Cons.prems Cons.IH [of "x # seen" "x # seen'"] Cons.IH [of seen seen'] show ?case by simp
qed simp

lemma find_filter_hd: "find P xs = (case filter P xs of [] \<Rightarrow> None | x # _ \<Rightarrow> Some x)"
  by (induction xs) auto

lemma find_map_same: "(\<And>x. P (f x) = P x) \<Longrightarrow> find P (map f xs) = map_option f (find P xs)"
  by (induction xs) auto

lemma find_Some_mem: "find P xs = Some x \<Longrightarrow> x \<in> set xs \<and> P x"
  by (induction xs) (auto split: if_splits)

end
