(* ===== verification/LruCache.thy ===== *)
theory LruCache
  imports Prelude "HOL-Library.AList"
begin

text \<open>
  \<open>pkg/util/lru/lru.go\<close> and its client, the per-address rate limiter of
  \<open>api/server/middleware/limiter.go\<close>. The list element of \<open>container/list\<close> is a cell of a store;
  \<open>evictList\<close> is the order of the cells, \<open>items\<close> the Go map from keys to cells. The abstract cache
  is the list of (key, value) pairs, most recently used first. The interface \<open>bounded_cache\<close> is what
  the rate limiter needs; the LRU cache provides it. Every operation takes the lock first, so the
  operations are atomic steps.
\<close>

section \<open>The cache\<close>

record ('k, 'v) lru_cache =
  cap :: int
  evictList :: "nat list"
  items :: "('k \<times> nat) list"
  cells :: "nat \<Rightarrow> ('k \<times> 'v) option"
  nextCell :: nat

definition NewLRUCache :: "int \<Rightarrow> ('k, 'v) lru_cache" where
  "NewLRUCache n = \<lparr>cap = n, evictList = [], items = [], cells = (\<lambda>_. None), nextCell = 0\<rparr>"

definition entryOf :: "('k, 'v) lru_cache \<Rightarrow> nat \<Rightarrow> 'k \<times> 'v" where
  "entryOf c ent = the (cells c ent)"

definition lruContains :: "('k, 'v) lru_cache \<Rightarrow> 'k \<Rightarrow> bool" where
  "lruContains c key = (map_of (items c) key \<noteq> None)"

definition MoveToFront :: "nat \<Rightarrow> nat list \<Rightarrow> nat list" where
  "MoveToFront ent l = ent # filter (\<lambda>e. e \<noteq> ent) l"

definition lruEvict :: "('k, 'v) lru_cache \<Rightarrow> ('k, 'v) lru_cache" where
  "lruEvict c =
     (if int (length (evictList c)) > cap c
      then (let lastElement = last (evictList c)
            in c\<lparr>evictList := butlast (evictList c), items := AList.delete (fst (entryOf c lastElement)) (items c)\<rparr>)
      else c)"

definition lruAdd :: "('k, 'v) lru_cache \<Rightarrow> 'k \<Rightarrow> 'v \<Rightarrow> ('k, 'v) lru_cache" where
  "lruAdd c key value = lruEvict
     (case map_of (items c) key of
        Some ent \<Rightarrow> c\<lparr>cells := (cells c)(ent \<mapsto> (fst (entryOf c ent), value)), evictList := MoveToFront ent (evictList c)\<rparr>
      | None \<Rightarrow> (let ent = nextCell c
          in c\<lparr>cells := (cells c)(ent \<mapsto> (key, value)), evictList := ent # evictList c,
               items := AList.update key ent (items c), nextCell := Suc ent\<rparr>))"

definition lruGet :: "('k, 'v) lru_cache \<Rightarrow> 'k \<Rightarrow> 'v option \<times> ('k, 'v) lru_cache" where
  "lruGet c key = (case map_of (items c) key of
     Some ent \<Rightarrow> (Some (snd (entryOf c ent)), c\<lparr>evictList := MoveToFront ent (evictList c)\<rparr>)
   | None \<Rightarrow> (None, c))"

definition lruLen :: "('k, 'v) lru_cache \<Rightarrow> nat" where
  "lruLen c = length (evictList c)"

section \<open>Invariant and abstraction\<close>

text \<open>The cells of the list and the entries of the map are the same, and the list is not longer
  than the capacity.\<close>

definition lru_linked :: "('k, 'v) lru_cache \<Rightarrow> bool" where
  "lru_linked c \<longleftrightarrow> distinct (evictList c) \<and> (\<forall>e \<in> set (evictList c). e < nextCell c) \<and>
     (\<forall>k e. map_of (items c) k = Some e \<longleftrightarrow> e \<in> set (evictList c) \<and> fst (entryOf c e) = k)"

definition lru_inv :: "('k, 'v) lru_cache \<Rightarrow> bool" where
  "lru_inv c \<longleftrightarrow> lru_linked c \<and> int (length (evictList c)) \<le> cap c"

definition lru_abs :: "('k, 'v) lru_cache \<Rightarrow> ('k \<times> 'v) list" where
  "lru_abs c = map (entryOf c) (evictList c)"

definition absAdd :: "int \<Rightarrow> ('k \<times> 'v) list \<Rightarrow> 'k \<Rightarrow> 'v \<Rightarrow> ('k \<times> 'v) list" where
  "absAdd n L key value = take (nat n) ((key, value) # filter (\<lambda>(k, v). k \<noteq> key) L)"

definition absGet :: "('k \<times> 'v) list \<Rightarrow> 'k \<Rightarrow> 'v option \<times> ('k \<times> 'v) list" where
  "absGet L key = (case map_of L key of
     None \<Rightarrow> (None, L) | Some v \<Rightarrow> (Some v, (key, v) # filter (\<lambda>(k, v). k \<noteq> key) L))"

lemma lru_inv_New: "0 \<le> n \<Longrightarrow> lru_inv (NewLRUCache n)" "lru_abs (NewLRUCache n) = []"
  by (simp_all add: lru_inv_def lru_linked_def NewLRUCache_def lru_abs_def)

lemma lru_invD:
  assumes "lru_linked c"
  shows "distinct (evictList c)" and "map_of (items c) k = Some e \<longleftrightarrow> e \<in> set (evictList c) \<and> fst (entryOf c e) = k"
    and "e \<in> set (evictList c) \<Longrightarrow> e < nextCell c"
  using assms unfolding lru_linked_def by blast+

lemma lru_inv_distinct: "lru_linked c \<Longrightarrow> distinct (map fst (lru_abs c))"
proof -
  assume inv: "lru_linked c"
  have "e = e'" if "e \<in> set (evictList c)" "e' \<in> set (evictList c)" "fst (entryOf c e) = fst (entryOf c e')" for e e'
  proof -
    from that lru_invD(2) [OF inv] have "map_of (items c) (fst (entryOf c e)) = Some e" "map_of (items c) (fst (entryOf c e)) = Some e'" by auto
    then show ?thesis by simp
  qed
  with lru_invD(1) [OF inv] show ?thesis by (simp add: lru_abs_def distinct_map inj_on_def)
qed

lemma lru_map_of:
  assumes inv: "lru_linked c"
  shows "map_of (lru_abs c) key = map_option (\<lambda>e. snd (entryOf c e)) (map_of (items c) key)"
proof (cases "map_of (items c) key")
  case None
  then have "\<forall>e \<in> set (evictList c). fst (entryOf c e) \<noteq> key" using lru_invD(2) [OF inv, of key] by auto
  then have "map_of (lru_abs c) key = None" by (auto simp: lru_abs_def map_of_eq_None_iff)
  with None show ?thesis by (simp only: option.map)
next
  case (Some e)
  then have "e \<in> set (evictList c)" "fst (entryOf c e) = key" by (simp_all add: lru_invD(2) [OF inv])
  then have "(key, snd (entryOf c e)) \<in> set (lru_abs c)" by (force simp: lru_abs_def)
  with lru_inv_distinct [OF inv] Some show ?thesis by simp
qed

lemma lru_others:
  assumes inv: "lru_linked c" and "map_of (items c) key = Some e"
  shows "map (entryOf c) (filter (\<lambda>x. x \<noteq> e) (evictList c)) = filter (\<lambda>(k, v). k \<noteq> key) (lru_abs c)"
proof -
  have "x \<noteq> e \<longleftrightarrow> fst (entryOf c x) \<noteq> key" if "x \<in> set (evictList c)" for x
    using assms(2) that lru_invD(2) [OF inv, of key] by (metis option.inject)
  then have "filter (\<lambda>x. x \<noteq> e) (evictList c) = filter (\<lambda>x. fst (entryOf c x) \<noteq> key) (evictList c)"
    by (intro filter_cong) auto
  then show ?thesis by (simp add: lru_abs_def filter_map comp_def case_prod_beta)
qed

lemma lru_others_new:
  assumes inv: "lru_linked c" and "map_of (items c) key = None"
  shows "filter (\<lambda>(k, v). k \<noteq> key) (lru_abs c) = lru_abs c"
proof (rule filter_True)
  have "fst (entryOf c e) \<noteq> key" if "e \<in> set (evictList c)" for e
    using that assms(2) lru_invD(2) [OF inv, of key e] by auto
  then show "\<forall>x \<in> set (lru_abs c). case x of (k, v) \<Rightarrow> k \<noteq> key" by (auto simp: lru_abs_def case_prod_beta)
qed

lemma MoveToFront_set: "e \<in> set l \<Longrightarrow> set (MoveToFront e l) = set l"
  by (auto simp: MoveToFront_def)

lemma MoveToFront_distinct: "distinct l \<Longrightarrow> distinct (MoveToFront e l)"
  by (simp add: MoveToFront_def)

lemma length_MoveToFront: "distinct l \<Longrightarrow> e \<in> set l \<Longrightarrow> length (MoveToFront e l) = length l"
  using distinct_card [OF MoveToFront_distinct, of l e] by (simp add: MoveToFront_set distinct_card)

text \<open>Touching a cell that is in the list, and writing its value, keep the links.\<close>

lemma lru_touch:
  assumes inv: "lru_linked c" and e: "map_of (items c) key = Some e"
    and c': "c' = c\<lparr>cells := (cells c)(e \<mapsto> (key, v)), evictList := MoveToFront e (evictList c)\<rparr>"
  shows "lru_linked c'" and "lru_abs c' = (key, v) # filter (\<lambda>(k, v). k \<noteq> key) (lru_abs c)"
proof -
  from e have mem: "e \<in> set (evictList c)" and k: "fst (entryOf c e) = key" by (simp_all add: lru_invD(2) [OF inv])
  have keys: "fst (entryOf c' x) = fst (entryOf c x)" for x using k by (simp add: c' entryOf_def)
  show "lru_linked c'"
    unfolding lru_linked_def keys
    using inv [unfolded lru_linked_def] by (simp add: c' MoveToFront_set [OF mem] MoveToFront_distinct)
  have "map (entryOf c') (filter (\<lambda>x. x \<noteq> e) (evictList c)) = map (entryOf c) (filter (\<lambda>x. x \<noteq> e) (evictList c))"
    by (intro map_cong) (simp_all add: c' entryOf_def)
  moreover have "lru_abs c' = entryOf c' e # map (entryOf c') (filter (\<lambda>x. x \<noteq> e) (evictList c))"
    by (simp add: lru_abs_def c' MoveToFront_def)
  moreover have "entryOf c' e = (key, v)" by (simp add: c' entryOf_def)
  ultimately show "lru_abs c' = (key, v) # filter (\<lambda>(k, v). k \<noteq> key) (lru_abs c)"
    using lru_others [OF inv e] by simp
qed

lemma lru_push:
  assumes inv: "lru_linked c" and new: "map_of (items c) key = None"
    and c': "c' = c\<lparr>cells := (cells c)(nextCell c \<mapsto> (key, v)), evictList := nextCell c # evictList c,
               items := AList.update key (nextCell c) (items c), nextCell := Suc (nextCell c)\<rparr>"
  shows "lru_linked c'" and "lru_abs c' = (key, v) # lru_abs c"
proof -
  have fresh: "nextCell c \<notin> set (evictList c)" using lru_invD(3) [OF inv] by blast
  have entry: "entryOf c' x = (if x = nextCell c then (key, v) else entryOf c x)" for x by (simp add: c' entryOf_def)
  have nokey: "fst (entryOf c x) \<noteq> key" if "x \<in> set (evictList c)" for x
    using that new lru_invD(2) [OF inv, of key x] by auto
  show "lru_linked c'"
    unfolding lru_linked_def entry
  proof (intro conjI allI ballI)
    show "distinct (evictList c')" using fresh lru_invD(1) [OF inv] by (simp add: c')
    show "e \<in> set (evictList c') \<Longrightarrow> e < nextCell c'" for e
      using lru_invD(3) [OF inv, of e] by (auto simp: c')
    show "map_of (items c') k = Some e \<longleftrightarrow> e \<in> set (evictList c') \<and> fst (if e = nextCell c then (key, v) else entryOf c e) = k" for k e
      using fresh nokey lru_invD(2) [OF inv, of k e] by (auto simp: c' update_conv')
  qed
  show "lru_abs c' = (key, v) # lru_abs c"
    using fresh by (auto simp: lru_abs_def entry) (simp_all add: c' entryOf_def)
qed

lemma lruEvict_linked:
  assumes inv: "lru_linked c" and ne: "evictList c \<noteq> []"
    and c': "c' = c\<lparr>evictList := butlast (evictList c), items := AList.delete (fst (entryOf c (last (evictList c)))) (items c)\<rparr>"
  shows "lru_linked c'" and "lru_abs c' = butlast (lru_abs c)"
proof -
  let ?e = "last (evictList c)"
  from ne have split: "evictList c = butlast (evictList c) @ [?e]" by simp
  have last: "?e \<in> set (evictList c)" "?e \<notin> set (butlast (evictList c))"
    using lru_invD(1) [OF inv] ne by (auto, metis append_butlast_last_id distinct_butlast not_distinct_conv_prefix)
  have mem: "x \<in> set (evictList c) \<longleftrightarrow> x \<in> set (butlast (evictList c)) \<or> x = ?e" for x
    using arg_cong [OF split, of set] by auto
  have entry: "entryOf c' = entryOf c" by (simp add: c' entryOf_def fun_eq_iff)
  show "lru_linked c'"
    unfolding lru_linked_def entry
  proof (intro conjI allI ballI)
    show "distinct (evictList c')" using lru_invD(1) [OF inv] by (simp add: c' distinct_butlast)
    show "e \<in> set (evictList c') \<Longrightarrow> e < nextCell c'" for e
      using lru_invD(3) [OF inv, of e] by (simp add: c' in_set_butlastD)
    show "map_of (items c') k = Some e \<longleftrightarrow> e \<in> set (evictList c') \<and> fst (entryOf c e) = k" for k e
    proof (cases "k = fst (entryOf c ?e)")
      case True
      then have "e \<in> set (butlast (evictList c)) \<Longrightarrow> fst (entryOf c e) \<noteq> k"
        using last mem [of e] lru_invD(2) [OF inv, of k] by (metis option.inject)
      with True show ?thesis by (auto simp: c' delete_conv')
    next
      case False
      with lru_invD(2) [OF inv, of k e] mem [of e] show ?thesis by (auto simp: c' delete_conv')
    qed
  qed
  show "lru_abs c' = butlast (lru_abs c)"
    unfolding lru_abs_def entry by (simp add: c' map_butlast)
qed

lemma lruEvict_spec:
  assumes inv: "lru_linked c" and len: "int (length (evictList c)) \<le> cap c + 1" and n: "0 \<le> cap c"
  shows "lru_inv (lruEvict c)" and "lru_abs (lruEvict c) = take (nat (cap c)) (lru_abs c)" and "cap (lruEvict c) = cap c"
proof -
  have L: "length (lru_abs c) = length (evictList c)" by (simp add: lru_abs_def)
  have "lru_inv (lruEvict c) \<and> lru_abs (lruEvict c) = take (nat (cap c)) (lru_abs c) \<and> cap (lruEvict c) = cap c"
  proof (cases "int (length (evictList c)) > cap c")
    case False
    with inv L show ?thesis by (simp add: lruEvict_def lru_inv_def)
  next
    case True
    with len have eq: "int (length (evictList c)) = cap c + 1" by simp
    with n have ne: "evictList c \<noteq> []" by auto
    let ?c = "c\<lparr>evictList := butlast (evictList c), items := AList.delete (fst (entryOf c (last (evictList c)))) (items c)\<rparr>"
    have E: "lruEvict c = ?c" using True by (simp add: lruEvict_def Let_def)
    have "length (lru_abs c) - 1 = nat (cap c)" using eq L by linarith
    then have bt: "butlast (lru_abs c) = take (nat (cap c)) (lru_abs c)"
      by (simp add: butlast_conv_take)
    have "int (length (evictList c) - 1) \<le> cap c" using eq n by linarith
    with lruEvict_linked [OF inv ne refl] eq E bt show ?thesis by (simp add: lru_inv_def)
  qed
  then show "lru_inv (lruEvict c)" and "lru_abs (lruEvict c) = take (nat (cap c)) (lru_abs c)" and "cap (lruEvict c) = cap c"
    by auto
qed

lemma lruAdd_inv_abs:
  assumes inv: "lru_inv c" and n: "0 \<le> cap c"
  shows "lru_inv (lruAdd c key v) \<and> lru_abs (lruAdd c key v) = absAdd (cap c) (lru_abs c) key v \<and> cap (lruAdd c key v) = cap c"
proof (cases "map_of (items c) key")
  case None
  let ?c = "c\<lparr>cells := (cells c)(nextCell c \<mapsto> (key, v)), evictList := nextCell c # evictList c,
               items := AList.update key (nextCell c) (items c), nextCell := Suc (nextCell c)\<rparr>"
  from inv have l: "lru_linked c" "int (length (evictList c)) \<le> cap c" by (simp_all add: lru_inv_def)
  from None have A: "lruAdd c key v = lruEvict ?c" by (simp add: lruAdd_def Let_def)
  show ?thesis
    unfolding A absAdd_def lru_others_new [OF l(1) None]
    using lruEvict_spec [OF lru_push(1) [OF l(1) None refl, of v]] lru_push(2) [OF l(1) None refl, of v] l n by simp
next
  case (Some e)
  let ?c = "c\<lparr>cells := (cells c)(e \<mapsto> (key, v)), evictList := MoveToFront e (evictList c)\<rparr>"
  from inv have l: "lru_linked c" "int (length (evictList c)) \<le> cap c" by (simp_all add: lru_inv_def)
  from Some have e: "e \<in> set (evictList c)" "fst (entryOf c e) = key" by (simp_all add: lru_invD(2) [OF l(1)])
  have A: "lruAdd c key v = lruEvict ?c" using Some e by (simp add: lruAdd_def)
  show ?thesis
    unfolding A absAdd_def
    using lruEvict_spec [OF lru_touch(1) [OF l(1) Some refl, of v]] lru_touch(2) [OF l(1) Some refl, of v] l n
    by (simp add: length_MoveToFront [OF lru_invD(1) [OF l(1)] e(1)])
qed

lemma lruGet_inv_abs:
  assumes inv: "lru_inv c"
  shows "lru_inv (snd (lruGet c key)) \<and> fst (lruGet c key) = fst (absGet (lru_abs c) key) \<and>
    lru_abs (snd (lruGet c key)) = snd (absGet (lru_abs c) key) \<and> cap (snd (lruGet c key)) = cap c"
proof (cases "map_of (items c) key")
  case None
  with inv lru_map_of [of c key] show ?thesis by (simp add: lruGet_def absGet_def lru_inv_def)
next
  case (Some e)
  from inv have l: "lru_linked c" "int (length (evictList c)) \<le> cap c" by (simp_all add: lru_inv_def)
  from Some have e: "e \<in> set (evictList c)" "fst (entryOf c e) = key" by (simp_all add: lru_invD(2) [OF l(1)])
  let ?c = "c\<lparr>evictList := MoveToFront e (evictList c)\<rparr>"
  have entry: "entryOf ?c = entryOf c" by (simp add: entryOf_def fun_eq_iff)
  have "lru_inv ?c"
    unfolding lru_inv_def lru_linked_def entry using l(1) [unfolded lru_linked_def] l(2)
    by (simp add: MoveToFront_set [OF e(1)] MoveToFront_distinct length_MoveToFront [OF lru_invD(1) [OF l(1)] e(1)])
  moreover have "lru_abs ?c = (key, snd (entryOf c e)) # filter (\<lambda>(k, v). k \<noteq> key) (lru_abs c)"
    using lru_others [OF l(1) Some] e(2) unfolding lru_abs_def entry by (simp add: MoveToFront_def prod_eq_iff)
  ultimately show ?thesis
    using Some lru_map_of [OF l(1), of key] by (simp add: lruGet_def absGet_def)
qed

lemma lruContains_abs: "lru_inv c \<Longrightarrow> lruContains c key \<longleftrightarrow> key \<in> fst ` set (lru_abs c)"
  using lru_map_of [of c key] map_of_eq_None_iff [of "lru_abs c" key]
  by (cases "map_of (items c) key") (auto simp only: lruContains_def lru_inv_def option.map option.distinct simp_thms)

lemma lruLen_abs: "lru_inv c \<Longrightarrow> lruLen c = length (lru_abs c) \<and> int (lruLen c) \<le> cap c"
  by (simp add: lruLen_def lru_abs_def lru_inv_def)

section \<open>The operations refine the list of recently used pairs\<close>

datatype ('k, 'v) lru_op = LAdd 'k 'v | LGet 'k

fun lruRun :: "('k, 'v) lru_cache \<Rightarrow> ('k, 'v) lru_op list \<Rightarrow> 'v option list \<times> ('k, 'v) lru_cache" where
  "lruRun c [] = ([], c)"
| "lruRun c (LAdd k v # ops) = lruRun (lruAdd c k v) ops"
| "lruRun c (LGet k # ops) = (case lruGet c k of (r, c1) \<Rightarrow> (case lruRun c1 ops of (rs, c2) \<Rightarrow> (r # rs, c2)))"

fun absRun :: "int \<Rightarrow> ('k \<times> 'v) list \<Rightarrow> ('k, 'v) lru_op list \<Rightarrow> 'v option list \<times> ('k \<times> 'v) list" where
  "absRun n L [] = ([], L)"
| "absRun n L (LAdd k v # ops) = absRun n (absAdd n L k v) ops"
| "absRun n L (LGet k # ops) = (case absGet L k of (r, L1) \<Rightarrow> (case absRun n L1 ops of (rs, L2) \<Rightarrow> (r # rs, L2)))"

lemma lruRun_refines:
  "lru_inv c \<Longrightarrow> 0 \<le> cap c \<Longrightarrow> lruRun c ops = (rs, c') \<Longrightarrow>
   absRun (cap c) (lru_abs c) ops = (rs, lru_abs c') \<and> lru_inv c' \<and> cap c' = cap c"
proof (induction c ops arbitrary: rs rule: lruRun.induct)
  case (1 c)
  then show ?case by simp
next
  case (2 c k v ops)
  from lruAdd_inv_abs [OF 2(2,3), of k v] 2 show ?case by simp
next
  case (3 c k ops)
  obtain r c1 where g: "lruGet c k = (r, c1)" by fastforce
  obtain rs1 c2 where r: "lruRun c1 ops = (rs1, c2)" by fastforce
  from lruGet_inv_abs [OF 3(2), of k] g have s: "lru_inv c1" "r = fst (absGet (lru_abs c) k)"
    "lru_abs c1 = snd (absGet (lru_abs c) k)" "cap c1 = cap c" by auto
  from 3 g r have "rs = r # rs1" "c' = c2" by simp_all
  with 3(1) [OF g [symmetric] s(1), of rs1] 3(3) r s show ?case
    by (cases "absGet (lru_abs c) k") simp
qed

text \<open>C19: every sequence of operations on the linked-list cache returns the same values as on the
  list of the most recently used pairs, ends in the state that abstracts to the same list, keeps the
  map and the list consistent, and never holds more entries than the capacity.\<close>

theorem lru_refinement:
  assumes "0 \<le> n" and "lruRun (NewLRUCache n) ops = (rs, c)"
  shows "absRun n [] ops = (rs, lru_abs c) \<and> lru_inv c \<and> int (lruLen c) \<le> n"
  using lruRun_refines [OF lru_inv_New(1) [OF assms(1)] _ assms(2)] assms(1) lruLen_abs [of c]
  by (simp_all add: lru_inv_New) (simp_all add: NewLRUCache_def)

lemma lru_refinement_witness:
  "absRun 2 [] [LAdd (1::int) ''a'', LAdd 2 ''b'', LGet 1, LAdd 3 ''c'', LGet 2] =
     ([Some ''a'', None], lru_abs (snd (lruRun (NewLRUCache 2) [LAdd (1::int) ''a'', LAdd 2 ''b'', LGet 1, LAdd 3 ''c'', LGet 2])))"
  using lru_refinement [of 2 "[LAdd (1::int) ''a'', LAdd 2 ''b'', LGet 1, LAdd 3 ''c'', LGet 2]"
    "fst (lruRun (NewLRUCache 2) [LAdd (1::int) ''a'', LAdd 2 ''b'', LGet 1, LAdd 3 ''c'', LGet 2])"
    "snd (lruRun (NewLRUCache 2) [LAdd (1::int) ''a'', LAdd 2 ''b'', LGet 1, LAdd 3 ''c'', LGet 2])"]
  by (simp add: absAdd_def absGet_def)

section \<open>Interface and client: the rate limiter\<close>

locale bounded_cache =
  fixes inv :: "'c \<Rightarrow> bool" and content :: "'c \<Rightarrow> ('k \<times> 'v) list" and size_of :: "'c \<Rightarrow> int"
    and add :: "'c \<Rightarrow> 'k \<Rightarrow> 'v \<Rightarrow> 'c" and get :: "'c \<Rightarrow> 'k \<Rightarrow> 'v option \<times> 'c" and member :: "'c \<Rightarrow> 'k \<Rightarrow> bool"
  assumes add_inv: "inv c \<Longrightarrow> inv (add c k v) \<and> size_of (add c k v) = size_of c"
    and get_inv: "inv c \<Longrightarrow> inv (snd (get c k)) \<and> size_of (snd (get c k)) = size_of c"
    and add_content: "inv c \<Longrightarrow> content (add c k v) = absAdd (size_of c) (content c) k v"
    and get_value: "inv c \<Longrightarrow> fst (get c k) = map_of (content c) k"
    and get_content: "inv c \<Longrightarrow> set (content (snd (get c k))) = set (content c)"
    and member_content: "inv c \<Longrightarrow> member c k \<longleftrightarrow> k \<in> fst ` set (content c)"
    and bounded: "inv c \<Longrightarrow> int (length (content c)) \<le> size_of c"
begin

lemma member_get: "inv c \<Longrightarrow> member c k \<Longrightarrow> \<exists>v. fst (get c k) = Some v"
  by (simp add: get_value member_content) (metis map_of_eq_None_iff not_None_eq)

lemma add_member: "inv c \<Longrightarrow> 0 < size_of c \<Longrightarrow> member (add c k v) k"
  using add_inv [of c k v] by (cases "nat (size_of c)") (auto simp: member_content add_content absAdd_def)

end

interpretation lru: bounded_cache "\<lambda>c. lru_inv c \<and> 0 \<le> cap c" lru_abs cap lruAdd lruGet lruContains
proof
  fix c :: "('a, 'b) lru_cache" and k v
  assume "lru_inv c \<and> 0 \<le> cap c"
  then have inv: "lru_inv c" and n: "0 \<le> cap c" by auto
  note linked = inv [unfolded lru_inv_def, THEN conjunct1]
  show "(lru_inv (lruAdd c k v) \<and> 0 \<le> cap (lruAdd c k v)) \<and> cap (lruAdd c k v) = cap c"
    and "lru_abs (lruAdd c k v) = absAdd (cap c) (lru_abs c) k v"
    using lruAdd_inv_abs [OF inv n, of k v] n by auto
  show "(lru_inv (snd (lruGet c k)) \<and> 0 \<le> cap (snd (lruGet c k))) \<and> cap (snd (lruGet c k)) = cap c"
    and "fst (lruGet c k) = map_of (lru_abs c) k"
    using lruGet_inv_abs [OF inv, of k] n by (auto simp: absGet_def split: option.splits)
  show "set (lru_abs (snd (lruGet c k))) = set (lru_abs c)"
    using lruGet_inv_abs [OF inv, of k] lru_inv_distinct [OF linked]
    by (auto simp: absGet_def dest: map_of_SomeD eq_key_imp_eq_value split: option.splits)
  show "lruContains c k \<longleftrightarrow> k \<in> fst ` set (lru_abs c)" by (rule lruContains_abs [OF inv])
  show "int (length (lru_abs c)) \<le> cap c" using lruLen_abs [OF inv] by (simp add: lruLen_def lru_abs_def)
qed

text \<open>
  \<open>UserRateLimiter\<close>. The token bucket is a library; \<open>newBucket\<close> is
  \<open>ratelimit.NewBucketWithQuantum(time.Second, 100, 20)\<close> and \<open>takeAvailable\<close> its \<open>TakeAvailable(1)\<close>:
  the number of tokens taken and the bucket afterwards (buckets are shared by reference, so the
  cached one changes). The result says whether the request is aborted.
\<close>

definition rateLimitCap :: int where "rateLimitCap = 200"

definition updateBucket :: "('k, 'b) lru_cache \<Rightarrow> 'k \<Rightarrow> 'b \<Rightarrow> ('k, 'b) lru_cache" where
  "updateBucket c key b = (case map_of (items c) key of
     None \<Rightarrow> c | Some ent \<Rightarrow> c\<lparr>cells := (cells c)(ent \<mapsto> (fst (entryOf c ent), b))\<rparr>)"

definition UserRateLimiter :: "'b \<Rightarrow> ('b \<Rightarrow> int \<times> 'b) \<Rightarrow> (string, 'b) lru_cache \<Rightarrow> string \<Rightarrow> bool \<times> (string, 'b) lru_cache" where
  "UserRateLimiter newBucket takeAvailable cache clientIP =
     (if \<not> lruContains cache clientIP then (False, lruAdd cache clientIP newBucket)
      else (case lruGet cache clientIP of
          (None, cache1) \<Rightarrow> (False, cache1)
        | (Some bucket, cache1) \<Rightarrow> (case takeAvailable bucket of
            (taken, bucket') \<Rightarrow> (taken = 0, updateBucket cache1 clientIP bucket'))))"

lemma updateBucket_inv:
  assumes inv: "lru_inv c"
  shows "lru_inv (updateBucket c k b) \<and> cap (updateBucket c k b) = cap c \<and> fst ` set (lru_abs (updateBucket c k b)) = fst ` set (lru_abs c)"
proof (cases "map_of (items c) k")
  case None
  with inv show ?thesis by (simp add: updateBucket_def)
next
  case (Some e)
  let ?c = "c\<lparr>cells := (cells c)(e \<mapsto> (fst (entryOf c e), b))\<rparr>"
  have key: "fst (entryOf ?c x) = fst (entryOf c x)" for x by (simp add: entryOf_def)
  have "lru_inv ?c" using inv unfolding lru_inv_def lru_linked_def key by simp
  moreover have "fst ` set (lru_abs ?c) = fst ` set (lru_abs c)"
    unfolding lru_abs_def set_map image_image key by simp
  ultimately show ?thesis using Some by (simp add: updateBucket_def)
qed

text \<open>the rate limiter never tracks more than 200 addresses, the address of a request is tracked
  afterwards, a request from an address that is not tracked passes, and a request is aborted exactly
  when its address is tracked and its bucket has no token left.\<close>

theorem UserRateLimiter_spec:
  assumes inv: "lru_inv cache" and n: "cap cache = rateLimitCap"
    and step: "UserRateLimiter newBucket takeAvailable cache ip = (aborted, cache')"
  shows "lru_inv cache' \<and> cap cache' = rateLimitCap \<and> lruLen cache' \<le> 200 \<and> lruContains cache' ip \<and>
    (aborted \<longleftrightarrow> (\<exists>bucket. map_of (lru_abs cache) ip = Some bucket \<and> fst (takeAvailable bucket) = 0))"
proof (cases "lruContains cache ip")
  case False
  from inv n have I: "lru_inv cache \<and> 0 \<le> cap cache" by (simp add: rateLimitCap_def)
  from False step have c': "cache' = lruAdd cache ip newBucket" "\<not> aborted" by (auto simp: UserRateLimiter_def)
  with lru.add_inv [OF I, of ip newBucket] lru.add_member [OF I, of ip newBucket] n
  have "lru_inv cache'" "cap cache' = rateLimitCap" "lruContains cache' ip" by (auto simp: rateLimitCap_def)
  moreover have "map_of (lru_abs cache) ip = None"
    using False lru.member_content [OF I, of ip] by (simp add: map_of_eq_None_iff)
  ultimately show ?thesis using c' lruLen_abs [of cache'] by (simp add: rateLimitCap_def)
next
  case True
  from inv n have I: "lru_inv cache \<and> 0 \<le> cap cache" by (simp add: rateLimitCap_def)
  from lru.member_get [OF I True] obtain b where b: "fst (lruGet cache ip) = Some b" by blast
  define c1 where "c1 = snd (lruGet cache ip)"
  with b have g: "lruGet cache ip = (Some b, c1)" by (simp add: prod_eq_iff)
  with step True have c': "cache' = updateBucket c1 ip (snd (takeAvailable b))" "aborted \<longleftrightarrow> fst (takeAvailable b) = 0"
    by (auto simp: UserRateLimiter_def split: prod.splits)
  have c1: "lru_inv c1" "cap c1 = cap cache" using lru.get_inv [OF I, of ip] by (simp_all add: c1_def)
  note u = updateBucket_inv [OF c1(1), of ip "snd (takeAvailable b)", folded c'(1)]
  have "lruContains cache' ip"
    using True u c1 lru.get_content [OF I, of ip] lruContains_abs [OF inv, of ip] lruContains_abs [of cache' ip]
    by (simp add: c1_def)
  moreover have "map_of (lru_abs cache) ip = Some b" using lru.get_value [OF I, of ip] b by simp
  ultimately show ?thesis using u c1 n c'(2) lruLen_abs [of cache'] by (simp add: rateLimitCap_def)
qed

lemma UserRateLimiter_spec_witness:
  "let c = snd (UserRateLimiter (0::int) (\<lambda>b. (b, 0)) (NewLRUCache rateLimitCap) ''10.0.0.1'')
   in fst (UserRateLimiter 0 (\<lambda>b. (b, 0)) c ''10.0.0.1'') = True"
proof -
  let ?c0 = "NewLRUCache rateLimitCap :: (string, int) lru_cache"
  have i0: "lru_inv ?c0" "cap ?c0 = rateLimitCap" using lru_inv_New(1) [of rateLimitCap] by (simp_all add: rateLimitCap_def NewLRUCache_def)
  note first = UserRateLimiter_spec [OF i0 surjective_pairing, of "0::int" "\<lambda>b. (b, 0)" "''10.0.0.1''"]
  let ?c = "snd (UserRateLimiter (0::int) (\<lambda>b. (b, 0)) ?c0 ''10.0.0.1'')"
  have "lru_abs ?c = [(''10.0.0.1'', 0)]"
    by (simp add: UserRateLimiter_def NewLRUCache_def lruContains_def lruAdd_def lruEvict_def rateLimitCap_def lru_abs_def entryOf_def Let_def)
  with UserRateLimiter_spec [OF _ _ surjective_pairing, of ?c "0::int" "\<lambda>b. (b, 0)" "''10.0.0.1''"] first
  show ?thesis by (simp add: Let_def)
qed

end
