(* ===== verification/Errors.thy ===== *)
theory Errors
  imports Prelude
begin

text \<open>
  The error values: the sentinels of \<open>pkg/util/errors/errors.go\<close>, the coded errors of
  \<open>api/server/errors/errors.go\<close>, and the tests the callers make on an error
  (\<open>IsRecordNotFound\<close>, \<open>IsNotUpdated\<close>, \<open>IsUniqueConstraintError\<close>).
\<close>

text \<open>The package variables of \<open>pkg/util/errors\<close>, each a distinct \<open>errors.New\<close> value.\<close>

datatype util_error =
    ErrRecordNotFound | ErrRecordNotUpdate | ErrBusySystem | ErrReqParams | ErrCloudNotRegister
  | UErrUserNotFound | UErrNotAcceptable | UErrClusterNotFound | ErrPermissionNotFound
  | ErrUserPassword | ErrInternal | UErrTenantNotFound | UErrDuplicatedPassword | UErrAuditNotFound
  | UErrAgentNotFound | UErrRunnerNotFound | UErrNodeNotFound | UErrNodeNameExists | UErrNodeIPExists
  | DistributionExistError | UErrDistributionNotFound | ErrContainerNotFound
  | ParamsError | OperateFailed | NoPermission | InnerError | NoUserIdError | UserExistError
  | RoleExistError | RoleNotExistError | APIExistError | APINotExistError | TenantExistError
  | UErrAuditExists | UErrRootAlreadyExists | UErrPlanNotFound | UErrConflict

text \<open>
  A Go \<open>error\<close>: a sentinel; a MySQL server error with its number; any other failure of the
  driver or the connection; a coded API error \<open>Error{Code, Err}\<close>; \<open>fmt.Errorf\<close> without and
  with a wrapped error (the string names the message).
\<close>

datatype goerr =
    Util util_error
  | MySQLError nat
  | DriverErr
  | Api int goerr
  | Errorf string
  | Wrapf string goerr

definition NewError :: "goerr \<Rightarrow> int \<Rightarrow> goerr" where
  "NewError err code = Api code err"

definition StatusBadRequest :: int where "StatusBadRequest = 400"
definition StatusUnauthorized :: int where "StatusUnauthorized = 401"
definition StatusForbidden :: int where "StatusForbidden = 403"
definition StatusNotFound :: int where "StatusNotFound = 404"
definition StatusNotAcceptable :: int where "StatusNotAcceptable = 406"
definition StatusConflict :: int where "StatusConflict = 409"
definition StatusInternalServerError :: int where "StatusInternalServerError = 500"

definition ErrUnauthorized :: goerr where "ErrUnauthorized = Api StatusUnauthorized (Util NoUserIdError)"
definition ErrForbidden :: goerr where "ErrForbidden = Api StatusForbidden (Util NoPermission)"
definition ErrInvalidRequest :: goerr where "ErrInvalidRequest = Api StatusBadRequest (Util ErrReqParams)"
definition ErrServerInternal :: goerr where "ErrServerInternal = Api StatusInternalServerError (Util ErrInternal)"
definition ErrUserNotFound :: goerr where "ErrUserNotFound = Api StatusNotFound (Util UErrUserNotFound)"
definition ErrNotAcceptable :: goerr where "ErrNotAcceptable = Api StatusNotAcceptable (Util UErrNotAcceptable)"
definition ErrUserExists :: goerr where "ErrUserExists = Api StatusConflict (Util UserExistError)"
definition ErrInvalidPassword :: goerr where "ErrInvalidPassword = Api StatusUnauthorized (Util ErrUserPassword)"
definition ErrDuplicatedPassword :: goerr where "ErrDuplicatedPassword = Api StatusConflict (Util UErrDuplicatedPassword)"
definition ErrTenantNotFound :: goerr where "ErrTenantNotFound = Api StatusNotFound (Util UErrTenantNotFound)"
definition ErrRoleExists :: goerr where "ErrRoleExists = Api StatusConflict (Util RoleExistError)"
definition ErrRoleNotFound :: goerr where "ErrRoleNotFound = Api StatusNotFound (Util RoleNotExistError)"
definition ErrAPINotFound :: goerr where "ErrAPINotFound = Api StatusNotFound (Util APINotExistError)"
definition ErrRootAlreadyExists :: goerr where "ErrRootAlreadyExists = Api StatusConflict (Util UErrRootAlreadyExists)"
definition ErrTenantExists :: goerr where "ErrTenantExists = Api StatusConflict (Util TenantExistError)"
definition ErrAPIExists :: goerr where "ErrAPIExists = Api StatusConflict (Util APIExistError)"
definition ErrPlanNotFound :: goerr where "ErrPlanNotFound = Api StatusNotFound (Util UErrPlanNotFound)"
definition ErrClusterNotFound :: goerr where "ErrClusterNotFound = Api StatusNotFound (Util UErrClusterNotFound)"
definition ErrAuditNotFound :: goerr where "ErrAuditNotFound = Api StatusNotFound (Util UErrAuditNotFound)"
definition ErrAuditExists :: goerr where "ErrAuditExists = Api StatusConflict (Util UErrAuditExists)"
definition ErrAgentNotFound :: goerr where "ErrAgentNotFound = Api StatusNotFound (Util UErrAgentNotFound)"
definition ErrRunnerNotFound :: goerr where "ErrRunnerNotFound = Api StatusNotFound (Util UErrRunnerNotFound)"
definition ErrNodeNotFound :: goerr where "ErrNodeNotFound = Api StatusNotFound (Util UErrNodeNotFound)"
definition ErrNodeNameExists :: goerr where "ErrNodeNameExists = Api StatusConflict (Util UErrNodeNameExists)"
definition ErrNodeIPExists :: goerr where "ErrNodeIPExists = Api StatusConflict (Util UErrNodeIPExists)"
definition ErrDistributionExists :: goerr where "ErrDistributionExists = Api StatusConflict (Util DistributionExistError)"
definition ErrDistributionNotFound :: goerr where "ErrDistributionNotFound = Api StatusNotFound (Util UErrDistributionNotFound)"
definition ErrConflict :: goerr where "ErrConflict = Api StatusConflict (Util UErrConflict)"

lemmas http_codes = StatusBadRequest_def StatusUnauthorized_def StatusForbidden_def
  StatusNotFound_def StatusNotAcceptable_def StatusConflict_def StatusInternalServerError_def

lemmas api_errors = ErrUnauthorized_def ErrForbidden_def ErrInvalidRequest_def ErrServerInternal_def
  ErrUserNotFound_def ErrNotAcceptable_def ErrUserExists_def ErrInvalidPassword_def
  ErrDuplicatedPassword_def ErrTenantNotFound_def ErrRoleExists_def ErrRoleNotFound_def
  ErrAPINotFound_def ErrRootAlreadyExists_def ErrTenantExists_def ErrAPIExists_def ErrPlanNotFound_def ErrConflict_def NewError_def
  http_codes

text \<open>A nil pointer dereference panics: the model ends the operation with this error.\<close>

definition nilPanic :: goerr where "nilPanic = Errorf ''panic: nil pointer dereference''"

text \<open>\<open>errors.Is\<close> looks through \<open>%w\<close> wrapping; the API error has no \<open>Unwrap\<close>.\<close>

fun errorsIs :: "goerr \<Rightarrow> util_error \<Rightarrow> bool" where
  "errorsIs (Util u) v = (u = v)"
| "errorsIs (Wrapf m e) v = errorsIs e v"
| "errorsIs _ v = False"

definition IsRecordNotFound :: "goerr \<Rightarrow> bool" where
  "IsRecordNotFound err = errorsIs err ErrRecordNotFound"

definition IsNotUpdated :: "goerr \<Rightarrow> bool" where
  "IsNotUpdated err = errorsIs err ErrRecordNotUpdate"

text \<open>A type assertion on the error itself: a wrapped MySQL error is not recognised.\<close>

fun IsUniqueConstraintError :: "goerr \<Rightarrow> bool" where
  "IsUniqueConstraintError (MySQLError n) = (n = 1062)"
| "IsUniqueConstraintError _ = False"

text \<open>The failures of a database statement that do not come from the statement itself.\<close>

datatype driver_fault = ServerFault nat | ConnFault

fun faultErr :: "driver_fault \<Rightarrow> goerr" where
  "faultErr (ServerFault n) = MySQLError n"
| "faultErr ConnFault = DriverErr"

lemma faultErr_not_found [simp]: "\<not> IsRecordNotFound (faultErr f)" "\<not> IsNotUpdated (faultErr f)"
  by (cases f; simp add: IsRecordNotFound_def IsNotUpdated_def)+

lemma IsRecordNotFound_simps [simp]:
  "IsRecordNotFound (Util u) = (u = ErrRecordNotFound)"
  "\<not> IsRecordNotFound (MySQLError n)" "\<not> IsRecordNotFound DriverErr"
  by (simp_all add: IsRecordNotFound_def)

end
