(* ===== verification/GoStrings.thy ===== *)
theory GoStrings
  imports Prelude "HOL-Library.List_Lexorder" "HOL-Library.Char_ord"
begin

text \<open>A string literal given by its code points: the bytes of its UTF-8 encoding.\<close>

definition utf8Char :: "nat \<Rightarrow> string" where
  "utf8Char n =
     (if n < 0x80 then [char_of n]
      else if n < 0x800 then [char_of (0xC0 + n div 0x40), char_of (0x80 + n mod 0x40)]
      else if n < 0x10000 then [char_of (0xE0 + n div 0x1000), char_of (0x80 + n div 0x40 mod 0x40), char_of (0x80 + n mod 0x40)]
      else [char_of (0xF0 + n div 0x40000), char_of (0x80 + n div 0x1000 mod 0x40), char_of (0x80 + n div 0x40 mod 0x40), char_of (0x80 + n mod 0x40)])"

definition utf8 :: "nat list \<Rightarrow> string" where
  "utf8 ns = concat (map utf8Char ns)"

text \<open>
  The part of Go's \<open>strings\<close> and \<open>strconv\<close> packages the program uses, on strings as lists of
  bytes. White space and letter case are those of ASCII: the code points above it that
  \<open>unicode.IsSpace\<close> and \<open>unicode.ToLower\<close> also know are outside the model. \<open><\<close> on
  strings is the order of bytes, lexicographically (HOL-Library.List_Lexorder), as in Go.
  The lemmas give the round trip of decimal numbers and what trimming, splitting and joining keep.
\<close>

section \<open>strings\<close>

definition isSpace :: "char \<Rightarrow> bool" where
  "isSpace c \<longleftrightarrow> c \<in> {CHR 0x09, CHR 0x0A, CHR 0x0B, CHR 0x0C, CHR 0x0D, CHR '' ''}"

definition TrimSpace :: "string \<Rightarrow> string" where
  "TrimSpace s = rev (dropWhile isSpace (rev (dropWhile isSpace s)))"

text \<open>\<open>strings.Trim\<close>: leading and trailing bytes of the cut set.\<close>

definition Trim :: "string \<Rightarrow> string \<Rightarrow> string" where
  "Trim s cutset =
     rev (dropWhile (\<lambda>c. c \<in> set cutset) (rev (dropWhile (\<lambda>c. c \<in> set cutset) s)))"

fun fieldsFrom :: "string \<Rightarrow> string \<Rightarrow> string list" where
  "fieldsFrom cur [] = (if cur = [] then [] else [rev cur])"
| "fieldsFrom cur (c # cs) =
     (if isSpace c then (if cur = [] then fieldsFrom [] cs else rev cur # fieldsFrom [] cs)
      else fieldsFrom (c # cur) cs)"

definition Fields :: "string \<Rightarrow> string list" where
  "Fields s = fieldsFrom [] s"

fun Split :: "string \<Rightarrow> char \<Rightarrow> string list" where
  "Split [] sep = [[]]"
| "Split (c # cs) sep =
     (if c = sep then [] # Split cs sep
      else (case Split cs sep of [] \<Rightarrow> [[c]] | p # ps \<Rightarrow> (c # p) # ps))"

fun Join :: "string list \<Rightarrow> string \<Rightarrow> string" where
  "Join [] sep = []"
| "Join [x] sep = x"
| "Join (x # y # ys) sep = x @ sep @ Join (y # ys) sep"

definition HasPrefix :: "string \<Rightarrow> string \<Rightarrow> bool" where
  "HasPrefix s p \<longleftrightarrow> take (length p) s = p"

definition TrimPrefix :: "string \<Rightarrow> string \<Rightarrow> string" where
  "TrimPrefix s p = (if HasPrefix s p then drop (length p) s else s)"

fun Contains :: "string \<Rightarrow> string \<Rightarrow> bool" where
  "Contains [] sub = (sub = [])"
| "Contains (c # cs) sub = (HasPrefix (c # cs) sub \<or> Contains cs sub)"

text \<open>\<open>strings.ReplaceAll\<close> for a pattern and a replacement of one byte.\<close>

definition ReplaceAllChar :: "string \<Rightarrow> char \<Rightarrow> char \<Rightarrow> string" where
  "ReplaceAllChar s old new = map (\<lambda>c. if c = old then new else c) s"

definition toLowerChar :: "char \<Rightarrow> char" where
  "toLowerChar c = (let n = of_char c :: nat in if 65 \<le> n \<and> n \<le> 90 then char_of (n + 32) else c)"

definition ToLower :: "string \<Rightarrow> string" where
  "ToLower s = map toLowerChar s"

section \<open>strconv\<close>

definition digitChar :: "nat \<Rightarrow> char" where
  "digitChar d = char_of (48 + d)"

definition charDigit :: "char \<Rightarrow> nat option" where
  "charDigit c = (let n = of_char c :: nat in if 48 \<le> n \<and> n \<le> 57 then Some (n - 48) else None)"

fun formatNat :: "nat \<Rightarrow> string" where
  "formatNat n = (if n < 10 then [digitChar n] else formatNat (n div 10) @ [digitChar (n mod 10)])"

declare formatNat.simps [simp del]

definition FormatInt :: "int \<Rightarrow> string" where
  "FormatInt i = (if i < 0 then CHR ''-'' # formatNat (nat (- i)) else formatNat (nat i))"

fun parseDigits :: "nat \<Rightarrow> string \<Rightarrow> nat option" where
  "parseDigits acc [] = Some acc"
| "parseDigits acc (c # cs) =
     (case charDigit c of None \<Rightarrow> None | Some d \<Rightarrow> parseDigits (10 * acc + d) cs)"

definition maxInt64 :: int where "maxInt64 = 2 ^ 63 - 1"
definition minInt64 :: int where "minInt64 = - (2 ^ 63)"

definition int64 :: "int \<Rightarrow> bool" where
  "int64 i \<longleftrightarrow> minInt64 \<le> i \<and> i \<le> maxInt64"

text \<open>\<open>strconv.ParseInt(s, 10, 64)\<close> and \<open>strconv.Atoi\<close>: an optional sign, at least one
  digit, digits only, and a value that fits; anything else is an error (\<open>None\<close>).\<close>

definition ParseInt :: "string \<Rightarrow> int option" where
  "ParseInt s =
     (let neg = HasPrefix s ''-'';
          ds = (if neg \<or> HasPrefix s ''+'' then drop 1 s else s)
      in if ds = [] then None
         else case parseDigits 0 ds of
             None \<Rightarrow> None
           | Some n \<Rightarrow> (let v = (if neg then - int n else int n)
                       in if int64 v then Some v else None))"

text \<open>64-bit two's complement wrap-around of Go's \<open>int\<close> and \<open>int64\<close> arithmetic.\<close>

definition wrap64 :: "int \<Rightarrow> int" where
  "wrap64 i = (i + 2 ^ 63) mod 2 ^ 64 - 2 ^ 63"

lemma wrap64_int64: "int64 (wrap64 i)"
  by (simp add: wrap64_def int64_def maxInt64_def minInt64_def)

lemma wrap64_id: "int64 i \<Longrightarrow> wrap64 i = i"
  by (simp add: wrap64_def int64_def maxInt64_def minInt64_def)

section \<open>Lemmas\<close>

lemma charDigit_digitChar [simp]: "d < 10 \<Longrightarrow> charDigit (digitChar d) = Some d"
  by (simp add: charDigit_def digitChar_def Let_def)

lemma parseDigits_append:
  "parseDigits acc (xs @ ys) = (case parseDigits acc xs of None \<Rightarrow> None | Some a \<Rightarrow> parseDigits a ys)"
  by (induction acc xs rule: parseDigits.induct) (auto split: option.splits)

lemma parseDigits_formatNat: "parseDigits 0 (formatNat n) = Some n"
proof (induction n rule: formatNat.induct)
  case (1 n)
  show ?case
  proof (cases "n < 10")
    case True
    then show ?thesis by (simp add: formatNat.simps [of n])
  next
    case False
    with 1 show ?thesis by (simp add: formatNat.simps [of n] parseDigits_append)
  qed
qed

lemma formatNat_nonempty [simp]: "formatNat n \<noteq> []"
  by (simp add: formatNat.simps [of n])

lemma parseDigits_all_digits: "parseDigits acc s = Some n \<Longrightarrow> c \<in> set s \<Longrightarrow> charDigit c \<noteq> None"
  by (induction acc s rule: parseDigits.induct) (auto split: option.splits)

lemma formatNat_digits: "c \<in> set (formatNat n) \<Longrightarrow> charDigit c \<noteq> None"
  using parseDigits_all_digits parseDigits_formatNat by blast

lemma formatNat_no_sign: "\<not> HasPrefix (formatNat n) ''-''" "\<not> HasPrefix (formatNat n) ''+''"
proof -
  obtain c cs where f: "formatNat n = c # cs"
    using formatNat_nonempty [of n] by (cases "formatNat n") blast+
  then have "charDigit c \<noteq> None"
    using formatNat_digits [of c n] by simp
  then have "c \<noteq> CHR ''-''" "c \<noteq> CHR ''+''"
    by (auto simp: charDigit_def)
  with f show "\<not> HasPrefix (formatNat n) ''-''" "\<not> HasPrefix (formatNat n) ''+''"
    by (auto simp: HasPrefix_def)
qed

lemma ParseInt_FormatInt: "int64 i \<Longrightarrow> ParseInt (FormatInt i) = Some i"
  by (auto simp: ParseInt_def FormatInt_def formatNat_no_sign parseDigits_formatNat Let_def)
     (simp_all add: HasPrefix_def parseDigits_formatNat)

lemma formatNat_inj: "formatNat m = formatNat n \<Longrightarrow> m = n"
  by (metis option.inject parseDigits_formatNat)

lemma FormatInt_inj: "FormatInt i = FormatInt j \<Longrightarrow> i = j"
proof -
  assume eq: "FormatInt i = FormatInt j"
  have minus: "formatNat m \<noteq> CHR ''-'' # xs" for m xs
    using formatNat_no_sign(1) [of m] by (auto simp: HasPrefix_def)
  from eq minus minus [symmetric] show "i = j"
    by (auto simp: FormatInt_def dest!: formatNat_inj split: if_splits)
qed

lemma FormatInt_chars: "c \<in> set (FormatInt i) \<Longrightarrow> c = CHR ''-'' \<or> charDigit c \<noteq> None"
  using formatNat_digits by (auto simp: FormatInt_def split: if_splits)

lemma FormatInt_nonempty [simp]: "FormatInt i \<noteq> []"
  by (simp add: FormatInt_def)

text \<open>Trimming: idempotent, and no space is left at either end.\<close>

lemma dropWhile_hd: "dropWhile P xs = y # ys \<Longrightarrow> \<not> P y"
  by (metis hd_dropWhile list.sel(1) list.simps(3))

lemma TrimSpace_hd: "TrimSpace s \<noteq> [] \<Longrightarrow> \<not> isSpace (hd (TrimSpace s))"
proof -
  let ?t = "dropWhile isSpace s"
  assume ne: "TrimSpace s \<noteq> []"
  obtain ws where ws: "?t = TrimSpace s @ ws"
    unfolding TrimSpace_def
    by (metis rev_append rev_rev_ident takeWhile_dropWhile_id)
  with ne have "hd (TrimSpace s) = hd ?t" and "?t \<noteq> []" by auto
  then show ?thesis by (simp add: hd_dropWhile)
qed

lemma TrimSpace_last: "TrimSpace s \<noteq> [] \<Longrightarrow> \<not> isSpace (last (TrimSpace s))"
  by (simp add: TrimSpace_def last_rev hd_dropWhile)

lemma TrimSpace_id:
  "s = [] \<or> (\<not> isSpace (hd s) \<and> \<not> isSpace (last s)) \<Longrightarrow> TrimSpace s = s"
proof -
  assume a: "s = [] \<or> (\<not> isSpace (hd s) \<and> \<not> isSpace (last s))"
  have d: "dropWhile isSpace xs = xs" if "xs = [] \<or> \<not> isSpace (hd xs)" for xs
    using that by (cases xs) auto
  from a have "dropWhile isSpace s = s" by (auto intro: d)
  moreover from a have "dropWhile isSpace (rev s) = rev s"
    by (auto intro!: d simp: hd_rev)
  ultimately show ?thesis by (simp add: TrimSpace_def)
qed

lemma TrimSpace_idem [simp]: "TrimSpace (TrimSpace s) = TrimSpace s"
  using TrimSpace_hd TrimSpace_last by (intro TrimSpace_id) blast

lemma TrimSpace_Nil [simp]: "TrimSpace [] = []"
  by (simp add: TrimSpace_def)

text \<open>Splitting and joining are inverse on pieces without the separator.\<close>

lemma Split_nonempty [simp]: "Split s sep \<noteq> []"
  by (cases s) (auto split: list.splits)

lemma Split_no_sep: "sep \<notin> set s \<Longrightarrow> Split s sep = [s]"
  by (induction s) auto

lemma Split_append_sep: "sep \<notin> set p \<Longrightarrow> Split (p @ sep # rest) sep = p # Split rest sep"
  by (induction p) auto

lemma Split_Join:
  "xs \<noteq> [] \<Longrightarrow> (\<And>x. x \<in> set xs \<Longrightarrow> sep \<notin> set x) \<Longrightarrow> Split (Join xs [sep]) sep = xs"
proof (induction xs "[sep]" rule: Join.induct)
  case 1
  then show ?case by simp
next
  case (2 x)
  then show ?case by (simp add: Split_no_sep)
next
  case (3 x y ys)
  then show ?case by (simp add: Split_append_sep)
qed

lemma fieldsFrom_nonspace:
  "\<forall>c \<in> set w. \<not> isSpace c \<Longrightarrow> fieldsFrom cur (w @ rest) = fieldsFrom (rev w @ cur) rest"
  by (induction w arbitrary: cur) auto

definition is_field :: "string \<Rightarrow> bool" where
  "is_field w \<longleftrightarrow> w \<noteq> [] \<and> (\<forall>c \<in> set w. \<not> isSpace c)"

lemma Fields_elem:
  "\<forall>c \<in> set cur. \<not> isSpace c \<Longrightarrow> w \<in> set (fieldsFrom cur s) \<Longrightarrow> is_field w"
proof (induction s arbitrary: cur)
  case Nil
  then show ?case by (cases "cur = []") (simp_all add: is_field_def)
next
  case (Cons c cs)
  show ?case
  proof (cases "isSpace c")
    case True
    have IH: "w \<in> set (fieldsFrom [] cs) \<Longrightarrow> is_field w" by (rule Cons.IH) simp_all
    from True Cons.prems IH show ?thesis
      by (cases "cur = []") (auto simp: is_field_def)
  next
    case False
    show ?thesis by (rule Cons.IH [of "c # cur"]) (use False Cons.prems in simp_all)
  qed
qed

lemma Fields_is_field: "w \<in> set (Fields s) \<Longrightarrow> is_field w"
  using Fields_elem [of "[]" w s] by (simp add: Fields_def)

lemma fieldsFrom_word_space:
  "is_field w \<Longrightarrow> fieldsFrom [] (w @ CHR '' '' # rest) = w # fieldsFrom [] rest"
  using fieldsFrom_nonspace [of w "[]" "CHR '' '' # rest"] by (simp add: is_field_def isSpace_def)

lemma Fields_Join: "\<forall>w \<in> set ws. is_field w \<Longrightarrow> Fields (Join ws '' '') = ws"
proof (induction ws "'' ''" rule: Join.induct)
  case 1
  then show ?case by (simp add: Fields_def)
next
  case (2 x)
  then show ?case
    using fieldsFrom_nonspace [of x "[]" "[]"] by (simp add: Fields_def is_field_def)
next
  case (3 x y ys)
  from 3(2) have "\<forall>w \<in> set (y # ys). is_field w" by simp
  then have "Fields (Join (y # ys) '' '') = y # ys" by (rule 3(1))
  with 3(2) show ?case
    by (simp add: Fields_def fieldsFrom_word_space)
qed

lemma HasPrefix_append [simp]: "HasPrefix (p @ s) p"
  by (simp add: HasPrefix_def)

lemma TrimPrefix_append [simp]: "TrimPrefix (p @ s) p = s"
  by (simp add: TrimPrefix_def)

end
