(* ===== verification/Store.thy ===== *)
theory Store
  imports Errors GoStrings
begin

text \<open>
  The database as the DAOs of \<open>pkg/db\<close> see it. gorm and MySQL are not part of the repository;
  the model takes from them the documented meaning of the statements the DAOs issue (the SQL
  conditions are in the source): INSERT with the auto-increment id, the declared column defaults
  and the unique indexes; SELECT in primary key order; UPDATE, whose \<open>RowsAffected\<close> counts the
  rows that really changed (the driver is opened without \<open>clientFoundRows\<close>); DELETE; and a
  transaction that is rolled back when its function returns an error. Every statement may fail:
  the world carries, as parameters no operation writes, the schedule \<open>fault\<close> of the failures
  and the \<open>clock\<close> that \<open>time.Now()\<close> reads (nanoseconds), both indexed by the number of
  interactions so far (\<open>tick\<close>). A theorem that does not mention them holds for every schedule.
\<close>

section \<open>World, rows, tables\<close>

record env =
  tick :: nat
  clock :: "nat \<Rightarrow> int"
  fault :: "nat \<Rightarrow> driver_fault option"

text \<open>\<open>pixiu.Model\<close>, embedded in every row.\<close>

record pixiu_model =
  Oid :: int
  GmtCreate :: int
  GmtModified :: int
  ResourceVersion :: int

definition GetSID :: "'m pixiu_model_scheme \<Rightarrow> string" where
  "GetSID m = FormatInt (Oid m)"

definition newModel :: pixiu_model where
  "newModel = \<lparr>Oid = 0, GmtCreate = 0, GmtModified = 0, ResourceVersion = 0\<rparr>"

text \<open>A table: its rows in primary key order and the next auto-increment id.\<close>

record 'r table =
  rows :: "'r list"
  next_id :: int

definition table_ok :: "'m pixiu_model_scheme table \<Rightarrow> bool" where
  "table_ok T \<longleftrightarrow> sorted (map Oid (rows T)) \<and> distinct (map Oid (rows T)) \<and> (\<forall>r \<in> set (rows T). Oid r < next_id T)"

text \<open>
  A table of the world: where it is, the pairs of rows its unique indexes forbid, and the
  defaults gorm puts in place of a zero value on insert (\<open>gorm:"default:..."\<close> tags).
\<close>

record ('w, 'r) tref =
  tget :: "'w \<Rightarrow> 'r table"
  tupd :: "('r table \<Rightarrow> 'r table) \<Rightarrow> 'w \<Rightarrow> 'w"
  tuniq :: "'r \<Rightarrow> 'r \<Rightarrow> bool"
  tdefaults :: "'r \<Rightarrow> 'r"

text \<open>\<open>updates map[string]interface{}\<close>: column name and assignment, in the order the code
  writes them (a later write to the same key wins).\<close>

type_synonym 'r updates = "(string \<times> ('r \<Rightarrow> 'r)) list"

definition applyUpdates :: "'r updates \<Rightarrow> 'r \<Rightarrow> 'r" where
  "applyUpdates us r = foldl (\<lambda>r (_, f). f r) r us"

section \<open>Clock and statements\<close>

definition timeNow :: "('m env_scheme, 'e, int) act" where
  "timeNow = (\<lambda>w. (Inr (clock w (tick w)), w\<lparr>tick := Suc (tick w)\<rparr>))"

definition stmt :: "('m env_scheme \<Rightarrow> (goerr + 'a) \<times> 'm env_scheme) \<Rightarrow> ('m env_scheme, goerr, 'a) act" where
  "stmt body = (\<lambda>w. let w1 = w\<lparr>tick := Suc (tick w)\<rparr> in
     (case fault w (tick w) of Some f \<Rightarrow> (Inl (faultErr f), w1) | None \<Rightarrow> body w1))"

text \<open>A call of something outside of the program, whose answer depends on the moment.\<close>

definition external :: "(nat \<Rightarrow> goerr + 'a) \<Rightarrow> ('m env_scheme, goerr, 'a) act" where
  "external f = (\<lambda>w. (f (tick w), w\<lparr>tick := Suc (tick w)\<rparr>))"

text \<open>INSERT of one row.\<close>

definition insTable :: "'n pixiu_model_scheme \<Rightarrow> 'n pixiu_model_scheme table \<Rightarrow> 'n pixiu_model_scheme table" where
  "insTable r T = \<lparr>rows = rows T @ [r\<lparr>Oid := next_id T\<rparr>], next_id = next_id T + 1\<rparr>"

definition sqlCreate :: "('m env_scheme, 'n pixiu_model_scheme) tref \<Rightarrow> 'n pixiu_model_scheme \<Rightarrow> ('m env_scheme, goerr, 'n pixiu_model_scheme) act" where
  "sqlCreate t row = stmt (\<lambda>w.
     let T = tget t w; r = (tdefaults t row)\<lparr>Oid := next_id T\<rparr>
     in if list_ex (tuniq t r) (rows T) then (Inl (MySQLError 1062), w)
        else (Inr r, tupd t (insTable (tdefaults t row)) w))"

text \<open>A batch insert is one statement: all rows or none.\<close>

fun insertAll :: "('n pixiu_model_scheme \<Rightarrow> 'n pixiu_model_scheme \<Rightarrow> bool) \<Rightarrow> 'n pixiu_model_scheme list \<Rightarrow> 'n pixiu_model_scheme table \<Rightarrow> 'n pixiu_model_scheme table option" where
  "insertAll uniq [] T = Some T"
| "insertAll uniq (r # rs) T =
     (let r' = r\<lparr>Oid := next_id T\<rparr>
      in if list_ex (uniq r') (rows T) then None
         else insertAll uniq rs \<lparr>rows = rows T @ [r'], next_id = next_id T + 1\<rparr>)"

definition sqlCreateBatch :: "('m env_scheme, 'n pixiu_model_scheme) tref \<Rightarrow> 'n pixiu_model_scheme list \<Rightarrow> ('m env_scheme, goerr, unit) act" where
  "sqlCreateBatch t rs = stmt (\<lambda>w.
     case insertAll (tuniq t) (map (tdefaults t) rs) (tget t w) of
       None \<Rightarrow> (Inl (MySQLError 1062), w)
     | Some T' \<Rightarrow> (Inr (), tupd t (\<lambda>_. T') w))"

text \<open>\<open>clause.OnConflict{DoNothing: true}\<close>: rows that hit a unique index are left out.\<close>

fun insertNew :: "('n pixiu_model_scheme \<Rightarrow> 'n pixiu_model_scheme \<Rightarrow> bool) \<Rightarrow> 'n pixiu_model_scheme list \<Rightarrow> 'n pixiu_model_scheme table \<Rightarrow> 'n pixiu_model_scheme table" where
  "insertNew uniq [] T = T"
| "insertNew uniq (r # rs) T =
     (let r' = r\<lparr>Oid := next_id T\<rparr>
      in if list_ex (uniq r') (rows T) then insertNew uniq rs T
         else insertNew uniq rs \<lparr>rows = rows T @ [r'], next_id = next_id T + 1\<rparr>)"

definition sqlCreateNew :: "('m env_scheme, 'n pixiu_model_scheme) tref \<Rightarrow> 'n pixiu_model_scheme list \<Rightarrow> ('m env_scheme, goerr, unit) act" where
  "sqlCreateNew t rs = stmt (\<lambda>w. (Inr (), tupd t (insertNew (tuniq t) (map (tdefaults t) rs)) w))"

text \<open>\<open>First\<close>: the matching row with the least id (\<open>sqlLast\<close>: with the greatest, for
  \<open>Order("id desc")\<close>), or \<open>ErrRecordNotFound\<close>.\<close>

definition sqlFirst :: "('m env_scheme, 'r) tref \<Rightarrow> ('r \<Rightarrow> bool) \<Rightarrow> ('m env_scheme, goerr, 'r) act" where
  "sqlFirst t P = stmt (\<lambda>w. case find P (rows (tget t w)) of
     None \<Rightarrow> (Inl (Util ErrRecordNotFound), w) | Some r \<Rightarrow> (Inr r, w))"

definition sqlLast :: "('m env_scheme, 'r) tref \<Rightarrow> ('r \<Rightarrow> bool) \<Rightarrow> ('m env_scheme, goerr, 'r) act" where
  "sqlLast t P = stmt (\<lambda>w. case find P (rev (rows (tget t w))) of
     None \<Rightarrow> (Inl (Util ErrRecordNotFound), w) | Some r \<Rightarrow> (Inr r, w))"

definition sqlFind :: "('m env_scheme, 'r) tref \<Rightarrow> ('r \<Rightarrow> bool) \<Rightarrow> ('m env_scheme, goerr, 'r list) act" where
  "sqlFind t P = stmt (\<lambda>w. (Inr (filter P (rows (tget t w))), w))"

text \<open>Any other query: \<open>Count\<close>, \<open>Pluck\<close>, joins.\<close>

definition sqlSelect :: "('m env_scheme \<Rightarrow> 'a) \<Rightarrow> ('m env_scheme, goerr, 'a) act" where
  "sqlSelect f = stmt (\<lambda>w. (Inr (f w), w))"

text \<open>UPDATE: the effect on a row and on the table, the rows that change, unique indexes.\<close>

definition updRow :: "('r \<Rightarrow> bool) \<Rightarrow> 'r updates \<Rightarrow> 'r \<Rightarrow> 'r" where
  "updRow P us r = (if P r then applyUpdates us r else r)"

definition updTable :: "('r \<Rightarrow> bool) \<Rightarrow> 'r updates \<Rightarrow> 'r table \<Rightarrow> 'r table" where
  "updTable P us T = T\<lparr>rows := map (updRow P us) (rows T)\<rparr>"

definition changedRows :: "('r \<Rightarrow> bool) \<Rightarrow> 'r updates \<Rightarrow> 'r table \<Rightarrow> 'r list" where
  "changedRows P us T = filter (\<lambda>r. updRow P us r \<noteq> r) (rows T)"

definition updConflict :: "('n pixiu_model_scheme \<Rightarrow> 'n pixiu_model_scheme \<Rightarrow> bool) \<Rightarrow> ('n pixiu_model_scheme \<Rightarrow> bool) \<Rightarrow> 'n pixiu_model_scheme updates \<Rightarrow> 'n pixiu_model_scheme table \<Rightarrow> bool" where
  "updConflict uniq P us T = list_ex (\<lambda>r. list_ex (\<lambda>s. Oid s \<noteq> Oid r \<and>
     uniq (updRow P us r) (updRow P us s)) (rows T)) (changedRows P us T)"

definition sqlUpdates :: "('m env_scheme, 'n pixiu_model_scheme) tref \<Rightarrow> ('n pixiu_model_scheme \<Rightarrow> bool) \<Rightarrow> 'n pixiu_model_scheme updates \<Rightarrow> ('m env_scheme, goerr, nat) act" where
  "sqlUpdates t P us = stmt (\<lambda>w.
     if updConflict (tuniq t) P us (tget t w) then (Inl (MySQLError 1062), w)
     else (Inr (length (changedRows P us (tget t w))), tupd t (updTable P us) w))"

text \<open>DELETE: what is left of the table.\<close>

definition delTable :: "('r \<Rightarrow> bool) \<Rightarrow> 'r table \<Rightarrow> 'r table" where
  "delTable P T = T\<lparr>rows := filter (\<lambda>r. \<not> P r) (rows T)\<rparr>"

lemma delTable_rows: "rows (delTable P T) = filter (\<lambda>r. \<not> P r) (rows T)"
  by (simp add: delTable_def)

definition sqlDelete :: "('m env_scheme, 'r) tref \<Rightarrow> ('r \<Rightarrow> bool) \<Rightarrow> ('m env_scheme, goerr, nat) act" where
  "sqlDelete t P = stmt (\<lambda>w.
     (Inr (length (filter P (rows (tget t w)))), tupd t (delTable P) w))"

text \<open>\<open>db.Transaction(fn)\<close>: BEGIN, the function, COMMIT; any error rolls the tables back.\<close>

definition transaction :: "('m env_scheme, goerr, 'a) act \<Rightarrow> ('m env_scheme, goerr, 'a) act" where
  "transaction m = (\<lambda>w. case fault w (tick w) of
     Some f \<Rightarrow> (Inl (faultErr f), w\<lparr>tick := Suc (tick w)\<rparr>)
   | None \<Rightarrow> (case m (w\<lparr>tick := Suc (tick w)\<rparr>) of (r, w1) \<Rightarrow> (case r of
       Inl e \<Rightarrow> (Inl e, w\<lparr>tick := tick w1\<rparr>)
     | Inr x \<Rightarrow> (case fault w (tick w1) of
         Some f \<Rightarrow> (Inl (faultErr f), w\<lparr>tick := Suc (tick w1)\<rparr>)
       | None \<Rightarrow> (Inr x, w1\<lparr>tick := Suc (tick w1)\<rparr>)))))"

section \<open>Weakest preconditions of statements\<close>

lemma wp_timeNow [wp_simps]: "wp timeNow Q E = (\<lambda>w. Q (clock w (tick w)) (w\<lparr>tick := Suc (tick w)\<rparr>))"
  by (simp add: wp_def timeNow_def fun_eq_iff)

lemma wp_stmt:
  "wp (stmt body) Q E = (\<lambda>w. case fault w (tick w) of
     Some f \<Rightarrow> E (faultErr f) (w\<lparr>tick := Suc (tick w)\<rparr>)
   | None \<Rightarrow> wp body Q E (w\<lparr>tick := Suc (tick w)\<rparr>))"
  by (auto simp: wp_def stmt_def fun_eq_iff Let_def split: option.splits)

lemma wp_transaction:
  "wp (transaction m) Q E w = (case fault w (tick w) of
     Some f \<Rightarrow> E (faultErr f) (w\<lparr>tick := Suc (tick w)\<rparr>)
   | None \<Rightarrow> wp m
       (\<lambda>x w1. case fault w (tick w1) of
            Some f \<Rightarrow> E (faultErr f) (w\<lparr>tick := Suc (tick w1)\<rparr>)
          | None \<Rightarrow> Q x (w1\<lparr>tick := Suc (tick w1)\<rparr>))
       (\<lambda>e w1. E e (w\<lparr>tick := tick w1\<rparr>)) (w\<lparr>tick := Suc (tick w)\<rparr>))"
  by (auto simp: wp_def transaction_def split: option.splits prod.splits sum.splits)

lemma wp_sqlCreate [wp_simps]:
  "wp (sqlCreate t row) Q E = (\<lambda>w. case fault w (tick w) of
     Some f \<Rightarrow> E (faultErr f) (w\<lparr>tick := Suc (tick w)\<rparr>)
   | None \<Rightarrow> (let w1 = w\<lparr>tick := Suc (tick w)\<rparr>; T = tget t w1; r = (tdefaults t row)\<lparr>Oid := next_id T\<rparr>
       in if list_ex (tuniq t r) (rows T) then E (MySQLError 1062) w1
          else Q r (tupd t (insTable (tdefaults t row)) w1)))"
  by (auto simp: sqlCreate_def wp_stmt wp_def Let_def fun_eq_iff split: option.splits)

lemma wp_sqlFirst [wp_simps]:
  "wp (sqlFirst t P) Q E = (\<lambda>w. case fault w (tick w) of
     Some f \<Rightarrow> E (faultErr f) (w\<lparr>tick := Suc (tick w)\<rparr>)
   | None \<Rightarrow> (let w1 = w\<lparr>tick := Suc (tick w)\<rparr> in case find P (rows (tget t w1)) of
       None \<Rightarrow> E (Util ErrRecordNotFound) w1 | Some r \<Rightarrow> Q r w1))"
  by (auto simp: sqlFirst_def wp_stmt wp_def Let_def fun_eq_iff split: option.splits)

lemma wp_sqlLast [wp_simps]:
  "wp (sqlLast t P) Q E = (\<lambda>w. case fault w (tick w) of
     Some f \<Rightarrow> E (faultErr f) (w\<lparr>tick := Suc (tick w)\<rparr>)
   | None \<Rightarrow> (let w1 = w\<lparr>tick := Suc (tick w)\<rparr> in case find P (rev (rows (tget t w1))) of
       None \<Rightarrow> E (Util ErrRecordNotFound) w1 | Some r \<Rightarrow> Q r w1))"
  by (auto simp: sqlLast_def wp_stmt wp_def Let_def fun_eq_iff split: option.splits)

lemma wp_sqlFind [wp_simps]:
  "wp (sqlFind t P) Q E = (\<lambda>w. case fault w (tick w) of
     Some f \<Rightarrow> E (faultErr f) (w\<lparr>tick := Suc (tick w)\<rparr>)
   | None \<Rightarrow> (let w1 = w\<lparr>tick := Suc (tick w)\<rparr> in Q (filter P (rows (tget t w1))) w1))"
  by (auto simp: sqlFind_def wp_stmt wp_def Let_def fun_eq_iff split: option.splits)

lemma wp_sqlSelect [wp_simps]:
  "wp (sqlSelect f) Q E = (\<lambda>w. case fault w (tick w) of
     Some ft \<Rightarrow> E (faultErr ft) (w\<lparr>tick := Suc (tick w)\<rparr>)
   | None \<Rightarrow> (let w1 = w\<lparr>tick := Suc (tick w)\<rparr> in Q (f w1) w1))"
  by (auto simp: sqlSelect_def wp_stmt wp_def Let_def fun_eq_iff split: option.splits)

lemma wp_sqlDelete [wp_simps]:
  "wp (sqlDelete t P) Q E = (\<lambda>w. case fault w (tick w) of
     Some f \<Rightarrow> E (faultErr f) (w\<lparr>tick := Suc (tick w)\<rparr>)
   | None \<Rightarrow> (let w1 = w\<lparr>tick := Suc (tick w)\<rparr> in
       Q (length (filter P (rows (tget t w1)))) (tupd t (delTable P) w1)))"
  by (auto simp: sqlDelete_def wp_stmt wp_def Let_def fun_eq_iff split: option.splits)

lemma wp_sqlUpdates [wp_simps]:
  "wp (sqlUpdates t P us) Q E = (\<lambda>w. case fault w (tick w) of
     Some f \<Rightarrow> E (faultErr f) (w\<lparr>tick := Suc (tick w)\<rparr>)
   | None \<Rightarrow> (let w1 = w\<lparr>tick := Suc (tick w)\<rparr> in
       if updConflict (tuniq t) P us (tget t w1) then E (MySQLError 1062) w1
       else Q (length (changedRows P us (tget t w1))) (tupd t (updTable P us) w1)))"
  by (auto simp: sqlUpdates_def wp_stmt wp_def Let_def fun_eq_iff split: option.splits)

lemma wp_sqlCreateBatch [wp_simps]:
  "wp (sqlCreateBatch t rs) Q E = (\<lambda>w. case fault w (tick w) of
     Some f \<Rightarrow> E (faultErr f) (w\<lparr>tick := Suc (tick w)\<rparr>)
   | None \<Rightarrow> (let w1 = w\<lparr>tick := Suc (tick w)\<rparr> in case insertAll (tuniq t) (map (tdefaults t) rs) (tget t w1) of
       None \<Rightarrow> E (MySQLError 1062) w1 | Some T' \<Rightarrow> Q () (tupd t (\<lambda>_. T') w1)))"
  by (auto simp: sqlCreateBatch_def wp_stmt wp_def Let_def fun_eq_iff split: option.splits)

lemma wp_sqlCreateNew [wp_simps]:
  "wp (sqlCreateNew t rs) Q E = (\<lambda>w. case fault w (tick w) of
     Some f \<Rightarrow> E (faultErr f) (w\<lparr>tick := Suc (tick w)\<rparr>)
   | None \<Rightarrow> Q () (tupd t (insertNew (tuniq t) (map (tdefaults t) rs)) (w\<lparr>tick := Suc (tick w)\<rparr>)))"
  by (auto simp: sqlCreateNew_def wp_stmt wp_def Let_def fun_eq_iff split: option.splits)

lemma applyUpdates_Nil [simp]: "applyUpdates [] r = r"
  by (simp add: applyUpdates_def)

lemma applyUpdates_Cons [simp]: "applyUpdates ((k, f) # us) r = applyUpdates us (f r)"
  by (simp add: applyUpdates_def)

lemma applyUpdates_append [simp]: "applyUpdates (us @ vs) r = applyUpdates vs (applyUpdates us r)"
  by (simp add: applyUpdates_def)

text \<open>No statement fails.\<close>

definition faultless :: "'m env_scheme \<Rightarrow> bool" where
  "faultless w \<longleftrightarrow> (\<forall>n. fault w n = None)"

lemma faultless_tick [simp]: "faultless (w\<lparr>tick := n\<rparr>) = faultless w"
  by (simp add: faultless_def)

lemma faultless_fault [simp]: "faultless w \<Longrightarrow> fault w n = None"
  by (simp add: faultless_def)

end
