(* ===== verification/Dao.thy ===== *)
theory Dao
  imports Store "HOL-Library.Sublist"
begin

text \<open>
  The shapes the DAO methods of \<open>pkg/db\<close> share: creation with timestamps, the update guarded
  by \<open>resource_version\<close> (optimistic lock), deletion, lookup with \<open>nil\<close> for a missing row,
  listing and counting with query options (\<open>pkg/db/options.go\<close>). Two interfaces: \<open>db_table\<close>
  is what a DAO needs of its table, \<open>versioned_dao\<close> what its clients get from the guarded
  update; the second is derived from the first, once for all tables.
\<close>

section \<open>Query options\<close>

record 'r query =
  qWhere :: "'r \<Rightarrow> bool"
  qOrder :: "('r \<Rightarrow> int) list"
  qOffset :: int
  qLimit :: int

type_synonym 'r options = "'r query \<Rightarrow> 'r query"

definition emptyQuery :: "'r query" where
  "emptyQuery = \<lparr>qWhere = (\<lambda>_. True), qOrder = [], qOffset = 0, qLimit = 0\<rparr>"

definition Where :: "('r \<Rightarrow> bool) \<Rightarrow> 'r options" where
  "Where P q = q\<lparr>qWhere := (\<lambda>r. qWhere q r \<and> P r)\<rparr>"

text \<open>\<open>for _, opt := range opts { tx = opt(tx) }\<close>\<close>

definition buildQuery :: "'r options list \<Rightarrow> 'r query" where
  "buildQuery opts = foldl (\<lambda>q opt. opt q) emptyQuery opts"

text \<open>SELECT: filter, sort by the ORDER BY keys, skip, limit (gorm leaves out an offset or a
  limit that is not positive).\<close>

definition runQuery :: "'r query \<Rightarrow> 'r list \<Rightarrow> 'r list" where
  "runQuery q rs =
     (let sorted_rs = foldr sort_key (qOrder q) (filter (qWhere q) rs);
          skipped = drop (nat (qOffset q)) sorted_rs
      in if 0 < qLimit q then take (nat (qLimit q)) skipped else skipped)"

text \<open>SQL LIKE with its wildcards and the escape character.\<close>

fun sqlLike :: "string \<Rightarrow> string \<Rightarrow> bool" where
  "sqlLike [] s = (s = [])"
| "sqlLike (c # p) s =
     (if c = CHR ''%'' then sqlLike p s \<or> (case s of [] \<Rightarrow> False | d # s' \<Rightarrow> sqlLike (c # p) s')
      else (case s of [] \<Rightarrow> False
        | d # s' \<Rightarrow>
            if c = CHR ''_'' then sqlLike p s'
            else if c = CHR 0x5C then (case p of [] \<Rightarrow> d = c \<and> s' = [] | e # p' \<Rightarrow> d = e \<and> sqlLike p' s')
            else d = c \<and> sqlLike p s'))"

definition WithOrderByASC :: "'m pixiu_model_scheme options" where
  "WithOrderByASC q = q\<lparr>qOrder := qOrder q @ [Oid]\<rparr>"

definition WithOrderByDesc :: "'m pixiu_model_scheme options" where
  "WithOrderByDesc q = q\<lparr>qOrder := qOrder q @ [\<lambda>r. - Oid r]\<rparr>"

definition WithOffset :: "int \<Rightarrow> 'r options" where
  "WithOffset offset q = q\<lparr>qOffset := offset\<rparr>"

definition WithModifyOrderByDesc :: "'m pixiu_model_scheme options" where
  "WithModifyOrderByDesc q = q\<lparr>qOrder := qOrder q @ [\<lambda>r. - GmtModified r]\<rparr>"

definition WithLimit :: "int \<Rightarrow> 'r options" where
  "WithLimit limit q = (if limit = 0 then q else q\<lparr>qLimit := limit\<rparr>)"

definition WithIDIn :: "int list \<Rightarrow> 'm pixiu_model_scheme options" where
  "WithIDIn ids = Where (\<lambda>r. Oid r \<in> set ids)"

definition WithNameLike :: "('r \<Rightarrow> string) \<Rightarrow> string \<Rightarrow> 'r options" where
  "WithNameLike name_col name q =
     (if name = [] then q else Where (\<lambda>r. sqlLike (''%'' @ name @ ''%'') (name_col r)) q)"

definition WithTitleLike :: "('r \<Rightarrow> string) \<Rightarrow> string \<Rightarrow> 'r options" where
  "WithTitleLike title_col title q =
     (if title = [] then q else Where (\<lambda>r. sqlLike (''%'' @ title @ ''%'') (title_col r)) q)"

definition WithPhoneLike :: "('r \<Rightarrow> string) \<Rightarrow> string \<Rightarrow> 'r options" where
  "WithPhoneLike phone_col phone q =
     (if phone = [] then q else Where (\<lambda>r. sqlLike (''%'' @ phone @ ''%'') (phone_col r)) q)"

definition WithEmailLike :: "('r \<Rightarrow> string) \<Rightarrow> string \<Rightarrow> 'r options" where
  "WithEmailLike email_col email q =
     (if email = [] then q else Where (\<lambda>r. sqlLike (''%'' @ email @ ''%'') (email_col r)) q)"

definition WithMethod :: "('r \<Rightarrow> string) \<Rightarrow> string \<Rightarrow> 'r options" where
  "WithMethod method_col method q = (if method = [] then q else Where (\<lambda>r. method_col r = method) q)"

definition WithPathLike :: "('r \<Rightarrow> string) \<Rightarrow> string \<Rightarrow> 'r options" where
  "WithPathLike path_col path q =
     (if path = [] then q else Where (\<lambda>r. sqlLike (''%'' @ path @ ''%'') (path_col r)) q)"

definition WithAPIGroup :: "('r \<Rightarrow> string) \<Rightarrow> string \<Rightarrow> 'r options" where
  "WithAPIGroup group_col grp q = (if grp = [] then q else Where (\<lambda>r. group_col r = grp) q)"

definition WithName :: "('r \<Rightarrow> string) \<Rightarrow> string \<Rightarrow> 'r options" where
  "WithName name_col name q = (if name = [] then q else Where (\<lambda>r. name_col r = name) q)"

definition WithUser :: "('r \<Rightarrow> int) \<Rightarrow> int \<Rightarrow> 'r options" where
  "WithUser user_col userId q = (if userId = 0 then q else Where (\<lambda>r. user_col r = userId) q)"

definition WithUserOrResourceIDs :: "('m pixiu_model_scheme \<Rightarrow> int) \<Rightarrow> int \<Rightarrow> int list \<Rightarrow> 'm pixiu_model_scheme options" where
  "WithUserOrResourceIDs user_col userId resourceIDs q =
     (if userId = 0 \<and> resourceIDs = [] then q
      else if userId \<noteq> 0 \<and> resourceIDs = [] then Where (\<lambda>r. user_col r = userId) q
      else if userId = 0 then Where (\<lambda>r. Oid r \<in> set resourceIDs) q
      else Where (\<lambda>r. user_col r = userId \<or> Oid r \<in> set resourceIDs) q)"

text \<open>\<open>tenant_id = ?\<close>: no value equals a NULL column (\<open>None\<close>).\<close>

definition WithTenantId :: "('r \<Rightarrow> int option) \<Rightarrow> int \<Rightarrow> 'r options" where
  "WithTenantId tenant_col tenantId = Where (\<lambda>r. tenant_col r = Some tenantId)"

definition WithUserStatus :: "('r \<Rightarrow> int) \<Rightarrow> int \<Rightarrow> 'r options" where
  "WithUserStatus status_col status = Where (\<lambda>r. status_col r = status)"

definition WithPlan :: "('r \<Rightarrow> int) \<Rightarrow> int \<Rightarrow> 'r options" where
  "WithPlan plan_col pid q = (if pid = 0 then q else Where (\<lambda>r. plan_col r = pid) q)"

definition WithEnabled :: "('r \<Rightarrow> bool) \<Rightarrow> bool \<Rightarrow> 'r options" where
  "WithEnabled enabled_col enabled = Where (\<lambda>r. enabled_col r = enabled)"

definition WithAlertRuleId :: "('r \<Rightarrow> int) \<Rightarrow> int \<Rightarrow> 'r options" where
  "WithAlertRuleId rule_col ruleId q = (if ruleId = 0 then q else Where (\<lambda>r. rule_col r = ruleId) q)"

definition WithAlertEventId :: "('r \<Rightarrow> int) \<Rightarrow> int \<Rightarrow> 'r options" where
  "WithAlertEventId event_col eventId q = (if eventId = 0 then q else Where (\<lambda>r. event_col r = eventId) q)"

definition WithAlertEventStatus :: "('r \<Rightarrow> int) \<Rightarrow> int \<Rightarrow> 'r options" where
  "WithAlertEventStatus status_col status q = (if status = 0 then q else Where (\<lambda>r. status_col r = status) q)"

text \<open>\<open>if get(old) != new { updates[col] = new }\<close>\<close>

definition changed :: "string \<Rightarrow> ('r \<Rightarrow> 'a) \<Rightarrow> (('a \<Rightarrow> 'a) \<Rightarrow> 'r \<Rightarrow> 'r) \<Rightarrow> 'r \<Rightarrow> 'a \<Rightarrow> 'r updates" where
  "changed col get upd old new = (if get old \<noteq> new then [(col, upd (\<lambda>_. new))] else [])"

section \<open>DAO methods\<close>

definition daoCreate :: "('m env_scheme, 'n pixiu_model_scheme) tref \<Rightarrow> 'n pixiu_model_scheme \<Rightarrow> ('m env_scheme, goerr, 'n pixiu_model_scheme) act" where
  "daoCreate t object = andThen timeNow (\<lambda>now.
     sqlCreate t (object\<lparr>GmtCreate := now, GmtModified := now\<rparr>))"

definition versionedUpdates :: "int \<Rightarrow> int \<Rightarrow> 'n pixiu_model_scheme updates \<Rightarrow> 'n pixiu_model_scheme updates" where
  "versionedUpdates now resourceVersion updates = updates @
     [(''gmt_modified'', GmtModified_update (\<lambda>_. now)),
      (''resource_version'', ResourceVersion_update (\<lambda>_. resourceVersion + 1))]"

definition versionMatch :: "int \<Rightarrow> int \<Rightarrow> 'n pixiu_model_scheme \<Rightarrow> bool" where
  "versionMatch i v r \<longleftrightarrow> Oid r = i \<and> ResourceVersion r = v"

definition daoUpdate :: "('m env_scheme, 'n pixiu_model_scheme) tref \<Rightarrow> goerr \<Rightarrow> int \<Rightarrow> int \<Rightarrow> 'n pixiu_model_scheme updates \<Rightarrow> ('m env_scheme, goerr, unit) act" where
  "daoUpdate t notUpdated i resourceVersion updates = andThen timeNow (\<lambda>now.
     andThen (sqlUpdates t (versionMatch i resourceVersion) (versionedUpdates now resourceVersion updates))
       (\<lambda>rowsAffected. if rowsAffected = 0 then fail notUpdated else ret ()))"

definition daoDelete :: "('m env_scheme, 'n pixiu_model_scheme) tref \<Rightarrow> int \<Rightarrow> ('m env_scheme, goerr, unit) act" where
  "daoDelete t i = andThen (sqlDelete t (\<lambda>r. Oid r = i)) (\<lambda>rowsAffected.
     if rowsAffected = 0 then fail (Util ErrRecordNotFound) else ret ())"

text \<open>\<open>First\<close> with a missing row turned into \<open>nil, nil\<close>.\<close>

definition orNil :: "('w, goerr, 'r) act \<Rightarrow> ('w, goerr, 'r option) act" where
  "orNil m = onResult m (\<lambda>err. if IsRecordNotFound err then ret None else fail err) (\<lambda>object. ret (Some object))"

definition daoGet :: "('m env_scheme, 'n pixiu_model_scheme) tref \<Rightarrow> int \<Rightarrow> ('m env_scheme, goerr, 'n pixiu_model_scheme option) act" where
  "daoGet t i = orNil (sqlFirst t (\<lambda>r. Oid r = i))"

definition daoGetBy :: "('m env_scheme, 'n pixiu_model_scheme) tref \<Rightarrow> 'n pixiu_model_scheme options list \<Rightarrow> ('m env_scheme, goerr, 'n pixiu_model_scheme option) act" where
  "daoGetBy t opts = orNil (stmt (\<lambda>w.
     case runQuery (buildQuery (opts @ [WithOrderByASC])) (rows (tget t w)) of
       [] \<Rightarrow> (Inl (Util ErrRecordNotFound), w) | r # _ \<Rightarrow> (Inr r, w)))"

definition daoList :: "('m env_scheme, 'n pixiu_model_scheme) tref \<Rightarrow> 'n pixiu_model_scheme options list \<Rightarrow> ('m env_scheme, goerr, 'n pixiu_model_scheme list) act" where
  "daoList t opts = stmt (\<lambda>w. (Inr (runQuery (buildQuery opts) (rows (tget t w))), w))"

definition daoCount :: "('m env_scheme, 'n pixiu_model_scheme) tref \<Rightarrow> 'n pixiu_model_scheme options list \<Rightarrow> ('m env_scheme, goerr, int) act" where
  "daoCount t opts = stmt (\<lambda>w. (Inr (int (length (filter (qWhere (buildQuery opts)) (rows (tget t w))))), w))"

lemma wp_daoList [wp_simps]:
  "wp (daoList t opts) Q E = (\<lambda>w. case fault w (tick w) of
     Some f \<Rightarrow> E (faultErr f) (w\<lparr>tick := Suc (tick w)\<rparr>)
   | None \<Rightarrow> (let w1 = w\<lparr>tick := Suc (tick w)\<rparr> in Q (runQuery (buildQuery opts) (rows (tget t w1))) w1))"
  by (auto simp: daoList_def wp_stmt wp_def Let_def fun_eq_iff split: option.splits)

lemma wp_daoCount [wp_simps]:
  "wp (daoCount t opts) Q E = (\<lambda>w. case fault w (tick w) of
     Some f \<Rightarrow> E (faultErr f) (w\<lparr>tick := Suc (tick w)\<rparr>)
   | None \<Rightarrow> (let w1 = w\<lparr>tick := Suc (tick w)\<rparr> in
       Q (int (length (filter (qWhere (buildQuery opts)) (rows (tget t w1))))) w1))"
  by (auto simp: daoCount_def wp_stmt wp_def Let_def fun_eq_iff split: option.splits)

lemma set_runQuery_nolimit: "qLimit q \<le> 0 \<Longrightarrow> qOffset q \<le> 0 \<Longrightarrow> set (runQuery q rs) = {r \<in> set rs. qWhere q r}"
proof -
  have "set (foldr sort_key ks xs) = set xs" for ks :: "('a \<Rightarrow> int) list" and xs by (induction ks) auto
  then show "qLimit q \<le> 0 \<Longrightarrow> qOffset q \<le> 0 \<Longrightarrow> ?thesis" by (auto simp: runQuery_def)
qed

lemma set_runQuery: "r \<in> set (runQuery q rs) \<Longrightarrow> r \<in> set rs \<and> qWhere q r"
proof -
  have "set (foldr sort_key ks xs) = set xs" for ks :: "('a \<Rightarrow> int) list" and xs by (induction ks) auto
  then show "r \<in> set (runQuery q rs) \<Longrightarrow> ?thesis"
    by (auto simp: runQuery_def Let_def dest!: in_set_takeD in_set_dropD split: if_splits)
qed

lemma length_runQuery: "0 < qLimit q \<Longrightarrow> length (runQuery q rs) \<le> nat (qLimit q)"
  by (simp add: runQuery_def Let_def)

lemma wp_daoGetBy [wp_simps]:
  "wp (daoGetBy t opts) Q E = (\<lambda>w. case fault w (tick w) of
     Some f \<Rightarrow> E (faultErr f) (w\<lparr>tick := Suc (tick w)\<rparr>)
   | None \<Rightarrow> (let w1 = w\<lparr>tick := Suc (tick w)\<rparr> in
       case runQuery (buildQuery (opts @ [WithOrderByASC])) (rows (tget t w1)) of [] \<Rightarrow> Q None w1 | r # _ \<Rightarrow> Q (Some r) w1))"
  by (auto simp: daoGetBy_def orNil_def wp_onResult wp_ret wp_fail wp_stmt wp_def Let_def fun_eq_iff ret_def fail_def
      split: option.splits list.splits)

lemma wp_orNil [wp_simps]:
  "wp (orNil m) Q E = wp m (\<lambda>r. Q (Some r)) (\<lambda>e. if IsRecordNotFound e then Q None else E e)"
  by (simp add: orNil_def wp_simps cong: if_cong)

section \<open>Tables stay well formed\<close>

definition keepsOid :: "'n pixiu_model_scheme updates \<Rightarrow> bool" where
  "keepsOid us \<longleftrightarrow> (\<forall>r. Oid (applyUpdates us r) = Oid r)"

lemma keepsOid_versioned [simp]: "keepsOid us \<Longrightarrow> keepsOid (versionedUpdates now v us)"
  by (simp add: keepsOid_def versionedUpdates_def)

lemma updTable_Oids: "keepsOid us \<Longrightarrow> map Oid (rows (updTable P us T)) = map Oid (rows T)"
  by (simp add: updTable_def keepsOid_def updRow_def)

lemma updTable_next_id [simp]: "next_id (updTable P us T) = next_id T"
  by (simp add: updTable_def)

lemma table_ok_updTable: "keepsOid us \<Longrightarrow> table_ok T \<Longrightarrow> table_ok (updTable P us T)"
proof -
  assume k: "keepsOid us" and ok: "table_ok T"
  have "Oid ` set (rows (updTable P us T)) = Oid ` set (rows T)"
    using arg_cong [OF updTable_Oids [OF k, of P T], of set] by simp
  with ok show ?thesis
    unfolding table_ok_def updTable_Oids [OF k] by (metis image_eqI imageE updTable_next_id)
qed

lemma table_ok_delTable: "table_ok T \<Longrightarrow> table_ok (delTable P T)"
  by (simp add: table_ok_def delTable_def sorted_filter distinct_map_filter)

lemma table_ok_insTable: "table_ok T \<Longrightarrow> table_ok (insTable r T)"
  by (auto simp: table_ok_def insTable_def sorted_append)

lemma table_ok_Oid_eq: "table_ok T \<Longrightarrow> r \<in> set (rows T) \<Longrightarrow> s \<in> set (rows T) \<Longrightarrow> Oid r = Oid s \<Longrightarrow> r = s"
  by (simp add: table_ok_def distinct_map inj_on_def)

lemma updTable_no_change: "changedRows P us T = [] \<Longrightarrow> rows (updTable P us T) = rows T"
  by (auto simp: changedRows_def updTable_def filter_empty_conv intro: map_idI)

text \<open>What a batch insert adds, seen through a projection that does not look at the id.\<close>

definition ignoresOid :: "('n pixiu_model_scheme \<Rightarrow> 'a) \<Rightarrow> bool" where
  "ignoresOid f \<longleftrightarrow> (\<forall>r i. f (r\<lparr>Oid := i\<rparr>) = f r)"

lemma insertAll_map: "ignoresOid f \<Longrightarrow> insertAll u rs T = Some T' \<Longrightarrow> map f (rows T') = map f (rows T) @ map f rs"
  by (induction u rs T rule: insertAll.induct) (auto simp: Let_def ignoresOid_def split: if_splits)

lemma insertNew_map: "ignoresOid f \<Longrightarrow> \<exists>rs'. subseq rs' rs \<and> map f (rows (insertNew u rs T)) = map f (rows T) @ map f rs'"
proof (induction u rs T rule: insertNew.induct)
  case (1 u T)
  then show ?case by simp
next
  case (2 u r rs T)
  let ?r = "r\<lparr>Oid := next_id T\<rparr>"
  show ?case
  proof (cases "list_ex (u ?r) (rows T)")
    case True
    with 2(1) [OF refl True 2(3)] obtain rs' where "subseq rs' rs" "map f (rows (insertNew u rs T)) = map f (rows T) @ map f rs'" by blast
    with True show ?thesis by (intro exI [of _ rs']) (simp add: list_emb_Cons)
  next
    case False
    with 2(2) [OF refl False 2(3)] 2(3) obtain rs' where "subseq rs' rs"
      "map f (rows (insertNew u rs \<lparr>rows = rows T @ [?r], next_id = next_id T + 1\<rparr>)) = map f (rows T) @ f r # map f rs'"
      by (auto simp: ignoresOid_def)
    with False show ?thesis by (intro exI [of _ "r # rs'"]) simp
  qed
qed

section \<open>Interface: a table of the world\<close>

locale db_table =
  fixes t :: "('m env_scheme, 'n pixiu_model_scheme) tref"
  assumes tget_tupd [simp]: "tget t (tupd t f w) = f (tget t w)"
    and tget_tick [simp]: "tget t (w\<lparr>tick := n\<rparr>) = tget t w"
    and tick_tupd [simp]: "tick (tupd t f w) = tick w"
    and fault_tupd [simp]: "fault (tupd t f w) = fault w"
    and clock_tupd [simp]: "clock (tupd t f w) = clock w"
begin

lemma daoUpdate_ok:
  assumes "daoUpdate t e i v us w = (Inr (), w')"
  shows "\<exists>now. changedRows (versionMatch i v) (versionedUpdates now v us) (tget t w) \<noteq> []
      \<and> tget t w' = updTable (versionMatch i v) (versionedUpdates now v us) (tget t w)"
proof -
  have "wp (daoUpdate t e i v us) (\<lambda>_ w'. \<exists>now. changedRows (versionMatch i v) (versionedUpdates now v us) (tget t w) \<noteq> []
      \<and> tget t w' = updTable (versionMatch i v) (versionedUpdates now v us) (tget t w)) (\<lambda>_ _. True) w"
    by (auto simp: daoUpdate_def wp_simps Let_def split: option.splits)
  then show ?thesis using assms by (rule wp_Inr)
qed

lemma daoUpdate_err:
  assumes "daoUpdate t e i v us w = (Inl err, w')"
  shows "rows (tget t w') = rows (tget t w)"
proof -
  have "wp (daoUpdate t e i v us) (\<lambda>_ _. True) (\<lambda>_ w'. rows (tget t w') = rows (tget t w)) w"
    by (auto simp: daoUpdate_def wp_simps Let_def updTable_no_change split: option.splits)
  then show ?thesis using assms by (rule wp_Inl)
qed

lemma daoUpdate_keeps_ok:
  "keepsOid us \<Longrightarrow> keeps (\<lambda>w. table_ok (tget t w)) (daoUpdate t e i v us)"
  by (rule keepsI) (auto simp: daoUpdate_def wp_simps Let_def table_ok_updTable split: option.splits)

lemma daoCreate_keeps_ok: "keeps (\<lambda>w. table_ok (tget t w)) (daoCreate t r)"
  by (rule keepsI) (auto simp: daoCreate_def wp_simps Let_def table_ok_insTable split: option.splits)

lemma daoDelete_keeps_ok: "keeps (\<lambda>w. table_ok (tget t w)) (daoDelete t i)"
  by (rule keepsI) (auto simp: daoDelete_def wp_simps Let_def table_ok_delTable split: option.splits)

end

section \<open>Interface: optimistic locking\<close>

text \<open>
  \<open>content\<close> is what the clients see of the table; \<open>update i v us\<close> the guarded update.
\<close>

locale versioned_dao =
  fixes content :: "'w \<Rightarrow> 'n pixiu_model_scheme list"
    and update :: "int \<Rightarrow> int \<Rightarrow> 'n pixiu_model_scheme updates \<Rightarrow> ('w, goerr, unit) act"
    and wf :: "'w \<Rightarrow> bool"
  assumes update_guard: "update i v us w = (Inr (), w') \<Longrightarrow> \<exists>r \<in> set (content w). Oid r = i \<and> ResourceVersion r = v"
    and update_bumps: "wf w \<Longrightarrow> keepsOid us \<Longrightarrow> update i v us w = (Inr (), w') \<Longrightarrow> r \<in> set (content w') \<Longrightarrow> Oid r = i \<Longrightarrow> ResourceVersion r = v + 1"
    and update_error: "update i v us w = (Inl e, w') \<Longrightarrow> content w' = content w"
    and update_wf: "wf w \<Longrightarrow> keepsOid us \<Longrightarrow> wf (snd (update i v us w))"
begin

text \<open>After a successful update a second one with the same version is refused.\<close>

lemma stale_refused:
  assumes "wf w" and "keepsOid us" and "update i v us w = (Inr (), w')"
  shows "\<exists>e. fst (update i v vs w') = Inl e"
proof (cases "fst (update i v vs w')")
  case (Inr u)
  then have "update i v vs w' = (Inr (), snd (update i v vs w'))" by (metis old.unit.exhaust prod.collapse)
  from update_guard [OF this] obtain r where "r \<in> set (content w')" "Oid r = i" "ResourceVersion r = v" by blast
  with update_bumps [OF assms, of r] show ?thesis by simp
qed simp

text \<open>Any number of updates that race on one version: at most one gets through.\<close>

lemma stale_after:
  assumes "\<forall>r \<in> set (content w). Oid r = i \<longrightarrow> ResourceVersion r \<noteq> v"
  shows "\<exists>e w'. update i v us w = (Inl e, w') \<and> content w' = content w"
proof (cases "update i v us w")
  case (Pair r w')
  show ?thesis
  proof (cases r)
    case (Inl e)
    with Pair update_error show ?thesis by auto
  next
    case (Inr u)
    with Pair update_guard [of i v us w w'] assms show ?thesis by auto
  qed
qed

end

fun race :: "(int \<Rightarrow> int \<Rightarrow> 'u \<Rightarrow> ('w, 'e, unit) act) \<Rightarrow> int \<Rightarrow> int \<Rightarrow> 'u list \<Rightarrow> 'w \<Rightarrow> nat" where
  "race update i v [] w = 0"
| "race update i v (us # rest) w =
     (case update i v us w of (r, w') \<Rightarrow> (if isl r then 0 else 1) + race update i v rest w')"

context versioned_dao
begin

lemma race_stale: "\<forall>r \<in> set (content w). Oid r = i \<longrightarrow> ResourceVersion r \<noteq> v \<Longrightarrow> race update i v uss w = 0"
proof (induction uss arbitrary: w)
  case Nil
  then show ?case by simp
next
  case (Cons us uss)
  from stale_after [OF Cons.prems, of us] obtain e w' where
    u: "update i v us w = (Inl e, w')" and c: "content w' = content w" by blast
  from Cons.prems c have "race update i v uss w' = 0" by (intro Cons.IH) simp
  with u show ?case by simp
qed

lemma race_at_most_one: "wf w \<Longrightarrow> (\<And>us. us \<in> set uss \<Longrightarrow> keepsOid us) \<Longrightarrow> race update i v uss w \<le> 1"
proof (induction uss arbitrary: w)
  case Nil
  then show ?case by simp
next
  case (Cons us uss)
  obtain r w' where u: "update i v us w = (r, w')" by fastforce
  from Cons.prems u have wf': "wf w'" using update_wf [of w us i v] by simp
  show ?case
  proof (cases r)
    case (Inl e)
    with Cons.IH [OF wf'] Cons.prems(2) u show ?thesis by simp
  next
    case (Inr x)
    with u have "update i v us w = (Inr (), w')" by simp
    from update_bumps [OF Cons.prems(1) _ this] Cons.prems(2)
    have "\<forall>q \<in> set (content w'). Oid q = i \<longrightarrow> ResourceVersion q = v + 1" by simp
    then have "race update i v uss w' = 0" by (intro race_stale) auto
    with u Inr show ?thesis by simp
  qed
qed

end

text \<open>Every table with the guarded update satisfies the interface.\<close>

context db_table
begin

lemma versioned: "versioned_dao (\<lambda>w. rows (tget t w)) (daoUpdate t e) (\<lambda>w. table_ok (tget t w))"
proof
  fix i v us w w'
  assume "daoUpdate t e i v us w = (Inr (), w')"
  then obtain now where "changedRows (versionMatch i v) (versionedUpdates now v us) (tget t w) \<noteq> []"
    using daoUpdate_ok by blast
  then show "\<exists>r \<in> set (rows (tget t w)). Oid r = i \<and> ResourceVersion r = v"
    by (auto simp: changedRows_def filter_empty_conv updRow_def versionMatch_def split: if_splits)
next
  fix i v us w w' r
  assume ok: "table_ok (tget t w)" and k: "keepsOid us" and u: "daoUpdate t e i v us w = (Inr (), w')"
    and r: "r \<in> set (rows (tget t w'))" "Oid r = i"
  from u obtain now where ch: "changedRows (versionMatch i v) (versionedUpdates now v us) (tget t w) \<noteq> []"
    and w': "tget t w' = updTable (versionMatch i v) (versionedUpdates now v us) (tget t w)"
    using daoUpdate_ok by blast
  let ?us = "versionedUpdates now v us"
  from ch obtain s where s: "s \<in> set (rows (tget t w))" "versionMatch i v s"
    by (auto simp: changedRows_def filter_empty_conv updRow_def split: if_splits)
  from r(1) w' obtain q where q: "q \<in> set (rows (tget t w))" "r = updRow (versionMatch i v) ?us q"
    by (auto simp: updTable_def)
  with k r(2) have "Oid q = i"
    using keepsOid_versioned [OF k, of now v] by (simp add: updRow_def keepsOid_def split: if_splits)
  with s ok q(1) have "q = s" by (intro table_ok_Oid_eq [OF ok]) (auto simp: versionMatch_def)
  with q(2) s(2) show "ResourceVersion r = v + 1"
    by (simp add: updRow_def versionedUpdates_def)
next
  fix i v us w err w'
  assume "daoUpdate t e i v us w = (Inl err, w')"
  then show "rows (tget t w') = rows (tget t w)" by (rule daoUpdate_err)
next
  fix w i v and us :: "'n pixiu_model_scheme updates"
  assume "table_ok (tget t w)" and "keepsOid us"
  then show "table_ok (tget t (snd (daoUpdate t e i v us w)))"
    using daoUpdate_keeps_ok [of us e i v] by (simp add: keeps_def)
qed

end

end
