(* ===== verification/RbacPolicy.thy ===== *)
theory RbacPolicy
  imports GoStrings Errors "HOL-Library.AList"
begin

text \<open>
  The policy package \<open>pkg/rbac\<close>: the menu catalog and the computation of the menus a user sees
  (\<open>menu\<close>), \<open>METHOD:path\<close> permission codes and their matching (\<open>api\<close>), the classification of
  requests (\<open>access\<close>) and the data-scope decision (\<open>scope\<close>). All of it is pure code. Where the
  source ranges over a Go map, the iteration order is the parameter \<open>visit\<close> of the definition.
\<close>

section \<open>Menu catalog\<close>

datatype menu_kind = KindDirectory | KindMenu

record Definition =
  d_Code :: string
  d_ParentCode :: string
  d_Title :: string
  d_Path :: string
  d_Kind :: menu_kind
  d_Public :: bool
  d_AdminOnly :: bool
  d_RequiredAPIs :: "string list"

definition mkDef :: "string \<Rightarrow> string \<Rightarrow> string \<Rightarrow> string \<Rightarrow> menu_kind \<Rightarrow> bool \<Rightarrow> bool \<Rightarrow> string list \<Rightarrow> Definition" where
  "mkDef code parent title path kind public adminOnly apis =
     \<lparr>d_Code = code, d_ParentCode = parent, d_Title = title, d_Path = path, d_Kind = kind,
      d_Public = public, d_AdminOnly = adminOnly, d_RequiredAPIs = apis\<rparr>"

definition Catalog :: "Definition list" where
  "Catalog = [
   mkDef ''dashboard'' '''' (utf8 [0x4EEA, 0x8868, 0x76D8]) ''/dashboard'' KindDirectory False False [],
   mkDef ''dashboard.console'' ''dashboard'' (utf8 [0x5DE5, 0x4F5C, 0x53F0]) ''/dashboard/console'' KindMenu False True [],
   mkDef ''dashboard.analysis'' ''dashboard'' (utf8 [0x5206, 0x6790, 0x9875]) ''/dashboard/analysis'' KindMenu False True [],
   mkDef ''container'' '''' (utf8 [0x5BB9, 0x5668, 0x670D, 0x52A1]) ''/container'' KindDirectory False False [],
   mkDef ''container.cluster'' ''container'' (utf8 [0x96C6, 0x7FA4]) ''/container/cluster'' KindMenu False False [''GET:/pixiu/clusters''],
   mkDef ''container.plan'' ''container'' (utf8 [0x90E8, 0x7F72]) ''/container/plan'' KindMenu False False [''GET:/pixiu/plans''],
   mkDef ''container.agent'' ''container'' (''Agent'') ''/container/agent'' KindMenu False False [''GET:/pixiu/agents''],
   mkDef ''middleware'' '''' (utf8 [0x4E2D, 0x95F4, 0x4EF6]) ''/middleware'' KindDirectory False False [],
   mkDef ''middleware.elasticsearch'' ''middleware'' (''Elasticsearch'') ''/middleware/elasticsearch'' KindMenu False True [],
   mkDef ''middleware.redis'' ''middleware'' (''Redis'') ''/middleware/redis'' KindMenu False True [],
   mkDef ''middleware.nacos'' ''middleware'' (''Nacos'') ''/middleware/nacos'' KindMenu False True [],
   mkDef ''monitor'' '''' (utf8 [0x76D1, 0x63A7, 0x544A, 0x8B66]) ''/monitor'' KindDirectory False False [],
   mkDef ''monitor.realtime'' ''monitor'' (utf8 [0x5B9E, 0x65F6, 0x67E5, 0x8BE2]) ''/monitor/realtime-query'' KindMenu False False [''GET:/pixiu/datasources''],
   mkDef ''monitor.logs'' ''monitor'' (utf8 [0x65E5, 0x5FD7]) ''/monitor/logs'' KindMenu False False [''GET:/pixiu/datasources''],
   mkDef ''monitor.alert'' ''monitor'' (utf8 [0x914D, 0x7F6E, 0x544A, 0x8B66]) ''/monitor/alert-config'' KindMenu False False [''GET:/pixiu/alerts/rules''],
   mkDef ''monitor.datasource'' ''monitor'' (utf8 [0x6570, 0x636E, 0x6E90]) ''/monitor/datasource'' KindMenu False False [''GET:/pixiu/datasources''],
   mkDef ''ai'' '''' (utf8 [0x667A, 0x80FD, 0x52A9, 0x624B]) ''/ai'' KindDirectory False False [],
   mkDef ''ai.account'' ''ai'' (utf8 [0x41, 0x49, 0x20, 0x8D26, 0x53F7]) ''/ai/ai-account'' KindMenu False False [''GET:/pixiu/assistant/accounts''],
   mkDef ''safeguard'' '''' (utf8 [0x8FD0, 0x7EF4, 0x7BA1, 0x7406]) ''/safeguard'' KindDirectory False False [],
   mkDef ''safeguard.runner'' ''safeguard'' (''Runner'') ''/safeguard/runner'' KindMenu False False [''GET:/pixiu/runners''],
   mkDef ''safeguard.host'' ''safeguard'' (utf8 [0x4E3B, 0x673A, 0x7BA1, 0x7406]) ''/safeguard/host'' KindMenu False False [''GET:/pixiu/nodes''],
   mkDef ''appstore'' '''' (utf8 [0x5E94, 0x7528, 0x5546, 0x5E97]) ''/appstore'' KindMenu False True [],
   mkDef ''system'' '''' (utf8 [0x5B89, 0x5168, 0x7BA1, 0x7406]) ''/system'' KindDirectory False False [],
   mkDef ''system.role'' ''system'' (utf8 [0x89D2, 0x8272]) ''/system/role'' KindMenu False False [''GET:/pixiu/roles''],
   mkDef ''system.permission'' ''system'' (utf8 [0x6388, 0x6743]) ''/system/permission'' KindMenu False False [''GET:/pixiu/clusters/permissions''],
   mkDef ''system.audit'' ''system'' (utf8 [0x5BA1, 0x8BA1]) ''/system/audit'' KindMenu False False [''GET:/pixiu/audits''],
   mkDef ''system.user-center'' ''system'' (utf8 [0x4E2A, 0x4EBA, 0x4E2D, 0x5FC3]) ''/system/user-center'' KindMenu True False [],
   mkDef ''system-mgr'' '''' (utf8 [0x7CFB, 0x7EDF, 0x7BA1, 0x7406]) ''/system-mgr'' KindDirectory False False [],
   mkDef ''system.user'' ''system-mgr'' (utf8 [0x7528, 0x6237]) ''/system-mgr/user'' KindMenu False False [''GET:/pixiu/users''],
   mkDef ''system.tenant'' ''system-mgr'' (utf8 [0x79DF, 0x6237]) ''/system-mgr/tenant'' KindMenu False False [''GET:/pixiu/tenants''],
   mkDef ''system.api'' ''system-mgr'' (''API'') ''/system-mgr/api'' KindMenu False False [''GET:/pixiu/apis''],
   mkDef ''system.email'' ''system-mgr'' (utf8 [0x7CFB, 0x7EDF, 0x90AE, 0x4EF6]) ''/system/email'' KindMenu False True []
   ]"

text \<open>A Go map is an association list; the code builds it in catalog order, the last entry wins.\<close>

definition ByCode :: "(string \<times> Definition) list" where
  "ByCode = foldl (\<lambda>out d. AList.update (d_Code d) d out) [] Catalog"

text \<open>A Go set \<open>map[string]struct{}\<close> is the list of its keys.\<close>

definition insertKey :: "'a \<Rightarrow> 'a list \<Rightarrow> 'a list" where
  "insertKey k m = (if k \<in> set m then m else m @ [k])"

definition ValidCodes :: "string list" where
  "ValidCodes = foldl (\<lambda>out d. insertKey (d_Code d) out) [] Catalog"

section \<open>Menu resolution\<close>

record ResolveOptions =
  IsRoot :: bool
  IsAdmin :: bool
  Buttons :: "string list"
  ExplicitMenus :: "string list"

definition hasAnyAPI :: "string list \<Rightarrow> string list \<Rightarrow> bool" where
  "hasAnyAPI buttonSet required = (required \<noteq> [] \<and> list_ex (\<lambda>api. api \<in> set buttonSet) required)"

definition sortedKeys :: "string list \<Rightarrow> string list" where
  "sortedKeys m = sort m"

text \<open>The menus granted before the parents are added.\<close>

definition grantPublic :: "string list \<Rightarrow> string list" where
  "grantPublic granted = foldl (\<lambda>g d. if d_Public d then insertKey (d_Code d) g else g) granted Catalog"

definition grantExplicit :: "string list \<Rightarrow> string list \<Rightarrow> string list" where
  "grantExplicit codes granted =
     foldl (\<lambda>g code. if code \<in> set ValidCodes then insertKey code g else g) granted codes"

definition grantByButtons :: "bool \<Rightarrow> string list \<Rightarrow> string list \<Rightarrow> string list" where
  "grantByButtons isAdmin buttons granted =
     foldl (\<lambda>g d.
       if d_Kind d = KindDirectory then g
       else if d_Public d then g
       else if d_AdminOnly d then (if isAdmin then insertKey (d_Code d) g else g)
       else if hasAnyAPI buttons (d_RequiredAPIs d) then insertKey (d_Code d) g
       else g) granted Catalog"

definition granted0 :: "ResolveOptions \<Rightarrow> string list" where
  "granted0 opt =
     (if ExplicitMenus opt \<noteq> [] then grantExplicit (ExplicitMenus opt) (grantPublic [])
      else grantByButtons (IsAdmin opt) (Buttons opt) (grantPublic []))"

text \<open>
  One pass \<open>for code := range granted\<close>: the runtime visits the keys in an order of its own and
  may or may not visit a key inserted meanwhile; \<open>codes\<close> is that sequence, and a code that is not
  in the map is not visited. The flag is \<open>changed\<close>.
\<close>

definition addParent :: "string list \<times> bool \<Rightarrow> string \<Rightarrow> string list \<times> bool" where
  "addParent s code = (case s of (granted, changed) \<Rightarrow>
     if code \<notin> set granted then (granted, changed)
     else (case map_of ByCode code of
         None \<Rightarrow> (granted, changed)
       | Some d \<Rightarrow> if d_ParentCode d = [] then (granted, changed)
           else if d_ParentCode d \<in> set granted then (granted, changed)
           else (insertKey (d_ParentCode d) granted, True)))"

definition parentPass :: "string list \<Rightarrow> string list \<Rightarrow> string list \<times> bool" where
  "parentPass codes granted = foldl addParent (granted, False) codes"

text \<open>The codes that can be added: this bounds the loop.\<close>

definition parentCodes :: "string set" where
  "parentCodes = d_ParentCode ` set Catalog"

lemma insertKey_set [simp]: "set (insertKey k m) = insert k (set m)"
  by (auto simp: insertKey_def)

lemma insertKey_distinct [simp]: "distinct m \<Longrightarrow> distinct (insertKey k m)"
  by (simp add: insertKey_def)

lemma ByCode_range: "map_of ByCode code = Some d \<Longrightarrow> d \<in> set Catalog \<and> d_Code d = code"
proof -
  have "map_of (foldl (\<lambda>out d. AList.update (d_Code d) d out) m ds) code = Some d \<Longrightarrow>
      (d \<in> set ds \<and> d_Code d = code) \<or> map_of m code = Some d" for ds m
    by (induction ds arbitrary: m) (fastforce simp: update_conv' split: if_splits)+
  then show "map_of ByCode code = Some d \<Longrightarrow> ?thesis"
    unfolding ByCode_def by fastforce
qed

lemma ByCode_parent: "map_of ByCode code = Some d \<Longrightarrow> d_ParentCode d \<in> parentCodes"
  by (auto simp: parentCodes_def dest: ByCode_range)

lemma addParent_cases:
  assumes "addParent (g, c) code = (g', c')"
  obtains (skip) "g' = g" "c' = c"
    | (add) d where "code \<in> set g" "map_of ByCode code = Some d" "d_ParentCode d \<noteq> []"
        "d_ParentCode d \<notin> set g" "g' = insertKey (d_ParentCode d) g" "c'"
  using assms by (auto simp: addParent_def split: if_splits option.splits)

lemma psubset_insert: "x \<in> A \<Longrightarrow> x \<notin> S \<Longrightarrow> A - insert x S \<subset> A - S"
  by blast

lemma parentPass_measure:
  "foldl addParent (g, c) codes = (g', c') \<Longrightarrow>
   set g \<subseteq> set g' \<and> (c' \<longrightarrow> c \<or> parentCodes - set g' \<subset> parentCodes - set g)"
proof (induction codes arbitrary: g c)
  case Nil
  then show ?case by simp
next
  case (Cons code codes)
  obtain g1 c1 where s: "addParent (g, c) code = (g1, c1)" by fastforce
  from Cons.prems s have "foldl addParent (g1, c1) codes = (g', c')" by simp
  from Cons.IH [OF this] have ih: "set g1 \<subseteq> set g'" "c' \<longrightarrow> c1 \<or> parentCodes - set g' \<subset> parentCodes - set g1" by auto
  from s have "set g \<subseteq> set g1 \<and> (c1 \<longrightarrow> c \<or> parentCodes - set g1 \<subset> parentCodes - set g)"
    by (cases rule: addParent_cases) (simp_all add: psubset_insert ByCode_parent subset_insertI)
  with ih show ?case by blast
qed

function closeParents :: "(nat \<Rightarrow> string list \<Rightarrow> string list) \<Rightarrow> nat \<Rightarrow> string list \<Rightarrow> string list" where
  "closeParents visit n granted =
     (case parentPass (visit n granted) granted of (granted', changed) \<Rightarrow>
        if changed then closeParents visit (Suc n) granted' else granted')"
  by pat_completeness auto
termination
proof (relation "measure (\<lambda>(visit, n, granted). card (parentCodes - set granted))", goal_cases)
  case (2 visit n granted g' changed)
  then have "foldl addParent (granted, False) (visit n granted) = (g', True)" by (simp add: parentPass_def)
  from parentPass_measure [OF this] have "parentCodes - set g' \<subset> parentCodes - set granted" by simp
  then show ?case
    by (auto intro!: psubset_card_mono simp: parentCodes_def)
qed simp

definition Resolve :: "(nat \<Rightarrow> string list \<Rightarrow> string list) \<Rightarrow> ResolveOptions \<Rightarrow> string list" where
  "Resolve visit opt =
     (if IsRoot opt then sortedKeys (foldl (\<lambda>g d. insertKey (d_Code d) g) [] Catalog)
      else sortedKeys (closeParents visit 0 (granted0 opt)))"

definition DeriveFromButtons :: "(nat \<Rightarrow> string list \<Rightarrow> string list) \<Rightarrow> string list \<Rightarrow> bool \<Rightarrow> string list" where
  "DeriveFromButtons visit buttons isAdmin =
     Resolve visit \<lparr>IsRoot = False, IsAdmin = isAdmin, Buttons = buttons, ExplicitMenus = []\<rparr>"

text \<open>The reference: the least set that contains the granted codes and the parents of its members.\<close>

inductive_set withParents :: "string set \<Rightarrow> string set" for B :: "string set" where
  wp_base: "c \<in> B \<Longrightarrow> c \<in> withParents B"
| wp_parent: "c \<in> withParents B \<Longrightarrow> map_of ByCode c = Some d \<Longrightarrow> d_ParentCode d \<noteq> [] \<Longrightarrow> d_ParentCode d \<in> withParents B"

definition visitsAll :: "(nat \<Rightarrow> string list \<Rightarrow> string list) \<Rightarrow> bool" where
  "visitsAll visit \<longleftrightarrow> (\<forall>n g. set g \<subseteq> set (visit n g))"

lemma addParent_sound:
  "addParent (g, c) code = (g', c') \<Longrightarrow> set g \<subseteq> withParents B \<Longrightarrow> set g' \<subseteq> withParents B"
  by (erule addParent_cases) (auto intro: wp_parent)

lemma parentPass_inv:
  assumes "foldl addParent (g, c) codes = (g', c')"
  shows "set g \<subseteq> set g'" and "distinct g \<Longrightarrow> distinct g'" and "set g \<subseteq> withParents B \<Longrightarrow> set g' \<subseteq> withParents B"
proof -
  have "set g \<subseteq> set g' \<and> (distinct g \<longrightarrow> distinct g') \<and> (set g \<subseteq> withParents B \<longrightarrow> set g' \<subseteq> withParents B)"
    using assms
  proof (induction codes arbitrary: g c)
    case Nil
    then show ?case by simp
  next
    case (Cons code codes)
    obtain g1 c1 where s: "addParent (g, c) code = (g1, c1)" by fastforce
    have "set g \<subseteq> set g1 \<and> (distinct g \<longrightarrow> distinct g1)"
      using s by (cases rule: addParent_cases) auto
    with Cons.IH [of g1 c1] Cons.prems s addParent_sound [OF s, of B] show ?case by auto
  qed
  then show "set g \<subseteq> set g'" and "distinct g \<Longrightarrow> distinct g'" and "set g \<subseteq> withParents B \<Longrightarrow> set g' \<subseteq> withParents B"
    by auto
qed

lemma parentPass_True: "foldl addParent (g, True) codes = (g', c') \<Longrightarrow> c'"
proof (induction codes arbitrary: g)
  case (Cons code codes)
  obtain g1 c1 where s: "addParent (g, True) code = (g1, c1)" by fastforce
  then have c1 by (cases rule: addParent_cases) auto
  with Cons s show ?case by auto
qed simp

lemma parentPass_fixed:
  "foldl addParent (g, False) codes = (g', False) \<Longrightarrow>
   g' = g \<and> (\<forall>code \<in> set codes \<inter> set g. \<forall>d. map_of ByCode code = Some d \<longrightarrow> d_ParentCode d = [] \<or> d_ParentCode d \<in> set g)"
proof (induction codes)
  case (Cons code codes)
  obtain g1 c1 where s: "addParent (g, False) code = (g1, c1)" by fastforce
  with Cons.prems have "\<not> c1" by (auto dest: parentPass_True)
  with s have "g1 = g" by (cases rule: addParent_cases) auto
  with Cons s \<open>\<not> c1\<close> have "g' = g" and rest: "\<forall>code \<in> set codes \<inter> set g. \<forall>d. map_of ByCode code = Some d \<longrightarrow> d_ParentCode d = [] \<or> d_ParentCode d \<in> set g"
    by auto
  moreover have "code \<in> set g \<Longrightarrow> map_of ByCode code = Some d \<Longrightarrow> d_ParentCode d = [] \<or> d_ParentCode d \<in> set g" for d
    using s \<open>\<not> c1\<close> by (auto simp: addParent_def split: if_splits)
  ultimately show ?case by auto
qed simp

lemma closeParents_distinct: "distinct g \<Longrightarrow> distinct (closeParents visit n g)"
proof (induction visit n g rule: closeParents.induct)
  case (1 visit n g)
  obtain g' c' where p: "parentPass (visit n g) g = (g', c')" by fastforce
  with parentPass_inv(2) [of g False "visit n g" g' c'] 1 show ?case by (simp add: parentPass_def)
qed

lemma closeParents_set:
  assumes "visitsAll visit"
  shows "set g \<subseteq> withParents B \<Longrightarrow> B \<subseteq> set g \<Longrightarrow> set (closeParents visit n g) = withParents B"
  using assms
proof (induction visit n g rule: closeParents.induct)
  case (1 visit n g)
  obtain g' c' where p: "parentPass (visit n g) g = (g', c')" by fastforce
  note inv = parentPass_inv [OF p [unfolded parentPass_def]]
  show ?case
  proof (cases c')
    case True
    with p inv 1 show ?thesis by simp
  next
    case False
    with p parentPass_fixed [of g "visit n g" g'] have g': "g' = g"
      and closed: "\<forall>code \<in> set (visit n g) \<inter> set g. \<forall>d. map_of ByCode code = Some d \<longrightarrow> d_ParentCode d = [] \<or> d_ParentCode d \<in> set g"
      by (auto simp: parentPass_def)
    have "c \<in> withParents B \<Longrightarrow> c \<in> set g" for c
    proof (induction rule: withParents.induct)
      case (wp_base c)
      with \<open>B \<subseteq> set g\<close> show ?case by blast
    next
      case (wp_parent c d)
      with closed \<open>visitsAll visit\<close> show ?case unfolding visitsAll_def by blast
    qed
    with False p g' 1 show ?thesis by auto
  qed
qed

declare closeParents.simps [simp del]

section \<open>Menu codes from requests, menu resources\<close>

text \<open>\<open>SanitizeCodes\<close>: the loop with its \<open>seen\<close> map and the output so far.\<close>

fun sanitizeLoop :: "string list \<Rightarrow> string list \<Rightarrow> string list \<Rightarrow> goerr + string list" where
  "sanitizeLoop seen out [] = Inr out"
| "sanitizeLoop seen out (code # codes) =
     (if code = [] then sanitizeLoop seen out codes
      else if code \<notin> set ValidCodes then Inl (Errorf (''invalid menu code: '' @ code))
      else if code \<in> set seen then sanitizeLoop seen out codes
      else sanitizeLoop (insertKey code seen) (out @ [code]) codes)"

definition SanitizeCodes :: "string list \<Rightarrow> goerr + string list" where
  "SanitizeCodes codes = sanitizeLoop [] [] codes"

record MenuResource =
  mr_Code :: string
  mr_ParentCode :: string
  mr_Title :: string
  mr_Path :: string
  mr_Kind :: menu_kind
  mr_Public :: bool
  mr_AdminOnly :: bool
  mr_RequiredAPIs :: "string list"

definition ToResources :: "Definition list \<Rightarrow> MenuResource list" where
  "ToResources defs = map (\<lambda>d.
     \<lparr>mr_Code = d_Code d, mr_ParentCode = d_ParentCode d, mr_Title = d_Title d, mr_Path = d_Path d,
      mr_Kind = d_Kind d, mr_Public = d_Public d, mr_AdminOnly = d_AdminOnly d,
      mr_RequiredAPIs = d_RequiredAPIs d\<rparr>) defs"

definition CatalogResources :: "MenuResource list" where
  "CatalogResources = ToResources Catalog"

section \<open>Data scope\<close>

definition CanAccess :: "bool \<Rightarrow> bool \<Rightarrow> bool \<Rightarrow> bool" where
  "CanAccess isRoot isOwner hasScope = (isRoot \<or> isOwner \<or> hasScope)"

definition NeedFilter :: "bool \<Rightarrow> bool" where
  "NeedFilter isRoot = (\<not> isRoot)"

section \<open>Permission codes\<close>

record Endpoint =
  Method :: string
  Path :: string

definition Button :: "string \<Rightarrow> string \<Rightarrow> string" where
  "Button method path = method @ '':'' @ path"

fun ButtonsOf :: "Endpoint list \<Rightarrow> string list" where
  "ButtonsOf [] = []"
| "ButtonsOf (ep # eps) =
     (if Method ep = [] \<or> Path ep = [] then ButtonsOf eps
      else Button (Method ep) (Path ep) # ButtonsOf eps)"

type_synonym button_set = "(string \<times> bool) list"

definition BuildSet :: "Endpoint list \<Rightarrow> button_set" where
  "BuildSet eps = foldl (\<lambda>m ep.
     if Method ep = [] \<or> Path ep = [] then m else AList.update (Button (Method ep) (Path ep)) True m) [] eps"

definition BuildSetFromButtons :: "string list \<Rightarrow> button_set" where
  "BuildSetFromButtons buttons = foldl (\<lambda>m b. if b = [] then m else AList.update b True m) [] buttons"

text \<open>A missing key reads as \<open>false\<close>.\<close>

definition Match :: "button_set \<Rightarrow> string \<Rightarrow> string \<Rightarrow> bool" where
  "Match m method path =
     (if m = [] then False else (case map_of m (Button method path) of None \<Rightarrow> False | Some v \<Rightarrow> v))"

text \<open>\<open>MergeIDs\<close>: the result lists the keys of a map, in the runtime's order \<open>order\<close>.\<close>

definition MergeIDs :: "(int list \<Rightarrow> int list) \<Rightarrow> int list list \<Rightarrow> int list" where
  "MergeIDs order sets =
     order (foldl (\<lambda>merged s. foldl (\<lambda>merged id. if id \<le> 0 then merged else insertKey id merged) merged s) [] sets)"

section \<open>Request classification\<close>

datatype Decision = Allow | Proxy | Check

definition pathUserPermissions :: string where "pathUserPermissions = ''/pixiu/users/permissions''"
definition pathUserLogout :: string where "pathUserLogout = ''/pixiu/users/:userId/logout''"
definition pathProxy :: string where "pathProxy = ''/pixiu/proxy/:clusterName/*act''"
definition pathExternal :: string where "pathExternal = ''/pixiu/external/*act''"

definition Classify :: "int \<Rightarrow> string \<Rightarrow> string \<Rightarrow> Decision" where
  "Classify roleId method fullPath =
     (if roleId = 0 then Allow
      else if method = ''GET'' \<and> fullPath = pathUserPermissions then Allow
      else if method = ''POST'' \<and> fullPath = pathUserLogout then Allow
      else if fullPath = pathProxy \<or> fullPath = pathExternal then Proxy
      else Check)"

definition AllowedBySet :: "button_set \<Rightarrow> string \<Rightarrow> string \<Rightarrow> bool" where
  "AllowedBySet m method fullPath = Match m method fullPath"

lemmas rbac_paths = pathUserPermissions_def pathUserLogout_def pathProxy_def pathExternal_def

section \<open>Facts of the catalog\<close>

lemma Catalog_distinct: "distinct (map d_Code Catalog)"
  by (simp add: Catalog_def mkDef_def)

lemma Catalog_nonempty_code: "d \<in> set Catalog \<Longrightarrow> d_Code d \<noteq> []"
  by (simp add: Catalog_def mkDef_def) (elim disjE; simp)

lemma Catalog_parents: "d \<in> set Catalog \<Longrightarrow> d_ParentCode d \<noteq> [] \<Longrightarrow>
    \<exists>p \<in> set Catalog. d_Code p = d_ParentCode d \<and> d_Kind p = KindDirectory"
  by (simp add: Catalog_def mkDef_def) (elim disjE; simp)

lemma Catalog_directories: "d \<in> set Catalog \<Longrightarrow> d_Kind d = KindDirectory \<Longrightarrow> \<not> d_Public d \<and> d_ParentCode d = []"
  by (simp add: Catalog_def mkDef_def) (elim disjE; simp)

lemma ByCode_fold: "distinct (map d_Code ds) \<Longrightarrow>
    map_of (foldl (\<lambda>out d. AList.update (d_Code d) d out) m ds) = map_of m ++ map_of (map (\<lambda>d. (d_Code d, d)) ds)"
proof (induction ds arbitrary: m)
  case (Cons d ds)
  then have "d_Code d \<notin> dom (map_of (map (\<lambda>d. (d_Code d, d)) ds))" by (auto simp: dom_map_of_conv_image_fst)
  with Cons show ?case by (auto simp: update_conv' map_add_def fun_eq_iff domIff split: option.splits)
qed simp

lemma ByCode_Some: "map_of ByCode c = Some d \<longleftrightarrow> d \<in> set Catalog \<and> d_Code d = c"
  unfolding ByCode_def ByCode_fold [OF Catalog_distinct]
  using Catalog_distinct by (auto simp: comp_def)

lemma fold_insertKey_set: "set (foldl (\<lambda>g d. if P d then insertKey (f d) g else g) g ds) = set g \<union> f ` {d \<in> set ds. P d}"
  by (induction ds arbitrary: g) auto

lemma fold_insertKey_distinct: "distinct g \<Longrightarrow> distinct (foldl (\<lambda>g d. if P d then insertKey (f d) g else g) g ds)"
  by (induction ds arbitrary: g) auto

lemma set_ValidCodes: "set ValidCodes = d_Code ` set Catalog"
  using fold_insertKey_set [of "\<lambda>_. True" d_Code "[]" Catalog] by (simp add: ValidCodes_def)

lemma grantPublic_set: "set (grantPublic g) = set g \<union> d_Code ` {d \<in> set Catalog. d_Public d}"
  unfolding grantPublic_def by (rule fold_insertKey_set)

lemma grantExplicit_set: "set (grantExplicit codes g) = set g \<union> (set codes \<inter> d_Code ` set Catalog)"
  unfolding grantExplicit_def using fold_insertKey_set [of "\<lambda>c. c \<in> set ValidCodes" "\<lambda>c. c" g codes]
  by (auto simp: set_ValidCodes)

definition derivedLeaf :: "bool \<Rightarrow> string list \<Rightarrow> Definition \<Rightarrow> bool" where
  "derivedLeaf isAdmin buttons d \<longleftrightarrow> d_Kind d \<noteq> KindDirectory \<and> \<not> d_Public d \<and>
     (if d_AdminOnly d then isAdmin else hasAnyAPI buttons (d_RequiredAPIs d))"

lemma grantByButtons_eq:
  "grantByButtons isAdmin buttons g = foldl (\<lambda>g d. if derivedLeaf isAdmin buttons d then insertKey (d_Code d) g else g) g Catalog"
  unfolding grantByButtons_def by (intro arg_cong2 [where f = "\<lambda>f x. foldl f x Catalog"]) (auto simp: fun_eq_iff derivedLeaf_def)

lemma grantByButtons_set:
  "set (grantByButtons isAdmin buttons g) = set g \<union> d_Code ` {d \<in> set Catalog. derivedLeaf isAdmin buttons d}"
  unfolding grantByButtons_eq by (rule fold_insertKey_set)

lemma granted0_set:
  "set (granted0 opt) = d_Code ` {d \<in> set Catalog. d_Public d} \<union>
     (if ExplicitMenus opt \<noteq> [] then set (ExplicitMenus opt) \<inter> d_Code ` set Catalog
      else d_Code ` {d \<in> set Catalog. derivedLeaf (IsAdmin opt) (Buttons opt) d})"
  by (simp add: granted0_def grantPublic_set grantExplicit_set grantByButtons_set)

lemma granted0_distinct: "distinct (granted0 opt)"
proof -
  have "distinct (grantPublic [])"
    unfolding grantPublic_def by (rule fold_insertKey_distinct) simp
  then show ?thesis
    using fold_insertKey_distinct [of "grantPublic []" "\<lambda>c. c \<in> set ValidCodes" "\<lambda>c. c" "ExplicitMenus opt"]
    by (simp add: granted0_def grantExplicit_def grantByButtons_eq fold_insertKey_distinct)
qed

lemma Catalog_code_inj: "p \<in> set Catalog \<Longrightarrow> d \<in> set Catalog \<Longrightarrow> d_Code p = d_Code d \<Longrightarrow> p = d"
  using Catalog_distinct unfolding distinct_map by (blast dest: inj_onD)

lemma code_image_iff: "d \<in> set Catalog \<Longrightarrow> d_Code d \<in> d_Code ` {e \<in> set Catalog. P e} \<longleftrightarrow> P d"
  using Catalog_code_inj by blast

lemma leaf_not_parent:
  assumes "d \<in> set Catalog" "d_Kind d = KindMenu" "c \<in> withParents B" "c = d_Code d"
  shows "c \<in> B"
  using assms(3,4)
proof cases
  case (wp_parent c' d')
  then have "d' \<in> set Catalog" by (simp add: ByCode_Some)
  from Catalog_parents [OF this] wp_parent obtain p where "p \<in> set Catalog" "d_Code p = c" "d_Kind p = KindDirectory" by auto
  with Catalog_code_inj [of p d] assms show ?thesis by simp
qed

lemma Resolve_eq:
  assumes "visitsAll visit"
  shows "Resolve visit opt =
    sorted_list_of_set (if IsRoot opt then d_Code ` set Catalog else withParents (set (granted0 opt)))"
proof -
  have "set (closeParents visit 0 (granted0 opt)) = withParents (set (granted0 opt))"
    by (rule closeParents_set [OF assms]) (auto intro: wp_base)
  moreover have "sort xs = sorted_list_of_set (set xs)" if "distinct xs" for xs :: "string list"
    using that by (simp add: sorted_list_of_set_sort_remdups distinct_remdups_id)
  moreover note closeParents_distinct [OF granted0_distinct, of visit 0 opt]
    fold_insertKey_set [of "\<lambda>_. True" d_Code "[]" Catalog] fold_insertKey_distinct [of "[]" "\<lambda>_. True" d_Code Catalog]
  ultimately show ?thesis by (simp add: Resolve_def sortedKeys_def)
qed

text \<open>C18: \<open>Resolve\<close> returns, in strictly increasing order and for every order in which the runtime
  may visit the map, exactly the granted codes closed under parents (the whole catalog for the super
  administrator). The loop always ends: the model of it is a total function.\<close>

theorem Resolve_spec:
  assumes "visitsAll visit"
  shows "Resolve visit opt =
    sorted_list_of_set (if IsRoot opt then d_Code ` set Catalog else withParents (set (granted0 opt)))"
  by (rule Resolve_eq [OF assms])

lemma Resolve_spec_witness:
  "Resolve (\<lambda>n g. rev g) \<lparr>IsRoot = False, IsAdmin = False, Buttons = [''GET:/pixiu/plans''], ExplicitMenus = []\<rparr> =
   sorted_list_of_set (withParents (set (granted0
     \<lparr>IsRoot = False, IsAdmin = False, Buttons = [''GET:/pixiu/plans''], ExplicitMenus = []\<rparr>)))"
  using Resolve_spec [of "\<lambda>n g. rev g" "\<lparr>IsRoot = False, IsAdmin = False, Buttons = [''GET:/pixiu/plans''], ExplicitMenus = []\<rparr>"]
  by (simp add: visitsAll_def)

lemma withParents_code:
  assumes "c \<noteq> []"
  shows "c \<in> withParents B \<longleftrightarrow> c \<in> B \<or> (\<exists>e \<in> set Catalog. d_ParentCode e = c \<and> d_Code e \<in> withParents B)"
proof
  assume "c \<in> withParents B"
  then show "c \<in> B \<or> (\<exists>e \<in> set Catalog. d_ParentCode e = c \<and> d_Code e \<in> withParents B)"
    by cases (auto simp: ByCode_Some)
next
  assume "c \<in> B \<or> (\<exists>e \<in> set Catalog. d_ParentCode e = c \<and> d_Code e \<in> withParents B)"
  with assms show "c \<in> withParents B"
    using wp_parent [of _ B] by (auto simp: ByCode_Some intro: wp_base)
qed

text \<open>which menus a user sees. A leaf menu is visible exactly to the super administrator, to all
  if it is public, to the users whose role binds it explicitly, and, when the role binds no menu, to
  administrators (administrator-only menus) or to the holders of one of its APIs. A directory is
  visible exactly when it is bound explicitly or some menu below it is visible.\<close>

theorem menu_visible_iff:
  assumes visit: "visitsAll visit" and d: "d \<in> set Catalog"
  shows "d_Code d \<in> set (Resolve visit opt) \<longleftrightarrow> IsRoot opt \<or>
    (if d_Kind d = KindMenu
     then d_Public d \<or> (if ExplicitMenus opt \<noteq> [] then d_Code d \<in> set (ExplicitMenus opt)
            else if d_AdminOnly d then IsAdmin opt else hasAnyAPI (Buttons opt) (d_RequiredAPIs d))
     else d_Code d \<in> set (ExplicitMenus opt) \<or>
       (\<exists>e \<in> set Catalog. d_ParentCode e = d_Code d \<and> d_Code e \<in> set (Resolve visit opt)))"
proof (cases "IsRoot opt")
  case True
  with d Resolve_eq [OF visit, of opt] show ?thesis by simp
next
  case False
  let ?B = "set (granted0 opt)"
  have "finite (withParents ?B)"
    using closeParents_set [OF visit, of "granted0 opt" ?B 0] by (metis List.finite_set order_refl subsetI wp_base)
  with False Resolve_eq [OF visit, of opt] have R: "set (Resolve visit opt) = withParents ?B" by simp
  have base: "d_Code d \<in> ?B \<longleftrightarrow> d_Public d \<or> (if ExplicitMenus opt \<noteq> [] then d_Code d \<in> set (ExplicitMenus opt)
      else derivedLeaf (IsAdmin opt) (Buttons opt) d)"
    using d by (simp add: granted0_set code_image_iff [OF d])
  show ?thesis
  proof (cases "d_Kind d")
    case KindMenu
    have "d_Code d \<in> withParents ?B \<longleftrightarrow> d_Code d \<in> ?B"
      using leaf_not_parent [OF d KindMenu] wp_base by blast
    with False KindMenu base R show ?thesis by (auto simp: derivedLeaf_def)
  next
    case KindDirectory
    from Catalog_nonempty_code [OF d] have ne: "d_Code d \<noteq> []" .
    have "d_Code d \<in> withParents ?B \<longleftrightarrow> d_Code d \<in> ?B \<or>
        (\<exists>e \<in> set Catalog. d_ParentCode e = d_Code d \<and> d_Code e \<in> withParents ?B)"
      by (rule withParents_code [OF ne])
    with False KindDirectory base R Catalog_directories [OF d] show ?thesis by (auto simp: derivedLeaf_def)
  qed
qed

lemma Catalog_nth:
  "Catalog ! 2 \<in> set Catalog" "d_Kind (Catalog ! 2) = KindMenu" "\<not> d_Public (Catalog ! 2)" "d_AdminOnly (Catalog ! 2)"
  "Catalog ! 5 \<in> set Catalog" "d_Kind (Catalog ! 5) = KindMenu" "\<not> d_AdminOnly (Catalog ! 5)"
  "d_RequiredAPIs (Catalog ! 5) = [''GET:/pixiu/plans'']"
  by (simp_all add: Catalog_def mkDef_def)

lemma menu_visible_iff_witness:
  "let opt = \<lparr>IsRoot = False, IsAdmin = False, Buttons = [''GET:/pixiu/plans''], ExplicitMenus = []\<rparr>
   in d_Code (Catalog ! 5) \<in> set (Resolve (\<lambda>n g. g) opt) \<and> d_Code (Catalog ! 2) \<notin> set (Resolve (\<lambda>n g. g) opt)"
  using menu_visible_iff [of "\<lambda>n g. g" "Catalog ! 5" "\<lparr>IsRoot = False, IsAdmin = False, Buttons = [''GET:/pixiu/plans''], ExplicitMenus = []\<rparr>"]
    menu_visible_iff [of "\<lambda>n g. g" "Catalog ! 2" "\<lparr>IsRoot = False, IsAdmin = False, Buttons = [''GET:/pixiu/plans''], ExplicitMenus = []\<rparr>"]
  by (simp add: visitsAll_def Catalog_nth hasAnyAPI_def Let_def)

section \<open>Sanitising and matching\<close>

lemma sanitizeLoop_spec:
  "sanitizeLoop seen out codes =
     (if \<forall>c \<in> set codes. c = [] \<or> c \<in> set ValidCodes
      then Inr (out @ dedupFrom seen (filter (\<lambda>c. c \<noteq> []) codes))
      else Inl (Errorf (''invalid menu code: '' @ the (find (\<lambda>c. c \<noteq> [] \<and> c \<notin> set ValidCodes) codes))))"
proof (induction seen out codes rule: sanitizeLoop.induct)
  case (2 seen out code codes)
  have cong: "dedupFrom (insertKey code seen) ys = dedupFrom (code # seen) ys" for ys
    by (rule dedupFrom_cong) simp
  from 2 show ?case by (auto simp: cong)
qed simp

text \<open>\<open>SanitizeCodes\<close> rejects a request exactly when some non-empty code is not in the catalog
  (naming the first such code); otherwise it returns the codes without the empty ones, each once, in
  the order of their first occurrence.\<close>

theorem SanitizeCodes_spec:
  "SanitizeCodes codes =
     (if \<forall>c \<in> set codes. c = [] \<or> c \<in> d_Code ` set Catalog
      then Inr (dedupFrom [] (filter (\<lambda>c. c \<noteq> []) codes))
      else Inl (Errorf (''invalid menu code: '' @ the (find (\<lambda>c. c \<noteq> [] \<and> c \<notin> d_Code ` set Catalog) codes))))"
  by (simp add: SanitizeCodes_def sanitizeLoop_spec set_ValidCodes)

lemma SanitizeCodes_spec_witness:
  "SanitizeCodes [''ai'', [], ''ai'', ''appstore''] = Inr [''ai'', ''appstore'']"
  using SanitizeCodes_spec [of "[''ai'', [], ''ai'', ''appstore'']"] by (simp add: Catalog_def mkDef_def)

lemma Button_inj: "CHR '':'' \<notin> set m \<Longrightarrow> CHR '':'' \<notin> set m' \<Longrightarrow> Button m p = Button m' p' \<Longrightarrow> m = m' \<and> p = p'"
proof -
  assume a: "CHR '':'' \<notin> set m" "CHR '':'' \<notin> set m'" and "Button m p = Button m' p'"
  then have e: "m @ CHR '':'' # p = m' @ CHR '':'' # p'" by (simp add: Button_def)
  have "takeWhile (\<lambda>c. c \<noteq> CHR '':'') (m @ CHR '':'' # p) = m" "takeWhile (\<lambda>c. c \<noteq> CHR '':'') (m' @ CHR '':'' # p') = m'"
    using a by (auto simp: takeWhile_append2 takeWhile_tail)
  with e show "m = m' \<and> p = p'" by simp
qed

lemma BuildSet_map:
  "map_of (BuildSet eps) b = (if \<exists>ep \<in> set eps. Method ep \<noteq> [] \<and> Path ep \<noteq> [] \<and> Button (Method ep) (Path ep) = b then Some True else None)"
proof -
  have "map_of (foldl (\<lambda>m ep. if Method ep = [] \<or> Path ep = [] then m else AList.update (Button (Method ep) (Path ep)) True m) m eps) b =
    (if \<exists>ep \<in> set eps. Method ep \<noteq> [] \<and> Path ep \<noteq> [] \<and> Button (Method ep) (Path ep) = b then Some True else map_of m b)" for m
    by (induction eps arbitrary: m) (auto simp: update_conv')
  then show ?thesis by (simp add: BuildSet_def)
qed

lemma BuildSetFromButtons_map: "map_of (BuildSetFromButtons bs) b = (if b \<in> set bs \<and> b \<noteq> [] then Some True else None)"
proof -
  have "map_of (foldl (\<lambda>m b. if b = [] then m else AList.update b True m) m bs) b =
    (if b \<in> set bs \<and> b \<noteq> [] then Some True else map_of m b)" for m
    by (induction bs arbitrary: m) (auto simp: update_conv')
  then show ?thesis by (simp add: BuildSetFromButtons_def)
qed

lemma Match_iff: "Match m method path \<longleftrightarrow> map_of m (Button method path) = Some True"
  by (auto simp: Match_def split: option.splits)

lemma AllowedBySet_BuildSet:
  assumes "CHR '':'' \<notin> set method" and "\<forall>ep \<in> set eps. CHR '':'' \<notin> set (Method ep)"
  shows "AllowedBySet (BuildSet eps) method path \<longleftrightarrow>
    (\<exists>ep \<in> set eps. Method ep = method \<and> Path ep = path \<and> method \<noteq> [] \<and> path \<noteq> [])"
proof -
  have "Button (Method ep) (Path ep) = Button method path \<longleftrightarrow> Method ep = method \<and> Path ep = path" if "ep \<in> set eps" for ep
    using assms Button_inj that by blast
  then show ?thesis unfolding AllowedBySet_def Match_iff BuildSet_map by auto
qed

lemma ButtonsOf_BuildSet: "map_of (BuildSetFromButtons (ButtonsOf eps)) b = map_of (BuildSet eps) b"
proof -
  have "set (ButtonsOf eps) = {b. \<exists>ep \<in> set eps. Method ep \<noteq> [] \<and> Path ep \<noteq> [] \<and> Button (Method ep) (Path ep) = b}"
    by (induction eps rule: ButtonsOf.induct) auto
  then show ?thesis by (auto simp: BuildSetFromButtons_map BuildSet_map Button_def)
qed

lemma set_MergeIDs:
  assumes "\<And>xs. set (order xs) = set xs"
  shows "set (MergeIDs order sets) = {id \<in> \<Union> (set ` set sets). 0 < id}"
proof -
  have inner: "set (foldl (\<lambda>merged id. if id \<le> 0 then merged else insertKey id merged) m s) = set m \<union> {id \<in> set s. 0 < id}" for m and s :: "int list"
    by (induction s arbitrary: m) auto
  have "set (foldl (\<lambda>merged s. foldl (\<lambda>merged id. if id \<le> 0 then merged else insertKey id merged) merged s) m sets) =
      set m \<union> {id \<in> \<Union> (set ` set sets). 0 < id}" for m :: "int list"
    by (induction sets arbitrary: m) (auto simp: inner)
  then show ?thesis by (simp add: MergeIDs_def assms)
qed

end
