(* ===== verification/Caches.thy ===== *)
theory Caches
  imports Store "HOL-Library.AList"
begin

text \<open>
  The in-memory caches of \<open>pkg/client\<close>: login tokens (\<open>token_cache.go\<close>), user status
  (\<open>user_cache.go\<close>), plan tasks (\<open>task.go\<close>) and cluster clients (\<open>cache.go\<close>). A Go map is an
  association list, a set its list of keys. Every method holds the lock of its cache for its whole
  body, so each is one atomic step. Interface \<open>session_store\<close>: what the user controller relies on.
\<close>

section \<open>Login tokens\<close>

record token_cache =
  tc_items :: "(int \<times> string list) list"

definition NewTokenCache :: token_cache where
  "NewTokenCache = \<lparr>tc_items = []\<rparr>"

definition insertTok :: "string \<Rightarrow> string list \<Rightarrow> string list" where
  "insertTok t ts = (if t \<in> set ts then ts else ts @ [t])"

text \<open>\<open>for token := range tokens { return token, true }\<close>: some key, chosen by the runtime (\<open>pick\<close>).\<close>

definition tokGet :: "(string list \<Rightarrow> string) \<Rightarrow> token_cache \<Rightarrow> int \<Rightarrow> string option" where
  "tokGet pick s uid = (case map_of (tc_items s) uid of
     None \<Rightarrow> None | Some tokens \<Rightarrow> if tokens = [] then None else Some (pick tokens))"

definition tokSet :: "token_cache \<Rightarrow> int \<Rightarrow> string \<Rightarrow> token_cache" where
  "tokSet s uid token = s\<lparr>tc_items := AList.update uid [token] (tc_items s)\<rparr>"

definition tokAdd :: "token_cache \<Rightarrow> int \<Rightarrow> string \<Rightarrow> token_cache" where
  "tokAdd s uid token =
     (let old = (case map_of (tc_items s) uid of None \<Rightarrow> [] | Some ts \<Rightarrow> ts)
      in s\<lparr>tc_items := AList.update uid (insertTok token old) (tc_items s)\<rparr>)"

definition tokDelete :: "token_cache \<Rightarrow> int \<Rightarrow> token_cache" where
  "tokDelete s uid = s\<lparr>tc_items := AList.delete uid (tc_items s)\<rparr>"

definition tokClear :: "token_cache \<Rightarrow> token_cache" where
  "tokClear s = s\<lparr>tc_items := []\<rparr>"

definition tokExists :: "token_cache \<Rightarrow> int \<Rightarrow> string \<Rightarrow> bool" where
  "tokExists s uid token = (case map_of (tc_items s) uid of None \<Rightarrow> False | Some tokens \<Rightarrow> token \<in> set tokens)"

definition tokDeleteToken :: "token_cache \<Rightarrow> int \<Rightarrow> string \<Rightarrow> token_cache" where
  "tokDeleteToken s uid token = (case map_of (tc_items s) uid of
     None \<Rightarrow> s
   | Some tokens \<Rightarrow> (let tokens' = filter (\<lambda>t. t \<noteq> token) tokens
       in if tokens' = [] then s\<lparr>tc_items := AList.delete uid (tc_items s)\<rparr>
          else s\<lparr>tc_items := AList.update uid tokens' (tc_items s)\<rparr>))"

text \<open>No user has an empty set of tokens.\<close>

definition tok_inv :: "token_cache \<Rightarrow> bool" where
  "tok_inv s \<longleftrightarrow> (\<forall>uid ts. map_of (tc_items s) uid = Some ts \<longrightarrow> ts \<noteq> [])"

definition sessions :: "token_cache \<Rightarrow> int \<Rightarrow> string set" where
  "sessions s uid = {t. tokExists s uid t}"

lemmas tok_defs = tokSet_def tokAdd_def tokDelete_def tokClear_def tokDeleteToken_def NewTokenCache_def

lemma tok_inv_ops [simp]:
  "tok_inv NewTokenCache" "tok_inv s \<Longrightarrow> tok_inv (tokSet s u t)" "tok_inv s \<Longrightarrow> tok_inv (tokAdd s u t)"
  "tok_inv s \<Longrightarrow> tok_inv (tokDelete s u)" "tok_inv (tokClear s)" "tok_inv s \<Longrightarrow> tok_inv (tokDeleteToken s u t)"
  by (auto simp: tok_inv_def tok_defs insertTok_def update_conv' delete_conv' Let_def split: option.splits)

lemma tokGet_sessions:
  assumes "tok_inv s" and "\<And>ts. ts \<noteq> [] \<Longrightarrow> pick ts \<in> set ts"
  shows "case tokGet pick s u of None \<Rightarrow> sessions s u = {} | Some t \<Rightarrow> t \<in> sessions s u"
  using assms by (auto simp: tokGet_def sessions_def tokExists_def tok_inv_def split: option.splits)

section \<open>Interface: a store of login sessions\<close>

locale session_store =
  fixes open_sessions :: "'s \<Rightarrow> int \<Rightarrow> string set"
    and sset :: "'s \<Rightarrow> int \<Rightarrow> string \<Rightarrow> 's" and sadd :: "'s \<Rightarrow> int \<Rightarrow> string \<Rightarrow> 's"
    and sdelete :: "'s \<Rightarrow> int \<Rightarrow> 's" and sdeleteToken :: "'s \<Rightarrow> int \<Rightarrow> string \<Rightarrow> 's"
    and sexists :: "'s \<Rightarrow> int \<Rightarrow> string \<Rightarrow> bool"
  assumes set_sessions [simp]: "open_sessions (sset s u t) v = (if v = u then {t} else open_sessions s v)"
    and add_sessions [simp]: "open_sessions (sadd s u t) v = (if v = u then insert t (open_sessions s v) else open_sessions s v)"
    and delete_sessions [simp]: "open_sessions (sdelete s u) v = (if v = u then {} else open_sessions s v)"
    and deleteToken_sessions [simp]: "open_sessions (sdeleteToken s u t) v = (if v = u then open_sessions s v - {t} else open_sessions s v)"
    and exists_sessions [simp]: "sexists s u t \<longleftrightarrow> t \<in> open_sessions s u"
begin

text \<open>A history of logins, logouts and revocations of one store.\<close>

fun play :: "bool \<Rightarrow> 's \<Rightarrow> (int \<times> string) list \<Rightarrow> 's" where
  "play single s [] = s"
| "play single s ((u, t) # logins) = play single (if single then sset s u t else sadd s u t) logins"

lemma play_single: "open_sessions (play True s logins) u =
    (case filter (\<lambda>(v, t). v = u) logins of [] \<Rightarrow> open_sessions s u | xs \<Rightarrow> {snd (last xs)})"
  by (induction True s logins rule: play.induct) (auto split: list.splits)

lemma play_multi: "open_sessions (play False s logins) u = open_sessions s u \<union> snd ` {x \<in> set logins. fst x = u}"
  by (induction False s logins rule: play.induct) (auto simp: image_iff)

lemma revoked: "\<not> sexists (sdelete s u) u t"
  by simp

lemma logged_out: "\<not> sexists (sdeleteToken s u t) u t" "t' \<noteq> t \<Longrightarrow> sexists (sdeleteToken s u t) u t' \<longleftrightarrow> sexists s u t'"
  by simp_all

end

lemma sessions_ops:
  "sessions (tokSet s u t) v = (if v = u then {t} else sessions s v)"
  "sessions (tokAdd s u t) v = (if v = u then insert t (sessions s v) else sessions s v)"
  "sessions (tokDelete s u) v = (if v = u then {} else sessions s v)"
  "sessions (tokDeleteToken s u t) v = (if v = u then sessions s v - {t} else sessions s v)"
  by (cases "map_of (tc_items s) u";
      auto simp: sessions_def tokExists_def tok_defs insertTok_def update_conv' delete_conv' Let_def filter_empty_conv)+

interpretation tokens: session_store sessions tokSet tokAdd tokDelete tokDeleteToken tokExists
  by unfold_locales (simp_all add: sessions_ops, simp add: sessions_def)

section \<open>User status\<close>

type_synonym user_cache = "(int \<times> int) list"

definition ucGet :: "user_cache \<Rightarrow> int \<Rightarrow> int option" where "ucGet s uid = map_of s uid"
definition ucSet :: "user_cache \<Rightarrow> int \<Rightarrow> int \<Rightarrow> user_cache" where "ucSet s uid status = AList.update uid status s"
definition ucDelete :: "user_cache \<Rightarrow> int \<Rightarrow> user_cache" where "ucDelete s uid = AList.delete uid s"
definition ucClear :: "user_cache \<Rightarrow> user_cache" where "ucClear s = []"

lemma ucGet_ops [simp]:
  "ucGet (ucSet s u x) v = (if v = u then Some x else ucGet s v)"
  "ucGet (ucDelete s u) v = (if v = u then None else ucGet s v)"
  "ucGet (ucClear s) v = None"
  by (auto simp: ucGet_def ucSet_def ucDelete_def ucClear_def update_conv' delete_conv')

section \<open>Cluster clients\<close>

record ('client, 'config, 'informer) cluster_set =
  Client :: 'client
  Config :: 'config
  Informer :: 'informer

type_synonym ('c, 'f, 'i) cluster_cache = "(string \<times> ('c, 'f, 'i) cluster_set) list"

definition ccGet :: "('c, 'f, 'i) cluster_cache \<Rightarrow> string \<Rightarrow> ('c, 'f, 'i) cluster_set option" where
  "ccGet s name = map_of s name"

definition ccGetConfig :: "('c, 'f, 'i) cluster_cache \<Rightarrow> string \<Rightarrow> 'f option" where
  "ccGetConfig s name = (case map_of s name of None \<Rightarrow> None | Some cs \<Rightarrow> Some (Config cs))"

definition ccGetClient :: "('c, 'f, 'i) cluster_cache \<Rightarrow> string \<Rightarrow> 'c option" where
  "ccGetClient s name = (case map_of s name of None \<Rightarrow> None | Some cs \<Rightarrow> Some (Client cs))"

definition ccSet :: "('c, 'f, 'i) cluster_cache \<Rightarrow> string \<Rightarrow> ('c, 'f, 'i) cluster_set \<Rightarrow> ('c, 'f, 'i) cluster_cache" where
  "ccSet s name cs = AList.update name cs s"

definition ccDelete :: "('c, 'f, 'i) cluster_cache \<Rightarrow> string \<Rightarrow> ('c, 'f, 'i) cluster_cache" where
  "ccDelete s name = AList.delete name s"

definition ccClear :: "('c, 'f, 'i) cluster_cache \<Rightarrow> ('c, 'f, 'i) cluster_cache" where
  "ccClear s = []"

section \<open>Plan tasks\<close>

record 't wrap_object =
  LatestTime :: int
  Object :: "'t list"

type_synonym 't task_cache = "(int \<times> 't wrap_object) list"

definition taskGet :: "int \<Rightarrow> 't task_cache \<Rightarrow> int \<Rightarrow> 't list option \<times> 't task_cache" where
  "taskGet now c planId = (case map_of c planId of
     None \<Rightarrow> (None, c)
   | Some w \<Rightarrow> (Some (Object w), AList.update planId (w\<lparr>LatestTime := now\<rparr>) c))"

definition taskSet :: "int \<Rightarrow> 't task_cache \<Rightarrow> int \<Rightarrow> 't list \<Rightarrow> 't task_cache" where
  "taskSet now c planId tasks = AList.update planId \<lparr>LatestTime = now, Object = tasks\<rparr> c"

fun indexOf :: "('a \<Rightarrow> bool) \<Rightarrow> nat \<Rightarrow> 'a list \<Rightarrow> nat option" where
  "indexOf P i [] = None"
| "indexOf P i (x # xs) = (if P x then Some i else indexOf P (Suc i) xs)"

definition taskSetByTask :: "int \<Rightarrow> 'm pixiu_model_scheme task_cache \<Rightarrow> int \<Rightarrow> 'm pixiu_model_scheme \<Rightarrow> 'm pixiu_model_scheme task_cache" where
  "taskSetByTask now c planId task = (case map_of c planId of
     None \<Rightarrow> c
   | Some w \<Rightarrow> (case indexOf (\<lambda>s. Oid s = Oid task) 0 (Object w) of
       None \<Rightarrow> c
     | Some i \<Rightarrow> AList.update planId (w\<lparr>Object := (Object w)[i := task], LatestTime := now\<rparr>) c))"

definition taskDelete :: "'t task_cache \<Rightarrow> int \<Rightarrow> 't task_cache" where
  "taskDelete c planId = AList.delete planId c"

text \<open>\<open>WaitForCacheSync\<close>; \<open>lister\<close> is the configured \<open>Lister\<close>.\<close>

definition WaitForCacheSync :: "int \<Rightarrow> int \<Rightarrow> (int \<Rightarrow> goerr + 't list) \<Rightarrow> 't task_cache \<Rightarrow> int \<Rightarrow> (goerr + unit) \<times> 't task_cache" where
  "WaitForCacheSync now1 now2 lister c planId = (case taskGet now1 c planId of
     (Some tasks, c1) \<Rightarrow> (Inr (), c1)
   | (None, c1) \<Rightarrow> (case lister planId of
       Inl err \<Rightarrow> (Inl (Errorf ''failed to get plan tasks from database''), c1)
     | Inr tasks \<Rightarrow> (Inr (), taskSet now2 c1 planId tasks)))"

definition taskTTL :: int where "taskTTL = 5 * 1000000000"

text \<open>One round of \<open>syncTasks\<close>: \<open>order\<close> is the sequence of the keys the runtime visits, \<open>now p\<close> the
  time read when plan \<open>p\<close> is visited; no lister configured is \<open>None\<close>.\<close>

definition syncEntry :: "(int \<Rightarrow> int) \<Rightarrow> (int \<Rightarrow> goerr + 't list) \<Rightarrow> 't task_cache \<Rightarrow> int \<Rightarrow> 't task_cache" where
  "syncEntry now lister c planId = (case map_of c planId of
     None \<Rightarrow> c
   | Some w \<Rightarrow>
       if now planId - LatestTime w > taskTTL then AList.delete planId c
       else (case lister planId of
           Inl err \<Rightarrow> AList.delete planId c
         | Inr newTasks \<Rightarrow> AList.update planId \<lparr>LatestTime = now planId, Object = newTasks\<rparr> c))"

definition syncCachedTasks :: "(int \<Rightarrow> int) \<Rightarrow> (int \<Rightarrow> goerr + 't list) option \<Rightarrow> int list \<Rightarrow> 't task_cache \<Rightarrow> 't task_cache" where
  "syncCachedTasks now listerOpt order c = (case listerOpt of
     None \<Rightarrow> c
   | Some lister \<Rightarrow> if c = [] then c else foldl (syncEntry now lister) c order)"

definition syncedEntry :: "(int \<Rightarrow> int) \<Rightarrow> (int \<Rightarrow> goerr + 't list) \<Rightarrow> int \<Rightarrow> 't wrap_object \<Rightarrow> 't wrap_object option" where
  "syncedEntry now lister planId w =
     (if now planId - LatestTime w > taskTTL then None
      else (case lister planId of Inl err \<Rightarrow> None | Inr ts \<Rightarrow> Some \<lparr>LatestTime = now planId, Object = ts\<rparr>))"

lemma syncEntry_map:
  "map_of (syncEntry now lister c p) q = (if q = p then Option.bind (map_of c p) (syncedEntry now lister p) else map_of c q)"
  by (auto simp: syncEntry_def syncedEntry_def update_conv' delete_conv' split: option.splits sum.splits)

lemma syncEntries_map:
  "distinct order \<Longrightarrow> map_of (foldl (syncEntry now lister) c order) q =
     (if q \<in> set order then Option.bind (map_of c q) (syncedEntry now lister q) else map_of c q)"
  by (induction order arbitrary: c) (auto simp: syncEntry_map)

text \<open>a round of the task cache, whatever order the map is visited in: an entry that nobody
  used for more than five seconds, or that can no longer be listed, is gone; every other one holds
  the list just read from the database and the time of its visit.\<close>

theorem syncCachedTasks_spec:
  assumes "distinct order" and "set order = fst ` set c"
  shows "map_of (syncCachedTasks now (Some lister) order c) p = Option.bind (map_of c p) (syncedEntry now lister p)"
proof (cases "c = []")
  case True
  then show ?thesis by (simp add: syncCachedTasks_def)
next
  case False
  have "map_of c p = None" if "p \<notin> set order" using that assms(2) by (simp add: map_of_eq_None_iff)
  with False show ?thesis by (simp add: syncCachedTasks_def syncEntries_map [OF assms(1)])
qed

lemma syncCachedTasks_spec_witness:
  "map_of (syncCachedTasks (\<lambda>_. 6000000000) (Some (\<lambda>p. Inr [p])) [8, 7]
     [(7, \<lparr>LatestTime = 0, Object = [1]\<rparr>), (8, \<lparr>LatestTime = 5000000000, Object = [2::int]\<rparr>)]) 7 = None"
  using syncCachedTasks_spec [of "[8, 7]" "[(7, \<lparr>LatestTime = 0, Object = [1]\<rparr>), (8, \<lparr>LatestTime = 5000000000, Object = [2::int]\<rparr>)]"
    "\<lambda>_. 6000000000" "\<lambda>p. Inr [p]" 7]
  by (auto simp: syncedEntry_def taskTTL_def)

text \<open>Reading back.\<close>

lemma taskGet_taskSet: "fst (taskGet now (taskSet now' c p ts) q) = (if q = p then Some ts else fst (taskGet now c q))"
  by (simp add: taskGet_def taskSet_def update_conv' split: option.splits)

lemma indexOf_Some: "indexOf P i xs = Some n \<Longrightarrow> i \<le> n \<and> n - i < length xs \<and> P (xs ! (n - i))"
  by (induction P i xs rule: indexOf.induct) (auto simp: nth_Cons' split: if_splits dest: Suc_leD)

lemma WaitForCacheSync_present:
  "WaitForCacheSync n1 n2 lister c p = (Inr (), c') \<Longrightarrow> map_of c' p \<noteq> None"
  by (auto simp: WaitForCacheSync_def taskGet_def taskSet_def update_conv' split: option.splits prod.splits sum.splits)

end
