(* ===== verification/IamDb.thy ===== *)
theory IamDb
  imports Dao RbacPolicy Caches
begin

text \<open>
  Users, roles, API resources and tenants in the database: the rows of \<open>pkg/db/model\<close>
  (\<open>user.go\<close>, \<open>tenant.go\<close>, \<open>role_api_scope.go\<close>, \<open>role_menu.go\<close>), the state that holds them, and the
  DAO methods of \<open>pkg/db/{user,role,role_api,role_api_scope,role_menu,apis,tenant}.go\<close>. Each table
  is an instance of the interface \<open>db_table\<close>; the guarded updates are instances of \<open>versioned_dao\<close>.
\<close>

section \<open>Rows\<close>

definition RoleRoot :: int where "RoleRoot = 0"
definition RoleAdmin :: int where "RoleAdmin = 1"
definition RoleUser :: int where "RoleUser = 2"

definition UserStatusNormal :: int where "UserStatusNormal = 0"
definition UserStatusForbidden :: int where "UserStatusForbidden = 1"

lemmas role_defs = RoleRoot_def RoleAdmin_def RoleUser_def
lemmas user_status_defs = UserStatusNormal_def UserStatusForbidden_def

record User = pixiu_model +
  u_TenantId :: int
  u_Name :: string
  u_Password :: string
  u_Status :: int
  u_Role :: int
  u_Email :: string
  u_Phone :: string
  u_Description :: string
  u_Extension :: string

record Tenant = pixiu_model +
  t_Name :: string
  t_Description :: string
  t_Extension :: string

text \<open>\<open>tenant_id\<close> is declared \<open>default:null\<close>: a zero is stored as NULL and read back as zero, so 0
  stands for NULL in this column.\<close>

record Role = pixiu_model +
  ro_TenantId :: int
  ro_Name :: string
  ro_Description :: string

record API = pixiu_model +
  a_Method :: string
  a_Path :: string
  a_Group :: string
  a_Description :: string

record RoleAPI = pixiu_model +
  ra_RoleId :: int
  ra_APIId :: int

record RoleAPIScope = pixiu_model +
  rs_RoleId :: int
  rs_APIId :: int
  rs_ResourceType :: string
  rs_ResourceId :: int

record RoleMenu = pixiu_model +
  rm_RoleId :: int
  rm_MenuCode :: string

section \<open>The database\<close>

record iam_db = env +
  users :: "User table"
  roles :: "Role table"
  role_apis :: "RoleAPI table"
  role_api_scopes :: "RoleAPIScope table"
  role_menus :: "RoleMenu table"
  apis :: "API table"
  tenants :: "Tenant table"

definition users_t :: "('m iam_db_scheme, User) tref" where
  "users_t = \<lparr>tget = users, tupd = users_update,
     tuniq = (\<lambda>r s. u_TenantId r = u_TenantId s \<and> u_Name r = u_Name s), tdefaults = (\<lambda>r. r)\<rparr>"

definition tenantCol :: "Role \<Rightarrow> int option" where
  "tenantCol r = (if ro_TenantId r = 0 then None else Some (ro_TenantId r))"

definition roles_t :: "('m iam_db_scheme, Role) tref" where
  "roles_t = \<lparr>tget = roles, tupd = roles_update,
     tuniq = (\<lambda>r s. tenantCol r \<noteq> None \<and> tenantCol r = tenantCol s \<and> ro_Name r = ro_Name s), tdefaults = (\<lambda>r. r)\<rparr>"

text \<open>The primary key of \<open>role_apis\<close> is (id, role\_id, api\_id): it never conflicts.\<close>

definition role_apis_t :: "('m iam_db_scheme, RoleAPI) tref" where
  "role_apis_t = \<lparr>tget = role_apis, tupd = role_apis_update, tuniq = (\<lambda>r s. False), tdefaults = (\<lambda>r. r)\<rparr>"

definition role_api_scopes_t :: "('m iam_db_scheme, RoleAPIScope) tref" where
  "role_api_scopes_t = \<lparr>tget = role_api_scopes, tupd = role_api_scopes_update,
     tuniq = (\<lambda>r s. rs_RoleId r = rs_RoleId s \<and> rs_APIId r = rs_APIId s \<and>
       rs_ResourceType r = rs_ResourceType s \<and> rs_ResourceId r = rs_ResourceId s), tdefaults = (\<lambda>r. r)\<rparr>"

definition role_menus_t :: "('m iam_db_scheme, RoleMenu) tref" where
  "role_menus_t = \<lparr>tget = role_menus, tupd = role_menus_update,
     tuniq = (\<lambda>r s. rm_RoleId r = rm_RoleId s \<and> rm_MenuCode r = rm_MenuCode s), tdefaults = (\<lambda>r. r)\<rparr>"

definition apis_t :: "('m iam_db_scheme, API) tref" where
  "apis_t = \<lparr>tget = apis, tupd = apis_update,
     tuniq = (\<lambda>r s. a_Method r = a_Method s \<and> a_Path r = a_Path s), tdefaults = (\<lambda>r. r)\<rparr>"

definition tenants_t :: "('m iam_db_scheme, Tenant) tref" where
  "tenants_t = \<lparr>tget = tenants, tupd = tenants_update, tuniq = (\<lambda>r s. t_Name r = t_Name s), tdefaults = (\<lambda>r. r)\<rparr>"

lemmas iam_tables = users_t_def roles_t_def role_apis_t_def role_api_scopes_t_def role_menus_t_def apis_t_def tenants_t_def

lemma trefs [simp]:
  "tget users_t = users" "tupd users_t = users_update" "tdefaults users_t = (\<lambda>r. r)"
  "tget roles_t = roles" "tupd roles_t = roles_update" "tdefaults roles_t = (\<lambda>r. r)"
  "tget role_apis_t = role_apis" "tupd role_apis_t = role_apis_update" "tdefaults role_apis_t = (\<lambda>r. r)"
  "tget role_api_scopes_t = role_api_scopes" "tupd role_api_scopes_t = role_api_scopes_update" "tdefaults role_api_scopes_t = (\<lambda>r. r)"
  "tget role_menus_t = role_menus" "tupd role_menus_t = role_menus_update" "tdefaults role_menus_t = (\<lambda>r. r)"
  "tget apis_t = apis" "tupd apis_t = apis_update" "tdefaults apis_t = (\<lambda>r. r)"
  "tget tenants_t = tenants" "tupd tenants_t = tenants_update" "tdefaults tenants_t = (\<lambda>r. r)"
  by (simp_all add: iam_tables)

interpretation users_tab: db_table "users_t :: ('m iam_db_scheme, User) tref" by unfold_locales simp_all
interpretation roles_tab: db_table "roles_t :: ('m iam_db_scheme, Role) tref" by unfold_locales simp_all
interpretation role_apis_tab: db_table "role_apis_t :: ('m iam_db_scheme, RoleAPI) tref" by unfold_locales simp_all
interpretation scopes_tab: db_table "role_api_scopes_t :: ('m iam_db_scheme, RoleAPIScope) tref" by unfold_locales simp_all
interpretation role_menus_tab: db_table "role_menus_t :: ('m iam_db_scheme, RoleMenu) tref" by unfold_locales simp_all
interpretation apis_tab: db_table "apis_t :: ('m iam_db_scheme, API) tref" by unfold_locales simp_all
interpretation tenants_tab: db_table "tenants_t :: ('m iam_db_scheme, Tenant) tref" by unfold_locales simp_all

section \<open>Users\<close>

definition userCreate :: "User \<Rightarrow> ('m iam_db_scheme, goerr, unit) act list \<Rightarrow> ('m iam_db_scheme, goerr, User) act" where
  "userCreate object fns = andThen timeNow (\<lambda>now.
     transaction (andThen (sqlCreate users_t (object\<lparr>GmtCreate := now, GmtModified := now\<rparr>)) (\<lambda>object.
       andThen (forEach (\<lambda>fn. fn) fns) (\<lambda>_. ret object))))"

definition userUpdate :: "int \<Rightarrow> int \<Rightarrow> User updates \<Rightarrow> ('m iam_db_scheme, goerr, unit) act" where
  "userUpdate = daoUpdate users_t (Util ErrRecordNotUpdate)"

definition userDelete :: "int \<Rightarrow> ('m iam_db_scheme, goerr, unit) act" where
  "userDelete uid = andThen (sqlDelete users_t (\<lambda>r. Oid r = uid)) (\<lambda>_. ret ())"

definition userGet :: "int \<Rightarrow> ('m iam_db_scheme, goerr, User option) act" where
  "userGet uid = orNil (sqlFirst users_t (\<lambda>r. Oid r = uid))"

definition userGetRoot :: "('m iam_db_scheme, goerr, User option) act" where
  "userGetRoot = orNil (sqlFirst users_t (\<lambda>r. u_Role r = RoleRoot))"

definition userGetUserByName :: "string \<Rightarrow> ('m iam_db_scheme, goerr, User option) act" where
  "userGetUserByName userName = orNil (sqlFirst users_t (\<lambda>r. u_Name r = userName))"

definition userList :: "User options list \<Rightarrow> ('m iam_db_scheme, goerr, User list) act" where
  "userList opts = daoList users_t opts"

definition userCount :: "User options list \<Rightarrow> ('m iam_db_scheme, goerr, int) act" where
  "userCount opts = daoCount users_t opts"

section \<open>Roles\<close>

definition roleCreate :: "Role \<Rightarrow> ('m iam_db_scheme, goerr, Role) act" where
  "roleCreate object = daoCreate roles_t object"

definition roleUpdate :: "int \<Rightarrow> int \<Rightarrow> Role updates \<Rightarrow> ('m iam_db_scheme, goerr, unit) act" where
  "roleUpdate = daoUpdate roles_t (Util ErrRecordNotUpdate)"

definition roleGet :: "int \<Rightarrow> ('m iam_db_scheme, goerr, Role option) act" where
  "roleGet rid = orNil (sqlFirst roles_t (\<lambda>r. Oid r = rid))"

definition roleDelete :: "int \<Rightarrow> ('m iam_db_scheme, goerr, Role option) act" where
  "roleDelete rid = andThen (roleGet rid) (\<lambda>object. case object of
     None \<Rightarrow> ret None
   | Some r \<Rightarrow> andThen (sqlDelete roles_t (\<lambda>r. Oid r = rid)) (\<lambda>_. ret (Some r)))"

definition roleList :: "Role options list \<Rightarrow> ('m iam_db_scheme, goerr, Role list) act" where
  "roleList opts = daoList roles_t opts"

definition roleCount :: "Role options list \<Rightarrow> ('m iam_db_scheme, goerr, int) act" where
  "roleCount opts = daoCount roles_t opts"

definition roleGetBy :: "Role options list \<Rightarrow> ('m iam_db_scheme, goerr, Role option) act" where
  "roleGetBy opts = daoGetBy roles_t opts"

section \<open>API resources and tenants\<close>

definition apiCreate :: "API \<Rightarrow> ('m iam_db_scheme, goerr, API) act" where
  "apiCreate object = daoCreate apis_t object"

definition apiUpdate :: "int \<Rightarrow> int \<Rightarrow> API updates \<Rightarrow> ('m iam_db_scheme, goerr, unit) act" where
  "apiUpdate = daoUpdate apis_t (Util ErrRecordNotUpdate)"

definition apiGet :: "int \<Rightarrow> ('m iam_db_scheme, goerr, API option) act" where
  "apiGet aid = orNil (sqlFirst apis_t (\<lambda>r. Oid r = aid))"

definition apiDelete :: "int \<Rightarrow> ('m iam_db_scheme, goerr, API option) act" where
  "apiDelete aid = andThen (apiGet aid) (\<lambda>object. case object of
     None \<Rightarrow> ret None
   | Some r \<Rightarrow> andThen (sqlDelete apis_t (\<lambda>r. Oid r = aid)) (\<lambda>_. ret (Some r)))"

definition apiList :: "API options list \<Rightarrow> ('m iam_db_scheme, goerr, API list) act" where
  "apiList opts = daoList apis_t opts"

definition apiCount :: "API options list \<Rightarrow> ('m iam_db_scheme, goerr, int) act" where
  "apiCount opts = daoCount apis_t opts"

definition GetByMethodAndPath :: "string \<Rightarrow> string \<Rightarrow> ('m iam_db_scheme, goerr, API option) act" where
  "GetByMethodAndPath method path = orNil (sqlFirst apis_t (\<lambda>r. a_Method r = method \<and> a_Path r = path))"

text \<open>\<open>JOIN role_apis ON role_apis.api_id = apis.id WHERE role_apis.role_id = ?\<close>\<close>

definition GetByRoleId :: "int \<Rightarrow> ('m iam_db_scheme, goerr, API list) act" where
  "GetByRoleId roleId = sqlSelect (\<lambda>w.
     concat (map (\<lambda>ra. filter (\<lambda>a. Oid a = ra_APIId ra) (rows (apis w)))
       (filter (\<lambda>ra. ra_RoleId ra = roleId) (rows (role_apis w)))))"

definition tenantCreate :: "Tenant \<Rightarrow> ('m iam_db_scheme, goerr, Tenant) act" where
  "tenantCreate object = daoCreate tenants_t object"

definition tenantUpdate :: "int \<Rightarrow> int \<Rightarrow> Tenant updates \<Rightarrow> ('m iam_db_scheme, goerr, unit) act" where
  "tenantUpdate = daoUpdate tenants_t (Util ErrRecordNotUpdate)"

definition tenantGet :: "int \<Rightarrow> ('m iam_db_scheme, goerr, Tenant option) act" where
  "tenantGet tid = orNil (sqlFirst tenants_t (\<lambda>r. Oid r = tid))"

definition tenantDelete :: "int \<Rightarrow> ('m iam_db_scheme, goerr, Tenant option) act" where
  "tenantDelete tid = andThen (tenantGet tid) (\<lambda>object. case object of
     None \<Rightarrow> ret None
   | Some r \<Rightarrow> andThen (sqlDelete tenants_t (\<lambda>r. Oid r = tid)) (\<lambda>_. ret (Some r)))"

definition tenantList :: "Tenant options list \<Rightarrow> ('m iam_db_scheme, goerr, Tenant list) act" where
  "tenantList opts = daoList tenants_t opts"

definition tenantCount :: "Tenant options list \<Rightarrow> ('m iam_db_scheme, goerr, int) act" where
  "tenantCount opts = daoCount tenants_t opts"

definition GetTenantByName :: "string \<Rightarrow> ('m iam_db_scheme, goerr, Tenant option) act" where
  "GetTenantByName name = orNil (sqlFirst tenants_t (\<lambda>r. t_Name r = name))"

section \<open>APIs, scopes and menus of a role\<close>

definition ListAPIIdsByRoleId :: "int \<Rightarrow> ('m iam_db_scheme, goerr, int list) act" where
  "ListAPIIdsByRoleId roleId = sqlSelect (\<lambda>w.
     map ra_APIId (filter (\<lambda>r. ra_RoleId r = roleId) (rows (role_apis w))))"

definition roleApiReplaceByRoleId :: "int \<Rightarrow> int list \<Rightarrow> ('m iam_db_scheme, goerr, unit) act" where
  "roleApiReplaceByRoleId roleId apiIds = transaction
     (andThen (sqlDelete role_apis_t (\<lambda>r. ra_RoleId r = roleId)) (\<lambda>_.
        if apiIds = [] then ret ()
        else andThen timeNow (\<lambda>now. sqlCreateBatch role_apis_t
          (map (\<lambda>apiId. \<lparr>Oid = 0, GmtCreate = now, GmtModified = now, ResourceVersion = 0,
             ra_RoleId = roleId, ra_APIId = apiId\<rparr>) apiIds))))"

definition normalizeScope :: "RoleAPIScope \<Rightarrow> RoleAPIScope" where
  "normalizeScope s = s\<lparr>rs_ResourceType := TrimSpace (rs_ResourceType s)\<rparr>"

definition ListScopes :: "int \<Rightarrow> ('m iam_db_scheme, goerr, RoleAPIScope list) act" where
  "ListScopes roleId = sqlFind role_api_scopes_t (\<lambda>r. rs_RoleId r = roleId)"

definition ListResourceIDsByRole :: "int \<Rightarrow> string \<Rightarrow> ('m iam_db_scheme, goerr, int list) act" where
  "ListResourceIDsByRole roleId resourceType = sqlSelect (\<lambda>w.
     map rs_ResourceId (filter (\<lambda>r. rs_RoleId r = roleId \<and> rs_ResourceType r = resourceType) (rows (role_api_scopes w))))"

definition HasScope :: "int \<Rightarrow> string \<Rightarrow> int \<Rightarrow> ('m iam_db_scheme, goerr, bool) act" where
  "HasScope roleId resourceType resourceId = sqlSelect (\<lambda>w.
     0 < length (filter (\<lambda>r. rs_RoleId r = roleId \<and> rs_ResourceType r = resourceType \<and> rs_ResourceId r = resourceId)
       (rows (role_api_scopes w))))"

definition scopeKey :: "RoleAPIScope \<Rightarrow> string" where
  "scopeKey s = Join [FormatInt (rs_APIId s), rs_ResourceType s, FormatInt (rs_ResourceId s)] ''|''"

fun prepareLoop :: "int \<Rightarrow> int \<Rightarrow> string list \<Rightarrow> RoleAPIScope list \<Rightarrow> RoleAPIScope list" where
  "prepareLoop now roleId seen [] = []"
| "prepareLoop now roleId seen (scope # scopes) =
     (let item = normalizeScope (scope\<lparr>rs_RoleId := roleId\<rparr>)
      in if rs_APIId item \<le> 0 \<or> TrimSpace (rs_ResourceType item) = [] \<or> rs_ResourceId item \<le> 0
         then prepareLoop now roleId seen scopes
         else if scopeKey item \<in> set seen then prepareLoop now roleId seen scopes
         else item\<lparr>GmtCreate := now, GmtModified := now\<rparr> # prepareLoop now roleId (scopeKey item # seen) scopes)"

definition prepareScopeRecords :: "int \<Rightarrow> RoleAPIScope list \<Rightarrow> ('m iam_db_scheme, goerr, RoleAPIScope list) act" where
  "prepareScopeRecords roleId scopes = andThen timeNow (\<lambda>now. ret (prepareLoop now roleId [] scopes))"

definition ReplaceScopes :: "int \<Rightarrow> RoleAPIScope list \<Rightarrow> ('m iam_db_scheme, goerr, unit) act" where
  "ReplaceScopes roleId scopes = transaction
     (andThen (sqlDelete role_api_scopes_t (\<lambda>r. rs_RoleId r = roleId)) (\<lambda>_.
      andThen (prepareScopeRecords roleId scopes) (\<lambda>records.
        if records = [] then ret () else sqlCreateBatch role_api_scopes_t records)))"

definition AddScopes :: "int \<Rightarrow> RoleAPIScope list \<Rightarrow> ('m iam_db_scheme, goerr, unit) act" where
  "AddScopes roleId scopes = andThen (prepareScopeRecords roleId scopes) (\<lambda>records.
     if records = [] then ret () else sqlCreateNew role_api_scopes_t records)"

definition RemoveScopes :: "int \<Rightarrow> RoleAPIScope list \<Rightarrow> ('m iam_db_scheme, goerr, unit) act" where
  "RemoveScopes roleId scopes =
     (if scopes = [] then ret ()
      else transaction (forEach (\<lambda>scope. let item = normalizeScope scope in
        andThen (sqlDelete role_api_scopes_t (\<lambda>r. rs_RoleId r = roleId \<and> rs_APIId r = rs_APIId item \<and>
            rs_ResourceType r = rs_ResourceType item \<and> rs_ResourceId r = rs_ResourceId item)) (\<lambda>_. ret ())) scopes))"

definition ListMenuCodesByRoleId :: "int \<Rightarrow> ('m iam_db_scheme, goerr, string list) act" where
  "ListMenuCodesByRoleId roleId = sqlSelect (\<lambda>w.
     map rm_MenuCode (filter (\<lambda>r. rm_RoleId r = roleId) (rows (role_menus w))))"

definition roleMenuReplaceByRoleId :: "int \<Rightarrow> string list \<Rightarrow> ('m iam_db_scheme, goerr, unit) act" where
  "roleMenuReplaceByRoleId roleId menuCodes = transaction
     (andThen (sqlDelete role_menus_t (\<lambda>r. rm_RoleId r = roleId)) (\<lambda>_.
        if menuCodes = [] then ret ()
        else andThen timeNow (\<lambda>now. sqlCreateBatch role_menus_t
          (map (\<lambda>code. \<lparr>Oid = 0, GmtCreate = now, GmtModified = now, ResourceVersion = 0,
             rm_RoleId = roleId, rm_MenuCode = code\<rparr>) menuCodes))))"

lemmas iam_reads = userGet_def userGetRoot_def userGetUserByName_def userList_def userCount_def
  roleGet_def roleList_def roleCount_def roleGetBy_def apiGet_def apiList_def apiCount_def GetByMethodAndPath_def
  GetByRoleId_def tenantGet_def tenantList_def tenantCount_def GetTenantByName_def ListAPIIdsByRoleId_def
  ListScopes_def ListResourceIDsByRole_def HasScope_def ListMenuCodesByRoleId_def

section \<open>Replacing is all or nothing\<close>

definition apiPair :: "RoleAPI \<Rightarrow> int \<times> int" where "apiPair r = (ra_RoleId r, ra_APIId r)"
definition menuPair :: "RoleMenu \<Rightarrow> int \<times> string" where "menuPair r = (rm_RoleId r, rm_MenuCode r)"


lemma roleApiReplace_cases:
  assumes "roleApiReplaceByRoleId roleId ids w = (r, w')"
  shows "case r of
     Inr _ \<Rightarrow> w' = w\<lparr>tick := tick w', role_apis := role_apis w'\<rparr> \<and>
       map apiPair (rows (role_apis w')) = filter (\<lambda>(r, a). r \<noteq> roleId) (map apiPair (rows (role_apis w))) @ map (Pair roleId) ids
   | Inl _ \<Rightarrow> w' = w\<lparr>tick := tick w'\<rparr>"
proof -
  have ig: "ignoresOid apiPair" by (simp add: ignoresOid_def apiPair_def)
  have keep: "map apiPair (filter (\<lambda>r. ra_RoleId r \<noteq> roleId) rs) = filter (\<lambda>(r, a). r \<noteq> roleId) (map apiPair rs)" for rs
    by (induction rs) (auto simp: apiPair_def)
  have new: "apiPair \<lparr>Oid = i, GmtCreate = now, GmtModified = now, ResourceVersion = 0, ra_RoleId = roleId, ra_APIId = apiId\<rparr> = (roleId, apiId)" for i now apiId
    by (simp add: apiPair_def)
  have "wp (roleApiReplaceByRoleId roleId ids)
    (\<lambda>_ w'. w' = w\<lparr>tick := tick w', role_apis := role_apis w'\<rparr> \<and>
       map apiPair (rows (role_apis w')) = filter (\<lambda>(r, a). r \<noteq> roleId) (map apiPair (rows (role_apis w))) @ map (Pair roleId) ids)
    (\<lambda>_ w'. w' = w\<lparr>tick := tick w'\<rparr>) w"
    using insertAll_map [OF ig]
    by (auto simp: roleApiReplaceByRoleId_def wp_transaction wp_simps Let_def delTable_def keep new split: option.splits)
  then show ?thesis using assms by (auto simp: wp_def split: sum.splits)
qed

lemma roleMenuReplace_cases:
  assumes "roleMenuReplaceByRoleId roleId codes w = (r, w')"
  shows "case r of
     Inr _ \<Rightarrow> w' = w\<lparr>tick := tick w', role_menus := role_menus w'\<rparr> \<and>
       map menuPair (rows (role_menus w')) = filter (\<lambda>(r, c). r \<noteq> roleId) (map menuPair (rows (role_menus w))) @ map (Pair roleId) codes
   | Inl _ \<Rightarrow> w' = w\<lparr>tick := tick w'\<rparr>"
proof -
  have ig: "ignoresOid menuPair" by (simp add: ignoresOid_def menuPair_def)
  have keep: "map menuPair (filter (\<lambda>r. rm_RoleId r \<noteq> roleId) rs) = filter (\<lambda>(r, c). r \<noteq> roleId) (map menuPair rs)" for rs
    by (induction rs) (auto simp: menuPair_def)
  have new: "menuPair \<lparr>Oid = i, GmtCreate = now, GmtModified = now, ResourceVersion = 0, rm_RoleId = roleId, rm_MenuCode = c\<rparr> = (roleId, c)" for i now c
    by (simp add: menuPair_def)
  have "wp (roleMenuReplaceByRoleId roleId codes)
    (\<lambda>_ w'. w' = w\<lparr>tick := tick w', role_menus := role_menus w'\<rparr> \<and>
       map menuPair (rows (role_menus w')) = filter (\<lambda>(r, c). r \<noteq> roleId) (map menuPair (rows (role_menus w))) @ map (Pair roleId) codes)
    (\<lambda>_ w'. w' = w\<lparr>tick := tick w'\<rparr>) w"
    using insertAll_map [OF ig]
    by (auto simp: roleMenuReplaceByRoleId_def wp_transaction wp_simps Let_def delTable_def keep new split: option.splits)
  then show ?thesis using assms by (auto simp: wp_def split: sum.splits)
qed

section \<open>Scopes\<close>

definition scopeTriple :: "RoleAPIScope \<Rightarrow> int \<times> string \<times> int" where
  "scopeTriple s = (rs_APIId s, rs_ResourceType s, rs_ResourceId s)"

lemma split_first: "c \<notin> set x \<Longrightarrow> c \<notin> set y \<Longrightarrow> x @ c # xs = y @ c # ys \<Longrightarrow> x = y \<and> xs = ys"
proof -
  assume a: "c \<notin> set x" "c \<notin> set y" and e: "x @ c # xs = y @ c # ys"
  have "takeWhile (\<lambda>d. d \<noteq> c) (z @ c # zs) = z" if "c \<notin> set z" for z zs
    using that by (subst takeWhile_append2) auto
  with a e have "x = y" by metis
  with e show ?thesis by simp
qed

lemma bar_not_in_FormatInt: "CHR ''|'' \<notin> set (FormatInt i)"
proof
  assume "CHR ''|'' \<in> set (FormatInt i)"
  from FormatInt_chars [OF this] show False by (auto simp: charDigit_def split: if_splits)
qed

lemma scopeKey_iff: "scopeKey s = scopeKey s' \<longleftrightarrow> scopeTriple s = scopeTriple s'"
proof
  assume "scopeKey s = scopeKey s'"
  then have "FormatInt (rs_APIId s) @ CHR ''|'' # rs_ResourceType s @ CHR ''|'' # FormatInt (rs_ResourceId s) =
      FormatInt (rs_APIId s') @ CHR ''|'' # rs_ResourceType s' @ CHR ''|'' # FormatInt (rs_ResourceId s')"
    by (simp add: scopeKey_def)
  from split_first [OF bar_not_in_FormatInt bar_not_in_FormatInt this]
  have a: "rs_APIId s = rs_APIId s'" and
    rest: "rs_ResourceType s @ CHR ''|'' # FormatInt (rs_ResourceId s) = rs_ResourceType s' @ CHR ''|'' # FormatInt (rs_ResourceId s')"
    by (auto dest: FormatInt_inj)
  from arg_cong [OF rest, of rev] have "rev (FormatInt (rs_ResourceId s)) @ CHR ''|'' # rev (rs_ResourceType s) =
      rev (FormatInt (rs_ResourceId s')) @ CHR ''|'' # rev (rs_ResourceType s')" by simp
  from split_first [OF _ _ this] have "rs_ResourceId s = rs_ResourceId s' \<and> rs_ResourceType s = rs_ResourceType s'"
    by (auto simp: bar_not_in_FormatInt dest: FormatInt_inj)
  with a show "scopeTriple s = scopeTriple s'" by (simp add: scopeTriple_def)
next
  assume "scopeTriple s = scopeTriple s'"
  then show "scopeKey s = scopeKey s'" by (simp add: scopeTriple_def scopeKey_def)
qed

text \<open>the key that \<open>prepareScopeRecords\<close> deduplicates by identifies the scope: two scopes have
  the same key exactly when API, resource type and resource id are equal, whatever characters the
  resource type contains.\<close>

theorem scopeKey_injective:
  "scopeKey s = scopeKey s' \<longleftrightarrow> rs_APIId s = rs_APIId s' \<and> rs_ResourceType s = rs_ResourceType s' \<and> rs_ResourceId s = rs_ResourceId s'"
  unfolding scopeKey_iff by (simp add: scopeTriple_def)

definition validScope :: "int \<times> string \<times> int \<Rightarrow> bool" where
  "validScope = (\<lambda>(a, t, r). 0 < a \<and> t \<noteq> [] \<and> 0 < r)"

definition wantedScopes :: "RoleAPIScope list \<Rightarrow> (int \<times> string \<times> int) list" where
  "wantedScopes scopes = filter validScope (map (\<lambda>s. scopeTriple (normalizeScope s)) scopes)"

lemma scopeKey_normalize: "scopeKey (normalizeScope (s\<lparr>rs_RoleId := i\<rparr>)) = scopeKey (normalizeScope s)"
  by (simp add: scopeKey_def normalizeScope_def)

lemma prepareLoop_step:
  assumes "item = normalizeScope (scope\<lparr>rs_RoleId := roleId\<rparr>)"
  shows "prepareLoop now roleId seen (scope # scopes) =
    (if \<not> validScope (scopeTriple item) \<or> scopeKey item \<in> set seen then prepareLoop now roleId seen scopes
     else item\<lparr>GmtCreate := now, GmtModified := now\<rparr> # prepareLoop now roleId (scopeKey item # seen) scopes)"
proof -
  have "validScope (scopeTriple item) \<longleftrightarrow> \<not> (rs_APIId item \<le> 0 \<or> TrimSpace (rs_ResourceType item) = [] \<or> rs_ResourceId item \<le> 0)"
    using assms by (auto simp: validScope_def scopeTriple_def normalizeScope_def)
  then show ?thesis using assms by (simp add: Let_def)
qed

lemma wantedScopes_step:
  assumes "item = normalizeScope (scope\<lparr>rs_RoleId := roleId\<rparr>)"
  shows "wantedScopes (scope # scopes) = (if validScope (scopeTriple item) then scopeTriple item # wantedScopes scopes else wantedScopes scopes)"
  using assms by (simp add: wantedScopes_def scopeTriple_def normalizeScope_def)

lemma prepareLoop_triples:
  "(\<forall>s. scopeKey s \<in> set seen \<longleftrightarrow> scopeTriple s \<in> set ts) \<Longrightarrow>
   map scopeTriple (prepareLoop now roleId seen scopes) = dedupFrom ts (wantedScopes scopes)"
proof (induction scopes arbitrary: seen ts)
  case Nil
  then show ?case by (simp add: wantedScopes_def)
next
  case (Cons scope scopes)
  define item where "item = normalizeScope (scope\<lparr>rs_RoleId := roleId\<rparr>)"
  have seen': "\<forall>s. scopeKey s \<in> set (scopeKey item # seen) \<longleftrightarrow> scopeTriple s \<in> set (scopeTriple item # ts)"
    using Cons.prems by (simp add: scopeKey_iff)
  have u: "scopeTriple (item\<lparr>GmtCreate := now, GmtModified := now\<rparr>) = scopeTriple item" by (simp add: scopeTriple_def)
  show ?case
    unfolding prepareLoop_step [OF item_def] wantedScopes_step [OF item_def]
    using Cons.IH [OF Cons.prems] Cons.IH [OF seen'] Cons.prems u by auto
qed

lemma prepareLoop_role: "r \<in> set (prepareLoop now roleId seen scopes) \<Longrightarrow> rs_RoleId r = roleId"
  by (induction now roleId seen scopes rule: prepareLoop.induct) (auto simp: normalizeScope_def Let_def split: if_splits)

lemma insertAll_succeeds:
  assumes "\<And>r i s. u (r\<lparr>Oid := i\<rparr>) s = u r s" and "\<And>r s j. u r (s\<lparr>Oid := j\<rparr>) = u r s" and "\<And>r s. u r s = u s r"
  shows "\<forall>r \<in> set rs. \<forall>s \<in> set (rows T). \<not> u r s \<Longrightarrow> sorted_wrt (\<lambda>r s. \<not> u r s) rs \<Longrightarrow> insertAll u rs T \<noteq> None"
proof (induction rs arbitrary: T)
  case (Cons r rs)
  let ?T = "\<lparr>rows = rows T @ [r\<lparr>Oid := next_id T\<rparr>], next_id = next_id T + 1\<rparr>"
  have "\<not> list_ex (u (r\<lparr>Oid := next_id T\<rparr>)) (rows T)" using Cons.prems(1) assms(1) by (auto simp: list_ex_iff)
  moreover have "insertAll u rs ?T \<noteq> None"
    using Cons.prems assms by (intro Cons.IH) auto
  ultimately show ?case by simp
qed simp

lemma ReplaceScopes_cases:
  assumes "ReplaceScopes roleId scopes w = (r, w')"
  shows "case r of
     Inr _ \<Rightarrow> w' = w\<lparr>tick := tick w', role_api_scopes := role_api_scopes w'\<rparr> \<and>
       map (\<lambda>s. (rs_RoleId s, scopeTriple s)) (rows (role_api_scopes w')) =
         filter (\<lambda>(r, t). r \<noteq> roleId) (map (\<lambda>s. (rs_RoleId s, scopeTriple s)) (rows (role_api_scopes w))) @
         map (Pair roleId) (dedupFrom [] (wantedScopes scopes))
   | Inl e \<Rightarrow> w' = w\<lparr>tick := tick w'\<rparr> \<and> (\<exists>n. fault w n \<noteq> None)"
proof -
  let ?f = "\<lambda>s. (rs_RoleId s, scopeTriple s)"
  let ?records = "\<lambda>now. prepareLoop now roleId [] scopes"
  have ig: "ignoresOid ?f" by (simp add: ignoresOid_def scopeTriple_def)
  have keep: "map ?f (filter (\<lambda>r. rs_RoleId r \<noteq> roleId) rs) = filter (\<lambda>(r, t). r \<noteq> roleId) (map ?f rs)" for rs
    by (induction rs) auto
  have triples: "map scopeTriple (?records now) = dedupFrom [] (wantedScopes scopes)" for now
    by (rule prepareLoop_triples) simp
  have new: "map ?f (?records now) = map (Pair roleId) (dedupFrom [] (wantedScopes scopes))" for now
  proof -
    have "map ?f (?records now) = map (\<lambda>s. (roleId, scopeTriple s)) (?records now)"
      by (intro map_cong refl) (simp add: prepareLoop_role)
    then show ?thesis using triples [of now] by (metis (mono_tags) comp_apply map_cong map_map)
  qed
  have never: "insertAll (tuniq role_api_scopes_t) (?records now) (delTable (\<lambda>r. rs_RoleId r = roleId) (role_api_scopes w)) \<noteq> None" for now
  proof (rule insertAll_succeeds)
    show "\<forall>r \<in> set (?records now). \<forall>s \<in> set (rows (delTable (\<lambda>r. rs_RoleId r = roleId) (role_api_scopes w))). \<not> tuniq role_api_scopes_t r s"
      by (auto simp: delTable_def role_api_scopes_t_def dest: prepareLoop_role)
    have "distinct (map scopeTriple (?records now))" unfolding triples by (rule distinct_dedupFrom)
    then show "sorted_wrt (\<lambda>r s. \<not> tuniq role_api_scopes_t r s) (?records now)"
      unfolding distinct_map distinct_conv_nth sorted_wrt_iff_nth_less
      by (auto simp: role_api_scopes_t_def scopeTriple_def inj_on_def)
  qed (auto simp: role_api_scopes_t_def)
  have never': "insertAll (tuniq role_api_scopes_t) (?records now) (delTable (\<lambda>r. rs_RoleId r = roleId) (role_api_scopes w)) = None \<longleftrightarrow> False" for now
    using never by blast
  have empty: "?records now = [] \<Longrightarrow> dedupFrom [] (wantedScopes scopes) = []" for now
    using triples [of now] by simp
  have "wp (ReplaceScopes roleId scopes)
    (\<lambda>_ w'. w' = w\<lparr>tick := tick w', role_api_scopes := role_api_scopes w'\<rparr> \<and>
       map ?f (rows (role_api_scopes w')) = filter (\<lambda>(r, t). r \<noteq> roleId) (map ?f (rows (role_api_scopes w))) @
         map (Pair roleId) (dedupFrom [] (wantedScopes scopes)))
    (\<lambda>_ w'. w' = w\<lparr>tick := tick w'\<rparr> \<and> (\<exists>n. fault w n \<noteq> None)) w"
    by (auto simp: ReplaceScopes_def prepareScopeRecords_def wp_transaction wp_simps Let_def never'
        keep insertAll_map [OF ig] new delTable_rows dest: empty split: option.splits)
  then show ?thesis using assms by (auto simp: wp_def split: sum.splits)
qed

lemma insertNew_keys:
  assumes u: "\<And>r s. u r s \<longleftrightarrow> f r = f s" and ig: "ignoresOid f"
  shows "f ` set (rows (insertNew u rs T)) = f ` set (rows T) \<union> f ` set rs"
proof (induction rs arbitrary: T)
  case (Cons r rs)
  have f: "f (r\<lparr>Oid := i\<rparr>) = f r" for i using ig by (simp add: ignoresOid_def)
  show ?case
  proof (cases "list_ex (u (r\<lparr>Oid := next_id T\<rparr>)) (rows T)")
    case True
    then have "f r \<in> f ` set (rows T)" unfolding list_ex_iff u f by auto
    with True Cons.IH [of T] show ?thesis by auto
  next
    case False
    with Cons.IH show ?thesis by (simp add: f Un_insert_left Un_insert_right)
  qed
qed simp

text \<open>The scopes a role has.\<close>

definition scopeRow :: "RoleAPIScope \<Rightarrow> int \<times> int \<times> string \<times> int" where
  "scopeRow s = (rs_RoleId s, scopeTriple s)"

definition scopeSet :: "'m iam_db_scheme \<Rightarrow> (int \<times> int \<times> string \<times> int) set" where
  "scopeSet w = scopeRow ` set (rows (role_api_scopes w))"

lemma AddScopes_cases:
  assumes "AddScopes roleId scopes w = (r, w')"
  shows "w' = w\<lparr>tick := tick w', role_api_scopes := role_api_scopes w'\<rparr> \<and>
    scopeSet w' = (case r of Inr _ \<Rightarrow> scopeSet w \<union> Pair roleId ` set (wantedScopes scopes) | Inl _ \<Rightarrow> scopeSet w)"
proof -
  have u: "tuniq role_api_scopes_t r s \<longleftrightarrow> scopeRow r = scopeRow s" for r s
    by (simp add: role_api_scopes_t_def scopeRow_def scopeTriple_def)
  have ig: "ignoresOid scopeRow" by (simp add: ignoresOid_def scopeRow_def scopeTriple_def)
  have triples: "set (map scopeTriple (prepareLoop now roleId [] scopes)) = set (wantedScopes scopes)" for now
    by (subst prepareLoop_triples [where ts = "[]"]) (simp_all add: set_dedupFrom)
  have new: "scopeRow ` set (prepareLoop now roleId [] scopes) = Pair roleId ` set (wantedScopes scopes)" for now
    unfolding triples [of now, symmetric] by (force simp: scopeRow_def image_iff dest: prepareLoop_role)
  have empty: "prepareLoop now roleId [] scopes = [] \<Longrightarrow> wantedScopes scopes = []" for now
    using triples [of now] by simp
  have "wp (AddScopes roleId scopes)
    (\<lambda>_ w'. w' = w\<lparr>tick := tick w', role_api_scopes := role_api_scopes w'\<rparr> \<and> scopeSet w' = scopeSet w \<union> Pair roleId ` set (wantedScopes scopes))
    (\<lambda>_ w'. w' = w\<lparr>tick := tick w', role_api_scopes := role_api_scopes w'\<rparr> \<and> scopeSet w' = scopeSet w) w"
    by (auto simp: AddScopes_def prepareScopeRecords_def wp_simps Let_def scopeSet_def insertNew_keys [OF u ig] new
        dest: empty split: option.splits)
  then show ?thesis using assms by (auto simp: wp_def split: sum.splits)
qed

definition removedScopes :: "RoleAPIScope list \<Rightarrow> (int \<times> string \<times> int) list" where
  "removedScopes scopes = map (\<lambda>s. scopeTriple (normalizeScope s)) scopes"

lemma delete_scope_set:
  "scopeRow ` set (rows (delTable (\<lambda>r. rs_RoleId r = roleId \<and> rs_APIId r = rs_APIId item \<and>
     rs_ResourceType r = rs_ResourceType item \<and> rs_ResourceId r = rs_ResourceId item) T)) =
   scopeRow ` set (rows T) - {(roleId, scopeTriple item)}"
  by (auto simp: delTable_def scopeRow_def scopeTriple_def)

lemma removeLoop_wp:
  "wp (forEach (\<lambda>scope. let item = normalizeScope scope in
        andThen (sqlDelete role_api_scopes_t (\<lambda>r. rs_RoleId r = roleId \<and> rs_APIId r = rs_APIId item \<and>
            rs_ResourceType r = rs_ResourceType item \<and> rs_ResourceId r = rs_ResourceId item)) (\<lambda>_. ret ())) scopes)
    (\<lambda>_ w'. w' = w\<lparr>tick := tick w', role_api_scopes := role_api_scopes w'\<rparr> \<and>
       scopeSet w' = scopeSet w - Pair roleId ` set (removedScopes scopes)) (\<lambda>_ _. True) w"
proof (induction scopes arbitrary: w)
  case Nil
  show ?case by (simp add: wp_simps removedScopes_def)
next
  case (Cons scope scopes)
  show ?case
    unfolding forEach.simps Let_def wp_simps
    apply (simp split: option.splits)
    apply (intro impI)
    apply (rule wp_mono [OF Cons.IH [unfolded Let_def]])
     apply (auto simp: scopeSet_def delete_scope_set removedScopes_def)
    done
qed

lemma scopes_frame_tick:
  assumes "w' = w\<lparr>tick := tick w', role_api_scopes := role_api_scopes w'\<rparr>"
  shows "w'\<lparr>tick := n\<rparr> = w\<lparr>tick := n, role_api_scopes := role_api_scopes w'\<rparr>"
  by (subst assms) simp

lemma scopeSet_tick [simp]: "scopeSet (w\<lparr>tick := n\<rparr>) = scopeSet w"
  by (simp add: scopeSet_def)

lemma RemoveScopes_cases:
  assumes "RemoveScopes roleId scopes w = (r, w')"
  shows "w' = w\<lparr>tick := tick w', role_api_scopes := role_api_scopes w'\<rparr> \<and>
    scopeSet w' = (case r of Inr _ \<Rightarrow> scopeSet w - Pair roleId ` set (removedScopes scopes) | Inl _ \<Rightarrow> scopeSet w)"
proof -
  have "wp (RemoveScopes roleId scopes)
    (\<lambda>_ w'. w' = w\<lparr>tick := tick w', role_api_scopes := role_api_scopes w'\<rparr> \<and> scopeSet w' = scopeSet w - Pair roleId ` set (removedScopes scopes))
    (\<lambda>_ w'. w' = w\<lparr>tick := tick w', role_api_scopes := role_api_scopes w'\<rparr> \<and> scopeSet w' = scopeSet w) w"
    unfolding RemoveScopes_def wp_simps if_app wp_transaction
    by (auto simp: removedScopes_def [of "[]"] intro!: scopes_frame_tick wp_mono [OF removeLoop_wp] split: option.splits)
  then show ?thesis using assms by (auto simp: wp_def split: sum.splits)
qed

section \<open>Properties of the DAOs\<close>

text \<open>C20: \<open>ReplaceByRoleId\<close> is all or nothing: on success the role has exactly the given APIs and every
  other role what it had; on any failure, in whichever statement, no table has changed.\<close>

theorem roleApiReplace_atomic:
  assumes "roleApiReplaceByRoleId roleId ids w = (r, w')"
  shows "case r of
     Inr _ \<Rightarrow> w' = w\<lparr>tick := tick w', role_apis := role_apis w'\<rparr> \<and>
       map apiPair (rows (role_apis w')) = filter (\<lambda>(r, a). r \<noteq> roleId) (map apiPair (rows (role_apis w))) @ map (Pair roleId) ids
   | Inl _ \<Rightarrow> w' = w\<lparr>tick := tick w'\<rparr>"
  using roleApiReplace_cases [OF assms] .

definition demoDb :: iam_db where
  "demoDb = \<lparr>tick = 0, clock = int, fault = (\<lambda>_. None),
     users = \<lparr>rows = [\<lparr>Oid = 1, GmtCreate = 0, GmtModified = 0, ResourceVersion = 0, u_TenantId = 0, u_Name = ''root'',
        u_Password = ''h:Secret123'', u_Status = 0, u_Role = 0, u_Email = [], u_Phone = [], u_Description = [], u_Extension = []\<rparr>], next_id = 2\<rparr>,
     roles = \<lparr>rows = [], next_id = 1\<rparr>,
     role_apis = \<lparr>rows = [\<lparr>Oid = 1, GmtCreate = 0, GmtModified = 0, ResourceVersion = 0, ra_RoleId = 2, ra_APIId = 9\<rparr>], next_id = 2\<rparr>,
     role_api_scopes = \<lparr>rows = [], next_id = 1\<rparr>, role_menus = \<lparr>rows = [], next_id = 1\<rparr>,
     apis = \<lparr>rows = [], next_id = 1\<rparr>, tenants = \<lparr>rows = [], next_id = 1\<rparr>\<rparr>"

lemma roleApiReplace_atomic_witness:
  "map apiPair (rows (role_apis (snd (roleApiReplaceByRoleId 3 [5, 7] demoDb)))) = [(2, 9), (3, 5), (3, 7)]"
proof -
  have "fst (roleApiReplaceByRoleId 3 [5, 7] demoDb) = Inr ()"
    by (simp add: roleApiReplaceByRoleId_def transaction_def andThen_def onResult_def sqlDelete_def stmt_def timeNow_def
        sqlCreateBatch_def demoDb_def Let_def role_apis_t_def delTable_def)
  with roleApiReplace_atomic [OF surjective_pairing, of 3 "[5, 7]" demoDb] show ?thesis
    by (simp add: demoDb_def apiPair_def)
qed

text \<open>\<open>ReplaceScopes\<close> fails only when a statement of the database fails (the rows it prepares
  never collide), and then changes nothing; otherwise the scopes of the role are the valid ones of
  the request, with the resource type trimmed, each once and in order, and the scopes of the other
  roles are untouched.\<close>

theorem ReplaceScopes_spec:
  assumes "ReplaceScopes roleId scopes w = (r, w')"
  shows "case r of
     Inr _ \<Rightarrow> w' = w\<lparr>tick := tick w', role_api_scopes := role_api_scopes w'\<rparr> \<and>
       map (\<lambda>s. (rs_RoleId s, scopeTriple s)) (rows (role_api_scopes w')) =
         filter (\<lambda>(r, t). r \<noteq> roleId) (map (\<lambda>s. (rs_RoleId s, scopeTriple s)) (rows (role_api_scopes w))) @
         map (Pair roleId) (dedupFrom [] (wantedScopes scopes))
   | Inl e \<Rightarrow> w' = w\<lparr>tick := tick w'\<rparr> \<and> (\<exists>n. fault w n \<noteq> None)"
  using ReplaceScopes_cases [OF assms] .

definition demoScope :: "int \<Rightarrow> string \<Rightarrow> int \<Rightarrow> RoleAPIScope" where
  "demoScope a t i = \<lparr>Oid = 0, GmtCreate = 0, GmtModified = 0, ResourceVersion = 0,
     rs_RoleId = 0, rs_APIId = a, rs_ResourceType = t, rs_ResourceId = i\<rparr>"

lemma ReplaceScopes_spec_witness:
  "map scopeTriple (rows (role_api_scopes (snd (ReplaceScopes 3 [demoScope 5 '' plans'' 1, demoScope 5 ''plans'' 1, demoScope 0 ''plans'' 1] demoDb))))
   = [(5, ''plans'', 1)]"
proof -
  let ?scopes = "[demoScope 5 '' plans'' 1, demoScope 5 ''plans'' 1, demoScope 0 ''plans'' 1]"
  note spec = ReplaceScopes_spec [OF surjective_pairing, of 3 ?scopes demoDb]
  have "isl (fst (ReplaceScopes 3 ?scopes demoDb)) = False"
    using spec by (auto simp: demoDb_def split: sum.splits)
  with spec have "map (\<lambda>s. (rs_RoleId s, scopeTriple s)) (rows (role_api_scopes (snd (ReplaceScopes 3 ?scopes demoDb)))) =
     map (Pair 3) (dedupFrom [] (wantedScopes ?scopes))"
    by (auto simp: demoDb_def split: sum.splits)
  then have "map snd (map (\<lambda>s. (rs_RoleId s, scopeTriple s)) (rows (role_api_scopes (snd (ReplaceScopes 3 ?scopes demoDb))))) =
     dedupFrom [] (wantedScopes ?scopes)" by (simp add: comp_def)
  moreover have "dedupFrom [] (wantedScopes ?scopes) = [(5, ''plans'', 1)]"
    by (simp add: wantedScopes_def validScope_def scopeTriple_def normalizeScope_def demoScope_def TrimSpace_def isSpace_def)
  ultimately show ?thesis by (simp add: comp_def)
qed

interpretation users_lock: versioned_dao "\<lambda>w. rows (users w)" userUpdate "\<lambda>w. table_ok (users w)"
  using users_tab.versioned [of "Util ErrRecordNotUpdate"] by (simp add: userUpdate_def)

interpretation roles_lock: versioned_dao "\<lambda>w. rows (roles w)" roleUpdate "\<lambda>w. table_ok (roles w)"
  using roles_tab.versioned [of "Util ErrRecordNotUpdate"] by (simp add: roleUpdate_def)

interpretation apis_lock: versioned_dao "\<lambda>w. rows (apis w)" apiUpdate "\<lambda>w. table_ok (apis w)"
  using apis_tab.versioned [of "Util ErrRecordNotUpdate"] by (simp add: apiUpdate_def)

interpretation tenants_lock: versioned_dao "\<lambda>w. rows (tenants w)" tenantUpdate "\<lambda>w. table_ok (tenants w)"
  using tenants_tab.versioned [of "Util ErrRecordNotUpdate"] by (simp add: tenantUpdate_def)

text \<open>optimistic locking: of any number of updates of one user, role, API or tenant that carry the
  same resource version, at most one succeeds, whichever statements fail in between.\<close>

theorem iam_update_race:
  assumes "table_ok (users w)" and "table_ok (roles w)" and "table_ok (apis w)" and "table_ok (tenants w)"
    and "\<And>us. us \<in> set us1 \<Longrightarrow> keepsOid us" and "\<And>us. us \<in> set us2 \<Longrightarrow> keepsOid us"
    and "\<And>us. us \<in> set us3 \<Longrightarrow> keepsOid us" and "\<And>us. us \<in> set us4 \<Longrightarrow> keepsOid us"
  shows "race userUpdate i v us1 w \<le> 1 \<and> race roleUpdate i v us2 w \<le> 1 \<and>
    race apiUpdate i v us3 w \<le> 1 \<and> race tenantUpdate i v us4 w \<le> 1"
  using users_lock.race_at_most_one [OF assms(1,5)] roles_lock.race_at_most_one [OF assms(2,6)]
    apis_lock.race_at_most_one [OF assms(3,7)] tenants_lock.race_at_most_one [OF assms(4,8)] by blast

lemma iam_update_race_witness:
  "race userUpdate 1 0 [[(''status'', u_Status_update (\<lambda>_. 1))], [(''email'', u_Email_update (\<lambda>_. ''e''))]] demoDb \<le> 1"
  by (rule iam_update_race [of demoDb _ "[]" "[]" "[]", THEN conjunct1])
    (auto simp: demoDb_def table_ok_def keepsOid_def applyUpdates_def)

end
