(* ===== verification/UserController.thy ===== *)
theory UserController
  imports IamDb
begin

text \<open>
  The user controller (\<open>pkg/controller/user/user.go\<close>), the ownership checks all controllers share
  (\<open>pkg/controller/util/util.go\<close>), the token of a request (\<open>pkg/util/token\<close>) and the authentication
  and authorization middlewares (\<open>api/server/middleware\<close>). bcrypt, JWT signing and parsing are
  parameters. The state adds the two package-level caches to the database.
\<close>

section \<open>State, configuration, requests\<close>

record iam_state = iam_db +
  userIndexer :: user_cache
  tokenIndexer :: token_cache

record claims =
  cl_Id :: int
  cl_Name :: string
  cl_Tenant :: int

text \<open>
  The libraries: \<open>bcryptHash\<close> (salted, so it depends on the moment), \<open>bcryptEq hash password\<close>,
  \<open>signToken now id name tenant key\<close>, \<open>parseJwt now token key\<close>.
\<close>

record crypto =
  bcryptHash :: "nat \<Rightarrow> string \<Rightarrow> goerr + string"
  bcryptEq :: "string \<Rightarrow> string \<Rightarrow> bool"
  signToken :: "int \<Rightarrow> int \<Rightarrow> string \<Rightarrow> int \<Rightarrow> string \<Rightarrow> goerr + string"
  parseJwt :: "int \<Rightarrow> string \<Rightarrow> string \<Rightarrow> goerr + claims"

record default_config =
  SingleLogin :: bool
  JWTKey :: string
  DebugMode :: bool

text \<open>A request: method, URL path, route template, the headers that are read, and the user that the
  authentication put into the context.\<close>

record http_request =
  hr_Method :: string
  hr_URLPath :: string
  hr_FullPath :: string
  hr_Authorization :: string
  hr_Upgrade :: string
  hr_WsProtocol :: string

type_synonym context_user = "User option"

record CreateUserRequest =
  cu_Name :: string
  cu_Password :: string
  cu_Role :: int
  cu_Status :: int
  cu_Email :: string
  cu_Phone :: string
  cu_Description :: string

record UpdateUserRequest =
  uu_Role :: int
  uu_Status :: int
  uu_Email :: string
  uu_Phone :: string
  uu_Description :: string
  uu_ResourceVersion :: int

record UpdateUserPasswordRequest =
  up_New :: string
  up_Old :: string
  up_ResourceVersion :: int
  up_Reset :: bool

record LoginResponse =
  lr_UserId :: int
  lr_UserName :: string
  lr_Token :: string
  lr_Role :: int

record types_User =
  tu_Id :: int
  tu_ResourceVersion :: int
  tu_Name :: string
  tu_Description :: string
  tu_Status :: int
  tu_Role :: int
  tu_Email :: string
  tu_Phone :: string
  tu_GmtCreate :: int
  tu_GmtModified :: int

section \<open>Shared helpers\<close>

text \<open>\<open>x, err := m; if err != nil { klog...; return errors.ErrServerInternal }\<close>\<close>

definition orInternal :: "('w, goerr, 'a) act \<Rightarrow> ('a \<Rightarrow> ('w, goerr, 'b) act) \<Rightarrow> ('w, goerr, 'b) act" where
  "orInternal m f = onResult m (\<lambda>_. fail ErrServerInternal) f"

lemma wp_orInternal [wp_simps]: "wp (orInternal m f) Q E = wp m (\<lambda>x. wp (f x) Q E) (\<lambda>_. E ErrServerInternal)"
  by (simp add: orInternal_def wp_simps)

lemma keeps_orInternal [keeps_intros]: "keeps I m \<Longrightarrow> (\<And>x. keeps I (f x)) \<Longrightarrow> keeps I (orInternal m f)"
  unfolding orInternal_def by (intro keeps_intros)

definition GetUserFromContext :: "context_user \<Rightarrow> ('w, goerr, User) act" where
  "GetUserFromContext ctx = (case ctx of None \<Rightarrow> fail (Errorf ''get nil user'') | Some u \<Rightarrow> ret u)"

definition GetUserIdFromContext :: "context_user \<Rightarrow> ('w, goerr, int) act" where
  "GetUserIdFromContext ctx = andThen (GetUserFromContext ctx) (\<lambda>user. ret (Oid user))"

definition UserNameFromContext :: "context_user \<Rightarrow> ('w, goerr, string) act" where
  "UserNameFromContext ctx = andThen (GetUserFromContext ctx) (\<lambda>user. ret (u_Name user))"

definition EffectiveUserID :: "context_user \<Rightarrow> int \<Rightarrow> ('w, goerr, int) act" where
  "EffectiveUserID ctx reqUserID = andThen (GetUserFromContext ctx) (\<lambda>user.
     if u_Role user = RoleRoot then ret reqUserID else ret (Oid user))"

definition CheckResourceOwner :: "context_user \<Rightarrow> int \<Rightarrow> ('w, goerr, unit) act" where
  "CheckResourceOwner ctx resourceOwnerID = andThen (GetUserFromContext ctx) (\<lambda>user.
     if u_Role user = RoleRoot then ret ()
     else if Oid user \<noteq> resourceOwnerID then fail ErrForbidden
     else ret ())"

definition ResourceTypePlan :: string where "ResourceTypePlan = ''plan''"
definition ResourceTypeCluster :: string where "ResourceTypeCluster = ''cluster''"
definition ResourceTypeNode :: string where "ResourceTypeNode = ''node''"
definition ResourceTypeRunner :: string where "ResourceTypeRunner = ''runner''"
definition ResourceTypeAgent :: string where "ResourceTypeAgent = ''agent''"
definition ResourceTypeAccount :: string where "ResourceTypeAccount = ''account''"
definition ResourceTypeDatasource :: string where "ResourceTypeDatasource = ''datasource''"
definition ResourceTypeDistribution :: string where "ResourceTypeDistribution = ''distribution''"

definition CheckResourceAccess :: "context_user \<Rightarrow> int \<Rightarrow> string \<Rightarrow> int \<Rightarrow> ('m iam_db_scheme, goerr, unit) act" where
  "CheckResourceAccess ctx resourceOwnerID resourceType resourceId = andThen (GetUserFromContext ctx) (\<lambda>user.
     let isRoot = (u_Role user = RoleRoot); isOwner = (Oid user = resourceOwnerID)
     in andThen (if \<not> isRoot \<and> \<not> isOwner then HasScope (u_Role user) resourceType resourceId else ret False) (\<lambda>hasScope.
       if CanAccess isRoot isOwner hasScope then ret () else fail ErrForbidden))"

text \<open>\<open>nil\<close> (no filter) is \<open>None\<close>.\<close>

definition AuthorizedResourceIDs :: "context_user \<Rightarrow> string \<Rightarrow> ('m iam_db_scheme, goerr, int list option) act" where
  "AuthorizedResourceIDs ctx resourceType = andThen (GetUserFromContext ctx) (\<lambda>user.
     if \<not> NeedFilter (u_Role user = RoleRoot) then ret None
     else andThen (ListResourceIDsByRole (u_Role user) resourceType) (\<lambda>ids. ret (Some ids)))"

definition ExtractToken :: "http_request \<Rightarrow> bool \<Rightarrow> goerr + string" where
  "ExtractToken c ws =
     (if ws then (if hr_WsProtocol c = [] then Inl (Errorf ''authorization header is not provided'') else Inr (hr_WsProtocol c))
      else if hr_Authorization c = [] then Inl (Errorf ''authorization header is not provided'')
      else (let fields = Fields (hr_Authorization c)
        in if length fields \<noteq> 2 then Inl (Errorf ''invalid authorization header format'')
           else if fields ! 0 \<noteq> ''Bearer'' then Inl (Errorf ''unsupported authorization type'')
           else Inr (fields ! 1)))"

text \<open>\<open>ListOptions\<close> with the fields of the structures it embeds.\<close>

record ListOptions =
  lo_UserId :: int
  lo_Page :: int
  lo_Limit :: int
  lo_NameSelector :: string
  lo_UserPhone :: string
  lo_UserEmail :: string
  lo_Status :: "int option"
  lo_TenantId :: "int option"
  lo_Method :: string
  lo_PathSelector :: string
  lo_Group :: string
  lo_RuleId :: int
  lo_EventId :: int
  lo_ClusterId :: int
  lo_Severity :: int
  lo_ChannelType :: int
  lo_Enabled :: "bool option"
  lo_Step :: string
  lo_UserRole :: int
  lo_LabelSelector :: string
  lo_ClusterName :: string
  lo_DatasourceType :: "int option"
  lo_SubType :: string
  lo_Provider :: string
  lo_ProviderId :: int
  lo_ConversationId :: int
  lo_Family :: string
  lo_Operator :: string
  lo_Action :: string
  lo_ObjectType :: string
  lo_StartTime :: string
  lo_EndTime :: string
  lo_AgentStatus :: "int option"

definition SetDefaultPageOption :: "ListOptions \<Rightarrow> ListOptions" where
  "SetDefaultPageOption o1 =
     (let o2 = (if lo_Page o1 \<le> 0 then o1\<lparr>lo_Page := 1\<rparr> else o1);
          o3 = (if lo_Limit o2 \<le> 0 then o2\<lparr>lo_Limit := 10\<rparr> else o2)
      in if lo_Limit o3 > 100 then o3\<lparr>lo_Limit := 100\<rparr> else o3)"

definition SetUserOption :: "User \<Rightarrow> ListOptions \<Rightarrow> ListOptions" where
  "SetUserOption user o1 = (if u_Role user \<noteq> RoleRoot then o1\<lparr>lo_UserId := Oid user\<rparr> else o1)"

record 'a PageResult =
  pr_Page :: int
  pr_Limit :: int
  pr_Total :: int
  pr_Items :: "'a list"

record 'a MessagePage = "'a PageResult" +
  pr_Message :: string

definition ValidateStrongPassword :: "string \<Rightarrow> bool" where
  "ValidateStrongPassword password =
     (if length password < 8 then False
      else (case foldl (\<lambda>(up, lo, nu) l.
          if up \<and> lo \<and> nu then (up, lo, nu)
          else if \<not> up \<and> CHR ''A'' \<le> l \<and> l \<le> CHR ''Z'' then (True, lo, nu)
          else if \<not> lo \<and> CHR ''a'' \<le> l \<and> l \<le> CHR ''z'' then (up, True, nu)
          else if \<not> nu \<and> CHR ''0'' \<le> l \<and> l \<le> CHR ''9'' then (up, lo, True)
          else (up, lo, nu)) (False, False, False) password of (up, lo, nu) \<Rightarrow> up \<and> lo \<and> nu))"

section \<open>Operations of the controller\<close>

definition EncryptUserPassword :: "crypto \<Rightarrow> string \<Rightarrow> ('m env_scheme, goerr, string) act" where
  "EncryptUserPassword cr origin = (\<lambda>w. (bcryptHash cr (tick w) origin, w\<lparr>tick := Suc (tick w)\<rparr>))"

definition newUser :: "CreateUserRequest \<Rightarrow> string \<Rightarrow> User" where
  "newUser req encrypt = \<lparr>Oid = 0, GmtCreate = 0, GmtModified = 0, ResourceVersion = 0, u_TenantId = 0,
     u_Name = cu_Name req, u_Password = encrypt, u_Status = cu_Status req, u_Role = cu_Role req,
     u_Email = cu_Email req, u_Phone = cu_Phone req, u_Description = cu_Description req, u_Extension = []\<rparr>"

definition userc_Create :: "crypto \<Rightarrow> CreateUserRequest \<Rightarrow> ('m iam_state_scheme, goerr, unit) act" where
  "userc_Create cr req =
     orInternal (EncryptUserPassword cr (cu_Password req)) (\<lambda>encrypt.
     orInternal (userGetUserByName (cu_Name req)) (\<lambda>object.
       if object \<noteq> None then fail ErrUserExists
       else andThen
         (if cu_Role req = RoleRoot
          then orInternal userGetRoot (\<lambda>root. if root \<noteq> None then fail ErrRootAlreadyExists else ret ())
          else ret ())
         (\<lambda>_. orInternal (userCreate (newUser req encrypt) []) (\<lambda>_. ret ()))))"

definition preUpdateUser :: "context_user \<Rightarrow> int \<Rightarrow> ('m iam_state_scheme, goerr, User \<times> User) act" where
  "preUpdateUser ctx uid = andThen (GetUserFromContext ctx) (\<lambda>curUser.
     orInternal (userGet uid) (\<lambda>object. case object of
       None \<Rightarrow> fail ErrUserNotFound
     | Some old \<Rightarrow>
         if u_Role curUser \<noteq> RoleRoot \<and> Oid curUser \<noteq> uid then fail ErrForbidden
         else ret (curUser, old)))"

definition userUpdates :: "User \<Rightarrow> User \<Rightarrow> UpdateUserRequest \<Rightarrow> User updates" where
  "userUpdates curUser old req =
     [(''status'', u_Status_update (\<lambda>_. uu_Status req)),
      (''email'', u_Email_update (\<lambda>_. uu_Email req)),
      (''phone'', u_Phone_update (\<lambda>_. uu_Phone req)),
      (''description'', u_Description_update (\<lambda>_. uu_Description req)),
      (''role'', u_Role_update (\<lambda>_. if u_Role curUser = RoleRoot then uu_Role req else u_Role old))]"

definition userc_Update :: "context_user \<Rightarrow> int \<Rightarrow> UpdateUserRequest \<Rightarrow> ('m iam_state_scheme, goerr, unit) act" where
  "userc_Update ctx uid req = andThen (preUpdateUser ctx uid) (\<lambda>(curUser, old).
     orInternal (userUpdate uid (uu_ResourceVersion req) (userUpdates curUser old req)) (\<lambda>_.
     modify (userIndexer_update (\<lambda>c. ucSet c uid (uu_Status req)))))"

definition userModel2Type :: "User \<Rightarrow> types_User" where
  "userModel2Type o1 = \<lparr>tu_Id = Oid o1, tu_ResourceVersion = ResourceVersion o1, tu_Name = u_Name o1,
     tu_Description = u_Description o1, tu_Status = u_Status o1, tu_Role = u_Role o1, tu_Email = u_Email o1,
     tu_Phone = u_Phone o1, tu_GmtCreate = GmtCreate o1, tu_GmtModified = GmtModified o1\<rparr>"

definition userc_Get :: "int \<Rightarrow> ('m iam_state_scheme, goerr, types_User) act" where
  "userc_Get userId = orInternal (userGet userId) (\<lambda>object. case object of
     None \<Rightarrow> fail ErrUserNotFound | Some o1 \<Rightarrow> ret (userModel2Type o1))"

definition preResetPassword :: "int \<Rightarrow> ('m iam_state_scheme, goerr, unit) act" where
  "preResetPassword operatorId = andThen (userc_Get operatorId) (\<lambda>operator.
     if tu_Role operator \<noteq> RoleRoot then fail (Errorf ''only the super administrator may reset passwords'') else ret ())"

definition preChangePassword :: "crypto \<Rightarrow> int \<Rightarrow> int \<Rightarrow> UpdateUserPasswordRequest \<Rightarrow> ('m iam_state_scheme, goerr, unit) act" where
  "preChangePassword cr userId operatorId req =
     (if operatorId \<noteq> userId then fail (Errorf ''a user may only change his own password'')
      else if up_Old req = [] then fail (Errorf ''the current password is required'')
      else orInternal (userGet userId) (\<lambda>object. case object of
          None \<Rightarrow> fail ErrUserNotFound
        | Some o1 \<Rightarrow> if bcryptEq cr (u_Password o1) (up_Old req) then ret () else fail ErrInvalidPassword))"

definition userc_UpdatePassword :: "crypto \<Rightarrow> context_user \<Rightarrow> int \<Rightarrow> UpdateUserPasswordRequest \<Rightarrow> ('m iam_state_scheme, goerr, unit) act" where
  "userc_UpdatePassword cr ctx userId req =
     (if up_New req = up_Old req then fail ErrDuplicatedPassword
      else andThen (GetUserIdFromContext ctx) (\<lambda>operatorId.
        andThen (if up_Reset req then preResetPassword operatorId else preChangePassword cr userId operatorId req) (\<lambda>_.
        orInternal (EncryptUserPassword cr (up_New req)) (\<lambda>newPass.
        orInternal (userUpdate userId (up_ResourceVersion req) [(''password'', u_Password_update (\<lambda>_. newPass))]) (\<lambda>_.
        modify (tokenIndexer_update (\<lambda>c. tokDelete c userId)))))))"

definition userc_Delete :: "context_user \<Rightarrow> int \<Rightarrow> ('m iam_state_scheme, goerr, unit) act" where
  "userc_Delete ctx userId = orInternal (userGet userId) (\<lambda>object. case object of
     None \<Rightarrow> fail ErrUserNotFound
   | Some o1 \<Rightarrow> andThen (CheckResourceOwner ctx userId) (\<lambda>_.
       orInternal (userDelete userId) (\<lambda>_.
       modify (\<lambda>w. w\<lparr>userIndexer := ucDelete (userIndexer w) userId, tokenIndexer := tokDelete (tokenIndexer w) userId\<rparr>))))"

text \<open>The paging of a list: count with the filters, then the page with the same filters.\<close>

definition userFilters :: "ListOptions \<Rightarrow> User options list" where
  "userFilters lo =
     [WithOrderByDesc, WithNameLike u_Name (lo_NameSelector lo), WithPhoneLike u_Phone (lo_UserPhone lo),
      WithEmailLike u_Email (lo_UserEmail lo)] @
     (case lo_Status lo of None \<Rightarrow> [] | Some st \<Rightarrow> [WithUserStatus u_Status st])"

definition userc_List :: "ListOptions \<Rightarrow> ('m iam_state_scheme, goerr, types_User PageResult) act" where
  "userc_List listOption =
     (let lo = SetDefaultPageOption listOption; opts = userFilters lo
      in orInternal (userCount opts) (\<lambda>total.
         let offset = (lo_Page lo - 1) * lo_Limit lo
         in orInternal (userList (opts @ [WithOffset offset, WithLimit (lo_Limit lo)])) (\<lambda>objects.
           ret \<lparr>pr_Page = lo_Page lo, pr_Limit = lo_Limit lo, pr_Total = total, pr_Items = map userModel2Type objects\<rparr>)))"

definition userc_GetCount :: "('m iam_state_scheme, goerr, int) act" where
  "userc_GetCount = orInternal (userCount []) ret"

definition userc_GetStatus :: "int \<Rightarrow> ('m iam_state_scheme, goerr, int) act" where
  "userc_GetStatus uid = andThen (gets (\<lambda>w. ucGet (userIndexer w) uid)) (\<lambda>cached. case cached of
     Some status \<Rightarrow> ret status
   | None \<Rightarrow> orInternal (userGet uid) (\<lambda>object. case object of
       None \<Rightarrow> fail ErrUserNotFound
     | Some o1 \<Rightarrow> andThen (modify (userIndexer_update (\<lambda>c. ucSet c uid (u_Status o1)))) (\<lambda>_. ret (u_Status o1))))"

section \<open>Sessions\<close>

definition userc_Login :: "crypto \<Rightarrow> default_config \<Rightarrow> string \<Rightarrow> string \<Rightarrow> ('m iam_state_scheme, goerr, LoginResponse) act" where
  "userc_Login cr cc name password = orInternal (userGetUserByName name) (\<lambda>object. case object of
     None \<Rightarrow> fail ErrUserNotFound
   | Some o1 \<Rightarrow>
       if u_Status o1 = UserStatusForbidden then fail (Errorf ''the user is disabled'')
       else if \<not> bcryptEq cr (u_Password o1) password then fail ErrInvalidPassword
       else andThen timeNow (\<lambda>now. case signToken cr now (Oid o1) (u_Name o1) (u_TenantId o1) (JWTKey cc) of
           Inl err \<Rightarrow> fail (Errorf ''failed to generate the token'')
         | Inr token \<Rightarrow> andThen
             (modify (tokenIndexer_update (\<lambda>c. if SingleLogin cc then tokSet c (Oid o1) token else tokAdd c (Oid o1) token)))
             (\<lambda>_. ret \<lparr>lr_UserId = Oid o1, lr_UserName = u_Name o1, lr_Token = token, lr_Role = u_Role o1\<rparr>)))"

definition userc_Logout :: "default_config \<Rightarrow> http_request \<Rightarrow> int \<Rightarrow> ('m iam_state_scheme, goerr, unit) act" where
  "userc_Logout cc c userId =
     (if SingleLogin cc then modify (tokenIndexer_update (\<lambda>s. tokDelete s userId))
      else (case ExtractToken c False of
          Inl err \<Rightarrow> fail err
        | Inr token \<Rightarrow> modify (tokenIndexer_update (\<lambda>s. tokDeleteToken s userId token))))"

definition GetLoginToken :: "(string list \<Rightarrow> string) \<Rightarrow> int \<Rightarrow> ('m iam_state_scheme, goerr, string) act" where
  "GetLoginToken pick userId = andThen (gets (\<lambda>w. tokGet pick (tokenIndexer w) userId)) (\<lambda>t. case t of
     None \<Rightarrow> fail (Errorf ''invalid empty token'') | Some token \<Rightarrow> ret token)"

definition ValidateLoginToken :: "(string list \<Rightarrow> string) \<Rightarrow> default_config \<Rightarrow> int \<Rightarrow> string \<Rightarrow> ('m iam_state_scheme, goerr, bool) act" where
  "ValidateLoginToken pick cc userId token =
     (if SingleLogin cc then andThen (GetLoginToken pick userId) (\<lambda>existToken. ret (token = existToken))
      else andThen (gets (\<lambda>w. tokExists (tokenIndexer w) userId token)) (\<lambda>ok.
        if \<not> ok then fail (Errorf ''invalid empty token'') else ret True))"

section \<open>Permissions of the current user\<close>

record APIResource =
  ar_Id :: int
  ar_ResourceVersion :: int
  ar_GmtCreate :: int
  ar_GmtModified :: int
  ar_Method :: string
  ar_Path :: string
  ar_Group :: string
  ar_Description :: string

definition toAPIResource :: "API \<Rightarrow> APIResource" where
  "toAPIResource o1 = \<lparr>ar_Id = Oid o1, ar_ResourceVersion = ResourceVersion o1, ar_GmtCreate = GmtCreate o1,
     ar_GmtModified = GmtModified o1, ar_Method = a_Method o1, ar_Path = a_Path o1, ar_Group = a_Group o1,
     ar_Description = a_Description o1\<rparr>"

record types_Scope =
  ts_APIId :: int
  ts_ResourceType :: string
  ts_ResourceId :: int

definition toScope :: "RoleAPIScope \<Rightarrow> types_Scope" where
  "toScope s = \<lparr>ts_APIId = rs_APIId s, ts_ResourceType = rs_ResourceType s, ts_ResourceId = rs_ResourceId s\<rparr>"

record CurrentUserPermissionsResponse =
  cp_Role :: int
  cp_IsRoot :: bool
  cp_APIs :: "APIResource list"
  cp_Scopes :: "types_Scope list"
  cp_Buttons :: "string list"
  cp_Menus :: "string list"

definition apiButton :: "API \<Rightarrow> string" where
  "apiButton a = Button (a_Method a) (a_Path a)"

definition GetCurrentUserPermissions :: "(nat \<Rightarrow> string list \<Rightarrow> string list) \<Rightarrow> context_user \<Rightarrow> ('m iam_state_scheme, goerr, CurrentUserPermissionsResponse) act" where
  "GetCurrentUserPermissions visit ctx = (case ctx of
     None \<Rightarrow> fail ErrUnauthorized
   | Some curUser \<Rightarrow>
       if u_Role curUser = RoleRoot
       then orInternal (apiList []) (\<lambda>as.
         ret \<lparr>cp_Role = u_Role curUser, cp_IsRoot = True, cp_APIs = map toAPIResource as, cp_Scopes = [],
              cp_Buttons = map apiButton as,
              cp_Menus = Resolve visit \<lparr>IsRoot = True, IsAdmin = False, Buttons = [], ExplicitMenus = []\<rparr>\<rparr>)
       else (let roleId = u_Role curUser
         in orInternal (GetByRoleId roleId) (\<lambda>as.
            orInternal (ListScopes roleId) (\<lambda>scopes.
            orInternal (ListMenuCodesByRoleId roleId) (\<lambda>explicitMenus.
              ret \<lparr>cp_Role = roleId, cp_IsRoot = False, cp_APIs = map toAPIResource as, cp_Scopes = map toScope scopes,
                   cp_Buttons = map apiButton as,
                   cp_Menus = Resolve visit \<lparr>IsRoot = False, IsAdmin = (roleId = RoleAdmin),
                     Buttons = map apiButton as, ExplicitMenus = explicitMenus\<rparr>\<rparr>)))))"

definition FormatAPIsForRole :: "int \<Rightarrow> ('m iam_db_scheme, goerr, button_set) act" where
  "FormatAPIsForRole roleId = andThen (GetByRoleId roleId) (\<lambda>as.
     ret (BuildSet (map (\<lambda>a. \<lparr>Method = a_Method a, Path = a_Path a\<rparr>) as)))"

definition ValidProxy :: "int \<Rightarrow> ('w, goerr, unit) act" where
  "ValidProxy roleId = (if roleId = 0 then ret () else ret ())"

definition ValidAccess :: "http_request \<Rightarrow> int \<Rightarrow> ('m iam_db_scheme, goerr, unit) act" where
  "ValidAccess c roleId = (case Classify roleId (hr_Method c) (hr_FullPath c) of
     Allow \<Rightarrow> ret ()
   | Proxy \<Rightarrow> ValidProxy roleId
   | Check \<Rightarrow> andThen (FormatAPIsForRole roleId) (\<lambda>apisMap.
       if \<not> AllowedBySet apisMap (hr_Method c) (hr_FullPath c) then fail (Errorf ''no permission'') else ret ()))"

section \<open>Authentication and authorization\<close>

definition alwaysAllowPath :: "string list" where
  "alwaysAllowPath = [''/pixiu/users/login'', ''/pixiu/connect'']"

definition allowCustomRequest :: "http_request \<Rightarrow> bool" where
  "allowCustomRequest c =
     (HasPrefix (hr_URLPath c) ''/pixiu/agents/heartbeat'' \<or> HasPrefix (hr_URLPath c) ''/pixiu/agents/claim'' \<or>
      HasPrefix (hr_URLPath c) ''/pixiu/agents/jobs/'')"

definition parseRoleAndValidClaim :: "(string list \<Rightarrow> string) \<Rightarrow> crypto \<Rightarrow> default_config \<Rightarrow> http_request \<Rightarrow> ('m iam_state_scheme, goerr, int \<times> User) act" where
  "parseRoleAndValidClaim pick cr cc c =
     (case ExtractToken c (ToLower (hr_Upgrade c) = ''websocket'') of
        Inl err \<Rightarrow> fail err
      | Inr token \<Rightarrow> andThen timeNow (\<lambda>now. case parseJwt cr now token (JWTKey cc) of
          Inl err \<Rightarrow> fail err
        | Inr claim \<Rightarrow> onResult (ValidateLoginToken pick cc (cl_Id claim) token)
            (\<lambda>_. fail (Errorf ''not logged in or password changed''))
            (\<lambda>ok. if \<not> ok then fail (Errorf ''logged in elsewhere'')
               else onResult (userGet (cl_Id claim)) (\<lambda>_. fail (Errorf ''cannot get user''))
                 (\<lambda>user. case user of None \<Rightarrow> fail (Errorf ''cannot get user'') | Some u \<Rightarrow> ret (u_Role u, u)))))"

text \<open>The outcome of the two middlewares for a request that is not for the kube gateway: it goes on
  with the user of the context (\<open>None\<close> when no user was set), or is aborted with a code.\<close>

definition Authentication :: "(string list \<Rightarrow> string) \<Rightarrow> crypto \<Rightarrow> default_config \<Rightarrow> http_request \<Rightarrow> ('m iam_state_scheme, goerr, context_user) act" where
  "Authentication pick cr cc c =
     (if DebugMode cc
      then onResult userGetRoot (\<lambda>err. fail (Api StatusInternalServerError err)) ret
      else if hr_URLPath c \<in> set alwaysAllowPath \<or> allowCustomRequest c then ret None
      else onResult (parseRoleAndValidClaim pick cr cc c) (\<lambda>err. fail (Api StatusUnauthorized err))
        (\<lambda>(roleId, user). onResult (ValidAccess c roleId) (\<lambda>err. fail (Api StatusForbidden err))
          (\<lambda>_. ret (Some user))))"

definition StatusMethodNotAllowed :: int where "StatusMethodNotAllowed = 405"

definition Authorization :: "default_config \<Rightarrow> http_request \<Rightarrow> context_user \<Rightarrow> ('w, goerr, unit) act" where
  "Authorization cc c ctx =
     (if DebugMode cc \<or> hr_URLPath c \<in> set alwaysAllowPath \<or> allowCustomRequest c then ret ()
      else onResult (GetUserFromContext ctx) (\<lambda>err. fail (Api StatusMethodNotAllowed err))
        (\<lambda>user. if u_Status user = UserStatusForbidden then fail (Api StatusForbidden (Errorf ''the user is disabled''))
           else ret ()))"

section \<open>Reads\<close>

lemma find_Oid_mem: "find (\<lambda>r. Oid r = i) rs = Some x \<Longrightarrow> x \<in> set rs \<and> Oid x = i"
  by (rule find_Some_mem)

lemma HasScope_iff: "0 < length (filter (\<lambda>r. rs_RoleId r = a \<and> rs_ResourceType r = b \<and> rs_ResourceId r = c) rs) \<longleftrightarrow>
    (\<exists>s \<in> set rs. rs_RoleId s = a \<and> rs_ResourceType s = b \<and> rs_ResourceId s = c)"
  by (auto simp: length_greater_0_conv filter_empty_conv)

text \<open>C17: the decision on a resource: without a failing statement, access is granted exactly to the
  super administrator, to the owner, and to the users whose role has a scope for that resource type
  and id; everyone else gets 403.\<close>

theorem CheckResourceAccess_iff:
  assumes "\<And>n. fault w n = None"
  shows "fst (CheckResourceAccess (Some u) owner rtype rid w) =
    (if u_Role u = RoleRoot \<or> Oid u = owner \<or>
        (\<exists>s \<in> set (rows (role_api_scopes w)). rs_RoleId s = u_Role u \<and> rs_ResourceType s = rtype \<and> rs_ResourceId s = rid)
     then Inr () else Inl ErrForbidden)"
proof -
  have "wp (CheckResourceAccess (Some u) owner rtype rid)
    (\<lambda>_ _. u_Role u = RoleRoot \<or> Oid u = owner \<or>
        (\<exists>s \<in> set (rows (role_api_scopes w)). rs_RoleId s = u_Role u \<and> rs_ResourceType s = rtype \<and> rs_ResourceId s = rid))
    (\<lambda>e _. e = ErrForbidden \<and> \<not> (u_Role u = RoleRoot \<or> Oid u = owner \<or>
        (\<exists>s \<in> set (rows (role_api_scopes w)). rs_RoleId s = u_Role u \<and> rs_ResourceType s = rtype \<and> rs_ResourceId s = rid))) w"
    using assms by (auto simp: CheckResourceAccess_def GetUserFromContext_def CanAccess_def HasScope_def wp_simps Let_def filter_empty_conv)
  then show ?thesis by (auto simp: wp_def split: prod.splits sum.splits)
qed

definition demoUser :: "int \<Rightarrow> int \<Rightarrow> User" where
  "demoUser i role = \<lparr>Oid = i, GmtCreate = 0, GmtModified = 0, ResourceVersion = 0, u_TenantId = 0, u_Name = (if i = 1 then ''root'' else ''user''),
     u_Password = ''h'', u_Status = 0, u_Role = role, u_Email = [], u_Phone = [], u_Description = [], u_Extension = []\<rparr>"

lemma CheckResourceAccess_iff_witness:
  "fst (CheckResourceAccess (Some (demoUser 7 2)) 7 ''plans'' 1 demoDb) = Inr () \<and>
   fst (CheckResourceAccess (Some (demoUser 7 2)) 8 ''plans'' 1 demoDb) = Inl ErrForbidden"
  using CheckResourceAccess_iff [of demoDb "demoUser 7 2" 7 "''plans''" 1] CheckResourceAccess_iff [of demoDb "demoUser 7 2" 8 "''plans''" 1]
  by (simp add: demoDb_def demoUser_def RoleRoot_def)

text \<open>the strength test on passwords, a loop with an early exit, accepts exactly the passwords of at
  least eight bytes with an upper-case letter, a lower-case letter and a digit.\<close>

theorem ValidateStrongPassword_iff:
  "ValidateStrongPassword p \<longleftrightarrow> 8 \<le> length p \<and> list_ex (\<lambda>l. CHR ''A'' \<le> l \<and> l \<le> CHR ''Z'') p \<and>
     list_ex (\<lambda>l. CHR ''a'' \<le> l \<and> l \<le> CHR ''z'') p \<and> list_ex (\<lambda>l. CHR ''0'' \<le> l \<and> l \<le> CHR ''9'') p"
proof -
  let ?step = "\<lambda>(up, lo, nu) l.
          if up \<and> lo \<and> nu then (up, lo, nu)
          else if \<not> up \<and> CHR ''A'' \<le> l \<and> l \<le> CHR ''Z'' then (True, lo, nu)
          else if \<not> lo \<and> CHR ''a'' \<le> l \<and> l \<le> CHR ''z'' then (up, True, nu)
          else if \<not> nu \<and> CHR ''0'' \<le> l \<and> l \<le> CHR ''9'' then (up, lo, True)
          else (up, lo, nu)"
  have dis: "\<not> (CHR ''A'' \<le> l \<and> l \<le> CHR ''Z'' \<and> CHR ''a'' \<le> l)" "\<not> (CHR ''A'' \<le> l \<and> l \<le> CHR ''9'')" "\<not> (CHR ''a'' \<le> l \<and> l \<le> CHR ''9'')" for l :: char
    by (auto simp: less_eq_char_def)
  have "foldl ?step (up, lo, nu) p = (up \<or> list_ex (\<lambda>l. CHR ''A'' \<le> l \<and> l \<le> CHR ''Z'') p,
     lo \<or> list_ex (\<lambda>l. CHR ''a'' \<le> l \<and> l \<le> CHR ''z'') p, nu \<or> list_ex (\<lambda>l. CHR ''0'' \<le> l \<and> l \<le> CHR ''9'') p)" for up lo nu
    using dis by (induction p arbitrary: up lo nu) auto
  then show ?thesis by (simp add: ValidateStrongPassword_def)
qed

section \<open>Who gets in\<close>

definition roleHasAPI :: "'m iam_db_scheme \<Rightarrow> int \<Rightarrow> string \<Rightarrow> string \<Rightarrow> bool" where
  "roleHasAPI w roleId method path \<longleftrightarrow> (\<exists>ra \<in> set (rows (role_apis w)). \<exists>a \<in> set (rows (apis w)).
     ra_RoleId ra = roleId \<and> ra_APIId ra = Oid a \<and> a_Method a \<noteq> [] \<and> a_Path a \<noteq> [] \<and>
     Button (a_Method a) (a_Path a) = Button method path)"

lemma AllowedBySet_role:
  "AllowedBySet (BuildSet (map (\<lambda>a. \<lparr>Method = a_Method a, Path = a_Path a\<rparr>) as)) method path \<longleftrightarrow>
   (\<exists>a \<in> set as. a_Method a \<noteq> [] \<and> a_Path a \<noteq> [] \<and> Button (a_Method a) (a_Path a) = Button method path)"
  by (auto simp: AllowedBySet_def Match_iff BuildSet_map)

lemma roleHasAPI_join:
  "roleHasAPI w roleId method path \<longleftrightarrow>
   (\<exists>a \<in> set (concat (map (\<lambda>ra. filter (\<lambda>a. Oid a = ra_APIId ra) (rows (apis w))) (filter (\<lambda>ra. ra_RoleId ra = roleId) (rows (role_apis w))))).
      a_Method a \<noteq> [] \<and> a_Path a \<noteq> [] \<and> Button (a_Method a) (a_Path a) = Button method path)"
  by (auto simp: roleHasAPI_def) metis+

lemma roleHasAPI_tick [simp]: "roleHasAPI (w\<lparr>tick := n\<rparr>) = roleHasAPI w"
  by (simp add: roleHasAPI_def fun_eq_iff)

lemma ValidAccess_wp:
  "wp (ValidAccess c roleId)
    (\<lambda>_ w'. w' = w\<lparr>tick := tick w'\<rparr> \<and> (Classify roleId (hr_Method c) (hr_FullPath c) \<noteq> Check \<or> roleHasAPI w roleId (hr_Method c) (hr_FullPath c)))
    (\<lambda>_ w'. w' = w\<lparr>tick := tick w'\<rparr> \<and> Classify roleId (hr_Method c) (hr_FullPath c) = Check \<and>
       ((\<exists>n. fault w n \<noteq> None) \<or> \<not> roleHasAPI w roleId (hr_Method c) (hr_FullPath c))) w"
proof (cases "Classify roleId (hr_Method c) (hr_FullPath c)")
  case Check
  have "wp (FormatAPIsForRole roleId)
     (\<lambda>m w'. w' = w\<lparr>tick := tick w'\<rparr> \<and> (AllowedBySet m (hr_Method c) (hr_FullPath c) \<longleftrightarrow> roleHasAPI w roleId (hr_Method c) (hr_FullPath c)))
     (\<lambda>_ w'. w' = w\<lparr>tick := tick w'\<rparr> \<and> (\<exists>n. fault w n \<noteq> None)) w"
    by (auto simp del: set_concat set_map simp: FormatAPIsForRole_def GetByRoleId_def wp_simps Let_def AllowedBySet_role
        roleHasAPI_join split: option.splits)
  then show ?thesis unfolding ValidAccess_def Check
    by (auto simp: wp_simps elim!: wp_mono)
qed (auto simp: ValidAccess_def ValidProxy_def wp_simps)

text \<open>C27: the API check: a request passes exactly when the policy classifies it as allowed or as proxied,
  or the role holds an API with that method and route, or (then it is refused) a statement fails.\<close>

theorem ValidAccess_iff:
  assumes "\<And>n. fault w n = None"
  shows "(\<exists>w'. ValidAccess c roleId w = (Inr (), w')) \<longleftrightarrow>
    Classify roleId (hr_Method c) (hr_FullPath c) \<noteq> Check \<or> roleHasAPI w roleId (hr_Method c) (hr_FullPath c)"
  using ValidAccess_wp [of c roleId w] assms
  by (cases "ValidAccess c roleId w") (auto simp: wp_def split: sum.splits)

definition demoRequest :: "string \<Rightarrow> string \<Rightarrow> http_request" where
  "demoRequest m p = \<lparr>hr_Method = m, hr_URLPath = p, hr_FullPath = p, hr_Authorization = ''Bearer tok'', hr_Upgrade = [], hr_WsProtocol = []\<rparr>"

lemma ValidAccess_iff_witness:
  "\<not> (\<exists>w'. ValidAccess (demoRequest ''GET'' ''/pixiu/plans'') 2 demoDb = (Inr (), w'))"
  using ValidAccess_iff [of demoDb "demoRequest ''GET'' ''/pixiu/plans''" 2]
  by (simp add: demoDb_def demoRequest_def Classify_def rbac_paths roleHasAPI_def)

definition validPick :: "(string list \<Rightarrow> string) \<Rightarrow> bool" where
  "validPick pick \<longleftrightarrow> (\<forall>ts. ts \<noteq> [] \<longrightarrow> pick ts \<in> set ts)"

text \<open>The session a request proves: its token verifies and is an open session of the user.\<close>

definition sessionOf :: "'m iam_state_scheme \<Rightarrow> crypto \<Rightarrow> default_config \<Rightarrow> http_request \<Rightarrow> User \<Rightarrow> bool" where
  "sessionOf w cr cc c u \<longleftrightarrow> (\<exists>token claim now. ExtractToken c (ToLower (hr_Upgrade c) = ''websocket'') = Inr token \<and>
     parseJwt cr now token (JWTKey cc) = Inr claim \<and> Oid u = cl_Id claim \<and> token \<in> sessions (tokenIndexer w) (Oid u))"

lemma tokGet_session: "tok_inv s \<Longrightarrow> validPick pick \<Longrightarrow> tokGet pick s uid = Some t \<Longrightarrow> t \<in> sessions s uid"
  using tokGet_sessions [of s pick uid] by (simp add: validPick_def)

lemma ValidateLoginToken_wp:
  assumes inv: "tok_inv (tokenIndexer w)" and pick: "validPick pick"
    and Q: "\<And>ok. (ok \<longrightarrow> token \<in> sessions (tokenIndexer w) uid) \<Longrightarrow> Q ok w" and E: "\<And>e. E e w"
  shows "wp (ValidateLoginToken pick cc uid token) Q E w"
proof (cases "SingleLogin cc")
  case True
  then show ?thesis
    using tokGet_session [OF inv pick, of uid]
    by (cases "tokGet pick (tokenIndexer w) uid") (auto simp: ValidateLoginToken_def GetLoginToken_def wp_simps intro!: Q E)
next
  case False
  then show ?thesis
    by (simp add: ValidateLoginToken_def wp_simps Q E)
qed

lemma parseRoleAndValidClaim_wp:
  assumes "tok_inv (tokenIndexer w)" and "validPick pick"
  shows "wp (parseRoleAndValidClaim pick cr cc c) (\<lambda>(roleId, u) w'. w' = w\<lparr>tick := tick w'\<rparr> \<and> roleId = u_Role u \<and>
      u \<in> set (rows (users w)) \<and> sessionOf w cr cc c u) (\<lambda>_ w'. w' = w\<lparr>tick := tick w'\<rparr>) w"
proof -
  have session: "sessionOf w cr cc c u" if "parseJwt cr now token (JWTKey cc) = Inr claim"
    "ExtractToken c (ToLower (hr_Upgrade c) = ''websocket'') = Inr token" "token \<in> sessions (tokenIndexer w) (cl_Id claim)" "Oid u = cl_Id claim"
    for u token claim now
    using that unfolding sessionOf_def by auto
  show ?thesis
    unfolding parseRoleAndValidClaim_def
    by (auto simp: wp_simps Let_def userGet_def split: sum.splits option.splits
        intro!: ValidateLoginToken_wp assms dest!: find_Oid_mem intro: session)
qed

text \<open>C2: authentication is sound. Outside debug mode, a request that gets past the middleware with a user
  carried a token that the key verifies, that token is an open session of exactly that user, the
  user is in the database, and his role may call the route.\<close>

theorem Authentication_sound:
  assumes "Authentication pick cr cc c w = (Inr (Some u), w')" and "\<not> DebugMode cc"
    and "tok_inv (tokenIndexer w)" and "validPick pick"
  shows "sessionOf w cr cc c u \<and>
    u \<in> set (rows (users w)) \<and>
    (u_Role u = RoleRoot \<or> Classify (u_Role u) (hr_Method c) (hr_FullPath c) \<noteq> Check \<or>
     roleHasAPI w (u_Role u) (hr_Method c) (hr_FullPath c)) \<and> w' = w\<lparr>tick := tick w'\<rparr>"
proof -
  have access: "wp (ValidAccess c roleId) Q E w1"
    if "w1 = w\<lparr>tick := n\<rparr>" "\<And>w'. w' = w\<lparr>tick := tick w'\<rparr> \<Longrightarrow> Classify roleId (hr_Method c) (hr_FullPath c) \<noteq> Check \<or> roleHasAPI w roleId (hr_Method c) (hr_FullPath c) \<Longrightarrow> Q () w'"
      "\<And>e w'. E e w'" for roleId w1 Q E n
    by (rule wp_mono [OF ValidAccess_wp]) (use that in auto)
  have "wp (Authentication pick cr cc c) (\<lambda>r w'. \<forall>u. r = Some u \<longrightarrow>
      sessionOf w cr cc c u \<and>
      u \<in> set (rows (users w)) \<and>
      (u_Role u = RoleRoot \<or> Classify (u_Role u) (hr_Method c) (hr_FullPath c) \<noteq> Check \<or>
       roleHasAPI w (u_Role u) (hr_Method c) (hr_FullPath c)) \<and> w' = w\<lparr>tick := tick w'\<rparr>) (\<lambda>_ _. True) w"
    using assms(2)
    by (auto simp: Authentication_def wp_simps intro!: access wp_mono [OF parseRoleAndValidClaim_wp [OF assms(3,4)]])
  then show ?thesis using assms(1) by (simp add: wp_def)
qed

definition demoState :: iam_state where
  "demoState = iam_db.extend demoDb \<lparr>userIndexer = [], tokenIndexer = \<lparr>tc_items = [(1, [''tok''])]\<rparr>\<rparr>"

definition demoCrypto :: crypto where
  "demoCrypto = \<lparr>bcryptHash = (\<lambda>_ p. Inr (''h:'' @ p)), bcryptEq = (\<lambda>h p. h = ''h:'' @ p),
     signToken = (\<lambda>now i n t k. Inr (''tok-'' @ n)),
     parseJwt = (\<lambda>now t k. if t = ''tok'' then Inr \<lparr>cl_Id = 1, cl_Name = ''root'', cl_Tenant = 0\<rparr> else Inl (Errorf ''bad''))\<rparr>"

definition demoConfig :: "bool \<Rightarrow> default_config" where
  "demoConfig single = \<lparr>SingleLogin = single, JWTKey = ''k'', DebugMode = False\<rparr>"

lemma Authentication_sound_witness:
  "\<exists>u. fst (Authentication hd demoCrypto (demoConfig True) (demoRequest ''GET'' ''/pixiu/plans'') demoState) = Inr (Some u) \<and>
    ''tok'' \<in> sessions (tokenIndexer demoState) (Oid u)"
proof -
  have "\<exists>u. fst (Authentication hd demoCrypto (demoConfig True) (demoRequest ''GET'' ''/pixiu/plans'') demoState) = Inr (Some u)"
    by (simp add: Authentication_def parseRoleAndValidClaim_def ValidateLoginToken_def GetLoginToken_def userGet_def orNil_def sqlFirst_def
        onResult_def andThen_def timeNow_def gets_def ret_def fail_def stmt_def demoConfig_def demoCrypto_def demoRequest_def demoState_def demoDb_def
        iam_db.defs alwaysAllowPath_def allowCustomRequest_def HasPrefix_def ExtractToken_def Fields_def isSpace_def ToLower_def
        tokGet_def ValidAccess_def Classify_def Let_def)
  then obtain u where u: "fst (Authentication hd demoCrypto (demoConfig True) (demoRequest ''GET'' ''/pixiu/plans'') demoState) = Inr (Some u)" by blast
  have "tok_inv (tokenIndexer demoState)" by (simp add: demoState_def iam_db.defs tok_inv_def)
  with Authentication_sound [of hd demoCrypto "demoConfig True" "demoRequest ''GET'' ''/pixiu/plans''" demoState u] u
  show ?thesis
    by (cases "Authentication hd demoCrypto (demoConfig True) (demoRequest ''GET'' ''/pixiu/plans'') demoState")
      (auto simp: sessionOf_def demoConfig_def demoRequest_def ExtractToken_def Fields_def isSpace_def ToLower_def validPick_def)
qed

section \<open>Sessions and passwords\<close>

text \<open>C25: a login succeeds only for a stored, enabled user whose hash matches the password; afterwards
  the new token is an open session, with single login the only one of the user, and the sessions of
  all other users and the database are what they were.\<close>

theorem Login_spec:
  assumes "userc_Login cr cc name password w = (Inr resp, w')"
  shows "(\<exists>u \<in> set (rows (users w)). u_Name u = name \<and> u_Status u \<noteq> UserStatusForbidden \<and> bcryptEq cr (u_Password u) password \<and>
      lr_UserId resp = Oid u \<and> lr_Role resp = u_Role u) \<and>
    sessions (tokenIndexer w') = (sessions (tokenIndexer w))(lr_UserId resp :=
      insert (lr_Token resp) (if SingleLogin cc then {} else sessions (tokenIndexer w) (lr_UserId resp))) \<and>
    w' = w\<lparr>tick := tick w', tokenIndexer := tokenIndexer w'\<rparr>"
proof -
  have "wp (userc_Login cr cc name password) (\<lambda>resp w'. (\<exists>u \<in> set (rows (users w)). u_Name u = name \<and> u_Status u \<noteq> UserStatusForbidden \<and>
      bcryptEq cr (u_Password u) password \<and> lr_UserId resp = Oid u \<and> lr_Role resp = u_Role u) \<and>
    sessions (tokenIndexer w') = (sessions (tokenIndexer w))(lr_UserId resp :=
      insert (lr_Token resp) (if SingleLogin cc then {} else sessions (tokenIndexer w) (lr_UserId resp))) \<and>
    w' = w\<lparr>tick := tick w', tokenIndexer := tokenIndexer w'\<rparr>) (\<lambda>_ _. True) w"
    by (auto simp: userc_Login_def userGetUserByName_def wp_simps Let_def fun_eq_iff split: option.splits sum.splits dest!: find_Some_mem)
  then show ?thesis using assms by (rule wp_Inr)
qed

lemma Login_spec_witness:
  "sessions (tokenIndexer (snd (userc_Login demoCrypto (demoConfig True) ''root'' ''Secret123'' demoState))) 1 = {''tok-root''}"
proof -
  have "fst (userc_Login demoCrypto (demoConfig True) ''root'' ''Secret123'' demoState) =
      Inr \<lparr>lr_UserId = 1, lr_UserName = ''root'', lr_Token = ''tok-root'', lr_Role = 0\<rparr>"
    by (simp add: userc_Login_def userGetUserByName_def orInternal_def orNil_def sqlFirst_def onResult_def andThen_def timeNow_def modify_def
        ret_def stmt_def demoConfig_def demoCrypto_def demoState_def demoDb_def iam_db.defs user_status_defs)
  with Login_spec [of demoCrypto "demoConfig True" "''root''" "''Secret123''" demoState
      "\<lparr>lr_UserId = 1, lr_UserName = ''root'', lr_Token = ''tok-root'', lr_Role = 0\<rparr>"
      "snd (userc_Login demoCrypto (demoConfig True) ''root'' ''Secret123'' demoState)"]
  show ?thesis by (simp add: prod_eq_iff demoConfig_def)
qed

definition passwordRight :: "crypto \<Rightarrow> 'm iam_db_scheme \<Rightarrow> User \<Rightarrow> int \<Rightarrow> UpdateUserPasswordRequest \<Rightarrow> bool" where
  "passwordRight cr w cur userId req \<longleftrightarrow>
     (if up_Reset req then \<exists>u \<in> set (rows (users w)). Oid u = Oid cur \<and> u_Role u = RoleRoot
      else Oid cur = userId \<and> (\<exists>u \<in> set (rows (users w)). Oid u = userId \<and> bcryptEq cr (u_Password u) (up_Old req)))"

text \<open>changing a password. It succeeds only with a password that differs from the old one, either
  for the user himself with his current password or, as a reset, for a user who is stored as super
  administrator; afterwards no session of that user is open, and those of all others still are.\<close>

theorem UpdatePassword_spec:
  assumes "userc_UpdatePassword cr ctx userId req w = (Inr (), w')"
  shows "(\<exists>cur. ctx = Some cur \<and> passwordRight cr w cur userId req) \<and> up_New req \<noteq> up_Old req \<and>
    sessions (tokenIndexer w') = (sessions (tokenIndexer w))(userId := {})"
proof -
  have upd: "wp (userUpdate uid v us) Q E w1"
    if "\<And>w2. tokenIndexer w2 = tokenIndexer w1 \<Longrightarrow> Q () w2" "\<And>e w2. E e w2" for uid v us Q E and w1 :: "'a iam_state_scheme"
    using that by (auto simp: userUpdate_def daoUpdate_def wp_simps Let_def split: option.splits)
  have enc: "wp (EncryptUserPassword cr p) Q E w1" if "\<And>x. Q x (w1\<lparr>tick := Suc (tick w1)\<rparr>)" "\<And>e w2. E e w2" for p Q E and w1 :: "'a iam_state_scheme"
    using that by (auto simp: EncryptUserPassword_def wp_def split: sum.splits)
  have "wp (userc_UpdatePassword cr ctx userId req) (\<lambda>_ w'. (\<exists>cur. ctx = Some cur \<and> passwordRight cr w cur userId req) \<and> up_New req \<noteq> up_Old req \<and>
    sessions (tokenIndexer w') = (sessions (tokenIndexer w))(userId := {})) (\<lambda>_ _. True) w"
    by (auto simp: userc_UpdatePassword_def GetUserIdFromContext_def GetUserFromContext_def preResetPassword_def preChangePassword_def
        userc_Get_def userGet_def userModel2Type_def passwordRight_def wp_simps Let_def fun_eq_iff
        split: option.splits if_splits intro!: enc upd dest!: find_Oid_mem)
  then show ?thesis using assms by (rule wp_Inr)
qed

lemma UpdatePassword_spec_witness:
  "sessions (tokenIndexer (snd (userc_UpdatePassword demoCrypto (Some (demoUser 1 0)) 1
     \<lparr>up_New = ''NewSecret1'', up_Old = ''Secret123'', up_ResourceVersion = 0, up_Reset = False\<rparr> demoState))) 1 = {}"
proof -
  let ?req = "\<lparr>up_New = ''NewSecret1'', up_Old = ''Secret123'', up_ResourceVersion = 0, up_Reset = False\<rparr>"
  have "fst (userc_UpdatePassword demoCrypto (Some (demoUser 1 0)) 1 ?req demoState) = Inr ()"
    by (simp add: userc_UpdatePassword_def GetUserIdFromContext_def GetUserFromContext_def preChangePassword_def userGet_def orInternal_def
        orNil_def sqlFirst_def onResult_def andThen_def timeNow_def modify_def ret_def fail_def stmt_def demoCrypto_def demoState_def demoDb_def
        iam_db.defs demoUser_def EncryptUserPassword_def userUpdate_def daoUpdate_def sqlUpdates_def updConflict_def changedRows_def
        updRow_def versionMatch_def versionedUpdates_def)
  with UpdatePassword_spec [of demoCrypto "Some (demoUser 1 0)" 1 ?req demoState
      "snd (userc_UpdatePassword demoCrypto (Some (demoUser 1 0)) 1 ?req demoState)"]
  show ?thesis by (simp add: prod_eq_iff)
qed

section \<open>Privileges\<close>

definition userRoles :: "'m iam_db_scheme \<Rightarrow> (int \<times> int) list" where
  "userRoles w = map (\<lambda>u. (Oid u, u_Role u)) (rows (users w))"

lemma userUpdate_rows:
  assumes "\<And>w2. users w2 = users w1 \<Longrightarrow> E w2"
    and "\<And>w2 now. rows (users w2) = map (updRow (versionMatch uid v) (versionedUpdates now v us)) (rows (users w1)) \<Longrightarrow>
          userIndexer w2 = userIndexer w1 \<Longrightarrow> tokenIndexer w2 = tokenIndexer w1 \<Longrightarrow> Q () w2"
  shows "wp (userUpdate uid v us) Q (\<lambda>_. E) (w1 :: 'm iam_state_scheme)"
proof -
  have same: "users w1\<lparr>rows := map (updRow (versionMatch uid v) us') (rows (users w1))\<rparr> = users w1"
    if "changedRows (versionMatch uid v) us' (users w1) = []" for us'
    using updTable_no_change [OF that] by (simp add: updTable_def)
  show ?thesis
    by (auto simp: userUpdate_def daoUpdate_def wp_simps Let_def updTable_def same split: option.splits intro!: assms)
qed

text \<open>C7: no vertical escalation: an update sent by a user who is not super administrator changes nobody's
  role and nobody else's row, whether it succeeds or fails.\<close>

theorem Update_no_escalation:
  assumes "table_ok (users w)" and "u_Role cur \<noteq> RoleRoot"
  shows "userRoles (snd (userc_Update (Some cur) uid req w)) = userRoles w \<and>
    filter (\<lambda>u. Oid u \<noteq> Oid cur) (rows (users (snd (userc_Update (Some cur) uid req w)))) = filter (\<lambda>u. Oid u \<noteq> Oid cur) (rows (users w))"
proof -
  let ?P = "\<lambda>w'. userRoles w' = userRoles w \<and>
    filter (\<lambda>u. Oid u \<noteq> Oid cur) (rows (users w')) = filter (\<lambda>u. Oid u \<noteq> Oid cur) (rows (users w))"
  have row: "Oid (updRow (versionMatch (Oid old) v) (versionedUpdates now v (userUpdates cur old req)) u) = Oid u \<and>
      u_Role (updRow (versionMatch (Oid old) v) (versionedUpdates now v (userUpdates cur old req)) u) = u_Role u"
    if "u \<in> set (rows (users w))" "old \<in> set (rows (users w))" for u old v now
    using that assms(2) table_ok_Oid_eq [OF assms(1) that(1,2)]
    by (auto simp: updRow_def versionMatch_def versionedUpdates_def userUpdates_def)
  have others: "filter (\<lambda>u. Oid u \<noteq> Oid old) (map (updRow (versionMatch (Oid old) v) (versionedUpdates now v (userUpdates cur old req))) rs) =
     filter (\<lambda>u. Oid u \<noteq> Oid old) rs" for rs v now old
    by (induction rs) (auto simp: updRow_def versionMatch_def versionedUpdates_def userUpdates_def)
  have "wp (userc_Update (Some cur) uid req) (\<lambda>_. ?P) (\<lambda>_. ?P) w"
    using assms(2)
    by (auto simp: userc_Update_def preUpdateUser_def GetUserFromContext_def userGet_def wp_simps Let_def userRoles_def row others
        split: option.splits if_splits intro!: userUpdate_rows dest!: find_Oid_mem)
  then show ?thesis by (simp add: wp_snd)
qed

lemma Update_no_escalation_witness:
  "userRoles (snd (userc_Update (Some (demoUser 2 1)) 1
     \<lparr>uu_Role = 0, uu_Status = 1, uu_Email = [], uu_Phone = [], uu_Description = [], uu_ResourceVersion = 0\<rparr> demoState)) = [(1, 0)]"
  using Update_no_escalation [of demoState "demoUser 2 1" 1
     "\<lparr>uu_Role = 0, uu_Status = 1, uu_Email = [], uu_Phone = [], uu_Description = [], uu_ResourceVersion = 0\<rparr>"]
  by (simp add: demoState_def demoDb_def iam_db.defs demoUser_def RoleRoot_def table_ok_def userRoles_def)

definition rootCount :: "'m iam_db_scheme \<Rightarrow> nat" where
  "rootCount w = length (filter (\<lambda>u. u_Role u = RoleRoot) (rows (users w)))"

text \<open>C26: creating users keeps the super administrator unique: \<open>Create\<close> never adds a second one,
  whatever fails on the way.\<close>

theorem Create_keeps_single_root: "keeps (\<lambda>w. rootCount w \<le> 1) (userc_Create cr req)"
proof (rule keepsI)
  fix w :: "'a iam_state_scheme" assume one: "rootCount w \<le> 1"
  have enc: "wp (EncryptUserPassword cr p) Q (\<lambda>_. E) w" if "\<And>x. Q x (w\<lparr>tick := Suc (tick w)\<rparr>)" "E (w\<lparr>tick := Suc (tick w)\<rparr>)" for p Q E
    using that by (auto simp: EncryptUserPassword_def wp_def split: sum.splits)
  have none: "find (\<lambda>r. u_Role r = RoleRoot) rs = None \<Longrightarrow> filter (\<lambda>u. u_Role u = RoleRoot) rs = []" for rs :: "User list"
    by (auto simp: find_None_iff filter_empty_conv)
  show "wp (userc_Create cr req) (\<lambda>_ w. rootCount w \<le> 1) (\<lambda>_ w. rootCount w \<le> 1) w"
    using one
    by (auto simp: userc_Create_def userGetUserByName_def userGetRoot_def userCreate_def wp_simps wp_transaction Let_def rootCount_def
        insTable_def newUser_def none split: option.splits intro!: enc)
qed

text \<open>The update does not: a request of the super administrator that leaves out the role (zero) makes a
  second super administrator.\<close>

lemma Update_second_root:
  "\<exists>w cur req. rootCount w = 1 \<and> uu_Role req = 0 \<and> rootCount (snd (userc_Update (Some cur) 2 req (w :: iam_state))) = 2"
proof -
  define w where "w = demoState\<lparr>users := \<lparr>rows = [demoUser 1 0, demoUser 2 2], next_id = 3\<rparr>\<rparr>"
  define req where "req = \<lparr>uu_Role = 0, uu_Status = 0, uu_Email = [], uu_Phone = [], uu_Description = [], uu_ResourceVersion = 0\<rparr>"
  have "rootCount (snd (userc_Update (Some (demoUser 1 0)) 2 req w)) = 2"
    by (simp add: w_def req_def rootCount_def userc_Update_def preUpdateUser_def GetUserFromContext_def userGet_def orInternal_def
        orNil_def sqlFirst_def onResult_def andThen_def timeNow_def modify_def ret_def fail_def stmt_def demoState_def demoDb_def
        iam_db.defs demoUser_def userUpdate_def daoUpdate_def sqlUpdates_def updConflict_def changedRows_def updTable_def
        updRow_def versionMatch_def versionedUpdates_def userUpdates_def role_defs users_t_def)
  moreover have "rootCount w = 1" by (simp add: w_def rootCount_def demoUser_def RoleRoot_def)
  ultimately show ?thesis by (auto simp: req_def intro!: exI [of _ w] exI [of _ "demoUser 1 0"] exI [of _ req])
qed

text \<open>with single login, the logout route ends the sessions of whatever user the path names: the
  policy lets every logged-in user through and the controller does not look at who asks.\<close>

theorem Logout_any_user:
  "Classify roleId ''POST'' pathUserLogout = Allow \<and>
   sessions (tokenIndexer (snd (userc_Logout \<lparr>SingleLogin = True, JWTKey = k, DebugMode = d\<rparr> c userId w))) =
     (sessions (tokenIndexer w))(userId := {})"
  by (auto simp: Classify_def rbac_paths userc_Logout_def modify_def)

section \<open>Paging\<close>

definition userMatches :: "ListOptions \<Rightarrow> User \<Rightarrow> bool" where
  "userMatches lo u \<longleftrightarrow> (lo_NameSelector lo = [] \<or> sqlLike (''%'' @ lo_NameSelector lo @ ''%'') (u_Name u)) \<and>
     (lo_UserPhone lo = [] \<or> sqlLike (''%'' @ lo_UserPhone lo @ ''%'') (u_Phone u)) \<and>
     (lo_UserEmail lo = [] \<or> sqlLike (''%'' @ lo_UserEmail lo @ ''%'') (u_Email u)) \<and>
     (case lo_Status lo of None \<Rightarrow> True | Some st \<Rightarrow> u_Status u = st)"

declare sqlLike.simps(2) [simp del]

lemma userFilters_query:
  "qWhere (buildQuery (userFilters lo)) = userMatches lo"
  "qWhere (buildQuery (userFilters lo @ [WithOffset k, WithLimit n])) = userMatches lo"
  "n \<noteq> 0 \<Longrightarrow> qLimit (buildQuery (userFilters lo @ [WithOffset k, WithLimit n])) = n"
  by (auto simp: fun_eq_iff userMatches_def userFilters_def buildQuery_def emptyQuery_def WithOrderByDesc_def WithNameLike_def WithPhoneLike_def
      WithEmailLike_def WithUserStatus_def WithOffset_def WithLimit_def Where_def split: option.splits)

lemma SetDefaultPageOption_simps:
  "1 \<le> lo_Page (SetDefaultPageOption lo)" "1 \<le> lo_Limit (SetDefaultPageOption lo)" "lo_Limit (SetDefaultPageOption lo) \<le> 100"
  "userMatches (SetDefaultPageOption lo) = userMatches lo"
  by (simp_all add: SetDefaultPageOption_def Let_def userMatches_def fun_eq_iff)

text \<open>a page of the user list: whatever page and limit the client sends, the page starts at 1, holds
  between 1 and 100 entries at most, lists only users that match every filter, and the total is the
  number of users that match.\<close>

theorem UserList_page:
  assumes "userc_List lo w = (Inr p, w')"
  shows "1 \<le> pr_Page p \<and> 1 \<le> pr_Limit p \<and> pr_Limit p \<le> 100 \<and> int (length (pr_Items p)) \<le> pr_Limit p \<and>
    set (pr_Items p) \<subseteq> userModel2Type ` {u \<in> set (rows (users w)). userMatches lo u} \<and>
    pr_Total p = int (length (filter (userMatches lo) (rows (users w))))"
proof -
  let ?lo = "SetDefaultPageOption lo"
  note simps = userFilters_query SetDefaultPageOption_simps
  have lim: "int (length (runQuery (buildQuery (userFilters ?lo @ [WithOffset k, WithLimit (lo_Limit ?lo)])) rs)) \<le> lo_Limit ?lo" for k rs
    using length_runQuery [of "buildQuery (userFilters ?lo @ [WithOffset k, WithLimit (lo_Limit ?lo)])" rs] SetDefaultPageOption_simps(2) [of lo]
    by (simp add: userFilters_query(3))
  have mem: "u \<in> set rs \<and> userMatches lo u"
    if "u \<in> set (runQuery (buildQuery (userFilters ?lo @ [WithOffset k, WithLimit (lo_Limit ?lo)])) rs)" for u k rs
    using set_runQuery [OF that] by (simp add: simps)
  have "wp (userc_List lo) (\<lambda>p _. 1 \<le> pr_Page p \<and> 1 \<le> pr_Limit p \<and> pr_Limit p \<le> 100 \<and> int (length (pr_Items p)) \<le> pr_Limit p \<and>
    set (pr_Items p) \<subseteq> userModel2Type ` {u \<in> set (rows (users w)). userMatches lo u} \<and>
    pr_Total p = int (length (filter (userMatches lo) (rows (users w))))) (\<lambda>_ _. True) w"
    using lim mem by (auto simp: userc_List_def userCount_def userList_def wp_simps Let_def simps split: option.splits)
  then show ?thesis using assms by (rule wp_Inr)
qed

definition demoList :: ListOptions where
  "demoList = \<lparr>lo_UserId = 0, lo_Page = -3, lo_Limit = 1000, lo_NameSelector = ''oo'', lo_UserPhone = [], lo_UserEmail = [],
     lo_Status = None, lo_TenantId = None, lo_Method = [], lo_PathSelector = [], lo_Group = [], lo_RuleId = 0, lo_EventId = 0,
     lo_ClusterId = 0, lo_Severity = 0, lo_ChannelType = 0, lo_Enabled = None, lo_Step = [],
     lo_UserRole = 0, lo_LabelSelector = [], lo_ClusterName = [], lo_DatasourceType = None, lo_SubType = [], lo_Provider = [],
     lo_ProviderId = 0, lo_ConversationId = 0, lo_Family = [], lo_Operator = [], lo_Action = [], lo_ObjectType = [],
     lo_StartTime = [], lo_EndTime = [], lo_AgentStatus = None\<rparr>"

lemma UserList_page_witness: "\<exists>p. fst (userc_List demoList demoState) = Inr p \<and> pr_Limit p \<le> 100 \<and> pr_Total p = 1"
proof -
  have "\<exists>p. fst (userc_List demoList demoState) = Inr p"
    by (simp add: userc_List_def userCount_def userList_def orInternal_def onResult_def daoCount_def daoList_def stmt_def ret_def Let_def
        demoState_def demoDb_def iam_db.defs)
  then obtain p where p: "fst (userc_List demoList demoState) = Inr p" by blast
  with UserList_page [of demoList demoState p "snd (userc_List demoList demoState)"] show ?thesis
    by (auto simp: prod_eq_iff demoState_def demoDb_def iam_db.defs demoList_def userMatches_def sqlLike.simps(2))
qed

end
