(* ===== verification/RoleController.thy ===== *)
theory RoleController
  imports UserController
begin

text \<open>
  The controllers of roles (\<open>pkg/controller/role\<close>: role, its APIs, menus and data scopes), tenants
  (\<open>pkg/controller/tenant\<close>) and API resources (\<open>pkg/controller/apiresource\<close>).
\<close>

section \<open>Requests\<close>

record CreateRoleRequest =
  cr_Name :: string
  cr_TenantId :: "int option"
  cr_Description :: "string option"

record UpdateRoleRequest =
  ur_Name :: "string option"
  ur_Description :: "string option"
  ur_ResourceVersion :: int

text \<open>\<open>Scopes\<close> is \<open>None\<close> when the request has no such field (a nil slice).\<close>

record UpdateRoleAPIScopesRequest =
  us_Scopes :: "types_Scope list option"
  us_AddScopes :: "types_Scope list"
  us_RemoveScopes :: "types_Scope list"

record types_Role =
  tr_Id :: int
  tr_ResourceVersion :: int
  tr_TenantId :: int
  tr_Name :: string
  tr_Description :: string

definition optionalUpdate :: "string \<Rightarrow> ('v \<Rightarrow> 'r \<Rightarrow> 'r) \<Rightarrow> 'v option \<Rightarrow> 'r updates" where
  "optionalUpdate col upd v = (case v of None \<Rightarrow> [] | Some x \<Rightarrow> [(col, upd x)])"

text \<open>\<open>if utilerrors.IsUniqueConstraintError(err) { return exists }; return ErrServerInternal\<close>\<close>

definition uniqueOr :: "goerr \<Rightarrow> ('w, goerr, 'a) act \<Rightarrow> ('w, goerr, unit) act" where
  "uniqueOr exists m = onResult m (\<lambda>err. if IsUniqueConstraintError err then fail exists else fail ErrServerInternal) (\<lambda>_. ret ())"

section \<open>Roles\<close>

definition newRole :: "int \<Rightarrow> string \<Rightarrow> string option \<Rightarrow> Role" where
  "newRole tenantId name description = \<lparr>Oid = 0, GmtCreate = 0, GmtModified = 0, ResourceVersion = 0,
     ro_TenantId = tenantId, ro_Name = name, ro_Description = (case description of None \<Rightarrow> [] | Some d \<Rightarrow> d)\<rparr>"

definition rolec_Create :: "CreateRoleRequest \<Rightarrow> ('m iam_db_scheme, goerr, unit) act" where
  "rolec_Create req =
     (let tenantId = (case cr_TenantId req of None \<Rightarrow> 0 | Some t \<Rightarrow> t)
      in orInternal (roleGetBy [WithTenantId tenantCol tenantId, WithName ro_Name (cr_Name req)]) (\<lambda>object.
        if object \<noteq> None then fail ErrRoleExists
        else andThen
          (if tenantId > 0 then orInternal (tenantGet tenantId) (\<lambda>tenant. if tenant = None then fail ErrTenantNotFound else ret ())
           else ret ())
          (\<lambda>_. uniqueOr ErrRoleExists (roleCreate (newRole tenantId (cr_Name req) (cr_Description req))))))"

definition preUpdateRole :: "int \<Rightarrow> ('m iam_db_scheme, goerr, Role) act" where
  "preUpdateRole rid = orInternal (roleGet rid) (\<lambda>object. case object of None \<Rightarrow> fail ErrRoleNotFound | Some r \<Rightarrow> ret r)"

definition rolec_Update :: "int \<Rightarrow> UpdateRoleRequest \<Rightarrow> ('m iam_db_scheme, goerr, unit) act" where
  "rolec_Update rid req = andThen (preUpdateRole rid) (\<lambda>object.
     andThen (case ur_Name req of
         None \<Rightarrow> ret ()
       | Some name \<Rightarrow> if name \<noteq> ro_Name object
           then orInternal (roleGetBy [WithTenantId tenantCol (ro_TenantId object), WithName ro_Name name]) (\<lambda>existing.
             case existing of Some r \<Rightarrow> if Oid r \<noteq> rid then fail ErrRoleExists else ret () | None \<Rightarrow> ret ())
           else ret ())
     (\<lambda>_. let updates = optionalUpdate ''name'' (\<lambda>x. ro_Name_update (\<lambda>_. x)) (ur_Name req) @
            optionalUpdate ''description'' (\<lambda>x. ro_Description_update (\<lambda>_. x)) (ur_Description req)
        in if updates = [] then fail ErrInvalidRequest
           else uniqueOr ErrRoleExists (roleUpdate rid (ur_ResourceVersion req) updates)))"

definition rolec_Delete :: "int \<Rightarrow> ('m iam_db_scheme, goerr, unit) act" where
  "rolec_Delete rid = orInternal (roleDelete rid) (\<lambda>object. if object = None then fail ErrRoleNotFound else ret ())"

definition roleModel2Type :: "Role \<Rightarrow> types_Role" where
  "roleModel2Type o1 = \<lparr>tr_Id = Oid o1, tr_ResourceVersion = ResourceVersion o1, tr_TenantId = ro_TenantId o1,
     tr_Name = ro_Name o1, tr_Description = ro_Description o1\<rparr>"

definition rolec_Get :: "int \<Rightarrow> ('m iam_db_scheme, goerr, types_Role) act" where
  "rolec_Get rid = orInternal (roleGet rid) (\<lambda>object. case object of
     None \<Rightarrow> fail ErrRoleNotFound | Some r \<Rightarrow> ret (roleModel2Type r))"

definition rolec_List :: "ListOptions \<Rightarrow> ('m iam_db_scheme, goerr, types_Role PageResult) act" where
  "rolec_List listOption =
     (let lo = SetDefaultPageOption listOption;
          opts = [WithOrderByDesc, WithNameLike ro_Name (lo_NameSelector lo)] @
            (case lo_TenantId lo of None \<Rightarrow> [] | Some t \<Rightarrow> [WithTenantId tenantCol t])
      in orInternal (roleCount opts) (\<lambda>total.
         orInternal (roleList (opts @ [WithOffset ((lo_Page lo - 1) * lo_Limit lo), WithLimit (lo_Limit lo)])) (\<lambda>objects.
           ret \<lparr>pr_Page = lo_Page lo, pr_Limit = lo_Limit lo, pr_Total = total, pr_Items = map roleModel2Type objects\<rparr>)))"

section \<open>APIs of a role\<close>

definition rolec_GetAPIs :: "int \<Rightarrow> ('m iam_db_scheme, goerr, APIResource list \<times> APIResource list) act" where
  "rolec_GetAPIs rid = orInternal (roleGet rid) (\<lambda>object. if object = None then fail ErrRoleNotFound
     else orInternal (ListAPIIdsByRoleId rid) (\<lambda>associatedIds.
          orInternal (apiList []) (\<lambda>as.
            ret (map toAPIResource (filter (\<lambda>a. Oid a \<in> set associatedIds) as),
                 map toAPIResource (filter (\<lambda>a. Oid a \<notin> set associatedIds) as)))))"

definition dedupeInt64 :: "int list \<Rightarrow> int list" where
  "dedupeInt64 ids = (if ids = [] then ids else dedupFrom [] ids)"

definition rolec_UpdateAPIs :: "int \<Rightarrow> int list \<Rightarrow> ('m iam_db_scheme, goerr, unit) act" where
  "rolec_UpdateAPIs rid reqIds = andThen (preUpdateRole rid) (\<lambda>_.
     let apiIds = dedupeInt64 reqIds
     in andThen (forEach (\<lambda>apiId. orInternal (apiGet apiId) (\<lambda>api. if api = None then fail ErrAPINotFound else ret ())) apiIds)
       (\<lambda>_. orInternal (roleApiReplaceByRoleId rid apiIds) ret))"

section \<open>Menus of a role\<close>

record RoleMenusResponse =
  rmr_Associated :: "string list"
  rmr_Catalog :: "MenuResource list"
  rmr_Derived :: bool

definition rolec_GetMenus :: "(nat \<Rightarrow> string list \<Rightarrow> string list) \<Rightarrow> int \<Rightarrow> ('m iam_db_scheme, goerr, RoleMenusResponse) act" where
  "rolec_GetMenus visit rid = orInternal (roleGet rid) (\<lambda>object. if object = None then fail ErrRoleNotFound
     else orInternal (ListMenuCodesByRoleId rid) (\<lambda>explicit.
       if explicit \<noteq> []
       then ret \<lparr>rmr_Associated = Resolve visit \<lparr>IsRoot = False, IsAdmin = False, Buttons = [], ExplicitMenus = explicit\<rparr>,
                 rmr_Catalog = CatalogResources, rmr_Derived = False\<rparr>
       else orInternal (GetByRoleId rid) (\<lambda>as.
         ret \<lparr>rmr_Associated = DeriveFromButtons visit (ButtonsOf (map (\<lambda>a. \<lparr>Method = a_Method a, Path = a_Path a\<rparr>) as)) (rid = RoleAdmin),
              rmr_Catalog = CatalogResources, rmr_Derived = True\<rparr>)))"

definition rolec_UpdateMenus :: "int \<Rightarrow> string list \<Rightarrow> ('m iam_db_scheme, goerr, unit) act" where
  "rolec_UpdateMenus rid menuCodes = andThen (preUpdateRole rid) (\<lambda>_. case SanitizeCodes menuCodes of
     Inl err \<Rightarrow> fail ErrInvalidRequest
   | Inr codes \<Rightarrow> orInternal (roleMenuReplaceByRoleId rid codes) ret)"

section \<open>Scopes of a role\<close>

definition toModels :: "types_Scope list \<Rightarrow> RoleAPIScope list" where
  "toModels items = map (\<lambda>i. \<lparr>Oid = 0, GmtCreate = 0, GmtModified = 0, ResourceVersion = 0, rs_RoleId = 0,
     rs_APIId = ts_APIId i, rs_ResourceType = ts_ResourceType i, rs_ResourceId = ts_ResourceId i\<rparr>) items"

definition rolec_GetAPIScopes :: "int \<Rightarrow> ('m iam_db_scheme, goerr, types_Scope list \<times> APIResource list) act" where
  "rolec_GetAPIScopes rid = orInternal (roleGet rid) (\<lambda>object. if object = None then fail ErrRoleNotFound
     else orInternal (ListScopes rid) (\<lambda>scopes.
          orInternal (apiList []) (\<lambda>as. ret (map toScope scopes, map toAPIResource as))))"

text \<open>\<open>order\<close>: the order in which \<open>MergeIDs\<close> lists the keys of its map.\<close>

definition syncRoleAPIsFromScopes :: "(int list \<Rightarrow> int list) \<Rightarrow> int \<Rightarrow> ('m iam_db_scheme, goerr, unit) act" where
  "syncRoleAPIsFromScopes order rid = orInternal (ListScopes rid) (\<lambda>scopes.
     orInternal (ListAPIIdsByRoleId rid) (\<lambda>existing.
     orInternal (roleApiReplaceByRoleId rid (MergeIDs order [existing, map rs_APIId scopes])) ret))"

definition rolec_UpdateAPIScopes :: "(int list \<Rightarrow> int list) \<Rightarrow> int \<Rightarrow> UpdateRoleAPIScopesRequest \<Rightarrow> ('m iam_db_scheme, goerr, unit) act" where
  "rolec_UpdateAPIScopes order rid req = andThen (preUpdateRole rid) (\<lambda>_.
     andThen (case us_Scopes req of
         Some scopes \<Rightarrow> orInternal (ReplaceScopes rid (toModels scopes)) ret
       | None \<Rightarrow> andThen
           (if us_RemoveScopes req \<noteq> [] then orInternal (RemoveScopes rid (toModels (us_RemoveScopes req))) ret else ret ())
           (\<lambda>_. if us_AddScopes req \<noteq> [] then orInternal (AddScopes rid (toModels (us_AddScopes req))) ret else ret ()))
       (\<lambda>_. syncRoleAPIsFromScopes order rid))"

section \<open>Tenants\<close>

record types_Tenant =
  tt_Id :: int
  tt_ResourceVersion :: int
  tt_Name :: string
  tt_Description :: string

definition tenantc_Create :: "string \<Rightarrow> string option \<Rightarrow> ('m iam_db_scheme, goerr, unit) act" where
  "tenantc_Create name description = orInternal (GetTenantByName name) (\<lambda>object.
     if object \<noteq> None then fail ErrTenantExists
     else orInternal (tenantCreate \<lparr>Oid = 0, GmtCreate = 0, GmtModified = 0, ResourceVersion = 0, t_Name = name,
         t_Description = (case description of None \<Rightarrow> [] | Some d \<Rightarrow> d), t_Extension = []\<rparr>) (\<lambda>_. ret ()))"

definition tenantc_preUpdate :: "int \<Rightarrow> ('m iam_db_scheme, goerr, unit) act" where
  "tenantc_preUpdate tid = orInternal (tenantGet tid) (\<lambda>object. if object = None then fail ErrTenantNotFound else ret ())"

definition tenantc_Update :: "int \<Rightarrow> string option \<Rightarrow> string option \<Rightarrow> int \<Rightarrow> ('m iam_db_scheme, goerr, unit) act" where
  "tenantc_Update tid name description resourceVersion = andThen (tenantc_preUpdate tid) (\<lambda>_.
     let updates = optionalUpdate ''name'' (\<lambda>x. t_Name_update (\<lambda>_. x)) name @
           optionalUpdate ''description'' (\<lambda>x. t_Description_update (\<lambda>_. x)) description
     in if updates = [] then fail ErrInvalidRequest else orInternal (tenantUpdate tid resourceVersion updates) ret)"

definition tenantc_Delete :: "int \<Rightarrow> ('m iam_db_scheme, goerr, unit) act" where
  "tenantc_Delete tid = orInternal (tenantDelete tid) (\<lambda>object. if object = None then fail ErrTenantNotFound else ret ())"

definition tenantModel2Type :: "Tenant \<Rightarrow> types_Tenant" where
  "tenantModel2Type o1 = \<lparr>tt_Id = Oid o1, tt_ResourceVersion = ResourceVersion o1, tt_Name = t_Name o1, tt_Description = t_Description o1\<rparr>"

definition tenantc_Get :: "int \<Rightarrow> ('m iam_db_scheme, goerr, types_Tenant) act" where
  "tenantc_Get tid = orInternal (tenantGet tid) (\<lambda>object. case object of
     None \<Rightarrow> fail ErrTenantNotFound | Some t \<Rightarrow> ret (tenantModel2Type t))"

definition tenantc_List :: "ListOptions \<Rightarrow> ('m iam_db_scheme, goerr, types_Tenant PageResult) act" where
  "tenantc_List listOption =
     (let lo = SetDefaultPageOption listOption; opts = [WithOrderByDesc, WithNameLike t_Name (lo_NameSelector lo)]
      in orInternal (tenantCount opts) (\<lambda>total.
         orInternal (tenantList (opts @ [WithOffset ((lo_Page lo - 1) * lo_Limit lo), WithLimit (lo_Limit lo)])) (\<lambda>objects.
           ret \<lparr>pr_Page = lo_Page lo, pr_Limit = lo_Limit lo, pr_Total = total, pr_Items = map tenantModel2Type objects\<rparr>)))"

section \<open>API resources\<close>

record CreateAPIRequest =
  ca_Method :: string
  ca_Path :: string
  ca_Group :: "string option"
  ca_Description :: "string option"

record UpdateAPIRequest =
  ua_Method :: "string option"
  ua_Path :: "string option"
  ua_Group :: "string option"
  ua_Description :: "string option"
  ua_ResourceVersion :: int

definition orEmpty :: "string option \<Rightarrow> string" where
  "orEmpty v = (case v of None \<Rightarrow> [] | Some x \<Rightarrow> x)"

definition apic_Create :: "CreateAPIRequest \<Rightarrow> ('m iam_db_scheme, goerr, unit) act" where
  "apic_Create req = orInternal (GetByMethodAndPath (ca_Method req) (ca_Path req)) (\<lambda>object.
     if object \<noteq> None then fail ErrAPIExists
     else uniqueOr ErrAPIExists (apiCreate \<lparr>Oid = 0, GmtCreate = 0, GmtModified = 0, ResourceVersion = 0,
       a_Method = ca_Method req, a_Path = ca_Path req, a_Group = orEmpty (ca_Group req), a_Description = orEmpty (ca_Description req)\<rparr>))"

definition changedTo :: "string option \<Rightarrow> string \<Rightarrow> string option" where
  "changedTo v old = (case v of None \<Rightarrow> None | Some x \<Rightarrow> if x \<noteq> old then Some x else None)"

definition apic_Register :: "CreateAPIRequest \<Rightarrow> ('m iam_db_scheme, goerr, unit) act" where
  "apic_Register req = andThen (GetByMethodAndPath (ca_Method req) (ca_Path req)) (\<lambda>object. case object of
     Some o1 \<Rightarrow>
       (let updates = optionalUpdate ''api_group'' (\<lambda>x. a_Group_update (\<lambda>_. x)) (changedTo (ca_Group req) (a_Group o1)) @
              optionalUpdate ''description'' (\<lambda>x. a_Description_update (\<lambda>_. x)) (changedTo (ca_Description req) (a_Description o1))
        in if updates \<noteq> [] then apiUpdate (Oid o1) (ResourceVersion o1) updates else ret ())
   | None \<Rightarrow> apic_Create req)"

definition apic_preUpdate :: "int \<Rightarrow> ('m iam_db_scheme, goerr, API) act" where
  "apic_preUpdate aid = orInternal (apiGet aid) (\<lambda>object. case object of None \<Rightarrow> fail ErrAPINotFound | Some a \<Rightarrow> ret a)"

definition apic_Update :: "int \<Rightarrow> UpdateAPIRequest \<Rightarrow> ('m iam_db_scheme, goerr, unit) act" where
  "apic_Update aid req = andThen (apic_preUpdate aid) (\<lambda>object.
     let method = (case ua_Method req of None \<Rightarrow> a_Method object | Some m \<Rightarrow> m);
         path = (case ua_Path req of None \<Rightarrow> a_Path object | Some p \<Rightarrow> p)
     in andThen (if method \<noteq> a_Method object \<or> path \<noteq> a_Path object
                 then orInternal (GetByMethodAndPath method path) (\<lambda>existing. case existing of
                   Some e \<Rightarrow> if Oid e \<noteq> aid then fail ErrAPIExists else ret () | None \<Rightarrow> ret ())
                 else ret ())
       (\<lambda>_. let updates = optionalUpdate ''method'' (\<lambda>x. a_Method_update (\<lambda>_. x)) (ua_Method req) @
               optionalUpdate ''path'' (\<lambda>x. a_Path_update (\<lambda>_. x)) (ua_Path req) @
               optionalUpdate ''description'' (\<lambda>x. a_Description_update (\<lambda>_. x)) (ua_Description req) @
               optionalUpdate ''api_group'' (\<lambda>x. a_Group_update (\<lambda>_. x)) (ua_Group req)
          in if updates = [] then fail ErrInvalidRequest
             else uniqueOr ErrAPIExists (apiUpdate aid (ua_ResourceVersion req) updates)))"

definition apic_Delete :: "int \<Rightarrow> ('m iam_db_scheme, goerr, unit) act" where
  "apic_Delete aid = orInternal (apiDelete aid) (\<lambda>object. if object = None then fail ErrAPINotFound else ret ())"

definition apic_Get :: "int \<Rightarrow> ('m iam_db_scheme, goerr, APIResource) act" where
  "apic_Get aid = orInternal (apiGet aid) (\<lambda>object. case object of None \<Rightarrow> fail ErrAPINotFound | Some a \<Rightarrow> ret (toAPIResource a))"

definition apic_List :: "ListOptions \<Rightarrow> ('m iam_db_scheme, goerr, APIResource PageResult) act" where
  "apic_List listOption =
     (let lo = SetDefaultPageOption listOption;
          opts = [WithOrderByDesc, WithMethod a_Method (lo_Method lo), WithPathLike a_Path (lo_PathSelector lo), WithAPIGroup a_Group (lo_Group lo)]
      in orInternal (apiCount opts) (\<lambda>total.
         orInternal (apiList (opts @ [WithOffset ((lo_Page lo - 1) * lo_Limit lo), WithLimit (lo_Limit lo)])) (\<lambda>objects.
           ret \<lparr>pr_Page = lo_Page lo, pr_Limit = lo_Limit lo, pr_Total = total, pr_Items = map toAPIResource objects\<rparr>)))"

section \<open>Scopes and APIs stay in step\<close>

definition roleAPIs :: "'m iam_db_scheme \<Rightarrow> int \<Rightarrow> int set" where
  "roleAPIs w rid = {a. (rid, a) \<in> set (map apiPair (rows (role_apis w)))}"

definition requestedScopes :: "int \<Rightarrow> UpdateRoleAPIScopesRequest \<Rightarrow> (int \<times> int \<times> string \<times> int) set \<Rightarrow> (int \<times> int \<times> string \<times> int) set" where
  "requestedScopes rid req S = (case us_Scopes req of
     Some scopes \<Rightarrow> {x \<in> S. fst x \<noteq> rid} \<union> Pair rid ` set (wantedScopes (toModels scopes))
   | None \<Rightarrow> (S - Pair rid ` set (removedScopes (toModels (us_RemoveScopes req)))) \<union> Pair rid ` set (wantedScopes (toModels (us_AddScopes req))))"

lemma scopeSet_list: "scopeSet w = set (map (\<lambda>s. (rs_RoleId s, scopeTriple s)) (rows (role_api_scopes w)))"
  by (simp add: scopeSet_def scopeRow_def [abs_def])

lemma ReplaceScopes_set:
  "wp (ReplaceScopes rid scopes) (\<lambda>_ w'. w' = w\<lparr>tick := tick w', role_api_scopes := role_api_scopes w'\<rparr> \<and>
     scopeSet w' = {x \<in> scopeSet w. fst x \<noteq> rid} \<union> Pair rid ` set (wantedScopes scopes)) (\<lambda>_ _. True) w"
proof (rule wpI)
  fix x w' assume "ReplaceScopes rid scopes w = (Inr x, w')"
  from ReplaceScopes_cases [OF this] show "w' = w\<lparr>tick := tick w', role_api_scopes := role_api_scopes w'\<rparr> \<and>
     scopeSet w' = {x \<in> scopeSet w. fst x \<noteq> rid} \<union> Pair rid ` set (wantedScopes scopes)"
    unfolding scopeSet_list by (auto simp: set_dedupFrom)
qed simp

lemma scopes_frame_apis:
  assumes "w' = w\<lparr>tick := n, role_api_scopes := T\<rparr>"
  shows "role_apis w' = role_apis w"
  unfolding assms by simp

lemma ReplaceScopes_wp:
  assumes "\<And>w'. role_apis w' = role_apis w \<Longrightarrow> scopeSet w' = {x \<in> scopeSet w. fst x \<noteq> rid} \<union> Pair rid ` set (wantedScopes scopes) \<Longrightarrow> Q () w'"
    and "\<And>e w'. E e w'"
  shows "wp (ReplaceScopes rid scopes) Q E w"
proof (rule wp_mono [OF ReplaceScopes_set])
  fix x w' assume a: "w' = w\<lparr>tick := tick w', role_api_scopes := role_api_scopes w'\<rparr> \<and>
     scopeSet w' = {x \<in> scopeSet w. fst x \<noteq> rid} \<union> Pair rid ` set (wantedScopes scopes)"
  show "Q x w'" by (simp, rule assms(1) [OF scopes_frame_apis [OF a [THEN conjunct1]] a [THEN conjunct2]])
qed (rule assms(2))

lemma AddScopes_wp:
  assumes "\<And>w'. role_apis w' = role_apis w \<Longrightarrow> scopeSet w' = scopeSet w \<union> Pair rid ` set (wantedScopes scopes) \<Longrightarrow> Q () w'"
    and "\<And>e w'. E e w'"
  shows "wp (AddScopes rid scopes) Q E w"
proof (rule wpI)
  fix x w' assume a: "AddScopes rid scopes w = (Inr x, w')"
  note c = AddScopes_cases [OF a, unfolded sum.case]
  show "Q x w'" by (simp, rule assms(1) [OF scopes_frame_apis [OF c [THEN conjunct1]] c [THEN conjunct2]])
qed (rule assms(2))

lemma RemoveScopes_wp:
  assumes "\<And>w'. role_apis w' = role_apis w \<Longrightarrow> scopeSet w' = scopeSet w - Pair rid ` set (removedScopes scopes) \<Longrightarrow> Q () w'"
    and "\<And>e w'. E e w'"
  shows "wp (RemoveScopes rid scopes) Q E w"
proof (rule wpI)
  fix x w' assume a: "RemoveScopes rid scopes w = (Inr x, w')"
  note c = RemoveScopes_cases [OF a, unfolded sum.case]
  show "Q x w'" by (simp, rule assms(1) [OF scopes_frame_apis [OF c [THEN conjunct1]] c [THEN conjunct2]])
qed (rule assms(2))

lemma roleApiReplace_wp:
  assumes "\<And>w'. scopeSet w' = scopeSet w \<Longrightarrow> roleAPIs w' = (roleAPIs w)(rid := set ids) \<Longrightarrow> Q () w'" and "\<And>e w'. E e w'"
  shows "wp (roleApiReplaceByRoleId rid ids) Q E w"
proof (rule wpI)
  fix x w' assume r: "roleApiReplaceByRoleId rid ids w = (Inr x, w')"
  from roleApiReplace_cases [OF r] have f: "w' = w\<lparr>tick := tick w', role_apis := role_apis w'\<rparr>"
    and m: "map apiPair (rows (role_apis w')) = filter (\<lambda>(r, a). r \<noteq> rid) (map apiPair (rows (role_apis w))) @ map (Pair rid) ids" by auto
  have "scopeSet w' = scopeSet w" by (subst f) (simp add: scopeSet_def)
  moreover have "roleAPIs w' = (roleAPIs w)(rid := set ids)" unfolding roleAPIs_def m by (auto simp: fun_eq_iff)
  ultimately show "Q x w'" using assms(1) by simp
qed (rule assms(2))

lemma sync_wp:
  assumes order: "\<And>xs. set (order xs) = set xs"
    and Q: "\<And>w'. scopeSet w' = scopeSet w \<Longrightarrow>
      roleAPIs w' = (roleAPIs w)(rid := {a \<in> roleAPIs w rid \<union> {a. \<exists>t i. (rid, a, t, i) \<in> scopeSet w}. 0 < a}) \<Longrightarrow> Q () w'"
    and E: "\<And>e w'. E e w'"
  shows "wp (syncRoleAPIsFromScopes order rid) Q E w"
proof -
  have ids: "set (map ra_APIId (filter (\<lambda>r. ra_RoleId r = rid) (rows (role_apis w)))) = roleAPIs w rid"
    by (auto simp: roleAPIs_def apiPair_def image_iff)
  have sc: "set (map rs_APIId (filter (\<lambda>r. rs_RoleId r = rid) (rows (role_api_scopes w)))) = {a. \<exists>t i. (rid, a, t, i) \<in> scopeSet w}"
    by (force simp: scopeSet_def scopeRow_def scopeTriple_def image_iff)
  have tick: "roleAPIs (w\<lparr>tick := n\<rparr>) = roleAPIs w" for n by (simp add: roleAPIs_def fun_eq_iff)
  have merged: "set (MergeIDs order [map ra_APIId (filter (\<lambda>r. ra_RoleId r = rid) (rows (role_apis w))),
      map rs_APIId (filter (\<lambda>r. rs_RoleId r = rid) (rows (role_api_scopes w)))]) =
      {a \<in> roleAPIs w rid \<union> {a. \<exists>t i. (rid, a, t, i) \<in> scopeSet w}. 0 < a}"
    unfolding set_MergeIDs [OF order] ids [symmetric] sc [symmetric] by auto
  have replace: "wp (roleApiReplaceByRoleId rid (MergeIDs order [map ra_APIId (filter (\<lambda>r. ra_RoleId r = rid) (rows (role_apis w))),
      map rs_APIId (filter (\<lambda>r. rs_RoleId r = rid) (rows (role_api_scopes w)))])) Q (\<lambda>_. E ErrServerInternal) (w\<lparr>tick := n\<rparr>)" for n
  proof (rule roleApiReplace_wp)
    fix w' :: "'a iam_db_scheme"
    assume "scopeSet w' = scopeSet (w\<lparr>tick := n\<rparr>)" and "roleAPIs w' = (roleAPIs (w\<lparr>tick := n\<rparr>))(rid :=
      set (MergeIDs order [map ra_APIId (filter (\<lambda>r. ra_RoleId r = rid) (rows (role_apis w))),
        map rs_APIId (filter (\<lambda>r. rs_RoleId r = rid) (rows (role_api_scopes w)))]))"
    then show "Q () w'" unfolding merged tick by (intro Q) simp_all
  qed (rule E)
  show ?thesis
    unfolding syncRoleAPIsFromScopes_def ListScopes_def ListAPIIdsByRoleId_def
    by (simp add: wp_simps Let_def E replace split: option.splits)
qed

lemma no_scopes: "wantedScopes (toModels []) = []" "removedScopes (toModels []) = []"
  by (simp_all add: wantedScopes_def removedScopes_def toModels_def)

text \<open>The outcome of an update of the scopes: the scopes \<open>S\<close>, and the APIs of the role that go with them.\<close>

definition scopesSynced :: "int \<Rightarrow> (int \<times> int \<times> string \<times> int) set \<Rightarrow> (int \<Rightarrow> int set) \<Rightarrow> 'm iam_db_scheme \<Rightarrow> bool" where
  "scopesSynced rid S held w' \<longleftrightarrow> scopeSet w' = S \<and>
     roleAPIs w' = held(rid := {a \<in> held rid \<union> {a. \<exists>t i. (rid, a, t, i) \<in> scopeSet w'}. 0 < a})"

lemma sync_scopes:
  assumes "\<And>xs. set (order xs) = set xs" and "role_apis w1 = role_apis w" and "scopeSet w1 = S"
  shows "wp (syncRoleAPIsFromScopes order rid) (\<lambda>_. scopesSynced rid S (roleAPIs w)) (\<lambda>_ _. True) w1"
proof -
  have "roleAPIs w1 = roleAPIs w" using assms(2) by (simp add: roleAPIs_def fun_eq_iff)
  with assms show ?thesis unfolding scopesSynced_def by (intro sync_wp [OF assms(1)]) auto
qed

lemma UpdateAPIScopes_replace:
  assumes order: "\<And>xs. set (order xs) = set xs" and Some: "us_Scopes req = Some scopes"
  shows "wp (rolec_UpdateAPIScopes order rid req) (\<lambda>_. scopesSynced rid (requestedScopes rid req (scopeSet w)) (roleAPIs w)) (\<lambda>_ _. True) w"
proof -
  let ?S = "requestedScopes rid req (scopeSet w)"
  have S: "?S = {x \<in> scopeSet w. fst x \<noteq> rid} \<union> Pair rid ` set (wantedScopes (toModels scopes))"
    by (simp add: requestedScopes_def Some)
  have "wp (ReplaceScopes rid (toModels scopes)) (\<lambda>_. wp (syncRoleAPIsFromScopes order rid) (\<lambda>_. scopesSynced rid ?S (roleAPIs w)) (\<lambda>_ _. True)) (\<lambda>_ _. True) (w\<lparr>tick := n\<rparr>)" for n
    by (intro ReplaceScopes_wp sync_scopes [OF order] TrueI) (simp_all add: S)
  with Some show ?thesis
    by (simp add: rolec_UpdateAPIScopes_def preUpdateRole_def roleGet_def wp_simps Let_def split: option.splits)
qed

lemma UpdateAPIScopes_change:
  assumes order: "\<And>xs. set (order xs) = set xs" and None: "us_Scopes req = None"
  shows "wp (rolec_UpdateAPIScopes order rid req) (\<lambda>_. scopesSynced rid (requestedScopes rid req (scopeSet w)) (roleAPIs w)) (\<lambda>_ _. True) (w :: 'm iam_db_scheme)"
proof -
  let ?S = "requestedScopes rid req (scopeSet w)"
  let ?sync = "\<lambda>_. wp (syncRoleAPIsFromScopes order rid) (\<lambda>_. scopesSynced rid ?S (roleAPIs w)) (\<lambda>_ _. True)"
  have S: "?S = (scopeSet w - Pair rid ` set (removedScopes (toModels (us_RemoveScopes req)))) \<union> Pair rid ` set (wantedScopes (toModels (us_AddScopes req)))"
    by (simp add: requestedScopes_def None)
  define addStep :: "('m iam_db_scheme, goerr, unit) act"
    where "addStep = (if us_AddScopes req \<noteq> [] then orInternal (AddScopes rid (toModels (us_AddScopes req))) ret else ret ())"
  define removeStep :: "('m iam_db_scheme, goerr, unit) act"
    where "removeStep = (if us_RemoveScopes req \<noteq> [] then orInternal (RemoveScopes rid (toModels (us_RemoveScopes req))) ret else ret ())"
  have add: "wp addStep ?sync (\<lambda>_ _. True) w1"
    if "role_apis w1 = role_apis w" "scopeSet w1 = scopeSet w - Pair rid ` set (removedScopes (toModels (us_RemoveScopes req)))" for w1
  proof (cases "us_AddScopes req = []")
    case True
    with that have "scopeSet w1 = ?S" by (simp add: S no_scopes)
    with True sync_scopes [OF order that(1)] show ?thesis by (simp add: addStep_def wp_simps)
  next
    case False
    have "wp (AddScopes rid (toModels (us_AddScopes req))) ?sync (\<lambda>_ _. True) w1"
      by (intro AddScopes_wp sync_scopes [OF order] TrueI) (simp_all add: S that)
    with False show ?thesis by (simp add: addStep_def wp_simps)
  qed
  have "wp removeStep (\<lambda>_. wp addStep ?sync (\<lambda>_ _. True)) (\<lambda>_ _. True) (w\<lparr>tick := n\<rparr>)" for n
  proof (cases "us_RemoveScopes req = []")
    case True
    with add [of "w\<lparr>tick := n\<rparr>"] show ?thesis by (simp add: removeStep_def wp_ret no_scopes)
  next
    case False
    have "wp (RemoveScopes rid (toModels (us_RemoveScopes req))) (\<lambda>_. wp addStep ?sync (\<lambda>_ _. True)) (\<lambda>_ _. True) (w\<lparr>tick := n\<rparr>)"
      by (intro RemoveScopes_wp add TrueI) simp_all
    with False show ?thesis by (simp add: removeStep_def wp_orInternal wp_ret [abs_def])
  qed
  then show ?thesis
    unfolding rolec_UpdateAPIScopes_def None option.case addStep_def [symmetric] removeStep_def [symmetric]
    by (simp add: preUpdateRole_def roleGet_def wp_simps Let_def split: option.splits)
qed

text \<open>updating the data scopes of a role keeps its APIs in step: on success the stored scopes are the
  requested ones (replaced, or with the removals and additions applied), every API that some scope of
  the role names is bound to the role, so that the HTTP check lets the role call it, the APIs bound
  before are kept, and no other role has changed.\<close>

theorem UpdateAPIScopes_spec:
  assumes "rolec_UpdateAPIScopes order rid req (w :: 'm iam_db_scheme) = (Inr (), w')" and order: "\<And>xs. set (order xs) = set xs"
  shows "scopeSet w' = requestedScopes rid req (scopeSet w) \<and>
    roleAPIs w' = (roleAPIs w)(rid := {a \<in> roleAPIs w rid \<union> {a. \<exists>t i. (rid, a, t, i) \<in> scopeSet w'}. 0 < a})"
proof -
  have "wp (rolec_UpdateAPIScopes order rid req) (\<lambda>_. scopesSynced rid (requestedScopes rid req (scopeSet w)) (roleAPIs w)) (\<lambda>_ _. True) w"
    using UpdateAPIScopes_replace [OF order] UpdateAPIScopes_change [OF order] by (cases "us_Scopes req") blast+
  from wp_Inr [OF this assms(1)] show ?thesis by (simp add: scopesSynced_def)
qed

text \<open>A scope of a role without APIs.\<close>

definition demoIam :: iam_db where
  "demoIam = demoDb\<lparr>roles := \<lparr>rows = [\<lparr>Oid = 3, GmtCreate = 0, GmtModified = 0, ResourceVersion = 0,
     ro_TenantId = 0, ro_Name = ''ops'', ro_Description = []\<rparr>], next_id = 4\<rparr>\<rparr>"

lemma UpdateAPIScopes_spec_witness:
  "roleAPIs (snd (rolec_UpdateAPIScopes rev 3 \<lparr>us_Scopes = Some [\<lparr>ts_APIId = 5, ts_ResourceType = ''plans'', ts_ResourceId = 1\<rparr>],
     us_AddScopes = [], us_RemoveScopes = []\<rparr> demoIam)) 3 = {5}"
proof -
  let ?req = "\<lparr>us_Scopes = Some [\<lparr>ts_APIId = 5, ts_ResourceType = ''plans'', ts_ResourceId = 1\<rparr>], us_AddScopes = [], us_RemoveScopes = []\<rparr>"
  have "fst (rolec_UpdateAPIScopes rev 3 ?req demoIam) = Inr ()"
    by (simp add: rolec_UpdateAPIScopes_def preUpdateRole_def roleGet_def orInternal_def orNil_def sqlFirst_def onResult_def andThen_def
        ret_def fail_def stmt_def demoIam_def demoDb_def ReplaceScopes_def transaction_def sqlDelete_def prepareScopeRecords_def timeNow_def
        toModels_def normalizeScope_def TrimSpace_def isSpace_def sqlCreateBatch_def syncRoleAPIsFromScopes_def ListScopes_def sqlFind_def
        ListAPIIdsByRoleId_def sqlSelect_def MergeIDs_def insertKey_def roleApiReplaceByRoleId_def delTable_def Let_def role_api_scopes_t_def role_apis_t_def)
  with UpdateAPIScopes_spec [of rev 3 ?req demoIam "snd (rolec_UpdateAPIScopes rev 3 ?req demoIam)"]
  have r: "scopeSet (snd (rolec_UpdateAPIScopes rev 3 ?req demoIam)) = requestedScopes 3 ?req (scopeSet demoIam)"
    "roleAPIs (snd (rolec_UpdateAPIScopes rev 3 ?req demoIam)) 3 = {a \<in> roleAPIs demoIam 3 \<union>
       {a. \<exists>t i. (3, a, t, i) \<in> scopeSet (snd (rolec_UpdateAPIScopes rev 3 ?req demoIam))}. 0 < a}"
    by (auto simp: prod_eq_iff)
  show ?thesis
    unfolding r by (auto simp: requestedScopes_def scopeSet_def demoIam_def demoDb_def roleAPIs_def apiPair_def wantedScopes_def toModels_def
        validScope_def scopeTriple_def normalizeScope_def TrimSpace_def isSpace_def)
qed

text \<open>What the checks on role names do not see: a global role (no tenant) is stored with NULL, the
  lookup compares with 0, so a second global role of the same name is created.\<close>

lemma rolec_Create_global_duplicate:
  "fst (rolec_Create \<lparr>cr_Name = ''ops'', cr_TenantId = None, cr_Description = None\<rparr> demoIam) = Inr () \<and>
   map ro_Name (rows (roles (snd (rolec_Create \<lparr>cr_Name = ''ops'', cr_TenantId = None, cr_Description = None\<rparr> demoIam)))) = [''ops'', ''ops'']"
  by (simp add: rolec_Create_def roleGetBy_def daoGetBy_def orInternal_def orNil_def onResult_def andThen_def ret_def fail_def stmt_def
      demoIam_def demoDb_def buildQuery_def emptyQuery_def WithTenantId_def WithName_def WithOrderByASC_def Where_def runQuery_def tenantCol_def
      uniqueOr_def roleCreate_def daoCreate_def timeNow_def sqlCreate_def newRole_def insTable_def roles_t_def Let_def)

text \<open>Deleting a role leaves its APIs bound, so the users that still carry its id keep the access.\<close>

lemma rolec_Delete_keeps_APIs: "roleHasAPI (snd (rolec_Delete rid w)) r m p = roleHasAPI w r m p"
proof -
  have "wp (rolec_Delete rid) (\<lambda>_ w'. role_apis w' = role_apis w \<and> apis w' = apis w) (\<lambda>_ w'. role_apis w' = role_apis w \<and> apis w' = apis w) w"
    by (auto simp: rolec_Delete_def roleDelete_def roleGet_def wp_simps Let_def split: option.splits)
  then have "role_apis (snd (rolec_Delete rid w)) = role_apis w" "apis (snd (rolec_Delete rid w)) = apis w"
    by (auto simp: wp_snd)
  then show ?thesis by (simp add: roleHasAPI_def)
qed

end
