(* ===== verification/AlertDb.thy ===== *)
theory AlertDb
  imports IamDb
begin

text \<open>
  The alerting tables: the rows of \<open>pkg/db/model/alert.go\<close> with the defaults of their columns, the
  state that adds them to the tables of IAM, and the DAO methods of \<open>pkg/db/alert.go\<close>. The state also records, in
  \<open>outbox\<close>, the HTTP requests the notifiers send; no operation reads it. A time is a number of
  nanoseconds. The guarded updates are instances of \<open>versioned_dao\<close>.
\<close>

section \<open>Enumerations\<close>

definition AlertRuleTypeMetric :: int where "AlertRuleTypeMetric = 1"
definition AlertRuleTypeLog :: int where "AlertRuleTypeLog = 2"
definition AlertRuleTypeEvent :: int where "AlertRuleTypeEvent = 3"

definition AlertSeverityInfo :: int where "AlertSeverityInfo = 1"
definition AlertSeverityWarning :: int where "AlertSeverityWarning = 2"
definition AlertSeverityCritical :: int where "AlertSeverityCritical = 3"
definition AlertSeverityEmergency :: int where "AlertSeverityEmergency = 4"

definition AlertEventStatusFiring :: int where "AlertEventStatusFiring = 1"
definition AlertEventStatusRecovered :: int where "AlertEventStatusRecovered = 2"

definition AlertNotifyChannelEmail :: int where "AlertNotifyChannelEmail = 1"
definition AlertNotifyChannelDingTalk :: int where "AlertNotifyChannelDingTalk = 2"
definition AlertNotifyChannelWeCom :: int where "AlertNotifyChannelWeCom = 3"
definition AlertNotifyChannelWebhook :: int where "AlertNotifyChannelWebhook = 4"
definition AlertNotifyChannelFeishu :: int where "AlertNotifyChannelFeishu = 5"

definition AlertNotificationStatusPending :: int where "AlertNotificationStatusPending = 0"
definition AlertNotificationStatusSuccess :: int where "AlertNotificationStatusSuccess = 1"
definition AlertNotificationStatusFailed :: int where "AlertNotificationStatusFailed = 2"

lemmas rule_type_defs = AlertRuleTypeMetric_def AlertRuleTypeLog_def AlertRuleTypeEvent_def
lemmas severity_defs = AlertSeverityInfo_def AlertSeverityWarning_def AlertSeverityCritical_def AlertSeverityEmergency_def
lemmas event_status_defs = AlertEventStatusFiring_def AlertEventStatusRecovered_def
lemmas channel_defs = AlertNotifyChannelEmail_def AlertNotifyChannelDingTalk_def AlertNotifyChannelWeCom_def
  AlertNotifyChannelWebhook_def AlertNotifyChannelFeishu_def
lemmas notification_status_defs = AlertNotificationStatusPending_def AlertNotificationStatusSuccess_def AlertNotificationStatusFailed_def

section \<open>Rows\<close>

record AlertRule = pixiu_model +
  ar_Name :: string
  ar_Description :: string
  ar_RuleType :: int
  ar_Duration :: int
  ar_EvalInterval :: int
  ar_NotifyRepeatStep :: int
  ar_NotifyMaxNumber :: int
  ar_ScopeType :: int
  ar_ScopeValue :: string
  ar_NotifyChannels :: string
  ar_NotifyTemplate :: string
  ar_RuleConfig :: string
  ar_EnableDaysOfWeek :: string
  ar_EnableStime :: string
  ar_EnableEtime :: string
  ar_DatasourceId :: int
  ar_Enabled :: bool
  ar_CreatedBy :: string
  ar_Extension :: string
  ar_Labels :: string

record AlertEvent = pixiu_model +
  ae_RuleId :: int
  ae_RuleName :: string
  ae_Status :: int
  ae_Severity :: int
  ae_TriggerValue :: string
  ae_TriggerExpr :: string
  ae_ResourceType :: string
  ae_ResourceName :: string
  ae_ResourceNamespace :: string
  ae_ClusterId :: int
  ae_TenantId :: int
  ae_RecoverValue :: string
  ae_RecoverTime :: "int option"
  ae_LastSentAt :: "int option"
  ae_NotifyCurNumber :: int
  ae_Labels :: string
  ae_Annotations :: string
  ae_Extension :: string

record AlertNotification = pixiu_model +
  an_EventId :: int
  an_RuleId :: int
  an_Channel :: int
  an_Receiver :: string
  an_Title :: string
  an_Content :: string
  an_Status :: int
  an_RetryCount :: int
  an_ErrorMsg :: string
  an_Extension :: string
  an_Severity :: int
  an_Labels :: string
  an_ChannelName :: string

record AlertChannel = pixiu_model +
  ac_Name :: string
  ac_Description :: string
  ac_ChannelType :: int
  ac_Config :: string
  ac_Enabled :: bool
  ac_CreatedBy :: string
  ac_Extension :: string

record AlertSilence = pixiu_model +
  as_Name :: string
  as_MatchLabels :: string
  as_MatchExpressions :: string
  as_StartsAt :: int
  as_EndsAt :: int
  as_Enabled :: bool
  as_CreatedBy :: string
  as_Comment :: string
  as_Extension :: string

section \<open>The tables\<close>

text \<open>An HTTP request that was sent: its URL, the headers that were set and its JSON body.\<close>

record http_post =
  hp_URL :: string
  hp_Headers :: "(string \<times> string) list"
  hp_Body :: string

record alert_db = iam_db +
  alert_rules :: "AlertRule table"
  alert_events :: "AlertEvent table"
  alert_notifications :: "AlertNotification table"
  alert_channels :: "AlertChannel table"
  alert_silences :: "AlertSilence table"
  outbox :: "http_post list"

text \<open>gorm writes the default of a column in place of a zero value: an interval of 0 becomes 15, a
  repeat step of 0 becomes 5, and a disabled row is created enabled.\<close>

definition alertRuleDefaults :: "AlertRule \<Rightarrow> AlertRule" where
  "alertRuleDefaults r = r\<lparr>
     ar_EvalInterval := (if ar_EvalInterval r = 0 then 15 else ar_EvalInterval r),
     ar_NotifyRepeatStep := (if ar_NotifyRepeatStep r = 0 then 5 else ar_NotifyRepeatStep r),
     ar_EnableStime := (if ar_EnableStime r = [] then ''00:00'' else ar_EnableStime r),
     ar_EnableEtime := (if ar_EnableEtime r = [] then ''00:00'' else ar_EnableEtime r),
     ar_Enabled := True\<rparr>"

definition alert_rules_t :: "('m alert_db_scheme, AlertRule) tref" where
  "alert_rules_t = \<lparr>tget = alert_rules, tupd = alert_rules_update, tuniq = (\<lambda>r s. False), tdefaults = alertRuleDefaults\<rparr>"

definition alert_events_t :: "('m alert_db_scheme, AlertEvent) tref" where
  "alert_events_t = \<lparr>tget = alert_events, tupd = alert_events_update, tuniq = (\<lambda>r s. False), tdefaults = (\<lambda>r. r)\<rparr>"

definition alert_notifications_t :: "('m alert_db_scheme, AlertNotification) tref" where
  "alert_notifications_t = \<lparr>tget = alert_notifications, tupd = alert_notifications_update, tuniq = (\<lambda>r s. False), tdefaults = (\<lambda>r. r)\<rparr>"

definition alert_channels_t :: "('m alert_db_scheme, AlertChannel) tref" where
  "alert_channels_t = \<lparr>tget = alert_channels, tupd = alert_channels_update, tuniq = (\<lambda>r s. False), tdefaults = ac_Enabled_update (\<lambda>_. True)\<rparr>"

definition alert_silences_t :: "('m alert_db_scheme, AlertSilence) tref" where
  "alert_silences_t = \<lparr>tget = alert_silences, tupd = alert_silences_update, tuniq = (\<lambda>r s. False), tdefaults = as_Enabled_update (\<lambda>_. True)\<rparr>"

lemmas alert_tables = alert_rules_t_def alert_events_t_def alert_notifications_t_def alert_channels_t_def alert_silences_t_def

lemma alert_trefs [simp]:
  "tget alert_rules_t = alert_rules" "tupd alert_rules_t = alert_rules_update" "tdefaults alert_rules_t = alertRuleDefaults" "tuniq alert_rules_t = (\<lambda>r s. False)"
  "tget alert_events_t = alert_events" "tupd alert_events_t = alert_events_update" "tdefaults alert_events_t = (\<lambda>r. r)" "tuniq alert_events_t = (\<lambda>r s. False)"
  "tget alert_notifications_t = alert_notifications" "tupd alert_notifications_t = alert_notifications_update" "tdefaults alert_notifications_t = (\<lambda>r. r)" "tuniq alert_notifications_t = (\<lambda>r s. False)"
  "tget alert_channels_t = alert_channels" "tupd alert_channels_t = alert_channels_update" "tdefaults alert_channels_t = ac_Enabled_update (\<lambda>_. True)" "tuniq alert_channels_t = (\<lambda>r s. False)"
  "tget alert_silences_t = alert_silences" "tupd alert_silences_t = alert_silences_update" "tdefaults alert_silences_t = as_Enabled_update (\<lambda>_. True)" "tuniq alert_silences_t = (\<lambda>r s. False)"
  by (simp_all add: alert_tables)

interpretation alert_rules_tab: db_table "alert_rules_t :: ('m alert_db_scheme, AlertRule) tref" by unfold_locales simp_all
interpretation alert_events_tab: db_table "alert_events_t :: ('m alert_db_scheme, AlertEvent) tref" by unfold_locales simp_all
interpretation alert_notifications_tab: db_table "alert_notifications_t :: ('m alert_db_scheme, AlertNotification) tref" by unfold_locales simp_all
interpretation alert_channels_tab: db_table "alert_channels_t :: ('m alert_db_scheme, AlertChannel) tref" by unfold_locales simp_all
interpretation alert_silences_tab: db_table "alert_silences_t :: ('m alert_db_scheme, AlertSilence) tref" by unfold_locales simp_all

section \<open>Rules\<close>

definition alertRuleCreate :: "AlertRule \<Rightarrow> ('m alert_db_scheme, goerr, AlertRule) act" where
  "alertRuleCreate object = daoCreate alert_rules_t object"

definition alertRuleUpdate :: "int \<Rightarrow> int \<Rightarrow> AlertRule updates \<Rightarrow> ('m alert_db_scheme, goerr, unit) act" where
  "alertRuleUpdate = daoUpdate alert_rules_t (Util ErrRecordNotFound)"

definition alertRuleDelete :: "int \<Rightarrow> ('m alert_db_scheme, goerr, unit) act" where
  "alertRuleDelete i = daoDelete alert_rules_t i"

definition alertRuleGet :: "int \<Rightarrow> ('m alert_db_scheme, goerr, AlertRule option) act" where
  "alertRuleGet i = daoGet alert_rules_t i"

definition alertRuleList :: "AlertRule options list \<Rightarrow> ('m alert_db_scheme, goerr, AlertRule list) act" where
  "alertRuleList opts = daoList alert_rules_t opts"

definition alertRuleCount :: "AlertRule options list \<Rightarrow> ('m alert_db_scheme, goerr, int) act" where
  "alertRuleCount opts = daoCount alert_rules_t opts"

section \<open>Events\<close>

definition alertEventCreate :: "AlertEvent \<Rightarrow> ('m alert_db_scheme, goerr, AlertEvent) act" where
  "alertEventCreate object = daoCreate alert_events_t object"

definition alertEventUpdate :: "int \<Rightarrow> int \<Rightarrow> AlertEvent updates \<Rightarrow> ('m alert_db_scheme, goerr, unit) act" where
  "alertEventUpdate = daoUpdate alert_events_t (Util ErrRecordNotFound)"

definition alertEventGet :: "int \<Rightarrow> ('m alert_db_scheme, goerr, AlertEvent option) act" where
  "alertEventGet i = daoGet alert_events_t i"

definition alertEventList :: "AlertEvent options list \<Rightarrow> ('m alert_db_scheme, goerr, AlertEvent list) act" where
  "alertEventList opts = daoList alert_events_t opts"

definition alertEventCount :: "AlertEvent options list \<Rightarrow> ('m alert_db_scheme, goerr, int) act" where
  "alertEventCount opts = daoCount alert_events_t opts"

definition alertEventUpdateSilent :: "int \<Rightarrow> AlertEvent updates \<Rightarrow> ('m alert_db_scheme, goerr, unit) act" where
  "alertEventUpdateSilent i updates = andThen timeNow (\<lambda>now.
     andThen (sqlUpdates alert_events_t (\<lambda>r. Oid r = i) (updates @ [(''gmt_modified'', GmtModified_update (\<lambda>_. now))])) (\<lambda>_. ret ()))"

definition isActive :: "int \<Rightarrow> string \<Rightarrow> string \<Rightarrow> AlertEvent \<Rightarrow> bool" where
  "isActive ruleId resourceType resourceName r \<longleftrightarrow> ae_RuleId r = ruleId \<and> ae_ResourceType r = resourceType \<and>
     ae_ResourceName r = resourceName \<and> ae_Status r = AlertEventStatusFiring"

definition alertEventGetActive :: "int \<Rightarrow> string \<Rightarrow> string \<Rightarrow> ('m alert_db_scheme, goerr, AlertEvent option) act" where
  "alertEventGetActive ruleId resourceType resourceName = orNil (sqlLast alert_events_t (isActive ruleId resourceType resourceName))"

section \<open>Notifications\<close>

definition alertNotificationCreate :: "AlertNotification \<Rightarrow> ('m alert_db_scheme, goerr, AlertNotification) act" where
  "alertNotificationCreate object = daoCreate alert_notifications_t object"

definition alertNotificationUpdate :: "int \<Rightarrow> int \<Rightarrow> AlertNotification updates \<Rightarrow> ('m alert_db_scheme, goerr, unit) act" where
  "alertNotificationUpdate = daoUpdate alert_notifications_t (Util ErrRecordNotFound)"

definition alertNotificationGet :: "int \<Rightarrow> ('m alert_db_scheme, goerr, AlertNotification option) act" where
  "alertNotificationGet i = daoGet alert_notifications_t i"

definition alertNotificationList :: "AlertNotification options list \<Rightarrow> ('m alert_db_scheme, goerr, AlertNotification list) act" where
  "alertNotificationList opts = daoList alert_notifications_t opts"

definition alertNotificationCount :: "AlertNotification options list \<Rightarrow> ('m alert_db_scheme, goerr, int) act" where
  "alertNotificationCount opts = daoCount alert_notifications_t opts"

definition alertNotificationListPending :: "int \<Rightarrow> ('m alert_db_scheme, goerr, AlertNotification list) act" where
  "alertNotificationListPending limit =
     (let n = (if limit \<le> 0 then 50 else limit)
      in sqlSelect (\<lambda>w. take (nat n) (filter (\<lambda>r. an_Status r = AlertNotificationStatusPending) (rows (alert_notifications w)))))"

text \<open>gorm refuses a DELETE without a condition.\<close>

definition alertNotificationDelete :: "AlertNotification options list \<Rightarrow> ('m alert_db_scheme, goerr, nat) act" where
  "alertNotificationDelete opts = (if opts = [] then fail DriverErr else sqlDelete alert_notifications_t (qWhere (buildQuery opts)))"

section \<open>Channels\<close>

definition alertChannelCreate :: "AlertChannel \<Rightarrow> ('m alert_db_scheme, goerr, AlertChannel) act" where
  "alertChannelCreate object = daoCreate alert_channels_t object"

definition alertChannelUpdate :: "int \<Rightarrow> int \<Rightarrow> AlertChannel updates \<Rightarrow> ('m alert_db_scheme, goerr, unit) act" where
  "alertChannelUpdate = daoUpdate alert_channels_t (Util ErrRecordNotFound)"

definition alertChannelDelete :: "int \<Rightarrow> ('m alert_db_scheme, goerr, unit) act" where
  "alertChannelDelete i = daoDelete alert_channels_t i"

definition alertChannelGet :: "int \<Rightarrow> ('m alert_db_scheme, goerr, AlertChannel option) act" where
  "alertChannelGet i = daoGet alert_channels_t i"

definition alertChannelList :: "AlertChannel options list \<Rightarrow> ('m alert_db_scheme, goerr, AlertChannel list) act" where
  "alertChannelList opts = daoList alert_channels_t opts"

definition alertChannelCount :: "AlertChannel options list \<Rightarrow> ('m alert_db_scheme, goerr, int) act" where
  "alertChannelCount opts = daoCount alert_channels_t opts"

section \<open>Silences\<close>

definition alertSilenceCreate :: "AlertSilence \<Rightarrow> ('m alert_db_scheme, goerr, AlertSilence) act" where
  "alertSilenceCreate object = daoCreate alert_silences_t object"

definition alertSilenceUpdate :: "int \<Rightarrow> int \<Rightarrow> AlertSilence updates \<Rightarrow> ('m alert_db_scheme, goerr, unit) act" where
  "alertSilenceUpdate = daoUpdate alert_silences_t (Util ErrRecordNotFound)"

definition alertSilenceDelete :: "int \<Rightarrow> ('m alert_db_scheme, goerr, unit) act" where
  "alertSilenceDelete i = daoDelete alert_silences_t i"

definition alertSilenceGet :: "int \<Rightarrow> ('m alert_db_scheme, goerr, AlertSilence option) act" where
  "alertSilenceGet i = daoGet alert_silences_t i"

definition alertSilenceList :: "AlertSilence options list \<Rightarrow> ('m alert_db_scheme, goerr, AlertSilence list) act" where
  "alertSilenceList opts = daoList alert_silences_t opts"

definition alertSilenceCount :: "AlertSilence options list \<Rightarrow> ('m alert_db_scheme, goerr, int) act" where
  "alertSilenceCount opts = daoCount alert_silences_t opts"

definition alertSilenceListActive :: "int \<Rightarrow> ('m alert_db_scheme, goerr, AlertSilence list) act" where
  "alertSilenceListActive now = sqlFind alert_silences_t (\<lambda>r. as_Enabled r \<and> as_StartsAt r \<le> now \<and> now \<le> as_EndsAt r)"

section \<open>Optimistic locks\<close>

interpretation alert_rules_lock: versioned_dao "\<lambda>w :: 'm alert_db_scheme. rows (alert_rules w)" alertRuleUpdate "\<lambda>w. table_ok (alert_rules w)"
  using alert_rules_tab.versioned [of "Util ErrRecordNotFound"] by (simp add: alertRuleUpdate_def)

interpretation alert_events_lock: versioned_dao "\<lambda>w :: 'm alert_db_scheme. rows (alert_events w)" alertEventUpdate "\<lambda>w. table_ok (alert_events w)"
  using alert_events_tab.versioned [of "Util ErrRecordNotFound"] by (simp add: alertEventUpdate_def)

interpretation alert_notifications_lock: versioned_dao "\<lambda>w :: 'm alert_db_scheme. rows (alert_notifications w)" alertNotificationUpdate "\<lambda>w. table_ok (alert_notifications w)"
  using alert_notifications_tab.versioned [of "Util ErrRecordNotFound"] by (simp add: alertNotificationUpdate_def)

interpretation alert_channels_lock: versioned_dao "\<lambda>w :: 'm alert_db_scheme. rows (alert_channels w)" alertChannelUpdate "\<lambda>w. table_ok (alert_channels w)"
  using alert_channels_tab.versioned [of "Util ErrRecordNotFound"] by (simp add: alertChannelUpdate_def)

interpretation alert_silences_lock: versioned_dao "\<lambda>w :: 'm alert_db_scheme. rows (alert_silences w)" alertSilenceUpdate "\<lambda>w. table_ok (alert_silences w)"
  using alert_silences_tab.versioned [of "Util ErrRecordNotFound"] by (simp add: alertSilenceUpdate_def)

section \<open>Sample rows\<close>

text \<open>Rows that the examples of the other theories start from.\<close>

definition demoRule :: AlertRule where
  "demoRule = \<lparr>Oid = 1, GmtCreate = 0, GmtModified = 0, ResourceVersion = 0, ar_Name = ''cpu'', ar_Description = [], ar_RuleType = AlertRuleTypeMetric,
     ar_Duration = 0, ar_EvalInterval = 15, ar_NotifyRepeatStep = 5, ar_NotifyMaxNumber = 0, ar_ScopeType = 1, ar_ScopeValue = [], ar_NotifyChannels = [],
     ar_NotifyTemplate = [], ar_RuleConfig = [], ar_EnableDaysOfWeek = [], ar_EnableStime = ''00:00'', ar_EnableEtime = ''00:00'', ar_DatasourceId = 0,
     ar_Enabled = True, ar_CreatedBy = [], ar_Extension = [], ar_Labels = []\<rparr>"

definition demoEvent :: AlertEvent where
  "demoEvent = \<lparr>Oid = 1, GmtCreate = 0, GmtModified = 0, ResourceVersion = 0, ae_RuleId = 1, ae_RuleName = ''cpu'', ae_Status = AlertEventStatusFiring,
     ae_Severity = AlertSeverityWarning, ae_TriggerValue = [], ae_TriggerExpr = [], ae_ResourceType = ''metric'', ae_ResourceName = [], ae_ResourceNamespace = [],
     ae_ClusterId = 0, ae_TenantId = 0, ae_RecoverValue = [], ae_RecoverTime = None, ae_LastSentAt = None, ae_NotifyCurNumber = 0, ae_Labels = [],
     ae_Annotations = [], ae_Extension = []\<rparr>"

definition demoAlertDb :: alert_db where
  "demoAlertDb = \<lparr>tick = 0, clock = (\<lambda>n. int n), fault = (\<lambda>_. None), users = \<lparr>rows = [], next_id = 1\<rparr>, roles = \<lparr>rows = [], next_id = 1\<rparr>, role_apis = \<lparr>rows = [], next_id = 1\<rparr>, role_api_scopes = \<lparr>rows = [], next_id = 1\<rparr>,
     role_menus = \<lparr>rows = [], next_id = 1\<rparr>, apis = \<lparr>rows = [], next_id = 1\<rparr>, tenants = \<lparr>rows = [], next_id = 1\<rparr>, alert_rules = \<lparr>rows = [], next_id = 1\<rparr>, alert_events = \<lparr>rows = [], next_id = 1\<rparr>,
     alert_notifications = \<lparr>rows = [], next_id = 1\<rparr>, alert_channels = \<lparr>rows = [], next_id = 1\<rparr>, alert_silences = \<lparr>rows = [], next_id = 1\<rparr>, outbox = []\<rparr>"

end
