(* ===== verification/Json.thy ===== *)
theory Json
  imports GoStrings
begin

text \<open>
  The part of Go's \<open>encoding/json\<close> (and of \<open>unicode/utf8\<close>) the program uses: the syntax check and
  the reading of a text into its value, the compact output with the escapes of \<open>json.Marshal\<close>, and
  the round trip between the two. How a value is stored in a Go variable of a given type is with
  the component that does it.
\<close>

section \<open>UTF-8\<close>

definition byteOf :: "char \<Rightarrow> nat" where
  "byteOf c = of_char c"

definition RuneError :: nat where "RuneError = 0xFFFD"

definition byteIn :: "nat \<Rightarrow> nat \<Rightarrow> char \<Rightarrow> bool" where
  "byteIn lo hi c \<longleftrightarrow> lo \<le> byteOf c \<and> byteOf c \<le> hi"

text \<open>\<open>utf8.DecodeRuneInString\<close>: the first code point and its width; \<open>(RuneError, 1)\<close> for bytes that
  are not the shortest encoding of a Unicode scalar value.\<close>

fun decodeRune2 :: "nat \<Rightarrow> string \<Rightarrow> nat \<times> nat" where
  "decodeRune2 n (c1 # cs) = (if byteIn 0x80 0xBF c1 then ((n - 0xC0) * 0x40 + (byteOf c1 - 0x80), 2) else (RuneError, 1))"
| "decodeRune2 n [] = (RuneError, 1)"

fun decodeRune3 :: "nat \<Rightarrow> string \<Rightarrow> nat \<times> nat" where
  "decodeRune3 n (c1 # c2 # cs) =
     (if byteIn (if n = 0xE0 then 0xA0 else 0x80) (if n = 0xED then 0x9F else 0xBF) c1 \<and> byteIn 0x80 0xBF c2
      then ((n - 0xE0) * 0x1000 + (byteOf c1 - 0x80) * 0x40 + (byteOf c2 - 0x80), 3) else (RuneError, 1))"
| "decodeRune3 n cs = (RuneError, 1)"

fun decodeRune4 :: "nat \<Rightarrow> string \<Rightarrow> nat \<times> nat" where
  "decodeRune4 n (c1 # c2 # c3 # cs) =
     (if byteIn (if n = 0xF0 then 0x90 else 0x80) (if n = 0xF4 then 0x8F else 0xBF) c1 \<and> byteIn 0x80 0xBF c2 \<and> byteIn 0x80 0xBF c3
      then ((n - 0xF0) * 0x40000 + (byteOf c1 - 0x80) * 0x1000 + (byteOf c2 - 0x80) * 0x40 + (byteOf c3 - 0x80), 4) else (RuneError, 1))"
| "decodeRune4 n cs = (RuneError, 1)"

fun decodeRune :: "string \<Rightarrow> nat \<times> nat" where
  "decodeRune [] = (RuneError, 0)"
| "decodeRune (c # cs) =
     (let n = byteOf c in
      if n < 0x80 then (n, 1)
      else if 0xC2 \<le> n \<and> n \<le> 0xDF then decodeRune2 n cs
      else if 0xE0 \<le> n \<and> n \<le> 0xEF then decodeRune3 n cs
      else if 0xF0 \<le> n \<and> n \<le> 0xF4 then decodeRune4 n cs
      else (RuneError, 1))"

fun validUTF8 :: "string \<Rightarrow> bool" where
  "validUTF8 [] = True"
| "validUTF8 (c # cs) = (decodeRune (c # cs) \<noteq> (RuneError, 1) \<and> validUTF8 (drop (snd (decodeRune (c # cs)) - 1) cs))"

section \<open>Values\<close>

text \<open>A number is kept as its literal: how it is read depends on the target type.\<close>

datatype json = JNull | JBool bool | JNum string | JStr string | JArr "json list" | JObj "(string \<times> json) list"

section \<open>Reading\<close>

definition jsonSpace :: "char \<Rightarrow> bool" where
  "jsonSpace c \<longleftrightarrow> c \<in> {CHR '' '', CHR 0x09, CHR 0x0A, CHR 0x0D}"

definition skipWs :: "string \<Rightarrow> string" where
  "skipWs s = dropWhile jsonSpace s"

definition isDigit :: "char \<Rightarrow> bool" where
  "isDigit c \<longleftrightarrow> charDigit c \<noteq> None"

definition hexDigit :: "char \<Rightarrow> nat option" where
  "hexDigit c = (let n = byteOf c in
     if 48 \<le> n \<and> n \<le> 57 then Some (n - 48)
     else if 97 \<le> n \<and> n \<le> 102 then Some (n - 87)
     else if 65 \<le> n \<and> n \<le> 70 then Some (n - 55) else None)"

definition isHex :: "char \<Rightarrow> bool" where
  "isHex c \<longleftrightarrow> hexDigit c \<noteq> None"

definition prepend :: "string \<Rightarrow> (string \<times> string) option \<Rightarrow> (string \<times> string) option" where
  "prepend p v = (case v of None \<Rightarrow> None | Some (raw, rest) \<Rightarrow> Some (p @ raw, rest))"

text \<open>The text of a string literal up to its closing quote, escapes unread.\<close>

fun scanString :: "string \<Rightarrow> (string \<times> string) option" where
  "scanString [] = None"
| "scanString (c # cs) =
     (if c = CHR 0x22 then Some ([], cs)
      else if c = CHR 0x5C then (case cs of
          [] \<Rightarrow> None
        | e # ds \<Rightarrow>
            if e \<in> set ''bfnrt/'' \<or> e = CHR 0x5C \<or> e = CHR 0x22 then prepend [c, e] (scanString ds)
            else if e = CHR ''u''
            then (if 4 \<le> length ds \<and> list_all isHex (take 4 ds) then prepend (c # e # take 4 ds) (scanString (drop 4 ds)) else None)
            else None)
      else if byteOf c < 0x20 then None
      else prepend [c] (scanString cs))"

definition hexValue :: "string \<Rightarrow> nat" where
  "hexValue s = foldl (\<lambda>n c. 16 * n + (case hexDigit c of None \<Rightarrow> 0 | Some d \<Rightarrow> d)) 0 s"

definition isSurrogate :: "nat \<Rightarrow> bool" where
  "isSurrogate r \<longleftrightarrow> 0xD800 \<le> r \<and> r < 0xE000"

text \<open>\<open>getu4\<close>: the value of a \<open>\u\<close> escape at the start of the text, if there is one.\<close>

definition getu4 :: "string \<Rightarrow> nat option" where
  "getu4 s = (if 6 \<le> length s \<and> s ! 0 = CHR 0x5C \<and> s ! 1 = CHR ''u'' \<and> list_all isHex (take 4 (drop 2 s))
     then Some (hexValue (take 4 (drop 2 s))) else None)"

text \<open>\<open>utf16.DecodeRune\<close>\<close>

definition surrogatePair :: "nat \<Rightarrow> nat option \<Rightarrow> nat option" where
  "surrogatePair r1 r2 = (case r2 of
     None \<Rightarrow> None
   | Some r2 \<Rightarrow> if 0xD800 \<le> r1 \<and> r1 < 0xDC00 \<and> 0xDC00 \<le> r2 \<and> r2 < 0xE000
       then Some ((r1 - 0xD800) * 0x400 + (r2 - 0xDC00) + 0x10000) else None)"

definition unescapeChar :: "char \<Rightarrow> char" where
  "unescapeChar e = (if e = CHR ''b'' then CHR 0x08 else if e = CHR ''f'' then CHR 0x0C
     else if e = CHR ''n'' then CHR 0x0A else if e = CHR ''r'' then CHR 0x0D
     else if e = CHR ''t'' then CHR 0x09 else e)"

text \<open>\<open>unquoteBytes\<close>: the escapes read, what is not UTF-8 replaced by U+FFFD.\<close>

fun unquote :: "string \<Rightarrow> string" where
  "unquote [] = []"
| "unquote (c # cs) =
     (if c = CHR 0x5C then (case cs of
          [] \<Rightarrow> []
        | e # ds \<Rightarrow>
            if e = CHR ''u''
            then (let r = hexValue (take 4 ds); rest = drop 4 ds
                  in if isSurrogate r
                     then (case surrogatePair r (getu4 rest) of
                         Some dec \<Rightarrow> utf8Char dec @ unquote (drop 6 rest)
                       | None \<Rightarrow> utf8Char RuneError @ unquote rest)
                     else utf8Char r @ unquote rest)
            else unescapeChar e # unquote ds)
      else utf8Char (fst (decodeRune (c # cs))) @ unquote (drop (snd (decodeRune (c # cs)) - 1) cs))"

text \<open>A number literal: sign, integer part without leading zeros, fraction, exponent.\<close>

definition scanSign :: "string \<Rightarrow> string \<times> string" where
  "scanSign s = (case s of c # cs \<Rightarrow> if c = CHR ''-'' then ([c], cs) else ([], s) | [] \<Rightarrow> ([], []))"

definition scanInt :: "string \<Rightarrow> (string \<times> string) option" where
  "scanInt s = (case s of
     [] \<Rightarrow> None
   | c # cs \<Rightarrow> if c = CHR ''0'' then Some ([c], cs)
       else if isDigit c then Some (takeWhile isDigit s, dropWhile isDigit s) else None)"

definition scanFrac :: "string \<Rightarrow> (string \<times> string) option" where
  "scanFrac s = (case s of
     c # cs \<Rightarrow> if c = CHR ''.''
       then (if takeWhile isDigit cs = [] then None else Some (c # takeWhile isDigit cs, dropWhile isDigit cs))
       else Some ([], s)
   | [] \<Rightarrow> Some ([], []))"

definition scanExp :: "string \<Rightarrow> (string \<times> string) option" where
  "scanExp s = (case s of
     c # cs \<Rightarrow> if c = CHR ''e'' \<or> c = CHR ''E''
       then (let sg = takeWhile (\<lambda>c. c = CHR ''+'' \<or> c = CHR ''-'') (take 1 cs); ds = drop (length sg) cs
             in if takeWhile isDigit ds = [] then None else Some (c # sg @ takeWhile isDigit ds, dropWhile isDigit ds))
       else Some ([], s)
   | [] \<Rightarrow> Some ([], []))"

definition scanNumber :: "string \<Rightarrow> (string \<times> string) option" where
  "scanNumber s = (case scanSign s of (sg, s1) \<Rightarrow> (case scanInt s1 of
     None \<Rightarrow> None
   | Some (i, s2) \<Rightarrow> (case scanFrac s2 of
       None \<Rightarrow> None
     | Some (f, s3) \<Rightarrow> (case scanExp s3 of None \<Rightarrow> None | Some (e, s4) \<Rightarrow> Some (sg @ i @ f @ e, s4)))))"

definition maxNestingDepth :: nat where "maxNestingDepth = 10000"

text \<open>The first argument is fuel (lemma \<open>parse_fuel\<close>: any number above twice the length of the text gives
  the same result), the second the number of open brackets.\<close>

fun parseValue :: "nat \<Rightarrow> nat \<Rightarrow> string \<Rightarrow> (json \<times> string) option"
and parseElements :: "nat \<Rightarrow> nat \<Rightarrow> string \<Rightarrow> (json list \<times> string) option"
and parseMembers :: "nat \<Rightarrow> nat \<Rightarrow> string \<Rightarrow> ((string \<times> json) list \<times> string) option" where
  "parseValue 0 d s = None"
| "parseValue (Suc k) d s = (case skipWs s of
     [] \<Rightarrow> None
   | c # cs \<Rightarrow>
       if c = CHR ''{'' then
         (if maxNestingDepth \<le> d then None
          else if take 1 (skipWs cs) = ''}'' then Some (JObj [], drop 1 (skipWs cs))
          else (case parseMembers k (Suc d) cs of None \<Rightarrow> None | Some (ms, r) \<Rightarrow> Some (JObj ms, r)))
       else if c = CHR ''['' then
         (if maxNestingDepth \<le> d then None
          else if take 1 (skipWs cs) = '']'' then Some (JArr [], drop 1 (skipWs cs))
          else (case parseElements k (Suc d) cs of None \<Rightarrow> None | Some (vs, r) \<Rightarrow> Some (JArr vs, r)))
       else if c = CHR 0x22 then (case scanString cs of None \<Rightarrow> None | Some (raw, r) \<Rightarrow> Some (JStr (unquote raw), r))
       else if HasPrefix (c # cs) ''null'' then Some (JNull, drop 3 cs)
       else if HasPrefix (c # cs) ''true'' then Some (JBool True, drop 3 cs)
       else if HasPrefix (c # cs) ''false'' then Some (JBool False, drop 4 cs)
       else (case scanNumber (c # cs) of None \<Rightarrow> None | Some (n, r) \<Rightarrow> Some (JNum n, r)))"
| "parseElements 0 d s = None"
| "parseElements (Suc k) d s = (case parseValue k d s of
     None \<Rightarrow> None
   | Some (v, r) \<Rightarrow> (case skipWs r of
       [] \<Rightarrow> None
     | c # r' \<Rightarrow> if c = CHR '','' then (case parseElements k d r' of None \<Rightarrow> None | Some (vs, r2) \<Rightarrow> Some (v # vs, r2))
         else if c = CHR '']'' then Some ([v], r') else None))"
| "parseMembers 0 d s = None"
| "parseMembers (Suc k) d s = (case skipWs s of
     [] \<Rightarrow> None
   | q # r \<Rightarrow> if q \<noteq> CHR 0x22 then None else (case scanString r of
       None \<Rightarrow> None
     | Some (raw, r1) \<Rightarrow> (case skipWs r1 of
         [] \<Rightarrow> None
       | c # r2 \<Rightarrow> if c \<noteq> CHR '':'' then None else (case parseValue k d r2 of
           None \<Rightarrow> None
         | Some (v, r3) \<Rightarrow> (case skipWs r3 of
             [] \<Rightarrow> None
           | c # r4 \<Rightarrow> if c = CHR '','' then (case parseMembers k d r4 of None \<Rightarrow> None | Some (ms, r5) \<Rightarrow> Some ((unquote raw, v) # ms, r5))
               else if c = CHR ''}'' then Some ([(unquote raw, v)], r4) else None)))))"

definition jsonParse :: "string \<Rightarrow> json option" where
  "jsonParse s = (case parseValue (Suc (2 * length s)) 0 s of
     None \<Rightarrow> None
   | Some (v, r) \<Rightarrow> if skipWs r = [] then Some v else None)"

section \<open>Writing\<close>

definition hexChar :: "nat \<Rightarrow> char" where
  "hexChar d = (if d < 10 then char_of (48 + d) else char_of (87 + d))"

definition escapeASCII :: "char \<Rightarrow> string" where
  "escapeASCII c = (let n = byteOf c in
     if c = CHR 0x5C \<or> c = CHR 0x22 then [CHR 0x5C, c]
     else if n = 8 then [CHR 0x5C, CHR ''b''] else if n = 12 then [CHR 0x5C, CHR ''f'']
     else if n = 10 then [CHR 0x5C, CHR ''n''] else if n = 13 then [CHR 0x5C, CHR ''r'']
     else if n = 9 then [CHR 0x5C, CHR ''t'']
     else if n < 0x20 \<or> c = CHR ''<'' \<or> c = CHR ''>'' \<or> c = CHR ''&''
     then [CHR 0x5C, CHR ''u'', CHR ''0'', CHR ''0'', hexChar (n div 16), hexChar (n mod 16)]
     else [c])"

text \<open>\<open>appendString\<close> with \<open>escapeHTML\<close>, without the quotes.\<close>

fun escapeJson :: "string \<Rightarrow> string" where
  "escapeJson [] = []"
| "escapeJson (c # cs) =
     (if byteOf c < 0x80 then escapeASCII c @ escapeJson cs
      else (let (r, k) = decodeRune (c # cs)
            in (if (r, k) = (RuneError, 1) then CHR 0x5C # ''ufffd''
                else if r = 0x2028 \<or> r = 0x2029 then CHR 0x5C # ''u202'' @ [hexChar (r mod 16)]
                else take k (c # cs)) @ escapeJson (drop (k - 1) cs)))"

definition quoteJson :: "string \<Rightarrow> string" where
  "quoteJson s = CHR 0x22 # escapeJson s @ [CHR 0x22]"

text \<open>The compact form \<open>json.Marshal\<close> writes.\<close>

fun jsonPrint :: "json \<Rightarrow> string" where
  "jsonPrint JNull = ''null''"
| "jsonPrint (JBool b) = (if b then ''true'' else ''false'')"
| "jsonPrint (JNum n) = n"
| "jsonPrint (JStr s) = quoteJson s"
| "jsonPrint (JArr vs) = CHR ''['' # Join (map jsonPrint vs) '','' @ '']''"
| "jsonPrint (JObj ms) = CHR ''{'' # Join (map (\<lambda>(k, v). quoteJson k @ '':'' @ jsonPrint v) ms) '','' @ ''}''"

section \<open>Code points\<close>

lemma char_of_byteOf [simp]: "char_of (byteOf c) = c" by (simp add: byteOf_def)

lemma char_eq_byte: "c = d \<longleftrightarrow> (of_char c :: nat) = of_char d"
  by simp

lemma utf8_2:
  assumes "byteOf c0 = 0xC0 + a" "byteOf c1 = 0x80 + b" "2 \<le> a" "a < 32" "b < 64"
  shows "utf8Char (a * 64 + b) = [c0, c1]"
proof -
  have "char_of (0xC0 + a) = c0" "char_of (0x80 + b) = c1" using assms(1,2) by (metis char_of_byteOf)+
  with assms(3-) show ?thesis by (simp add: utf8Char_def)
qed

lemma base64:
  fixes a b :: nat
  assumes "b < 64"
  shows "(a * 64 + b) div 64 = a" "(a * 64 + b) mod 64 = b"
  using assms by simp_all

lemma div_4096: "n div 0x1000 = n div 64 div 64" "n div 0x40000 = n div 64 div 64 div 64" for n :: nat
  by (simp_all add: div_mult2_eq [symmetric])

lemma utf8_3:
  assumes "byteOf c0 = 0xE0 + a" "byteOf c1 = 0x80 + b" "byteOf c2 = 0x80 + c" "a < 16" "b < 64" "c < 64" "a = 0 \<Longrightarrow> 32 \<le> b"
  shows "utf8Char (a * 0x1000 + b * 64 + c) = [c0, c1, c2]"
proof -
  define r where "r = (a * 64 + b) * 64 + c"
  have c: "char_of (0xE0 + a) = c0" "char_of (0x80 + b) = c1" "char_of (0x80 + c) = c2" using assms(1-3) by (metis char_of_byteOf)+
  have "r div 0x1000 = a" "r div 64 mod 64 = b" "r mod 64 = c"
    unfolding r_def div_4096 base64 [OF assms(6)] base64 [OF assms(5)] by (rule refl)+
  moreover have "0x800 \<le> r" "r < 0x10000" using assms(4-7) unfolding r_def by (cases "a = 0"; simp)+
  moreover have "r = a * 0x1000 + b * 64 + c" by (simp add: r_def)
  ultimately show ?thesis using c by (simp add: utf8Char_def)
qed

lemma utf8_4:
  assumes "byteOf c0 = 0xF0 + a" "byteOf c1 = 0x80 + b" "byteOf c2 = 0x80 + c" "byteOf c3 = 0x80 + e" "b < 64" "c < 64" "e < 64" "a = 0 \<Longrightarrow> 16 \<le> b"
  shows "utf8Char (a * 0x40000 + b * 0x1000 + c * 64 + e) = [c0, c1, c2, c3]"
proof -
  define r where "r = ((a * 64 + b) * 64 + c) * 64 + e"
  have c: "char_of (0xF0 + a) = c0" "char_of (0x80 + b) = c1" "char_of (0x80 + c) = c2" "char_of (0x80 + e) = c3" using assms(1-4) by (metis char_of_byteOf)+
  have "r div 0x40000 = a" "r div 0x1000 mod 64 = b" "r div 64 mod 64 = c" "r mod 64 = e"
    unfolding r_def div_4096 base64 [OF assms(7)] base64 [OF assms(6)] base64 [OF assms(5)] by (rule refl)+
  moreover have "0x10000 \<le> r" using assms(8) unfolding r_def by (cases "a = 0"; simp)
  moreover have "r = a * 0x40000 + b * 0x1000 + c * 64 + e" by (simp add: r_def)
  ultimately show ?thesis using c by (simp add: utf8Char_def)
qed

lemma cont_byte: "byteIn lo hi c \<Longrightarrow> 0x80 \<le> lo \<Longrightarrow> hi \<le> 0xBF \<Longrightarrow> byteOf c = 0x80 + (byteOf c - 0x80) \<and> byteOf c - 0x80 < 64"
  by (auto simp: byteIn_def)

text \<open>What a successful reading of a code point consumes and means.\<close>

definition runeAt :: "string \<Rightarrow> nat \<Rightarrow> nat \<Rightarrow> bool" where
  "runeAt s r k \<longleftrightarrow> 0 < k \<and> k \<le> length s \<and> utf8Char r = take k s \<and> (\<forall>t. decodeRune (take k s @ t) = (r, k)) \<and>
     (0x80 \<le> byteOf (hd s) \<longrightarrow> (\<forall>c \<in> set (take k s). 0x80 \<le> byteOf c))"

lemma decodeRune_valid:
  assumes "decodeRune (c # cs) = (r, k)" and "(r, k) \<noteq> (RuneError, 1)"
  shows "runeAt (c # cs) r k"
proof -
  let ?n = "byteOf c"
  consider "?n < 0x80" | "0xC2 \<le> ?n" "?n \<le> 0xDF" | "0xE0 \<le> ?n" "?n \<le> 0xEF" | "0xF0 \<le> ?n" "?n \<le> 0xF4"
    using assms by (fastforce simp: Let_def split: if_splits)
  then show ?thesis
  proof cases
    case 1
    then show ?thesis using assms by (auto simp: runeAt_def utf8Char_def)
  next
    case 2
    with assms obtain c1 ds where cs: "cs = c1 # ds" and b: "byteIn 0x80 0xBF c1"
      and rk: "r = (?n - 0xC0) * 0x40 + (byteOf c1 - 0x80)" "k = 2"
      by (cases cs) (auto simp: Let_def split: if_splits)
    from 2 cont_byte [OF b] have "utf8Char r = [c, c1]" unfolding rk by (intro utf8_2) auto
    with 2 b cs rk show ?thesis by (auto simp: runeAt_def Let_def byteIn_def split: if_splits)
  next
    case 3
    from assms 3 obtain c1 c2 ds where cs: "cs = c1 # c2 # ds"
      by (cases "(0 :: nat, cs)" rule: decodeRune3.cases) (auto simp: Let_def split: if_splits)
    let ?b = "byteIn (if ?n = 0xE0 then 0xA0 else 0x80) (if ?n = 0xED then 0x9F else 0xBF) c1 \<and> byteIn 0x80 0xBF c2"
    from assms 3 cs have b: "?b" and rk: "r = (?n - 0xE0) * 0x1000 + (byteOf c1 - 0x80) * 0x40 + (byteOf c2 - 0x80)" "k = 3"
      by (auto simp: Let_def simp del: One_nat_def split: if_split_asm)
    have "utf8Char r = [c, c1, c2]"
      unfolding rk by (rule utf8_3) (use 3 b in \<open>auto simp: byteIn_def split: if_splits\<close>)
    with 3 b cs rk show ?thesis by (auto simp: runeAt_def Let_def byteIn_def split: if_splits)
  next
    case 4
    from assms 4 obtain c1 c2 c3 ds where cs: "cs = c1 # c2 # c3 # ds"
      by (cases "(0 :: nat, cs)" rule: decodeRune4.cases) (auto simp: Let_def split: if_splits)
    let ?b = "byteIn (if ?n = 0xF0 then 0x90 else 0x80) (if ?n = 0xF4 then 0x8F else 0xBF) c1 \<and> byteIn 0x80 0xBF c2 \<and> byteIn 0x80 0xBF c3"
    from assms 4 cs have b: "?b" and rk: "r = (?n - 0xF0) * 0x40000 + (byteOf c1 - 0x80) * 0x1000 + (byteOf c2 - 0x80) * 0x40 + (byteOf c3 - 0x80)" "k = 4"
      by (auto simp: Let_def simp del: One_nat_def split: if_split_asm)
    have "utf8Char r = [c, c1, c2, c3]"
      unfolding rk by (rule utf8_4) (use 4 b in \<open>auto simp: byteIn_def split: if_splits\<close>)
    with 4 b cs rk show ?thesis by (auto simp: runeAt_def Let_def byteIn_def split: if_splits)
  qed
qed


section \<open>Strings: writing and reading back\<close>

lemma hexDigit_hexChar: "d < 16 \<Longrightarrow> hexDigit (hexChar d) = Some d"
  by (auto simp: hexDigit_def hexChar_def byteOf_def Let_def)

lemma isHex_hexChar [simp]: "d < 16 \<Longrightarrow> isHex (hexChar d)"
  by (simp add: isHex_def hexDigit_hexChar)

lemma byteOf_lit [simp]: "byteOf (CHR 0x5C) = 0x5C" "byteOf (CHR 0x22) = 0x22"
  by (simp_all add: byteOf_def)

lemma prepend_prepend [simp]: "prepend p (prepend q v) = prepend (p @ q) v"
  by (auto simp: prepend_def split: option.splits)

lemma scan_ascii:
  assumes "byteOf c < 0x80"
  shows "scanString (escapeASCII c @ x) = prepend (escapeASCII c) (scanString x)"
proof -
  have "byteOf c div 16 < 16" "byteOf c mod 16 < 16" using assms by auto
  moreover have "isHex (CHR ''0'')" by (simp add: isHex_def hexDigit_def byteOf_def)
  ultimately show ?thesis by (auto simp: escapeASCII_def Let_def)
qed

lemma unquote_ascii:
  assumes "byteOf c < 0x80"
  shows "unquote (escapeASCII c @ x) = c # unquote x"
proof -
  let ?n = "byteOf c"
  have h: "hexDigit (hexChar (?n div 16)) = Some (?n div 16)" "hexDigit (hexChar (?n mod 16)) = Some (?n mod 16)"
    using assms by (auto intro!: hexDigit_hexChar)
  have c: "char_of ?n = c" by simp
  have special: "(?n = 8) = (c = CHR 0x08)" "(?n = 12) = (c = CHR 0x0C)" "(?n = 10) = (c = CHR 0x0A)" "(?n = 13) = (c = CHR 0x0D)" "(?n = 9) = (c = CHR 0x09)"
    by (simp_all only: char_eq_byte byteOf_def) simp_all
  have "c = CHR 0x5C \<or> c = CHR 0x22 \<or> c \<in> {CHR 0x08, CHR 0x0C, CHR 0x0A, CHR 0x0D, CHR 0x09} \<or>
    (escapeASCII c = [CHR 0x5C, CHR ''u'', CHR ''0'', CHR ''0'', hexChar (?n div 16), hexChar (?n mod 16)] \<and> \<not> isSurrogate ?n) \<or>
    (c \<noteq> CHR 0x5C \<and> escapeASCII c = [c])"
    using assms by (auto simp: escapeASCII_def Let_def special isSurrogate_def)
  then consider "c = CHR 0x5C" | "c = CHR 0x22" | "c \<in> {CHR 0x08, CHR 0x0C, CHR 0x0A, CHR 0x0D, CHR 0x09}"
    | "escapeASCII c = [CHR 0x5C, CHR ''u'', CHR ''0'', CHR ''0'', hexChar (?n div 16), hexChar (?n mod 16)]" "\<not> isSurrogate ?n"
    | "c \<noteq> CHR 0x5C" "escapeASCII c = [c]" by blast
  then show ?thesis
  proof cases
    case 4
    have "hexValue [CHR ''0'', CHR ''0'', hexChar (?n div 16), hexChar (?n mod 16)] = ?n"
      by (simp add: hexValue_def h) (simp add: hexDigit_def byteOf_def)
    with 4 assms show ?thesis by (simp add: Let_def utf8Char_def)
  next
    case 5
    with assms show ?thesis by (simp add: Let_def utf8Char_def)
  next
    case 1
    then show ?thesis by (simp add: escapeASCII_def unescapeChar_def)
  next
    case 2
    then show ?thesis by (simp add: escapeASCII_def unescapeChar_def)
  next
    case 3
    then show ?thesis by (elim insertE emptyE; simp add: escapeASCII_def unescapeChar_def byteOf_def)
  qed
qed

lemma scan_high: "\<forall>c \<in> set p. 0x80 \<le> byteOf c \<Longrightarrow> scanString (p @ x) = prepend p (scanString x)"
proof (induction p)
  case Nil
  then show ?case by (cases "scanString x") (auto simp: prepend_def)
next
  case (Cons c p)
  then have "c \<noteq> CHR 0x22" "c \<noteq> CHR 0x5C" "\<not> byteOf c < 0x20" by auto
  with Cons show ?case by simp
qed

lemma escape_high:
  assumes "0x80 \<le> byteOf c" and "runeAt (c # cs) r k" and "(r, k) \<noteq> (RuneError, 1)"
  shows "\<exists>p. escapeJson (c # cs) = p @ escapeJson (drop (k - 1) cs) \<and>
    (\<forall>x. scanString (p @ x) = prepend p (scanString x)) \<and> (\<forall>x. unquote (p @ x) = take k (c # cs) @ unquote x)"
proof -
  from assms(2) have dec: "\<And>t. decodeRune (take k (c # cs) @ t) = (r, k)" "decodeRune (c # cs) = (r, k)" and k: "0 < k" "k \<le> length (c # cs)"
    and u: "utf8Char r = take k (c # cs)" and high: "\<forall>c \<in> set (take k (c # cs)). 0x80 \<le> byteOf c"
    using assms(1) unfolding runeAt_def by (simp, metis append_take_drop_id, simp_all)
  show ?thesis
  proof (cases "r = 0x2028 \<or> r = 0x2029")
    case True
    let ?p = "CHR 0x5C # ''u202'' @ [hexChar (r mod 16)]"
    have e: "escapeJson (c # cs) = ?p @ escapeJson (drop (k - 1) cs)"
      using assms(1,3) True by (simp add: dec RuneError_def del: decodeRune.simps)
    from True have lit: "?p = [CHR 0x5C, CHR ''u'', CHR ''2'', CHR ''0'', CHR ''2'', CHR ''8''] \<and> r = 0x2028 \<or>
      ?p = [CHR 0x5C, CHR ''u'', CHR ''2'', CHR ''0'', CHR ''2'', CHR ''9''] \<and> r = 0x2029"
      by (auto simp: hexChar_def char_of_def bit_iff_odd)
    have "scanString (?p @ x) = prepend ?p (scanString x)" for x
      using lit by (auto simp: isHex_def hexDigit_def byteOf_def)
    moreover have "unquote (?p @ x) = take k (c # cs) @ unquote x" for x
      using lit by (auto simp: u [symmetric] hexValue_def hexDigit_def byteOf_def Let_def isSurrogate_def)
    ultimately show ?thesis using e by blast
  next
    case False
    let ?p = "take k (c # cs)"
    have "escapeJson (c # cs) = ?p @ escapeJson (drop (k - 1) cs)"
      using assms(1,3) False by (simp add: dec del: decodeRune.simps)
    moreover have "unquote (?p @ x) = ?p @ unquote x" for x
    proof -
      obtain q where p: "?p = c # q" using k by (cases k) auto
      have "length q = k - 1" using arg_cong [OF p, of length] k by simp
      then have "drop (k - 1) (q @ x) = x" by simp
      moreover have "c \<noteq> CHR 0x5C" using assms(1) by auto
      moreover have "decodeRune (c # q @ x) = (r, k)" using dec(1) [of x] p by simp
      ultimately have "unquote (c # q @ x) = utf8Char r @ unquote x" by (simp del: decodeRune.simps)
      then show ?thesis using p u by simp
    qed
    ultimately show ?thesis using scan_high [OF high] by blast
  qed
qed

lemma escape_roundtrip: "validUTF8 s \<Longrightarrow> scanString (escapeJson s @ CHR 0x22 # t) = Some (escapeJson s, t) \<and> unquote (escapeJson s) = s"
proof (induction s rule: validUTF8.induct)
  case 1
  then show ?case by simp
next
  case (2 c cs)
  obtain r k where rk: "decodeRune (c # cs) = (r, k)" by fastforce
  from 2(2) rk have ne: "(r, k) \<noteq> (RuneError, 1)" and v: "validUTF8 (drop (k - 1) cs)" by (simp_all del: decodeRune.simps)
  from 2(1) v rk have IH: "scanString (escapeJson (drop (k - 1) cs) @ CHR 0x22 # t) = Some (escapeJson (drop (k - 1) cs), t)"
    "unquote (escapeJson (drop (k - 1) cs)) = drop (k - 1) cs" by (simp_all del: decodeRune.simps)
  show ?case
  proof (cases "byteOf c < 0x80")
    case True
    then have k: "k = 1" using rk by (simp add: Let_def)
    with True IH scan_ascii [OF True] unquote_ascii [OF True, of "escapeJson cs"] show ?thesis by (simp add: prepend_def)
  next
    case False
    have "runeAt (c # cs) r k" using rk ne by (rule decodeRune_valid)
    with False escape_high [of c cs r k] ne obtain p where p: "escapeJson (c # cs) = p @ escapeJson (drop (k - 1) cs)"
      "\<And>x. scanString (p @ x) = prepend p (scanString x)" "\<And>x. unquote (p @ x) = take k (c # cs) @ unquote x" by auto
    have "take k (c # cs) @ drop (k - 1) cs = c # cs" using \<open>runeAt (c # cs) r k\<close> by (cases k) (auto simp: runeAt_def)
    then show ?thesis unfolding p(1) append_assoc p(2,3) IH by (simp add: prepend_def)
  qed
qed

section \<open>The fuel is enough\<close>

lemma skipWs_length: "length (skipWs s) \<le> length s"
  by (simp add: skipWs_def length_dropWhile_le)

lemma scanString_length: "scanString s = Some (raw, r) \<Longrightarrow> length r < length s"
proof (induction s arbitrary: raw rule: scanString.induct)
  case (2 c cs)
  show ?case
  proof (cases "c = CHR 0x22 \<or> c \<noteq> CHR 0x5C")
    case True
    with 2 show ?thesis by (fastforce simp: prepend_def split: if_splits option.splits)
  next
    case False
    then obtain e ds where cs: "cs = e # ds" using 2(4) by (cases cs) auto
    show ?thesis
    proof (cases "e \<in> set ''bfnrt/'' \<or> e = CHR 0x5C \<or> e = CHR 0x22")
      case True
      with False cs 2(4) obtain raw' where "scanString ds = Some (raw', r)"
        by (auto simp: prepend_def split: option.splits)
      with 2(1) False cs True show ?thesis by fastforce
    next
      case e: False
      with False cs 2(4) obtain raw' where "e = CHR ''u''" "4 \<le> length ds \<and> list_all isHex (take 4 ds)" "scanString (drop 4 ds) = Some (raw', r)"
        by (auto simp: prepend_def split: option.splits if_splits)
      with 2(2) False cs e show ?thesis by fastforce
    qed
  qed
qed simp

lemma scanSign_length: "scanSign s = (sg, r) \<Longrightarrow> length r \<le> length s"
  by (auto simp: scanSign_def split: list.splits if_splits)

lemma scanInt_length: "scanInt s = Some (i, r) \<Longrightarrow> length r < length s"
  by (auto simp: scanInt_def length_dropWhile_le less_Suc_eq_le split: list.splits if_splits)

lemma scanFrac_length: "scanFrac s = Some (i, r) \<Longrightarrow> length r \<le> length s"
  by (auto simp: scanFrac_def split: list.splits if_splits intro: le_SucI length_dropWhile_le)

lemma scanExp_length: "scanExp s = Some (i, r) \<Longrightarrow> length r \<le> length s"
proof -
  have "length (dropWhile isDigit (drop n xs)) \<le> Suc (length xs)" for n xs
    using length_dropWhile_le [of isDigit "drop n xs"] by simp
  then show "scanExp s = Some (i, r) \<Longrightarrow> length r \<le> length s"
    by (auto simp: scanExp_def Let_def split: list.splits if_splits)
qed

lemma scanNumber_length: "scanNumber s = Some (n, r) \<Longrightarrow> length r < length s"
  by (auto simp: scanNumber_def split: prod.splits option.splits dest!: scanSign_length scanInt_length scanFrac_length scanExp_length)

lemma Cons_skipWs: "skipWs s = c # cs \<Longrightarrow> length cs < length s"
  using skipWs_length [of s] by simp

definition restShorter :: "nat \<Rightarrow> bool" where
  "restShorter k \<longleftrightarrow> (\<forall>d s v r. parseValue k d s = Some (v, r) \<longrightarrow> length r < length s) \<and>
     (\<forall>d s vs r. parseElements k d s = Some (vs, r) \<longrightarrow> length r < length s) \<and>
     (\<forall>d s ms r. parseMembers k d s = Some (ms, r) \<longrightarrow> length r < length s)"

lemma drop1_skipWs: "length (drop 1 (skipWs cs)) \<le> length cs"
  using skipWs_length [of cs] by simp

lemma restShorter: "restShorter k"
proof (induction k)
  case 0
  show ?case by (simp add: restShorter_def)
next
  case (Suc k)
  then have v: "\<And>d s v r. parseValue k d s = Some (v, r) \<Longrightarrow> length r < length s"
    and e: "\<And>d s vs r. parseElements k d s = Some (vs, r) \<Longrightarrow> length r < length s"
    and m: "\<And>d s ms r. parseMembers k d s = Some (ms, r) \<Longrightarrow> length r < length s" by (auto simp: restShorter_def)
  have "length r < length s" if p: "parseValue (Suc k) d s = Some (v, r)" for d s v r
  proof (cases "skipWs s")
    case (Cons c cs)
    have "length r \<le> length cs"
      using p Cons drop1_skipWs [of cs] scanNumber_length [of "c # cs" _ r]
      by (auto split: if_splits option.splits prod.splits dest!: scanString_length e m)
    with Cons_skipWs [OF Cons] show ?thesis by simp
  qed (use p in simp)
  moreover have "length r < length s" if p: "parseElements (Suc k) d s = Some (vs, r)" for d s vs r
    using p by (auto split: if_splits option.splits list.splits prod.splits dest!: v e Cons_skipWs)
  moreover have "length r < length s" if p: "parseMembers (Suc k) d s = Some (ms, r)" for d s ms r
    using p by (auto split: if_splits option.splits list.splits prod.splits dest!: v m Cons_skipWs scanString_length)
  ultimately show ?case by (auto simp: restShorter_def)
qed

lemmas parse_rest = restShorter [unfolded restShorter_def, THEN conjunct1, rule_format]
  restShorter [unfolded restShorter_def, THEN conjunct2, THEN conjunct1, rule_format]
  restShorter [unfolded restShorter_def, THEN conjunct2, THEN conjunct2, rule_format]


definition moreFuel :: "nat \<Rightarrow> bool" where
  "moreFuel k \<longleftrightarrow> (\<forall>d s. 2 * length s < k \<longrightarrow> parseValue (Suc k) d s = parseValue k d s) \<and>
     (\<forall>d s. Suc (2 * length s) < k \<longrightarrow> parseElements (Suc k) d s = parseElements k d s) \<and>
     (\<forall>d s. Suc (2 * length s) < k \<longrightarrow> parseMembers (Suc k) d s = parseMembers k d s)"

lemma moreFuel: "moreFuel k"
proof (induction k)
  case 0
  show ?case by (simp add: moreFuel_def)
next
  case (Suc k)
  then have v: "\<And>d s. 2 * length s < k \<Longrightarrow> parseValue (Suc k) d s = parseValue k d s"
    and e: "\<And>d s. Suc (2 * length s) < k \<Longrightarrow> parseElements (Suc k) d s = parseElements k d s"
    and m: "\<And>d s. Suc (2 * length s) < k \<Longrightarrow> parseMembers (Suc k) d s = parseMembers k d s" by (auto simp: moreFuel_def)
  have "parseValue (Suc (Suc k)) d s = parseValue (Suc k) d s" if l: "2 * length s < Suc k" for d s
  proof (cases "skipWs s")
    case Nil
    then show ?thesis by simp
  next
    case (Cons c cs)
    from Cons_skipWs [OF Cons] l have "Suc (2 * length cs) < k" by simp
    then have "parseElements (Suc k) d' cs = parseElements k d' cs" "parseMembers (Suc k) d' cs = parseMembers k d' cs" for d'
      by (auto intro: e m simp del: parseElements.simps parseMembers.simps)
    then show ?thesis by (simp add: Cons del: parseElements.simps parseMembers.simps)
  qed
  moreover have "parseElements (Suc (Suc k)) d s = parseElements (Suc k) d s" if l: "Suc (2 * length s) < Suc k" for d s
  proof -
    have "parseElements (Suc k) d r' = parseElements k d r'" if "parseValue k d s = Some (v', r)" "skipWs r = c # r'" for v' r c r'
      using parse_rest(1) [OF that(1)] Cons_skipWs [OF that(2)] l by (intro e) simp
    moreover have "parseValue (Suc k) d s = parseValue k d s" using l by (intro v) simp
    ultimately show ?thesis
      unfolding parseElements.simps(2) [of "Suc k"] parseElements.simps(2) [of k d s]
      by (auto split: option.splits list.splits simp del: parseElements.simps parseValue.simps)
  qed
  moreover have "parseMembers (Suc (Suc k)) d s = parseMembers (Suc k) d s" if l: "Suc (2 * length s) < Suc k" for d s
  proof (cases "skipWs s")
    case (Cons q r)
    have sv: "parseValue (Suc k) d r2 = parseValue k d r2" if "scanString r = Some (raw, r1)" "skipWs r1 = c # r2" for raw r1 c r2
      using scanString_length [OF that(1)] Cons_skipWs [OF that(2)] Cons_skipWs [OF Cons] l by (intro v) simp
    have "parseMembers (Suc k) d r4 = parseMembers k d r4"
      if "scanString r = Some (raw, r1)" "skipWs r1 = c # r2" "parseValue k d r2 = Some (v', r3)" "skipWs r3 = c' # r4" for raw r1 c r2 v' r3 c' r4
      using scanString_length [OF that(1)] Cons_skipWs [OF that(2)] parse_rest(1) [OF that(3)] Cons_skipWs [OF that(4)] Cons_skipWs [OF Cons] l
      by (intro m) simp
    with sv Cons show ?thesis
      unfolding parseMembers.simps(2) [of "Suc k"] parseMembers.simps(2) [of k d s]
      by (auto split: option.splits list.splits simp del: parseMembers.simps parseValue.simps)
  qed simp
  ultimately show ?case by (simp only: moreFuel_def) blast
qed


lemma parse_fuel: "2 * length s < k \<Longrightarrow> parseValue k d s = parseValue (Suc (2 * length s)) d s"
proof (induction k)
  case (Suc k)
  show ?case
  proof (cases "2 * length s < k")
    case True
    with moreFuel [of k] have "parseValue (Suc k) d s = parseValue k d s" by (simp only: moreFuel_def)
    then show ?thesis using Suc.IH [OF True] by (rule trans)
  next
    case False
    with Suc.prems have "k = 2 * length s" by simp
    then show ?thesis by simp
  qed
qed simp


section \<open>Values: writing and reading back\<close>

fun wfJson :: "json \<Rightarrow> bool" where
  "wfJson JNull = True"
| "wfJson (JBool b) = True"
| "wfJson (JNum n) = (\<exists>i. n = FormatInt i)"
| "wfJson (JStr s) = validUTF8 s"
| "wfJson (JArr vs) = (\<forall>v \<in> set vs. wfJson v)"
| "wfJson (JObj ms) = (\<forall>(k, v) \<in> set ms. validUTF8 k \<and> wfJson v)"

fun depthJson :: "json \<Rightarrow> nat" where
  "depthJson (JArr vs) = Suc (foldr (max \<circ> depthJson) vs 0)"
| "depthJson (JObj ms) = Suc (foldr (\<lambda>(k, v). max (depthJson v)) ms 0)"
| "depthJson _ = 0"

text \<open>What may follow a value: the end, or a character that cannot extend it.\<close>

definition afterValue :: "string \<Rightarrow> bool" where
  "afterValue rest \<longleftrightarrow> (case rest of [] \<Rightarrow> True | c # cs \<Rightarrow> c \<in> set '',]}'' \<or> c = CHR 0x0A)"

lemma skipWs_nonspace [simp]: "\<not> jsonSpace c \<Longrightarrow> skipWs (c # cs) = c # cs" "skipWs [] = []"
  by (simp_all add: skipWs_def)

lemma not_jsonSpace [simp]: "\<not> jsonSpace (CHR ''{'')" "\<not> jsonSpace (CHR ''}'')" "\<not> jsonSpace (CHR ''['')" "\<not> jsonSpace (CHR '']'')"
  "\<not> jsonSpace (CHR '','')" "\<not> jsonSpace (CHR '':'')" "\<not> jsonSpace (CHR 0x22)" "\<not> jsonSpace (CHR ''n'')" "\<not> jsonSpace (CHR ''t'')" "\<not> jsonSpace (CHR ''f'')" "\<not> jsonSpace (CHR ''-'')"
  by (simp_all add: jsonSpace_def)

lemma digit_facts:
  assumes "isDigit c"
  shows "\<not> jsonSpace c" "c \<notin> set ''{[}],:ntf-.eE''" "c \<noteq> CHR 0x22"
  using assms by (auto simp: isDigit_def jsonSpace_def charDigit_def)

lemma formatNat_leading_zero: "formatNat n = CHR ''0'' # cs \<Longrightarrow> n = 0"
proof (induction n arbitrary: cs rule: formatNat.induct)
  case (1 n)
  show ?case
  proof (cases "n < 10")
    case True
    then have "charDigit (digitChar n) = charDigit (CHR ''0'')" using 1(2) by (simp add: formatNat.simps [of n])
    with True show ?thesis by (simp add: charDigit_def [of "CHR ''0''"])
  next
    case False
    obtain c ds where f: "formatNat (n div 10) = c # ds" by (cases "formatNat (n div 10)") auto
    with False 1(2) have "c = CHR ''0''" by (simp add: formatNat.simps [of n])
    with 1(1) [OF False] f False show ?thesis by simp
  qed
qed

lemma formatNat_scan:
  assumes "afterValue rest"
  shows "\<exists>c cs. formatNat n = c # cs \<and> isDigit c \<and> scanInt (formatNat n @ rest) = Some (formatNat n, rest)"
proof -
  obtain c cs where f: "formatNat n = c # cs" by (cases "formatNat n") auto
  have d: "\<forall>x \<in> set (formatNat n). isDigit x" using formatNat_digits by (auto simp: isDigit_def)
  have rest: "takeWhile isDigit rest = []" "dropWhile isDigit rest = rest"
    using assms by (cases rest; auto simp: afterValue_def isDigit_def charDigit_def)+
  have zero: "cs = []" if "c = CHR ''0''"
    using that f formatNat_leading_zero [of n cs] by (simp add: formatNat.simps)
  have "scanInt (formatNat n @ rest) = Some (formatNat n, rest)"
    using f d zero rest by (auto simp: scanInt_def takeWhile_append2 dropWhile_append2)
  with f d show ?thesis by auto
qed


lemma FormatInt_scan:
  assumes "afterValue rest"
  shows "scanNumber (FormatInt i @ rest) = Some (FormatInt i, rest)"
    and "\<exists>c cs. FormatInt i = c # cs \<and> (c = CHR ''-'' \<or> isDigit c)"
proof -
  have fe: "scanFrac rest = Some ([], rest)" "scanExp rest = Some ([], rest)"
    using assms by (cases rest; auto simp: afterValue_def scanFrac_def scanExp_def)+
  from formatNat_scan [OF assms] obtain c cs where pos: "formatNat (nat i) = c # cs" "isDigit c" "scanInt (formatNat (nat i) @ rest) = Some (formatNat (nat i), rest)" by blast
  from formatNat_scan [OF assms, of "nat (- i)"] have neg: "scanInt (formatNat (nat (- i)) @ rest) = Some (formatNat (nat (- i)), rest)" by blast
  have "c \<noteq> CHR ''-''" using pos(2) by (auto simp: isDigit_def charDigit_def)
  with pos neg fe show "scanNumber (FormatInt i @ rest) = Some (FormatInt i, rest)"
    by (simp add: scanNumber_def scanSign_def FormatInt_def)
  show "\<exists>c cs. FormatInt i = c # cs \<and> (c = CHR ''-'' \<or> isDigit c)" using pos by (simp add: FormatInt_def)
qed

lemma jsonPrint_hd:
  assumes "wfJson j"
  shows "\<exists>c cs. jsonPrint j = c # cs \<and> \<not> jsonSpace c \<and> c \<noteq> CHR '']'' \<and> c \<noteq> CHR ''}''"
proof (cases j)
  case (JNum n)
  with assms obtain i where "n = FormatInt i" by auto
  moreover obtain c cs where "FormatInt i = c # cs" "c = CHR ''-'' \<or> isDigit c" using FormatInt_scan(2) [of "[]" i] by (auto simp: afterValue_def)
  ultimately show ?thesis using JNum digit_facts [of c] by auto
qed (auto simp: quoteJson_def)

definition reads :: "json \<Rightarrow> bool" where
  "reads j \<longleftrightarrow> (\<forall>k d rest. 2 * length (jsonPrint j @ rest) < k \<longrightarrow> d + depthJson j \<le> maxNestingDepth \<longrightarrow> afterValue rest \<longrightarrow>
     parseValue k d (jsonPrint j @ rest) = Some (j, rest))"

lemma readsI:
  assumes "\<And>k d rest. 2 * length (jsonPrint j @ rest) \<le> k \<Longrightarrow> d + depthJson j \<le> maxNestingDepth \<Longrightarrow> afterValue rest \<Longrightarrow>
     parseValue (Suc k) d (jsonPrint j @ rest) = Some (j, rest)"
  shows "reads j"
  unfolding reads_def
proof (intro allI impI)
  fix k d rest assume a: "2 * length (jsonPrint j @ rest) < k" "d + depthJson j \<le> maxNestingDepth" "afterValue rest"
  then obtain k' where k: "k = Suc k'" by (cases k) auto
  show "parseValue k d (jsonPrint j @ rest) = Some (j, rest)"
    unfolding k by (rule assms) (use a k in auto)
qed

lemma reads_elements:
  assumes "vs \<noteq> []" and "\<And>v. v \<in> set vs \<Longrightarrow> reads v \<and> d + depthJson v \<le> maxNestingDepth"
    and "Suc (2 * length (Join (map jsonPrint vs) '','' @ '']'' @ rest)) < k"
  shows "parseElements k d (Join (map jsonPrint vs) '','' @ '']'' @ rest) = Some (vs, rest)"
  using assms
proof (induction vs arbitrary: k)
  case (Cons v vs)
  from Cons.prems(3) obtain k' where k: "k = Suc k'" by (cases k) auto
  show ?case
  proof (cases "vs = []")
    case True
    with Cons.prems k have "parseValue k' d (jsonPrint v @ '']'' @ rest) = Some (v, '']'' @ rest)"
      by (auto simp: reads_def afterValue_def)
    with True k show ?thesis by simp
  next
    case False
    let ?tail = "Join (map jsonPrint vs) '','' @ '']'' @ rest"
    have j: "Join (map jsonPrint (v # vs)) '','' @ '']'' @ rest = jsonPrint v @ '','' @ ?tail" using False by (cases vs) auto
    have "parseValue k' d (jsonPrint v @ '','' @ ?tail) = Some (v, '','' @ ?tail)"
      using Cons.prems(2) [of v] Cons.prems(3) unfolding j k by (simp add: reads_def afterValue_def)
    moreover have "parseElements k' d ?tail = Some (vs, rest)"
      using Cons.prems(2,3) False unfolding j k by (intro Cons.IH) auto
    ultimately show ?thesis unfolding j k by (simp del: parseValue.simps)
  qed
qed simp

definition printMember :: "string \<times> json \<Rightarrow> string" where
  "printMember m = quoteJson (fst m) @ '':'' @ jsonPrint (snd m)"

lemma reads_members:
  assumes "ms \<noteq> []" and "\<And>m. m \<in> set ms \<Longrightarrow> validUTF8 (fst m) \<and> reads (snd m) \<and> d + depthJson (snd m) \<le> maxNestingDepth"
    and "Suc (2 * length (Join (map printMember ms) '','' @ ''}'' @ rest)) < k"
  shows "parseMembers k d (Join (map printMember ms) '','' @ ''}'' @ rest) = Some (ms, rest)"
  using assms
proof (induction ms arbitrary: k)
  case (Cons m ms)
  from Cons.prems(3) obtain k' where k: "k = Suc k'" by (cases k) auto
  from Cons.prems(2) [of m] have v: "validUTF8 (fst m)" and r: "reads (snd m)" "d + depthJson (snd m) \<le> maxNestingDepth" by auto
  have key: "printMember m @ t = CHR 0x22 # escapeJson (fst m) @ CHR 0x22 # CHR '':'' # jsonPrint (snd m) @ t" for t
    by (simp add: printMember_def quoteJson_def)
  note scan = escape_roundtrip [OF v]
  show ?case
  proof (cases "ms = []")
    case True
    with Cons.prems(3) r k have "parseValue k' d (jsonPrint (snd m) @ ''}'' @ rest) = Some (snd m, ''}'' @ rest)"
      by (auto simp: reads_def afterValue_def printMember_def quoteJson_def)
    with True k scan show ?thesis by (simp add: key del: parseValue.simps)
  next
    case False
    let ?tail = "Join (map printMember ms) '','' @ ''}'' @ rest"
    have j: "Join (map printMember (m # ms)) '','' @ ''}'' @ rest = printMember m @ '','' @ ?tail" using False by (cases ms) auto
    have "parseValue k' d (jsonPrint (snd m) @ '','' @ ?tail) = Some (snd m, '','' @ ?tail)"
      using r Cons.prems(3) unfolding j k by (simp add: reads_def afterValue_def printMember_def)
    moreover have "parseMembers k' d ?tail = Some (ms, rest)"
      using Cons.prems(2,3) False unfolding j k by (intro Cons.IH) auto
    ultimately show ?thesis using scan unfolding j k key by (simp del: parseValue.simps)
  qed
qed simp

lemma depth_le: "v \<in> set vs \<Longrightarrow> depthJson v \<le> foldr (max \<circ> depthJson) vs 0"
  by (induction vs) (auto simp: max_def)

lemma depth_le': "m \<in> set ms \<Longrightarrow> depthJson (snd m) \<le> foldr (\<lambda>(k, v). max (depthJson v)) ms 0"
  by (induction ms) (auto simp: max_def split: prod.splits)

lemma reads: "wfJson j \<Longrightarrow> reads j"
proof (induction j)
  case JNull
  show ?case by (rule readsI) (auto simp: HasPrefix_def)
next
  case (JBool b)
  show ?case by (rule readsI) (auto simp: HasPrefix_def)
next
  case (JNum n)
  then obtain i where n: "n = FormatInt i" by auto
  show ?case
  proof (rule readsI)
    fix k d rest assume k: "2 * length (jsonPrint (JNum n) @ rest) \<le> k" and rest: "afterValue rest"
    from FormatInt_scan(2) [OF rest, of i] obtain c cs where f: "FormatInt i = c # cs" "c = CHR ''-'' \<or> isDigit c" by blast
    have c: "\<not> jsonSpace c" "c \<notin> set ''{[ntf''" "c \<noteq> CHR 0x22" using f(2)
      by (elim disjE; simp add: isDigit_def jsonSpace_def charDigit_def; auto simp: charDigit_def)+
    have "scanNumber (c # cs @ rest) = Some (c # cs, rest)" using FormatInt_scan(1) [OF rest, of i] f(1) by simp
    with c show "parseValue (Suc k) d (jsonPrint (JNum n) @ rest) = Some (JNum n, rest)" unfolding n by (simp add: f(1) HasPrefix_def)
  qed
next
  case (JStr s)
  then have "scanString (escapeJson s @ CHR 0x22 # t) = Some (escapeJson s, t)" "unquote (escapeJson s) = s" for t
    using escape_roundtrip by auto
  then show ?case by (intro readsI) (auto simp: quoteJson_def)
next
  case (JArr vs)
  show ?case
  proof (rule readsI)
    fix k d rest assume k: "2 * length (jsonPrint (JArr vs) @ rest) \<le> k" and d: "d + depthJson (JArr vs) \<le> maxNestingDepth"
    have "vs \<noteq> [] \<Longrightarrow> parseElements k (Suc d) (Join (map jsonPrint vs) '','' @ '']'' @ rest) = Some (vs, rest)"
      using JArr d k depth_le [of _ vs] by (intro reads_elements) fastforce+
    moreover have "vs \<noteq> [] \<Longrightarrow> \<exists>c cs. Join (map jsonPrint vs) '','' = c # cs \<and> \<not> jsonSpace c \<and> c \<noteq> CHR '']''"
      using JArr.prems jsonPrint_hd [of "hd vs"] by (cases vs rule: remdups_adj.cases) auto
    ultimately show "parseValue (Suc k) d (jsonPrint (JArr vs) @ rest) = Some (JArr vs, rest)"
      using d by (cases "vs = []") auto
  qed
next
  case (JObj ms)
  have print: "jsonPrint (JObj ms) = CHR ''{'' # Join (map printMember ms) '','' @ ''}''"
    by (simp add: printMember_def [abs_def] case_prod_unfold)
  show ?case
  proof (rule readsI)
    fix k d rest assume k: "2 * length (jsonPrint (JObj ms) @ rest) \<le> k" and d: "d + depthJson (JObj ms) \<le> maxNestingDepth"
    have m: "validUTF8 (fst m) \<and> reads (snd m) \<and> Suc d + depthJson (snd m) \<le> maxNestingDepth" if "m \<in> set ms" for m
      using JObj.IH [of m "snd m"] JObj.prems that d depth_le' [OF that] by (auto simp: snds.simps)
    have "ms \<noteq> [] \<Longrightarrow> parseMembers k (Suc d) (Join (map printMember ms) '','' @ ''}'' @ rest) = Some (ms, rest)"
      using m k unfolding print by (intro reads_members) auto
    moreover have "ms \<noteq> [] \<Longrightarrow> \<exists>cs. Join (map printMember ms) '','' = CHR 0x22 # cs"
      by (cases ms rule: remdups_adj.cases) (auto simp: printMember_def quoteJson_def)
    ultimately show "parseValue (Suc k) d (jsonPrint (JObj ms) @ rest) = Some (JObj ms, rest)"
      using d unfolding print by (cases "ms = []") auto
  qed
qed

theorem jsonParse_jsonPrint:
  assumes "wfJson j" and "depthJson j \<le> maxNestingDepth"
  shows "jsonParse (jsonPrint j) = Some j"
proof -
  have "parseValue (Suc (2 * length (jsonPrint j))) 0 (jsonPrint j @ []) = Some (j, [])"
    using reads [OF assms(1), unfolded reads_def, rule_format, of "[]" "Suc (2 * length (jsonPrint j))" 0] assms(2)
    by (simp add: afterValue_def del: parseValue.simps)
  then show ?thesis by (simp add: jsonParse_def del: parseValue.simps)
qed

end
