(* ===== verification/JsonValid.thy ===== *)
theory JsonValid
  imports Json
begin

text \<open>
  What \<open>json.Unmarshal\<close> yields is UTF-8: every string it reads, whatever the bytes of the text, is a
  sequence of encoded Unicode scalar values, so that it can be written and read back (theory Json).
  Trimming keeps that.
\<close>

section \<open>Scalar values\<close>

definition scalar :: "nat \<Rightarrow> bool" where
  "scalar n \<longleftrightarrow> n < 0x110000 \<and> \<not> isSurrogate n"

lemma byteOf_char_of: "n < 256 \<Longrightarrow> byteOf (char_of n) = n"
  by (simp add: byteOf_def)

lemma split_64: "n = n div 0x1000 * 0x1000 + n div 0x40 mod 0x40 * 0x40 + n mod 0x40"
  "n = n div 0x40000 * 0x40000 + n div 0x1000 mod 0x40 * 0x1000 + n div 0x40 mod 0x40 * 0x40 + n mod 0x40" for n :: nat
  using div_mult_mod_eq [of n 64] div_mult_mod_eq [of "n div 64" 64] div_mult_mod_eq [of "n div 64 div 64" 64]
  unfolding div_4096 by linarith+

lemma decode_utf8Char:
  assumes "scalar n"
  shows "decodeRune (utf8Char n @ s) = (n, length (utf8Char n))"
proof -
  consider "n < 0x80" | "0x80 \<le> n" "n < 0x800" | "0x800 \<le> n" "n < 0x10000" | "0x10000 \<le> n" "n < 0x110000"
    using assms unfolding scalar_def by linarith
  then show ?thesis
  proof cases
    case 1
    then show ?thesis by (simp add: utf8Char_def byteOf_char_of)
  next
    case 2
    have a: "2 \<le> n div 0x40" "n div 0x40 < 32" using 2 by auto
    have eq: "n div 0x40 * 0x40 + n mod 0x40 = n" by simp
    have b: "byteOf (char_of (0xC0 + n div 0x40)) = 0xC0 + n div 0x40" "byteOf (char_of (0x80 + n mod 0x40)) = 0x80 + n mod 0x40"
      using a by (auto intro!: byteOf_char_of)
    have "utf8Char n = [char_of (0xC0 + n div 0x40), char_of (0x80 + n mod 0x40)]" using 2 by (simp add: utf8Char_def)
    then show ?thesis using a eq by (simp add: b byteIn_def Let_def)
  next
    case 3
    define a b c where "a = n div 0x1000" and "b = n div 0x40 mod 0x40" and "c = n mod 0x40"
    have abc: "a < 16" "b < 64" "c < 64" "n = a * 0x1000 + b * 0x40 + c" using 3 split_64(1) [of n] by (auto simp: a_def b_def c_def)
    have ed: "b < 32" if "a = 13" using assms abc that by (auto simp: scalar_def isSurrogate_def)
    have u: "utf8Char n = [char_of (0xE0 + a), char_of (0x80 + b), char_of (0x80 + c)]"
      using 3 by (simp add: utf8Char_def a_def b_def c_def)
    have bs: "byteOf (char_of (0xE0 + a)) = 0xE0 + a" "byteOf (char_of (0x80 + b)) = 0x80 + b" "byteOf (char_of (0x80 + c)) = 0x80 + c"
      using abc by (auto intro!: byteOf_char_of)
    have lo: "32 \<le> b" if "a = 0" using 3 abc that by auto
    show ?thesis unfolding u using abc ed lo by (auto simp: bs byteIn_def Let_def)
  next
    case 4
    define a b c d where "a = n div 0x40000" and "b = n div 0x1000 mod 0x40" and "c = n div 0x40 mod 0x40" and "d = n mod 0x40"
    have abc: "a < 5" "b < 64" "c < 64" "d < 64" "n = a * 0x40000 + b * 0x1000 + c * 0x40 + d" using 4 split_64(2) [of n] by (auto simp: a_def b_def c_def d_def)
    have hi: "b < 16" if "a = 4" using 4 abc that by auto
    have lo: "16 \<le> b" if "a = 0" using 4 abc that by auto
    have u: "utf8Char n = [char_of (0xF0 + a), char_of (0x80 + b), char_of (0x80 + c), char_of (0x80 + d)]"
      using 4 by (simp add: utf8Char_def a_def b_def c_def d_def)
    have bs: "byteOf (char_of (0xF0 + a)) = 0xF0 + a" "byteOf (char_of (0x80 + b)) = 0x80 + b" "byteOf (char_of (0x80 + c)) = 0x80 + c" "byteOf (char_of (0x80 + d)) = 0x80 + d"
      using abc by (auto intro!: byteOf_char_of)
    show ?thesis unfolding u using abc hi lo by (auto simp: bs byteIn_def Let_def)
  qed
qed

lemma utf8Char_length: "0 < length (utf8Char n)" "0x80 \<le> n \<Longrightarrow> 1 < length (utf8Char n)"
  by (simp_all add: utf8Char_def)

lemma validUTF8_utf8Char: "scalar n \<Longrightarrow> validUTF8 (utf8Char n @ s) = validUTF8 s"
proof -
  assume n: "scalar n"
  obtain c cs where c: "utf8Char n = c # cs" using utf8Char_length(1) [of n] by (cases "utf8Char n") auto
  have d: "decodeRune (c # cs @ s) = (n, length (c # cs))" using decode_utf8Char [OF n, of s] c by simp
  moreover have "(n, length (c # cs)) \<noteq> (RuneError, 1)" using utf8Char_length(2) [of n] c by (auto simp: RuneError_def)
  ultimately show ?thesis by (simp add: c del: decodeRune.simps)
qed

lemma validUTF8_utf8: "\<forall>n \<in> set ns. scalar n \<Longrightarrow> validUTF8 (utf8 ns)"
  by (induction ns) (auto simp: utf8_def validUTF8_utf8Char)

lemma decodeRune_scalar: "scalar (fst (decodeRune s))"
proof -
  have "scalar RuneError" by (simp add: scalar_def isSurrogate_def RuneError_def)
  moreover have "scalar (fst (decodeRune2 n cs))" if "0xC2 \<le> n" "n \<le> 0xDF" for n cs
    using that calculation by (cases "(n, cs)" rule: decodeRune2.cases) (auto simp: scalar_def isSurrogate_def byteIn_def)
  moreover have "scalar (fst (decodeRune3 n cs))" if "0xE0 \<le> n" "n \<le> 0xEF" for n cs
    using that calculation(1) by (cases "(n, cs)" rule: decodeRune3.cases) (auto simp: scalar_def isSurrogate_def byteIn_def split: if_splits)
  moreover have "scalar (fst (decodeRune4 n cs))" if "0xF0 \<le> n" "n \<le> 0xF4" for n cs
    using that calculation(1) by (cases "(n, cs)" rule: decodeRune4.cases) (auto simp: scalar_def isSurrogate_def byteIn_def split: if_splits)
  ultimately show ?thesis by (cases s) (auto simp: Let_def scalar_def [of "byteOf _"] isSurrogate_def)
qed

lemma validUTF8_runes: "validUTF8 s \<Longrightarrow> \<exists>ns. (\<forall>n \<in> set ns. scalar n) \<and> s = utf8 ns"
proof (induction s rule: validUTF8.induct)
  case 1
  show ?case by (intro exI [of _ "[]"]) (simp add: utf8_def)
next
  case (2 c cs)
  obtain r k where rk: "decodeRune (c # cs) = (r, k)" by fastforce
  from 2(2) rk have ne: "(r, k) \<noteq> (RuneError, 1)" and v: "validUTF8 (drop (k - 1) cs)" by (simp_all del: decodeRune.simps)
  from decodeRune_valid [OF rk ne] have u: "utf8Char r = take k (c # cs)" and k: "0 < k" by (auto simp: runeAt_def)
  from 2(1) rk v obtain ns where ns: "\<forall>n \<in> set ns. scalar n" "drop (k - 1) cs = utf8 ns" by (auto simp del: decodeRune.simps)
  have "c # cs = take k (c # cs) @ drop (k - 1) cs" using k by (cases k) auto
  with u ns(2) have "c # cs = utf8 (r # ns)" by (simp add: utf8_def)
  moreover have "scalar r" using decodeRune_scalar [of "c # cs"] rk by simp
  ultimately show ?case using ns(1) by (intro exI [of _ "r # ns"]) simp
qed

lemma hexValue_bound: "length s \<le> 4 \<Longrightarrow> hexValue s < 0x10000"
proof -
  have d: "(case hexDigit c of None \<Rightarrow> 0 | Some d \<Rightarrow> d) < 16" for c by (auto simp: hexDigit_def Let_def split: if_splits)
  have "foldl (\<lambda>n c. 16 * n + (case hexDigit c of None \<Rightarrow> 0 | Some d \<Rightarrow> d)) a s < (a + 1) * 16 ^ length s" for a
  proof (induction s arbitrary: a)
    case (Cons c s)
    let ?d = "case hexDigit c of None \<Rightarrow> 0 | Some d \<Rightarrow> d"
    have "foldl (\<lambda>n c. 16 * n + (case hexDigit c of None \<Rightarrow> 0 | Some d \<Rightarrow> d)) (16 * a + ?d) s < (16 * a + ?d + 1) * 16 ^ length s" by (rule Cons)
    also have "\<dots> \<le> (16 * (a + 1)) * 16 ^ length s" using d [of c] by (intro mult_right_mono) auto
    finally show ?case by (simp add: algebra_simps)
  qed simp
  from this [of 0] have "hexValue s < 16 ^ length s" by (simp add: hexValue_def)
  moreover assume "length s \<le> 4"
  then have "(16 :: nat) ^ length s \<le> 16 ^ 4" by (intro power_increasing) auto
  ultimately show ?thesis by simp
qed

lemma surrogatePair_scalar: "surrogatePair r v = Some n \<Longrightarrow> scalar n"
  by (auto simp: surrogatePair_def scalar_def isSurrogate_def split: option.splits if_splits)

lemma validUTF8_ascii: "byteOf c < 0x80 \<Longrightarrow> validUTF8 (c # s) = validUTF8 s"
  by (simp add: RuneError_def)

section \<open>String literals\<close>

text \<open>Backslashes only where the syntax check allows them.\<close>

fun wellEscaped :: "string \<Rightarrow> bool" where
  "wellEscaped [] = True"
| "wellEscaped (c # cs) =
     (if c = CHR 0x5C then (case cs of
          [] \<Rightarrow> False
        | e # ds \<Rightarrow> if e = CHR ''u'' then 4 \<le> length ds \<and> list_all isHex (take 4 ds) \<and> wellEscaped (drop 4 ds)
            else byteOf e < 0x80 \<and> wellEscaped ds)
      else wellEscaped cs)"

lemma scanString_wellEscaped: "scanString s = Some (raw, r) \<Longrightarrow> wellEscaped raw"
proof (induction s arbitrary: raw rule: scanString.induct)
  case (2 c cs)
  show ?case
  proof (cases "c = CHR 0x22 \<or> c \<noteq> CHR 0x5C")
    case True
    with 2 show ?thesis by (fastforce simp: prepend_def split: if_splits option.splits)
  next
    case False
    then obtain e ds where cs: "cs = e # ds" using 2(4) by (cases cs) auto
    show ?thesis
    proof (cases "e \<in> set ''bfnrt/'' \<or> e = CHR 0x5C \<or> e = CHR 0x22")
      case True
      with False cs 2(4) obtain raw' where r: "scanString ds = Some (raw', r)" "raw = c # e # raw'"
        by (auto simp: prepend_def split: option.splits)
      from 2(1) False cs True r(1) have "wellEscaped raw'" by fastforce
      with True False r(2) show ?thesis by (auto simp: byteOf_def)
    next
      case e: False
      with False cs 2(4) obtain raw' where u: "e = CHR ''u''" "4 \<le> length ds \<and> list_all isHex (take 4 ds)" "scanString (drop 4 ds) = Some (raw', r)"
          "raw = c # e # take 4 ds @ raw'"
        by (auto simp: prepend_def split: option.splits if_splits)
      with 2(2) False cs e have "wellEscaped raw'" by fastforce
      with u False show ?thesis by (auto simp: min_def)
    qed
  qed
qed simp

lemma wellEscaped_high: "\<forall>c \<in> set p. 0x80 \<le> byteOf c \<Longrightarrow> wellEscaped (p @ s) = wellEscaped s"
  by (induction p) auto

lemma unescape_ascii: "byteOf e < 0x80 \<Longrightarrow> byteOf (unescapeChar e) < 0x80"
  by (simp add: unescapeChar_def byteOf_def)

lemma getu4_wellEscaped: "getu4 s = Some v \<Longrightarrow> wellEscaped s \<Longrightarrow> wellEscaped (drop 6 s)"
proof -
  assume g: "getu4 s = Some v" and w: "wellEscaped s"
  then obtain c e ds where s: "s = c # e # ds" by (cases s rule: remdups_adj.cases) (auto simp: getu4_def)
  with g w show ?thesis by (auto simp: getu4_def split: if_splits)
qed

lemma validUTF8_unquote: "wellEscaped raw \<Longrightarrow> validUTF8 (unquote raw)"
proof (induction raw rule: length_induct)
  case (1 raw)
  show ?case
  proof (cases raw)
    case (Cons c cs)
    show ?thesis
    proof (cases "c = CHR 0x5C")
      case False
      obtain r k where rk: "decodeRune (c # cs) = (r, k)" by fastforce
      have "wellEscaped (drop (k - 1) cs)"
      proof (cases "k = 1 \<or> (r, k) = (RuneError, 1)")
        case True
        with Cons False 1(2) show ?thesis by auto
      next
        case k: False
        with decodeRune_valid [OF rk] have ra: "runeAt (c # cs) r k" by auto
        have "0x80 \<le> byteOf c" using rk k by (auto simp: Let_def split: if_splits)
        with ra have high: "\<forall>x \<in> set (take k (c # cs)). 0x80 \<le> byteOf x" by (simp add: runeAt_def)
        have "wellEscaped (c # cs)" using Cons 1(2) by simp
        then have "wellEscaped (take k (c # cs) @ drop k (c # cs))" by simp
        then have "wellEscaped (drop k (c # cs))" using wellEscaped_high [OF high] by blast
        with k ra show ?thesis by (cases k) (auto simp: runeAt_def)
      qed
      then have "validUTF8 (unquote (drop (k - 1) cs))" using 1(1) Cons by auto
      with False rk show ?thesis using Cons decodeRune_scalar [of "c # cs"] by (simp add: validUTF8_utf8Char del: decodeRune.simps)
    next
      case True
      with Cons 1(2) obtain e ds where cs: "cs = e # ds" by (cases cs) auto
      show ?thesis
      proof (cases "e = CHR ''u''")
        case False
        with True Cons cs 1 show ?thesis by (simp add: validUTF8_ascii unescape_ascii del: validUTF8.simps(2))
      next
        case u: True
        have w: "wellEscaped (drop 4 ds)" using True Cons cs u 1(2) by simp
        then have v: "validUTF8 (unquote (drop 4 ds))" using 1(1) Cons cs by auto
        have v6: "validUTF8 (unquote (drop 6 (drop 4 ds)))" if "surrogatePair n (getu4 (drop 4 ds)) = Some m" for n m
        proof -
          from that obtain q where "getu4 (drop 4 ds) = Some q" by (auto simp: surrogatePair_def split: option.splits)
          from getu4_wellEscaped [OF this w] show ?thesis using 1(1) Cons cs by auto
        qed
        have "scalar (hexValue (take 4 ds))" if "\<not> isSurrogate (hexValue (take 4 ds))"
          using that hexValue_bound [of "take 4 ds"] by (simp add: scalar_def)
        moreover have "scalar RuneError" by (simp add: scalar_def isSurrogate_def RuneError_def)
        ultimately show ?thesis using True u Cons cs v v6
          by (auto simp: Let_def validUTF8_utf8Char validUTF8_utf8Char [OF surrogatePair_scalar] split: option.splits)
      qed
    qed
  qed simp
qed

section \<open>Values\<close>

fun stringsValid :: "json \<Rightarrow> bool" where
  "stringsValid (JStr s) = validUTF8 s"
| "stringsValid (JArr vs) = (\<forall>v \<in> set vs. stringsValid v)"
| "stringsValid (JObj ms) = (\<forall>(k, v) \<in> set ms. validUTF8 k \<and> stringsValid v)"
| "stringsValid _ = True"

definition parsesValid :: "nat \<Rightarrow> bool" where
  "parsesValid k \<longleftrightarrow> (\<forall>d s v r. parseValue k d s = Some (v, r) \<longrightarrow> stringsValid v) \<and>
     (\<forall>d s vs r. parseElements k d s = Some (vs, r) \<longrightarrow> (\<forall>v \<in> set vs. stringsValid v)) \<and>
     (\<forall>d s ms r. parseMembers k d s = Some (ms, r) \<longrightarrow> (\<forall>(q, v) \<in> set ms. validUTF8 q \<and> stringsValid v))"

lemma parsesValid: "parsesValid k"
proof (induction k)
  case 0
  show ?case by (simp add: parsesValid_def)
next
  case (Suc k)
  then have v: "\<And>d s v r. parseValue k d s = Some (v, r) \<Longrightarrow> stringsValid v"
    and e: "\<And>d s vs r. parseElements k d s = Some (vs, r) \<Longrightarrow> \<forall>v \<in> set vs. stringsValid v"
    and m: "\<And>d s ms r. parseMembers k d s = Some (ms, r) \<Longrightarrow> \<forall>(q, v) \<in> set ms. validUTF8 q \<and> stringsValid v"
    unfolding parsesValid_def by blast+
  have q: "validUTF8 (unquote raw)" if "scanString s = Some (raw, r)" for s raw r
    using scanString_wellEscaped [OF that] by (rule validUTF8_unquote)
  have "stringsValid v" if p: "parseValue (Suc k) d s = Some (v, r)" for d s v r
    using p by (auto simp: q split: if_splits option.splits list.splits prod.splits dest!: e m)
  moreover have "\<forall>v \<in> set vs. stringsValid v" if p: "parseElements (Suc k) d s = Some (vs, r)" for d s vs r
    using p by (auto split: if_splits option.splits list.splits prod.splits dest!: v e)
  moreover have "\<forall>(q, v) \<in> set ms. validUTF8 q \<and> stringsValid v" if p: "parseMembers (Suc k) d s = Some (ms, r)" for d s ms r
    using p by (auto simp: q split: if_splits option.splits list.splits prod.splits dest!: v m)
  ultimately show ?case unfolding parsesValid_def by blast
qed

lemma jsonParse_valid: "jsonParse s = Some v \<Longrightarrow> stringsValid v"
proof -
  assume "jsonParse s = Some v"
  then obtain r where "parseValue (Suc (2 * length s)) 0 s = Some (v, r)"
    by (auto simp: jsonParse_def simp del: parseValue.simps split: option.splits if_splits)
  with parsesValid show ?thesis unfolding parsesValid_def by blast
qed

section \<open>Trimming\<close>

lemma utf8Char_last: "scalar n \<Longrightarrow> byteOf (last (utf8Char n)) < 0x80 \<Longrightarrow> n < 0x80"
proof (rule ccontr)
  assume n: "scalar n" "byteOf (last (utf8Char n)) < 0x80" and "\<not> n < 0x80"
  then have "last (utf8Char n) = char_of (0x80 + n mod 0x40)" by (simp add: utf8Char_def)
  with n(2) have "byteOf (char_of (0x80 + n mod 0x40)) < 0x80" by simp
  then show False by (simp add: byteOf_char_of)
qed

lemma validUTF8_snoc: "byteOf c < 0x80 \<Longrightarrow> validUTF8 (s @ [c]) \<Longrightarrow> validUTF8 s"
proof -
  assume c: "byteOf c < 0x80" and "validUTF8 (s @ [c])"
  then obtain ns where ns: "\<forall>n \<in> set ns. scalar n" "s @ [c] = utf8 ns" using validUTF8_runes by blast
  then have "ns \<noteq> []" by (auto simp: utf8_def)
  then obtain ms n where m: "ns = ms @ [n]" by (metis append_butlast_last_id)
  have ne: "utf8Char n \<noteq> []" using utf8Char_length(1) [of n] by auto
  have "last (utf8Char n) = c" using arg_cong [OF ns(2), of last] ne by (simp add: m utf8_def)
  with c ns(1) m utf8Char_last [of n] have "n < 0x80" by auto
  then have "utf8Char n = [char_of n]" by (simp add: utf8Char_def)
  with ns(2) m have "s = utf8 ms" by (simp add: utf8_def)
  with ns(1) m show ?thesis by (auto intro: validUTF8_utf8)
qed

lemma isSpace_ascii: "isSpace c \<Longrightarrow> byteOf c < 0x80"
  by (auto simp: isSpace_def byteOf_def)

lemma validUTF8_TrimSpace:
  assumes "validUTF8 s"
  shows "validUTF8 (TrimSpace s)"
proof -
  have l: "validUTF8 t \<Longrightarrow> validUTF8 (dropWhile isSpace t)" for t
    by (induction t) (auto simp: validUTF8_ascii [OF isSpace_ascii] simp del: validUTF8.simps(2))
  have "validUTF8 (rev t) \<Longrightarrow> validUTF8 (rev (dropWhile isSpace t))" for t
    by (induction t) (auto intro: validUTF8_snoc isSpace_ascii)
  from this [of "rev (dropWhile isSpace s)"] l [OF assms] show ?thesis by (simp add: TrimSpace_def)
qed

end
