(* ===== verification/LabelMap.thy ===== *)
theory LabelMap
  imports AlertDb JsonValid
begin

text \<open>
  Label maps (\<open>alert/labelmap/labelmap.go\<close>): their JSON form, their merge and its precedence. A Go map
  of strings is the list of its entries sorted by key (\<open>isMap\<close>), so that equal maps are equal lists;
  the lemma \<open>mergePart_order\<close> says that the order of \<open>range\<close> over a map has no effect.
\<close>

section \<open>Label maps\<close>

type_synonym labels = "(string \<times> string) list"

fun putLabel :: "string \<Rightarrow> string \<Rightarrow> labels \<Rightarrow> labels" where
  "putLabel k v [] = [(k, v)]"
| "putLabel k v ((k', v') # m) =
     (if k = k' then (k, v) # m else if k < k' then (k, v) # (k', v') # m else (k', v') # putLabel k v m)"

definition getLabel :: "labels \<Rightarrow> string \<Rightarrow> string" where
  "getLabel m k = (case map_of m k of None \<Rightarrow> [] | Some v \<Rightarrow> v)"

text \<open>\<open>json.Unmarshal\<close> into a \<open>map[string]string\<close>: the map, and whether there was no error. A value
  of another type is an error, but its key is stored.\<close>

fun stringValue :: "json \<Rightarrow> string \<times> bool" where
  "stringValue (JStr s) = (s, True)"
| "stringValue JNull = ([], True)"
| "stringValue _ = ([], False)"

fun decodeStringMap :: "json \<Rightarrow> labels \<times> bool" where
  "decodeStringMap (JObj ms) = foldl (\<lambda>(m, ok) (k, j). (putLabel k (fst (stringValue j)) m, ok \<and> snd (stringValue j))) ([], True) ms"
| "decodeStringMap JNull = ([], True)"
| "decodeStringMap _ = ([], False)"

definition unmarshalMap :: "string \<Rightarrow> labels \<times> bool" where
  "unmarshalMap raw = (case jsonParse raw of None \<Rightarrow> ([], False) | Some j \<Rightarrow> decodeStringMap j)"

definition Encode :: "labels \<Rightarrow> string" where
  "Encode values = (if values = [] then [] else jsonPrint (JObj (map (\<lambda>(k, v). (k, JStr v)) values)))"

definition Decode :: "string \<Rightarrow> labels" where
  "Decode raw0 = (let raw = TrimSpace raw0 in
     if raw = [] then [] else (case unmarshalMap raw of (out, ok) \<Rightarrow> if ok then out else []))"

definition mergePart :: "labels \<Rightarrow> labels \<Rightarrow> labels" where
  "mergePart out part = foldl (\<lambda>out (k, v). if TrimSpace k = [] then out else putLabel k v out) out part"

definition Merge :: "labels list \<Rightarrow> labels" where
  "Merge parts = foldl mergePart [] parts"

definition NormalizeJSON :: "string \<Rightarrow> goerr + string" where
  "NormalizeJSON raw0 = (let raw = TrimSpace raw0 in
     if raw = [] then Inr []
     else (case unmarshalMap raw of (values, ok) \<Rightarrow>
       if ok then Inr (Encode values) else Inl (Errorf ''labels must be a JSON object of string key-values'')))"

definition ruleLabels :: "AlertRule option \<Rightarrow> labels" where
  "ruleLabels rule = (case rule of None \<Rightarrow> [] | Some r \<Rightarrow> Decode (ar_Labels r))"

definition BuildEvent :: "AlertRule option \<Rightarrow> labels \<Rightarrow> string" where
  "BuildEvent rule sampleLabels = Encode (Merge [ruleLabels rule, sampleLabels])"

definition BuildNotification :: "AlertRule option \<Rightarrow> AlertEvent option \<Rightarrow> labels \<Rightarrow> string" where
  "BuildNotification rule event notificationLabels =
     Encode (Merge [ruleLabels rule, (case event of None \<Rightarrow> [] | Some e \<Rightarrow> Decode (ae_Labels e)), notificationLabels])"

section \<open>Label maps: precedence and round trip\<close>

definition isMap :: "labels \<Rightarrow> bool" where
  "isMap m \<longleftrightarrow> sorted_wrt (<) (map fst m)"

definition validLabels :: "labels \<Rightarrow> bool" where
  "validLabels m \<longleftrightarrow> (\<forall>(k, v) \<in> set m. validUTF8 k \<and> validUTF8 v)"

lemma empty_labels [simp]: "isMap []" "validLabels []"
  by (simp_all add: isMap_def validLabels_def)

lemma putLabel_map_of: "map_of (putLabel k v m) = (map_of m)(k \<mapsto> v)"
  by (induction m) auto

lemma putLabel_keys: "set (map fst (putLabel k v m)) = insert k (set (map fst m))"
proof (induction m)
  case (Cons x m)
  then show ?case by (cases x) (simp add: insert_commute)
qed simp

lemma putLabel_isMap: "isMap m \<Longrightarrow> isMap (putLabel k v m)"
proof (induction m)
  case (Cons x m)
  obtain k' v' where x: "x = (k', v')" by fastforce
  from Cons have m: "isMap m" "\<forall>y \<in> set m. k' < fst y" by (auto simp: isMap_def x)
  have "\<forall>y \<in> set (putLabel k v m). k' < fst y" if "k' < k"
  proof
    fix y assume "y \<in> set (putLabel k v m)"
    then have "fst y \<in> insert k (set (map fst m))" unfolding putLabel_keys [of k v, symmetric] by simp
    with m(2) that show "k' < fst y" by auto
  qed
  with Cons.IH [OF m(1)] m Cons.prems show ?case by (auto simp: isMap_def x)
qed (simp add: isMap_def)

lemma putLabel_valid: "validUTF8 k \<Longrightarrow> validUTF8 v \<Longrightarrow> validLabels m \<Longrightarrow> validLabels (putLabel k v m)"
  by (induction m) (auto simp: validLabels_def split: if_splits)

lemma isMap_distinct: "isMap m \<Longrightarrow> distinct (map fst m)"
  by (simp add: isMap_def strict_sorted_iff)

lemma isMap_eqI: "isMap m \<Longrightarrow> isMap n \<Longrightarrow> map_of m = map_of n \<Longrightarrow> m = n"
proof -
  assume a: "isMap m" "isMap n" "map_of m = map_of n"
  have l: "x = map (\<lambda>k. (k, the (map_of x k))) (map fst x)" if "isMap x" for x
    using isMap_distinct [OF that] by (simp add: list_eq_iff_nth_eq) (metis map_of_eq_Some_iff nth_mem option.sel prod.collapse)
  have "set (map fst m) = set (map fst n)" using a(3) dom_map_of_conv_image_fst [of m] dom_map_of_conv_image_fst [of n] by simp
  with a(1,2) have "map fst m = map fst n"
    unfolding isMap_def by (intro sorted_distinct_set_unique) (auto simp: strict_sorted_iff)
  with l [OF a(1)] l [OF a(2)] a(3) show "m = n" by simp
qed

lemma mergePart_isMap: "isMap out \<Longrightarrow> isMap (mergePart out part)"
  unfolding mergePart_def by (induction part arbitrary: out) (auto simp: putLabel_isMap)

lemma mergePart_valid: "validLabels part \<Longrightarrow> validLabels out \<Longrightarrow> validLabels (mergePart out part)"
  unfolding mergePart_def by (induction part arbitrary: out) (auto simp: putLabel_valid validLabels_def [of "_ # _"] simp flip: validLabels_def)

lemma mergePart_map_of:
  "distinct (map fst part) \<Longrightarrow> map_of (mergePart out part) k =
    (if TrimSpace k = [] then map_of out k else (case map_of part k of None \<Rightarrow> map_of out k | Some v \<Rightarrow> Some v))"
proof (induction part arbitrary: out)
  case Nil
  then show ?case by (simp add: mergePart_def)
next
  case (Cons x part)
  obtain k' v' where x: "x = (k', v')" by fastforce
  from Cons.prems x have "map_of part k' = None" by (simp add: map_of_eq_None_iff)
  with Cons show ?case by (auto simp: mergePart_def x putLabel_map_of split: option.splits)
qed

text \<open>The order in which the entries of a part are visited has no effect.\<close>

lemma mergePart_order:
  assumes "isMap out" "distinct (map fst part)" "distinct (map fst part')" "set part' = set part"
  shows "mergePart out part' = mergePart out part"
proof (rule isMap_eqI)
  have "map_of part' = map_of part" using assms(2-4) by (metis map_of_inject_set)
  then show "map_of (mergePart out part') = map_of (mergePart out part)"
    by (intro ext) (simp add: mergePart_map_of assms)
qed (simp_all add: mergePart_isMap assms)

lemma Encode_Decode:
  assumes "isMap m" and "validLabels m"
  shows "Decode (Encode m) = m"
proof (cases "m = []")
  case True
  then show ?thesis by (simp add: Decode_def Encode_def)
next
  case False
  let ?j = "JObj (map (\<lambda>(k, v). (k, JStr v)) m)"
  have "foldr (\<lambda>(k, v). max (depthJson v)) (map (\<lambda>(k, v). (k, JStr v)) m) 0 = 0" by (induction m) auto
  then have "depthJson ?j \<le> maxNestingDepth" by (simp add: maxNestingDepth_def)
  moreover have "wfJson ?j" using assms(2) by (auto simp: validLabels_def)
  ultimately have p: "jsonParse (jsonPrint ?j) = Some ?j" by (intro jsonParse_jsonPrint)
  have ends: "hd (jsonPrint ?j) = CHR ''{''" "last (jsonPrint ?j) = CHR ''}''" by simp_all
  have "TrimSpace (jsonPrint ?j) = jsonPrint ?j" by (rule TrimSpace_id) (simp del: jsonPrint.simps add: ends isSpace_def)
  moreover have "foldl (\<lambda>(m, ok) (k, j). (putLabel k (fst (stringValue j)) m, ok \<and> snd (stringValue j))) (out, True) (map (\<lambda>(k, v). (k, JStr v)) m)
      = (out @ m, True)" if "isMap (out @ m)" for out
    using that
  proof (induction m arbitrary: out)
    case (Cons x m)
    obtain k v where x: "x = (k, v)" by fastforce
    have "putLabel k v out = out @ [(k, v)]"
      using Cons.prems x by (induction out) (auto simp: isMap_def)
    with Cons.IH [of "out @ [(k, v)]"] Cons.prems x show ?case by simp
  qed simp
  from this [of "[]"] assms(1) have "decodeStringMap ?j = (m, True)" by simp
  ultimately show ?thesis using p False by (simp add: Decode_def Encode_def unmarshalMap_def Let_def del: jsonPrint.simps decodeStringMap.simps) (simp add: jsonPrint.simps)
qed

lemma decodeStringMap_ok:
  assumes "stringsValid j"
  shows "isMap (fst (decodeStringMap j)) \<and> validLabels (fst (decodeStringMap j))"
proof (cases j)
  case (JObj ms)
  have "isMap (fst (foldl (\<lambda>(m, ok) (k, j). (putLabel k (fst (stringValue j)) m, ok \<and> snd (stringValue j))) (out, b) ms)) \<and>
      validLabels (fst (foldl (\<lambda>(m, ok) (k, j). (putLabel k (fst (stringValue j)) m, ok \<and> snd (stringValue j))) (out, b) ms))"
    if "isMap out" "validLabels out" "\<forall>(k, v) \<in> set ms. validUTF8 k \<and> stringsValid v" for out b
    using that
  proof (induction ms arbitrary: out b)
    case (Cons x ms)
    obtain k v where x: "x = (k, v)" by fastforce
    have "validUTF8 (fst (stringValue v))" using Cons.prems(3) x by (cases v) auto
    then show ?case using Cons.prems x Cons.IH [of "putLabel k (fst (stringValue v)) out" "b \<and> snd (stringValue v)"]
      by (simp add: putLabel_isMap putLabel_valid)
  qed simp
  from this [of "[]" True] JObj assms show ?thesis by simp
qed simp_all

lemma Decode_ok: "isMap (Decode raw) \<and> validLabels (Decode raw)"
proof -
  show ?thesis
    using decodeStringMap_ok [OF jsonParse_valid]
    by (auto simp: Decode_def Let_def unmarshalMap_def split: option.splits prod.splits) (metis fst_conv)+
qed


text \<open>C28: the labels a notification stores, read back, follow the precedence notification, event,
  rule: each key that is not blank has the value of the first of the three that has it, blank keys are
  dropped, and nothing is lost by the JSON encoding in between, whatever bytes the labels of the rule
  and of the event hold.\<close>

theorem BuildNotification_precedence:
  assumes "isMap n" and "validLabels n"
  shows "map_of (Decode (BuildNotification (Some rule) (Some event) n)) k =
    (if TrimSpace k = [] then None
     else case map_of n k of Some v \<Rightarrow> Some v | None \<Rightarrow> (case map_of (Decode (ae_Labels event)) k of
       Some v \<Rightarrow> Some v | None \<Rightarrow> map_of (Decode (ar_Labels rule)) k))"
proof -
  let ?m = "Merge [Decode (ar_Labels rule), Decode (ae_Labels event), n]"
  have "isMap ?m \<and> validLabels ?m" using assms Decode_ok by (simp add: Merge_def mergePart_isMap mergePart_valid)
  then have "Decode (Encode ?m) = ?m" by (intro Encode_Decode) auto
  then show ?thesis
    using assms Decode_ok isMap_distinct by (auto simp: BuildNotification_def ruleLabels_def Merge_def mergePart_map_of split: option.splits)
qed

lemma BuildNotification_precedence_witness:
  "map_of (Decode (BuildNotification (Some demoRule) (Some demoEvent) [(''a'', ''1'')])) ''a'' = Some ''1''"
  by (subst BuildNotification_precedence) (simp_all add: isMap_def validLabels_def byteOf_def RuneError_def TrimSpace_def isSpace_def)

end
