(* ===== verification/GoFloat.thy ===== *)
theory GoFloat
  imports GoStrings Complex_Main
begin

text \<open>
  \<open>strconv.ParseFloat(s, 64)\<close> and the comparisons of \<open>float64\<close>: the literal is read as an exact
  rational and rounded to the nearest double, ties to even; a value too large is an error. Zero has
  one sign here, which no comparison can tell. The lemma \<open>roundDouble_mono\<close> says that rounding
  keeps the order.
\<close>

section \<open>Literals\<close>

text \<open>\<open>underscoreOK\<close>: an underscore stands between digits, or between a base prefix and a digit.
  The last argument is what was seen last: a digit, an underscore, or anything else.\<close>

datatype seen = SawDigit | SawUnderscore | SawOther

definition lowerEq :: "char \<Rightarrow> char \<Rightarrow> bool" where
  "lowerEq c d \<longleftrightarrow> toLowerChar c = d"

fun underscoreLoop :: "bool \<Rightarrow> string \<Rightarrow> seen \<Rightarrow> bool" where
  "underscoreLoop hex [] saw = (saw \<noteq> SawUnderscore)"
| "underscoreLoop hex (c # cs) saw =
     (if charDigit c \<noteq> None \<or> (hex \<and> toLowerChar c \<in> set ''abcdef'') then underscoreLoop hex cs SawDigit
      else if c = CHR ''_'' then (if saw \<noteq> SawDigit then False else underscoreLoop hex cs SawUnderscore)
      else if saw = SawUnderscore then False
      else underscoreLoop hex cs SawOther)"

definition dropSign :: "string \<Rightarrow> string" where
  "dropSign s = (case s of c # cs \<Rightarrow> if c = CHR ''+'' \<or> c = CHR ''-'' then cs else s | [] \<Rightarrow> [])"

definition underscoreOK :: "string \<Rightarrow> bool" where
  "underscoreOK s = (case dropSign s of
     z # b # cs \<Rightarrow> if z = CHR ''0'' \<and> toLowerChar b \<in> set ''box'' then underscoreLoop (lowerEq b CHR ''x'') cs SawDigit
       else underscoreLoop False (z # b # cs) SawOther
   | t \<Rightarrow> underscoreLoop False t SawOther)"

definition floatDigit :: "nat \<Rightarrow> char \<Rightarrow> nat option" where
  "floatDigit base c = (case charDigit c of
     Some d \<Rightarrow> Some d
   | None \<Rightarrow> if base = 16 \<and> toLowerChar c \<in> set ''abcdef'' then Some (of_char (toLowerChar c) - 87) else None)"

text \<open>The mantissa: the digits as an integer, their number after the point, whether there was one
  at all, and the rest.\<close>

fun readMantissa :: "nat \<Rightarrow> bool \<Rightarrow> nat \<Rightarrow> nat \<Rightarrow> bool \<Rightarrow> string \<Rightarrow> nat \<times> nat \<times> bool \<times> string" where
  "readMantissa base sawdot m fd sawdigits [] = (m, fd, sawdigits, [])"
| "readMantissa base sawdot m fd sawdigits (c # cs) =
     (if c = CHR ''.'' then (if sawdot then (m, fd, sawdigits, c # cs) else readMantissa base True m fd sawdigits cs)
      else (case floatDigit base c of
          None \<Rightarrow> (m, fd, sawdigits, c # cs)
        | Some d \<Rightarrow> readMantissa base sawdot (m * base + d) (if sawdot then Suc fd else fd) True cs))"

text \<open>The exponent digits; past 10000 they are no longer added.\<close>

definition readExp :: "string \<Rightarrow> nat option" where
  "readExp ds = (if ds = [] then None
     else foldl (\<lambda>e c. case e of None \<Rightarrow> None | Some n \<Rightarrow> (case charDigit c of
         None \<Rightarrow> None | Some d \<Rightarrow> Some (if n < 10000 then n * 10 + d else n))) (Some 0) ds)"

definition readSignedExp :: "string \<Rightarrow> int option" where
  "readSignedExp s = (case readExp (dropSign s) of
     None \<Rightarrow> None | Some e \<Rightarrow> Some (if HasPrefix s ''-'' then - int e else int e))"

text \<open>\<open>readFloat\<close> on a text without underscores: the exact value.\<close>

definition readUnsigned :: "string \<Rightarrow> rat option" where
  "readUnsigned s =
     (let hex = (HasPrefix s ''0x'' \<or> HasPrefix s ''0X'') \<and> 2 < length s;
          base = (if hex then 16 else 10)
      in case readMantissa base False 0 0 False (if hex then drop 2 s else s) of (m, fd, sawdigits, rest) \<Rightarrow>
        if \<not> sawdigits then None
        else (case rest of
            [] \<Rightarrow> if hex then None else Some (of_nat m / 10 ^ fd)
          | c # cs \<Rightarrow>
              if lowerEq c (if hex then CHR ''p'' else CHR ''e'')
              then (case readSignedExp cs of
                  None \<Rightarrow> None
                | Some e \<Rightarrow> Some (if hex then of_nat m / 16 ^ fd * 2 powi e else of_nat m / 10 ^ fd * 10 powi e))
              else None))"

definition exactValue :: "string \<Rightarrow> rat option" where
  "exactValue s =
     (if CHR ''_'' \<in> set s \<and> \<not> underscoreOK s then None
      else (let t = filter (\<lambda>c. c \<noteq> CHR ''_'') s
            in map_option (\<lambda>q. if HasPrefix t ''-'' then - q else q) (readUnsigned (dropSign t))))"

section \<open>Doubles\<close>

datatype float64 = NaN | PosInf | NegInf | Fin rat

fun bits :: "nat \<Rightarrow> nat" where
  "bits n = (if n = 0 then 0 else Suc (bits (n div 2)))"

declare bits.simps [simp del]

text \<open>The exponent of a positive number: \<open>2 powi e \<le> q < 2 powi (e + 1)\<close> (lemma \<open>expOf\<close>).\<close>

definition expOf :: "rat \<Rightarrow> int" where
  "expOf q = (if 1 \<le> q then int (bits (nat \<lfloor>q\<rfloor>)) - 1 else - int (bits (nat (\<lceil>1 / q\<rceil> - 1))))"

text \<open>The distance of the doubles around a number, subnormal numbers included.\<close>

definition ulpExp :: "rat \<Rightarrow> int" where
  "ulpExp q = max (expOf q - 52) (- 1074)"

definition roundHalfEven :: "rat \<Rightarrow> int" where
  "roundHalfEven x = (let f = \<lfloor>x\<rfloor>; r = x - of_int f in
     if r < 1 / 2 then f else if 1 / 2 < r then f + 1 else if even f then f else f + 1)"

definition roundPos :: "rat \<Rightarrow> rat" where
  "roundPos q = of_int (roundHalfEven (q / 2 powi ulpExp q)) * 2 powi ulpExp q"

definition roundRat :: "rat \<Rightarrow> rat" where
  "roundRat q = (if q = 0 then 0 else if 0 < q then roundPos q else - roundPos (- q))"

text \<open>\<open>None\<close>: \<open>ErrRange\<close>.\<close>

definition roundDouble :: "rat \<Rightarrow> float64 option" where
  "roundDouble q = (if 2 ^ 1024 \<le> \<bar>roundRat q\<bar> then None else Some (Fin (roundRat q)))"

definition specialFloat :: "string \<Rightarrow> float64 option" where
  "specialFloat s = (let t = ToLower s in
     if t = ''nan'' then Some NaN
     else if t \<in> {''inf'', ''infinity'', ''+inf'', ''+infinity''} then Some PosInf
     else if t \<in> {''-inf'', ''-infinity''} then Some NegInf else None)"

definition ParseFloat :: "string \<Rightarrow> float64 option" where
  "ParseFloat s = (case specialFloat s of Some f \<Rightarrow> Some f | None \<Rightarrow> (case exactValue s of None \<Rightarrow> None | Some q \<Rightarrow> roundDouble q))"

fun floatLess :: "float64 \<Rightarrow> float64 \<Rightarrow> bool" where
  "floatLess (Fin p) (Fin q) = (p < q)"
| "floatLess NegInf (Fin q) = True"
| "floatLess NegInf PosInf = True"
| "floatLess (Fin p) PosInf = True"
| "floatLess _ _ = False"

definition floatEq :: "float64 \<Rightarrow> float64 \<Rightarrow> bool" where
  "floatEq x y \<longleftrightarrow> x = y \<and> x \<noteq> NaN"

section \<open>Rounding keeps the order\<close>

lemma bits_le: "n < 2 ^ bits n" "0 < n \<Longrightarrow> 2 ^ (bits n - 1) \<le> n"
proof (induction n rule: bits.induct)
  case (1 n)
  {
    case 1
    show ?case
    proof (cases "n = 0")
      case True
      then show ?thesis by (simp add: bits.simps)
    next
      case False
      have "n div 2 < 2 ^ bits (n div 2)" using "1.IH"(1) [OF False] .
      moreover have "bits n = Suc (bits (n div 2))" using False by (subst bits.simps) simp
      ultimately show ?thesis by simp
    qed
  next
    case 2
    show ?case
    proof (cases "n = 1")
      case True
      then show ?thesis by (simp add: bits.simps)
    next
      case False
      with 2 have h: "n \<noteq> 0" "0 < n div 2" by auto
      then obtain k where k: "bits (n div 2) = Suc k" by (cases "bits (n div 2)") (simp_all add: bits.simps)
      have "2 ^ (bits (n div 2) - 1) \<le> n div 2" using "1.IH"(2) [OF h] .
      then have "2 ^ k \<le> n div 2" using k by simp
      then have "2 * 2 ^ k \<le> n" by linarith
      moreover have "bits n = Suc (Suc k)" using h(1) k by (subst bits.simps) simp
      ultimately show ?thesis by simp
    qed
  }
qed

lemma expOf:
  assumes "0 < q"
  shows "2 powi expOf q \<le> q" "q < 2 powi (expOf q + 1)"
proof -
  have "2 powi expOf q \<le> q \<and> q < 2 powi (expOf q + 1)"
  proof (cases "1 \<le> q")
    case True
    let ?n = "nat \<lfloor>q\<rfloor>"
    have n: "0 < ?n" "of_nat ?n \<le> q" "q < of_nat ?n + 1" using True by (auto simp: le_floor_iff) linarith+
    have b: "0 < bits ?n" using n(1) by (simp add: bits.simps [of ?n])
    have "of_nat (2 ^ (bits ?n - 1)) \<le> q" using bits_le(2) [OF n(1)] n(2) by (meson of_nat_le_iff order_trans)
    moreover have "q < of_nat (2 ^ bits ?n)"
    proof -
      have "Suc ?n \<le> 2 ^ bits ?n" using bits_le(1) [of ?n] by (rule Suc_leI)
      then have "of_nat (Suc ?n) \<le> (of_nat (2 ^ bits ?n) :: rat)" by (simp only: of_nat_le_iff)
      with n(3) show ?thesis by simp
    qed
    moreover have e: "expOf q + 1 = int (bits ?n)" "expOf q = int (bits ?n - 1)" using True b by (auto simp: expOf_def)
    ultimately show ?thesis unfolding e(1) unfolding e(2) power_int_of_nat by simp
  next
    case False
    let ?m = "nat (\<lceil>1 / q\<rceil> - 1)" and ?k = "bits (nat (\<lceil>1 / q\<rceil> - 1))"
    have q1: "1 < 1 / q" using assms False by simp
    then have c: "1 \<le> \<lceil>1 / q\<rceil> - 1" by linarith
    have m: "of_nat ?m < 1 / q" "1 / q \<le> of_nat ?m + 1" "0 < ?m" using c q1 by (auto simp: of_nat_nat) linarith+
    have b: "0 < ?k" using m(3) by (simp add: bits.simps [of ?m])
    have "of_nat (2 ^ (?k - 1)) \<le> (of_nat ?m :: rat)" using bits_le(2) [OF m(3)] by (simp only: of_nat_le_iff)
    also have "\<dots> < 1 / q" by (rule m(1))
    finally have lo: "2 ^ (?k - 1) < 1 / q" by (simp only: of_nat_power of_nat_numeral)
    have "of_nat (Suc ?m) \<le> (of_nat (2 ^ ?k) :: rat)" using Suc_leI [OF bits_le(1) [of ?m]] by (simp only: of_nat_le_iff)
    with m(2) have hi: "1 / q \<le> 2 ^ ?k" by simp
    have e: "expOf q + 1 = - int (?k - 1)" "expOf q = - int ?k" using False b by (auto simp: expOf_def)
    from hi assms have "1 / 2 ^ ?k \<le> q" by (simp add: field_simps)
    moreover from lo assms have "q < 1 / 2 ^ (?k - 1)" by (simp add: field_simps)
    ultimately show ?thesis unfolding e(1) unfolding e(2) power_int_minus power_int_of_nat by (simp add: field_simps)
  qed
  then show "2 powi expOf q \<le> q" "q < 2 powi (expOf q + 1)" by auto
qed

lemma powi_mono: "a \<le> b \<Longrightarrow> (2 :: rat) powi a \<le> 2 powi b"
  by (rule power_int_increasing) auto

lemma expOf_mono:
  assumes "0 < p" "p \<le> q"
  shows "expOf p \<le> expOf q"
proof (rule ccontr)
  assume "\<not> expOf p \<le> expOf q"
  then have "2 powi (expOf q + 1) \<le> (2 :: rat) powi expOf p" by (intro powi_mono) simp
  with expOf [of p] expOf [of q] assms show False by simp
qed

lemma roundHalfEven_mono: "x \<le> y \<Longrightarrow> roundHalfEven x \<le> roundHalfEven y"
proof -
  assume xy: "x \<le> y"
  have "\<lfloor>x\<rfloor> = \<lfloor>y\<rfloor> \<or> \<lfloor>x\<rfloor> + 1 \<le> \<lfloor>y\<rfloor>" using floor_mono [OF xy] by auto
  then show ?thesis
  proof
    assume e: "\<lfloor>x\<rfloor> = \<lfloor>y\<rfloor>"
    with xy show ?thesis by (auto simp: roundHalfEven_def Let_def)
  next
    assume "\<lfloor>x\<rfloor> + 1 \<le> \<lfloor>y\<rfloor>"
    then show ?thesis by (auto simp: roundHalfEven_def Let_def)
  qed
qed

lemma roundHalfEven_int [simp]: "roundHalfEven (of_int n) = n"
  by (simp add: roundHalfEven_def)

text \<open>Rounding does not cross a power of two that is itself a double.\<close>

lemma roundPos_between:
  assumes "0 < q"
  shows "q \<le> 2 powi a \<Longrightarrow> ulpExp q \<le> a \<Longrightarrow> roundPos q \<le> 2 powi a"
    and "2 powi a \<le> q \<Longrightarrow> ulpExp q \<le> a \<Longrightarrow> 2 powi a \<le> roundPos q"
proof -
  let ?u = "(2 :: rat) powi ulpExp q"
  have u: "0 < ?u" by simp
  have int: "2 powi a / ?u = of_int (2 ^ nat (a - ulpExp q))" if "ulpExp q \<le> a"
  proof -
    have "2 powi a / ?u = 2 powi (a - ulpExp q)" by (simp add: power_int_diff)
    also have "\<dots> = 2 ^ nat (a - ulpExp q)" using that by (simp add: power_int_def)
    finally show ?thesis by simp
  qed
  show "roundPos q \<le> 2 powi a" if "q \<le> 2 powi a" "ulpExp q \<le> a"
  proof -
    have "roundHalfEven (q / ?u) \<le> roundHalfEven (2 powi a / ?u)" using that(1) u by (intro roundHalfEven_mono divide_right_mono) auto
    then have "roundHalfEven (q / ?u) \<le> 2 ^ nat (a - ulpExp q)" unfolding int [OF that(2)] roundHalfEven_int .
    then have "of_int (roundHalfEven (q / ?u)) \<le> (of_int (2 ^ nat (a - ulpExp q)) :: rat)" by (simp only: of_int_le_iff)
    then have "of_int (roundHalfEven (q / ?u)) \<le> 2 powi a / ?u" unfolding int [OF that(2)] .
    then show ?thesis using u by (simp add: roundPos_def le_divide_eq)
  qed
  show "2 powi a \<le> roundPos q" if "2 powi a \<le> q" "ulpExp q \<le> a"
  proof -
    have "roundHalfEven (2 powi a / ?u) \<le> roundHalfEven (q / ?u)" using that(1) u by (intro roundHalfEven_mono divide_right_mono) auto
    then have "2 ^ nat (a - ulpExp q) \<le> roundHalfEven (q / ?u)" unfolding int [OF that(2)] roundHalfEven_int .
    then have "(of_int (2 ^ nat (a - ulpExp q)) :: rat) \<le> of_int (roundHalfEven (q / ?u))" by (simp only: of_int_le_iff)
    then have "2 powi a / ?u \<le> of_int (roundHalfEven (q / ?u))" unfolding int [OF that(2)] .
    then show ?thesis using u by (simp add: roundPos_def divide_le_eq)
  qed
qed

lemma roundPos_mono:
  assumes "0 < p" "p \<le> q"
  shows "roundPos p \<le> roundPos q"
proof (cases "ulpExp p = ulpExp q")
  case True
  have "roundHalfEven (p / 2 powi ulpExp q) \<le> roundHalfEven (q / 2 powi ulpExp q)"
    using assms(2) by (intro roundHalfEven_mono divide_right_mono) auto
  then show ?thesis unfolding roundPos_def True by (intro mult_right_mono) auto
next
  case False
  from assms have q: "0 < q" by simp
  from expOf_mono [OF assms] False have e: "expOf p + 1 \<le> expOf q" "- 1074 < expOf q - 52" by (auto simp: ulpExp_def)
  then have "ulpExp p \<le> expOf q" "ulpExp q \<le> expOf q" by (auto simp: ulpExp_def)
  have "p \<le> 2 powi expOf q" using expOf(2) [OF assms(1)] powi_mono [OF e(1)] by simp
  then have "roundPos p \<le> 2 powi expOf q" using roundPos_between(1) [OF assms(1)] \<open>ulpExp p \<le> expOf q\<close> by blast
  also have "\<dots> \<le> roundPos q" using roundPos_between(2) [OF q expOf(1) [OF q] \<open>ulpExp q \<le> expOf q\<close>] .
  finally show ?thesis .
qed

lemma roundPos_nonneg: "0 < q \<Longrightarrow> 0 \<le> roundPos q"
  using roundHalfEven_mono [of 0 "q / 2 powi ulpExp q"] roundHalfEven_int [of 0] by (simp add: roundPos_def)

lemma roundRat_mono:
  assumes "p \<le> q"
  shows "roundRat p \<le> roundRat q"
proof -
  have "0 < p \<Longrightarrow> roundPos p \<le> roundPos q" "q < 0 \<Longrightarrow> roundPos (- q) \<le> roundPos (- p)"
    using assms by (auto intro: roundPos_mono)
  with assms roundPos_nonneg [of "- p"] roundPos_nonneg [of q] show ?thesis by (auto simp: roundRat_def)
qed

lemma roundDouble_mono: "roundDouble p = Some x \<Longrightarrow> roundDouble q = Some y \<Longrightarrow> floatLess x y \<Longrightarrow> p < q"
  using roundRat_mono [of q p] by (fastforce simp: roundDouble_def not_le [symmetric] simp del: not_le split: if_splits)

text \<open>A number of moderate size never overflows.\<close>

definition moderate :: "rat \<Rightarrow> bool" where
  "moderate q \<longleftrightarrow> \<bar>q\<bar> \<le> 2 powi 1023"

lemma roundPos_bound:
  assumes "0 < q" "q \<le> 2 powi 1023"
  shows "roundPos q \<le> 2 powi 1023"
proof -
  have "expOf q \<le> 1023"
  proof (rule ccontr)
    assume "\<not> expOf q \<le> 1023"
    then have "(2 :: rat) powi 1024 \<le> 2 powi expOf q" by (intro powi_mono) simp
    also have "\<dots> \<le> 2 powi 1023" using expOf(1) [OF assms(1)] assms(2) by (rule order_trans)
    finally show False by (simp add: power_int_def)
  qed
  then have "ulpExp q \<le> 1023" by (simp add: ulpExp_def)
  with assms show ?thesis by (intro roundPos_between(1))
qed

lemma roundDouble_moderate: "moderate q \<Longrightarrow> roundDouble q = Some (Fin (roundRat q))"
proof -
  assume m: "moderate q"
  have a: "q \<le> 2 powi 1023" "- q \<le> 2 powi 1023" using m unfolding moderate_def abs_le_iff by blast+
  have "\<bar>roundRat q\<bar> \<le> 2 powi 1023"
  proof (cases q "0 :: rat" rule: linorder_cases)
    case less
    then have "0 < - q" by simp
    with roundPos_nonneg [OF this] roundPos_bound [OF this a(2)] less show ?thesis by (simp only: roundRat_def) simp
  next
    case greater
    with roundPos_nonneg [OF this] roundPos_bound [OF this a(1)] show ?thesis by (simp only: roundRat_def) simp
  qed (simp add: roundRat_def)
  moreover have "(2 :: rat) powi 1023 < 2 ^ 1024" by (simp add: power_int_def)
  ultimately show ?thesis unfolding roundDouble_def by auto
qed

end
