(* ===== verification/GoNet.thy ===== *)
theory GoNet
  imports GoStrings
begin

text \<open>
  The parts of Go's \<open>time\<close>, \<open>encoding/base64\<close> and \<open>net/url\<close> packages the notifiers use: the layouts of
  a time, the standard base64 encoding, the escaping of query strings, and query strings as maps from
  keys to lists of values (association lists sorted by key). The lemma \<open>parseQuery_encodeQuery\<close> is the
  round trip of query strings.
\<close>

section \<open>Times\<close>

text \<open>The date of a day counted from 1970-01-01, in the proleptic Gregorian calendar.\<close>

definition civilDate :: "int \<Rightarrow> int \<times> int \<times> int" where
  "civilDate days =
     (let z = days + 719468; era = z div 146097; doe = z mod 146097;
          yoe = (doe - doe div 1460 + doe div 36524 - doe div 146096) div 365;
          doy = doe - (365 * yoe + yoe div 4 - yoe div 100);
          mp = (5 * doy + 2) div 153;
          d = doy - (153 * mp + 2) div 5 + 1;
          m = (if mp < 10 then mp + 3 else mp - 9)
      in (yoe + era * 400 + (if m \<le> 2 then 1 else 0), m, d))"

definition twoDigits :: "nat \<Rightarrow> string" where
  "twoDigits n = [digitChar (n div 10), digitChar (n mod 10)]"

definition padYear :: "int \<Rightarrow> string" where
  "padYear y = (let s = formatNat (nat \<bar>y\<bar>) in (if y < 0 then ''-'' else []) @ replicate (4 - length s) CHR ''0'' @ s)"

text \<open>\<open>Format("2006-01-02 15:04:05")\<close>, and with \<open>T\<close> between date and time; the argument counts seconds of
  local time.\<close>

definition formatDateTime :: "string \<Rightarrow> int \<Rightarrow> string" where
  "formatDateTime sep secs = (case civilDate (secs div 86400) of (y, m, d) \<Rightarrow>
     (let s = secs mod 86400
      in padYear y @ ''-'' @ twoDigits (nat m) @ ''-'' @ twoDigits (nat d) @ sep @
         twoDigits (nat (s div 3600)) @ '':'' @ twoDigits (nat (s div 60 mod 60)) @ '':'' @ twoDigits (nat (s mod 60))))"

text \<open>\<open>Z07:00\<close>: the offset of the zone in seconds.\<close>

definition formatZone :: "int \<Rightarrow> string" where
  "formatZone offset = (if offset = 0 then ''Z'' else
     (let m = \<bar>offset\<bar> div 60
      in (if offset < 0 then ''-'' else ''+'') @ twoDigits (nat (m div 60)) @ '':'' @ twoDigits (nat (m mod 60))))"

section \<open>Base64\<close>

definition base64Char :: "nat \<Rightarrow> char" where
  "base64Char n = (if n < 26 then char_of (65 + n) else if n < 52 then char_of (71 + n)
     else if n < 62 then char_of (n - 4) else if n = 62 then CHR ''+'' else CHR ''/'')"

fun base64Bytes :: "nat list \<Rightarrow> string" where
  "base64Bytes (a # b # c # r) =
     base64Char (a div 4) # base64Char (a mod 4 * 16 + b div 16) # base64Char (b mod 16 * 4 + c div 64) # base64Char (c mod 64) # base64Bytes r"
| "base64Bytes [a, b] = [base64Char (a div 4), base64Char (a mod 4 * 16 + b div 16), base64Char (b mod 16 * 4), CHR ''='']"
| "base64Bytes [a] = [base64Char (a div 4), base64Char (a mod 4 * 16), CHR ''='', CHR ''='']"
| "base64Bytes [] = []"

definition base64Encode :: "string \<Rightarrow> string" where
  "base64Encode s = base64Bytes (map of_char s)"

section \<open>Query strings\<close>

definition upperHex :: "nat \<Rightarrow> char" where
  "upperHex d = (if d < 10 then char_of (48 + d) else char_of (55 + d))"

definition unhex :: "char \<Rightarrow> nat option" where
  "unhex c = (let n = of_char c :: nat in
     if 48 \<le> n \<and> n \<le> 57 then Some (n - 48) else if 97 \<le> n \<and> n \<le> 102 then Some (n - 87)
     else if 65 \<le> n \<and> n \<le> 70 then Some (n - 55) else None)"

definition unreserved :: "char \<Rightarrow> bool" where
  "unreserved c \<longleftrightarrow> (let n = of_char c :: nat in
     (48 \<le> n \<and> n \<le> 57) \<or> (65 \<le> n \<and> n \<le> 90) \<or> (97 \<le> n \<and> n \<le> 122) \<or> c \<in> set ''-_.~'')"

definition escapeByte :: "char \<Rightarrow> string" where
  "escapeByte c = (if unreserved c then [c] else if c = CHR '' '' then ''+''
     else [CHR ''%'', upperHex (of_char c div 16), upperHex (of_char c mod 16)])"

definition QueryEscape :: "string \<Rightarrow> string" where
  "QueryEscape s = concat (map escapeByte s)"

fun QueryUnescape :: "string \<Rightarrow> string option" where
  "QueryUnescape [] = Some []"
| "QueryUnescape (c # cs) =
     (if c = CHR ''%'' then (case cs of
          h # l # r \<Rightarrow> (case (unhex h, unhex l) of
              (Some a, Some b) \<Rightarrow> map_option (Cons (char_of (16 * a + b))) (QueryUnescape r)
            | _ \<Rightarrow> None)
        | _ \<Rightarrow> None)
      else map_option (Cons (if c = CHR ''+'' then CHR '' '' else c)) (QueryUnescape cs))"

type_synonym query = "(string \<times> string list) list"

fun qUpdate :: "string \<Rightarrow> (string list \<Rightarrow> string list) \<Rightarrow> query \<Rightarrow> query" where
  "qUpdate k f [] = [(k, f [])]"
| "qUpdate k f ((k', vs) # m) =
     (if k = k' then (k, f vs) # m else if k < k' then (k, f []) # (k', vs) # m else (k', vs) # qUpdate k f m)"

definition qSet :: "string \<Rightarrow> string \<Rightarrow> query \<Rightarrow> query" where
  "qSet k v = qUpdate k (\<lambda>_. [v])"

text \<open>\<open>strings.Cut(s, "=")\<close>\<close>

definition cutEq :: "string \<Rightarrow> string \<times> string" where
  "cutEq s = (takeWhile (\<lambda>c. c \<noteq> CHR ''='') s, drop 1 (dropWhile (\<lambda>c. c \<noteq> CHR ''='') s))"

definition parsePart :: "query \<Rightarrow> string \<Rightarrow> query" where
  "parsePart m part =
     (if CHR '';'' \<in> set part \<or> part = [] then m
      else (case cutEq part of (k, v) \<Rightarrow> (case (QueryUnescape k, QueryUnescape v) of
          (Some k', Some v') \<Rightarrow> qUpdate k' (\<lambda>vs. vs @ [v']) m
        | _ \<Rightarrow> m)))"

text \<open>\<open>URL.Query\<close>: what cannot be read is left out.\<close>

definition parseQuery :: "string \<Rightarrow> query" where
  "parseQuery s = foldl parsePart [] (Split s CHR ''&'')"

definition printPair :: "string \<Rightarrow> string \<Rightarrow> string" where
  "printPair k v = QueryEscape k @ ''='' @ QueryEscape v"

definition encodeQuery :: "query \<Rightarrow> string" where
  "encodeQuery m = Join (concat (map (\<lambda>(k, vs). map (printPair k) vs) m)) ''&''"

definition isQuery :: "query \<Rightarrow> bool" where
  "isQuery m \<longleftrightarrow> sorted_wrt (<) (map fst m) \<and> (\<forall>(k, vs) \<in> set m. vs \<noteq> [])"

section \<open>Lemmas\<close>

lemma unhex_upperHex: "d < 16 \<Longrightarrow> unhex (upperHex d) = Some d"
  by (auto simp: unhex_def upperHex_def Let_def)

lemma char_code_bound: "(of_char c :: nat) < 256"
  by simp

lemma QueryUnescape_escape: "QueryUnescape (escapeByte c @ s) = map_option (Cons c) (QueryUnescape s)"
proof -
  have d: "(of_char c :: nat) div 16 < 16" using char_code_bound [of c] by (simp add: less_mult_imp_div_less del: nat_of_char_less_256)
  have "char_of (16 * (of_char c div 16) + of_char c mod 16 :: nat) = c" unfolding mult_div_mod_eq by simp
  moreover have "unreserved c \<Longrightarrow> c \<noteq> CHR ''%'' \<and> c \<noteq> CHR ''+''" by (auto simp: unreserved_def Let_def)
  ultimately show ?thesis using d by (simp add: escapeByte_def unhex_upperHex)
qed

lemma QueryUnescape_QueryEscape: "QueryUnescape (QueryEscape s) = Some s"
  by (induction s) (simp_all add: QueryEscape_def QueryUnescape_escape del: QueryUnescape.simps(2))

lemma escape_chars: "c \<in> set (QueryEscape s) \<Longrightarrow> unreserved c \<or> c = CHR ''+'' \<or> c = CHR ''%''"
proof -
  have "upperHex d \<in> {c. unreserved c}" if "d < 16" for d
    using that by (auto simp: upperHex_def unreserved_def Let_def)
  then show "c \<in> set (QueryEscape s) \<Longrightarrow> ?thesis"
    using char_code_bound by (auto simp: QueryEscape_def escapeByte_def less_mult_imp_div_less split: if_splits)
qed

lemma escape_free: "CHR ''&'' \<notin> set (QueryEscape s)" "CHR ''='' \<notin> set (QueryEscape s)" "CHR '';'' \<notin> set (QueryEscape s)"
  by (auto dest!: escape_chars simp: unreserved_def Let_def)

lemma cutEq_printPair: "cutEq (printPair k v) = (QueryEscape k, QueryEscape v)"
  using escape_free(2) [of k] by (auto simp: cutEq_def printPair_def takeWhile_append dropWhile_append)

lemma parsePart_printPair: "parsePart m (printPair k v) = qUpdate k (\<lambda>vs. vs @ [v]) m"
proof -
  have "CHR '';'' \<notin> set (printPair k v)" "printPair k v \<noteq> []" using escape_free(3) by (auto simp: printPair_def)
  then show ?thesis by (simp add: parsePart_def cutEq_printPair QueryUnescape_QueryEscape)
qed

lemma qUpdate_snoc:
  "\<forall>(k', vs) \<in> set m. k' < k \<Longrightarrow> qUpdate k f m = m @ [(k, f [])]"
  "\<forall>(k', vs) \<in> set m. k' < k \<Longrightarrow> qUpdate k f (m @ [(k, us)]) = m @ [(k, f us)]"
  by (induction m) auto

lemma parse_key:
  assumes "\<forall>(k', vs) \<in> set m. k' < k"
  shows "foldl parsePart (m @ [(k, us)]) (map (printPair k) vs) = m @ [(k, us @ vs)]"
  using assms by (induction vs arbitrary: us) (simp_all add: parsePart_printPair qUpdate_snoc)

lemma parse_keys: "isQuery (m @ q) \<Longrightarrow> foldl parsePart m (concat (map (\<lambda>(k, vs). map (printPair k) vs) q)) = m @ q"
proof (induction q arbitrary: m)
  case (Cons kvs q)
  obtain k vs where kvs: "kvs = (k, vs)" by fastforce
  with Cons.prems obtain v vs' where vs: "vs = v # vs'" by (cases vs) (auto simp: isQuery_def)
  have lt: "\<forall>(k', vs) \<in> set m. k' < k" using Cons.prems kvs by (auto simp: isQuery_def sorted_wrt_append)
  have "foldl parsePart m (map (printPair k) vs) = m @ [(k, vs)]"
    using parse_key [OF lt, of "[v]" vs'] lt by (simp add: vs parsePart_printPair qUpdate_snoc)
  with Cons.IH [of "m @ [kvs]"] Cons.prems show ?case by (simp add: kvs)
qed simp

theorem parseQuery_encodeQuery:
  assumes "isQuery q"
  shows "parseQuery (encodeQuery q) = q"
proof (cases "q = []")
  case True
  then show ?thesis by (simp add: parseQuery_def encodeQuery_def parsePart_def)
next
  case False
  let ?ps = "concat (map (\<lambda>(k, vs). map (printPair k) vs) q)"
  have "?ps \<noteq> []" using assms False by (cases q) (auto simp: isQuery_def)
  moreover have "\<forall>p \<in> set ?ps. CHR ''&'' \<notin> set p" using escape_free(1) by (auto simp: printPair_def)
  ultimately have "Split (encodeQuery q) CHR ''&'' = ?ps" unfolding encodeQuery_def by (intro Split_Join) blast+
  with parse_keys [of "[]" q] assms show ?thesis by (simp add: parseQuery_def)
qed

lemma isQuery_qUpdate: "isQuery m \<Longrightarrow> (\<And>vs. f vs \<noteq> []) \<Longrightarrow> isQuery (qUpdate k f m)"
proof -
  assume m: "isQuery m" and f: "\<And>vs. f vs \<noteq> []"
  have "set (map fst (qUpdate k f m)) = insert k (set (map fst m))" for m
    by (induction k f m rule: qUpdate.induct) (simp_all add: insert_commute)
  then have "sorted_wrt (<) (map fst m) \<Longrightarrow> sorted_wrt (<) (map fst (qUpdate k f m))" for m
    by (induction k f m rule: qUpdate.induct) auto
  moreover have "\<forall>(k, vs) \<in> set m. vs \<noteq> [] \<Longrightarrow> \<forall>(k, vs) \<in> set (qUpdate k f m). vs \<noteq> []" for m
    using f by (induction k f m rule: qUpdate.induct) (auto split: if_splits)
  ultimately show ?thesis using m unfolding isQuery_def by blast
qed

lemma isQuery_parseQuery: "isQuery (parseQuery s)"
proof -
  have "isQuery m \<Longrightarrow> isQuery (foldl parsePart m ps)" for m ps
    by (induction ps arbitrary: m) (simp_all add: parsePart_def isQuery_qUpdate split: prod.splits option.splits)
  moreover have "isQuery []" by (simp add: isQuery_def)
  ultimately show ?thesis by (simp add: parseQuery_def)
qed

lemma map_of_qUpdate: "sorted_wrt (<) (map fst m) \<Longrightarrow>
  map_of (qUpdate k f m) k' = (if k' = k then Some (f (case map_of m k of None \<Rightarrow> [] | Some vs \<Rightarrow> vs)) else map_of m k')"
proof (induction k f m rule: qUpdate.induct)
  case (2 k f k1 vs m)
  have "k < k1 \<Longrightarrow> map_of m k = None" using 2(2) by (auto simp: map_of_eq_None_iff)
  with 2 show ?case by auto
qed auto

text \<open>A byte sequence whose length is not a multiple of three is padded, and the padding is escaped.\<close>

lemma base64_padded: "length bs mod 3 \<noteq> 0 \<Longrightarrow> CHR ''='' \<in> set (base64Bytes bs)"
  by (induction bs rule: base64Bytes.induct) auto

lemma escape_padded: "CHR ''='' \<in> set s \<Longrightarrow> QueryEscape s \<noteq> s"
  using escape_free(2) [of s] by auto

end
