(* ===== verification/JsonStruct.thy ===== *)
theory JsonStruct
  imports JsonValid
begin

text \<open>
  How \<open>encoding/json\<close> reads a value into a Go variable of a given type (booleans, strings, integers,
  slices, pointers, structs) and how it writes a struct with optional members.
\<close>

section \<open>Reading\<close>

text \<open>\<open>json.Unmarshal\<close> by the type of the target: the new value and whether there was no error; a
  value of the wrong type leaves the target as it was and reading goes on.\<close>

type_synonym 'a decoder = "json \<Rightarrow> 'a \<Rightarrow> 'a \<times> bool"

fun decString :: "string decoder" where
  "decString (JStr s) old = (s, True)"
| "decString JNull old = (old, True)"
| "decString _ old = (old, False)"

fun decInt :: "int decoder" where
  "decInt (JNum n) old = (case ParseInt n of Some i \<Rightarrow> (i, True) | None \<Rightarrow> (old, False))"
| "decInt JNull old = (old, True)"
| "decInt _ old = (old, False)"

fun decBool :: "bool decoder" where
  "decBool (JBool b) old = (b, True)"
| "decBool JNull old = (old, True)"
| "decBool _ old = (old, False)"

text \<open>A pointer: \<open>null\<close> sets it to nil, any other value is read into what it points to, allocated if it was nil.\<close>

definition decPtr :: "'a decoder \<Rightarrow> 'a \<Rightarrow> 'a option decoder" where
  "decPtr dec zero j old = (if j = JNull then (None, True)
     else (case dec j (case old of None \<Rightarrow> zero | Some v \<Rightarrow> v) of (v, ok) \<Rightarrow> (Some v, ok)))"

fun decElements :: "'a decoder \<Rightarrow> 'a \<Rightarrow> json list \<Rightarrow> 'a list \<Rightarrow> 'a list \<times> bool" where
  "decElements dec zero [] old = ([], True)"
| "decElements dec zero (j # js) old =
     (let (v, ok) = dec j (case old of [] \<Rightarrow> zero | x # _ \<Rightarrow> x); (vs, oks) = decElements dec zero js (drop 1 old)
      in (v # vs, ok \<and> oks))"

fun decSlice :: "'a decoder \<Rightarrow> 'a \<Rightarrow> 'a list decoder" where
  "decSlice dec zero (JArr js) old = decElements dec zero js old"
| "decSlice dec zero JNull old = ([], True)"
| "decSlice dec zero _ old = (old, False)"

text \<open>Field names match up to case; \<open>k\<close> and \<open>s\<close> also as the Kelvin sign and the long s.\<close>

fun foldName :: "string \<Rightarrow> string" where
  "foldName [] = []"
| "foldName (c # cs) =
     (if HasPrefix (c # cs) (utf8 [0x212A]) then CHR ''k'' # foldName (drop 2 cs)
      else if HasPrefix (c # cs) (utf8 [0x17F]) then CHR ''s'' # foldName (drop 1 cs)
      else toLowerChar c # foldName cs)"

definition fieldDecoder :: "(string \<times> 'a decoder) list \<Rightarrow> string \<Rightarrow> 'a decoder option" where
  "fieldDecoder flds k = map_option snd (find (\<lambda>(name, _). foldName k = name) flds)"

fun decStruct :: "(string \<times> 'a decoder) list \<Rightarrow> 'a decoder" where
  "decStruct flds (JObj ms) old = foldl (\<lambda>(v, ok) (k, j). (case fieldDecoder flds k of
       None \<Rightarrow> (v, ok) | Some dec \<Rightarrow> (case dec j v of (v', ok') \<Rightarrow> (v', ok \<and> ok')))) (old, True) ms"
| "decStruct flds JNull old = (old, True)"
| "decStruct flds _ old = (old, False)"

definition field :: "('a \<Rightarrow> 'f) \<Rightarrow> ('f \<Rightarrow> 'a \<Rightarrow> 'a) \<Rightarrow> 'f decoder \<Rightarrow> 'a decoder" where
  "field get upd dec j v = (case dec j (get v) of (x, ok) \<Rightarrow> (upd x v, ok))"

text \<open>\<open>json.Unmarshal\<close>: an error of syntax leaves the variable as it was.\<close>

definition unmarshalWith :: "'a decoder \<Rightarrow> string \<Rightarrow> 'a \<Rightarrow> 'a option" where
  "unmarshalWith dec s old = (case jsonParse s of
     None \<Rightarrow> None | Some j \<Rightarrow> (case dec j old of (v, ok) \<Rightarrow> if ok then Some v else None))"

section \<open>Writing\<close>

text \<open>A member, and one that \<open>omitempty\<close> may leave out.\<close>

definition member :: "string \<Rightarrow> json \<Rightarrow> (string \<times> json) list" where
  "member name j = [(name, j)]"

definition optMember :: "string \<Rightarrow> json option \<Rightarrow> (string \<times> json) list" where
  "optMember name x = (case x of None \<Rightarrow> [] | Some j \<Rightarrow> [(name, j)])"

section \<open>Field names\<close>

lemma toLowerChar_fixed: "byteOf c < 65 \<or> 90 < byteOf c \<Longrightarrow> toLowerChar c = c"
  by (auto simp: toLowerChar_def byteOf_def Let_def)

lemma foldName_lower: "list_all (\<lambda>c. 90 < byteOf c \<and> byteOf c < 128) s \<Longrightarrow> foldName s = s"
proof (induction s)
  case (Cons c cs)
  have "\<not> HasPrefix (c # cs) (utf8 [0x212A])" "\<not> HasPrefix (c # cs) (utf8 [0x17F])"
    using Cons.prems by (auto simp: HasPrefix_def utf8_def utf8Char_def byteOf_def)
  with Cons show ?case by (simp add: toLowerChar_fixed)
qed simp

section \<open>What reading preserves\<close>

lemma decStruct_invariant:
  assumes "\<And>name dec j v. (name, dec) \<in> set flds \<Longrightarrow> I v \<Longrightarrow> stringsValid j \<Longrightarrow> I (fst (dec j v))"
    and "I v" and "stringsValid j"
  shows "I (fst (decStruct flds j v))"
proof (cases j)
  case (JObj ms)
  have step: "I (fst (foldl (\<lambda>(v, ok) (k, j). (case fieldDecoder flds k of
       None \<Rightarrow> (v, ok) | Some dec \<Rightarrow> (case dec j v of (v', ok') \<Rightarrow> (v', ok \<and> ok')))) (v, ok) ms))"
    if "I v" "\<forall>(k, j) \<in> set ms. stringsValid j" for v ok
    using that
  proof (induction ms arbitrary: v ok)
    case (Cons m ms)
    obtain k j where m: "m = (k, j)" by fastforce
    show ?case
    proof (cases "fieldDecoder flds k")
      case None
      with Cons m show ?thesis by simp
    next
      case (Some dec)
      then obtain name where "(name, dec) \<in> set flds" by (auto simp: fieldDecoder_def dest: find_Some_mem)
      then have "I (fst (dec j v))" using Cons.prems m by (intro assms(1)) auto
      with Cons m Some show ?thesis by (auto split: prod.splits)
    qed
  qed simp
  show ?thesis unfolding JObj decStruct.simps by (rule step) (use assms(2,3) JObj in auto)
qed (use assms(2) in simp_all)

lemma decString_valid: "validUTF8 old \<Longrightarrow> stringsValid j \<Longrightarrow> validUTF8 (fst (decString j old))"
  by (cases j) auto

lemma ParseInt_int64: "ParseInt s = Some i \<Longrightarrow> int64 i"
  by (auto simp: ParseInt_def Let_def split: option.splits if_splits)

lemma decInt_int64: "int64 old \<Longrightarrow> int64 (fst (decInt j old))"
  by (cases j) (auto split: option.splits dest: ParseInt_int64)

lemma decSlice_all:
  assumes "\<And>j v. P v \<Longrightarrow> stringsValid j \<Longrightarrow> P (fst (dec j v))" and "P zero" and "\<forall>v \<in> set old. P v" and "stringsValid j"
  shows "\<forall>v \<in> set (fst (decSlice dec zero j old)). P v"
proof -
  have "\<forall>v \<in> set (fst (decElements dec zero js old)). P v" if "\<forall>j \<in> set js. stringsValid j" "\<forall>v \<in> set old. P v" for js old
    using that
  proof (induction js arbitrary: old)
    case (Cons j js)
    have "P (case old of [] \<Rightarrow> zero | x # _ \<Rightarrow> x)" using assms(2) Cons.prems(2) by (auto split: list.splits)
    then have "P (fst (dec j (case old of [] \<Rightarrow> zero | x # _ \<Rightarrow> x)))" using Cons.prems(1) by (intro assms(1)) auto
    moreover have "\<forall>v \<in> set (fst (decElements dec zero js (drop 1 old))). P v"
      using Cons.prems by (intro Cons.IH) (auto dest: in_set_dropD)
    ultimately show ?case by (auto simp: Let_def split: prod.splits)
  qed simp
  with assms(3,4) show ?thesis by (cases j) auto
qed

lemma fst_field [simp]: "fst (field get upd dec j v) = upd (fst (dec j (get v))) v"
  by (simp add: field_def split: prod.splits)

section \<open>Reading back what was written\<close>

lemma decStruct_append:
  "decStruct flds (JObj (ms @ ns)) old = (case decStruct flds (JObj ms) old of (v, ok) \<Rightarrow>
     (case decStruct flds (JObj ns) v of (v', ok') \<Rightarrow> (v', ok \<and> ok')))"
proof -
  let ?f = "\<lambda>(v, ok) (k, j). (case fieldDecoder flds k of None \<Rightarrow> (v, ok) | Some dec \<Rightarrow> (case dec j v of (v', ok') \<Rightarrow> (v', ok \<and> ok')))"
  have flag: "foldl ?f (v, ok) ns = (fst (foldl ?f (v, True) ns), ok \<and> snd (foldl ?f (v, True) ns))" for v ok
  proof (induction ns arbitrary: v ok)
    case (Cons m ns)
    obtain k j where m: "m = (k, j)" by fastforce
    show ?case
    proof (cases "fieldDecoder flds k")
      case None
      with Cons [of v ok] m show ?thesis by simp
    next
      case (Some dec)
      obtain v' ok' where d: "dec j v = (v', ok')" by fastforce
      from Cons [of v' "ok \<and> ok'"] Cons [of v' ok'] m Some d show ?thesis by simp
    qed
  qed simp
  show ?thesis using flag [of "fst (foldl ?f (old, True) ms)" "snd (foldl ?f (old, True) ms)"] by (simp split: prod.splits)
qed

lemma decStruct_member [simp]:
  "fieldDecoder flds name = Some dec \<Longrightarrow> decStruct flds (JObj (member name j)) old = dec j old"
  by (simp add: member_def split: prod.splits)

lemma decStruct_optMember [simp]:
  "fieldDecoder flds name = Some dec \<Longrightarrow> decStruct flds (JObj (optMember name x)) old = (case x of None \<Rightarrow> (old, True) | Some j \<Rightarrow> dec j old)"
  by (simp add: optMember_def split: prod.splits option.splits)

end
