(* ===== verification/AlertRules.thy ===== *)
theory AlertRules
  imports LabelMap GoFloat GoNet JsonStruct
begin

text \<open>
  The rules of the alert engine: intervals and effective times
  (\<open>engine/interval.go\<close>, \<open>effective_time.go\<close>), the rule configuration and its triggers
  (\<open>rule_config.go\<close>), the evaluation of a condition (\<open>evaluator.go\<close>) and silences
  (\<open>silence_manager.go\<close>).
\<close>

section \<open>Intervals\<close>

definition DefaultEvalInterval :: int where "DefaultEvalInterval = 15"
definition DefaultNotifyRepeatStep :: int where "DefaultNotifyRepeatStep = 5"

definition NormalizeEvalInterval :: "int \<Rightarrow> int" where
  "NormalizeEvalInterval interval = (if interval \<le> 0 then DefaultEvalInterval else interval)"

definition NormalizeNotifyRepeatStep :: "int \<Rightarrow> int" where
  "NormalizeNotifyRepeatStep step = (if step < 0 then DefaultNotifyRepeatStep else step)"

definition ResolveNotifyRepeatStep :: "int option \<Rightarrow> int" where
  "ResolveNotifyRepeatStep step = (case step of None \<Rightarrow> DefaultNotifyRepeatStep | Some s \<Rightarrow> NormalizeNotifyRepeatStep s)"

definition NormalizeNotifyMaxNumber :: "int \<Rightarrow> int" where
  "NormalizeNotifyMaxNumber n = (if n < 0 then 0 else n)"

definition ResolveNotifyMaxNumber :: "int option \<Rightarrow> int" where
  "ResolveNotifyMaxNumber n = (case n of None \<Rightarrow> 0 | Some n \<Rightarrow> NormalizeNotifyMaxNumber n)"

definition EvalCronSpec :: "int \<Rightarrow> string" where
  "EvalCronSpec interval = ''@every '' @ FormatInt (NormalizeEvalInterval interval) @ ''s''"

section \<open>Effective time\<close>

definition defaultEnableTime :: string where "defaultEnableTime = ''00:00''"

definition NormalizeEnableTime :: "string \<Rightarrow> string" where
  "NormalizeEnableTime value0 = (let value = TrimSpace value0 in if value = [] then defaultEnableTime else value)"

fun normalizeDays :: "string list \<Rightarrow> string list \<Rightarrow> string list" where
  "normalizeDays seen [] = []"
| "normalizeDays seen (fld # flds) =
     (let day = ReplaceAllChar fld CHR ''7'' CHR ''0''
      in if ParseInt day = None \<or> day \<in> set seen then normalizeDays seen flds
         else day # normalizeDays (day # seen) flds)"

definition NormalizeEnableDaysOfWeek :: "string \<Rightarrow> string" where
  "NormalizeEnableDaysOfWeek value = (let flds = Fields (TrimSpace value) in
     if flds = [] then [] else Join (normalizeDays [] flds) '' '')"

text \<open>The local time of an instant (nanoseconds since 1970): \<open>zone\<close> gives the seconds east of UTC
  there. 1970-01-01 was a Thursday.\<close>

definition localSeconds :: "(int \<Rightarrow> int) \<Rightarrow> int \<Rightarrow> int" where
  "localSeconds zone now = now div 10 ^ 9 + zone now"

definition Weekday :: "(int \<Rightarrow> int) \<Rightarrow> int \<Rightarrow> int" where
  "Weekday zone now = (localSeconds zone now div 86400 + 4) mod 7"

definition minuteOfDay :: "(int \<Rightarrow> int) \<Rightarrow> int \<Rightarrow> nat" where
  "minuteOfDay zone now = nat (localSeconds zone now mod 86400 div 60)"

text \<open>\<open>Format("15:04")\<close>\<close>

definition formatHHMM :: "nat \<Rightarrow> string" where
  "formatHHMM m = twoDigits (m div 60) @ '':'' @ twoDigits (m mod 60)"

definition IsWithinEffectiveTime :: "(int \<Rightarrow> int) \<Rightarrow> AlertRule \<Rightarrow> int \<Rightarrow> bool" where
  "IsWithinEffectiveTime zone rule now =
     (let days = Fields (NormalizeEnableDaysOfWeek (ar_EnableDaysOfWeek rule));
          stime = NormalizeEnableTime (ar_EnableStime rule);
          etime = NormalizeEnableTime (ar_EnableEtime rule);
          triggerTime = formatHHMM (minuteOfDay zone now)
      in if days = [] then True
         else if FormatInt (Weekday zone now) \<notin> set days then False
         else if stime = etime then True
         else if stime < etime
         then (if etime = ''23:59'' then stime \<le> triggerTime else stime \<le> triggerTime \<and> triggerTime < etime)
         else stime \<le> triggerTime \<or> triggerTime < etime)"

section \<open>Conditions\<close>

definition thresholdOperators :: "string list" where
  "thresholdOperators = [''>='', ''<='', ''!='', ''<>'', ''=='', ''>'', ''<'', ''='']"

definition splitThresholdExpr :: "string \<Rightarrow> (string \<times> string) option" where
  "splitThresholdExpr expr = (case find (HasPrefix expr) thresholdOperators of
     None \<Rightarrow> None | Some op \<Rightarrow> Some (op, TrimSpace (TrimPrefix expr op)))"

definition looksLikeThresholdCondition :: "string \<Rightarrow> bool" where
  "looksLikeThresholdCondition expr \<longleftrightarrow> splitThresholdExpr (TrimSpace expr) \<noteq> None"

definition isValidThresholdCondition :: "string \<Rightarrow> bool" where
  "isValidThresholdCondition expr = (case splitThresholdExpr (TrimSpace expr) of
     None \<Rightarrow> False | Some (op, expected) \<Rightarrow> op \<noteq> [] \<and> ParseFloat (TrimSpace expected) \<noteq> None)"

definition compareFloats :: "string \<Rightarrow> float64 \<Rightarrow> float64 \<Rightarrow> bool" where
  "compareFloats operator actual expected =
     (if operator = ''>'' then floatLess expected actual
      else if operator = ''>='' then floatLess expected actual \<or> floatEq actual expected
      else if operator = ''<'' then floatLess actual expected
      else if operator = ''<='' then floatLess actual expected \<or> floatEq actual expected
      else if operator = ''='' \<or> operator = ''=='' then floatEq actual expected
      else if operator = ''!='' \<or> operator = ''<>'' then \<not> floatEq actual expected
      else False)"

definition matchThreshold :: "string \<Rightarrow> string \<Rightarrow> bool" where
  "matchThreshold val expr = (case splitThresholdExpr (TrimSpace expr) of
     None \<Rightarrow> False
   | Some (operator, expectedRaw) \<Rightarrow> (case ParseFloat (TrimSpace val) of
       None \<Rightarrow> False
     | Some actual \<Rightarrow> (case ParseFloat (TrimSpace expectedRaw) of
         None \<Rightarrow> False | Some expected \<Rightarrow> compareFloats operator actual expected)))"

definition quoteCutset :: string where "quoteCutset = [CHR 0x22, CHR 0x27]"

definition matchTextCondition :: "string \<Rightarrow> string \<Rightarrow> bool" where
  "matchTextCondition val expr =
     (let trimmed = TrimSpace expr; actual = TrimSpace val
      in if trimmed = [] then False
         else (case splitThresholdExpr trimmed of
             None \<Rightarrow> Contains (ToLower actual) (ToLower (Trim trimmed quoteCutset))
           | Some (operator, expected0) \<Rightarrow>
               (let expected = Trim expected0 quoteCutset
                in if operator = ''='' \<or> operator = ''=='' then actual = expected
                   else if operator = ''!='' \<or> operator = ''<>'' then actual \<noteq> expected
                   else False)))"

definition MatchExpr :: "int \<Rightarrow> string \<Rightarrow> string \<Rightarrow> bool" where
  "MatchExpr ruleType expr0 val =
     (let expr = TrimSpace expr0
      in if expr = [] then False
         else if ruleType = AlertRuleTypeMetric then matchThreshold val expr
         else if ruleType = AlertRuleTypeLog \<or> ruleType = AlertRuleTypeEvent
         then (if looksLikeThresholdCondition expr then matchThreshold val expr else matchTextCondition val expr)
         else False)"

section \<open>The rule configuration\<close>

record AlertTrigger =
  at_Severity :: int
  at_Condition :: string
  at_Duration :: int

record legacyAlertQuery =
  lq_PromQl :: string
  lq_Severity :: int

record AlertRuleConfig =
  rc_PromQl :: string
  rc_Triggers :: "AlertTrigger list"
  rc_Queries :: "legacyAlertQuery list"

record EvaluableTrigger =
  et_PromQl :: string
  et_Severity :: int
  et_Condition :: string
  et_Duration :: int

definition zeroTrigger :: AlertTrigger where "zeroTrigger = \<lparr>at_Severity = 0, at_Condition = [], at_Duration = 0\<rparr>"
definition zeroQuery :: legacyAlertQuery where "zeroQuery = \<lparr>lq_PromQl = [], lq_Severity = 0\<rparr>"
definition zeroConfig :: AlertRuleConfig where "zeroConfig = \<lparr>rc_PromQl = [], rc_Triggers = [], rc_Queries = []\<rparr>"

definition decTrigger :: "AlertTrigger decoder" where
  "decTrigger = decStruct
     [(''severity'', field at_Severity (\<lambda>x. at_Severity_update (\<lambda>_. x)) decInt),
      (''condition'', field at_Condition (\<lambda>x. at_Condition_update (\<lambda>_. x)) decString),
      (''duration'', field at_Duration (\<lambda>x. at_Duration_update (\<lambda>_. x)) decInt)]"

definition decQuery :: "legacyAlertQuery decoder" where
  "decQuery = decStruct
     [(''prom_ql'', field lq_PromQl (\<lambda>x. lq_PromQl_update (\<lambda>_. x)) decString),
      (''severity'', field lq_Severity (\<lambda>x. lq_Severity_update (\<lambda>_. x)) decInt)]"

definition decConfig :: "AlertRuleConfig decoder" where
  "decConfig = decStruct
     [(''prom_ql'', field rc_PromQl (\<lambda>x. rc_PromQl_update (\<lambda>_. x)) decString),
      (''triggers'', field rc_Triggers (\<lambda>x. rc_Triggers_update (\<lambda>_. x)) (decSlice decTrigger zeroTrigger)),
      (''queries'', field rc_Queries (\<lambda>x. rc_Queries_update (\<lambda>_. x)) (decSlice decQuery zeroQuery))]"

definition ParseAlertRuleConfig :: "string \<Rightarrow> AlertRuleConfig" where
  "ParseAlertRuleConfig raw0 = (let raw = TrimSpace raw0 in
     if raw = [] then zeroConfig
     else (case jsonParse raw of
         None \<Rightarrow> zeroConfig
       | Some j \<Rightarrow> (case decConfig j zeroConfig of (cfg, ok) \<Rightarrow> if ok then cfg else zeroConfig)))"

definition triggerJson :: "AlertTrigger \<Rightarrow> json" where
  "triggerJson t = JObj [(''severity'', JNum (FormatInt (at_Severity t))), (''condition'', JStr (at_Condition t)),
     (''duration'', JNum (FormatInt (at_Duration t)))]"

definition EncodeAlertRuleConfig :: "AlertRuleConfig \<Rightarrow> string" where
  "EncodeAlertRuleConfig cfg = (let promQl = TrimSpace (rc_PromQl cfg) in
     if promQl = [] \<or> rc_Triggers cfg = [] then []
     else jsonPrint (JObj [(''prom_ql'', JStr promQl), (''triggers'', JArr (map triggerJson (rc_Triggers cfg)))]))"

definition validSeverity :: "int \<Rightarrow> bool" where
  "validSeverity sev \<longleftrightarrow> AlertSeverityInfo \<le> sev \<and> sev \<le> AlertSeverityEmergency"

definition normalizeSeverity :: "int \<Rightarrow> int \<Rightarrow> int" where
  "normalizeSeverity sev fallback =
     (if validSeverity sev then sev else if validSeverity fallback then fallback else AlertSeverityWarning)"

definition normalizeDuration :: "int \<Rightarrow> int" where
  "normalizeDuration d = (if d < 0 then 0 else d)"

fun migrateLoop :: "string \<Rightarrow> legacyAlertQuery list \<Rightarrow> string \<times> AlertTrigger list" where
  "migrateLoop promQl [] = (promQl, [])"
| "migrateLoop promQl (q # qs) =
     (let raw = TrimSpace (lq_PromQl q); sev = normalizeSeverity (lq_Severity q) AlertSeverityWarning
      in if raw = [] then migrateLoop promQl qs
         else if looksLikeThresholdCondition raw
         then (case migrateLoop promQl qs of (p, ts) \<Rightarrow> (p, \<lparr>at_Severity = sev, at_Condition = raw, at_Duration = 0\<rparr> # ts))
         else (case migrateLoop (if promQl = [] then raw else promQl) qs of
                 (p, ts) \<Rightarrow> (p, \<lparr>at_Severity = sev, at_Condition = ''> 0'', at_Duration = 0\<rparr> # ts)))"

definition migrateLegacyQueries :: "AlertRuleConfig \<Rightarrow> AlertRuleConfig" where
  "migrateLegacyQueries cfg =
     (if TrimSpace (rc_PromQl cfg) \<noteq> [] \<and> rc_Triggers cfg \<noteq> [] then cfg
      else if rc_Queries cfg = [] then cfg
      else (case migrateLoop (TrimSpace (rc_PromQl cfg)) (rc_Queries cfg) of
          (promQl, triggers) \<Rightarrow> \<lparr>rc_PromQl = promQl, rc_Triggers = triggers, rc_Queries = []\<rparr>))"

text \<open>\<open>None\<close>: a condition is not valid.\<close>

fun normalizeTriggers :: "AlertTrigger list \<Rightarrow> AlertTrigger list option" where
  "normalizeTriggers [] = Some []"
| "normalizeTriggers (t # ts) =
     (let condition = TrimSpace (at_Condition t)
      in if condition = [] then normalizeTriggers ts
         else if \<not> isValidThresholdCondition condition then None
         else map_option (Cons \<lparr>at_Severity = normalizeSeverity (at_Severity t) AlertSeverityWarning,
                at_Condition = condition, at_Duration = normalizeDuration (at_Duration t)\<rparr>) (normalizeTriggers ts))"

text \<open>The normalized text, the severity and the duration of the first trigger; \<open>None\<close> when the
  configuration is refused.\<close>

definition NormalizeRuleConfig :: "string \<Rightarrow> (string \<times> int \<times> int) option" where
  "NormalizeRuleConfig ruleConfig =
     (let cfg = migrateLegacyQueries (ParseAlertRuleConfig ruleConfig); promQl = TrimSpace (rc_PromQl cfg)
      in if promQl = [] then None
         else (case normalizeTriggers (rc_Triggers cfg) of
             None \<Rightarrow> None
           | Some [] \<Rightarrow> None
           | Some (t # ts) \<Rightarrow> Some (EncodeAlertRuleConfig \<lparr>rc_PromQl = promQl, rc_Triggers = t # ts, rc_Queries = []\<rparr>,
               at_Severity t, at_Duration t)))"

definition GetRulePromQl :: "AlertRule \<Rightarrow> string" where
  "GetRulePromQl rule = TrimSpace (rc_PromQl (migrateLegacyQueries (ParseAlertRuleConfig (ar_RuleConfig rule))))"

definition evaluable :: "string \<Rightarrow> AlertTrigger \<Rightarrow> EvaluableTrigger" where
  "evaluable promQl t = \<lparr>et_PromQl = promQl, et_Severity = normalizeSeverity (at_Severity t) AlertSeverityWarning,
     et_Condition = TrimSpace (at_Condition t), et_Duration = normalizeDuration (at_Duration t)\<rparr>"

definition ListAlertTriggers :: "AlertRule \<Rightarrow> EvaluableTrigger list" where
  "ListAlertTriggers rule =
     (let cfg = migrateLegacyQueries (ParseAlertRuleConfig (ar_RuleConfig rule)); promQl = TrimSpace (rc_PromQl cfg)
      in if promQl = [] then []
         else map (evaluable promQl) (filter (\<lambda>t. TrimSpace (at_Condition t) \<noteq> []) (rc_Triggers cfg)))"

definition formatTriggerExpr :: "EvaluableTrigger \<Rightarrow> string" where
  "formatTriggerExpr trigger =
     (let promQl = TrimSpace (et_PromQl trigger); condition = TrimSpace (et_Condition trigger)
      in if promQl \<noteq> [] \<and> condition \<noteq> [] then promQl @ '' '' @ condition
         else if condition \<noteq> [] then condition else promQl)"

definition formatTriggerKey :: "EvaluableTrigger \<Rightarrow> string" where
  "formatTriggerKey trigger = formatTriggerExpr trigger"

section \<open>Samples and silences\<close>

record MetricSample =
  ms_Value :: string
  ms_ResourceType :: string
  ms_ResourceName :: string
  ms_Namespace :: string
  ms_ClusterId :: int
  ms_TenantId :: int
  ms_Labels :: labels
  ms_Annotations :: labels

definition sampleLabels :: "AlertRule \<Rightarrow> MetricSample \<Rightarrow> labels" where
  "sampleLabels rule sample =
     (let labels = putLabel ''rule_id'' (FormatInt (Oid rule)) (putLabel ''rule_name'' (ar_Name rule)
            (putLabel ''resource_type'' (ms_ResourceType sample) (putLabel ''resource_name'' (ms_ResourceName sample)
            (putLabel ''namespace'' (ms_Namespace sample) []))));
          labels = (if GetRulePromQl rule \<noteq> [] then putLabel ''prom_ql'' (GetRulePromQl rule) labels else labels)
      in foldl (\<lambda>m (k, v). putLabel k v m) labels (ms_Labels sample))"

definition silenceLabels :: "AlertSilence \<Rightarrow> labels" where
  "silenceLabels silence = (if TrimSpace (as_MatchLabels silence) \<noteq> [] then fst (unmarshalMap (as_MatchLabels silence)) else [])"

definition matchSilence :: "AlertSilence \<Rightarrow> labels \<Rightarrow> ('m env_scheme, 'e, bool) act" where
  "matchSilence silence labels =
     (if \<not> as_Enabled silence then ret False
      else andThen timeNow (\<lambda>now.
        if now < as_StartsAt silence \<or> as_EndsAt silence < now then ret False
        else (let matchLabels = silenceLabels silence
              in if \<not> list_all (\<lambda>(key, expected). getLabel labels key = expected) matchLabels then ret False
                 else ret (matchLabels \<noteq> [] \<or> TrimSpace (as_MatchExpressions silence) \<noteq> []))))"

fun anySilence :: "AlertSilence list \<Rightarrow> labels \<Rightarrow> ('m env_scheme, 'e, bool) act" where
  "anySilence [] labels = ret False"
| "anySilence (s # ss) labels = andThen (matchSilence s labels) (\<lambda>m. if m then ret True else anySilence ss labels)"

definition IsSilenced :: "AlertSilence list \<Rightarrow> AlertRule \<Rightarrow> MetricSample \<Rightarrow> ('m env_scheme, 'e, bool) act" where
  "IsSilenced silences rule sample = anySilence silences (sampleLabels rule sample)"

definition LoadActive :: "int \<Rightarrow> ('m alert_db_scheme, goerr, AlertSilence list) act" where
  "LoadActive now = alertSilenceListActive now"

end
