(* ===== verification/AlertRuleProps.thy ===== *)
theory AlertRuleProps
  imports AlertRules
begin

text \<open>
  What the rules of the alert engine compute: thresholds, effective times, silences, and the rule
  configuration as it is stored and read back.
\<close>

section \<open>Thresholds\<close>

text \<open>What the condition says of the two numbers; the comparison of the code may differ from it only
  where two different numbers round to the same double.\<close>

definition holdsExactly :: "string \<Rightarrow> rat \<Rightarrow> rat \<Rightarrow> bool" where
  "holdsExactly operator x y =
     (if operator = ''>'' then y < x else if operator = ''>='' then y \<le> x
      else if operator = ''<'' then x < y else if operator = ''<='' then x \<le> y
      else if operator = ''='' \<or> operator = ''=='' then x = y
      else if operator = ''!='' \<or> operator = ''<>'' then x \<noteq> y else False)"

definition strict :: "string \<Rightarrow> bool" where
  "strict operator \<longleftrightarrow> operator \<in> {''>'', ''<'', ''!='', ''<>''}"

lemma compareFloats_Fin: "compareFloats operator (Fin p) (Fin q) = holdsExactly operator p q"
  by (auto simp: compareFloats_def holdsExactly_def floatEq_def)

lemma holdsExactly_round:
  shows "strict operator \<Longrightarrow> holdsExactly operator (roundRat x) (roundRat y) \<Longrightarrow> holdsExactly operator x y"
    and "\<not> strict operator \<Longrightarrow> holdsExactly operator x y \<Longrightarrow> holdsExactly operator (roundRat x) (roundRat y)"
  using roundRat_mono [of x y] roundRat_mono [of y x]
  by (auto simp: holdsExactly_def strict_def not_le [symmetric] simp del: not_le split: if_splits)

lemma splitThreshold_operators: "splitThresholdExpr e = Some (operator, x) \<Longrightarrow> operator \<in> set thresholdOperators"
  by (auto simp: splitThresholdExpr_def dest: find_Some_mem split: option.splits)

text \<open>The distance between a number and the double nearest to it: half of the distance of the doubles around it, which is
  at most the \<open>2^52\<close>th part of the number, or \<open>2^-1074\<close> near zero.\<close>

definition roundingError :: "rat \<Rightarrow> rat" where
  "roundingError x = max (\<bar>x\<bar> / 2 ^ 53) (2 powi (- 1075))"

lemma roundHalfEven_near: "\<bar>of_int (roundHalfEven x) - x\<bar> \<le> 1 / 2"
proof -
  have "of_int \<lfloor>x\<rfloor> \<le> x" "x < of_int \<lfloor>x\<rfloor> + 1" by linarith+
  moreover have "roundHalfEven x = \<lfloor>x\<rfloor> \<and> x - of_int \<lfloor>x\<rfloor> \<le> 1 / 2 \<or> roundHalfEven x = \<lfloor>x\<rfloor> + 1 \<and> 1 / 2 \<le> x - of_int \<lfloor>x\<rfloor>"
    by (auto simp: roundHalfEven_def Let_def)
  ultimately show ?thesis by (elim disjE) (simp_all add: abs_le_iff)
qed

lemma roundPos_near:
  assumes "0 < q"
  shows "\<bar>roundPos q - q\<bar> \<le> roundingError q"
proof -
  let ?u = "(2 :: rat) powi ulpExp q"
  have "roundPos q - q = (of_int (roundHalfEven (q / ?u)) - q / ?u) * ?u" by (simp add: roundPos_def left_diff_distrib)
  then have "\<bar>roundPos q - q\<bar> = \<bar>of_int (roundHalfEven (q / ?u)) - q / ?u\<bar> * ?u" by (simp add: abs_mult)
  also have "\<dots> \<le> 1 / 2 * ?u" by (intro mult_right_mono roundHalfEven_near) simp
  also have "\<dots> \<le> roundingError q"
  proof (cases "- 1074 \<le> expOf q - 52")
    case True
    then have "?u = 2 powi expOf q / 2 ^ 52" by (simp add: ulpExp_def power_int_diff)
    with expOf(1) [OF assms] assms show ?thesis by (simp add: roundingError_def le_max_iff_disj)
  next
    case False
    then have "?u = 2 powi (1 + - 1075)" by (simp add: ulpExp_def)
    also have "\<dots> = 2 * 2 powi (- 1075)" by (subst power_int_add) auto
    finally show ?thesis by (simp add: roundingError_def)
  qed
  finally show ?thesis .
qed

lemma roundRat_near: "\<bar>roundRat q - q\<bar> \<le> roundingError q"
  using roundPos_near [of q] roundPos_near [of "- q"] by (auto simp: roundRat_def roundingError_def abs_minus_commute abs_le_iff)

lemma holdsExactly_apart:
  assumes "x = y \<or> roundingError x + roundingError y < \<bar>x - y\<bar>"
  shows "holdsExactly operator (roundRat x) (roundRat y) = holdsExactly operator x y"
proof -
  have "(roundRat x < roundRat y) = (x < y) \<and> (roundRat y < roundRat x) = (y < x)"
    using assms roundRat_near [of x] roundRat_near [of y] by (auto simp: abs_le_iff abs_if split: if_splits)
  then show ?thesis by (auto simp: holdsExactly_def neq_iff not_less [symmetric] intro: ccontr)
qed

text \<open>C29: a metric condition compares the double nearest to the sample with the double nearest to its threshold, by its
  operator. So it gives the same answer as the exact decimal values when these are equal or differ by more than the two
  rounding errors, and rounding can otherwise only turn a difference into an equality: with an operator that excludes equality
  (\<open>>\<close>, \<open><\<close>, \<open>!=\<close>, \<open><>\<close>) the condition fires only if the exact values satisfy it; with one
  that allows equality (\<open>>=\<close>, \<open><=\<close>, \<open>=\<close>, \<open>==\<close>) it fires whenever they do.\<close>

theorem MatchExpr_threshold_sound:
  assumes c: "splitThresholdExpr (TrimSpace condition) = Some (operator, expected)"
    and x: "specialFloat (TrimSpace v) = None" "exactValue (TrimSpace v) = Some x" "moderate x"
    and y: "specialFloat expected = None" "exactValue expected = Some y" "moderate y"
  shows "(x = y \<or> roundingError x + roundingError y < \<bar>x - y\<bar> \<longrightarrow> (MatchExpr AlertRuleTypeMetric condition v \<longleftrightarrow> holdsExactly operator x y)) \<and>
    (strict operator \<and> MatchExpr AlertRuleTypeMetric condition v \<longrightarrow> holdsExactly operator x y) \<and>
    (\<not> strict operator \<and> holdsExactly operator x y \<longrightarrow> MatchExpr AlertRuleTypeMetric condition v) \<and>
    (MatchExpr AlertRuleTypeMetric condition v \<longleftrightarrow> holdsExactly operator (roundRat x) (roundRat y)) \<and>
    \<bar>roundRat x - x\<bar> \<le> roundingError x \<and> \<bar>roundRat y - y\<bar> \<le> roundingError y"
proof -
  have e: "TrimSpace expected = expected" using c by (auto simp: splitThresholdExpr_def split: option.splits)
  have "TrimSpace condition \<noteq> []" using c by (auto simp: splitThresholdExpr_def thresholdOperators_def HasPrefix_def)
  then have "MatchExpr AlertRuleTypeMetric condition v = holdsExactly operator (roundRat x) (roundRat y)"
    using c x y e by (simp add: MatchExpr_def Let_def matchThreshold_def ParseFloat_def roundDouble_moderate compareFloats_Fin)
  with holdsExactly_round [of operator x y] holdsExactly_apart [of x y operator] roundRat_near show ?thesis by auto
qed

lemma MatchExpr_threshold_sound_witness:
  "MatchExpr AlertRuleTypeMetric ''>= 80'' ''80.5'' \<and> MatchExpr AlertRuleTypeMetric ''> 80'' ''80.5'' \<and> \<not> MatchExpr AlertRuleTypeMetric ''= 80'' ''80.5''"
proof -
  have v: "exactValue (TrimSpace ''80.5'') = Some (161 / 2)" "exactValue ''80'' = Some 80"
    by (simp_all add: exactValue_def TrimSpace_def isSpace_def dropSign_def readUnsigned_def Let_def HasPrefix_def floatDigit_def charDigit_def)
  have s: "specialFloat (TrimSpace ''80.5'') = None" "specialFloat ''80'' = None"
    by (simp_all add: specialFloat_def TrimSpace_def isSpace_def Let_def ToLower_def toLowerChar_def)
  have c: "splitThresholdExpr (TrimSpace ''>= 80'') = Some (''>='', ''80'')" "splitThresholdExpr (TrimSpace ''> 80'') = Some (''>'', ''80'')"
    "splitThresholdExpr (TrimSpace ''= 80'') = Some (''='', ''80'')"
    by (simp_all add: splitThresholdExpr_def thresholdOperators_def TrimSpace_def isSpace_def HasPrefix_def TrimPrefix_def)
  have m: "moderate (161 / 2)" "moderate 80" by (simp_all add: moderate_def)
  have "roundingError (161 / 2) + roundingError 80 < \<bar>161 / 2 - 80\<bar>" by (simp add: roundingError_def power_int_minus max_def)
  with MatchExpr_threshold_sound [OF c(1) s(1) v(1) m(1) s(2) v(2) m(2)] MatchExpr_threshold_sound [OF c(2) s(1) v(1) m(1) s(2) v(2) m(2)]
    MatchExpr_threshold_sound [OF c(3) s(1) v(1) m(1) s(2) v(2) m(2)]
  show ?thesis by (simp add: strict_def holdsExactly_def)
qed

section \<open>Effective times\<close>

lemma digitChar_less: "d < 10 \<Longrightarrow> e < 10 \<Longrightarrow> digitChar d < digitChar e \<longleftrightarrow> d < e"
  by (simp add: digitChar_def less_char_def)

lemma digitChar_eq: "d < 10 \<Longrightarrow> e < 10 \<Longrightarrow> digitChar d = digitChar e \<longleftrightarrow> d = e"
  by (metis charDigit_digitChar option.inject)

lemma divmod_less: "a < b \<longleftrightarrow> a div m < b div m \<or> (a div m = b div m \<and> a mod m < b mod m)" for a b m :: nat
proof -
  have lt: "a div m < b div m \<Longrightarrow> a < b" by (metis div_le_mono not_le)
  have ge: "b div m < a div m \<Longrightarrow> \<not> a < b" by (metis div_le_mono less_imp_le not_le)
  have eq: "a div m = b div m \<Longrightarrow> a < b \<longleftrightarrow> a mod m < b mod m"
    by (metis add_less_cancel_left div_mult_mod_eq)
  from lt ge eq show ?thesis by (meson linorder_neqE_nat)
qed

lemma divmod_eq: "a = b \<longleftrightarrow> a div m = b div m \<and> a mod m = b mod m" for a b m :: nat
  by (metis div_mult_mod_eq)

lemma twoDigits_order:
  assumes "a < 100" "b < 100"
  shows "twoDigits a @ x < twoDigits b @ y \<longleftrightarrow> a < b \<or> (a = b \<and> x < y)"
    and "twoDigits a = twoDigits b \<longleftrightarrow> a = b"
proof -
  have d: "a div 10 < 10" "b div 10 < 10" "a mod 10 < 10" "b mod 10 < 10" using assms by auto
  show "twoDigits a @ x < twoDigits b @ y \<longleftrightarrow> a < b \<or> (a = b \<and> x < y)"
    unfolding divmod_less [of a b 10] divmod_eq [of a b 10] using d by (auto simp: twoDigits_def digitChar_less digitChar_eq)
  show "twoDigits a = twoDigits b \<longleftrightarrow> a = b"
    unfolding divmod_eq [of a b 10] using d by (simp add: twoDigits_def digitChar_eq)
qed

text \<open>Times written as HH:MM compare like the minutes they stand for.\<close>

lemma formatHHMM_less: "a < 1440 \<Longrightarrow> b < 1440 \<Longrightarrow> formatHHMM a < formatHHMM b \<longleftrightarrow> a < b"
proof -
  assume ab: "a < 1440" "b < 1440"
  have h: "a div 60 < 100" "b div 60 < 100" "a mod 60 < 100" "b mod 60 < 100" using ab by auto
  show ?thesis
    unfolding formatHHMM_def twoDigits_order(1) [OF h(1,2)] divmod_less [of a b 60]
    using twoDigits_order(1) [OF h(3,4), of "[]" "[]"] by auto
qed

lemma formatHHMM_eq: "a < 1440 \<Longrightarrow> b < 1440 \<Longrightarrow> formatHHMM a = formatHHMM b \<longleftrightarrow> a = b"
  using formatHHMM_less [of a b] formatHHMM_less [of b a] by (metis less_irrefl linorder_neqE_nat)

lemma formatHHMM_le: "a < 1440 \<Longrightarrow> b < 1440 \<Longrightarrow> formatHHMM a \<le> formatHHMM b \<longleftrightarrow> a \<le> b"
  using formatHHMM_less [of b a] by (simp add: not_less [symmetric])

lemma NormalizeEnableTime_HHMM: "a < 1440 \<Longrightarrow> NormalizeEnableTime (formatHHMM a) = formatHHMM a"
proof -
  assume a: "a < 1440"
  have d: "\<not> isSpace (digitChar k)" if "k < 10" for k
    using charDigit_digitChar [OF that] by (auto simp: isSpace_def charDigit_def)
  have "a div 60 div 10 < 10" using a by auto
  then have "TrimSpace (formatHHMM a) = formatHHMM a"
    by (intro TrimSpace_id) (simp add: formatHHMM_def twoDigits_def d)
  then show ?thesis by (simp add: NormalizeEnableTime_def Let_def formatHHMM_def twoDigits_def)
qed

lemma minuteOfDay_bound: "minuteOfDay zone now < 1440"
proof -
  have "0 \<le> localSeconds zone now mod 86400" "localSeconds zone now mod 86400 < 86400" by simp_all
  then show ?thesis unfolding minuteOfDay_def by linarith
qed

definition enabledDays :: "AlertRule \<Rightarrow> string list" where
  "enabledDays rule = Fields (NormalizeEnableDaysOfWeek (ar_EnableDaysOfWeek rule))"

text \<open>when a rule is in effect. For a rule whose start and end are the minutes \<open>a\<close> and \<open>b\<close> of the day
  (written HH:MM): always, if it names no day; otherwise on the named weekdays, all day if \<open>a = b\<close>,
  from \<open>a\<close> up to but not including \<open>b\<close> if \<open>a < b\<close> (through the last minute if \<open>b\<close> is 23:59), and outside
  \<open>b ..< a\<close> if the interval crosses midnight. The weekday is that of the instant, so the hours after
  midnight belong to the next day.\<close>

theorem IsWithinEffectiveTime_iff:
  assumes "ar_EnableStime rule = formatHHMM a" and "ar_EnableEtime rule = formatHHMM b" and "a < 1440" and "b < 1440"
    and t: "t = minuteOfDay zone now"
  shows "IsWithinEffectiveTime zone rule now \<longleftrightarrow> enabledDays rule = [] \<or>
    (FormatInt (Weekday zone now) \<in> set (enabledDays rule) \<and>
      (a = b \<or> (a < b \<and> a \<le> t \<and> (t < b \<or> b = 1439)) \<or> (b < a \<and> (a \<le> t \<or> t < b))))"
proof -
  have t1: "t < 1440" unfolding t by (rule minuteOfDay_bound)
  have last: "''23:59'' = formatHHMM 1439" by (simp add: formatHHMM_def twoDigits_def digitChar_def char_of_def bit_iff_odd)
  note hhmm = formatHHMM_less [OF assms(3,4)] formatHHMM_eq [OF assms(3,4)] formatHHMM_le [OF assms(3) t1] formatHHMM_less [OF t1 assms(4)]
    formatHHMM_eq [OF assms(4), of 1439]
  show ?thesis
    unfolding IsWithinEffectiveTime_def Let_def assms(1,2) NormalizeEnableTime_HHMM [OF assms(3)] NormalizeEnableTime_HHMM [OF assms(4)]
      enabledDays_def [symmetric] t [symmetric] last hhmm
    using hhmm(5) t1 by auto
qed

lemma IsWithinEffectiveTime_iff_witness: "IsWithinEffectiveTime (\<lambda>_. 0) (demoRule\<lparr>ar_EnableStime := formatHHMM 1260, ar_EnableEtime := formatHHMM 540\<rparr>) 0"
  by (subst IsWithinEffectiveTime_iff [of _ 1260 540])
     (simp_all add: demoRule_def enabledDays_def NormalizeEnableDaysOfWeek_def TrimSpace_def Fields_def)

text \<open>The weekdays are stored as distinct fields, and storing them again changes nothing.\<close>

lemma ReplaceAllChar_fixed: "a \<noteq> b \<Longrightarrow> ReplaceAllChar (ReplaceAllChar s a b) a b = ReplaceAllChar s a b"
  by (auto simp: ReplaceAllChar_def)

lemma normalizeDays_props:
  "distinct (normalizeDays seen flds) \<and> set (normalizeDays seen flds) \<inter> set seen = {} \<and>
   (\<forall>d \<in> set (normalizeDays seen flds). ParseInt d \<noteq> None \<and> ReplaceAllChar d CHR ''7'' CHR ''0'' = d \<and> ((\<forall>f \<in> set flds. is_field f) \<longrightarrow> is_field d))"
proof (induction seen flds rule: normalizeDays.induct)
  case (2 seen fld flds)
  have f: "is_field fld \<Longrightarrow> is_field (ReplaceAllChar fld CHR ''7'' CHR ''0'')" by (auto simp: is_field_def ReplaceAllChar_def isSpace_def)
  let ?day = "ReplaceAllChar fld CHR ''7'' CHR ''0''"
  show ?case
  proof (cases "ParseInt ?day = None \<or> ?day \<in> set seen")
    case True
    with 2(1) [OF refl True] show ?thesis by (simp add: Let_def)
  next
    case False
    have r: "ReplaceAllChar ?day CHR ''7'' CHR ''0'' = ?day" by (rule ReplaceAllChar_fixed) simp
    from False have "normalizeDays seen (fld # flds) = ?day # normalizeDays (?day # seen) flds" by (auto simp: Let_def)
    with 2(2) [OF refl False] False f r show ?thesis by auto
  qed
qed simp

lemma normalizeDays_id:
  "distinct ds \<Longrightarrow> set ds \<inter> set seen = {} \<Longrightarrow> \<forall>d \<in> set ds. ParseInt d \<noteq> None \<and> ReplaceAllChar d CHR ''7'' CHR ''0'' = d \<Longrightarrow> normalizeDays seen ds = ds"
  by (induction ds arbitrary: seen) auto

lemma Fields_TrimSpace_Join: "\<forall>w \<in> set ws. is_field w \<Longrightarrow> Fields (TrimSpace (Join ws '' '')) = ws"
proof (cases "ws = []")
  case False
  assume f: "\<forall>w \<in> set ws. is_field w"
  have "hd (Join ws '' '') = hd (hd ws) \<and> last (Join ws '' '') = last (last ws) \<and> Join ws '' '' \<noteq> []"
    using f False by (induction ws "'' ''" rule: Join.induct) (auto simp: is_field_def)
  moreover have "\<not> isSpace (hd (hd ws))" "\<not> isSpace (last (last ws))"
    using f hd_in_set [OF False] last_in_set [OF False] by (auto simp: is_field_def)
  ultimately have "TrimSpace (Join ws '' '') = Join ws '' ''" by (intro TrimSpace_id) simp
  with f show ?thesis by (simp add: Fields_Join)
qed (simp add: Fields_def)

text \<open>normalizing the weekdays of a rule is idempotent, and what is stored reads back as pairwise
  different integers that do not contain the digit 7 (Sunday is written 0).\<close>

theorem NormalizeEnableDaysOfWeek_normal:
  "NormalizeEnableDaysOfWeek (NormalizeEnableDaysOfWeek s) = NormalizeEnableDaysOfWeek s \<and>
   distinct (Fields (NormalizeEnableDaysOfWeek s)) \<and>
   list_all (\<lambda>d. ParseInt d \<noteq> None \<and> CHR ''7'' \<notin> set d) (Fields (NormalizeEnableDaysOfWeek s))"
proof -
  let ?ds = "normalizeDays [] (Fields (TrimSpace s))"
  note p = normalizeDays_props [of "[]" "Fields (TrimSpace s)"]
  have f: "\<forall>d \<in> set ?ds. is_field d" using p Fields_is_field by blast
  have n: "NormalizeEnableDaysOfWeek s = Join ?ds '' ''" by (simp add: NormalizeEnableDaysOfWeek_def Let_def)
  have id: "normalizeDays [] ?ds = ?ds" by (rule normalizeDays_id) (use p in auto)
  have nn: "NormalizeEnableDaysOfWeek (Join ?ds '' '') = Join ?ds '' ''"
    unfolding NormalizeEnableDaysOfWeek_def Fields_TrimSpace_Join [OF f] by (simp add: id Let_def)
  have seven: "ReplaceAllChar d CHR ''7'' CHR ''0'' = d \<Longrightarrow> CHR ''7'' \<notin> set d" for d by (induction d) (auto simp: ReplaceAllChar_def)
  show ?thesis unfolding n nn Fields_Join [OF f] using p seven by (auto simp: list_all_iff)
qed

section \<open>Silences\<close>

definition coversLabels :: "AlertSilence \<Rightarrow> labels \<Rightarrow> bool" where
  "coversLabels s labels \<longleftrightarrow> (\<forall>(key, expected) \<in> set (silenceLabels s). getLabel labels key = expected) \<and>
     (silenceLabels s \<noteq> [] \<or> TrimSpace (as_MatchExpressions s) \<noteq> [])"

definition inWindow :: "AlertSilence \<Rightarrow> int \<Rightarrow> bool" where
  "inWindow s now \<longleftrightarrow> as_Enabled s \<and> as_StartsAt s \<le> now \<and> now \<le> as_EndsAt s"

lemma wp_matchSilence [wp_simps]:
  "wp (matchSilence s labels) Q E = (\<lambda>w. if as_Enabled s then
     Q (inWindow s (clock w (tick w)) \<and> coversLabels s labels) (w\<lparr>tick := Suc (tick w)\<rparr>) else Q False w)"
  by (cases "list_all (\<lambda>(key, expected). getLabel labels key = expected) (silenceLabels s)")
     (auto simp: matchSilence_def wp_simps Let_def fun_eq_iff inWindow_def coversLabels_def not_less simp flip: list_all_iff)

lemma anySilence_spec:
  "wp (anySilence ss labels) (\<lambda>b w'. clock w' = clock w \<and> tick w \<le> tick w' \<and> w' = w\<lparr>tick := tick w'\<rparr> \<and>
     (b \<longrightarrow> (\<exists>s \<in> set ss. \<exists>n. tick w \<le> n \<and> n < tick w' \<and> inWindow s (clock w n) \<and> coversLabels s labels)) \<and>
     (\<not> b \<longrightarrow> (\<forall>s \<in> set ss. coversLabels s labels \<longrightarrow> \<not> (\<forall>n. inWindow s (clock w n))))) (\<lambda>_ _. False) w"
proof (induction ss arbitrary: w)
  case Nil
  show ?case by (simp add: wp_simps)
next
  case (Cons s ss)
  let ?w1 = "w\<lparr>tick := Suc (tick w)\<rparr>"
  have c: "clock ?w1 = clock w" by simp
  show ?case
  proof (cases "as_Enabled s")
    case False
    then show ?thesis using Cons [of w] by (auto simp: wp_simps inWindow_def elim!: wp_mono)
  next
    case True
    then show ?thesis using Cons [of ?w1] by (auto simp: wp_simps elim!: wp_mono)
  qed
qed

text \<open>C30: silencing. The check reads nothing but the clock and never fails. If it silences a sample, some
  given silence is enabled, was in its time window when it was looked at, and each of its match labels
  equals the label of the sample (labels of the sample override the built-in ones), where it has at
  least one label or a non-blank match expression; if it does not, no silence that covers the labels
  was in its window throughout. (The match expressions themselves are never evaluated: a silence with
  an expression and no labels covers every sample.)\<close>

theorem IsSilenced_spec:
  "\<exists>b n. (IsSilenced ss rule sample :: ('m env_scheme, goerr, bool) act) w = (Inr b, w\<lparr>tick := n\<rparr>) \<and> tick w \<le> n \<and>
     (b \<longrightarrow> (\<exists>s \<in> set ss. \<exists>i. tick w \<le> i \<and> i < n \<and> inWindow s (clock w i) \<and> coversLabels s (sampleLabels rule sample))) \<and>
     (\<not> b \<longrightarrow> (\<forall>s \<in> set ss. coversLabels s (sampleLabels rule sample) \<longrightarrow> \<not> (\<forall>i. inWindow s (clock w i))))"
proof -
  obtain r w' where r: "(IsSilenced ss rule sample :: ('m env_scheme, goerr, bool) act) w = (r, w')" by fastforce
  note spec = anySilence_spec [of ss "sampleLabels rule sample" w, where 'b = goerr, folded IsSilenced_def]
  show ?thesis
  proof (cases r)
    case (Inl e)
    with r have "IsSilenced ss rule sample w = (Inl e, w')" by simp
    from wp_Inl [OF spec this] show ?thesis by simp
  next
    case (Inr b)
    with r have i: "(IsSilenced ss rule sample :: ('m env_scheme, goerr, bool) act) w = (Inr b, w')" by simp
    from wp_Inr [OF spec i] have s: "w' = w\<lparr>tick := tick w'\<rparr>" "tick w \<le> tick w'"
      "b \<longrightarrow> (\<exists>s \<in> set ss. \<exists>n. tick w \<le> n \<and> n < tick w' \<and> inWindow s (clock w n) \<and> coversLabels s (sampleLabels rule sample))"
      "\<not> b \<longrightarrow> (\<forall>s \<in> set ss. coversLabels s (sampleLabels rule sample) \<longrightarrow> \<not> (\<forall>n. inWindow s (clock w n)))" by blast+
    from i s(1) have "(IsSilenced ss rule sample :: ('m env_scheme, goerr, bool) act) w = (Inr b, w\<lparr>tick := tick w'\<rparr>)" by metis
    with s(2-4) show ?thesis by blast
  qed
qed

section \<open>The rule configuration: storing and reading back\<close>

definition trigOK :: "AlertTrigger \<Rightarrow> bool" where
  "trigOK t \<longleftrightarrow> int64 (at_Severity t) \<and> int64 (at_Duration t) \<and> validUTF8 (at_Condition t)"

definition cfgOK :: "AlertRuleConfig \<Rightarrow> bool" where
  "cfgOK c \<longleftrightarrow> validUTF8 (rc_PromQl c) \<and> (\<forall>t \<in> set (rc_Triggers c). trigOK t) \<and> (\<forall>q \<in> set (rc_Queries c). validUTF8 (lq_PromQl q))"

lemma decTrigger_ok: "trigOK t \<Longrightarrow> stringsValid j \<Longrightarrow> trigOK (fst (decTrigger j t))"
  unfolding decTrigger_def
  by (rule decStruct_invariant [of _ trigOK]) (auto simp: trigOK_def decInt_int64 decString_valid)

lemma decQuery_ok: "validUTF8 (lq_PromQl q) \<Longrightarrow> stringsValid j \<Longrightarrow> validUTF8 (lq_PromQl (fst (decQuery j q)))"
  unfolding decQuery_def
  by (rule decStruct_invariant [of _ "\<lambda>q. validUTF8 (lq_PromQl q)"]) (auto simp: decString_valid)

lemma zeroTrigger_ok: "trigOK zeroTrigger"
  by (simp add: trigOK_def zeroTrigger_def int64_def minInt64_def maxInt64_def)

lemma decConfig_ok: "cfgOK c \<Longrightarrow> stringsValid j \<Longrightarrow> cfgOK (fst (decConfig j c))"
  unfolding decConfig_def
proof (rule decStruct_invariant [of _ cfgOK])
  fix name j and c :: AlertRuleConfig and dec :: "AlertRuleConfig decoder"
  assume "(name, dec) \<in> set [(''prom_ql'', field rc_PromQl (\<lambda>x. rc_PromQl_update (\<lambda>_. x)) decString),
      (''triggers'', field rc_Triggers (\<lambda>x. rc_Triggers_update (\<lambda>_. x)) (decSlice decTrigger zeroTrigger)),
      (''queries'', field rc_Queries (\<lambda>x. rc_Queries_update (\<lambda>_. x)) (decSlice decQuery zeroQuery))]"
    and c: "cfgOK c" and j: "stringsValid j"
  moreover have "\<forall>t \<in> set (fst (decSlice decTrigger zeroTrigger j (rc_Triggers c))). trigOK t"
    by (rule decSlice_all) (use c j in \<open>auto simp: cfgOK_def decTrigger_ok zeroTrigger_ok\<close>)
  moreover have "\<forall>q \<in> set (fst (decSlice decQuery zeroQuery j (rc_Queries c))). validUTF8 (lq_PromQl q)"
    by (rule decSlice_all) (use c j in \<open>auto simp: cfgOK_def decQuery_ok zeroQuery_def\<close>)
  ultimately show "cfgOK (fst (dec j c))" by (auto simp: cfgOK_def decString_valid)
qed

lemma ParseAlertRuleConfig_ok: "cfgOK (ParseAlertRuleConfig raw)"
proof -
  have z: "cfgOK zeroConfig" by (simp add: cfgOK_def zeroConfig_def)
  then have "jsonParse s = Some j \<Longrightarrow> cfgOK (fst (decConfig j zeroConfig))" for s j
    using decConfig_ok jsonParse_valid by blast
  with z show ?thesis by (auto simp: ParseAlertRuleConfig_def Let_def split: option.splits prod.splits) (metis fst_conv)
qed

lemma migrateLoop_ok:
  "validUTF8 p \<Longrightarrow> \<forall>q \<in> set qs. validUTF8 (lq_PromQl q) \<Longrightarrow> validUTF8 (fst (migrateLoop p qs)) \<and> (\<forall>t \<in> set (snd (migrateLoop p qs)). trigOK t)"
proof (induction qs arbitrary: p)
  case (Cons q qs)
  let ?raw = "TrimSpace (lq_PromQl q)"
  have i: "int64 (normalizeSeverity s AlertSeverityWarning)" "int64 0" for s
    by (auto simp: normalizeSeverity_def validSeverity_def severity_defs int64_def minInt64_def maxInt64_def)
  have v: "validUTF8 ?raw" "validUTF8 ''> 0''" using Cons.prems(2) by (auto intro: validUTF8_TrimSpace simp: byteOf_def RuneError_def)
  have IH: "validUTF8 (fst (migrateLoop p' qs)) \<and> (\<forall>t \<in> set (snd (migrateLoop p' qs)). trigOK t)" if "validUTF8 p'" for p'
    using that Cons by auto
  from IH [OF Cons.prems(1)] IH [OF v(1)] i v show ?case
    by (auto simp: Let_def trigOK_def split: prod.splits)
qed simp

lemma migrateLegacyQueries_ok: "cfgOK c \<Longrightarrow> cfgOK (migrateLegacyQueries c)"
  using migrateLoop_ok [of "TrimSpace (rc_PromQl c)" "rc_Queries c"] validUTF8_TrimSpace [of "rc_PromQl c"]
  by (auto simp: migrateLegacyQueries_def cfgOK_def split: prod.splits)

definition normalTrigger :: "AlertTrigger \<Rightarrow> bool" where
  "normalTrigger t \<longleftrightarrow> trigOK t \<and> validSeverity (at_Severity t) \<and> 0 \<le> at_Duration t \<and>
     TrimSpace (at_Condition t) = at_Condition t \<and> at_Condition t \<noteq> [] \<and> isValidThresholdCondition (at_Condition t)"

lemma normalizeTriggers_normal: "normalizeTriggers ts = Some us \<Longrightarrow> \<forall>t \<in> set ts. trigOK t \<Longrightarrow> \<forall>u \<in> set us. normalTrigger u"
proof (induction ts arbitrary: us)
  case (Cons t ts)
  have i: "int64 (normalizeSeverity s AlertSeverityWarning) \<and> validSeverity (normalizeSeverity s AlertSeverityWarning)" for s
    by (auto simp: normalizeSeverity_def validSeverity_def severity_defs int64_def minInt64_def maxInt64_def)
  have d: "int64 x \<Longrightarrow> int64 (normalizeDuration x) \<and> 0 \<le> normalizeDuration x" for x
    by (auto simp: normalizeDuration_def int64_def minInt64_def maxInt64_def)
  from Cons i d show ?case
    by (auto simp: Let_def normalTrigger_def trigOK_def validUTF8_TrimSpace split: if_splits)
qed simp

lemma normalizeTriggers_id: "\<forall>t \<in> set ts. normalTrigger t \<Longrightarrow> normalizeTriggers ts = Some ts"
  by (induction ts) (auto simp: normalTrigger_def normalizeSeverity_def normalizeDuration_def Let_def)

section \<open>A normalized configuration reads back\<close>

lemma IsSilenced_spec_witness:
  "fst ((IsSilenced [\<lparr>Oid = 1, GmtCreate = 0, GmtModified = 0, ResourceVersion = 0, as_Name = ''maintenance'', as_MatchLabels = [],
       as_MatchExpressions = ''x'', as_StartsAt = 0, as_EndsAt = 10, as_Enabled = True, as_CreatedBy = [], as_Comment = [], as_Extension = []\<rparr>]
     demoRule \<lparr>ms_Value = ''1'', ms_ResourceType = [], ms_ResourceName = [], ms_Namespace = [], ms_ClusterId = 0, ms_TenantId = 0,
       ms_Labels = [], ms_Annotations = []\<rparr> :: (alert_db, goerr, bool) act) (demoAlertDb\<lparr>clock := \<lambda>_. 5\<rparr>)) = Inr True"
  (is "fst (IsSilenced [?s] _ ?m ?w) = _")
proof -
  have "coversLabels ?s (sampleLabels demoRule ?m)" "\<forall>i. inWindow ?s (clock ?w i)"
    by (simp_all add: coversLabels_def silenceLabels_def TrimSpace_def isSpace_def inWindow_def)
  moreover obtain b n where "(IsSilenced [?s] demoRule ?m :: (alert_db, goerr, bool) act) ?w = (Inr b, ?w\<lparr>tick := n\<rparr>)"
    and "\<not> b \<longrightarrow> (\<forall>s \<in> set [?s]. coversLabels s (sampleLabels demoRule ?m) \<longrightarrow> \<not> (\<forall>i. inWindow s (clock ?w i)))"
    using IsSilenced_spec [of "[?s]" demoRule ?m ?w] by blast
  ultimately show ?thesis by auto
qed

lemma foldName_lit: "foldName ''severity'' = ''severity''" "foldName ''condition'' = ''condition''" "foldName ''duration'' = ''duration''"
  "foldName ''prom_ql'' = ''prom_ql''" "foldName ''triggers'' = ''triggers''"
  by (rule foldName_lower, simp add: byteOf_def)+

lemma decTrigger_triggerJson: "trigOK t \<Longrightarrow> decTrigger (triggerJson t) zeroTrigger = (t, True)"
  by (cases t) (simp add: decTrigger_def triggerJson_def fieldDecoder_def foldName_lit field_def trigOK_def zeroTrigger_def ParseInt_FormatInt del: foldName.simps)

lemma decElements_triggers: "\<forall>t \<in> set ts. trigOK t \<Longrightarrow> decElements decTrigger zeroTrigger (map triggerJson ts) [] = (ts, True)"
  by (induction ts) (simp_all add: decTrigger_triggerJson)

definition configJson :: "string \<Rightarrow> AlertTrigger list \<Rightarrow> json" where
  "configJson p ts = JObj [(''prom_ql'', JStr p), (''triggers'', JArr (map triggerJson ts))]"

lemma decConfig_configJson:
  "\<forall>t \<in> set ts. trigOK t \<Longrightarrow> decConfig (configJson p ts) zeroConfig = (\<lparr>rc_PromQl = p, rc_Triggers = ts, rc_Queries = []\<rparr>, True)"
  by (simp add: decConfig_def configJson_def fieldDecoder_def foldName_lit field_def zeroConfig_def decElements_triggers del: foldName.simps)

lemma wfJson_configJson: "validUTF8 p \<Longrightarrow> \<forall>t \<in> set ts. trigOK t \<Longrightarrow> wfJson (configJson p ts) \<and> depthJson (configJson p ts) \<le> 3"
proof
  assume p: "validUTF8 p" and ts: "\<forall>t \<in> set ts. trigOK t"
  show "wfJson (configJson p ts)" using p ts by (auto simp: configJson_def triggerJson_def trigOK_def byteOf_def RuneError_def)
  have "foldr (max \<circ> depthJson) (map triggerJson ts) 0 \<le> 1" by (induction ts) (simp_all add: triggerJson_def)
  then show "depthJson (configJson p ts) \<le> 3" by (simp add: configJson_def)
qed


lemma parse_configJson:
  assumes "validUTF8 p" and "\<forall>t \<in> set ts. trigOK t"
  shows "ParseAlertRuleConfig (jsonPrint (configJson p ts)) = \<lparr>rc_PromQl = p, rc_Triggers = ts, rc_Queries = []\<rparr>"
proof -
  let ?s = "jsonPrint (configJson p ts)"
  have "?s \<noteq> [] \<and> hd ?s = CHR ''{'' \<and> last ?s = CHR ''}''" by (simp add: configJson_def)
  moreover from this have "TrimSpace ?s = ?s" by (intro TrimSpace_id) (simp add: isSpace_def)
  moreover have "jsonParse ?s = Some (configJson p ts)"
    using wfJson_configJson [OF assms] by (intro jsonParse_jsonPrint) (simp_all add: maxNestingDepth_def)
  ultimately show ?thesis by (simp add: ParseAlertRuleConfig_def decConfig_configJson [OF assms(2)])
qed

text \<open>a rule configuration that is accepted is stored in normal form: normalizing what was stored
  accepts it again and changes nothing, and the engine reads back at least one trigger, the first with
  the severity and the duration that are returned, all with a valid severity, a duration that is not
  negative, a condition that can be evaluated, and the query of the rule.\<close>

theorem NormalizeRuleConfig_stored:
  assumes "NormalizeRuleConfig raw = Some (c, sev, dur)"
  shows "NormalizeRuleConfig c = Some (c, sev, dur) \<and>
    (let rule' = rule\<lparr>ar_RuleConfig := c\<rparr>; ts = ListAlertTriggers rule'
     in GetRulePromQl rule' \<noteq> [] \<and> ts \<noteq> [] \<and> et_Severity (hd ts) = sev \<and> et_Duration (hd ts) = dur \<and>
       list_all (\<lambda>t. validSeverity (et_Severity t) \<and> 0 \<le> et_Duration t \<and> isValidThresholdCondition (et_Condition t) \<and>
         et_PromQl t = GetRulePromQl rule') ts)"
proof -
  define cfg where "cfg = migrateLegacyQueries (ParseAlertRuleConfig raw)"
  define p where "p = TrimSpace (rc_PromQl cfg)"
  have cfg: "cfgOK cfg" unfolding cfg_def by (intro migrateLegacyQueries_ok ParseAlertRuleConfig_ok)
  then have "validUTF8 p" unfolding p_def cfgOK_def by (intro validUTF8_TrimSpace) simp
  have tp: "TrimSpace p = p" by (simp add: p_def)
  from assms obtain t ts where p: "p \<noteq> []" and n: "normalizeTriggers (rc_Triggers cfg) = Some (t # ts)"
    and c: "c = jsonPrint (configJson p (t # ts))" and sd: "sev = at_Severity t" "dur = at_Duration t"
    unfolding NormalizeRuleConfig_def cfg_def [symmetric] Let_def p_def [symmetric]
    by (auto simp: EncodeAlertRuleConfig_def configJson_def tp Let_def split: if_splits option.splits list.splits)
  have normal: "\<forall>u \<in> set (t # ts). normalTrigger u" using cfg by (intro normalizeTriggers_normal [OF n]) (simp add: cfgOK_def)
  have "ParseAlertRuleConfig c = \<lparr>rc_PromQl = p, rc_Triggers = t # ts, rc_Queries = []\<rparr>"
    unfolding c by (rule parse_configJson) (use normal \<open>validUTF8 p\<close> in \<open>auto simp: normalTrigger_def\<close>)
  then have m: "migrateLegacyQueries (ParseAlertRuleConfig c) = \<lparr>rc_PromQl = p, rc_Triggers = t # ts, rc_Queries = []\<rparr>"
    using p tp by (simp add: migrateLegacyQueries_def)
  have "NormalizeRuleConfig c = Some (c, sev, dur)"
    using p normalizeTriggers_id [OF normal]
    by (simp add: NormalizeRuleConfig_def m tp sd EncodeAlertRuleConfig_def) (simp add: c configJson_def)
  moreover have f: "filter (\<lambda>t. TrimSpace (at_Condition t) \<noteq> []) (t # ts) = t # ts"
    using normal by (intro filter_True) (simp add: normalTrigger_def)
  have "ar_RuleConfig (rule\<lparr>ar_RuleConfig := c\<rparr>) = c" by simp
  then have "ListAlertTriggers (rule\<lparr>ar_RuleConfig := c\<rparr>) = map (evaluable p) (t # ts)"
    unfolding ListAlertTriggers_def Let_def by (simp only: m AlertRuleConfig.simps tp p if_False f)
  moreover have "GetRulePromQl (rule\<lparr>ar_RuleConfig := c\<rparr>) = p" unfolding GetRulePromQl_def by (simp add: m tp)
  ultimately show ?thesis
    using normal p by (auto simp: sd Let_def evaluable_def normalTrigger_def normalizeSeverity_def normalizeDuration_def list_all_iff)
qed


lemma NormalizeRuleConfig_stored_witness:
  "\<exists>c. NormalizeRuleConfig (jsonPrint (configJson ''up'' [\<lparr>at_Severity = 9, at_Condition = '' >= 80'', at_Duration = - 1\<rparr>])) = Some (c, AlertSeverityWarning, 0) \<and>
     NormalizeRuleConfig c = Some (c, AlertSeverityWarning, 0)"
proof -
  let ?t = "\<lparr>at_Severity = 9, at_Condition = '' >= 80'', at_Duration = - 1\<rparr>"
  have "validUTF8 ''up''" "\<forall>t \<in> set [?t]. trigOK t" by (simp_all add: trigOK_def int64_def minInt64_def maxInt64_def byteOf_def RuneError_def)
  then have "ParseAlertRuleConfig (jsonPrint (configJson ''up'' [?t])) = \<lparr>rc_PromQl = ''up'', rc_Triggers = [?t], rc_Queries = []\<rparr>"
    by (rule parse_configJson)
  moreover have "TrimSpace ''up'' = ''up''" "TrimSpace '' >= 80'' = ''>= 80''" by (simp_all add: TrimSpace_def isSpace_def)
  moreover have "isValidThresholdCondition ''>= 80''"
    by (simp add: isValidThresholdCondition_def splitThresholdExpr_def thresholdOperators_def HasPrefix_def TrimPrefix_def TrimSpace_def isSpace_def
        ParseFloat_def specialFloat_def exactValue_def dropSign_def readUnsigned_def Let_def floatDigit_def charDigit_def ToLower_def toLowerChar_def
        roundDouble_moderate moderate_def)
  ultimately obtain c where "NormalizeRuleConfig (jsonPrint (configJson ''up'' [?t])) = Some (c, AlertSeverityWarning, 0)"
    by (simp add: NormalizeRuleConfig_def migrateLegacyQueries_def Let_def normalizeSeverity_def validSeverity_def severity_defs normalizeDuration_def)
  with NormalizeRuleConfig_stored [OF this] show ?thesis by blast
qed

end
