(* ===== verification/Notify.thy ===== *)
theory Notify
  imports AlertRules
begin

text \<open>
  The notifications of the alert engine (\<open>pkg/controller/alert/notify\<close>): the channel configurations
  (\<open>config.go\<close>), the text (\<open>message.go\<close>), the requests (\<open>http.go\<close>, \<open>dingtalk.go\<close>, \<open>feishu.go\<close>,
  \<open>wecom.go\<close>, \<open>webhook.go\<close>, \<open>ping_channel.go\<close>) and the manager that queues and dispatches notifications
  (\<open>manager.go\<close>). The record \<open>notify_env\<close> holds what comes from outside: the local time zone, the
  MAC function, the splitting of a URL (text before the query, the query, the rest; \<open>None\<close> if the text is
  no URL), the template engine (\<open>None\<close>: the template or its execution fails), the text of a JSON error,
  and the answers of the network, which depend on the number of interactions so far.
  An error of this package is its text, because it is stored with the notification.
\<close>

section \<open>The world outside\<close>

record NotificationTemplateData =
  nd_RuleId :: int
  nd_RuleName :: string
  nd_Expr :: string
  nd_Value :: string
  nd_Severity :: string
  nd_FireTime :: string
  nd_TriggerTime :: string
  nd_ResourceType :: string
  nd_ResourceName :: string
  nd_Labels :: labels
  nd_Annotations :: string
  nd_IsRecovered :: bool
  nd_RecoverValue :: string
  nd_RecoverTime :: string

datatype http_reply = NoReply string | BodyError int string | Reply int string

record notify_env =
  nv_zone :: "int \<Rightarrow> int"
  nv_hmac :: "string \<Rightarrow> string \<Rightarrow> string"
  nv_url :: "string \<Rightarrow> (string \<times> string \<times> string) option"
  nv_urlErr :: "string \<Rightarrow> string"
  nv_template :: "string \<Rightarrow> (NotificationTemplateData \<Rightarrow> string option) option"
  nv_jsonErr :: "string \<Rightarrow> string"
  nv_net :: "nat \<Rightarrow> http_post \<Rightarrow> http_reply"

section \<open>Channel configurations\<close>

record DingTalkChannelConfig =
  dc_WebhookURL :: string
  dc_Secret :: string

record WebhookChannelConfig =
  wc_URL :: string
  wc_Headers :: "labels option"

record WeComChannelConfig =
  wcc_WebhookURL :: string

record FeishuChannelConfig =
  fc_WebhookURL :: string
  fc_Secret :: string

definition parseNotifyChannelIDs :: "string \<Rightarrow> int list" where
  "parseNotifyChannelIDs raw = List.map_filter (\<lambda>part0. let part = TrimSpace part0 in
     if part = [] then None
     else (case ParseInt part of None \<Rightarrow> None | Some i \<Rightarrow> if i \<le> 0 then None else Some i)) (Split raw CHR '','')"

text \<open>\<open>json.Unmarshal\<close> of a map field: \<open>None\<close> is the nil map; an object is added to the map that is there.\<close>

fun decMap :: "labels option decoder" where
  "decMap (JObj ms) old = (case foldl (\<lambda>(m, ok) (k, j). (putLabel k (fst (stringValue j)) m, ok \<and> snd (stringValue j)))
     (case old of None \<Rightarrow> [] | Some m \<Rightarrow> m, True) ms of (m, ok) \<Rightarrow> (Some m, ok))"
| "decMap JNull old = (None, True)"
| "decMap _ old = (old, False)"

text \<open>\<open>cfg := T{}; _ = json.Unmarshal(raw, &cfg)\<close>: nothing is set when the text is not JSON.\<close>

definition parseInto :: "'a decoder \<Rightarrow> 'a \<Rightarrow> string \<Rightarrow> 'a" where
  "parseInto dec zero raw0 = (let raw = TrimSpace raw0 in
     if raw = [] then zero else (case jsonParse raw of None \<Rightarrow> zero | Some j \<Rightarrow> fst (dec j zero)))"

definition parseDingTalkChannelConfig :: "string \<Rightarrow> DingTalkChannelConfig" where
  "parseDingTalkChannelConfig = parseInto (decStruct
     [(''webhook_url'', field dc_WebhookURL (\<lambda>x. dc_WebhookURL_update (\<lambda>_. x)) decString),
      (''secret'', field dc_Secret (\<lambda>x. dc_Secret_update (\<lambda>_. x)) decString)]) \<lparr>dc_WebhookURL = [], dc_Secret = []\<rparr>"

definition parseWebhookChannelConfig :: "string \<Rightarrow> WebhookChannelConfig" where
  "parseWebhookChannelConfig = parseInto (decStruct
     [(''url'', field wc_URL (\<lambda>x. wc_URL_update (\<lambda>_. x)) decString),
      (''headers'', field wc_Headers (\<lambda>x. wc_Headers_update (\<lambda>_. x)) decMap)]) \<lparr>wc_URL = [], wc_Headers = None\<rparr>"

definition parseWeComChannelConfig :: "string \<Rightarrow> WeComChannelConfig" where
  "parseWeComChannelConfig = parseInto (decStruct
     [(''webhook_url'', field wcc_WebhookURL (\<lambda>x. wcc_WebhookURL_update (\<lambda>_. x)) decString)]) \<lparr>wcc_WebhookURL = []\<rparr>"

definition parseFeishuChannelConfig :: "string \<Rightarrow> FeishuChannelConfig" where
  "parseFeishuChannelConfig = parseInto (decStruct
     [(''webhook_url'', field fc_WebhookURL (\<lambda>x. fc_WebhookURL_update (\<lambda>_. x)) decString),
      (''secret'', field fc_Secret (\<lambda>x. fc_Secret_update (\<lambda>_. x)) decString)]) \<lparr>fc_WebhookURL = [], fc_Secret = []\<rparr>"

text \<open>The extension stored with a notification: a secret, or the headers.\<close>

definition decSecret :: "string decoder" where
  "decSecret = decStruct [(''secret'', field (\<lambda>x. x) (\<lambda>x _. x) decString)]"

definition decHeaders :: "labels option decoder" where
  "decHeaders = decStruct [(''headers'', field (\<lambda>x. x) (\<lambda>x _. x) decMap)]"

definition parseDingTalkNotificationExtension :: "string \<Rightarrow> string" where
  "parseDingTalkNotificationExtension = parseInto decSecret []"

definition parseFeishuNotificationExtension :: "string \<Rightarrow> string" where
  "parseFeishuNotificationExtension = parseInto decSecret []"

definition parseWebhookNotificationExtension :: "string \<Rightarrow> labels option" where
  "parseWebhookNotificationExtension = parseInto decHeaders None"

definition labelsJson :: "labels \<Rightarrow> json" where
  "labelsJson m = JObj (map (\<lambda>(k, v). (k, JStr v)) m)"

definition secretExtension :: "string \<Rightarrow> string" where
  "secretExtension secret = jsonPrint (JObj [(''secret'', JStr secret)])"

definition headersExtension :: "labels option \<Rightarrow> string" where
  "headersExtension headers = jsonPrint (JObj [(''headers'', case headers of None \<Rightarrow> JNull | Some m \<Rightarrow> labelsJson m)])"

section \<open>The text of a notification\<close>

definition strUnknownRule :: string where "strUnknownRule = utf8 [0x672A, 0x77E5, 0x89C4, 0x5219]"
definition strRule :: string where "strRule = utf8 [0x89C4, 0x5219, 0x20]"
definition strRecoveredNow :: string where "strRecoveredNow = utf8 [0x20, 0x5DF2, 0x6062, 0x590D, 0xFF0C, 0x5F53, 0x524D, 0x503C, 0x3A, 0x20]"
definition strFiredNow :: string where "strFiredNow = utf8 [0x20, 0x89E6, 0x53D1, 0xFF0C, 0x5F53, 0x524D, 0x503C, 0x3A, 0x20]"
definition strCondition :: string where "strCondition = utf8 [0xFF0C, 0x6761, 0x4EF6, 0x3A, 0x20]"

definition defaultNotificationContent :: "AlertRule option \<Rightarrow> AlertEvent option \<Rightarrow> bool \<Rightarrow> string" where
  "defaultNotificationContent rule event recovered =
     (let ruleName = (case rule of None \<Rightarrow> strUnknownRule | Some r \<Rightarrow> ar_Name r);
          (triggerValue, triggerExpr, recoverValue) =
            (case event of None \<Rightarrow> ([], [], []) | Some e \<Rightarrow> (ae_TriggerValue e, ae_TriggerExpr e, ae_RecoverValue e))
      in if recovered then strRule @ ruleName @ strRecoveredNow @ recoverValue
         else strRule @ ruleName @ strFiredNow @ triggerValue @ strCondition @ triggerExpr)"

definition formatNotificationSeverity :: "int \<Rightarrow> string" where
  "formatNotificationSeverity severity = (if severity \<le> 0 then [] else ''P'' @ FormatInt (severity - 1))"

text \<open>The zero \<open>time.Time\<close> is the start of the year 1.\<close>

definition zeroTime :: int where "zeroTime = - 62135596800 * 10 ^ 9"

definition formatNotificationTime :: "(int \<Rightarrow> int) \<Rightarrow> int \<Rightarrow> string" where
  "formatNotificationTime zone t = (if t = zeroTime then [] else formatDateTime '' '' (localSeconds zone t))"

definition parseLabelMap :: "string \<Rightarrow> labels" where
  "parseLabelMap raw0 = (let raw = TrimSpace raw0 in
     if raw = [] then [] else (case unmarshalMap raw of (out, ok) \<Rightarrow> if ok then out else []))"

definition eventData :: "(int \<Rightarrow> int) \<Rightarrow> AlertEvent \<Rightarrow> int \<Rightarrow> NotificationTemplateData \<Rightarrow> NotificationTemplateData" where
  "eventData zone event now d = d\<lparr>
     nd_RuleId := (if nd_RuleId d = 0 then ae_RuleId event else nd_RuleId d),
     nd_RuleName := (if nd_RuleName d = [] then ae_RuleName event else nd_RuleName d),
     nd_Severity := (if nd_Severity d = [] then formatNotificationSeverity (ae_Severity event) else nd_Severity d),
     nd_Value := ae_TriggerValue event, nd_Expr := ae_TriggerExpr event, nd_RecoverValue := ae_RecoverValue event,
     nd_ResourceType := ae_ResourceType event, nd_ResourceName := ae_ResourceName event, nd_Annotations := ae_Annotations event,
     nd_FireTime := formatNotificationTime zone (GmtCreate event), nd_TriggerTime := formatNotificationTime zone now,
     nd_RecoverTime := (case ae_RecoverTime event of None \<Rightarrow> nd_RecoverTime d | Some t \<Rightarrow> formatNotificationTime zone t)\<rparr>"

definition buildNotificationTemplateData :: "(int \<Rightarrow> int) \<Rightarrow> AlertRule option \<Rightarrow> AlertEvent option \<Rightarrow> bool \<Rightarrow> ('m env_scheme, 'e, NotificationTemplateData) act" where
  "buildNotificationTemplateData zone rule event recovered =
     (let d0 = \<lparr>nd_RuleId = 0, nd_RuleName = [], nd_Expr = [], nd_Value = [], nd_Severity = [], nd_FireTime = [], nd_TriggerTime = [],
            nd_ResourceType = [], nd_ResourceName = [], nd_Labels = [], nd_Annotations = [], nd_IsRecovered = recovered,
            nd_RecoverValue = [], nd_RecoverTime = []\<rparr>;
          d1 = (case rule of None \<Rightarrow> d0 | Some r \<Rightarrow> d0\<lparr>nd_RuleId := Oid r, nd_RuleName := ar_Name r\<rparr>);
          ruleLabels = (case rule of None \<Rightarrow> [] | Some r \<Rightarrow> parseLabelMap (ar_Labels r));
          eventLabels = (case event of None \<Rightarrow> [] | Some e \<Rightarrow> parseLabelMap (ae_Labels e))
      in andThen (case event of None \<Rightarrow> ret d1 | Some e \<Rightarrow> andThen timeNow (\<lambda>now. ret (eventData zone e now d1))) (\<lambda>d.
         (let d2 = d\<lparr>nd_Labels := Merge [ruleLabels, eventLabels]\<rparr>
          in andThen (if nd_FireTime d2 = [] then andThen timeNow (\<lambda>now. ret (d2\<lparr>nd_FireTime := formatNotificationTime zone now\<rparr>)) else ret d2) (\<lambda>d3.
             if nd_TriggerTime d3 = [] then andThen timeNow (\<lambda>now. ret (d3\<lparr>nd_TriggerTime := formatNotificationTime zone now\<rparr>)) else ret d3))))"

text \<open>The pattern \<open>\${name}|\$name\<close>, leftmost match first.\<close>

definition labelStart :: "char \<Rightarrow> bool" where
  "labelStart c \<longleftrightarrow> (let n = of_char c :: nat in (65 \<le> n \<and> n \<le> 90) \<or> (97 \<le> n \<and> n \<le> 122) \<or> c = CHR ''_'')"

definition labelChar :: "char \<Rightarrow> bool" where
  "labelChar c \<longleftrightarrow> labelStart c \<or> (let n = of_char c :: nat in 48 \<le> n \<and> n \<le> 57)"

definition matchName :: "string \<Rightarrow> (string \<times> string) option" where
  "matchName s = (case s of [] \<Rightarrow> None
     | c # cs \<Rightarrow> if labelStart c then Some (takeWhile labelChar s, dropWhile labelChar s) else None)"

definition matchBraced :: "string \<Rightarrow> (string \<times> string) option" where
  "matchBraced s = (case s of [] \<Rightarrow> None
     | c # cs \<Rightarrow> if c \<noteq> CHR ''{'' then None
         else (case matchName cs of
             Some (key, d # r) \<Rightarrow> if d = CHR ''}'' then Some (key, r) else None
           | _ \<Rightarrow> None))"

definition matchPlaceholder :: "string \<Rightarrow> (string \<times> string) option" where
  "matchPlaceholder s = (case matchBraced s of Some m \<Rightarrow> Some m | None \<Rightarrow> matchName s)"

lemma matchName_shorter: "matchName s = Some (key, r) \<Longrightarrow> length r < length s"
proof -
  assume m: "matchName s = Some (key, r)"
  then obtain c cs where s: "s = c # cs" "labelStart c" "r = dropWhile labelChar s" by (auto simp: matchName_def split: list.splits if_splits)
  then have "r = dropWhile labelChar cs" by (simp add: labelChar_def)
  then show ?thesis using length_dropWhile_le [of labelChar cs] s by simp
qed

lemma matchPlaceholder_shorter: "matchPlaceholder s = Some (key, r) \<Longrightarrow> length r < length s"
  by (auto simp: matchPlaceholder_def matchBraced_def dest!: matchName_shorter split: option.splits list.splits if_splits)

function expandFrom :: "string \<Rightarrow> labels \<Rightarrow> string" where
  "expandFrom [] labels = []"
| "expandFrom (c # cs) labels = (if c = CHR ''$''
     then (case matchPlaceholder cs of
         Some (key, r) \<Rightarrow> getLabel labels key @ expandFrom r labels
       | None \<Rightarrow> c # expandFrom cs labels)
     else c # expandFrom cs labels)"
  by pat_completeness auto
termination by (relation "measure (length \<circ> fst)") (auto dest: matchPlaceholder_shorter)

definition expandLabelPlaceholders :: "string \<Rightarrow> labels \<Rightarrow> string" where
  "expandLabelPlaceholders text labels = (if text = [] \<or> \<not> Contains text ''$'' then text else expandFrom text labels)"

text \<open>\<open>None\<close>: the template cannot be read, or not be executed.\<close>

definition renderNotifyTemplate :: "notify_env \<Rightarrow> string \<Rightarrow> AlertRule option \<Rightarrow> AlertEvent option \<Rightarrow> bool \<Rightarrow> ('m env_scheme, 'e, string option) act" where
  "renderNotifyTemplate nv tplText rule event recovered = (case nv_template nv tplText of
     None \<Rightarrow> ret None
   | Some execute \<Rightarrow> andThen (buildNotificationTemplateData (nv_zone nv) rule event recovered) (\<lambda>data.
       ret (map_option (\<lambda>out. expandLabelPlaceholders out (nd_Labels data)) (execute data))))"

definition buildNotificationContent :: "notify_env \<Rightarrow> AlertRule \<Rightarrow> AlertEvent option \<Rightarrow> bool \<Rightarrow> ('m env_scheme, 'e, string) act" where
  "buildNotificationContent nv rule event recovered =
     (let default = defaultNotificationContent (Some rule) event recovered
      in if TrimSpace (ar_NotifyTemplate rule) = [] then ret default
         else andThen (renderNotifyTemplate nv (ar_NotifyTemplate rule) (Some rule) event recovered) (\<lambda>rendered.
           (case rendered of Some text \<Rightarrow> ret text | None \<Rightarrow> ret default)))"

definition buildNotificationTitle :: "AlertRule option \<Rightarrow> bool \<Rightarrow> string" where
  "buildNotificationTitle rule recovered =
     (if recovered then utf8 [0x5B, 0x6062, 0x590D, 0x5D, 0x20] else utf8 [0x5B, 0x544A, 0x8B66, 0x5D, 0x20]) @
     (case rule of None \<Rightarrow> strUnknownRule | Some r \<Rightarrow> ar_Name r)"

section \<open>Requests\<close>

definition maxResponse :: nat where "maxResponse = 2 ^ 20"

text \<open>The headers that are set, in the order the code sets them.\<close>

definition requestHeaders :: "labels \<Rightarrow> (string \<times> string) list" where
  "requestHeaders headers = (''Content-Type'', ''application/json'') #
     filter (\<lambda>(key, val). \<not> (TrimSpace key = [] \<or> TrimSpace val = [])) headers"

definition postJSON :: "notify_env \<Rightarrow> string \<Rightarrow> labels \<Rightarrow> json \<Rightarrow> ('m alert_db_scheme, string, string) act" where
  "postJSON nv url headers payload =
     (case nv_url nv url of
        None \<Rightarrow> fail (nv_urlErr nv url)
      | Some _ \<Rightarrow> (\<lambda>w.
          (let req = \<lparr>hp_URL = url, hp_Headers = requestHeaders headers, hp_Body = jsonPrint payload\<rparr>;
               w1 = w\<lparr>tick := Suc (tick w), outbox := outbox w @ [req]\<rparr>
           in (case nv_net nv (tick w) req of
                NoReply err \<Rightarrow> (Inl err, w1)
              | BodyError status err \<Rightarrow> (Inl err, w1)
              | Reply status body0 \<Rightarrow>
                  (let body = take maxResponse body0
                   in if status < 200 \<or> 300 \<le> status
                      then (Inl (''unexpected status code: '' @ FormatInt status @ '', body: '' @ body), w1)
                      else (Inr body, w1))))))"

text \<open>\<open>botResponse\<close> and \<open>feishuResponse\<close>: the code and the message, under the names given.\<close>

record botResponse =
  br_ErrCode :: int
  br_ErrMsg :: string

definition decBot :: "string \<Rightarrow> string \<Rightarrow> botResponse decoder" where
  "decBot code msg = decStruct
     [(code, field br_ErrCode (\<lambda>x. br_ErrCode_update (\<lambda>_. x)) decInt),
      (msg, field br_ErrMsg (\<lambda>x. br_ErrMsg_update (\<lambda>_. x)) decString)]"

definition unmarshalBot :: "string \<Rightarrow> string \<Rightarrow> string \<Rightarrow> botResponse option" where
  "unmarshalBot code msg body = (case jsonParse body of
     None \<Rightarrow> None
   | Some j \<Rightarrow> (case decBot code msg j \<lparr>br_ErrCode = 0, br_ErrMsg = []\<rparr> of (resp, ok) \<Rightarrow> if ok then Some resp else None))"

text \<open>What the senders make of an answer: \<open>invalid\<close> and \<open>refused\<close> are the texts of the errors.\<close>

definition checkBot :: "notify_env \<Rightarrow> string \<Rightarrow> string \<Rightarrow> string \<Rightarrow> string \<Rightarrow> string \<Rightarrow> ('w, string, unit) act" where
  "checkBot nv code msg invalid refused body = (case unmarshalBot code msg body of
     None \<Rightarrow> fail (invalid @ nv_jsonErr nv body)
   | Some resp \<Rightarrow> if br_ErrCode resp \<noteq> 0
       then fail (refused @ ''code='' @ FormatInt (br_ErrCode resp) @ '' msg='' @ br_ErrMsg resp) else ret ())"

fun ReplaceAll :: "string \<Rightarrow> string \<Rightarrow> string \<Rightarrow> string" where
  "ReplaceAll [] old new = []"
| "ReplaceAll (c # cs) old new =
     (if HasPrefix (c # cs) old then new @ ReplaceAll (drop (length old - 1) cs) old new
      else c # ReplaceAll cs old new)"

definition newline :: string where "newline = [CHR 0x0A]"

definition normalizeNotifyNewlines :: "string \<Rightarrow> string" where
  "normalizeNotifyNewlines content =
     ReplaceAll (ReplaceAll (ReplaceAll content [CHR 0x0D, CHR 0x0A] newline) [CHR 0x0D] newline) [CHR 0x5C, CHR ''n''] newline"

definition textPayload :: "string \<Rightarrow> json" where
  "textPayload content = JObj [(''msgtype'', JStr ''text''), (''text'', JObj [(''content'', JStr content)])]"

definition signDingTalkWebhookURL :: "notify_env \<Rightarrow> string \<Rightarrow> string \<Rightarrow> ('m env_scheme, string, string) act" where
  "signDingTalkWebhookURL nv webhookURL secret0 = (let secret = TrimSpace secret0 in
     if secret = [] then ret webhookURL
     else andThen timeNow (\<lambda>now.
       (let timestamp = FormatInt (now div 10 ^ 6);
            sign = QueryEscape (base64Encode (nv_hmac nv secret (timestamp @ newline @ secret)))
        in (case nv_url nv webhookURL of
             None \<Rightarrow> fail (nv_urlErr nv webhookURL)
           | Some (before, query, rest) \<Rightarrow>
               ret (before @ ''?'' @ encodeQuery (qSet ''sign'' sign (qSet ''timestamp'' timestamp (parseQuery query))) @ rest)))))"

definition sendDingTalk :: "notify_env \<Rightarrow> AlertNotification \<Rightarrow> ('m alert_db_scheme, string, unit) act" where
  "sendDingTalk nv item = (let webhookURL = TrimSpace (an_Receiver item) in
     if webhookURL = [] then fail ''dingtalk webhook_url is empty''
     else andThen (signDingTalkWebhookURL nv webhookURL (parseDingTalkNotificationExtension (an_Extension item))) (\<lambda>signedURL.
       andThen (postJSON nv signedURL [] (textPayload (normalizeNotifyNewlines (an_Content item))))
         (checkBot nv ''errcode'' ''errmsg'' ''invalid dingtalk response: '' ''dingtalk api error: '')))"

definition sendWeCom :: "notify_env \<Rightarrow> AlertNotification \<Rightarrow> ('m alert_db_scheme, string, unit) act" where
  "sendWeCom nv item = (let webhookURL = TrimSpace (an_Receiver item) in
     if webhookURL = [] then fail ''wecom webhook_url is empty''
     else andThen (postJSON nv webhookURL [] (textPayload (normalizeNotifyNewlines (an_Content item))))
       (checkBot nv ''errcode'' ''errmsg'' ''invalid wecom response: '' ''wecom api error: ''))"

definition feishuPayload :: "notify_env \<Rightarrow> string \<Rightarrow> string \<Rightarrow> ('m env_scheme, 'e, json) act" where
  "feishuPayload nv secret0 text = (let secret = TrimSpace secret0;
       payload = [(''content'', JObj [(''text'', JStr text)]), (''msg_type'', JStr ''text'')]
     in if secret = [] then ret (JObj payload)
        else andThen timeNow (\<lambda>now.
          (let timestamp = FormatInt (now div 10 ^ 9);
               sign = base64Encode (nv_hmac nv (timestamp @ newline @ secret) [])
           in ret (JObj (payload @ [(''sign'', JStr sign), (''timestamp'', JStr timestamp)])))))"

definition sendFeishu :: "notify_env \<Rightarrow> AlertNotification \<Rightarrow> ('m alert_db_scheme, string, unit) act" where
  "sendFeishu nv item = (let webhookURL = TrimSpace (an_Receiver item) in
     if webhookURL = [] then fail ''feishu webhook_url is empty''
     else andThen (feishuPayload nv (parseFeishuNotificationExtension (an_Extension item)) (normalizeNotifyNewlines (an_Content item))) (\<lambda>payload.
       andThen (postJSON nv webhookURL [] payload)
         (checkBot nv ''code'' ''msg'' ''invalid feishu response: '' ''feishu api error: '')))"

definition headersOf :: "labels option \<Rightarrow> labels" where
  "headersOf headers = (case headers of None \<Rightarrow> [] | Some m \<Rightarrow> m)"

definition webhookPayload :: "string \<Rightarrow> string \<Rightarrow> int \<Rightarrow> int \<Rightarrow> string \<Rightarrow> json" where
  "webhookPayload title content eventId ruleId timestamp = JObj
     [(''title'', JStr title), (''content'', JStr content), (''channel'', JStr ''webhook''),
      (''event_id'', JNum (FormatInt eventId)), (''rule_id'', JNum (FormatInt ruleId)), (''timestamp'', JStr timestamp)]"

text \<open>\<open>Format(time.RFC3339)\<close>\<close>

definition formatRFC3339 :: "(int \<Rightarrow> int) \<Rightarrow> int \<Rightarrow> string" where
  "formatRFC3339 zone t = formatDateTime ''T'' (localSeconds zone t) @ formatZone (zone t)"

definition sendWebhook :: "notify_env \<Rightarrow> AlertNotification \<Rightarrow> ('m alert_db_scheme, string, unit) act" where
  "sendWebhook nv item = (let targetURL = TrimSpace (an_Receiver item) in
     if targetURL = [] then fail ''webhook url is empty''
     else andThen timeNow (\<lambda>now.
       andThen (postJSON nv targetURL (headersOf (parseWebhookNotificationExtension (an_Extension item)))
         (webhookPayload (an_Title item) (an_Content item) (an_EventId item) (an_RuleId item) (formatRFC3339 (nv_zone nv) now)))
         (\<lambda>_. ret ())))"

definition sendEmail :: "AlertNotification \<Rightarrow> ('w, string, unit) act" where
  "sendEmail item = fail ''email notification is not implemented''"

definition sendByChannel :: "notify_env \<Rightarrow> AlertNotification \<Rightarrow> ('m alert_db_scheme, string, unit) act" where
  "sendByChannel nv item =
     (if an_Channel item = AlertNotifyChannelEmail then sendEmail item
      else if an_Channel item = AlertNotifyChannelDingTalk then sendDingTalk nv item
      else if an_Channel item = AlertNotifyChannelWeCom then sendWeCom nv item
      else if an_Channel item = AlertNotifyChannelWebhook then sendWebhook nv item
      else if an_Channel item = AlertNotifyChannelFeishu then sendFeishu nv item
      else fail (''unsupported notify channel: '' @ FormatInt (an_Channel item)))"

section \<open>The connectivity test of a channel\<close>

definition strPing :: string where "strPing = ''Pixiu '' @ utf8 [0x8FDE, 0x901A, 0x6027, 0x6D4B, 0x8BD5]"
definition strChannelPing :: string where
  "strChannelPing = utf8 [0x901A, 0x77E5, 0x6E20, 0x9053, 0x8FDE, 0x901A, 0x6027, 0x6D4B, 0x8BD5, 0x20, 0x2D, 0x20]"
definition strNotConfigured :: string where "strNotConfigured = utf8 [0x20, 0x672A, 0x914D, 0x7F6E]"
definition strDingTalk :: string where "strDingTalk = utf8 [0x9489, 0x9489]"
definition strWeCom :: string where "strWeCom = utf8 [0x4F01, 0x4E1A, 0x5FAE, 0x4FE1]"
definition strFeishu :: string where "strFeishu = utf8 [0x98DE, 0x4E66]"
definition strRequestFailed :: string where "strRequestFailed = utf8 [0x8BF7, 0x6C42, 0x5931, 0x8D25, 0x3A, 0x20]"
definition strSignFailed :: string where "strSignFailed = utf8 [0x7B7E, 0x540D, 0x5931, 0x8D25, 0x3A, 0x20]"
definition strParse :: string where "strParse = utf8 [0x89E3, 0x6790]"
definition strResponseFailed :: string where "strResponseFailed = utf8 [0x54CD, 0x5E94, 0x5931, 0x8D25, 0x3A, 0x20]"
definition strReturned :: string where "strReturned = utf8 [0x8FD4, 0x56DE, 0x9519, 0x8BEF, 0x3A, 0x20]"
definition strUnsupported :: string where "strUnsupported = utf8 [0x4E0D, 0x652F, 0x6301, 0x7684, 0x6E20, 0x9053, 0x7C7B, 0x578B, 0x3A, 0x20]"
definition strNoEmail :: string where
  "strNoEmail = utf8 [0x90AE, 0x4EF6, 0x6E20, 0x9053, 0x6682, 0x4E0D, 0x652F, 0x6301, 0x8FDE, 0x901A, 0x6027, 0x6D4B, 0x8BD5]"

text \<open>\<open>if err != nil { return fmt.Errorf("...: %w", err) }\<close>\<close>

definition prefixing :: "string \<Rightarrow> ('w, string, 'a) act \<Rightarrow> ('w, string, 'a) act" where
  "prefixing text m = onResult m (\<lambda>err. fail (text @ err)) ret"

definition pingText :: "notify_env \<Rightarrow> int \<Rightarrow> string" where
  "pingText nv now = strPing @ '' - '' @ formatDateTime '' '' (localSeconds (nv_zone nv) now)"

definition pingCheck :: "notify_env \<Rightarrow> string \<Rightarrow> string \<Rightarrow> string \<Rightarrow> string \<Rightarrow> ('w, string, unit) act" where
  "pingCheck nv code msg name = checkBot nv code msg (strParse @ name @ strResponseFailed) (name @ strReturned)"

definition pingDingTalkChannel :: "notify_env \<Rightarrow> string \<Rightarrow> ('m alert_db_scheme, string, unit) act" where
  "pingDingTalkChannel nv config = (let cfg = parseDingTalkChannelConfig config; webhookURL = TrimSpace (dc_WebhookURL cfg) in
     if webhookURL = [] then fail (strDingTalk @ '' Webhook URL'' @ strNotConfigured)
     else andThen (prefixing strSignFailed (signDingTalkWebhookURL nv webhookURL (dc_Secret cfg))) (\<lambda>signedURL.
       andThen timeNow (\<lambda>now. andThen (prefixing strRequestFailed (postJSON nv signedURL [] (textPayload (pingText nv now))))
         (pingCheck nv ''errcode'' ''errmsg'' strDingTalk))))"

definition pingWebhookChannel :: "notify_env \<Rightarrow> string \<Rightarrow> ('m alert_db_scheme, string, unit) act" where
  "pingWebhookChannel nv config = (let cfg = parseWebhookChannelConfig config; targetURL = TrimSpace (wc_URL cfg) in
     if targetURL = [] then fail (''Webhook URL'' @ strNotConfigured)
     else andThen timeNow (\<lambda>now1. andThen timeNow (\<lambda>now2.
       andThen (prefixing strRequestFailed (postJSON nv targetURL (headersOf (wc_Headers cfg))
         (webhookPayload strPing (strChannelPing @ formatDateTime '' '' (localSeconds (nv_zone nv) now1)) 0 0 (formatRFC3339 (nv_zone nv) now2))))
         (\<lambda>_. ret ()))))"

definition pingWeComChannel :: "notify_env \<Rightarrow> string \<Rightarrow> ('m alert_db_scheme, string, unit) act" where
  "pingWeComChannel nv config = (let webhookURL = TrimSpace (wcc_WebhookURL (parseWeComChannelConfig config)) in
     if webhookURL = [] then fail (strWeCom @ '' Webhook URL'' @ strNotConfigured)
     else andThen timeNow (\<lambda>now. andThen (prefixing strRequestFailed (postJSON nv webhookURL [] (textPayload (pingText nv now))))
       (pingCheck nv ''errcode'' ''errmsg'' strWeCom)))"

definition pingFeishuChannel :: "notify_env \<Rightarrow> string \<Rightarrow> ('m alert_db_scheme, string, unit) act" where
  "pingFeishuChannel nv config = (let cfg = parseFeishuChannelConfig config; webhookURL = TrimSpace (fc_WebhookURL cfg) in
     if webhookURL = [] then fail (strFeishu @ '' Webhook URL'' @ strNotConfigured)
     else andThen timeNow (\<lambda>now. andThen (feishuPayload nv (fc_Secret cfg) (pingText nv now)) (\<lambda>payload.
       andThen (prefixing strRequestFailed (postJSON nv webhookURL [] payload)) (pingCheck nv ''code'' ''msg'' strFeishu))))"

definition PingChannel :: "notify_env \<Rightarrow> int \<Rightarrow> string \<Rightarrow> ('m alert_db_scheme, string, unit) act" where
  "PingChannel nv channelType config =
     (if channelType = AlertNotifyChannelDingTalk then pingDingTalkChannel nv config
      else if channelType = AlertNotifyChannelWebhook then pingWebhookChannel nv config
      else if channelType = AlertNotifyChannelEmail then fail strNoEmail
      else if channelType = AlertNotifyChannelWeCom then pingWeComChannel nv config
      else if channelType = AlertNotifyChannelFeishu then pingFeishuChannel nv config
      else fail (strUnsupported @ FormatInt channelType))"

section \<open>The queue\<close>

definition targetError :: "string \<Rightarrow> AlertChannel \<Rightarrow> goerr" where
  "targetError what channel = Errorf (what @ '' in channel('' @ FormatInt (Oid channel) @ '')'')"

definition resolveNotificationTargetFromChannel :: "AlertChannel \<Rightarrow> goerr + (string \<times> string)" where
  "resolveNotificationTargetFromChannel channel =
     (if \<not> ac_Enabled channel then Inl (Errorf (''alert channel('' @ FormatInt (Oid channel) @ '') is disabled''))
      else if ac_ChannelType channel = AlertNotifyChannelDingTalk
      then (let cfg = parseDingTalkChannelConfig (ac_Config channel); receiver = TrimSpace (dc_WebhookURL cfg)
            in if receiver = [] then Inl (targetError ''dingtalk webhook_url is not configured'' channel)
               else Inr (receiver, secretExtension (dc_Secret cfg)))
      else if ac_ChannelType channel = AlertNotifyChannelWebhook
      then (let cfg = parseWebhookChannelConfig (ac_Config channel); receiver = TrimSpace (wc_URL cfg)
            in if receiver = [] then Inl (targetError ''webhook url is not configured'' channel)
               else Inr (receiver, headersExtension (wc_Headers cfg)))
      else if ac_ChannelType channel = AlertNotifyChannelWeCom
      then (let receiver = TrimSpace (wcc_WebhookURL (parseWeComChannelConfig (ac_Config channel)))
            in if receiver = [] then Inl (targetError ''wecom webhook_url is not configured'' channel) else Inr (receiver, []))
      else if ac_ChannelType channel = AlertNotifyChannelFeishu
      then (let cfg = parseFeishuChannelConfig (ac_Config channel); receiver = TrimSpace (fc_WebhookURL cfg)
            in if receiver = [] then Inl (targetError ''feishu webhook_url is not configured'' channel)
               else Inr (receiver, secretExtension (fc_Secret cfg)))
      else Inl (targetError (''channel type '' @ FormatInt (ac_ChannelType channel) @ '' is not supported'') channel))"

definition newNotification :: "AlertRule \<Rightarrow> AlertEvent \<Rightarrow> AlertChannel \<Rightarrow> string \<Rightarrow> string \<times> string \<Rightarrow> AlertNotification" where
  "newNotification rule event channel content target = pixiu_model.extend newModel
     \<lparr>an_EventId = Oid event, an_RuleId = Oid rule, an_Channel = ac_ChannelType channel, an_Receiver = fst target,
      an_Title = ar_Name rule, an_Content = content, an_Status = AlertNotificationStatusPending, an_RetryCount = 0,
      an_ErrorMsg = [], an_Extension = snd target, an_Severity = ae_Severity event,
      an_Labels = BuildNotification (Some rule) (Some event) [], an_ChannelName = ac_Name channel\<rparr>"

definition enqueueOne :: "AlertRule \<Rightarrow> AlertEvent \<Rightarrow> string \<Rightarrow> AlertChannel list \<Rightarrow> int \<Rightarrow> ('m alert_db_scheme, goerr, unit) act" where
  "enqueueOne rule event content channels channelID = (case find (\<lambda>c. Oid c = channelID) (rev channels) of
     None \<Rightarrow> ret ()
   | Some channel \<Rightarrow> (case resolveNotificationTargetFromChannel channel of
       Inl err \<Rightarrow> ret ()
     | Inr target \<Rightarrow> andThen (alertNotificationCreate (newNotification rule event channel content target)) (\<lambda>_. ret ())))"

definition EnqueueForEvent :: "notify_env \<Rightarrow> AlertRule \<Rightarrow> AlertEvent \<Rightarrow> bool \<Rightarrow> ('m alert_db_scheme, goerr, unit) act" where
  "EnqueueForEvent nv rule event recovered = (let channelIDs = parseNotifyChannelIDs (ar_NotifyChannels rule) in
     if channelIDs = [] then ret ()
     else andThen (alertChannelList [WithIDIn channelIDs, WithEnabled ac_Enabled True]) (\<lambda>channels.
       andThen (buildNotificationContent nv rule (Some event) recovered) (\<lambda>content.
         forEach (enqueueOne rule event content channels) channelIDs)))"

definition maxNotifyRetry :: int where "maxNotifyRetry = 3"

text \<open>\<open>dispatchOne\<close> in its three parts: claim, send, record.\<close>

definition claimUpdates :: "AlertNotification \<Rightarrow> AlertNotification updates" where
  "claimUpdates item = [(''retry_count'', an_RetryCount_update (\<lambda>_. an_RetryCount item + 1))]"

definition recordUpdates :: "AlertNotification \<Rightarrow> string option \<Rightarrow> AlertNotification updates" where
  "recordUpdates item sendErr = (case sendErr of
     None \<Rightarrow> [(''status'', an_Status_update (\<lambda>_. AlertNotificationStatusSuccess)), (''error_msg'', an_ErrorMsg_update (\<lambda>_. []))]
   | Some err \<Rightarrow> (''error_msg'', an_ErrorMsg_update (\<lambda>_. err)) #
       (if maxNotifyRetry \<le> an_RetryCount item + 1 then [(''status'', an_Status_update (\<lambda>_. AlertNotificationStatusFailed))] else []))"

definition claimItem :: "AlertNotification \<Rightarrow> ('m alert_db_scheme, goerr, unit) act" where
  "claimItem item = alertNotificationUpdate (Oid item) (ResourceVersion item) (claimUpdates item)"

definition sendItem :: "notify_env \<Rightarrow> AlertNotification \<Rightarrow> ('m alert_db_scheme, goerr, string option) act" where
  "sendItem nv item = onResult (sendByChannel nv item) (\<lambda>err. ret (Some err)) (\<lambda>_. ret None)"

definition recordItem :: "AlertNotification \<Rightarrow> string option \<Rightarrow> ('m alert_db_scheme, goerr, unit) act" where
  "recordItem item sendErr = alertNotificationUpdate (Oid item) (ResourceVersion item + 1) (recordUpdates item sendErr)"

definition dispatchOne :: "notify_env \<Rightarrow> AlertNotification \<Rightarrow> ('m alert_db_scheme, goerr, unit) act" where
  "dispatchOne nv item = onResult (claimItem item) (\<lambda>_. ret ()) (\<lambda>_. andThen (sendItem nv item) (recordItem item))"

definition DispatchPending :: "notify_env \<Rightarrow> ('m alert_db_scheme, goerr, unit) act" where
  "DispatchPending nv = andThen (alertNotificationListPending 100) (\<lambda>items.
     forEach (\<lambda>item. ignoring (dispatchOne nv item)) items)"

end
