(* ===== verification/NotifyProps.thy ===== *)
theory NotifyProps
  imports Notify
begin

text \<open>
  Dispatching: one dispatcher that works alone empties the queue.
\<close>

section \<open>A guarded update that succeeds\<close>

context db_table
begin

lemma daoUpdate_succeeds:
  assumes "fault w (Suc (tick w)) = None" and u: "tuniq t = (\<lambda>_ _. False)" and r: "r \<in> set (rows (tget t w))" "versionMatch i v r"
  shows "daoUpdate t e i v us w =
    (Inr (), tupd t (updTable (versionMatch i v) (versionedUpdates (clock w (tick w)) v us)) (w\<lparr>tick := Suc (Suc (tick w))\<rparr>))"
proof -
  let ?us = "versionedUpdates (clock w (tick w)) v us"
  have "ResourceVersion (applyUpdates ?us r) = v + 1" by (simp add: versionedUpdates_def applyUpdates_def)
  with r have "updRow (versionMatch i v) ?us r \<noteq> r" by (auto simp: updRow_def versionMatch_def)
  with r have c: "changedRows (versionMatch i v) ?us (tget t w) \<noteq> []" by (auto simp: changedRows_def filter_empty_conv)
  have n: "\<not> updConflict (tuniq t) (versionMatch i v) ?us T" for T by (simp add: updConflict_def u list_ex_iff)
  show ?thesis
    using assms(1) c by (simp add: daoUpdate_def andThen_def onResult_def timeNow_def sqlUpdates_def stmt_def Let_def n ret_def)
qed

end

lemma updTable_only:
  assumes "table_ok T" and r: "r \<in> set (rows T)" and "ResourceVersion r = v"
  shows "rows (updTable (versionMatch (Oid r) v) us T) = map (\<lambda>s. if s = r then applyUpdates us r else s) (rows T)"
  using table_ok_Oid_eq [OF assms(1) _ r] assms(3)
  by (auto simp: updTable_def updRow_def versionMatch_def)

lemma notificationUpdate_current:
  assumes "table_ok (alert_notifications w)" and r: "r \<in> set (rows (alert_notifications w))" and "\<forall>n. fault w n = None"
  shows "\<exists>now w'. alertNotificationUpdate (Oid r) (ResourceVersion r) us w = (Inr (), w') \<and>
    w' = w\<lparr>tick := tick w', alert_notifications := alert_notifications w'\<rparr> \<and>
    rows (alert_notifications w') = map (\<lambda>s. if s = r then applyUpdates (versionedUpdates now (ResourceVersion r) us) r else s) (rows (alert_notifications w))"
proof -
  have "alertNotificationUpdate (Oid r) (ResourceVersion r) us w = (Inr (), alert_notifications_update
      (updTable (versionMatch (Oid r) (ResourceVersion r)) (versionedUpdates (clock w (tick w)) (ResourceVersion r) us)) (w\<lparr>tick := Suc (Suc (tick w))\<rparr>))"
    unfolding alertNotificationUpdate_def
    by (subst alert_notifications_tab.daoUpdate_succeeds [where r = r]) (use assms in \<open>simp_all add: versionMatch_def\<close>)
  with updTable_only [OF assms(1,2) refl] show ?thesis by fastforce
qed

section \<open>Sending changes nothing but the network\<close>

definition sentAtMostOne :: "'m alert_db_scheme \<Rightarrow> 'm alert_db_scheme \<Rightarrow> bool" where
  "sentAtMostOne w w' \<longleftrightarrow> w' = w\<lparr>tick := tick w', outbox := outbox w'\<rparr> \<and> (outbox w' = outbox w \<or> (\<exists>p. outbox w' = outbox w @ [p]))"

lemma wp_postJSON [wp_simps]:
  "wp (postJSON nv url headers payload) Q E = (\<lambda>w. case nv_url nv url of
     None \<Rightarrow> E (nv_urlErr nv url) w
   | Some _ \<Rightarrow> (let req = \<lparr>hp_URL = url, hp_Headers = requestHeaders headers, hp_Body = jsonPrint payload\<rparr>;
        w1 = w\<lparr>tick := Suc (tick w), outbox := outbox w @ [req]\<rparr>
      in (case nv_net nv (tick w) req of
           NoReply err \<Rightarrow> E err w1 | BodyError status err \<Rightarrow> E err w1
         | Reply status body0 \<Rightarrow> (let body = take maxResponse body0
             in if status < 200 \<or> 300 \<le> status
                then E (''unexpected status code: '' @ FormatInt status @ '', body: '' @ body) w1 else Q body w1))))"
  by (auto simp: postJSON_def wp_def fail_def fun_eq_iff Let_def split: option.splits http_reply.splits)

lemma wp_seq: "wp m Q' E w \<Longrightarrow> (\<And>x w'. Q' x w' \<Longrightarrow> wp (f x) Q E w') \<Longrightarrow> wp (andThen m f) Q E w"
  unfolding wp_andThen by (rule wp_mono)

lemma wp_checkBot: "wp (checkBot nv c m i r body) (\<lambda>_. P) (\<lambda>_. P) w = P w"
  by (auto simp: checkBot_def wp_simps split: option.splits)

definition quiet :: "'m env_scheme \<Rightarrow> 'm env_scheme \<Rightarrow> bool" where
  "quiet w w' \<longleftrightarrow> w' = w\<lparr>tick := tick w'\<rparr>"

lemma quiet_sent: "quiet w w' \<Longrightarrow> sentAtMostOne w w'"
  unfolding quiet_def sentAtMostOne_def by (metis alert_db.surjective alert_db.update_convs(6) alert_db.select_convs(6) env.update_convs(1))

lemma post_sent: "quiet w w' \<Longrightarrow> wp (postJSON nv url headers payload) (\<lambda>_. sentAtMostOne w) (\<lambda>_. sentAtMostOne w) w'"
proof -
  assume q: "quiet w w'"
  have "sentAtMostOne w (w'\<lparr>tick := n, outbox := outbox w' @ [p]\<rparr>)" for n p
    by (subst q [unfolded quiet_def]) (simp add: sentAtMostOne_def arg_cong [OF q [unfolded quiet_def], of outbox])
  then show ?thesis using quiet_sent [OF q] by (auto simp: wp_simps Let_def split: option.splits http_reply.splits)
qed

lemma sign_quiet: "wp (signDingTalkWebhookURL nv url sec) (\<lambda>_. quiet w) (\<lambda>_. sentAtMostOne w) w"
  by (auto simp: signDingTalkWebhookURL_def wp_simps Let_def quiet_def intro: quiet_sent split: option.splits)

lemma feishu_quiet: "wp (feishuPayload nv sec txt) (\<lambda>_. quiet w) E w"
  by (auto simp: feishuPayload_def wp_simps Let_def quiet_def)

lemma wp_fail_same: "wp (fail e) Q (\<lambda>_. sentAtMostOne w) w"
  by (simp add: wp_simps sentAtMostOne_def)

lemma checkBot_sent: "sentAtMostOne w w' \<Longrightarrow> wp (checkBot nv c m i r body) (\<lambda>_. sentAtMostOne w) (\<lambda>_. sentAtMostOne w) w'"
  by (simp add: wp_checkBot)

lemma send_frame: "wp (sendByChannel nv item) (\<lambda>_. sentAtMostOne w) (\<lambda>_. sentAtMostOne w) w"
proof -
  have q: "quiet w w" by (simp add: quiet_def)
  have bot: "quiet w w' \<Longrightarrow> wp (andThen (postJSON nv url hs pl) (checkBot nv c m i r)) (\<lambda>_. sentAtMostOne w) (\<lambda>_. sentAtMostOne w) w'" for w' url hs pl c m i r
    by (rule wp_seq [OF post_sent checkBot_sent])
  have "wp (sendDingTalk nv item) (\<lambda>_. sentAtMostOne w) (\<lambda>_. sentAtMostOne w) w"
    unfolding sendDingTalk_def Let_def wp_if if_app
    using wp_fail_same wp_seq [OF sign_quiet bot] by auto
  moreover have "wp (sendWeCom nv item) (\<lambda>_. sentAtMostOne w) (\<lambda>_. sentAtMostOne w) w"
    unfolding sendWeCom_def Let_def wp_if if_app using wp_fail_same bot [OF q] by auto
  moreover have "wp (sendFeishu nv item) (\<lambda>_. sentAtMostOne w) (\<lambda>_. sentAtMostOne w) w"
    unfolding sendFeishu_def Let_def wp_if if_app using wp_fail_same wp_seq [OF feishu_quiet bot] by auto
  moreover have "wp (sendWebhook nv item) (\<lambda>_. sentAtMostOne w) (\<lambda>_. sentAtMostOne w) w"
    unfolding sendWebhook_def Let_def wp_if if_app wp_andThen wp_timeNow wp_ret
    using wp_fail_same post_sent [of w "w\<lparr>tick := Suc (tick w)\<rparr>"] by (auto simp: quiet_def)
  ultimately show ?thesis unfolding sendByChannel_def sendEmail_def wp_if if_app using wp_fail_same by auto
qed

lemma sentD:
  assumes "sentAtMostOne w w'"
  shows "alert_notifications w' = alert_notifications w" "fault w' = fault w" "clock w' = clock w" "length (outbox w') \<le> Suc (length (outbox w))"
proof -
  have e: "w' = w\<lparr>tick := tick w', outbox := outbox w'\<rparr>" using assms unfolding sentAtMostOne_def by (rule conjunct1)
  show "alert_notifications w' = alert_notifications w" "fault w' = fault w" "clock w' = clock w"
    using arg_cong [OF e, of alert_notifications] arg_cong [OF e, of fault] arg_cong [OF e, of clock] by simp_all
  show "length (outbox w') \<le> Suc (length (outbox w))" using assms by (auto simp: sentAtMostOne_def)
qed

lemma sendItem_frame: "\<exists>err w'. sendItem nv item w = (Inr err, w') \<and> sentAtMostOne w w'"
  using send_frame [of nv item w] unfolding sendItem_def wp_def onResult_def ret_def by (auto split: prod.splits sum.splits)

section \<open>The request of a notification\<close>

text \<open>What a request has to be to belong to a notification: addressed to its receiver, with its text (as the channel words it)
  and, where the channel has a secret, a signature of the time \<open>now\<close>.\<close>

definition signedURL :: "notify_env \<Rightarrow> string \<Rightarrow> string \<Rightarrow> int \<Rightarrow> string option" where
  "signedURL nv url secret now = (if TrimSpace secret = [] then Some url
     else map_option (\<lambda>(before, query, rest). before @ ''?'' @ encodeQuery (qSet ''sign''
         (QueryEscape (base64Encode (nv_hmac nv (TrimSpace secret) (FormatInt (now div 10 ^ 6) @ newline @ TrimSpace secret))))
         (qSet ''timestamp'' (FormatInt (now div 10 ^ 6)) (parseQuery query))) @ rest) (nv_url nv url))"

definition feishuBody :: "notify_env \<Rightarrow> string \<Rightarrow> string \<Rightarrow> int \<Rightarrow> json" where
  "feishuBody nv secret txt now = JObj ([(''content'', JObj [(''text'', JStr txt)]), (''msg_type'', JStr ''text'')] @
     (if TrimSpace secret = [] then [] else [(''sign'', JStr (base64Encode (nv_hmac nv (FormatInt (now div 10 ^ 9) @ newline @ TrimSpace secret) []))),
        (''timestamp'', JStr (FormatInt (now div 10 ^ 9)))]))"

definition requestAt :: "notify_env \<Rightarrow> AlertNotification \<Rightarrow> int \<Rightarrow> http_post option" where
  "requestAt nv item now = (let url = TrimSpace (an_Receiver item); txt = normalizeNotifyNewlines (an_Content item) in
     if url = [] then None
     else if an_Channel item = AlertNotifyChannelDingTalk then
       map_option (\<lambda>signed. \<lparr>hp_URL = signed, hp_Headers = requestHeaders [], hp_Body = jsonPrint (textPayload txt)\<rparr>)
         (signedURL nv url (parseDingTalkNotificationExtension (an_Extension item)) now)
     else if an_Channel item = AlertNotifyChannelWeCom then Some \<lparr>hp_URL = url, hp_Headers = requestHeaders [], hp_Body = jsonPrint (textPayload txt)\<rparr>
     else if an_Channel item = AlertNotifyChannelFeishu then
       Some \<lparr>hp_URL = url, hp_Headers = requestHeaders [], hp_Body = jsonPrint (feishuBody nv (parseFeishuNotificationExtension (an_Extension item)) txt now)\<rparr>
     else if an_Channel item = AlertNotifyChannelWebhook then
       Some \<lparr>hp_URL = url, hp_Headers = requestHeaders (headersOf (parseWebhookNotificationExtension (an_Extension item))),
         hp_Body = jsonPrint (webhookPayload (an_Title item) (an_Content item) (an_EventId item) (an_RuleId item) (formatRFC3339 (nv_zone nv) now))\<rparr>
     else None)"

definition isRequestOf :: "notify_env \<Rightarrow> AlertNotification \<Rightarrow> http_post \<Rightarrow> bool" where
  "isRequestOf nv item p \<longleftrightarrow> (\<exists>now. requestAt nv item now = Some p)"

text \<open>The answer with which a receiver accepts: a status of the 200s and, from a bot, the code 0.\<close>

definition acceptsAnswer :: "AlertNotification \<Rightarrow> string \<Rightarrow> bool" where
  "acceptsAnswer item body \<longleftrightarrow>
     (an_Channel item \<in> {AlertNotifyChannelDingTalk, AlertNotifyChannelWeCom} \<longrightarrow> map_option br_ErrCode (unmarshalBot ''errcode'' ''errmsg'' body) = Some 0) \<and>
     (an_Channel item = AlertNotifyChannelFeishu \<longrightarrow> map_option br_ErrCode (unmarshalBot ''code'' ''msg'' body) = Some 0)"

definition answeredBy :: "notify_env \<Rightarrow> http_post \<Rightarrow> string \<Rightarrow> bool" where
  "answeredBy nv p body \<longleftrightarrow> (\<exists>t s full. nv_net nv t p = Reply s full \<and> 200 \<le> s \<and> s < 300 \<and> body = take maxResponse full)"

definition accepted :: "notify_env \<Rightarrow> AlertNotification \<Rightarrow> http_post \<Rightarrow> bool" where
  "accepted nv item p \<longleftrightarrow> isRequestOf nv item p \<and> (\<exists>body. answeredBy nv p body \<and> acceptsAnswer item body)"

text \<open>At most one request was sent, and it is one of the notification; with \<open>ok\<close> it was accepted.\<close>

definition posted :: "notify_env \<Rightarrow> AlertNotification \<Rightarrow> bool \<Rightarrow> 'm alert_db_scheme \<Rightarrow> 'm alert_db_scheme \<Rightarrow> bool" where
  "posted nv item ok w w' \<longleftrightarrow> (\<exists>ps. outbox w' = outbox w @ ps \<and> length ps \<le> 1 \<and> (\<forall>p \<in> set ps. isRequestOf nv item p) \<and>
     (ok \<longrightarrow> (\<exists>p \<in> set ps. accepted nv item p)))"

definition answered :: "notify_env \<Rightarrow> AlertNotification \<Rightarrow> 'm alert_db_scheme \<Rightarrow> string \<Rightarrow> 'm alert_db_scheme \<Rightarrow> bool" where
  "answered nv item w body w' \<longleftrightarrow> (\<exists>p. outbox w' = outbox w @ [p] \<and> isRequestOf nv item p \<and> answeredBy nv p body)"

lemma answered_posted: "answered nv item w body w' \<Longrightarrow> (ok \<Longrightarrow> acceptsAnswer item body) \<Longrightarrow> posted nv item ok w w'"
  unfolding answered_def posted_def accepted_def by (elim exE conjE) (rule exI, auto)

lemma answeredBy: "nv_net nv t p = Reply s full \<Longrightarrow> \<not> s < 200 \<Longrightarrow> \<not> 300 \<le> s \<Longrightarrow> answeredBy nv p (take maxResponse full)"
  unfolding answeredBy_def by (intro exI [of _ t] exI [of _ s] exI [of _ full]) simp

lemma posted_none: "outbox w' = outbox w \<Longrightarrow> posted nv item False w w'"
  by (simp add: posted_def)

lemma quiet_outbox:
  assumes "quiet w w'" shows "outbox w' = outbox w"
  by (subst assms [unfolded quiet_def]) simp

lemma post_answered:
  assumes "outbox w' = outbox w" and "isRequestOf nv item \<lparr>hp_URL = url, hp_Headers = requestHeaders headers, hp_Body = jsonPrint payload\<rparr>"
  shows "wp (postJSON nv url headers payload) (answered nv item w) (\<lambda>_. posted nv item False w) w'"
  using assms by (auto simp: wp_postJSON Let_def answered_def posted_def intro: answeredBy split: option.splits http_reply.splits)

lemma post_checked:
  assumes "outbox w' = outbox w" and "isRequestOf nv item \<lparr>hp_URL = url, hp_Headers = requestHeaders headers, hp_Body = jsonPrint payload\<rparr>"
    and "\<And>body. map_option br_ErrCode (unmarshalBot c m body) = Some 0 \<Longrightarrow> acceptsAnswer item body"
  shows "wp (andThen (postJSON nv url headers payload) (checkBot nv c m i r)) (\<lambda>_. posted nv item True w) (\<lambda>_. posted nv item False w) w'"
  by (rule wp_seq [OF post_answered [OF assms(1,2)]])
    (auto simp: checkBot_def wp_simps intro!: answered_posted assms(3) split: option.splits elim: answered_posted)

lemma sign_at: "wp (signDingTalkWebhookURL nv url secret) (\<lambda>signed w'. outbox w' = outbox w \<and> (\<exists>now. signedURL nv url secret now = Some signed))
    (\<lambda>_. posted nv item False w) (w :: 'm alert_db_scheme)"
  by (auto simp: posted_none signDingTalkWebhookURL_def signedURL_def wp_simps Let_def split: option.splits)

lemma feishu_at: "wp (feishuPayload nv secret txt) (\<lambda>payload w'. outbox w' = outbox w \<and> (\<exists>now. payload = feishuBody nv secret txt now)) E (w :: 'm alert_db_scheme)"
  by (auto simp: feishuPayload_def feishuBody_def wp_simps Let_def)

lemma send_posts: "wp (sendByChannel nv item) (\<lambda>_. posted nv item True w) (\<lambda>_. posted nv item False w) w"
proof (cases "TrimSpace (an_Receiver item) = []")
  case True
  then show ?thesis
    by (simp add: sendByChannel_def sendEmail_def sendDingTalk_def sendWeCom_def sendFeishu_def sendWebhook_def wp_if if_app wp_fail posted_none)
next
  case False
  note channels = AlertNotifyChannelDingTalk_def AlertNotifyChannelWeCom_def AlertNotifyChannelFeishu_def AlertNotifyChannelWebhook_def
  have none: "posted nv item False w w" by (rule posted_none) simp
  have "wp (sendDingTalk nv item) (\<lambda>_. posted nv item True w) (\<lambda>_. posted nv item False w) w" if "an_Channel item = AlertNotifyChannelDingTalk"
    unfolding sendDingTalk_def Let_def using that False
    by (auto simp: isRequestOf_def requestAt_def acceptsAnswer_def channels intro!: wp_seq [OF sign_at] post_checked)
  moreover have "wp (sendWeCom nv item) (\<lambda>_. posted nv item True w) (\<lambda>_. posted nv item False w) w" if "an_Channel item = AlertNotifyChannelWeCom"
    unfolding sendWeCom_def Let_def using that False by (auto simp: isRequestOf_def requestAt_def acceptsAnswer_def channels intro!: post_checked)
  moreover have "wp (sendFeishu nv item) (\<lambda>_. posted nv item True w) (\<lambda>_. posted nv item False w) w" if "an_Channel item = AlertNotifyChannelFeishu"
    unfolding sendFeishu_def Let_def using that False
    by (auto simp: isRequestOf_def requestAt_def acceptsAnswer_def channels intro!: wp_seq [OF feishu_at] post_checked)
  moreover have "wp (sendWebhook nv item) (\<lambda>_. posted nv item True w) (\<lambda>_. posted nv item False w) w" if "an_Channel item = AlertNotifyChannelWebhook"
  proof -
    have "acceptsAnswer item body" for body using that by (simp add: acceptsAnswer_def channels)
    then have "wp (andThen (postJSON nv (TrimSpace (an_Receiver item)) (headersOf (parseWebhookNotificationExtension (an_Extension item)))
        (webhookPayload (an_Title item) (an_Content item) (an_EventId item) (an_RuleId item) (formatRFC3339 (nv_zone nv) now))) (\<lambda>_. ret ()))
        (\<lambda>_. posted nv item True w) (\<lambda>_. posted nv item False w) (w\<lparr>tick := n\<rparr>)" for now n
      using that False by (intro wp_seq [OF post_answered]) (auto simp: isRequestOf_def requestAt_def channels wp_ret intro!: answered_posted)
    then show ?thesis unfolding sendWebhook_def Let_def wp_if if_app wp_andThen [of timeNow] wp_timeNow using False by simp
  qed
  ultimately show ?thesis unfolding sendByChannel_def sendEmail_def wp_if if_app wp_fail using none by auto
qed

lemma sendItem_posts: "\<exists>err w'. sendItem nv item w = (Inr err, w') \<and> sentAtMostOne w w' \<and> posted nv item (err = None) w w'"
  using send_frame [of nv item w] send_posts [of nv item w] unfolding sendItem_def wp_def onResult_def ret_def by (auto split: prod.splits sum.splits)

section \<open>The fate of a notification\<close>

text \<open>The bookkeeping of a notification changes, never its message.\<close>

definition sameMessage :: "AlertNotification \<Rightarrow> AlertNotification \<Rightarrow> bool" where
  "sameMessage r r' \<longleftrightarrow> r' = r\<lparr>GmtModified := GmtModified r', ResourceVersion := ResourceVersion r', an_Status := an_Status r',
     an_RetryCount := an_RetryCount r', an_ErrorMsg := an_ErrorMsg r'\<rparr>"

text \<open>How often a pending notification can still be tried, if nothing else goes wrong.\<close>

definition triesLeft :: "AlertNotification \<Rightarrow> nat" where
  "triesLeft r = (if an_Status r = AlertNotificationStatusPending then nat (max 1 (maxNotifyRetry - an_RetryCount r)) else 0)"

text \<open>What happened to a notification while the requests \<open>ps\<close> were sent for it: they are its own, no more than there were tries
  left, it succeeded only by a request that was accepted and failed only after the last try; settled ones are not touched.\<close>

definition fate :: "notify_env \<Rightarrow> AlertNotification \<Rightarrow> http_post list \<Rightarrow> AlertNotification \<Rightarrow> bool" where
  "fate nv r ps r' \<longleftrightarrow> sameMessage r r' \<and> (\<forall>p \<in> set ps. isRequestOf nv r p) \<and> length ps + triesLeft r' \<le> triesLeft r \<and>
     (if an_Status r = AlertNotificationStatusPending
      then an_Status r' = AlertNotificationStatusPending \<or> (an_Status r' = AlertNotificationStatusSuccess \<and> (\<exists>p \<in> set ps. accepted nv r p)) \<or>
        (an_Status r' = AlertNotificationStatusFailed \<and> maxNotifyRetry \<le> an_RetryCount r')
      else r' = r)"

lemma sameMessage_fields:
  assumes "sameMessage r r'"
  shows "isRequestOf nv r' = isRequestOf nv r" "accepted nv r' = accepted nv r" "Oid r' = Oid r"
proof -
  have f: "an_Receiver r' = an_Receiver r" "an_Content r' = an_Content r" "an_Channel r' = an_Channel r" "an_Extension r' = an_Extension r" "an_Title r' = an_Title r"
    "an_EventId r' = an_EventId r" "an_RuleId r' = an_RuleId r" "Oid r' = Oid r"
    by (subst assms [unfolded sameMessage_def], simp)+
  have "requestAt nv r' now = requestAt nv r now" for now unfolding requestAt_def f ..
  then show i: "isRequestOf nv r' = isRequestOf nv r" by (simp add: fun_eq_iff isRequestOf_def)
  show "Oid r' = Oid r" by (rule f)
  from f i show "accepted nv r' = accepted nv r" by (simp add: fun_eq_iff accepted_def acceptsAnswer_def)
qed

lemma sameMessage_refl: "sameMessage r r"
  by (simp add: sameMessage_def)

lemma sameMessage_trans:
  assumes "sameMessage r r1" and "sameMessage r1 r2"
  shows "sameMessage r r2"
proof -
  have "r1\<lparr>GmtModified := a, ResourceVersion := b, an_Status := c, an_RetryCount := d, an_ErrorMsg := e\<rparr> =
      r\<lparr>GmtModified := a, ResourceVersion := b, an_Status := c, an_RetryCount := d, an_ErrorMsg := e\<rparr>" for a b c d e
    by (subst assms(1) [unfolded sameMessage_def]) simp
  then show ?thesis using assms(2) unfolding sameMessage_def by metis
qed

lemma fate_refl: "fate nv r [] r"
  by (simp add: fate_def sameMessage_refl)

lemma fate_trans:
  assumes "fate nv r ps r1" and "fate nv r1 qs r2"
  shows "fate nv r (ps @ qs) r2"
proof -
  have m: "sameMessage r r1" "sameMessage r1 r2" using assms by (simp_all add: fate_def)
  from assms(2) have "fate nv r1 qs r2" .
  with assms(1) sameMessage_trans [OF m] show ?thesis
    by (auto simp: fate_def sameMessage_fields(1,2) [OF m(1)] notification_status_defs split: if_splits)
qed

text \<open>The same for all notifications: \<open>f\<close> is what became of the rows, \<open>sent\<close> the requests in their order, each with the key of
  the notification it was sent for.\<close>

definition requestsFor :: "AlertNotification \<Rightarrow> (int \<times> http_post) list \<Rightarrow> http_post list" where
  "requestsFor r sent = map snd (filter (\<lambda>x. fst x = Oid r) sent)"

definition ledger :: "notify_env \<Rightarrow> 'm alert_db_scheme \<Rightarrow> (int \<times> http_post) list \<Rightarrow> (AlertNotification \<Rightarrow> AlertNotification) \<Rightarrow> 'm alert_db_scheme \<Rightarrow> bool" where
  "ledger nv w sent f w' \<longleftrightarrow> rows (alert_notifications w') = map f (rows (alert_notifications w)) \<and> outbox w' = outbox w @ map snd sent \<and>
     fst ` set sent \<subseteq> Oid ` set (rows (alert_notifications w)) \<and> (\<forall>r \<in> set (rows (alert_notifications w)). fate nv r (requestsFor r sent) (f r))"

lemma requestsFor_simps [simp]: "requestsFor r [] = []" "requestsFor r (xs @ ys) = requestsFor r xs @ requestsFor r ys"
  by (simp_all add: requestsFor_def)

lemma ledger_refl: "rows (alert_notifications w') = rows (alert_notifications w) \<Longrightarrow> outbox w' = outbox w \<Longrightarrow> ledger nv w [] id w'"
  by (simp add: ledger_def fate_refl)

lemma ledger_trans:
  assumes "ledger nv w s1 f w1" and "ledger nv w1 s2 g w2"
  shows "ledger nv w (s1 @ s2) (\<lambda>r. g (f r)) w2"
proof -
  have o: "Oid (f r) = Oid r" "fate nv r (requestsFor r s1) (f r)" if "r \<in> set (rows (alert_notifications w))" for r
    using assms(1) that sameMessage_fields(3) by (auto simp: ledger_def fate_def)
  then have q: "requestsFor (f r) s2 = requestsFor r s2" if "r \<in> set (rows (alert_notifications w))" for r using that by (simp add: requestsFor_def)
  have "fate nv r (requestsFor r (s1 @ s2)) (g (f r))" if r: "r \<in> set (rows (alert_notifications w))" for r
  proof -
    have "fate nv (f r) (requestsFor (f r) s2) (g (f r))" using assms r by (auto simp: ledger_def)
    with fate_trans [OF o(2) [OF r]] show ?thesis by (simp add: q [OF r])
  qed
  moreover have "Oid ` f ` set (rows (alert_notifications w)) = Oid ` set (rows (alert_notifications w))" using o(1) by (force simp: image_iff)
  ultimately show ?thesis using assms by (auto simp: ledger_def)
qed

section \<open>One dispatch\<close>

text \<open>What a dispatch makes of a pending notification it has read and that nobody else changed.\<close>

definition advanced :: "AlertNotification \<Rightarrow> AlertNotification \<Rightarrow> bool" where
  "advanced r r' \<longleftrightarrow> Oid r' = Oid r \<and> an_RetryCount r' = an_RetryCount r + 1 \<and>
     (an_Status r' = AlertNotificationStatusPending \<longrightarrow> an_RetryCount r' < maxNotifyRetry)"

lemma table_ok_same_Oids: "table_ok T \<Longrightarrow> map Oid (rows T') = map Oid (rows T) \<Longrightarrow> next_id T' = next_id T \<Longrightarrow> table_ok T'"
  unfolding table_ok_def by (metis image_iff list.set_map)

lemma notificationUpdate_ok: "table_ok (alert_notifications w) \<Longrightarrow> keepsOid us \<Longrightarrow> table_ok (alert_notifications (snd (alertNotificationUpdate i v us w)))"
  using alert_notifications_lock.update_wf by blast

lemma keepsOid_dispatch [simp]: "keepsOid (claimUpdates item)" "keepsOid (recordUpdates item err)"
  by (auto simp: keepsOid_def claimUpdates_def recordUpdates_def applyUpdates_def split: option.splits)

lemma recorded_fate:
  assumes "sameMessage item r" and "an_RetryCount r = an_RetryCount item + 1"
    and p: "an_Status item = AlertNotificationStatusPending" "0 \<le> an_RetryCount item"
    and s: "an_Status r = (if err = None then AlertNotificationStatusSuccess else
        if maxNotifyRetry \<le> an_RetryCount item + 1 then AlertNotificationStatusFailed else AlertNotificationStatusPending)"
    and ps: "length ps \<le> 1" "\<forall>p \<in> set ps. isRequestOf nv item p" "err = None \<longrightarrow> (\<exists>p \<in> set ps. accepted nv item p)"
  shows "advanced item r \<and> fate nv item ps r"
  using assms sameMessage_fields(3) [OF assms(1)]
  by (auto simp: fate_def advanced_def triesLeft_def maxNotifyRetry_def notification_status_defs split: if_splits)

text \<open>The requests of one notification in the ledger of all.\<close>

lemma ledger_one:
  assumes ok: "table_ok (alert_notifications w)" and i: "item \<in> set (rows (alert_notifications w))"
    and rows: "rows (alert_notifications w') = map (\<lambda>s. if s = item then r' else s) (rows (alert_notifications w))"
    and o: "outbox w' = outbox w @ ps" "fate nv item ps r'"
  shows "ledger nv w (map (Pair (Oid item)) ps) (\<lambda>s. if s = item then r' else s) w'"
proof -
  have "requestsFor r (map (Pair (Oid item)) ps) = (if r = item then ps else [])" if "r \<in> set (rows (alert_notifications w))" for r
  proof (cases "r = item")
    case False
    then have "Oid item \<noteq> Oid r" using table_ok_Oid_eq [OF ok that i] by metis
    with False show ?thesis by (simp add: requestsFor_def filter_map comp_def)
  qed (simp add: requestsFor_def filter_map comp_def)
  then show ?thesis using i o by (auto simp: ledger_def rows fate_refl comp_def)
qed

lemma dispatchOne_current:
  assumes ok: "table_ok (alert_notifications w)" and r: "item \<in> set (rows (alert_notifications w))" and nf: "\<forall>n. fault w n = None"
    and p: "an_Status item = AlertNotificationStatusPending" "0 \<le> an_RetryCount item"
  shows "\<exists>r' w'. dispatchOne nv item w = (Inr (), w') \<and> advanced item r' \<and> table_ok (alert_notifications w') \<and> fault w' = fault w \<and>
    rows (alert_notifications w') = map (\<lambda>s. if s = item then r' else s) (rows (alert_notifications w)) \<and>
    (\<exists>ps. outbox w' = outbox w @ ps \<and> fate nv item ps r')"
proof -
  obtain now w1 where c: "claimItem item w = (Inr (), w1)" and w1: "w1 = w\<lparr>tick := tick w1, alert_notifications := alert_notifications w1\<rparr>"
    and rows1: "rows (alert_notifications w1) = map (\<lambda>s. if s = item then applyUpdates (versionedUpdates now (ResourceVersion item) (claimUpdates item)) item else s) (rows (alert_notifications w))"
    using notificationUpdate_current [OF ok r nf, of "claimUpdates item"] unfolding claimItem_def by blast
  define r1 where "r1 = applyUpdates (versionedUpdates now (ResourceVersion item) (claimUpdates item)) item"
  have r1: "Oid r1 = Oid item" "ResourceVersion r1 = ResourceVersion item + 1" "an_RetryCount r1 = an_RetryCount item + 1" "an_Status r1 = an_Status item"
    by (simp_all add: r1_def versionedUpdates_def applyUpdates_def claimUpdates_def)
  have ok1: "table_ok (alert_notifications w1)"
    using notificationUpdate_ok [OF ok, of "claimUpdates item" "Oid item" "ResourceVersion item"] c by (simp add: claimItem_def)
  obtain err w2 where s: "sendItem nv item w1 = (Inr err, w2)" and sent: "sentAtMostOne w1 w2" and "posted nv item (err = None) w1 w2"
    using sendItem_posts by blast
  then obtain ps where ps: "outbox w2 = outbox w @ ps" "length ps \<le> 1" "\<forall>p \<in> set ps. isRequestOf nv item p" "err = None \<longrightarrow> (\<exists>p \<in> set ps. accepted nv item p)"
    using arg_cong [OF w1, of outbox] by (auto simp: posted_def)
  have w2: "alert_notifications w2 = alert_notifications w1" "fault w2 = fault w"
    using sentD [OF sent] arg_cong [OF w1, of fault] by simp_all
  have m2: "r1 \<in> set (rows (alert_notifications w2))" using r by (simp add: w2(1) rows1 r1_def image_iff)
  have ok2: "table_ok (alert_notifications w2)" and nf2: "\<forall>n. fault w2 n = None" using ok1 nf w2(1,2) by simp_all
  obtain now' w3 where d: "alertNotificationUpdate (Oid r1) (ResourceVersion r1) (recordUpdates item err) w2 = (Inr (), w3)"
    and w3: "w3 = w2\<lparr>tick := tick w3, alert_notifications := alert_notifications w3\<rparr>"
    and rows3: "rows (alert_notifications w3) = map (\<lambda>s. if s = r1 then applyUpdates (versionedUpdates now' (ResourceVersion r1) (recordUpdates item err)) r1 else s) (rows (alert_notifications w2))"
    using notificationUpdate_current [OF ok2 m2 nf2, of "recordUpdates item err"] by blast
  define r2 where "r2 = applyUpdates (versionedUpdates now' (ResourceVersion r1) (recordUpdates item err)) r1"
  have same: "sameMessage item r2"
    by (auto simp: sameMessage_def r2_def r1_def versionedUpdates_def applyUpdates_def recordUpdates_def claimUpdates_def split: option.splits)
  have "an_RetryCount r2 = an_RetryCount item + 1" "an_Status r2 = (if err = None then AlertNotificationStatusSuccess else
      if maxNotifyRetry \<le> an_RetryCount item + 1 then AlertNotificationStatusFailed else AlertNotificationStatusPending)"
    using r1 p by (auto simp: r2_def versionedUpdates_def applyUpdates_def recordUpdates_def split: option.splits)
  from recorded_fate [OF same this(1) p this(2) ps(2-4)] have "advanced item r2 \<and> fate nv item ps r2" .
  moreover have "dispatchOne nv item w = (Inr (), w3)"
    using c s d r1 by (simp add: dispatchOne_def onResult_def andThen_def recordItem_def)
  moreover have "rows (alert_notifications w3) = map (\<lambda>s. if s = item then r2 else s) (rows (alert_notifications w))"
  proof -
    have "r1 \<notin> set (rows (alert_notifications w))" if "r1 \<noteq> item" using table_ok_Oid_eq [OF ok _ r, of r1] r1(1) that by blast
    then show ?thesis unfolding rows3 w2(1) rows1 r1_def [symmetric] r2_def [symmetric] by auto
  qed
  moreover have "table_ok (alert_notifications w3)"
    using notificationUpdate_ok [of w2 "recordUpdates item err" "Oid r1" "ResourceVersion r1"] ok1 d by (simp add: w2(1))
  moreover have "fault w3 = fault w" "outbox w3 = outbox w2" using w2(2) arg_cong [OF w3, of fault] arg_cong [OF w3, of outbox] by simp_all
  ultimately show ?thesis using ps(1) by (intro exI [of _ r2] exI [of _ w3]) auto
qed


section \<open>A round of dispatching\<close>

definition pendingRows :: "'m alert_db_scheme \<Rightarrow> AlertNotification list" where
  "pendingRows w = filter (\<lambda>r. an_Status r = AlertNotificationStatusPending) (rows (alert_notifications w))"

lemma dispatchLoop:
  assumes "table_ok (alert_notifications w)" and "\<forall>n. fault w n = None"
    and "set items \<subseteq> set (pendingRows w)" and "distinct (map Oid items)" and "\<forall>i \<in> set items. 0 \<le> an_RetryCount i"
  shows "\<exists>f w'. forEach (\<lambda>item. ignoring (dispatchOne nv item)) items w = (Inr () :: goerr + unit, w') \<and>
    table_ok (alert_notifications w') \<and> fault w' = fault w \<and>
    rows (alert_notifications w') = map f (rows (alert_notifications w)) \<and>
    (\<forall>r. if r \<in> set items then advanced r (f r) else f r = r) \<and>
    (\<exists>sent. ledger nv w sent f w')"
  using assms
proof (induction items arbitrary: w)
  case Nil
  then show ?case using ledger_refl [of w w nv] by (intro exI [of _ id] exI [of _ w]) (simp add: ret_def id_def, blast)
next
  case (Cons item items)
  from Cons.prems(3) have i: "item \<in> set (rows (alert_notifications w))" "an_Status item = AlertNotificationStatusPending" "0 \<le> an_RetryCount item"
    using Cons.prems(5) by (auto simp: pendingRows_def)
  from dispatchOne_current [OF Cons.prems(1) i(1) Cons.prems(2) i(2,3), of nv] obtain r' w1 ps where d: "dispatchOne nv item w = (Inr (), w1)"
    and adv: "advanced item r'" and ok: "table_ok (alert_notifications w1)" and f1: "fault w1 = fault w"
    and rows1: "rows (alert_notifications w1) = map (\<lambda>s. if s = item then r' else s) (rows (alert_notifications w))"
    and o1: "outbox w1 = outbox w @ ps" "fate nv item ps r'" by blast
  note led = ledger_one [OF Cons.prems(1) i(1) rows1 o1]
  have ni: "x \<noteq> item \<and> x \<noteq> r'" if "x \<in> set items" for x
  proof -
    have "Oid x \<in> Oid ` set items" using that by (rule imageI)
    then have "Oid x \<noteq> Oid item" using Cons.prems(4) by auto
    with adv show ?thesis by (auto simp: advanced_def)
  qed
  have nf1: "\<forall>n. fault w1 n = None" and dist: "distinct (map Oid items)" using Cons.prems(2,4) f1 by simp_all
  have sub: "set items \<subseteq> set (pendingRows w1)"
    using Cons.prems(3) ni by (fastforce simp: pendingRows_def rows1 image_iff)
  have pos: "\<forall>i \<in> set items. 0 \<le> an_RetryCount i" using Cons.prems(5) by simp
  from Cons.IH [OF ok nf1 sub dist pos] obtain f w2 sent where l: "forEach (\<lambda>item. ignoring (dispatchOne nv item)) items w1 = (Inr () :: goerr + unit, w2)"
    and ok2: "table_ok (alert_notifications w2)" and f2: "fault w2 = fault w1" and rows2: "rows (alert_notifications w2) = map f (rows (alert_notifications w1))"
    and f: "\<forall>r. if r \<in> set items then advanced r (f r) else f r = r" and o2: "ledger nv w1 sent f w2" by blast
  let ?f = "\<lambda>s. f (if s = item then r' else s)"
  have "f r' = r'" using f ni by metis
  then have "\<forall>r. if r \<in> set (item # items) then advanced r (?f r) else ?f r = r" using f adv ni by auto
  moreover have "rows (alert_notifications w2) = map ?f (rows (alert_notifications w))" by (simp add: rows2 rows1)
  moreover have "forEach (\<lambda>item. ignoring (dispatchOne nv item)) (item # items) w = (Inr () :: goerr + unit, w2)"
    using d l by (simp add: andThen_def onResult_def ignoring_def ret_def)
  moreover have "\<exists>sent. ledger nv w sent ?f w2" using ledger_trans [OF led o2] by blast
  ultimately show ?case using ok2 f2 f1 by (intro exI [of _ ?f] exI [of _ w2]) simp
qed


definition dispatchRound :: "notify_env \<Rightarrow> 'm alert_db_scheme \<Rightarrow> 'm alert_db_scheme" where
  "dispatchRound nv w = snd (DispatchPending nv w)"

definition workLeft :: "'m alert_db_scheme \<Rightarrow> nat" where
  "workLeft w = sum_list (map triesLeft (rows (alert_notifications w)))"

text \<open>The situation the rounds start from: a well-formed table, a database that answers, no negative counter.\<close>

definition dispatchable :: "'m alert_db_scheme \<Rightarrow> bool" where
  "dispatchable w \<longleftrightarrow> table_ok (alert_notifications w) \<and> (\<forall>n. fault w n = None) \<and> (\<forall>r \<in> set (pendingRows w). 0 \<le> an_RetryCount r)"

lemma triesLeft_advanced:
  "an_Status r = AlertNotificationStatusPending \<Longrightarrow> 0 \<le> an_RetryCount r \<Longrightarrow> advanced r r' \<Longrightarrow> triesLeft r' + 1 \<le> triesLeft r \<and> triesLeft r \<le> 3"
  by (auto simp: triesLeft_def advanced_def maxNotifyRetry_def)

lemma round_spec:
  assumes "dispatchable w"
  shows "\<exists>f. rows (alert_notifications (dispatchRound nv w)) = map f (rows (alert_notifications w)) \<and>
    (\<forall>r. if r \<in> set (take 100 (pendingRows w)) then advanced r (f r) else f r = r) \<and> dispatchable (dispatchRound nv w) \<and>
    (\<exists>sent. ledger nv w sent f (dispatchRound nv w))"
proof -
  let ?items = "take 100 (pendingRows w)" and ?w1 = "w\<lparr>tick := Suc (tick w)\<rparr>"
  have ok: "table_ok (alert_notifications ?w1)" "\<forall>n. fault ?w1 n = None" using assms by (simp_all add: dispatchable_def)
  have sub: "set ?items \<subseteq> set (pendingRows ?w1)" by (auto simp: pendingRows_def dest!: in_set_takeD)
  have "distinct (map Oid (pendingRows w))" using ok(1) by (simp add: pendingRows_def table_ok_def distinct_map_filter)
  then have "distinct (map Oid ?items)" by (simp add: take_map [symmetric] distinct_take)
  moreover have "\<forall>i \<in> set ?items. 0 \<le> an_RetryCount i" using assms by (auto simp: dispatchable_def dest!: in_set_takeD)
  ultimately obtain f w' sent where l: "forEach (\<lambda>item. ignoring (dispatchOne nv item)) ?items ?w1 = (Inr () :: goerr + unit, w')"
    and w': "table_ok (alert_notifications w')" "fault w' = fault w" "rows (alert_notifications w') = map f (rows (alert_notifications w))"
    and f: "\<forall>r. if r \<in> set ?items then advanced r (f r) else f r = r" and o: "ledger nv ?w1 sent f w'"
    using dispatchLoop [OF ok sub, of nv] by auto
  have led: "ledger nv w sent f w'" using o by (simp add: ledger_def)
  have "fault w (tick w) = None" using assms by (simp add: dispatchable_def)
  then have d: "dispatchRound nv w = w'"
    using l by (simp add: dispatchRound_def DispatchPending_def alertNotificationListPending_def andThen_def onResult_def sqlSelect_def stmt_def Let_def pendingRows_def)
  have "0 \<le> an_RetryCount (f r)" if "r \<in> set (rows (alert_notifications w))" "an_Status (f r) = AlertNotificationStatusPending" for r
  proof (cases "r \<in> set ?items")
    case True
    with f have "advanced r (f r)" by presburger
    moreover have "0 \<le> an_RetryCount r" using True assms by (auto simp: dispatchable_def dest: in_set_takeD)
    ultimately show ?thesis by (simp add: advanced_def)
  next
    case False
    with f have "f r = r" by presburger
    with that assms show ?thesis by (simp add: dispatchable_def pendingRows_def)
  qed
  then have "dispatchable w'" using w' assms by (auto simp: dispatchable_def pendingRows_def)
  with w'(3) f led d show ?thesis by blast
qed

lemma sum_list_items:
  assumes "distinct xs" and "\<And>x. x \<in> set xs \<Longrightarrow> g' x + (if x \<in> set ys then 1 else 0) \<le> g x" and "distinct ys" and "set ys \<subseteq> set xs"
  shows "sum_list (map g' xs) + length ys \<le> (sum_list (map g xs) :: nat)"
proof -
  have "length ys = card (set xs \<inter> set ys)" using assms(3,4) by (simp add: distinct_card inf_absorb2)
  also have "\<dots> = sum_list (map (\<lambda>x. if x \<in> set ys then 1 else 0) xs)"
    using assms(1) by (simp add: sum_list_distinct_conv_sum_set sum.If_cases)
  finally have "sum_list (map g' xs) + length ys = sum_list (map (\<lambda>x. g' x + (if x \<in> set ys then 1 else 0)) xs)"
    by (simp add: sum_list_addf)
  also have "\<dots> \<le> sum_list (map g xs)" using assms(2) by (intro sum_list_mono) auto
  finally show ?thesis .
qed

lemma round_work:
  assumes "dispatchable w"
  shows "workLeft (dispatchRound nv w) + min 100 (length (pendingRows w)) \<le> workLeft w"
proof -
  from round_spec [OF assms, of nv] obtain f where rows: "rows (alert_notifications (dispatchRound nv w)) = map f (rows (alert_notifications w))"
    and f: "\<forall>r. if r \<in> set (take 100 (pendingRows w)) then advanced r (f r) else f r = r" by blast
  have d: "distinct (rows (alert_notifications w))" using assms by (auto simp: dispatchable_def table_ok_def distinct_map)
  have "triesLeft (f r) + (if r \<in> set (take 100 (pendingRows w)) then 1 else 0) \<le> triesLeft r" for r
  proof (cases "r \<in> set (take 100 (pendingRows w))")
    case True
    then have "r \<in> set (pendingRows w)" by (rule in_set_takeD)
    moreover have "advanced r (f r)" using f True by presburger
    ultimately show ?thesis using triesLeft_advanced [of r "f r"] assms True by (simp add: dispatchable_def pendingRows_def)
  next
    case False
    then have "f r = r" using f by presburger
    with False show ?thesis by simp
  qed
  moreover have "distinct (take 100 (pendingRows w))" "set (take 100 (pendingRows w)) \<subseteq> set (rows (alert_notifications w))"
    using d by (auto simp: pendingRows_def distinct_take dest: in_set_takeD)
  ultimately have "sum_list (map (\<lambda>r. triesLeft (f r)) (rows (alert_notifications w))) + length (take 100 (pendingRows w)) \<le> workLeft w"
    unfolding workLeft_def by (intro sum_list_items [OF d]) auto
  then show ?thesis by (simp add: workLeft_def [of "dispatchRound nv w"] rows comp_def min.commute)
qed

lemma pending_none: "pendingRows w = [] \<Longrightarrow> dispatchable w \<Longrightarrow> pendingRows (dispatchRound nv w) = []"
  using round_spec [of w nv] by (auto simp: pendingRows_def filter_empty_conv)

lemma rounds_keep: "dispatchable w \<Longrightarrow> dispatchable ((dispatchRound nv ^^ n) w)"
  by (induction n) (use round_spec in auto)

lemma rounds_none: "pendingRows w = [] \<Longrightarrow> dispatchable w \<Longrightarrow> pendingRows ((dispatchRound nv ^^ n) w) = []"
proof (induction n)
  case (Suc n)
  from Suc rounds_keep [of w n nv] show ?case by (simp add: pending_none)
qed simp

lemma rounds_few:
  assumes "dispatchable w" and "length (pendingRows w) \<le> 100" and "\<forall>r \<in> set (pendingRows w). triesLeft r \<le> k"
  shows "pendingRows ((dispatchRound nv ^^ k) w) = []"
  using assms
proof (induction k arbitrary: w)
  case 0
  then show ?case by (auto simp: pendingRows_def triesLeft_def filter_empty_conv)
next
  case (Suc k)
  from round_spec [OF Suc.prems(1), of nv] obtain f where rows: "rows (alert_notifications (dispatchRound nv w)) = map f (rows (alert_notifications w))"
    and f: "\<forall>r. if r \<in> set (pendingRows w) then advanced r (f r) else f r = r" and d: "dispatchable (dispatchRound nv w)"
    using Suc.prems(2) by auto
  have was: "r \<in> set (pendingRows w)" if "r \<in> set (rows (alert_notifications w))" "an_Status (f r) = AlertNotificationStatusPending" for r
    using f that by (cases "r \<in> set (pendingRows w)") (auto simp: pendingRows_def)
  have "length (pendingRows (dispatchRound nv w)) \<le> length (pendingRows w)"
    unfolding pendingRows_def rows filter_map length_map using was
    by (auto simp: comp_def pendingRows_def length_filter_conv_card intro!: card_mono)
  moreover have "triesLeft s \<le> k" if s: "s \<in> set (pendingRows (dispatchRound nv w))" for s
  proof -
    from s obtain r where r: "r \<in> set (rows (alert_notifications w))" "s = f r" "an_Status (f r) = AlertNotificationStatusPending"
      by (auto simp: pendingRows_def rows)
    from was [OF r(1,3)] f Suc.prems have "advanced r s" "triesLeft r \<le> Suc k" "0 \<le> an_RetryCount r" "an_Status r = AlertNotificationStatusPending"
      by (auto simp: r(2) dispatchable_def pendingRows_def)
    with triesLeft_advanced [of r s] show ?thesis by simp
  qed
  ultimately have "pendingRows ((dispatchRound nv ^^ k) (dispatchRound nv w)) = []" using Suc.prems(2) by (intro Suc.IH [OF d]) auto
  then show ?case by (simp add: funpow_swap1)
qed

lemma rounds_many: "dispatchable w \<Longrightarrow> workLeft w \<le> 100 * m \<Longrightarrow> pendingRows ((dispatchRound nv ^^ (m + 3)) w) = []"
proof (induction m arbitrary: w)
  case 0
  then have "\<forall>r \<in> set (rows (alert_notifications w)). triesLeft r = 0" by (auto simp: workLeft_def)
  moreover have "an_Status r \<noteq> AlertNotificationStatusPending" if "triesLeft r = 0" for r using that by (auto simp: triesLeft_def)
  ultimately have "pendingRows w = []" by (auto simp: pendingRows_def filter_empty_conv)
  then show ?case using 0 by (intro rounds_none)
next
  case (Suc m)
  have le: "triesLeft r \<le> 3" if "r \<in> set (pendingRows w)" for r
    using that Suc.prems(1) by (auto simp: dispatchable_def triesLeft_def maxNotifyRetry_def)
  show ?case
  proof (cases "length (pendingRows w) \<le> 100")
    case True
    with rounds_few [OF Suc.prems(1), of 3 nv] le have "pendingRows ((dispatchRound nv ^^ 3) w) = []" by blast
    then have "pendingRows ((dispatchRound nv ^^ Suc m) ((dispatchRound nv ^^ 3) w)) = []"
      using rounds_none rounds_keep [OF Suc.prems(1)] by blast
    then show ?thesis unfolding funpow_add [of "Suc m" 3] comp_apply .
  next
    case False
    with round_work [OF Suc.prems(1), of nv] Suc.prems(2) have "workLeft (dispatchRound nv w) \<le> 100 * m" by simp
    from Suc.IH [OF _ this] round_spec [OF Suc.prems(1), of nv] have "pendingRows ((dispatchRound nv ^^ (m + 3)) (dispatchRound nv w)) = []" by blast
    then show ?thesis unfolding add_Suc funpow_Suc_right comp_apply .
  qed
qed

lemma rounds_ledger: "dispatchable w \<Longrightarrow> \<exists>sent f. ledger nv w sent f ((dispatchRound nv ^^ n) w)"
proof (induction n)
  case 0
  show ?case using ledger_refl [of w w nv] by auto
next
  case (Suc n)
  from Suc obtain sent f where l: "ledger nv w sent f ((dispatchRound nv ^^ n) w)" by blast
  from round_spec [OF rounds_keep [OF Suc.prems, of n nv], of nv]
  obtain sent' g where "ledger nv ((dispatchRound nv ^^ n) w) sent' g (dispatchRound nv ((dispatchRound nv ^^ n) w))" by blast
  from ledger_trans [OF l this] show ?case by auto
qed

lemma ledger_pending:
  assumes "ledger nv w sent f w'"
  shows "fst ` set sent \<subseteq> Oid ` set (pendingRows w)"
proof -
  have "r \<in> set (pendingRows w)" if "r \<in> set (rows (alert_notifications w))" "(Oid r, p) \<in> set sent" for r p
  proof -
    have "p \<in> set (requestsFor r sent)" using that(2) by (force simp: requestsFor_def)
    moreover have "length (requestsFor r sent) \<le> triesLeft r" using assms that(1) by (auto simp: ledger_def fate_def)
    ultimately have "triesLeft r \<noteq> 0" by (cases "requestsFor r sent") auto
    with that(1) show ?thesis by (auto simp: triesLeft_def pendingRows_def split: if_splits)
  qed
  note here = this
  show ?thesis
  proof
    fix i assume i: "i \<in> fst ` set sent"
    then obtain p where p: "(i, p) \<in> set sent" by auto
    from i assms obtain r where "r \<in> set (rows (alert_notifications w))" "i = Oid r" unfolding ledger_def by blast
    with here p show "i \<in> Oid ` set (pendingRows w)" by blast
  qed
qed

lemma workLeft_le: "dispatchable w \<Longrightarrow> workLeft w \<le> 3 * length (pendingRows w)"
proof -
  assume d: "dispatchable w"
  have "triesLeft r \<le> (if an_Status r = AlertNotificationStatusPending then 3 else 0)" if "r \<in> set (rows (alert_notifications w))" for r
    using that d by (auto simp: dispatchable_def pendingRows_def triesLeft_def maxNotifyRetry_def)
  then have "workLeft w \<le> sum_list (map (\<lambda>r. if an_Status r = AlertNotificationStatusPending then 3 else 0) (rows (alert_notifications w)))"
    unfolding workLeft_def by (intro sum_list_mono) auto
  also have "sum_list (map (\<lambda>r. if an_Status r = AlertNotificationStatusPending then 3 else 0) rs) =
      3 * length (filter (\<lambda>r. an_Status r = AlertNotificationStatusPending) rs)" for rs by (induction rs) auto
  finally show ?thesis by (simp add: pendingRows_def)
qed

text \<open>C6: dispatching ends, and delivers every notification by itself. While the database answers and nobody else writes the
  notifications, let some of them be pending, and \<open>m\<close> be at least three times their number divided by 100. After any number of
  rounds, whatever the receivers answer, every request that was sent belongs to one of them, each has had at most three requests, all
  of them its own (its receiver, its text), and its message is as it was; what was not pending is untouched. From
  \<open>m + 3\<close> rounds on each of them has succeeded, by a request that its receiver accepted, or has failed, after three tries.\<close>

theorem DispatchPending_drains:
  assumes "table_ok (alert_notifications w)" and "\<forall>n. fault w n = None" and "\<forall>r \<in> set (pendingRows w). 0 \<le> an_RetryCount r"
    and "3 * length (pendingRows w) \<le> 100 * m" and v: "v = ((snd \<circ> DispatchPending nv) ^^ n) w"
  shows "\<exists>f sent. rows (alert_notifications v) = map f (rows (alert_notifications w)) \<and> outbox v = outbox w @ map snd sent \<and>
     fst ` set sent \<subseteq> Oid ` set (pendingRows w) \<and>
     (\<forall>r \<in> set (rows (alert_notifications w)). r \<notin> set (pendingRows w) \<longrightarrow> f r = r) \<and>
     (\<forall>r \<in> set (pendingRows w). sameMessage r (f r) \<and> length (requestsFor r sent) \<le> 3 \<and> (\<forall>p \<in> set (requestsFor r sent). isRequestOf nv r p) \<and>
       (m + 3 \<le> n \<longrightarrow> (an_Status (f r) = AlertNotificationStatusSuccess \<and> (\<exists>p \<in> set (requestsFor r sent). accepted nv r p)) \<or>
          (an_Status (f r) = AlertNotificationStatusFailed \<and> 3 \<le> an_RetryCount (f r))))"
proof -
  have d: "dispatchable w" using assms(1-3) by (simp add: dispatchable_def)
  have v: "v = (dispatchRound nv ^^ n) w" unfolding v by (rule arg_cong [of _ _ "\<lambda>g. (g ^^ n) w"]) (simp add: fun_eq_iff dispatchRound_def)
  from rounds_ledger [OF d, of nv n] obtain sent f where l: "ledger nv w sent f v" unfolding v by blast
  have settled: "pendingRows v = []" if "m + 3 \<le> n"
  proof -
    have "pendingRows ((dispatchRound nv ^^ (m + 3)) w) = []" using rounds_many [OF d, of m nv] workLeft_le [OF d] assms(4) by simp
    from rounds_none [OF this rounds_keep [OF d], of "n - (m + 3)" nv]
    have "pendingRows ((dispatchRound nv ^^ (n - (m + 3) + (m + 3))) w) = []" by (simp only: funpow_add comp_apply)
    with that show ?thesis unfolding v by simp
  qed
  have fate: "fate nv r (requestsFor r sent) (f r)" and mem: "f r \<in> set (rows (alert_notifications v))" if "r \<in> set (rows (alert_notifications w))" for r
    using l that by (simp_all add: ledger_def)
  have pend: "sameMessage r (f r) \<and> length (requestsFor r sent) \<le> 3 \<and> (\<forall>p \<in> set (requestsFor r sent). isRequestOf nv r p) \<and>
       (m + 3 \<le> n \<longrightarrow> (an_Status (f r) = AlertNotificationStatusSuccess \<and> (\<exists>p \<in> set (requestsFor r sent). accepted nv r p)) \<or>
          (an_Status (f r) = AlertNotificationStatusFailed \<and> 3 \<le> an_RetryCount (f r)))" if "r \<in> set (pendingRows w)" for r
  proof -
    have r: "r \<in> set (rows (alert_notifications w))" "an_Status r = AlertNotificationStatusPending" using that by (simp_all add: pendingRows_def)
    have "triesLeft r \<le> 3" using that assms(3) by (auto simp: triesLeft_def maxNotifyRetry_def)
    moreover have "an_Status (f r) \<noteq> AlertNotificationStatusPending" if "m + 3 \<le> n"
      using settled [OF that] mem [OF r(1)] by (auto simp: pendingRows_def filter_empty_conv)
    ultimately show ?thesis using fate [OF r(1)] r(2) by (auto simp: fate_def maxNotifyRetry_def)
  qed
  have "f r = r" if "r \<in> set (rows (alert_notifications w))" "r \<notin> set (pendingRows w)" for r
    using fate [OF that(1)] that by (simp add: fate_def pendingRows_def)
  with l ledger_pending [OF l] pend show ?thesis by (intro exI [of _ f] exI [of _ sent]) (simp add: ledger_def)
qed

definition demoNotification :: AlertNotification where
  "demoNotification = \<lparr>Oid = 1, GmtCreate = 0, GmtModified = 0, ResourceVersion = 0, an_EventId = 1, an_RuleId = 1, an_Channel = AlertNotifyChannelWeCom,
     an_Receiver = ''http://x'', an_Title = ''cpu'', an_Content = ''hot'', an_Status = AlertNotificationStatusPending, an_RetryCount = 0, an_ErrorMsg = [],
     an_Extension = [], an_Severity = AlertSeverityWarning, an_Labels = [], an_ChannelName = ''ops''\<rparr>"

definition demoQueue :: alert_db where
  "demoQueue = demoAlertDb\<lparr>alert_notifications := \<lparr>rows = [demoNotification], next_id = 2\<rparr>\<rparr>"

lemma demoQueue_ok: "table_ok (alert_notifications demoQueue)" "fault demoQueue n = None" "pendingRows demoQueue = [demoNotification]"
  by (simp_all add: demoQueue_def demoAlertDb_def demoNotification_def table_ok_def pendingRows_def)

definition demoNet :: notify_env where
  "demoNet = \<lparr>nv_zone = (\<lambda>_. 0), nv_hmac = (\<lambda>k m. replicate 32 CHR ''m''), nv_url = (\<lambda>u. Some (u, [], [])), nv_urlErr = (\<lambda>_. []),
     nv_template = (\<lambda>_. None), nv_jsonErr = (\<lambda>_. []), nv_net = (\<lambda>_ _. NoReply ''timeout'')\<rparr>"

lemma DispatchPending_drains_witness:
  "\<exists>r. rows (alert_notifications (((snd \<circ> DispatchPending demoNet) ^^ 4) demoQueue)) = [r] \<and> Oid r = 1 \<and> an_Content r = ''hot'' \<and>
     an_Status r \<noteq> AlertNotificationStatusPending \<and> length (outbox (((snd \<circ> DispatchPending demoNet) ^^ 4) demoQueue)) \<le> 3"
proof -
  let ?v = "((snd \<circ> DispatchPending demoNet) ^^ 4) demoQueue"
  from DispatchPending_drains [of demoQueue 1 ?v 4 demoNet] obtain f sent where
    v: "rows (alert_notifications ?v) = [f demoNotification]" "outbox ?v = map snd sent" "fst ` set sent \<subseteq> {1}" and
    r: "sameMessage demoNotification (f demoNotification)" "length (requestsFor demoNotification sent) \<le> 3"
      "an_Status (f demoNotification) = AlertNotificationStatusSuccess \<or> an_Status (f demoNotification) = AlertNotificationStatusFailed"
    by (simp add: demoQueue_ok) (auto simp: demoQueue_def demoAlertDb_def demoNotification_def)
  have "requestsFor demoNotification sent = map snd sent" using v(3)
    by (auto simp: requestsFor_def demoNotification_def image_subset_iff intro!: arg_cong [of _ _ "map snd"] filter_True)
  moreover have "an_Content (f demoNotification) = ''hot''" "Oid (f demoNotification) = 1"
    by (subst r(1) [unfolded sameMessage_def], simp add: demoNotification_def)+
  ultimately show ?thesis using v r by (auto simp: notification_status_defs)
qed

end
