(* ===== verification/DispatchRace.thy ===== *)
theory DispatchRace
  imports NotifyProps
begin

text \<open>
  Several dispatchers on one database: the scheduler of every server process runs \<open>DispatchPending\<close> on
  its own. A step of the system is one database statement or one request of one dispatcher (numbered),
  or the creation or deletion of notifications by another part of the program. The log holds
  the id and the version of every successful claim.
\<close>

section \<open>The system\<close>

datatype dispatcher =
    Idle
  | Listed "AlertNotification list"
  | Claimed AlertNotification "AlertNotification list"
  | Sent AlertNotification "string option" "AlertNotification list"

record dsystem =
  world :: alert_db
  procs :: "nat \<Rightarrow> dispatcher"
  claims :: "(int \<times> int) list"

inductive dstep :: "notify_env \<Rightarrow> dsystem \<Rightarrow> dsystem \<Rightarrow> bool" for nv where
  listed: "procs s d = Idle \<Longrightarrow> alertNotificationListPending 100 (world s) = (Inr items, w) \<Longrightarrow>
    dstep nv s (s\<lparr>world := w, procs := (procs s)(d := Listed items)\<rparr>)"
| listError: "procs s d = Idle \<Longrightarrow> alertNotificationListPending 100 (world s) = (Inl err, w) \<Longrightarrow>
    dstep nv s (s\<lparr>world := w\<rparr>)"
| claimed: "procs s d = Listed (item # items) \<Longrightarrow> claimItem item (world s) = (Inr (), w) \<Longrightarrow>
    dstep nv s (s\<lparr>world := w, procs := (procs s)(d := Claimed item items), claims := (Oid item, ResourceVersion item) # claims s\<rparr>)"
| claimRefused: "procs s d = Listed (item # items) \<Longrightarrow> claimItem item (world s) = (Inl err, w) \<Longrightarrow>
    dstep nv s (s\<lparr>world := w, procs := (procs s)(d := Listed items)\<rparr>)"
| sent: "procs s d = Claimed item items \<Longrightarrow> sendItem nv item (world s) = (Inr err, w) \<Longrightarrow>
    dstep nv s (s\<lparr>world := w, procs := (procs s)(d := Sent item err items)\<rparr>)"
| recorded: "procs s d = Sent item err items \<Longrightarrow> recordItem item err (world s) = (r, w) \<Longrightarrow>
    dstep nv s (s\<lparr>world := w, procs := (procs s)(d := Listed items)\<rparr>)"
| finished: "procs s d = Listed [] \<Longrightarrow> dstep nv s (s\<lparr>procs := (procs s)(d := Idle)\<rparr>)"
| created: "alertNotificationCreate n (world s) = (r, w) \<Longrightarrow> dstep nv s (s\<lparr>world := w\<rparr>)"
| deleted: "alertNotificationDelete opts (world s) = (r', w) \<Longrightarrow> dstep nv s (s\<lparr>world := w\<rparr>)"

inductive_cases dstep_cases: "dstep nv s s'"

inductive dreachable :: "notify_env \<Rightarrow> dsystem \<Rightarrow> dsystem \<Rightarrow> bool" for nv s0 where
  start: "dreachable nv s0 s0"
| step: "dreachable nv s0 s \<Longrightarrow> dstep nv s s' \<Longrightarrow> dreachable nv s0 s'"

text \<open>A dispatcher that has claimed a notification and may send it, or has just done so.\<close>

fun holds :: "dispatcher \<Rightarrow> int \<times> int \<Rightarrow> bool" where
  "holds (Claimed item items) c = (c = (Oid item, ResourceVersion item))"
| "holds (Sent item err items) c = (c = (Oid item, ResourceVersion item))"
| "holds _ c = False"

section \<open>The invariant\<close>

definition dinv :: "dsystem \<Rightarrow> bool" where
  "dinv s \<longleftrightarrow> table_ok (alert_notifications (world s)) \<and> distinct (claims s) \<and>
     (\<forall>(i, v) \<in> set (claims s). i < next_id (alert_notifications (world s)) \<and>
       (\<forall>r \<in> set (rows (alert_notifications (world s))). Oid r = i \<longrightarrow> v < ResourceVersion r)) \<and>
     (\<forall>d c. holds (procs s d) c \<longrightarrow> c \<in> set (claims s)) \<and>
     (\<forall>d e c. holds (procs s d) c \<longrightarrow> holds (procs s e) c \<longrightarrow> d = e)"

text \<open>What every operation may do to the table: versions only grow, ids are not used again.\<close>

definition tgrows :: "AlertNotification table \<Rightarrow> AlertNotification table \<Rightarrow> bool" where
  "tgrows T T' \<longleftrightarrow> (table_ok T \<longrightarrow> table_ok T') \<and> next_id T \<le> next_id T' \<and>
     (\<forall>r' \<in> set (rows T'). next_id T \<le> Oid r' \<or> (\<exists>r \<in> set (rows T). Oid r = Oid r' \<and> ResourceVersion r \<le> ResourceVersion r'))"

definition grows :: "alert_db \<Rightarrow> alert_db \<Rightarrow> bool" where
  "grows w w' \<longleftrightarrow> tgrows (alert_notifications w) (alert_notifications w')"

lemma tgrows_refl: "tgrows T T" by (auto simp: tgrows_def)

lemma tgrows_ins: "tgrows T (insTable r T)"
  using table_ok_insTable [of T r] by (auto simp: tgrows_def) (auto simp: insTable_def)

lemma tgrows_del: "tgrows T (delTable P T)"
  using table_ok_delTable [of T P] by (auto simp: tgrows_def) (auto simp: delTable_def)

lemma tgrows_upd:
  assumes "keepsOid us"
  shows "tgrows T (updTable (versionMatch i v) (versionedUpdates now v us) T)"
proof -
  have k: "keepsOid (versionedUpdates now v us)" using assms by simp
  have "Oid r = Oid (updRow (versionMatch i v) (versionedUpdates now v us) r) \<and>
      ResourceVersion r \<le> ResourceVersion (updRow (versionMatch i v) (versionedUpdates now v us) r)" for r :: AlertNotification
    using k by (simp add: updRow_def keepsOid_def) (simp add: versionMatch_def versionedUpdates_def applyUpdates_def)
  then show ?thesis using table_ok_updTable [OF k, of T "versionMatch i v"] by (auto simp: tgrows_def) (auto simp: updTable_def)
qed

lemma grows_same: "alert_notifications w' = alert_notifications w \<Longrightarrow> grows w w'"
  by (simp add: grows_def tgrows_refl)

lemma dinv_grows:
  assumes "dinv s" and g: "grows (world s) w"
  shows "table_ok (alert_notifications w) \<and> (\<forall>(i, v) \<in> set (claims s). i < next_id (alert_notifications w) \<and>
     (\<forall>r \<in> set (rows (alert_notifications w)). Oid r = i \<longrightarrow> v < ResourceVersion r))"
proof -
  have "i < next_id (alert_notifications w) \<and> (\<forall>r \<in> set (rows (alert_notifications w)). Oid r = i \<longrightarrow> v < ResourceVersion r)"
    if "(i, v) \<in> set (claims s)" for i v
  proof -
    from assms(1) that have c: "i < next_id (alert_notifications (world s))"
      "\<forall>r \<in> set (rows (alert_notifications (world s))). Oid r = i \<longrightarrow> v < ResourceVersion r" by (auto simp: dinv_def)
    with g show ?thesis unfolding grows_def tgrows_def by fastforce
  qed
  with assms show ?thesis by (auto simp: dinv_def grows_def tgrows_def)
qed

lemma grows_list: "grows w (snd (alertNotificationListPending n w))"
  by (rule grows_same) (simp add: alertNotificationListPending_def Let_def sqlSelect_def stmt_def split: option.splits)

lemma grows_update:
  assumes "keepsOid us"
  shows "grows w (snd (alertNotificationUpdate i v us w))"
proof -
  have "wp (alertNotificationUpdate i v us) (\<lambda>_. grows w) (\<lambda>_. grows w) w"
    using assms unfolding alertNotificationUpdate_def daoUpdate_def
    by (auto simp: wp_simps Let_def grows_def tgrows_refl tgrows_upd split: option.splits)
  then show ?thesis by (simp add: wp_snd)
qed

lemma grows_create: "grows w (snd (alertNotificationCreate n w))"
proof -
  have "wp (alertNotificationCreate n) (\<lambda>_. grows w) (\<lambda>_. grows w) w"
    unfolding alertNotificationCreate_def daoCreate_def
    by (auto simp: wp_simps Let_def grows_def tgrows_refl tgrows_ins split: option.splits)
  then show ?thesis by (simp add: wp_snd)
qed

lemma grows_delete: "grows w (snd (alertNotificationDelete opts w))"
proof -
  have "wp (alertNotificationDelete opts) (\<lambda>_. grows w) (\<lambda>_. grows w) w"
    unfolding alertNotificationDelete_def
    by (auto simp: wp_simps Let_def grows_def tgrows_refl tgrows_del split: option.splits)
  then show ?thesis by (simp add: wp_snd)
qed

lemma grows_send: "sendItem nv item w = (Inr err, w') \<Longrightarrow> grows w w'"
  using sendItem_frame [of nv item w] sentD(1) [of w w'] by (auto intro: grows_same)


lemma claim_fresh:
  assumes "dinv s" and c: "claimItem item (world s) = (Inr (), w)"
  shows "(Oid item, ResourceVersion item) \<notin> set (claims s) \<and> Oid item < next_id (alert_notifications w) \<and>
    (\<forall>r \<in> set (rows (alert_notifications w)). Oid r = Oid item \<longrightarrow> ResourceVersion item < ResourceVersion r)"
proof -
  have ok: "table_ok (alert_notifications (world s))" using assms(1) by (simp add: dinv_def)
  from alert_notifications_lock.update_guard [OF c [unfolded claimItem_def]]
  obtain r where r: "r \<in> set (rows (alert_notifications (world s)))" "Oid r = Oid item" "ResourceVersion r = ResourceVersion item" by blast
  with assms(1) have "(Oid item, ResourceVersion item) \<notin> set (claims s)" by (fastforce simp: dinv_def)
  moreover have "Oid item < next_id (alert_notifications (world s))" using ok r by (auto simp: table_ok_def)
  moreover have "next_id (alert_notifications (world s)) \<le> next_id (alert_notifications w)"
    using grows_update [of "claimUpdates item" "world s" "Oid item" "ResourceVersion item"] c by (simp add: claimItem_def grows_def tgrows_def)
  moreover have "ResourceVersion r' = ResourceVersion item + 1" if "r' \<in> set (rows (alert_notifications w))" "Oid r' = Oid item" for r'
    by (rule alert_notifications_lock.update_bumps [OF ok keepsOid_dispatch(1) c [unfolded claimItem_def] that])
  ultimately show ?thesis by force
qed

lemma dstep_dinv:
  assumes "dstep nv s s'" and inv: "dinv s"
  shows "dinv s'"
proof -
  have quiet: "dinv (s\<lparr>world := w, procs := (procs s)(d := p)\<rparr>)" if "grows (world s) w" "\<And>c. holds p c \<Longrightarrow> holds (procs s d) c" for w d p
    using dinv_grows [OF inv that(1)] inv that(2) by (auto simp: dinv_def) blast+
  have same: "dinv (s\<lparr>world := w\<rparr>)" if "grows (world s) w" for w
    using dinv_grows [OF inv that] inv by (auto simp: dinv_def)
  from assms(1) show ?thesis
  proof cases
    case (claimed d item items w)
    have "grows (world s) w"
      using grows_update [of "claimUpdates item" "world s" "Oid item" "ResourceVersion item"] claimed(3) by (simp add: claimItem_def)
    from dinv_grows [OF inv this] claim_fresh [OF inv claimed(3)] inv show ?thesis
      unfolding claimed(1) by (auto simp: dinv_def)
  next
    case (listed d items w)
    with grows_list [of "world s" 100] show ?thesis by (auto intro: quiet)
  next
    case (listError d err w)
    with grows_list [of "world s" 100] show ?thesis by (auto intro: same)
  next
    case (claimRefused d item items err w)
    with grows_update [of "claimUpdates item" "world s" "Oid item" "ResourceVersion item"] show ?thesis by (auto simp: claimItem_def intro: quiet)
  next
    case (sent d item items err w)
    with grows_send [OF sent(3)] show ?thesis by (auto intro: quiet)
  next
    case (recorded d item err items r w)
    with grows_update [of "recordUpdates item err" "world s" "Oid item" "ResourceVersion item + 1"] show ?thesis by (auto simp: recordItem_def intro: quiet)
  next
    case (finished d)
    with quiet [OF grows_same [OF refl], of Idle d] show ?thesis by simp
  next
    case (created n r w)
    with grows_create [of "world s" n] show ?thesis by (auto intro: same)
  next
    case (deleted opts r' w)
    with grows_delete [of "world s" opts] show ?thesis by (auto intro: same)
  qed
qed

lemma dreachable_dinv: "dreachable nv s0 s \<Longrightarrow> dinv s0 \<Longrightarrow> dinv s"
  by (induction rule: dreachable.induct) (auto intro: dstep_dinv)

text \<open>C4: however the steps of any number of dispatchers interleave, also with the creation and the
  deletion of notifications and with failures of the database: the same version of a notification is
  claimed at most once, and no two dispatchers hold a claim on it at the same time.\<close>

theorem dispatch_exclusive:
  assumes "dreachable nv s0 s" and "table_ok (alert_notifications (world s0))" and "procs s0 = (\<lambda>_. Idle)" and "claims s0 = []"
  shows "distinct (claims s) \<and> (\<forall>d e c. holds (procs s d) c \<and> holds (procs s e) c \<longrightarrow> d = e)"
proof -
  have "dinv s0" using assms(2-4) by (simp add: dinv_def)
  from dreachable_dinv [OF assms(1) this] show ?thesis unfolding dinv_def by blast
qed


definition startWith :: "alert_db \<Rightarrow> dsystem" where
  "startWith w = \<lparr>world = w, procs = (\<lambda>_. Idle), claims = []\<rparr>"

lemma dispatch_exclusive_witness: "\<exists>s. dreachable demoNet (startWith demoQueue) s \<and> procs s 7 = Listed [demoNotification] \<and> distinct (claims s)"
proof -
  have "alertNotificationListPending 100 (world (startWith demoQueue)) = (Inr [demoNotification], demoQueue\<lparr>tick := Suc (tick demoQueue)\<rparr>)"
    by (simp add: alertNotificationListPending_def sqlSelect_def stmt_def startWith_def demoQueue_def demoAlertDb_def demoNotification_def)
  from dstep.listed [of "startWith demoQueue" 7, OF _ this, of demoNet]
  have "dstep demoNet (startWith demoQueue) ((startWith demoQueue)\<lparr>world := demoQueue\<lparr>tick := Suc (tick demoQueue)\<rparr>, procs := (procs (startWith demoQueue))(7 := Listed [demoNotification])\<rparr>)"
    by (simp add: startWith_def)
  note r = dreachable.step [OF dreachable.start this]
  have "distinct (claims ((startWith demoQueue)\<lparr>world := demoQueue\<lparr>tick := Suc (tick demoQueue)\<rparr>, procs := (procs (startWith demoQueue))(7 := Listed [demoNotification])\<rparr>))"
    by (rule conjunct1 [OF dispatch_exclusive [OF r]]) (simp_all add: startWith_def demoQueue_ok)
  with r show ?thesis by (intro exI conjI) (assumption, simp_all)
qed

section \<open>What the claim does not prevent\<close>

definition weComRequest :: "AlertNotification \<Rightarrow> http_post" where
  "weComRequest item = \<lparr>hp_URL = TrimSpace (an_Receiver item), hp_Headers = requestHeaders [],
     hp_Body = jsonPrint (textPayload (normalizeNotifyNewlines (an_Content item)))\<rparr>"

lemma sendItem_WeCom:
  assumes "an_Channel item = AlertNotifyChannelWeCom" and "TrimSpace (an_Receiver item) \<noteq> []" and "nv_url nv (TrimSpace (an_Receiver item)) \<noteq> None"
  shows "\<exists>err. sendItem nv item w = (Inr err, w\<lparr>tick := Suc (tick w), outbox := outbox w @ [weComRequest item]\<rparr>)"
proof -
  let ?w = "w\<lparr>tick := Suc (tick w), outbox := outbox w @ [weComRequest item]\<rparr>"
  have "wp (sendByChannel nv item) (\<lambda>_ w'. w' = ?w) (\<lambda>_ w'. w' = ?w) w"
    using assms by (auto simp: sendByChannel_def channel_defs sendWeCom_def wp_simps wp_checkBot Let_def weComRequest_def split: option.splits http_reply.splits)
  then show ?thesis unfolding sendItem_def wp_def onResult_def ret_def by (auto split: prod.splits sum.splits)
qed

lemma claim_current:
  assumes "table_ok (alert_notifications w)" and "item \<in> set (rows (alert_notifications w))" and "\<forall>n. fault w n = None"
  shows "\<exists>now w'. claimItem item w = (Inr (), w') \<and> w' = w\<lparr>tick := tick w', alert_notifications := alert_notifications w'\<rparr> \<and>
    rows (alert_notifications w') = map (\<lambda>s. if s = item then item\<lparr>an_RetryCount := an_RetryCount item + 1, GmtModified := now, ResourceVersion := ResourceVersion item + 1\<rparr> else s)
      (rows (alert_notifications w))"
proof -
  have e: "applyUpdates (versionedUpdates now (ResourceVersion item) (claimUpdates item)) item =
      item\<lparr>an_RetryCount := an_RetryCount item + 1, GmtModified := now, ResourceVersion := ResourceVersion item + 1\<rparr>" for now
    by (simp add: claimUpdates_def versionedUpdates_def applyUpdates_def)
  show ?thesis unfolding claimItem_def using notificationUpdate_current [OF assms, of "claimUpdates item", unfolded e] .
qed

lemma ListPending_noFault: "fault w (tick w) = None \<Longrightarrow> alertNotificationListPending 100 w = (Inr (take 100 (pendingRows w)), w\<lparr>tick := Suc (tick w)\<rparr>)"
  by (simp add: alertNotificationListPending_def sqlSelect_def stmt_def pendingRows_def)

text \<open>C31: the claim does not keep a second dispatcher from sending the same notification: it is still
  listed as pending, under its new version, until its sender records the outcome. There is a run of two
  dispatchers, without any failure, in which one notification is posted twice.\<close>

theorem dispatch_duplicate:
  assumes "nv_url nv ''http://x'' \<noteq> None"
  shows "\<exists>s p. dreachable nv (startWith demoQueue) s \<and> outbox (world s) = [p, p]"
proof -
  let ?n = "demoNotification"
  have t: "TrimSpace ''http://x'' = ''http://x''" by (simp add: TrimSpace_def isSpace_def)
  have "\<forall>n. fault demoQueue n = None" "rows (alert_notifications demoQueue) = [?n]" "outbox demoQueue = []"
    by (simp_all add: demoQueue_def demoAlertDb_def)
  note w0 = demoQueue_ok(1) this
  define w1 where "w1 = demoQueue\<lparr>tick := Suc (tick demoQueue)\<rparr>"
  have l1: "alertNotificationListPending 100 demoQueue = (Inr [?n], w1)"
    using ListPending_noFault [of demoQueue] by (simp add: demoQueue_ok w1_def)
  have w1: "table_ok (alert_notifications w1)" "?n \<in> set (rows (alert_notifications w1))" "\<forall>n. fault w1 n = None" by (simp_all add: w1_def w0)
  from claim_current [OF w1] obtain now w2 where c1: "claimItem ?n w1 = (Inr (), w2)" and e2: "w2 = w1\<lparr>tick := tick w2, alert_notifications := alert_notifications w2\<rparr>"
    and r2: "rows (alert_notifications w2) = [?n\<lparr>an_RetryCount := 1, GmtModified := now, ResourceVersion := 1\<rparr>]"
    by (auto simp: w1_def w0 demoNotification_def)
  define m where "m = ?n\<lparr>an_RetryCount := 1, GmtModified := now, ResourceVersion := 1\<rparr>"
  define w3 where "w3 = w2\<lparr>tick := Suc (tick w2)\<rparr>"
  have f2: "fault w2 = fault w1" "outbox w2 = []" using arg_cong [OF e2, of fault] arg_cong [OF e2, of outbox] by (simp_all add: w1_def w0)
  have l2: "alertNotificationListPending 100 w2 = (Inr [m], w3)"
    using ListPending_noFault [of w2] w1(3) by (simp add: f2 w3_def pendingRows_def r2 m_def demoNotification_def)
  have ok2: "table_ok (alert_notifications w2)"
    using notificationUpdate_ok [OF w1(1) keepsOid_dispatch(1) [of ?n], of "Oid ?n" "ResourceVersion ?n"] c1 by (simp add: claimItem_def)
  have w3: "table_ok (alert_notifications w3)" "m \<in> set (rows (alert_notifications w3))" "\<forall>n. fault w3 n = None"
    using ok2 w1(3) by (simp_all add: w3_def r2 m_def f2)
  from claim_current [OF w3] obtain w4 where c2: "claimItem m w3 = (Inr (), w4)" and e4: "w4 = w3\<lparr>tick := tick w4, alert_notifications := alert_notifications w4\<rparr>" by blast
  have o4: "outbox w4 = []" using arg_cong [OF e4, of outbox] f2 by (simp add: w3_def)
  have send: "\<exists>err. sendItem nv i w = (Inr err, w\<lparr>tick := Suc (tick w), outbox := outbox w @ [weComRequest ?n]\<rparr>)" if "i = ?n \<or> i = m" for i and w :: alert_db
    using sendItem_WeCom [of i nv w] that assms by (auto simp: m_def demoNotification_def t weComRequest_def)
  from send [of ?n w4] obtain err1 where x1: "sendItem nv ?n w4 = (Inr err1, w4\<lparr>tick := Suc (tick w4), outbox := [weComRequest ?n]\<rparr>)" using o4 by auto
  from send [of m "w4\<lparr>tick := Suc (tick w4), outbox := [weComRequest ?n]\<rparr>"] obtain err2 where x2: "sendItem nv m (w4\<lparr>tick := Suc (tick w4), outbox := [weComRequest ?n]\<rparr>) =
      (Inr err2, w4\<lparr>tick := Suc (Suc (tick w4)), outbox := [weComRequest ?n, weComRequest ?n]\<rparr>)" by auto
  define s0 s1 s2 s3 s4 s5 s6 where "s0 = startWith demoQueue"
    and "s1 = s0\<lparr>world := w1, procs := (procs s0)(0 := Listed [?n])\<rparr>"
    and "s2 = s1\<lparr>world := w2, procs := (procs s1)(0 := Claimed ?n []), claims := (Oid ?n, ResourceVersion ?n) # claims s1\<rparr>"
    and "s3 = s2\<lparr>world := w3, procs := (procs s2)(1 := Listed [m])\<rparr>"
    and "s4 = s3\<lparr>world := w4, procs := (procs s3)(1 := Claimed m []), claims := (Oid m, ResourceVersion m) # claims s3\<rparr>"
    and "s5 = s4\<lparr>world := w4\<lparr>tick := Suc (tick w4), outbox := [weComRequest ?n]\<rparr>, procs := (procs s4)(0 := Sent ?n err1 [])\<rparr>"
    and "s6 = s5\<lparr>world := w4\<lparr>tick := Suc (Suc (tick w4)), outbox := [weComRequest ?n, weComRequest ?n]\<rparr>, procs := (procs s5)(1 := Sent m err2 [])\<rparr>"
  note s_defs = s0_def s1_def s2_def s3_def s4_def s5_def s6_def startWith_def
  have "dstep nv s0 s1" unfolding s1_def by (rule dstep.listed) (simp_all add: s_defs l1)
  moreover have "dstep nv s1 s2" unfolding s2_def by (rule dstep.claimed) (simp_all add: s_defs c1)
  moreover have "dstep nv s2 s3" unfolding s3_def by (rule dstep.listed) (simp_all add: s_defs l2)
  moreover have "dstep nv s3 s4" unfolding s4_def by (rule dstep.claimed) (simp_all add: s_defs c2)
  moreover have "dstep nv s4 s5" unfolding s5_def by (rule dstep.sent) (simp_all add: s_defs x1)
  moreover have "dstep nv s5 s6" unfolding s6_def by (rule dstep.sent) (simp_all add: s_defs x2)
  ultimately have "dreachable nv (startWith demoQueue) s6" unfolding s0_def [symmetric] by (meson dreachable.intros)
  moreover have "outbox (world s6) = [weComRequest ?n, weComRequest ?n]" by (simp add: s6_def)
  ultimately show ?thesis by blast
qed


lemma dispatch_duplicate_witness: "\<exists>s p. dreachable demoNet (startWith demoQueue) s \<and> outbox (world s) = [p, p]"
  by (rule dispatch_duplicate) (simp add: demoNet_def)

end
