(* ===== verification/NotifyQueue.thy ===== *)
theory NotifyQueue
  imports DispatchRace AlertRuleProps
begin

text \<open>
  What is put into the queue for an event, what a stored channel extension gives back to the sender, the text
  that is sent, and the signature of the DingTalk requests.
\<close>

section \<open>Queueing\<close>

definition withoutModel :: "AlertNotification \<Rightarrow> AlertNotification" where
  "withoutModel r = r\<lparr>Oid := 0, GmtCreate := 0, GmtModified := 0\<rparr>"

lemma withoutModel_ins: "withoutModel (r\<lparr>GmtCreate := a, GmtModified := b, Oid := c\<rparr>) = withoutModel r"
  by (simp add: withoutModel_def)

lemma withoutModel_new [simp]: "withoutModel (newNotification rule event channel content target) = newNotification rule event channel content target"
  by (simp add: withoutModel_def newNotification_def newModel_def pixiu_model.defs)

text \<open>The deliveries of a list of channel ids: the channels that are there, with receiver and extension.\<close>

definition delivery :: "AlertChannel list \<Rightarrow> int \<Rightarrow> (AlertChannel \<times> (string \<times> string)) option" where
  "delivery channels i = (case find (\<lambda>c. Oid c = i) channels of
     None \<Rightarrow> None
   | Some c \<Rightarrow> (case resolveNotificationTargetFromChannel c of Inl _ \<Rightarrow> None | Inr t \<Rightarrow> Some (c, t)))"

definition deliveries :: "AlertChannel list \<Rightarrow> int list \<Rightarrow> (AlertChannel \<times> (string \<times> string)) list" where
  "deliveries channels ids = List.map_filter (delivery channels) ids"

lemma deliveries_simps [simp]: "deliveries channels [] = []"
  "deliveries channels (i # ids) = (case delivery channels i of None \<Rightarrow> [] | Some d \<Rightarrow> [d]) @ deliveries channels ids"
  by (simp_all add: deliveries_def List.map_filter_simps split: option.splits)

lemma enqueueOne_delivery: "enqueueOne rule event content channels i = (case delivery (rev channels) i of
     None \<Rightarrow> ret ()
   | Some (c, t) \<Rightarrow> andThen (alertNotificationCreate (newNotification rule event c content t)) (\<lambda>_. ret ()))"
  by (simp add: enqueueOne_def delivery_def split: option.splits sum.splits)

definition queued :: "'m alert_db_scheme \<Rightarrow> AlertNotification list \<Rightarrow> 'm alert_db_scheme \<Rightarrow> bool" where
  "queued w news w' \<longleftrightarrow> w' = w\<lparr>tick := tick w', alert_notifications := alert_notifications w'\<rparr> \<and>
     map withoutModel (rows (alert_notifications w')) = map withoutModel (rows (alert_notifications w)) @ news"

lemma queued_none: "queued w [] (w\<lparr>tick := n\<rparr>)" "queued w [] w"
  by (simp_all add: queued_def)

lemma queued_trans:
  assumes "queued w xs w1" and "queued w1 ys w2"
  shows "queued w (xs @ ys) w2"
proof -
  from assms have e1: "w1 = w\<lparr>tick := tick w1, alert_notifications := alert_notifications w1\<rparr>"
    and e2: "w2 = w1\<lparr>tick := tick w2, alert_notifications := alert_notifications w2\<rparr>" unfolding queued_def by blast+
  have "w1\<lparr>tick := a, alert_notifications := b\<rparr> = w\<lparr>tick := a, alert_notifications := b\<rparr>" for a b
    by (subst e1) simp
  with e2 have "w2 = w\<lparr>tick := tick w2, alert_notifications := alert_notifications w2\<rparr>" by metis
  with assms show ?thesis unfolding queued_def by (metis append_assoc)
qed

lemma quiet_trans:
  assumes "quiet w w1" and "quiet w1 w2"
  shows "quiet w w2"
proof -
  have "w1\<lparr>tick := n\<rparr> = w\<lparr>tick := n\<rparr>" for n by (subst assms(1) [unfolded quiet_def]) simp
  with assms(2) show ?thesis by (simp add: quiet_def)
qed

lemma wp_create_queued:
  "wp (alertNotificationCreate n) (\<lambda>_. queued w [withoutModel n]) (\<lambda>_. queued w []) w"
  unfolding alertNotificationCreate_def daoCreate_def
  by (auto simp: wp_simps Let_def queued_def insTable_def withoutModel_ins split: option.splits)

lemma enqueueLoop:
  "wp (forEach (enqueueOne rule event content channels) ids)
     (\<lambda>_. queued w (map (\<lambda>(c, t). newNotification rule event c content t) (deliveries (rev channels) ids)))
     (\<lambda>_ w'. \<exists>k. queued w (map (\<lambda>(c, t). newNotification rule event c content t) (take k (deliveries (rev channels) ids))) w') w"
proof (induction ids arbitrary: w)
  case Nil
  show ?case by (simp add: wp_simps queued_none)
next
  case (Cons i ids)
  show ?case
  proof (cases "delivery (rev channels) i")
    case None
    with Cons.IH [of w] show ?thesis by (simp add: wp_andThen wp_ret enqueueOne_delivery)
  next
    case (Some ct)
    obtain c t where ct: "ct = (c, t)" by (rule prod.exhaust)
    have e: "enqueueOne rule event content channels i = andThen (alertNotificationCreate (newNotification rule event c content t)) (\<lambda>_. ret ())"
      using Some ct by (simp add: enqueueOne_delivery)
    have d: "deliveries (rev channels) (i # ids) = (c, t) # deliveries (rev channels) ids" using Some ct by simp
    show ?thesis unfolding forEach.simps d e
    proof (rule wp_seq, unfold wp_andThen wp_ret, rule wp_mono [OF wp_create_queued])
      fix x w' assume "queued w [withoutModel (newNotification rule event c content t)] w'"
      then have q: "queued w [newNotification rule event c content t] w'" by simp
      show "queued w [newNotification rule event c content t] w'" by (rule q)
    next
      fix err w' assume "queued w [] w'"
      then show "\<exists>k. queued w (map (\<lambda>(c, t). newNotification rule event c content t) (take k ((c, t) # deliveries (rev channels) ids))) w'"
        by (intro exI [of _ 0]) simp
    next
      fix x w' assume q: "queued w [newNotification rule event c content t] w'"
      show "wp (forEach (enqueueOne rule event content channels) ids)
         (\<lambda>_. queued w (map (\<lambda>(c, t). newNotification rule event c content t) ((c, t) # deliveries (rev channels) ids)))
         (\<lambda>_ w'. \<exists>k. queued w (map (\<lambda>(c, t). newNotification rule event c content t) (take k ((c, t) # deliveries (rev channels) ids))) w') w'"
      proof (rule wp_mono [OF Cons.IH])
        fix u v assume "queued w' (map (\<lambda>(c, t). newNotification rule event c content t) (deliveries (rev channels) ids)) v"
        from queued_trans [OF q this] show "queued w (map (\<lambda>(c, t). newNotification rule event c content t) ((c, t) # deliveries (rev channels) ids)) v" by simp
      next
        fix err v assume "\<exists>k. queued w' (map (\<lambda>(c, t). newNotification rule event c content t) (take k (deliveries (rev channels) ids))) v"
        then obtain k where "queued w' (map (\<lambda>(c, t). newNotification rule event c content t) (take k (deliveries (rev channels) ids))) v" by blast
        from queued_trans [OF q this] show "\<exists>k. queued w (map (\<lambda>(c, t). newNotification rule event c content t) (take k ((c, t) # deliveries (rev channels) ids))) v"
          by (intro exI [of _ "Suc k"]) simp
      qed
    qed
  qed
qed

lemma content_quiet: "wp (buildNotificationContent nv rule event recovered)
   (\<lambda>content w'. quiet w w' \<and> (TrimSpace (ar_NotifyTemplate rule) = [] \<longrightarrow> content = defaultNotificationContent (Some rule) event recovered)) (\<lambda>_ _. False) w"
  by (auto simp: buildNotificationContent_def renderNotifyTemplate_def buildNotificationTemplateData_def wp_simps Let_def quiet_def split: option.splits)

text \<open>The enabled channels of a rule, by the primary keys that it lists.\<close>

definition ruleDeliveries :: "AlertChannel table \<Rightarrow> AlertRule \<Rightarrow> (AlertChannel \<times> (string \<times> string)) list" where
  "ruleDeliveries T rule = deliveries (filter ac_Enabled (rows T)) (parseNotifyChannelIDs (ar_NotifyChannels rule))"

lemma find_unique_set:
  assumes "distinct (map f xs)" and "set ys = set xs"
  shows "find (\<lambda>x. f x = i) ys = find (\<lambda>x. f x = i) xs"
proof -
  have u: "x = y" if "x \<in> set xs" "y \<in> set xs" "f x = f y" for x y using assms(1) that by (simp add: distinct_map inj_on_def)
  show ?thesis
  proof (cases "find (\<lambda>x. f x = i) xs")
    case None
    then have "find (\<lambda>x. f x = i) ys = None" using assms(2) by (auto simp: find_None_iff)
    with None show ?thesis by simp
  next
    case (Some x)
    then have x: "x \<in> set xs" "f x = i" by (auto dest: find_Some_mem)
    then obtain y where y: "find (\<lambda>x. f x = i) ys = Some y" using assms(2) by (cases "find (\<lambda>x. f x = i) ys") (auto simp: find_None_iff)
    then have "y \<in> set ys" "f y = i" by (auto dest: find_Some_mem)
    with u [of x y] x assms(2) Some y show ?thesis by simp
  qed
qed

lemma deliveries_cong: "(\<And>i. i \<in> set ids \<Longrightarrow> delivery cs i = delivery ds i) \<Longrightarrow> deliveries cs ids = deliveries ds ids"
  by (induction ids) auto

lemma deliveries_listed:
  assumes "table_ok T"
  shows "deliveries (rev (filter (\<lambda>c. Oid c \<in> set ids \<and> ac_Enabled c) (rows T))) ids = deliveries (filter ac_Enabled (rows T)) ids"
proof -
  let ?listed = "filter (\<lambda>c. Oid c \<in> set ids \<and> ac_Enabled c) (rows T)"
  have d: "distinct (map Oid (filter P (rows T)))" for P using assms by (simp add: table_ok_def distinct_map_filter)
  have "delivery (rev ?listed) i = delivery (filter ac_Enabled (rows T)) i" if i: "i \<in> set ids" for i
  proof -
    have "find (\<lambda>c. Oid c = i) (rev ?listed) = find (\<lambda>c. Oid c = i) ?listed" by (rule find_unique_set [OF d]) simp
    also have "filter (\<lambda>c. Oid c = i) ?listed = filter (\<lambda>c. Oid c = i) (filter ac_Enabled (rows T))"
      using i by (auto simp: filter_filter intro!: filter_cong)
    then have "find (\<lambda>c. Oid c = i) ?listed = find (\<lambda>c. Oid c = i) (filter ac_Enabled (rows T))" by (simp only: find_filter_hd)
    finally show ?thesis by (simp add: delivery_def)
  qed
  then show ?thesis by (rule deliveries_cong)
qed


text \<open>The first \<open>k\<close> deliveries of the rule are queued with the text \<open>content\<close>.\<close>

definition enqueued :: "AlertRule \<Rightarrow> AlertEvent \<Rightarrow> bool \<Rightarrow> 'm alert_db_scheme \<Rightarrow> string \<Rightarrow> nat \<Rightarrow> 'm alert_db_scheme \<Rightarrow> bool" where
  "enqueued rule event recovered w content k w' \<longleftrightarrow>
     (TrimSpace (ar_NotifyTemplate rule) = [] \<longrightarrow> content = defaultNotificationContent (Some rule) (Some event) recovered) \<and>
     queued w (map (\<lambda>(c, t). newNotification rule event c content t) (take k (ruleDeliveries (alert_channels w) rule))) w'"

lemma enqueueContent:
  assumes "table_ok (alert_channels w)" and "quiet w w1" and ids: "ids = parseNotifyChannelIDs (ar_NotifyChannels rule)"
    and c: "TrimSpace (ar_NotifyTemplate rule) = [] \<longrightarrow> content = defaultNotificationContent (Some rule) (Some event) recovered"
  shows "wp (forEach (enqueueOne rule event content (filter (\<lambda>c. Oid c \<in> set ids \<and> ac_Enabled c) (rows (alert_channels w)))) ids)
    (\<lambda>_. enqueued rule event recovered w content (length (ruleDeliveries (alert_channels w) rule)))
    (\<lambda>_ w'. \<exists>k. enqueued rule event recovered w content k w') w1"
proof -
  have q1: "queued w [] w1" using assms(2) queued_none(1) [of w "tick w1"] unfolding quiet_def by metis
  note ds = deliveries_listed [OF assms(1), of ids, unfolded ids, folded ruleDeliveries_def, folded ids]
  show ?thesis
  proof (rule wp_mono [OF enqueueLoop], unfold ds)
    fix w' assume "queued w1 (map (\<lambda>(c, t). newNotification rule event c content t) (ruleDeliveries (alert_channels w) rule)) w'"
    from queued_trans [OF q1 this] c show "enqueued rule event recovered w content (length (ruleDeliveries (alert_channels w) rule)) w'"
      by (simp add: enqueued_def)
  next
    fix w' assume "\<exists>k. queued w1 (map (\<lambda>(c, t). newNotification rule event c content t) (take k (ruleDeliveries (alert_channels w) rule))) w'"
    with queued_trans [OF q1] c show "\<exists>k. enqueued rule event recovered w content k w'" unfolding enqueued_def by fastforce
  qed
qed

lemma enqueueEvent:
  assumes ok: "table_ok (alert_channels w)"
  shows "wp (EnqueueForEvent nv rule event recovered)
    (\<lambda>_ w'. \<exists>content. enqueued rule event recovered w content (length (ruleDeliveries (alert_channels w) rule)) w')
    (\<lambda>_ w'. \<exists>content k. enqueued rule event recovered w content k w') w"
    (is "wp _ ?Q ?E w")
proof (cases "parseNotifyChannelIDs (ar_NotifyChannels rule) = []")
  case True
  then show ?thesis using queued_none(2) [of w] by (auto simp: EnqueueForEvent_def wp_simps Let_def enqueued_def ruleDeliveries_def)
next
  case False
  define ids where "ids = parseNotifyChannelIDs (ar_NotifyChannels rule)"
  let ?channels = "filter (\<lambda>c. Oid c \<in> set ids \<and> ac_Enabled c) (rows (alert_channels w))"
  have e: "EnqueueForEvent nv rule event recovered = andThen (alertChannelList [WithIDIn ids, WithEnabled ac_Enabled True]) (\<lambda>channels.
     andThen (buildNotificationContent nv rule (Some event) recovered) (\<lambda>content. forEach (enqueueOne rule event content channels) ids))"
    using False by (simp add: EnqueueForEvent_def Let_def ids_def)
  have listed: "wp (alertChannelList [WithIDIn ids, WithEnabled ac_Enabled True])
     (\<lambda>cs w1. cs = ?channels \<and> quiet w w1) (\<lambda>_ w1. w1 = w\<lparr>tick := Suc (tick w)\<rparr>) w"
    by (simp add: alertChannelList_def wp_daoList quiet_def runQuery_def buildQuery_def emptyQuery_def WithIDIn_def WithEnabled_def Where_def split: option.splits)
  show ?thesis unfolding e
  proof (rule wp_seq [OF wp_mono [OF listed]], assumption)
    fix err w1 assume "w1 = w\<lparr>tick := Suc (tick w)\<rparr>"
    then have "enqueued rule event recovered w (defaultNotificationContent (Some rule) (Some event) recovered) 0 w1"
      by (simp add: enqueued_def queued_none)
    then show "?E err w1" by blast
  next
    fix cs w1 assume cs: "cs = ?channels \<and> quiet w w1"
    show "wp (andThen (buildNotificationContent nv rule (Some event) recovered) (\<lambda>content. forEach (enqueueOne rule event content cs) ids)) ?Q ?E w1"
    proof (rule wp_seq, rule wp_mono [OF content_quiet], assumption)
      fix content w2 assume c: "quiet w1 w2 \<and> (TrimSpace (ar_NotifyTemplate rule) = [] \<longrightarrow> content = defaultNotificationContent (Some rule) (Some event) recovered)"
      with cs have "quiet w w2" using quiet_trans by blast
      from enqueueContent [OF ok this ids_def, of content event recovered] c cs
      show "wp (forEach (enqueueOne rule event content cs) ids) ?Q ?E w2" by (auto elim!: wp_mono)
    qed simp
  qed
qed

text \<open>queueing. For a rule the engine queues one pending notification for each channel id the rule
  lists (in that order, a repeated id again) whose channel exists, is enabled and has a target, each with
  the name of the rule as title, the severity of the event and the merged labels; all have the same text,
  the default one if the rule has no template. If it returns an error the first of them may be queued.
  Nothing else changes.\<close>

theorem EnqueueForEvent_spec:
  assumes "table_ok (alert_channels w)" and run: "EnqueueForEvent nv rule event recovered w = (r, w')"
  shows "\<exists>content k. w' = w\<lparr>tick := tick w', alert_notifications := alert_notifications w'\<rparr> \<and>
    map withoutModel (rows (alert_notifications w')) = map withoutModel (rows (alert_notifications w)) @
      map (\<lambda>(c, t). newNotification rule event c content t) (take k (ruleDeliveries (alert_channels w) rule)) \<and>
    (isl r \<or> length (ruleDeliveries (alert_channels w) rule) \<le> k) \<and>
    (TrimSpace (ar_NotifyTemplate rule) = [] \<longrightarrow> content = defaultNotificationContent (Some rule) (Some event) recovered)"
proof -
  have "\<exists>content k. enqueued rule event recovered w content k w' \<and> (isl r \<or> length (ruleDeliveries (alert_channels w) rule) \<le> k)"
    using run wp_Inl [OF enqueueEvent [OF assms(1)], of nv rule event recovered] wp_Inr [OF enqueueEvent [OF assms(1)], of nv rule event recovered "()" w']
    by (cases r) auto
  then show ?thesis unfolding enqueued_def queued_def by blast
qed

definition demoChannel :: AlertChannel where
  "demoChannel = \<lparr>Oid = 7, GmtCreate = 0, GmtModified = 0, ResourceVersion = 0, ac_Name = ''ops'', ac_Description = [], ac_ChannelType = AlertNotifyChannelWeCom,
     ac_Config = jsonPrint (JObj [(''webhook_url'', JStr '' http://x'')]), ac_Enabled = True, ac_CreatedBy = [], ac_Extension = []\<rparr>"

definition demoAlerting :: alert_db where
  "demoAlerting = demoAlertDb\<lparr>alert_channels := \<lparr>rows = [demoChannel], next_id = 8\<rparr>\<rparr>"

lemma demoChannel_target: "resolveNotificationTargetFromChannel demoChannel = Inr (''http://x'', [])"
proof -
  let ?j = "JObj [(''webhook_url'', JStr '' http://x'')]"
  have p: "jsonParse (jsonPrint ?j) = Some ?j" by (rule jsonParse_jsonPrint) (simp_all add: byteOf_def RuneError_def maxNestingDepth_def)
  have "jsonPrint ?j \<noteq> [] \<and> hd (jsonPrint ?j) = CHR ''{'' \<and> last (jsonPrint ?j) = CHR ''}''" by simp
  then have t: "TrimSpace (jsonPrint ?j) = jsonPrint ?j" "jsonPrint ?j \<noteq> []" by (auto intro!: TrimSpace_id simp: isSpace_def)
  have f: "foldName ''webhook_url'' = ''webhook_url''" by (rule foldName_lower) (simp add: byteOf_def)
  have "parseWeComChannelConfig (jsonPrint ?j) = \<lparr>wcc_WebhookURL = '' http://x''\<rparr>"
    unfolding parseWeComChannelConfig_def parseInto_def Let_def t(1)
    using t(2) by (simp only: p if_False option.case) (simp add: fieldDecoder_def f field_def del: foldName.simps)
  then show ?thesis by (simp add: resolveNotificationTargetFromChannel_def demoChannel_def channel_defs Let_def TrimSpace_def isSpace_def del: jsonPrint.simps)
qed

lemma EnqueueForEvent_spec_witness:
  "\<exists>content k. map withoutModel (rows (alert_notifications (snd (EnqueueForEvent demoNet (demoRule\<lparr>ar_NotifyChannels := ''7,9,7''\<rparr>) demoEvent False demoAlerting)))) =
     map (\<lambda>(c, t). newNotification (demoRule\<lparr>ar_NotifyChannels := ''7,9,7''\<rparr>) demoEvent c content t) (take k (replicate 2 (demoChannel, (''http://x'', []))))"
proof -
  let ?rule = "demoRule\<lparr>ar_NotifyChannels := ''7,9,7''\<rparr>"
  have "parseNotifyChannelIDs ''7,9,7'' = [7, 9, 7]"
    by (simp add: parseNotifyChannelIDs_def List.map_filter_simps Let_def TrimSpace_def isSpace_def ParseInt_def HasPrefix_def charDigit_def int64_def minInt64_def maxInt64_def)
  moreover have "rows (alert_channels demoAlerting) = [demoChannel]" "ac_Enabled demoChannel" "Oid demoChannel = 7"
    by (simp_all add: demoAlerting_def demoChannel_def)
  ultimately have d: "ruleDeliveries (alert_channels demoAlerting) ?rule = replicate 2 (demoChannel, (''http://x'', []))"
    by (simp add: ruleDeliveries_def delivery_def demoChannel_target numeral_2_eq_2)
  have "table_ok (alert_channels demoAlerting)" by (simp add: demoAlerting_def table_ok_def demoChannel_def)
  moreover have "rows (alert_notifications demoAlerting) = []" by (simp add: demoAlerting_def demoAlertDb_def)
  ultimately show ?thesis
    using EnqueueForEvent_spec [of demoAlerting demoNet ?rule demoEvent False, OF _ prod.collapse [symmetric]] by (simp add: d) blast
qed

section \<open>Line ends\<close>

lemma ReplaceAll_id: "old \<noteq> [] \<Longrightarrow> \<not> Contains s old \<Longrightarrow> ReplaceAll s old new = s"
  by (induction s) auto

lemma ReplaceAll_set: "set (ReplaceAll s old new) \<subseteq> set s \<union> set new"
  by (induction s old new rule: ReplaceAll.induct) (auto dest: in_set_dropD)

lemma ReplaceAll_one: "c \<notin> set new \<Longrightarrow> c \<notin> set (ReplaceAll s [c] new)"
  by (induction s "[c]" new rule: ReplaceAll.induct) (auto simp: HasPrefix_def)

lemma ReplaceAll_hd: "ReplaceAll s old [n] = d # ds \<Longrightarrow> d = n \<or> (s \<noteq> [] \<and> hd s = d)"
  by (cases s) (auto split: if_splits)

lemma ReplaceAll_pair:
  assumes "n \<notin> {a, b}"
  shows "\<not> Contains (ReplaceAll s [a, b] [n]) [a, b]"
proof (induction s "[a, b]" "[n]" rule: ReplaceAll.induct)
  case (2 c cs)
  show ?case
  proof (cases "HasPrefix (c # cs) [a, b]")
    case True
    with 2(1) assms show ?thesis by (auto simp: HasPrefix_def)
  next
    case False
    have "\<not> HasPrefix (c # ReplaceAll cs [a, b] [n]) [a, b]"
    proof
      assume "HasPrefix (c # ReplaceAll cs [a, b] [n]) [a, b]"
      then obtain ds where "c = a" "ReplaceAll cs [a, b] [n] = b # ds" by (cases "ReplaceAll cs [a, b] [n]") (auto simp: HasPrefix_def)
      with ReplaceAll_hd [OF this(2)] assms False show False by (cases cs) (auto simp: HasPrefix_def)
    qed
    with 2(2) [OF False] False show ?thesis by simp
  qed
qed simp

lemma Contains_set: "Contains s sub \<Longrightarrow> set sub \<subseteq> set s"
proof (induction s)
  case (Cons c cs)
  have "HasPrefix (c # cs) sub \<Longrightarrow> set sub \<subseteq> set (c # cs)" by (metis HasPrefix_def set_take_subset)
  with Cons show ?case by auto
qed simp

text \<open>the text that is sent has one kind of line end: no carriage return and no \<open>\n\<close> written as
  two characters is left, and normalizing it again changes nothing.\<close>

theorem normalizeNotifyNewlines_normal:
  "CHR 0x0D \<notin> set (normalizeNotifyNewlines s) \<and> \<not> Contains (normalizeNotifyNewlines s) [CHR 0x5C, CHR ''n''] \<and>
   normalizeNotifyNewlines (normalizeNotifyNewlines s) = normalizeNotifyNewlines s"
proof -
  let ?r = "normalizeNotifyNewlines s"
  have cr: "CHR 0x0D \<notin> set ?r"
    using ReplaceAll_one [of "CHR 0x0D" newline] ReplaceAll_set [of _ "[CHR 0x5C, CHR ''n'']" newline]
    by (fastforce simp: normalizeNotifyNewlines_def newline_def)
  have bn: "\<not> Contains ?r [CHR 0x5C, CHR ''n'']"
    unfolding normalizeNotifyNewlines_def newline_def by (rule ReplaceAll_pair) simp
  have "\<not> Contains ?r [CHR 0x0D, CHR 0x0A]" "\<not> Contains ?r [CHR 0x0D]" using cr Contains_set by fastforce+
  then have "normalizeNotifyNewlines ?r = ?r"
    unfolding normalizeNotifyNewlines_def [of ?r] using bn by (simp add: ReplaceAll_id)
  with cr bn show ?thesis by blast
qed

section \<open>The signature of the DingTalk requests\<close>

text \<open>signing adds \<open>timestamp\<close> and \<open>sign\<close> to the query of the URL and keeps its other keys, but
  the signature is escaped twice: who decodes the query, as the receiver does, finds the escaped form
  of the signature, which differs from it, because the base64 form of 32 bytes ends in \<open>=\<close>.\<close>

theorem signDingTalkWebhookURL_escaped_twice:
  assumes "TrimSpace secret \<noteq> []" and "nv_url nv url = Some (before, query, rest)" and "length (nv_hmac nv (TrimSpace secret) msg) = 32"
    and "msg = FormatInt (clock w (tick w) div 10 ^ 6) @ newline @ TrimSpace secret"
  shows "\<exists>q. signDingTalkWebhookURL nv url secret w = (Inr (before @ ''?'' @ q @ rest), w\<lparr>tick := Suc (tick w)\<rparr>) \<and>
    map_of (parseQuery q) ''timestamp'' = Some [FormatInt (clock w (tick w) div 10 ^ 6)] \<and>
    (let sig = base64Encode (nv_hmac nv (TrimSpace secret) msg)
     in map_of (parseQuery q) ''sign'' = Some [QueryEscape sig] \<and> QueryEscape sig \<noteq> sig) \<and>
    map_of (parseQuery q) |` (- {''timestamp'', ''sign''}) = map_of (parseQuery query) |` (- {''timestamp'', ''sign''})"
proof -
  define ts where "ts = FormatInt (clock w (tick w) div 10 ^ 6)"
  let ?sig = "base64Encode (nv_hmac nv (TrimSpace secret) msg)"
  let ?m1 = "qSet ''timestamp'' ts (parseQuery query)"
  let ?m = "qSet ''sign'' (QueryEscape ?sig) ?m1"
  have q1: "isQuery ?m1" unfolding qSet_def by (rule isQuery_qUpdate) (simp_all add: isQuery_parseQuery)
  have q2: "isQuery ?m" unfolding qSet_def [of "''sign''"] by (rule isQuery_qUpdate [OF q1]) simp
  have sorted: "sorted_wrt (<) (map fst (parseQuery query))" "sorted_wrt (<) (map fst ?m1)" using q1 isQuery_parseQuery by (simp_all add: isQuery_def)
  have m: "map_of ?m k = (if k = ''sign'' then Some [QueryEscape ?sig] else if k = ''timestamp'' then Some [ts] else map_of (parseQuery query) k)" for k
    using map_of_qUpdate [OF sorted(1), of "''timestamp''" "\<lambda>_. [ts]" k] map_of_qUpdate [OF sorted(2), of "''sign''" "\<lambda>_. [QueryEscape ?sig]" k]
    unfolding qSet_def by simp
  have "length (map of_char (nv_hmac nv (TrimSpace secret) msg) :: nat list) mod 3 \<noteq> 0" using assms(3) by simp
  then have "QueryEscape ?sig \<noteq> ?sig" unfolding base64Encode_def by (intro escape_padded base64_padded)
  moreover have "signDingTalkWebhookURL nv url secret w = (Inr (before @ ''?'' @ encodeQuery ?m @ rest), w\<lparr>tick := Suc (tick w)\<rparr>)"
    using assms(1,2) unfolding assms(4) ts_def by (simp add: signDingTalkWebhookURL_def Let_def andThen_def onResult_def timeNow_def ret_def)
  ultimately show ?thesis unfolding ts_def [symmetric]
    by (intro exI [of _ "encodeQuery ?m"]) (auto simp: parseQuery_encodeQuery [OF q2] m Let_def restrict_map_def fun_eq_iff)
qed

lemma signDingTalkWebhookURL_escaped_twice_witness:
  "\<exists>q. signDingTalkWebhookURL (demoNet\<lparr>nv_url := \<lambda>_. Some (''https://x'', ''access_token=1'', [])\<rparr>) ''https://x?access_token=1'' ''secret'' demoAlertDb =
     (Inr (''https://x'' @ ''?'' @ q @ []), demoAlertDb\<lparr>tick := Suc (tick demoAlertDb)\<rparr>)"
proof -
  have "TrimSpace ''secret'' \<noteq> []" by (simp add: TrimSpace_def isSpace_def)
  from signDingTalkWebhookURL_escaped_twice [of "''secret''" "demoNet\<lparr>nv_url := \<lambda>_. Some (''https://x'', ''access_token=1'', [])\<rparr>"
      "''https://x?access_token=1''" "''https://x''" "''access_token=1''" "[]" _ demoAlertDb, OF this _ _ refl]
  show ?thesis by (simp add: demoNet_def) blast
qed

end
