(* ===== verification/Engine.thy ===== *)
theory Engine
  imports NotifyQueue
begin

text \<open>
  The alert engine (\<open>pkg/controller/alert/engine\<close>): the life of an event (\<open>trigger.go\<close>), the evaluation of
  a rule (\<open>manager.go\<close>) and the workers of the scheduler (\<open>scheduler.go\<close>). The metric provider is a
  parameter: what it answers depends on the number of interactions so far and on the rule, and it
  changes no table.
\<close>

section \<open>Events\<close>

text \<open>\<open>time.Duration\<close>: 64 bits; \<open>time.Since\<close> saturates.\<close>

definition seconds :: "int \<Rightarrow> int" where "seconds n = wrap64 (n * 10 ^ 9)"
definition minutes :: "int \<Rightarrow> int" where "minutes n = wrap64 (n * (60 * 10 ^ 9))"

definition timeSince :: "int \<Rightarrow> ('m env_scheme, 'e, int) act" where
  "timeSince t = andThen timeNow (\<lambda>now. ret (max minInt64 (min maxInt64 (now - t))))"

definition durationSatisfied :: "AlertEvent \<Rightarrow> int \<Rightarrow> ('m env_scheme, 'e, bool) act" where
  "durationSatisfied event durationSeconds =
     (if durationSeconds \<le> 0 then ret True
      else andThen (timeSince (GmtCreate event)) (\<lambda>since. ret (seconds durationSeconds \<le> since)))"

definition minRecoveryDurationSeconds :: int where "minRecoveryDurationSeconds = 300"

definition recoveryDurationSatisfied :: "AlertEvent \<Rightarrow> int \<Rightarrow> ('m env_scheme, 'e, bool) act" where
  "recoveryDurationSatisfied event durationSeconds0 = (case ae_LastSentAt event of
     None \<Rightarrow> ret False
   | Some t \<Rightarrow> (let durationSeconds = (if durationSeconds0 \<le> 0 then minRecoveryDurationSeconds else durationSeconds0)
       in andThen (timeSince t) (\<lambda>since. ret (seconds durationSeconds \<le> since))))"

definition valueUpdates :: "MetricSample \<Rightarrow> AlertEvent updates" where
  "valueUpdates sample = [(''trigger_value'', ae_TriggerValue_update (\<lambda>_. ms_Value sample))]"

text \<open>\<open>if active.TriggerValue != sample.Value { _ = UpdateSilent(...) }\<close>\<close>

definition updateValue :: "AlertEvent \<Rightarrow> MetricSample \<Rightarrow> ('m alert_db_scheme, goerr, unit) act" where
  "updateValue active sample =
     (if ae_TriggerValue active \<noteq> ms_Value sample then ignoring (alertEventUpdateSilent (Oid active) (valueUpdates sample)) else ret ())"

definition countUpdates :: "int \<Rightarrow> int \<Rightarrow> AlertEvent updates" where
  "countUpdates n now = [(''notify_cur_number'', ae_NotifyCurNumber_update (\<lambda>_. n)), (''last_sent_at'', ae_LastSentAt_update (\<lambda>_. Some now))]"

text \<open>The event in memory after a guarded update that counts a notification.\<close>

definition counted :: "AlertEvent \<Rightarrow> MetricSample \<Rightarrow> int \<Rightarrow> int \<Rightarrow> AlertEvent" where
  "counted active sample n now = active\<lparr>ae_TriggerValue := ms_Value sample, ae_NotifyCurNumber := n,
     ae_LastSentAt := Some now, ResourceVersion := ResourceVersion active + 1\<rparr>"

definition sendFirstNotification :: "notify_env \<Rightarrow> AlertRule \<Rightarrow> AlertEvent \<Rightarrow> MetricSample \<Rightarrow> int \<Rightarrow> ('m alert_db_scheme, goerr, unit) act" where
  "sendFirstNotification nv rule active sample now =
     andThen (alertEventUpdate (Oid active) (ResourceVersion active) (valueUpdates sample @ countUpdates 1 now)) (\<lambda>_.
       EnqueueForEvent nv rule (counted active sample 1 now) False)"

definition nextCount :: "AlertEvent \<Rightarrow> int" where
  "nextCount active = (let n = wrap64 (ae_NotifyCurNumber active + 1) in if n \<le> 0 then 1 else n)"

definition fireRepeat :: "notify_env \<Rightarrow> AlertRule \<Rightarrow> AlertEvent \<Rightarrow> MetricSample \<Rightarrow> int \<Rightarrow> ('m alert_db_scheme, goerr, unit) act" where
  "fireRepeat nv rule active sample now =
     (let repeatStep = NormalizeNotifyRepeatStep (ar_NotifyRepeatStep rule);
          lastSent = (case ae_LastSentAt active of None \<Rightarrow> GmtCreate active | Some t \<Rightarrow> t);
          maxNumber = NormalizeNotifyMaxNumber (ar_NotifyMaxNumber rule)
      in if repeatStep = 0 then updateValue active sample
         else if now < lastSent + minutes repeatStep then updateValue active sample
         else if 0 < maxNumber \<and> maxNumber \<le> ae_NotifyCurNumber active then updateValue active sample
         else andThen (alertEventUpdate (Oid active) (ResourceVersion active) (valueUpdates sample @ countUpdates (nextCount active) now)) (\<lambda>_.
           EnqueueForEvent nv rule (counted active sample (nextCount active) now) False))"

definition newEvent :: "AlertRule \<Rightarrow> MetricSample \<Rightarrow> EvaluableTrigger \<Rightarrow> string \<Rightarrow> string \<Rightarrow> int option \<Rightarrow> int \<Rightarrow> AlertEvent" where
  "newEvent rule sample trigger resourceType resourceName lastSent n = pixiu_model.extend newModel
     \<lparr>ae_RuleId = Oid rule, ae_RuleName = ar_Name rule, ae_Status = AlertEventStatusFiring, ae_Severity = et_Severity trigger,
      ae_TriggerValue = ms_Value sample, ae_TriggerExpr = formatTriggerExpr trigger, ae_ResourceType = resourceType,
      ae_ResourceName = resourceName, ae_ResourceNamespace = ms_Namespace sample, ae_ClusterId = ms_ClusterId sample,
      ae_TenantId = ms_TenantId sample, ae_RecoverValue = [], ae_RecoverTime = None, ae_LastSentAt = lastSent,
      ae_NotifyCurNumber = n, ae_Labels = BuildEvent (Some rule) (ms_Labels sample), ae_Annotations = Encode (ms_Annotations sample),
      ae_Extension = []\<rparr>"

definition sampleType :: "MetricSample \<Rightarrow> string" where
  "sampleType sample = (if ms_ResourceType sample = [] then ''metric'' else ms_ResourceType sample)"

definition sampleName :: "MetricSample \<Rightarrow> EvaluableTrigger \<Rightarrow> string" where
  "sampleName sample trigger = (if ms_ResourceName sample = [] then formatTriggerKey trigger else ms_ResourceName sample)"

definition Fire :: "notify_env \<Rightarrow> AlertRule \<Rightarrow> MetricSample \<Rightarrow> EvaluableTrigger \<Rightarrow> ('m alert_db_scheme, goerr, unit) act" where
  "Fire nv rule sample trigger =
     (let resourceType = sampleType sample; resourceName = sampleName sample trigger
      in andThen (alertEventGetActive (Oid rule) resourceType resourceName) (\<lambda>found. andThen timeNow (\<lambda>now.
        (case found of
           Some active \<Rightarrow>
             if ae_NotifyCurNumber active = 0
             then andThen (durationSatisfied active (et_Duration trigger)) (\<lambda>satisfied.
               if \<not> satisfied then updateValue active sample else sendFirstNotification nv rule active sample now)
             else fireRepeat nv rule active sample now
         | None \<Rightarrow>
             if 0 < et_Duration trigger
             then andThen (alertEventCreate (newEvent rule sample trigger resourceType resourceName None 0)) (\<lambda>event.
               andThen (durationSatisfied event (et_Duration trigger)) (\<lambda>satisfied.
                 if satisfied then sendFirstNotification nv rule event sample now else ret ()))
             else andThen (alertEventCreate (newEvent rule sample trigger resourceType resourceName (Some now) 1)) (\<lambda>event.
               EnqueueForEvent nv rule event False)))))"

definition Recover :: "AlertRule \<Rightarrow> MetricSample \<Rightarrow> EvaluableTrigger \<Rightarrow> ('w, goerr, unit) act" where
  "Recover rule sample trigger = ret ()"

definition markRecovered :: "notify_env \<Rightarrow> AlertRule \<Rightarrow> AlertEvent \<Rightarrow> string \<Rightarrow> int \<Rightarrow> bool \<Rightarrow> ('m alert_db_scheme, goerr, unit) act" where
  "markRecovered nv rule active recoverValue now notifyRecovery =
     andThen (alertEventUpdate (Oid active) (ResourceVersion active)
         [(''status'', ae_Status_update (\<lambda>_. AlertEventStatusRecovered)), (''recover_value'', ae_RecoverValue_update (\<lambda>_. recoverValue)),
          (''recover_time'', ae_RecoverTime_update (\<lambda>_. Some now))]) (\<lambda>_.
       if notifyRecovery
       then EnqueueForEvent nv rule (active\<lparr>ae_Status := AlertEventStatusRecovered, ae_RecoverValue := recoverValue, ae_RecoverTime := Some now\<rparr>) True
       else ret ())"

section \<open>The evaluation of a rule\<close>

type_synonym provider = "nat \<Rightarrow> AlertRule \<Rightarrow> goerr + MetricSample list"

definition providerQuery :: "provider \<Rightarrow> AlertRule \<Rightarrow> ('m env_scheme, goerr, MetricSample list) act" where
  "providerQuery provider rule = (\<lambda>w. (provider (tick w) rule, w\<lparr>tick := Suc (tick w)\<rparr>))"

definition evaluateSample :: "notify_env \<Rightarrow> AlertSilence list \<Rightarrow> AlertRule \<Rightarrow> EvaluableTrigger \<Rightarrow> MetricSample \<Rightarrow> ('m alert_db_scheme, goerr, unit) act" where
  "evaluateSample nv silences ruleCopy trigger sample =
     (if MatchExpr (ar_RuleType ruleCopy) (et_Condition trigger) (ms_Value sample)
      then andThen (IsSilenced silences ruleCopy sample) (\<lambda>silenced. if silenced then ret ()
        else andThen timeNow (\<lambda>now. if \<not> IsWithinEffectiveTime (nv_zone nv) ruleCopy now then ret ()
          else Fire nv ruleCopy sample trigger))
      else Recover ruleCopy sample trigger)"

definition evaluateRule :: "notify_env \<Rightarrow> provider \<Rightarrow> AlertRule \<Rightarrow> AlertSilence list \<Rightarrow> ('m alert_db_scheme, goerr, unit) act" where
  "evaluateRule nv provider rule silences = (let triggers = ListAlertTriggers rule in
     if triggers = [] then ret ()
     else andThen (providerQuery provider rule) (\<lambda>samples. if samples = [] then ret ()
       else forEach (\<lambda>trigger. forEach (evaluateSample nv silences (rule\<lparr>ar_Duration := et_Duration trigger\<rparr>) trigger) samples) triggers))"

definition EvaluateRule :: "notify_env \<Rightarrow> provider \<Rightarrow> AlertRule \<Rightarrow> ('m alert_db_scheme, goerr, unit) act" where
  "EvaluateRule nv provider rule = andThen timeNow (\<lambda>now.
     andThen (onResult (LoadActive now) (\<lambda>_. ret []) ret) (evaluateRule nv provider rule))"

definition RunOnce :: "notify_env \<Rightarrow> provider \<Rightarrow> ('m alert_db_scheme, goerr, unit) act" where
  "RunOnce nv provider = andThen (alertRuleList [WithEnabled ar_Enabled True]) (\<lambda>rules.
     andThen (forEach (\<lambda>rule. ignoring (EvaluateRule nv provider rule)) rules) (\<lambda>_. DispatchPending nv))"

section \<open>The workers of the scheduler\<close>

definition ruleWorkerHash :: "AlertRule \<Rightarrow> string" where
  "ruleWorkerHash rule = Join
     [FormatInt (Oid rule), FormatInt (ResourceVersion rule), FormatInt (NormalizeEvalInterval (ar_EvalInterval rule)),
      (if ar_Enabled rule then ''true'' else ''false''), FormatInt (ar_RuleType rule), FormatInt (ar_Duration rule),
      FormatInt (ar_ScopeType rule), ar_ScopeValue rule, ar_NotifyChannels rule,
      FormatInt (NormalizeNotifyRepeatStep (ar_NotifyRepeatStep rule)), FormatInt (NormalizeNotifyMaxNumber (ar_NotifyMaxNumber rule)),
      ar_RuleConfig rule, ar_EnableDaysOfWeek rule, NormalizeEnableTime (ar_EnableStime rule), NormalizeEnableTime (ar_EnableEtime rule)] ''_''"

text \<open>A worker is an object: \<open>rw_addr\<close> tells two workers apart. \<open>rw_rule\<close> is the copy of the rule that its cron
  job evaluates.\<close>

record RuleWorker =
  rw_addr :: nat
  rw_ruleID :: int
  rw_hash :: string
  rw_rule :: AlertRule

record Scheduler =
  sc_workers :: "int \<rightharpoonup> RuleWorker"
  sc_running :: "nat set"
  sc_next :: nat

text \<open>\<open>cron.AddFunc\<close>: whether the specification is accepted is a parameter.\<close>

definition NewRuleWorker :: "(string \<Rightarrow> bool) \<Rightarrow> AlertRule \<Rightarrow> nat \<Rightarrow> RuleWorker option" where
  "NewRuleWorker cronOK rule addr =
     (if cronOK (EvalCronSpec (ar_EvalInterval rule))
      then Some \<lparr>rw_addr = addr, rw_ruleID = Oid rule, rw_hash = ruleWorkerHash rule, rw_rule = rule\<rparr> else None)"

text \<open>The first loop of \<open>syncRules\<close>: the desired workers, old where the hash is the same.\<close>

fun desiredWorkers :: "(string \<Rightarrow> bool) \<Rightarrow> (int \<rightharpoonup> RuleWorker) \<Rightarrow> AlertRule list \<Rightarrow> nat \<Rightarrow> (int \<rightharpoonup> RuleWorker) \<Rightarrow> (int \<rightharpoonup> RuleWorker) \<times> nat" where
  "desiredWorkers cronOK workers [] next desired = (desired, next)"
| "desiredWorkers cronOK workers (rule # rules) next desired =
     (case workers (Oid rule) of
        Some current \<Rightarrow>
          if rw_hash current = ruleWorkerHash rule then desiredWorkers cronOK workers rules next (desired(Oid rule \<mapsto> current))
          else (case NewRuleWorker cronOK rule next of
              None \<Rightarrow> desiredWorkers cronOK workers rules (Suc next) desired
            | Some worker \<Rightarrow> desiredWorkers cronOK workers rules (Suc next) (desired(Oid rule \<mapsto> worker)))
      | None \<Rightarrow> (case NewRuleWorker cronOK rule next of
            None \<Rightarrow> desiredWorkers cronOK workers rules (Suc next) desired
          | Some worker \<Rightarrow> desiredWorkers cronOK workers rules (Suc next) (desired(Oid rule \<mapsto> worker))))"

text \<open>The second loop, for one key: start a worker that is not the current one, after stopping that.\<close>

definition startWorker :: "int \<times> RuleWorker \<Rightarrow> Scheduler \<Rightarrow> Scheduler" where
  "startWorker kw s = (case kw of (ruleID, worker) \<Rightarrow> (case sc_workers s ruleID of
     Some current \<Rightarrow> if rw_addr current = rw_addr worker then s
       else s\<lparr>sc_running := insert (rw_addr worker) (sc_running s - {rw_addr current}), sc_workers := (sc_workers s)(ruleID \<mapsto> worker)\<rparr>
   | None \<Rightarrow> s\<lparr>sc_running := insert (rw_addr worker) (sc_running s), sc_workers := (sc_workers s)(ruleID \<mapsto> worker)\<rparr>))"

text \<open>The third loop, for one key of the workers: stop and remove a worker that is not desired.\<close>

definition removeWorker :: "(int \<rightharpoonup> RuleWorker) \<Rightarrow> int \<Rightarrow> Scheduler \<Rightarrow> Scheduler" where
  "removeWorker desired ruleID s = (case sc_workers s ruleID of
     None \<Rightarrow> s
   | Some worker \<Rightarrow> if desired ruleID \<noteq> None then s
       else s\<lparr>sc_running := sc_running s - {rw_addr worker}, sc_workers := (sc_workers s)(ruleID := None)\<rparr>)"

text \<open>\<open>order1\<close> and \<open>order2\<close> are the orders in which \<open>range\<close> goes over the two maps; \<open>listed\<close> is the answer
  of the database.\<close>

definition syncRules :: "(string \<Rightarrow> bool) \<Rightarrow> int list \<Rightarrow> int list \<Rightarrow> goerr + AlertRule list \<Rightarrow> Scheduler \<Rightarrow> Scheduler" where
  "syncRules cronOK order1 order2 listed s = (case listed of
     Inl err \<Rightarrow> s
   | Inr rules \<Rightarrow> if rules = [] then s
       else (case desiredWorkers cronOK (sc_workers s) rules (sc_next s) Map.empty of (desired, next) \<Rightarrow>
         (let s1 = fold (\<lambda>k s. case desired k of None \<Rightarrow> s | Some w \<Rightarrow> startWorker (k, w) s) order1 (s\<lparr>sc_next := next\<rparr>)
          in fold (removeWorker desired) order2 s1)))"

definition NewScheduler :: Scheduler where
  "NewScheduler = \<lparr>sc_workers = Map.empty, sc_running = {}, sc_next = 0\<rparr>"

definition StopScheduler :: "int list \<Rightarrow> Scheduler \<Rightarrow> Scheduler" where
  "StopScheduler order s = fold (removeWorker Map.empty) order s"

definition loopSyncRules :: "notify_env \<Rightarrow> (string \<Rightarrow> bool) \<Rightarrow> int list \<Rightarrow> int list \<Rightarrow> Scheduler \<Rightarrow> ('m alert_db_scheme, goerr, Scheduler) act" where
  "loopSyncRules nv cronOK order1 order2 s =
     andThen (attempt (alertRuleList [WithEnabled ar_Enabled True])) (\<lambda>listed.
       andThen (ignoring (DispatchPending nv)) (\<lambda>_. ret (syncRules cronOK order1 order2 listed s)))"

end
