(* ===== verification/EngineProps.thy ===== *)
theory EngineProps
  imports Engine
begin

text \<open>
  What the engine guarantees: the workers of the scheduler after a pass, the hash that tells two versions of
  a rule apart, and evaluations that call for nothing.
\<close>


section \<open>The workers of the scheduler\<close>

text \<open>The jobs that run are those of the workers in the map, and no two keys share a worker.\<close>

definition addresses :: "(int \<rightharpoonup> RuleWorker) \<Rightarrow> nat set" where
  "addresses W = rw_addr ` ran W"

definition apart :: "(int \<rightharpoonup> RuleWorker) \<Rightarrow> (int \<rightharpoonup> RuleWorker) \<Rightarrow> bool" where
  "apart W D \<longleftrightarrow> (\<forall>k k' w w'. W k = Some w \<longrightarrow> D k' = Some w' \<longrightarrow> rw_addr w = rw_addr w' \<longrightarrow> k = k' \<and> w = w')"

definition schedOK :: "Scheduler \<Rightarrow> bool" where
  "schedOK s \<longleftrightarrow> sc_running s = addresses (sc_workers s) \<and> apart (sc_workers s) (sc_workers s) \<and>
     (\<forall>k w. sc_workers s k = Some w \<longrightarrow> rw_ruleID w = k \<and> rw_addr w < sc_next s)"

lemma apartD: "apart W D \<Longrightarrow> W k = Some w \<Longrightarrow> D k' = Some w' \<Longrightarrow> rw_addr w = rw_addr w' \<Longrightarrow> k = k' \<and> w = w'"
  by (simp add: apart_def)

lemma addresses_iff: "a \<in> addresses W \<longleftrightarrow> (\<exists>k w. W k = Some w \<and> rw_addr w = a)"
  by (auto simp: addresses_def ran_def image_iff)

lemma addresses_drop:
  assumes "apart W W" and "W k = Some w"
  shows "addresses (W(k := None)) = addresses W - {rw_addr w}"
proof (rule set_eqI)
  fix a
  have same: "rw_addr x = rw_addr w \<longleftrightarrow> k' = k" if "W k' = Some x" for k' x
    using apartD [OF assms(1) that assms(2)] assms(2) that by auto
  show "a \<in> addresses (W(k := None)) \<longleftrightarrow> a \<in> addresses W - {rw_addr w}"
    unfolding addresses_iff Diff_iff using same by auto
qed

lemma addresses_add: "W k = None \<Longrightarrow> addresses (W(k \<mapsto> w)) = insert (rw_addr w) (addresses W)"
  by (simp add: addresses_def ran_map_upd)

lemma addresses_replace:
  assumes "apart W W" and "W k = Some c"
  shows "addresses (W(k \<mapsto> w)) = insert (rw_addr w) (addresses W - {rw_addr c})"
  using addresses_add [of "W(k := None)" k w] addresses_drop [OF assms] by simp

definition startInv :: "(int \<rightharpoonup> RuleWorker) \<Rightarrow> Scheduler \<Rightarrow> bool" where
  "startInv D s \<longleftrightarrow> sc_running s = addresses (sc_workers s) \<and> apart (sc_workers s) (sc_workers s) \<and> apart (sc_workers s) D \<and> apart D D"

lemma apart_upd: "apart W W \<Longrightarrow> apart W D \<Longrightarrow> apart D D \<Longrightarrow> D k = Some w \<Longrightarrow> apart (W(k \<mapsto> w)) (W(k \<mapsto> w)) \<and> apart (W(k \<mapsto> w)) D"
  unfolding apart_def by (auto split: if_splits)

lemma startWorker_step:
  assumes inv: "startInv D s" and D: "D k = Some w"
  shows "startInv D (startWorker (k, w) s) \<and> sc_workers (startWorker (k, w) s) = (sc_workers s)(k \<mapsto> w) \<and> sc_next (startWorker (k, w) s) = sc_next s"
proof (cases "sc_workers s k")
  case None
  with inv D show ?thesis by (auto simp: startInv_def startWorker_def apart_upd addresses_add)
next
  case (Some c)
  show ?thesis
  proof (cases "rw_addr c = rw_addr w")
    case True
    with inv D Some have "c = w" by (auto simp: startInv_def dest: apartD)
    with True Some inv show ?thesis by (auto simp: startWorker_def)
  next
    case False
    with inv D Some show ?thesis by (auto simp: startInv_def startWorker_def apart_upd addresses_replace)
  qed
qed

lemma startWorkers:
  assumes "startInv D s" and "\<forall>x. D x \<noteq> None \<longrightarrow> x \<in> set order \<or> sc_workers s x = D x"
  shows "\<exists>s'. fold (\<lambda>k s. case D k of None \<Rightarrow> s | Some w \<Rightarrow> startWorker (k, w) s) order s = s' \<and> startInv D s' \<and>
    sc_workers s' = sc_workers s ++ D \<and> sc_next s' = sc_next s"
  using assms
proof (induction order arbitrary: s)
  case Nil
  then have "sc_workers s = sc_workers s ++ D" by (intro ext) (auto simp: map_add_def split: option.splits)
  with Nil show ?case by simp
next
  case (Cons k order)
  show ?case
  proof (cases "D k")
    case None
    with Cons.prems(2) have "\<forall>x. D x \<noteq> None \<longrightarrow> x \<in> set order \<or> sc_workers s x = D x" by auto
    from Cons.IH [OF Cons.prems(1) this] None show ?thesis by simp
  next
    case (Some w)
    note step = startWorker_step [OF Cons.prems(1) Some]
    have cover: "\<forall>x. D x \<noteq> None \<longrightarrow> x \<in> set order \<or> sc_workers (startWorker (k, w) s) x = D x"
      using Cons.prems(2) step Some by auto
    have same: "sc_workers (startWorker (k, w) s) ++ D = sc_workers s ++ D"
      using step Some by (auto simp: map_add_def fun_eq_iff split: option.splits)
    show ?thesis using Cons.IH [OF conjunct1 [OF step] cover] step Some unfolding same by simp
  qed
qed

definition removeInv :: "Scheduler \<Rightarrow> bool" where
  "removeInv s \<longleftrightarrow> sc_running s = addresses (sc_workers s) \<and> apart (sc_workers s) (sc_workers s)"

lemma removeWorker_step:
  assumes "removeInv s"
  shows "removeInv (removeWorker D k s) \<and> sc_next (removeWorker D k s) = sc_next s \<and>
    sc_workers (removeWorker D k s) = (if D k = None then (sc_workers s)(k := None) else sc_workers s)"
proof (cases "sc_workers s k")
  case None
  with assms show ?thesis by (auto simp: removeWorker_def fun_upd_idem)
next
  case (Some w)
  with assms show ?thesis by (auto simp: removeInv_def removeWorker_def addresses_drop apart_def)
qed

lemma removeWorkers:
  assumes "removeInv s" and "dom (sc_workers s) \<subseteq> set order \<union> dom D"
  shows "\<exists>s'. fold (removeWorker D) order s = s' \<and> removeInv s' \<and> sc_workers s' = sc_workers s |` dom D \<and> sc_next s' = sc_next s"
  using assms
proof (induction order arbitrary: s)
  case Nil
  then have "sc_workers s = sc_workers s |` dom D" by (intro ext) (auto simp: restrict_map_def)
  with Nil show ?case by simp
next
  case (Cons k order)
  note step = removeWorker_step [OF Cons.prems(1), of D k]
  have "dom (sc_workers (removeWorker D k s)) \<subseteq> set order \<union> dom D" using Cons.prems(2) step by (auto simp: domIff split: if_splits)
  moreover have "sc_workers (removeWorker D k s) |` dom D = sc_workers s |` dom D" using step by (auto simp: restrict_map_def fun_eq_iff)
  ultimately show ?case using Cons.IH [of "removeWorker D k s"] step by simp
qed

text \<open>The worker of a rule after a pass: the old one if its hash is the same, otherwise a new one, unless
  cron refuses the specification.\<close>

definition workerOf :: "(string \<Rightarrow> bool) \<Rightarrow> (int \<rightharpoonup> RuleWorker) \<Rightarrow> nat \<Rightarrow> AlertRule \<Rightarrow> RuleWorker option \<Rightarrow> bool" where
  "workerOf cronOK W n rule x \<longleftrightarrow>
     (if \<exists>c. W (Oid rule) = Some c \<and> rw_hash c = ruleWorkerHash rule then x = W (Oid rule)
      else if cronOK (EvalCronSpec (ar_EvalInterval rule))
      then (\<exists>a\<ge>n. x = Some \<lparr>rw_addr = a, rw_ruleID = Oid rule, rw_hash = ruleWorkerHash rule, rw_rule = rule\<rparr>)
      else x = None)"

definition desiredInv :: "(int \<rightharpoonup> RuleWorker) \<Rightarrow> nat \<Rightarrow> (int \<rightharpoonup> RuleWorker) \<Rightarrow> bool" where
  "desiredInv W n D \<longleftrightarrow> apart D D \<and> apart W D \<and> (\<forall>k w. D k = Some w \<longrightarrow> rw_ruleID w = k \<and> rw_addr w < n) \<and>
     apart W W \<and> (\<forall>k w. W k = Some w \<longrightarrow> rw_ruleID w = k \<and> rw_addr w < n)"

lemma apart_sym: "apart W D = apart D W"
  unfolding apart_def by metis

lemma desiredInv_keep: "desiredInv W n D \<Longrightarrow> W k = Some c \<Longrightarrow> desiredInv W n (D(k \<mapsto> c))"
proof -
  assume inv: "desiredInv W n D" and c: "W k = Some c"
  from inv have "apart D D" "apart D W" "apart W W" by (simp_all add: desiredInv_def apart_sym [of D W])
  from apart_upd [OF this c] have "apart (D(k \<mapsto> c)) (D(k \<mapsto> c))" "apart W (D(k \<mapsto> c))" by (simp_all add: apart_sym [of W])
  with inv c show ?thesis by (simp add: desiredInv_def)
qed

lemma apart_fresh:
  assumes "\<And>k' w'. D k' = Some w' \<Longrightarrow> rw_addr w' \<noteq> rw_addr w"
  shows "apart D D \<Longrightarrow> apart (D(k \<mapsto> w)) (D(k \<mapsto> w))"
    and "apart W D \<Longrightarrow> (\<And>k' w'. W k' = Some w' \<Longrightarrow> rw_addr w' \<noteq> rw_addr w) \<Longrightarrow> apart W (D(k \<mapsto> w))"
proof -
  have same: "k2 = k \<and> w2 = w" if "(D(k \<mapsto> w)) k2 = Some w2" "rw_addr w2 = rw_addr w" for k2 w2
    using assms that by (cases "k2 = k") auto
  show "apart (D(k \<mapsto> w)) (D(k \<mapsto> w))" if d: "apart D D"
    unfolding apart_def
  proof (intro allI impI)
    fix k1 k2 w1 w2 assume a: "(D(k \<mapsto> w)) k1 = Some w1" "(D(k \<mapsto> w)) k2 = Some w2" "rw_addr w1 = rw_addr w2"
    show "k1 = k2 \<and> w1 = w2"
    proof (cases "k1 = k \<or> k2 = k")
      case True
      with a have "rw_addr w1 = rw_addr w" "rw_addr w2 = rw_addr w" by auto
      with same a(1,2) show ?thesis by blast
    next
      case False
      with a apartD [OF d, of k1 w1 k2 w2] show ?thesis by simp
    qed
  qed
  show "apart W (D(k \<mapsto> w))" if "apart W D" "\<And>k' w'. W k' = Some w' \<Longrightarrow> rw_addr w' \<noteq> rw_addr w"
    using that unfolding apart_def by (metis fun_upd_apply option.inject)
qed

lemma desiredInv_new: "desiredInv W n D \<Longrightarrow> rw_addr w = n \<Longrightarrow> rw_ruleID w = k \<Longrightarrow> desiredInv W (Suc n) (D(k \<mapsto> w))"
proof -
  assume inv: "desiredInv W n D" and w: "rw_addr w = n" "rw_ruleID w = k"
  then have "D k' = Some w' \<Longrightarrow> rw_addr w' \<noteq> rw_addr w" "W k' = Some w' \<Longrightarrow> rw_addr w' \<noteq> rw_addr w" for k' w'
    unfolding desiredInv_def by fastforce+
  then have "apart (D(k \<mapsto> w)) (D(k \<mapsto> w))" "apart W (D(k \<mapsto> w))"
    using inv apart_fresh by (simp_all add: desiredInv_def)
  with inv w show ?thesis by (auto simp: desiredInv_def intro: less_SucI)
qed

lemma desiredInv_skip: "desiredInv W n D \<Longrightarrow> desiredInv W (Suc n) D"
  unfolding desiredInv_def by (auto intro: less_SucI)

lemma desiredWorkers_spec:
  assumes "desiredWorkers cronOK W rules n D = (D', n')" and "desiredInv W n D" and "distinct (map Oid rules)"
    and "\<And>rule. rule \<in> set rules \<Longrightarrow> D (Oid rule) = None"
  shows "n \<le> n' \<and> desiredInv W n' D' \<and> (\<forall>k. k \<notin> Oid ` set rules \<longrightarrow> D' k = D k) \<and>
    (\<forall>rule \<in> set rules. workerOf cronOK W n rule (D' (Oid rule)))"
  using assms
proof (induction rules arbitrary: n D)
  case Nil
  then show ?case by simp
next
  case (Cons rule rules)
  obtain n1 D1 where step: "desiredWorkers cronOK W rules n1 D1 = (D', n')" "n \<le> n1" "desiredInv W n1 D1"
    "\<forall>k. k \<noteq> Oid rule \<longrightarrow> D1 k = D k" "workerOf cronOK W n rule (D1 (Oid rule))"
  proof (cases "\<exists>c. W (Oid rule) = Some c \<and> rw_hash c = ruleWorkerHash rule")
    case True
    then obtain c where c: "W (Oid rule) = Some c" "rw_hash c = ruleWorkerHash rule" by auto
    show ?thesis
      by (rule that [of n "D(Oid rule \<mapsto> c)"]) (use c Cons.prems desiredInv_keep [OF Cons.prems(2) c(1)] in \<open>auto simp: workerOf_def\<close>)
  next
    case False
    define w where "w = \<lparr>rw_addr = n, rw_ruleID = Oid rule, rw_hash = ruleWorkerHash rule, rw_rule = rule\<rparr>"
    show ?thesis
    proof (cases "cronOK (EvalCronSpec (ar_EvalInterval rule))")
      case True
      show ?thesis
        by (rule that [of "Suc n" "D(Oid rule \<mapsto> w)"])
          (use True False Cons.prems desiredInv_new [OF Cons.prems(2), of w] in \<open>auto simp: workerOf_def NewRuleWorker_def w_def split: option.splits\<close>)
    next
      case no: False
      show ?thesis
        by (rule that [of "Suc n" D])
          (use no False Cons.prems desiredInv_skip [OF Cons.prems(2)] in \<open>auto simp: workerOf_def NewRuleWorker_def split: option.splits\<close>)
    qed
  qed
  have "distinct (map Oid rules)" "Oid rule \<notin> Oid ` set rules" using Cons.prems(3) by auto
  moreover have "D1 (Oid r) = None" if "r \<in> set rules" for r
    using that step(4) Cons.prems(4) \<open>Oid rule \<notin> Oid ` set rules\<close> by (metis image_eqI list.set_intros(2))
  ultimately have "n1 \<le> n' \<and> desiredInv W n' D' \<and> (\<forall>k. k \<notin> Oid ` set rules \<longrightarrow> D' k = D1 k) \<and>
    (\<forall>r \<in> set rules. workerOf cronOK W n1 r (D' (Oid r)))" by (intro Cons.IH [OF step(1,3)])
  moreover have "workerOf cronOK W n1 r x \<Longrightarrow> workerOf cronOK W n r x" for r x
    using step(2) by (auto simp: workerOf_def split: if_splits intro: order_trans)
  ultimately show ?case using step \<open>Oid rule \<notin> Oid ` set rules\<close> by auto
qed

text \<open>C15: one pass of the scheduler over a non-empty list of enabled rules, whatever the order in which the maps are
  walked: the workers are then exactly those of the listed rules, a worker whose hash is unchanged
  is kept, any other is replaced by one for the current rule, and the jobs that run are exactly those of the
  workers in the map (no job leaks, none is shared).\<close>

theorem syncRules_spec:
  assumes "schedOK s" and "rules \<noteq> []" and "distinct (map Oid rules)"
    and "Oid ` set rules \<subseteq> set order1" and "dom (sc_workers s) \<subseteq> set order2"
  shows "schedOK (syncRules cronOK order1 order2 (Inr rules) s) \<and>
    dom (sc_workers (syncRules cronOK order1 order2 (Inr rules) s)) \<subseteq> Oid ` set rules \<and>
    (\<forall>rule \<in> set rules. workerOf cronOK (sc_workers s) (sc_next s) rule (sc_workers (syncRules cronOK order1 order2 (Inr rules) s) (Oid rule)))"
proof -
  obtain D n where D: "desiredWorkers cronOK (sc_workers s) rules (sc_next s) Map.empty = (D, n)" by force
  have "desiredInv (sc_workers s) (sc_next s) Map.empty" using assms(1) by (auto simp: desiredInv_def schedOK_def apart_def)
  from desiredWorkers_spec [OF D this assms(3)]
  have d: "sc_next s \<le> n" "desiredInv (sc_workers s) n D" "\<forall>k. k \<notin> Oid ` set rules \<longrightarrow> D k = None"
    "\<forall>rule \<in> set rules. workerOf cronOK (sc_workers s) (sc_next s) rule (D (Oid rule))" by auto
  have "startInv D (s\<lparr>sc_next := n\<rparr>)" using assms(1) d(2) by (auto simp: startInv_def schedOK_def desiredInv_def)
  moreover have "\<forall>x. D x \<noteq> None \<longrightarrow> x \<in> set order1 \<or> sc_workers (s\<lparr>sc_next := n\<rparr>) x = D x"
    using d(3) assms(4) by (metis subsetD)
  ultimately obtain s1 where s1: "fold (\<lambda>k s. case D k of None \<Rightarrow> s | Some w \<Rightarrow> startWorker (k, w) s) order1 (s\<lparr>sc_next := n\<rparr>) = s1"
    "startInv D s1" "sc_workers s1 = sc_workers s ++ D" "sc_next s1 = n" using startWorkers [of D "s\<lparr>sc_next := n\<rparr>" order1] by auto
  have "removeInv s1" using s1(2) by (simp add: startInv_def removeInv_def)
  moreover have "dom (sc_workers s1) \<subseteq> set order2 \<union> dom D" using s1(3) assms(5) by auto
  ultimately obtain s2 where s2: "fold (removeWorker D) order2 s1 = s2" "removeInv s2" "sc_workers s2 = (sc_workers s ++ D) |` dom D" "sc_next s2 = n"
    using removeWorkers [of s1 order2 D] s1(3,4) by auto
  have "(sc_workers s ++ D) |` dom D = D" by (auto simp: restrict_map_def map_add_def fun_eq_iff split: option.splits)
  with s2 have w: "sc_workers s2 = D" by simp
  have "syncRules cronOK order1 order2 (Inr rules) s = s2" using assms(2) s1(1) s2(1) by (simp add: syncRules_def D)
  moreover have "schedOK s2" using s2(2,4) w d(2) by (auto simp: schedOK_def removeInv_def desiredInv_def)
  ultimately show ?thesis using w d(3,4) by auto
qed

definition demoWorker :: "nat \<Rightarrow> AlertRule \<Rightarrow> RuleWorker" where
  "demoWorker a rule = \<lparr>rw_addr = a, rw_ruleID = Oid rule, rw_hash = ruleWorkerHash rule, rw_rule = rule\<rparr>"

lemma syncRules_spec_witness:
  "let s = \<lparr>sc_workers = [1 \<mapsto> demoWorker 0 demoRule, 3 \<mapsto> demoWorker 1 (demoRule\<lparr>Oid := 3\<rparr>)], sc_running = {0, 1}, sc_next = 2\<rparr>;
       s' = syncRules (\<lambda>_. True) [2, 1] [3, 1] (Inr [demoRule, demoRule\<lparr>Oid := 2\<rparr>]) s
   in schedOK s' \<and> sc_workers s' 1 = Some (demoWorker 0 demoRule) \<and> sc_workers s' 2 \<noteq> None \<and> sc_workers s' 3 = None"
proof -
  let ?s = "\<lparr>sc_workers = [1 \<mapsto> demoWorker 0 demoRule, 3 \<mapsto> demoWorker 1 (demoRule\<lparr>Oid := 3\<rparr>)], sc_running = {0, 1}, sc_next = 2\<rparr>"
  have ok: "schedOK ?s"
    by (auto simp: schedOK_def addresses_def ran_map_upd apart_def demoWorker_def demoRule_def split: if_splits)
  have spec: "schedOK (syncRules (\<lambda>_. True) [2, 1] [3, 1] (Inr [demoRule, demoRule\<lparr>Oid := 2\<rparr>]) ?s) \<and>
    dom (sc_workers (syncRules (\<lambda>_. True) [2, 1] [3, 1] (Inr [demoRule, demoRule\<lparr>Oid := 2\<rparr>]) ?s)) \<subseteq> Oid ` set [demoRule, demoRule\<lparr>Oid := 2\<rparr>] \<and>
    (\<forall>rule \<in> set [demoRule, demoRule\<lparr>Oid := 2\<rparr>]. workerOf (\<lambda>_. True) (sc_workers ?s) (sc_next ?s) rule
       (sc_workers (syncRules (\<lambda>_. True) [2, 1] [3, 1] (Inr [demoRule, demoRule\<lparr>Oid := 2\<rparr>]) ?s) (Oid rule)))"
    by (rule syncRules_spec [OF ok]) (auto simp: demoRule_def)
  have "3 \<notin> Oid ` set [demoRule, demoRule\<lparr>Oid := 2\<rparr>]" by (simp add: demoRule_def)
  with spec show ?thesis by (auto simp: Let_def workerOf_def demoWorker_def demoRule_def)
qed

text \<open>Two versions of rules never share a worker: equal hashes mean the same rule and the same resource version,
  and an enabled rule that was updated therefore gets a new worker in the next pass.\<close>

lemma ruleWorkerHash_version:
  assumes "ruleWorkerHash r1 = ruleWorkerHash r2"
  shows "Oid r1 = Oid r2 \<and> ResourceVersion r1 = ResourceVersion r2"
proof -
  have free: "CHR ''_'' \<notin> set (FormatInt i)" for i using FormatInt_chars [of "CHR ''_''" i] by (auto simp: charDigit_def)
  have two: "x1 = x2 \<and> y1 = y2" if "x1 @ CHR ''_'' # y1 = x2 @ CHR ''_'' # y2" "CHR ''_'' \<notin> set x1" "CHR ''_'' \<notin> set x2" for x1 x2 y1 y2 :: string
    using that by (induction x1 arbitrary: x2) (case_tac x2; auto)+
  obtain t1 t2 where "ruleWorkerHash r1 = FormatInt (Oid r1) @ CHR ''_'' # FormatInt (ResourceVersion r1) @ CHR ''_'' # t1"
    "ruleWorkerHash r2 = FormatInt (Oid r2) @ CHR ''_'' # FormatInt (ResourceVersion r2) @ CHR ''_'' # t2"
    by (simp add: ruleWorkerHash_def)
  with assms have "FormatInt (Oid r1) @ CHR ''_'' # FormatInt (ResourceVersion r1) @ CHR ''_'' # t1 =
      FormatInt (Oid r2) @ CHR ''_'' # FormatInt (ResourceVersion r2) @ CHR ''_'' # t2" by simp
  from two [OF this free free] two [of "FormatInt (ResourceVersion r1)" t1 "FormatInt (ResourceVersion r2)" t2] free
  show ?thesis by (auto dest: FormatInt_inj)
qed

section \<open>A quiet evaluation\<close>

definition onlyTicks :: "'m env_scheme \<Rightarrow> 'm env_scheme \<Rightarrow> bool" where
  "onlyTicks w w' \<longleftrightarrow> tick w \<le> tick w' \<and> w' = w\<lparr>tick := tick w'\<rparr>"

lemma onlyTicksI: "tick w \<le> n \<Longrightarrow> onlyTicks w (w\<lparr>tick := n\<rparr>)"
  by (simp add: onlyTicks_def)

lemma onlyTicksE: "onlyTicks w w' \<Longrightarrow> (\<And>n. tick w \<le> n \<Longrightarrow> w' = w\<lparr>tick := n\<rparr> \<Longrightarrow> thesis) \<Longrightarrow> thesis"
  by (auto simp: onlyTicks_def)

text \<open>A trigger that calls for nothing on a sample: the threshold is not crossed, or an enabled silence covers the
  sample at all times read, or the rule is out of its hours.\<close>

definition calm :: "notify_env \<Rightarrow> AlertSilence list \<Rightarrow> AlertRule \<Rightarrow> (nat \<Rightarrow> int) \<Rightarrow> EvaluableTrigger \<Rightarrow> MetricSample \<Rightarrow> bool" where
  "calm nv silences rule clk trigger sample \<longleftrightarrow>
     \<not> MatchExpr (ar_RuleType rule) (et_Condition trigger) (ms_Value sample) \<or>
     (\<exists>s \<in> set silences. coversLabels s (sampleLabels rule sample) \<and> (\<forall>n. inWindow s (clk n))) \<or>
     (\<forall>n. \<not> IsWithinEffectiveTime (nv_zone nv) rule (clk n))"

lemma same_rule:
  "sampleLabels (rule\<lparr>ar_Duration := d\<rparr>) = sampleLabels rule" "IsWithinEffectiveTime zone (rule\<lparr>ar_Duration := d\<rparr>) = IsWithinEffectiveTime zone rule"
proof -
  have "GetRulePromQl (rule\<lparr>ar_Duration := d\<rparr>) = GetRulePromQl rule" by (simp add: GetRulePromQl_def)
  then show "sampleLabels (rule\<lparr>ar_Duration := d\<rparr>) = sampleLabels rule" by (simp add: fun_eq_iff sampleLabels_def Let_def cong: if_cong)
qed (simp add: fun_eq_iff IsWithinEffectiveTime_def)

lemma calm_evaluateSample:
  assumes "calm nv silences rule (clock w) trigger sample" and w1: "onlyTicks w w1"
  shows "wp (evaluateSample nv silences (rule\<lparr>ar_Duration := d\<rparr>) trigger sample) (\<lambda>_. onlyTicks w) (\<lambda>_ _. False) w1"
proof -
  from w1 obtain n where n: "tick w \<le> n" "w1 = w\<lparr>tick := n\<rparr>" by (rule onlyTicksE)
  show ?thesis
  proof (cases "MatchExpr (ar_RuleType rule) (et_Condition trigger) (ms_Value sample)")
    case False
    with w1 show ?thesis by (simp add: evaluateSample_def wp_simps Recover_def)
  next
    case True
    have "wp (IsSilenced silences (rule\<lparr>ar_Duration := d\<rparr>) sample)
      (\<lambda>b. wp (if b then ret () else andThen timeNow (\<lambda>now. if \<not> IsWithinEffectiveTime (nv_zone nv) rule now then ret ()
          else Fire nv (rule\<lparr>ar_Duration := d\<rparr>) sample trigger)) (\<lambda>_. onlyTicks w) (\<lambda>_ _. False)) (\<lambda>_ _. False) w1"
      unfolding IsSilenced_def same_rule
    proof (rule wp_mono [OF anySilence_spec [of silences "sampleLabels rule sample" w1]])
      fix b w2
      assume a: "clock w2 = clock w1 \<and> tick w1 \<le> tick w2 \<and> w2 = w1\<lparr>tick := tick w2\<rparr> \<and>
        (b \<longrightarrow> (\<exists>s\<in>set silences. \<exists>n\<ge>tick w1. n < tick w2 \<and> inWindow s (clock w1 n) \<and> coversLabels s (sampleLabels rule sample))) \<and>
        (\<not> b \<longrightarrow> (\<forall>s\<in>set silences. coversLabels s (sampleLabels rule sample) \<longrightarrow> \<not> (\<forall>n. inWindow s (clock w1 n))))"
      then obtain m where w2: "w2 = w\<lparr>tick := m\<rparr>" "tick w \<le> m" using n that [of "tick w2"] by auto
      then have o: "onlyTicks w w2" "onlyTicks w (w2\<lparr>tick := Suc (tick w2)\<rparr>)" by (simp_all add: onlyTicks_def)
      show "wp (if b then ret () else andThen timeNow (\<lambda>now. if \<not> IsWithinEffectiveTime (nv_zone nv) rule now then ret ()
          else Fire nv (rule\<lparr>ar_Duration := d\<rparr>) sample trigger)) (\<lambda>_. onlyTicks w) (\<lambda>_ _. False) w2"
        using assms(1) True a n o w2 by (auto simp: wp_simps calm_def)
    qed
    then show ?thesis using True by (simp add: evaluateSample_def wp_andThen same_rule cong: if_cong)
  qed
qed

lemma calm_forEach:
  assumes "\<And>x w1. x \<in> set xs \<Longrightarrow> onlyTicks w w1 \<Longrightarrow> wp (f x) (\<lambda>_. onlyTicks w) (\<lambda>_ _. False) w1" and "onlyTicks w w1"
  shows "wp (forEach f xs) (\<lambda>_. onlyTicks w) (\<lambda>_ _. False) w1"
  using assms
proof (induction xs arbitrary: w1)
  case (Cons x xs)
  then show ?case by (auto simp: wp_andThen intro!: wp_mono [OF Cons.prems(1)])
qed (simp add: wp_ret)

lemma wp_providerQuery: "wp (providerQuery provider rule) Q E w =
    (case provider (tick w) rule of Inl e \<Rightarrow> E e (w\<lparr>tick := Suc (tick w)\<rparr>) | Inr samples \<Rightarrow> Q samples (w\<lparr>tick := Suc (tick w)\<rparr>))"
  by (simp add: wp_def providerQuery_def split: sum.split)

text \<open>an evaluation in which no trigger calls for anything touches nothing: if every
  trigger of the rule is calm on every sample the provider returns, no table changes, nothing is queued and
  nothing is sent.\<close>

theorem evaluateRule_quiet:
  assumes "provider (tick w) rule = Inr samples"
    and "\<forall>trigger \<in> set (ListAlertTriggers rule). \<forall>sample \<in> set samples. calm nv silences rule (clock w) trigger sample"
    and "evaluateRule nv provider rule silences w = (r, w')"
  shows "r = Inr () \<and> tick w \<le> tick w' \<and> w' = w\<lparr>tick := tick w'\<rparr>"
proof -
  let ?w1 = "w\<lparr>tick := Suc (tick w)\<rparr>"
  have w1: "onlyTicks w ?w1" "onlyTicks w w" by (simp_all add: onlyTicks_def)
  have "wp (forEach (\<lambda>trigger. forEach (evaluateSample nv silences (rule\<lparr>ar_Duration := et_Duration trigger\<rparr>) trigger) samples) (ListAlertTriggers rule))
      (\<lambda>_. onlyTicks w) (\<lambda>_ _. False) ?w1"
    by (intro calm_forEach calm_evaluateSample w1) (use assms(2) in auto)
  then have "wp (evaluateRule nv provider rule silences) (\<lambda>_. onlyTicks w) (\<lambda>_ _. False) w"
    using w1 assms(1) by (auto simp: evaluateRule_def Let_def wp_ret wp_andThen wp_providerQuery)
  with assms(3) show ?thesis by (cases r) (auto simp: wp_def onlyTicks_def)
qed

definition demoSample :: MetricSample where
  "demoSample = \<lparr>ms_Value = ''1'', ms_ResourceType = [], ms_ResourceName = ''node'', ms_Namespace = [], ms_ClusterId = 0, ms_TenantId = 0,
     ms_Labels = [], ms_Annotations = []\<rparr>"

definition demoFiring :: AlertRule where
  "demoFiring = demoRule\<lparr>ar_RuleConfig := jsonPrint (configJson ''up'' [\<lparr>at_Severity = 2, at_Condition = ''>= 80'', at_Duration = 0\<rparr>])\<rparr>"

definition demoTrigger :: EvaluableTrigger where
  "demoTrigger = evaluable ''up'' \<lparr>at_Severity = 2, at_Condition = ''>= 80'', at_Duration = 0\<rparr>"

lemma demoFiring_triggers: "ListAlertTriggers demoFiring = [demoTrigger]" "GetRulePromQl demoFiring = ''up''"
proof -
  let ?t = "\<lparr>at_Severity = 2, at_Condition = ''>= 80'', at_Duration = 0\<rparr>"
  have "validUTF8 ''up''" "\<forall>t \<in> set [?t]. trigOK t" by (simp_all add: trigOK_def int64_def minInt64_def maxInt64_def byteOf_def RuneError_def)
  then have "ParseAlertRuleConfig (jsonPrint (configJson ''up'' [?t])) = \<lparr>rc_PromQl = ''up'', rc_Triggers = [?t], rc_Queries = []\<rparr>"
    by (rule parse_configJson)
  moreover have "TrimSpace ''up'' = ''up''" "TrimSpace ''>= 80'' = ''>= 80''" by (simp_all add: TrimSpace_def isSpace_def)
  ultimately show "ListAlertTriggers demoFiring = [demoTrigger]" "GetRulePromQl demoFiring = ''up''"
    by (simp_all add: ListAlertTriggers_def GetRulePromQl_def demoFiring_def demoTrigger_def migrateLegacyQueries_def del: jsonPrint.simps)
qed

definition demoSilence :: AlertSilence where
  "demoSilence = \<lparr>Oid = 1, GmtCreate = 0, GmtModified = 0, ResourceVersion = 0, as_Name = ''maintenance'', as_MatchLabels = [],
     as_MatchExpressions = ''x'', as_StartsAt = 0, as_EndsAt = 10, as_Enabled = True, as_CreatedBy = [], as_Comment = [], as_Extension = []\<rparr>"

lemma evaluateRule_quiet_witness:
  "ListAlertTriggers demoFiring = [demoTrigger] \<and>
   (let w = demoAlertDb\<lparr>clock := \<lambda>_. 5\<rparr>; rw = evaluateRule demoNet (\<lambda>_ _. Inr [demoSample]) demoFiring [demoSilence] w
    in fst rw = Inr () \<and> alert_events (snd rw) = alert_events w \<and> outbox (snd rw) = outbox w)"
proof -
  let ?w = "demoAlertDb\<lparr>clock := \<lambda>_. 5\<rparr>"
  obtain r w' where rw: "evaluateRule demoNet (\<lambda>_ _. Inr [demoSample]) demoFiring [demoSilence] ?w = (r, w')" by force
  have "calm demoNet [demoSilence] demoFiring (clock ?w) demoTrigger demoSample"
    by (simp add: calm_def coversLabels_def silenceLabels_def demoSilence_def inWindow_def TrimSpace_def isSpace_def)
  then have "r = Inr () \<and> tick ?w \<le> tick w' \<and> w' = ?w\<lparr>tick := tick w'\<rparr>"
    by (intro evaluateRule_quiet [OF _ _ rw, of "[demoSample]"]) (simp_all add: demoFiring_triggers)
  then have "alert_events w' = alert_events ?w" "outbox w' = outbox ?w" "r = Inr ()" by (metis alert_db.select_convs env.update_convs(1) alert_db.surjective)+
  then show ?thesis by (simp add: Let_def rw demoFiring_triggers)
qed

end
