(* ===== verification/EventLife.thy ===== *)
theory EventLife
  imports EngineProps
begin

text \<open>
  \<open>Trigger.Fire\<close> against an abstract machine: the episode of a rule on a resource, which begins, is notified
  when its duration has passed, and is notified again at the repeat interval until the maximal number.
\<close>


section \<open>The life of an event, abstractly\<close>

text \<open>
  The episode of a rule on a resource: none, or its beginning, the number of notifications so far and
  the time of the last one. The parameters are the duration of the trigger, the repeat step (in
  minutes), the maximal number of notifications (none if not positive) and the times that are read on the
  way. The label says whether the step notifies.
\<close>

type_synonym episode = "(int \<times> int \<times> int option) option"

definition elapsed :: "int \<Rightarrow> int \<Rightarrow> int" where
  "elapsed now t = max minInt64 (min maxInt64 (now - t))"

inductive astep :: "int \<Rightarrow> int \<Rightarrow> int \<Rightarrow> int set \<Rightarrow> episode \<Rightarrow> bool \<Rightarrow> episode \<Rightarrow> bool" for D S M T where
  stay: "astep D S M T x False x"
| begins: "0 < D \<Longrightarrow> t \<in> T \<Longrightarrow> astep D S M T None False (Some (t, 0, None))"
| immediate: "\<not> 0 < D \<Longrightarrow> t \<in> T \<Longrightarrow> now \<in> T \<Longrightarrow> astep D S M T None True (Some (t, 1, Some now))"
| first: "D \<le> 0 \<or> (\<exists>now' \<in> T. seconds D \<le> elapsed now' t) \<Longrightarrow> now \<in> T \<Longrightarrow> astep D S M T (Some (t, 0, l)) True (Some (t, 1, Some now))"
| again: "n \<noteq> 0 \<Longrightarrow> S \<noteq> 0 \<Longrightarrow> now \<in> T \<Longrightarrow> (case l of None \<Rightarrow> t | Some s \<Rightarrow> s) + minutes S \<le> now \<Longrightarrow> M \<le> 0 \<or> n < M \<Longrightarrow>
    astep D S M T (Some (t, n, l)) True (Some (t, n + 1, Some now))"

definition activeEvent :: "AlertRule \<Rightarrow> MetricSample \<Rightarrow> EvaluableTrigger \<Rightarrow> AlertEvent \<Rightarrow> bool" where
  "activeEvent rule sample trigger = isActive (Oid rule) (sampleType sample) (sampleName sample trigger)"

definition episodeOf :: "AlertEvent \<Rightarrow> int \<times> int \<times> int option" where
  "episodeOf e = (GmtCreate e, ae_NotifyCurNumber e, ae_LastSentAt e)"

definition episode :: "AlertRule \<Rightarrow> MetricSample \<Rightarrow> EvaluableTrigger \<Rightarrow> AlertEvent list \<Rightarrow> episode" where
  "episode rule sample trigger es = map_option episodeOf (find (activeEvent rule sample trigger) (rev es))"

section \<open>Frames\<close>

definition qframe :: "'m alert_db_scheme \<Rightarrow> 'm alert_db_scheme \<Rightarrow> bool" where
  "qframe w w' \<longleftrightarrow> alert_events w' = alert_events w \<and> clock w' = clock w \<and> tick w \<le> tick w'"

lemma enqueue_qframe: "wp (EnqueueForEvent nv rule event recovered) (\<lambda>_. qframe w) (\<lambda>_. qframe w) w"
proof -
  have create: "keeps (qframe w) (alertNotificationCreate n)" for n
    by (rule keepsI) (auto simp: alertNotificationCreate_def daoCreate_def wp_simps Let_def qframe_def split: option.splits)
  have content: "keeps (qframe w) (buildNotificationContent nv rule (Some event) recovered)"
    by (rule keepsI) (auto simp: buildNotificationContent_def renderNotifyTemplate_def buildNotificationTemplateData_def wp_simps Let_def qframe_def split: option.splits)
  have channels: "keeps (qframe w) (alertChannelList opts)" for opts
    by (rule keepsI) (auto simp: alertChannelList_def wp_simps Let_def qframe_def split: option.splits)
  have "keeps (qframe w) (EnqueueForEvent nv rule event recovered)"
    unfolding EnqueueForEvent_def Let_def enqueueOne_def
    by (intro keeps_intros create content channels)
  then show ?thesis by (rule keeps_wp) (simp add: qframe_def)
qed

lemma events_updTable: "alert_events_update (updTable P us) w = w\<lparr>alert_events := updTable P us (alert_events w)\<rparr>" for w :: "'m alert_db_scheme"
  by (cases w) simp

text \<open>A guarded update of an event: the row, and what stays.\<close>

lemma wp_eventUpdate:
  assumes ok: "table_ok (alert_events w)" and e: "e \<in> set (rows (alert_events w))"
    and Q: "\<And>now n. tick w < n \<Longrightarrow> Q () (w\<lparr>tick := n, alert_events := (alert_events w)\<lparr>rows := map (\<lambda>s. if s = e then applyUpdates (versionedUpdates now (ResourceVersion e) us) e else s) (rows (alert_events w))\<rparr>\<rparr>)"
    and E: "\<And>err n. tick w \<le> n \<Longrightarrow> E err (w\<lparr>tick := n\<rparr>)"
  shows "wp (alertEventUpdate (Oid e) (ResourceVersion e) us) Q E w"
proof -
  have rows: "rows (updTable (versionMatch (Oid e) (ResourceVersion e)) us' (alert_events w)) = map (\<lambda>s. if s = e then applyUpdates us' e else s) (rows (alert_events w))" for us'
    using table_ok_Oid_eq [OF ok _ e] by (auto simp: updTable_def updRow_def versionMatch_def)
  have upd: "updTable (versionMatch (Oid e) (ResourceVersion e)) us' (alert_events w) =
      (alert_events w)\<lparr>rows := map (\<lambda>s. if s = e then applyUpdates us' e else s) (rows (alert_events w))\<rparr>" for us'
    using rows [of us'] by (simp add: updTable_def)
  have changed: "changedRows (versionMatch (Oid e) (ResourceVersion e)) (versionedUpdates now (ResourceVersion e) us) (alert_events w) \<noteq> []" for now
  proof -
    have "ResourceVersion (applyUpdates (versionedUpdates now (ResourceVersion e) us) e) = ResourceVersion e + 1"
      by (simp add: versionedUpdates_def applyUpdates_def)
    then have "updRow (versionMatch (Oid e) (ResourceVersion e)) (versionedUpdates now (ResourceVersion e) us) e \<noteq> e"
      by (auto simp: updRow_def versionMatch_def)
    with e show ?thesis by (auto simp: changedRows_def filter_empty_conv)
  qed
  show ?thesis
    using Q [of "Suc (Suc (tick w))" "clock w (tick w)"] E [of "Suc (Suc (tick w))"] changed
    by (auto simp: alertEventUpdate_def daoUpdate_def wp_simps Let_def events_updTable upd updConflict_def list_ex_iff split: option.splits)
qed

lemma wp_updateValue:
  assumes Q: "\<And>now n. tick w \<le> n \<Longrightarrow> Q () (w\<lparr>tick := n, alert_events := updTable (\<lambda>r. Oid r = Oid e) (valueUpdates sample @ [(''gmt_modified'', GmtModified_update (\<lambda>_. now))]) (alert_events w)\<rparr>)"
    and Q0: "\<And>n. tick w \<le> n \<Longrightarrow> Q () (w\<lparr>tick := n\<rparr>)"
  shows "wp (updateValue e sample) Q E w"
  using Q [of "Suc (Suc (tick w))" "clock w (tick w)"] Q0 [of "tick w"] Q0 [of "Suc (Suc (tick w))"]
  by (auto simp: updateValue_def alertEventUpdateSilent_def wp_simps Let_def events_updTable updConflict_def list_ex_iff split: option.splits)


text \<open>What a run leaves: the same episode, or the episode of \<open>e\<close> with one more notification; rows of other
  rules and resources stay.\<close>

definition othersStay :: "AlertRule \<Rightarrow> MetricSample \<Rightarrow> EvaluableTrigger \<Rightarrow> 'm alert_db_scheme \<Rightarrow> 'm alert_db_scheme \<Rightarrow> bool" where
  "othersStay rule sample trigger w w' \<longleftrightarrow> clock w' = clock w \<and> tick w \<le> tick w' \<and>
     (\<forall>x. \<not> activeEvent rule sample trigger x \<longrightarrow> x \<in> set (rows (alert_events w')) \<longleftrightarrow> x \<in> set (rows (alert_events w)))"

definition idles :: "AlertRule \<Rightarrow> MetricSample \<Rightarrow> EvaluableTrigger \<Rightarrow> 'm alert_db_scheme \<Rightarrow> 'm alert_db_scheme \<Rightarrow> bool" where
  "idles rule sample trigger w w' \<longleftrightarrow> othersStay rule sample trigger w w' \<and> alert_notifications w' = alert_notifications w \<and>
     episode rule sample trigger (rows (alert_events w')) = episode rule sample trigger (rows (alert_events w))"

definition counts :: "AlertRule \<Rightarrow> MetricSample \<Rightarrow> EvaluableTrigger \<Rightarrow> AlertEvent \<Rightarrow> int \<Rightarrow> int \<Rightarrow> 'm alert_db_scheme \<Rightarrow> 'm alert_db_scheme \<Rightarrow> bool" where
  "counts rule sample trigger e n now w w' \<longleftrightarrow> othersStay rule sample trigger w w' \<and>
     episode rule sample trigger (rows (alert_events w')) = Some (GmtCreate e, n, Some now)"

lemma idles_tick: "tick w \<le> n \<Longrightarrow> idles rule sample trigger w (w\<lparr>tick := n\<rparr>)"
  by (simp add: idles_def othersStay_def)

lemma idles_refl: "idles rule sample trigger w w"
  by (simp add: idles_def othersStay_def)

lemma othersStay_trans: "othersStay rule sample trigger w w1 \<Longrightarrow> othersStay rule sample trigger w1 w2 \<Longrightarrow> othersStay rule sample trigger w w2"
  by (simp add: othersStay_def)

lemma episode_map:
  assumes "\<And>x. x \<in> set es \<Longrightarrow> activeEvent rule sample trigger (f x) = activeEvent rule sample trigger x"
  shows "find (activeEvent rule sample trigger) (rev (map f es)) = map_option f (find (activeEvent rule sample trigger) (rev es))"
proof -
  have m: "find P (map f xs) = map_option f (find P xs)" if "\<And>x. x \<in> set xs \<Longrightarrow> P (f x) = P x" for P and xs :: "AlertEvent list"
    using that by (induction xs) auto
  show ?thesis unfolding rev_map by (rule m) (use assms in simp)
qed

lemma updateValue_idles:
  assumes "activeEvent rule sample trigger e" and "e \<in> set (rows (alert_events w))" and ok: "table_ok (alert_events w)"
  shows "wp (updateValue e sample) (\<lambda>_. idles rule sample trigger w) (\<lambda>_. idles rule sample trigger w) w"
proof (rule wp_updateValue)
  fix now n assume n: "tick w \<le> n"
  let ?us = "valueUpdates sample @ [(''gmt_modified'', GmtModified_update (\<lambda>_. now))]"
  let ?f = "updRow (\<lambda>r. Oid r = Oid e) ?us"
  have keep: "activeEvent rule sample trigger (?f x) = activeEvent rule sample trigger x" "episodeOf (?f x) = episodeOf x" for x
    by (simp_all add: updRow_def applyUpdates_def valueUpdates_def activeEvent_def isActive_def episodeOf_def)
  have others: "\<not> activeEvent rule sample trigger x \<Longrightarrow> x \<in> set (map ?f (rows (alert_events w))) \<longleftrightarrow> x \<in> set (rows (alert_events w))" for x
  proof
    assume x: "\<not> activeEvent rule sample trigger x" and m: "x \<in> set (map ?f (rows (alert_events w)))"
    then obtain y where y: "x = ?f y" "y \<in> set (rows (alert_events w))" by auto
    with x keep(1) [of y] assms table_ok_Oid_eq [OF ok y(2) assms(2)] have "Oid y \<noteq> Oid e" by auto
    with y show "x \<in> set (rows (alert_events w))" by (simp add: updRow_def)
  next
    assume x: "\<not> activeEvent rule sample trigger x" and m: "x \<in> set (rows (alert_events w))"
    with assms table_ok_Oid_eq [OF ok m assms(2)] have "Oid x \<noteq> Oid e" by auto
    with m show "x \<in> set (map ?f (rows (alert_events w)))" by (force simp: updRow_def)
  qed
  have "episode rule sample trigger (map ?f (rows (alert_events w))) = episode rule sample trigger (rows (alert_events w))"
    unfolding episode_def by (subst episode_map) (simp_all add: keep option.map_comp comp_def)
  with others n show "idles rule sample trigger w (w\<lparr>tick := n, alert_events := updTable (\<lambda>r. Oid r = Oid e) ?us (alert_events w)\<rparr>)"
    by (simp add: idles_def othersStay_def updTable_def)
qed (rule idles_tick)

lemma count_event:
  assumes a: "activeEvent rule sample trigger e" and e: "e \<in> set (rows (alert_events w))" and ok: "table_ok (alert_events w)"
    and ep: "find (activeEvent rule sample trigger) (rev (rows (alert_events w))) = Some e"
  shows "wp (andThen (alertEventUpdate (Oid e) (ResourceVersion e) (valueUpdates sample @ countUpdates n now)) (\<lambda>_. EnqueueForEvent nv rule event False))
    (\<lambda>_. counts rule sample trigger e n now w) (\<lambda>_ w'. counts rule sample trigger e n now w w' \<or> idles rule sample trigger w w') w"
  unfolding wp_andThen
proof (rule wp_eventUpdate [OF ok e])
  fix t k assume k: "tick w < k"
  let ?us = "versionedUpdates t (ResourceVersion e) (valueUpdates sample @ countUpdates n now)"
  let ?f = "\<lambda>s. if s = e then applyUpdates ?us e else s"
  let ?w1 = "w\<lparr>tick := k, alert_events := (alert_events w)\<lparr>rows := map ?f (rows (alert_events w))\<rparr>\<rparr>"
  have a': "activeEvent rule sample trigger (applyUpdates ?us e)" "episodeOf (applyUpdates ?us e) = (GmtCreate e, n, Some now)"
    using a by (simp_all add: applyUpdates_def versionedUpdates_def valueUpdates_def countUpdates_def activeEvent_def isActive_def episodeOf_def)
  have "find (activeEvent rule sample trigger) (rev (map ?f (rows (alert_events w)))) = map_option ?f (Some e)"
    unfolding ep [symmetric] by (rule episode_map) (use a a'(1) in auto)
  then have "episode rule sample trigger (rows (alert_events ?w1)) = Some (GmtCreate e, n, Some now)" using a'(2) by (simp add: episode_def)
  moreover have "\<not> activeEvent rule sample trigger x \<Longrightarrow> x \<in> set (map ?f (rows (alert_events w))) \<longleftrightarrow> x \<in> set (rows (alert_events w))" for x
    using a a'(1) by (auto simp: image_iff split: if_splits)
  ultimately have c: "counts rule sample trigger e n now w ?w1" using k by (simp add: counts_def othersStay_def)
  have "counts rule sample trigger e n now w w'" if "qframe ?w1 w'" for w'
    using c that unfolding counts_def othersStay_def qframe_def by auto
  then show "wp (EnqueueForEvent nv rule event False) (\<lambda>_. counts rule sample trigger e n now w)
      (\<lambda>_ w'. counts rule sample trigger e n now w w' \<or> idles rule sample trigger w w') ?w1"
    by (intro wp_mono [OF enqueue_qframe]) blast+
next
  fix err k assume "tick w \<le> k"
  then show "counts rule sample trigger e n now w (w\<lparr>tick := k\<rparr>) \<or> idles rule sample trigger w (w\<lparr>tick := k\<rparr>)" by (simp add: idles_tick)
qed


section \<open>The refinement\<close>

text \<open>The times read between two worlds.\<close>

definition times :: "'m env_scheme \<Rightarrow> nat \<Rightarrow> int set" where
  "times w n = {clock w i | i. tick w \<le> i \<and> i < n}"

definition refines :: "AlertRule \<Rightarrow> MetricSample \<Rightarrow> EvaluableTrigger \<Rightarrow> 'm alert_db_scheme \<Rightarrow> 'm alert_db_scheme \<Rightarrow> bool" where
  "refines rule sample trigger w w' \<longleftrightarrow> othersStay rule sample trigger w w' \<and>
     (\<exists>mid k. astep (et_Duration trigger) (NormalizeNotifyRepeatStep (ar_NotifyRepeatStep rule)) (NormalizeNotifyMaxNumber (ar_NotifyMaxNumber rule)) (times w (tick w'))
         (episode rule sample trigger (rows (alert_events w))) False mid \<and>
       astep (et_Duration trigger) (NormalizeNotifyRepeatStep (ar_NotifyRepeatStep rule)) (NormalizeNotifyMaxNumber (ar_NotifyMaxNumber rule)) (times w (tick w'))
         mid k (episode rule sample trigger (rows (alert_events w'))) \<and>
       (\<not> k \<longrightarrow> alert_notifications w' = alert_notifications w))"

lemma astep_mono: "astep D S M T x k y \<Longrightarrow> T \<subseteq> T' \<Longrightarrow> astep D S M T' x k y"
  by (induction rule: astep.induct) (auto intro: astep.intros)

lemma times_mono: "m \<le> n \<Longrightarrow> times w m \<subseteq> times w n"
  by (auto simp: times_def)

lemma idles_refines: "idles rule sample trigger w w' \<Longrightarrow> refines rule sample trigger w w'"
  unfolding refines_def idles_def by (metis astep.stay)

lemma idles_from: "tick w \<le> m \<Longrightarrow> idles rule sample trigger (w\<lparr>tick := m\<rparr>) w' \<Longrightarrow> idles rule sample trigger w w'"
  by (auto simp: idles_def othersStay_def)

lemma counts_from: "tick w \<le> m \<Longrightarrow> counts rule sample trigger e n now (w\<lparr>tick := m\<rparr>) w' \<Longrightarrow> counts rule sample trigger e n now w w' \<and> m \<le> tick w'"
  by (auto simp: counts_def othersStay_def)

lemma counts_refines:
  assumes "counts rule sample trigger e n now w w'" and "m \<le> tick w'"
    and "astep (et_Duration trigger) (NormalizeNotifyRepeatStep (ar_NotifyRepeatStep rule)) (NormalizeNotifyMaxNumber (ar_NotifyMaxNumber rule)) (times w m)
      (episode rule sample trigger (rows (alert_events w))) True (Some (GmtCreate e, n, Some now))"
  shows "refines rule sample trigger w w'"
  using assms(1) astep_mono [OF assms(3) times_mono [OF assms(2)]] unfolding refines_def counts_def by (metis astep.stay)

lemma wp_durationSatisfied:
  "wp (durationSatisfied e D) Q E w = (if D \<le> 0 then Q True w
     else Q (seconds D \<le> elapsed (clock w (tick w)) (GmtCreate e)) (w\<lparr>tick := Suc (tick w)\<rparr>))"
  by (simp add: durationSatisfied_def timeSince_def elapsed_def wp_simps)

lemma fire_counted:
  assumes "table_ok (alert_events w)" and f: "find (activeEvent rule sample trigger) (rev (rows (alert_events w))) = Some e" and m: "tick w \<le> m"
    and a: "astep (et_Duration trigger) (NormalizeNotifyRepeatStep (ar_NotifyRepeatStep rule)) (NormalizeNotifyMaxNumber (ar_NotifyMaxNumber rule)) (times w m)
      (Some (episodeOf e)) True (Some (GmtCreate e, n, Some now))"
  shows "wp (andThen (alertEventUpdate (Oid e) (ResourceVersion e) (valueUpdates sample @ countUpdates n now)) (\<lambda>_. EnqueueForEvent nv rule event False))
    (\<lambda>_. refines rule sample trigger w) (\<lambda>_. refines rule sample trigger w) (w\<lparr>tick := m\<rparr>)"
proof -
  have e: "e \<in> set (rows (alert_events w))" "activeEvent rule sample trigger e" using find_Some_mem [OF f] by auto
  have a': "astep (et_Duration trigger) (NormalizeNotifyRepeatStep (ar_NotifyRepeatStep rule)) (NormalizeNotifyMaxNumber (ar_NotifyMaxNumber rule)) (times w m)
      (episode rule sample trigger (rows (alert_events w))) True (Some (GmtCreate e, n, Some now))" using a f by (simp add: episode_def)
  have "wp (andThen (alertEventUpdate (Oid e) (ResourceVersion e) (valueUpdates sample @ countUpdates n now)) (\<lambda>_. EnqueueForEvent nv rule event False))
    (\<lambda>_. counts rule sample trigger e n now (w\<lparr>tick := m\<rparr>))
    (\<lambda>_ w'. counts rule sample trigger e n now (w\<lparr>tick := m\<rparr>) w' \<or> idles rule sample trigger (w\<lparr>tick := m\<rparr>) w') (w\<lparr>tick := m\<rparr>)"
    by (rule count_event) (use assms e in simp_all)
  then show ?thesis
    by (rule wp_mono) (use counts_from [OF m] idles_from [OF m] idles_refines counts_refines [OF _ _ a'] in blast)+
qed

lemma fire_active:
  assumes ok: "table_ok (alert_events w)" and f: "find (activeEvent rule sample trigger) (rev (rows (alert_events w))) = Some e"
    and cnt: "0 \<le> ae_NotifyCurNumber e" "ae_NotifyCurNumber e < maxInt64" and m: "tick w \<le> m" and now: "now \<in> times w m"
  shows "wp (if ae_NotifyCurNumber e = 0
       then andThen (durationSatisfied e (et_Duration trigger)) (\<lambda>satisfied. if \<not> satisfied then updateValue e sample else sendFirstNotification nv rule e sample now)
       else fireRepeat nv rule e sample now) (\<lambda>_. refines rule sample trigger w) (\<lambda>_. refines rule sample trigger w) (w\<lparr>tick := m\<rparr>)"
proof -
  let ?D = "et_Duration trigger"
  let ?R = "\<lambda>_. refines rule sample trigger w"
  have e: "e \<in> set (rows (alert_events w))" "activeEvent rule sample trigger e" using find_Some_mem [OF f] by auto
  have val: "wp (updateValue e sample) ?R ?R (w\<lparr>tick := k\<rparr>)" if "tick w \<le> k" for k
  proof -
    have "wp (updateValue e sample) (\<lambda>_. idles rule sample trigger (w\<lparr>tick := k\<rparr>)) (\<lambda>_. idles rule sample trigger (w\<lparr>tick := k\<rparr>)) (w\<lparr>tick := k\<rparr>)"
      by (rule updateValue_idles [OF e(2)]) (use e ok in simp_all)
    then show ?thesis by (rule wp_mono) (use idles_from [OF that] idles_refines in blast)+
  qed
  have first: "wp (sendFirstNotification nv rule e sample now) ?R ?R (w\<lparr>tick := k\<rparr>)"
    if "ae_NotifyCurNumber e = 0" "m \<le> k" "?D \<le> 0 \<or> (\<exists>now' \<in> times w k. seconds ?D \<le> elapsed now' (GmtCreate e))" for k
    unfolding sendFirstNotification_def
    by (rule fire_counted [OF ok f]) (use that m now times_mono [OF that(2), of w] in \<open>auto simp: episodeOf_def intro!: astep.first\<close>)
  show ?thesis
  proof (cases "ae_NotifyCurNumber e = 0")
    case True
    have "clock w m \<in> times w (Suc m)" using m by (auto simp: times_def)
    then show ?thesis using True val [of m] val [of "Suc m"] first [of m] first [of "Suc m"] m
      by (auto simp: wp_andThen wp_durationSatisfied)
  next
    case False
    have n: "nextCount e = ae_NotifyCurNumber e + 1"
      using cnt by (simp add: nextCount_def wrap64_id int64_def minInt64_def maxInt64_def)
    let ?S = "NormalizeNotifyRepeatStep (ar_NotifyRepeatStep rule)" and ?M = "NormalizeNotifyMaxNumber (ar_NotifyMaxNumber rule)"
    let ?last = "case ae_LastSentAt e of None \<Rightarrow> GmtCreate e | Some t \<Rightarrow> t"
    have rep: "wp (andThen (alertEventUpdate (Oid e) (ResourceVersion e) (valueUpdates sample @ countUpdates (ae_NotifyCurNumber e + 1) now)) (\<lambda>_. EnqueueForEvent nv rule event False)) ?R ?R (w\<lparr>tick := m\<rparr>)"
      if "?S \<noteq> 0" "\<not> now < ?last + minutes ?S" "\<not> (0 < ?M \<and> ?M \<le> ae_NotifyCurNumber e)" for event
      by (rule fire_counted [OF ok f m], unfold episodeOf_def, rule astep.again) (use that False now in auto)
    have "wp (fireRepeat nv rule e sample now) ?R ?R (w\<lparr>tick := m\<rparr>)"
      unfolding fireRepeat_def Let_def n using val [OF m] rep by presburger
    with False show ?thesis by simp
  qed
qed


lemma events_insTable: "alert_events_update (insTable r) w = w\<lparr>alert_events := insTable r (alert_events w)\<rparr>" for w :: "'m alert_db_scheme"
  by (cases w) simp

definition createdAt :: "AlertEvent \<Rightarrow> int \<Rightarrow> int \<Rightarrow> AlertEvent" where
  "createdAt obj t i = obj\<lparr>GmtCreate := t, GmtModified := t, Oid := i\<rparr>"

lemma wp_eventCreate:
  "wp (alertEventCreate obj) Q E = (\<lambda>w. let n = Suc (Suc (tick w)); t = clock w (tick w) in
     (case fault w (Suc (tick w)) of
        Some f \<Rightarrow> E (faultErr f) (w\<lparr>tick := n\<rparr>)
      | None \<Rightarrow> Q (createdAt obj t (next_id (alert_events w))) (w\<lparr>tick := n, alert_events := insTable (obj\<lparr>GmtCreate := t, GmtModified := t\<rparr>) (alert_events w)\<rparr>)))"
  by (auto simp: alertEventCreate_def daoCreate_def wp_simps Let_def createdAt_def events_insTable list_ex_iff fun_eq_iff split: option.splits)

lemma created_event:
  fixes w :: "'m alert_db_scheme" and n :: nat and t :: int
  assumes a: "activeEvent rule sample trigger obj" and "table_ok (alert_events w)" and "tick w \<le> n"
  defines "w1 \<equiv> w\<lparr>tick := n, alert_events := insTable (obj\<lparr>GmtCreate := t, GmtModified := t\<rparr>) (alert_events w)\<rparr>"
    and "r \<equiv> createdAt obj t (next_id (alert_events w))"
  shows "table_ok (alert_events w1)" "find (activeEvent rule sample trigger) (rev (rows (alert_events w1))) = Some r"
    "othersStay rule sample trigger w w1" "alert_notifications w1 = alert_notifications w"
proof -
  have a': "activeEvent rule sample trigger r" using a by (simp add: r_def createdAt_def activeEvent_def isActive_def)
  have rows: "rows (alert_events w1) = rows (alert_events w) @ [r]" by (simp add: w1_def r_def createdAt_def insTable_def)
  show "table_ok (alert_events w1)" using assms(2) by (simp add: w1_def table_ok_insTable)
  show "find (activeEvent rule sample trigger) (rev (rows (alert_events w1))) = Some r" using a' by (simp add: rows)
  show "othersStay rule sample trigger w w1" using a' assms(3) unfolding othersStay_def rows by (auto simp: w1_def)
  show "alert_notifications w1 = alert_notifications w" by (simp add: w1_def)
qed

text \<open>A run that first begins an episode, as \<open>mid\<close>, and then does \<open>k\<close>.\<close>

lemma begun_refines:
  assumes "othersStay rule sample trigger w w1" and "othersStay rule sample trigger w1 w'" and "m \<le> tick w'" and "alert_notifications w1 = alert_notifications w"
    and "astep (et_Duration trigger) (NormalizeNotifyRepeatStep (ar_NotifyRepeatStep rule)) (NormalizeNotifyMaxNumber (ar_NotifyMaxNumber rule)) (times w m)
      (episode rule sample trigger (rows (alert_events w))) False (episode rule sample trigger (rows (alert_events w1)))"
    and "astep (et_Duration trigger) (NormalizeNotifyRepeatStep (ar_NotifyRepeatStep rule)) (NormalizeNotifyMaxNumber (ar_NotifyMaxNumber rule)) (times w m)
      (episode rule sample trigger (rows (alert_events w1))) k (episode rule sample trigger (rows (alert_events w')))"
    and "\<not> k \<Longrightarrow> alert_notifications w' = alert_notifications w1"
  shows "refines rule sample trigger w w'"
  using othersStay_trans [OF assms(1,2)] astep_mono [OF assms(5) times_mono [OF assms(3)]] astep_mono [OF assms(6) times_mono [OF assms(3)]] assms(4,7)
  unfolding refines_def by metis

lemma fire_pending:
  assumes ok: "table_ok (alert_events w)" and f: "find (activeEvent rule sample trigger) (rev (rows (alert_events w))) = None"
    and m: "tick w \<le> m" and now: "now \<in> times w m" and D: "0 < et_Duration trigger"
  shows "wp (andThen (alertEventCreate (newEvent rule sample trigger (sampleType sample) (sampleName sample trigger) None 0)) (\<lambda>event.
       andThen (durationSatisfied event (et_Duration trigger)) (\<lambda>satisfied. if satisfied then sendFirstNotification nv rule event sample now else ret ())))
     (\<lambda>_. refines rule sample trigger w) (\<lambda>_. refines rule sample trigger w) (w\<lparr>tick := m\<rparr>)"
proof -
  let ?obj = "newEvent rule sample trigger (sampleType sample) (sampleName sample trigger) None 0"
  define t where "t = clock w m"
  define r where "r = createdAt ?obj t (next_id (alert_events w))"
  define w1 where "w1 = w\<lparr>tick := Suc (Suc (Suc m)), alert_events := insTable (?obj\<lparr>GmtCreate := t, GmtModified := t\<rparr>) (alert_events w)\<rparr>"
  let ?R = "\<lambda>_. refines rule sample trigger w"
  have a: "activeEvent rule sample trigger ?obj" by (simp add: newEvent_def activeEvent_def isActive_def pixiu_model.defs newModel_def)
  have le: "tick w \<le> Suc (Suc (Suc m))" using m by simp
  note c = created_event [OF a ok le, of t, folded w1_def r_def]
  have ep: "episode rule sample trigger (rows (alert_events w)) = None" "episode rule sample trigger (rows (alert_events w1)) = Some (t, 0, None)"
    using f c(2) by (simp_all add: episode_def episodeOf_def r_def createdAt_def newEvent_def pixiu_model.defs newModel_def)
  have in_times: "t \<in> times w (Suc (Suc (Suc m)))" "clock w (Suc (Suc m)) \<in> times w (Suc (Suc (Suc m)))" using m by (auto simp: t_def times_def)
  have b: "astep (et_Duration trigger) (NormalizeNotifyRepeatStep (ar_NotifyRepeatStep rule)) (NormalizeNotifyMaxNumber (ar_NotifyMaxNumber rule)) (times w (Suc (Suc (Suc m))))
      (episode rule sample trigger (rows (alert_events w))) False (episode rule sample trigger (rows (alert_events w1)))"
    unfolding ep using D in_times by (intro astep.begins)
  have idle: "refines rule sample trigger w w'" if "idles rule sample trigger w1 w'" for w'
  proof (rule begun_refines [OF c(3) _ _ c(4) b, where k = False])
    show "othersStay rule sample trigger w1 w'" using that by (simp add: idles_def)
    then show "Suc (Suc (Suc m)) \<le> tick w'" by (simp add: othersStay_def w1_def)
  qed (use that in \<open>simp_all add: idles_def astep.stay\<close>)
  have first: "refines rule sample trigger w w'" if "counts rule sample trigger r 1 now w1 w'" "seconds (et_Duration trigger) \<le> elapsed (clock w (Suc (Suc m))) t" for w'
  proof (rule begun_refines [OF c(3) _ _ c(4) b, where k = True])
    show "othersStay rule sample trigger w1 w'" using that(1) by (simp add: counts_def)
    then show "Suc (Suc (Suc m)) \<le> tick w'" by (simp add: othersStay_def w1_def)
    have "GmtCreate r = t" by (simp add: r_def createdAt_def)
    then have "episode rule sample trigger (rows (alert_events w')) = Some (t, 1, Some now)" using that(1) by (simp add: counts_def)
    moreover have "now \<in> times w (Suc (Suc (Suc m)))" using now times_mono [of m "Suc (Suc (Suc m))" w] by auto
    ultimately show "astep (et_Duration trigger) (NormalizeNotifyRepeatStep (ar_NotifyRepeatStep rule)) (NormalizeNotifyMaxNumber (ar_NotifyMaxNumber rule)) (times w (Suc (Suc (Suc m))))
      (episode rule sample trigger (rows (alert_events w1))) True (episode rule sample trigger (rows (alert_events w')))"
      unfolding ep(2) using that(2) in_times(2) by (auto intro!: astep.first)
  qed simp
  have e: "r \<in> set (rows (alert_events w1))" "activeEvent rule sample trigger r" using find_Some_mem [OF c(2)] by auto
  have send: "wp (sendFirstNotification nv rule r sample now) ?R ?R w1" if "seconds (et_Duration trigger) \<le> elapsed (clock w (Suc (Suc m))) t"
    unfolding sendFirstNotification_def
    by (rule wp_mono [OF count_event [OF e(2,1) c(1,2)]]) (use first that idle in blast)+
  have err: "refines rule sample trigger w (w\<lparr>tick := n\<rparr>)" if "tick w \<le> n" for n using idles_refines [OF idles_tick [OF that]] .
  have t': "GmtCreate r = t" by (simp add: r_def createdAt_def)
  have w1': "w\<lparr>alert_events := insTable (?obj\<lparr>GmtCreate := t, GmtModified := t\<rparr>) (alert_events w), tick := Suc (Suc (Suc m))\<rparr> = w1"
    by (cases w) (simp add: w1_def)
  show ?thesis
    using send idle [OF idles_refl] err [of "Suc (Suc m)"] m D
    by (auto simp: wp_andThen wp_eventCreate wp_durationSatisfied Let_def t_def [symmetric] r_def [symmetric] w1' t' wp_ret split: option.splits)
qed


lemma fire_immediate:
  assumes ok: "table_ok (alert_events w)" and f: "find (activeEvent rule sample trigger) (rev (rows (alert_events w))) = None"
    and m: "tick w \<le> m" and now: "now \<in> times w m" and D: "\<not> 0 < et_Duration trigger"
  shows "wp (andThen (alertEventCreate (newEvent rule sample trigger (sampleType sample) (sampleName sample trigger) (Some now) 1)) (\<lambda>event.
       EnqueueForEvent nv rule event False)) (\<lambda>_. refines rule sample trigger w) (\<lambda>_. refines rule sample trigger w) (w\<lparr>tick := m\<rparr>)"
proof -
  let ?obj = "newEvent rule sample trigger (sampleType sample) (sampleName sample trigger) (Some now) 1"
  define t where "t = clock w m"
  define r where "r = createdAt ?obj t (next_id (alert_events w))"
  define w1 where "w1 = w\<lparr>tick := Suc (Suc m), alert_events := insTable (?obj\<lparr>GmtCreate := t, GmtModified := t\<rparr>) (alert_events w)\<rparr>"
  have a: "activeEvent rule sample trigger ?obj" by (simp add: newEvent_def activeEvent_def isActive_def pixiu_model.defs newModel_def)
  have le: "tick w \<le> Suc (Suc m)" using m by simp
  note c = created_event [OF a ok le, of t, folded w1_def r_def]
  have ep: "episode rule sample trigger (rows (alert_events w)) = None" "episode rule sample trigger (rows (alert_events w1)) = Some (t, 1, Some now)"
    using f c(2) by (simp_all add: episode_def episodeOf_def r_def createdAt_def newEvent_def pixiu_model.defs newModel_def)
  have "t \<in> times w (Suc (Suc m))" "now \<in> times w (Suc (Suc m))" using m now times_mono [of m "Suc (Suc m)" w] by (auto simp: t_def times_def)
  then have i: "astep (et_Duration trigger) (NormalizeNotifyRepeatStep (ar_NotifyRepeatStep rule)) (NormalizeNotifyMaxNumber (ar_NotifyMaxNumber rule)) (times w (Suc (Suc m)))
      (episode rule sample trigger (rows (alert_events w))) True (Some (t, 1, Some now))"
    unfolding ep(1) using D by (intro astep.immediate)
  have "refines rule sample trigger w w'" if "qframe w1 w'" for w'
  proof -
    have "othersStay rule sample trigger w1 w'" "Suc (Suc m) \<le> tick w'" "alert_events w' = alert_events w1"
      using that by (auto simp: qframe_def othersStay_def w1_def)
    then show ?thesis
      using othersStay_trans [OF c(3)] ep(2) astep_mono [OF i times_mono] unfolding refines_def by (metis astep.stay)
  qed
  then have "wp (EnqueueForEvent nv rule r False) (\<lambda>_. refines rule sample trigger w) (\<lambda>_. refines rule sample trigger w) w1"
    by (intro wp_mono [OF enqueue_qframe])
  then show ?thesis
    using idles_refines [OF idles_tick [OF le]]
    by (auto simp: wp_andThen wp_eventCreate Let_def t_def [symmetric] r_def [symmetric] w1_def [symmetric] split: option.splits)
qed

lemma wp_getActive:
  assumes "\<And>n. Q (find (isActive a b c) (rev (rows (alert_events w)))) (w\<lparr>tick := Suc (tick w)\<rparr>)"
    and "\<And>err. E err (w\<lparr>tick := Suc (tick w)\<rparr>)"
  shows "wp (alertEventGetActive a b c) Q E w"
  using assms by (auto simp: alertEventGetActive_def wp_orNil wp_sqlLast Let_def split: option.splits)

lemma fire_refines:
  assumes ok: "table_ok (alert_events w)"
    and cnt: "\<And>e. find (activeEvent rule sample trigger) (rev (rows (alert_events w))) = Some e \<Longrightarrow> 0 \<le> ae_NotifyCurNumber e \<and> ae_NotifyCurNumber e < maxInt64"
  shows "wp (Fire nv rule sample trigger) (\<lambda>_. refines rule sample trigger w) (\<lambda>_. refines rule sample trigger w) w"
proof -
  have now: "clock w (Suc (tick w)) \<in> times w (Suc (Suc (tick w)))" by (auto simp: times_def)
  have le: "tick w \<le> Suc (Suc (tick w))" by simp
  note active = fire_active [OF ok _ _ _ le now] and pending = fire_pending [OF ok _ le now] and immediate = fire_immediate [OF ok _ le now]
  have err: "refines rule sample trigger w (w\<lparr>tick := Suc (tick w)\<rparr>)" by (rule idles_refines [OF idles_tick]) simp
  have c: "clock (w\<lparr>tick := n\<rparr>) = clock w" "tick (w\<lparr>tick := n\<rparr>) = n" "w\<lparr>tick := n, tick := k\<rparr> = w\<lparr>tick := k\<rparr>" for n k by simp_all
  show ?thesis
  proof (cases "find (activeEvent rule sample trigger) (rev (rows (alert_events w)))")
    case None
    show ?thesis
      unfolding Fire_def Let_def wp_andThen wp_timeNow
      apply (rule wp_getActive)
      unfolding activeEvent_def [symmetric] None c option.case wp_andThen [symmetric]
      using pending [OF None] immediate [OF None] apply simp
      by (rule err)
  next
    case (Some e)
    show ?thesis
      unfolding Fire_def Let_def wp_andThen wp_timeNow
      apply (rule wp_getActive)
      unfolding activeEvent_def [symmetric] Some c option.case wp_andThen [symmetric]
      using active [OF Some] cnt [OF Some] apply simp
      by (rule err)
  qed
qed

lemma demoFiring_fires:
  fixes m :: int
  defines "rule \<equiv> demoFiring\<lparr>ar_NotifyMaxNumber := m\<rparr>"
  shows "episode rule demoSample demoTrigger (rows (alert_events (snd (Fire demoNet rule demoSample demoTrigger demoAlertDb)))) = Some (2, 1, Some 1)"
proof -
  let ?P = "\<lambda>w. episode rule demoSample demoTrigger (rows (alert_events w)) = Some (2, 1, Some 1)"
  define w1 where "w1 = demoAlertDb\<lparr>tick := 4, alert_events := insTable (newEvent rule demoSample demoTrigger (sampleType demoSample)
    (sampleName demoSample demoTrigger) (Some 1) 1\<lparr>GmtCreate := 2, GmtModified := 2\<rparr>) (alert_events demoAlertDb)\<rparr>"
  have w: "et_Duration demoTrigger = 0" "tick demoAlertDb = 0" "rows (alert_events demoAlertDb) = []" "fault demoAlertDb n = None" "clock demoAlertDb n = int n" for n
    by (simp_all add: demoTrigger_def evaluable_def normalizeDuration_def demoAlertDb_def)
  have w': "demoAlertDb\<lparr>tick := Suc (Suc (Suc (Suc 0))), alert_events := insTable (newEvent rule demoSample demoTrigger (sampleType demoSample)
    (sampleName demoSample demoTrigger) (Some 1) 1\<lparr>GmtCreate := 2, GmtModified := 2\<rparr>) (alert_events demoAlertDb)\<rparr> = w1"
    by (simp add: w1_def numeral_eq_Suc)
  have "?P w'" if "qframe w1 w'" for w'
    using that by (simp add: w1_def qframe_def episode_def insTable_def activeEvent_def isActive_def newEvent_def episodeOf_def pixiu_model.defs newModel_def w)
  then have e: "wp (EnqueueForEvent demoNet rule event False) (\<lambda>_. ?P) (\<lambda>_. ?P) w1" for event
    by (intro wp_mono [OF enqueue_qframe])
  have "wp (Fire demoNet rule demoSample demoTrigger) (\<lambda>_. ?P) (\<lambda>_. ?P) demoAlertDb"
    by (simp add: Fire_def Let_def wp_andThen alertEventGetActive_def wp_orNil wp_sqlLast wp_timeNow wp_eventCreate w w' e)
  then show ?thesis by (simp add: wp_snd)
qed

text \<open>C1: \<open>Trigger.Fire\<close> implements the abstract life of an event, whatever the database answers: what one call does
  to the episode of the rule on the resource is at most one silent step (the episode begins) followed by
  one step, every condition on time is evaluated at a time read during the call, events of other
  rules and resources stay, and notifications are queued only if the last step is one that notifies.\<close>

theorem Fire_refines:
  assumes "table_ok (alert_events w)"
    and "case find (isActive (Oid rule) (sampleType sample) (sampleName sample trigger)) (rev (rows (alert_events w))) of
           None \<Rightarrow> True | Some e \<Rightarrow> 0 \<le> ae_NotifyCurNumber e \<and> ae_NotifyCurNumber e < maxInt64"
    and "Fire nv rule sample trigger w = (r, w')"
  shows "refines rule sample trigger w w'"
proof -
  have "wp (Fire nv rule sample trigger) (\<lambda>_. refines rule sample trigger w) (\<lambda>_. refines rule sample trigger w) w"
    by (rule fire_refines) (use assms(1,2) in \<open>auto simp: activeEvent_def\<close>)
  with assms(3) show ?thesis by (simp add: wp_snd)
qed

lemma Fire_refines_witness:
  "refines demoFiring demoSample demoTrigger demoAlertDb (snd (Fire demoNet demoFiring demoSample demoTrigger demoAlertDb)) \<and>
   episode demoFiring demoSample demoTrigger (rows (alert_events (snd (Fire demoNet demoFiring demoSample demoTrigger demoAlertDb)))) = Some (2, 1, Some 1)"
proof
  show "refines demoFiring demoSample demoTrigger demoAlertDb (snd (Fire demoNet demoFiring demoSample demoTrigger demoAlertDb))"
    by (rule Fire_refines [of demoAlertDb demoFiring demoSample demoTrigger demoNet "fst (Fire demoNet demoFiring demoSample demoTrigger demoAlertDb)"])
      (simp_all add: demoAlertDb_def table_ok_def)
  have "demoFiring\<lparr>ar_NotifyMaxNumber := 0\<rparr> = demoFiring" by (simp add: demoFiring_def demoRule_def del: jsonPrint.simps)
  with demoFiring_fires [of 0]
  show "episode demoFiring demoSample demoTrigger (rows (alert_events (snd (Fire demoNet demoFiring demoSample demoTrigger demoAlertDb)))) = Some (2, 1, Some 1)" by simp
qed

lemma astep_count: "astep D S M T x k (Some (t, n, l)) \<Longrightarrow> 0 < M \<Longrightarrow> n \<le> max 1 M \<or> (\<exists>t' l'. x = Some (t', n, l'))"
  by (auto elim: astep.cases)

text \<open>C32: a positive maximal number of notifications is never exceeded, even when the limit of the rule was
  lowered below the count: a call adds at most one, and only while the count is below the limit or is the
  first.\<close>

theorem Fire_bounded:
  assumes "table_ok (alert_events w)" and "Fire nv rule sample trigger w = (r, w')"
    and "0 < NormalizeNotifyMaxNumber (ar_NotifyMaxNumber rule)"
    and "\<forall>t n l. episode rule sample trigger (rows (alert_events w)) = Some (t, n, l) \<longrightarrow> 0 \<le> n \<and> n < maxInt64"
    and "episode rule sample trigger (rows (alert_events w')) = Some (t', n', l')"
  shows "n' \<le> max 1 (NormalizeNotifyMaxNumber (ar_NotifyMaxNumber rule)) \<or> (\<exists>t l. episode rule sample trigger (rows (alert_events w)) = Some (t, n', l))"
proof -
  have "wp (Fire nv rule sample trigger) (\<lambda>_. refines rule sample trigger w) (\<lambda>_. refines rule sample trigger w) w"
    by (rule fire_refines) (use assms(1,4) in \<open>auto simp: episode_def episodeOf_def\<close>)
  with assms(2) have "refines rule sample trigger w w'" by (simp add: wp_snd)
  then obtain mid k where a: "astep (et_Duration trigger) (NormalizeNotifyRepeatStep (ar_NotifyRepeatStep rule)) (NormalizeNotifyMaxNumber (ar_NotifyMaxNumber rule)) (times w (tick w'))
      (episode rule sample trigger (rows (alert_events w))) False mid"
    "astep (et_Duration trigger) (NormalizeNotifyRepeatStep (ar_NotifyRepeatStep rule)) (NormalizeNotifyMaxNumber (ar_NotifyMaxNumber rule)) (times w (tick w'))
      mid k (Some (t', n', l'))" using assms(5) by (auto simp: refines_def)
  from a(1) have mid: "mid = episode rule sample trigger (rows (alert_events w)) \<or> (\<exists>t. mid = Some (t, 0, None))" by (auto elim: astep.cases)
  from astep_count [OF a(2) assms(3)] mid show ?thesis by (metis Pair_inject max.coboundedI1 option.inject zero_le_one)
qed

lemma Fire_bounded_witness:
  "NormalizeNotifyMaxNumber 1 = 1 \<and> (\<exists>n. n \<le> 1 \<and> episode (demoFiring\<lparr>ar_NotifyMaxNumber := 1\<rparr>) demoSample demoTrigger
     (rows (alert_events (snd (Fire demoNet (demoFiring\<lparr>ar_NotifyMaxNumber := 1\<rparr>) demoSample demoTrigger demoAlertDb)))) = Some (2, n, Some 1))"
proof -
  let ?rule = "demoFiring\<lparr>ar_NotifyMaxNumber := 1\<rparr>"
  have m: "NormalizeNotifyMaxNumber 1 = 1" by (simp add: NormalizeNotifyMaxNumber_def)
  have e: "episode ?rule demoSample demoTrigger (rows (alert_events demoAlertDb)) = None" by (simp add: episode_def demoAlertDb_def)
  have "(1::int) \<le> max 1 (NormalizeNotifyMaxNumber (ar_NotifyMaxNumber ?rule)) \<or>
      (\<exists>t l. episode ?rule demoSample demoTrigger (rows (alert_events demoAlertDb)) = Some (t, 1, l))"
    by (rule Fire_bounded [OF _ _ _ _ demoFiring_fires [of 1], of demoAlertDb demoNet "fst (Fire demoNet ?rule demoSample demoTrigger demoAlertDb)"])
      (simp_all add: m e, simp add: demoAlertDb_def table_ok_def)
  with demoFiring_fires [of 1] m e show ?thesis by auto
qed

end
