(* ===== verification/PlanDb.thy ===== *)
theory PlanDb
  imports IamDb JsonStruct
begin

text \<open>
  The tables of deployment: the rows of \<open>pkg/db/model/{plan,cluster,agent,distribution,runner}.go\<close> with the
  defaults of their columns and their unique indexes, the state that holds them (on top of the tables of
  \<open>IamDb\<close>) together with the task cache and the keys that were handed to the work queue, the files of the rendered plans, and the DAO methods of
  \<open>pkg/db/{plan,cluster,agent,job,distribution,runner}.go\<close>. The guarded updates are instances of
  \<open>versioned_dao\<close>, except that of plans, which does not look at the number of rows it changed.
\<close>

section \<open>Enumerations\<close>

definition FailedPlanStatus :: string where "FailedPlanStatus = utf8 [0x5DF2, 0x5931, 0x8D25]"
definition SuccessPlanStatus :: string where "SuccessPlanStatus = utf8 [0x5DF2, 0x6210, 0x529F]"
definition UnStartPlanStatus :: string where "UnStartPlanStatus = utf8 [0x672A, 0x5F00, 0x59CB]"
definition RunningPlanStatus :: string where "RunningPlanStatus = utf8 [0x8FD0, 0x884C, 0x4E2D]"
definition StoppingPlanStatus :: string where "StoppingPlanStatus = utf8 [0x505C, 0x6B62, 0x4E2D]"
definition DestroyingPlanStatus :: string where "DestroyingPlanStatus = utf8 [0x9500, 0x6BC1, 0x4E2D]"

definition UnStartedPlanStep :: int where "UnStartedPlanStep = 0"
definition RunningPlanStep :: int where "RunningPlanStep = 1"
definition FailedPlanStep :: int where "FailedPlanStep = 2"
definition CompletedPlanStep :: int where "CompletedPlanStep = 3"

definition PlanExecModeLocal :: string where "PlanExecModeLocal = ''local''"
definition PlanExecModeAgent :: string where "PlanExecModeAgent = ''agent''"

definition MasterRole :: string where "MasterRole = ''master''"
definition NodeRole :: string where "NodeRole = ''node''"
definition StorageRole :: string where "StorageRole = ''storage''"
definition DockerCRI :: string where "DockerCRI = ''docker''"
definition ContainerdCRI :: string where "ContainerdCRI = ''containerd''"

definition ClusterTypeStandard :: int where "ClusterTypeStandard = 0"
definition ClusterTypeCustom :: int where "ClusterTypeCustom = 1"
definition ConnectModeDirect :: int where "ConnectModeDirect = 0"
definition ConnectModeTunnel :: int where "ConnectModeTunnel = 1"
definition ClusterStatusRunning :: int where "ClusterStatusRunning = 0"
definition ClusterStatusDeploy :: int where "ClusterStatusDeploy = 1"
definition ClusterStatusUnStart :: int where "ClusterStatusUnStart = 2"
definition ClusterStatusFailed :: int where "ClusterStatusFailed = 3"
definition ClusterStatusError :: int where "ClusterStatusError = 4"
definition ClusterStatusPending :: int where "ClusterStatusPending = 5"

definition AgentStatusOffline :: int where "AgentStatusOffline = 0"
definition AgentStatusOnline :: int where "AgentStatusOnline = 1"
definition AgentTypeDeploy :: int where "AgentTypeDeploy = 0"
definition AgentTypeCluster :: int where "AgentTypeCluster = 1"

definition JobPending :: string where "JobPending = ''pending''"
definition JobRunning :: string where "JobRunning = ''running''"
definition JobSuccess :: string where "JobSuccess = ''success''"
definition JobFailed :: string where "JobFailed = ''failed''"
definition JobRunContainer :: string where "JobRunContainer = ''run_container''"
definition JobPullImage :: string where "JobPullImage = ''pull_image''"
definition JobRenderConfig :: string where "JobRenderConfig = ''render_config''"
definition JobFetchKubeconfig :: string where "JobFetchKubeconfig = ''fetch_kubeconfig''"

definition RunnerStatusUnstart :: int where "RunnerStatusUnstart = 0"
definition RunnerStatusInstalling :: int where "RunnerStatusInstalling = 1"
definition RunnerStatusUnInstalling :: int where "RunnerStatusUnInstalling = 2"
definition RunnerStatusInstalled :: int where "RunnerStatusInstalled = 3"
definition RunnerStatusUnknown :: int where "RunnerStatusUnknown = 4"

lemma plan_status_distinct [simp]:
  "RunningPlanStatus \<noteq> FailedPlanStatus" "RunningPlanStatus \<noteq> SuccessPlanStatus" "RunningPlanStatus \<noteq> UnStartPlanStatus"
  "FailedPlanStatus \<noteq> SuccessPlanStatus" "FailedPlanStatus \<noteq> RunningPlanStatus" "SuccessPlanStatus \<noteq> RunningPlanStatus"
  "SuccessPlanStatus \<noteq> FailedPlanStatus" "UnStartPlanStatus \<noteq> RunningPlanStatus"
  "StoppingPlanStatus \<noteq> FailedPlanStatus" "DestroyingPlanStatus \<noteq> FailedPlanStatus"
  "StoppingPlanStatus \<noteq> SuccessPlanStatus" "DestroyingPlanStatus \<noteq> SuccessPlanStatus" "UnStartPlanStatus \<noteq> FailedPlanStatus"
  "UnStartPlanStatus \<noteq> StoppingPlanStatus" "UnStartPlanStatus \<noteq> DestroyingPlanStatus" "UnStartPlanStatus \<noteq> []"
  by (simp_all add: FailedPlanStatus_def SuccessPlanStatus_def UnStartPlanStatus_def RunningPlanStatus_def StoppingPlanStatus_def
      DestroyingPlanStatus_def utf8_def utf8Char_def)

lemmas job_status_defs = JobPending_def JobRunning_def JobSuccess_def JobFailed_def
lemmas exec_mode_defs = PlanExecModeLocal_def PlanExecModeAgent_def

section \<open>Rows\<close>

record Plan = pixiu_model +
  pl_Name :: string
  pl_Status :: string
  pl_UserId :: int
  pl_Description :: string
  pl_ExecMode :: string
  pl_DeployAgentId :: int
  pl_KubernetesVersion :: string
  pl_NodeCount :: int

record Node = pixiu_model +
  nd_Name :: string
  nd_UserId :: int
  nd_PlanId :: int
  nd_Role :: string
  nd_CRI :: string
  nd_Ip :: string
  nd_Auth :: string

record Config = pixiu_model +
  cf_PlanId :: int
  cf_Region :: string
  cf_OSImage :: string
  cf_Kubernetes :: string
  cf_Network :: string
  cf_Runtime :: string
  cf_Component :: string

record Task = pixiu_model +
  tk_Name :: string
  tk_PlanId :: int
  tk_Step :: int
  tk_Action :: string
  tk_Status :: string
  tk_Message :: string

record Cluster = pixiu_model +
  clu_Name :: string
  clu_AliasName :: string
  clu_ClusterType :: int
  clu_PlanId :: int
  clu_UserId :: int
  clu_PermissionId :: int
  clu_OwnerReference :: int
  clu_ClusterStatus :: int
  clu_KubernetesVersion :: string
  clu_Nodes :: string
  clu_Protected :: bool
  clu_KubeConfig :: string
  clu_ConnectMode :: int
  clu_Description :: string
  clu_ProbeStatus :: int
  clu_ProbeReason :: string
  clu_ProbeMessage :: string
  clu_LastProbeTime :: "int option"
  clu_AgentToken :: string

record Agent = pixiu_model +
  ag_Name :: string
  ag_AgentType :: int
  ag_UserID :: int
  ag_Status :: int
  ag_Hostname :: string
  ag_Version :: string
  ag_LastHeartbeat :: int
  ag_Description :: string
  ag_Token :: string

record Job = pixiu_model +
  jb_PlanId :: int
  jb_AgentId :: int
  jb_TaskName :: string
  jb_Kind :: string
  jb_Action :: string
  jb_Image :: string
  jb_Payload :: string
  jb_Status :: string
  jb_Message :: string
  jb_Logs :: string
  jb_Result :: string
  jb_ClaimedAt :: "int option"

record Distribution = pixiu_model +
  di_Family :: string
  di_Name :: string
  di_Runner :: string

record Runner = pixiu_model +
  ru_Name :: string
  ru_EngineImage :: string
  ru_Status :: int
  ru_Description :: string

section \<open>The tables\<close>

record plan_db = iam_db +
  plans :: "Plan table"
  nodes :: "Node table"
  configs :: "Config table"
  tasks :: "Task table"
  clusters :: "Cluster table"
  agents :: "Agent table"
  jobs :: "Job table"
  distributions :: "Distribution table"
  runners :: "Runner table"
  task_items :: "Task task_cache"
  queue_adds :: "int list"
  plan_files :: "(string \<times> string) list"

definition planDefaults :: "Plan \<Rightarrow> Plan" where
  "planDefaults r = r\<lparr>pl_Status := (if pl_Status r = [] then UnStartPlanStatus else pl_Status r),
     pl_ExecMode := (if pl_ExecMode r = [] then PlanExecModeLocal else pl_ExecMode r)\<rparr>"

definition plans_t :: "('m plan_db_scheme, Plan) tref" where
  "plans_t = \<lparr>tget = plans, tupd = plans_update, tuniq = (\<lambda>r s. pl_Name r = pl_Name s), tdefaults = planDefaults\<rparr>"

definition nodes_t :: "('m plan_db_scheme, Node) tref" where
  "nodes_t = \<lparr>tget = nodes, tupd = nodes_update, tuniq = (\<lambda>r s. False), tdefaults = (\<lambda>r. r)\<rparr>"

definition configs_t :: "('m plan_db_scheme, Config) tref" where
  "configs_t = \<lparr>tget = configs, tupd = configs_update, tuniq = (\<lambda>r s. False), tdefaults = (\<lambda>r. r)\<rparr>"

definition tasks_t :: "('m plan_db_scheme, Task) tref" where
  "tasks_t = \<lparr>tget = tasks, tupd = tasks_update, tuniq = (\<lambda>r s. False), tdefaults = (\<lambda>r. r)\<rparr>"

definition clusters_t :: "('m plan_db_scheme, Cluster) tref" where
  "clusters_t = \<lparr>tget = clusters, tupd = clusters_update, tuniq = (\<lambda>r s. clu_Name r = clu_Name s), tdefaults = (\<lambda>r. r)\<rparr>"

definition agents_t :: "('m plan_db_scheme, Agent) tref" where
  "agents_t = \<lparr>tget = agents, tupd = agents_update, tuniq = (\<lambda>r s. ag_Name r = ag_Name s), tdefaults = (\<lambda>r. r)\<rparr>"

definition jobs_t :: "('m plan_db_scheme, Job) tref" where
  "jobs_t = \<lparr>tget = jobs, tupd = jobs_update, tuniq = (\<lambda>r s. False), tdefaults = (\<lambda>r. r)\<rparr>"

definition distributions_t :: "('m plan_db_scheme, Distribution) tref" where
  "distributions_t = \<lparr>tget = distributions, tupd = distributions_update, tuniq = (\<lambda>r s. di_Family r = di_Family s \<and> di_Name r = di_Name s), tdefaults = (\<lambda>r. r)\<rparr>"

definition runners_t :: "('m plan_db_scheme, Runner) tref" where
  "runners_t = \<lparr>tget = runners, tupd = runners_update, tuniq = (\<lambda>r s. ru_Name r = ru_Name s), tdefaults = (\<lambda>r. r)\<rparr>"

lemmas plan_tables = plans_t_def nodes_t_def configs_t_def tasks_t_def clusters_t_def agents_t_def jobs_t_def distributions_t_def runners_t_def

lemma plan_trefs [simp]:
  "tget plans_t = plans" "tupd plans_t = plans_update" "tdefaults plans_t = planDefaults"
  "tget nodes_t = nodes" "tupd nodes_t = nodes_update" "tdefaults nodes_t = (\<lambda>r. r)"
  "tget configs_t = configs" "tupd configs_t = configs_update" "tdefaults configs_t = (\<lambda>r. r)"
  "tget tasks_t = tasks" "tupd tasks_t = tasks_update" "tdefaults tasks_t = (\<lambda>r. r)"
  "tget clusters_t = clusters" "tupd clusters_t = clusters_update" "tdefaults clusters_t = (\<lambda>r. r)"
  "tget agents_t = agents" "tupd agents_t = agents_update" "tdefaults agents_t = (\<lambda>r. r)"
  "tget jobs_t = jobs" "tupd jobs_t = jobs_update" "tdefaults jobs_t = (\<lambda>r. r)"
  "tget distributions_t = distributions" "tupd distributions_t = distributions_update" "tdefaults distributions_t = (\<lambda>r. r)"
  "tget runners_t = runners" "tupd runners_t = runners_update" "tdefaults runners_t = (\<lambda>r. r)"
  by (simp_all add: plan_tables)

lemma plan_uniques [simp]:
  "tuniq plans_t = (\<lambda>r s. pl_Name r = pl_Name s)"
  "tuniq nodes_t = (\<lambda>r s. False)"
  "tuniq configs_t = (\<lambda>r s. False)"
  "tuniq tasks_t = (\<lambda>r s. False)"
  "tuniq clusters_t = (\<lambda>r s. clu_Name r = clu_Name s)"
  "tuniq agents_t = (\<lambda>r s. ag_Name r = ag_Name s)"
  "tuniq jobs_t = (\<lambda>r s. False)"
  "tuniq distributions_t = (\<lambda>r s. di_Family r = di_Family s \<and> di_Name r = di_Name s)"
  "tuniq runners_t = (\<lambda>r s. ru_Name r = ru_Name s)"
  by (simp_all add: plan_tables)

lemma planDefaults_Oid [simp]: "Oid (planDefaults r) = Oid r"
  by (simp add: planDefaults_def)

interpretation plans_tab: db_table "plans_t :: ('m plan_db_scheme, Plan) tref" by unfold_locales simp_all
interpretation nodes_tab: db_table "nodes_t :: ('m plan_db_scheme, Node) tref" by unfold_locales simp_all
interpretation configs_tab: db_table "configs_t :: ('m plan_db_scheme, Config) tref" by unfold_locales simp_all
interpretation tasks_tab: db_table "tasks_t :: ('m plan_db_scheme, Task) tref" by unfold_locales simp_all
interpretation clusters_tab: db_table "clusters_t :: ('m plan_db_scheme, Cluster) tref" by unfold_locales simp_all
interpretation agents_tab: db_table "agents_t :: ('m plan_db_scheme, Agent) tref" by unfold_locales simp_all
interpretation jobs_tab: db_table "jobs_t :: ('m plan_db_scheme, Job) tref" by unfold_locales simp_all
interpretation distributions_tab: db_table "distributions_t :: ('m plan_db_scheme, Distribution) tref" by unfold_locales simp_all
interpretation runners_tab: db_table "runners_t :: ('m plan_db_scheme, Runner) tref" by unfold_locales simp_all

section \<open>Plans\<close>

text \<open>The options of \<open>Create\<close> run in the transaction that inserts the plan.\<close>

definition planCreate :: "Plan \<Rightarrow> (Plan \<Rightarrow> ('m plan_db_scheme, goerr, unit) act) list \<Rightarrow> ('m plan_db_scheme, goerr, Plan) act" where
  "planCreate object opts = andThen timeNow (\<lambda>now. let obj = object\<lparr>GmtCreate := now, GmtModified := now\<rparr> in
     if opts = [] then sqlCreate plans_t obj
     else transaction (andThen (sqlCreate plans_t obj) (\<lambda>plan. andThen (forEach (\<lambda>opt. opt plan) opts) (\<lambda>_. ret plan))))"

definition planUpdate :: "int \<Rightarrow> int \<Rightarrow> Plan updates \<Rightarrow> ('m plan_db_scheme, goerr, unit) act" where
  "planUpdate pid resourceVersion updates = andThen timeNow (\<lambda>now. 
     andThen (sqlUpdates plans_t (versionMatch pid resourceVersion) (versionedUpdates now resourceVersion updates)) (\<lambda>_. ret ()))"

definition planGet :: "int \<Rightarrow> ('m plan_db_scheme, goerr, Plan) act" where
  "planGet pid = sqlFirst plans_t (\<lambda>r. Oid r = pid)"

definition planDelete :: "int \<Rightarrow> ('m plan_db_scheme, goerr, Plan) act" where
  "planDelete pid = andThen (planGet pid) (\<lambda>object. andThen (sqlDelete plans_t (\<lambda>r. Oid r = pid)) (\<lambda>_. ret object))"

definition planList :: "Plan options list \<Rightarrow> ('m plan_db_scheme, goerr, Plan list) act" where
  "planList opts = daoList plans_t opts"

definition planCount :: "Plan options list \<Rightarrow> ('m plan_db_scheme, goerr, int) act" where
  "planCount opts = daoCount plans_t opts"

definition planUpdateStatus :: "int \<Rightarrow> string \<Rightarrow> ('m plan_db_scheme, goerr, unit) act" where
  "planUpdateStatus planId status = andThen timeNow (\<lambda>now. 
     andThen (sqlUpdates plans_t (\<lambda>r. Oid r = planId) [(''status'', pl_Status_update (\<lambda>_. status)), (''gmt_modified'', GmtModified_update (\<lambda>_. now))]) (\<lambda>_. ret ()))"

section \<open>Nodes\<close>

definition CreateNode :: "Node \<Rightarrow> ('m plan_db_scheme, goerr, Node) act" where
  "CreateNode object = daoCreate nodes_t object"

definition TxCreateNode :: "Node \<Rightarrow> ('m plan_db_scheme, goerr, unit) act" where
  "TxCreateNode object = andThen (daoCreate nodes_t object) (\<lambda>_. ret ())"

definition UpdateNode :: "int \<Rightarrow> int \<Rightarrow> Node updates \<Rightarrow> ('m plan_db_scheme, goerr, unit) act" where
  "UpdateNode = daoUpdate nodes_t (Util ErrRecordNotFound)"

definition GetNode :: "int \<Rightarrow> ('m plan_db_scheme, goerr, Node) act" where
  "GetNode nodeId = sqlFirst nodes_t (\<lambda>r. Oid r = nodeId)"

definition DeleteNode :: "int \<Rightarrow> ('m plan_db_scheme, goerr, Node) act" where
  "DeleteNode nodeId = andThen (GetNode nodeId) (\<lambda>object. andThen (sqlDelete nodes_t (\<lambda>r. Oid r = nodeId)) (\<lambda>_. ret object))"

definition DeleteNodesByPlan :: "int \<Rightarrow> ('m plan_db_scheme, goerr, unit) act" where
  "DeleteNodesByPlan planId = andThen (sqlDelete nodes_t (\<lambda>r. nd_PlanId r = planId)) (\<lambda>_. ret ())"

definition DeleteNodesByNames :: "int \<Rightarrow> string list \<Rightarrow> ('m plan_db_scheme, goerr, unit) act" where
  "DeleteNodesByNames planId names = andThen (sqlDelete nodes_t (\<lambda>r. nd_PlanId r = planId \<and> nd_Name r \<in> set names)) (\<lambda>_. ret ())"

definition GetNodeByName :: "int \<Rightarrow> string \<Rightarrow> ('m plan_db_scheme, goerr, Node) act" where
  "GetNodeByName planId name = sqlFirst nodes_t (\<lambda>r. nd_PlanId r = planId \<and> nd_Name r = name)"

definition GetNodeByIP :: "string \<Rightarrow> ('m plan_db_scheme, goerr, Node) act" where
  "GetNodeByIP ip = sqlFirst nodes_t (\<lambda>r. nd_Ip r = ip)"

definition dbListNodes :: "int \<Rightarrow> Node options list \<Rightarrow> ('m plan_db_scheme, goerr, Node list) act" where
  "dbListNodes pid opts = daoList nodes_t (Where (\<lambda>r. nd_PlanId r = pid) # opts)"

definition ListAllNodes :: "Node options list \<Rightarrow> ('m plan_db_scheme, goerr, Node list) act" where
  "ListAllNodes opts = daoList nodes_t opts"

definition CountNodes :: "Node options list \<Rightarrow> ('m plan_db_scheme, goerr, int) act" where
  "CountNodes opts = daoCount nodes_t opts"

section \<open>Configurations\<close>

definition CreateConfig :: "Config \<Rightarrow> ('m plan_db_scheme, goerr, Config) act" where
  "CreateConfig object = daoCreate configs_t object"

definition TxCreateConfig :: "Config \<Rightarrow> ('m plan_db_scheme, goerr, unit) act" where
  "TxCreateConfig object = andThen (daoCreate configs_t object) (\<lambda>_. ret ())"

definition UpdateConfig :: "int \<Rightarrow> int \<Rightarrow> Config updates \<Rightarrow> ('m plan_db_scheme, goerr, unit) act" where
  "UpdateConfig = daoUpdate configs_t (Util ErrRecordNotFound)"

definition GetConfig :: "int \<Rightarrow> ('m plan_db_scheme, goerr, Config) act" where
  "GetConfig cid = sqlFirst configs_t (\<lambda>r. Oid r = cid)"

definition DeleteConfig :: "int \<Rightarrow> ('m plan_db_scheme, goerr, Config) act" where
  "DeleteConfig cid = andThen (GetConfig cid) (\<lambda>object. andThen (sqlDelete configs_t (\<lambda>r. Oid r = cid)) (\<lambda>_. ret object))"

definition DeleteConfigByPlan :: "int \<Rightarrow> ('m plan_db_scheme, goerr, unit) act" where
  "DeleteConfigByPlan planId = andThen (sqlDelete configs_t (\<lambda>r. cf_PlanId r = planId)) (\<lambda>_. ret ())"

definition ListConfigs :: "Config options list \<Rightarrow> ('m plan_db_scheme, goerr, Config list) act" where
  "ListConfigs opts = daoList configs_t opts"

definition GetConfigByPlan :: "int \<Rightarrow> ('m plan_db_scheme, goerr, Config) act" where
  "GetConfigByPlan planId = sqlFirst configs_t (\<lambda>r. cf_PlanId r = planId)"

section \<open>Tasks\<close>

definition CreateTask :: "Task \<Rightarrow> ('m plan_db_scheme, goerr, Task) act" where
  "CreateTask object = daoCreate tasks_t object"

definition GetTaskByName :: "int \<Rightarrow> string \<Rightarrow> ('m plan_db_scheme, goerr, Task) act" where
  "GetTaskByName planId name = sqlFirst tasks_t (\<lambda>r. tk_PlanId r = planId \<and> tk_Name r = name)"

definition UpdateTask :: "int \<Rightarrow> string \<Rightarrow> Task updates \<Rightarrow> ('m plan_db_scheme, goerr, Task) act" where
  "UpdateTask pid name updates = andThen (sqlUpdates tasks_t (\<lambda>r. tk_PlanId r = pid \<and> tk_Name r = name) updates) (\<lambda>rowsAffected.
     if rowsAffected = 0 then fail (Util ErrRecordNotFound) else GetTaskByName pid name)"

definition DeleteTask :: "int \<Rightarrow> ('m plan_db_scheme, goerr, unit) act" where
  "DeleteTask pid = andThen (sqlDelete tasks_t (\<lambda>r. tk_PlanId r = pid)) (\<lambda>_. ret ())"

definition dbListTasks :: "int \<Rightarrow> Task options list \<Rightarrow> ('m plan_db_scheme, goerr, Task list) act" where
  "dbListTasks pid opts = daoList tasks_t (Where (\<lambda>r. tk_PlanId r = pid) # opts)"

definition GetNewestTask :: "int \<Rightarrow> ('m plan_db_scheme, goerr, Task) act" where
  "GetNewestTask pid = sqlLast tasks_t (\<lambda>r. tk_PlanId r = pid)"

definition GetTaskById :: "int \<Rightarrow> ('m plan_db_scheme, goerr, Task) act" where
  "GetTaskById taskId = sqlFirst tasks_t (\<lambda>r. Oid r = taskId)"

section \<open>Clusters\<close>

definition clusterCreate :: "Cluster \<Rightarrow> (Cluster \<Rightarrow> ('m plan_db_scheme, goerr, unit) act) list \<Rightarrow> ('m plan_db_scheme, goerr, Cluster) act" where
  "clusterCreate object fns = andThen timeNow (\<lambda>now. transaction (andThen (sqlCreate clusters_t (object\<lparr>GmtCreate := now, GmtModified := now\<rparr>)) (\<lambda>object.
     andThen (forEach (\<lambda>fn. fn object) fns) (\<lambda>_. ret object))))"

definition clusterUpdate :: "int \<Rightarrow> int \<Rightarrow> Cluster updates \<Rightarrow> ('m plan_db_scheme, goerr, unit) act" where
  "clusterUpdate = daoUpdate clusters_t (Util ErrRecordNotUpdate)"

definition clusterInternalUpdate :: "int \<Rightarrow> Cluster updates \<Rightarrow> ('m plan_db_scheme, goerr, unit) act" where
  "clusterInternalUpdate cid updates = andThen timeNow (\<lambda>now. andThen (sqlUpdates clusters_t (\<lambda>r. Oid r = cid) (updates @ [(''gmt_modified'', GmtModified_update (\<lambda>_. now))])) (\<lambda>rowsAffected.
     if rowsAffected = 0 then fail (Util ErrRecordNotUpdate) else ret ()))"

definition clusterDelete :: "Cluster \<Rightarrow> (Cluster \<Rightarrow> ('m plan_db_scheme, goerr, unit) act) list \<Rightarrow> ('m plan_db_scheme, goerr, unit) act" where
  "clusterDelete cluster fns = transaction (andThen (sqlDelete clusters_t (\<lambda>r. Oid r = Oid cluster)) (\<lambda>_. forEach (\<lambda>fn. fn cluster) fns))"

definition clusterGet :: "int \<Rightarrow> Cluster options list \<Rightarrow> ('m plan_db_scheme, goerr, Cluster option) act" where
  "clusterGet cid opts = daoGetBy clusters_t (opts @ [Where (\<lambda>r. Oid r = cid)])"

definition clusterList :: "Cluster options list \<Rightarrow> ('m plan_db_scheme, goerr, Cluster list) act" where
  "clusterList opts = daoList clusters_t opts"

definition clusterCount :: "Cluster options list \<Rightarrow> ('m plan_db_scheme, goerr, int) act" where
  "clusterCount opts = daoCount clusters_t opts"

definition clusterGetBy :: "Cluster options list \<Rightarrow> ('m plan_db_scheme, goerr, Cluster option) act" where
  "clusterGetBy opts = daoGetBy clusters_t opts"

definition UpdateByPlan :: "int \<Rightarrow> Cluster updates \<Rightarrow> ('m plan_db_scheme, goerr, unit) act" where
  "UpdateByPlan planId updates = andThen timeNow (\<lambda>now. andThen (sqlUpdates clusters_t (\<lambda>r. clu_PlanId r = planId) (updates @ [(''gmt_modified'', GmtModified_update (\<lambda>_. now))])) (\<lambda>rowsAffected.
     if rowsAffected = 0 then fail (Util ErrRecordNotUpdate) else ret ()))"

section \<open>Agents\<close>

definition WithToken :: "string \<Rightarrow> Agent options" where
  "WithToken tok q = (if tok = [] then q else Where (\<lambda>r. ag_Token r = tok) q)"

definition WithStatus :: "int \<Rightarrow> Agent options" where
  "WithStatus status = Where (\<lambda>r. ag_Status r = status)"

definition agentCreate :: "Agent \<Rightarrow> ('m plan_db_scheme, goerr, Agent) act" where
  "agentCreate object = andThen timeNow (\<lambda>now. sqlCreate agents_t (object\<lparr>GmtCreate := now, GmtModified := now, ag_LastHeartbeat := now\<rparr>))"

definition agentUpdate :: "int \<Rightarrow> int \<Rightarrow> Agent updates \<Rightarrow> ('m plan_db_scheme, goerr, unit) act" where
  "agentUpdate = daoUpdate agents_t (Util ErrRecordNotUpdate)"

definition agentInternalUpdate :: "int \<Rightarrow> Agent updates \<Rightarrow> ('m plan_db_scheme, goerr, unit) act" where
  "agentInternalUpdate i updates = andThen timeNow (\<lambda>now. andThen (sqlUpdates agents_t (\<lambda>r. Oid r = i) (updates @ [(''gmt_modified'', GmtModified_update (\<lambda>_. now))])) (\<lambda>_. ret ()))"

definition agentDelete :: "int \<Rightarrow> ('m plan_db_scheme, goerr, unit) act" where
  "agentDelete i = andThen (sqlDelete agents_t (\<lambda>r. Oid r = i)) (\<lambda>_. ret ())"

definition agentGet :: "int \<Rightarrow> ('m plan_db_scheme, goerr, Agent option) act" where
  "agentGet i = orNil (sqlFirst agents_t (\<lambda>r. Oid r = i))"

definition agentGetBy :: "Agent options list \<Rightarrow> ('m plan_db_scheme, goerr, Agent option) act" where
  "agentGetBy opts = daoGetBy agents_t opts"

definition agentList :: "Agent options list \<Rightarrow> ('m plan_db_scheme, goerr, Agent list) act" where
  "agentList opts = daoList agents_t opts"

definition agentCount :: "Agent options list \<Rightarrow> ('m plan_db_scheme, goerr, int) act" where
  "agentCount opts = daoCount agents_t opts"

section \<open>Jobs\<close>

definition jobCreate :: "Job \<Rightarrow> ('m plan_db_scheme, goerr, Job) act" where
  "jobCreate object = andThen timeNow (\<lambda>now. sqlCreate jobs_t (object\<lparr>GmtCreate := now, GmtModified := now, jb_Status := (if jb_Status object = [] then JobPending else jb_Status object)\<rparr>))"

definition jobGet :: "int \<Rightarrow> ('m plan_db_scheme, goerr, Job option) act" where
  "jobGet i = orNil (sqlFirst jobs_t (\<lambda>r. Oid r = i))"

definition jobInternalUpdate :: "int \<Rightarrow> Job updates \<Rightarrow> ('m plan_db_scheme, goerr, unit) act" where
  "jobInternalUpdate i updates = andThen timeNow (\<lambda>now. andThen (sqlUpdates jobs_t (\<lambda>r. Oid r = i) (updates @ [(''gmt_modified'', GmtModified_update (\<lambda>_. now))])) (\<lambda>_. ret ()))"

text \<open>The two statements of \<open>ClaimNext\<close>: the next pending job, and its claim, whose \<open>RowsAffected\<close> is not looked at.\<close>

definition nextPending :: "int \<Rightarrow> ('m plan_db_scheme, goerr, Job) act" where
  "nextPending agentId = sqlFirst jobs_t (\<lambda>r. jb_AgentId r = agentId \<and> jb_Status r = JobPending)"

definition claimJob :: "Job \<Rightarrow> ('m plan_db_scheme, goerr, unit) act" where
  "claimJob object = andThen timeNow (\<lambda>now. andThen (sqlUpdates jobs_t (\<lambda>r. Oid r = Oid object \<and> jb_Status r = JobPending)
     [(''status'', jb_Status_update (\<lambda>_. JobRunning)), (''claimed_at'', jb_ClaimedAt_update (\<lambda>_. Some now)), (''gmt_modified'', GmtModified_update (\<lambda>_. now))]) (\<lambda>_. ret ()))"

definition ClaimNext :: "int \<Rightarrow> ('m plan_db_scheme, goerr, Job option) act" where
  "ClaimNext agentId = orNil (andThen (transaction (andThen (nextPending agentId) (\<lambda>object. andThen (claimJob object) (\<lambda>_. ret object)))) (\<lambda>object.
     ret (object\<lparr>jb_Status := JobRunning\<rparr>)))"

text \<open>The statement names \<open>deploy_jobs\<close>, but the table of \<open>model.Job\<close>, the one the migration creates, is \<open>jobs\<close>:
  MySQL answers 1146, no such table.\<close>

definition AppendLogs :: "int \<Rightarrow> string \<Rightarrow> ('m plan_db_scheme, goerr, unit) act" where
  "AppendLogs i chunk = (if chunk = [] then ret () else andThen timeNow (\<lambda>now. stmt (\<lambda>w. (Inl (MySQLError 1146), w))))"

definition jobListByPlan :: "int \<Rightarrow> ('m plan_db_scheme, goerr, Job list) act" where
  "jobListByPlan planId = sqlFind jobs_t (\<lambda>r. jb_PlanId r = planId)"

section \<open>Distributions and runners\<close>

definition WithDistributionFamily :: "string \<Rightarrow> Distribution options" where
  "WithDistributionFamily family q = (if family = [] then q else Where (\<lambda>r. di_Family r = family) q)"

definition WithDistributionNameLike :: "string \<Rightarrow> Distribution options" where
  "WithDistributionNameLike name q = (if name = [] then q else Where (\<lambda>r. sqlLike (''%'' @ name @ ''%'') (di_Name r)) q)"

definition CreateDistribution :: "Distribution \<Rightarrow> ('m plan_db_scheme, goerr, Distribution) act" where
  "CreateDistribution object = daoCreate distributions_t object"

definition UpdateDistribution :: "int \<Rightarrow> int \<Rightarrow> Distribution updates \<Rightarrow> ('m plan_db_scheme, goerr, unit) act" where
  "UpdateDistribution = daoUpdate distributions_t (Util ErrRecordNotUpdate)"

definition GetDistribution :: "int \<Rightarrow> ('m plan_db_scheme, goerr, Distribution option) act" where
  "GetDistribution i = orNil (sqlFirst distributions_t (\<lambda>r. Oid r = i))"

definition DeleteDistribution :: "int \<Rightarrow> ('m plan_db_scheme, goerr, Distribution option) act" where
  "DeleteDistribution i = andThen (GetDistribution i) (\<lambda>object. case object of None \<Rightarrow> ret None
     | Some object \<Rightarrow> andThen (sqlDelete distributions_t (\<lambda>r. Oid r = i)) (\<lambda>_. ret (Some object)))"

definition GetDistributionByName :: "string \<Rightarrow> ('m plan_db_scheme, goerr, Distribution option) act" where
  "GetDistributionByName name = orNil (sqlFirst distributions_t (\<lambda>r. di_Name r = name))"

definition GetDistributionByFamilyName :: "string \<Rightarrow> string \<Rightarrow> ('m plan_db_scheme, goerr, Distribution option) act" where
  "GetDistributionByFamilyName family name = orNil (sqlFirst distributions_t (\<lambda>r. di_Family r = family \<and> di_Name r = name))"

text \<open>\<open>Order("family asc, name asc")\<close>: by family, then by name, with equal rows in the order of the ids.\<close>

definition ListDistributions :: "Distribution options list \<Rightarrow> ('m plan_db_scheme, goerr, Distribution list) act" where
  "ListDistributions opts = sqlSelect (\<lambda>w. let q = buildQuery opts;
       sorted_rs = sort_key di_Family (sort_key di_Name (filter (qWhere q) (rows (distributions w)))); skipped = drop (nat (qOffset q)) sorted_rs
     in if 0 < qLimit q then take (nat (qLimit q)) skipped else skipped)"

definition CountDistributions :: "Distribution options list \<Rightarrow> ('m plan_db_scheme, goerr, int) act" where
  "CountDistributions opts = daoCount distributions_t opts"

definition WithEngineImage :: "('r \<Rightarrow> string) \<Rightarrow> string \<Rightarrow> 'r options" where
  "WithEngineImage image_col img q = (if img = [] then q else Where (\<lambda>r. image_col r = img) q)"

definition runnerCreate :: "Runner \<Rightarrow> ('m plan_db_scheme, goerr, Runner) act" where
  "runnerCreate object = daoCreate runners_t object"

definition runnerUpdate :: "int \<Rightarrow> int \<Rightarrow> Runner updates \<Rightarrow> ('m plan_db_scheme, goerr, unit) act" where
  "runnerUpdate = daoUpdate runners_t (Util ErrRecordNotFound)"

definition runnerGet :: "int \<Rightarrow> ('m plan_db_scheme, goerr, Runner) act" where
  "runnerGet rid = sqlFirst runners_t (\<lambda>r. Oid r = rid)"

definition runnerDelete :: "int \<Rightarrow> ('m plan_db_scheme, goerr, Runner) act" where
  "runnerDelete rid = andThen (runnerGet rid) (\<lambda>object. andThen (sqlDelete runners_t (\<lambda>r. Oid r = rid)) (\<lambda>_. ret object))"

definition runnerList :: "Runner options list \<Rightarrow> ('m plan_db_scheme, goerr, Runner list) act" where
  "runnerList opts = daoList runners_t opts"

definition runnerCount :: "Runner options list \<Rightarrow> ('m plan_db_scheme, goerr, int) act" where
  "runnerCount opts = daoCount runners_t opts"

definition runnerGetBy :: "Runner options list \<Rightarrow> ('m plan_db_scheme, goerr, Runner) act" where
  "runnerGetBy opts = andThen (daoGetBy runners_t opts) (\<lambda>found. case found of None \<Rightarrow> fail (Util ErrRecordNotFound) | Some r \<Rightarrow> ret r)"

definition runnerInternalUpdate :: "int \<Rightarrow> Runner updates \<Rightarrow> ('m plan_db_scheme, goerr, unit) act" where
  "runnerInternalUpdate rid updates = andThen timeNow (\<lambda>now. andThen (sqlUpdates runners_t (\<lambda>r. Oid r = rid) (updates @ [(''gmt_modified'', GmtModified_update (\<lambda>_. now))])) (\<lambda>rowsAffected.
     if rowsAffected = 0 then fail (Util ErrRecordNotFound) else ret ()))"

section \<open>Optimistic locks\<close>

interpretation nodes_lock: versioned_dao "\<lambda>w :: 'm plan_db_scheme. rows (nodes w)" UpdateNode "\<lambda>w. table_ok (nodes w)"
  using nodes_tab.versioned [of "Util ErrRecordNotFound"] by (simp add: UpdateNode_def)

interpretation configs_lock: versioned_dao "\<lambda>w :: 'm plan_db_scheme. rows (configs w)" UpdateConfig "\<lambda>w. table_ok (configs w)"
  using configs_tab.versioned [of "Util ErrRecordNotFound"] by (simp add: UpdateConfig_def)

interpretation clusters_lock: versioned_dao "\<lambda>w :: 'm plan_db_scheme. rows (clusters w)" clusterUpdate "\<lambda>w. table_ok (clusters w)"
  using clusters_tab.versioned [of "Util ErrRecordNotUpdate"] by (simp add: clusterUpdate_def)

interpretation agents_lock: versioned_dao "\<lambda>w :: 'm plan_db_scheme. rows (agents w)" agentUpdate "\<lambda>w. table_ok (agents w)"
  using agents_tab.versioned [of "Util ErrRecordNotUpdate"] by (simp add: agentUpdate_def)

interpretation distributions_lock: versioned_dao "\<lambda>w :: 'm plan_db_scheme. rows (distributions w)" UpdateDistribution "\<lambda>w. table_ok (distributions w)"
  using distributions_tab.versioned [of "Util ErrRecordNotUpdate"] by (simp add: UpdateDistribution_def)

interpretation runners_lock: versioned_dao "\<lambda>w :: 'm plan_db_scheme. rows (runners w)" runnerUpdate "\<lambda>w. table_ok (runners w)"
  using runners_tab.versioned [of "Util ErrRecordNotFound"] by (simp add: runnerUpdate_def)

section \<open>A sample state\<close>

definition demoPlanDb :: plan_db where
  "demoPlanDb = iam_db.extend demoDb \<lparr>plans = \<lparr>rows = [], next_id = 1\<rparr>, nodes = \<lparr>rows = [], next_id = 1\<rparr>, configs = \<lparr>rows = [], next_id = 1\<rparr>, tasks = \<lparr>rows = [], next_id = 1\<rparr>, clusters = \<lparr>rows = [], next_id = 1\<rparr>, agents = \<lparr>rows = [], next_id = 1\<rparr>, jobs = \<lparr>rows = [], next_id = 1\<rparr>, distributions = \<lparr>rows = [], next_id = 1\<rparr>, runners = \<lparr>rows = [], next_id = 1\<rparr>, task_items = [], queue_adds = [], plan_files = []\<rparr>"

end
