(* ===== verification/PlanSpecs.thy ===== *)
theory PlanSpecs
  imports JsonStruct
begin

text \<open>
  The specifications a deployment plan carries (\<open>pkg/types\<close>): the records of \<open>types.go\<close> and their
  \<open>Marshal\<close> and \<open>Unmarshal\<close> of \<open>meta.go\<close>, on the model of \<open>encoding/json\<close>; each specification that is
  written with valid strings is read back as it was.
\<close>

section \<open>Records\<close>

record KeySpec =
  ks_Data :: string
  ks_File :: string

record PasswordSpec =
  ps_User :: string
  ps_Password :: string

record PlanNodeAuth =
  na_Type :: string
  na_Port :: int
  na_Key :: "KeySpec option"
  na_Password :: "PasswordSpec option"

record KubernetesSpec =
  k8_EnablePublicIp :: bool
  k8_ApiServer :: string
  k8_ApiPort :: string
  k8_KubernetesVersion :: string
  k8_EnableHA :: bool
  k8_Register :: bool
  k8_ImageRepository :: string
  k8_SetHostname :: bool
  k8_Protect :: bool
  k8_ChangeSelinux :: bool

record NetworkSpec =
  nw_NetworkInterface :: string
  nw_Cni :: string
  nw_PodNetwork :: string
  nw_ServiceNetwork :: string
  nw_KubeProxy :: string

record RuntimeSpec =
  rt_Runtime :: string
  rt_DataDir :: string

record Helm =
  hm_Enable :: bool
  hm_HelmRelease :: string

record CustomRepo =
  cr_Enable :: bool
  cr_Content :: string

record CertificatePeriod =
  cp_Enable :: bool
  cp_CertificateValidityPeriod :: string
  cp_CaCertificateValidityPeriod :: string

record NFS =
  nf_Enable :: bool
  nf_StorageClassName :: string
  nf_StorageDataDir :: string

record MetricServer =
  ms_Enable :: bool

record IngressNginx =
  ig_Enable :: bool

record Prometheus =
  pm_EnablePrometheus :: string
  pm_Enable :: bool

record Grafana =
  gf_Enable :: bool
  gf_GrafanaAdminUser :: string
  gf_GrafanaAdminPassword :: string

record Haproxy =
  hp_Enable :: bool
  hp_KeepalivedVirtualRouterId :: string

record ComponentSpec =
  cs_Helm :: "Helm option"
  cs_Prometheus :: "Prometheus option"
  cs_Grafana :: "Grafana option"
  cs_Haproxy :: "Haproxy option"
  cs_MetricServer :: "MetricServer option"
  cs_IngressNginx :: "IngressNginx option"
  cs_NFS :: "NFS option"
  cs_CustomRepo :: "CustomRepo option"
  cs_CertificatePeriod :: "CertificatePeriod option"

section \<open>Zero values\<close>

definition zeroKeySpec :: KeySpec where
  "zeroKeySpec = \<lparr>ks_Data = [], ks_File = []\<rparr>"

definition zeroPasswordSpec :: PasswordSpec where
  "zeroPasswordSpec = \<lparr>ps_User = [], ps_Password = []\<rparr>"

definition zeroPlanNodeAuth :: PlanNodeAuth where
  "zeroPlanNodeAuth = \<lparr>na_Type = [], na_Port = 0, na_Key = None, na_Password = None\<rparr>"

definition zeroKubernetesSpec :: KubernetesSpec where
  "zeroKubernetesSpec = \<lparr>k8_EnablePublicIp = False, k8_ApiServer = [], k8_ApiPort = [], k8_KubernetesVersion = [], k8_EnableHA = False, k8_Register = False, k8_ImageRepository = [], k8_SetHostname = False, k8_Protect = False, k8_ChangeSelinux = False\<rparr>"

definition zeroNetworkSpec :: NetworkSpec where
  "zeroNetworkSpec = \<lparr>nw_NetworkInterface = [], nw_Cni = [], nw_PodNetwork = [], nw_ServiceNetwork = [], nw_KubeProxy = []\<rparr>"

definition zeroRuntimeSpec :: RuntimeSpec where
  "zeroRuntimeSpec = \<lparr>rt_Runtime = [], rt_DataDir = []\<rparr>"

definition zeroHelm :: Helm where
  "zeroHelm = \<lparr>hm_Enable = False, hm_HelmRelease = []\<rparr>"

definition zeroCustomRepo :: CustomRepo where
  "zeroCustomRepo = \<lparr>cr_Enable = False, cr_Content = []\<rparr>"

definition zeroCertificatePeriod :: CertificatePeriod where
  "zeroCertificatePeriod = \<lparr>cp_Enable = False, cp_CertificateValidityPeriod = [], cp_CaCertificateValidityPeriod = []\<rparr>"

definition zeroNFS :: NFS where
  "zeroNFS = \<lparr>nf_Enable = False, nf_StorageClassName = [], nf_StorageDataDir = []\<rparr>"

definition zeroMetricServer :: MetricServer where
  "zeroMetricServer = \<lparr>ms_Enable = False\<rparr>"

definition zeroIngressNginx :: IngressNginx where
  "zeroIngressNginx = \<lparr>ig_Enable = False\<rparr>"

definition zeroPrometheus :: Prometheus where
  "zeroPrometheus = \<lparr>pm_EnablePrometheus = [], pm_Enable = False\<rparr>"

definition zeroGrafana :: Grafana where
  "zeroGrafana = \<lparr>gf_Enable = False, gf_GrafanaAdminUser = [], gf_GrafanaAdminPassword = []\<rparr>"

definition zeroHaproxy :: Haproxy where
  "zeroHaproxy = \<lparr>hp_Enable = False, hp_KeepalivedVirtualRouterId = []\<rparr>"

definition zeroComponentSpec :: ComponentSpec where
  "zeroComponentSpec = \<lparr>cs_Helm = None, cs_Prometheus = None, cs_Grafana = None, cs_Haproxy = None, cs_MetricServer = None, cs_IngressNginx = None, cs_NFS = None, cs_CustomRepo = None, cs_CertificatePeriod = None\<rparr>"

section \<open>JSON\<close>

definition keySpecJson :: "KeySpec \<Rightarrow> json" where
  "keySpecJson x = JObj (optMember ''data'' (if ks_Data x = [] then None else Some (JStr (ks_Data x))))"

definition fldsKeySpec :: "(string \<times> KeySpec decoder) list" where
  "fldsKeySpec = [(''data'', field ks_Data (\<lambda>x. ks_Data_update (\<lambda>_. x)) decString)]"

definition decKeySpec :: "KeySpec decoder" where
  "decKeySpec = decStruct fldsKeySpec"

definition passwordSpecJson :: "PasswordSpec \<Rightarrow> json" where
  "passwordSpecJson x = JObj (optMember ''user'' (if ps_User x = [] then None else Some (JStr (ps_User x))) @
     optMember ''password'' (if ps_Password x = [] then None else Some (JStr (ps_Password x))))"

definition fldsPasswordSpec :: "(string \<times> PasswordSpec decoder) list" where
  "fldsPasswordSpec = [(''user'', field ps_User (\<lambda>x. ps_User_update (\<lambda>_. x)) decString),
     (''password'', field ps_Password (\<lambda>x. ps_Password_update (\<lambda>_. x)) decString)]"

definition decPasswordSpec :: "PasswordSpec decoder" where
  "decPasswordSpec = decStruct fldsPasswordSpec"

definition planNodeAuthJson :: "PlanNodeAuth \<Rightarrow> json" where
  "planNodeAuthJson x = JObj (member ''type'' (JStr (na_Type x)) @
     optMember ''port'' (if na_Port x = 0 then None else Some (JNum (FormatInt (na_Port x)))) @
     optMember ''key'' (map_option keySpecJson (na_Key x)) @
     optMember ''password'' (map_option passwordSpecJson (na_Password x)))"

definition fldsPlanNodeAuth :: "(string \<times> PlanNodeAuth decoder) list" where
  "fldsPlanNodeAuth = [(''type'', field na_Type (\<lambda>x. na_Type_update (\<lambda>_. x)) decString),
     (''port'', field na_Port (\<lambda>x. na_Port_update (\<lambda>_. x)) decInt),
     (''key'', field na_Key (\<lambda>x. na_Key_update (\<lambda>_. x)) (decPtr decKeySpec zeroKeySpec)),
     (''password'', field na_Password (\<lambda>x. na_Password_update (\<lambda>_. x)) (decPtr decPasswordSpec zeroPasswordSpec))]"

definition decPlanNodeAuth :: "PlanNodeAuth decoder" where
  "decPlanNodeAuth = decStruct fldsPlanNodeAuth"

definition kubernetesSpecJson :: "KubernetesSpec \<Rightarrow> json" where
  "kubernetesSpecJson x = JObj (member ''enable_public_ip'' (JBool (k8_EnablePublicIp x)) @
     member ''api_server'' (JStr (k8_ApiServer x)) @
     member ''api_port'' (JStr (k8_ApiPort x)) @
     member ''kubernetes_version'' (JStr (k8_KubernetesVersion x)) @
     member ''enable_ha'' (JBool (k8_EnableHA x)) @
     member ''register'' (JBool (k8_Register x)) @
     optMember ''image_repository'' (if k8_ImageRepository x = [] then None else Some (JStr (k8_ImageRepository x))) @
     member ''set_hostname'' (JBool (k8_SetHostname x)) @
     member ''protect'' (JBool (k8_Protect x)) @
     member ''change_selinux'' (JBool (k8_ChangeSelinux x)))"

definition fldsKubernetesSpec :: "(string \<times> KubernetesSpec decoder) list" where
  "fldsKubernetesSpec = [(''enable_public_ip'', field k8_EnablePublicIp (\<lambda>x. k8_EnablePublicIp_update (\<lambda>_. x)) decBool),
     (''api_server'', field k8_ApiServer (\<lambda>x. k8_ApiServer_update (\<lambda>_. x)) decString),
     (''api_port'', field k8_ApiPort (\<lambda>x. k8_ApiPort_update (\<lambda>_. x)) decString),
     (''kubernetes_version'', field k8_KubernetesVersion (\<lambda>x. k8_KubernetesVersion_update (\<lambda>_. x)) decString),
     (''enable_ha'', field k8_EnableHA (\<lambda>x. k8_EnableHA_update (\<lambda>_. x)) decBool),
     (''register'', field k8_Register (\<lambda>x. k8_Register_update (\<lambda>_. x)) decBool),
     (''image_repository'', field k8_ImageRepository (\<lambda>x. k8_ImageRepository_update (\<lambda>_. x)) decString),
     (''set_hostname'', field k8_SetHostname (\<lambda>x. k8_SetHostname_update (\<lambda>_. x)) decBool),
     (''protect'', field k8_Protect (\<lambda>x. k8_Protect_update (\<lambda>_. x)) decBool),
     (''change_selinux'', field k8_ChangeSelinux (\<lambda>x. k8_ChangeSelinux_update (\<lambda>_. x)) decBool)]"

definition decKubernetesSpec :: "KubernetesSpec decoder" where
  "decKubernetesSpec = decStruct fldsKubernetesSpec"

definition networkSpecJson :: "NetworkSpec \<Rightarrow> json" where
  "networkSpecJson x = JObj (member ''network_interface'' (JStr (nw_NetworkInterface x)) @
     member ''cni'' (JStr (nw_Cni x)) @
     member ''pod_network'' (JStr (nw_PodNetwork x)) @
     member ''service_network'' (JStr (nw_ServiceNetwork x)) @
     member ''kube_proxy'' (JStr (nw_KubeProxy x)))"

definition fldsNetworkSpec :: "(string \<times> NetworkSpec decoder) list" where
  "fldsNetworkSpec = [(''network_interface'', field nw_NetworkInterface (\<lambda>x. nw_NetworkInterface_update (\<lambda>_. x)) decString),
     (''cni'', field nw_Cni (\<lambda>x. nw_Cni_update (\<lambda>_. x)) decString),
     (''pod_network'', field nw_PodNetwork (\<lambda>x. nw_PodNetwork_update (\<lambda>_. x)) decString),
     (''service_network'', field nw_ServiceNetwork (\<lambda>x. nw_ServiceNetwork_update (\<lambda>_. x)) decString),
     (''kube_proxy'', field nw_KubeProxy (\<lambda>x. nw_KubeProxy_update (\<lambda>_. x)) decString)]"

definition decNetworkSpec :: "NetworkSpec decoder" where
  "decNetworkSpec = decStruct fldsNetworkSpec"

definition runtimeSpecJson :: "RuntimeSpec \<Rightarrow> json" where
  "runtimeSpecJson x = JObj (member ''runtime'' (JStr (rt_Runtime x)) @
     member ''data_dir'' (JStr (rt_DataDir x)))"

definition fldsRuntimeSpec :: "(string \<times> RuntimeSpec decoder) list" where
  "fldsRuntimeSpec = [(''runtime'', field rt_Runtime (\<lambda>x. rt_Runtime_update (\<lambda>_. x)) decString),
     (''data_dir'', field rt_DataDir (\<lambda>x. rt_DataDir_update (\<lambda>_. x)) decString)]"

definition decRuntimeSpec :: "RuntimeSpec decoder" where
  "decRuntimeSpec = decStruct fldsRuntimeSpec"

definition helmJson :: "Helm \<Rightarrow> json" where
  "helmJson x = JObj (member ''enable'' (JBool (hm_Enable x)) @
     member ''helm_release'' (JStr (hm_HelmRelease x)))"

definition fldsHelm :: "(string \<times> Helm decoder) list" where
  "fldsHelm = [(''enable'', field hm_Enable (\<lambda>x. hm_Enable_update (\<lambda>_. x)) decBool),
     (''helm_release'', field hm_HelmRelease (\<lambda>x. hm_HelmRelease_update (\<lambda>_. x)) decString)]"

definition decHelm :: "Helm decoder" where
  "decHelm = decStruct fldsHelm"

definition customRepoJson :: "CustomRepo \<Rightarrow> json" where
  "customRepoJson x = JObj (member ''enable'' (JBool (cr_Enable x)) @
     member ''content'' (JStr (cr_Content x)))"

definition fldsCustomRepo :: "(string \<times> CustomRepo decoder) list" where
  "fldsCustomRepo = [(''enable'', field cr_Enable (\<lambda>x. cr_Enable_update (\<lambda>_. x)) decBool),
     (''content'', field cr_Content (\<lambda>x. cr_Content_update (\<lambda>_. x)) decString)]"

definition decCustomRepo :: "CustomRepo decoder" where
  "decCustomRepo = decStruct fldsCustomRepo"

definition certificatePeriodJson :: "CertificatePeriod \<Rightarrow> json" where
  "certificatePeriodJson x = JObj (member ''enable'' (JBool (cp_Enable x)) @
     member ''certificate_validity_period'' (JStr (cp_CertificateValidityPeriod x)) @
     member ''ca_certificate_validity_period'' (JStr (cp_CaCertificateValidityPeriod x)))"

definition fldsCertificatePeriod :: "(string \<times> CertificatePeriod decoder) list" where
  "fldsCertificatePeriod = [(''enable'', field cp_Enable (\<lambda>x. cp_Enable_update (\<lambda>_. x)) decBool),
     (''certificate_validity_period'', field cp_CertificateValidityPeriod (\<lambda>x. cp_CertificateValidityPeriod_update (\<lambda>_. x)) decString),
     (''ca_certificate_validity_period'', field cp_CaCertificateValidityPeriod (\<lambda>x. cp_CaCertificateValidityPeriod_update (\<lambda>_. x)) decString)]"

definition decCertificatePeriod :: "CertificatePeriod decoder" where
  "decCertificatePeriod = decStruct fldsCertificatePeriod"

definition nFSJson :: "NFS \<Rightarrow> json" where
  "nFSJson x = JObj (member ''enable'' (JBool (nf_Enable x)) @
     member ''storage_class_name'' (JStr (nf_StorageClassName x)) @
     member ''storage_data_dir'' (JStr (nf_StorageDataDir x)))"

definition fldsNFS :: "(string \<times> NFS decoder) list" where
  "fldsNFS = [(''enable'', field nf_Enable (\<lambda>x. nf_Enable_update (\<lambda>_. x)) decBool),
     (''storage_class_name'', field nf_StorageClassName (\<lambda>x. nf_StorageClassName_update (\<lambda>_. x)) decString),
     (''storage_data_dir'', field nf_StorageDataDir (\<lambda>x. nf_StorageDataDir_update (\<lambda>_. x)) decString)]"

definition decNFS :: "NFS decoder" where
  "decNFS = decStruct fldsNFS"

definition metricServerJson :: "MetricServer \<Rightarrow> json" where
  "metricServerJson x = JObj (member ''enable'' (JBool (ms_Enable x)))"

definition fldsMetricServer :: "(string \<times> MetricServer decoder) list" where
  "fldsMetricServer = [(''enable'', field ms_Enable (\<lambda>x. ms_Enable_update (\<lambda>_. x)) decBool)]"

definition decMetricServer :: "MetricServer decoder" where
  "decMetricServer = decStruct fldsMetricServer"

definition ingressNginxJson :: "IngressNginx \<Rightarrow> json" where
  "ingressNginxJson x = JObj (member ''enable'' (JBool (ig_Enable x)))"

definition fldsIngressNginx :: "(string \<times> IngressNginx decoder) list" where
  "fldsIngressNginx = [(''enable'', field ig_Enable (\<lambda>x. ig_Enable_update (\<lambda>_. x)) decBool)]"

definition decIngressNginx :: "IngressNginx decoder" where
  "decIngressNginx = decStruct fldsIngressNginx"

definition prometheusJson :: "Prometheus \<Rightarrow> json" where
  "prometheusJson x = JObj (member ''enable_prometheus'' (JStr (pm_EnablePrometheus x)) @
     member ''enable'' (JBool (pm_Enable x)))"

definition fldsPrometheus :: "(string \<times> Prometheus decoder) list" where
  "fldsPrometheus = [(''enable_prometheus'', field pm_EnablePrometheus (\<lambda>x. pm_EnablePrometheus_update (\<lambda>_. x)) decString),
     (''enable'', field pm_Enable (\<lambda>x. pm_Enable_update (\<lambda>_. x)) decBool)]"

definition decPrometheus :: "Prometheus decoder" where
  "decPrometheus = decStruct fldsPrometheus"

definition grafanaJson :: "Grafana \<Rightarrow> json" where
  "grafanaJson x = JObj (member ''enable'' (JBool (gf_Enable x)) @
     member ''grafana_admin_user'' (JStr (gf_GrafanaAdminUser x)) @
     member ''grafana_admin_password'' (JStr (gf_GrafanaAdminPassword x)))"

definition fldsGrafana :: "(string \<times> Grafana decoder) list" where
  "fldsGrafana = [(''enable'', field gf_Enable (\<lambda>x. gf_Enable_update (\<lambda>_. x)) decBool),
     (''grafana_admin_user'', field gf_GrafanaAdminUser (\<lambda>x. gf_GrafanaAdminUser_update (\<lambda>_. x)) decString),
     (''grafana_admin_password'', field gf_GrafanaAdminPassword (\<lambda>x. gf_GrafanaAdminPassword_update (\<lambda>_. x)) decString)]"

definition decGrafana :: "Grafana decoder" where
  "decGrafana = decStruct fldsGrafana"

definition haproxyJson :: "Haproxy \<Rightarrow> json" where
  "haproxyJson x = JObj (member ''enable'' (JBool (hp_Enable x)) @
     member ''keepalived_virtual_router_id'' (JStr (hp_KeepalivedVirtualRouterId x)))"

definition fldsHaproxy :: "(string \<times> Haproxy decoder) list" where
  "fldsHaproxy = [(''enable'', field hp_Enable (\<lambda>x. hp_Enable_update (\<lambda>_. x)) decBool),
     (''keepalived_virtual_router_id'', field hp_KeepalivedVirtualRouterId (\<lambda>x. hp_KeepalivedVirtualRouterId_update (\<lambda>_. x)) decString)]"

definition decHaproxy :: "Haproxy decoder" where
  "decHaproxy = decStruct fldsHaproxy"

definition componentSpecJson :: "ComponentSpec \<Rightarrow> json" where
  "componentSpecJson x = JObj (optMember ''helm'' (map_option helmJson (cs_Helm x)) @
     optMember ''prometheus'' (map_option prometheusJson (cs_Prometheus x)) @
     optMember ''grafana'' (map_option grafanaJson (cs_Grafana x)) @
     optMember ''haproxy'' (map_option haproxyJson (cs_Haproxy x)) @
     optMember ''metric_server'' (map_option metricServerJson (cs_MetricServer x)) @
     optMember ''ingress_nginx'' (map_option ingressNginxJson (cs_IngressNginx x)) @
     optMember ''nfs'' (map_option nFSJson (cs_NFS x)) @
     optMember ''custom_repo'' (map_option customRepoJson (cs_CustomRepo x)) @
     optMember ''certificate_period'' (map_option certificatePeriodJson (cs_CertificatePeriod x)))"

definition fldsComponentSpec :: "(string \<times> ComponentSpec decoder) list" where
  "fldsComponentSpec = [(''helm'', field cs_Helm (\<lambda>x. cs_Helm_update (\<lambda>_. x)) (decPtr decHelm zeroHelm)),
     (''prometheus'', field cs_Prometheus (\<lambda>x. cs_Prometheus_update (\<lambda>_. x)) (decPtr decPrometheus zeroPrometheus)),
     (''grafana'', field cs_Grafana (\<lambda>x. cs_Grafana_update (\<lambda>_. x)) (decPtr decGrafana zeroGrafana)),
     (''haproxy'', field cs_Haproxy (\<lambda>x. cs_Haproxy_update (\<lambda>_. x)) (decPtr decHaproxy zeroHaproxy)),
     (''metric_server'', field cs_MetricServer (\<lambda>x. cs_MetricServer_update (\<lambda>_. x)) (decPtr decMetricServer zeroMetricServer)),
     (''ingress_nginx'', field cs_IngressNginx (\<lambda>x. cs_IngressNginx_update (\<lambda>_. x)) (decPtr decIngressNginx zeroIngressNginx)),
     (''nfs'', field cs_NFS (\<lambda>x. cs_NFS_update (\<lambda>_. x)) (decPtr decNFS zeroNFS)),
     (''custom_repo'', field cs_CustomRepo (\<lambda>x. cs_CustomRepo_update (\<lambda>_. x)) (decPtr decCustomRepo zeroCustomRepo)),
     (''certificate_period'', field cs_CertificatePeriod (\<lambda>x. cs_CertificatePeriod_update (\<lambda>_. x)) (decPtr decCertificatePeriod zeroCertificatePeriod))]"

definition decComponentSpec :: "ComponentSpec decoder" where
  "decComponentSpec = decStruct fldsComponentSpec"

section \<open>Marshal and Unmarshal\<close>

definition PlanNodeAuth_Marshal :: "PlanNodeAuth \<Rightarrow> string" where
  "PlanNodeAuth_Marshal x = jsonPrint (planNodeAuthJson x)"

definition PlanNodeAuth_Unmarshal :: "string \<Rightarrow> PlanNodeAuth \<Rightarrow> PlanNodeAuth option" where
  "PlanNodeAuth_Unmarshal s x = unmarshalWith decPlanNodeAuth s x"

definition KubernetesSpec_Marshal :: "KubernetesSpec \<Rightarrow> string" where
  "KubernetesSpec_Marshal x = jsonPrint (kubernetesSpecJson x)"

definition KubernetesSpec_Unmarshal :: "string \<Rightarrow> KubernetesSpec \<Rightarrow> KubernetesSpec option" where
  "KubernetesSpec_Unmarshal s x = unmarshalWith decKubernetesSpec s x"

definition NetworkSpec_Marshal :: "NetworkSpec \<Rightarrow> string" where
  "NetworkSpec_Marshal x = jsonPrint (networkSpecJson x)"

definition NetworkSpec_Unmarshal :: "string \<Rightarrow> NetworkSpec \<Rightarrow> NetworkSpec option" where
  "NetworkSpec_Unmarshal s x = unmarshalWith decNetworkSpec s x"

definition RuntimeSpec_Marshal :: "RuntimeSpec \<Rightarrow> string" where
  "RuntimeSpec_Marshal x = jsonPrint (runtimeSpecJson x)"

definition RuntimeSpec_Unmarshal :: "string \<Rightarrow> RuntimeSpec \<Rightarrow> RuntimeSpec option" where
  "RuntimeSpec_Unmarshal s x = unmarshalWith decRuntimeSpec s x"

definition ComponentSpec_Marshal :: "ComponentSpec \<Rightarrow> string" where
  "ComponentSpec_Marshal x = jsonPrint (componentSpecJson x)"

definition ComponentSpec_Unmarshal :: "string \<Rightarrow> ComponentSpec \<Rightarrow> ComponentSpec option" where
  "ComponentSpec_Unmarshal s x = unmarshalWith decComponentSpec s x"

section \<open>Reading back\<close>

lemma foldName_spec: "list_all (\<lambda>c. 90 < byteOf c \<and> byteOf c < 128) s \<Longrightarrow> foldName s = s"
  by (rule foldName_lower)

lemma foldName_specs:
  "foldName ''api_port'' = ''api_port''"
  "foldName ''api_server'' = ''api_server''"
  "foldName ''ca_certificate_validity_period'' = ''ca_certificate_validity_period''"
  "foldName ''certificate_period'' = ''certificate_period''"
  "foldName ''certificate_validity_period'' = ''certificate_validity_period''"
  "foldName ''change_selinux'' = ''change_selinux''"
  "foldName ''cni'' = ''cni''"
  "foldName ''content'' = ''content''"
  "foldName ''custom_repo'' = ''custom_repo''"
  "foldName ''data'' = ''data''"
  "foldName ''data_dir'' = ''data_dir''"
  "foldName ''enable'' = ''enable''"
  "foldName ''enable_ha'' = ''enable_ha''"
  "foldName ''enable_prometheus'' = ''enable_prometheus''"
  "foldName ''enable_public_ip'' = ''enable_public_ip''"
  "foldName ''grafana'' = ''grafana''"
  "foldName ''grafana_admin_password'' = ''grafana_admin_password''"
  "foldName ''grafana_admin_user'' = ''grafana_admin_user''"
  "foldName ''haproxy'' = ''haproxy''"
  "foldName ''helm'' = ''helm''"
  "foldName ''helm_release'' = ''helm_release''"
  "foldName ''image_repository'' = ''image_repository''"
  "foldName ''ingress_nginx'' = ''ingress_nginx''"
  "foldName ''keepalived_virtual_router_id'' = ''keepalived_virtual_router_id''"
  "foldName ''key'' = ''key''"
  "foldName ''kube_proxy'' = ''kube_proxy''"
  "foldName ''kubernetes_version'' = ''kubernetes_version''"
  "foldName ''metric_server'' = ''metric_server''"
  "foldName ''network_interface'' = ''network_interface''"
  "foldName ''nfs'' = ''nfs''"
  "foldName ''password'' = ''password''"
  "foldName ''pod_network'' = ''pod_network''"
  "foldName ''port'' = ''port''"
  "foldName ''prometheus'' = ''prometheus''"
  "foldName ''protect'' = ''protect''"
  "foldName ''register'' = ''register''"
  "foldName ''runtime'' = ''runtime''"
  "foldName ''service_network'' = ''service_network''"
  "foldName ''set_hostname'' = ''set_hostname''"
  "foldName ''storage_class_name'' = ''storage_class_name''"
  "foldName ''storage_data_dir'' = ''storage_data_dir''"
  "foldName ''type'' = ''type''"
  "foldName ''user'' = ''user''"
  by (rule foldName_lower, simp add: byteOf_def)+

definition keySpecOK :: "KeySpec \<Rightarrow> bool" where
  "keySpecOK x \<longleftrightarrow> validUTF8 (ks_Data x) \<and> ks_File x = []"

definition passwordSpecOK :: "PasswordSpec \<Rightarrow> bool" where
  "passwordSpecOK x \<longleftrightarrow> validUTF8 (ps_User x) \<and> validUTF8 (ps_Password x)"

definition planNodeAuthOK :: "PlanNodeAuth \<Rightarrow> bool" where
  "planNodeAuthOK x \<longleftrightarrow> validUTF8 (na_Type x) \<and> int64 (na_Port x) \<and> pred_option keySpecOK (na_Key x) \<and> pred_option passwordSpecOK (na_Password x)"

definition kubernetesSpecOK :: "KubernetesSpec \<Rightarrow> bool" where
  "kubernetesSpecOK x \<longleftrightarrow> validUTF8 (k8_ApiServer x) \<and> validUTF8 (k8_ApiPort x) \<and> validUTF8 (k8_KubernetesVersion x) \<and> validUTF8 (k8_ImageRepository x)"

definition networkSpecOK :: "NetworkSpec \<Rightarrow> bool" where
  "networkSpecOK x \<longleftrightarrow> validUTF8 (nw_NetworkInterface x) \<and> validUTF8 (nw_Cni x) \<and> validUTF8 (nw_PodNetwork x) \<and> validUTF8 (nw_ServiceNetwork x) \<and> validUTF8 (nw_KubeProxy x)"

definition runtimeSpecOK :: "RuntimeSpec \<Rightarrow> bool" where
  "runtimeSpecOK x \<longleftrightarrow> validUTF8 (rt_Runtime x) \<and> validUTF8 (rt_DataDir x)"

definition helmOK :: "Helm \<Rightarrow> bool" where
  "helmOK x \<longleftrightarrow> validUTF8 (hm_HelmRelease x)"

definition customRepoOK :: "CustomRepo \<Rightarrow> bool" where
  "customRepoOK x \<longleftrightarrow> validUTF8 (cr_Content x)"

definition certificatePeriodOK :: "CertificatePeriod \<Rightarrow> bool" where
  "certificatePeriodOK x \<longleftrightarrow> validUTF8 (cp_CertificateValidityPeriod x) \<and> validUTF8 (cp_CaCertificateValidityPeriod x)"

definition nFSOK :: "NFS \<Rightarrow> bool" where
  "nFSOK x \<longleftrightarrow> validUTF8 (nf_StorageClassName x) \<and> validUTF8 (nf_StorageDataDir x)"

definition metricServerOK :: "MetricServer \<Rightarrow> bool" where
  "metricServerOK x \<longleftrightarrow> True"

definition ingressNginxOK :: "IngressNginx \<Rightarrow> bool" where
  "ingressNginxOK x \<longleftrightarrow> True"

definition prometheusOK :: "Prometheus \<Rightarrow> bool" where
  "prometheusOK x \<longleftrightarrow> validUTF8 (pm_EnablePrometheus x)"

definition grafanaOK :: "Grafana \<Rightarrow> bool" where
  "grafanaOK x \<longleftrightarrow> validUTF8 (gf_GrafanaAdminUser x) \<and> validUTF8 (gf_GrafanaAdminPassword x)"

definition haproxyOK :: "Haproxy \<Rightarrow> bool" where
  "haproxyOK x \<longleftrightarrow> validUTF8 (hp_KeepalivedVirtualRouterId x)"

definition componentSpecOK :: "ComponentSpec \<Rightarrow> bool" where
  "componentSpecOK x \<longleftrightarrow> pred_option helmOK (cs_Helm x) \<and> pred_option prometheusOK (cs_Prometheus x) \<and> pred_option grafanaOK (cs_Grafana x) \<and> pred_option haproxyOK (cs_Haproxy x) \<and> pred_option metricServerOK (cs_MetricServer x) \<and> pred_option ingressNginxOK (cs_IngressNginx x) \<and> pred_option nFSOK (cs_NFS x) \<and> pred_option customRepoOK (cs_CustomRepo x) \<and> pred_option certificatePeriodOK (cs_CertificatePeriod x)"

lemmas spec_simps = decStruct_append fieldDecoder_def foldName_specs field_def decPtr_def

lemma optPointer:
  assumes "fieldDecoder flds name = Some (field get upd (decPtr dec zero))" and "pred_option OK x" and "get old = None" and "upd None old = old"
    and "\<And>v. OK v \<Longrightarrow> dec (enc v) zero = (v, True)" and "\<And>v. enc v \<noteq> JNull"
  shows "decStruct flds (JObj (optMember name (map_option enc x))) old = (upd x old, True)"
  using assms by (cases x) (simp_all add: field_def decPtr_def del: decStruct.simps)

lemma decKeySpec_back: "keySpecOK x \<Longrightarrow> decKeySpec (keySpecJson x) zeroKeySpec = (x, True)"
  by (cases x) (simp add: decKeySpec_def keySpecJson_def spec_simps fldsKeySpec_def keySpecOK_def zeroKeySpec_def ParseInt_FormatInt del: foldName.simps decStruct.simps)

lemma keySpecJson_obj [simp]: "keySpecJson x \<noteq> JNull"
  by (simp add: keySpecJson_def)

lemma decPasswordSpec_back: "passwordSpecOK x \<Longrightarrow> decPasswordSpec (passwordSpecJson x) zeroPasswordSpec = (x, True)"
  by (cases x) (simp add: decPasswordSpec_def passwordSpecJson_def spec_simps fldsPasswordSpec_def passwordSpecOK_def zeroPasswordSpec_def ParseInt_FormatInt del: foldName.simps decStruct.simps)

lemma passwordSpecJson_obj [simp]: "passwordSpecJson x \<noteq> JNull"
  by (simp add: passwordSpecJson_def)

lemma decKubernetesSpec_back: "kubernetesSpecOK x \<Longrightarrow> decKubernetesSpec (kubernetesSpecJson x) zeroKubernetesSpec = (x, True)"
  by (cases x) (simp add: decKubernetesSpec_def kubernetesSpecJson_def spec_simps fldsKubernetesSpec_def kubernetesSpecOK_def zeroKubernetesSpec_def ParseInt_FormatInt del: foldName.simps decStruct.simps)

lemma kubernetesSpecJson_obj [simp]: "kubernetesSpecJson x \<noteq> JNull"
  by (simp add: kubernetesSpecJson_def)

lemma decNetworkSpec_back: "networkSpecOK x \<Longrightarrow> decNetworkSpec (networkSpecJson x) zeroNetworkSpec = (x, True)"
  by (cases x) (simp add: decNetworkSpec_def networkSpecJson_def spec_simps fldsNetworkSpec_def networkSpecOK_def zeroNetworkSpec_def ParseInt_FormatInt del: foldName.simps decStruct.simps)

lemma networkSpecJson_obj [simp]: "networkSpecJson x \<noteq> JNull"
  by (simp add: networkSpecJson_def)

lemma decRuntimeSpec_back: "runtimeSpecOK x \<Longrightarrow> decRuntimeSpec (runtimeSpecJson x) zeroRuntimeSpec = (x, True)"
  by (cases x) (simp add: decRuntimeSpec_def runtimeSpecJson_def spec_simps fldsRuntimeSpec_def runtimeSpecOK_def zeroRuntimeSpec_def ParseInt_FormatInt del: foldName.simps decStruct.simps)

lemma runtimeSpecJson_obj [simp]: "runtimeSpecJson x \<noteq> JNull"
  by (simp add: runtimeSpecJson_def)

lemma decHelm_back: "helmOK x \<Longrightarrow> decHelm (helmJson x) zeroHelm = (x, True)"
  by (cases x) (simp add: decHelm_def helmJson_def spec_simps fldsHelm_def helmOK_def zeroHelm_def ParseInt_FormatInt del: foldName.simps decStruct.simps)

lemma helmJson_obj [simp]: "helmJson x \<noteq> JNull"
  by (simp add: helmJson_def)

lemma decCustomRepo_back: "customRepoOK x \<Longrightarrow> decCustomRepo (customRepoJson x) zeroCustomRepo = (x, True)"
  by (cases x) (simp add: decCustomRepo_def customRepoJson_def spec_simps fldsCustomRepo_def customRepoOK_def zeroCustomRepo_def ParseInt_FormatInt del: foldName.simps decStruct.simps)

lemma customRepoJson_obj [simp]: "customRepoJson x \<noteq> JNull"
  by (simp add: customRepoJson_def)

lemma decCertificatePeriod_back: "certificatePeriodOK x \<Longrightarrow> decCertificatePeriod (certificatePeriodJson x) zeroCertificatePeriod = (x, True)"
  by (cases x) (simp add: decCertificatePeriod_def certificatePeriodJson_def spec_simps fldsCertificatePeriod_def certificatePeriodOK_def zeroCertificatePeriod_def ParseInt_FormatInt del: foldName.simps decStruct.simps)

lemma certificatePeriodJson_obj [simp]: "certificatePeriodJson x \<noteq> JNull"
  by (simp add: certificatePeriodJson_def)

lemma decNFS_back: "nFSOK x \<Longrightarrow> decNFS (nFSJson x) zeroNFS = (x, True)"
  by (cases x) (simp add: decNFS_def nFSJson_def spec_simps fldsNFS_def nFSOK_def zeroNFS_def ParseInt_FormatInt del: foldName.simps decStruct.simps)

lemma nFSJson_obj [simp]: "nFSJson x \<noteq> JNull"
  by (simp add: nFSJson_def)

lemma decMetricServer_back: "metricServerOK x \<Longrightarrow> decMetricServer (metricServerJson x) zeroMetricServer = (x, True)"
  by (cases x) (simp add: decMetricServer_def metricServerJson_def spec_simps fldsMetricServer_def metricServerOK_def zeroMetricServer_def ParseInt_FormatInt del: foldName.simps decStruct.simps)

lemma metricServerJson_obj [simp]: "metricServerJson x \<noteq> JNull"
  by (simp add: metricServerJson_def)

lemma decIngressNginx_back: "ingressNginxOK x \<Longrightarrow> decIngressNginx (ingressNginxJson x) zeroIngressNginx = (x, True)"
  by (cases x) (simp add: decIngressNginx_def ingressNginxJson_def spec_simps fldsIngressNginx_def ingressNginxOK_def zeroIngressNginx_def ParseInt_FormatInt del: foldName.simps decStruct.simps)

lemma ingressNginxJson_obj [simp]: "ingressNginxJson x \<noteq> JNull"
  by (simp add: ingressNginxJson_def)

lemma decPrometheus_back: "prometheusOK x \<Longrightarrow> decPrometheus (prometheusJson x) zeroPrometheus = (x, True)"
  by (cases x) (simp add: decPrometheus_def prometheusJson_def spec_simps fldsPrometheus_def prometheusOK_def zeroPrometheus_def ParseInt_FormatInt del: foldName.simps decStruct.simps)

lemma prometheusJson_obj [simp]: "prometheusJson x \<noteq> JNull"
  by (simp add: prometheusJson_def)

lemma decGrafana_back: "grafanaOK x \<Longrightarrow> decGrafana (grafanaJson x) zeroGrafana = (x, True)"
  by (cases x) (simp add: decGrafana_def grafanaJson_def spec_simps fldsGrafana_def grafanaOK_def zeroGrafana_def ParseInt_FormatInt del: foldName.simps decStruct.simps)

lemma grafanaJson_obj [simp]: "grafanaJson x \<noteq> JNull"
  by (simp add: grafanaJson_def)

lemma decHaproxy_back: "haproxyOK x \<Longrightarrow> decHaproxy (haproxyJson x) zeroHaproxy = (x, True)"
  by (cases x) (simp add: decHaproxy_def haproxyJson_def spec_simps fldsHaproxy_def haproxyOK_def zeroHaproxy_def ParseInt_FormatInt del: foldName.simps decStruct.simps)

lemma haproxyJson_obj [simp]: "haproxyJson x \<noteq> JNull"
  by (simp add: haproxyJson_def)

lemma componentSpec_fields:
  "fieldDecoder fldsComponentSpec ''helm'' = Some (field cs_Helm (\<lambda>x. cs_Helm_update (\<lambda>_. x)) (decPtr decHelm zeroHelm))"
  "fieldDecoder fldsComponentSpec ''prometheus'' = Some (field cs_Prometheus (\<lambda>x. cs_Prometheus_update (\<lambda>_. x)) (decPtr decPrometheus zeroPrometheus))"
  "fieldDecoder fldsComponentSpec ''grafana'' = Some (field cs_Grafana (\<lambda>x. cs_Grafana_update (\<lambda>_. x)) (decPtr decGrafana zeroGrafana))"
  "fieldDecoder fldsComponentSpec ''haproxy'' = Some (field cs_Haproxy (\<lambda>x. cs_Haproxy_update (\<lambda>_. x)) (decPtr decHaproxy zeroHaproxy))"
  "fieldDecoder fldsComponentSpec ''metric_server'' = Some (field cs_MetricServer (\<lambda>x. cs_MetricServer_update (\<lambda>_. x)) (decPtr decMetricServer zeroMetricServer))"
  "fieldDecoder fldsComponentSpec ''ingress_nginx'' = Some (field cs_IngressNginx (\<lambda>x. cs_IngressNginx_update (\<lambda>_. x)) (decPtr decIngressNginx zeroIngressNginx))"
  "fieldDecoder fldsComponentSpec ''nfs'' = Some (field cs_NFS (\<lambda>x. cs_NFS_update (\<lambda>_. x)) (decPtr decNFS zeroNFS))"
  "fieldDecoder fldsComponentSpec ''custom_repo'' = Some (field cs_CustomRepo (\<lambda>x. cs_CustomRepo_update (\<lambda>_. x)) (decPtr decCustomRepo zeroCustomRepo))"
  "fieldDecoder fldsComponentSpec ''certificate_period'' = Some (field cs_CertificatePeriod (\<lambda>x. cs_CertificatePeriod_update (\<lambda>_. x)) (decPtr decCertificatePeriod zeroCertificatePeriod))"
  by (simp_all add: fldsComponentSpec_def fieldDecoder_def foldName_specs del: foldName.simps)

lemma decComponentSpec_back: "componentSpecOK x \<Longrightarrow> decComponentSpec (componentSpecJson x) zeroComponentSpec = (x, True)"
  unfolding decComponentSpec_def componentSpecJson_def componentSpecOK_def
  by (cases x) (simp add: decStruct_append optPointer [OF componentSpec_fields(1), of helmOK] optPointer [OF componentSpec_fields(2), of prometheusOK]
      optPointer [OF componentSpec_fields(3), of grafanaOK] optPointer [OF componentSpec_fields(4), of haproxyOK]
      optPointer [OF componentSpec_fields(5), of metricServerOK] optPointer [OF componentSpec_fields(6), of ingressNginxOK]
      optPointer [OF componentSpec_fields(7), of nFSOK] optPointer [OF componentSpec_fields(8), of customRepoOK]
      optPointer [OF componentSpec_fields(9), of certificatePeriodOK] zeroComponentSpec_def decHelm_back decPrometheus_back decGrafana_back decHaproxy_back
      decMetricServer_back decIngressNginx_back decNFS_back decCustomRepo_back decCertificatePeriod_back del: decStruct.simps)

lemma nodeAuth_fields:
  "fieldDecoder fldsPlanNodeAuth ''type'' = Some (field na_Type (\<lambda>x. na_Type_update (\<lambda>_. x)) decString)"
  "fieldDecoder fldsPlanNodeAuth ''port'' = Some (field na_Port (\<lambda>x. na_Port_update (\<lambda>_. x)) decInt)"
  "fieldDecoder fldsPlanNodeAuth ''key'' = Some (field na_Key (\<lambda>x. na_Key_update (\<lambda>_. x)) (decPtr decKeySpec zeroKeySpec))"
  "fieldDecoder fldsPlanNodeAuth ''password'' = Some (field na_Password (\<lambda>x. na_Password_update (\<lambda>_. x)) (decPtr decPasswordSpec zeroPasswordSpec))"
  by (simp_all add: fldsPlanNodeAuth_def fieldDecoder_def foldName_specs del: foldName.simps)

lemma decPlanNodeAuth_back: "planNodeAuthOK x \<Longrightarrow> decPlanNodeAuth (planNodeAuthJson x) zeroPlanNodeAuth = (x, True)"
  unfolding decPlanNodeAuth_def planNodeAuthJson_def planNodeAuthOK_def
  by (cases x) (simp add: decStruct_append optPointer [OF nodeAuth_fields(3), of keySpecOK] optPointer [OF nodeAuth_fields(4), of passwordSpecOK]
      decStruct_member [OF nodeAuth_fields(1)] decStruct_optMember [OF nodeAuth_fields(2)] zeroPlanNodeAuth_def decKeySpec_back decPasswordSpec_back
      field_def ParseInt_FormatInt del: decStruct.simps)

section \<open>Texts of the specifications\<close>

text \<open>A value that can be printed and read: well formed, and of depth at most \<open>n\<close>.\<close>

definition printable :: "nat \<Rightarrow> json \<Rightarrow> bool" where
  "printable n j \<longleftrightarrow> wfJson j \<and> depthJson j \<le> n"

definition members :: "nat \<Rightarrow> (string \<times> json) list \<Rightarrow> bool" where
  "members n ms \<longleftrightarrow> (\<forall>(k, v) \<in> set ms. validUTF8 k \<and> printable n v)"

lemma printable_JObj: "members n ms \<Longrightarrow> printable (Suc n) (JObj ms)"
proof -
  assume m: "members n ms"
  have "foldr (\<lambda>(k, v). max (depthJson v)) ms 0 \<le> n" using m by (induction ms) (auto simp: members_def printable_def)
  with m show ?thesis by (auto simp: members_def printable_def)
qed

lemma members_append [simp]: "members n (ms @ ns) = (members n ms \<and> members n ns)"
  by (auto simp: members_def)

lemma members_member [simp]: "members n (member k j) = (validUTF8 k \<and> printable n j)"
  by (simp add: members_def member_def)

lemma members_optMember [simp]: "members n (optMember k x) = (case x of None \<Rightarrow> True | Some j \<Rightarrow> validUTF8 k \<and> printable n j)"
  by (simp add: members_def optMember_def split: option.split)

lemma members_pointer: "pred_option OK x \<Longrightarrow> validUTF8 k \<Longrightarrow> (\<And>v. OK v \<Longrightarrow> printable n (enc v)) \<Longrightarrow> members n (optMember k (map_option enc x))"
  by (cases x) simp_all

lemma printable_leaves [simp]:
  "printable n (JStr s) = validUTF8 s" "printable n (JBool b)" "printable n (JNum (FormatInt i))"
  by (auto simp: printable_def)

lemma validUTF8_names:
  "validUTF8 ''api_port''"
  "validUTF8 ''api_server''"
  "validUTF8 ''ca_certificate_validity_period''"
  "validUTF8 ''certificate_period''"
  "validUTF8 ''certificate_validity_period''"
  "validUTF8 ''change_selinux''"
  "validUTF8 ''cni''"
  "validUTF8 ''content''"
  "validUTF8 ''custom_repo''"
  "validUTF8 ''data''"
  "validUTF8 ''data_dir''"
  "validUTF8 ''enable''"
  "validUTF8 ''enable_ha''"
  "validUTF8 ''enable_prometheus''"
  "validUTF8 ''enable_public_ip''"
  "validUTF8 ''grafana''"
  "validUTF8 ''grafana_admin_password''"
  "validUTF8 ''grafana_admin_user''"
  "validUTF8 ''haproxy''"
  "validUTF8 ''helm''"
  "validUTF8 ''helm_release''"
  "validUTF8 ''image_repository''"
  "validUTF8 ''ingress_nginx''"
  "validUTF8 ''keepalived_virtual_router_id''"
  "validUTF8 ''key''"
  "validUTF8 ''kube_proxy''"
  "validUTF8 ''kubernetes_version''"
  "validUTF8 ''metric_server''"
  "validUTF8 ''network_interface''"
  "validUTF8 ''nfs''"
  "validUTF8 ''password''"
  "validUTF8 ''pod_network''"
  "validUTF8 ''port''"
  "validUTF8 ''prometheus''"
  "validUTF8 ''protect''"
  "validUTF8 ''register''"
  "validUTF8 ''runtime''"
  "validUTF8 ''service_network''"
  "validUTF8 ''set_hostname''"
  "validUTF8 ''storage_class_name''"
  "validUTF8 ''storage_data_dir''"
  "validUTF8 ''type''"
  "validUTF8 ''user''"
  by (simp_all add: byteOf_def RuneError_def)

lemma printable_KeySpec: "keySpecOK x \<Longrightarrow> printable (Suc n) (keySpecJson x)"
  unfolding keySpecJson_def by (rule printable_JObj) (simp add: keySpecOK_def validUTF8_names del: validUTF8.simps)

lemma printable_PasswordSpec: "passwordSpecOK x \<Longrightarrow> printable (Suc n) (passwordSpecJson x)"
  unfolding passwordSpecJson_def by (rule printable_JObj) (simp add: passwordSpecOK_def validUTF8_names del: validUTF8.simps)

lemma printable_KubernetesSpec: "kubernetesSpecOK x \<Longrightarrow> printable (Suc n) (kubernetesSpecJson x)"
  unfolding kubernetesSpecJson_def by (rule printable_JObj) (simp add: kubernetesSpecOK_def validUTF8_names del: validUTF8.simps)

lemma printable_NetworkSpec: "networkSpecOK x \<Longrightarrow> printable (Suc n) (networkSpecJson x)"
  unfolding networkSpecJson_def by (rule printable_JObj) (simp add: networkSpecOK_def validUTF8_names del: validUTF8.simps)

lemma printable_RuntimeSpec: "runtimeSpecOK x \<Longrightarrow> printable (Suc n) (runtimeSpecJson x)"
  unfolding runtimeSpecJson_def by (rule printable_JObj) (simp add: runtimeSpecOK_def validUTF8_names del: validUTF8.simps)

lemma printable_Helm: "helmOK x \<Longrightarrow> printable (Suc n) (helmJson x)"
  unfolding helmJson_def by (rule printable_JObj) (simp add: helmOK_def validUTF8_names del: validUTF8.simps)

lemma printable_CustomRepo: "customRepoOK x \<Longrightarrow> printable (Suc n) (customRepoJson x)"
  unfolding customRepoJson_def by (rule printable_JObj) (simp add: customRepoOK_def validUTF8_names del: validUTF8.simps)

lemma printable_CertificatePeriod: "certificatePeriodOK x \<Longrightarrow> printable (Suc n) (certificatePeriodJson x)"
  unfolding certificatePeriodJson_def by (rule printable_JObj) (simp add: certificatePeriodOK_def validUTF8_names del: validUTF8.simps)

lemma printable_NFS: "nFSOK x \<Longrightarrow> printable (Suc n) (nFSJson x)"
  unfolding nFSJson_def by (rule printable_JObj) (simp add: nFSOK_def validUTF8_names del: validUTF8.simps)

lemma printable_MetricServer: "metricServerOK x \<Longrightarrow> printable (Suc n) (metricServerJson x)"
  unfolding metricServerJson_def by (rule printable_JObj) (simp add: metricServerOK_def validUTF8_names del: validUTF8.simps)

lemma printable_IngressNginx: "ingressNginxOK x \<Longrightarrow> printable (Suc n) (ingressNginxJson x)"
  unfolding ingressNginxJson_def by (rule printable_JObj) (simp add: ingressNginxOK_def validUTF8_names del: validUTF8.simps)

lemma printable_Prometheus: "prometheusOK x \<Longrightarrow> printable (Suc n) (prometheusJson x)"
  unfolding prometheusJson_def by (rule printable_JObj) (simp add: prometheusOK_def validUTF8_names del: validUTF8.simps)

lemma printable_Grafana: "grafanaOK x \<Longrightarrow> printable (Suc n) (grafanaJson x)"
  unfolding grafanaJson_def by (rule printable_JObj) (simp add: grafanaOK_def validUTF8_names del: validUTF8.simps)

lemma printable_Haproxy: "haproxyOK x \<Longrightarrow> printable (Suc n) (haproxyJson x)"
  unfolding haproxyJson_def by (rule printable_JObj) (simp add: haproxyOK_def validUTF8_names del: validUTF8.simps)

lemma printable_ComponentSpec: "componentSpecOK x \<Longrightarrow> printable (Suc (Suc n)) (componentSpecJson x)"
  unfolding componentSpecJson_def componentSpecOK_def
  by (rule printable_JObj) (simp add: validUTF8_names members_pointer [where OK = helmOK, OF _ _ printable_Helm] members_pointer [where OK = prometheusOK, OF _ _ printable_Prometheus]
      members_pointer [where OK = grafanaOK, OF _ _ printable_Grafana] members_pointer [where OK = haproxyOK, OF _ _ printable_Haproxy] members_pointer [where OK = metricServerOK, OF _ _ printable_MetricServer]
      members_pointer [where OK = ingressNginxOK, OF _ _ printable_IngressNginx] members_pointer [where OK = nFSOK, OF _ _ printable_NFS] members_pointer [where OK = customRepoOK, OF _ _ printable_CustomRepo]
      members_pointer [where OK = certificatePeriodOK, OF _ _ printable_CertificatePeriod] del: validUTF8.simps members_optMember)

lemma printable_PlanNodeAuth: "planNodeAuthOK x \<Longrightarrow> printable (Suc (Suc n)) (planNodeAuthJson x)"
  unfolding planNodeAuthJson_def planNodeAuthOK_def
proof (rule printable_JObj)
  assume ok: "validUTF8 (na_Type x) \<and> int64 (na_Port x) \<and> pred_option keySpecOK (na_Key x) \<and> pred_option passwordSpecOK (na_Password x)"
  then have "members (Suc n) (optMember ''key'' (map_option keySpecJson (na_Key x)))"
    "members (Suc n) (optMember ''password'' (map_option passwordSpecJson (na_Password x)))"
    using members_pointer [where OK = keySpecOK, OF _ _ printable_KeySpec] members_pointer [where OK = passwordSpecOK, OF _ _ printable_PasswordSpec] by (simp_all add: validUTF8_names del: validUTF8.simps members_optMember)
  with ok show "members (Suc n) (member ''type'' (JStr (na_Type x)) @ optMember ''port'' (if na_Port x = 0 then None else Some (JNum (FormatInt (na_Port x)))) @
      optMember ''key'' (map_option keySpecJson (na_Key x)) @ optMember ''password'' (map_option passwordSpecJson (na_Password x)))"
    by (simp add: validUTF8_names del: validUTF8.simps)
qed

lemma parse_printable: "printable 3 j \<Longrightarrow> jsonParse (jsonPrint j) = Some j"
  unfolding printable_def by (rule jsonParse_jsonPrint) (simp_all add: maxNestingDepth_def)

lemma PlanNodeAuth_Unmarshal_Marshal: "planNodeAuthOK x \<Longrightarrow> PlanNodeAuth_Unmarshal (PlanNodeAuth_Marshal x) zeroPlanNodeAuth = Some x"
  using printable_PlanNodeAuth [of x 1] by (simp add: PlanNodeAuth_Unmarshal_def PlanNodeAuth_Marshal_def unmarshalWith_def parse_printable decPlanNodeAuth_back numeral_eq_Suc)

lemma KubernetesSpec_Unmarshal_Marshal: "kubernetesSpecOK x \<Longrightarrow> KubernetesSpec_Unmarshal (KubernetesSpec_Marshal x) zeroKubernetesSpec = Some x"
  using printable_KubernetesSpec [of x 2] by (simp add: KubernetesSpec_Unmarshal_def KubernetesSpec_Marshal_def unmarshalWith_def parse_printable decKubernetesSpec_back numeral_eq_Suc)

lemma NetworkSpec_Unmarshal_Marshal: "networkSpecOK x \<Longrightarrow> NetworkSpec_Unmarshal (NetworkSpec_Marshal x) zeroNetworkSpec = Some x"
  using printable_NetworkSpec [of x 2] by (simp add: NetworkSpec_Unmarshal_def NetworkSpec_Marshal_def unmarshalWith_def parse_printable decNetworkSpec_back numeral_eq_Suc)

lemma RuntimeSpec_Unmarshal_Marshal: "runtimeSpecOK x \<Longrightarrow> RuntimeSpec_Unmarshal (RuntimeSpec_Marshal x) zeroRuntimeSpec = Some x"
  using printable_RuntimeSpec [of x 2] by (simp add: RuntimeSpec_Unmarshal_def RuntimeSpec_Marshal_def unmarshalWith_def parse_printable decRuntimeSpec_back numeral_eq_Suc)

lemma ComponentSpec_Unmarshal_Marshal: "componentSpecOK x \<Longrightarrow> ComponentSpec_Unmarshal (ComponentSpec_Marshal x) zeroComponentSpec = Some x"
  using printable_ComponentSpec [of x 1] by (simp add: ComponentSpec_Unmarshal_def ComponentSpec_Marshal_def unmarshalWith_def parse_printable decComponentSpec_back numeral_eq_Suc)

end
