(* ===== verification/PlanController.thy ===== *)
theory PlanController
  imports PlanDb PlanSpecs UserController
begin

text \<open>
  The plan controller (\<open>pkg/controller/plan/{plan,plan_config,plan_node,plan_task}.go\<close>): creation, update and
  deletion of a deployment plan with its configuration and its nodes, the checks before a start, and the reads.
  Random names and tokens are parameters, indexed by the number of interactions so far.
\<close>

section \<open>Requests and answers\<close>

record plan_env =
  pv_randRead :: "nat \<Rightarrow> goerr + string"
  pv_randIntn :: "nat \<Rightarrow> nat list"
  pv_errText :: "goerr \<Rightarrow> string"

record CreatePlanNodeRequest =
  pn_Name :: string
  pn_UserId :: int
  pn_Role :: "string list"
  pn_CRI :: string
  pn_Ip :: string
  pn_Auth :: PlanNodeAuth

record CreatePlanConfigRequest =
  pc_Region :: string
  pc_OSImage :: string
  pc_Kubernetes :: KubernetesSpec
  pc_Network :: NetworkSpec
  pc_Runtime :: RuntimeSpec
  pc_Component :: ComponentSpec

record CreatePlanRequest =
  cp_Name :: string
  cp_Description :: string
  cp_UserId :: int
  cp_ExecMode :: string
  cp_DeployAgentId :: int
  cp_Config :: CreatePlanConfigRequest
  cp_Nodes :: "CreatePlanNodeRequest list"

record UpdatePlanRequest =
  up_Name :: string
  up_ResourceVersion :: int
  up_Description :: string
  up_ExecMode :: string
  up_DeployAgentId :: int
  up_Config :: CreatePlanConfigRequest
  up_Nodes :: "CreatePlanNodeRequest list"

record types_Plan =
  tp_Id :: int
  tp_ResourceVersion :: int
  tp_GmtCreate :: int
  tp_GmtModified :: int
  tp_Name :: string
  tp_Description :: string
  tp_Step :: string
  tp_KubernetesVersion :: string
  tp_NodeCount :: int
  tp_ExecMode :: string
  tp_DeployAgentId :: int

record PlanConfig =
  tc_Id :: int
  tc_ResourceVersion :: int
  tc_GmtCreate :: int
  tc_GmtModified :: int
  tc_PlanId :: int
  tc_Region :: string
  tc_OSImage :: string
  tc_Kubernetes :: KubernetesSpec
  tc_Network :: NetworkSpec
  tc_Runtime :: RuntimeSpec
  tc_Component :: ComponentSpec

record PlanNode =
  tn_Id :: int
  tn_ResourceVersion :: int
  tn_GmtCreate :: int
  tn_GmtModified :: int
  tn_PlanId :: int
  tn_Name :: string
  tn_UserId :: int
  tn_Role :: "string list"
  tn_CRI :: string
  tn_Ip :: string
  tn_Auth :: PlanNodeAuth

record PlanTask =
  tt_Id :: int
  tt_ResourceVersion :: int
  tt_GmtCreate :: int
  tt_GmtModified :: int
  tt_Name :: string
  tt_PlanId :: int
  tt_Action :: string
  tt_Status :: string
  tt_Message :: string

record PlanWithResources =
  pw_Plan :: types_Plan
  pw_Config :: PlanConfig
  pw_Nodes :: "PlanNode list"

section \<open>Tokens\<close>

definition hexDigit :: "nat \<Rightarrow> char" where
  "hexDigit d = (if d < 10 then char_of (48 + d) else char_of (87 + d))"

definition hexEncodeToString :: "string \<Rightarrow> string" where
  "hexEncodeToString bs = concat (map (\<lambda>c. [hexDigit (of_char c div 16), hexDigit (of_char c mod 16)]) bs)"

text \<open>\<open>token.Generate\<close>: \<open>rand.Read\<close> of 24 bytes; \<open>uuid.NewRandName\<close>: the \<open>rand.Intn(26)\<close> of its letters.\<close>

definition tokenGenerate :: "plan_env \<Rightarrow> ('m env_scheme, goerr, string) act" where
  "tokenGenerate pv = andThen (external (pv_randRead pv)) (\<lambda>b. ret (hexEncodeToString b))"

definition NewRandName :: "plan_env \<Rightarrow> nat \<Rightarrow> ('m env_scheme, goerr, string) act" where
  "NewRandName pv len = andThen (external (\<lambda>n. Inr (take len (pv_randIntn pv n)))) (\<lambda>rs.
     ret (''pixiu-'' @ map (\<lambda>i. char_of (97 + i mod 26)) rs))"

definition fromSum :: "'e + 'a \<Rightarrow> ('w, 'e, 'a) act" where
  "fromSum x = (case x of Inl e \<Rightarrow> fail e | Inr v \<Rightarrow> ret v)"

lemma wp_external [wp_simps]:
  "wp (external f) Q E = (\<lambda>w. case f (tick w) of Inl e \<Rightarrow> E e (w\<lparr>tick := Suc (tick w)\<rparr>) | Inr x \<Rightarrow> Q x (w\<lparr>tick := Suc (tick w)\<rparr>))"
  by (simp add: wp_def external_def fun_eq_iff split: sum.split)

lemma wp_tokenGenerate [wp_simps]:
  "wp (tokenGenerate pv) Q E = (\<lambda>w. case pv_randRead pv (tick w) of Inl e \<Rightarrow> E e (w\<lparr>tick := Suc (tick w)\<rparr>)
     | Inr b \<Rightarrow> Q (hexEncodeToString b) (w\<lparr>tick := Suc (tick w)\<rparr>))"
  by (simp add: tokenGenerate_def wp_simps)

lemma wp_NewRandName [wp_simps]:
  "wp (NewRandName pv len) Q E = (\<lambda>w. Q (''pixiu-'' @ map (\<lambda>i. char_of (97 + i mod 26)) (take len (pv_randIntn pv (tick w)))) (w\<lparr>tick := Suc (tick w)\<rparr>))"
  by (simp add: NewRandName_def wp_simps)

lemma wp_fromSum [wp_simps]: "wp (fromSum x) Q E = (\<lambda>w. case x of Inl e \<Rightarrow> E e w | Inr v \<Rightarrow> Q v w)"
  by (simp add: fromSum_def wp_simps fun_eq_iff split: sum.split)

section \<open>Conversions\<close>

definition planModel2Type :: "Plan \<Rightarrow> types_Plan" where
  "planModel2Type o1 = \<lparr>tp_Id = Oid o1, tp_ResourceVersion = ResourceVersion o1, tp_GmtCreate = GmtCreate o1, tp_GmtModified = GmtModified o1,
     tp_Name = pl_Name o1, tp_Description = pl_Description o1, tp_Step = pl_Status o1, tp_KubernetesVersion = pl_KubernetesVersion o1,
     tp_NodeCount = pl_NodeCount o1, tp_ExecMode = pl_ExecMode o1, tp_DeployAgentId = pl_DeployAgentId o1\<rparr>"

definition unmarshalErr :: goerr where "unmarshalErr = Errorf ''json''"

definition orErr :: "'a option \<Rightarrow> goerr + 'a" where
  "orErr x = (case x of None \<Rightarrow> Inl unmarshalErr | Some v \<Rightarrow> Inr v)"

definition modelConfig2Type :: "Config \<Rightarrow> goerr + PlanConfig" where
  "modelConfig2Type o1 =
     (case KubernetesSpec_Unmarshal (cf_Kubernetes o1) zeroKubernetesSpec of None \<Rightarrow> Inl unmarshalErr | Some ks \<Rightarrow>
      (case NetworkSpec_Unmarshal (cf_Network o1) zeroNetworkSpec of None \<Rightarrow> Inl unmarshalErr | Some ns \<Rightarrow>
       (case RuntimeSpec_Unmarshal (cf_Runtime o1) zeroRuntimeSpec of None \<Rightarrow> Inl unmarshalErr | Some rs \<Rightarrow>
        (case ComponentSpec_Unmarshal (cf_Component o1) zeroComponentSpec of None \<Rightarrow> Inl unmarshalErr | Some cs \<Rightarrow>
         Inr \<lparr>tc_Id = Oid o1, tc_ResourceVersion = ResourceVersion o1, tc_GmtCreate = GmtCreate o1, tc_GmtModified = GmtModified o1,
           tc_PlanId = cf_PlanId o1, tc_Region = cf_Region o1, tc_OSImage = cf_OSImage o1, tc_Kubernetes = ks, tc_Network = ns,
           tc_Runtime = rs, tc_Component = cs\<rparr>))))"

definition modelNode2Type :: "Node \<Rightarrow> goerr + PlanNode" where
  "modelNode2Type o1 = (case PlanNodeAuth_Unmarshal (nd_Auth o1) zeroPlanNodeAuth of None \<Rightarrow> Inl unmarshalErr
     | Some auth \<Rightarrow> Inr \<lparr>tn_Id = Oid o1, tn_ResourceVersion = ResourceVersion o1, tn_GmtCreate = GmtCreate o1, tn_GmtModified = GmtModified o1,
         tn_PlanId = nd_PlanId o1, tn_Name = nd_Name o1, tn_UserId = nd_UserId o1, tn_Role = Split (nd_Role o1) CHR '','', tn_CRI = [], tn_Ip = nd_Ip o1, tn_Auth = auth\<rparr>)"

definition modelTask2Type :: "Task \<Rightarrow> PlanTask" where
  "modelTask2Type o1 = \<lparr>tt_Id = Oid o1, tt_ResourceVersion = ResourceVersion o1, tt_GmtCreate = GmtCreate o1, tt_GmtModified = GmtModified o1,
     tt_Name = tk_Name o1, tt_PlanId = tk_PlanId o1, tt_Action = tk_Action o1, tt_Status = tk_Status o1, tt_Message = tk_Message o1\<rparr>"

fun mapErr :: "('x \<Rightarrow> 'e + 'a) \<Rightarrow> 'x list \<Rightarrow> 'e + 'a list" where
  "mapErr f [] = Inr []"
| "mapErr f (x # xs) = (case f x of Inl e \<Rightarrow> Inl e | Inr y \<Rightarrow> (case mapErr f xs of Inl e \<Rightarrow> Inl e | Inr ys \<Rightarrow> Inr (y # ys)))"

section \<open>Configuration\<close>

definition preCreateConfig :: "int \<Rightarrow> ('m plan_db_scheme, goerr, unit) act" where
  "preCreateConfig planId = onResult (GetConfigByPlan planId) (\<lambda>err. ret ()) (\<lambda>_. fail (Errorf ''the configuration exists''))"

definition buildAndCleanKubernetesConfig :: "KubernetesSpec \<Rightarrow> goerr + string" where
  "buildAndCleanKubernetesConfig ks =
     (if k8_EnablePublicIp ks \<and> k8_ApiServer ks = [] then Inl (Errorf ''api server without address'')
      else Inr (KubernetesSpec_Marshal (if k8_EnablePublicIp ks then ks else ks\<lparr>k8_ApiServer := []\<rparr>)))"

definition buildPlanConfig :: "CreatePlanConfigRequest \<Rightarrow> goerr + Config" where
  "buildPlanConfig req = (case buildAndCleanKubernetesConfig (pc_Kubernetes req) of
     Inl err \<Rightarrow> Inl err
   | Inr kubeConfig \<Rightarrow> Inr (pixiu_model.extend newModel
       \<lparr>cf_PlanId = 0, cf_Region = pc_Region req, cf_OSImage = pc_OSImage req, cf_Kubernetes = kubeConfig,
        cf_Network = NetworkSpec_Marshal (pc_Network req), cf_Runtime = RuntimeSpec_Marshal (pc_Runtime req),
        cf_Component = ComponentSpec_Marshal (pc_Component req)\<rparr>))"

definition configUpdates :: "Config \<Rightarrow> CreatePlanConfigRequest \<Rightarrow> string \<Rightarrow> Config updates" where
  "configUpdates oldConfig newConfig newKubernetes =
     changed ''region'' cf_Region cf_Region_update oldConfig (pc_Region newConfig) @
     changed ''os_image'' cf_OSImage cf_OSImage_update oldConfig (pc_OSImage newConfig) @
     changed ''kubernetes'' cf_Kubernetes cf_Kubernetes_update oldConfig newKubernetes @
     changed ''network'' cf_Network cf_Network_update oldConfig (NetworkSpec_Marshal (pc_Network newConfig)) @
     changed ''runtime'' cf_Runtime cf_Runtime_update oldConfig (RuntimeSpec_Marshal (pc_Runtime newConfig)) @
     changed ''component'' cf_Component cf_Component_update oldConfig (ComponentSpec_Marshal (pc_Component newConfig))"

definition UpdateConfigIfNeeded :: "int \<Rightarrow> UpdatePlanRequest \<Rightarrow> ('m plan_db_scheme, goerr, unit) act" where
  "UpdateConfigIfNeeded planId req = orInternal (GetConfigByPlan planId) (\<lambda>oldConfig.
     andThen (fromSum (buildAndCleanKubernetesConfig (pc_Kubernetes (up_Config req)))) (\<lambda>newKubernetes.
       let updates = configUpdates oldConfig (up_Config req) newKubernetes
       in if updates = [] then ret ()
          else orInternal (UpdateConfig (Oid oldConfig) (ResourceVersion oldConfig) updates) (\<lambda>_. ret ())))"

definition planConfig_Get :: "int \<Rightarrow> ('m plan_db_scheme, goerr, PlanConfig) act" where
  "planConfig_Get pid = orInternal (GetConfigByPlan pid) (\<lambda>object. fromSum (modelConfig2Type object))"

section \<open>Nodes\<close>

definition buildNodeFromRequest :: "int \<Rightarrow> CreatePlanNodeRequest \<Rightarrow> Node" where
  "buildNodeFromRequest planId req = pixiu_model.extend newModel
     \<lparr>nd_Name = pn_Name req, nd_UserId = pn_UserId req, nd_PlanId = planId, nd_Role = Join (pn_Role req) '','', nd_CRI = pn_CRI req,
      nd_Ip = pn_Ip req, nd_Auth = PlanNodeAuth_Marshal (pn_Auth req)\<rparr>"

definition buildNodeUpdates :: "Node \<Rightarrow> Node \<Rightarrow> Node updates" where
  "buildNodeUpdates old object =
     changed ''ip'' nd_Ip nd_Ip_update old (nd_Ip object) @
     changed ''role'' nd_Role nd_Role_update old (nd_Role object) @
     changed ''auth'' nd_Auth nd_Auth_update old (nd_Auth object)"

definition CreateOrUpdateNode :: "Node \<Rightarrow> ('m plan_db_scheme, goerr, unit) act" where
  "CreateOrUpdateNode object = onResult (GetNodeByName (nd_PlanId object) (nd_Name object))
     (\<lambda>err. if \<not> IsRecordNotFound err then fail err else andThen (CreateNode object) (\<lambda>_. ret ()))
     (\<lambda>old. let updates = buildNodeUpdates old object
       in if updates = [] then ret () else UpdateNode (Oid old) (ResourceVersion old) updates)"

definition updateNodesIfNeeded :: "int \<Rightarrow> CreatePlanNodeRequest list \<Rightarrow> ('m plan_db_scheme, goerr, unit) act" where
  "updateNodesIfNeeded planId newNodes = andThen (dbListNodes planId []) (\<lambda>oldNodes.
     let delNodes = filter (\<lambda>name. name \<notin> set (map pn_Name newNodes)) (map nd_Name oldNodes)
     in andThen (if delNodes \<noteq> [] then DeleteNodesByNames planId delNodes else ret ()) (\<lambda>_.
       forEach (\<lambda>newNode. CreateOrUpdateNode (buildNodeFromRequest planId newNode)) newNodes))"

definition planc_ListNodes :: "int \<Rightarrow> ('m plan_db_scheme, goerr, PlanNode list) act" where
  "planc_ListNodes pid = orInternal (dbListNodes pid []) (\<lambda>objects. fromSum (mapErr modelNode2Type objects))"

definition planc_ListTasks :: "int \<Rightarrow> ('m plan_db_scheme, goerr, PlanTask list) act" where
  "planc_ListTasks planId = andThen (dbListTasks planId []) (\<lambda>objects. ret (map modelTask2Type objects))"

section \<open>Creation\<close>

text \<open>The agent of the agent mode must be given and exist.\<close>

definition checkAgent :: "int \<Rightarrow> ('m plan_db_scheme, goerr, unit) act" where
  "checkAgent agentId =
     (if agentId = 0 then fail (Errorf ''agent mode without deploy_agent_id'')
      else andThen (agentGet agentId) (\<lambda>agent. if agent = None then fail (Errorf ''deploy agent does not exist'') else ret ()))"

definition planc_preCreate :: "int \<Rightarrow> CreatePlanRequest \<Rightarrow> ('m plan_db_scheme, goerr, unit) act" where
  "planc_preCreate uid req = andThen (planList [WithUser pl_UserId uid]) (\<lambda>plans.
     if cp_Name req \<in> set (map pl_Name plans) then fail (Errorf ''the plan exists'')
     else if cp_ExecMode req = PlanExecModeAgent then checkAgent (cp_DeployAgentId req) else ret ())"

definition newPlan :: "CreatePlanRequest \<Rightarrow> Plan" where
  "newPlan req = pixiu_model.extend newModel
     \<lparr>pl_Name = cp_Name req, pl_Status = UnStartPlanStatus, pl_UserId = cp_UserId req, pl_Description = cp_Description req,
      pl_ExecMode = (if cp_ExecMode req = [] then PlanExecModeLocal else cp_ExecMode req), pl_DeployAgentId = cp_DeployAgentId req,
      pl_KubernetesVersion = k8_KubernetesVersion (pc_Kubernetes (cp_Config req)), pl_NodeCount = int (length (cp_Nodes req))\<rparr>"

definition createPlanSubResources :: "CreatePlanRequest \<Rightarrow> Plan \<Rightarrow> ('m plan_db_scheme, goerr, unit) act" where
  "createPlanSubResources req planModel =
     andThen (preCreateConfig (Oid planModel)) (\<lambda>_.
     andThen (fromSum (buildPlanConfig (cp_Config req))) (\<lambda>planConfig.
     andThen (TxCreateConfig (planConfig\<lparr>cf_PlanId := Oid planModel\<rparr>)) (\<lambda>_.
       forEach (\<lambda>nodeReq. TxCreateNode (buildNodeFromRequest (Oid planModel) nodeReq)) (cp_Nodes req))))"

text \<open>\<open>KubeNode{Ready: []string{}, NotReady: []string{}}\<close> as JSON.\<close>

definition emptyKubeNode :: string where
  "emptyKubeNode = jsonPrint (JObj [(''ready'', JArr []), (''not_ready'', JArr [])])"

definition newCluster :: "string \<Rightarrow> string \<Rightarrow> int \<Rightarrow> int \<Rightarrow> int \<Rightarrow> string \<Rightarrow> Cluster" where
  "newCluster name alias planId userId status kubeConfig = pixiu_model.extend newModel
     \<lparr>clu_Name = name, clu_AliasName = alias, clu_ClusterType = ClusterTypeCustom, clu_PlanId = planId, clu_UserId = userId, clu_PermissionId = 0,
      clu_OwnerReference = 0, clu_ClusterStatus = status, clu_KubernetesVersion = [], clu_Nodes = emptyKubeNode, clu_Protected = True,
      clu_KubeConfig = kubeConfig, clu_ConnectMode = ConnectModeDirect, clu_Description = [], clu_ProbeStatus = 0, clu_ProbeReason = [],
      clu_ProbeMessage = [], clu_LastProbeTime = None, clu_AgentToken = []\<rparr>"

section \<open>Access and state\<close>

definition IsRunning :: "int \<Rightarrow> ('m plan_db_scheme, goerr, bool) act" where
  "IsRunning planId = orInternal (planGet planId) (\<lambda>object.
     ret (pl_Status object \<in> {RunningPlanStatus, DestroyingPlanStatus, StoppingPlanStatus}))"

definition planc_preUpdate :: "context_user \<Rightarrow> int \<Rightarrow> ('m plan_db_scheme, goerr, Plan) act" where
  "planc_preUpdate ctx planId = orInternal (planGet planId) (\<lambda>oldPlan.
     andThen (CheckResourceAccess ctx (pl_UserId oldPlan) ResourceTypePlan planId) (\<lambda>_. ret oldPlan))"

definition getOrNotFound :: "int \<Rightarrow> ('m plan_db_scheme, goerr, Plan) act" where
  "getOrNotFound planId = onResult (planGet planId)
     (\<lambda>err. if IsRecordNotFound err then fail ErrPlanNotFound else fail ErrServerInternal) ret"

definition checkPlanAccess :: "context_user \<Rightarrow> int \<Rightarrow> ('m plan_db_scheme, goerr, unit) act" where
  "checkPlanAccess ctx pid = andThen (getOrNotFound pid) (\<lambda>object. CheckResourceAccess ctx (pl_UserId object) ResourceTypePlan pid)"

definition planc_preDelete :: "context_user \<Rightarrow> int \<Rightarrow> ('m plan_db_scheme, goerr, unit) act" where
  "planc_preDelete ctx planId = andThen (getOrNotFound planId) (\<lambda>planObj.
     andThen (CheckResourceAccess ctx (pl_UserId planObj) ResourceTypePlan planId) (\<lambda>_.
       orInternal (IsRunning planId) (\<lambda>isRunning. if isRunning then fail ErrConflict else ret ())))"

definition planc_Delete :: "context_user \<Rightarrow> int \<Rightarrow> ('m plan_db_scheme, goerr, unit) act" where
  "planc_Delete ctx planId = andThen (planc_preDelete ctx planId) (\<lambda>_.
     orInternal (planDelete planId) (\<lambda>_.
     andThen (DeleteTask planId) (\<lambda>_.
     andThen (DeleteConfigByPlan planId) (\<lambda>_.
     DeleteNodesByPlan planId))))"

definition planc_Create :: "plan_env \<Rightarrow> context_user \<Rightarrow> CreatePlanRequest \<Rightarrow> ('m plan_db_scheme, goerr, unit) act" where
  "planc_Create pv ctx req0 = andThen (planc_preCreate (cp_UserId req0) req0) (\<lambda>_.
     let req = req0\<lparr>cp_Nodes := map (\<lambda>n. n\<lparr>pn_UserId := cp_UserId req0\<rparr>) (cp_Nodes req0)\<rparr>; planModel = newPlan req
     in orInternal (planCreate planModel [createPlanSubResources req]) (\<lambda>createdPlan.
        andThen (NewRandName pv 8) (\<lambda>name.
          let planId = Oid createdPlan; obj = newCluster name (cp_Name req) planId (cp_UserId req) ClusterStatusUnStart [];
              undo = (\<lambda>_. andThen (ignoring (planc_Delete ctx planId)) (\<lambda>_. fail ErrServerInternal))
          in onResult
               (if pl_ExecMode planModel = PlanExecModeAgent
                then andThen (tokenGenerate pv) (\<lambda>tok. ret (obj\<lparr>clu_AgentToken := tok, clu_ConnectMode := ConnectModeTunnel\<rparr>))
                else ret obj)
               undo
               (\<lambda>obj. onResult (clusterCreate obj []) undo (\<lambda>_. ret ())))))"

section \<open>Update\<close>

definition syncClusterToTunnel :: "plan_env \<Rightarrow> int \<Rightarrow> ('m plan_db_scheme, goerr, unit) act" where
  "syncClusterToTunnel pv planId = andThen (clusterGetBy [WithPlan clu_PlanId planId]) (\<lambda>found. case found of
     None \<Rightarrow> ret ()
   | Some obj \<Rightarrow>
       andThen (if clu_AgentToken obj = []
                then andThen (tokenGenerate pv) (\<lambda>tok. ret [(''agent_token'', clu_AgentToken_update (\<lambda>_. tok))])
                else ret []) (\<lambda>more.
         UpdateByPlan planId ([(''connect_mode'', clu_ConnectMode_update (\<lambda>_. ConnectModeTunnel))] @ more)))"

definition planUpdates :: "Plan \<Rightarrow> UpdatePlanRequest \<Rightarrow> string \<Rightarrow> int \<Rightarrow> Plan updates" where
  "planUpdates oldPlan req execMode deployAgentId =
     changed ''description'' pl_Description pl_Description_update oldPlan (up_Description req) @
     changed ''name'' pl_Name pl_Name_update oldPlan (up_Name req) @
     changed ''exec_mode'' pl_ExecMode pl_ExecMode_update oldPlan execMode @
     changed ''deploy_agent_id'' pl_DeployAgentId pl_DeployAgentId_update oldPlan deployAgentId @
     changed ''kubernetes_version'' pl_KubernetesVersion pl_KubernetesVersion_update oldPlan (k8_KubernetesVersion (pc_Kubernetes (up_Config req))) @
     changed ''node_count'' pl_NodeCount pl_NodeCount_update oldPlan (int (length (up_Nodes req)))"

definition planc_Update :: "plan_env \<Rightarrow> context_user \<Rightarrow> int \<Rightarrow> UpdatePlanRequest \<Rightarrow> ('m plan_db_scheme, goerr, unit) act" where
  "planc_Update pv ctx planId req0 = andThen (planc_preUpdate ctx planId) (\<lambda>oldPlan.
     let execMode = (if up_ExecMode req0 = [] then PlanExecModeLocal else up_ExecMode req0);
         deployAgentId = (if execMode = PlanExecModeLocal then 0 else up_DeployAgentId req0)
     in andThen (if execMode = PlanExecModeAgent then checkAgent deployAgentId else ret ()) (\<lambda>_.
        let req = req0\<lparr>up_Nodes := map (\<lambda>n. n\<lparr>pn_UserId := pl_UserId oldPlan\<rparr>) (up_Nodes req0)\<rparr>;
            updates = planUpdates oldPlan req execMode deployAgentId
        in orInternal (if updates \<noteq> [] then planUpdate planId (up_ResourceVersion req) updates else ret ()) (\<lambda>_.
           orInternal (if pl_ExecMode oldPlan \<noteq> execMode \<and> execMode = PlanExecModeAgent then syncClusterToTunnel pv planId else ret ()) (\<lambda>_.
           orInternal (UpdateConfigIfNeeded planId req) (\<lambda>_.
           orInternal (updateNodesIfNeeded planId (up_Nodes req)) (\<lambda>_. ret ()))))))"

section \<open>Reads\<close>

definition planc_Get :: "context_user \<Rightarrow> int \<Rightarrow> ('m plan_db_scheme, goerr, types_Plan) act" where
  "planc_Get ctx pid = orInternal (planGet pid) (\<lambda>object.
     andThen (CheckResourceAccess ctx (pl_UserId object) ResourceTypePlan pid) (\<lambda>_. ret (planModel2Type object)))"

definition GetWithSubResources :: "int \<Rightarrow> ('m plan_db_scheme, goerr, PlanWithResources) act" where
  "GetWithSubResources planId = orInternal (planGet planId) (\<lambda>object.
     andThen (planConfig_Get planId) (\<lambda>cfg.
     andThen (planc_ListNodes planId) (\<lambda>ns.
       ret \<lparr>pw_Plan = planModel2Type object, pw_Config = cfg, pw_Nodes = ns\<rparr>)))"

definition planFilters :: "ListOptions \<Rightarrow> int list option \<Rightarrow> Plan options list" where
  "planFilters lo authorized = [WithUserOrResourceIDs pl_UserId (lo_UserId lo) (case authorized of None \<Rightarrow> [] | Some ids \<Rightarrow> ids),
     WithNameLike pl_Name (lo_NameSelector lo)]"

text \<open>A failing count is reported in the answer and the list goes on.\<close>

definition planc_List :: "plan_env \<Rightarrow> context_user \<Rightarrow> ListOptions \<Rightarrow> ('m plan_db_scheme, goerr, types_Plan MessagePage) act" where
  "planc_List pv ctx listOption =
     (let lo = SetDefaultPageOption listOption
      in andThen (AuthorizedResourceIDs ctx ResourceTypePlan) (\<lambda>authorized.
         let opts = planFilters lo authorized
         in andThen (onResult (planCount opts) (\<lambda>err. ret (0, pv_errText pv err)) (\<lambda>total. ret (total, []))) (\<lambda>(total, message).
            let offset = (lo_Page lo - 1) * lo_Limit lo
            in orInternal (planList (opts @ [WithModifyOrderByDesc, WithOffset offset, WithLimit (lo_Limit lo)])) (\<lambda>objects.
               ret \<lparr>pr_Page = lo_Page lo, pr_Limit = lo_Limit lo, pr_Total = total, pr_Items = map planModel2Type objects, pr_Message = message\<rparr>))))"

definition listAll :: "('m plan_db_scheme, goerr, types_Plan list) act" where
  "listAll = orInternal (planList []) (\<lambda>objects. ret (map planModel2Type objects))"

section \<open>Start\<close>

definition GetRunner :: "string \<Rightarrow> ('m plan_db_scheme, goerr, string) act" where
  "GetRunner osImage = andThen (GetDistributionByName osImage) (\<lambda>dist. case dist of
     None \<Rightarrow> fail (Errorf ''runner not found'')
   | Some dist \<Rightarrow> if di_Runner dist = [] then fail (Errorf ''runner not found'')
       else andThen (runnerGetBy [WithName ru_Name (di_Runner dist)]) (\<lambda>obj. ret (ru_EngineImage obj)))"

definition orErrorf :: "string \<Rightarrow> ('w, goerr, 'a) act \<Rightarrow> ('a \<Rightarrow> ('w, goerr, 'b) act) \<Rightarrow> ('w, goerr, 'b) act" where
  "orErrorf msg m f = onResult m (\<lambda>_. fail (Errorf msg)) f"

definition preStart :: "int \<Rightarrow> ('m plan_db_scheme, goerr, unit) act" where
  "preStart pid = orInternal (IsRunning pid) (\<lambda>isRunning.
     if isRunning then fail ErrNotAcceptable
     else orErrorf ''failed to get config'' (planConfig_Get pid) (\<lambda>cfg.
       orErrorf ''failed to get nodes'' (planc_ListNodes pid) (\<lambda>nodes.
         if nodes = [] then fail (Errorf ''the plan has no nodes'')
         else orErrorf ''failed to get runner'' (GetRunner (tc_OSImage cfg)) (\<lambda>runner.
           andThen (planGet pid) (\<lambda>planObj.
             if pl_ExecMode planObj \<noteq> PlanExecModeAgent then ret ()
             else if pl_DeployAgentId planObj = 0 then fail (Errorf ''agent mode without agent'')
             else andThen (agentGet (pl_DeployAgentId planObj)) (\<lambda>agent. case agent of
                 None \<Rightarrow> fail (Errorf ''the agent does not exist'')
               | Some agent \<Rightarrow> if ag_Status agent = AgentStatusOffline then fail (Errorf ''the agent is offline'') else ret ()))))))"

text \<open>The work queue keeps a key once while it waits.\<close>

definition taskQueueAdd :: "int \<Rightarrow> ('m plan_db_scheme, 'e, unit) act" where
  "taskQueueAdd pid = modify (queue_adds_update (\<lambda>q. if pid \<in> set q then q else q @ [pid]))"

definition planc_Start :: "context_user \<Rightarrow> int \<Rightarrow> ('m plan_db_scheme, goerr, unit) act" where
  "planc_Start ctx pid = andThen (checkPlanAccess ctx pid) (\<lambda>_. andThen (preStart pid) (\<lambda>_.
taskQueueAdd pid))"

definition planc_Destroy :: "context_user \<Rightarrow> int \<Rightarrow> ('m plan_db_scheme, goerr, unit) act" where
  "planc_Destroy ctx pid = checkPlanAccess ctx pid"

end
