(* ===== verification/PlanTasks.thy ===== *)
theory PlanTasks
  imports PlanController
begin

text \<open>
  The task loop of a deployment (\<open>pkg/controller/plan/worker.go\<close>): a deployment is a sequence of steps, each a
  row of the table of tasks. \<open>syncTasks\<close> creates the rows, runs the steps in order and writes their outcome back;
  \<open>syncStatus\<close> repairs what a crash left running.
\<close>

section \<open>Steps\<close>

text \<open>The interface \<open>Handler\<close>: what it answers, and \<open>Run\<close>.\<close>

record 'w Handler =
  hd_PlanId :: int
  hd_Action :: string
  hd_Name :: string
  hd_Step :: int
  hd_Run :: "('w, goerr, unit) act"

definition newTask :: "'w Handler \<Rightarrow> Task" where
  "newTask h = pixiu_model.extend newModel
     \<lparr>tk_Name = hd_Name h, tk_PlanId = hd_PlanId h, tk_Step = hd_Step h, tk_Action = hd_Action h, tk_Status = UnStartPlanStatus, tk_Message = []\<rparr>"

fun createPlanTasksIfNotExist :: "'w Handler list \<Rightarrow> ('m plan_db_scheme, goerr, unit) act" where
  "createPlanTasksIfNotExist [] = ret ()"
| "createPlanTasksIfNotExist (h # hs) = onResult (GetTaskByName (hd_PlanId h) (hd_Name h))
     (\<lambda>err. if \<not> IsRecordNotFound err then fail err
            else andThen (CreateTask (newTask h)) (\<lambda>_. createPlanTasksIfNotExist hs))
     (\<lambda>_. ret ())"

text \<open>\<open>taskC.SetByTask\<close>.\<close>

definition setByTask :: "int \<Rightarrow> Task \<Rightarrow> ('m plan_db_scheme, 'e, unit) act" where
  "setByTask planId task = andThen timeNow (\<lambda>now. modify (task_items_update (\<lambda>c. taskSetByTask now c planId task)))"

definition successMessage :: string where
  "successMessage = utf8 [0x6267, 0x884C, 0x6210, 0x529F]"

definition startUpdates :: "int \<Rightarrow> Task updates" where
  "startUpdates now = [(''status'', tk_Status_update (\<lambda>_. RunningPlanStatus)), (''message'', tk_Message_update (\<lambda>_. [])),
     (''gmt_create'', GmtCreate_update (\<lambda>_. now))]"

definition endUpdates :: "string \<Rightarrow> string \<Rightarrow> int \<Rightarrow> int \<Rightarrow> Task updates" where
  "endUpdates status message step now = [(''status'', tk_Status_update (\<lambda>_. status)), (''message'', tk_Message_update (\<lambda>_. message)),
     (''step'', tk_Step_update (\<lambda>_. step)), (''gmt_modified'', GmtModified_update (\<lambda>_. now))]"

text \<open>One iteration of the loop over the steps; \<open>isLast\<close> is \<open>i == len(tasks)-1\<close>.\<close>

definition runTask :: "(goerr \<Rightarrow> string) \<Rightarrow> bool \<Rightarrow> ('m plan_db_scheme) Handler \<Rightarrow> ('m plan_db_scheme, goerr, unit) act" where
  "runTask errText isLast h = andThen timeNow (\<lambda>now. andThen (UpdateTask (hd_PlanId h) (hd_Name h) (startUpdates now)) (\<lambda>start.
     andThen (setByTask (hd_PlanId h) start) (\<lambda>_.
     andThen (attempt (hd_Run h)) (\<lambda>runErr.
       let status = (if isl runErr then FailedPlanStatus else SuccessPlanStatus);
           step = (if isl runErr then FailedPlanStep else hd_Step h);
           message = (case runErr of Inl e \<Rightarrow> errText e | Inr _ \<Rightarrow> successMessage)
       in andThen timeNow (\<lambda>now2. andThen (UpdateTask (hd_PlanId h) (hd_Name h) (endUpdates status message step now2)) (\<lambda>end.
          andThen (if status = FailedPlanStatus \<or> status = SuccessPlanStatus \<and> isLast
                   then planUpdateStatus (hd_PlanId h) status else ret ()) (\<lambda>_.
          andThen (setByTask (hd_PlanId h) end) (\<lambda>_.
            case runErr of Inl e \<Rightarrow> fail e | Inr _ \<Rightarrow> ret ()))))))))"

fun runTasks :: "(goerr \<Rightarrow> string) \<Rightarrow> ('m plan_db_scheme) Handler list \<Rightarrow> ('m plan_db_scheme, goerr, unit) act" where
  "runTasks errText [] = ret ()"
| "runTasks errText (h # hs) = andThen (runTask errText (hs = []) h) (\<lambda>_. runTasks errText hs)"

definition syncTasks :: "(goerr \<Rightarrow> string) \<Rightarrow> ('m plan_db_scheme) Handler list \<Rightarrow> ('m plan_db_scheme, goerr, unit) act" where
  "syncTasks errText hs = andThen (createPlanTasksIfNotExist hs) (\<lambda>_.
     if hs = [] then ret ()
     else andThen (planUpdateStatus (hd_PlanId (hd hs)) RunningPlanStatus) (\<lambda>_. runTasks errText hs))"

section \<open>Repair at start\<close>

text \<open>The message that asks for a new start.\<close>

definition repairMessage :: string where
  "repairMessage = utf8 [0x670D, 0x52A1, 0x5F02, 0x5E38, 0x4FEE, 0x6B63, 0xFF0C, 0x8BF7, 0x91CD, 0x65B0, 0x542F, 0x52A8, 0x90E8, 0x7F72, 0x8BA1, 0x5212]"

fun repairTasks :: "int \<Rightarrow> bool \<Rightarrow> Task list \<Rightarrow> ('m plan_db_scheme, goerr, bool) act" where
  "repairTasks planId updated [] = ret updated"
| "repairTasks planId updated (task # ts) =
     (if tk_Status task \<noteq> RunningPlanStatus then repairTasks planId updated ts
      else andThen timeNow (\<lambda>now. andThen (UpdateTask planId (tk_Name task) [(''status'', tk_Status_update (\<lambda>_. FailedPlanStatus)),
          (''step'', tk_Step_update (\<lambda>_. FailedPlanStep)), (''message'', tk_Message_update (\<lambda>_. repairMessage)),
          (''gmt_modified'', GmtModified_update (\<lambda>_. now))]) (\<lambda>_. repairTasks planId True ts)))"

definition syncStatus :: "int \<Rightarrow> ('m plan_db_scheme, goerr, unit) act" where
  "syncStatus planId = andThen (dbListTasks planId []) (\<lambda>tasks. andThen (repairTasks planId False tasks) (\<lambda>updated.
     if updated then planUpdateStatus planId FailedPlanStatus else ret ()))"

text \<open>The plans are repaired one goroutine each; \<open>order\<close> is the order in which they run. All of them run;
  then the first error, if any, is returned.\<close>

fun repairPlans :: "int list \<Rightarrow> ('m plan_db_scheme, 'e, goerr list) act" where
  "repairPlans [] = ret []"
| "repairPlans (p # ps) = andThen (attempt (syncStatus p)) (\<lambda>r. andThen (repairPlans ps) (\<lambda>errs.
     ret (case r of Inl e \<Rightarrow> e # errs | Inr _ \<Rightarrow> errs)))"

definition SyncTaskStatus :: "(int list \<Rightarrow> int list) \<Rightarrow> ('m plan_db_scheme, goerr, unit) act" where
  "SyncTaskStatus order = andThen listAll (\<lambda>plans. andThen (repairPlans (order (map tp_Id plans))) (\<lambda>errs.
     case errs of [] \<Rightarrow> ret () | e # _ \<Rightarrow> fail e))"

end
