(* ===== verification/PlanHandlers.thy ===== *)
theory PlanHandlers
  imports PlanTasks GoNet
begin

text \<open>
  The steps of a deployment: the containers of \<open>pkg/util/container\<close>, the rendering of \<open>pkg/planrender\<close>, and the
  handlers of \<open>pkg/controller/plan/{runner,render,checker,bootstrap_servers,deploy,register,agent_job}.go\<close>, which
  \<open>syncHandler\<close> of \<open>worker.go\<close> puts together. Docker, SSH, the file system's errors, the template engine and the
  Kubernetes client are parameters; so is what the deployment agents do to the table of jobs while the loop sleeps.
\<close>

section \<open>What is outside of the program\<close>

record container_state =
  ct_Status :: string
  ct_Running :: bool
  ct_ExitCode :: int
  ct_Error :: string

record docker_env =
  dk_client :: "nat \<Rightarrow> goerr + unit"
  dk_list :: "nat \<Rightarrow> goerr + (string \<times> string list) list"
  dk_stop :: "string \<Rightarrow> nat \<Rightarrow> goerr + unit"
  dk_remove :: "string \<Rightarrow> nat \<Rightarrow> goerr + unit"
  dk_create :: "string \<Rightarrow> string \<Rightarrow> string \<Rightarrow> string \<Rightarrow> nat \<Rightarrow> goerr + string"
  dk_start :: "string \<Rightarrow> nat \<Rightarrow> goerr + unit"
  dk_inspect :: "string \<Rightarrow> nat \<Rightarrow> goerr + container_state option"
  dk_inspectImage :: "string \<Rightarrow> nat \<Rightarrow> goerr + unit"
  dk_isErrNotFound :: "goerr \<Rightarrow> bool"
  dk_pull :: "string \<Rightarrow> nat \<Rightarrow> goerr + unit"
  dk_copy :: "nat \<Rightarrow> goerr + unit"

datatype ssh_auth = SshPassword string string | SshSigner string string

record ssh_env =
  sh_parseKey :: "string \<Rightarrow> goerr + string"
  sh_dial :: "string \<Rightarrow> ssh_auth \<Rightarrow> nat \<Rightarrow> goerr + unit"
  sh_sftp :: "nat \<Rightarrow> goerr + unit"
  sh_open :: "string \<Rightarrow> nat \<Rightarrow> goerr + unit"
  sh_readAll :: "nat \<Rightarrow> goerr + string"

record PolicyRule =
  pr_APIGroups :: "string list"
  pr_Resources :: "string list"
  pr_Verbs :: "string list"

record kube_env =
  kb_clusterSet :: "string \<Rightarrow> goerr + unit"
  kb_getRole :: "string \<Rightarrow> nat \<Rightarrow> goerr + PolicyRule list"
  kb_createRole :: "string \<Rightarrow> PolicyRule list \<Rightarrow> nat \<Rightarrow> goerr + unit"

record Multinode =
  mn_DockerMaster :: "PlanNode list"
  mn_DockerNode :: "PlanNode list"
  mn_ContainerdMaster :: "PlanNode list"
  mn_ContainerdNode :: "PlanNode list"
  mn_StorageNode :: "PlanNode list"

record render_env =
  rd_mkdirAll :: "string \<Rightarrow> nat \<Rightarrow> goerr + unit"
  rd_writeFile :: "string \<Rightarrow> nat \<Rightarrow> goerr + unit"
  rd_hosts :: "PlanWithResources \<Rightarrow> goerr + string"
  rd_multinode :: "Multinode \<Rightarrow> goerr + string"
  rd_globals :: "PlanConfig \<Rightarrow> goerr + string"

record worker_env =
  we_plan :: plan_env
  we_docker :: docker_env
  we_ssh :: ssh_env
  we_kube :: kube_env
  we_render :: render_env
  we_workDir :: string
  we_agents :: "nat \<Rightarrow> Job table \<Rightarrow> Job table"

section \<open>Containers\<close>

record Container =
  cn_action :: string
  cn_name :: string
  cn_planId :: int
  cn_dir :: string

definition NewContainer :: "docker_env \<Rightarrow> string \<Rightarrow> int \<Rightarrow> string \<Rightarrow> ('m env_scheme, goerr, Container) act" where
  "NewContainer dk action planId dir = andThen (external (dk_client dk)) (\<lambda>_.
     ret \<lparr>cn_action = action, cn_name = action @ ''-'' @ FormatInt planId, cn_planId = planId, cn_dir = dir\<rparr>)"

definition GetContainer :: "docker_env \<Rightarrow> string \<Rightarrow> ('m env_scheme, goerr, string) act" where
  "GetContainer dk containerName = andThen (external (dk_list dk)) (\<lambda>containers.
     case find (\<lambda>(cid, names). CHR ''/'' # containerName \<in> set names) containers of
       None \<Rightarrow> fail (Util ErrContainerNotFound) | Some (cid, names) \<Rightarrow> ret cid)"

definition ClearContainer :: "docker_env \<Rightarrow> Container \<Rightarrow> ('m env_scheme, goerr, unit) act" where
  "ClearContainer dk c = onResult (GetContainer dk (cn_name c))
     (\<lambda>err. if err = Util ErrContainerNotFound then ret () else fail err)
     (\<lambda>containerId. andThen (external (dk_stop dk containerId)) (\<lambda>_. external (dk_remove dk containerId)))"

text \<open>One look at the container: \<open>None\<close> to look again, or the result of the wait.\<close>

definition containerDone :: "container_state option \<Rightarrow> (goerr + unit) option" where
  "containerDone state = (case state of None \<Rightarrow> None | Some s \<Rightarrow>
     if ct_Status s = ''running'' \<and> ct_Running s then None
     else if ct_Status s = ''paused'' \<or> ct_Status s = ''removing'' \<or> ct_Status s = ''dead'' then Some (Inl (Errorf ''abnormal container state''))
     else if ct_Status s = ''exited'' then (if ct_ExitCode s = 0 then Some (Inr ()) else Some (Inl (Errorf (ct_Error s))))
     else None)"

fun WaitContainer :: "docker_env \<Rightarrow> string \<Rightarrow> nat \<Rightarrow> ('m env_scheme, goerr, unit) act" where
  "WaitContainer dk containerId 0 = fail (Errorf ''the task timed out'')"
| "WaitContainer dk containerId (Suc n) = andThen (external (dk_inspect dk containerId)) (\<lambda>state.
     case containerDone state of None \<Rightarrow> WaitContainer dk containerId n | Some r \<Rightarrow> fromSum r)"

definition StartAndWaitForContainer :: "docker_env \<Rightarrow> Container \<Rightarrow> string \<Rightarrow> ('m env_scheme, goerr, unit) act" where
  "StartAndWaitForContainer dk c img = andThen (ClearContainer dk c) (\<lambda>_.
     andThen (external (dk_create dk (cn_name c) img (''COMMAND='' @ cn_action c) (cn_dir c @ ''/'' @ FormatInt (cn_planId c) @ '':/configs''))) (\<lambda>cid.
     andThen (external (dk_start dk cid)) (\<lambda>_. WaitContainer dk cid 180)))"

section \<open>Paths\<close>

text \<open>\<open>filepath.Clean\<close>: the kept elements, in reverse, while the elements of a path are read.\<close>

fun cleanElems :: "bool \<Rightarrow> string list \<Rightarrow> string list \<Rightarrow> string list" where
  "cleanElems rooted acc [] = rev acc"
| "cleanElems rooted acc (e # es) =
     (if e = [] \<or> e = ''.'' then cleanElems rooted acc es
      else if e = ''..'' then
        (case acc of [] \<Rightarrow> if rooted then cleanElems rooted [] es else cleanElems rooted [e] es
         | a # as \<Rightarrow> if a = ''..'' then cleanElems rooted (e # acc) es else cleanElems rooted as es)
      else cleanElems rooted (e # acc) es)"

definition pathClean :: "string \<Rightarrow> string" where
  "pathClean p = (if p = [] then ''.''
     else let rooted = HasPrefix p ''/''; es = cleanElems rooted [] (Split p CHR ''/'')
          in if rooted then CHR ''/'' # Join es ''/'' else if es = [] then ''.'' else Join es ''/'')"

definition pathJoin :: "string list \<Rightarrow> string" where
  "pathJoin elems = (let es = filter (\<lambda>e. e \<noteq> []) elems in if es = [] then [] else pathClean (Join es ''/''))"

section \<open>Rendering\<close>

definition MkdirAll :: "render_env \<Rightarrow> string \<Rightarrow> ('m plan_db_scheme, goerr, unit) act" where
  "MkdirAll rd path = external (rd_mkdirAll rd path)"

definition WriteFile :: "render_env \<Rightarrow> string \<Rightarrow> string \<Rightarrow> ('m plan_db_scheme, goerr, unit) act" where
  "WriteFile rd path content = andThen (external (rd_writeFile rd path)) (\<lambda>_. modify (plan_files_update (AList.update path content)))"

definition writeTemplate :: "render_env \<Rightarrow> string \<Rightarrow> (goerr + string) \<Rightarrow> ('m plan_db_scheme, goerr, unit) act" where
  "writeTemplate rd filename executed = andThen (fromSum executed) (\<lambda>buf. WriteFile rd filename buf)"

definition keyConfigEmpty :: goerr where "keyConfigEmpty = Errorf ''key auth config is empty''"
definition passwordConfigEmpty :: goerr where "passwordConfigEmpty = Errorf ''password auth config is empty''"

definition PasswordAuth :: string where "PasswordAuth = ''password''"
definition KeyAuth :: string where "KeyAuth = ''key''"

definition rsaFile :: "string \<Rightarrow> int \<Rightarrow> string \<Rightarrow> string" where
  "rsaFile workDir planId name = pathJoin [pathJoin [workDir, FormatInt planId, ''ssh'', name], ''id_rsa'']"

definition writeRSA :: "render_env \<Rightarrow> int \<Rightarrow> string \<Rightarrow> string \<Rightarrow> PlanNodeAuth \<Rightarrow> ('m plan_db_scheme, goerr, unit) act" where
  "writeRSA rd planId name workDir auth = (if na_Type auth \<noteq> KeyAuth then ret ()
     else case na_Key auth of None \<Rightarrow> fail keyConfigEmpty
       | Some key \<Rightarrow> andThen (MkdirAll rd (pathJoin [workDir, FormatInt planId, ''ssh'', name])) (\<lambda>_.
           WriteFile rd (rsaFile workDir planId name) (ks_Data key)))"

definition emptyMultinode :: Multinode where
  "emptyMultinode = \<lparr>mn_DockerMaster = [], mn_DockerNode = [], mn_ContainerdMaster = [], mn_ContainerdNode = [], mn_StorageNode = []\<rparr>"

definition IsDocker :: "RuntimeSpec \<Rightarrow> bool" where "IsDocker rs \<longleftrightarrow> rt_Runtime rs = DockerCRI"
definition IsContainerd :: "RuntimeSpec \<Rightarrow> bool" where "IsContainerd rs \<longleftrightarrow> rt_Runtime rs = ContainerdCRI"

definition zeroPlanNode :: PlanNode where
  "zeroPlanNode = \<lparr>tn_Id = 0, tn_ResourceVersion = 0, tn_GmtCreate = 0, tn_GmtModified = 0, tn_PlanId = 0, tn_Name = [], tn_UserId = 0,
     tn_Role = [], tn_CRI = [], tn_Ip = [], tn_Auth = zeroPlanNodeAuth\<rparr>"

text \<open>What is appended for a node: once per occurrence of the role.\<close>

definition perRole :: "string list \<Rightarrow> string \<Rightarrow> 'a \<Rightarrow> 'a list" where
  "perRole rs role x = map (\<lambda>_. x) (filter (\<lambda>r. r = role) rs)"

definition addNode :: "RuntimeSpec \<Rightarrow> string list \<Rightarrow> PlanNode \<Rightarrow> Multinode \<Rightarrow> Multinode" where
  "addNode runtime rs planNode m =
     (let m1 = (if IsDocker runtime then m\<lparr>mn_DockerMaster := mn_DockerMaster m @ perRole rs MasterRole planNode,
                  mn_DockerNode := mn_DockerNode m @ perRole rs NodeRole planNode\<rparr> else m);
          m2 = (if IsContainerd runtime then m1\<lparr>mn_ContainerdMaster := mn_ContainerdMaster m1 @ perRole rs MasterRole planNode,
                  mn_ContainerdNode := mn_ContainerdNode m1 @ perRole rs NodeRole planNode\<rparr> else m1)
      in m2\<lparr>mn_StorageNode := mn_StorageNode m2 @ perRole rs StorageRole planNode\<rparr>)"

text \<open>The checked authentication of a node, its key pointing into the container.\<close>

definition nodeAuthOf :: "PlanNode \<Rightarrow> goerr + PlanNodeAuth" where
  "nodeAuthOf node = (let auth = tn_Auth node in
     if na_Type auth = KeyAuth then
       (case na_Key auth of None \<Rightarrow> Inl keyConfigEmpty
        | Some key \<Rightarrow> Inr (auth\<lparr>na_Key := Some (key\<lparr>ks_File := ''/configs/ssh/'' @ tn_Name node @ ''/id_rsa''\<rparr>)\<rparr>))
     else if na_Type auth = PasswordAuth \<and> na_Password auth = None then Inl passwordConfigEmpty else Inr auth)"

fun buildMultinode :: "render_env \<Rightarrow> int \<Rightarrow> RuntimeSpec \<Rightarrow> string \<Rightarrow> PlanNode list \<Rightarrow> Multinode \<Rightarrow> ('m plan_db_scheme, goerr, Multinode) act" where
  "buildMultinode rd planId runtime workDir [] multinode = ret multinode"
| "buildMultinode rd planId runtime workDir (node # ns) multinode =
     andThen (writeRSA rd planId (tn_Name node) workDir (tn_Auth node)) (\<lambda>_.
     andThen (fromSum (nodeAuthOf node)) (\<lambda>nodeAuth.
       buildMultinode rd planId runtime workDir ns
         (if tn_Role node = [] then multinode
          else addNode runtime (tn_Role node) (zeroPlanNode\<lparr>tn_Name := tn_Name node, tn_Auth := nodeAuth\<rparr>) multinode)))"

definition Render :: "render_env \<Rightarrow> string \<Rightarrow> PlanWithResources \<Rightarrow> ('m plan_db_scheme, goerr, unit) act" where
  "Render rd workDir plan = (let planId = tp_Id (pw_Plan plan); planDir = pathJoin [workDir, FormatInt planId] in
     andThen (MkdirAll rd planDir) (\<lambda>_.
     andThen (writeTemplate rd (pathJoin [planDir, ''hosts'']) (rd_hosts rd plan)) (\<lambda>_.
     andThen (buildMultinode rd planId (tc_Runtime (pw_Config plan)) workDir (pw_Nodes plan) emptyMultinode) (\<lambda>multinode.
     andThen (writeTemplate rd (pathJoin [planDir, ''multinode'']) (rd_multinode rd multinode)) (\<lambda>_.
     andThen (case cs_CustomRepo (tc_Component (pw_Config plan)) of None \<Rightarrow> ret ()
              | Some repo \<Rightarrow> if cr_Enable repo
                  then onResult (WriteFile rd (pathJoin [planDir, ''pixiu'']) (cr_Content repo)) (\<lambda>err. fail (Wrapf ''write custom repo file'' err)) ret
                  else ret ()) (\<lambda>_.
       writeTemplate rd (pathJoin [planDir, ''globals.yml'']) (rd_globals rd (pw_Config plan))))))))"

definition zeroPlanConfig :: PlanConfig where
  "zeroPlanConfig = \<lparr>tc_Id = 0, tc_ResourceVersion = 0, tc_GmtCreate = 0, tc_GmtModified = 0, tc_PlanId = 0, tc_Region = [], tc_OSImage = [],
     tc_Kubernetes = zeroKubernetesSpec, tc_Network = zeroNetworkSpec, tc_Runtime = zeroRuntimeSpec, tc_Component = zeroComponentSpec\<rparr>"

definition zeroTypesPlan :: types_Plan where
  "zeroTypesPlan = \<lparr>tp_Id = 0, tp_ResourceVersion = 0, tp_GmtCreate = 0, tp_GmtModified = 0, tp_Name = [], tp_Description = [], tp_Step = [],
     tp_KubernetesVersion = [], tp_NodeCount = 0, tp_ExecMode = [], tp_DeployAgentId = 0\<rparr>"

definition renderNode :: "int \<Rightarrow> Node \<Rightarrow> goerr + PlanNode" where
  "renderNode planId n = (case PlanNodeAuth_Unmarshal (nd_Auth n) zeroPlanNodeAuth of None \<Rightarrow> Inl unmarshalErr
     | Some auth \<Rightarrow> Inr (zeroPlanNode\<lparr>tn_Name := nd_Name n, tn_PlanId := planId, tn_Role := (if nd_Role n \<noteq> [] then Split (nd_Role n) CHR '','' else []),
         tn_CRI := nd_CRI n, tn_Ip := nd_Ip n, tn_Auth := auth\<rparr>))"

definition renderPlan :: "int \<Rightarrow> Config option \<Rightarrow> Node list \<Rightarrow> goerr + PlanWithResources" where
  "renderPlan planId cfg ns =
     (case (case cfg of None \<Rightarrow> Inr zeroPlanConfig | Some o1 \<Rightarrow> (case modelConfig2Type o1 of Inl e \<Rightarrow> Inl e
              | Inr c \<Rightarrow> Inr (c\<lparr>tc_Id := 0, tc_ResourceVersion := 0, tc_GmtCreate := 0, tc_GmtModified := 0, tc_PlanId := planId\<rparr>))) of
       Inl e \<Rightarrow> Inl e
     | Inr c \<Rightarrow> (case mapErr (renderNode planId) ns of Inl e \<Rightarrow> Inl e
         | Inr nodes' \<Rightarrow> Inr \<lparr>pw_Plan = zeroTypesPlan\<lparr>tp_Id := planId\<rparr>, pw_Config = c, pw_Nodes = nodes'\<rparr>))"

section \<open>Handlers\<close>

record TaskData =
  td_PlanId :: int
  td_Plan :: Plan
  td_Config :: Config
  td_Nodes :: "Node list"

definition stepPrepare :: string where "stepPrepare = utf8 [0x524D, 0x7F6E, 0x51C6, 0x5907]"
definition stepRender :: string where "stepRender = utf8 [0x914D, 0x7F6E, 0x6E32, 0x67D3]"
definition stepCheck :: string where "stepCheck = utf8 [0x90E8, 0x7F72, 0x9884, 0x68C0, 0x67E5]"
definition stepBootStrap :: string where "stepBootStrap = utf8 [0x521D, 0x59CB, 0x5316, 0x90E8, 0x7F72, 0x73AF, 0x5883]"
definition stepMaster :: string where "stepMaster = utf8 [0x90E8, 0x7F72] @ ''Master''"
definition stepNode :: string where "stepNode = utf8 [0x90E8, 0x7F72] @ ''Node''"
definition stepRegister :: string where "stepRegister = utf8 [0x96C6, 0x7FA4, 0x6CE8, 0x518C]"
definition stepChart :: string where "stepChart = utf8 [0x90E8, 0x7F72, 0x57FA, 0x7840, 0x7EC4, 0x4EF6]"

lemmas step_names = stepPrepare_def stepRender_def stepCheck_def stepBootStrap_def stepMaster_def stepNode_def stepRegister_def stepChart_def

definition handlerOf :: "TaskData \<Rightarrow> string \<Rightarrow> string \<Rightarrow> int \<Rightarrow> ('w, goerr, unit) act \<Rightarrow> 'w Handler" where
  "handlerOf td name action step run = \<lparr>hd_PlanId = td_PlanId td, hd_Action = action, hd_Name = name, hd_Step = step, hd_Run = run\<rparr>"

definition Check :: "TaskData \<Rightarrow> ('m plan_db_scheme) Handler" where
  "Check td = handlerOf td stepCheck ''prechecks'' RunningPlanStep (ret ())"

definition updateRunnerStatus :: "int \<Rightarrow> int \<Rightarrow> ('m plan_db_scheme, goerr, unit) act" where
  "updateRunnerStatus runnerId status = runnerInternalUpdate runnerId [(''status'', ru_Status_update (\<lambda>_. status))]"

definition ensureImage :: "docker_env \<Rightarrow> string \<Rightarrow> Runner option \<Rightarrow> ('m plan_db_scheme, goerr, unit) act" where
  "ensureImage dk imageName obj = onResult (external (dk_client dk)) (\<lambda>err. fail (Wrapf ''create docker client'' err)) (\<lambda>_.
     onResult (external (dk_inspectImage dk imageName))
       (\<lambda>err. if \<not> dk_isErrNotFound dk err then fail (Wrapf ''inspect image'' err)
         else onResult (external (dk_pull dk imageName)) (\<lambda>err. fail (Wrapf ''pull image'' err)) (\<lambda>_.
           onResult (external (dk_copy dk)) (\<lambda>err. fail (Wrapf ''read pull output'' err)) (\<lambda>_.
             case obj of None \<Rightarrow> ret () | Some r \<Rightarrow> ignoring (updateRunnerStatus (Oid r) RunnerStatusInstalled))))
       (\<lambda>_. ret ()))"

definition runnerRun :: "docker_env \<Rightarrow> string \<Rightarrow> ('m plan_db_scheme, goerr, unit) act" where
  "runnerRun dk imageName = onResult (runnerGetBy [WithEngineImage ru_EngineImage imageName])
     (\<lambda>runnerErr. ensureImage dk imageName None)
     (\<lambda>obj. if ru_Status obj = RunnerStatusInstalled then ret ()
       else andThen (ignoring (updateRunnerStatus (Oid obj) RunnerStatusInstalling)) (\<lambda>_. ensureImage dk imageName (Some obj)))"

definition RunnerHandler :: "docker_env \<Rightarrow> TaskData \<Rightarrow> string \<Rightarrow> ('m plan_db_scheme) Handler" where
  "RunnerHandler dk td img = handlerOf td stepPrepare ''runner'' RunningPlanStep (runnerRun dk img)"

definition RenderHandler :: "render_env \<Rightarrow> TaskData \<Rightarrow> string \<Rightarrow> ('m plan_db_scheme) Handler" where
  "RenderHandler rd td dir = handlerOf td stepRender ''render'' RunningPlanStep
     (andThen (fromSum (renderPlan (td_PlanId td) (Some (td_Config td)) (td_Nodes td))) (\<lambda>plan. Render rd dir plan))"

text \<open>\<open>Run\<close> of the steps that are containers.\<close>

definition containerRun :: "docker_env \<Rightarrow> TaskData \<Rightarrow> string \<Rightarrow> string \<Rightarrow> string \<Rightarrow> ('m plan_db_scheme, goerr, unit) act" where
  "containerRun dk td action dir runner = andThen (NewContainer dk action (td_PlanId td) dir) (\<lambda>cli. StartAndWaitForContainer dk cli runner)"

definition BootStrap :: "docker_env \<Rightarrow> TaskData \<Rightarrow> string \<Rightarrow> string \<Rightarrow> ('m plan_db_scheme) Handler" where
  "BootStrap dk td dir runner = handlerOf td stepBootStrap ''bootstrap-servers'' RunningPlanStep (containerRun dk td ''bootstrap-servers'' dir runner)"

definition DeployMaster :: "docker_env \<Rightarrow> TaskData \<Rightarrow> string \<Rightarrow> string \<Rightarrow> ('m plan_db_scheme) Handler" where
  "DeployMaster dk td dir runner = handlerOf td stepMaster ''deploy-master'' RunningPlanStep (containerRun dk td ''deploy-master'' dir runner)"

definition DeployNode :: "docker_env \<Rightarrow> TaskData \<Rightarrow> string \<Rightarrow> string \<Rightarrow> ('m plan_db_scheme) Handler" where
  "DeployNode dk td dir runner = handlerOf td stepNode ''deploy-node'' RunningPlanStep (containerRun dk td ''deploy-node'' dir runner)"

definition DeployChart :: "docker_env \<Rightarrow> TaskData \<Rightarrow> string \<Rightarrow> string \<Rightarrow> ('m plan_db_scheme) Handler" where
  "DeployChart dk td dir runner = handlerOf td stepChart ''apply'' CompletedPlanStep (containerRun dk td ''apply'' dir runner)"

section \<open>Registration\<close>

definition KubeConfigFile :: string where "KubeConfigFile = ''/etc/kubernetes/admin.conf''"

definition SSHPort :: "PlanNodeAuth \<Rightarrow> int" where
  "SSHPort a = (if na_Port a < 1 \<or> na_Port a > 65535 then 22 else na_Port a)"

text \<open>\<open>net.JoinHostPort\<close>: a host with a colon is put in brackets.\<close>

definition JoinHostPort :: "string \<Rightarrow> string \<Rightarrow> string" where
  "JoinHostPort host port = (if CHR '':'' \<in> set host then ''['' @ host @ '']:'' @ port else host @ '':'' @ port)"

definition sshAuthOf :: "ssh_env \<Rightarrow> PlanNodeAuth \<Rightarrow> goerr + ssh_auth" where
  "sshAuthOf sh auth =
     (if na_Type auth = PasswordAuth then (case na_Password auth of None \<Rightarrow> Inl nilPanic | Some p \<Rightarrow> Inr (SshPassword (ps_User p) (ps_Password p)))
      else if na_Type auth = KeyAuth then (case na_Key auth of None \<Rightarrow> Inl nilPanic | Some k \<Rightarrow>
        (case sh_parseKey sh (ks_Data k) of Inl e \<Rightarrow> Inl e | Inr signer \<Rightarrow> Inr (SshSigner ''root'' signer)))
      else Inl (Errorf ''unsupported ssh auth type''))"

definition newSftpClient :: "ssh_env \<Rightarrow> Node \<Rightarrow> ('m plan_db_scheme, goerr, unit) act" where
  "newSftpClient sh node = (case PlanNodeAuth_Unmarshal (nd_Auth node) zeroPlanNodeAuth of None \<Rightarrow> fail unmarshalErr
     | Some auth \<Rightarrow> andThen (fromSum (sshAuthOf sh auth)) (\<lambda>cfg.
         andThen (external (sh_dial sh (JoinHostPort (nd_Ip node) (FormatInt (SSHPort auth))) cfg)) (\<lambda>_. external (sh_sftp sh))))"

definition getKubeConfigFromMasterNode :: "ssh_env \<Rightarrow> Node \<Rightarrow> ('m plan_db_scheme, goerr, string) act" where
  "getKubeConfigFromMasterNode sh node = andThen (newSftpClient sh node) (\<lambda>_.
     andThen (external (sh_open sh KubeConfigFile)) (\<lambda>_. external (sh_readAll sh)))"

fun firstKubeConfig :: "ssh_env \<Rightarrow> Node list \<Rightarrow> ('m plan_db_scheme, goerr, string) act" where
  "firstKubeConfig sh [] = ret []"
| "firstKubeConfig sh (n # ns) = onResult (getKubeConfigFromMasterNode sh n) (\<lambda>err. firstKubeConfig sh ns) ret"

definition isMaster :: "Node \<Rightarrow> bool" where "isMaster node \<longleftrightarrow> Contains (nd_Role node) MasterRole"

definition viewRules :: "PolicyRule list" where
  "viewRules = [\<lparr>pr_APIGroups = [''metrics.pixiu.io''], pr_Resources = [''api/dashboard''], pr_Verbs = [''get'', ''list'', ''watch'']\<rparr>,
     \<lparr>pr_APIGroups = [[]], pr_Resources = [''nodes''], pr_Verbs = [''get'', ''list'', ''watch'']\<rparr>]"

definition addPixiuClusterRole :: "kube_env \<Rightarrow> string \<Rightarrow> ('m plan_db_scheme, goerr, unit) act" where
  "addPixiuClusterRole kb kubeconfig = onResult (fromSum (kb_clusterSet kb kubeconfig)) (\<lambda>err. ret ()) (\<lambda>_.
     onResult (external (kb_getRole kb ''pixiu-view''))
       (\<lambda>_. onResult (external (kb_getRole kb ''view'')) (\<lambda>err. fail (Errorf ''failed to get the cluster roles'')) (\<lambda>rules.
          onResult (external (kb_createRole kb ''pixiu-view'' (rules @ viewRules))) (\<lambda>err. fail (Errorf ''failed to create the cluster role'')) ret))
       (\<lambda>_. ret ()))"

definition agentToken :: "plan_env \<Rightarrow> ('m plan_db_scheme, goerr, string) act" where
  "agentToken pv = onResult (tokenGenerate pv) (\<lambda>err. fail (Errorf ''failed to generate agent token'')) ret"

definition registerNew :: "worker_env \<Rightarrow> TaskData \<Rightarrow> string \<Rightarrow> ('m plan_db_scheme, goerr, unit) act" where
  "registerNew we td config64 = andThen (NewRandName (we_plan we) 8) (\<lambda>name.
     let obj = newCluster name (pl_Name (td_Plan td)) (td_PlanId td) (pl_UserId (td_Plan td)) ClusterStatusDeploy config64
     in andThen (if pl_ExecMode (td_Plan td) = PlanExecModeAgent
                 then andThen (agentToken (we_plan we)) (\<lambda>tok. ret (obj\<lparr>clu_ConnectMode := ConnectModeTunnel, clu_AgentToken := tok\<rparr>))
                 else ret obj) (\<lambda>obj.
        onResult (clusterCreate obj []) (\<lambda>err. fail (Errorf ''failed to create cluster for plan'')) (\<lambda>_. ret ())))"

definition registerExisting :: "worker_env \<Rightarrow> TaskData \<Rightarrow> string \<Rightarrow> Cluster \<Rightarrow> ('m plan_db_scheme, goerr, unit) act" where
  "registerExisting we td config64 old =
     andThen (if pl_ExecMode (td_Plan td) \<noteq> PlanExecModeAgent then ret []
              else andThen (if clu_AgentToken old = []
                            then andThen (agentToken (we_plan we)) (\<lambda>tok. ret [(''agent_token'', clu_AgentToken_update (\<lambda>_. tok))])
                            else ret []) (\<lambda>more. ret ((''connect_mode'', clu_ConnectMode_update (\<lambda>_. ConnectModeTunnel)) # more))) (\<lambda>more.
       UpdateByPlan (td_PlanId td) ((''kube_config'', clu_KubeConfig_update (\<lambda>_. config64)) # more))"

definition finishWithKubeConfig :: "worker_env \<Rightarrow> TaskData \<Rightarrow> string \<Rightarrow> ('m plan_db_scheme, goerr, unit) act" where
  "finishWithKubeConfig we td config64 =
     onResult (clusterList [WithUser clu_UserId (pl_UserId (td_Plan td)), WithPlan clu_PlanId (td_PlanId td)])
       (\<lambda>err. fail (Errorf ''get clusters error''))
       (\<lambda>objs. andThen (case objs of [] \<Rightarrow> registerNew we td config64 | old # _ \<Rightarrow> registerExisting we td config64 old) (\<lambda>_.
          ignoring (addPixiuClusterRole (we_kube we) config64)))"

definition registerRun :: "worker_env \<Rightarrow> TaskData \<Rightarrow> ('m plan_db_scheme, goerr, unit) act" where
  "registerRun we td = (case KubernetesSpec_Unmarshal (cf_Kubernetes (td_Config td)) zeroKubernetesSpec of None \<Rightarrow> fail unmarshalErr
     | Some ks \<Rightarrow> andThen (firstKubeConfig (we_ssh we) (filter isMaster (td_Nodes td))) (\<lambda>kubeConfig.
         if kubeConfig = [] then fail (Errorf ''get the empty kubeconfig from master nodes'')
         else finishWithKubeConfig we td (base64Encode kubeConfig)))"

definition Register :: "worker_env \<Rightarrow> TaskData \<Rightarrow> ('m plan_db_scheme) Handler" where
  "Register we td = handlerOf td stepRegister ''register'' RunningPlanStep (registerRun we td)"

end
