(* ===== verification/PlanWorker.thy ===== *)
theory PlanWorker
  imports PlanHandlers
begin

text \<open>
  The worker of the deployments (\<open>pkg/controller/plan/{worker,agent_job}.go\<close>): the steps that are handed to a
  deployment agent as jobs, the loop that waits for a job, the two lists of steps, and \<open>syncHandler\<close>.
\<close>

section \<open>Jobs\<close>

record AgentJob =
  aj_agentId :: int
  aj_stepName :: string
  aj_step :: int
  aj_kind :: string
  aj_action :: string
  aj_image :: string
  aj_payload :: string
  aj_timeout :: int

definition second :: int where "second = 1000000000"
definition minute :: int where "minute = 60 * second"
definition defaultJobTimeout :: int where "defaultJobTimeout = 60 * minute"
definition jobPollInterval :: int where "jobPollInterval = 2 * second"

definition newJob :: "TaskData \<Rightarrow> AgentJob \<Rightarrow> Job" where
  "newJob td a = pixiu_model.extend newModel
     \<lparr>jb_PlanId = td_PlanId td, jb_AgentId = aj_agentId a, jb_TaskName = aj_stepName a, jb_Kind = aj_kind a, jb_Action = aj_action a,
      jb_Image = aj_image a, jb_Payload = aj_payload a, jb_Status = JobPending, jb_Message = [], jb_Logs = [], jb_Result = [], jb_ClaimedAt = None\<rparr>"

text \<open>\<open>time.Sleep(jobPollInterval)\<close>: the agents work on the table of jobs meanwhile.\<close>

definition pollSleep :: "worker_env \<Rightarrow> ('m plan_db_scheme, 'e, unit) act" where
  "pollSleep we = (\<lambda>w. (Inr (), w\<lparr>tick := Suc (tick w), jobs := we_agents we (tick w) (jobs w)\<rparr>))"

definition expireJob :: "int \<Rightarrow> ('m plan_db_scheme, 'e, unit) act" where
  "expireJob jobId = ignoring (jobInternalUpdate jobId
     [(''status'', jb_Status_update (\<lambda>_. JobFailed)), (''message'', jb_Message_update (\<lambda>_. ''wait agent timeout''))])"

text \<open>
  One turn of the loop: \<open>Inl err\<close> to return the error, \<open>Inr (Some result)\<close> when the job has succeeded, and
  \<open>Inr None\<close> to look again after a sleep.
\<close>

definition pollJob :: "int \<Rightarrow> int \<Rightarrow> ('m plan_db_scheme, goerr, string option) act" where
  "pollJob jobId deadline = andThen timeNow (\<lambda>now.
     if deadline < now then andThen (expireJob jobId) (\<lambda>_. fail (Errorf ''wait deploy job timeout''))
     else andThen (jobGet jobId) (\<lambda>found. case found of
         None \<Rightarrow> fail (Errorf ''deploy job disappeared'')
       | Some cur \<Rightarrow>
           if jb_Status cur = JobSuccess then ret (Some (jb_Result cur))
           else if jb_Status cur = JobFailed then fail (Errorf (if jb_Message cur \<noteq> [] then jb_Message cur else ''deploy job failed''))
           else ret None))"

text \<open>The loop has no bound of its own; \<open>None\<close> is a loop that is still running when the fuel is used up.\<close>

fun awaitJob :: "nat \<Rightarrow> worker_env \<Rightarrow> int \<Rightarrow> int \<Rightarrow> 'm plan_db_scheme \<Rightarrow> ((goerr + string) \<times> 'm plan_db_scheme) option" where
  "awaitJob 0 we jobId deadline w = None"
| "awaitJob (Suc n) we jobId deadline w = (case pollJob jobId deadline w of (r, w1) \<Rightarrow> (case r of
     Inl err \<Rightarrow> Some (Inl err, w1)
   | Inr (Some result) \<Rightarrow> Some (Inr result, w1)
   | Inr None \<Rightarrow> awaitJob n we jobId deadline (snd (pollSleep we w1 :: (goerr + unit) \<times> _))))"

definition jobTimeout :: "AgentJob \<Rightarrow> int" where
  "jobTimeout a = (if aj_timeout a \<le> 0 then defaultJobTimeout else aj_timeout a)"

definition pollBound :: "int \<Rightarrow> nat" where
  "pollBound timeout = nat (timeout div jobPollInterval) + 3"

definition awaitAct :: "worker_env \<Rightarrow> int \<Rightarrow> int \<Rightarrow> ('m plan_db_scheme, goerr, string) act" where
  "awaitAct we jobId timeout = andThen timeNow (\<lambda>now. \<lambda>w.
     case awaitJob (pollBound timeout) we jobId (now + timeout) w of None \<Rightarrow> (Inl (Errorf ''the loop is still running''), w) | Some r \<Rightarrow> r)"

definition agentJobRun :: "worker_env \<Rightarrow> TaskData \<Rightarrow> AgentJob \<Rightarrow> (string \<Rightarrow> ('m plan_db_scheme, goerr, unit) act) \<Rightarrow> ('m plan_db_scheme, goerr, unit) act" where
  "agentJobRun we td a onSuccess = onResult (jobCreate (newJob td a)) (\<lambda>err. fail (Wrapf ''create deploy job'' err)) (\<lambda>job.
     andThen (awaitAct we (Oid job) (jobTimeout a)) onSuccess)"

definition AgentJobHandler :: "worker_env \<Rightarrow> TaskData \<Rightarrow> AgentJob \<Rightarrow> (string \<Rightarrow> ('m plan_db_scheme, goerr, unit) act) \<Rightarrow> ('m plan_db_scheme) Handler" where
  "AgentJobHandler we td a onSuccess = handlerOf td (aj_stepName a) (aj_action a) (aj_step a) (agentJobRun we td a onSuccess)"

text \<open>The masters for the agent; no master at all is a nil slice, which JSON prints as null.\<close>

definition nodeAuthJson :: "Node \<Rightarrow> json" where
  "nodeAuthJson n = JObj [(''name'', JStr (nd_Name n)), (''ip'', JStr (nd_Ip n)), (''role'', JStr (nd_Role n)), (''auth'', JStr (nd_Auth n))]"

definition buildRegisterPayload :: "Node list \<Rightarrow> string" where
  "buildRegisterPayload ns = (let masters = map nodeAuthJson (filter isMaster ns)
     in jsonPrint (JObj [(''masters'', if masters = [] then JNull else JArr masters)]))"

section \<open>The lists of steps\<close>

definition buildLocalHandlers :: "worker_env \<Rightarrow> TaskData \<Rightarrow> string \<Rightarrow> ('m plan_db_scheme) Handler list" where
  "buildLocalHandlers we td runner = (let dk = we_docker we; dir = we_workDir we in
     [RunnerHandler dk td runner, RenderHandler (we_render we) td dir, Check td, BootStrap dk td dir runner, DeployMaster dk td dir runner,
      DeployNode dk td dir runner, Register we td, DeployChart dk td dir runner])"

definition agentJobOf :: "int \<Rightarrow> string \<Rightarrow> int \<Rightarrow> string \<Rightarrow> string \<Rightarrow> string \<Rightarrow> int \<Rightarrow> AgentJob" where
  "agentJobOf agentId name step kind action img timeout = \<lparr>aj_agentId = agentId, aj_stepName = name, aj_step = step, aj_kind = kind,
     aj_action = action, aj_image = img, aj_payload = [], aj_timeout = timeout\<rparr>"

definition buildAgentHandlers :: "worker_env \<Rightarrow> TaskData \<Rightarrow> string \<Rightarrow> ('m plan_db_scheme) Handler list" where
  "buildAgentHandlers we td runner =
     (let agentId = pl_DeployAgentId (td_Plan td); job = (\<lambda>a. AgentJobHandler we td a (\<lambda>_. ret ()))
      in [Check td,
          job (agentJobOf agentId stepPrepare RunningPlanStep JobPullImage ''pull_image'' runner (30 * minute)),
          job (agentJobOf agentId stepRender RunningPlanStep JobRenderConfig ''render'' runner (10 * minute)),
          job (agentJobOf agentId stepBootStrap RunningPlanStep JobRunContainer ''bootstrap-servers'' runner (30 * minute)),
          job (agentJobOf agentId stepMaster RunningPlanStep JobRunContainer ''deploy-master'' runner (60 * minute)),
          job (agentJobOf agentId stepNode RunningPlanStep JobRunContainer ''deploy-node'' runner (60 * minute)),
          AgentJobHandler we td ((agentJobOf agentId stepRegister RunningPlanStep JobFetchKubeconfig ''register'' [] (15 * minute))
              \<lparr>aj_payload := buildRegisterPayload (td_Nodes td)\<rparr>) (\<lambda>result. finishWithKubeConfig we td result),
          job (agentJobOf agentId stepChart CompletedPlanStep JobRunContainer ''apply'' runner (60 * minute))])"

definition buildHandlers :: "worker_env \<Rightarrow> TaskData \<Rightarrow> string \<Rightarrow> ('m plan_db_scheme) Handler list" where
  "buildHandlers we td runner = (if pl_ExecMode (td_Plan td) = PlanExecModeAgent then buildAgentHandlers we td runner else buildLocalHandlers we td runner)"

section \<open>The worker\<close>

definition getTaskData :: "int \<Rightarrow> ('m plan_db_scheme, goerr, TaskData) act" where
  "getTaskData planId = andThen (planGet planId) (\<lambda>pp. andThen (dbListNodes planId []) (\<lambda>ns. andThen (GetConfigByPlan planId) (\<lambda>cfg.
     ret \<lparr>td_PlanId = planId, td_Plan = pp, td_Config = cfg, td_Nodes = ns\<rparr>)))"

definition updateClusterStatus :: "int \<Rightarrow> int \<Rightarrow> ('m plan_db_scheme, goerr, unit) act" where
  "updateClusterStatus planId status = ignoring (UpdateByPlan planId [(''status'', clu_ClusterStatus_update (\<lambda>_. status))])"

definition syncHandler :: "worker_env \<Rightarrow> int \<Rightarrow> ('m plan_db_scheme, goerr, unit) act" where
  "syncHandler we planId = andThen (updateClusterStatus planId ClusterStatusDeploy) (\<lambda>_.
     onResult (getTaskData planId) (\<lambda>err. ret ()) (\<lambda>td.
     onResult (GetRunner (cf_OSImage (td_Config td))) (\<lambda>err. ret ()) (\<lambda>runner.
     andThen (attempt (syncTasks (pv_errText (we_plan we)) (buildHandlers we td runner))) (\<lambda>r.
       updateClusterStatus planId (if isl r then ClusterStatusFailed else ClusterStatusRunning)))))"

text \<open>\<open>process\<close>: one key of the work queue.\<close>

definition processKey :: "worker_env \<Rightarrow> ('m plan_db_scheme, goerr, bool) act" where
  "processKey we = andThen (gets queue_adds) (\<lambda>q. case q of [] \<Rightarrow> ret False
     | key # rest \<Rightarrow> andThen (modify (queue_adds_update (\<lambda>_. rest))) (\<lambda>_.
         andThen (syncHandler we key) (\<lambda>_. ret True)))"

end
