(* ===== verification/PlanTaskProps.thy ===== *)
theory PlanTaskProps
  imports PlanWorker
begin

text \<open>
  What the task loop does when the database answers: the steps run in order up to the first that fails, and the
  rows of the tasks and of the plan say what happened.
\<close>

section \<open>What a reader of the tables sees\<close>

definition taskView :: "Task \<Rightarrow> Task" where
  "taskView r = r\<lparr>GmtCreate := 0, GmtModified := 0\<rparr>"

definition planView :: "Plan \<Rightarrow> Plan" where
  "planView p = p\<lparr>GmtCreate := 0, GmtModified := 0\<rparr>"

definition taskViews :: "'m plan_db_scheme \<Rightarrow> Task list" where
  "taskViews w = map taskView (rows (tasks w))"

definition planViews :: "'m plan_db_scheme \<Rightarrow> Plan list" where
  "planViews w = map planView (rows (plans w))"

text \<open>The outcome of a step in the row of its task, the status of a plan in its row.\<close>

definition recordOutcome :: "(goerr \<Rightarrow> string) \<Rightarrow> 'w Handler \<Rightarrow> goerr + unit \<Rightarrow> Task \<Rightarrow> Task" where
  "recordOutcome errText h r row = (if tk_PlanId row = hd_PlanId h \<and> tk_Name row = hd_Name h then
     (case r of Inl e \<Rightarrow> row\<lparr>tk_Status := FailedPlanStatus, tk_Message := errText e, tk_Step := FailedPlanStep\<rparr>
      | Inr _ \<Rightarrow> row\<lparr>tk_Status := SuccessPlanStatus, tk_Message := successMessage, tk_Step := hd_Step h\<rparr>) else row)"

definition setPlanStatus :: "int \<Rightarrow> string \<Rightarrow> Plan \<Rightarrow> Plan" where
  "setPlanStatus pid status p = (if Oid p = pid then p\<lparr>pl_Status := status\<rparr> else p)"

definition databaseUp :: "'m plan_db_scheme \<Rightarrow> bool" where
  "databaseUp w \<longleftrightarrow> fault w = (\<lambda>_. None)"

text \<open>The unique index on the names of plans.\<close>

definition planNamesUnique :: "Plan list \<Rightarrow> bool" where
  "planNamesUnique ps \<longleftrightarrow> (\<forall>p \<in> set ps. \<forall>q \<in> set ps. Oid p \<noteq> Oid q \<longrightarrow> pl_Name p \<noteq> pl_Name q)"

text \<open>\<open>Run\<close> of a step works on other tables.\<close>

definition leavesTasks :: "('m plan_db_scheme) Handler \<Rightarrow> bool" where
  "leavesTasks h \<longleftrightarrow> (\<forall>w. tasks (snd (hd_Run h w)) = tasks w \<and> plans (snd (hd_Run h w)) = plans w \<and> fault (snd (hd_Run h w)) = fault w)"

section \<open>The statements\<close>

lemma taskView_sel [simp]: "tk_Name (taskView r) = tk_Name r" "tk_PlanId (taskView r) = tk_PlanId r" "tk_Status (taskView r) = tk_Status r"
  by (simp_all add: taskView_def)

lemma planView_sel [simp]: "Oid (planView r) = Oid r" "pl_Name (planView r) = pl_Name r" "pl_Status (planView r) = pl_Status r"
  by (simp_all add: planView_def)

lemma planNamesUnique_view: "planNamesUnique (map planView ps) = planNamesUnique ps"
  by (simp add: planNamesUnique_def)

lemma setPlanStatus_sel [simp]: "Oid (setPlanStatus pid s p) = Oid p" "pl_Name (setPlanStatus pid s p) = pl_Name p"
  by (simp_all add: setPlanStatus_def)

lemma planNamesUnique_set [simp]: "planNamesUnique (map (setPlanStatus pid s) ps) = planNamesUnique ps"
  by (simp add: planNamesUnique_def)

lemma wp_UpdateTask_up:
  assumes up: "databaseUp w"
    and ex: "\<exists>r \<in> set (rows (tasks w)). tk_PlanId r = pid \<and> tk_Name r = name \<and> applyUpdates us r \<noteq> r"
    and stays: "\<And>r. tk_PlanId (applyUpdates us r) = tk_PlanId r" "\<And>r. tk_Name (applyUpdates us r) = tk_Name r"
    and Q: "\<And>t w'. tasks w' = updTable (\<lambda>r. tk_PlanId r = pid \<and> tk_Name r = name) us (tasks w) \<Longrightarrow> plans w' = plans w \<Longrightarrow> databaseUp w' \<Longrightarrow> Q t w'"
  shows "wp (UpdateTask pid name us) Q E w"
proof -
  let ?P = "\<lambda>r. tk_PlanId r = pid \<and> tk_Name r = name"
  from ex have "changedRows ?P us (tasks w) \<noteq> []" by (auto simp: changedRows_def filter_empty_conv updRow_def)
  moreover have "find ?P (rows (updTable ?P us (tasks w))) \<noteq> None"
    using ex stays by (auto simp: find_None_iff updTable_def updRow_def)
  ultimately show ?thesis using up
    by (auto simp: UpdateTask_def GetTaskByName_def wp_simps Let_def databaseUp_def tasks_t_def updConflict_def
        list_ex_iff intro!: Q split: option.splits)
qed

lemma wp_planUpdateStatus_up:
  assumes up: "databaseUp w" and names: "planNamesUnique (planViews w)"
    and Q: "\<And>w'. tasks w' = tasks w \<Longrightarrow> planViews w' = map (setPlanStatus pid status) (planViews w) \<Longrightarrow> databaseUp w' \<Longrightarrow> Q () w'"
  shows "wp (planUpdateStatus pid status) Q E w"
proof -
  define us :: "int \<Rightarrow> Plan updates" where "us now = [(''status'', pl_Status_update (\<lambda>_. status)), (''gmt_modified'', GmtModified_update (\<lambda>_. now))]" for now :: int
  have keep: "Oid (updRow (\<lambda>r. Oid r = pid) (us now) r) = Oid r" "pl_Name (updRow (\<lambda>r. Oid r = pid) (us now) r) = pl_Name r" for now r
    by (simp_all add: updRow_def applyUpdates_def us_def)
  have nc: "\<not> updConflict (tuniq (plans_t :: ('m plan_db_scheme, Plan) tref)) (\<lambda>r. Oid r = pid) (us now) (plans w)" for now
    using names unfolding planViews_def planNamesUnique_view
    by (auto simp: updConflict_def list_ex_iff plans_t_def keep planNamesUnique_def changedRows_def)
  have view: "map planView (rows (updTable (\<lambda>r. Oid r = pid) (us now) T)) = map (setPlanStatus pid status) (map planView (rows T))" for now T
    by (simp add: updTable_def updRow_def applyUpdates_def us_def planView_def setPlanStatus_def)
  show ?thesis using up nc
    by (auto simp: planUpdateStatus_def wp_simps Let_def databaseUp_def us_def [symmetric] plans_t_def planViews_def view intro!: Q)
qed

section \<open>One step\<close>

lemma views_upd [simp]:
  "taskViews (task_items_update f w) = taskViews w" "planViews (task_items_update f w) = planViews w" "databaseUp (task_items_update f w) = databaseUp w"
  "taskViews (w\<lparr>tick := n\<rparr>) = taskViews w" "planViews (w\<lparr>tick := n\<rparr>) = planViews w" "databaseUp (w\<lparr>tick := n\<rparr>) = databaseUp w"
  by (simp_all add: taskViews_def planViews_def databaseUp_def)

lemma views_of_tasks: "tasks w = tasks w' \<Longrightarrow> taskViews w = taskViews w'"
  by (simp add: taskViews_def)

lemma taskView_recordOutcome: "taskView (recordOutcome et h r row) = recordOutcome et h r (taskView row)"
  by (simp add: recordOutcome_def taskView_def split: sum.split)

lemma startUpdates_row: "applyUpdates (startUpdates now) r = r\<lparr>tk_Status := RunningPlanStatus, tk_Message := [], GmtCreate := now\<rparr>"
  by (simp add: startUpdates_def applyUpdates_def)

lemma endUpdates_row: "applyUpdates (endUpdates s m st now) r = r\<lparr>tk_Status := s, tk_Message := m, tk_Step := st, GmtModified := now\<rparr>"
  by (simp add: endUpdates_def applyUpdates_def)

lemma hdRun_wp: "leavesTasks h \<Longrightarrow> databaseUp w \<Longrightarrow>
    wp (attempt (hd_Run h)) (\<lambda>r w'. (\<exists>v. fst (hd_Run h v) = r) \<and> tasks w' = tasks w \<and> plans w' = plans w \<and> databaseUp w') E w"
  unfolding leavesTasks_def databaseUp_def wp_attempt
  by (rule wpI) (metis fst_conv snd_conv)+

lemma wp_setByTask: "wp (setByTask pid t) Q E w = Q () (task_items_update (\<lambda>c. taskSetByTask (clock w (tick w)) c pid t) (w\<lparr>tick := Suc (tick w)\<rparr>))"
  by (simp add: setByTask_def wp_simps)

definition taskRan :: "(goerr \<Rightarrow> string) \<Rightarrow> ('m plan_db_scheme) Handler \<Rightarrow> bool \<Rightarrow> 'm plan_db_scheme \<Rightarrow> goerr + unit \<Rightarrow> 'm plan_db_scheme \<Rightarrow> bool" where
  "taskRan et h isLast w r w' \<longleftrightarrow> databaseUp w' \<and> (\<exists>v. fst (hd_Run h v) = r) \<and> taskViews w' = map (recordOutcome et h r) (taskViews w)
     \<and> planViews w' = (if isl r then map (setPlanStatus (hd_PlanId h) FailedPlanStatus) (planViews w)
                       else if isLast then map (setPlanStatus (hd_PlanId h) SuccessPlanStatus) (planViews w) else planViews w)"

lemma taskViews_updTable: "(\<And>r. taskView (updRow P us r) = f (taskView r)) \<Longrightarrow> map taskView (rows (updTable P us T)) = map f (map taskView (rows T))"
  by (simp add: updTable_def)

text \<open>The end of a step: the status of the plan, the cache, the error.\<close>

lemma wp_taskTail:
  assumes up: "databaseUp w" and names: "planNamesUnique (planViews w)"
    and fin: "\<And>w'. taskViews w' = taskViews w \<Longrightarrow> databaseUp w' \<Longrightarrow>
      planViews w' = (if isl r then map (setPlanStatus pid FailedPlanStatus) (planViews w)
        else if isLast then map (setPlanStatus pid SuccessPlanStatus) (planViews w) else planViews w) \<Longrightarrow>
      (case r of Inl e \<Rightarrow> E e w' | Inr _ \<Rightarrow> Q () w')"
  shows "wp (if (if isl r then FailedPlanStatus else SuccessPlanStatus) = FailedPlanStatus \<or>
        (if isl r then FailedPlanStatus else SuccessPlanStatus) = SuccessPlanStatus \<and> isLast
      then planUpdateStatus pid (if isl r then FailedPlanStatus else SuccessPlanStatus) else ret ())
    (\<lambda>_. wp (setByTask pid t) (\<lambda>_. wp (case r of Inl e \<Rightarrow> fail e | Inr _ \<Rightarrow> ret ()) Q E) E) E w"
proof -
  let ?status = "if isl r then FailedPlanStatus else SuccessPlanStatus"
  have tail: "wp (setByTask pid t) (\<lambda>_. wp (case r of Inl e \<Rightarrow> fail e | Inr _ \<Rightarrow> ret ()) Q E) E w'"
    if "taskViews w' = taskViews w" "databaseUp w'" "planViews w' = (if isl r then map (setPlanStatus pid FailedPlanStatus) (planViews w)
        else if isLast then map (setPlanStatus pid SuccessPlanStatus) (planViews w) else planViews w)" for w'
    using fin [of "task_items_update f (w'\<lparr>tick := n\<rparr>)" for f n] that
    by (auto simp: wp_setByTask wp_simps split: sum.splits)
  show ?thesis
  proof (cases "isl r \<or> isLast")
    case True
    then show ?thesis
      by (auto simp: wp_if intro!: wp_planUpdateStatus_up [OF up names] tail intro: views_of_tasks)
  next
    case False
    then show ?thesis using up by (auto simp: wp_if wp_ret intro!: tail)
  qed
qed

lemma wp_runTask:
  assumes up: "databaseUp w" and names: "planNamesUnique (planViews w)" and quiet: "leavesTasks h"
    and ex: "\<exists>r \<in> set (taskViews w). tk_PlanId r = hd_PlanId h \<and> tk_Name r = hd_Name h"
    and idle: "\<forall>r \<in> set (taskViews w). tk_PlanId r = hd_PlanId h \<longrightarrow> tk_Name r = hd_Name h \<longrightarrow> tk_Status r \<noteq> RunningPlanStatus"
  shows "wp (runTask et isLast h) (\<lambda>_ w'. taskRan et h isLast w (Inr ()) w') (\<lambda>e w'. taskRan et h isLast w (Inl e) w') w"
proof -
  let ?P = "\<lambda>r. tk_PlanId r = hd_PlanId h \<and> tk_Name r = hd_Name h"
  from ex obtain r0 where r0: "r0 \<in> set (rows (tasks w))" "?P r0" by (auto simp: taskViews_def)
  have changed: "applyUpdates (startUpdates now) r0 \<noteq> r0" for now
  proof
    assume "applyUpdates (startUpdates now) r0 = r0"
    then have "tk_Status (applyUpdates (startUpdates now) r0) = tk_Status r0" by simp
    with idle r0 show False by (auto simp: startUpdates_row taskViews_def)
  qed
  have ended: "applyUpdates (endUpdates s m st now2) (applyUpdates (startUpdates now) r0) \<noteq> applyUpdates (startUpdates now) r0"
    if "s = FailedPlanStatus \<or> s = SuccessPlanStatus" for s m st now2 now
  proof
    assume "applyUpdates (endUpdates s m st now2) (applyUpdates (startUpdates now) r0) = applyUpdates (startUpdates now) r0"
    then have "tk_Status (applyUpdates (endUpdates s m st now2) (applyUpdates (startUpdates now) r0)) = tk_Status (applyUpdates (startUpdates now) r0)" by simp
    with that show False by (auto simp: endUpdates_row startUpdates_row)
  qed
  have both: "map taskView (rows (updTable ?P (endUpdates (if isl r then FailedPlanStatus else SuccessPlanStatus)
        (case r of Inl e \<Rightarrow> et e | Inr _ \<Rightarrow> successMessage) (if isl r then FailedPlanStep else hd_Step h) now2) (updTable ?P (startUpdates now) (tasks w))))
      = map (recordOutcome et h r) (taskViews w)" for r :: "goerr + unit" and now now2
    by (auto simp: updTable_def updRow_def startUpdates_row endUpdates_row taskViews_def taskView_def recordOutcome_def split: sum.splits)
  show ?thesis
    unfolding runTask_def wp_andThen wp_timeNow Let_def
  proof (rule wp_UpdateTask_up, goal_cases)
    case 2 show ?case using r0 changed by auto
  next
    case (5 t w1)
    show ?case unfolding wp_setByTask
    proof (rule wp_mono [OF hdRun_wp [OF quiet]], goal_cases)
      case 1 show ?case using 5(3) by (simp add: databaseUp_def)
    next
      case (2 r w2)
      with 5 have w2: "tasks w2 = updTable ?P (startUpdates (clock w (tick w))) (tasks w)" "plans w2 = plans w" "databaseUp w2" "\<exists>v. fst (hd_Run h v) = r" by auto
      show ?case
      proof (rule wp_UpdateTask_up, goal_cases)
        case 2
        have "updRow ?P (startUpdates (clock w (tick w))) r0 \<in> set (rows (tasks w2))" using r0 w2(1) by (auto simp: updTable_def)
        then show ?case using r0 ended by (intro bexI) (auto simp: updRow_def startUpdates_row split: if_splits)
      next
        case (5 t' w3)
        then have w3: "taskViews w3 = map (recordOutcome et h r) (taskViews w)" "planViews w3 = planViews w" "databaseUp w3"
          using w2 both [of r] by (simp_all add: taskViews_def planViews_def)
        show ?case
          by (rule wp_taskTail [OF w3(3), unfolded wp_setByTask])
            (use names w3 w2(4) in \<open>auto simp: taskRan_def split: sum.split\<close>)
      qed (use w2 in \<open>simp_all add: databaseUp_def endUpdates_row\<close>)
    qed simp
  qed (use up in \<open>simp_all add: databaseUp_def startUpdates_row\<close>)
qed

section \<open>The loop\<close>

text \<open>What the rows of the tasks say after a number of steps with their results.\<close>

definition recordAll :: "(goerr \<Rightarrow> string) \<Rightarrow> 'w Handler list \<Rightarrow> (goerr + unit) list \<Rightarrow> Task \<Rightarrow> Task" where
  "recordAll et hs rs row = foldl (\<lambda>row (h, r). recordOutcome et h r row) row (zip hs rs)"

text \<open>The results of a run: every step but the last performed one succeeded, and the run stops short only at a failure.\<close>

definition runResults :: "'w Handler list \<Rightarrow> (goerr + unit) list \<Rightarrow> bool" where
  "runResults hs rs \<longleftrightarrow> rs \<noteq> [] \<and> length rs \<le> length hs \<and> (\<forall>r \<in> set (butlast rs). \<not> isl r) \<and> (length rs < length hs \<longrightarrow> isl (last rs))
     \<and> (\<forall>(h, r) \<in> set (zip hs rs). \<exists>v. fst (hd_Run h v) = r)"

definition tasksRan :: "(goerr \<Rightarrow> string) \<Rightarrow> int \<Rightarrow> ('m plan_db_scheme) Handler list \<Rightarrow> 'm plan_db_scheme \<Rightarrow> goerr + unit \<Rightarrow> 'm plan_db_scheme \<Rightarrow> bool" where
  "tasksRan et pid hs w r w' \<longleftrightarrow> (\<exists>rs. runResults hs rs \<and> r = last rs \<and> taskViews w' = map (recordAll et hs rs) (taskViews w)
     \<and> planViews w' = map (setPlanStatus pid (if isl r then FailedPlanStatus else SuccessPlanStatus)) (planViews w))"

lemma runResults_one: "runResults (h # hs) [r] \<longleftrightarrow> (\<exists>v. fst (hd_Run h v) = r) \<and> (hs \<noteq> [] \<longrightarrow> isl r)"
  by (cases hs) (auto simp: runResults_def)

lemma runResults_Cons: "runResults hs rs \<Longrightarrow> \<exists>v. fst (hd_Run h v) = Inr () \<Longrightarrow> runResults (h # hs) (Inr () # rs)"
  by (auto simp: runResults_def)

lemma recordAll_Cons: "recordAll et (h # hs) (r # rs) = recordAll et hs rs \<circ> recordOutcome et h r"
  by (simp add: recordAll_def fun_eq_iff)

lemma recordOutcome_sel [simp]:
  "tk_PlanId (recordOutcome et h r row) = tk_PlanId row" "tk_Name (recordOutcome et h r row) = tk_Name row"
  "tk_Name row \<noteq> hd_Name h \<Longrightarrow> recordOutcome et h r row = row"
  by (auto simp: recordOutcome_def split: sum.split)

definition rowsReady :: "int \<Rightarrow> 'w Handler list \<Rightarrow> Task list \<Rightarrow> bool" where
  "rowsReady pid hs ts \<longleftrightarrow> (\<forall>h \<in> set hs. hd_PlanId h = pid \<and> (\<exists>r \<in> set ts. tk_PlanId r = pid \<and> tk_Name r = hd_Name h)
     \<and> (\<forall>r \<in> set ts. tk_PlanId r = pid \<longrightarrow> tk_Name r = hd_Name h \<longrightarrow> tk_Status r \<noteq> RunningPlanStatus))"

lemma rowsReady_tl:
  assumes "rowsReady pid (h # hs) ts" and "hd_Name h \<notin> hd_Name ` set hs"
  shows "rowsReady pid hs (map (recordOutcome et h r) ts)"
proof -
  have "recordOutcome et h r row = row" if "g \<in> set hs" "tk_Name row = hd_Name g" for g row
    using that assms(2) by (intro recordOutcome_sel) (metis imageI)
  then show ?thesis using assms(1) unfolding rowsReady_def by fastforce
qed

lemma wp_runTasks:
  assumes "hs \<noteq> []" and "databaseUp w" and "planNamesUnique (planViews w)" and "\<And>h. h \<in> set hs \<Longrightarrow> leavesTasks h"
    and "rowsReady pid hs (taskViews w)" and "distinct (map hd_Name hs)"
  shows "wp (runTasks et hs) (\<lambda>_. tasksRan et pid hs w (Inr ())) (\<lambda>e. tasksRan et pid hs w (Inl e)) w"
  using assms
proof (induction hs arbitrary: w)
  case Nil
  then show ?case by simp
next
  case (Cons h hs)
  have h: "hd_PlanId h = pid" using Cons.prems(5) by (simp add: rowsReady_def)
  have one: "tasksRan et pid (h # hs) w r w'" if "taskRan et h (hs = []) w r w'" "isl r \<or> hs = []" for r w'
    using that h unfolding tasksRan_def taskRan_def
    by (intro exI [of _ "[r]"]) (auto simp: runResults_one recordAll_def)
  have more: "tasksRan et pid (h # hs) w r w'" if "taskRan et h False w (Inr ()) w1" "tasksRan et pid hs w1 r w'" for r w1 w'
  proof -
    from that(2) obtain rs where rs: "runResults hs rs" "r = last rs" "taskViews w' = map (recordAll et hs rs) (taskViews w1)"
      "planViews w' = map (setPlanStatus pid (if isl r then FailedPlanStatus else SuccessPlanStatus)) (planViews w1)"
      unfolding tasksRan_def by blast
    with that(1) show ?thesis unfolding tasksRan_def taskRan_def
      by (intro exI [of _ "Inr () # rs"]) (auto simp: recordAll_Cons runResults_Cons runResults_def)
  qed
  show ?case
    unfolding runTasks.simps wp_andThen
  proof (rule wp_mono [OF wp_runTask], goal_cases)
    case (6 x w1)
    then have ran: "taskRan et h (hs = []) w (Inr ()) w1" by simp
    show ?case
    proof (cases "hs = []")
      case True
      with one [OF ran] show ?thesis by (simp add: wp_simps)
    next
      case False
      with ran have ran: "taskRan et h False w (Inr ()) w1" by simp
      show ?thesis
        by (rule wp_mono [OF Cons.IH [OF False]])
          (use ran Cons.prems more [OF ran] rowsReady_tl [OF Cons.prems(5)] in \<open>auto simp: taskRan_def\<close>)
    qed
  qed (use Cons.prems one in \<open>auto simp: rowsReady_def\<close>)
qed

lemma wp_createPlanTasks_first:
  assumes "databaseUp w" and "\<exists>r \<in> set (taskViews w). tk_PlanId r = hd_PlanId h \<and> tk_Name r = hd_Name h"
    and "\<And>w'. tasks w' = tasks w \<Longrightarrow> plans w' = plans w \<Longrightarrow> databaseUp w' \<Longrightarrow> Q () w'"
  shows "wp (createPlanTasksIfNotExist (h # hs)) Q E w"
proof -
  from assms(2) have "find (\<lambda>r. tk_PlanId r = hd_PlanId h \<and> tk_Name r = hd_Name h) (rows (tasks w)) \<noteq> None"
    by (auto simp: find_None_iff taskViews_def)
  with assms(1) show ?thesis
    by (auto simp: GetTaskByName_def wp_simps Let_def databaseUp_def tasks_t_def intro!: assms(3))
qed

lemma wp_createPlanTasks_done:
  "databaseUp w \<Longrightarrow> hs \<noteq> [] \<Longrightarrow> rowsReady pid hs (taskViews w) \<Longrightarrow> (\<And>w'. tasks w' = tasks w \<Longrightarrow> plans w' = plans w \<Longrightarrow> databaseUp w' \<Longrightarrow> Q () w')
    \<Longrightarrow> wp (createPlanTasksIfNotExist hs) Q E w"
  by (cases hs) (auto simp: rowsReady_def simp del: createPlanTasksIfNotExist.simps intro!: wp_createPlanTasks_first)

lemma syncTasks_runs:
  assumes "hs \<noteq> []" and "databaseUp w" and "planNamesUnique (planViews w)" and "\<And>h. h \<in> set hs \<Longrightarrow> leavesTasks h"
    and "rowsReady pid hs (taskViews w)" and "distinct (map hd_Name hs)"
  shows "\<exists>r w'. syncTasks et hs w = (r, w') \<and> tasksRan et pid hs w r w'"
proof -
  have pid: "hd_PlanId (hd hs) = pid" using assms(1,5) by (cases hs) (auto simp: rowsReady_def)
  have absorb: "setPlanStatus pid s \<circ> setPlanStatus pid s' = setPlanStatus pid s" for s s'
    by (simp add: setPlanStatus_def fun_eq_iff)
  have "wp (syncTasks et hs) (\<lambda>_. tasksRan et pid hs w (Inr ())) (\<lambda>e. tasksRan et pid hs w (Inl e)) w"
    unfolding syncTasks_def wp_andThen
  proof (rule wp_createPlanTasks_done [OF assms(2,1,5)], goal_cases)
    case (1 w1)
    then have w1: "taskViews w1 = taskViews w" "planViews w1 = planViews w" "databaseUp w1" by (simp_all add: taskViews_def planViews_def)
    have "wp (planUpdateStatus pid RunningPlanStatus) (\<lambda>_. wp (runTasks et hs) (\<lambda>_. tasksRan et pid hs w (Inr ())) (\<lambda>e. tasksRan et pid hs w (Inl e)))
        (\<lambda>e. tasksRan et pid hs w (Inl e)) w1"
    proof (rule wp_planUpdateStatus_up, goal_cases)
      case (3 w2)
      have "planViews w2 = map (setPlanStatus pid RunningPlanStatus) (planViews w)" "taskViews w2 = taskViews w"
        using 3 w1 by (simp_all add: taskViews_def)
      then have eq: "tasksRan et pid hs w2 r w' = tasksRan et pid hs w r w'" for r w' by (simp add: tasksRan_def absorb)
      show ?case
        by (rule wp_mono [OF wp_runTasks [of hs w2 pid et]]) (use assms 3 w1 in \<open>simp_all add: eq views_of_tasks [of w2 w1]\<close>)
    qed (use w1 assms(3) in simp_all)
    with assms(1) pid show ?case by (simp add: wp_andThen)
  qed
  then show ?thesis by (auto simp: wp_def split: prod.splits sum.splits)
qed

section \<open>The steps leave the tasks alone\<close>

abbreviation same3 :: "Task table \<Rightarrow> Plan table \<Rightarrow> (nat \<Rightarrow> driver_fault option) \<Rightarrow> 'm plan_db_scheme \<Rightarrow> bool" where
  "same3 T P F \<equiv> (\<lambda>w. tasks w = T \<and> plans w = P \<and> fault w = F)"

definition leaves :: "('m plan_db_scheme, 'e, 'a) act \<Rightarrow> bool" where
  "leaves m \<longleftrightarrow> (\<forall>T P F. keeps (same3 T P F) m)"

named_theorems leaves_intros \<open>operations that leave the tasks and the plans\<close>

lemma leavesTasks_iff: "leavesTasks h \<longleftrightarrow> leaves (hd_Run h)"
  by (auto simp: leavesTasks_def leaves_def keeps_def)

lemma leavesI: "(\<And>T P F. keeps (same3 T P F) m) \<Longrightarrow> leaves m"
  by (simp add: leaves_def)

lemma leaves_basic [leaves_intros]: "leaves (ret x)" "leaves (fail e)" "leaves (external f)" "leaves (fromSum s)" "leaves timeNow"
  by (auto intro!: leavesI keepsI simp: wp_simps split: sum.splits)

lemma leaves_bind [leaves_intros]:
  "leaves m \<Longrightarrow> (\<And>e. leaves (h e)) \<Longrightarrow> (\<And>x. leaves (f x)) \<Longrightarrow> leaves (onResult m h f)"
  "leaves m \<Longrightarrow> (\<And>x. leaves (g x)) \<Longrightarrow> leaves (andThen m g)"
  "leaves m \<Longrightarrow> leaves (ignoring m)"
  by (auto simp: leaves_def intro!: keeps_intros)

lemma leaves_branch [leaves_intros]:
  "(b \<Longrightarrow> leaves m) \<Longrightarrow> (\<not> b \<Longrightarrow> leaves n) \<Longrightarrow> leaves (if b then m else n)"
  "(v = None \<Longrightarrow> leaves m) \<Longrightarrow> (\<And>x. v = Some x \<Longrightarrow> leaves (f x)) \<Longrightarrow> leaves (case v of None \<Rightarrow> m | Some x \<Rightarrow> f x)"
  "(xs = [] \<Longrightarrow> leaves m) \<Longrightarrow> (\<And>y ys. xs = y # ys \<Longrightarrow> leaves (g y ys)) \<Longrightarrow> leaves (case xs of [] \<Rightarrow> m | y # ys \<Rightarrow> g y ys)"
  "(\<And>a b. p = (a, b) \<Longrightarrow> leaves (q a b)) \<Longrightarrow> leaves (case p of (a, b) \<Rightarrow> q a b)"
  by (cases v; cases xs; cases p; simp)+

lemma leaves_dao [leaves_intros]:
  "leaves (runnerInternalUpdate i us)" "leaves (runnerGetBy opts)" "leaves (clusterList copts)" "leaves (UpdateByPlan pid cus)"
  "leaves (clusterCreate c [])" "leaves (jobCreate j)" "leaves (jobGet i)" "leaves (jobInternalUpdate i jus)"
  by (auto intro!: leavesI keepsI simp: runnerInternalUpdate_def runnerGetBy_def clusterList_def UpdateByPlan_def clusterCreate_def
      jobCreate_def jobGet_def jobInternalUpdate_def wp_simps wp_transaction Let_def plan_tables split: option.splits list.splits)

lemma leaves_token [leaves_intros]: "leaves (tokenGenerate pv)" "leaves (agentToken pv)" "leaves (NewRandName pv n)"
  unfolding tokenGenerate_def agentToken_def NewRandName_def by (intro leaves_intros)+

lemma leaves_files [leaves_intros]: "leaves (WriteFile rd path content)" "leaves (MkdirAll rd path)"
  by (auto intro!: leavesI keepsI simp: WriteFile_def MkdirAll_def wp_simps split: sum.splits)

lemma leaves_wait [leaves_intros]: "leaves (WaitContainer dk cid n)"
  by (induction n) (auto intro!: leaves_intros)

lemma leaves_container [leaves_intros]: "leaves (containerRun dk td action dir runner)"
  unfolding containerRun_def NewContainer_def StartAndWaitForContainer_def ClearContainer_def GetContainer_def
  by (intro leaves_intros)

lemma leaves_render [leaves_intros]: "leaves (buildMultinode rd planId runtime workDir ns m)" "leaves (Render rd dir plan)"
proof -
  show one: "leaves (buildMultinode rd planId runtime workDir ns m)" for planId runtime workDir ns m
    by (induction ns arbitrary: m) (auto simp: writeRSA_def intro!: leaves_intros)
  show "leaves (Render rd dir plan)"
    unfolding Render_def writeTemplate_def Let_def by (intro leaves_intros one)
qed

lemma leaves_pollJob [leaves_intros]: "leaves (pollJob jobId deadline)"
  unfolding pollJob_def expireJob_def by (intro leaves_intros)

lemma awaitJob_same3: "awaitJob n we jobId deadline w = Some (r, w') \<Longrightarrow> same3 T P F w \<Longrightarrow> same3 T P F w'"
proof (induction n arbitrary: w)
  case (Suc n)
  have "keeps (same3 T P F) (pollJob jobId deadline)" by (rule leaves_pollJob [unfolded leaves_def, rule_format])
  then have poll: "same3 T P F (snd (pollJob jobId deadline w))" using Suc.prems(2) by (rule keepsD)
  have sleep: "same3 T P F (snd (pollSleep we v))" if "same3 T P F v" for v using that by (simp add: pollSleep_def)
  from Suc.prems(1) poll sleep [of "snd (pollJob jobId deadline w)"] Suc.IH show ?case
    by (auto simp: Let_def split: prod.splits sum.splits option.splits)
qed simp

lemma leaves_await [leaves_intros]: "leaves (awaitAct we jobId timeout)"
  unfolding awaitAct_def
proof (intro leaves_bind(2) leaves_basic)
  fix now
  show "leaves (\<lambda>w. case awaitJob (pollBound timeout) we jobId (now + timeout) w of None \<Rightarrow> (Inl (Errorf ''the loop is still running''), w) | Some r \<Rightarrow> r)"
    by (rule leavesI) (auto simp: keeps_def split: option.split dest: awaitJob_same3)
qed

lemma leaves_register [leaves_intros]: "leaves (finishWithKubeConfig we td config64)"
  unfolding finishWithKubeConfig_def registerNew_def registerExisting_def addPixiuClusterRole_def Let_def
  by (intro leaves_intros)

lemma leaves_kubeconfig [leaves_intros]: "leaves (firstKubeConfig sh ns)"
  by (induction ns) (auto simp: getKubeConfigFromMasterNode_def newSftpClient_def intro!: leaves_intros)

lemma leaves_runner [leaves_intros]: "leaves (runnerRun dk img)"
  unfolding runnerRun_def ensureImage_def updateRunnerStatus_def by (intro leaves_intros)

lemmas handler_defs = buildHandlers_def buildLocalHandlers_def buildAgentHandlers_def Let_def handlerOf_def Check_def RunnerHandler_def
  RenderHandler_def BootStrap_def DeployMaster_def DeployNode_def DeployChart_def Register_def AgentJobHandler_def agentJobOf_def

lemma handlers_leave: "h \<in> set (buildHandlers we td runner) \<Longrightarrow> leavesTasks h"
  unfolding leavesTasks_iff
  by (auto simp: handler_defs registerRun_def agentJobRun_def intro!: leaves_intros split: if_splits)

definition stepNames :: "string list" where
  "stepNames = [stepPrepare, stepRender, stepCheck, stepBootStrap, stepMaster, stepNode, stepRegister, stepChart]"

lemma stepNames_distinct: "distinct stepNames"
  by (simp add: stepNames_def step_names utf8_def utf8Char_def)

lemma handlers_names: "set (map hd_Name (buildHandlers we td runner)) = set stepNames"
  by (auto simp: handler_defs stepNames_def)

lemma handlers_distinct: "distinct (map hd_Name (buildHandlers we td runner))"
  using stepNames_distinct by (auto simp: handler_defs stepNames_def)

lemma handlers_plan: "h \<in> set (buildHandlers we td runner) \<Longrightarrow> hd_PlanId h = td_PlanId td"
  by (auto simp: handler_defs split: if_splits)

definition rowReady :: "int \<Rightarrow> Task list \<Rightarrow> string \<Rightarrow> bool" where
  "rowReady pid ts name \<longleftrightarrow> (\<exists>r \<in> set ts. tk_PlanId r = pid \<and> tk_Name r = name) \<and>
     (\<forall>r \<in> set ts. tk_PlanId r = pid \<longrightarrow> tk_Name r = name \<longrightarrow> tk_Status r \<noteq> RunningPlanStatus)"

lemma rowsReady_names: "(\<And>h. h \<in> set hs \<Longrightarrow> hd_PlanId h = pid) \<Longrightarrow> rowsReady pid hs ts \<longleftrightarrow> (\<forall>name \<in> set (map hd_Name hs). rowReady pid ts name)"
  by (simp add: rowsReady_def rowReady_def)

lemma handlers_ready: "rowsReady (td_PlanId td) (buildHandlers we td runner) ts \<longleftrightarrow> (\<forall>name \<in> set stepNames. rowReady (td_PlanId td) ts name)"
  by (subst rowsReady_names) (simp_all only: handlers_plan handlers_names)

text \<open>C3: a deployment whose eight steps have their rows, none of them running, performs the steps of its mode in order up
  to the first that fails. The rows of the performed steps say success, with the step they stand for, or failure, with
  the text of the error; those behind are untouched; the plan ends as a success or as a failure, never as running.
\<close>

theorem deployment_spec:
  assumes "databaseUp w" and "planNamesUnique (planViews w)"
    and "\<forall>name \<in> set stepNames. rowReady (td_PlanId td) (taskViews w) name"
  shows "\<exists>r w'. syncTasks et (buildHandlers we td runner) w = (r, w') \<and> tasksRan et (td_PlanId td) (buildHandlers we td runner) w r w'"
proof (rule syncTasks_runs)
  show "buildHandlers we td runner \<noteq> []" by (simp add: handler_defs)
qed (use assms handlers_leave handlers_distinct in \<open>simp_all add: handlers_ready\<close>)

section \<open>A sample deployment\<close>

definition demoPlan :: Plan where
  "demoPlan = (newPlan \<lparr>cp_Name = ''demo'', cp_Description = [], cp_UserId = 1, cp_ExecMode = [], cp_DeployAgentId = 0,
     cp_Config = \<lparr>pc_Region = [], pc_OSImage = ''ubuntu'', pc_Kubernetes = zeroKubernetesSpec, pc_Network = zeroNetworkSpec,
       pc_Runtime = zeroRuntimeSpec, pc_Component = zeroComponentSpec\<rparr>, cp_Nodes = []\<rparr>)\<lparr>Oid := 1\<rparr>"

definition demoTask :: "string \<Rightarrow> Task" where
  "demoTask name = pixiu_model.extend newModel
     \<lparr>tk_Name = name, tk_PlanId = 1, tk_Step = RunningPlanStep, tk_Action = [], tk_Status = UnStartPlanStatus, tk_Message = []\<rparr>"

text \<open>One plan, with the rows of the given steps.\<close>

definition demoDeployment :: "string list \<Rightarrow> plan_db" where
  "demoDeployment names = demoPlanDb\<lparr>plans := \<lparr>rows = [demoPlan], next_id = 2\<rparr>, tasks := \<lparr>rows = map demoTask names, next_id = 9\<rparr>\<rparr>"

definition demoTaskData :: TaskData where
  "demoTaskData = \<lparr>td_PlanId = 1, td_Plan = demoPlan, td_Config = pixiu_model.extend newModel
     \<lparr>cf_PlanId = 1, cf_Region = [], cf_OSImage = ''ubuntu'', cf_Kubernetes = [], cf_Network = [], cf_Runtime = [], cf_Component = []\<rparr>, td_Nodes = []\<rparr>"

definition demoDocker :: docker_env where
  "demoDocker = \<lparr>dk_client = (\<lambda>_. Inr ()), dk_list = (\<lambda>_. Inr []), dk_stop = (\<lambda>_ _. Inr ()), dk_remove = (\<lambda>_ _. Inr ()),
     dk_create = (\<lambda>name _ _ _ _. Inr name), dk_start = (\<lambda>_ _. Inr ()),
     dk_inspect = (\<lambda>_ _. Inr (Some \<lparr>ct_Status = ''exited'', ct_Running = False, ct_ExitCode = 0, ct_Error = []\<rparr>)),
     dk_inspectImage = (\<lambda>_ _. Inr ()), dk_isErrNotFound = (\<lambda>_. False), dk_pull = (\<lambda>_ _. Inr ()), dk_copy = (\<lambda>_. Inr ())\<rparr>"

definition demoWorkerEnv :: worker_env where
  "demoWorkerEnv = \<lparr>we_plan = \<lparr>pv_randRead = (\<lambda>_. Inr ''012345678901234567890123''), pv_randIntn = (\<lambda>_. replicate 8 0), pv_errText = (\<lambda>_. ''error'')\<rparr>,
     we_docker = demoDocker,
     we_ssh = \<lparr>sh_parseKey = (\<lambda>k. Inr k), sh_dial = (\<lambda>_ _ _. Inr ()), sh_sftp = (\<lambda>_. Inr ()), sh_open = (\<lambda>_ _. Inr ()), sh_readAll = (\<lambda>_. Inr ''conf'')\<rparr>,
     we_kube = \<lparr>kb_clusterSet = (\<lambda>_. Inr ()), kb_getRole = (\<lambda>_ _. Inr []), kb_createRole = (\<lambda>_ _ _. Inr ())\<rparr>,
     we_render = \<lparr>rd_mkdirAll = (\<lambda>_ _. Inr ()), rd_writeFile = (\<lambda>_ _. Inr ()), rd_hosts = (\<lambda>_. Inr []), rd_multinode = (\<lambda>_. Inr []), rd_globals = (\<lambda>_. Inr [])\<rparr>,
     we_workDir = ''/etc/pixiu'', we_agents = (\<lambda>_ t. t)\<rparr>"

lemma demoDeployment_up: "databaseUp (demoDeployment names)"
  by (simp add: databaseUp_def demoDeployment_def demoPlanDb_def demoDb_def iam_db.defs)

lemma demoDeployment_views: "taskViews (demoDeployment names) = map (taskView \<circ> demoTask) names" "planViews (demoDeployment names) = [planView demoPlan]"
  by (simp_all add: taskViews_def planViews_def demoDeployment_def)

lemma demoTask_sel: "tk_Name (demoTask n) = n" "tk_PlanId (demoTask n) = 1" "tk_Status (demoTask n) = UnStartPlanStatus" "Oid demoPlan = 1"
  by (simp_all add: demoTask_def demoPlan_def pixiu_model.defs)

lemma deployment_spec_witness:
  "\<exists>r w'. syncTasks (pv_errText (we_plan demoWorkerEnv)) (buildHandlers demoWorkerEnv demoTaskData ''runner:v1'') (demoDeployment stepNames) = (r, w')
     \<and> tasksRan (pv_errText (we_plan demoWorkerEnv)) (td_PlanId demoTaskData) (buildHandlers demoWorkerEnv demoTaskData ''runner:v1'') (demoDeployment stepNames) r w'"
  by (rule deployment_spec)
    (auto simp: demoDeployment_up demoDeployment_views planNamesUnique_def rowReady_def demoTask_sel demoTaskData_def)

end
