(* ===== verification/PlanFiles.thy ===== *)
theory PlanFiles
  imports PlanTaskProps
begin

text \<open>
  The files of a plan: where the private keys of its nodes are written, and what a rendered plan guarantees to the
  registration that follows.
\<close>

section \<open>Paths\<close>

definition plainName :: "string \<Rightarrow> bool" where
  "plainName s \<longleftrightarrow> s \<noteq> [] \<and> s \<noteq> ''.'' \<and> s \<noteq> ''..'' \<and> CHR ''/'' \<notin> set s"

definition absPath :: "string list \<Rightarrow> string" where
  "absPath es = CHR ''/'' # Join es ''/''"

lemma Split_Join_plain: "es \<noteq> [] \<Longrightarrow> \<forall>e \<in> set es. plainName e \<Longrightarrow> Split (Join es ''/'') CHR ''/'' = es"
  by (rule Split_Join) (auto simp: plainName_def)

lemma cleanElems_plain: "\<forall>e \<in> set es. plainName e \<Longrightarrow> cleanElems True acc es = rev acc @ es"
  by (induction es arbitrary: acc) (auto simp: plainName_def)

lemma pathClean_abs: "es \<noteq> [] \<Longrightarrow> \<forall>e \<in> set es. plainName e \<Longrightarrow> pathClean (absPath es) = absPath es"
  by (simp add: pathClean_def absPath_def HasPrefix_def Let_def Split_Join_plain cleanElems_plain)

lemma Join_abs: "ds \<noteq> [] \<Longrightarrow> es \<noteq> [] \<Longrightarrow> Join (absPath ds # es) ''/'' = absPath (ds @ es)"
proof -
  have "Join (Join ds ''/'' # es) ''/'' = Join (ds @ es) ''/''" if "ds \<noteq> []" "es \<noteq> []"
    using that
  proof (induction ds)
    case (Cons d ds)
    then show ?case by (cases ds; cases es) auto
  qed simp
  then show "ds \<noteq> [] \<Longrightarrow> es \<noteq> [] \<Longrightarrow> ?thesis" by (cases es) (auto simp: absPath_def)
qed

lemma pathJoin_abs:
  assumes "ds \<noteq> []" "es \<noteq> []" "\<forall>e \<in> set (ds @ es). plainName e"
  shows "pathJoin (absPath ds # es) = absPath (ds @ es)"
proof -
  have "filter (\<lambda>e. e \<noteq> []) (absPath ds # es) = absPath ds # es"
    using assms by (auto simp: absPath_def plainName_def filter_id_conv)
  then show ?thesis using assms by (simp add: pathJoin_def Join_abs pathClean_abs)
qed

lemma plainName_FormatInt: "plainName (FormatInt i)"
proof -
  have "CHR ''/'' \<notin> set (FormatInt i)" "CHR ''.'' \<notin> set (FormatInt i)"
    using FormatInt_chars [of "CHR ''/''" i] FormatInt_chars [of "CHR ''.''" i] by (auto simp: charDigit_def)
  then show ?thesis by (auto simp: plainName_def)
qed

text \<open>The names come from the request as they are: one with \<open>..\<close> leads out of the working directory.\<close>

lemma rsaFile_escapes: "rsaFile ''/etc/pixiu'' 7 ''../../../../root/.ssh'' = ''/root/.ssh/id_rsa''"
  by code_simp

text \<open>the private key of a node whose name is a plain file name is written to \<open>ssh/<name>/id_rsa\<close> in the
  directory of its plan, under the working directory. Nothing checks that a name is plain: with \<open>..\<close> in it the key
  replaces a file of the control plane outside of that directory.
\<close>

theorem rsaFile_inside:
  assumes "ds \<noteq> []" and "\<forall>d \<in> set ds. plainName d" and "plainName name"
  shows "rsaFile (absPath ds) planId name = absPath (ds @ [FormatInt planId, ''ssh'', name, ''id_rsa'']) \<and>
    rsaFile ''/etc/pixiu'' 7 ''../../../../root/.ssh'' = ''/root/.ssh/id_rsa''"
proof -
  have "plainName ''ssh''" "plainName ''id_rsa''" by (simp_all add: plainName_def)
  then show ?thesis
    using assms plainName_FormatInt [of planId] by (simp add: rsaFile_escapes) (simp add: rsaFile_def pathJoin_abs)
qed

lemma rsaFile_inside_witness: "rsaFile (absPath [''etc'', ''pixiu'']) 7 ''master-1'' = absPath ([''etc'', ''pixiu''] @ [FormatInt 7, ''ssh'', ''master-1'', ''id_rsa''])"
  using rsaFile_inside [of "[''etc'', ''pixiu'']" "''master-1''" 7] by (simp add: plainName_def)

section \<open>Rendering guards the registration\<close>

lemma writeRSA_key: "writeRSA rd planId name dir auth w = (Inr u, w') \<Longrightarrow> na_Type auth = KeyAuth \<Longrightarrow> na_Key auth \<noteq> None"
  by (auto simp: writeRSA_def fail_def split: option.splits)

lemma buildMultinode_auth:
  "buildMultinode rd planId runtime dir ns m w = (Inr mn, w') \<Longrightarrow> n \<in> set ns \<Longrightarrow> \<exists>auth. nodeAuthOf n = Inr auth"
proof (induction ns arbitrary: m w)
  case (Cons a ns)
  then show ?case
    by (auto simp: andThen_def onResult_def fromSum_def fail_def ret_def split: prod.splits sum.splits)
qed simp

lemma mapErr_mem: "mapErr f xs = Inr ys \<Longrightarrow> x \<in> set xs \<Longrightarrow> \<exists>y \<in> set ys. f x = Inr y"
  by (induction xs arbitrary: ys) (auto split: sum.splits)

lemma andThen_Inr: "andThen m f w = (Inr x, w') \<Longrightarrow> \<exists>y w1. m w = (Inr y, w1) \<and> f y w1 = (Inr x, w')"
  by (auto simp: andThen_def onResult_def fail_def split: prod.splits sum.splits)

lemma Render_auth: "Render rd dir plan w = (Inr u, w') \<Longrightarrow> n \<in> set (pw_Nodes plan) \<Longrightarrow> \<exists>auth. nodeAuthOf n = Inr auth"
  unfolding Render_def Let_def by (blast dest: andThen_Inr buildMultinode_auth)

lemma nodeAuthOf_ssh: "nodeAuthOf n = Inr a \<Longrightarrow> (\<And>k. sh_parseKey sh k \<noteq> Inl nilPanic) \<Longrightarrow> sshAuthOf sh (tn_Auth n) \<noteq> Inl nilPanic"
  by (auto simp: nodeAuthOf_def sshAuthOf_def nilPanic_def PasswordAuth_def KeyAuth_def Let_def split: option.splits sum.splits if_splits)

text \<open>in the local mode the step that registers the cluster cannot dereference a missing password or key: when the
  rendering step before it has succeeded, the credentials of every node of the plan decode and are complete for
  their type (the parser of private keys itself never fails in that way).
\<close>

theorem Render_guards_Register:
  assumes "hd_Run (RenderHandler rd td dir) w = (Inr (), w')" and "n \<in> set (td_Nodes td)" and "\<And>k. sh_parseKey sh k \<noteq> Inl nilPanic"
  shows "\<exists>auth. PlanNodeAuth_Unmarshal (nd_Auth n) zeroPlanNodeAuth = Some auth \<and> sshAuthOf sh auth \<noteq> Inl nilPanic"
proof -
  from assms(1) obtain plan where p: "renderPlan (td_PlanId td) (Some (td_Config td)) (td_Nodes td) = Inr plan" "Render rd dir plan w = (Inr (), w')"
    by (auto simp: RenderHandler_def handlerOf_def fromSum_def ret_def fail_def andThen_def onResult_def split: sum.splits)
  from p(1) have "mapErr (renderNode (td_PlanId td)) (td_Nodes td) = Inr (pw_Nodes plan)"
    by (auto simp: renderPlan_def split: sum.splits)
  with assms(2) obtain y where y: "y \<in> set (pw_Nodes plan)" "renderNode (td_PlanId td) n = Inr y" using mapErr_mem by metis
  then obtain auth where auth: "PlanNodeAuth_Unmarshal (nd_Auth n) zeroPlanNodeAuth = Some auth" "tn_Auth y = auth"
    by (auto simp: renderNode_def split: option.splits)
  from Render_auth [OF p(2) y(1)] obtain a where "nodeAuthOf y = Inr a" by blast
  from nodeAuthOf_ssh [OF this assms(3)] auth show ?thesis by auto
qed

definition demoAuth :: PlanNodeAuth where
  "demoAuth = \<lparr>na_Type = PasswordAuth, na_Port = 22, na_Key = None, na_Password = Some \<lparr>ps_User = ''root'', ps_Password = ''pw''\<rparr>\<rparr>"

definition demoConfigReq :: CreatePlanConfigRequest where
  "demoConfigReq = \<lparr>pc_Region = ''hz'', pc_OSImage = ''ubuntu'', pc_Kubernetes = zeroKubernetesSpec, pc_Network = zeroNetworkSpec,
     pc_Runtime = zeroRuntimeSpec, pc_Component = zeroComponentSpec\<rparr>"

definition demoNodeReq :: "string \<Rightarrow> CreatePlanNodeRequest" where
  "demoNodeReq name = \<lparr>pn_Name = name, pn_UserId = 1, pn_Role = [''master''], pn_CRI = ''containerd'', pn_Ip = ''10.0.0.1'', pn_Auth = demoAuth\<rparr>"

lemma zero_specs_ok:
  "kubernetesSpecOK zeroKubernetesSpec" "networkSpecOK zeroNetworkSpec" "runtimeSpecOK zeroRuntimeSpec" "componentSpecOK zeroComponentSpec" "planNodeAuthOK demoAuth"
  by (simp_all add: kubernetesSpecOK_def networkSpecOK_def runtimeSpecOK_def componentSpecOK_def planNodeAuthOK_def passwordSpecOK_def
      zeroKubernetesSpec_def zeroNetworkSpec_def zeroRuntimeSpec_def zeroComponentSpec_def demoAuth_def PasswordAuth_def int64_def
      minInt64_def maxInt64_def validUTF8_ascii byteOf_def del: validUTF8.simps(2))

lemma demo_config_decodes: "modelConfig2Type (pixiu_model.extend newModel
     \<lparr>cf_PlanId = 1, cf_Region = [], cf_OSImage = ''ubuntu'', cf_Kubernetes = KubernetesSpec_Marshal zeroKubernetesSpec,
      cf_Network = NetworkSpec_Marshal zeroNetworkSpec, cf_Runtime = RuntimeSpec_Marshal zeroRuntimeSpec, cf_Component = ComponentSpec_Marshal zeroComponentSpec\<rparr>)
   = Inr (zeroPlanConfig\<lparr>tc_PlanId := 1, tc_OSImage := ''ubuntu''\<rparr>)"
  by (simp add: modelConfig2Type_def pixiu_model.defs newModel_def zeroPlanConfig_def zero_specs_ok KubernetesSpec_Unmarshal_Marshal
      NetworkSpec_Unmarshal_Marshal RuntimeSpec_Unmarshal_Marshal ComponentSpec_Unmarshal_Marshal)

definition demoRenderData :: TaskData where
  "demoRenderData = demoTaskData\<lparr>td_Config := pixiu_model.extend newModel
     \<lparr>cf_PlanId = 1, cf_Region = [], cf_OSImage = ''ubuntu'', cf_Kubernetes = KubernetesSpec_Marshal zeroKubernetesSpec,
      cf_Network = NetworkSpec_Marshal zeroNetworkSpec, cf_Runtime = RuntimeSpec_Marshal zeroRuntimeSpec, cf_Component = ComponentSpec_Marshal zeroComponentSpec\<rparr>,
     td_Nodes := [buildNodeFromRequest 1 (demoNodeReq ''m1'')]\<rparr>"

lemma demo_node_decodes: "PlanNodeAuth_Unmarshal (nd_Auth (buildNodeFromRequest 1 (demoNodeReq ''m1''))) zeroPlanNodeAuth = Some demoAuth"
  by (simp add: buildNodeFromRequest_def demoNodeReq_def pixiu_model.defs PlanNodeAuth_Unmarshal_Marshal zero_specs_ok)

lemma demo_render_runs: "\<exists>w'. hd_Run (RenderHandler (we_render demoWorkerEnv) demoRenderData ''/etc/pixiu'') demoPlanDb = (Inr (), w')"
proof -
  have plan: "\<exists>plan. renderPlan 1 (Some (td_Config demoRenderData)) (td_Nodes demoRenderData) = Inr plan \<and>
      pw_Nodes plan = [zeroPlanNode\<lparr>tn_Name := ''m1'', tn_PlanId := 1, tn_Role := [''master''], tn_CRI := ''containerd'', tn_Ip := ''10.0.0.1'', tn_Auth := demoAuth\<rparr>]
      \<and> cs_CustomRepo (tc_Component (pw_Config plan)) = None"
    using demo_node_decodes
    by (simp add: renderPlan_def renderNode_def demoRenderData_def demo_config_decodes)
       (simp add: buildNodeFromRequest_def demoNodeReq_def pixiu_model.defs zeroPlanConfig_def zeroComponentSpec_def)
  have auth: "nodeAuthOf (zeroPlanNode\<lparr>tn_Name := n, tn_PlanId := i, tn_Role := rs, tn_CRI := c, tn_Ip := ip, tn_Auth := demoAuth\<rparr>) = Inr demoAuth" for n i rs c ip
    by (simp add: nodeAuthOf_def demoAuth_def PasswordAuth_def KeyAuth_def Let_def)
  have type: "na_Type demoAuth \<noteq> KeyAuth" by (simp add: demoAuth_def PasswordAuth_def KeyAuth_def)
  from plan have "wp (hd_Run (RenderHandler (we_render demoWorkerEnv) demoRenderData ''/etc/pixiu'')) (\<lambda>_ _. True) (\<lambda>_ _. False) demoPlanDb"
    by (auto simp: RenderHandler_def handlerOf_def demoRenderData_def [unfolded demoTaskData_def] wp_simps Render_def Let_def MkdirAll_def WriteFile_def
        writeTemplate_def writeRSA_def demoWorkerEnv_def auth type)
  then show ?thesis by (auto simp: wp_def split: prod.splits sum.splits)
qed

lemma Render_guards_Register_witness:
  "\<exists>auth. PlanNodeAuth_Unmarshal (nd_Auth (buildNodeFromRequest 1 (demoNodeReq ''m1''))) zeroPlanNodeAuth = Some auth
     \<and> sshAuthOf (we_ssh demoWorkerEnv) auth \<noteq> Inl nilPanic"
proof -
  from demo_render_runs obtain w' where "hd_Run (RenderHandler (we_render demoWorkerEnv) demoRenderData ''/etc/pixiu'') demoPlanDb = (Inr (), w')" by blast
  then show ?thesis
    by (rule Render_guards_Register) (simp_all add: demoRenderData_def demoWorkerEnv_def)
qed

section \<open>What is stored is what is read\<close>

text \<open>C33: once stored, under whatever key, version and times, a configuration and a node of a plan read back as they were sent, when
  their texts are UTF-8 and no role has a comma, with three exceptions: the address of the API server is dropped when no public
  address is enabled, a node without roles reads back with one empty role, and the container runtime of a node is lost:
  its column holds what was sent, but the read leaves it empty.\<close>

theorem plan_roundtrip:
  assumes "kubernetesSpecOK (pc_Kubernetes req)" and "networkSpecOK (pc_Network req)" and "runtimeSpecOK (pc_Runtime req)"
    and "componentSpecOK (pc_Component req)" and "buildPlanConfig req = Inr c"
    and "planNodeAuthOK (pn_Auth node)" and "\<forall>r \<in> set (pn_Role node). CHR '','' \<notin> set r"
    and n: "n = buildNodeFromRequest planId node"
  shows "modelConfig2Type (c\<lparr>Oid := i, ResourceVersion := v, GmtCreate := gc, GmtModified := gm, cf_PlanId := planId\<rparr>) =
      Inr \<lparr>tc_Id = i, tc_ResourceVersion = v, tc_GmtCreate = gc, tc_GmtModified = gm, tc_PlanId = planId, tc_Region = pc_Region req, tc_OSImage = pc_OSImage req,
        tc_Kubernetes = (if k8_EnablePublicIp (pc_Kubernetes req) then pc_Kubernetes req else (pc_Kubernetes req)\<lparr>k8_ApiServer := []\<rparr>),
        tc_Network = pc_Network req, tc_Runtime = pc_Runtime req, tc_Component = pc_Component req\<rparr> \<and>
    modelNode2Type (n\<lparr>Oid := i, ResourceVersion := v, GmtCreate := gc, GmtModified := gm\<rparr>) =
      Inr \<lparr>tn_Id = i, tn_ResourceVersion = v, tn_GmtCreate = gc, tn_GmtModified = gm, tn_PlanId = planId, tn_Name = pn_Name node, tn_UserId = pn_UserId node,
        tn_Role = (if pn_Role node = [] then [[]] else pn_Role node), tn_CRI = [], tn_Ip = pn_Ip node, tn_Auth = pn_Auth node\<rparr> \<and>
    nd_CRI n = pn_CRI node"
proof (intro conjI)
  let ?ks = "if k8_EnablePublicIp (pc_Kubernetes req) then pc_Kubernetes req else (pc_Kubernetes req)\<lparr>k8_ApiServer := []\<rparr>"
  have "kubernetesSpecOK ?ks" using assms(1) by (simp add: kubernetesSpecOK_def)
  then show "modelConfig2Type (c\<lparr>Oid := i, ResourceVersion := v, GmtCreate := gc, GmtModified := gm, cf_PlanId := planId\<rparr>) =
      Inr \<lparr>tc_Id = i, tc_ResourceVersion = v, tc_GmtCreate = gc, tc_GmtModified = gm, tc_PlanId = planId, tc_Region = pc_Region req, tc_OSImage = pc_OSImage req,
        tc_Kubernetes = ?ks, tc_Network = pc_Network req, tc_Runtime = pc_Runtime req, tc_Component = pc_Component req\<rparr>"
    using assms by (auto simp: buildPlanConfig_def buildAndCleanKubernetesConfig_def modelConfig2Type_def pixiu_model.defs newModel_def
        KubernetesSpec_Unmarshal_Marshal NetworkSpec_Unmarshal_Marshal RuntimeSpec_Unmarshal_Marshal ComponentSpec_Unmarshal_Marshal split: if_splits)
  have "Split (Join (pn_Role node) '','') CHR '','' = (if pn_Role node = [] then [[]] else pn_Role node)"
    using assms(7) by (auto intro: Split_Join)
  then show "modelNode2Type (n\<lparr>Oid := i, ResourceVersion := v, GmtCreate := gc, GmtModified := gm\<rparr>) =
      Inr \<lparr>tn_Id = i, tn_ResourceVersion = v, tn_GmtCreate = gc, tn_GmtModified = gm, tn_PlanId = planId, tn_Name = pn_Name node, tn_UserId = pn_UserId node,
        tn_Role = (if pn_Role node = [] then [[]] else pn_Role node), tn_CRI = [], tn_Ip = pn_Ip node, tn_Auth = pn_Auth node\<rparr>"
    using assms(6) by (simp add: n modelNode2Type_def buildNodeFromRequest_def pixiu_model.defs newModel_def PlanNodeAuth_Unmarshal_Marshal)
  show "nd_CRI n = pn_CRI node" by (simp add: n buildNodeFromRequest_def pixiu_model.defs)
qed

lemma plan_roundtrip_witness:
  "\<exists>c. buildPlanConfig demoConfigReq = Inr c \<and>
     (\<exists>pc. modelConfig2Type (c\<lparr>Oid := 4, ResourceVersion := 0, GmtCreate := 5, GmtModified := 6, cf_PlanId := 1\<rparr>) = Inr pc \<and> tc_Network pc = pc_Network demoConfigReq) \<and>
     (\<exists>pn. modelNode2Type ((buildNodeFromRequest 1 (demoNodeReq ''m1''))\<lparr>Oid := 4, ResourceVersion := 0, GmtCreate := 5, GmtModified := 6\<rparr>) = Inr pn \<and>
       tn_Name pn = ''m1'' \<and> tn_Role pn = [''master''] \<and> tn_Auth pn = demoAuth \<and> tn_CRI pn = []) \<and>
     nd_CRI (buildNodeFromRequest 1 (demoNodeReq ''m1'')) = ''containerd''"
proof -
  have "\<exists>c. buildPlanConfig demoConfigReq = Inr c"
    by (simp add: buildPlanConfig_def buildAndCleanKubernetesConfig_def demoConfigReq_def zeroKubernetesSpec_def)
  then obtain c where c: "buildPlanConfig demoConfigReq = Inr c" by blast
  have auth: "pn_Auth (demoNodeReq ''m1'') = demoAuth" by (simp add: demoNodeReq_def)
  show ?thesis
    using plan_roundtrip [of demoConfigReq c "demoNodeReq ''m1''" _ 1 6 5 0 4, OF _ _ _ _ _ _ _ refl] c zero_specs_ok auth
    by (simp add: demoConfigReq_def) (simp add: demoNodeReq_def)
qed

end
