(* ===== verification/PlanStuck.thy ===== *)
theory PlanStuck
  imports PlanTaskProps
begin

text \<open>
  Guards of a start and of a deletion, the repair after a crash, and the case they do not cover: a deployment whose
  rows of tasks were created only in part.
\<close>

section \<open>A missing row\<close>

definition idleTasks :: "int \<Rightarrow> Task list \<Rightarrow> bool" where
  "idleTasks pid ts \<longleftrightarrow> (\<forall>r \<in> set ts. tk_PlanId r = pid \<longrightarrow> tk_Status r \<noteq> RunningPlanStatus)"

definition noTask :: "int \<Rightarrow> string \<Rightarrow> Task list \<Rightarrow> bool" where
  "noTask pid name ts \<longleftrightarrow> (\<forall>r \<in> set ts. \<not> (tk_PlanId r = pid \<and> tk_Name r = name))"

definition alwaysSucceeds :: "('w Handler) \<Rightarrow> bool" where
  "alwaysSucceeds h \<longleftrightarrow> (\<forall>v. fst (hd_Run h v) = Inr ())"

lemma idleTasks_record: "idleTasks pid ts \<Longrightarrow> idleTasks pid (map (recordOutcome et h r) ts)"
  by (auto simp: idleTasks_def recordOutcome_def split: sum.splits)

lemma noTask_record: "noTask pid name (map (recordOutcome et h r) ts) = noTask pid name ts"
  by (auto simp: noTask_def)

lemma wp_runTask_missing:
  assumes "databaseUp w" and "noTask (hd_PlanId h) (hd_Name h) (taskViews w)"
    and "\<And>w'. taskViews w' = taskViews w \<Longrightarrow> planViews w' = planViews w \<Longrightarrow> databaseUp w' \<Longrightarrow> E (Util ErrRecordNotFound) w'"
  shows "wp (runTask et isLast h) Q E w"
proof -
  have no: "r \<in> set (rows (tasks w)) \<Longrightarrow> \<not> (tk_PlanId r = hd_PlanId h \<and> tk_Name r = hd_Name h)" for r
    using assms(2) by (auto simp: noTask_def taskViews_def)
  then have "changedRows (\<lambda>r. tk_PlanId r = hd_PlanId h \<and> tk_Name r = hd_Name h) us (tasks w) = []" for us
    by (auto simp: changedRows_def updRow_def filter_empty_conv)
  then show ?thesis using assms(1)
    by (auto simp: runTask_def UpdateTask_def wp_simps Let_def databaseUp_def tasks_t_def updConflict_def taskViews_def planViews_def
        updTable_no_change intro!: assms(3))
qed

lemma wp_runTasks_missing:
  assumes "databaseUp w" and "planNamesUnique (planViews w)" and "\<And>g. g \<in> set pre \<Longrightarrow> leavesTasks g \<and> alwaysSucceeds g"
    and "rowsReady pid pre (taskViews w)" and "distinct (map hd_Name pre)" and "hd_PlanId h = pid" and "noTask pid (hd_Name h) (taskViews w)"
    and "idleTasks pid (taskViews w)"
  shows "wp (runTasks et (pre @ h # post)) (\<lambda>_ _. False)
    (\<lambda>e w'. e = Util ErrRecordNotFound \<and> planViews w' = planViews w \<and> databaseUp w' \<and> idleTasks pid (taskViews w')) w"
  using assms
proof (induction pre arbitrary: w)
  case Nil
  then show ?case by (auto simp: wp_andThen intro!: wp_runTask_missing)
next
  case (Cons g pre)
  from Cons.prems(3) have g: "leavesTasks g" "alwaysSucceeds g" by auto
  show ?case
    unfolding append_Cons runTasks.simps wp_andThen
  proof (rule wp_mono [OF wp_runTask], goal_cases)
    case (6 x w1)
    then have w1: "databaseUp w1" "taskViews w1 = map (recordOutcome et g (Inr ())) (taskViews w)" "planViews w1 = planViews w"
      by (simp_all add: taskRan_def)
    show ?case
      by (rule wp_mono [OF Cons.IH [of w1]]) (use Cons.prems w1 rowsReady_tl [OF Cons.prems(4)] in
          \<open>simp_all add: noTask_record idleTasks_record\<close>)
  next
    case (7 e w1)
    with g show ?case by (auto simp: taskRan_def alwaysSucceeds_def)
  qed (use Cons.prems g in \<open>auto simp: rowsReady_def\<close>)
qed

section \<open>A plan that is running\<close>

definition planStatusIs :: "int \<Rightarrow> string \<Rightarrow> 'm plan_db_scheme \<Rightarrow> bool" where
  "planStatusIs pid status w \<longleftrightarrow> (\<exists>p \<in> set (planViews w). Oid p = pid) \<and> (\<forall>p \<in> set (planViews w). Oid p = pid \<longrightarrow> pl_Status p = status)"

lemma planStatusIs_find: "planStatusIs pid status w \<Longrightarrow> \<exists>p. find (\<lambda>r. Oid r = pid) (rows (plans w)) = Some p \<and> pl_Status p = status"
proof -
  assume s: "planStatusIs pid status w"
  then have "find (\<lambda>r. Oid r = pid) (rows (plans w)) \<noteq> None" by (auto simp: planStatusIs_def planViews_def find_None_iff)
  then obtain p where "find (\<lambda>r. Oid r = pid) (rows (plans w)) = Some p" by auto
  with s find_Some_mem [OF this] show ?thesis by (auto simp: planStatusIs_def planViews_def)
qed

lemma planStatusIs_set: "(\<exists>p \<in> set ps. Oid p = pid) \<Longrightarrow> planViews w = map (setPlanStatus pid status) ps \<Longrightarrow> planStatusIs pid status w"
  by (simp add: planStatusIs_def) (simp add: setPlanStatus_def)

lemma wp_planGet_up:
  assumes "databaseUp w" and "find (\<lambda>r. Oid r = pid) (rows (plans w)) = Some p"
    and "\<And>w'. databaseUp w' \<Longrightarrow> plans w' = plans w \<Longrightarrow> Q p w'"
  shows "wp (planGet pid) Q E w"
  using assms(1,2) by (auto simp: planGet_def wp_simps Let_def databaseUp_def plans_t_def intro!: assms(3))

lemma wp_rootAccess: "u_Role u = RoleRoot \<Longrightarrow> Q () w \<Longrightarrow> wp (CheckResourceAccess (Some u) owner rtype rid) Q E w"
  by (simp add: CheckResourceAccess_def GetUserFromContext_def CanAccess_def wp_simps Let_def)

lemma running_refused:
  assumes up: "databaseUp w" and st: "planStatusIs pid RunningPlanStatus w" and root: "u_Role u = RoleRoot"
  shows "fst (planc_Start (Some u) pid w) = Inl ErrNotAcceptable" and "fst (planc_Delete (Some u) pid w) = Inl ErrConflict"
proof -
  from planStatusIs_find [OF st] obtain p where p: "find (\<lambda>r. Oid r = pid) (rows (plans w)) = Some p" "pl_Status p = RunningPlanStatus" by blast
  have "wp (planc_Start (Some u) pid) (\<lambda>_ _. False) (\<lambda>e _. e = ErrNotAcceptable) w"
    unfolding planc_Start_def checkPlanAccess_def getOrNotFound_def preStart_def IsRunning_def orInternal_def wp_andThen wp_onResult wp_ret
    by (rule wp_planGet_up [OF up p(1)], rule wp_rootAccess [OF root], rule wp_planGet_up [where p = p]) (simp_all add: p wp_simps)
  then show "fst (planc_Start (Some u) pid w) = Inl ErrNotAcceptable" by (auto simp: wp_def split: prod.splits sum.splits)
  have "wp (planc_Delete (Some u) pid) (\<lambda>_ _. False) (\<lambda>e _. e = ErrConflict) w"
    unfolding planc_Delete_def planc_preDelete_def getOrNotFound_def IsRunning_def orInternal_def wp_andThen wp_onResult wp_ret
    by (rule wp_planGet_up [OF up p(1)], rule wp_rootAccess [OF root], rule wp_planGet_up [where p = p]) (simp_all add: p wp_simps)
  then show "fst (planc_Delete (Some u) pid w) = Inl ErrConflict" by (auto simp: wp_def split: prod.splits sum.splits)
qed

lemma repairTasks_idle: "\<forall>t \<in> set ts. tk_Status t \<noteq> RunningPlanStatus \<Longrightarrow> repairTasks pid u ts = ret u"
  by (induction ts) auto

lemma syncStatus_idle:
  assumes up: "databaseUp w" and idle: "idleTasks pid (taskViews w)"
  shows "\<exists>w'. syncStatus pid w = (Inr (), w') \<and> planViews w' = planViews w \<and> taskViews w' = taskViews w"
proof -
  let ?ts = "runQuery (buildQuery [Where (\<lambda>r. tk_PlanId r = pid)]) (rows (tasks w))"
  have "\<forall>t \<in> set ?ts. tk_Status t \<noteq> RunningPlanStatus"
    using idle by (auto simp: idleTasks_def taskViews_def buildQuery_def Where_def dest!: set_runQuery)
  with up have "wp (syncStatus pid) (\<lambda>_ w'. planViews w' = planViews w \<and> taskViews w' = taskViews w) (\<lambda>_ _. False) w"
    by (simp add: syncStatus_def dbListTasks_def wp_simps Let_def databaseUp_def tasks_t_def repairTasks_idle)
  then show ?thesis by (auto simp: wp_def split: prod.splits sum.splits)
qed

text \<open>C21: when the rows of the tasks were created only in part (the first is there, that of a later step is not), a start
  runs the steps before the gap and then ends with \<open>ErrRecordNotFound\<close>, and the plan still says that it is running:
  from then on it can neither be started nor deleted, and the repair at the next start of the process, which looks
  for running tasks, finds nothing to repair.
\<close>

theorem plan_left_running:
  assumes "databaseUp w" and "planNamesUnique (planViews w)" and "\<exists>p \<in> set (planViews w). Oid p = pid" and "idleTasks pid (taskViews w)"
    and "pre \<noteq> []" and "\<And>g. g \<in> set pre \<Longrightarrow> leavesTasks g \<and> alwaysSucceeds g" and "distinct (map hd_Name pre)"
    and "rowsReady pid pre (taskViews w)" and "hd_PlanId h = pid" and "noTask pid (hd_Name h) (taskViews w)" and "u_Role u = RoleRoot"
  shows "\<exists>w'. syncTasks et (pre @ h # post) w = (Inl (Util ErrRecordNotFound), w')
     \<and> fst (planc_Start (Some u) pid w') = Inl ErrNotAcceptable \<and> fst (planc_Delete (Some u) pid w') = Inl ErrConflict
     \<and> (\<exists>w''. syncStatus pid w' = (Inr (), w'') \<and> planViews w'' = planViews w')"
proof -
  obtain g pre' where pre: "pre = g # pre'" using assms(5) by (cases pre) auto
  then have g: "hd_PlanId g = pid" "\<exists>r \<in> set (taskViews w). tk_PlanId r = hd_PlanId g \<and> tk_Name r = hd_Name g"
    using assms(8) by (auto simp: rowsReady_def)
  let ?E = "\<lambda>e w'. e = Util ErrRecordNotFound \<and> databaseUp w' \<and> planStatusIs pid RunningPlanStatus w' \<and> idleTasks pid (taskViews w')"
  have "wp (syncTasks et (pre @ h # post)) (\<lambda>_ _. False) ?E w"
    unfolding syncTasks_def wp_andThen pre append_Cons
  proof (rule wp_createPlanTasks_first [OF assms(1) g(2)], goal_cases)
    case (1 w1)
    then have w1: "taskViews w1 = taskViews w" "planViews w1 = planViews w" "databaseUp w1" by (simp_all add: taskViews_def planViews_def)
    have "wp (planUpdateStatus pid RunningPlanStatus) (\<lambda>_. wp (runTasks et (pre @ h # post)) (\<lambda>_ _. False) ?E) ?E w1"
    proof (rule wp_planUpdateStatus_up [OF w1(3)], goal_cases)
      case (2 w2)
      then have w2: "taskViews w2 = taskViews w" "planViews w2 = map (setPlanStatus pid RunningPlanStatus) (planViews w)"
        using w1 by (simp_all add: taskViews_def)
      show ?case
        by (rule wp_mono [OF wp_runTasks_missing [of w2 pre pid h]])
          (use assms w2 2 planStatusIs_set [OF assms(3)] in \<open>auto simp: \<close>)
    qed (use assms(2) w1 in simp)
    then show ?case by (simp add: pre wp_andThen g)
  qed
  then obtain w' where w': "syncTasks et (pre @ h # post) w = (Inl (Util ErrRecordNotFound), w')" "databaseUp w'"
    "planStatusIs pid RunningPlanStatus w'" "idleTasks pid (taskViews w')"
    by (auto simp: wp_def split: prod.splits sum.splits)
  then show ?thesis using running_refused [OF w'(2,3) assms(11)] syncStatus_idle [OF w'(2,4)] by blast
qed

lemma plan_left_running_witness:
  "\<exists>w'. syncTasks (\<lambda>_. ''error'') ([Check demoTaskData] @ BootStrap demoDocker demoTaskData ''/etc/pixiu'' ''runner:v1'' # []) (demoDeployment [stepCheck])
       = (Inl (Util ErrRecordNotFound), w')
     \<and> fst (planc_Start (Some (demoUser 1 0)) 1 w') = Inl ErrNotAcceptable \<and> fst (planc_Delete (Some (demoUser 1 0)) 1 w') = Inl ErrConflict
     \<and> (\<exists>w''. syncStatus 1 w' = (Inr (), w'') \<and> planViews w'' = planViews w')"
proof (rule plan_left_running)
  fix g :: "unit plan_db_scheme Handler"
  assume "g \<in> set [Check demoTaskData]"
  then show "leavesTasks g \<and> alwaysSucceeds g"
    by (simp add: Check_def handlerOf_def leavesTasks_def alwaysSucceeds_def ret_def)
next
  have "stepBootStrap \<noteq> stepCheck" using stepNames_distinct by (auto simp: stepNames_def)
  then show "noTask 1 (hd_Name (BootStrap demoDocker demoTaskData ''/etc/pixiu'' ''runner:v1'')) (taskViews (demoDeployment [stepCheck]))"
    by (auto simp: noTask_def demoDeployment_views demoTask_sel BootStrap_def handlerOf_def)
qed (auto simp: demoDeployment_up demoDeployment_views demoTask_sel planNamesUnique_def idleTasks_def rowsReady_def Check_def BootStrap_def handlerOf_def
    demoTaskData_def demoUser_def RoleRoot_def)

end
