(* ===== verification/PlanProps.thy ===== *)
theory PlanProps
  imports PlanFiles PlanStuck
begin

text \<open>
  The plan controller: what a start requires, what a deletion removes, what an update makes of the nodes.
\<close>

section \<open>Start\<close>

lemma wp_access_frame:
  assumes "\<And>n. Q () (w\<lparr>tick := n\<rparr>)" and "\<And>e n. E e (w\<lparr>tick := n\<rparr>)" and "Q () w" and "\<And>e. E e w"
  shows "wp (CheckResourceAccess ctx owner rtype rid) Q E w"
  using assms by (auto simp: CheckResourceAccess_def GetUserFromContext_def HasScope_def wp_simps Let_def split: option.splits)

text \<open>What has to hold for a plan to be started.\<close>

definition startable :: "'m plan_db_scheme \<Rightarrow> int \<Rightarrow> Plan \<Rightarrow> bool" where
  "startable w pid p \<longleftrightarrow> pl_Status p \<notin> {RunningPlanStatus, DestroyingPlanStatus, StoppingPlanStatus}
     \<and> (\<exists>n \<in> set (rows (nodes w)). nd_PlanId n = pid) \<and> (\<exists>c \<in> set (rows (configs w)). cf_PlanId c = pid)
     \<and> (pl_ExecMode p = PlanExecModeAgent \<longrightarrow> (\<exists>a \<in> set (rows (agents w)). Oid a = pl_DeployAgentId p \<and> ag_Status a \<noteq> AgentStatusOffline))"

lemma mapErr_nonempty:
  assumes "mapErr f (runQuery (buildQuery [Where P]) xs) = Inr ys" "ys \<noteq> []"
  shows "\<exists>x \<in> set xs. P x"
proof -
  from assms have "runQuery (buildQuery [Where P]) xs \<noteq> []" by auto
  then obtain x where "x \<in> set (runQuery (buildQuery [Where P]) xs)" by (metis list.set_intros(1) neq_Nil_conv)
  then show ?thesis using set_runQuery [of x "buildQuery [Where P]" xs] by (auto simp: buildQuery_def Where_def)
qed

lemma startableI:
  assumes "find (\<lambda>r. cf_PlanId r = pid) (rows (configs w)) = Some c"
    and "mapErr modelNode2Type (runQuery (buildQuery [Where (\<lambda>r. nd_PlanId r = pid)]) (rows (nodes w))) = Inr ns" and "ns \<noteq> []"
    and "pl_Status p \<noteq> RunningPlanStatus" "pl_Status p \<noteq> DestroyingPlanStatus" "pl_Status p \<noteq> StoppingPlanStatus"
    and "pl_ExecMode p = PlanExecModeAgent \<Longrightarrow> \<exists>a. find (\<lambda>r. Oid r = pl_DeployAgentId p) (rows (agents w)) = Some a \<and> ag_Status a \<noteq> AgentStatusOffline"
  shows "startable w pid p"
  using find_Some_mem [OF assms(1)] mapErr_nonempty [OF assms(2,3)] assms(4-6) assms(7)
  by (auto simp: startable_def dest: find_Some_mem)

lemma startable_tick [simp]: "startable (w\<lparr>tick := n\<rparr>) = startable w"
  by (simp add: startable_def fun_eq_iff)

lemma wp_preStart:
  "wp (preStart pid) (\<lambda>_ w'. \<exists>n p. w' = w\<lparr>tick := n\<rparr> \<and> find (\<lambda>r. Oid r = pid) (rows (plans w)) = Some p \<and> startable w pid p) (\<lambda>_ _. True) w"
  by (auto simp: preStart_def IsRunning_def orInternal_def orErrorf_def planConfig_Get_def planc_ListNodes_def GetRunner_def
      planGet_def GetConfigByPlan_def dbListNodes_def GetDistributionByName_def runnerGetBy_def agentGet_def wp_simps Let_def plan_tables
      intro!: startableI split: option.splits sum.splits list.splits)

text \<open>C22: a start is accepted only for a plan that is not running, being stopped or destroyed, that has nodes and a
  configuration, and whose agent, in the agent mode, is online; it puts the plan in the work queue, where a plan
  waits at most once, and changes nothing else.
\<close>

theorem Start_guarded:
  assumes "planc_Start ctx pid w = (Inr (), w')"
  shows "\<exists>p n. find (\<lambda>r. Oid r = pid) (rows (plans w)) = Some p \<and> startable w pid p \<and>
     w' = queue_adds_update (\<lambda>q. if pid \<in> set q then q else q @ [pid]) (w\<lparr>tick := n\<rparr>)"
proof -
  define Q where "Q w' \<longleftrightarrow> (\<exists>p n. find (\<lambda>r. Oid r = pid) (rows (plans w)) = Some p \<and> startable w pid p \<and>
     w' = queue_adds_update (\<lambda>q. if pid \<in> set q then q else q @ [pid]) (w\<lparr>tick := n\<rparr>))" for w'
  have pre: "wp (preStart pid) (\<lambda>_. wp (taskQueueAdd pid) (\<lambda>_. Q) (\<lambda>_ _. True)) (\<lambda>_ _. True) (w\<lparr>tick := n\<rparr>)" for n
    by (rule wp_mono [OF wp_preStart]) (auto simp: taskQueueAdd_def wp_simps Q_def cong: if_cong)
  have "wp (planc_Start ctx pid) (\<lambda>_. Q) (\<lambda>_ _. True) w"
    unfolding planc_Start_def checkPlanAccess_def getOrNotFound_def wp_andThen wp_onResult planGet_def wp_sqlFirst
    by (auto simp: wp_simps Let_def plan_tables intro!: wp_access_frame pre split: option.splits)
  from wp_Inr [OF this assms] show ?thesis by (simp add: Q_def)
qed

definition demoStartable :: plan_db where
  "demoStartable = (demoDeployment stepNames)\<lparr>
     configs := \<lparr>rows = [td_Config demoRenderData], next_id = 2\<rparr>, nodes := \<lparr>rows = td_Nodes demoRenderData, next_id = 2\<rparr>,
     distributions := \<lparr>rows = [pixiu_model.extend newModel \<lparr>di_Family = ''linux'', di_Name = ''ubuntu'', di_Runner = ''r1''\<rparr>], next_id = 2\<rparr>,
     runners := \<lparr>rows = [pixiu_model.extend newModel \<lparr>ru_Name = ''r1'', ru_EngineImage = ''runner:v1'', ru_Status = RunnerStatusInstalled, ru_Description = []\<rparr>], next_id = 2\<rparr>\<rparr>"

lemma demo_node_reads: "\<exists>pn. modelNode2Type (buildNodeFromRequest 1 (demoNodeReq ''m1'')) = Inr pn"
  by (simp add: modelNode2Type_def demo_node_decodes)

lemma demoStartable_starts: "\<exists>w'. planc_Start (Some (demoUser 1 0)) 1 demoStartable = (Inr (), w')"
proof -
  obtain pn where pn: "modelNode2Type (buildNodeFromRequest 1 (demoNodeReq ''m1'')) = Inr pn" using demo_node_reads by blast
  have sel: "nd_PlanId (buildNodeFromRequest 1 (demoNodeReq ''m1'')) = 1" "Oid demoPlan = 1" "pl_Status demoPlan = UnStartPlanStatus" "pl_ExecMode demoPlan \<noteq> PlanExecModeAgent"
    by (simp_all add: buildNodeFromRequest_def demoPlan_def newPlan_def pixiu_model.defs exec_mode_defs)
  have cfg: "\<exists>cfg. modelConfig2Type (td_Config demoRenderData) = Inr cfg \<and> tc_OSImage cfg = ''ubuntu''" "cf_PlanId (td_Config demoRenderData) = 1"
    by (simp_all add: demoRenderData_def demo_config_decodes) (simp add: pixiu_model.defs)
  have tabs: "rows (plans demoStartable) = [demoPlan]" "rows (configs demoStartable) = [td_Config demoRenderData]"
    "rows (nodes demoStartable) = [buildNodeFromRequest 1 (demoNodeReq ''m1'')]" "fault demoStartable = (\<lambda>_. None)"
    using demoDeployment_up [of stepNames]
    by (simp_all add: demoStartable_def demoRenderData_def databaseUp_def) (simp add: demoDeployment_def)
  have run: "\<exists>d. find (\<lambda>r. di_Name r = ''ubuntu'') (rows (distributions demoStartable)) = Some d \<and> di_Runner d = ''r1''"
    "runQuery (buildQuery [WithName ru_Name ''r1'', WithOrderByASC]) (rows (runners demoStartable)) \<noteq> []"
    by (simp_all add: demoStartable_def pixiu_model.defs runQuery_def buildQuery_def emptyQuery_def WithName_def WithOrderByASC_def Where_def)
  obtain cfg where c: "modelConfig2Type (td_Config demoRenderData) = Inr cfg" "tc_OSImage cfg = ''ubuntu''" using cfg(1) by blast
  obtain d where d: "find (\<lambda>r. di_Name r = ''ubuntu'') (rows (distributions demoStartable)) = Some d" "di_Runner d = ''r1''" using run(1) by blast
  obtain r rs where r: "runQuery (buildQuery [WithName ru_Name ''r1'', WithOrderByASC]) (rows (runners demoStartable)) = r # rs"
    using run(2) by (cases "runQuery (buildQuery [WithName ru_Name ''r1'', WithOrderByASC]) (rows (runners demoStartable))") auto
  have n: "runQuery (buildQuery [Where (\<lambda>r. nd_PlanId r = 1)]) [buildNodeFromRequest 1 (demoNodeReq ''m1'')] = [buildNodeFromRequest 1 (demoNodeReq ''m1'')]"
    by (simp add: runQuery_def buildQuery_def emptyQuery_def Where_def sel)
  have "wp (preStart 1) (\<lambda>_ _. True) (\<lambda>_ _. False) (demoStartable\<lparr>tick := n\<rparr>)" for n
    by (simp add: preStart_def IsRunning_def orInternal_def orErrorf_def planConfig_Get_def planc_ListNodes_def GetRunner_def planGet_def
        GetConfigByPlan_def dbListNodes_def GetDistributionByName_def runnerGetBy_def wp_simps Let_def plan_tables tabs sel pn c cfg(2) d r n)
  then have "wp (planc_Start (Some (demoUser 1 0)) 1) (\<lambda>_ _. True) (\<lambda>_ _. False) demoStartable"
    by (simp add: planc_Start_def checkPlanAccess_def getOrNotFound_def taskQueueAdd_def wp_andThen wp_onResult wp_modify planGet_def wp_sqlFirst Let_def
        plan_tables tabs sel wp_ret wp_rootAccess demoUser_def RoleRoot_def)
  then show ?thesis by (auto simp: wp_def split: prod.splits sum.splits)
qed

lemma Start_guarded_witness:
  "\<exists>w' p n. planc_Start (Some (demoUser 1 0)) 1 demoStartable = (Inr (), w') \<and>
     find (\<lambda>r. Oid r = 1) (rows (plans demoStartable)) = Some p \<and> startable demoStartable 1 p \<and>
     w' = queue_adds_update (\<lambda>q. if 1 \<in> set q then q else q @ [1]) (demoStartable\<lparr>tick := n\<rparr>)"
proof -
  obtain w' where w': "planc_Start (Some (demoUser 1 0)) 1 demoStartable = (Inr (), w')" using demoStartable_starts by blast
  from Start_guarded [OF this] w' show ?thesis by blast
qed

section \<open>Deletion\<close>

text \<open>C23: a deletion that succeeds was of an existing plan that is not running, being stopped or destroyed, and removes the
  plan with all its tasks, its configuration and its nodes, and nothing of any other plan; the cluster of the
  plan stays.
\<close>

theorem Delete_spec:
  assumes "planc_Delete ctx pid w = (Inr (), w')"
  shows "(\<exists>p. find (\<lambda>r. Oid r = pid) (rows (plans w)) = Some p \<and> pl_Status p \<notin> {RunningPlanStatus, DestroyingPlanStatus, StoppingPlanStatus}) \<and>
     rows (plans w') = filter (\<lambda>r. Oid r \<noteq> pid) (rows (plans w)) \<and> rows (tasks w') = filter (\<lambda>r. tk_PlanId r \<noteq> pid) (rows (tasks w)) \<and>
     rows (configs w') = filter (\<lambda>r. cf_PlanId r \<noteq> pid) (rows (configs w)) \<and> rows (nodes w') = filter (\<lambda>r. nd_PlanId r \<noteq> pid) (rows (nodes w)) \<and>
     clusters w' = clusters w"
proof -
  define Q where "Q w' \<longleftrightarrow> (\<exists>p. find (\<lambda>r. Oid r = pid) (rows (plans w)) = Some p \<and> pl_Status p \<notin> {RunningPlanStatus, DestroyingPlanStatus, StoppingPlanStatus}) \<and>
     rows (plans w') = filter (\<lambda>r. Oid r \<noteq> pid) (rows (plans w)) \<and> rows (tasks w') = filter (\<lambda>r. tk_PlanId r \<noteq> pid) (rows (tasks w)) \<and>
     rows (configs w') = filter (\<lambda>r. cf_PlanId r \<noteq> pid) (rows (configs w)) \<and> rows (nodes w') = filter (\<lambda>r. nd_PlanId r \<noteq> pid) (rows (nodes w)) \<and>
     clusters w' = clusters w" for w' :: "'a plan_db_scheme"
  have "wp (planc_Delete ctx pid) (\<lambda>_. Q) (\<lambda>_ _. True) w"
    by (auto simp: planc_Delete_def planc_preDelete_def getOrNotFound_def IsRunning_def orInternal_def planGet_def planDelete_def
        DeleteTask_def DeleteConfigByPlan_def DeleteNodesByPlan_def wp_simps Let_def plan_tables Q_def delTable_def
        intro!: wp_access_frame split: option.splits)
  from wp_Inr [OF this assms] show ?thesis by (simp add: Q_def)
qed

lemma Delete_spec_witness:
  "\<exists>w'. planc_Delete (Some (demoUser 1 0)) 1 demoStartable = (Inr (), w') \<and> rows (plans w') = [] \<and> rows (tasks w') = [] \<and> rows (nodes w') = []"
proof -
  have sel: "nd_PlanId (buildNodeFromRequest 1 (demoNodeReq ''m1'')) = 1" "Oid demoPlan = 1" "pl_Status demoPlan = UnStartPlanStatus"
    by (simp_all add: buildNodeFromRequest_def demoPlan_def newPlan_def pixiu_model.defs)
  have tabs: "rows (plans demoStartable) = [demoPlan]" "rows (nodes demoStartable) = [buildNodeFromRequest 1 (demoNodeReq ''m1'')]"
    "rows (tasks demoStartable) = map demoTask stepNames" "fault demoStartable = (\<lambda>_. None)"
    using demoDeployment_up [of stepNames]
    by (simp_all add: demoStartable_def demoRenderData_def databaseUp_def) (simp_all add: demoDeployment_def)
  have "wp (planc_Delete (Some (demoUser 1 0)) 1) (\<lambda>_ _. True) (\<lambda>_ _. False) demoStartable"
    by (simp add: planc_Delete_def planc_preDelete_def getOrNotFound_def IsRunning_def orInternal_def planGet_def planDelete_def DeleteTask_def
        DeleteConfigByPlan_def DeleteNodesByPlan_def CheckResourceAccess_def GetUserFromContext_def CanAccess_def wp_simps Let_def plan_tables tabs sel
        demoUser_def RoleRoot_def)
  then obtain w' where w': "planc_Delete (Some (demoUser 1 0)) 1 demoStartable = (Inr (), w')" by (auto simp: wp_def split: prod.splits sum.splits)
  from Delete_spec [OF w'] w' show ?thesis by (simp add: tabs sel demoTask_sel)
qed

end
