(* ===== verification/PlanNodes.thy ===== *)
theory PlanNodes
  imports PlanProps
begin

text \<open>
  An update of the nodes of a plan: the ones that are no longer wanted go, the others are created or updated.
\<close>

definition isNode :: "int \<Rightarrow> string \<Rightarrow> Node \<Rightarrow> bool" where
  "isNode pid name r \<longleftrightarrow> nd_PlanId r = pid \<and> nd_Name r = name"

text \<open>A row has what an update writes.\<close>

definition nodeMatches :: "Node \<Rightarrow> Node \<Rightarrow> bool" where
  "nodeMatches obj r \<longleftrightarrow> nd_Ip r = nd_Ip obj \<and> nd_Role r = nd_Role obj \<and> nd_Auth r = nd_Auth obj"

definition nodePut :: "Node \<Rightarrow> Node list \<Rightarrow> Node list \<Rightarrow> bool" where
  "nodePut obj rs rs' \<longleftrightarrow> filter (\<lambda>r. \<not> isNode (nd_PlanId obj) (nd_Name obj) r) rs' = filter (\<lambda>r. \<not> isNode (nd_PlanId obj) (nd_Name obj) r) rs
     \<and> (\<exists>r. find (isNode (nd_PlanId obj) (nd_Name obj)) rs' = Some r \<and> nodeMatches obj r)"

lemma buildNodeUpdates_row:
  "nd_PlanId (applyUpdates (buildNodeUpdates old obj) r) = nd_PlanId r" "nd_Name (applyUpdates (buildNodeUpdates old obj) r) = nd_Name r"
  "nodeMatches obj (applyUpdates (buildNodeUpdates old obj) old)" "buildNodeUpdates old obj = [] \<Longrightarrow> nodeMatches obj old"
  "keepsOid (buildNodeUpdates old obj)"
  by (auto simp: buildNodeUpdates_def changed_def applyUpdates_def nodeMatches_def keepsOid_def split: if_splits)

lemma versioned_row: "applyUpdates (versionedUpdates now v us) r = (applyUpdates us r)\<lparr>GmtModified := now, ResourceVersion := v + 1\<rparr>"
  by (simp add: applyUpdates_def versionedUpdates_def)

lemma find_append_new: "find P xs = None \<Longrightarrow> P x \<Longrightarrow> find P (xs @ [x]) = Some x"
  by (induction xs) (auto split: if_splits)

lemma nodePut_create:
  assumes "find (isNode (nd_PlanId obj) (nd_Name obj)) rs = None"
    and "nd_PlanId x = nd_PlanId obj" "nd_Name x = nd_Name obj" "nodeMatches obj x"
  shows "nodePut obj rs (rs @ [x])"
proof -
  have x: "isNode (nd_PlanId obj) (nd_Name obj) x" using assms by (simp add: isNode_def)
  with find_append_new [OF assms(1)] show ?thesis using assms(4) by (simp add: nodePut_def)
qed

lemma nodePut_update:
  assumes ok: "table_ok T" and old: "find (isNode (nd_PlanId obj) (nd_Name obj)) (rows T) = Some old"
  shows "nodePut obj (rows T) (rows (updTable (versionMatch (Oid old) (ResourceVersion old)) (versionedUpdates now (ResourceVersion old) (buildNodeUpdates old obj)) T))"
proof -
  let ?V = "versionMatch (Oid old) (ResourceVersion old)" and ?P = "isNode (nd_PlanId obj) (nd_Name obj)"
  let ?f = "updRow ?V (versionedUpdates now (ResourceVersion old) (buildNodeUpdates old obj))"
  from find_Some_mem [OF old] have mem: "old \<in> set (rows T)" "?P old" by auto
  have V: "?V old" by (simp add: versionMatch_def)
  have only: "x = old" if "x \<in> set (rows T)" "?V x" for x
    using table_ok_Oid_eq [OF ok that(1) mem(1)] that(2) by (simp add: versionMatch_def)
  have P: "?P (?f x) = ?P x" for x by (simp add: updRow_def versioned_row isNode_def buildNodeUpdates_row)
  have "?f x = x" if "x \<in> set (rows T)" "\<not> ?P x" for x using only [OF that(1)] that(2) mem(2) by (auto simp: updRow_def)
  then have "map ?f (filter (\<lambda>r. \<not> ?P r) (rows T)) = filter (\<lambda>r. \<not> ?P r) (rows T)" by (intro map_idI) auto
  then have "filter (\<lambda>r. \<not> ?P r) (map ?f (rows T)) = filter (\<lambda>r. \<not> ?P r) (rows T)" by (simp add: filter_map o_def P)
  moreover have "find ?P (map ?f (rows T)) = Some (?f old)" using find_map_same [of ?P ?f, OF P] old by simp
  moreover have "nodeMatches obj (?f old)" using buildNodeUpdates_row(3) [of obj old] V by (simp add: updRow_def versioned_row nodeMatches_def)
  ultimately show ?thesis by (simp add: nodePut_def updTable_def)
qed

lemma wp_CreateOrUpdateNode:
  assumes "table_ok (nodes w)"
  shows "wp (CreateOrUpdateNode obj) (\<lambda>_ w'. nodePut obj (rows (nodes w)) (rows (nodes w')) \<and> table_ok (nodes w')) (\<lambda>_ _. True) w"
proof (cases "find (isNode (nd_PlanId obj) (nd_Name obj)) (rows (nodes w))")
  case None
  then show ?thesis
    using assms by (auto simp: CreateOrUpdateNode_def GetNodeByName_def CreateNode_def daoCreate_def wp_simps Let_def nodes_t_def isNode_def [abs_def]
        insTable_def nodeMatches_def table_ok_insTable [unfolded insTable_def] intro!: nodePut_create split: option.splits)
next
  case (Some old)
  then show ?thesis
    using assms buildNodeUpdates_row(4,5) [of old obj] nodePut_update [OF assms Some]
    by (auto simp: CreateOrUpdateNode_def GetNodeByName_def UpdateNode_def daoUpdate_def wp_simps Let_def nodes_t_def isNode_def [abs_def]
        nodePut_def table_ok_updTable split: option.splits)
qed

text \<open>What the loop over the requests has done after the requests \<open>reqs\<close>.\<close>

definition nodesPut :: "int \<Rightarrow> CreatePlanNodeRequest list \<Rightarrow> Node list \<Rightarrow> Node list \<Rightarrow> bool" where
  "nodesPut pid reqs rs rs' \<longleftrightarrow>
     filter (\<lambda>r. \<not> (nd_PlanId r = pid \<and> nd_Name r \<in> pn_Name ` set reqs)) rs' = filter (\<lambda>r. \<not> (nd_PlanId r = pid \<and> nd_Name r \<in> pn_Name ` set reqs)) rs
     \<and> (\<forall>req \<in> set reqs. \<exists>r. find (isNode pid (pn_Name req)) rs' = Some r \<and> nodeMatches (buildNodeFromRequest pid req) r)"

lemma find_filter_other: "(\<And>x. P x \<Longrightarrow> Q x) \<Longrightarrow> find P (filter Q xs) = find P xs"
  by (induction xs) auto

lemma nodePut_nodesPut:
  assumes one: "nodePut (buildNodeFromRequest pid req) rs rs1" and rest: "nodesPut pid reqs rs1 rs2" and new: "pn_Name req \<notin> pn_Name ` set reqs"
  shows "nodesPut pid (req # reqs) rs rs2"
proof -
  let ?N = "\<lambda>r. nd_PlanId r = pid \<and> nd_Name r \<in> pn_Name ` set reqs" and ?P = "isNode pid (pn_Name req)"
  have sel: "nd_PlanId (buildNodeFromRequest pid req) = pid" "nd_Name (buildNodeFromRequest pid req) = pn_Name req"
    by (simp_all add: buildNodeFromRequest_def pixiu_model.defs)
  have split: "filter (\<lambda>r. \<not> (nd_PlanId r = pid \<and> nd_Name r \<in> pn_Name ` set (req # reqs))) xs = filter (\<lambda>r. \<not> ?P r) (filter (\<lambda>r. \<not> ?N r) xs)"
    "filter (\<lambda>r. \<not> ?P r) (filter (\<lambda>r. \<not> ?N r) xs) = filter (\<lambda>r. \<not> ?N r) (filter (\<lambda>r. \<not> ?P r) xs)" for xs
    by (auto simp: isNode_def intro!: filter_cong)
  have P1: "filter (\<lambda>r. \<not> ?P r) rs1 = filter (\<lambda>r. \<not> ?P r) rs" using one by (simp add: nodePut_def sel)
  have N2: "filter (\<lambda>r. \<not> ?N r) rs2 = filter (\<lambda>r. \<not> ?N r) rs1" using rest by (simp add: nodesPut_def)
  have keep: "find ?P rs2 = find ?P rs1"
    using new N2 find_filter_other [of ?P "\<lambda>r. \<not> ?N r" rs1] find_filter_other [of ?P "\<lambda>r. \<not> ?N r" rs2] by (auto simp: isNode_def)
  have "filter (\<lambda>r. \<not> (nd_PlanId r = pid \<and> nd_Name r \<in> pn_Name ` set (req # reqs))) rs2 = filter (\<lambda>r. \<not> (nd_PlanId r = pid \<and> nd_Name r \<in> pn_Name ` set (req # reqs))) rs"
    unfolding split(1) N2 using P1 by (simp only: split(2))
  then show ?thesis using one rest keep by (simp add: nodesPut_def nodePut_def sel)
qed

lemma wp_putNodes:
  "table_ok (nodes w) \<Longrightarrow> distinct (map pn_Name reqs) \<Longrightarrow>
   wp (forEach (\<lambda>req. CreateOrUpdateNode (buildNodeFromRequest pid req)) reqs) (\<lambda>_ w'. nodesPut pid reqs (rows (nodes w)) (rows (nodes w'))) (\<lambda>_ _. True) w"
proof (induction reqs arbitrary: w)
  case Nil
  then show ?case by (simp add: wp_ret nodesPut_def)
next
  case (Cons req reqs)
  show ?case
    unfolding forEach.simps wp_andThen
  proof (rule wp_mono [OF wp_CreateOrUpdateNode [OF Cons.prems(1)]], goal_cases)
    case (1 x w1)
    show ?case
      by (rule wp_mono [OF Cons.IH]) (use 1 Cons.prems(2) in \<open>auto intro: nodePut_nodesPut\<close>)
  qed
qed

lemma nodesPut_result:
  assumes rs: "filter (\<lambda>r. nd_PlanId r \<noteq> pid) rs = filter (\<lambda>r. nd_PlanId r \<noteq> pid) rs0"
    "\<forall>r \<in> set rs. nd_PlanId r = pid \<longrightarrow> nd_Name r \<in> pn_Name ` set reqs" "nodesPut pid reqs rs rs'"
  shows "filter (\<lambda>r. nd_PlanId r \<noteq> pid) rs' = filter (\<lambda>r. nd_PlanId r \<noteq> pid) rs0 \<and>
     nd_Name ` {r \<in> set rs'. nd_PlanId r = pid} = pn_Name ` set reqs \<and>
     (\<forall>req \<in> set reqs. \<exists>r. find (isNode pid (pn_Name req)) rs' = Some r \<and> nodeMatches (buildNodeFromRequest pid req) r)"
proof -
  let ?N = "\<lambda>r. nd_PlanId r = pid \<and> nd_Name r \<in> pn_Name ` set reqs"
  have F: "filter (\<lambda>r. \<not> ?N r) rs' = filter (\<lambda>r. \<not> ?N r) rs"
    and G: "\<forall>req \<in> set reqs. \<exists>r. find (isNode pid (pn_Name req)) rs' = Some r \<and> nodeMatches (buildNodeFromRequest pid req) r"
    using rs(3) by (auto simp: nodesPut_def)
  have names: "nd_Name r \<in> pn_Name ` set reqs" if "r \<in> set rs'" "nd_PlanId r = pid" for r
  proof (rule ccontr)
    assume "nd_Name r \<notin> pn_Name ` set reqs"
    with that have "r \<in> set (filter (\<lambda>r. \<not> ?N r) rs')" by auto
    with that(2) rs(2) show False unfolding F by auto
  qed
  have others: "filter (\<lambda>r. nd_PlanId r \<noteq> pid) (filter (\<lambda>r. \<not> ?N r) xs) = filter (\<lambda>r. nd_PlanId r \<noteq> pid) xs" for xs
    by (auto intro!: filter_cong)
  have "filter (\<lambda>r. nd_PlanId r \<noteq> pid) rs' = filter (\<lambda>r. nd_PlanId r \<noteq> pid) rs0"
    using arg_cong [OF F, of "filter (\<lambda>r. nd_PlanId r \<noteq> pid)"] rs(1) unfolding others by (rule trans)
  moreover have "nd_Name ` {r \<in> set rs'. nd_PlanId r = pid} = pn_Name ` set reqs"
  proof
    show "nd_Name ` {r \<in> set rs'. nd_PlanId r = pid} \<subseteq> pn_Name ` set reqs" using names by auto
    show "pn_Name ` set reqs \<subseteq> nd_Name ` {r \<in> set rs'. nd_PlanId r = pid}"
    proof (rule image_subsetI)
      fix req
      assume "req \<in> set reqs"
      with G obtain r where "find (isNode pid (pn_Name req)) rs' = Some r" by blast
      from find_Some_mem [OF this] show "pn_Name req \<in> nd_Name ` {r \<in> set rs'. nd_PlanId r = pid}"
        by (intro image_eqI [of _ _ r]) (auto simp: isNode_def)
    qed
  qed
  ultimately show ?thesis using G by blast
qed

text \<open>C16: after an update of the nodes of a plan, the plan has nodes of exactly the requested names, each with the
  requested address, roles and credentials, and the nodes of the other plans are untouched.
\<close>

theorem updateNodes_spec:
  assumes "updateNodesIfNeeded pid reqs w = (Inr (), w')" and "table_ok (nodes w)" and "distinct (map pn_Name reqs)"
  shows "filter (\<lambda>r. nd_PlanId r \<noteq> pid) (rows (nodes w')) = filter (\<lambda>r. nd_PlanId r \<noteq> pid) (rows (nodes w)) \<and>
     nd_Name ` {r \<in> set (rows (nodes w')). nd_PlanId r = pid} = pn_Name ` set reqs \<and>
     (\<forall>req \<in> set reqs. \<exists>r. find (isNode pid (pn_Name req)) (rows (nodes w')) = Some r \<and> nodeMatches (buildNodeFromRequest pid req) r)"
proof -
  define Q where "Q w' \<longleftrightarrow> (\<exists>rs. filter (\<lambda>r. nd_PlanId r \<noteq> pid) rs = filter (\<lambda>r. nd_PlanId r \<noteq> pid) (rows (nodes w)) \<and>
     (\<forall>r \<in> set rs. nd_PlanId r = pid \<longrightarrow> nd_Name r \<in> pn_Name ` set reqs) \<and> nodesPut pid reqs rs (rows (nodes w')))" for w' :: "'a plan_db_scheme"
  have loop: "wp (forEach (\<lambda>req. CreateOrUpdateNode (buildNodeFromRequest pid req)) reqs) (\<lambda>_. Q) (\<lambda>_ _. True) v"
    if "table_ok (nodes v)" "filter (\<lambda>r. nd_PlanId r \<noteq> pid) (rows (nodes v)) = filter (\<lambda>r. nd_PlanId r \<noteq> pid) (rows (nodes w))"
      "\<forall>r \<in> set (rows (nodes v)). nd_PlanId r = pid \<longrightarrow> nd_Name r \<in> pn_Name ` set reqs" for v
    by (rule wp_mono [OF wp_putNodes [OF that(1) assms(3)]]) (use that in \<open>auto simp: Q_def\<close>)
  define old where "old = runQuery (buildQuery [Where (\<lambda>r. nd_PlanId r = pid)]) (rows (nodes w))"
  define del where "del = filter (\<lambda>name. name \<notin> pn_Name ` set reqs) (map nd_Name old)"
  have old: "set old = {r \<in> set (rows (nodes w)). nd_PlanId r = pid}"
    unfolding old_def by (subst set_runQuery_nolimit) (simp_all add: buildQuery_def emptyQuery_def Where_def)
  have tables: "table_ok (delTable P (nodes w))" for P using assms(2) by (rule table_ok_delTable)
  have "wp (if del \<noteq> [] then DeleteNodesByNames pid del else ret ())
      (\<lambda>_. wp (forEach (\<lambda>req. CreateOrUpdateNode (buildNodeFromRequest pid req)) reqs) (\<lambda>_. Q) (\<lambda>_ _. True)) (\<lambda>_ _. True) (w\<lparr>tick := n\<rparr>)" for n
  proof (cases "del = []")
    case True
    then have "\<forall>r \<in> set (rows (nodes w)). nd_PlanId r = pid \<longrightarrow> nd_Name r \<in> pn_Name ` set reqs"
      using old by (auto simp: del_def filter_empty_conv)
    then show ?thesis using True assms(2) by (simp add: wp_ret loop)
  next
    case False
    have "\<forall>r \<in> set (rows (delTable (\<lambda>r. nd_PlanId r = pid \<and> nd_Name r \<in> set del) (nodes w))). nd_PlanId r = pid \<longrightarrow> nd_Name r \<in> pn_Name ` set reqs"
      using old by (auto simp: del_def delTable_rows)
    moreover have "filter (\<lambda>r. nd_PlanId r \<noteq> pid) (rows (delTable (\<lambda>r. nd_PlanId r = pid \<and> nd_Name r \<in> set del) (nodes w))) =
        filter (\<lambda>r. nd_PlanId r \<noteq> pid) (rows (nodes w))"
      unfolding delTable_rows filter_filter by (rule filter_cong) auto
    ultimately show ?thesis using False tables
      by (auto simp: DeleteNodesByNames_def wp_simps Let_def nodes_t_def intro!: loop split: option.split)
  qed
  from this [of "Suc (tick w)"] have "wp (updateNodesIfNeeded pid reqs) (\<lambda>_. Q) (\<lambda>_ _. True) w"
    by (auto simp: updateNodesIfNeeded_def dbListNodes_def wp_andThen wp_daoList Let_def nodes_t_def old_def [symmetric] del_def [symmetric] split: option.split if_splits)
  from wp_Inr [OF this assms(1)] obtain rs where rs: "filter (\<lambda>r. nd_PlanId r \<noteq> pid) rs = filter (\<lambda>r. nd_PlanId r \<noteq> pid) (rows (nodes w))"
    "\<forall>r \<in> set rs. nd_PlanId r = pid \<longrightarrow> nd_Name r \<in> pn_Name ` set reqs" "nodesPut pid reqs rs (rows (nodes w'))"
    by (auto simp: Q_def)
  from nodesPut_result [OF rs] show ?thesis .
qed

lemma updateNodes_spec_witness:
  "\<exists>w'. updateNodesIfNeeded 1 [demoNodeReq ''m2''] demoStartable = (Inr (), w') \<and>
     nd_Name ` {r \<in> set (rows (nodes w')). nd_PlanId r = 1} = {''m2''}"
proof -
  have tabs: "rows (nodes demoStartable) = [buildNodeFromRequest 1 (demoNodeReq ''m1'')]" "next_id (nodes demoStartable) = 2" "fault demoStartable = (\<lambda>_. None)"
    using demoDeployment_up [of stepNames] by (simp_all add: demoStartable_def demoRenderData_def databaseUp_def)
  have sel: "nd_PlanId (buildNodeFromRequest i q) = i" "nd_Name (buildNodeFromRequest i q) = pn_Name q" "pn_Name (demoNodeReq n) = n" "Oid (buildNodeFromRequest i q) = 0" for i q n
    by (simp_all add: buildNodeFromRequest_def demoNodeReq_def pixiu_model.defs newModel_def)
  have "wp (updateNodesIfNeeded 1 [demoNodeReq ''m2'']) (\<lambda>_ _. True) (\<lambda>_ _. False) demoStartable"
    by (simp add: updateNodesIfNeeded_def dbListNodes_def DeleteNodesByNames_def CreateOrUpdateNode_def GetNodeByName_def CreateNode_def daoCreate_def
        wp_simps Let_def nodes_t_def tabs sel runQuery_def buildQuery_def emptyQuery_def Where_def delTable_def)
  then obtain w' where w': "updateNodesIfNeeded 1 [demoNodeReq ''m2''] demoStartable = (Inr (), w')" by (auto simp: wp_def split: prod.splits sum.splits)
  have "table_ok (nodes demoStartable)" by (simp add: table_ok_def tabs sel)
  from updateNodes_spec [OF w' this] w' show ?thesis by (simp add: sel)
qed

end
