(* ===== verification/PlanWait.thy ===== *)
theory PlanWait
  imports PlanTaskProps
begin

text \<open>
  The waits end: the loop that polls the job of an agent, and the one that looks at a container.
\<close>

section \<open>Jobs\<close>

lemma wp_True [simp]: "wp m (\<lambda>_ _. True) (\<lambda>_ _. True) w"
  by (rule wpI) simp_all

lemma pollJob_again:
  assumes "pollJob jobId deadline w = (Inr None, w1)"
  shows "tick w1 = tick w + 2" and "clock w1 = clock w" and "clock w (tick w) \<le> deadline"
proof -
  have "wp (pollJob jobId deadline) (\<lambda>r w1. r = None \<longrightarrow> tick w1 = tick w + 2 \<and> clock w1 = clock w \<and> clock w (tick w) \<le> deadline) (\<lambda>_ _. True) w"
    by (auto simp: pollJob_def expireJob_def jobGet_def wp_simps Let_def jobs_t_def split: option.splits)
  from wp_Inr [OF this assms] show "tick w1 = tick w + 2" "clock w1 = clock w" "clock w (tick w) \<le> deadline" by auto
qed

lemma pollJob_expired:
  assumes "deadline < clock w (tick w)"
  shows "\<exists>e w1. pollJob jobId deadline w = (Inl e, w1)"
proof -
  have "wp (pollJob jobId deadline) (\<lambda>_ _. False) (\<lambda>_ _. True) w"
    using assms by (simp add: pollJob_def expireJob_def jobInternalUpdate_def wp_simps Let_def split: option.splits)
  then show ?thesis by (auto simp: wp_def split: prod.splits sum.splits)
qed

lemma pollJob_success:
  assumes "pollJob jobId deadline w = (Inr (Some result), w1)"
  shows "\<exists>j \<in> set (rows (jobs w1)). Oid j = jobId \<and> jb_Status j = JobSuccess \<and> jb_Result j = result"
proof -
  have "wp (pollJob jobId deadline) (\<lambda>r w1. \<forall>result. r = Some result \<longrightarrow> (\<exists>j \<in> set (rows (jobs w1)). Oid j = jobId \<and> jb_Status j = JobSuccess \<and> jb_Result j = result)) (\<lambda>_ _. True) w"
    by (auto simp: pollJob_def expireJob_def jobGet_def wp_simps Let_def jobs_t_def dest!: find_Some_mem split: option.splits)
  from wp_Inr [OF this assms] show ?thesis by simp
qed

lemma awaitJob_ends:
  "(\<And>k. clock w (tick w + 3 * k) + jobPollInterval \<le> clock w (tick w + 3 * k + 3)) \<Longrightarrow> deadline < clock w (tick w) + int n * jobPollInterval \<Longrightarrow>
   \<exists>r w'. awaitJob (Suc n) we jobId deadline w = Some (r, w') \<and>
     (\<forall>result. r = Inr result \<longrightarrow> (\<exists>j \<in> set (rows (jobs w')). Oid j = jobId \<and> jb_Status j = JobSuccess \<and> jb_Result j = result))"
proof (induction n arbitrary: w)
  case 0
  then show ?case using pollJob_expired [of deadline w jobId] by auto
next
  case (Suc n)
  obtain r w1 where poll: "pollJob jobId deadline w = (r, w1)" by fastforce
  show ?case
  proof (cases "r = Inr None")
    case True
    let ?w2 = "snd (pollSleep we w1 :: (goerr + unit) \<times> _)"
    note again = pollJob_again [OF poll [unfolded True]]
    have w2: "tick ?w2 = tick w + 3" "clock ?w2 = clock w" using again by (simp_all add: pollSleep_def)
    have "\<exists>r w'. awaitJob (Suc n) we jobId deadline ?w2 = Some (r, w') \<and>
        (\<forall>result. r = Inr result \<longrightarrow> (\<exists>j \<in> set (rows (jobs w')). Oid j = jobId \<and> jb_Status j = JobSuccess \<and> jb_Result j = result))"
    proof (rule Suc.IH)
      fix k
      have "clock w (tick w + 3 * Suc k) + jobPollInterval \<le> clock w (tick w + 3 * Suc k + 3)" by (rule Suc.prems(1))
      then show "clock ?w2 (tick ?w2 + 3 * k) + jobPollInterval \<le> clock ?w2 (tick ?w2 + 3 * k + 3)" by (simp add: w2 algebra_simps)
    next
      show "deadline < clock ?w2 (tick ?w2) + int n * jobPollInterval"
        using Suc.prems(2) Suc.prems(1) [of 0] by (simp add: w2 algebra_simps)
    qed
    then show ?thesis using poll True by (simp del: awaitJob.simps add: awaitJob.simps(2) [of "Suc n"])
  next
    case False
    then show ?thesis using poll pollJob_success [of jobId deadline w] by (cases r) (auto split: option.splits)
  qed
qed

text \<open>C9: the wait for the job of an agent ends: when every sleep between two looks takes its two seconds, the loop returns
  after at most one turn per two seconds of the timeout and a few more, whatever the agents and the database do; and
  it reports a success only when the row of the job says so.
\<close>

theorem awaitJob_terminates:
  assumes "clock w (tick w) \<le> clock w (Suc (tick w))"
    and "\<And>k. clock w (Suc (tick w) + 3 * k) + jobPollInterval \<le> clock w (Suc (tick w) + 3 * k + 3)"
  shows "\<exists>r w'. awaitJob (pollBound timeout) we jobId (clock w (tick w) + timeout) (w\<lparr>tick := Suc (tick w)\<rparr>) = Some (r, w') \<and>
     (\<forall>result. r = Inr result \<longrightarrow> (\<exists>j \<in> set (rows (jobs w')). Oid j = jobId \<and> jb_Status j = JobSuccess \<and> jb_Result j = result))"
proof -
  have "timeout < int (nat (timeout div jobPollInterval) + 2) * jobPollInterval"
    by (simp add: jobPollInterval_def second_def) linarith
  with assms(1) have "clock w (tick w) + timeout < clock w (Suc (tick w)) + int (nat (timeout div jobPollInterval) + 2) * jobPollInterval" by linarith
  moreover have "pollBound timeout = Suc (nat (timeout div jobPollInterval) + 2)" by (simp add: pollBound_def)
  ultimately show ?thesis
    using awaitJob_ends [of "w\<lparr>tick := Suc (tick w)\<rparr>" "clock w (tick w) + timeout" "nat (timeout div jobPollInterval) + 2" we jobId] assms(2)
    by simp
qed

lemma awaitJob_terminates_witness:
  "\<exists>r w'. awaitJob (pollBound minute) demoWorkerEnv 1 (clock (demoPlanDb\<lparr>clock := (\<lambda>n. int n * second)\<rparr>) (tick (demoPlanDb\<lparr>clock := (\<lambda>n. int n * second)\<rparr>)) + minute)
      (demoPlanDb\<lparr>clock := (\<lambda>n. int n * second)\<rparr>\<lparr>tick := Suc (tick (demoPlanDb\<lparr>clock := (\<lambda>n. int n * second)\<rparr>))\<rparr>) = Some (r, w') \<and>
     (\<forall>result. r = Inr result \<longrightarrow> (\<exists>j \<in> set (rows (jobs w')). Oid j = 1 \<and> jb_Status j = JobSuccess \<and> jb_Result j = result))"
  by (rule awaitJob_terminates) (simp_all add: jobPollInterval_def second_def algebra_simps)

end
