(* ===== verification/AgentController.thy ===== *)
theory AgentController
  imports PlanController
begin

text \<open>
  The agents: their administration and the calls they make with their token
  (\<open>pkg/controller/agent/agent.go\<close>), and the job that takes silent agents off line
  (\<open>pkg/jobmanager/agent_syncer.go\<close>).
\<close>

section \<open>Requests and answers\<close>

record CreateAgentRequest =
  ca_Name :: string
  ca_UserID :: int
  ca_Type :: int
  ca_Description :: string

record UpdateAgentRequest =
  ua_Name :: "string option"
  ua_ResourceVersion :: int
  ua_Type :: "int option"
  ua_Description :: "string option"

record AgentHeartbeatRequest =
  hb_Hostname :: string
  hb_Version :: string

record AgentJobLogsRequest =
  jl_Chunk :: string

record AgentJobResultRequest =
  jr_Success :: bool
  jr_Message :: string
  jr_Result :: string

record types_Agent =
  tg_Id :: int
  tg_ResourceVersion :: int
  tg_GmtCreate :: int
  tg_GmtModified :: int
  tg_Name :: string
  tg_Type :: int
  tg_UserID :: int
  tg_Status :: int
  tg_Hostname :: string
  tg_Version :: string
  tg_LastHeartbeat :: int
  tg_Description :: string
  tg_Token :: string

record types_Job =
  tj_Id :: int
  tj_PlanId :: int
  tj_AgentId :: int
  tj_TaskName :: string
  tj_Kind :: string
  tj_Action :: string
  tj_Image :: string
  tj_Payload :: string
  tj_Status :: string
  tj_Message :: string

definition SetUserID :: "int \<Rightarrow> CreateAgentRequest \<Rightarrow> CreateAgentRequest" where
  "SetUserID i r = r\<lparr>ca_UserID := i\<rparr>"

definition agentModel2Type :: "Agent \<Rightarrow> types_Agent" where
  "agentModel2Type o1 = \<lparr>tg_Id = Oid o1, tg_ResourceVersion = ResourceVersion o1, tg_GmtCreate = GmtCreate o1, tg_GmtModified = GmtModified o1,
     tg_Name = ag_Name o1, tg_Type = ag_AgentType o1, tg_UserID = ag_UserID o1, tg_Status = ag_Status o1, tg_Hostname = ag_Hostname o1,
     tg_Version = ag_Version o1, tg_LastHeartbeat = ag_LastHeartbeat o1, tg_Description = ag_Description o1, tg_Token = ag_Token o1\<rparr>"

section \<open>Administration\<close>

text \<open>The time of the last heartbeat is set by the DAO.\<close>

definition newAgent :: "CreateAgentRequest \<Rightarrow> string \<Rightarrow> Agent" where
  "newAgent req tkn = pixiu_model.extend newModel
     \<lparr>ag_Name = ca_Name req, ag_AgentType = ca_Type req, ag_UserID = ca_UserID req, ag_Status = AgentStatusOffline, ag_Hostname = [],
      ag_Version = [], ag_LastHeartbeat = 0, ag_Description = ca_Description req, ag_Token = tkn\<rparr>"

definition agentc_Create :: "plan_env \<Rightarrow> CreateAgentRequest \<Rightarrow> ('m plan_db_scheme, goerr, unit) act" where
  "agentc_Create pv req = orInternal (tokenGenerate pv) (\<lambda>tkn.
     orInternal (agentCreate (newAgent req tkn)) (\<lambda>_. ret ()))"

text \<open>\<open>Get\<close>, \<open>preUpdate\<close> and \<open>Delete\<close> begin alike: the agent has to exist and to be the user's own or shared.\<close>

definition checkedAgent :: "context_user \<Rightarrow> int \<Rightarrow> ('m plan_db_scheme, goerr, Agent) act" where
  "checkedAgent ctx agentId = orInternal (agentGet agentId) (\<lambda>object. case object of
     None \<Rightarrow> fail ErrAgentNotFound
   | Some object \<Rightarrow> andThen (CheckResourceAccess ctx (ag_UserID object) ResourceTypeAgent agentId) (\<lambda>_. ret object))"

definition agentc_preUpdate :: "context_user \<Rightarrow> int \<Rightarrow> ('m plan_db_scheme, goerr, unit) act" where
  "agentc_preUpdate ctx agentId = andThen (checkedAgent ctx agentId) (\<lambda>_. ret ())"

definition agentUpdates :: "UpdateAgentRequest \<Rightarrow> Agent updates" where
  "agentUpdates req =
     (case ua_Name req of None \<Rightarrow> [] | Some x \<Rightarrow> [(''name'', ag_Name_update (\<lambda>_. x))]) @
     (case ua_Type req of None \<Rightarrow> [] | Some x \<Rightarrow> [(''agent_type'', ag_AgentType_update (\<lambda>_. x))]) @
     (case ua_Description req of None \<Rightarrow> [] | Some x \<Rightarrow> [(''description'', ag_Description_update (\<lambda>_. x))])"

definition agentc_Update :: "context_user \<Rightarrow> int \<Rightarrow> UpdateAgentRequest \<Rightarrow> ('m plan_db_scheme, goerr, unit) act" where
  "agentc_Update ctx agentId req = andThen (agentc_preUpdate ctx agentId) (\<lambda>_.
     orInternal (agentUpdate agentId (ua_ResourceVersion req) (agentUpdates req)) (\<lambda>_. ret ()))"

definition agentc_Delete :: "context_user \<Rightarrow> int \<Rightarrow> ('m plan_db_scheme, goerr, unit) act" where
  "agentc_Delete ctx agentId = andThen (checkedAgent ctx agentId) (\<lambda>_. orInternal (agentDelete agentId) (\<lambda>_. ret ()))"

definition agentc_Get :: "context_user \<Rightarrow> int \<Rightarrow> ('m plan_db_scheme, goerr, types_Agent) act" where
  "agentc_Get ctx agentId = andThen (checkedAgent ctx agentId) (\<lambda>object. ret (agentModel2Type object))"

definition buildAgentFilters :: "int \<Rightarrow> ListOptions \<Rightarrow> int list \<Rightarrow> Agent options list" where
  "buildAgentFilters uid opt authorizedIDs =
     (if lo_NameSelector opt \<noteq> [] then [WithNameLike ag_Name (lo_NameSelector opt)] else []) @
     [WithUserOrResourceIDs ag_UserID uid authorizedIDs] @
     (case lo_AgentStatus opt of None \<Rightarrow> [] | Some s \<Rightarrow> [WithStatus s])"

text \<open>A failing count is returned as it is, a failing list as an internal error.\<close>

definition agentc_List :: "context_user \<Rightarrow> ListOptions \<Rightarrow> ('m plan_db_scheme, goerr, types_Agent PageResult) act" where
  "agentc_List ctx listOption =
     (let lo = SetDefaultPageOption listOption
      in andThen (AuthorizedResourceIDs ctx ResourceTypeAgent) (\<lambda>authorized.
         let filterOpts = buildAgentFilters (lo_UserId lo) lo (case authorized of None \<Rightarrow> [] | Some ids \<Rightarrow> ids)
         in andThen (agentCount filterOpts) (\<lambda>total.
            let offset = (lo_Page lo - 1) * lo_Limit lo
            in orInternal (agentList (filterOpts @ [WithOffset offset, WithLimit (lo_Limit lo), WithOrderByDesc])) (\<lambda>objects.
               ret \<lparr>pr_Page = lo_Page lo, pr_Limit = lo_Limit lo, pr_Total = total, pr_Items = map agentModel2Type objects\<rparr>))))"

section \<open>The calls of an agent\<close>

definition invalidToken :: goerr where
  "invalidToken = NewError (Errorf ''invalid agent token'') StatusUnauthorized"

text \<open>A blank token leaves the query without a condition: \<open>First\<close> then finds the first agent of the table.\<close>

definition getAuthAgent :: "string \<Rightarrow> ('m plan_db_scheme, goerr, Agent) act" where
  "getAuthAgent agentToken = onResult (agentGetBy [WithToken (TrimSpace agentToken)]) (\<lambda>err. fail invalidToken)
     (\<lambda>obj. case obj of None \<Rightarrow> fail invalidToken | Some obj \<Rightarrow> ret obj)"

definition heartbeatUpdates :: "int \<Rightarrow> AgentHeartbeatRequest option \<Rightarrow> Agent updates" where
  "heartbeatUpdates now req = [(''status'', ag_Status_update (\<lambda>_. AgentStatusOnline)), (''last_heartbeat'', ag_LastHeartbeat_update (\<lambda>_. now))] @
     (case req of None \<Rightarrow> [] | Some r \<Rightarrow>
       (if hb_Hostname r \<noteq> [] then [(''hostname'', ag_Hostname_update (\<lambda>_. hb_Hostname r))] else []) @
       (if hb_Version r \<noteq> [] then [(''version'', ag_Version_update (\<lambda>_. hb_Version r))] else []))"

definition Heartbeat :: "string \<Rightarrow> AgentHeartbeatRequest option \<Rightarrow> ('m plan_db_scheme, goerr, unit) act" where
  "Heartbeat agentToken req = andThen (getAuthAgent agentToken) (\<lambda>obj. andThen timeNow (\<lambda>now.
     agentInternalUpdate (Oid obj) (heartbeatUpdates now req)))"

definition job2Type :: "Job \<Rightarrow> types_Job" where
  "job2Type job = \<lparr>tj_Id = Oid job, tj_PlanId = jb_PlanId job, tj_AgentId = jb_AgentId job, tj_TaskName = jb_TaskName job,
     tj_Kind = jb_Kind job, tj_Action = jb_Action job, tj_Image = jb_Image job, tj_Payload = jb_Payload job, tj_Status = jb_Status job,
     tj_Message = jb_Message job\<rparr>"

definition Claim :: "string \<Rightarrow> ('m plan_db_scheme, goerr, types_Job option) act" where
  "Claim agentToken = andThen (getAuthAgent agentToken) (\<lambda>obj.
     andThen (ClaimNext (Oid obj)) (\<lambda>job. ret (map_option job2Type job)))"

definition agentc_AppendLogs :: "string \<Rightarrow> int \<Rightarrow> AgentJobLogsRequest \<Rightarrow> ('m plan_db_scheme, goerr, unit) act" where
  "agentc_AppendLogs agentToken jobId req = andThen (getAuthAgent agentToken) (\<lambda>_. AppendLogs jobId (jl_Chunk req))"

text \<open>Who may report is any agent; whose job it is does not matter.\<close>

definition resultUpdates :: "AgentJobResultRequest \<Rightarrow> Job updates" where
  "resultUpdates req = [(''status'', jb_Status_update (\<lambda>_. if jr_Success req then JobSuccess else JobFailed)),
     (''message'', jb_Message_update (\<lambda>_. jr_Message req)), (''result'', jb_Result_update (\<lambda>_. jr_Result req))]"

definition ReportResult :: "string \<Rightarrow> int \<Rightarrow> AgentJobResultRequest \<Rightarrow> ('m plan_db_scheme, goerr, unit) act" where
  "ReportResult agentToken jobId req = andThen (getAuthAgent agentToken) (\<lambda>_. jobInternalUpdate jobId (resultUpdates req))"

definition jobNotFound :: goerr where
  "jobNotFound = NewError (Errorf ''job not found'') StatusNotFound"

definition GetPlan :: "string \<Rightarrow> int \<Rightarrow> ('m plan_db_scheme, goerr, PlanWithResources) act" where
  "GetPlan agentToken jobId = andThen (getAuthAgent agentToken) (\<lambda>obj.
     onResult (jobGet jobId) (\<lambda>err. fail jobNotFound) (\<lambda>job. case job of
       None \<Rightarrow> fail jobNotFound
     | Some job \<Rightarrow> if jb_AgentId job \<noteq> Oid obj then fail jobNotFound else GetWithSubResources (jb_PlanId job)))"

section \<open>Silent agents\<close>

text \<open>A round of the agent syncer; times are in nanoseconds.\<close>

definition agentHeartbeatTimeout :: int where
  "agentHeartbeatTimeout = 30 * 1000000000"

definition takeOffline :: "int \<Rightarrow> Agent \<Rightarrow> ('m plan_db_scheme, goerr, unit) act" where
  "takeOffline now agent = (if agentHeartbeatTimeout < now - ag_LastHeartbeat agent
     then ignoring (agentInternalUpdate (Oid agent) [(''status'', ag_Status_update (\<lambda>_. AgentStatusOffline))]) else ret ())"

definition AgentSyncer_Do :: "('m plan_db_scheme, goerr, unit) act" where
  "AgentSyncer_Do = andThen (agentList [WithStatus AgentStatusOnline]) (\<lambda>agents. andThen timeNow (\<lambda>now.
     forEach (takeOffline now) agents))"

end
