(* ===== verification/DeployAgent.thy ===== *)
theory DeployAgent
  imports AgentController PlanWorker
begin

text \<open>
  The deployment agent (\<open>pkg/deployagent\<close>, \<open>cmd/deploy-agent/main.go\<close>): its calls of the control plane, the four
  kinds of jobs, and one turn of its loop. The control plane answers with the operations of theory AgentController
  on its world; the docker, the SSH client and the files of the agent's host are its own. The transport of a request
  or an answer as JSON keeps texts that are UTF-8.
\<close>

section \<open>The host of the agent\<close>

text \<open>
  What becomes of a request: the control plane performs it and the answer comes back; it is refused before its
  handler runs; it is not delivered; it is performed and the answer is lost.
\<close>

datatype delivery = Delivered | Refused | NotSent goerr | NoAnswer goerr

text \<open>What \<open>ContainerWait\<close> sends first: on the error channel or on the status channel.\<close>

datatype waited = WaitErr "goerr option" | WaitStatus int

record host_env =
  ah_net :: "nat \<Rightarrow> delivery"
  ah_docker :: docker_env
  ah_wait :: "string \<Rightarrow> nat \<Rightarrow> goerr + waited"
  ah_logs :: "string \<Rightarrow> nat \<Rightarrow> goerr + string option"
  ah_ssh :: ssh_env
  ah_render :: render_env
  ah_errText :: "goerr \<Rightarrow> string"

record agent_host = plan_db +
  host_files :: "(string \<times> string) list"

section \<open>Configuration\<close>

record DefaultConfig =
  df_Server :: string
  df_Token :: string
  df_WorkDir :: string

fun firstNonEmpty :: "string list \<Rightarrow> string" where
  "firstNonEmpty [] = []"
| "firstNonEmpty (v # vs) = (if v \<noteq> [] then v else firstNonEmpty vs)"

definition Resolve_config :: "(string \<Rightarrow> string) \<Rightarrow> DefaultConfig \<Rightarrow> string \<times> string \<times> string" where
  "Resolve_config Getenv c =
     (let server = firstNonEmpty [df_Server c, Getenv ''PIXIU_SERVER''];
          tkn = firstNonEmpty [df_Token c, Getenv ''PIXIU_DEPLOY_TOKEN''];
          workDir = firstNonEmpty [df_WorkDir c, Getenv ''PIXIU_AGENT_WORKDIR'']
      in (server, tkn, if workDir = [] then ''/etc/pixiu'' else workDir))"

definition TrimRight :: "string \<Rightarrow> string \<Rightarrow> string" where
  "TrimRight s cutset = rev (dropWhile (\<lambda>c. c \<in> set cutset) (rev s))"

text \<open>The checks of \<open>main\<close>: without a server and a token the agent does not start.\<close>

definition agentSettings :: "(string \<Rightarrow> string) \<Rightarrow> DefaultConfig \<Rightarrow> (string \<times> string \<times> string) option" where
  "agentSettings Getenv c = (case Resolve_config Getenv c of (server0, token0, workRoot) \<Rightarrow>
     let server = TrimRight (TrimSpace server0) ''/''; tkn = TrimSpace token0
     in if server = [] \<or> tkn = [] then None else Some (server, tkn, workRoot))"

section \<open>Calls of the control plane\<close>

text \<open>
  \<open>do\<close>: the control plane answers an error, too, with the status 200, as \<open>SetFailed\<close> of
  \<open>api/server/httputils\<close> does; such an answer has no result and \<open>do\<close> returns no error.
\<close>

definition agentDo :: "host_env \<Rightarrow> ('m env_scheme, goerr, 'a) act \<Rightarrow> ('m env_scheme, goerr, 'a option) act" where
  "agentDo he handler = andThen (external (\<lambda>n. Inr (ah_net he n))) (\<lambda>d. case d of
     Delivered \<Rightarrow> andThen (attempt handler) (\<lambda>r. ret (case r of Inl e \<Rightarrow> None | Inr x \<Rightarrow> Some x))
   | Refused \<Rightarrow> ret None
   | NotSent err \<Rightarrow> fail err
   | NoAnswer err \<Rightarrow> andThen (ignoring handler) (\<lambda>_. fail err))"

definition Version :: string where "Version = ''v0.1.0''"

definition agHeartbeat :: "host_env \<Rightarrow> string \<Rightarrow> string \<Rightarrow> ('m plan_db_scheme, goerr, unit) act" where
  "agHeartbeat he tkn hostname = andThen (agentDo he (Heartbeat tkn (Some \<lparr>hb_Hostname = hostname, hb_Version = Version\<rparr>))) (\<lambda>_. ret ())"

definition agClaim :: "host_env \<Rightarrow> string \<Rightarrow> ('m plan_db_scheme, goerr, types_Job option) act" where
  "agClaim he tkn = andThen (agentDo he (Claim tkn)) (\<lambda>out. ret (case out of None \<Rightarrow> None | Some None \<Rightarrow> None
     | Some (Some job) \<Rightarrow> if tj_Id job = 0 then None else Some job))"

definition agLogs :: "host_env \<Rightarrow> string \<Rightarrow> int \<Rightarrow> string \<Rightarrow> ('m plan_db_scheme, goerr, unit) act" where
  "agLogs he tkn jobId chunk = andThen (agentDo he (agentc_AppendLogs tkn jobId \<lparr>jl_Chunk = chunk\<rparr>)) (\<lambda>_. ret ())"

definition agReport :: "host_env \<Rightarrow> string \<Rightarrow> int \<Rightarrow> bool \<Rightarrow> string \<Rightarrow> string \<Rightarrow> ('m plan_db_scheme, goerr, unit) act" where
  "agReport he tkn jobId success message result =
     andThen (agentDo he (ReportResult tkn jobId \<lparr>jr_Success = success, jr_Message = message, jr_Result = result\<rparr>)) (\<lambda>_. ret ())"

definition FetchPlan :: "host_env \<Rightarrow> string \<Rightarrow> int \<Rightarrow> ('m plan_db_scheme, goerr, PlanWithResources) act" where
  "FetchPlan he tkn jobId = andThen (agentDo he (GetPlan tkn jobId)) (\<lambda>out. case out of
     None \<Rightarrow> fail (Errorf ''empty plan'')
   | Some plan \<Rightarrow> if tp_Id (pw_Plan plan) = 0 then fail (Errorf ''empty plan'') else ret plan)"

section \<open>Jobs\<close>

definition pullImage :: "host_env \<Rightarrow> string \<Rightarrow> types_Job \<Rightarrow> ('m plan_db_scheme, goerr, unit) act" where
  "pullImage he tkn job = andThen (external (dk_client (ah_docker he))) (\<lambda>_.
     andThen (ignoring (agLogs he tkn (tj_Id job) (''pulling image '' @ tj_Image job @ [CHR 0x0A]))) (\<lambda>_.
     andThen (external (dk_pull (ah_docker he) (tj_Image job))) (\<lambda>_.
     andThen (ignoring (external (dk_copy (ah_docker he)))) (\<lambda>_.
       agReport he tkn (tj_Id job) True ''image ready'' []))))"

text \<open>A container of the name, with or without a slash: it is stopped and removed.\<close>

definition removeContainerByName :: "docker_env \<Rightarrow> string \<Rightarrow> ('m plan_db_scheme, goerr, unit) act" where
  "removeContainerByName dk name = andThen (external (dk_list dk)) (\<lambda>cs.
     case find (\<lambda>(cid, names). CHR ''/'' # name \<in> set names \<or> name \<in> set names) cs of
       None \<Rightarrow> ret ()
     | Some (cid, names) \<Rightarrow> andThen (ignoring (external (dk_stop dk cid))) (\<lambda>_. external (dk_remove dk cid)))"

definition runContainer :: "host_env \<Rightarrow> string \<Rightarrow> string \<Rightarrow> types_Job \<Rightarrow> ('m plan_db_scheme, goerr, unit) act" where
  "runContainer he tkn workRoot job =
     (let dk = ah_docker he; planDir = pathJoin [workRoot, FormatInt (tj_PlanId job)];
          name = tj_Action job @ ''-'' @ FormatInt (tj_PlanId job)
      in andThen (external (dk_client dk)) (\<lambda>_.
         andThen (ignoring (removeContainerByName dk name)) (\<lambda>_.
         andThen (external (dk_create dk name (tj_Image job) (''COMMAND='' @ tj_Action job) (planDir @ '':/configs''))) (\<lambda>cid.
         andThen (external (dk_start dk cid)) (\<lambda>_.
         andThen (external (ah_wait he cid)) (\<lambda>st.
         andThen (case st of
             WaitErr None \<Rightarrow> ret ()
           | WaitErr (Some err) \<Rightarrow> fail err
           | WaitStatus code \<Rightarrow> andThen (attempt (external (ah_logs he cid))) (\<lambda>logs.
               andThen (case logs of Inr (Some b) \<Rightarrow> ignoring (agLogs he tkn (tj_Id job) b) | _ \<Rightarrow> ret ()) (\<lambda>_.
                 if code \<noteq> 0 then fail (Errorf ''container exit code'') else ret ()))) (\<lambda>_.
           agReport he tkn (tj_Id job) True ''ok'' [])))))))"

text \<open>\<open>planrender.Render\<close> writes to the files of the host.\<close>

definition onHost :: "('m agent_host_scheme, goerr, 'a) act \<Rightarrow> ('m agent_host_scheme, goerr, 'a) act" where
  "onHost m = (\<lambda>w. case m (w\<lparr>plan_files := host_files w\<rparr>) of (r, w1) \<Rightarrow> (r, w1\<lparr>plan_files := plan_files w, host_files := plan_files w1\<rparr>))"

definition RemoveAll :: "string \<Rightarrow> (string \<times> string) list \<Rightarrow> (string \<times> string) list" where
  "RemoveAll path = filter (\<lambda>(p, content). \<not> (p = path \<or> HasPrefix p (path @ ''/'')))"

definition preparePlanDir :: "host_env \<Rightarrow> string \<Rightarrow> string \<Rightarrow> types_Job \<Rightarrow> ('m agent_host_scheme, goerr, unit) act" where
  "preparePlanDir he tkn workRoot job = onResult (FetchPlan he tkn (tj_Id job)) (\<lambda>err. fail (Wrapf ''fetch plan'' err)) (\<lambda>plan.
     let planId = FormatInt (tp_Id (pw_Plan plan)); planDir = pathJoin [workRoot, planId]
     in andThen (modify (host_files_update (RemoveAll planDir))) (\<lambda>_.
        andThen (MkdirAll (ah_render he) planDir) (\<lambda>_.
        onResult (onHost (Render (ah_render he) workRoot plan)) (\<lambda>err. fail (Wrapf ''render'' err)) (\<lambda>_.
          ignoring (agLogs he tkn (tj_Id job) (''rendered plan '' @ planId @ '' to '' @ planDir @ [CHR 0x0A]))))))"

definition renderConfig :: "host_env \<Rightarrow> string \<Rightarrow> string \<Rightarrow> types_Job \<Rightarrow> ('m agent_host_scheme, goerr, unit) act" where
  "renderConfig he tkn workRoot job =
     andThen (ignoring (agLogs he tkn (tj_Id job) (''fetching plan and rendering locally'' @ [CHR 0x0A]))) (\<lambda>_.
     andThen (preparePlanDir he tkn workRoot job) (\<lambda>_. agReport he tkn (tj_Id job) True ''render ok'' []))"

record payloadMaster =
  pm_Name :: string
  pm_Ip :: string
  pm_Auth :: string

definition zeroMaster :: payloadMaster where
  "zeroMaster = \<lparr>pm_Name = [], pm_Ip = [], pm_Auth = []\<rparr>"

definition fldsMaster :: "(string \<times> payloadMaster decoder) list" where
  "fldsMaster = [(''name'', field pm_Name (\<lambda>x. pm_Name_update (\<lambda>_. x)) decString),
     (''ip'', field pm_Ip (\<lambda>x. pm_Ip_update (\<lambda>_. x)) decString),
     (''auth'', field pm_Auth (\<lambda>x. pm_Auth_update (\<lambda>_. x)) decString)]"

definition decPayload :: "payloadMaster list decoder" where
  "decPayload = decStruct [(''masters'', field (\<lambda>ms. ms) (\<lambda>x ms. x) (decSlice (decStruct fldsMaster) zeroMaster))]"

definition payloadMasters :: "string \<Rightarrow> payloadMaster list option" where
  "payloadMasters payload = unmarshalWith decPayload payload []"

text \<open>Unlike the registration of the local mode, missing credentials are an error here.\<close>

definition adminConfAuth :: "ssh_env \<Rightarrow> PlanNodeAuth \<Rightarrow> goerr + ssh_auth" where
  "adminConfAuth sh auth =
     (if na_Type auth = PasswordAuth then (case na_Password auth of None \<Rightarrow> Inl (Errorf ''password auth missing'')
        | Some p \<Rightarrow> Inr (SshPassword (ps_User p) (ps_Password p)))
      else if na_Type auth = KeyAuth then (case na_Key auth of None \<Rightarrow> Inl (Errorf ''key auth missing'') | Some k \<Rightarrow>
        (case sh_parseKey sh (ks_Data k) of Inl e \<Rightarrow> Inl e | Inr signer \<Rightarrow> Inr (SshSigner ''root'' signer)))
      else Inl (Errorf ''unsupported auth type''))"

definition sshGetAdminConf :: "ssh_env \<Rightarrow> string \<Rightarrow> string \<Rightarrow> ('m plan_db_scheme, goerr, string) act" where
  "sshGetAdminConf sh ip authJSON = (case PlanNodeAuth_Unmarshal authJSON zeroPlanNodeAuth of None \<Rightarrow> fail unmarshalErr
     | Some auth \<Rightarrow> andThen (fromSum (adminConfAuth sh auth)) (\<lambda>cfg.
         andThen (external (sh_dial sh (JoinHostPort ip (FormatInt (SSHPort auth))) cfg)) (\<lambda>_.
         andThen (external (sh_sftp sh)) (\<lambda>_. andThen (external (sh_open sh ''/etc/kubernetes/admin.conf'')) (\<lambda>_.
           external (sh_readAll sh))))))"

text \<open>The first master that answers; otherwise the error of the last one.\<close>

fun fetchLoop :: "host_env \<Rightarrow> string \<Rightarrow> types_Job \<Rightarrow> goerr option \<Rightarrow> payloadMaster list \<Rightarrow> ('m plan_db_scheme, goerr, unit) act" where
  "fetchLoop he tkn job lastErr [] = fail (case lastErr of None \<Rightarrow> Errorf ''no master nodes in payload'' | Some e \<Rightarrow> e)"
| "fetchLoop he tkn job lastErr (m # ms) = onResult (sshGetAdminConf (ah_ssh he) (pm_Ip m) (pm_Auth m))
     (\<lambda>err. andThen (ignoring (agLogs he tkn (tj_Id job) (''master '' @ pm_Ip m @ '': '' @ ah_errText he err @ [CHR 0x0A]))) (\<lambda>_.
        fetchLoop he tkn job (Some err) ms))
     (\<lambda>cfg. agReport he tkn (tj_Id job) True ''ok'' (base64Encode cfg))"

definition fetchKubeconfig :: "host_env \<Rightarrow> string \<Rightarrow> types_Job \<Rightarrow> ('m plan_db_scheme, goerr, unit) act" where
  "fetchKubeconfig he tkn job = (case payloadMasters (tj_Payload job) of None \<Rightarrow> fail unmarshalErr
     | Some masters \<Rightarrow> fetchLoop he tkn job None masters)"

definition RunJob :: "host_env \<Rightarrow> string \<Rightarrow> string \<Rightarrow> types_Job \<Rightarrow> ('m agent_host_scheme, goerr, unit) act" where
  "RunJob he tkn workRoot job =
     (if tj_Kind job = JobPullImage then pullImage he tkn job
      else if tj_Kind job = JobRenderConfig then renderConfig he tkn workRoot job
      else if tj_Kind job = JobRunContainer then runContainer he tkn workRoot job
      else if tj_Kind job = JobFetchKubeconfig then fetchKubeconfig he tkn job
      else fail (Errorf ''unknown job kind''))"

section \<open>The loop\<close>

text \<open>A job that fails is reported with the text of its error.\<close>

definition performJob :: "host_env \<Rightarrow> string \<Rightarrow> string \<Rightarrow> types_Job \<Rightarrow> ('m agent_host_scheme, goerr, unit) act" where
  "performJob he tkn workRoot j = onResult (RunJob he tkn workRoot j)
     (\<lambda>err. ignoring (agReport he tkn (tj_Id j) False (ah_errText he err) [])) ret"

text \<open>
  A tick of the loop of \<open>main\<close>; \<open>running\<close> says that a job is being performed. The result is the job that is
  started, if any; its goroutine is \<open>performJob\<close>.
\<close>

definition agentTick :: "host_env \<Rightarrow> string \<Rightarrow> string \<Rightarrow> bool \<Rightarrow> ('m plan_db_scheme, goerr, types_Job option) act" where
  "agentTick he tkn hostname running = andThen (ignoring (agHeartbeat he tkn hostname)) (\<lambda>_.
     if running then ret None
     else onResult (agClaim he tkn) (\<lambda>err. ret None) ret)"

definition agentTurn :: "host_env \<Rightarrow> string \<Rightarrow> string \<Rightarrow> string \<Rightarrow> ('m agent_host_scheme, goerr, types_Job option) act" where
  "agentTurn he tkn hostname workRoot = andThen (agentTick he tkn hostname False) (\<lambda>job.
     case job of None \<Rightarrow> ret None | Some j \<Rightarrow> andThen (performJob he tkn workRoot j) (\<lambda>_. ret (Some j)))"

end
