(* ===== verification/AgentProps.thy ===== *)
theory AgentProps
  imports DeployAgent PlanTaskProps
begin

text \<open>
  The agents: whom a token stands for, what a claim and a report change, that a turn of the deployment agent settles
  the job it claims, and which agents are taken off line.
\<close>

section \<open>Whom a token stands for\<close>

definition tokenMatches :: "string \<Rightarrow> Agent \<Rightarrow> bool" where
  "tokenMatches t a \<longleftrightarrow> TrimSpace t = [] \<or> ag_Token a = TrimSpace t"

lemma runQuery_token:
  assumes "table_ok T"
  shows "runQuery (buildQuery [WithToken (TrimSpace t), WithOrderByASC]) (rows T) = filter (tokenMatches t) (rows T)"
proof -
  have "sorted (map Oid (filter P (rows T)))" for P using assms by (simp add: table_ok_def sorted_filter)
  then show ?thesis
    by (auto simp: buildQuery_def WithToken_def WithOrderByASC_def Where_def runQuery_def tokenMatches_def emptyQuery_def sort_key_id_if_sorted
        intro!: filter_cong)
qed

lemma wp_getAuthAgent:
  assumes "table_ok (agents w)"
  shows "wp (getAuthAgent t) Q E w = (case fault w (tick w) of
     Some f \<Rightarrow> E invalidToken (w\<lparr>tick := Suc (tick w)\<rparr>)
   | None \<Rightarrow> (case find (tokenMatches t) (rows (agents w)) of
       None \<Rightarrow> E invalidToken (w\<lparr>tick := Suc (tick w)\<rparr>) | Some a \<Rightarrow> Q a (w\<lparr>tick := Suc (tick w)\<rparr>)))"
proof -
  have "find P xs = (case filter P xs of [] \<Rightarrow> None | x # _ \<Rightarrow> Some x)" for P :: "Agent \<Rightarrow> bool" and xs
    by (induction xs) auto
  then show ?thesis
    using assms by (simp add: getAuthAgent_def agentGetBy_def wp_simps Let_def runQuery_token plan_tables split: option.splits list.splits)
qed

section \<open>Claims and reports\<close>

lemma wp_jobs_update:
  assumes "databaseUp w"
    and "\<And>w'. rows (jobs w') = map (\<lambda>r. if Oid r = i then applyUpdates us r\<lparr>GmtModified := clock w (tick w)\<rparr> else r) (rows (jobs w)) \<Longrightarrow>
      databaseUp w' \<Longrightarrow> agents w' = agents w \<Longrightarrow> Q () w'"
  shows "wp (jobInternalUpdate i us) Q E w"
  using assms(1)
  by (auto simp: jobInternalUpdate_def wp_simps Let_def databaseUp_def jobs_t_def updConflict_def list_ex_iff updTable_def updRow_def
      intro!: assms(2))

text \<open>C24: any token of any agent, and a blank token as soon as there is an agent, gets any result written into any job,
  whosever job it is and in whatever state it is.
\<close>

theorem ReportResult_any_job:
  fixes w :: "'m plan_db_scheme"
  assumes "databaseUp w" and "table_ok (agents w)" and "\<exists>a \<in> set (rows (agents w)). TrimSpace t = [] \<or> ag_Token a = TrimSpace t"
  shows "\<exists>w' now. ReportResult t jobId req w = (Inr (), w') \<and>
    rows (jobs w') = map (\<lambda>r. if Oid r = jobId then r\<lparr>jb_Status := (if jr_Success req then JobSuccess else JobFailed),
      jb_Message := jr_Message req, jb_Result := jr_Result req, GmtModified := now\<rparr> else r) (rows (jobs w))"
proof -
  define Q where "Q w' \<longleftrightarrow> (\<exists>now. rows (jobs w') = map (\<lambda>r. if Oid r = jobId then r\<lparr>jb_Status := (if jr_Success req then JobSuccess else JobFailed),
      jb_Message := jr_Message req, jb_Result := jr_Result req, GmtModified := now\<rparr> else r) (rows (jobs w)))" for w' :: "'m plan_db_scheme"
  obtain a where a: "find (tokenMatches t) (rows (agents w)) = Some a"
    using assms(3) by (cases "find (tokenMatches t) (rows (agents w))") (auto simp: find_None_iff tokenMatches_def)
  have "wp (ReportResult t jobId req) (\<lambda>_. Q) (\<lambda>_ _. False) w"
    unfolding ReportResult_def wp_andThen wp_getAuthAgent [OF assms(2)]
    using assms(1) a by (auto simp: databaseUp_def Q_def resultUpdates_def applyUpdates_def intro!: wp_jobs_update)
  then show ?thesis by (auto simp: wp_def Q_def split: prod.splits sum.splits)
qed

text \<open>a claim returns the first pending job of the agent its token stands for, marks exactly this job as running, and
  returns no job only when none is pending; a claim that fails changes no job.
\<close>

theorem Claim_spec:
  fixes w :: "'m plan_db_scheme"
  assumes "table_ok (agents w)" and "table_ok (jobs w)"
  shows "case Claim t w of
     (Inl e, w') \<Rightarrow> jobs w' = jobs w
   | (Inr None, w') \<Rightarrow> jobs w' = jobs w \<and> (\<exists>a \<in> set (rows (agents w)). tokenMatches t a \<and>
       (\<forall>r \<in> set (rows (jobs w)). \<not> (jb_AgentId r = Oid a \<and> jb_Status r = JobPending)))
   | (Inr (Some j), w') \<Rightarrow> \<exists>a job now. find (tokenMatches t) (rows (agents w)) = Some a \<and>
       find (\<lambda>r. jb_AgentId r = Oid a \<and> jb_Status r = JobPending) (rows (jobs w)) = Some job \<and>
       j = job2Type (job\<lparr>jb_Status := JobRunning\<rparr>) \<and>
       rows (jobs w') = map (\<lambda>r. if r = job then r\<lparr>jb_Status := JobRunning, jb_ClaimedAt := Some now, GmtModified := now\<rparr> else r) (rows (jobs w))"
proof -
  define Q where "Q r w' \<longleftrightarrow> (case r of None \<Rightarrow> jobs w' = jobs w \<and> (\<exists>a \<in> set (rows (agents w)). tokenMatches t a \<and>
       (\<forall>r \<in> set (rows (jobs w)). \<not> (jb_AgentId r = Oid a \<and> jb_Status r = JobPending)))
     | Some j \<Rightarrow> \<exists>a job now. find (tokenMatches t) (rows (agents w)) = Some a \<and>
       find (\<lambda>r. jb_AgentId r = Oid a \<and> jb_Status r = JobPending) (rows (jobs w)) = Some job \<and> j = job2Type (job\<lparr>jb_Status := JobRunning\<rparr>) \<and>
       rows (jobs w') = map (\<lambda>r. if r = job then r\<lparr>jb_Status := JobRunning, jb_ClaimedAt := Some now, GmtModified := now\<rparr> else r) (rows (jobs w)))"
    for r and w' :: "'m plan_db_scheme"
  have one: "r = job" if "find P (rows (jobs w)) = Some job" "r \<in> set (rows (jobs w))" "Oid r = Oid job" for r job P
    using that assms(2) find_Some_mem [OF that(1)] by (auto intro: table_ok_Oid_eq)
  have claimed: "map (updRow (\<lambda>r. Oid r = Oid job \<and> jb_Status r = JobPending) us) (rows (jobs w)) = map (\<lambda>r. if r = job then applyUpdates us r else r) (rows (jobs w))"
    if "find (\<lambda>r. jb_AgentId r = i \<and> jb_Status r = JobPending) (rows (jobs w)) = Some job" for job us i
    using one [OF that] find_Some_mem [OF that] by (auto simp: updRow_def)
  have "wp (Claim t) Q (\<lambda>_ w'. jobs w' = jobs w) w"
    unfolding Claim_def wp_andThen wp_getAuthAgent [OF assms(1)]
    by (auto simp: ClaimNext_def nextPending_def claimJob_def wp_simps wp_transaction Let_def jobs_t_def updConflict_def list_ex_iff updTable_def
        Q_def find_None_iff claimed applyUpdates_def map_option_case dest: find_Some_mem split: option.splits)
  then show ?thesis by (auto simp: wp_def Q_def split: prod.splits sum.splits option.splits)
qed

section \<open>Silent agents\<close>

definition agentView :: "Agent \<Rightarrow> Agent" where
  "agentView a = a\<lparr>GmtModified := 0\<rparr>"

definition agentViews :: "'m plan_db_scheme \<Rightarrow> Agent list" where
  "agentViews w = map agentView (rows (agents w))"

definition agentNamesUnique :: "Agent list \<Rightarrow> bool" where
  "agentNamesUnique as \<longleftrightarrow> (\<forall>a \<in> set as. \<forall>b \<in> set as. Oid a \<noteq> Oid b \<longrightarrow> ag_Name a \<noteq> ag_Name b)"

lemma agentView_sel [simp]: "Oid (agentView a) = Oid a" "ag_Name (agentView a) = ag_Name a" "ag_Status (agentView a) = ag_Status a"
  by (simp_all add: agentView_def)

lemma agentNamesUnique_map:
  "(\<And>a. Oid (f a) = Oid a \<and> ag_Name (f a) = ag_Name a) \<Longrightarrow> agentNamesUnique (map f as) = agentNamesUnique as"
  by (simp add: agentNamesUnique_def)

text \<open>An agent is silent when its last heartbeat is older than the timeout.\<close>

definition silent :: "int \<Rightarrow> Agent \<Rightarrow> bool" where
  "silent now a \<longleftrightarrow> agentHeartbeatTimeout < now - ag_LastHeartbeat a"

definition offIf :: "bool \<Rightarrow> Agent \<Rightarrow> Agent" where
  "offIf b a = (if b then a\<lparr>ag_Status := AgentStatusOffline\<rparr> else a)"

lemma offIf_sel [simp]: "Oid (offIf b a) = Oid a" "ag_Name (offIf b a) = ag_Name a" "agentView (offIf b a) = offIf b (agentView a)"
  "offIf c (offIf b a) = offIf (b \<or> c) a" "offIf False a = a"
  by (simp_all add: offIf_def agentView_def)

lemma wp_takeOffline:
  assumes "databaseUp w" and "agentNamesUnique (agentViews w)"
    and "\<And>w'. databaseUp w' \<Longrightarrow> agentViews w' = map (\<lambda>r. offIf (Oid r = Oid a \<and> silent now a) r) (agentViews w) \<Longrightarrow> Q () w'"
  shows "wp (takeOffline now a) Q E w"
proof (cases "silent now a")
  case True
  have view: "agentView (updRow P [(c, ag_Status_update (\<lambda>_. s)), (c', GmtModified_update (\<lambda>_. n))] r) = (if P r then agentView r\<lparr>ag_Status := s\<rparr> else agentView r)" for P c c' s n r
    by (simp add: updRow_def applyUpdates_def agentView_def)
  have names: "ag_Name (updRow P [(c, ag_Status_update (\<lambda>_. s)), (c', GmtModified_update (\<lambda>_. n))] r) = ag_Name r" for P c c' s n r
    by (simp add: updRow_def applyUpdates_def)
  show ?thesis
    using assms(1,2) True
    by (auto simp: takeOffline_def silent_def agentInternalUpdate_def wp_simps Let_def databaseUp_def agents_t_def updConflict_def list_ex_iff
        changedRows_def names agentNamesUnique_def agentViews_def updTable_def view offIf_def comp_def intro!: assms(3))
next
  case False
  have "map (\<lambda>r. offIf False r) xs = xs" for xs by (induction xs) simp_all
  with False show ?thesis
    using assms(1,2) by (auto simp: takeOffline_def silent_def wp_simps intro!: assms(3))
qed

lemma wp_takeAllOffline:
  assumes "databaseUp w" and "agentNamesUnique (agentViews w)"
    and "\<And>w'. agentViews w' = map (\<lambda>r. offIf (\<exists>a \<in> set as. Oid r = Oid a \<and> silent now a) r) (agentViews w) \<Longrightarrow> Q () w'"
  shows "wp (forEach (takeOffline now) as) Q E w"
  using assms
proof (induction as arbitrary: w)
  case Nil
  then show ?case by (simp add: wp_simps)
next
  case (Cons a as)
  show ?case
    unfolding forEach.simps wp_andThen
  proof (rule wp_takeOffline [OF Cons.prems(1,2)])
    fix w' :: "'a plan_db_scheme"
    assume up: "databaseUp w'" and v: "agentViews w' = map (\<lambda>r. offIf (Oid r = Oid a \<and> silent now a) r) (agentViews w)"
    from v Cons.prems(2) have "agentNamesUnique (agentViews w')" by (simp add: agentNamesUnique_map)
    with up show "wp (forEach (takeOffline now) as) Q E w'"
    proof (rule Cons.IH)
      fix w'' :: "'a plan_db_scheme"
      assume "agentViews w'' = map (\<lambda>r. offIf (\<exists>a \<in> set as. Oid r = Oid a \<and> silent now a) r) (agentViews w')"
      with v show "Q () w''" by (intro Cons.prems(3)) (simp add: comp_def)
    qed
  qed
qed

text \<open>a round of the agent syncer takes off line exactly the agents on line whose last heartbeat is older than thirty
  seconds, and changes nothing else of any agent.
\<close>

theorem AgentSyncer_spec:
  fixes w :: "'m plan_db_scheme"
  assumes "databaseUp w" and "table_ok (agents w)" and "agentNamesUnique (rows (agents w))"
  shows "\<exists>w' now. AgentSyncer_Do w = (Inr (), w') \<and> agentViews w' =
    map (\<lambda>a. agentView (if ag_Status a = AgentStatusOnline \<and> 30 * 1000000000 < now - ag_LastHeartbeat a then a\<lparr>ag_Status := AgentStatusOffline\<rparr> else a)) (rows (agents w))"
proof -
  define Q where "Q w' \<longleftrightarrow> (\<exists>now. agentViews w' = map (\<lambda>a. agentView (offIf (ag_Status a = AgentStatusOnline \<and> silent now a) a)) (rows (agents w)))"
    for w' :: "'m plan_db_scheme"
  let ?on = "runQuery (buildQuery [WithStatus AgentStatusOnline]) (rows (agents w))"
  have on: "set ?on = {a \<in> set (rows (agents w)). ag_Status a = AgentStatusOnline}"
    by (subst set_runQuery_nolimit) (simp_all add: buildQuery_def WithStatus_def Where_def emptyQuery_def)
  have sil: "(\<exists>a \<in> set ?on. Oid r = Oid a \<and> silent now a) \<longleftrightarrow> ag_Status r = AgentStatusOnline \<and> silent now r" if "r \<in> set (rows (agents w))" for r now
    using that table_ok_Oid_eq [OF assms(2)] unfolding on by auto
  have up: "databaseUp (w\<lparr>tick := n\<rparr>)" "agentNamesUnique (agentViews (w\<lparr>tick := n\<rparr>))" for n
    using assms(1,3) by (simp_all add: databaseUp_def agentViews_def agentNamesUnique_map)
  have "wp AgentSyncer_Do (\<lambda>_. Q) (\<lambda>_ _. False) w"
    using assms(1) by (auto simp: AgentSyncer_Do_def agentList_def wp_simps Let_def databaseUp_def agents_t_def Q_def agentViews_def sil
        intro!: wp_takeAllOffline up)
  then show ?thesis by (auto simp: wp_def Q_def offIf_def silent_def agentHeartbeatTimeout_def split: prod.splits sum.splits)
qed

section \<open>A turn of the deployment agent\<close>

text \<open>What a step of a job leaves alone: the jobs, who has which token, and the database.\<close>

definition agentKey :: "Agent \<Rightarrow> int \<times> string" where
  "agentKey a = (Oid a, ag_Token a)"

definition steady :: "Job table \<Rightarrow> (int \<times> string) list \<Rightarrow> 'm plan_db_scheme \<Rightarrow> bool" where
  "steady J K w \<longleftrightarrow> jobs w = J \<and> map agentKey (rows (agents w)) = K \<and> table_ok (agents w) \<and> databaseUp w"

definition settled :: "int \<Rightarrow> string \<Rightarrow> Job table \<Rightarrow> (int \<times> string) list \<Rightarrow> 'm plan_db_scheme \<Rightarrow> bool" where
  "settled i status J K w \<longleftrightarrow> (\<exists>message result now. rows (jobs w) = map (\<lambda>r. if Oid r = i
     then r\<lparr>jb_Status := status, jb_Message := message, jb_Result := result, GmtModified := now\<rparr> else r) (rows J))"

lemma wp_steady:
  assumes "steady J K w" and "keeps (steady J K) m" and "\<And>x w'. steady J K w' \<Longrightarrow> Q x w'" and "\<And>e w'. steady J K w' \<Longrightarrow> E e w'"
  shows "wp m Q E w"
  using keepsD [OF assms(2) assms(1)] assms(3,4) by (auto simp: wp_def split: prod.splits sum.splits)

lemma wp_after:
  assumes "steady J K w" and "keeps (steady J K) m" and "\<And>e w'. steady J K w' \<Longrightarrow> E e w'"
    and "\<And>x w'. steady J K w' \<Longrightarrow> wp (f x) Q E w'"
  shows "wp (andThen m f) Q E w"
  unfolding wp_andThen using assms(1,2) by (rule wp_steady) (use assms(3,4) in auto)

lemma find_agentKey:
  "map agentKey as = K \<Longrightarrow> map_option agentKey (find (tokenMatches t) as) = find (\<lambda>(i, tok). TrimSpace t = [] \<or> tok = TrimSpace t) K"
  by (induction as arbitrary: K) (auto simp: agentKey_def tokenMatches_def)

lemma steady_auth:
  assumes "steady J K w" and "find (\<lambda>(i, tok). TrimSpace t = [] \<or> tok = TrimSpace t) K = Some k"
    and "\<And>a n. steady J K (w\<lparr>tick := n\<rparr>) \<Longrightarrow> agentKey a = k \<Longrightarrow> Q a (w\<lparr>tick := n\<rparr>)"
  shows "wp (getAuthAgent t) Q E w"
proof -
  obtain a where a: "find (tokenMatches t) (rows (agents w)) = Some a" "agentKey a = k"
    using find_agentKey [of "rows (agents w)" K t] assms(1,2) by (auto simp: steady_def)
  have t: "steady J K (w\<lparr>tick := n\<rparr>)" for n using assms(1) by (simp add: steady_def databaseUp_def)
  show ?thesis
    using assms(1) a by (auto simp: wp_getAuthAgent steady_def databaseUp_def intro!: assms(3) t)
qed

named_theorems steady_intros \<open>operations that leave the jobs and the tokens\<close>

lemma steady_basic [steady_intros]:
  "keeps (steady J K) (external f)" "keeps (steady J K) (fromSum s)" "keeps (steady J K) timeNow"
  by (auto intro!: keepsI simp: wp_simps steady_def databaseUp_def split: sum.splits)

lemma steady_files [steady_intros]:
  "keeps (steady J K) (WriteFile rd path content)" "keeps (steady J K) (MkdirAll rd path)"
  by (auto intro!: keepsI simp: WriteFile_def MkdirAll_def wp_simps steady_def databaseUp_def split: sum.splits)

lemma steady_host [steady_intros]: "keeps (steady J K) (modify (host_files_update g))"
  by (auto intro!: keepsI simp: wp_simps steady_def databaseUp_def)

lemma steady_onHost [steady_intros]:
  fixes m :: "('a agent_host_scheme, goerr, 'b) act"
  shows "keeps (steady J K) m \<Longrightarrow> keeps (steady J K) (onHost m)"
proof -
  assume k: "keeps (steady J K) m"
  have files: "steady J K (w\<lparr>plan_files := a\<rparr>) = steady J K w" "steady J K (w\<lparr>plan_files := a, host_files := b\<rparr>) = steady J K w"
    for w :: "'a agent_host_scheme" and a b by (simp_all add: steady_def databaseUp_def)
  show "keeps (steady J K) (onHost m)"
    unfolding keeps_def
  proof (intro allI impI)
    fix w :: "'a agent_host_scheme"
    assume "steady J K w"
    then have "steady J K (snd (m (w\<lparr>plan_files := host_files w\<rparr>)))" by (intro keepsD [OF k]) (simp add: files)
    then show "steady J K (snd (onHost m w))" by (cases "m (w\<lparr>plan_files := host_files w\<rparr>)") (simp add: onHost_def files)
  qed
qed

lemma steady_reads [steady_intros]:
  "keeps (steady J K) (getAuthAgent t)" "keeps (steady J K) (jobGet i)" "keeps (steady J K) (GetWithSubResources pid)"
  by (auto intro!: keepsI simp: getAuthAgent_def agentGetBy_def jobGet_def GetWithSubResources_def orInternal_def planGet_def
      planConfig_Get_def GetConfigByPlan_def planc_ListNodes_def dbListNodes_def plan_tables
      wp_simps Let_def steady_def databaseUp_def split: option.splits list.splits sum.splits)

lemma steady_render [steady_intros]:
  "keeps (steady J K) (buildMultinode rd planId runtime workDir ns m)" "keeps (steady J K) (Render rd dir plan)"
proof -
  show one: "keeps (steady J K) (buildMultinode rd planId runtime workDir ns m)" for planId runtime workDir ns m
    by (induction ns arbitrary: m) (auto simp: writeRSA_def intro!: keeps_intros steady_intros)
  show "keeps (steady J K) (Render rd dir plan)"
    unfolding Render_def writeTemplate_def Let_def by (intro keeps_intros steady_intros one)
qed

lemma steady_case [steady_intros]:
  "(\<And>a b. p = (a, b) \<Longrightarrow> keeps (steady J K) (q a b)) \<Longrightarrow> keeps (steady J K) (case p of (a, b) \<Rightarrow> q a b)"
  by (cases p) simp

lemma steady_delivery [steady_intros]:
  "keeps (steady J K) m1 \<Longrightarrow> keeps (steady J K) m2 \<Longrightarrow> (\<And>e. keeps (steady J K) (m3 e)) \<Longrightarrow> (\<And>e. keeps (steady J K) (m4 e)) \<Longrightarrow>
   keeps (steady J K) (case d of Delivered \<Rightarrow> m1 | Refused \<Rightarrow> m2 | NotSent e \<Rightarrow> m3 e | NoAnswer e \<Rightarrow> m4 e)"
  by (cases d) simp_all

lemma steady_stmt: "keeps (steady J K) (stmt (\<lambda>w. (Inl e, w)))"
  by (auto intro!: keepsI simp: wp_stmt wp_def steady_def databaseUp_def split: option.splits)

lemma steady_agentDo [steady_intros]: "keeps (steady J K) handler \<Longrightarrow> keeps (steady J K) (agentDo he handler)"
  unfolding agentDo_def by (intro keeps_intros steady_intros)

lemma steady_calls [steady_intros]:
  "keeps (steady J K) (agLogs he t i chunk)" "keeps (steady J K) (FetchPlan he t i)"
  unfolding agLogs_def agentc_AppendLogs_def AppendLogs_def FetchPlan_def GetPlan_def
  by (intro keeps_intros steady_intros steady_stmt)+

lemma steady_remove [steady_intros]: "keeps (steady J K) (removeContainerByName dk name)"
  unfolding removeContainerByName_def by (intro keeps_intros steady_intros)

lemma steady_prepare [steady_intros]: "keeps (steady J K) (preparePlanDir he t root job)"
  unfolding preparePlanDir_def Let_def by (intro keeps_intros steady_intros)

lemma steady_ssh [steady_intros]: "keeps (steady J K) (sshGetAdminConf sh ip auth)"
  unfolding sshGetAdminConf_def by (intro keeps_intros steady_intros)

text \<open>A report that is delivered settles the job.\<close>

lemma wp_delivered: "ah_net he = (\<lambda>_. Delivered) \<Longrightarrow> wp (agentDo he handler) Q E w =
  wp handler (\<lambda>x. Q (Some x)) (\<lambda>e. Q None) (w\<lparr>tick := Suc (tick w)\<rparr>)"
  by (simp add: agentDo_def wp_simps)

lemma steady_tick: "steady J K w \<Longrightarrow> steady J K (w\<lparr>tick := n\<rparr>)"
  by (simp add: steady_def databaseUp_def)

lemma wp_agReport:
  assumes "steady J K w" and "ah_net he = (\<lambda>_. Delivered)"
    and "find (\<lambda>(i, tok). TrimSpace t = [] \<or> tok = TrimSpace t) K = Some k"
  shows "wp (agReport he t i success message result) (\<lambda>_. settled i (if success then JobSuccess else JobFailed) J K) E w"
proof -
  have "wp (ReportResult t i \<lparr>jr_Success = success, jr_Message = message, jr_Result = result\<rparr>)
      (\<lambda>_. settled i (if success then JobSuccess else JobFailed) J K) (\<lambda>_ _. False) (w\<lparr>tick := Suc (tick w)\<rparr>)"
    unfolding ReportResult_def wp_andThen
  proof (rule steady_auth [OF steady_tick [OF assms(1)] assms(3)])
    fix a n
    assume "steady J K (w\<lparr>tick := Suc (tick w), tick := n\<rparr>)"
    then show "wp (jobInternalUpdate i (resultUpdates \<lparr>jr_Success = success, jr_Message = message, jr_Result = result\<rparr>))
        (\<lambda>_. settled i (if success then JobSuccess else JobFailed) J K) (\<lambda>_ _. False) (w\<lparr>tick := Suc (tick w), tick := n\<rparr>)"
      by (intro wp_jobs_update) (auto simp: steady_def settled_def resultUpdates_def applyUpdates_def)
  qed
  then show ?thesis
    unfolding agReport_def wp_andThen wp_delivered [OF assms(2)] by (auto simp: wp_simps elim!: wp_mono)
qed

definition reports :: "int \<Rightarrow> Job table \<Rightarrow> (int \<times> string) list \<Rightarrow> ('m plan_db_scheme, goerr, unit) act \<Rightarrow> bool" where
  "reports i J K m \<longleftrightarrow> (\<forall>w. steady J K w \<longrightarrow> wp m (\<lambda>_. settled i JobSuccess J K) (\<lambda>_. steady J K) w)"

lemma reports_fail: "reports i J K (fail e)"
  by (simp add: reports_def wp_simps)

lemma reports_onResult:
  assumes "keeps (steady J K) m" and "\<And>e. reports i J K (h e)" and "\<And>x. reports i J K (f x)"
  shows "reports i J K (onResult m h f)"
  unfolding reports_def wp_onResult
proof (intro allI impI)
  fix w :: "'a plan_db_scheme"
  assume "steady J K w"
  then show "wp m (\<lambda>x. wp (f x) (\<lambda>_. settled i JobSuccess J K) (\<lambda>_. steady J K)) (\<lambda>e. wp (h e) (\<lambda>_. settled i JobSuccess J K) (\<lambda>_. steady J K)) w"
    using assms(1) by (rule wp_steady) (use assms(2,3) in \<open>auto simp: reports_def\<close>)
qed

lemma reports_andThen: "keeps (steady J K) m \<Longrightarrow> (\<And>x. reports i J K (f x)) \<Longrightarrow> reports i J K (andThen m f)"
  unfolding andThen_def by (rule reports_onResult [OF _ reports_fail])

lemma reports_if: "(b \<Longrightarrow> reports i J K m) \<Longrightarrow> (\<not> b \<Longrightarrow> reports i J K n) \<Longrightarrow> reports i J K (if b then m else n)"
  by (cases b) (simp_all only: if_True if_False simp_thms)

lemma reports_case: "(v = None \<Longrightarrow> reports i J K m) \<Longrightarrow> (\<And>y. v = Some y \<Longrightarrow> reports i J K (g y)) \<Longrightarrow>
  reports i J K (case v of None \<Rightarrow> m | Some y \<Rightarrow> g y)"
  by (cases v) auto

lemmas reports_intros = reports_fail reports_onResult reports_andThen reports_if reports_case

definition canReport :: "host_env \<Rightarrow> string \<Rightarrow> (int \<times> string) list \<Rightarrow> bool" where
  "canReport he t K \<longleftrightarrow> ah_net he = (\<lambda>_. Delivered) \<and> find (\<lambda>(i, tok). TrimSpace t = [] \<or> tok = TrimSpace t) K \<noteq> None"

lemma reports_agReport:
  assumes "canReport he t K"
  shows "reports i J K (agReport he t i True message result)"
proof -
  from assms have delivered: "ah_net he = (\<lambda>_. Delivered)" by (simp add: canReport_def)
  from assms obtain k where k: "find (\<lambda>(i, tok). TrimSpace t = [] \<or> tok = TrimSpace t) K = Some k" by (auto simp: canReport_def)
  show ?thesis
    unfolding reports_def by (intro allI impI) (erule wp_agReport [OF _ delivered k, where success = True, simplified])
qed

lemma reports_pullImage:
  assumes "canReport he t K"
  shows "reports (tj_Id job) J K (pullImage he t job)"
  unfolding pullImage_def by (intro reports_intros keeps_intros steady_intros reports_agReport [OF assms])

lemma reports_runContainer:
  assumes "canReport he t K"
  shows "reports (tj_Id job) J K (runContainer he t root job)"
proof -
  have wait: "keeps (steady J K) (case st of WaitErr None \<Rightarrow> ret () | WaitErr (Some err) \<Rightarrow> fail err
      | WaitStatus code \<Rightarrow> andThen (attempt (external (ah_logs he cid))) (\<lambda>logs.
          andThen (case logs of Inr (Some b) \<Rightarrow> ignoring (agLogs he t (tj_Id job) b) | _ \<Rightarrow> ret ()) (\<lambda>_.
            if code \<noteq> 0 then fail (Errorf ''container exit code'') else ret ())))" for st cid
    by (cases st) (auto intro!: keeps_intros steady_intros split: option.split)
  show ?thesis
    unfolding runContainer_def Let_def by (intro reports_intros reports_agReport [OF assms] wait keeps_intros steady_intros)
qed

lemma reports_renderConfig:
  assumes "canReport he t K"
  shows "reports (tj_Id job) J K (renderConfig he t root job)"
  unfolding renderConfig_def by (intro reports_intros keeps_intros steady_intros reports_agReport [OF assms])

lemma reports_fetchLoop:
  assumes "canReport he t K"
  shows "reports (tj_Id job) J K (fetchLoop he t job lastErr ms)"
  by (induction ms arbitrary: lastErr) (auto intro!: reports_intros keeps_intros steady_intros reports_agReport [OF assms])

lemma reports_RunJob:
  assumes "canReport he t K"
  shows "reports (tj_Id job) J K (RunJob he t root job)"
  unfolding RunJob_def fetchKubeconfig_def
  by (intro reports_intros reports_pullImage [OF assms] reports_renderConfig [OF assms] reports_runContainer [OF assms] reports_fetchLoop [OF assms])

lemma performJob_settles:
  fixes w :: "'a agent_host_scheme"
  assumes can: "canReport he t K" and "steady J K w"
  shows "wp (performJob he t root j) (\<lambda>_ w'. \<exists>s \<in> {JobSuccess, JobFailed}. settled (tj_Id j) s J K w') (\<lambda>_ _. False) w"
proof -
  from can have delivered: "ah_net he = (\<lambda>_. Delivered)" by (simp add: canReport_def)
  from can obtain k where k: "find (\<lambda>(i, tok). TrimSpace t = [] \<or> tok = TrimSpace t) K = Some k" by (auto simp: canReport_def)
  define Q where "Q w' \<longleftrightarrow> (\<exists>s \<in> {JobSuccess, JobFailed}. settled (tj_Id j) s J K w')" for w' :: "'a agent_host_scheme"
  have failed: "wp (agReport he t (tj_Id j) False msg []) (\<lambda>_. Q) (\<lambda>_. Q) w'" if "steady J K w'" for msg w'
    by (rule wp_mono, rule wp_agReport [OF that delivered k]) (auto simp: Q_def)
  have "wp (RunJob he t root j) (\<lambda>_. settled (tj_Id j) JobSuccess J K) (\<lambda>_. steady J K) w"
    using reports_RunJob [OF can] assms unfolding reports_def by blast
  then have "wp (performJob he t root j) (\<lambda>_. Q) (\<lambda>_ _. False) w"
    unfolding performJob_def wp_onResult wp_ignoring wp_ret by (rule wp_mono) (simp add: Q_def, erule failed)
  then show ?thesis by (rule wp_mono) (simp_all add: Q_def)
qed

text \<open>The claim of a turn, after its heartbeat.\<close>

lemma agentKey_map: "(\<And>a. agentKey (f a) = agentKey a) \<Longrightarrow> map agentKey (map f as) = map agentKey as"
  by simp

lemma steady_agents:
  assumes "steady J K w" and "\<And>a. agentKey (applyUpdates us a) = agentKey a"
  shows "steady J K (agents_update (updTable P us) w)"
proof -
  have "keepsOid us" using assms(2) unfolding keepsOid_def agentKey_def by (metis prod.inject)
  moreover have "map agentKey (rows (updTable P us T)) = map agentKey (rows T)" for T
    using assms(2) by (simp add: updTable_def updRow_def)
  ultimately show ?thesis using assms(1) by (simp add: steady_def databaseUp_def table_ok_updTable)
qed

lemma steady_heartbeat [steady_intros]: "keeps (steady J K) (agentInternalUpdate i (heartbeatUpdates now req))"
proof -
  have k: "agentKey (applyUpdates (heartbeatUpdates now req @ [(c, GmtModified_update (\<lambda>_. n))]) a) = agentKey a" for c n a
    by (auto simp: applyUpdates_def heartbeatUpdates_def agentKey_def split: option.split)
  show ?thesis
    by (rule keepsI) (auto simp: agentInternalUpdate_def wp_simps Let_def split: option.split intro!: steady_agents steady_tick k)
qed

lemma steady_agHeartbeat [steady_intros]: "keeps (steady J K) (agHeartbeat he t hn)"
  unfolding agHeartbeat_def Heartbeat_def by (intro keeps_intros steady_intros)

lemma claimed_rows:
  assumes "table_ok T" and "find (\<lambda>r. jb_AgentId r = i \<and> jb_Status r = JobPending) (rows T) = Some job"
  shows "map (updRow (\<lambda>r. Oid r = Oid job \<and> jb_Status r = JobPending) us) (rows T) = map (\<lambda>r. if r = job then applyUpdates us r else r) (rows T)"
  using find_Some_mem [OF assms(2)] table_ok_Oid_eq [OF assms(1)] by (auto simp: updRow_def)

lemma steady_claim:
  assumes "steady J K w" and "table_ok J" and "find (\<lambda>r. jb_AgentId r = i \<and> jb_Status r = JobPending) (rows J) = Some job"
    and "\<And>w' now. rows (jobs w') = map (\<lambda>r. if r = job then r\<lparr>jb_Status := JobRunning, jb_ClaimedAt := Some now, GmtModified := now\<rparr> else r) (rows J) \<Longrightarrow>
      steady (jobs w') K w' \<Longrightarrow> Q (Some (job\<lparr>jb_Status := JobRunning\<rparr>)) w'"
  shows "wp (ClaimNext i) Q E w"
proof -
  from assms(1) have J: "J = jobs w" by (simp add: steady_def)
  note rows = claimed_rows [OF assms(2,3), unfolded J]
  show ?thesis
    using assms(1,3) unfolding J
    by (auto simp: ClaimNext_def nextPending_def claimJob_def wp_simps wp_transaction Let_def jobs_t_def updConflict_def list_ex_iff updTable_def
        steady_def databaseUp_def rows applyUpdates_def J intro!: assms(4))
qed

lemma tj_Id_job2Type [simp]: "tj_Id (job2Type job) = Oid job"
  by (simp add: job2Type_def)

lemma wp_agClaim:
  assumes "steady J K w" and "table_ok J" and "ah_net he = (\<lambda>_. Delivered)"
    and "find (\<lambda>(i, tok). TrimSpace t = [] \<or> tok = TrimSpace t) K = Some k"
    and "find (\<lambda>r. jb_AgentId r = fst k \<and> jb_Status r = JobPending) (rows J) = Some job" and "Oid job \<noteq> 0"
    and "\<And>w' now. rows (jobs w') = map (\<lambda>r. if r = job then r\<lparr>jb_Status := JobRunning, jb_ClaimedAt := Some now, GmtModified := now\<rparr> else r) (rows J) \<Longrightarrow>
      steady (jobs w') K w' \<Longrightarrow> Q (Some (job2Type (job\<lparr>jb_Status := JobRunning\<rparr>))) w'"
  shows "wp (agClaim he t) Q E w"
  unfolding agClaim_def wp_andThen wp_delivered [OF assms(3)] Claim_def
proof (rule steady_auth [OF steady_tick [OF assms(1)] assms(4)])
  fix a :: Agent and n
  assume st: "steady J K (w\<lparr>tick := Suc (tick w), tick := n\<rparr>)" and "agentKey a = k"
  then have "find (\<lambda>r. jb_AgentId r = Oid a \<and> jb_Status r = JobPending) (rows J) = Some job" using assms(5) by (auto simp: agentKey_def)
  then show "wp (ClaimNext (Oid a)) (\<lambda>x. wp (ret (map_option job2Type x))
      (\<lambda>x. wp (ret (case Some x of None \<Rightarrow> None | Some None \<Rightarrow> None | Some (Some job) \<Rightarrow> if tj_Id job = 0 then None else Some job)) Q E)
      (\<lambda>e. wp (ret (case None of None \<Rightarrow> None | Some None \<Rightarrow> None | Some (Some job) \<Rightarrow> if tj_Id job = 0 then None else Some job)) Q E))
      (\<lambda>e. wp (ret (case None of None \<Rightarrow> None | Some None \<Rightarrow> None | Some (Some job) \<Rightarrow> if tj_Id job = 0 then None else Some job)) Q E)
      (w\<lparr>tick := Suc (tick w), tick := n\<rparr>)"
    by (rule steady_claim [OF st assms(2)]) (use assms(6) in \<open>auto simp: wp_simps intro!: assms(7)\<close>)
qed

lemma settled_rows:
  assumes "table_ok J" and "job \<in> set (rows J)"
    and "rows J' = map (\<lambda>r. if r = job then r\<lparr>jb_Status := JobRunning, jb_ClaimedAt := Some claimed, GmtModified := n\<rparr> else r) (rows J)"
    and "settled (Oid job) s J' K w"
  shows "\<exists>message result now. rows (jobs w) = map (\<lambda>r. if r = job then r\<lparr>jb_Status := s, jb_Message := message, jb_Result := result,
     jb_ClaimedAt := Some claimed, GmtModified := now\<rparr> else r) (rows J)"
proof -
  from assms(4) obtain message result now where
    w: "rows (jobs w) = map (\<lambda>r. if Oid r = Oid job then r\<lparr>jb_Status := s, jb_Message := message, jb_Result := result, GmtModified := now\<rparr> else r) (rows J')"
    by (auto simp: settled_def)
  have eq: "Oid r = Oid job \<longleftrightarrow> r = job" if "r \<in> set (rows J)" for r
    using that assms(2) table_ok_Oid_eq [OF assms(1)] by auto
  have "rows (jobs w) = map (\<lambda>r. if r = job then r\<lparr>jb_Status := s, jb_Message := message, jb_Result := result,
     jb_ClaimedAt := Some claimed, GmtModified := now\<rparr> else r) (rows J)"
    unfolding w assms(3) by (simp add: eq)
  then show ?thesis by blast
qed

text \<open>C8: when its requests are delivered and the database answers, a turn of the deployment agent claims the first pending
  job of its agent and settles it: whatever docker, SSH and the files do, the job ends as a success or as a failure,
  and no other job changes.
\<close>

theorem agentTurn_settles:
  fixes w :: "'m agent_host_scheme"
  assumes "databaseUp w" and "table_ok (agents w)" and "table_ok (jobs w)" and "ah_net he = (\<lambda>_. Delivered)"
    and "find (tokenMatches t) (rows (agents w)) = Some a"
    and "find (\<lambda>r. jb_AgentId r = Oid a \<and> jb_Status r = JobPending) (rows (jobs w)) = Some job" and "Oid job \<noteq> 0"
  shows "\<exists>w' s. agentTurn he t hostname root w = (Inr (Some (job2Type (job\<lparr>jb_Status := JobRunning\<rparr>))), w') \<and> s \<in> {JobSuccess, JobFailed} \<and>
    (\<exists>message result claimed now. rows (jobs w') = map (\<lambda>r. if r = job then r\<lparr>jb_Status := s, jb_Message := message, jb_Result := result,
       jb_ClaimedAt := Some claimed, GmtModified := now\<rparr> else r) (rows (jobs w)))"
proof -
  let ?j = "job2Type (job\<lparr>jb_Status := JobRunning\<rparr>)" and ?J = "jobs w" and ?K = "map agentKey (rows (agents w))"
  define Q where "Q r w' \<longleftrightarrow> r = Some ?j \<and> (\<exists>s \<in> {JobSuccess, JobFailed}. \<exists>message result claimed now. rows (jobs w') =
    map (\<lambda>r. if r = job then r\<lparr>jb_Status := s, jb_Message := message, jb_Result := result, jb_ClaimedAt := Some claimed, GmtModified := now\<rparr> else r) (rows ?J))"
    for r and w' :: "'m agent_host_scheme"
  have k: "find (\<lambda>(i, tok). TrimSpace t = [] \<or> tok = TrimSpace t) ?K = Some (agentKey a)"
    using find_agentKey [of "rows (agents w)" ?K t] assms(5) by simp
  have st: "steady ?J ?K w" using assms(1,2) by (simp add: steady_def)
  have job: "find (\<lambda>r. jb_AgentId r = fst (agentKey a) \<and> jb_Status r = JobPending) (rows ?J) = Some job" using assms(6) by (simp add: agentKey_def)
  have rep: "canReport he t ?K" using k assms(4) by (simp add: canReport_def)
  have fin: "wp (andThen (performJob he t root ?j) (\<lambda>_. ret (Some ?j))) Q (\<lambda>_ _. False) v"
    if r: "rows (jobs v) = map (\<lambda>r. if r = job then r\<lparr>jb_Status := JobRunning, jb_ClaimedAt := Some now, GmtModified := now\<rparr> else r) (rows ?J)"
      and "steady (jobs v) ?K v" for now and v :: "'m agent_host_scheme"
  proof -
    show ?thesis
      unfolding wp_andThen wp_ret
    proof (rule wp_mono [OF performJob_settles [OF rep that(2)]])
      fix w' :: "'m agent_host_scheme"
      assume "\<exists>s \<in> {JobSuccess, JobFailed}. settled (tj_Id ?j) s (jobs v) ?K w'"
      then obtain s where s: "s \<in> {JobSuccess, JobFailed}" "settled (Oid job) s (jobs v) ?K w'" by auto
      have "job \<in> set (rows ?J)" using find_Some_mem [OF assms(6)] by simp
      from settled_rows [OF assms(3) this r s(2)] s(1) show "Q (Some ?j) w'" unfolding Q_def by blast
    qed simp
  qed
  have "wp (agentTurn he t hostname root) Q (\<lambda>_ _. False) w"
  proof -
    have claim: "wp (agClaim he t) (\<lambda>x. wp (case x of None \<Rightarrow> ret None | Some j \<Rightarrow> andThen (performJob he t root j) (\<lambda>_. ret (Some j))) Q (\<lambda>_ _. False))
        (\<lambda>e. wp (ret None) (\<lambda>x. wp (case x of None \<Rightarrow> ret None | Some j \<Rightarrow> andThen (performJob he t root j) (\<lambda>_. ret (Some j))) Q (\<lambda>_ _. False)) (\<lambda>_ _. False)) v"
      if "steady ?J ?K v" for v :: "'m agent_host_scheme"
      by (rule wp_agClaim [OF that assms(3,4) k job assms(7)]) (simp only: option.case, rule fin)
    show ?thesis
      unfolding agentTurn_def agentTick_def wp_andThen wp_ignoring if_False wp_onResult
      by (rule wp_steady [OF st steady_agHeartbeat]) (use claim in \<open>simp_all add: wp_ret\<close>)
  qed
  then obtain x w' where "agentTurn he t hostname root w = (Inr x, w')" "Q x w'" by (auto simp: wp_def split: prod.splits sum.splits)
  then show ?thesis unfolding Q_def by blast
qed

section \<open>The payload of the registration\<close>

definition masterOf :: "Node \<Rightarrow> payloadMaster" where
  "masterOf n = \<lparr>pm_Name = nd_Name n, pm_Ip = nd_Ip n, pm_Auth = nd_Auth n\<rparr>"

lemma foldName_master: "foldName ''name'' = ''name''" "foldName ''ip'' = ''ip''" "foldName ''auth'' = ''auth''" "foldName ''role'' = ''role''" "foldName ''masters'' = ''masters''"
  by (rule foldName_lower, simp add: byteOf_def)+

lemma decMaster_back: "decStruct fldsMaster (nodeAuthJson n) zeroMaster = (masterOf n, True)"
  by (simp add: nodeAuthJson_def fldsMaster_def fieldDecoder_def foldName_master field_def zeroMaster_def masterOf_def del: foldName.simps)

lemma decMasters_back: "decElements (decStruct fldsMaster) zeroMaster (map nodeAuthJson ns) [] = (map masterOf ns, True)"
  by (induction ns) (simp_all add: decMaster_back)

lemma validUTF8_payload: "validUTF8 ''name''" "validUTF8 ''ip''" "validUTF8 ''auth''" "validUTF8 ''role''" "validUTF8 ''masters''"
  by (simp_all add: validUTF8_ascii byteOf_def del: validUTF8.simps(2))

definition nodeTexts :: "Node \<Rightarrow> bool" where
  "nodeTexts n \<longleftrightarrow> validUTF8 (nd_Name n) \<and> validUTF8 (nd_Ip n) \<and> validUTF8 (nd_Role n) \<and> validUTF8 (nd_Auth n)"

lemma printable_node: "nodeTexts n \<Longrightarrow> printable 1 (nodeAuthJson n)"
  using printable_JObj [of 0 "[(''name'', JStr (nd_Name n)), (''ip'', JStr (nd_Ip n)), (''role'', JStr (nd_Role n)), (''auth'', JStr (nd_Auth n))]"]
  by (simp add: nodeAuthJson_def members_def validUTF8_payload nodeTexts_def del: validUTF8.simps)

lemma printable_JArr: "\<forall>j \<in> set js. printable n j \<Longrightarrow> printable (Suc n) (JArr js)"
proof -
  assume p: "\<forall>j \<in> set js. printable n j"
  have "foldr (max \<circ> depthJson) js 0 \<le> n" using p by (induction js) (auto simp: printable_def)
  with p show ?thesis by (auto simp: printable_def)
qed

text \<open>the agent reads from the payload of the registration job exactly the master nodes of the plan, in their order,
  with the address and the credentials of each.
\<close>

theorem register_payload_roundtrip:
  assumes "\<forall>n \<in> set ns. validUTF8 (nd_Name n) \<and> validUTF8 (nd_Ip n) \<and> validUTF8 (nd_Role n) \<and> validUTF8 (nd_Auth n)"
  shows "payloadMasters (buildRegisterPayload ns) = Some (map masterOf (filter isMaster ns))"
proof -
  let ?ms = "map nodeAuthJson (filter isMaster ns)"
  let ?v = "if ?ms = [] then JNull else JArr ?ms"
  have "printable 2 ?v"
    using assms printable_JArr [of ?ms 1] printable_node by (auto simp: nodeTexts_def printable_def numeral_eq_Suc)
  then have "printable 3 (JObj [(''masters'', ?v)])"
    using printable_JObj [of 2 "[(''masters'', ?v)]"] by (simp add: members_def validUTF8_payload numeral_eq_Suc del: validUTF8.simps)
  from parse_printable [OF this] have "jsonParse (buildRegisterPayload ns) = Some (JObj [(''masters'', ?v)])"
    by (simp only: buildRegisterPayload_def Let_def)
  then show ?thesis
    using decMasters_back [of "filter isMaster ns"]
    by (simp add: payloadMasters_def unmarshalWith_def decPayload_def fieldDecoder_def foldName_master field_def del: foldName.simps)
qed

section \<open>A sample host\<close>

definition demoAgent :: Agent where
  "demoAgent = (newAgent \<lparr>ca_Name = ''edge'', ca_UserID = 1, ca_Type = 0, ca_Description = []\<rparr> ''secret'')\<lparr>Oid := 1, ag_Status := AgentStatusOnline\<rparr>"

definition demoJob :: Job where
  "demoJob = (newJob demoTaskData (agentJobOf 1 stepMaster RunningPlanStep JobRunContainer ''deploy-master'' ''runner:v1'' 0))\<lparr>Oid := 4\<rparr>"

definition demoHost :: agent_host where
  "demoHost = plan_db.extend ((plan_db.truncate demoPlanDb)\<lparr>agents := \<lparr>rows = [demoAgent], next_id = 2\<rparr>, jobs := \<lparr>rows = [demoJob], next_id = 5\<rparr>\<rparr>)
     \<lparr>host_files = []\<rparr>"

definition demoHostEnv :: host_env where
  "demoHostEnv = \<lparr>ah_net = (\<lambda>_. Delivered), ah_docker = demoDocker, ah_wait = (\<lambda>_ _. Inr (WaitStatus 1)), ah_logs = (\<lambda>_ _. Inr None),
     ah_ssh = we_ssh demoWorkerEnv, ah_render = we_render demoWorkerEnv, ah_errText = (\<lambda>_. ''error'')\<rparr>"

lemma demoHost_facts:
  "databaseUp demoHost" "rows (agents demoHost) = [demoAgent]" "rows (jobs demoHost) = [demoJob]" "table_ok (agents demoHost)" "table_ok (jobs demoHost)"
  by (simp_all add: demoHost_def demoPlanDb_def demoDb_def databaseUp_def plan_db.defs iam_db.defs table_ok_def demoAgent_def newAgent_def
      demoJob_def newJob_def agentJobOf_def pixiu_model.defs newModel_def)

lemma demoAgent_facts: "Oid demoAgent = 1" "ag_Token demoAgent = ''secret''" "ag_Status demoAgent = AgentStatusOnline"
  by (simp_all add: demoAgent_def newAgent_def pixiu_model.defs)

lemma demoJob_facts: "Oid demoJob = 4" "jb_AgentId demoJob = 1" "jb_Status demoJob = JobPending"
  by (simp_all add: demoJob_def newJob_def agentJobOf_def pixiu_model.defs)

text \<open>A report without any token settles the job.\<close>

lemma ReportResult_any_job_witness:
  "\<exists>w' now. ReportResult [] 4 \<lparr>jr_Success = True, jr_Message = [], jr_Result = ''forged''\<rparr> demoHost = (Inr (), w') \<and>
     rows (jobs w') = [demoJob\<lparr>jb_Status := JobSuccess, jb_Message := [], jb_Result := ''forged'', GmtModified := now\<rparr>]"
  using ReportResult_any_job [of demoHost "[]" 4 "\<lparr>jr_Success = True, jr_Message = [], jr_Result = ''forged''\<rparr>"]
  by (simp add: demoHost_facts demoJob_facts TrimSpace_def)

lemma Claim_spec_witness:
  "case Claim ''secret'' demoHost of
     (Inl e, w') \<Rightarrow> jobs w' = jobs demoHost
   | (Inr None, w') \<Rightarrow> jobs w' = jobs demoHost
   | (Inr (Some j), w') \<Rightarrow> j = job2Type (demoJob\<lparr>jb_Status := JobRunning\<rparr>)"
  using Claim_spec [of demoHost "''secret''"]
  by (auto simp: demoHost_facts split: prod.splits sum.splits option.splits if_splits)

lemma AgentSyncer_spec_witness:
  "\<exists>w' now. AgentSyncer_Do demoHost = (Inr (), w') \<and> agentViews w' =
     [agentView (if 30 * 1000000000 < now - ag_LastHeartbeat demoAgent then demoAgent\<lparr>ag_Status := AgentStatusOffline\<rparr> else demoAgent)]"
  using AgentSyncer_spec [of demoHost] by (simp add: demoHost_facts demoAgent_facts agentNamesUnique_def)

lemma agentTurn_settles_witness:
  "\<exists>w' s. agentTurn demoHostEnv ''secret'' ''edge-1'' ''/etc/pixiu'' demoHost = (Inr (Some (job2Type (demoJob\<lparr>jb_Status := JobRunning\<rparr>))), w') \<and>
     s \<in> {JobSuccess, JobFailed} \<and> map jb_Status (rows (jobs w')) = [s]"
proof -
  have "tokenMatches ''secret'' demoAgent" by (simp add: tokenMatches_def demoAgent_facts TrimSpace_def isSpace_def)
  with agentTurn_settles [of demoHost demoHostEnv "''secret''" demoAgent demoJob "''edge-1''" "''/etc/pixiu''"] show ?thesis
    by (auto simp: demoHost_facts demoAgent_facts demoJob_facts demoHostEnv_def)
qed

lemma register_payload_roundtrip_witness:
  "payloadMasters (buildRegisterPayload [pixiu_model.extend newModel \<lparr>nd_Name = ''m'', nd_UserId = 1, nd_PlanId = 1, nd_Role = ''master'', nd_CRI = [],
     nd_Ip = ''10.0.0.1'', nd_Auth = ''{}''\<rparr>]) = Some [\<lparr>pm_Name = ''m'', pm_Ip = ''10.0.0.1'', pm_Auth = ''{}''\<rparr>]"
  by (subst register_payload_roundtrip)
    (simp_all add: pixiu_model.defs newModel_def masterOf_def isMaster_def MasterRole_def HasPrefix_def validUTF8_ascii byteOf_def del: validUTF8.simps(2))

end
