(* ===== verification/AlertControllers.thy ===== *)
theory AlertControllers
  imports Notify UserController
begin

text \<open>
  The alert controllers: channels, silences, events and notifications
  (\<open>pkg/controller/alert/{channel,silence,event,notification}\<close>), their requests and answers
  (\<open>pkg/types/alert.go\<close>), and the cleaner of old notifications (\<open>pkg/jobmanager/alert_history_cleaner.go\<close>).
\<close>

section \<open>Requests and answers\<close>

record types_AlertRule =
  xr_Id :: int
  xr_ResourceVersion :: int
  xr_GmtCreate :: int
  xr_GmtModified :: int
  xr_Name :: string
  xr_Description :: string
  xr_RuleType :: int
  xr_Duration :: int
  xr_EvalInterval :: int
  xr_NotifyRepeatStep :: int
  xr_NotifyMaxNumber :: int
  xr_ScopeType :: int
  xr_ScopeValue :: string
  xr_NotifyChannels :: string
  xr_NotifyTemplate :: string
  xr_RuleConfig :: string
  xr_EnableDaysOfWeek :: string
  xr_EnableStime :: string
  xr_EnableEtime :: string
  xr_DatasourceId :: int
  xr_Enabled :: bool
  xr_CreatedBy :: string
  xr_Extension :: string
  xr_Labels :: string

record types_AlertEvent =
  xe_Id :: int
  xe_ResourceVersion :: int
  xe_GmtCreate :: int
  xe_GmtModified :: int
  xe_RuleId :: int
  xe_RuleName :: string
  xe_Status :: int
  xe_Severity :: int
  xe_TriggerValue :: string
  xe_TriggerExpr :: string
  xe_ResourceType :: string
  xe_ResourceName :: string
  xe_ResourceNamespace :: string
  xe_ClusterId :: int
  xe_TenantId :: int
  xe_RecoverValue :: string
  xe_RecoverTime :: "int option"
  xe_LastSentAt :: "int option"
  xe_NotifyCurNumber :: int
  xe_Labels :: string
  xe_Annotations :: string
  xe_Extension :: string

record types_AlertNotification =
  xn_Id :: int
  xn_ResourceVersion :: int
  xn_GmtCreate :: int
  xn_GmtModified :: int
  xn_EventId :: int
  xn_RuleId :: int
  xn_Channel :: int
  xn_Receiver :: string
  xn_Title :: string
  xn_Content :: string
  xn_Status :: int
  xn_RetryCount :: int
  xn_ErrorMsg :: string
  xn_Extension :: string
  xn_Severity :: int
  xn_Labels :: string
  xn_ChannelName :: string

record types_AlertChannel =
  xc_Id :: int
  xc_ResourceVersion :: int
  xc_GmtCreate :: int
  xc_GmtModified :: int
  xc_Name :: string
  xc_Description :: string
  xc_ChannelType :: int
  xc_Config :: string
  xc_Enabled :: bool
  xc_CreatedBy :: string
  xc_Extension :: string

record types_AlertSilence =
  xs_Id :: int
  xs_ResourceVersion :: int
  xs_GmtCreate :: int
  xs_GmtModified :: int
  xs_Name :: string
  xs_MatchLabels :: string
  xs_MatchExpressions :: string
  xs_StartsAt :: int
  xs_EndsAt :: int
  xs_Enabled :: bool
  xs_CreatedBy :: string
  xs_Comment :: string
  xs_Extension :: string

record CreateAlertRuleRequest =
  qr_Name :: string
  qr_Description :: string
  qr_RuleType :: int
  qr_Duration :: int
  qr_EvalInterval :: int
  qr_NotifyRepeatStep :: "int option"
  qr_NotifyMaxNumber :: "int option"
  qr_ScopeType :: int
  qr_ScopeValue :: string
  qr_NotifyChannels :: string
  qr_NotifyTemplate :: string
  qr_RuleConfig :: string
  qr_EnableDaysOfWeek :: string
  qr_EnableStime :: string
  qr_EnableEtime :: string
  qr_DatasourceId :: int
  qr_Enabled :: "bool option"
  qr_Extension :: string
  qr_Labels :: string

record UpdateAlertRuleRequest =
  ur_ResourceVersion :: int
  ur_Name :: "string option"
  ur_Description :: "string option"
  ur_RuleType :: "int option"
  ur_Duration :: "int option"
  ur_EvalInterval :: "int option"
  ur_NotifyRepeatStep :: "int option"
  ur_NotifyMaxNumber :: "int option"
  ur_ScopeType :: "int option"
  ur_ScopeValue :: "string option"
  ur_NotifyChannels :: "string option"
  ur_NotifyTemplate :: "string option"
  ur_RuleConfig :: "string option"
  ur_EnableDaysOfWeek :: "string option"
  ur_EnableStime :: "string option"
  ur_EnableEtime :: "string option"
  ur_DatasourceId :: "int option"
  ur_Enabled :: "bool option"
  ur_Extension :: "string option"
  ur_Labels :: "string option"

record CreateAlertSilenceRequest =
  csl_Name :: string
  csl_MatchLabels :: string
  csl_MatchExpressions :: string
  csl_StartsAt :: int
  csl_EndsAt :: int
  csl_Enabled :: "bool option"
  csl_Comment :: string
  csl_Extension :: string

record UpdateAlertSilenceRequest =
  usl_ResourceVersion :: int
  usl_Name :: "string option"
  usl_MatchLabels :: "string option"
  usl_MatchExpressions :: "string option"
  usl_StartsAt :: "int option"
  usl_EndsAt :: "int option"
  usl_Enabled :: "bool option"
  usl_Comment :: "string option"
  usl_Extension :: "string option"

record UpdateAlertEventStatusRequest =
  ues_ResourceVersion :: int
  ues_Status :: int

record CreateAlertChannelRequest =
  cch_Name :: string
  cch_Description :: string
  cch_ChannelType :: int
  cch_Config :: string
  cch_Enabled :: "bool option"
  cch_Extension :: string

record UpdateAlertChannelRequest =
  uch_ResourceVersion :: int
  uch_Name :: "string option"
  uch_Description :: "string option"
  uch_ChannelType :: "int option"
  uch_Config :: "string option"
  uch_Enabled :: "bool option"
  uch_Extension :: "string option"

record PingAlertChannelRequest =
  pg_ChannelType :: int
  pg_Config :: string

definition alertEventModelToType :: "AlertEvent \<Rightarrow> types_AlertEvent" where
  "alertEventModelToType o1 = \<lparr>xe_Id = Oid o1, xe_ResourceVersion = ResourceVersion o1, xe_GmtCreate = GmtCreate o1, xe_GmtModified = GmtModified o1, xe_RuleId = ae_RuleId o1, xe_RuleName = ae_RuleName o1,
     xe_Status = ae_Status o1, xe_Severity = ae_Severity o1, xe_TriggerValue = ae_TriggerValue o1, xe_TriggerExpr = ae_TriggerExpr o1, xe_ResourceType = ae_ResourceType o1, xe_ResourceName = ae_ResourceName o1,
     xe_ResourceNamespace = ae_ResourceNamespace o1, xe_ClusterId = ae_ClusterId o1, xe_TenantId = ae_TenantId o1, xe_RecoverValue = ae_RecoverValue o1, xe_RecoverTime = ae_RecoverTime o1, xe_LastSentAt = ae_LastSentAt o1,
     xe_NotifyCurNumber = ae_NotifyCurNumber o1, xe_Labels = ae_Labels o1, xe_Annotations = ae_Annotations o1, xe_Extension = ae_Extension o1\<rparr>"

text \<open>The receiver and the extension of a notification are not shown.\<close>

definition alertNotificationModelToType :: "AlertNotification \<Rightarrow> types_AlertNotification" where
  "alertNotificationModelToType o1 = \<lparr>xn_Id = Oid o1, xn_ResourceVersion = ResourceVersion o1, xn_GmtCreate = GmtCreate o1, xn_GmtModified = GmtModified o1, xn_EventId = an_EventId o1, xn_RuleId = an_RuleId o1,
     xn_Channel = an_Channel o1, xn_Receiver = [], xn_Title = an_Title o1, xn_Content = an_Content o1, xn_Status = an_Status o1, xn_RetryCount = an_RetryCount o1,
     xn_ErrorMsg = an_ErrorMsg o1, xn_Extension = [], xn_Severity = an_Severity o1, xn_Labels = an_Labels o1, xn_ChannelName = an_ChannelName o1\<rparr>"

definition alertChannelModelToType :: "AlertChannel \<Rightarrow> types_AlertChannel" where
  "alertChannelModelToType o1 = \<lparr>xc_Id = Oid o1, xc_ResourceVersion = ResourceVersion o1, xc_GmtCreate = GmtCreate o1, xc_GmtModified = GmtModified o1, xc_Name = ac_Name o1, xc_Description = ac_Description o1,
     xc_ChannelType = ac_ChannelType o1, xc_Config = ac_Config o1, xc_Enabled = ac_Enabled o1, xc_CreatedBy = ac_CreatedBy o1, xc_Extension = ac_Extension o1\<rparr>"

definition alertSilenceModelToType :: "AlertSilence \<Rightarrow> types_AlertSilence" where
  "alertSilenceModelToType o1 = \<lparr>xs_Id = Oid o1, xs_ResourceVersion = ResourceVersion o1, xs_GmtCreate = GmtCreate o1, xs_GmtModified = GmtModified o1, xs_Name = as_Name o1, xs_MatchLabels = as_MatchLabels o1,
     xs_MatchExpressions = as_MatchExpressions o1, xs_StartsAt = as_StartsAt o1, xs_EndsAt = as_EndsAt o1, xs_Enabled = as_Enabled o1, xs_CreatedBy = as_CreatedBy o1, xs_Comment = as_Comment o1,
     xs_Extension = as_Extension o1\<rparr>"

section \<open>What the controllers share\<close>

text \<open>\<open>preUpdate\<close> and \<open>Get\<close>: a failing read is an internal error, a missing row is not found.\<close>

definition notFoundError :: "string \<Rightarrow> goerr" where
  "notFoundError what = NewError (Errorf (what @ '' not found'')) StatusNotFound"

definition foundOr :: "string \<Rightarrow> ('w, goerr, 'a option) act \<Rightarrow> ('w, goerr, 'a) act" where
  "foundOr what m = orInternal m (\<lambda>object. case object of None \<Rightarrow> fail (notFoundError what) | Some x \<Rightarrow> ret x)"

definition writeOr :: "string \<Rightarrow> ('w, goerr, unit) act \<Rightarrow> ('w, goerr, unit) act" where
  "writeOr what m = onResult m (\<lambda>err. if IsRecordNotFound err then fail (notFoundError what) else fail ErrServerInternal) ret"

definition noFields :: goerr where
  "noFields = NewError (Errorf ''no fields to update'') StatusBadRequest"

definition setField :: "string \<Rightarrow> (('a \<Rightarrow> 'a) \<Rightarrow> 'r \<Rightarrow> 'r) \<Rightarrow> 'a option \<Rightarrow> 'r updates" where
  "setField col upd x = (case x of None \<Rightarrow> [] | Some v \<Rightarrow> [(col, upd (\<lambda>_. v))])"

text \<open>A page: a failing count goes into its message, a failing list is an internal error.\<close>

definition pageOf :: "(goerr \<Rightarrow> string) \<Rightarrow> ListOptions \<Rightarrow> ('w, goerr, int) act \<Rightarrow> ('w, goerr, 'r list) act \<Rightarrow> ('r \<Rightarrow> 'a) \<Rightarrow> ('w, goerr, 'a MessagePage) act" where
  "pageOf errText lo count objects conv = andThen (onResult count (\<lambda>err. ret (0, errText err)) (\<lambda>total. ret (total, []))) (\<lambda>(total, message).
     orInternal objects (\<lambda>os. ret \<lparr>pr_Page = lo_Page lo, pr_Limit = lo_Limit lo, pr_Total = total, pr_Items = map conv os, pr_Message = message\<rparr>))"

definition pageOptions :: "ListOptions \<Rightarrow> 'm pixiu_model_scheme options list" where
  "pageOptions lo = [WithModifyOrderByDesc, WithOffset ((lo_Page lo - 1) * lo_Limit lo), WithLimit (lo_Limit lo)]"

definition WithAlertSeverity :: "('r \<Rightarrow> int) \<Rightarrow> int \<Rightarrow> 'r options" where
  "WithAlertSeverity severity_col severity q = (if severity = 0 then q else Where (\<lambda>r. severity_col r = severity) q)"

definition WithAlertClusterId :: "('r \<Rightarrow> int) \<Rightarrow> int \<Rightarrow> 'r options" where
  "WithAlertClusterId cluster_col clusterId q = (if clusterId = 0 then q else Where (\<lambda>r. cluster_col r = clusterId) q)"

definition WithAlertChannelType :: "('r \<Rightarrow> int) \<Rightarrow> int \<Rightarrow> 'r options" where
  "WithAlertChannelType type_col channelType q = (if channelType = 0 then q else Where (\<lambda>r. type_col r = channelType) q)"

definition WithCreatedBefore :: "int \<Rightarrow> 'm pixiu_model_scheme options" where
  "WithCreatedBefore t = Where (\<lambda>r. GmtCreate r < t)"

section \<open>Channels\<close>

definition newAlertChannel :: "CreateAlertChannelRequest \<Rightarrow> string \<Rightarrow> AlertChannel" where
  "newAlertChannel req createdBy = pixiu_model.extend newModel
     \<lparr>ac_Name = cch_Name req, ac_Description = cch_Description req, ac_ChannelType = cch_ChannelType req, ac_Config = cch_Config req,
      ac_Enabled = (case cch_Enabled req of None \<Rightarrow> True | Some b \<Rightarrow> b), ac_CreatedBy = createdBy, ac_Extension = cch_Extension req\<rparr>"

definition channelc_Create :: "context_user \<Rightarrow> CreateAlertChannelRequest \<Rightarrow> ('m alert_db_scheme, goerr, unit) act" where
  "channelc_Create ctx req = andThen (UserNameFromContext ctx) (\<lambda>createdBy.
     orInternal (alertChannelCreate (newAlertChannel req createdBy)) (\<lambda>_. ret ()))"

definition channelc_updates :: "UpdateAlertChannelRequest \<Rightarrow> AlertChannel updates" where
  "channelc_updates req = setField ''name'' ac_Name_update (uch_Name req) @
     setField ''description'' ac_Description_update (uch_Description req) @
     setField ''channel_type'' ac_ChannelType_update (uch_ChannelType req) @
     setField ''config'' ac_Config_update (uch_Config req) @
     setField ''enabled'' ac_Enabled_update (uch_Enabled req) @
     setField ''extension'' ac_Extension_update (uch_Extension req)"

definition channelc_preUpdate :: "int \<Rightarrow> ('m alert_db_scheme, goerr, unit) act" where
  "channelc_preUpdate i = andThen (foundOr ''alert channel'' (alertChannelGet i)) (\<lambda>_. ret ())"

definition channelc_Update :: "int \<Rightarrow> UpdateAlertChannelRequest \<Rightarrow> ('m alert_db_scheme, goerr, unit) act" where
  "channelc_Update i req = andThen (channelc_preUpdate i) (\<lambda>_.
     if channelc_updates req = [] then fail noFields
     else writeOr ''alert channel'' (alertChannelUpdate i (uch_ResourceVersion req) (channelc_updates req)))"

definition channelc_Delete :: "int \<Rightarrow> ('m alert_db_scheme, goerr, unit) act" where
  "channelc_Delete i = writeOr ''alert channel'' (alertChannelDelete i)"

definition channelc_Get :: "int \<Rightarrow> ('m alert_db_scheme, goerr, types_AlertChannel) act" where
  "channelc_Get i = andThen (foundOr ''alert channel'' (alertChannelGet i)) (\<lambda>object. ret (alertChannelModelToType object))"

definition channelc_buildListOpts :: "ListOptions \<Rightarrow> AlertChannel options list" where
  "channelc_buildListOpts opt = [WithNameLike ac_Name (lo_NameSelector opt), WithAlertChannelType ac_ChannelType (lo_ChannelType opt)] @
     (case lo_Enabled opt of None \<Rightarrow> [] | Some b \<Rightarrow> [WithEnabled ac_Enabled b])"

definition channelc_List :: "(goerr \<Rightarrow> string) \<Rightarrow> ListOptions \<Rightarrow> ('m alert_db_scheme, goerr, types_AlertChannel MessagePage) act" where
  "channelc_List errText listOption = (let lo = SetDefaultPageOption listOption; opts = channelc_buildListOpts lo in
     pageOf errText lo (alertChannelCount opts) (alertChannelList (opts @ pageOptions lo)) alertChannelModelToType)"

definition channelc_Ping :: "notify_env \<Rightarrow> PingAlertChannelRequest \<Rightarrow> ('m alert_db_scheme, goerr, unit) act" where
  "channelc_Ping nv req = onResult (PingChannel nv (pg_ChannelType req) (pg_Config req)) (\<lambda>err. fail (NewError (Errorf err) StatusBadRequest)) ret"

section \<open>Silences\<close>

definition newAlertSilence :: "CreateAlertSilenceRequest \<Rightarrow> string \<Rightarrow> AlertSilence" where
  "newAlertSilence req createdBy = pixiu_model.extend newModel
     \<lparr>as_Name = csl_Name req, as_MatchLabels = csl_MatchLabels req, as_MatchExpressions = csl_MatchExpressions req, as_StartsAt = csl_StartsAt req,
      as_EndsAt = csl_EndsAt req, as_Enabled = (case csl_Enabled req of None \<Rightarrow> True | Some b \<Rightarrow> b), as_CreatedBy = createdBy, as_Comment = csl_Comment req,
      as_Extension = csl_Extension req\<rparr>"

definition silencec_Create :: "context_user \<Rightarrow> CreateAlertSilenceRequest \<Rightarrow> ('m alert_db_scheme, goerr, unit) act" where
  "silencec_Create ctx req = andThen (UserNameFromContext ctx) (\<lambda>createdBy.
     orInternal (alertSilenceCreate (newAlertSilence req createdBy)) (\<lambda>_. ret ()))"

definition silencec_updates :: "UpdateAlertSilenceRequest \<Rightarrow> AlertSilence updates" where
  "silencec_updates req = setField ''name'' as_Name_update (usl_Name req) @
     setField ''match_labels'' as_MatchLabels_update (usl_MatchLabels req) @
     setField ''match_expressions'' as_MatchExpressions_update (usl_MatchExpressions req) @
     setField ''starts_at'' as_StartsAt_update (usl_StartsAt req) @
     setField ''ends_at'' as_EndsAt_update (usl_EndsAt req) @
     setField ''enabled'' as_Enabled_update (usl_Enabled req) @
     setField ''comment'' as_Comment_update (usl_Comment req) @
     setField ''extension'' as_Extension_update (usl_Extension req)"

definition silencec_preUpdate :: "int \<Rightarrow> ('m alert_db_scheme, goerr, unit) act" where
  "silencec_preUpdate i = andThen (foundOr ''alert silence'' (alertSilenceGet i)) (\<lambda>_. ret ())"

definition silencec_Update :: "int \<Rightarrow> UpdateAlertSilenceRequest \<Rightarrow> ('m alert_db_scheme, goerr, unit) act" where
  "silencec_Update i req = andThen (silencec_preUpdate i) (\<lambda>_.
     if silencec_updates req = [] then fail noFields
     else writeOr ''alert silence'' (alertSilenceUpdate i (usl_ResourceVersion req) (silencec_updates req)))"

definition silencec_Delete :: "int \<Rightarrow> ('m alert_db_scheme, goerr, unit) act" where
  "silencec_Delete i = writeOr ''alert silence'' (alertSilenceDelete i)"

definition silencec_Get :: "int \<Rightarrow> ('m alert_db_scheme, goerr, types_AlertSilence) act" where
  "silencec_Get i = andThen (foundOr ''alert silence'' (alertSilenceGet i)) (\<lambda>object. ret (alertSilenceModelToType object))"

definition silencec_buildListOpts :: "ListOptions \<Rightarrow> AlertSilence options list" where
  "silencec_buildListOpts opt = (case lo_Enabled opt of None \<Rightarrow> [] | Some b \<Rightarrow> [WithEnabled as_Enabled b]) @
     (if lo_NameSelector opt \<noteq> [] then [WithNameLike as_Name (lo_NameSelector opt)] else [])"

definition silencec_List :: "(goerr \<Rightarrow> string) \<Rightarrow> ListOptions \<Rightarrow> ('m alert_db_scheme, goerr, types_AlertSilence MessagePage) act" where
  "silencec_List errText listOption = (let lo = SetDefaultPageOption listOption; opts = silencec_buildListOpts lo in
     pageOf errText lo (alertSilenceCount opts) (alertSilenceList (opts @ pageOptions lo)) alertSilenceModelToType)"

section \<open>Events\<close>

definition eventc_Get :: "int \<Rightarrow> ('m alert_db_scheme, goerr, types_AlertEvent) act" where
  "eventc_Get i = andThen (foundOr ''alert event'' (alertEventGet i)) (\<lambda>object. ret (alertEventModelToType object))"

definition eventc_buildListOpts :: "ListOptions \<Rightarrow> AlertEvent options list" where
  "eventc_buildListOpts opt = [WithAlertRuleId ae_RuleId (lo_RuleId opt), WithAlertSeverity ae_Severity (lo_Severity opt),
       WithAlertClusterId ae_ClusterId (lo_ClusterId opt)] @
     (case lo_Status opt of None \<Rightarrow> [] | Some s \<Rightarrow> if s \<noteq> 0 then [WithAlertEventStatus ae_Status s] else [])"

definition eventc_List :: "(goerr \<Rightarrow> string) \<Rightarrow> ListOptions \<Rightarrow> ('m alert_db_scheme, goerr, types_AlertEvent MessagePage) act" where
  "eventc_List errText listOption = (let lo = SetDefaultPageOption listOption; opts = eventc_buildListOpts lo in
     pageOf errText lo (alertEventCount opts) (alertEventList (opts @ pageOptions lo)) alertEventModelToType)"

definition eventc_preUpdate :: "int \<Rightarrow> ('m alert_db_scheme, goerr, unit) act" where
  "eventc_preUpdate i = andThen (foundOr ''alert event'' (alertEventGet i)) (\<lambda>_. ret ())"

text \<open>Any status may be set; the time of a recovery is not.\<close>

definition eventc_UpdateStatus :: "int \<Rightarrow> UpdateAlertEventStatusRequest \<Rightarrow> ('m alert_db_scheme, goerr, unit) act" where
  "eventc_UpdateStatus i req = andThen (eventc_preUpdate i) (\<lambda>_.
     writeOr ''alert event'' (alertEventUpdate i (ues_ResourceVersion req) [(''status'', ae_Status_update (\<lambda>_. ues_Status req))]))"

section \<open>Notifications\<close>

definition notificationc_buildListOpts :: "ListOptions \<Rightarrow> AlertNotification options list" where
  "notificationc_buildListOpts opt = [WithAlertRuleId an_RuleId (lo_RuleId opt), WithAlertEventId an_EventId (lo_EventId opt),
     WithTitleLike an_Title (lo_NameSelector opt)]"

definition notificationc_List :: "(goerr \<Rightarrow> string) \<Rightarrow> ListOptions \<Rightarrow> ('m alert_db_scheme, goerr, types_AlertNotification MessagePage) act" where
  "notificationc_List errText listOption = (let lo = SetDefaultPageOption listOption; opts = notificationc_buildListOpts lo in
     pageOf errText lo (alertNotificationCount opts) (alertNotificationList (opts @ pageOptions lo)) alertNotificationModelToType)"

definition notificationc_Delete :: "int \<Rightarrow> ('m alert_db_scheme, goerr, unit) act" where
  "notificationc_Delete i = orInternal (alertNotificationDelete [WithIDIn [i]]) (\<lambda>rowsDeleted.
     if rowsDeleted = 0 then fail (notFoundError ''alert notification'') else ret ())"

section \<open>The history\<close>

text \<open>
  \<open>AddDate(0, 0, -resv)\<close> is a parameter, as it depends on the calendar of the time zone. Notifications that are
  still pending are deleted, too.
\<close>

definition AlertHistoryCleaner_Do :: "(int \<Rightarrow> int \<Rightarrow> int) \<Rightarrow> int \<Rightarrow> ('m alert_db_scheme, goerr, nat) act" where
  "AlertHistoryCleaner_Do addDays resv = andThen timeNow (\<lambda>now.
     alertNotificationDelete [WithCreatedBefore (addDays now (- resv))])"

end
