(* ===== verification/Datasource.thy ===== *)
theory Datasource
  imports AlertControllers JsonStruct
begin

text \<open>
  Data sources: the rows and DAO methods of \<open>pkg/db/datasource.go\<close>, their configuration
  (\<open>pkg/types/types.go\<close>, \<open>meta.go\<close>) and the controller \<open>pkg/controller/datasource/datasource.go\<close>.
  The table is added to those of the alerts, whose rules name data sources by id.
\<close>

section \<open>Rows\<close>

definition DatasourceTypeLog :: int where "DatasourceTypeLog = 0"
definition DatasourceTypeAlert :: int where "DatasourceTypeAlert = 1"
definition DatasourceTypeRedis :: int where "DatasourceTypeRedis = 2"
definition DatasourceTypeMiddleware :: int where "DatasourceTypeMiddleware = 3"

definition DatasourceSubTypeLoki :: string where "DatasourceSubTypeLoki = ''loki''"
definition DatasourceSubTypeES :: string where "DatasourceSubTypeES = ''es''"
definition DatasourceSubTypePrometheus :: string where "DatasourceSubTypePrometheus = ''prometheus''"
definition DatasourceSubTypeRedis :: string where "DatasourceSubTypeRedis = ''redis''"
definition DatasourceSubTypeNacos :: string where "DatasourceSubTypeNacos = ''nacos''"

lemmas datasource_types = DatasourceTypeLog_def DatasourceTypeAlert_def DatasourceTypeRedis_def DatasourceTypeMiddleware_def
lemmas datasource_subtypes = DatasourceSubTypeLoki_def DatasourceSubTypeES_def DatasourceSubTypePrometheus_def DatasourceSubTypeRedis_def
  DatasourceSubTypeNacos_def

record Datasource = pixiu_model +
  ds_UserId :: int
  ds_ClusterName :: string
  ds_Name :: string
  ds_Type :: int
  ds_SubType :: string
  ds_Config :: string
  ds_IsDefault :: bool
  ds_External :: bool
  ds_Description :: string

record datasource_db = alert_db +
  datasources :: "Datasource table"

definition datasources_t :: "('m datasource_db_scheme, Datasource) tref" where
  "datasources_t = \<lparr>tget = datasources, tupd = datasources_update, tuniq = (\<lambda>r s. False), tdefaults = (\<lambda>r. r)\<rparr>"

lemma datasources_t_simps [simp]:
  "tget datasources_t = datasources" "tupd datasources_t = datasources_update" "tdefaults datasources_t = (\<lambda>r. r)" "tuniq datasources_t = (\<lambda>r s. False)"
  by (simp_all add: datasources_t_def)

interpretation datasources_tab: db_table "datasources_t :: ('m datasource_db_scheme, Datasource) tref" by unfold_locales simp_all

definition datasourceCreate :: "Datasource \<Rightarrow> ('m datasource_db_scheme, goerr, Datasource) act" where
  "datasourceCreate object = daoCreate datasources_t object"

definition datasourceUpdate :: "int \<Rightarrow> int \<Rightarrow> Datasource updates \<Rightarrow> ('m datasource_db_scheme, goerr, unit) act" where
  "datasourceUpdate = daoUpdate datasources_t (Util ErrRecordNotFound)"

definition datasourceDelete :: "int \<Rightarrow> ('m datasource_db_scheme, goerr, unit) act" where
  "datasourceDelete i = daoDelete datasources_t i"

definition datasourceGet :: "int \<Rightarrow> ('m datasource_db_scheme, goerr, Datasource option) act" where
  "datasourceGet i = daoGet datasources_t i"

definition datasourceList :: "Datasource options list \<Rightarrow> ('m datasource_db_scheme, goerr, Datasource list) act" where
  "datasourceList opts = daoList datasources_t opts"

definition datasourceCount :: "Datasource options list \<Rightarrow> ('m datasource_db_scheme, goerr, int) act" where
  "datasourceCount opts = daoCount datasources_t opts"

interpretation datasources_lock: versioned_dao "\<lambda>w :: 'm datasource_db_scheme. rows (datasources w)" datasourceUpdate "\<lambda>w. table_ok (datasources w)"
  using datasources_tab.versioned [of "Util ErrRecordNotFound"] by (simp add: datasourceUpdate_def)

definition WithClusterName :: "('r \<Rightarrow> string) \<Rightarrow> string \<Rightarrow> 'r options" where
  "WithClusterName cluster_col clusterName q = (if clusterName = [] then q else Where (\<lambda>r. cluster_col r = clusterName) q)"

definition WithDatasourceType :: "int \<Rightarrow> Datasource options" where
  "WithDatasourceType datasourceType = Where (\<lambda>r. ds_Type r = datasourceType)"

definition WithDatasourceSubType :: "string \<Rightarrow> Datasource options" where
  "WithDatasourceSubType subType q = (if subType = [] then q else Where (\<lambda>r. ds_SubType r = subType) q)"

definition WithDatasourceIsDefault :: "bool \<Rightarrow> Datasource options" where
  "WithDatasourceIsDefault isDefault = Where (\<lambda>r. ds_IsDefault r = isDefault)"

section \<open>The configuration\<close>

record HTTPHeader =
  hh_Key :: string
  hh_Value :: string

record LogSourceConfig =
  lc_URL :: string
  lc_UserName :: string
  lc_Password :: string

record AlertSourceConfig =
  al_URL :: string
  al_UserName :: string
  al_Password :: string

record RedisSourceConfig =
  rd_Mode :: string
  rd_Address :: string
  rd_Addresses :: "string list"
  rd_MasterName :: string
  rd_Password :: string
  rd_SentinelPassword :: string
  rd_DB :: int

record NacosSourceConfig =
  nc_Version :: string

text \<open>The headers are a slice that may be nil, which is written as \<open>null\<close>.\<close>

record DatasourceConfig =
  dc_Headers :: "HTTPHeader list option"
  dc_Log :: "LogSourceConfig option"
  dc_Alert :: "AlertSourceConfig option"
  dc_Redis :: "RedisSourceConfig option"
  dc_Nacos :: "NacosSourceConfig option"

definition RedisModeStandalone :: string where "RedisModeStandalone = ''standalone''"
definition RedisModeSentinel :: string where "RedisModeSentinel = ''sentinel''"
definition RedisModeCluster :: string where "RedisModeCluster = ''cluster''"

lemmas redis_modes = RedisModeStandalone_def RedisModeSentinel_def RedisModeCluster_def

definition NormalizeMode :: "RedisSourceConfig \<Rightarrow> string" where
  "NormalizeMode r = (if rd_Mode r = RedisModeSentinel then RedisModeSentinel else if rd_Mode r = RedisModeCluster then RedisModeCluster
     else RedisModeStandalone)"

definition DisplayAddress :: "RedisSourceConfig \<Rightarrow> string" where
  "DisplayAddress r =
     (if NormalizeMode r = RedisModeSentinel then ''sentinel://'' @ rd_MasterName r @ ''@'' @ Join (rd_Addresses r) '',''
      else if NormalizeMode r = RedisModeCluster then ''cluster://'' @ Join (rd_Addresses r) '',''
      else rd_Address r)"

definition zeroHTTPHeader :: HTTPHeader where "zeroHTTPHeader = \<lparr>hh_Key = [], hh_Value = []\<rparr>"
definition zeroLogSource :: LogSourceConfig where "zeroLogSource = \<lparr>lc_URL = [], lc_UserName = [], lc_Password = []\<rparr>"
definition zeroAlertSource :: AlertSourceConfig where "zeroAlertSource = \<lparr>al_URL = [], al_UserName = [], al_Password = []\<rparr>"
definition zeroRedisSource :: RedisSourceConfig where
  "zeroRedisSource = \<lparr>rd_Mode = [], rd_Address = [], rd_Addresses = [], rd_MasterName = [], rd_Password = [], rd_SentinelPassword = [], rd_DB = 0\<rparr>"
definition zeroNacosSource :: NacosSourceConfig where "zeroNacosSource = \<lparr>nc_Version = []\<rparr>"
definition zeroDatasourceConfig :: DatasourceConfig where
  "zeroDatasourceConfig = \<lparr>dc_Headers = None, dc_Log = None, dc_Alert = None, dc_Redis = None, dc_Nacos = None\<rparr>"

lemmas zero_sources = zeroHTTPHeader_def zeroLogSource_def zeroAlertSource_def zeroRedisSource_def zeroNacosSource_def zeroDatasourceConfig_def

text \<open>Members left out when they are zero.\<close>

definition strMember :: "string \<Rightarrow> string \<Rightarrow> (string \<times> json) list" where
  "strMember name s = optMember name (if s = [] then None else Some (JStr s))"

definition headerJson :: "HTTPHeader \<Rightarrow> json" where
  "headerJson h = JObj [(''key'', JStr (hh_Key h)), (''value'', JStr (hh_Value h))]"

definition logSourceJson :: "LogSourceConfig \<Rightarrow> json" where
  "logSourceJson c = JObj (strMember ''url'' (lc_URL c) @ strMember ''user_name'' (lc_UserName c) @ strMember ''password'' (lc_Password c))"

definition alertSourceJson :: "AlertSourceConfig \<Rightarrow> json" where
  "alertSourceJson c = JObj (strMember ''url'' (al_URL c) @ strMember ''user_name'' (al_UserName c) @ strMember ''password'' (al_Password c))"

definition redisSourceJson :: "RedisSourceConfig \<Rightarrow> json" where
  "redisSourceJson c = JObj (strMember ''mode'' (rd_Mode c) @ strMember ''address'' (rd_Address c) @
     optMember ''addresses'' (if rd_Addresses c = [] then None else Some (JArr (map JStr (rd_Addresses c)))) @
     strMember ''master_name'' (rd_MasterName c) @ strMember ''password'' (rd_Password c) @ strMember ''sentinel_password'' (rd_SentinelPassword c) @
     optMember ''db'' (if rd_DB c = 0 then None else Some (JNum (FormatInt (rd_DB c)))))"

definition nacosSourceJson :: "NacosSourceConfig \<Rightarrow> json" where
  "nacosSourceJson c = JObj (strMember ''version'' (nc_Version c))"

definition datasourceConfigJson :: "DatasourceConfig \<Rightarrow> json" where
  "datasourceConfigJson c = JObj (member ''headers'' (case dc_Headers c of None \<Rightarrow> JNull | Some hs \<Rightarrow> JArr (map headerJson hs)) @
     optMember ''log'' (map_option logSourceJson (dc_Log c)) @ optMember ''alert'' (map_option alertSourceJson (dc_Alert c)) @
     optMember ''redis'' (map_option redisSourceJson (dc_Redis c)) @ optMember ''nacos'' (map_option nacosSourceJson (dc_Nacos c)))"

definition DatasourceConfig_Marshal :: "DatasourceConfig \<Rightarrow> string" where
  "DatasourceConfig_Marshal c = jsonPrint (datasourceConfigJson c)"

fun decSliceNil :: "'a decoder \<Rightarrow> 'a \<Rightarrow> 'a list option decoder" where
  "decSliceNil dec zero (JArr js) old = (case decElements dec zero js (case old of None \<Rightarrow> [] | Some xs \<Rightarrow> xs) of (vs, ok) \<Rightarrow> (Some vs, ok))"
| "decSliceNil dec zero JNull old = (None, True)"
| "decSliceNil dec zero _ old = (old, False)"

definition decHeader :: "HTTPHeader decoder" where
  "decHeader = decStruct [(''key'', field hh_Key (\<lambda>x. hh_Key_update (\<lambda>_. x)) decString), (''value'', field hh_Value (\<lambda>x. hh_Value_update (\<lambda>_. x)) decString)]"

definition decLogSource :: "LogSourceConfig decoder" where
  "decLogSource = decStruct [(''url'', field lc_URL (\<lambda>x. lc_URL_update (\<lambda>_. x)) decString),
     (''user_name'', field lc_UserName (\<lambda>x. lc_UserName_update (\<lambda>_. x)) decString), (''password'', field lc_Password (\<lambda>x. lc_Password_update (\<lambda>_. x)) decString)]"

definition decAlertSource :: "AlertSourceConfig decoder" where
  "decAlertSource = decStruct [(''url'', field al_URL (\<lambda>x. al_URL_update (\<lambda>_. x)) decString),
     (''user_name'', field al_UserName (\<lambda>x. al_UserName_update (\<lambda>_. x)) decString), (''password'', field al_Password (\<lambda>x. al_Password_update (\<lambda>_. x)) decString)]"

definition decRedisSource :: "RedisSourceConfig decoder" where
  "decRedisSource = decStruct [(''mode'', field rd_Mode (\<lambda>x. rd_Mode_update (\<lambda>_. x)) decString),
     (''address'', field rd_Address (\<lambda>x. rd_Address_update (\<lambda>_. x)) decString),
     (''addresses'', field rd_Addresses (\<lambda>x. rd_Addresses_update (\<lambda>_. x)) (decSlice decString [])),
     (''master_name'', field rd_MasterName (\<lambda>x. rd_MasterName_update (\<lambda>_. x)) decString),
     (''password'', field rd_Password (\<lambda>x. rd_Password_update (\<lambda>_. x)) decString),
     (''sentinel_password'', field rd_SentinelPassword (\<lambda>x. rd_SentinelPassword_update (\<lambda>_. x)) decString),
     (''db'', field rd_DB (\<lambda>x. rd_DB_update (\<lambda>_. x)) decInt)]"

definition decNacosSource :: "NacosSourceConfig decoder" where
  "decNacosSource = decStruct [(''version'', field nc_Version (\<lambda>x. nc_Version_update (\<lambda>_. x)) decString)]"

definition decDatasourceConfig :: "DatasourceConfig decoder" where
  "decDatasourceConfig = decStruct [(''headers'', field dc_Headers (\<lambda>x. dc_Headers_update (\<lambda>_. x)) (decSliceNil decHeader zeroHTTPHeader)),
     (''log'', field dc_Log (\<lambda>x. dc_Log_update (\<lambda>_. x)) (decPtr decLogSource zeroLogSource)),
     (''alert'', field dc_Alert (\<lambda>x. dc_Alert_update (\<lambda>_. x)) (decPtr decAlertSource zeroAlertSource)),
     (''redis'', field dc_Redis (\<lambda>x. dc_Redis_update (\<lambda>_. x)) (decPtr decRedisSource zeroRedisSource)),
     (''nacos'', field dc_Nacos (\<lambda>x. dc_Nacos_update (\<lambda>_. x)) (decPtr decNacosSource zeroNacosSource))]"

definition DatasourceConfig_Unmarshal :: "string \<Rightarrow> DatasourceConfig option" where
  "DatasourceConfig_Unmarshal s = unmarshalWith decDatasourceConfig s zeroDatasourceConfig"

definition Clean :: "int \<Rightarrow> string \<Rightarrow> DatasourceConfig \<Rightarrow> DatasourceConfig" where
  "Clean t subType c0 =
     (let c1 = (if t = DatasourceTypeAlert then c0\<lparr>dc_Log := None, dc_Nacos := None\<rparr> else c0);
          c2 = (if t = DatasourceTypeLog then c1\<lparr>dc_Alert := None\<rparr> else c1);
          c3 = (if t = DatasourceTypeMiddleware then c2\<lparr>dc_Alert := None\<rparr> else c2)
      in if t = DatasourceTypeRedis \<or> subType = DatasourceSubTypeRedis
         then c3\<lparr>dc_Log := None, dc_Alert := None, dc_Headers := None, dc_Nacos := None\<rparr> else c3\<lparr>dc_Redis := None\<rparr>)"

section \<open>The controller\<close>

record types_Datasource =
  td_Id :: int
  td_ResourceVersion :: int
  td_GmtCreate :: int
  td_GmtModified :: int
  td_UserId :: int
  td_ClusterName :: string
  td_Name :: string
  td_Type :: int
  td_SubType :: string
  td_Config :: DatasourceConfig
  td_IsDefault :: bool
  td_External :: bool
  td_Description :: string

record CreateDatasourceRequest =
  qd_UserId :: int
  qd_Name :: string
  qd_ClusterName :: string
  qd_Type :: int
  qd_SubType :: string
  qd_Config :: "DatasourceConfig option"
  qd_IsDefault :: bool
  qd_External :: bool
  qd_Description :: string

record UpdateDatasourceRequest = CreateDatasourceRequest +
  qu_Id :: int
  qu_ResourceVersion :: int

definition checkPeer :: "'r CreateDatasourceRequest_scheme \<Rightarrow> Datasource \<Rightarrow> ('w, goerr, unit) act" where
  "checkPeer req datasource =
     (if qd_IsDefault req \<and> ds_IsDefault datasource then fail (NewError (Errorf ''default datasource already exists'') StatusConflict)
      else if ds_Name datasource = qd_Name req then fail (NewError (Errorf ''datasource already exists'') StatusConflict)
      else ret ())"

definition dsPreCreate :: "'r CreateDatasourceRequest_scheme \<Rightarrow> ('m datasource_db_scheme, goerr, unit) act" where
  "dsPreCreate req = orInternal (datasourceList [WithClusterName ds_ClusterName (qd_ClusterName req), WithDatasourceType (qd_Type req)])
     (forEach (checkPeer req))"

text \<open>A Redis source must be external and name its servers; the mode is normalized in the request.\<close>

definition badRequest :: "string \<Rightarrow> goerr + 'a" where
  "badRequest msg = Inl (NewError (Errorf msg) StatusBadRequest)"

definition validateRedisConfig :: "RedisSourceConfig \<Rightarrow> goerr + RedisSourceConfig" where
  "validateRedisConfig c0 = (let redisCfg = c0\<lparr>rd_Mode := NormalizeMode c0\<rparr> in
     if rd_Mode redisCfg = RedisModeSentinel
     then (if TrimSpace (rd_MasterName redisCfg) = [] \<or> rd_Addresses redisCfg = [] then badRequest ''redis sentinel mode requires master_name and addresses''
           else Inr redisCfg)
     else if rd_Mode redisCfg = RedisModeCluster
     then (if rd_Addresses redisCfg = [] then badRequest ''redis cluster mode requires addresses'' else Inr (redisCfg\<lparr>rd_DB := 0\<rparr>))
     else (if TrimSpace (rd_Address redisCfg) = [] then badRequest ''redis standalone mode requires address (host:port)'' else Inr redisCfg))"

definition validateRedisConstraint :: "'r CreateDatasourceRequest_scheme \<Rightarrow> goerr + 'r CreateDatasourceRequest_scheme" where
  "validateRedisConstraint req =
     (let isRedisType = (qd_Type req = DatasourceTypeRedis); isRedisSubType = (qd_SubType req = DatasourceSubTypeRedis)
      in if isRedisType \<and> \<not> isRedisSubType then badRequest ''cache datasource requires sub_type''
         else if isRedisSubType \<and> \<not> isRedisType \<and> qd_Type req \<noteq> DatasourceTypeMiddleware then badRequest ''redis datasource requires type''
         else if \<not> isRedisSubType then Inr req
         else if \<not> qd_External req then badRequest ''redis datasource only supports external direct connection, please enable external''
         else (case qd_Config req of
             None \<Rightarrow> badRequest ''redis datasource requires config.redis''
           | Some cfg \<Rightarrow> (case dc_Redis cfg of
               None \<Rightarrow> badRequest ''redis datasource requires config.redis''
             | Some redis \<Rightarrow> (case validateRedisConfig redis of
                 Inl err \<Rightarrow> Inl err
               | Inr redis' \<Rightarrow> Inr (req\<lparr>qd_Config := Some (cfg\<lparr>dc_Redis := Some redis'\<rparr>)\<rparr>)))))"

text \<open>\<open>req.Config.Clean\<close> writes through the pointer: without a configuration it panics.\<close>

definition cleanedConfig :: "'r CreateDatasourceRequest_scheme \<Rightarrow> goerr + string" where
  "cleanedConfig req = (case qd_Config req of None \<Rightarrow> Inl nilPanic
     | Some cfg \<Rightarrow> Inr (DatasourceConfig_Marshal (Clean (qd_Type req) (qd_SubType req) cfg)))"

definition newDatasource :: "'r CreateDatasourceRequest_scheme \<Rightarrow> string \<Rightarrow> Datasource" where
  "newDatasource req cfg = pixiu_model.extend newModel
     \<lparr>ds_UserId = qd_UserId req, ds_ClusterName = qd_ClusterName req, ds_Name = qd_Name req, ds_Type = qd_Type req, ds_SubType = qd_SubType req,
      ds_Config = cfg, ds_IsDefault = qd_IsDefault req, ds_External = qd_External req, ds_Description = qd_Description req\<rparr>"

definition orFail :: "goerr + 'a \<Rightarrow> ('a \<Rightarrow> ('w, goerr, 'b) act) \<Rightarrow> ('w, goerr, 'b) act" where
  "orFail r f = (case r of Inl err \<Rightarrow> fail err | Inr x \<Rightarrow> f x)"

definition datasourcec_Create :: "CreateDatasourceRequest \<Rightarrow> ('m datasource_db_scheme, goerr, unit) act" where
  "datasourcec_Create req0 = orFail (validateRedisConstraint req0) (\<lambda>req. andThen (dsPreCreate req) (\<lambda>_.
     if \<not> qd_External req \<and> qd_ClusterName req = [] then fail (NewError (Errorf ''cluster_name is required when datasource is not external'') StatusBadRequest)
     else orFail (cleanedConfig req) (\<lambda>cfg. orInternal (datasourceCreate (newDatasource req cfg)) (\<lambda>_. ret ()))))"

definition dsPreUpdate :: "int \<Rightarrow> ('m datasource_db_scheme, goerr, Datasource) act" where
  "dsPreUpdate i = foundOr ''datasource'' (datasourceGet i)"

definition dsUpdates :: "'r CreateDatasourceRequest_scheme \<Rightarrow> string \<Rightarrow> Datasource \<Rightarrow> Datasource updates" where
  "dsUpdates req cfg old =
     changed ''config'' ds_Config ds_Config_update old cfg @ changed ''name'' ds_Name ds_Name_update old (qd_Name req) @
     changed ''cluster_name'' ds_ClusterName ds_ClusterName_update old (qd_ClusterName req) @
     changed ''type'' ds_Type ds_Type_update old (qd_Type req) @ changed ''sub_type'' ds_SubType ds_SubType_update old (qd_SubType req) @
     changed ''is_default'' ds_IsDefault ds_IsDefault_update old (qd_IsDefault req) @
     changed ''external'' ds_External ds_External_update old (qd_External req) @
     changed ''description'' ds_Description ds_Description_update old (qd_Description req)"

definition datasourcec_Update :: "context_user \<Rightarrow> UpdateDatasourceRequest \<Rightarrow> ('m datasource_db_scheme, goerr, unit) act" where
  "datasourcec_Update ctx req0 = orFail (validateRedisConstraint req0) (\<lambda>req. andThen (dsPreUpdate (qu_Id req)) (\<lambda>old.
     andThen (CheckResourceAccess ctx (ds_UserId old) ResourceTypeDatasource (qu_Id req)) (\<lambda>_. orFail (cleanedConfig req) (\<lambda>cfg.
       let updates = dsUpdates req cfg old
       in if updates = [] then ret ()
          else onResult (datasourceUpdate (qu_Id req) (qu_ResourceVersion req) updates)
            (\<lambda>err. if IsRecordNotFound err then fail (NewError (Errorf ''datasource not found or resource version conflict'') StatusConflict)
               else fail ErrServerInternal) ret))))"

definition datasourcec_Delete :: "context_user \<Rightarrow> int \<Rightarrow> ('m datasource_db_scheme, goerr, unit) act" where
  "datasourcec_Delete ctx i = andThen (foundOr ''datasource'' (datasourceGet i)) (\<lambda>object.
     andThen (CheckResourceAccess ctx (ds_UserId object) ResourceTypeDatasource i) (\<lambda>_. writeOr ''datasource'' (datasourceDelete i)))"

definition dsModelToType :: "Datasource \<Rightarrow> types_Datasource option" where
  "dsModelToType object = map_option (\<lambda>cfg.
     \<lparr>td_Id = Oid object, td_ResourceVersion = ResourceVersion object, td_GmtCreate = GmtCreate object, td_GmtModified = GmtModified object,
      td_UserId = ds_UserId object, td_ClusterName = ds_ClusterName object, td_Name = ds_Name object, td_Type = ds_Type object,
      td_SubType = ds_SubType object, td_Config = cfg, td_IsDefault = ds_IsDefault object, td_External = ds_External object,
      td_Description = ds_Description object\<rparr>) (DatasourceConfig_Unmarshal (ds_Config object))"

definition datasourcec_Get :: "context_user \<Rightarrow> int \<Rightarrow> ('m datasource_db_scheme, goerr, types_Datasource) act" where
  "datasourcec_Get ctx i = andThen (foundOr ''datasource'' (datasourceGet i)) (\<lambda>object.
     andThen (CheckResourceAccess ctx (ds_UserId object) ResourceTypeDatasource i) (\<lambda>_.
       case dsModelToType object of None \<Rightarrow> fail ErrServerInternal | Some ds \<Rightarrow> ret ds))"

definition datasourceFilters :: "ListOptions \<Rightarrow> int list option \<Rightarrow> Datasource options list" where
  "datasourceFilters lo ids = [WithUserOrResourceIDs ds_UserId (lo_UserId lo) (case ids of None \<Rightarrow> [] | Some is \<Rightarrow> is),
       WithNameLike ds_Name (lo_NameSelector lo), WithClusterName ds_ClusterName (lo_ClusterName lo)] @
     (case lo_DatasourceType lo of None \<Rightarrow> [] | Some t \<Rightarrow> [WithDatasourceType t]) @
     (if lo_SubType lo \<noteq> [] then [WithDatasourceSubType (lo_SubType lo)] else [])"

definition datasourcec_List :: "(goerr \<Rightarrow> string) \<Rightarrow> context_user \<Rightarrow> ListOptions \<Rightarrow> ('m datasource_db_scheme, goerr, types_Datasource MessagePage) act" where
  "datasourcec_List errText ctx listOption = (let lo = SetDefaultPageOption listOption in
     andThen (AuthorizedResourceIDs ctx ResourceTypeDatasource) (\<lambda>ids. let opts = datasourceFilters lo ids in
       andThen (onResult (datasourceCount opts) (\<lambda>err. ret (0, errText err)) (\<lambda>total. ret (total, []))) (\<lambda>(total, message).
         orInternal (datasourceList (opts @ pageOptions lo)) (\<lambda>objects.
           case those (map dsModelToType objects) of
             None \<Rightarrow> fail ErrServerInternal
           | Some items \<Rightarrow> ret \<lparr>pr_Page = lo_Page lo, pr_Limit = lo_Limit lo, pr_Total = total, pr_Items = items, pr_Message = message\<rparr>))))"

end
