(* ===== verification/JsonIndent.thy ===== *)
theory JsonIndent
  imports JsonStruct
begin

text \<open>
  \<open>json.MarshalIndent\<close> with an indent of two blanks, and that such a text is read back.
\<close>

definition indentLine :: "nat \<Rightarrow> string" where
  "indentLine n = CHR 0x0A # replicate (2 * n) CHR '' ''"

fun jsonIndent :: "nat \<Rightarrow> json \<Rightarrow> string" where
  "jsonIndent n (JArr vs) = (if vs = [] then ''[]''
     else ''['' @ Join (map (\<lambda>v. indentLine (Suc n) @ jsonIndent (Suc n) v) vs) '','' @ indentLine n @ '']'')"
| "jsonIndent n (JObj ms) = (if ms = [] then ''{}''
     else ''{'' @ Join (map (\<lambda>(k, v). indentLine (Suc n) @ quoteJson k @ '': '' @ jsonIndent (Suc n) v) ms) '','' @ indentLine n @ ''}'')"
| "jsonIndent n j = jsonPrint j"

section \<open>Blanks\<close>

lemma skipWs_append: "\<forall>c \<in> set ws. jsonSpace c \<Longrightarrow> skipWs (ws @ s) = skipWs s"
  by (simp add: skipWs_def dropWhile_append)

lemma indentLine_spaces: "\<forall>c \<in> set (indentLine n). jsonSpace c"
  by (auto simp: indentLine_def jsonSpace_def)

lemma skipWs_indentLine [simp]: "skipWs (indentLine n @ s) = skipWs s"
  by (rule skipWs_append [OF indentLine_spaces])

lemma skipWs_blank [simp]: "skipWs (CHR '' '' # s) = skipWs s"
  by (simp add: skipWs_def jsonSpace_def)

lemma parse_skip: "skipWs s = skipWs t \<Longrightarrow> parseValue k d s = parseValue k d t"
  by (cases k) simp_all

lemma parseMembers_skip: "skipWs s = skipWs t \<Longrightarrow> parseMembers k d s = parseMembers k d t"
  by (cases k) simp_all

lemma afterValue_indentLine [simp]: "afterValue (indentLine n @ s)"
  by (simp add: afterValue_def indentLine_def)

section \<open>Reading an indented text\<close>

definition ireads :: "json \<Rightarrow> bool" where
  "ireads j \<longleftrightarrow> (\<forall>n k d rest. 2 * length (jsonIndent n j @ rest) < k \<longrightarrow> d + depthJson j \<le> maxNestingDepth \<longrightarrow> afterValue rest \<longrightarrow>
     parseValue k d (jsonIndent n j @ rest) = Some (j, rest))"

lemma ireads_atom: "reads j \<Longrightarrow> (\<And>n. jsonIndent n j = jsonPrint j) \<Longrightarrow> ireads j"
  by (simp add: reads_def ireads_def)

definition indented :: "nat \<Rightarrow> json \<Rightarrow> string" where
  "indented n v = indentLine n @ jsonIndent n v"

lemma length_indented: "length (indented n v) = length (indentLine n) + length (jsonIndent n v)"
  by (simp add: indented_def)

lemma ireads_elements:
  assumes "vs \<noteq> []" and "\<And>v. v \<in> set vs \<Longrightarrow> ireads v \<and> d + depthJson v \<le> maxNestingDepth"
    and "Suc (2 * length (Join (map (indented n) vs) '','' @ indentLine m @ '']'' @ rest)) < k"
  shows "parseElements k d (Join (map (indented n) vs) '','' @ indentLine m @ '']'' @ rest) = Some (vs, rest)"
  using assms
proof (induction vs arbitrary: k)
  case (Cons v vs)
  from Cons.prems(3) obtain k' where k: "k = Suc k'" by (cases k) auto
  have skip: "parseValue k' d (indented n v @ t) = parseValue k' d (jsonIndent n v @ t)" for t
    by (rule parse_skip) (simp add: indented_def)
  show ?case
  proof (cases "vs = []")
    case True
    with Cons.prems k have "parseValue k' d (jsonIndent n v @ indentLine m @ '']'' @ rest) = Some (v, indentLine m @ '']'' @ rest)"
      by (auto simp: ireads_def indented_def)
    with True k skip show ?thesis by simp
  next
    case False
    let ?tail = "Join (map (indented n) vs) '','' @ indentLine m @ '']'' @ rest"
    have j: "Join (map (indented n) (v # vs)) '','' @ indentLine m @ '']'' @ rest = indented n v @ '','' @ ?tail" using False by (cases vs) auto
    have "parseValue k' d (jsonIndent n v @ '','' @ ?tail) = Some (v, '','' @ ?tail)"
      using Cons.prems(2) [of v] Cons.prems(3) unfolding j k by (simp add: ireads_def afterValue_def indented_def)
    moreover have "parseElements k' d ?tail = Some (vs, rest)"
      using Cons.prems(2,3) False unfolding j k by (intro Cons.IH) (auto simp: length_indented)
    ultimately show ?thesis unfolding j k by (simp del: parseValue.simps add: skip)
  qed
qed simp

definition indentMember :: "nat \<Rightarrow> string \<times> json \<Rightarrow> string" where
  "indentMember n m = indentLine n @ quoteJson (fst m) @ '': '' @ jsonIndent n (snd m)"

lemma length_indentMember: "length (indentMember n m) = length (indentLine n) + length (quoteJson (fst m)) + 2 + length (jsonIndent n (snd m))"
  by (simp add: indentMember_def)

lemma ireads_members:
  assumes "ms \<noteq> []" and "\<And>m. m \<in> set ms \<Longrightarrow> validUTF8 (fst m) \<and> ireads (snd m) \<and> d + depthJson (snd m) \<le> maxNestingDepth"
    and "Suc (2 * length (Join (map (indentMember n) ms) '','' @ indentLine l @ ''}'' @ rest)) < k"
  shows "parseMembers k d (Join (map (indentMember n) ms) '','' @ indentLine l @ ''}'' @ rest) = Some (ms, rest)"
  using assms
proof (induction ms arbitrary: k)
  case (Cons m ms)
  from Cons.prems(3) obtain k' where k: "k = Suc k'" by (cases k) auto
  from Cons.prems(2) [of m] have v: "validUTF8 (fst m)" and r: "ireads (snd m)" "d + depthJson (snd m) \<le> maxNestingDepth" by auto
  have key: "indentMember n m @ t = indentLine n @ CHR 0x22 # escapeJson (fst m) @ CHR 0x22 # CHR '':'' # CHR '' '' # jsonIndent n (snd m) @ t" for t
    by (simp add: indentMember_def quoteJson_def)
  have blank: "parseValue k' d (CHR '' '' # t) = parseValue k' d t" for t by (rule parse_skip) simp
  note scan = escape_roundtrip [OF v]
  show ?case
  proof (cases "ms = []")
    case True
    with Cons.prems(3) r k have "parseValue k' d (jsonIndent n (snd m) @ indentLine l @ ''}'' @ rest) = Some (snd m, indentLine l @ ''}'' @ rest)"
      by (auto simp: ireads_def indentMember_def quoteJson_def)
    with True k scan show ?thesis by (simp add: key blank del: parseValue.simps)
  next
    case False
    let ?tail = "Join (map (indentMember n) ms) '','' @ indentLine l @ ''}'' @ rest"
    have j: "Join (map (indentMember n) (m # ms)) '','' @ indentLine l @ ''}'' @ rest = indentMember n m @ '','' @ ?tail" using False by (cases ms) auto
    have "parseValue k' d (jsonIndent n (snd m) @ '','' @ ?tail) = Some (snd m, '','' @ ?tail)"
      using r Cons.prems(3) unfolding j k by (simp add: ireads_def afterValue_def indentMember_def)
    moreover have "parseMembers k' d ?tail = Some (ms, rest)"
      using Cons.prems(2,3) False unfolding j k by (intro Cons.IH) (auto simp: length_indentMember)
    ultimately show ?thesis using scan unfolding j k key by (simp add: blank del: parseValue.simps)
  qed
qed simp

lemma indent_hd:
  assumes "wfJson j"
  shows "\<exists>c cs. jsonIndent n j = c # cs \<and> \<not> jsonSpace c \<and> c \<noteq> CHR '']'' \<and> c \<noteq> CHR ''}''"
  using jsonPrint_hd [OF assms] by (cases j) auto

lemma ireads: "wfJson j \<Longrightarrow> ireads j"
proof (induction j)
  case (JArr vs)
  show ?case unfolding ireads_def
  proof (intro allI impI)
    fix n k d rest assume k: "2 * length (jsonIndent n (JArr vs) @ rest) < k" and d: "d + depthJson (JArr vs) \<le> maxNestingDepth"
    then obtain k' where k': "k = Suc k'" by (cases k) auto
    have ind: "(\<lambda>v. indentLine (Suc n) @ jsonIndent (Suc n) v) = indented (Suc n)" by (simp add: indented_def fun_eq_iff)
    have el: "parseElements k' (Suc d) (Join (map (indented (Suc n)) vs) '','' @ indentLine n @ '']'' @ rest) = Some (vs, rest)" if "vs \<noteq> []"
      using JArr d k that depth_le [of _ vs] unfolding k' by (intro ireads_elements) (fastforce simp: ind)+
    have hd: "\<exists>c cs. skipWs (Join (map (indented (Suc n)) vs) '','' @ t) = c # cs \<and> c \<noteq> CHR '']''" if "vs \<noteq> []" for t
      using JArr.prems that indent_hd [of "hd vs" "Suc n"] by (cases vs rule: remdups_adj.cases) (auto simp: indented_def)
    show "parseValue k d (jsonIndent n (JArr vs) @ rest) = Some (JArr vs, rest)"
    proof (cases "vs = []")
      case False
      from hd [OF this, of "indentLine n @ '']'' @ rest"] obtain c cs where
        "skipWs (Join (map (indented (Suc n)) vs) '','' @ indentLine n @ '']'' @ rest) = c # cs" "c \<noteq> CHR '']''" by blast
      with False d el [OF False] show ?thesis unfolding k' by (simp add: ind)
    qed (use d in \<open>simp add: k'\<close>)
  qed
next
  case (JObj ms)
  show ?case unfolding ireads_def
  proof (intro allI impI)
    fix n k d rest assume k: "2 * length (jsonIndent n (JObj ms) @ rest) < k" and d: "d + depthJson (JObj ms) \<le> maxNestingDepth"
    then obtain k' where k': "k = Suc k'" by (cases k) auto
    have ind: "(\<lambda>(k, v). indentLine (Suc n) @ quoteJson k @ '': '' @ jsonIndent (Suc n) v) = indentMember (Suc n)"
      by (auto simp: indentMember_def fun_eq_iff)
    have print: "jsonIndent n (JObj ms) = (if ms = [] then ''{}'' else CHR ''{'' # Join (map (indentMember (Suc n)) ms) '','' @ indentLine n @ ''}'')"
      unfolding jsonIndent.simps ind by simp
    have m: "validUTF8 (fst m) \<and> ireads (snd m) \<and> Suc d + depthJson (snd m) \<le> maxNestingDepth" if "m \<in> set ms" for m
      using JObj.IH [of m "snd m"] JObj.prems that d depth_le' [OF that] by (auto simp: snds.simps)
    have el: "parseMembers k' (Suc d) (Join (map (indentMember (Suc n)) ms) '','' @ indentLine n @ ''}'' @ rest) = Some (ms, rest)" if "ms \<noteq> []"
      using m k that unfolding k' print by (intro ireads_members) auto
    have hd: "\<exists>cs. skipWs (Join (map (indentMember (Suc n)) ms) '','' @ t) = CHR 0x22 # cs" if "ms \<noteq> []" for t
      using that by (cases ms rule: remdups_adj.cases) (auto simp: indentMember_def quoteJson_def)
    show "parseValue k d (jsonIndent n (JObj ms) @ rest) = Some (JObj ms, rest)"
    proof (cases "ms = []")
      case False
      from hd [OF this, of "indentLine n @ ''}'' @ rest"] obtain cs where
        "skipWs (Join (map (indentMember (Suc n)) ms) '','' @ indentLine n @ ''}'' @ rest) = CHR 0x22 # cs" by blast
      with False d el [OF False] show ?thesis unfolding k' print by simp
    qed (use d in \<open>simp add: k'\<close>)
  qed
qed (rule ireads_atom; simp add: reads)+

text \<open>An indented text is read back as the value it was written from.\<close>

theorem jsonParse_jsonIndent:
  assumes "wfJson j" and "depthJson j \<le> maxNestingDepth"
  shows "jsonParse (jsonIndent 0 j) = Some j"
proof -
  have "parseValue (Suc (2 * length (jsonIndent 0 j))) 0 (jsonIndent 0 j @ []) = Some (j, [])"
    using ireads [OF assms(1), unfolded ireads_def, rule_format, of 0 "[]" "Suc (2 * length (jsonIndent 0 j))" 0] assms(2)
    by (simp add: afterValue_def del: parseValue.simps)
  then show ?thesis by (simp add: jsonParse_def del: parseValue.simps)
qed

end
