(* ===== verification/AlertRuleController.thy ===== *)
theory AlertRuleController
  imports Datasource AlertRules JsonIndent
begin

text \<open>
  The alert rule controller (\<open>pkg/controller/alert/rule/rule.go\<close>): creating, updating and deleting rules, what a
  disabled rule leaves behind, and the JSON files rules are exported to and imported from.
\<close>

section \<open>Create\<close>

definition badRuleConfig :: goerr where
  "badRuleConfig = NewError (Errorf ''rule_config must contain prom_ql and at least one valid trigger condition'') StatusBadRequest"

definition newAlertRule :: "CreateAlertRuleRequest \<Rightarrow> string \<Rightarrow> int \<Rightarrow> string \<Rightarrow> string \<Rightarrow> AlertRule" where
  "newAlertRule req ruleConfig duration labels createdBy = pixiu_model.extend newModel
     \<lparr>ar_Name = qr_Name req, ar_Description = qr_Description req, ar_RuleType = qr_RuleType req,
      ar_Duration = duration, ar_EvalInterval = NormalizeEvalInterval (qr_EvalInterval req), ar_NotifyRepeatStep = ResolveNotifyRepeatStep (qr_NotifyRepeatStep req),
      ar_NotifyMaxNumber = ResolveNotifyMaxNumber (qr_NotifyMaxNumber req), ar_ScopeType = qr_ScopeType req, ar_ScopeValue = qr_ScopeValue req,
      ar_NotifyChannels = qr_NotifyChannels req, ar_NotifyTemplate = qr_NotifyTemplate req, ar_RuleConfig = ruleConfig,
      ar_EnableDaysOfWeek = NormalizeEnableDaysOfWeek (qr_EnableDaysOfWeek req), ar_EnableStime = NormalizeEnableTime (qr_EnableStime req), ar_EnableEtime = NormalizeEnableTime (qr_EnableEtime req),
      ar_DatasourceId = qr_DatasourceId req, ar_Enabled = (case qr_Enabled req of None \<Rightarrow> True | Some b \<Rightarrow> b), ar_CreatedBy = createdBy,
      ar_Extension = qr_Extension req, ar_Labels = labels\<rparr>"

definition NormalizeLabelsJSON :: "string \<Rightarrow> goerr + string" where
  "NormalizeLabelsJSON raw = NormalizeJSON raw"

definition alertrulec_Create :: "context_user \<Rightarrow> CreateAlertRuleRequest \<Rightarrow> ('m alert_db_scheme, goerr, unit) act" where
  "alertrulec_Create ctx req = (case NormalizeRuleConfig (qr_RuleConfig req) of
       None \<Rightarrow> fail badRuleConfig
     | Some (normalizedConfig, _, normalizedDuration) \<Rightarrow> (case NormalizeLabelsJSON (qr_Labels req) of
         Inl err \<Rightarrow> fail (NewError err StatusBadRequest)
       | Inr labels \<Rightarrow> andThen (UserNameFromContext ctx) (\<lambda>createdBy.
           orInternal (alertRuleCreate (newAlertRule req normalizedConfig normalizedDuration labels createdBy)) (\<lambda>_. ret ()))))"

section \<open>Update\<close>

definition alertrulec_preUpdate :: "int \<Rightarrow> ('m alert_db_scheme, goerr, AlertRule) act" where
  "alertrulec_preUpdate ruleId = foundOr ''alert rule'' (alertRuleGet ruleId)"

definition ruleFieldUpdates :: "UpdateAlertRuleRequest \<Rightarrow> AlertRule updates" where
  "ruleFieldUpdates req =
     setField ''name'' ar_Name_update (ur_Name req) @
     setField ''description'' AlertRule.ar_Description_update (ur_Description req) @
     setField ''rule_type'' ar_RuleType_update (ur_RuleType req) @
     setField ''duration'' ar_Duration_update (ur_Duration req) @
     setField ''eval_interval'' ar_EvalInterval_update (map_option NormalizeEvalInterval (ur_EvalInterval req)) @
     setField ''notify_repeat_step'' ar_NotifyRepeatStep_update (map_option NormalizeNotifyRepeatStep (ur_NotifyRepeatStep req)) @
     setField ''notify_max_number'' ar_NotifyMaxNumber_update (map_option NormalizeNotifyMaxNumber (ur_NotifyMaxNumber req)) @
     setField ''scope_type'' ar_ScopeType_update (ur_ScopeType req) @
     setField ''scope_value'' ar_ScopeValue_update (ur_ScopeValue req) @
     setField ''notify_channels'' ar_NotifyChannels_update (ur_NotifyChannels req) @
     setField ''notify_template'' ar_NotifyTemplate_update (ur_NotifyTemplate req) @
     setField ''enable_days_of_week'' ar_EnableDaysOfWeek_update (map_option NormalizeEnableDaysOfWeek (ur_EnableDaysOfWeek req)) @
     setField ''enable_stime'' ar_EnableStime_update (map_option NormalizeEnableTime (ur_EnableStime req)) @
     setField ''enable_etime'' ar_EnableEtime_update (map_option NormalizeEnableTime (ur_EnableEtime req)) @
     setField ''datasource_id'' ar_DatasourceId_update (ur_DatasourceId req) @
     setField ''enabled'' ar_Enabled_update (ur_Enabled req) @
     setField ''extension'' ar_Extension_update (ur_Extension req)"

text \<open>The updates of a request, or the error that refuses it.\<close>

definition ruleUpdates :: "UpdateAlertRuleRequest \<Rightarrow> goerr + AlertRule updates" where
  "ruleUpdates req = (case (case ur_Labels req of None \<Rightarrow> Inr [] | Some raw \<Rightarrow>
         (case NormalizeLabelsJSON raw of Inl err \<Rightarrow> Inl (NewError err StatusBadRequest) | Inr labels \<Rightarrow> Inr (setField ''labels'' ar_Labels_update (Some labels)))) of
       Inl err \<Rightarrow> Inl err
     | Inr labels \<Rightarrow> (case ur_RuleConfig req of
         None \<Rightarrow> Inr (ruleFieldUpdates req @ labels)
       | Some ruleConfig \<Rightarrow> (case NormalizeRuleConfig ruleConfig of
           None \<Rightarrow> Inl badRuleConfig
         | Some (normalizedConfig, _, normalizedDuration) \<Rightarrow> Inr (ruleFieldUpdates req @ labels @
             setField ''rule_config'' ar_RuleConfig_update (Some normalizedConfig) @
             (if ur_Duration req = None then setField ''duration'' ar_Duration_update (Some normalizedDuration) else [])))))"

text \<open>Each firing event of the rule is marked as recovered and each pending notification as failed; a row
  whose update fails is passed over.\<close>

definition recoverFiring :: "AlertEvent \<Rightarrow> ('m alert_db_scheme, goerr, unit) act" where
  "recoverFiring e = ignoring (alertEventUpdate (Oid e) (ResourceVersion e) [(''status'', ae_Status_update (\<lambda>_. AlertEventStatusRecovered))])"

definition cancelPending :: "AlertNotification \<Rightarrow> ('m alert_db_scheme, goerr, unit) act" where
  "cancelPending n = (if an_Status n \<noteq> AlertNotificationStatusPending then ret ()
     else ignoring (alertNotificationUpdate (Oid n) (ResourceVersion n) [(''status'', an_Status_update (\<lambda>_. AlertNotificationStatusFailed))]))"

definition cleanupOnDisable :: "int \<Rightarrow> ('m alert_db_scheme, goerr, unit) act" where
  "cleanupOnDisable ruleId =
     onResult (alertEventList [WithAlertRuleId ae_RuleId ruleId, WithAlertEventStatus ae_Status AlertEventStatusFiring])
       (\<lambda>err. fail (Wrapf ''list firing events'' err)) (\<lambda>events.
     andThen (forEach recoverFiring events) (\<lambda>_.
     onResult (alertNotificationList [WithAlertRuleId an_RuleId ruleId]) (\<lambda>err. fail (Wrapf ''list pending notifications'' err))
       (forEach cancelPending)))"

definition alertrulec_Update :: "int \<Rightarrow> UpdateAlertRuleRequest \<Rightarrow> ('m alert_db_scheme, goerr, unit) act" where
  "alertrulec_Update ruleId req = andThen (alertrulec_preUpdate ruleId) (\<lambda>current. orFail (ruleUpdates req) (\<lambda>updates.
     if updates = [] then fail noFields
     else andThen (if ur_Enabled req = Some False then ignoring (cleanupOnDisable ruleId) else ret ()) (\<lambda>_.
       writeOr ''alert rule'' (alertRuleUpdate ruleId (ur_ResourceVersion req) updates))))"

definition alertrulec_Delete :: "int \<Rightarrow> ('m alert_db_scheme, goerr, unit) act" where
  "alertrulec_Delete ruleId = writeOr ''alert rule'' (alertRuleDelete ruleId)"

section \<open>Get and List\<close>

definition ruleModelToType :: "AlertRule \<Rightarrow> types_AlertRule" where
  "ruleModelToType o1 = \<lparr>xr_Id = Oid o1, xr_ResourceVersion = ResourceVersion o1, xr_GmtCreate = GmtCreate o1, xr_GmtModified = GmtModified o1,
     xr_Name = ar_Name o1, xr_Description = AlertRule.ar_Description o1, xr_RuleType = ar_RuleType o1, xr_Duration = ar_Duration o1,
     xr_EvalInterval = NormalizeEvalInterval (ar_EvalInterval o1), xr_NotifyRepeatStep = NormalizeNotifyRepeatStep (ar_NotifyRepeatStep o1), xr_NotifyMaxNumber = NormalizeNotifyMaxNumber (ar_NotifyMaxNumber o1), xr_ScopeType = ar_ScopeType o1,
     xr_ScopeValue = ar_ScopeValue o1, xr_NotifyChannels = ar_NotifyChannels o1, xr_NotifyTemplate = ar_NotifyTemplate o1, xr_RuleConfig = ar_RuleConfig o1,
     xr_EnableDaysOfWeek = ar_EnableDaysOfWeek o1, xr_EnableStime = NormalizeEnableTime (ar_EnableStime o1), xr_EnableEtime = NormalizeEnableTime (ar_EnableEtime o1), xr_DatasourceId = ar_DatasourceId o1,
     xr_Enabled = ar_Enabled o1, xr_CreatedBy = ar_CreatedBy o1, xr_Extension = ar_Extension o1, xr_Labels = ar_Labels o1\<rparr>"

definition alertrulec_Get :: "int \<Rightarrow> ('m alert_db_scheme, goerr, types_AlertRule) act" where
  "alertrulec_Get ruleId = andThen (foundOr ''alert rule'' (alertRuleGet ruleId)) (\<lambda>object. ret (ruleModelToType object))"

text \<open>A rule has no severity: with one in the request both statements name a column the table lacks.\<close>

definition unknownColumn :: "('m env_scheme, goerr, 'a) act" where
  "unknownColumn = stmt (\<lambda>w. (Inl (MySQLError 1054), w))"

definition alertrulec_List :: "(goerr \<Rightarrow> string) \<Rightarrow> ListOptions \<Rightarrow> ('m alert_db_scheme, goerr, types_AlertRule MessagePage) act" where
  "alertrulec_List errText listOption = (let lo = SetDefaultPageOption listOption; opts = [WithNameLike ar_Name (lo_NameSelector lo)] in
     if lo_Severity lo \<noteq> 0 then pageOf errText lo unknownColumn unknownColumn ruleModelToType
     else pageOf errText lo (alertRuleCount opts) (alertRuleList (opts @ pageOptions lo)) ruleModelToType)"

section \<open>The export file\<close>

definition alertRuleExportAPIVersion :: string where "alertRuleExportAPIVersion = ''pixiu.io/v1''"
definition alertRuleExportKind :: string where "alertRuleExportKind = ''AlertRuleList''"

record AlertRuleExportItem = CreateAlertRuleRequest +
  ei_DatasourceName :: string
  ei_NotifyChannelNames :: string

record AlertRuleExportFile =
  ef_APIVersion :: string
  ef_Kind :: string
  ef_Items :: "AlertRuleExportItem list"

record ImportAlertRulesResult =
  ir_Created :: nat
  ir_Skipped :: nat
  ir_Failed :: nat
  ir_Errors :: "string list"
  ir_Warnings :: "string list"

definition splitAndTrim :: "string \<Rightarrow> char \<Rightarrow> string list" where
  "splitAndTrim s sep = filter (\<lambda>p. p \<noteq> []) (map TrimSpace (Split s sep))"

definition ruleNotifyChannelIDs :: "string \<Rightarrow> int list" where
  "ruleNotifyChannelIDs raw = concat (map (\<lambda>part. case ParseInt (TrimSpace part) of None \<Rightarrow> [] | Some i \<Rightarrow> if i \<le> 0 then [] else [i]) (Split raw CHR '',''))"

definition intPtr :: "int option \<Rightarrow> json" where
  "intPtr x = (case x of None \<Rightarrow> JNull | Some n \<Rightarrow> JNum (FormatInt n))"

definition exportItemJson :: "AlertRuleExportItem \<Rightarrow> json" where
  "exportItemJson i = JObj (member ''name'' (JStr (qr_Name i)) @
      member ''description'' (JStr (qr_Description i)) @
      member ''rule_type'' (JNum (FormatInt (qr_RuleType i))) @
      member ''duration'' (JNum (FormatInt (qr_Duration i))) @
      member ''eval_interval'' (JNum (FormatInt (qr_EvalInterval i))) @
      member ''notify_repeat_step'' (intPtr (qr_NotifyRepeatStep i)) @
      member ''notify_max_number'' (intPtr (qr_NotifyMaxNumber i)) @
      member ''scope_type'' (JNum (FormatInt (qr_ScopeType i))) @
      member ''scope_value'' (JStr (qr_ScopeValue i)) @
      member ''notify_channels'' (JStr (qr_NotifyChannels i)) @
      member ''notify_template'' (JStr (qr_NotifyTemplate i)) @
      member ''rule_config'' (JStr (qr_RuleConfig i)) @
      member ''enable_days_of_week'' (JStr (qr_EnableDaysOfWeek i)) @
      member ''enable_stime'' (JStr (qr_EnableStime i)) @
      member ''enable_etime'' (JStr (qr_EnableEtime i)) @
      member ''datasource_id'' (JNum (FormatInt (qr_DatasourceId i))) @
      member ''enabled'' ((case qr_Enabled i of None \<Rightarrow> JNull | Some b \<Rightarrow> JBool b)) @
      member ''extension'' (JStr (qr_Extension i)) @
      member ''labels'' (JStr (qr_Labels i)) @
     strMember ''datasource_name'' (ei_DatasourceName i) @ strMember ''notify_channel_names'' (ei_NotifyChannelNames i))"

definition exportFileJson :: "AlertRuleExportFile \<Rightarrow> json" where
  "exportFileJson f = JObj [(''apiVersion'', JStr (ef_APIVersion f)), (''kind'', JStr (ef_Kind f)), (''items'', JArr (map exportItemJson (ef_Items f)))]"

definition fldsExportItem :: "(string \<times> AlertRuleExportItem decoder) list" where
  "fldsExportItem = [(''name'', field qr_Name (\<lambda>x. qr_Name_update (\<lambda>_. x)) decString), (''description'', field qr_Description (\<lambda>x. qr_Description_update (\<lambda>_. x)) decString),
      (''rule_type'', field qr_RuleType (\<lambda>x. qr_RuleType_update (\<lambda>_. x)) decInt), (''duration'', field qr_Duration (\<lambda>x. qr_Duration_update (\<lambda>_. x)) decInt),
      (''eval_interval'', field qr_EvalInterval (\<lambda>x. qr_EvalInterval_update (\<lambda>_. x)) decInt), (''notify_repeat_step'', field qr_NotifyRepeatStep (\<lambda>x. qr_NotifyRepeatStep_update (\<lambda>_. x)) (decPtr decInt 0)),
      (''notify_max_number'', field qr_NotifyMaxNumber (\<lambda>x. qr_NotifyMaxNumber_update (\<lambda>_. x)) (decPtr decInt 0)), (''scope_type'', field qr_ScopeType (\<lambda>x. qr_ScopeType_update (\<lambda>_. x)) decInt),
      (''scope_value'', field qr_ScopeValue (\<lambda>x. qr_ScopeValue_update (\<lambda>_. x)) decString), (''notify_channels'', field qr_NotifyChannels (\<lambda>x. qr_NotifyChannels_update (\<lambda>_. x)) decString),
      (''notify_template'', field qr_NotifyTemplate (\<lambda>x. qr_NotifyTemplate_update (\<lambda>_. x)) decString), (''rule_config'', field qr_RuleConfig (\<lambda>x. qr_RuleConfig_update (\<lambda>_. x)) decString),
      (''enable_days_of_week'', field qr_EnableDaysOfWeek (\<lambda>x. qr_EnableDaysOfWeek_update (\<lambda>_. x)) decString), (''enable_stime'', field qr_EnableStime (\<lambda>x. qr_EnableStime_update (\<lambda>_. x)) decString),
      (''enable_etime'', field qr_EnableEtime (\<lambda>x. qr_EnableEtime_update (\<lambda>_. x)) decString), (''datasource_id'', field qr_DatasourceId (\<lambda>x. qr_DatasourceId_update (\<lambda>_. x)) decInt),
      (''enabled'', field qr_Enabled (\<lambda>x. qr_Enabled_update (\<lambda>_. x)) (decPtr decBool False)), (''extension'', field qr_Extension (\<lambda>x. qr_Extension_update (\<lambda>_. x)) decString),
      (''labels'', field qr_Labels (\<lambda>x. qr_Labels_update (\<lambda>_. x)) decString),
      (''datasource_name'', field ei_DatasourceName (\<lambda>x. ei_DatasourceName_update (\<lambda>_. x)) decString),
      (''notify_channel_names'', field ei_NotifyChannelNames (\<lambda>x. ei_NotifyChannelNames_update (\<lambda>_. x)) decString)]"

definition decExportItem :: "AlertRuleExportItem decoder" where
  "decExportItem = decStruct fldsExportItem"

definition zeroExportItem :: AlertRuleExportItem where
  "zeroExportItem = \<lparr>qr_Name = [], qr_Description = [], qr_RuleType = 0, qr_Duration = 0, qr_EvalInterval = 0, qr_NotifyRepeatStep = None,
     qr_NotifyMaxNumber = None, qr_ScopeType = 0, qr_ScopeValue = [], qr_NotifyChannels = [], qr_NotifyTemplate = [], qr_RuleConfig = [],
     qr_EnableDaysOfWeek = [], qr_EnableStime = [], qr_EnableEtime = [], qr_DatasourceId = 0, qr_Enabled = None, qr_Extension = [],
     qr_Labels = [], ei_DatasourceName = [], ei_NotifyChannelNames = []\<rparr>"

definition decExportFile :: "AlertRuleExportFile decoder" where
  "decExportFile = decStruct [(''apiversion'', field ef_APIVersion (\<lambda>x. ef_APIVersion_update (\<lambda>_. x)) decString),
     (''kind'', field ef_Kind (\<lambda>x. ef_Kind_update (\<lambda>_. x)) decString),
     (''items'', field ef_Items (\<lambda>x. ef_Items_update (\<lambda>_. x)) (decSlice decExportItem zeroExportItem))]"

definition zeroExportFile :: AlertRuleExportFile where
  "zeroExportFile = \<lparr>ef_APIVersion = [], ef_Kind = [], ef_Items = []\<rparr>"

definition parseAlertRuleImportPayload :: "string \<Rightarrow> goerr + AlertRuleExportItem list" where
  "parseAlertRuleImportPayload data = (case unmarshalWith decExportFile data zeroExportFile of
       None \<Rightarrow> Inl (Errorf ''invalid alert rule import json'')
     | Some file \<Rightarrow> if ef_Kind file \<noteq> [] \<and> ef_Kind file \<noteq> alertRuleExportKind then Inl (Errorf ''unsupported kind'') else Inr (ef_Items file))"

section \<open>Export\<close>

text \<open>The maps of the batch lookups, filled in the order of the rows.\<close>

definition nameMap :: "('r \<Rightarrow> 'k) \<Rightarrow> ('r \<Rightarrow> 'v) \<Rightarrow> 'r list \<Rightarrow> 'k \<rightharpoonup> 'v" where
  "nameMap key val rs = foldl (\<lambda>m r. m(key r \<mapsto> val r)) Map.empty rs"

definition exportItem :: "AlertRule \<Rightarrow> string \<Rightarrow> string \<Rightarrow> AlertRuleExportItem" where
  "exportItem o1 datasourceName channelNames = \<lparr>qr_Name = ar_Name o1, qr_Description = AlertRule.ar_Description o1, qr_RuleType = ar_RuleType o1,
     qr_Duration = ar_Duration o1, qr_EvalInterval = NormalizeEvalInterval (ar_EvalInterval o1), qr_NotifyRepeatStep = Some (NormalizeNotifyRepeatStep (ar_NotifyRepeatStep o1)),
     qr_NotifyMaxNumber = Some (NormalizeNotifyMaxNumber (ar_NotifyMaxNumber o1)), qr_ScopeType = ar_ScopeType o1, qr_ScopeValue = ar_ScopeValue o1,
     qr_NotifyChannels = ar_NotifyChannels o1, qr_NotifyTemplate = ar_NotifyTemplate o1, qr_RuleConfig = ar_RuleConfig o1,
     qr_EnableDaysOfWeek = ar_EnableDaysOfWeek o1, qr_EnableStime = NormalizeEnableTime (ar_EnableStime o1), qr_EnableEtime = NormalizeEnableTime (ar_EnableEtime o1),
     qr_DatasourceId = ar_DatasourceId o1, qr_Enabled = Some (ar_Enabled o1), qr_Extension = ar_Extension o1,
     qr_Labels = ar_Labels o1, ei_DatasourceName = datasourceName, ei_NotifyChannelNames = channelNames\<rparr>"

definition lookupAll :: "('k \<rightharpoonup> 'v) \<Rightarrow> 'k list \<Rightarrow> 'v list option" where
  "lookupAll m ks = those (map m ks)"

definition modelToExportItem :: "AlertRule \<Rightarrow> (int \<rightharpoonup> string) \<Rightarrow> (int \<rightharpoonup> string) \<Rightarrow> goerr + AlertRuleExportItem" where
  "modelToExportItem o1 dsNameByID chNameByID =
     (case (if ar_DatasourceId o1 > 0 then dsNameByID (ar_DatasourceId o1) else Some []) of
        None \<Rightarrow> Inl (Errorf ''datasource not found'')
      | Some datasourceName \<Rightarrow> (case lookupAll chNameByID (ruleNotifyChannelIDs (ar_NotifyChannels o1)) of
          None \<Rightarrow> Inl (Errorf ''channel not found'')
        | Some names \<Rightarrow> Inr (exportItem o1 datasourceName (Join names '',''))))"

text \<open>A lookup that fails leaves its map empty; without ids it is not made.\<close>

definition lookupNames :: "bool \<Rightarrow> ('w, goerr, 'r list) act \<Rightarrow> ('r \<Rightarrow> 'k) \<Rightarrow> ('r \<Rightarrow> 'v) \<Rightarrow> ('w, goerr, 'k \<rightharpoonup> 'v) act" where
  "lookupNames wanted m key val = (if \<not> wanted then ret Map.empty else onResult m (\<lambda>_. ret Map.empty) (\<lambda>rs. ret (nameMap key val rs)))"

fun exportItems :: "(int \<rightharpoonup> string) \<Rightarrow> (int \<rightharpoonup> string) \<Rightarrow> AlertRule list \<Rightarrow> goerr + AlertRuleExportItem list" where
  "exportItems ds ch [] = Inr []"
| "exportItems ds ch (r # rs) = (case modelToExportItem r ds ch of
      Inl err \<Rightarrow> Inl (NewError (Wrapf ''failed to export rule'' err) StatusInternalServerError)
    | Inr i \<Rightarrow> (case exportItems ds ch rs of Inl err \<Rightarrow> Inl err | Inr is \<Rightarrow> Inr (i # is)))"

definition exportFile :: "AlertRuleExportItem list \<Rightarrow> AlertRuleExportFile" where
  "exportFile items = \<lparr>ef_APIVersion = alertRuleExportAPIVersion, ef_Kind = alertRuleExportKind, ef_Items = items\<rparr>"

definition alertrulec_Export :: "int list \<Rightarrow> ('m datasource_db_scheme, goerr, string) act" where
  "alertrulec_Export ids = (if ids = [] then fail (NewError (Errorf ''ids is required'') StatusBadRequest)
     else orInternal (alertRuleList [WithIDIn ids]) (\<lambda>objects.
       if objects = [] then fail (NewError (Errorf ''no alert rules found for export'') StatusNotFound)
       else (let dsIDs = filter (\<lambda>d. d > 0) (map ar_DatasourceId objects);
                 channelIDs = concat (map (\<lambda>r. ruleNotifyChannelIDs (ar_NotifyChannels r)) objects)
         in andThen (lookupNames (dsIDs \<noteq> []) (datasourceList [WithIDIn dsIDs]) Oid ds_Name) (\<lambda>dsNameByID.
            andThen (lookupNames (channelIDs \<noteq> []) (alertChannelList [WithIDIn channelIDs]) Oid ac_Name) (\<lambda>chNameByID.
              orFail (exportItems dsNameByID chNameByID objects) (\<lambda>items.
                ret (jsonIndent 0 (exportFileJson (exportFile items)))))))))"

section \<open>Import\<close>

fun channelIDs :: "(string \<rightharpoonup> int) \<Rightarrow> string list \<Rightarrow> goerr + int list" where
  "channelIDs ch [] = Inr []"
| "channelIDs ch (n # ns) = (case ch n of
      None \<Rightarrow> Inl (Errorf (''channel '' @ n @ '' not found in target system''))
    | Some i \<Rightarrow> (case channelIDs ch ns of Inl err \<Rightarrow> Inl err | Inr is \<Rightarrow> Inr (i # is)))"

definition resolveImportIDs :: "AlertRuleExportItem \<Rightarrow> (string \<rightharpoonup> int) \<Rightarrow> (string \<rightharpoonup> int) \<Rightarrow> goerr + AlertRuleExportItem" where
  "resolveImportIDs item ds ch =
     (case (if ei_DatasourceName item = [] then Inr item else (case ds (ei_DatasourceName item) of
         None \<Rightarrow> Inl (Errorf (''datasource '' @ ei_DatasourceName item @ '' not found in target system''))
       | Some i \<Rightarrow> Inr (item\<lparr>qr_DatasourceId := i\<rparr>))) of
        Inl err \<Rightarrow> Inl err
      | Inr item1 \<Rightarrow> if ei_NotifyChannelNames item1 = [] then Inr item1
          else (case channelIDs ch (splitAndTrim (ei_NotifyChannelNames item1) CHR '','') of
            Inl err \<Rightarrow> Inl err
          | Inr ids \<Rightarrow> Inr (item1\<lparr>qr_NotifyChannels := Join (map FormatInt ids) '',''\<rparr>)))"

definition importFailed :: "string \<Rightarrow> string \<Rightarrow> ImportAlertRulesResult \<Rightarrow> ImportAlertRulesResult" where
  "importFailed name text result = result\<lparr>ir_Failed := Suc (ir_Failed result), ir_Errors := ir_Errors result @ [name @ '': '' @ text]\<rparr>"

text \<open>The items in turn, counted from \<open>i\<close>. The names seen are those from before the import.\<close>

fun importItems :: "(goerr \<Rightarrow> string) \<Rightarrow> context_user \<Rightarrow> string set \<Rightarrow> (string \<rightharpoonup> int) \<Rightarrow> (string \<rightharpoonup> int) \<Rightarrow> nat \<Rightarrow> ImportAlertRulesResult \<Rightarrow> AlertRuleExportItem list \<Rightarrow>
    ('m alert_db_scheme, goerr, ImportAlertRulesResult) act" where
  "importItems errText ctx existing ds ch i result [] = ret result"
| "importItems errText ctx existing ds ch i result (item # items) =
     (let go = (\<lambda>r. importItems errText ctx existing ds ch (Suc i) r items) in
      if qr_Name item \<in> existing then go (result\<lparr>ir_Skipped := Suc (ir_Skipped result)\<rparr>)
      else (case resolveImportIDs item ds ch of
          Inl err \<Rightarrow> go (importFailed (qr_Name item) (errText err) result)
        | Inr item1 \<Rightarrow> onResult (alertrulec_Create ctx (CreateAlertRuleRequest.truncate item1))
            (\<lambda>err. go (importFailed (if qr_Name item1 = [] then ''#'' @ FormatInt (int i + 1) else qr_Name item1) (errText err) result))
            (\<lambda>_. go (result\<lparr>ir_Created := Suc (ir_Created result)\<rparr>))))"

definition alertrulec_Import :: "(goerr \<Rightarrow> string) \<Rightarrow> context_user \<Rightarrow> string \<Rightarrow> ('m datasource_db_scheme, goerr, ImportAlertRulesResult) act" where
  "alertrulec_Import errText ctx data = (case parseAlertRuleImportPayload data of
       Inl err \<Rightarrow> fail (NewError err StatusBadRequest)
     | Inr items \<Rightarrow> if items = [] then fail (NewError (Errorf ''import file contains no alert rules'') StatusBadRequest)
         else andThen (onResult (alertRuleList []) (\<lambda>_. ret {}) (\<lambda>rs. ret (set (map ar_Name rs)))) (\<lambda>existing.
           andThen (lookupNames True (datasourceList []) ds_Name Oid) (\<lambda>ds.
           andThen (lookupNames True (alertChannelList []) ac_Name Oid) (\<lambda>ch.
             importItems errText ctx existing ds ch 0 \<lparr>ir_Created = 0, ir_Skipped = 0, ir_Failed = 0, ir_Errors = [], ir_Warnings = []\<rparr> items))))"

end
