(* ===== verification/AlertRuleFiles.thy ===== *)
theory AlertRuleFiles
  imports AlertRuleController PlanSpecs EventLife AlertRuleProps
begin

text \<open>
  What the alert rule controller guarantees: importing the file of an export creates the rules that were
  exported, with the data sources and channels of the same names; a second import of one file
  creates nothing; a rule that is disabled leaves no firing event and no pending notification; a stored
  rule can be evaluated.
\<close>

section \<open>The items of a file\<close>

lemma fieldDecoder_map_of: "fieldDecoder flds k = map_of flds (foldName k)"
  by (induction flds) (auto simp: fieldDecoder_def)

lemma foldName_items:
  "foldName ''name'' = ''name''"
  "foldName ''description'' = ''description''"
  "foldName ''rule_type'' = ''rule_type''"
  "foldName ''duration'' = ''duration''"
  "foldName ''eval_interval'' = ''eval_interval''"
  "foldName ''notify_repeat_step'' = ''notify_repeat_step''"
  "foldName ''notify_max_number'' = ''notify_max_number''"
  "foldName ''scope_type'' = ''scope_type''"
  "foldName ''scope_value'' = ''scope_value''"
  "foldName ''notify_channels'' = ''notify_channels''"
  "foldName ''notify_template'' = ''notify_template''"
  "foldName ''rule_config'' = ''rule_config''"
  "foldName ''enable_days_of_week'' = ''enable_days_of_week''"
  "foldName ''enable_stime'' = ''enable_stime''"
  "foldName ''enable_etime'' = ''enable_etime''"
  "foldName ''datasource_id'' = ''datasource_id''"
  "foldName ''enabled'' = ''enabled''"
  "foldName ''extension'' = ''extension''"
  "foldName ''labels'' = ''labels''"
  "foldName ''datasource_name'' = ''datasource_name''"
  "foldName ''notify_channel_names'' = ''notify_channel_names''"
  "foldName ''kind'' = ''kind''"
  "foldName ''items'' = ''items''"
  by (rule foldName_lower, simp add: byteOf_def)+

lemma validUTF8_items:
  "validUTF8 ''name''"
  "validUTF8 ''description''"
  "validUTF8 ''rule_type''"
  "validUTF8 ''duration''"
  "validUTF8 ''eval_interval''"
  "validUTF8 ''notify_repeat_step''"
  "validUTF8 ''notify_max_number''"
  "validUTF8 ''scope_type''"
  "validUTF8 ''scope_value''"
  "validUTF8 ''notify_channels''"
  "validUTF8 ''notify_template''"
  "validUTF8 ''rule_config''"
  "validUTF8 ''enable_days_of_week''"
  "validUTF8 ''enable_stime''"
  "validUTF8 ''enable_etime''"
  "validUTF8 ''datasource_id''"
  "validUTF8 ''enabled''"
  "validUTF8 ''extension''"
  "validUTF8 ''labels''"
  "validUTF8 ''datasource_name''"
  "validUTF8 ''notify_channel_names''"
  "validUTF8 ''apiVersion''"
  "validUTF8 ''kind''"
  "validUTF8 ''items''"
  by (simp_all add: validUTF8_ascii byteOf_def del: validUTF8.simps(2))

lemma exportItem_fields:
  "fieldDecoder fldsExportItem ''name'' = Some (field qr_Name (\<lambda>x. qr_Name_update (\<lambda>_. x)) decString)"
  "fieldDecoder fldsExportItem ''description'' = Some (field qr_Description (\<lambda>x. qr_Description_update (\<lambda>_. x)) decString)"
  "fieldDecoder fldsExportItem ''rule_type'' = Some (field qr_RuleType (\<lambda>x. qr_RuleType_update (\<lambda>_. x)) decInt)"
  "fieldDecoder fldsExportItem ''duration'' = Some (field qr_Duration (\<lambda>x. qr_Duration_update (\<lambda>_. x)) decInt)"
  "fieldDecoder fldsExportItem ''eval_interval'' = Some (field qr_EvalInterval (\<lambda>x. qr_EvalInterval_update (\<lambda>_. x)) decInt)"
  "fieldDecoder fldsExportItem ''notify_repeat_step'' = Some (field qr_NotifyRepeatStep (\<lambda>x. qr_NotifyRepeatStep_update (\<lambda>_. x)) (decPtr decInt 0))"
  "fieldDecoder fldsExportItem ''notify_max_number'' = Some (field qr_NotifyMaxNumber (\<lambda>x. qr_NotifyMaxNumber_update (\<lambda>_. x)) (decPtr decInt 0))"
  "fieldDecoder fldsExportItem ''scope_type'' = Some (field qr_ScopeType (\<lambda>x. qr_ScopeType_update (\<lambda>_. x)) decInt)"
  "fieldDecoder fldsExportItem ''scope_value'' = Some (field qr_ScopeValue (\<lambda>x. qr_ScopeValue_update (\<lambda>_. x)) decString)"
  "fieldDecoder fldsExportItem ''notify_channels'' = Some (field qr_NotifyChannels (\<lambda>x. qr_NotifyChannels_update (\<lambda>_. x)) decString)"
  "fieldDecoder fldsExportItem ''notify_template'' = Some (field qr_NotifyTemplate (\<lambda>x. qr_NotifyTemplate_update (\<lambda>_. x)) decString)"
  "fieldDecoder fldsExportItem ''rule_config'' = Some (field qr_RuleConfig (\<lambda>x. qr_RuleConfig_update (\<lambda>_. x)) decString)"
  "fieldDecoder fldsExportItem ''enable_days_of_week'' = Some (field qr_EnableDaysOfWeek (\<lambda>x. qr_EnableDaysOfWeek_update (\<lambda>_. x)) decString)"
  "fieldDecoder fldsExportItem ''enable_stime'' = Some (field qr_EnableStime (\<lambda>x. qr_EnableStime_update (\<lambda>_. x)) decString)"
  "fieldDecoder fldsExportItem ''enable_etime'' = Some (field qr_EnableEtime (\<lambda>x. qr_EnableEtime_update (\<lambda>_. x)) decString)"
  "fieldDecoder fldsExportItem ''datasource_id'' = Some (field qr_DatasourceId (\<lambda>x. qr_DatasourceId_update (\<lambda>_. x)) decInt)"
  "fieldDecoder fldsExportItem ''enabled'' = Some (field qr_Enabled (\<lambda>x. qr_Enabled_update (\<lambda>_. x)) (decPtr decBool False))"
  "fieldDecoder fldsExportItem ''extension'' = Some (field qr_Extension (\<lambda>x. qr_Extension_update (\<lambda>_. x)) decString)"
  "fieldDecoder fldsExportItem ''labels'' = Some (field qr_Labels (\<lambda>x. qr_Labels_update (\<lambda>_. x)) decString)"
  "fieldDecoder fldsExportItem ''datasource_name'' = Some (field ei_DatasourceName (\<lambda>x. ei_DatasourceName_update (\<lambda>_. x)) decString)"
  "fieldDecoder fldsExportItem ''notify_channel_names'' = Some (field ei_NotifyChannelNames (\<lambda>x. ei_NotifyChannelNames_update (\<lambda>_. x)) decString)"
  by (simp_all add: fieldDecoder_map_of foldName_items fldsExportItem_def del: foldName.simps)

definition itemOK :: "AlertRuleExportItem \<Rightarrow> bool" where
  "itemOK i \<longleftrightarrow> validUTF8 (qr_Name i) \<and> validUTF8 (qr_Description i) \<and> validUTF8 (qr_ScopeValue i) \<and> validUTF8 (qr_NotifyChannels i) \<and> validUTF8 (qr_NotifyTemplate i) \<and> validUTF8 (qr_RuleConfig i) \<and> validUTF8 (qr_EnableDaysOfWeek i) \<and> validUTF8 (qr_EnableStime i) \<and> validUTF8 (qr_EnableEtime i) \<and> validUTF8 (qr_Extension i) \<and> validUTF8 (qr_Labels i) \<and> validUTF8 (ei_DatasourceName i) \<and> validUTF8 (ei_NotifyChannelNames i) \<and> int64 (qr_RuleType i) \<and> int64 (qr_Duration i) \<and> int64 (qr_EvalInterval i) \<and> int64 (qr_ScopeType i) \<and> int64 (qr_DatasourceId i) \<and> pred_option int64 (qr_NotifyRepeatStep i) \<and> pred_option int64 (qr_NotifyMaxNumber i)"

lemma dec_strMember: "fieldDecoder flds name = Some (field get upd decString) \<Longrightarrow> (s = [] \<Longrightarrow> upd s old = old) \<Longrightarrow>
    decStruct flds (JObj (strMember name s)) old = (upd s old, True)"
  by (auto simp: strMember_def field_def simp del: decStruct.simps)

lemma dec_intPtr: "pred_option int64 x \<Longrightarrow> decPtr decInt 0 (intPtr x) None = (x, True)"
  by (cases x) (simp_all add: intPtr_def decPtr_def ParseInt_FormatInt)

lemma dec_boolPtr: "decPtr decBool False (case x of None \<Rightarrow> JNull | Some b \<Rightarrow> JBool b) None = (x, True)"
  by (cases x) (simp_all add: decPtr_def)

lemma decExportItem_back: "itemOK i \<Longrightarrow> decExportItem (exportItemJson i) zeroExportItem = (i, True)"
  unfolding decExportItem_def exportItemJson_def itemOK_def
  by (cases i) (simp add: decStruct_append exportItem_fields [THEN decStruct_member] dec_strMember [OF exportItem_fields(20)] dec_strMember [OF exportItem_fields(21)]
      field_def dec_intPtr dec_boolPtr ParseInt_FormatInt zeroExportItem_def del: decStruct.simps)

lemma decExportItems_back: "\<forall>i \<in> set is. itemOK i \<Longrightarrow> decElements decExportItem zeroExportItem (map exportItemJson is) [] = (is, True)"
  by (induction "is") (simp_all add: decExportItem_back)

lemma printable_intPtr: "printable n (intPtr x)"
  by (auto simp: intPtr_def printable_def split: option.split)

lemma printable_boolPtr: "printable n (case x of None \<Rightarrow> JNull | Some b \<Rightarrow> JBool b)"
  by (simp add: printable_def split: option.split)

lemma members_strMember: "validUTF8 name \<Longrightarrow> validUTF8 s \<Longrightarrow> members n (strMember name s)"
  by (simp add: strMember_def)

lemma printable_exportItem: "itemOK i \<Longrightarrow> printable 1 (exportItemJson i)"
  unfolding exportItemJson_def itemOK_def One_nat_def
  by (intro printable_JObj) (simp add: members_strMember validUTF8_items printable_intPtr printable_boolPtr del: validUTF8.simps)

lemma printable_items: "\<forall>j \<in> set js. printable n j \<Longrightarrow> printable (Suc n) (JArr js)"
proof -
  assume p: "\<forall>j \<in> set js. printable n j"
  have "foldr (max \<circ> depthJson) js 0 \<le> n" using p by (induction js) (auto simp: printable_def)
  with p show ?thesis by (auto simp: printable_def)
qed

lemma printable_exportFile: "\<forall>i \<in> set items. itemOK i \<Longrightarrow> printable 3 (exportFileJson (exportFile items))"
proof -
  assume ok: "\<forall>i \<in> set items. itemOK i"
  then have "printable 2 (JArr (map exportItemJson items))"
    using printable_items [of "map exportItemJson items" 1] by (simp add: printable_exportItem numeral_2_eq_2 del: One_nat_def)
  then show ?thesis
    using printable_JObj [of 2 "[(''apiVersion'', JStr alertRuleExportAPIVersion), (''kind'', JStr alertRuleExportKind), (''items'', JArr (map exportItemJson items))]"]
    by (simp add: exportFileJson_def exportFile_def members_def validUTF8_items alertRuleExportAPIVersion_def alertRuleExportKind_def validUTF8_ascii byteOf_def
        numeral_3_eq_3 numeral_2_eq_2 del: validUTF8.simps(2))
qed

lemma foldName_ascii: "byteOf c < 0x80 \<Longrightarrow> foldName (c # cs) = toLowerChar c # foldName cs"
  by (auto simp: HasPrefix_def utf8_def utf8Char_def byteOf_def)

lemma foldName_apiVersion: "foldName ''apiVersion'' = ''apiversion''"
proof -
  have "toLowerChar (CHR ''V'') = CHR ''v''" by (code_simp)
  then show ?thesis by (simp add: foldName_ascii byteOf_def toLowerChar_fixed del: foldName.simps(2))
qed

lemma exportFile_fields:
  "fieldDecoder [(''apiversion'', a), (''kind'', b), (''items'', c)] ''apiVersion'' = Some a"
  "fieldDecoder [(''apiversion'', a), (''kind'', b), (''items'', c)] ''kind'' = Some b"
  "fieldDecoder [(''apiversion'', a), (''kind'', b), (''items'', c)] ''items'' = Some c"
  by (simp_all add: fieldDecoder_map_of foldName_items foldName_apiVersion del: foldName.simps)

lemma decExportFile_back: "\<forall>i \<in> set items. itemOK i \<Longrightarrow> decExportFile (exportFileJson (exportFile items)) zeroExportFile = (exportFile items, True)"
  by (simp add: decExportFile_def exportFileJson_def exportFile_def exportFile_fields zeroExportFile_def field_def decExportItems_back)

lemma file_roundtrip: "\<forall>i \<in> set items. itemOK i \<Longrightarrow> parseAlertRuleImportPayload (jsonIndent 0 (exportFileJson (exportFile items))) = Inr items"
proof -
  assume ok: "\<forall>i \<in> set items. itemOK i"
  from printable_exportFile [OF ok] have "jsonParse (jsonIndent 0 (exportFileJson (exportFile items))) = Some (exportFileJson (exportFile items))"
    by (intro jsonParse_jsonIndent) (simp_all add: printable_def maxNestingDepth_def)
  then show ?thesis
    by (simp add: parseAlertRuleImportPayload_def unmarshalWith_def decExportFile_back [OF ok]) (simp add: exportFile_def)
qed

section \<open>Names and ids\<close>

text \<open>The names of channels that survive the comma separated list.\<close>

definition plainName :: "string \<Rightarrow> bool" where
  "plainName n \<longleftrightarrow> n \<noteq> [] \<and> TrimSpace n = n \<and> CHR '','' \<notin> set n"

lemma splitAndTrim_Join: "names \<noteq> [] \<Longrightarrow> \<forall>n \<in> set names. plainName n \<Longrightarrow> splitAndTrim (Join names '','') CHR '','' = names"
  by (simp add: splitAndTrim_def plainName_def Split_Join map_idI)

lemma ruleNotifyChannelIDs_facts: "i \<in> set (ruleNotifyChannelIDs raw) \<Longrightarrow> 0 < i \<and> int64 i"
  by (auto simp: ruleNotifyChannelIDs_def split: option.splits if_splits intro: ParseInt_int64 [OF sym])

lemma charDigit_comma: "CHR '','' \<notin> set (FormatInt i)"
  using FormatInt_chars [of "CHR '',''" i] by (auto simp: charDigit_def)

lemma TrimSpace_FormatInt: "TrimSpace (FormatInt i) = FormatInt i"
proof -
  have "\<not> isSpace c" if "c \<in> set (FormatInt i)" for c
    using FormatInt_chars [OF that] by (auto simp: isSpace_def charDigit_def)
  then show ?thesis by (intro TrimSpace_id) simp_all
qed

lemma ruleNotifyChannelIDs_Join:
  assumes "\<forall>i \<in> set ids. 0 < i \<and> int64 i"
  shows "ruleNotifyChannelIDs (Join (map FormatInt ids) '','') = ids"
proof (cases "ids = []")
  case True
  then show ?thesis by (simp add: ruleNotifyChannelIDs_def ParseInt_def)
next
  case False
  then have "Split (Join (map FormatInt ids) '','') CHR '','' = map FormatInt ids"
    by (intro Split_Join) (auto simp: charDigit_comma)
  moreover have "concat (map ((\<lambda>part. case ParseInt (TrimSpace part) of None \<Rightarrow> [] | Some i \<Rightarrow> if i \<le> 0 then [] else [i]) \<circ> FormatInt) ids) = ids"
    using assms by (induction ids) (auto simp: TrimSpace_FormatInt ParseInt_FormatInt)
  ultimately show ?thesis by (simp add: ruleNotifyChannelIDs_def)
qed

lemma those_Some: "those xs = Some ys \<longleftrightarrow> xs = map Some ys"
  by (induction xs arbitrary: ys) (auto split: option.splits)

lemma lookupAll_Some: "lookupAll m ks = Some vs \<longleftrightarrow> map m ks = map Some vs"
  by (simp add: lookupAll_def those_Some)

lemma channelIDs_inverse: "map m ids = map Some names \<Longrightarrow> \<forall>i n. m i = Some n \<longrightarrow> back n = Some i \<Longrightarrow> channelIDs back names = Inr ids"
proof (induction names arbitrary: ids)
  case (Cons n ns)
  then obtain k js where ids: "ids = k # js" and k: "m k = Some n" and js: "map m js = map Some ns" by (cases ids) auto
  have "back n = Some k" using Cons.prems(2) k by blast
  with Cons.IH [OF js Cons.prems(2)] ids show ?case by simp
qed simp

section \<open>Importing twice\<close>

lemma wp_rule_Create:
  "wp (alertrulec_Create ctx req)
     (\<lambda>_ w'. fault w' = fault w \<and> (\<exists>r. rows (alert_rules w') = rows (alert_rules w) @ [r] \<and> ar_Name r = qr_Name req))
     (\<lambda>_ w'. fault w' = fault w \<and> rows (alert_rules w') = rows (alert_rules w)) w"
  by (auto simp: alertrulec_Create_def alertRuleCreate_def daoCreate_def wp_simps Let_def insTable_def newAlertRule_def alertRuleDefaults_def
      UserNameFromContext_def GetUserFromContext_def pixiu_model.defs split: option.splits sum.splits)

definition ruleNames :: "'m alert_db_scheme \<Rightarrow> string set" where
  "ruleNames w = ar_Name ` set (rows (alert_rules w))"

definition handled :: "ImportAlertRulesResult \<Rightarrow> nat" where
  "handled r = ir_Created r + ir_Skipped r + ir_Failed r"

definition imported :: "string set \<Rightarrow> AlertRuleExportItem list \<Rightarrow> ImportAlertRulesResult \<Rightarrow> 'm alert_db_scheme \<Rightarrow> ImportAlertRulesResult \<Rightarrow> 'm alert_db_scheme \<Rightarrow> bool" where
  "imported existing items r0 w r w' \<longleftrightarrow> fault w' = fault w \<and> ruleNames w \<subseteq> ruleNames w' \<and> ir_Failed r0 \<le> ir_Failed r \<and>
     handled r = handled r0 + length items \<and>
     (ir_Failed r = ir_Failed r0 \<longrightarrow> (\<forall>i \<in> set items. qr_Name i \<in> existing \<union> ruleNames w'))"

lemma imported_step:
  assumes "imported existing items r1 w1 r w'" and "fault w1 = fault w" and "ruleNames w \<subseteq> ruleNames w1"
    and "ir_Failed r0 \<le> ir_Failed r1" and "handled r1 = Suc (handled r0)"
    and "ir_Failed r1 = ir_Failed r0 \<Longrightarrow> qr_Name i \<in> existing \<union> ruleNames w1"
  shows "imported existing (i # items) r0 w r w'"
  using assms unfolding imported_def by auto

lemma resolve_Name: "resolveImportIDs i ds ch = Inr i' \<Longrightarrow> qr_Name i' = qr_Name i"
  by (auto simp: resolveImportIDs_def split: if_splits option.splits sum.splits)

lemma importItems_spec: "wp (importItems errText ctx existing ds ch k r0 items) (imported existing items r0 w) (\<lambda>_ _. False) w"
proof (induction items arbitrary: k r0 w)
  case Nil
  then show ?case by (simp add: wp_simps imported_def)
next
  case (Cons i items)
  have go: "wp (importItems errText ctx existing ds ch (Suc k) r1 items) (imported existing (i # items) r0 w) (\<lambda>_ _. False) w1"
    if "fault w1 = fault w" "ruleNames w \<subseteq> ruleNames w1" "ir_Failed r0 \<le> ir_Failed r1" "handled r1 = Suc (handled r0)"
      "ir_Failed r1 = ir_Failed r0 \<Longrightarrow> qr_Name i \<in> existing \<union> ruleNames w1" for r1 w1
    by (rule wp_mono [OF Cons.IH]) (erule imported_step, (use that in blast)+)
  show ?case
  proof (cases "qr_Name i \<in> existing")
    case True
    then show ?thesis by (simp add: Let_def) (rule go; simp add: handled_def)
  next
    case False
    show ?thesis
    proof (cases "resolveImportIDs i ds ch")
      case (Inl e)
      with False show ?thesis by (simp add: Let_def) (rule go; simp add: handled_def importFailed_def)
    next
      case (Inr i1)
      have "wp (alertrulec_Create ctx (CreateAlertRuleRequest.truncate i1))
         (\<lambda>_. wp (importItems errText ctx existing ds ch (Suc k) (r0\<lparr>ir_Created := Suc (ir_Created r0)\<rparr>) items) (imported existing (i # items) r0 w) (\<lambda>_ _. False))
         (\<lambda>err. wp (importItems errText ctx existing ds ch (Suc k)
             (importFailed (if qr_Name i1 = [] then ''#'' @ FormatInt (int k + 1) else qr_Name i1) (errText err) r0) items)
             (imported existing (i # items) r0 w) (\<lambda>_ _. False)) w"
        using wp_rule_Create
        by (rule wp_mono) (auto intro!: go simp: handled_def importFailed_def ruleNames_def resolve_Name [OF Inr] CreateAlertRuleRequest.defs)
      with False Inr show ?thesis by (simp add: Let_def wp_onResult)
    qed
  qed
qed

lemma importItems_skip: "\<forall>i \<in> set items. qr_Name i \<in> existing \<Longrightarrow>
    importItems errText ctx existing ds ch k r0 items = ret (r0\<lparr>ir_Skipped := ir_Skipped r0 + length items\<rparr>)"
  by (induction items arbitrary: k r0) (simp_all add: Let_def)

lemma wp_lookupNames:
  assumes "faultless w" and "\<And>m n. Q m (w\<lparr>tick := n\<rparr>)"
  shows "wp (lookupNames b (daoList t opts) key val) Q E w"
  using assms assms(2) [of Map.empty "tick w"] by (auto simp: lookupNames_def wp_simps Let_def)

lemma ruleNames_tick [simp]: "ruleNames (w\<lparr>tick := n\<rparr>) = ruleNames w"
  by (simp add: ruleNames_def)

definition noResult :: ImportAlertRulesResult where
  "noResult = \<lparr>ir_Created = 0, ir_Skipped = 0, ir_Failed = 0, ir_Errors = [], ir_Warnings = []\<rparr>"

lemma wp_Import:
  assumes items: "parseAlertRuleImportPayload data = Inr items" "items \<noteq> []" and w: "faultless w"
    and Q: "\<And>ds ch n. wp (importItems errText ctx (ruleNames w) ds ch 0 noResult items) Q E (w\<lparr>tick := n\<rparr>)"
  shows "wp (alertrulec_Import errText ctx data) Q E w"
  using w Q
  by (auto simp: alertrulec_Import_def items alertRuleList_def wp_simps Let_def noResult_def [symmetric] datasourceList_def alertChannelList_def runQuery_def
      buildQuery_def emptyQuery_def ruleNames_def [symmetric] intro!: wp_lookupNames)

lemma Import_payload: "alertrulec_Import errText ctx data w = (Inr r, w') \<Longrightarrow> \<exists>items. parseAlertRuleImportPayload data = Inr items \<and> items \<noteq> []"
  by (auto simp: alertrulec_Import_def fail_def split: sum.splits if_splits)

text \<open>C35: Where no statement fails, an import of a file that imported without a failed item creates nothing when it
  is repeated: every item is skipped, none fails, and the rules stay as they are.\<close>

theorem import_again:
  assumes first: "alertrulec_Import errText ctx data w = (Inr r, w1)" and none: "ir_Failed r = 0" and w: "faultless w"
  shows "\<exists>r' w2. alertrulec_Import errText' ctx' data w1 = (Inr r', w2) \<and> ir_Created r' = 0 \<and> ir_Failed r' = 0 \<and>
     ir_Skipped r' = ir_Created r + ir_Skipped r \<and> alert_rules w2 = alert_rules w1"
proof -
  from Import_payload [OF first] obtain items where items: "parseAlertRuleImportPayload data = Inr items" "items \<noteq> []" by blast
  have "wp (alertrulec_Import errText ctx data) (\<lambda>r w'. \<exists>n. imported (ruleNames w) items noResult (w\<lparr>tick := n\<rparr>) r w') (\<lambda>_ _. True) w"
    by (rule wp_Import [OF items w], rule wp_mono [OF importItems_spec]) auto
  from wp_Inr [OF this first] obtain n where i: "imported (ruleNames w) items noResult (w\<lparr>tick := n\<rparr>) r w1" by blast
  with none w have w1: "faultless w1" and names: "\<forall>i \<in> set items. qr_Name i \<in> ruleNames w1" and len: "ir_Created r + ir_Skipped r = length items"
    by (auto simp: imported_def noResult_def handled_def faultless_def)
  have "wp (alertrulec_Import errText' ctx' data) (\<lambda>r' w2. ir_Created r' = 0 \<and> ir_Failed r' = 0 \<and> ir_Skipped r' = length items \<and>
      alert_rules w2 = alert_rules w1) (\<lambda>_ _. False) w1"
    by (rule wp_Import [OF items w1]) (simp add: importItems_skip [OF names] wp_simps noResult_def)
  with len show ?thesis by (auto simp: wp_def split: prod.splits sum.splits)
qed

section \<open>Exporting and importing\<close>

lemma nameMap_Some:
  assumes "distinct (map key rs)"
  shows "nameMap key val rs k = Some v \<longleftrightarrow> (\<exists>r \<in> set rs. key r = k \<and> val r = v)"
proof -
  have fold: "foldl (\<lambda>m r. m(key r \<mapsto> val r)) m0 rs = m0 ++ map_of (rev (map (\<lambda>r. (key r, val r)) rs))" for m0
    by (induction rs arbitrary: m0) (simp_all add: map_add_assoc)
  have "distinct (map fst (rev (map (\<lambda>r. (key r, val r)) rs)))" using assms by (simp add: comp_def flip: rev_map)
  then have "map_of (rev (map (\<lambda>r. (key r, val r)) rs)) k = Some v \<longleftrightarrow> (k, v) \<in> set (rev (map (\<lambda>r. (key r, val r)) rs))"
    by (rule map_of_eq_Some_iff)
  then show ?thesis using fold [of Map.empty] by (auto simp: nameMap_def)
qed

text \<open>The name behind a key of a table.\<close>

definition nameOf :: "('m pixiu_model_scheme \<Rightarrow> string) \<Rightarrow> 'm pixiu_model_scheme table \<Rightarrow> int \<Rightarrow> string option" where
  "nameOf name T i = map_option name (find (\<lambda>x. Oid x = i) (rows T))"

lemma nameOf_Some: "table_ok T \<Longrightarrow> x \<in> set (rows T) \<Longrightarrow> nameOf name T (Oid x) = Some (name x)"
  using table_ok_Oid_eq [of T _ x] by (cases "find (\<lambda>y. Oid y = Oid x) (rows T)") (auto simp: nameOf_def find_None_iff dest: find_Some_mem)

text \<open>What the creation of a rule makes of the values of another one: the configuration and the labels in normal form, the duration
  of the first trigger, the defaults for values that are not positive or blank, and the rule enabled.\<close>

definition importedForm :: "AlertRule \<Rightarrow> AlertRule option" where
  "importedForm r = (case NormalizeRuleConfig (ar_RuleConfig r) of None \<Rightarrow> None
     | Some (config, _, duration) \<Rightarrow> (case NormalizeLabelsJSON (ar_Labels r) of Inl _ \<Rightarrow> None
       | Inr labels \<Rightarrow> Some (r\<lparr>ar_RuleConfig := config, ar_Duration := duration, ar_Labels := labels,
           ar_EvalInterval := (if ar_EvalInterval r \<le> 0 then 15 else ar_EvalInterval r),
           ar_NotifyRepeatStep := (if ar_NotifyRepeatStep r \<le> 0 then 5 else ar_NotifyRepeatStep r),
           ar_NotifyMaxNumber := max 0 (ar_NotifyMaxNumber r),
           ar_EnableDaysOfWeek := NormalizeEnableDaysOfWeek (ar_EnableDaysOfWeek r),
           ar_EnableStime := (if TrimSpace (ar_EnableStime r) = [] then ''00:00'' else TrimSpace (ar_EnableStime r)),
           ar_EnableEtime := (if TrimSpace (ar_EnableEtime r) = [] then ''00:00'' else TrimSpace (ar_EnableEtime r)),
           ar_Enabled := True\<rparr>)))"

text \<open>The rule \<open>s\<close> of \<open>v\<close> is the rule \<open>r\<close> of \<open>w\<close>: all its columns are those of \<open>r\<close> (in that form) but for
  key, version, times and creator, its data source and its channels have the names that those of \<open>r\<close> have.\<close>

definition reimported :: "string \<Rightarrow> 'm datasource_db_scheme \<Rightarrow> 'm datasource_db_scheme \<Rightarrow> AlertRule \<Rightarrow> AlertRule \<Rightarrow> bool" where
  "reimported creator w v r s \<longleftrightarrow> (\<exists>r'. importedForm r = Some r' \<and>
     s = r'\<lparr>Oid := Oid s, ResourceVersion := 0, GmtCreate := GmtCreate s, GmtModified := GmtModified s, ar_CreatedBy := creator,
       ar_DatasourceId := ar_DatasourceId s, ar_NotifyChannels := ar_NotifyChannels s\<rparr>) \<and>
     (if 0 < ar_DatasourceId r then nameOf ds_Name (datasources v) (ar_DatasourceId s) = nameOf ds_Name (datasources w) (ar_DatasourceId r) \<and>
         nameOf ds_Name (datasources w) (ar_DatasourceId r) \<noteq> None
      else ar_DatasourceId s = ar_DatasourceId r) \<and>
     map (nameOf ac_Name (alert_channels v)) (ruleNotifyChannelIDs (ar_NotifyChannels s)) =
       map (nameOf ac_Name (alert_channels w)) (ruleNotifyChannelIDs (ar_NotifyChannels r)) \<and>
     None \<notin> set (map (nameOf ac_Name (alert_channels w)) (ruleNotifyChannelIDs (ar_NotifyChannels r)))"

text \<open>The database that a file comes from: its names are UTF-8, those of the channels without commas and outer blanks.\<close>

definition exportable :: "'m datasource_db_scheme \<Rightarrow> bool" where
  "exportable w \<longleftrightarrow> faultless w \<and> table_ok (datasources w) \<and> table_ok (alert_channels w) \<and>
     (\<forall>d \<in> set (rows (datasources w)). ds_Name d \<noteq> [] \<and> validUTF8 (ds_Name d)) \<and>
     (\<forall>c \<in> set (rows (alert_channels w)). plainName (ac_Name c) \<and> validUTF8 (ac_Name c))"

text \<open>The database that takes it in: it has the data sources and the channels by their names, which are unique.\<close>

definition importable :: "'m datasource_db_scheme \<Rightarrow> 'm datasource_db_scheme \<Rightarrow> bool" where
  "importable w v \<longleftrightarrow> faultless v \<and> table_ok (datasources v) \<and> table_ok (alert_channels v) \<and>
     distinct (map ds_Name (rows (datasources v))) \<and> distinct (map ac_Name (rows (alert_channels v))) \<and>
     ds_Name ` set (rows (datasources w)) \<subseteq> ds_Name ` set (rows (datasources v)) \<and>
     ac_Name ` set (rows (alert_channels w)) \<subseteq> ac_Name ` set (rows (alert_channels v)) \<and>
     (\<forall>c \<in> set (rows (alert_channels v)). 0 < Oid c \<and> int64 (Oid c))"

subsection \<open>One item\<close>

text \<open>The names that an item carries are those of the data source and of the channels of its rule.\<close>

definition carries :: "'m datasource_db_scheme \<Rightarrow> AlertRule \<Rightarrow> AlertRuleExportItem \<Rightarrow> bool" where
  "carries w r i \<longleftrightarrow> (\<exists>dn names. i = exportItem r dn (Join names '','') \<and>
     (if 0 < ar_DatasourceId r then (\<exists>d \<in> set (rows (datasources w)). Oid d = ar_DatasourceId r \<and> ds_Name d = dn) else dn = []) \<and>
     list_all2 (\<lambda>k n. \<exists>c \<in> set (rows (alert_channels w)). Oid c = k \<and> ac_Name c = n) (ruleNotifyChannelIDs (ar_NotifyChannels r)) names)"

lemma channelIDs_names: "list_all2 (\<lambda>k n. back n = Some k) ks names \<Longrightarrow> channelIDs back names = Inr ks"
  by (induction rule: list_all2_induct) auto

lemma resolve_source:
  assumes dn: "if 0 < ar_DatasourceId r then (\<exists>d \<in> set (rows (datasources w)). Oid d = ar_DatasourceId r \<and> ds_Name d = dn) else dn = []"
    and w: "exportable w" and v: "importable w v"
  shows "\<exists>d. (if dn = [] then d = ar_DatasourceId r else nameMap ds_Name Oid (rows (datasources v)) dn = Some d) \<and>
     (if 0 < ar_DatasourceId r then nameOf ds_Name (datasources v) d = nameOf ds_Name (datasources w) (ar_DatasourceId r) \<and>
         nameOf ds_Name (datasources w) (ar_DatasourceId r) \<noteq> None else d = ar_DatasourceId r)"
proof (cases "0 < ar_DatasourceId r")
  case True
  with dn obtain x where x: "x \<in> set (rows (datasources w))" "Oid x = ar_DatasourceId r" "ds_Name x = dn" by auto
  with v have "dn \<in> ds_Name ` set (rows (datasources v))" by (auto simp: importable_def)
  then obtain y where y: "y \<in> set (rows (datasources v))" "ds_Name y = dn" by auto
  have "nameMap ds_Name Oid (rows (datasources v)) dn = Some (Oid y)" using v y by (auto simp: importable_def nameMap_Some)
  moreover have "nameOf ds_Name (datasources v) (Oid y) = Some dn" "nameOf ds_Name (datasources w) (ar_DatasourceId r) = Some dn"
    using v w x y nameOf_Some [of "datasources v" y ds_Name] nameOf_Some [of "datasources w" x ds_Name] by (auto simp: importable_def exportable_def)
  moreover have "dn \<noteq> []" using w x by (auto simp: exportable_def)
  ultimately show ?thesis using True by auto
qed (use dn in auto)

lemma resolve_channels:
  assumes names: "list_all2 (\<lambda>k n. \<exists>c \<in> set (rows (alert_channels w)). Oid c = k \<and> ac_Name c = n) ids names"
    and w: "exportable w" and v: "importable w v"
  shows "\<exists>ks. channelIDs (nameMap ac_Name Oid (rows (alert_channels v))) names = Inr ks \<and> (\<forall>k \<in> set ks. 0 < k \<and> int64 k) \<and>
     map (nameOf ac_Name (alert_channels v)) ks = map Some names \<and> map (nameOf ac_Name (alert_channels w)) ids = map Some names"
  using names
proof (induction rule: list_all2_induct)
  case (Cons k ids n names)
  then obtain ks x where ks: "channelIDs (nameMap ac_Name Oid (rows (alert_channels v))) names = Inr ks" "\<forall>k \<in> set ks. 0 < k \<and> int64 k"
     "map (nameOf ac_Name (alert_channels v)) ks = map Some names" "map (nameOf ac_Name (alert_channels w)) ids = map Some names"
    and x: "x \<in> set (rows (alert_channels w))" "Oid x = k" "ac_Name x = n" by auto
  with v have "n \<in> ac_Name ` set (rows (alert_channels v))" by (auto simp: importable_def)
  then obtain y where y: "y \<in> set (rows (alert_channels v))" "ac_Name y = n" by auto
  have "nameMap ac_Name Oid (rows (alert_channels v)) n = Some (Oid y)" using v y by (auto simp: importable_def nameMap_Some)
  moreover have "nameOf ac_Name (alert_channels v) (Oid y) = Some n" "nameOf ac_Name (alert_channels w) k = Some n"
    using v w x y nameOf_Some [of "alert_channels v" y ac_Name] nameOf_Some [of "alert_channels w" x ac_Name] by (auto simp: importable_def exportable_def)
  moreover have "0 < Oid y \<and> int64 (Oid y)" using v y by (simp add: importable_def)
  ultimately show ?case using ks by (intro exI [of _ "Oid y # ks"]) simp
qed simp

lemma carries_resolves:
  assumes c: "carries w r i" and w: "exportable w" and v: "importable w v"
  shows "\<exists>d cs. resolveImportIDs i (nameMap ds_Name Oid (rows (datasources v))) (nameMap ac_Name Oid (rows (alert_channels v))) =
       Inr (i\<lparr>qr_DatasourceId := d, qr_NotifyChannels := cs\<rparr>) \<and>
     (if 0 < ar_DatasourceId r then nameOf ds_Name (datasources v) d = nameOf ds_Name (datasources w) (ar_DatasourceId r) \<and>
         nameOf ds_Name (datasources w) (ar_DatasourceId r) \<noteq> None else d = ar_DatasourceId r) \<and>
     map (nameOf ac_Name (alert_channels v)) (ruleNotifyChannelIDs cs) = map (nameOf ac_Name (alert_channels w)) (ruleNotifyChannelIDs (ar_NotifyChannels r)) \<and>
     None \<notin> set (map (nameOf ac_Name (alert_channels w)) (ruleNotifyChannelIDs (ar_NotifyChannels r)))"
proof -
  let ?ids = "ruleNotifyChannelIDs (ar_NotifyChannels r)"
  from c obtain dn names where i: "i = exportItem r dn (Join names '','')"
    and dn: "if 0 < ar_DatasourceId r then (\<exists>d \<in> set (rows (datasources w)). Oid d = ar_DatasourceId r \<and> ds_Name d = dn) else dn = []"
    and names: "list_all2 (\<lambda>k n. \<exists>c \<in> set (rows (alert_channels w)). Oid c = k \<and> ac_Name c = n) ?ids names"
    unfolding carries_def by blast
  from resolve_source [OF dn w v] obtain d where
    d: "if dn = [] then d = ar_DatasourceId r else nameMap ds_Name Oid (rows (datasources v)) dn = Some d" and
    dname: "if 0 < ar_DatasourceId r then nameOf ds_Name (datasources v) d = nameOf ds_Name (datasources w) (ar_DatasourceId r) \<and>
         nameOf ds_Name (datasources w) (ar_DatasourceId r) \<noteq> None else d = ar_DatasourceId r" by blast
  from resolve_channels [OF names w v] obtain ks where ks: "channelIDs (nameMap ac_Name Oid (rows (alert_channels v))) names = Inr ks"
    "\<forall>k \<in> set ks. 0 < k \<and> int64 k" "map (nameOf ac_Name (alert_channels v)) ks = map Some names" "map (nameOf ac_Name (alert_channels w)) ?ids = map Some names" by blast
  define cs where "cs = (if names = [] then ar_NotifyChannels r else Join (map FormatInt ks) '','')"
  have plain: "\<forall>n \<in> set names. plainName n"
    using names w by (auto simp: exportable_def list_all2_conv_all_nth in_set_conv_nth) metis
  have ids: "map (nameOf ac_Name (alert_channels v)) (ruleNotifyChannelIDs cs) = map Some names"
    using ks names by (auto simp: cs_def ruleNotifyChannelIDs_Join)
  have join: "Join names '','' = [] \<longleftrightarrow> names = []" using plain by (cases names rule: remdups_adj.cases) (auto simp: plainName_def)
  have f: "ei_DatasourceName i = dn" "ei_NotifyChannelNames i = Join names '',''" "qr_DatasourceId i = ar_DatasourceId r" "qr_NotifyChannels i = ar_NotifyChannels r"
    by (simp_all add: i exportItem_def)
  have same: "i\<lparr>qr_DatasourceId := ar_DatasourceId r\<rparr> = i" "i\<lparr>qr_DatasourceId := x, qr_NotifyChannels := ar_NotifyChannels r\<rparr> = i\<lparr>qr_DatasourceId := x\<rparr>" for x
    by (simp_all add: i exportItem_def)
  have "resolveImportIDs i (nameMap ds_Name Oid (rows (datasources v))) (nameMap ac_Name Oid (rows (alert_channels v))) =
       Inr (i\<lparr>qr_DatasourceId := d, qr_NotifyChannels := cs\<rparr>)"
    using d ks(1) splitAndTrim_Join [OF _ plain] by (auto simp: resolveImportIDs_def f same join cs_def split: if_splits)
  moreover have "None \<notin> set (map (nameOf ac_Name (alert_channels w)) ?ids)" by (auto simp: ks(4))
  ultimately show ?thesis using dname ids ks(4) by (intro exI [of _ d] exI [of _ cs]) simp
qed

subsection \<open>What the export writes\<close>

lemma lookupNames_known:
  assumes "table_ok T" and "lookupAll (nameMap Oid name (filter (\<lambda>x. Oid x \<in> K) (rows T))) ks = Some names"
  shows "list_all2 (\<lambda>k n. \<exists>x \<in> set (rows T). Oid x = k \<and> name x = n) ks names"
proof -
  have "distinct (map Oid (filter (\<lambda>x. Oid x \<in> K) (rows T)))" using assms(1) by (simp add: table_ok_def distinct_map_filter)
  moreover have "list_all2 (\<lambda>k n. nameMap Oid name (filter (\<lambda>x. Oid x \<in> K) (rows T)) k = Some n) ks names"
    using assms(2) by (auto simp: lookupAll_Some list_all2_conv_all_nth list_eq_iff_nth_eq)
  ultimately show ?thesis by (elim list_all2_mono) (auto simp: nameMap_Some)
qed

lemma export_carries:
  assumes w: "exportable w" and i: "modelToExportItem r ds ch = Inr i"
    and ds: "ds = (if dsIDs = [] then Map.empty else nameMap Oid ds_Name (filter (\<lambda>x. Oid x \<in> set dsIDs) (rows (datasources w))))"
    and ch: "ch = (if chIDs = [] then Map.empty else nameMap Oid ac_Name (filter (\<lambda>x. Oid x \<in> set chIDs) (rows (alert_channels w))))"
  shows "carries w r i"
proof -
  from i obtain dn names where dn: "(if 0 < ar_DatasourceId r then ds (ar_DatasourceId r) else Some []) = Some dn"
    and names: "lookupAll ch (ruleNotifyChannelIDs (ar_NotifyChannels r)) = Some names" and i: "i = exportItem r dn (Join names '','')"
    by (auto simp: modelToExportItem_def split: option.splits)
  have t: "table_ok (datasources w)" "table_ok (alert_channels w)" using w by (simp_all add: exportable_def)
  have d: "distinct (map Oid (filter P (rows (datasources w))))" for P using t(1) by (simp add: table_ok_def distinct_map_filter)
  have "lookupAll (nameMap Oid ac_Name (filter (\<lambda>x. Oid x \<in> set chIDs) (rows (alert_channels w)))) (ruleNotifyChannelIDs (ar_NotifyChannels r)) = Some names"
    using names by (cases chIDs) (auto simp: ch nameMap_def)
  from lookupNames_known [OF t(2) this]
  have "list_all2 (\<lambda>k n. \<exists>c \<in> set (rows (alert_channels w)). Oid c = k \<and> ac_Name c = n) (ruleNotifyChannelIDs (ar_NotifyChannels r)) names" .
  moreover have "if 0 < ar_DatasourceId r then (\<exists>x \<in> set (rows (datasources w)). Oid x = ar_DatasourceId r \<and> ds_Name x = dn) else dn = []"
    using dn d by (auto simp: ds nameMap_Some split: if_splits)
  ultimately show ?thesis unfolding carries_def i by blast
qed

lemma exportItems_each: "exportItems ds ch rs = Inr items \<Longrightarrow> list_all2 (\<lambda>r i. modelToExportItem r ds ch = Inr i) rs items"
  by (induction rs arbitrary: items) (auto split: sum.splits)

lemma IDIn_query: "runQuery (buildQuery [WithIDIn ks]) rs = filter (\<lambda>x. Oid x \<in> set ks) rs"
  by (simp add: runQuery_def buildQuery_def emptyQuery_def WithIDIn_def Where_def)

lemma wp_lookup:
  assumes "faultless w" and "b \<longleftrightarrow> ks \<noteq> []"
  shows "wp (lookupNames b (daoList t [WithIDIn ks]) key val) Q E w =
    (if ks = [] then Q Map.empty w else Q (nameMap key val (filter (\<lambda>x. Oid x \<in> set ks) (rows (tget t (w\<lparr>tick := Suc (tick w)\<rparr>))))) (w\<lparr>tick := Suc (tick w)\<rparr>))"
  using assms by (simp add: lookupNames_def wp_onResult wp_ret wp_daoList IDIn_query Let_def faultless_fault)

lemma wp_Export:
  assumes w: "exportable w"
  shows "wp (alertrulec_Export ids) (\<lambda>file w1. \<exists>items. file = jsonIndent 0 (exportFileJson (exportFile items)) \<and>
     filter (\<lambda>r. Oid r \<in> set ids) (rows (alert_rules w)) \<noteq> [] \<and>
     list_all2 (carries w) (filter (\<lambda>r. Oid r \<in> set ids) (rows (alert_rules w))) items) (\<lambda>_ _. True) w"
proof -
  have f: "faultless w" using w by (simp add: exportable_def)
  define objects where "objects = filter (\<lambda>r. Oid r \<in> set ids) (rows (alert_rules w))"
  define dsIDs where "dsIDs = filter (\<lambda>d. d > 0) (map ar_DatasourceId objects)"
  define chIDs where "chIDs = concat (map (\<lambda>r. ruleNotifyChannelIDs (ar_NotifyChannels r)) objects)"
  let ?ds = "if dsIDs = [] then Map.empty else nameMap Oid ds_Name (filter (\<lambda>x. Oid x \<in> set dsIDs) (rows (datasources w)))"
  let ?ch = "if chIDs = [] then Map.empty else nameMap Oid ac_Name (filter (\<lambda>x. Oid x \<in> set chIDs) (rows (alert_channels w)))"
  let ?Q = "\<lambda>file w1. \<exists>items. file = jsonIndent 0 (exportFileJson (exportFile items)) \<and> objects \<noteq> [] \<and> list_all2 (carries w) objects items"
  have items: "wp (orFail (exportItems ?ds ?ch objects) (\<lambda>items. ret (jsonIndent 0 (exportFileJson (exportFile items))))) ?Q (\<lambda>_ _. True) w'"
    if "objects \<noteq> []" for w'
  proof (cases "exportItems ?ds ?ch objects")
    case (Inr items)
    have "list_all2 (carries w) objects items"
      using exportItems_each [OF Inr] by (rule list_all2_mono) (erule export_carries [OF w _ refl refl])
    then show ?thesis using that unfolding Inr by (auto simp: orFail_def wp_ret)
  next
    case (Inl e)
    show ?thesis unfolding Inl by (simp add: orFail_def wp_fail)
  qed
  let ?body = "andThen (lookupNames (dsIDs \<noteq> []) (datasourceList [WithIDIn dsIDs]) Oid ds_Name) (\<lambda>dsNameByID.
      andThen (lookupNames (chIDs \<noteq> []) (alertChannelList [WithIDIn chIDs]) Oid ac_Name) (\<lambda>chNameByID.
        orFail (exportItems dsNameByID chNameByID objects) (\<lambda>items. ret (jsonIndent 0 (exportFileJson (exportFile items))))))"
  have body: "wp ?body ?Q (\<lambda>_ _. True) (w\<lparr>tick := n\<rparr>)" if "objects \<noteq> []" for n
    using f items [OF that]
    by (cases "dsIDs = []"; cases "chIDs = []") (simp_all add: datasourceList_def alertChannelList_def wp_andThen wp_lookup)
  have "wp (alertrulec_Export ids) ?Q (\<lambda>_ _. True) w = wp (if ids = [] then fail (NewError (Errorf ''ids is required'') StatusBadRequest)
     else orInternal (daoList alert_rules_t [WithIDIn ids]) (\<lambda>rs. if rs = [] then fail (NewError (Errorf ''no alert rules found for export'') StatusNotFound)
       else (let dsIDs = filter (\<lambda>d. d > 0) (map ar_DatasourceId rs); chIDs = concat (map (\<lambda>r. ruleNotifyChannelIDs (ar_NotifyChannels r)) rs)
         in andThen (lookupNames (dsIDs \<noteq> []) (datasourceList [WithIDIn dsIDs]) Oid ds_Name) (\<lambda>dsNameByID.
            andThen (lookupNames (chIDs \<noteq> []) (alertChannelList [WithIDIn chIDs]) Oid ac_Name) (\<lambda>chNameByID.
              orFail (exportItems dsNameByID chNameByID rs) (\<lambda>items. ret (jsonIndent 0 (exportFileJson (exportFile items))))))))) ?Q (\<lambda>_ _. True) w"
    unfolding alertrulec_Export_def alertRuleList_def ..
  moreover have tick: "alert_rules (w\<lparr>tick := n\<rparr>) = alert_rules w" for n by simp
  ultimately have "wp (alertrulec_Export ids) ?Q (\<lambda>_ _. True) w" using f body
    by (cases "ids = []"; cases "objects = []") (simp_all only: if_True if_False wp_fail wp_orInternal wp_daoList faultless_fault Let_def IDIn_query option.case
        objects_def [symmetric] dsIDs_def [symmetric] chIDs_def [symmetric] alert_rules_t_def tref.simps tick simp_thms)
  then show ?thesis unfolding objects_def [symmetric] .
qed

subsection \<open>What the import stores\<close>

lemma wp_rule_Create_row:
  assumes "faultless w" and "NormalizeRuleConfig (qr_RuleConfig req) = Some (config, sev, duration)" and "NormalizeLabelsJSON (qr_Labels req) = Inr labels"
    and Q: "\<And>i a b w'. faultless w' \<Longrightarrow> rows (alert_rules w') = rows (alert_rules w) @
        [(alertRuleDefaults ((newAlertRule req config duration labels (u_Name u))\<lparr>GmtCreate := a, GmtModified := b\<rparr>))\<lparr>Oid := i\<rparr>] \<Longrightarrow> Q () w'"
  shows "wp (alertrulec_Create (Some u) req) Q E w"
  using assms(1-3)
  by (auto simp: alertrulec_Create_def alertRuleCreate_def daoCreate_def wp_simps Let_def UserNameFromContext_def GetUserFromContext_def list_ex_iff insTable_def
      faultless_def intro!: Q)

lemma stored_reimported:
  fixes w v :: "'m datasource_db_scheme"
  assumes c: "NormalizeRuleConfig (ar_RuleConfig r) = Some (config, sev, duration)" and l: "NormalizeLabelsJSON (ar_Labels r) = Inr labels"
    and d: "if 0 < ar_DatasourceId r then nameOf ds_Name (datasources v) d = nameOf ds_Name (datasources w) (ar_DatasourceId r) \<and>
         nameOf ds_Name (datasources w) (ar_DatasourceId r) \<noteq> None else d = ar_DatasourceId r"
    and ch: "map (nameOf ac_Name (alert_channels v)) (ruleNotifyChannelIDs cs) = map (nameOf ac_Name (alert_channels w)) (ruleNotifyChannelIDs (ar_NotifyChannels r))"
      "None \<notin> set (map (nameOf ac_Name (alert_channels w)) (ruleNotifyChannelIDs (ar_NotifyChannels r)))"
    and req: "req = CreateAlertRuleRequest.truncate ((exportItem r dn names)\<lparr>qr_DatasourceId := d, qr_NotifyChannels := cs\<rparr>)"
  shows "reimported creator w v r ((alertRuleDefaults ((newAlertRule req config duration labels creator)\<lparr>GmtCreate := a, GmtModified := b\<rparr>))\<lparr>Oid := i\<rparr>)"
    (is "reimported _ _ _ _ ?s")
proof -
  have q: "qr_RuleConfig req = ar_RuleConfig r" by (simp add: req exportItem_def CreateAlertRuleRequest.defs)
  define r' where "r' = the (importedForm r)"
  have r': "importedForm r = Some r'" using c l by (simp add: importedForm_def r'_def)
  have blank: "TrimSpace ''00:00'' = ''00:00''" by (simp add: TrimSpace_def isSpace_def)
  note defs = importedForm_def req exportItem_def CreateAlertRuleRequest.defs newAlertRule_def alertRuleDefaults_def pixiu_model.defs newModel_def
      ResolveNotifyRepeatStep_def ResolveNotifyMaxNumber_def NormalizeNotifyRepeatStep_def NormalizeNotifyMaxNumber_def NormalizeEvalInterval_def NormalizeEnableTime_def
      DefaultEvalInterval_def DefaultNotifyRepeatStep_def defaultEnableTime_def Let_def
  have "?s = r'\<lparr>Oid := Oid ?s, ResourceVersion := 0, GmtCreate := GmtCreate ?s, GmtModified := GmtModified ?s, ar_CreatedBy := creator,
       ar_DatasourceId := ar_DatasourceId ?s, ar_NotifyChannels := ar_NotifyChannels ?s\<rparr>"
    by (rule AlertRule.equality) (simp_all add: r'_def c l defs blank)
  moreover have "ar_DatasourceId ?s = d" "ar_NotifyChannels ?s = cs"
    by (simp_all add: req exportItem_def CreateAlertRuleRequest.defs newAlertRule_def alertRuleDefaults_def pixiu_model.defs)
  ultimately show ?thesis using r' d ch unfolding reimported_def by metis
qed

text \<open>The items of the file in turn: every one of them becomes a rule.\<close>

lemma importItems_all:
  fixes v :: "'n alert_db_scheme"
  assumes "list_all2 (carries w0) rs items" and w0: "exportable w0" and v0: "importable w0 v0" and "faultless v"
    and "\<forall>r \<in> set rs. importedForm r \<noteq> None \<and> ar_Name r \<notin> existing"
  shows "wp (importItems errText (Some u) existing (nameMap ds_Name Oid (rows (datasources v0))) (nameMap ac_Name Oid (rows (alert_channels v0))) k r0 items)
     (\<lambda>res v'. ir_Created res = ir_Created r0 + length rs \<and> ir_Skipped res = ir_Skipped r0 \<and> ir_Failed res = ir_Failed r0 \<and>
        (\<exists>new. rows (alert_rules v') = rows (alert_rules v) @ new \<and> list_all2 (reimported (u_Name u) w0 v0) rs new)) (\<lambda>_ _. False) v"
  using assms(1,4,5)
proof (induction rs items arbitrary: k r0 v rule: list_all2_induct)
  case Nil
  then show ?case by (simp add: wp_ret)
next
  case (Cons r rs i items)
  from Cons.hyps(1) obtain dn names where i: "i = exportItem r dn names" unfolding carries_def by blast
  from carries_resolves [OF Cons.hyps(1) w0 v0] obtain d cs where
    res: "resolveImportIDs i (nameMap ds_Name Oid (rows (datasources v0))) (nameMap ac_Name Oid (rows (alert_channels v0))) =
      Inr (i\<lparr>qr_DatasourceId := d, qr_NotifyChannels := cs\<rparr>)"
    and d: "if 0 < ar_DatasourceId r then nameOf ds_Name (datasources v0) d = nameOf ds_Name (datasources w0) (ar_DatasourceId r) \<and>
         nameOf ds_Name (datasources w0) (ar_DatasourceId r) \<noteq> None else d = ar_DatasourceId r"
    and ch: "map (nameOf ac_Name (alert_channels v0)) (ruleNotifyChannelIDs cs) = map (nameOf ac_Name (alert_channels w0)) (ruleNotifyChannelIDs (ar_NotifyChannels r))"
      "None \<notin> set (map (nameOf ac_Name (alert_channels w0)) (ruleNotifyChannelIDs (ar_NotifyChannels r)))" by blast
  define req where "req = CreateAlertRuleRequest.truncate ((exportItem r dn names)\<lparr>qr_DatasourceId := d, qr_NotifyChannels := cs\<rparr>)"
  have fresh: "qr_Name i \<notin> existing" using Cons.prems(2) by (simp add: i exportItem_def)
  from Cons.prems(2) obtain config sev duration labels where cl: "NormalizeRuleConfig (ar_RuleConfig r) = Some (config, sev, duration)"
    "NormalizeLabelsJSON (ar_Labels r) = Inr labels" by (auto simp: importedForm_def split: option.splits sum.splits)
  have q: "qr_RuleConfig req = ar_RuleConfig r" "qr_Labels req = ar_Labels r" by (simp_all add: req_def exportItem_def CreateAlertRuleRequest.defs)
  have "wp (alertrulec_Create (Some u) req)
     (\<lambda>_ v1. faultless v1 \<and> (\<exists>s. rows (alert_rules v1) = rows (alert_rules v) @ [s] \<and> reimported (u_Name u) w0 v0 r s)) (\<lambda>_ _. False) v"
    by (rule wp_rule_Create_row [OF Cons.prems(1) cl(1) [folded q(1)] cl(2) [folded q(2)]])
      (use stored_reimported [OF cl d ch req_def] in blast)
  then have "wp (alertrulec_Create (Some u) req) (\<lambda>_ v1. wp (importItems errText (Some u) existing (nameMap ds_Name Oid (rows (datasources v0)))
       (nameMap ac_Name Oid (rows (alert_channels v0))) (Suc k) (r0\<lparr>ir_Created := Suc (ir_Created r0)\<rparr>) items)
     (\<lambda>res v'. ir_Created res = ir_Created r0 + length (r # rs) \<and> ir_Skipped res = ir_Skipped r0 \<and> ir_Failed res = ir_Failed r0 \<and>
        (\<exists>new. rows (alert_rules v') = rows (alert_rules v) @ new \<and> list_all2 (reimported (u_Name u) w0 v0) (r # rs) new)) (\<lambda>_ _. False) v1) E v" for E
  proof (rule wp_mono)
    fix x and v1 :: "'n alert_db_scheme" assume "faultless v1 \<and> (\<exists>s. rows (alert_rules v1) = rows (alert_rules v) @ [s] \<and> reimported (u_Name u) w0 v0 r s)"
    then obtain s where v1: "faultless v1" "rows (alert_rules v1) = rows (alert_rules v) @ [s]" "reimported (u_Name u) w0 v0 r s" by blast
    show "wp (importItems errText (Some u) existing (nameMap ds_Name Oid (rows (datasources v0)))
       (nameMap ac_Name Oid (rows (alert_channels v0))) (Suc k) (r0\<lparr>ir_Created := Suc (ir_Created r0)\<rparr>) items)
     (\<lambda>res v'. ir_Created res = ir_Created r0 + length (r # rs) \<and> ir_Skipped res = ir_Skipped r0 \<and> ir_Failed res = ir_Failed r0 \<and>
        (\<exists>new. rows (alert_rules v') = rows (alert_rules v) @ new \<and> list_all2 (reimported (u_Name u) w0 v0) (r # rs) new)) (\<lambda>_ _. False) v1"
      by (rule wp_mono [OF Cons.IH [OF v1(1)]]) (use Cons.prems(2) v1(2,3) in auto)
  qed simp
  then show ?case using fresh by (simp add: Let_def res wp_onResult req_def [unfolded i [symmetric], symmetric])
qed

lemma wp_Import_names:
  assumes items: "parseAlertRuleImportPayload data = Inr items" "items \<noteq> []" and v: "faultless v"
    and Q: "\<And>n. wp (importItems errText ctx (ruleNames v) (nameMap ds_Name Oid (rows (datasources v))) (nameMap ac_Name Oid (rows (alert_channels v))) 0 noResult items) Q E
        (v\<lparr>tick := n\<rparr>)"
  shows "wp (alertrulec_Import errText ctx data) Q E v"
  using v Q
  by (auto simp: alertrulec_Import_def items alertRuleList_def wp_simps Let_def noResult_def [symmetric] datasourceList_def alertChannelList_def runQuery_def
      buildQuery_def emptyQuery_def ruleNames_def [symmetric] lookupNames_def)

text \<open>The texts and numbers of the items are those of the rules, and the names of the database.\<close>

lemma validUTF8_append: "validUTF8 a \<Longrightarrow> validUTF8 b \<Longrightarrow> validUTF8 (a @ b)"
proof -
  assume "validUTF8 a" "validUTF8 b"
  then obtain ns ms where "\<forall>n \<in> set ns. scalar n" "a = utf8 ns" "\<forall>n \<in> set ms. scalar n" "b = utf8 ms" using validUTF8_runes by meson
  then have "\<forall>n \<in> set (ns @ ms). scalar n" "a @ b = utf8 (ns @ ms)" by (auto simp: utf8_def)
  then show ?thesis using validUTF8_utf8 by presburger
qed

lemma validUTF8_Join: "\<forall>n \<in> set names. validUTF8 n \<Longrightarrow> validUTF8 (Join names '','')"
proof (induction names)
  case (Cons x xs)
  show ?case
  proof (cases xs)
    case (Cons y ys)
    then have "validUTF8 (CHR '','' # Join xs '','')" using Cons.IH Cons.prems by (simp add: validUTF8_ascii byteOf_def del: validUTF8.simps)
    with Cons Cons.prems show ?thesis using validUTF8_append [of x] by (simp del: validUTF8.simps)
  qed (use Cons.prems in simp)
qed simp

lemma carries_itemOK: "carries w r i \<Longrightarrow> exportable w \<Longrightarrow> itemOK (exportItem r [] []) \<Longrightarrow> itemOK i"
proof -
  assume c: "carries w r i" and w: "exportable w" and r: "itemOK (exportItem r [] [])"
  then obtain dn names where i: "i = exportItem r dn (Join names '','')"
    and dn: "if 0 < ar_DatasourceId r then (\<exists>d \<in> set (rows (datasources w)). Oid d = ar_DatasourceId r \<and> ds_Name d = dn) else dn = []"
    and names: "list_all2 (\<lambda>k n. \<exists>c \<in> set (rows (alert_channels w)). Oid c = k \<and> ac_Name c = n) (ruleNotifyChannelIDs (ar_NotifyChannels r)) names"
    unfolding carries_def by blast
  have "validUTF8 dn" using dn w by (auto simp: exportable_def split: if_splits)
  moreover have "\<forall>n \<in> set names. validUTF8 n"
    using names w by (auto simp: exportable_def list_all2_conv_all_nth in_set_conv_nth) metis
  ultimately show ?thesis using r validUTF8_Join by (simp add: i itemOK_def exportItem_def)
qed

text \<open>C34: the file that an export writes leads back to the same rules. Let its names be UTF-8, and let the importing database (the
  same or another one) have the data sources and the channels by name and none of the rules. If no statement fails, importing the
  file creates exactly the rules that were exported, in their order, and no other: each with all the columns of the original but
  for key, version, times and creator, and with the data source and the channels of the same names, in the same order. What the
  creation normalizes is normalized again: the configuration and the labels, the duration (that of the first trigger), and values
  that are not positive; a rule that was disabled comes back enabled (see \<open>importedForm\<close>).\<close>

theorem export_import_roundtrip:
  assumes w: "exportable w" and v: "importable w v" and exported: "exported = filter (\<lambda>r. Oid r \<in> set ids) (rows (alert_rules w))"
    and rules: "\<forall>r \<in> set exported. itemOK (exportItem r [] []) \<and> importedForm r \<noteq> None \<and> ar_Name r \<notin> ruleNames v"
    and export: "alertrulec_Export ids w = (Inr file, w1)"
  shows "\<exists>res v' new. alertrulec_Import errText (Some u) file v = (Inr res, v') \<and> ir_Created res = length exported \<and> ir_Skipped res = 0 \<and> ir_Failed res = 0 \<and>
    rows (alert_rules v') = rows (alert_rules v) @ new \<and> list_all2 (reimported (u_Name u) w v) exported new"
proof -
  from wp_Inr [OF wp_Export [OF w] export] obtain items where items: "file = jsonIndent 0 (exportFileJson (exportFile items))"
    "exported \<noteq> []" "list_all2 (carries w) exported items" unfolding exported by blast
  have "\<forall>i \<in> set items. itemOK i"
  proof
    fix i assume "i \<in> set items"
    then obtain n where "n < length items" "i = items ! n" by (auto simp: in_set_conv_nth)
    with items(3) have "exported ! n \<in> set exported" "carries w (exported ! n) i" by (auto simp: list_all2_conv_all_nth)
    with rules carries_itemOK [OF _ w] show "itemOK i" by blast
  qed
  from file_roundtrip [OF this] have parse: "parseAlertRuleImportPayload file = Inr items" by (simp add: items(1))
  have ne: "items \<noteq> []" using items(2,3) by auto
  have f: "faultless v" using v by (simp add: importable_def)
  have "wp (alertrulec_Import errText (Some u) file) (\<lambda>res v'. ir_Created res = length exported \<and> ir_Skipped res = 0 \<and> ir_Failed res = 0 \<and>
      (\<exists>new. rows (alert_rules v') = rows (alert_rules v) @ new \<and> list_all2 (reimported (u_Name u) w v) exported new)) (\<lambda>_ _. False) v"
    by (rule wp_Import_names [OF parse ne f], rule wp_mono [OF importItems_all [OF items(3) w v]])
      (use f rules in \<open>auto simp: noResult_def\<close>)
  then show ?thesis by (auto simp: wp_def split: prod.splits sum.splits)
qed

section \<open>Disabling a rule\<close>

lemma updTable_one:
  assumes "table_ok T" and "e \<in> set (rows T)"
  shows "updTable (versionMatch (Oid e) (ResourceVersion e)) us T = T\<lparr>rows := map (\<lambda>s. if s = e then applyUpdates us e else s) (rows T)\<rparr>"
  using table_ok_Oid_eq [OF assms(1) _ assms(2)] by (auto simp: updTable_def updRow_def versionMatch_def)

lemma versioned_changes:
  assumes "e \<in> set (rows T)"
  shows "changedRows (versionMatch (Oid e) (ResourceVersion e)) (versionedUpdates now (ResourceVersion e) us) T \<noteq> []"
proof -
  have "ResourceVersion (applyUpdates (versionedUpdates now (ResourceVersion e) us) e) = ResourceVersion e + 1"
    by (simp add: versionedUpdates_def applyUpdates_def)
  then have "updRow (versionMatch (Oid e) (ResourceVersion e)) (versionedUpdates now (ResourceVersion e) us) e \<noteq> e"
    by (auto simp: updRow_def versionMatch_def)
  with assms show ?thesis by (auto simp: changedRows_def filter_empty_conv)
qed

context db_table
begin

text \<open>Rows that were read are updated one after the other: each of them gets the update, the others stay.\<close>

definition bumped :: "'n pixiu_model_scheme updates \<Rightarrow> int \<Rightarrow> 'n pixiu_model_scheme \<Rightarrow> 'n pixiu_model_scheme" where
  "bumped us now r = applyUpdates (versionedUpdates now (ResourceVersion r) us) r"

lemma wp_update_read:
  assumes "e \<in> set (rows (tget t w))" and "faultless w" and "tuniq t = (\<lambda>_ _. False)"
    and Q: "\<And>now n. Q () (tupd t (updTable (versionMatch (Oid e) (ResourceVersion e)) (versionedUpdates now (ResourceVersion e) us)) (w\<lparr>tick := n\<rparr>))"
  shows "wp (daoUpdate t err (Oid e) (ResourceVersion e) us) Q E w"
  using assms(2,3) Q versioned_changes [OF assms(1)] by (auto simp: daoUpdate_def wp_simps Let_def updConflict_def list_ex_iff)

lemma wp_list: "faultless w \<Longrightarrow> wp (daoList t opts) Q E w = Q (runQuery (buildQuery opts) (rows (tget t w))) (w\<lparr>tick := Suc (tick w)\<rparr>)"
  by (simp add: wp_daoList Let_def)

definition settleRow :: "('n pixiu_model_scheme \<Rightarrow> bool) \<Rightarrow> 'n pixiu_model_scheme updates \<Rightarrow> 'n pixiu_model_scheme \<Rightarrow> ('m env_scheme, goerr, unit) act" where
  "settleRow skip us e = (if skip e then ret () else ignoring (daoUpdate t (Util ErrRecordNotFound) (Oid e) (ResourceVersion e) us))"

lemma wp_settleRows:
  assumes I: "\<And>f v. I v \<Longrightarrow> I (tupd t f v)" "\<And>n v. I v \<Longrightarrow> I (v\<lparr>tick := n\<rparr>)" and us: "keepsOid us" and t: "tuniq t = (\<lambda>_ _. False)"
  shows "I w \<Longrightarrow> table_ok (tget t w) \<Longrightarrow> faultless w \<Longrightarrow> distinct es \<Longrightarrow> set es \<subseteq> set (rows (tget t w)) \<Longrightarrow>
    wp (forEach (settleRow skip us) es) (\<lambda>_ w'. I w' \<and> faultless w' \<and>
      (\<exists>now. rows (tget t w') = map (\<lambda>r. if r \<in> set es \<and> \<not> skip r then bumped us (now r) r else r) (rows (tget t w)))) (\<lambda>_ _. False) w"
proof (induction es arbitrary: w)
  case Nil
  then show ?case by (simp add: wp_simps)
next
  case (Cons e es)
  show ?case
  proof (cases "skip e")
    case True
    have cond: "(r \<in> set (e # es) \<and> \<not> skip r) = (r \<in> set es \<and> \<not> skip r)" for r using True by auto
    have "wp (forEach (settleRow skip us) es) (\<lambda>_ w'. I w' \<and> faultless w' \<and>
      (\<exists>now. rows (tget t w') = map (\<lambda>r. if r \<in> set es \<and> \<not> skip r then bumped us (now r) r else r) (rows (tget t w)))) (\<lambda>_ _. False) w"
      by (rule Cons.IH) (use Cons.prems in auto)
    moreover have "settleRow skip us e = ret ()" using True by (simp add: settleRow_def)
    ultimately show ?thesis unfolding cond by (simp add: wp_simps)
  next
    case False
    have e: "e \<in> set (rows (tget t w))" using Cons.prems(5) by simp
    have step: "wp (forEach (settleRow skip us) es) (\<lambda>_ w'. I w' \<and> faultless w' \<and>
      (\<exists>now. rows (tget t w') = map (\<lambda>r. if r \<in> set (e # es) \<and> \<not> skip r then bumped us (now r) r else r) (rows (tget t w)))) (\<lambda>_ _. False)
      (tupd t (updTable (versionMatch (Oid e) (ResourceVersion e)) (versionedUpdates now (ResourceVersion e) us)) (w\<lparr>tick := n\<rparr>))" (is "wp _ _ _ ?w1") for now n
    proof (rule wp_mono [OF Cons.IH])
      have rows: "rows (tget t ?w1) = map (\<lambda>s. if s = e then bumped us now e else s) (rows (tget t w))"
        using updTable_one [OF Cons.prems(2) e] by (simp add: bumped_def)
      have other: "r \<noteq> bumped us now e" if "r \<in> set es" for r
      proof
        assume r: "r = bumped us now e"
        then have "Oid r = Oid e" using keepsOid_versioned [OF us] by (simp add: bumped_def keepsOid_def)
        then have "r = e" using Cons.prems that by (intro table_ok_Oid_eq [OF Cons.prems(2)]) auto
        with that Cons.prems(4) show False by simp
      qed
      show "I ?w1" using Cons.prems(1) I by simp
      show "table_ok (tget t ?w1)" using Cons.prems(2) us by (simp add: table_ok_updTable)
      show "faultless ?w1" using Cons.prems(3) by (simp add: faultless_def)
      show "distinct es" using Cons.prems(4) by simp
      show "set es \<subseteq> set (rows (tget t ?w1))" using Cons.prems(4,5) unfolding rows by auto
      fix w' assume w': "I w' \<and> faultless w' \<and> (\<exists>now. rows (tget t w') = map (\<lambda>r. if r \<in> set es \<and> \<not> skip r then bumped us (now r) r else r) (rows (tget t ?w1)))"
      then obtain now' where n: "rows (tget t w') = map (\<lambda>r. if r \<in> set es \<and> \<not> skip r then bumped us (now' r) r else r) (rows (tget t ?w1))" by blast
      have "rows (tget t w') = map (\<lambda>r. if r \<in> set (e # es) \<and> \<not> skip r then bumped us ((now'(e := now)) r) r else r) (rows (tget t w))"
        unfolding n rows using False other Cons.prems(4) by auto
      with w' show "I w' \<and> faultless w' \<and>
        (\<exists>now. rows (tget t w') = map (\<lambda>r. if r \<in> set (e # es) \<and> \<not> skip r then bumped us (now r) r else r) (rows (tget t w)))" by blast
    qed simp
    have row: "settleRow skip us e = ignoring (daoUpdate t (Util ErrRecordNotFound) (Oid e) (ResourceVersion e) us)" using False by (simp add: settleRow_def)
    show ?thesis unfolding forEach.simps wp_andThen row wp_ignoring
      by (rule wp_update_read [OF e Cons.prems(3) t]) (rule step)
  qed
qed

end

lemma table_ok_distinct: "table_ok T \<Longrightarrow> distinct (rows T)"
  by (simp add: table_ok_def distinct_map)

lemma recoverFiring_settle: "recoverFiring = alert_events_tab.settleRow (\<lambda>_. False) [(''status'', ae_Status_update (\<lambda>_. AlertEventStatusRecovered))]"
  by (simp add: fun_eq_iff recoverFiring_def alert_events_tab.settleRow_def alertEventUpdate_def)

lemma cancelPending_settle: "cancelPending = alert_notifications_tab.settleRow (\<lambda>n. an_Status n \<noteq> AlertNotificationStatusPending) [(''status'', an_Status_update (\<lambda>_. AlertNotificationStatusFailed))]"
  by (simp add: fun_eq_iff cancelPending_def alert_notifications_tab.settleRow_def alertNotificationUpdate_def)

text \<open>The events and notifications of a rule that was cleaned up; those of other rules are as before.\<close>

definition cleaned :: "int \<Rightarrow> 'm alert_db_scheme \<Rightarrow> 'm alert_db_scheme \<Rightarrow> bool" where
  "cleaned i w w' \<longleftrightarrow> (\<forall>e \<in> set (rows (alert_events w')). ae_RuleId e = i \<longrightarrow> ae_Status e \<noteq> AlertEventStatusFiring) \<and>
     (\<forall>n \<in> set (rows (alert_notifications w')). an_RuleId n = i \<longrightarrow> an_Status n \<noteq> AlertNotificationStatusPending) \<and>
     filter (\<lambda>e. ae_RuleId e \<noteq> i) (rows (alert_events w')) = filter (\<lambda>e. ae_RuleId e \<noteq> i) (rows (alert_events w)) \<and>
     filter (\<lambda>n. an_RuleId n \<noteq> i) (rows (alert_notifications w')) = filter (\<lambda>n. an_RuleId n \<noteq> i) (rows (alert_notifications w))"

lemma filter_map_same: "(\<And>x. P (f x) = P x) \<Longrightarrow> (\<And>x. P x \<Longrightarrow> f x = x) \<Longrightarrow> filter P (map f xs) = filter P xs"
  by (induction xs) auto

lemma bumped_event: "ae_RuleId (alert_events_tab.bumped [(''status'', ae_Status_update (\<lambda>_. s))] now e) = ae_RuleId e"
  "ae_Status (alert_events_tab.bumped [(''status'', ae_Status_update (\<lambda>_. s))] now e) = s"
  by (simp_all add: alert_events_tab.bumped_def versionedUpdates_def)

lemma bumped_notification: "an_RuleId (alert_notifications_tab.bumped [(''status'', an_Status_update (\<lambda>_. s))] now e) = an_RuleId e"
  "an_Status (alert_notifications_tab.bumped [(''status'', an_Status_update (\<lambda>_. s))] now e) = s"
  by (simp_all add: alert_notifications_tab.bumped_def versionedUpdates_def)

lemma recovered_rows:
  assumes "rows' = map (\<lambda>r. if r \<in> set (filter (\<lambda>e. ae_RuleId e = i \<and> ae_Status e = AlertEventStatusFiring) rs) \<and> \<not> False
      then alert_events_tab.bumped [(''status'', ae_Status_update (\<lambda>_. AlertEventStatusRecovered))] (now r) r else r) rs"
  shows "\<forall>e \<in> set rows'. ae_RuleId e = i \<longrightarrow> ae_Status e \<noteq> AlertEventStatusFiring"
    and "filter (\<lambda>e. ae_RuleId e \<noteq> i) rows' = filter (\<lambda>e. ae_RuleId e \<noteq> i) rs"
proof -
  show "\<forall>e \<in> set rows'. ae_RuleId e = i \<longrightarrow> ae_Status e \<noteq> AlertEventStatusFiring"
  proof (intro ballI impI)
    fix e assume "e \<in> set rows'" and rule: "ae_RuleId e = i"
    then obtain r where r: "r \<in> set rs" "e = (if r \<in> set (filter (\<lambda>e. ae_RuleId e = i \<and> ae_Status e = AlertEventStatusFiring) rs) \<and> \<not> False
      then alert_events_tab.bumped [(''status'', ae_Status_update (\<lambda>_. AlertEventStatusRecovered))] (now r) r else r)"
      unfolding assms by auto
    show "ae_Status e \<noteq> AlertEventStatusFiring"
    proof (cases "ae_RuleId r = i \<and> ae_Status r = AlertEventStatusFiring")
      case True
      then show ?thesis using r by (simp only: set_filter mem_Collect_eq if_True simp_thms bumped_event) (simp add: event_status_defs)
    next
      case False
      then show ?thesis using r rule by (simp only: set_filter mem_Collect_eq if_False simp_thms)
    qed
  qed
  show "filter (\<lambda>e. ae_RuleId e \<noteq> i) rows' = filter (\<lambda>e. ae_RuleId e \<noteq> i) rs"
    unfolding assms by (rule filter_map_same) (simp_all add: bumped_event)
qed

lemma cancelled_rows:
  assumes "rows' = map (\<lambda>r. if r \<in> set (filter (\<lambda>n. an_RuleId n = i) rs) \<and> \<not> an_Status r \<noteq> AlertNotificationStatusPending
      then alert_notifications_tab.bumped [(''status'', an_Status_update (\<lambda>_. AlertNotificationStatusFailed))] (now r) r else r) rs"
  shows "\<forall>n \<in> set rows'. an_RuleId n = i \<longrightarrow> an_Status n \<noteq> AlertNotificationStatusPending"
    and "filter (\<lambda>n. an_RuleId n \<noteq> i) rows' = filter (\<lambda>n. an_RuleId n \<noteq> i) rs"
proof -
  show "\<forall>n \<in> set rows'. an_RuleId n = i \<longrightarrow> an_Status n \<noteq> AlertNotificationStatusPending"
  proof (intro ballI impI)
    fix n assume "n \<in> set rows'" and rule: "an_RuleId n = i"
    then obtain r where r: "r \<in> set rs" "n = (if r \<in> set (filter (\<lambda>n. an_RuleId n = i) rs) \<and> \<not> an_Status r \<noteq> AlertNotificationStatusPending
      then alert_notifications_tab.bumped [(''status'', an_Status_update (\<lambda>_. AlertNotificationStatusFailed))] (now r) r else r)"
      unfolding assms by auto
    show "an_Status n \<noteq> AlertNotificationStatusPending"
    proof (cases "an_RuleId r = i \<and> an_Status r = AlertNotificationStatusPending")
      case True
      then show ?thesis using r by (simp only: set_filter mem_Collect_eq if_True simp_thms bumped_notification) (simp add: notification_status_defs)
    next
      case False
      then show ?thesis using r rule by (simp only: set_filter mem_Collect_eq simp_thms split: if_splits)
    qed
  qed
  show "filter (\<lambda>n. an_RuleId n \<noteq> i) rows' = filter (\<lambda>n. an_RuleId n \<noteq> i) rs"
    unfolding assms by (rule filter_map_same) (simp_all add: bumped_notification)
qed

lemma wp_cleanupOnDisable:
  assumes w: "faultless w" "table_ok (alert_events w)" "table_ok (alert_notifications w)" and i: "i \<noteq> 0"
  shows "wp (cleanupOnDisable i) (\<lambda>_ w'. faultless w' \<and> alert_rules w' = alert_rules w \<and> cleaned i w w') (\<lambda>_ _. False) w"
proof -
  let ?es = "filter (\<lambda>e. ae_RuleId e = i \<and> ae_Status e = AlertEventStatusFiring) (rows (alert_events w))"
  let ?ns = "filter (\<lambda>n. an_RuleId n = i) (rows (alert_notifications w))"
  define E where "E v \<longleftrightarrow> alert_rules v = alert_rules w \<and> alert_notifications v = alert_notifications w" for v :: "'a alert_db_scheme"
  define J where "J v' v \<longleftrightarrow> alert_rules v = alert_rules w \<and> alert_events v = alert_events v'" for v' v :: "'a alert_db_scheme"
  have events: "wp (forEach recoverFiring ?es) (\<lambda>_ v. E v \<and> faultless v \<and> (\<exists>now. rows (alert_events v) =
      map (\<lambda>r. if r \<in> set ?es \<and> \<not> False then alert_events_tab.bumped [(''status'', ae_Status_update (\<lambda>_. AlertEventStatusRecovered))] (now r) r else r)
        (rows (alert_events w)))) (\<lambda>_ _. False) (w\<lparr>tick := n\<rparr>)" for n
    using alert_events_tab.wp_settleRows [of E "[(''status'', ae_Status_update (\<lambda>_. AlertEventStatusRecovered))]" "w\<lparr>tick := n\<rparr>" ?es "\<lambda>_. False"] w table_ok_distinct [OF w(2)]
    by (simp add: recoverFiring_settle E_def keepsOid_def)
  have notifications: "wp (forEach cancelPending ?ns) (\<lambda>_ v. J v' v \<and> faultless v \<and> (\<exists>now. rows (alert_notifications v) =
      map (\<lambda>r. if r \<in> set ?ns \<and> \<not> an_Status r \<noteq> AlertNotificationStatusPending
          then alert_notifications_tab.bumped [(''status'', an_Status_update (\<lambda>_. AlertNotificationStatusFailed))] (now r) r else r)
        (rows (alert_notifications w)))) (\<lambda>_ _. False) (v'\<lparr>tick := n\<rparr>)" if v': "E v'" "faultless v'" for v' n
    using alert_notifications_tab.wp_settleRows [of "J v'" "[(''status'', an_Status_update (\<lambda>_. AlertNotificationStatusFailed))]" "v'\<lparr>tick := n\<rparr>" ?ns
        "\<lambda>r. an_Status r \<noteq> AlertNotificationStatusPending"] v' w table_ok_distinct [OF w(3)]
    by (simp add: cancelPending_settle E_def J_def keepsOid_def)
  have fin: "alert_rules v = alert_rules w \<and> cleaned i w v"
    if "E v'" "J v' v" and e: "rows (alert_events v') = map (\<lambda>r. if r \<in> set ?es \<and> \<not> False
          then alert_events_tab.bumped [(''status'', ae_Status_update (\<lambda>_. AlertEventStatusRecovered))] (now r) r else r) (rows (alert_events w))"
      and m: "rows (alert_notifications v) = map (\<lambda>r. if r \<in> set ?ns \<and> \<not> an_Status r \<noteq> AlertNotificationStatusPending
          then alert_notifications_tab.bumped [(''status'', an_Status_update (\<lambda>_. AlertNotificationStatusFailed))] (now' r) r else r) (rows (alert_notifications w))"
    for v' v now now'
    using that(1,2) recovered_rows [OF e] cancelled_rows [OF m] unfolding cleaned_def E_def J_def by metis
  have eventsOf: "runQuery (buildQuery [WithAlertRuleId ae_RuleId i, WithAlertEventStatus ae_Status AlertEventStatusFiring]) (rows (alert_events w)) = ?es"
    and notificationsOf: "runQuery (buildQuery [WithAlertRuleId an_RuleId i]) (rows (alert_notifications w)) = ?ns"
    using i by (simp_all add: runQuery_def buildQuery_def emptyQuery_def Where_def WithAlertRuleId_def WithAlertEventStatus_def event_status_defs conj_commute)
  let ?Q = "\<lambda>_ v. faultless v \<and> alert_rules v = alert_rules w \<and> cleaned i w v"
  have "wp (forEach recoverFiring ?es) (\<lambda>_. wp (daoList alert_notifications_t [WithAlertRuleId an_RuleId i])
      (\<lambda>ns. wp (forEach cancelPending ns) ?Q (\<lambda>_ _. False)) (\<lambda>_ _. False)) (\<lambda>_ _. False) (w\<lparr>tick := n\<rparr>)" for n
  proof (rule wp_mono [OF events])
    fix x v assume "E v \<and> faultless v \<and> (\<exists>now. rows (alert_events v) =
      map (\<lambda>r. if r \<in> set ?es \<and> \<not> False then alert_events_tab.bumped [(''status'', ae_Status_update (\<lambda>_. AlertEventStatusRecovered))] (now r) r else r)
        (rows (alert_events w)))"
    then obtain now where v: "E v" "faultless v" and e: "rows (alert_events v) =
      map (\<lambda>r. if r \<in> set ?es \<and> \<not> False then alert_events_tab.bumped [(''status'', ae_Status_update (\<lambda>_. AlertEventStatusRecovered))] (now r) r else r)
        (rows (alert_events w))" by blast
    have "wp (forEach cancelPending ?ns) ?Q (\<lambda>_ _. False) (v\<lparr>tick := Suc (tick v)\<rparr>)"
      by (rule wp_mono [OF notifications [OF v]]) (use fin [OF v(1) _ e] in blast)+
    then show "wp (daoList alert_notifications_t [WithAlertRuleId an_RuleId i]) (\<lambda>ns. wp (forEach cancelPending ns) ?Q (\<lambda>_ _. False)) (\<lambda>_ _. False) v"
      using v notificationsOf by (simp add: alert_notifications_tab.wp_list E_def)
  qed
  then show ?thesis
    by (simp add: cleanupOnDisable_def alertEventList_def alertNotificationList_def wp_onResult wp_andThen wp_fail alert_events_tab.wp_list [OF w(1)] eventsOf)
qed

lemma enabled_updates: "ur_Enabled req = Some b \<Longrightarrow> ruleUpdates req = Inr updates \<Longrightarrow> updates \<noteq> []"
proof -
  assume e: "ur_Enabled req = Some b" and u: "ruleUpdates req = Inr updates"
  have "setField c f (Some v) \<noteq> []" for c and f :: "(bool \<Rightarrow> bool) \<Rightarrow> AlertRule \<Rightarrow> AlertRule" and v by (simp add: setField_def)
  then have "ruleFieldUpdates req \<noteq> []" unfolding ruleFieldUpdates_def e by simp
  moreover obtain us where "updates = ruleFieldUpdates req @ us"
    using u unfolding ruleUpdates_def by (auto split: sum.splits option.splits)
  ultimately show ?thesis by simp
qed

text \<open>C36: Where no statement fails, a request that disables a rule leaves none of the events of the rule firing and none
  of its notifications pending, and leaves the events and notifications of every other rule as they were: also
  when the update of the rule itself is refused because its version is stale.\<close>

theorem disable_cleans:
  assumes "faultless w" and "table_ok (alert_events w)" and "table_ok (alert_notifications w)" and "i \<noteq> 0"
    and "i \<in> Oid ` set (rows (alert_rules w))" and "ur_Enabled req = Some False" and "ruleUpdates req = Inr updates"
  shows "cleaned i w (snd (alertrulec_Update i req w)) \<and>
    (fst (alertrulec_Update i req w) = Inr () \<or> fst (alertrulec_Update i req w) = Inl (notFoundError ''alert rule''))"
proof -
  have "find (\<lambda>r. Oid r = i) (rows (alert_rules w)) \<noteq> None" using assms(5) by (auto simp: find_None_iff)
  then obtain r where r: "find (\<lambda>r. Oid r = i) (rows (alert_rules w)) = Some r" by blast
  have ne: "updates \<noteq> []" by (rule enabled_updates [OF assms(6,7)])
  have tick: "cleaned i w v" if "cleaned i (w\<lparr>tick := n\<rparr>) v" for n v using that by (simp add: cleaned_def)
  have guarded: "wp (writeOr ''alert rule'' (alertRuleUpdate i v updates)) (\<lambda>_. cleaned i w) (\<lambda>e u. cleaned i w u \<and> e = notFoundError ''alert rule'') u"
    if "faultless u" "cleaned i w u" for u v
    using that by (auto simp: writeOr_def alertRuleUpdate_def daoUpdate_def wp_simps Let_def updConflict_def IsRecordNotFound_def cleaned_def list_ex_iff)
  have clean: "wp (ignoring (cleanupOnDisable i)) (\<lambda>_ u. faultless u \<and> cleaned i w u) (\<lambda>_ _. False) (w\<lparr>tick := n\<rparr>)" for n
    unfolding wp_ignoring by (rule wp_mono [OF wp_cleanupOnDisable [of "w\<lparr>tick := n\<rparr>", OF _ _ _ assms(4)]]) (use assms(1-3) tick in auto)
  have body: "wp (ignoring (cleanupOnDisable i)) (\<lambda>_. wp (writeOr ''alert rule'' (alertRuleUpdate i v updates)) (\<lambda>_. cleaned i w)
      (\<lambda>e u. cleaned i w u \<and> e = notFoundError ''alert rule'')) (\<lambda>e u. cleaned i w u \<and> e = notFoundError ''alert rule'') (w\<lparr>tick := n\<rparr>)" for n v
    by (rule wp_mono [OF clean]) (use guarded in auto)
  have get: "wp (alertrulec_preUpdate i) Q E w = Q r (w\<lparr>tick := Suc (tick w)\<rparr>)" for Q E
    using assms(1) r by (simp add: alertrulec_preUpdate_def foundOr_def alertRuleGet_def daoGet_def wp_orInternal wp_orNil wp_sqlFirst wp_ret Let_def)
  have "wp (alertrulec_Update i req) (\<lambda>_. cleaned i w) (\<lambda>e v. cleaned i w v \<and> e = notFoundError ''alert rule'') w"
    unfolding alertrulec_Update_def wp_andThen get orFail_def assms(7) sum.case using ne body by (simp add: assms(6) wp_andThen)
  then show ?thesis by (auto simp: wp_def split: prod.splits sum.splits)
qed

section \<open>Stored rules\<close>

text \<open>C37: A rule whose creation succeeds is appended to the table with the name of the request, is enabled, is
  evaluated at a positive interval and repeats its notification at a positive step (zero and false are replaced by
  the defaults of the columns), and has a configuration in normal form, with a query and at least one trigger that
  can be evaluated.\<close>

theorem rule_Create_stored:
  assumes "alertrulec_Create ctx req w = (Inr (), w')"
  shows "\<exists>r sev dur. rows (alert_rules w') = rows (alert_rules w) @ [r] \<and> ar_Name r = qr_Name req \<and> ar_Enabled r \<and>
     0 < ar_EvalInterval r \<and> 0 < ar_NotifyRepeatStep r \<and> NormalizeRuleConfig (ar_RuleConfig r) = Some (ar_RuleConfig r, sev, dur) \<and>
     GetRulePromQl r \<noteq> [] \<and> ListAlertTriggers r \<noteq> [] \<and> list_all (\<lambda>t. isValidThresholdCondition (et_Condition t)) (ListAlertTriggers r)"
proof -
  have "wp (alertrulec_Create ctx req) (\<lambda>_ w'. \<exists>r sev dur. rows (alert_rules w') = rows (alert_rules w) @ [r] \<and> ar_Name r = qr_Name req \<and> ar_Enabled r \<and>
     0 < ar_EvalInterval r \<and> 0 < ar_NotifyRepeatStep r \<and> NormalizeRuleConfig (qr_RuleConfig req) = Some (ar_RuleConfig r, sev, dur)) (\<lambda>_ _. True) w"
    by (auto simp: alertrulec_Create_def alertRuleCreate_def daoCreate_def wp_simps Let_def insTable_def newAlertRule_def alertRuleDefaults_def
      UserNameFromContext_def GetUserFromContext_def pixiu_model.defs NormalizeEvalInterval_def ResolveNotifyRepeatStep_def NormalizeNotifyRepeatStep_def
      DefaultEvalInterval_def DefaultNotifyRepeatStep_def split: option.splits sum.splits)
  from wp_Inr [OF this assms] obtain r sev dur where r: "rows (alert_rules w') = rows (alert_rules w) @ [r]" "ar_Name r = qr_Name req" "ar_Enabled r"
     "0 < ar_EvalInterval r" "0 < ar_NotifyRepeatStep r" and n: "NormalizeRuleConfig (qr_RuleConfig req) = Some (ar_RuleConfig r, sev, dur)" by blast
  have "r\<lparr>ar_RuleConfig := ar_RuleConfig r\<rparr> = r" by simp
  with NormalizeRuleConfig_stored [OF n, of r] r show ?thesis by (intro exI [of _ r]) (auto simp: Let_def list_all_iff)
qed

text \<open>A sample item, and a world with no rule.\<close>

definition demoRuleConfig :: string where
  "demoRuleConfig = jsonPrint (configJson ''up'' [\<lparr>at_Severity = 9, at_Condition = '' >= 80'', at_Duration = - 1\<rparr>])"

lemma demo_texts:
  "FormatInt 9 = ''9''" "FormatInt (- 1) = ''-1''" "escapeJson ''up'' = ''up''" "escapeJson ''prom_ql'' = ''prom_ql''"
  "escapeJson ''triggers'' = ''triggers''" "escapeJson ''severity'' = ''severity''" "escapeJson ''condition'' = ''condition''"
  "escapeJson ''duration'' = ''duration''" "escapeJson '' >= 80'' = CHR '' '' # CHR 0x5C # ''u003e= 80''"
  by code_simp+

lemma validUTF8_demoRuleConfig: "validUTF8 demoRuleConfig"
  by (simp add: demoRuleConfig_def configJson_def triggerJson_def quoteJson_def demo_texts validUTF8_ascii byteOf_def del: validUTF8.simps(2) escapeJson.simps)

definition demoItem :: AlertRuleExportItem where
  "demoItem = zeroExportItem\<lparr>qr_Name := ''cpu'', qr_RuleConfig := demoRuleConfig\<rparr>"

definition demoSources :: datasource_db where
  "demoSources = alert_db.extend demoAlertDb \<lparr>datasources = \<lparr>rows = [], next_id = 1\<rparr>\<rparr>"

lemma demoSources_facts: "faultless demoSources" "rows (alert_rules demoSources) = []" "ruleNames demoSources = {}"
  by (simp_all add: demoSources_def demoAlertDb_def faultless_def alert_db.defs ruleNames_def)

lemma demo_Create: "faultless w \<Longrightarrow> wp (alertrulec_Create (Some (demoUser 1 0)) (CreateAlertRuleRequest.truncate demoItem)) (\<lambda>_ _. True) (\<lambda>_ _. False) w"
proof -
  assume w: "faultless w"
  from NormalizeRuleConfig_stored_witness obtain c where c: "NormalizeRuleConfig demoRuleConfig = Some (c, AlertSeverityWarning, 0)"
    unfolding demoRuleConfig_def by blast
  show ?thesis using w
    by (simp add: alertrulec_Create_def demoItem_def zeroExportItem_def CreateAlertRuleRequest.defs c NormalizeLabelsJSON_def NormalizeJSON_def
      alertRuleCreate_def daoCreate_def wp_simps Let_def UserNameFromContext_def GetUserFromContext_def list_ex_iff)
qed

lemma rule_Create_stored_witness:
  "\<exists>w' r. alertrulec_Create (Some (demoUser 1 0)) (CreateAlertRuleRequest.truncate demoItem) demoSources = (Inr (), w') \<and>
     rows (alert_rules w') = [r] \<and> ar_Name r = ''cpu'' \<and> ListAlertTriggers r \<noteq> []"
proof -
  obtain w' where c: "alertrulec_Create (Some (demoUser 1 0)) (CreateAlertRuleRequest.truncate demoItem) demoSources = (Inr (), w')"
    using demo_Create [OF demoSources_facts(1)] by (auto simp: wp_def split: prod.splits sum.splits)
  from rule_Create_stored [OF c] c show ?thesis
    by (auto simp: demoSources_facts demoItem_def CreateAlertRuleRequest.defs)
qed

text \<open>A database with one disabled rule, its data source and its channel, and another one that has them under other keys.\<close>

definition demoExported :: AlertRule where
  "demoExported = demoRule\<lparr>ar_RuleConfig := demoRuleConfig, ar_DatasourceId := 3, ar_NotifyChannels := ''7'', ar_Enabled := False, ar_ScopeValue := ''prod''\<rparr>"

definition demoNamed :: "int \<Rightarrow> int \<Rightarrow> AlertRule list \<Rightarrow> datasource_db" where
  "demoNamed d c rs = demoSources\<lparr>alert_rules := \<lparr>rows = rs, next_id = 2\<rparr>,
     datasources := \<lparr>rows = [\<lparr>Oid = d, GmtCreate = 0, GmtModified = 0, ResourceVersion = 0, ds_UserId = 1, ds_ClusterName = [], ds_Name = ''prom'', ds_Type = 0,
        ds_SubType = [], ds_Config = [], ds_IsDefault = False, ds_External = True, ds_Description = []\<rparr>], next_id = d + 1\<rparr>,
     alert_channels := \<lparr>rows = [demoChannel\<lparr>Oid := c\<rparr>], next_id = c + 1\<rparr>\<rparr>"

lemma demoNamed_facts: "rows (alert_rules (demoNamed d c rs)) = rs" "map Oid (rows (datasources (demoNamed d c rs))) = [d]"
  "map ds_Name (rows (datasources (demoNamed d c rs))) = [''prom'']" "map Oid (rows (alert_channels (demoNamed d c rs))) = [c]"
  "map ac_Name (rows (alert_channels (demoNamed d c rs))) = [''ops'']" "faultless (demoNamed d c rs)"
  by (simp_all add: demoNamed_def demoChannel_def demoSources_def demoAlertDb_def faultless_def alert_db.defs)

lemma demoNamed_portable: "exportable (demoNamed 3 7 [demoExported])" "importable (demoNamed 3 7 [demoExported]) (demoNamed 5 9 [])"
proof -
  have plain: "plainName ''ops''" by (simp add: plainName_def TrimSpace_def isSpace_def)
  have utf8: "validUTF8 ''ops''" "validUTF8 ''prom''" by (simp_all add: validUTF8_ascii byteOf_def del: validUTF8.simps(2))
  show "exportable (demoNamed 3 7 [demoExported])"
    using demoNamed_facts(6) plain utf8 by (simp add: exportable_def table_ok_def del: validUTF8.simps) (simp add: demoNamed_def demoChannel_def del: validUTF8.simps)
  show "importable (demoNamed 3 7 [demoExported]) (demoNamed 5 9 [])"
    using demoNamed_facts(6) by (simp add: importable_def table_ok_def) (simp add: demoNamed_def demoChannel_def int64_def minInt64_def maxInt64_def)
qed

lemma export_import_roundtrip_witness:
  "\<exists>file w1 res v' s. alertrulec_Export [1] (demoNamed 3 7 [demoExported]) = (Inr file, w1) \<and>
     alertrulec_Import (\<lambda>_. []) (Some (demoUser 1 0)) file (demoNamed 5 9 []) = (Inr res, v') \<and> ir_Created res = 1 \<and>
     rows (alert_rules v') = [s] \<and> ar_Name s = ''cpu'' \<and> ar_ScopeValue s = ''prod'' \<and> ar_Enabled s \<and> ruleNotifyChannelIDs (ar_NotifyChannels s) = [9] \<and> ar_DatasourceId s = 5"
proof -
  let ?w = "demoNamed 3 7 [demoExported]" and ?v = "demoNamed 5 9 []"
  have "FormatInt 7 = ''7''" by code_simp
  then have ids: "ruleNotifyChannelIDs ''7'' = [7]" using ruleNotifyChannelIDs_Join [of "[7]"] by (simp add: int64_def minInt64_def maxInt64_def)
  have exported: "[demoExported] = filter (\<lambda>r. Oid r \<in> set [1]) (rows (alert_rules ?w))"
    by (simp add: demoNamed_facts demoExported_def demoRule_def)
  have "wp (alertrulec_Export [1]) (\<lambda>_ _. True) (\<lambda>_ _. False) ?w"
    by (simp add: alertrulec_Export_def alertRuleList_def datasourceList_def alertChannelList_def wp_orInternal wp_andThen wp_daoList IDIn_query Let_def demoExported_def
        demoRule_def demoNamed_def demoSources_def demoAlertDb_def alert_db.defs demoChannel_def ids lookupNames_def wp_onResult modelToExportItem_def nameMap_def lookupAll_def orFail_def wp_ret)
  then obtain exported_file w1 where export: "alertrulec_Export [1] ?w = (Inr exported_file, w1)" by (auto simp: wp_def split: prod.splits sum.splits)
  have "itemOK (exportItem demoExported [] [])"
    by (simp add: itemOK_def exportItem_def demoExported_def demoRule_def validUTF8_demoRuleConfig validUTF8_ascii byteOf_def int64_def minInt64_def maxInt64_def
        NormalizeEvalInterval_def NormalizeNotifyRepeatStep_def NormalizeNotifyMaxNumber_def NormalizeEnableTime_def TrimSpace_def isSpace_def
        AlertRuleTypeMetric_def del: validUTF8.simps(2))
  moreover have "importedForm demoExported \<noteq> None"
    using NormalizeRuleConfig_stored_witness
    by (auto simp: importedForm_def demoExported_def demoRule_def NormalizeLabelsJSON_def NormalizeJSON_def demoRuleConfig_def split: option.splits)
  ultimately have rules: "\<forall>r \<in> set [demoExported]. itemOK (exportItem r [] []) \<and> importedForm r \<noteq> None \<and> ar_Name r \<notin> ruleNames ?v"
    by (simp add: ruleNames_def demoNamed_facts)
  from export_import_roundtrip [OF demoNamed_portable exported rules export, of "\<lambda>_. []" "demoUser 1 0"] obtain res v' s where
    i: "alertrulec_Import (\<lambda>_. []) (Some (demoUser 1 0)) exported_file ?v = (Inr res, v')" "ir_Created res = 1" "rows (alert_rules v') = [s]"
    and s: "reimported (u_Name (demoUser 1 0)) ?w ?v demoExported s"
    by (auto simp: demoNamed_facts list_all2_Cons1)
  from s have d: "nameOf ds_Name (datasources ?v) (ar_DatasourceId s) = Some ''prom''"
    and c: "map (nameOf ac_Name (alert_channels ?v)) (ruleNotifyChannelIDs (ar_NotifyChannels s)) = [Some ''ops'']"
    by (auto simp: reimported_def demoExported_def ids nameOf_def demoNamed_def demoChannel_def)
  have "ar_DatasourceId s = 5" using d by (auto simp: nameOf_def demoNamed_def split: if_splits)
  moreover have "ruleNotifyChannelIDs (ar_NotifyChannels s) = [9]" using c by (auto simp: nameOf_def demoNamed_def demoChannel_def split: if_splits)
  moreover have "ar_Name s = ''cpu'' \<and> ar_ScopeValue s = ''prod'' \<and> ar_Enabled s"
  proof -
    from s obtain r' where r': "importedForm demoExported = Some r'" and e: "s = r'\<lparr>Oid := Oid s, ResourceVersion := 0, GmtCreate := GmtCreate s,
       GmtModified := GmtModified s, ar_CreatedBy := u_Name (demoUser 1 0), ar_DatasourceId := ar_DatasourceId s, ar_NotifyChannels := ar_NotifyChannels s\<rparr>"
      unfolding reimported_def by blast
    have "ar_Name r' = ''cpu'' \<and> ar_ScopeValue r' = ''prod'' \<and> ar_Enabled r'"
      using r' by (auto simp: importedForm_def demoExported_def demoRule_def split: option.splits sum.splits)
    then show ?thesis by (subst (1 2 3) e) simp
  qed
  ultimately show ?thesis using export i by blast
qed

lemma import_again_witness:
  "\<exists>r w1 r' w2. alertrulec_Import (\<lambda>_. []) (Some (demoUser 1 0)) (jsonIndent 0 (exportFileJson (exportFile [demoItem]))) demoSources = (Inr r, w1) \<and> ir_Created r = 1 \<and>
     alertrulec_Import (\<lambda>_. []) (Some (demoUser 1 0)) (jsonIndent 0 (exportFileJson (exportFile [demoItem]))) w1 = (Inr r', w2) \<and> ir_Created r' = 0 \<and> ir_Skipped r' = 1"
proof -
  let ?file = "jsonIndent 0 (exportFileJson (exportFile [demoItem]))"
  have "\<forall>i \<in> set [demoItem]. itemOK i"
    by (simp add: demoItem_def itemOK_def zeroExportItem_def validUTF8_demoRuleConfig validUTF8_ascii byteOf_def int64_def minInt64_def maxInt64_def del: validUTF8.simps(2))
  from file_roundtrip [OF this] have items: "parseAlertRuleImportPayload ?file = Inr [demoItem]" .
  have "resolveImportIDs demoItem ds ch = Inr demoItem" for ds ch by (simp add: resolveImportIDs_def demoItem_def zeroExportItem_def)
  then have "wp (importItems (\<lambda>_. []) (Some (demoUser 1 0)) {} ds ch 0 noResult [demoItem]) (\<lambda>r _. ir_Created r = 1 \<and> ir_Failed r = 0 \<and> ir_Skipped r = 0) (\<lambda>_ _. False)
      (demoSources\<lparr>tick := n\<rparr>)" for ds ch n
    using demoSources_facts(1) by (auto simp: Let_def wp_onResult wp_ret noResult_def intro!: wp_mono [OF demo_Create])
  then have "wp (alertrulec_Import (\<lambda>_. []) (Some (demoUser 1 0)) ?file) (\<lambda>r _. ir_Created r = 1 \<and> ir_Failed r = 0 \<and> ir_Skipped r = 0) (\<lambda>_ _. False) demoSources"
    by (intro wp_Import [OF items _ demoSources_facts(1)]) (simp_all add: demoSources_facts(3))
  then obtain r w1 where first: "alertrulec_Import (\<lambda>_. []) (Some (demoUser 1 0)) ?file demoSources = (Inr r, w1)"
    and r: "ir_Created r = 1" "ir_Failed r = 0" "ir_Skipped r = 0"
    by (auto simp: wp_def split: prod.splits sum.splits)
  from import_again [OF first r(2) demoSources_facts(1), of "\<lambda>_. []" "Some (demoUser 1 0)"] r first show ?thesis by auto
qed

definition demoDisable :: UpdateAlertRuleRequest where
  "demoDisable = \<lparr>ur_ResourceVersion = 9, ur_Name = None, ur_Description = None, ur_RuleType = None, ur_Duration = None, ur_EvalInterval = None,
     ur_NotifyRepeatStep = None, ur_NotifyMaxNumber = None, ur_ScopeType = None, ur_ScopeValue = None, ur_NotifyChannels = None, ur_NotifyTemplate = None,
     ur_RuleConfig = None, ur_EnableDaysOfWeek = None, ur_EnableStime = None, ur_EnableEtime = None, ur_DatasourceId = None, ur_Enabled = Some False,
     ur_Extension = None, ur_Labels = None\<rparr>"

lemma disable_cleans_witness:
  "cleaned 1 (demoAlertDb\<lparr>alert_rules := \<lparr>rows = [demoRule], next_id = 2\<rparr>, alert_events := \<lparr>rows = [demoEvent], next_id = 2\<rparr>\<rparr>)
     (snd (alertrulec_Update 1 demoDisable (demoAlertDb\<lparr>alert_rules := \<lparr>rows = [demoRule], next_id = 2\<rparr>, alert_events := \<lparr>rows = [demoEvent], next_id = 2\<rparr>\<rparr>)))"
proof -
  let ?w = "demoAlertDb\<lparr>alert_rules := \<lparr>rows = [demoRule], next_id = 2\<rparr>, alert_events := \<lparr>rows = [demoEvent], next_id = 2\<rparr>\<rparr>"
  have "faultless ?w" "table_ok (alert_events ?w)" "table_ok (alert_notifications ?w)" "1 \<in> Oid ` set (rows (alert_rules ?w))"
    by (simp_all add: faultless_def demoAlertDb_def table_ok_def demoEvent_def demoRule_def)
  moreover have "ruleUpdates demoDisable = Inr [(''enabled'', ar_Enabled_update (\<lambda>_. False))]"
    by (simp add: ruleUpdates_def ruleFieldUpdates_def demoDisable_def setField_def)
  ultimately show ?thesis using disable_cleans [of ?w 1 demoDisable] by (simp add: demoDisable_def)
qed

end
