(* ===== verification/DatasourceProps.thy ===== *)
theory DatasourceProps
  imports Datasource PlanSpecs
begin

text \<open>
  What the data source controller guarantees: in one cluster and of one type the names are unique and at most
  one source is the default, as far as sources are created; and what a stored configuration keeps.
\<close>

section \<open>Names and the default\<close>

definition dsUnique :: "Datasource list \<Rightarrow> bool" where
  "dsUnique ds \<longleftrightarrow> (\<forall>a \<in> set ds. \<forall>b \<in> set ds. Oid a \<noteq> Oid b \<longrightarrow> ds_ClusterName a = ds_ClusterName b \<longrightarrow> ds_Type a = ds_Type b \<longrightarrow>
     ds_Name a \<noteq> ds_Name b \<and> \<not> (ds_IsDefault a \<and> ds_IsDefault b))"

definition peers :: "'r CreateDatasourceRequest_scheme \<Rightarrow> Datasource list \<Rightarrow> Datasource list" where
  "peers req = runQuery (buildQuery [WithClusterName ds_ClusterName (qd_ClusterName req), WithDatasourceType (qd_Type req)])"

lemma peers_same: "d \<in> set ds \<Longrightarrow> ds_ClusterName d = qd_ClusterName req \<Longrightarrow> ds_Type d = qd_Type req \<Longrightarrow> d \<in> set (peers req ds)"
  by (simp add: peers_def runQuery_def buildQuery_def emptyQuery_def Where_def WithClusterName_def WithDatasourceType_def)

definition clearOf :: "'r CreateDatasourceRequest_scheme \<Rightarrow> Datasource \<Rightarrow> bool" where
  "clearOf req d \<longleftrightarrow> \<not> (qd_IsDefault req \<and> ds_IsDefault d) \<and> ds_Name d \<noteq> qd_Name req"

lemma wp_checkPeer: "wp (checkPeer req d) Q (\<lambda>_. E) w = (if clearOf req d then Q () w else E w)"
  by (simp add: checkPeer_def clearOf_def wp_ret wp_fail)

lemma wp_checkPeers: "wp (forEach (checkPeer req) ds) (\<lambda>_ w'. w' = w \<and> (\<forall>d \<in> set ds. clearOf req d)) (\<lambda>_ w'. w' = w) w"
proof (induction ds)
  case (Cons d ds)
  then show ?case by (simp add: wp_andThen wp_checkPeer)
qed (simp add: wp_ret)

lemma wp_dsPreCreate: "wp (dsPreCreate req) (\<lambda>_ w'. datasources w' = datasources w \<and> (\<forall>d \<in> set (peers req (rows (datasources w))). clearOf req d))
     (\<lambda>_ w'. datasources w' = datasources w) w"
proof -
  have "wp (forEach (checkPeer req) (peers req (rows (datasources w)))) (\<lambda>_ w'. datasources w' = datasources w \<and>
     (\<forall>d \<in> set (peers req (rows (datasources w))). clearOf req d)) (\<lambda>_ w'. datasources w' = datasources w) (w\<lparr>tick := n\<rparr>)" for n
    by (rule wp_mono [OF wp_checkPeers]) auto
  then show ?thesis by (auto simp: dsPreCreate_def wp_orInternal datasourceList_def wp_daoList Let_def peers_def [symmetric] split: option.split)
qed

lemma validate_request: "validateRedisConstraint req = Inr req' \<Longrightarrow> qd_Name req' = qd_Name req \<and> qd_ClusterName req' = qd_ClusterName req \<and>
    qd_Type req' = qd_Type req \<and> qd_IsDefault req' = qd_IsDefault req \<and> qd_SubType req' = qd_SubType req \<and> qd_External req' = qd_External req"
  by (auto simp: validateRedisConstraint_def badRequest_def Let_def split: if_splits option.splits sum.splits)

lemma dsUnique_insert:
  assumes ok: "table_ok T" and u: "dsUnique (rows T)"
    and p: "\<forall>d \<in> set (peers req (rows T)). clearOf req d"
    and r: "ds_ClusterName r = qd_ClusterName req" "ds_Type r = qd_Type req" "ds_Name r = qd_Name req" "ds_IsDefault r = qd_IsDefault req"
  shows "dsUnique (rows (insTable r T))"
proof -
  have "ds_Name d \<noteq> qd_Name req \<and> \<not> (qd_IsDefault req \<and> ds_IsDefault d)" if "d \<in> set (rows T)" "ds_ClusterName d = qd_ClusterName req" "ds_Type d = qd_Type req" for d
    using p peers_same [OF that] by (auto simp: clearOf_def)
  with u r show ?thesis unfolding dsUnique_def insTable_def by (simp add: ball_Un) metis
qed

text \<open>C38: Creating a data source keeps the table well formed and free of two sources of one cluster and one type that
  have the same name or are both the default, whatever the request and whichever statement fails.\<close>

theorem datasource_Create_unique:
  "keeps (\<lambda>w. table_ok (datasources w) \<and> dsUnique (rows (datasources w))) (datasourcec_Create req)"
proof (rule keepsI)
  fix w :: "'a datasource_db_scheme" assume w: "table_ok (datasources w) \<and> dsUnique (rows (datasources w))"
  let ?I = "\<lambda>w. table_ok (datasources w) \<and> dsUnique (rows (datasources w))"
  show "wp (datasourcec_Create req) (\<lambda>_. ?I) (\<lambda>_. ?I) w"
  proof (cases "validateRedisConstraint req")
    case (Inr req1)
    have create: "wp (datasourceCreate (newDatasource req1 cfg)) (\<lambda>_. ?I) (\<lambda>_. ?I) v"
      if "datasources v = datasources w" and p: "\<forall>d \<in> set (peers req1 (rows (datasources w))). clearOf req1 d" for v cfg
      using w that(1) dsUnique_insert [OF _ _ p] by (auto simp: datasourceCreate_def daoCreate_def wp_simps Let_def newDatasource_def pixiu_model.defs table_ok_insTable split: option.split)
    show ?thesis unfolding datasourcec_Create_def orFail_def Inr sum.case wp_andThen
      by (rule wp_mono [OF wp_dsPreCreate]) (use w create in \<open>auto simp: wp_simps split: sum.splits\<close>)
  qed (use w in \<open>simp add: datasourcec_Create_def orFail_def wp_fail\<close>)
qed

end
