(* ===== verification/ClusterDb.thy ===== *)
theory ClusterDb
  imports PlanDb GoNet
begin

text \<open>
  The tables behind the access to clusters: the grants of \<open>pkg/db/model/permission.go\<close> and the access tokens
  of \<open>pkg/db/model/cluster_access_token.go\<close>, their DAO methods (\<open>pkg/db/permission.go\<close>,
  \<open>pkg/db/cluster_access_token.go\<close>) and the query options they need. The clusters themselves are in
  \<open>PlanDb\<close>. The guarded update of a grant is an instance of \<open>versioned_dao\<close>.
\<close>

section \<open>Rows\<close>

definition PermissionPTypeReadonly :: int where "PermissionPTypeReadonly = 0"
definition PermissionPTypeCustom :: int where "PermissionPTypeCustom = 1"
definition PermissionPTypeAdmin :: int where "PermissionPTypeAdmin = 2"

record Permission = pixiu_model +
  gt_Name :: string
  gt_UserId :: int
  gt_UserName :: string
  gt_ClusterId :: int
  gt_ClusterName :: string
  gt_OwnerClusterId :: int
  gt_OwnerClusterName :: string
  gt_OwnerClusterAliasName :: string
  gt_ExpirationSeconds :: int
  gt_PType :: int
  gt_Rules :: string
  gt_SAName :: string
  gt_SANamespace :: string
  gt_ClusterRoleName :: string
  gt_RoleBindingName :: string
  gt_TargetNamespaces :: string
  gt_Description :: string

record ClusterAccessToken = pixiu_model +
  at_JTI :: string
  at_UserId :: int
  at_ClusterId :: int
  at_ClusterName :: string
  at_Name :: string
  at_TokenHash :: string
  at_ExpiresAt :: "int option"
  at_RevokedAt :: "int option"
  at_LastUsedAt :: "int option"

definition IsRevoked :: "ClusterAccessToken \<Rightarrow> bool" where
  "IsRevoked t \<longleftrightarrow> at_RevokedAt t \<noteq> None"

definition IsExpired :: "int \<Rightarrow> ClusterAccessToken \<Rightarrow> bool" where
  "IsExpired now t = (case at_ExpiresAt t of None \<Rightarrow> False | Some e \<Rightarrow> e < now)"

definition IsActive :: "int \<Rightarrow> ClusterAccessToken \<Rightarrow> bool" where
  "IsActive now t \<longleftrightarrow> \<not> IsRevoked t \<and> \<not> IsExpired now t"

section \<open>Tables\<close>

record cluster_db = plan_db +
  permissions :: "Permission table"
  cluster_access_tokens :: "ClusterAccessToken table"

definition permissions_t :: "('m cluster_db_scheme, Permission) tref" where
  "permissions_t = \<lparr>tget = permissions, tupd = permissions_update,
     tuniq = (\<lambda>r s. gt_UserId r = gt_UserId s \<and> gt_ClusterId r = gt_ClusterId s \<and> gt_Name r = gt_Name s), tdefaults = (\<lambda>r. r)\<rparr>"

definition cluster_access_tokens_t :: "('m cluster_db_scheme, ClusterAccessToken) tref" where
  "cluster_access_tokens_t = \<lparr>tget = cluster_access_tokens, tupd = cluster_access_tokens_update,
     tuniq = (\<lambda>r s. at_JTI r = at_JTI s), tdefaults = (\<lambda>r. r)\<rparr>"

lemma cluster_trefs [simp]:
  "tget permissions_t = permissions" "tupd permissions_t = permissions_update" "tdefaults permissions_t = (\<lambda>r. r)"
  "tuniq permissions_t = (\<lambda>r s. gt_UserId r = gt_UserId s \<and> gt_ClusterId r = gt_ClusterId s \<and> gt_Name r = gt_Name s)"
  "tget cluster_access_tokens_t = cluster_access_tokens" "tupd cluster_access_tokens_t = cluster_access_tokens_update"
  "tdefaults cluster_access_tokens_t = (\<lambda>r. r)" "tuniq cluster_access_tokens_t = (\<lambda>r s. at_JTI r = at_JTI s)"
  by (simp_all add: permissions_t_def cluster_access_tokens_t_def)

interpretation permissions_tab: db_table "permissions_t :: ('m cluster_db_scheme, Permission) tref" by unfold_locales simp_all
interpretation tokens_tab: db_table "cluster_access_tokens_t :: ('m cluster_db_scheme, ClusterAccessToken) tref" by unfold_locales simp_all

section \<open>Query options\<close>

definition WithOwnerCluster :: "int \<Rightarrow> Permission options" where
  "WithOwnerCluster clusterId q = (if clusterId = 0 then q else Where (\<lambda>r. gt_OwnerClusterId r = clusterId) q)"

definition WithPermissionID :: "int \<Rightarrow> Cluster options" where
  "WithPermissionID pid = Where (\<lambda>r. clu_PermissionId r = pid)"

definition WithOwnerReference :: "int \<Rightarrow> Cluster options" where
  "WithOwnerReference clusterId q = (if clusterId = 0 then q else Where (\<lambda>r. clu_OwnerReference r = clusterId) q)"

definition WithAliasNameLike :: "string \<Rightarrow> Cluster options" where
  "WithAliasNameLike name q = (if name = [] then q else Where (\<lambda>r. sqlLike (''%'' @ name @ ''%'') (clu_AliasName r)) q)"

definition WithConnectMode :: "int \<Rightarrow> Cluster options" where
  "WithConnectMode mode = Where (\<lambda>r. clu_ConnectMode r = mode)"

definition WithClusterId :: "int \<Rightarrow> ClusterAccessToken options" where
  "WithClusterId clusterId q = (if clusterId = 0 then q else Where (\<lambda>r. at_ClusterId r = clusterId) q)"

definition WithJTI :: "string \<Rightarrow> ClusterAccessToken options" where
  "WithJTI jti q = (if jti = [] then q else Where (\<lambda>r. at_JTI r = jti) q)"

definition WithTokenHash :: "string \<Rightarrow> ClusterAccessToken options" where
  "WithTokenHash hash q = (if hash = [] then q else Where (\<lambda>r. at_TokenHash r = hash) q)"

section \<open>Grants\<close>

definition permissionCreate :: "Permission \<Rightarrow> ('m cluster_db_scheme, goerr, Permission) act" where
  "permissionCreate object = daoCreate permissions_t object"

definition permissionUpdate :: "int \<Rightarrow> int \<Rightarrow> Permission updates \<Rightarrow> ('m cluster_db_scheme, goerr, unit) act" where
  "permissionUpdate = daoUpdate permissions_t (Util ErrRecordNotUpdate)"

definition permissionGet :: "int \<Rightarrow> ('m cluster_db_scheme, goerr, Permission option) act" where
  "permissionGet pid = daoGet permissions_t pid"

definition permissionDelete :: "int \<Rightarrow> ('m cluster_db_scheme, goerr, Permission option) act" where
  "permissionDelete pid = andThen (permissionGet pid) (\<lambda>object. case object of None \<Rightarrow> ret None
     | Some p \<Rightarrow> andThen (sqlDelete permissions_t (\<lambda>r. Oid r = pid)) (\<lambda>_. ret (Some p)))"

text \<open>A missing row is the error \<open>ErrRecordNotFound\<close> here.\<close>

definition permissionGetBy :: "Permission options list \<Rightarrow> ('m cluster_db_scheme, goerr, Permission) act" where
  "permissionGetBy opts = stmt (\<lambda>w. case runQuery (buildQuery (opts @ [WithOrderByASC])) (rows (permissions w)) of
     [] \<Rightarrow> (Inl (Util ErrRecordNotFound), w) | r # _ \<Rightarrow> (Inr r, w))"

definition permissionList :: "Permission options list \<Rightarrow> ('m cluster_db_scheme, goerr, Permission list) act" where
  "permissionList opts = daoList permissions_t opts"

definition permissionCount :: "Permission options list \<Rightarrow> ('m cluster_db_scheme, goerr, int) act" where
  "permissionCount opts = daoCount permissions_t opts"

interpretation permissions_lock: versioned_dao "\<lambda>w :: 'm cluster_db_scheme. rows (permissions w)" permissionUpdate "\<lambda>w. table_ok (permissions w)"
  using permissions_tab.versioned [of "Util ErrRecordNotUpdate"] by (simp add: permissionUpdate_def)

section \<open>Access tokens\<close>

definition accessTokenCreate :: "ClusterAccessToken \<Rightarrow> ('m cluster_db_scheme, goerr, ClusterAccessToken) act" where
  "accessTokenCreate object = daoCreate cluster_access_tokens_t object"

definition accessTokenGetBy :: "ClusterAccessToken options list \<Rightarrow> ('m cluster_db_scheme, goerr, ClusterAccessToken option) act" where
  "accessTokenGetBy opts = daoGetBy cluster_access_tokens_t opts"

definition accessTokenList :: "ClusterAccessToken options list \<Rightarrow> ('m cluster_db_scheme, goerr, ClusterAccessToken list) act" where
  "accessTokenList opts = daoList cluster_access_tokens_t opts"

definition accessTokenDelete :: "ClusterAccessToken options list \<Rightarrow> ('m cluster_db_scheme, goerr, unit) act" where
  "accessTokenDelete opts = (if opts = [] then fail (Errorf ''delete access token requires at least one filter option'')
     else andThen (sqlDelete cluster_access_tokens_t (qWhere (buildQuery opts))) (\<lambda>rowsAffected.
       if rowsAffected = 0 then fail (Util ErrRecordNotFound) else ret ()))"

definition accessTokenInternalUpdate :: "int \<Rightarrow> ClusterAccessToken updates \<Rightarrow> ('m cluster_db_scheme, goerr, unit) act" where
  "accessTokenInternalUpdate i updates = andThen timeNow (\<lambda>now.
     andThen (sqlUpdates cluster_access_tokens_t (\<lambda>r. Oid r = i) (updates @ [(''gmt_modified'', GmtModified_update (\<lambda>_. now))])) (\<lambda>_. ret ()))"

definition TouchLastUsed :: "int \<Rightarrow> ('m cluster_db_scheme, goerr, unit) act" where
  "TouchLastUsed i = andThen timeNow (\<lambda>now. andThen (sqlUpdates cluster_access_tokens_t (\<lambda>r. Oid r = i)
     [(''last_used_at'', at_LastUsedAt_update (\<lambda>_. Some now)), (''gmt_modified'', GmtModified_update (\<lambda>_. now))]) (\<lambda>_. ret ()))"

section \<open>Reading base64\<close>

text \<open>\<open>base64.StdEncoding.DecodeString\<close>: line ends are skipped, the padding is required, and the bits that are
  left over need not be zero.\<close>

definition base64Value :: "char \<Rightarrow> nat option" where
  "base64Value c = (let n = of_char c in if 65 \<le> n \<and> n \<le> 90 then Some (n - 65) else if 97 \<le> n \<and> n \<le> 122 then Some (n - 71)
     else if 48 \<le> n \<and> n \<le> 57 then Some (n + 4) else if n = 43 then Some 62 else if n = 47 then Some 63 else None)"

fun base64Quanta :: "string \<Rightarrow> nat list option" where
  "base64Quanta [] = Some []"
| "base64Quanta (a # b # c # d # r) = (case base64Value a of None \<Rightarrow> None | Some x \<Rightarrow> (case base64Value b of None \<Rightarrow> None | Some y \<Rightarrow>
     if c = CHR ''='' \<and> d = CHR ''='' \<and> r = [] then Some [x * 4 + y div 16]
     else (case base64Value c of None \<Rightarrow> None | Some z \<Rightarrow>
       if d = CHR ''='' \<and> r = [] then Some [x * 4 + y div 16, y mod 16 * 16 + z div 4]
       else (case base64Value d of None \<Rightarrow> None | Some u \<Rightarrow>
         map_option (\<lambda>bs. (x * 4 + y div 16) # (y mod 16 * 16 + z div 4) # (z mod 4 * 64 + u) # bs) (base64Quanta r)))))"
| "base64Quanta _ = None"

definition base64Decode :: "string \<Rightarrow> goerr + string" where
  "base64Decode s = (case base64Quanta (filter (\<lambda>c. c \<noteq> CHR 0x0A \<and> c \<noteq> CHR 0x0D) s) of
     None \<Rightarrow> Inl (Errorf ''illegal base64 data'') | Some bs \<Rightarrow> Inr (map char_of bs))"

lemma base64Value_char: "n < 64 \<Longrightarrow> base64Value (base64Char n) = Some n"
  by (auto simp: base64Value_def base64Char_def Let_def)

lemma base64Char_plain: "n < 64 \<Longrightarrow> base64Char n \<noteq> CHR ''=''"
  using base64Value_char [of n] by (auto simp: base64Value_def)

lemma joined_div: "y < n \<Longrightarrow> (x * n + y) div n = x" and joined_mod: "y < n \<Longrightarrow> (x * n + y) mod n = y" for x y n :: nat
  by simp_all

lemma base64_first: "b < 256 \<Longrightarrow> a div 4 * 4 + (a mod 4 * 16 + b div 16) div 16 = a" for a b :: nat
  using joined_div [of "b div 16" 16 "a mod 4"] by simp

lemma base64_second: "b < 256 \<Longrightarrow> c < 256 \<Longrightarrow> (a mod 4 * 16 + b div 16) mod 16 * 16 + (b mod 16 * 4 + c div 64) div 4 = b" for a b c :: nat
  using joined_mod [of "b div 16" 16 "a mod 4"] joined_div [of "c div 64" 4 "b mod 16"] by simp

lemma base64_third: "c < 256 \<Longrightarrow> (b mod 16 * 4 + c div 64) mod 4 * 64 + c mod 64 = c" for b c :: nat
  using joined_mod [of "c div 64" 4 "b mod 16"] by simp

lemma base64_sextets: "a < 256 \<Longrightarrow> a div 4 < 64" "b < 256 \<Longrightarrow> a mod 4 * 16 + b div 16 < 64" "c < 256 \<Longrightarrow> b mod 16 * 4 + c div 64 < 64"
  "a mod 4 * 16 < 64" "b mod 16 * 4 < 64" for a b c :: nat
proof -
  show "b < 256 \<Longrightarrow> a mod 4 * 16 + b div 16 < 64" using mod_less_divisor [of 4 a] by linarith
  show "c < 256 \<Longrightarrow> b mod 16 * 4 + c div 64 < 64" using mod_less_divisor [of 16 b] by linarith
qed simp_all

lemma base64Quanta_bytes: "list_all (\<lambda>b. b < 256) bs \<Longrightarrow> base64Quanta (base64Bytes bs) = Some bs"
proof (induction bs rule: base64Bytes.induct)
  case (1 a b c r)
  then have "b div 16 div 16 = 0" "c div 64 < 4" by (simp_all add: div_mult2_eq [symmetric] div_less_iff_less_mult)
  then have "c div 64 mod 4 = c div 64" by simp
  with 1 \<open>b div 16 div 16 = 0\<close> show ?case using base64_second [of b c a]
    by (simp add: base64_sextets base64Value_char base64Char_plain base64_first base64_third)
next
  case (2 a b)
  then show ?case using base64_second [of b 0 a]
    by (simp add: base64_sextets base64Value_char base64Char_plain base64_first)
next
  case (3 a)
  then show ?case using base64_first [of 0 a] by (simp add: base64_sextets base64Value_char)
qed simp

lemma base64Char_no_newline: "n < 64 \<Longrightarrow> base64Char n \<noteq> CHR 0x0A \<and> base64Char n \<noteq> CHR 0x0D"
  using base64Value_char [of n] by (auto simp: base64Value_def)

lemma base64Bytes_no_newline: "list_all (\<lambda>b. b < 256) bs \<Longrightarrow> c \<in> set (base64Bytes bs) \<Longrightarrow> c \<noteq> CHR 0x0A \<and> c \<noteq> CHR 0x0D"
  by (induction bs rule: base64Bytes.induct) (auto simp: base64Char_no_newline base64_sextets)

lemma base64Decode_Encode: "base64Decode (base64Encode s) = Inr s"
proof -
  have b: "list_all (\<lambda>b. b < 256) (map of_char s :: nat list)" by (simp add: list_all_iff)
  have "filter (\<lambda>c. c \<noteq> CHR 0x0A \<and> c \<noteq> CHR 0x0D) (base64Encode s) = base64Encode s"
    unfolding filter_id_conv base64Encode_def using base64Bytes_no_newline [OF b] by blast
  then show ?thesis by (simp only: base64Decode_def) (simp add: base64Encode_def base64Quanta_bytes [OF b] comp_def)
qed

end
