(* ===== verification/ClusterController.thy ===== *)
theory ClusterController
  imports ClusterDb UserController PlanHandlers Notify
begin

text \<open>
  The cluster controller (\<open>pkg/controller/cluster/cluster.go\<close>): creating, updating, protecting and deleting
  clusters, the clients of their API servers (\<open>pkg/client/dialer.go\<close>) and the cache of these, and who may
  access a cluster (\<open>access.go\<close>). The API servers are a parameter: what one answers depends on the client, the
  request and the moment, and every request is recorded in the order in which it is sent.
\<close>

section \<open>Clients\<close>

text \<open>A \<open>rest.Config\<close>: the text it was read from, the members the program uses, and the cluster whose
  tunnel it dials through. A client is identified with the configuration it is made from.\<close>

record rest_config =
  rc_Raw :: string
  rc_Host :: string
  rc_CAData :: "string option"
  rc_Tunnel :: "string option"

type_synonym client_set = "(rest_config, rest_config, unit) cluster_set"

record Secret =
  sec_Name :: string
  sec_IsAccountToken :: bool
  sec_AccountName :: string
  sec_Token :: string

record KubeNodeItem =
  ni_Name :: string
  ni_Conditions :: "(string \<times> string) list"
  ni_KubeletVersion :: string

datatype kube_err = KNotFound | KAlreadyExists | KOther

datatype kube_req =
    GetNamespace string | CreateNamespace string | ListNamespaces
  | GetServiceAccount string string | CreateServiceAccount string string | DeleteServiceAccount string string
  | CreateToken string string int
  | ListSecrets string | CreateTokenSecret string string string | GetSecret string string
  | GetClusterRole string | CreateClusterRole string "PolicyRule list" | DeleteClusterRole string
  | GetClusterRoleBinding string | CreateClusterRoleBinding string string string string | DeleteClusterRoleBinding string
  | GetRoleBinding string string | CreateRoleBinding string string string string string | DeleteRoleBinding string string
  | ListNodes | GetVersion

datatype kube_resp =
    RDone | RRules (respRules: "PolicyRule list") | RToken (respToken: string) | RSecrets (respSecrets: "Secret list")
  | RSecret (respSecret: Secret) | RNodes (respNodes: "KubeNodeItem list")

text \<open>What \<open>clientcmd.Write\<close> gets: one cluster, one user, one context.\<close>

record api_config =
  ac_Cluster :: string
  ac_Server :: string
  ac_CAData :: string
  ac_InsecureSkipTLSVerify :: bool
  ac_User :: string
  ac_Token :: string

record cluster_env =
  ce_rand :: plan_env
  ce_restConfig :: "string \<Rightarrow> goerr + rest_config"
  ce_newForConfig :: "rest_config \<Rightarrow> goerr + unit"
  ce_tunnel :: bool
  ce_agentConnected :: "string \<Rightarrow> nat \<Rightarrow> bool"
  ce_kube :: "rest_config \<Rightarrow> kube_req \<Rightarrow> nat \<Rightarrow> kube_err + kube_resp"
  ce_marshalRules :: "PolicyRule list \<Rightarrow> string"
  ce_unmarshalRules :: "string \<Rightarrow> PolicyRule list option"
  ce_writeConfig :: "api_config \<Rightarrow> goerr + string"
  ce_ctxErr :: "nat \<Rightarrow> goerr option"
  ce_errText :: "goerr \<Rightarrow> string"

record cluster_state = cluster_db +
  clusterIndexer :: "(rest_config, rest_config, unit) cluster_cache"
  accessCache :: "string \<rightharpoonup> int"
  kube_calls :: "(rest_config \<times> kube_req) list"

definition kube :: "cluster_env \<Rightarrow> rest_config \<Rightarrow> kube_req \<Rightarrow> ('m cluster_state_scheme, kube_err, kube_resp) act" where
  "kube ce cl req = (\<lambda>w. (ce_kube ce cl req (tick w), w\<lparr>tick := Suc (tick w), kube_calls := kube_calls w @ [(cl, req)]\<rparr>))"

definition kubeErr :: "kube_err \<Rightarrow> goerr" where
  "kubeErr e = Errorf ''kubernetes API error''"

definition CompleteWithOptions :: "cluster_env \<Rightarrow> string \<Rightarrow> string \<Rightarrow> int \<Rightarrow> goerr + client_set" where
  "CompleteWithOptions ce cfg name mode = (case ce_restConfig ce cfg of Inl err \<Rightarrow> Inl err | Inr rc0 \<Rightarrow>
     (let rc = (if mode = ConnectModeTunnel \<and> name \<noteq> [] \<and> ce_tunnel ce then rc0\<lparr>rc_Tunnel := Some name\<rparr> else rc0)
      in case ce_newForConfig ce rc of Inl err \<Rightarrow> Inl err | Inr _ \<Rightarrow> Inr \<lparr>Client = rc, Config = rc, Informer = ()\<rparr>))"

definition NewClusterSetWithOptions :: "cluster_env \<Rightarrow> string \<Rightarrow> string \<Rightarrow> int \<Rightarrow> goerr + client_set" where
  "NewClusterSetWithOptions ce cfg name mode = (case base64Decode cfg of Inl err \<Rightarrow> Inl err
     | Inr kubeConfigBytes \<Rightarrow> CompleteWithOptions ce kubeConfigBytes name mode)"

definition NewClientSetFromString :: "cluster_env \<Rightarrow> string \<Rightarrow> goerr + rest_config" where
  "NewClientSetFromString ce cfg = (case base64Decode cfg of Inl err \<Rightarrow> Inl err | Inr bytes \<Rightarrow>
     (case ce_restConfig ce bytes of Inl err \<Rightarrow> Inl err | Inr rc \<Rightarrow>
       (case ce_newForConfig ce rc of Inl err \<Rightarrow> Inl err | Inr _ \<Rightarrow> Inr rc)))"

definition GetClusterSetByName :: "cluster_env \<Rightarrow> string \<Rightarrow> ('m cluster_state_scheme, goerr, client_set) act" where
  "GetClusterSetByName ce name = andThen (gets clusterIndexer) (\<lambda>indexer. case ccGet indexer name of
       Some cs \<Rightarrow> ret cs
     | None \<Rightarrow> andThen (clusterGetBy [WithName clu_Name name]) (\<lambda>object. case object of
         None \<Rightarrow> fail ErrClusterNotFound
       | Some o1 \<Rightarrow> andThen (fromSum (NewClusterSetWithOptions ce (clu_KubeConfig o1) (clu_Name o1) (clu_ConnectMode o1))) (\<lambda>cs.
           andThen (modify (\<lambda>w. w\<lparr>clusterIndexer := ccSet (clusterIndexer w) name cs\<rparr>)) (\<lambda>_. ret cs))))"

definition GetKubeConfigByName :: "cluster_env \<Rightarrow> string \<Rightarrow> ('m cluster_state_scheme, goerr, rest_config) act" where
  "GetKubeConfigByName ce name = andThen (GetClusterSetByName ce name) (\<lambda>cs. ret (Config cs))"

section \<open>Access\<close>

definition accessCacheTTL :: int where "accessCacheTTL = 30 * 10 ^ 9"

definition accessKey :: "int \<Rightarrow> int \<Rightarrow> string" where
  "accessKey userId clusterId = FormatInt userId @ ''_'' @ FormatInt clusterId"

definition lookupGrants :: "User \<Rightarrow> Cluster \<Rightarrow> ('m cluster_state_scheme, goerr, unit) act" where
  "lookupGrants user obj = orInternal (permissionList [WithUser gt_UserId (Oid user), WithOwnerCluster (Oid obj)]) (\<lambda>perms.
     if perms = [] then fail ErrForbidden
     else andThen timeNow (\<lambda>now. modify (\<lambda>w. w\<lparr>accessCache := (accessCache w)(accessKey (Oid user) (Oid obj) \<mapsto> now + accessCacheTTL)\<rparr>)))"

definition ensureClusterAccess :: "User \<Rightarrow> Cluster \<Rightarrow> ('m cluster_state_scheme, goerr, unit) act" where
  "ensureClusterAccess user obj =
     (if u_Role user = RoleRoot then ret ()
      else if clu_UserId obj = Oid user then ret ()
      else let key = accessKey (Oid user) (Oid obj) in andThen (gets accessCache) (\<lambda>cache. case cache key of
          None \<Rightarrow> lookupGrants user obj
        | Some expiredAt \<Rightarrow> andThen timeNow (\<lambda>now. if now < expiredAt then ret ()
            else andThen (modify (\<lambda>w. w\<lparr>accessCache := (accessCache w)(key := None)\<rparr>)) (\<lambda>_. lookupGrants user obj))))"

definition authorizeFound :: "User \<Rightarrow> ('m cluster_state_scheme, goerr, Cluster option) act \<Rightarrow> ('m cluster_state_scheme, goerr, Cluster) act" where
  "authorizeFound user lookup = orInternal lookup (\<lambda>obj. case obj of None \<Rightarrow> fail ErrClusterNotFound
     | Some o1 \<Rightarrow> andThen (ensureClusterAccess user o1) (\<lambda>_. ret o1))"

definition AuthorizeClusterAccess :: "context_user \<Rightarrow> int \<Rightarrow> ('m cluster_state_scheme, goerr, Cluster) act" where
  "AuthorizeClusterAccess user clusterId = (case user of None \<Rightarrow> fail ErrUnauthorized
     | Some u \<Rightarrow> authorizeFound u (clusterGet clusterId []))"

definition AuthorizeClusterAccessByName :: "context_user \<Rightarrow> string \<Rightarrow> ('m cluster_state_scheme, goerr, Cluster) act" where
  "AuthorizeClusterAccessByName user clusterName = (case user of None \<Rightarrow> fail ErrUnauthorized
     | Some u \<Rightarrow> authorizeFound u (clusterGetBy [WithName clu_Name clusterName]))"

section \<open>Requests and answers\<close>

record CreateClusterRequest =
  cc_Name :: string
  cc_AliasName :: string
  cc_UserId :: int
  cc_Type :: int
  cc_KubeConfig :: string
  cc_ConnectMode :: int
  cc_AgentToken :: string
  cc_Description :: string
  cc_Protected :: bool
  cc_PermissionId :: int
  cc_OwnerReference :: int

record UpdateClusterRequest =
  uc_ResourceVersion :: int
  uc_AliasName :: "string option"
  uc_Description :: "string option"

record ProtectClusterRequest =
  px_ResourceVersion :: "int option"
  px_Protected :: bool

text \<open>\<open>nil\<close> is \<open>None\<close>: it is written as \<open>null\<close>.\<close>

record KubeNode =
  kn_Ready :: "string list option"
  kn_NotReady :: "string list option"

definition zeroKubeNode :: KubeNode where "zeroKubeNode = \<lparr>kn_Ready = None, kn_NotReady = None\<rparr>"

definition namesJson :: "string list option \<Rightarrow> json" where
  "namesJson ns = (case ns of None \<Rightarrow> JNull | Some xs \<Rightarrow> JArr (map JStr xs))"

definition KubeNode_Marshal :: "KubeNode \<Rightarrow> string" where
  "KubeNode_Marshal kn = jsonPrint (JObj [(''ready'', namesJson (kn_Ready kn)), (''not_ready'', namesJson (kn_NotReady kn))])"

fun decNames :: "string list option decoder" where
  "decNames JNull old = (None, True)"
| "decNames (JArr js) old = (case decSlice decString [] (JArr js) (case old of None \<Rightarrow> [] | Some xs \<Rightarrow> xs) of (xs, ok) \<Rightarrow> (Some xs, ok))"
| "decNames _ old = (old, False)"

definition decKubeNode :: "KubeNode decoder" where
  "decKubeNode = decStruct [(''ready'', field kn_Ready (\<lambda>x. kn_Ready_update (\<lambda>_. x)) decNames),
     (''not_ready'', field kn_NotReady (\<lambda>x. kn_NotReady_update (\<lambda>_. x)) decNames)]"

text \<open>The value after \<open>Unmarshal\<close>, whose error is only logged: a text that is not JSON leaves it as it was.\<close>

definition readKubeNode :: "string \<Rightarrow> KubeNode" where
  "readKubeNode s = (if TrimSpace s = [] then zeroKubeNode
     else (case jsonParse s of None \<Rightarrow> zeroKubeNode | Some j \<Rightarrow> fst (decKubeNode j zeroKubeNode)))"

record types_Cluster =
  tc_Id :: int
  tc_ResourceVersion :: int
  tc_GmtCreate :: int
  tc_GmtModified :: int
  tc_Name :: string
  tc_AliasName :: string
  tc_Status :: int
  tc_UserId :: int
  tc_ClusterType :: int
  tc_PlanId :: int
  tc_PermissionId :: int
  tc_KubernetesVersion :: string
  tc_Nodes :: KubeNode
  tc_Protected :: bool
  tc_ConnectMode :: int
  tc_AgentConnected :: bool
  tc_AgentToken :: string
  tc_Description :: string
  tc_ProbeStatus :: int
  tc_ProbeReason :: string
  tc_ProbeMessage :: string
  tc_LastProbeTime :: "int option"

record KubeConfigResponse =
  kr_ClusterName :: string
  kr_Content :: string

definition ownCluster :: "cluster_env \<Rightarrow> nat \<Rightarrow> Cluster \<Rightarrow> types_Cluster" where
  "ownCluster ce now r = \<lparr>tc_Id = Oid r, tc_ResourceVersion = ResourceVersion r, tc_GmtCreate = GmtCreate r, tc_GmtModified = GmtModified r,
     tc_Name = clu_Name r, tc_AliasName = clu_AliasName r, tc_Status = clu_ClusterStatus r, tc_UserId = clu_UserId r, tc_ClusterType = clu_ClusterType r,
     tc_PlanId = clu_PlanId r, tc_PermissionId = clu_PermissionId r, tc_KubernetesVersion = clu_KubernetesVersion r, tc_Nodes = readKubeNode (clu_Nodes r),
     tc_Protected = clu_Protected r, tc_ConnectMode = clu_ConnectMode r,
     tc_AgentConnected = (clu_ConnectMode r = ConnectModeTunnel \<and> ce_tunnel ce \<and> ce_agentConnected ce (clu_Name r) now), tc_AgentToken = clu_AgentToken r,
     tc_Description = clu_Description r, tc_ProbeStatus = clu_ProbeStatus r, tc_ProbeReason = clu_ProbeReason r, tc_ProbeMessage = clu_ProbeMessage r,
     tc_LastProbeTime = clu_LastProbeTime r\<rparr>"

definition withMaster :: "Cluster \<Rightarrow> types_Cluster \<Rightarrow> types_Cluster" where
  "withMaster m tc = tc\<lparr>tc_Nodes := readKubeNode (clu_Nodes m), tc_Status := clu_ClusterStatus m, tc_AliasName := clu_AliasName m,
     tc_Protected := clu_Protected m, tc_KubernetesVersion := clu_KubernetesVersion m, tc_ClusterType := clu_ClusterType m\<rparr>"

definition clusterModel2Type :: "cluster_env \<Rightarrow> Cluster \<Rightarrow> ('m cluster_state_scheme, goerr, types_Cluster) act" where
  "clusterModel2Type ce r = andThen (gets tick) (\<lambda>now. let tc = ownCluster ce now r in
     if clu_PermissionId r = 0 then ret tc
     else onResult (clusterGet (clu_OwnerReference r) []) (\<lambda>_. ret tc) (\<lambda>m. case m of None \<Rightarrow> ret tc | Some master \<Rightarrow> ret (withMaster master tc)))"

section \<open>Deleting\<close>

definition clusterc_preDelete :: "context_user \<Rightarrow> int \<Rightarrow> bool \<Rightarrow> ('m cluster_state_scheme, goerr, Cluster) act" where
  "clusterc_preDelete ctx cid skipCheck = andThen (clusterGet cid []) (\<lambda>object. case object of
       None \<Rightarrow> fail ErrClusterNotFound
     | Some obj \<Rightarrow> andThen (CheckResourceAccess ctx (clu_UserId obj) ResourceTypeCluster cid) (\<lambda>_.
         if skipCheck then ret obj
         else if clu_PermissionId obj \<noteq> 0 then fail (NewError (Errorf ''authorized sub-cluster'') StatusForbidden)
         else if clu_Protected obj then fail (NewError (Errorf ''cluster is protected'') StatusForbidden)
         else andThen (permissionList [WithOwnerCluster cid]) (\<lambda>objs.
           if objs \<noteq> [] then fail (NewError (Errorf ''cluster has permissions'') StatusForbidden) else ret obj)))"

definition deletePixiuClusterRole :: "cluster_env \<Rightarrow> Cluster \<Rightarrow> rest_config \<Rightarrow> ('m cluster_state_scheme, goerr, unit) act" where
  "deletePixiuClusterRole ce cluster cl = (if clu_PermissionId cluster \<noteq> 0 then ret ()
     else ignoring (kube ce cl (DeleteClusterRole ''pixiu-view'')))"

definition dropClient :: "string \<Rightarrow> ('m cluster_state_scheme, goerr, unit) act" where
  "dropClient name = modify (\<lambda>w. w\<lparr>clusterIndexer := ccDelete (clusterIndexer w) name\<rparr>)"

definition deleteSlave :: "Cluster \<Rightarrow> ('m cluster_state_scheme, goerr, unit) act" where
  "deleteSlave slave = andThen (ignoring (clusterDelete slave [])) (\<lambda>_. dropClient (clu_Name slave))"

definition clusterc_Delete :: "cluster_env \<Rightarrow> context_user \<Rightarrow> int \<Rightarrow> bool \<Rightarrow> ('m cluster_state_scheme, goerr, unit) act" where
  "clusterc_Delete ce ctx cid skipCheck = andThen (clusterc_preDelete ctx cid skipCheck) (\<lambda>clu.
     orInternal (clusterDelete clu []) (\<lambda>_.
     andThen (onResult (GetClusterSetByName ce (clu_Name clu)) (\<lambda>_. ret ()) (\<lambda>cs. deletePixiuClusterRole ce clu (Client cs))) (\<lambda>_.
     andThen (dropClient (clu_Name clu)) (\<lambda>_.
     onResult (clusterList [WithOwnerReference cid]) (\<lambda>_. ret ()) (forEach deleteSlave)))))"

section \<open>Creating\<close>

definition newClusterRow :: "CreateClusterRequest \<Rightarrow> string \<Rightarrow> string \<Rightarrow> Cluster" where
  "newClusterRow req name tok = pixiu_model.extend newModel \<lparr>clu_Name = name, clu_AliasName = cc_AliasName req, clu_ClusterType = cc_Type req,
     clu_PlanId = 0, clu_UserId = cc_UserId req, clu_PermissionId = cc_PermissionId req, clu_OwnerReference = cc_OwnerReference req,
     clu_ClusterStatus = ClusterStatusRunning, clu_KubernetesVersion = [], clu_Nodes = KubeNode_Marshal zeroKubeNode, clu_Protected = cc_Protected req,
     clu_KubeConfig = cc_KubeConfig req, clu_ConnectMode = cc_ConnectMode req, clu_Description = cc_Description req, clu_ProbeStatus = 0,
     clu_ProbeReason = [], clu_ProbeMessage = [], clu_LastProbeTime = None, clu_AgentToken = tok\<rparr>"

definition pixiuSystemNamespace :: string where "pixiuSystemNamespace = ''pixiu-system''"

definition ensurePixiuSystemNamespace :: "cluster_env \<Rightarrow> rest_config \<Rightarrow> ('m cluster_state_scheme, goerr, unit) act" where
  "ensurePixiuSystemNamespace ce cl = onResult (kube ce cl (GetNamespace pixiuSystemNamespace))
     (\<lambda>err. if err \<noteq> KNotFound then fail (Errorf ''failed to check the namespace'')
       else onResult (kube ce cl (CreateNamespace pixiuSystemNamespace))
         (\<lambda>err. if err \<noteq> KAlreadyExists then fail (Errorf ''failed to create the namespace'') else ret ()) (\<lambda>_. ret ()))
     (\<lambda>_. ret ())"

definition clusterc_addPixiuClusterRole :: "cluster_env \<Rightarrow> CreateClusterRequest \<Rightarrow> rest_config \<Rightarrow> ('m cluster_state_scheme, goerr, unit) act" where
  "clusterc_addPixiuClusterRole ce req cl = (if cc_PermissionId req \<noteq> 0 then ret ()
     else onResult (kube ce cl (GetClusterRole ''pixiu-view''))
       (\<lambda>_. onResult (kube ce cl (GetClusterRole ''view'')) (\<lambda>_. fail (Errorf ''failed to get the cluster role'')) (\<lambda>r.
          onResult (kube ce cl (CreateClusterRole ''pixiu-view'' (respRules r @ viewRules)))
            (\<lambda>_. fail (Errorf ''failed to create the cluster role'')) (\<lambda>_. ret ())))
       (\<lambda>_. ret ()))"

definition createAgentToken :: "cluster_env \<Rightarrow> CreateClusterRequest \<Rightarrow> ('m cluster_state_scheme, goerr, string) act" where
  "createAgentToken ce req = (if cc_ConnectMode req \<noteq> ConnectModeTunnel then ret []
     else if cc_AgentToken req \<noteq> [] then ret (cc_AgentToken req)
     else onResult (tokenGenerate (ce_rand ce)) (\<lambda>_. fail ErrServerInternal) ret)"

text \<open>A failure to prepare the cluster deletes it again, and the creation goes on.\<close>

definition prepareCluster :: "cluster_env \<Rightarrow> context_user \<Rightarrow> CreateClusterRequest \<Rightarrow> Cluster \<Rightarrow> rest_config \<Rightarrow> ('m cluster_state_scheme, goerr, unit) act" where
  "prepareCluster ce ctx req obj cl = (if cc_ConnectMode req = ConnectModeTunnel then ret ()
     else andThen (onResult (ensurePixiuSystemNamespace ce cl) (\<lambda>_. ignoring (clusterc_Delete ce ctx (Oid obj) True)) ret) (\<lambda>_.
       onResult (clusterc_addPixiuClusterRole ce req cl) (\<lambda>_. ignoring (clusterc_Delete ce ctx (Oid obj) True)) ret))"

definition clusterc_Create :: "cluster_env \<Rightarrow> context_user \<Rightarrow> CreateClusterRequest \<Rightarrow> ('m cluster_state_scheme, goerr, Cluster) act" where
  "clusterc_Create ce ctx req =
     andThen (if cc_Name req = [] then NewRandName (ce_rand ce) 8 else ret (cc_Name req)) (\<lambda>name.
     if cc_KubeConfig req = [] then fail (NewError (Errorf ''kube_config is required'') StatusBadRequest)
     else andThen (createAgentToken ce req) (\<lambda>agentToken.
       let set = NewClusterSetWithOptions ce (cc_KubeConfig req) name (cc_ConnectMode req)
       in orInternal (clusterCreate (newClusterRow req name agentToken) [\<lambda>_. andThen (fromSum set) (\<lambda>_. ret ())]) (\<lambda>obj.
         case set of Inl _ \<Rightarrow> fail nilPanic | Inr cs \<Rightarrow>
           andThen (prepareCluster ce ctx req obj (Client cs)) (\<lambda>_.
           andThen (modify (\<lambda>w. w\<lparr>clusterIndexer := ccSet (clusterIndexer w) name cs\<rparr>)) (\<lambda>_. ret obj)))))"

section \<open>Updating, protecting, reading\<close>

definition clusterc_preUpdate :: "context_user \<Rightarrow> int \<Rightarrow> ('m cluster_state_scheme, goerr, unit) act" where
  "clusterc_preUpdate ctx cid = orInternal (clusterGet cid []) (\<lambda>object. case object of None \<Rightarrow> fail ErrClusterNotFound
     | Some obj \<Rightarrow> CheckResourceAccess ctx (clu_UserId obj) ResourceTypeCluster cid)"

definition clusterUpdates :: "UpdateClusterRequest \<Rightarrow> Cluster updates" where
  "clusterUpdates req =
     (case uc_AliasName req of None \<Rightarrow> [] | Some n \<Rightarrow> [(''alias_name'', clu_AliasName_update (\<lambda>_. n))])
   @ (case uc_Description req of None \<Rightarrow> [] | Some d \<Rightarrow> [(''description'', clu_Description_update (\<lambda>_. d))])"

definition clusterc_Update :: "context_user \<Rightarrow> int \<Rightarrow> UpdateClusterRequest \<Rightarrow> ('m cluster_state_scheme, goerr, unit) act" where
  "clusterc_Update ctx cid req = andThen (clusterc_preUpdate ctx cid) (\<lambda>_.
     if clusterUpdates req = [] then fail ErrInvalidRequest
     else orInternal (clusterUpdate cid (uc_ResourceVersion req) (clusterUpdates req)) ret)"

definition clusterc_Protect :: "int \<Rightarrow> ProtectClusterRequest \<Rightarrow> ('m cluster_state_scheme, goerr, unit) act" where
  "clusterc_Protect cid req = (case px_ResourceVersion req of None \<Rightarrow> fail nilPanic
     | Some v \<Rightarrow> clusterUpdate cid v [(''protected'', clu_Protected_update (\<lambda>_. px_Protected req))])"

definition clusterc_Get :: "cluster_env \<Rightarrow> context_user \<Rightarrow> int \<Rightarrow> ('m cluster_state_scheme, goerr, types_Cluster) act" where
  "clusterc_Get ce ctx cid = onResult (GetUserFromContext ctx) (\<lambda>_. fail ErrUnauthorized) (\<lambda>user.
     andThen (AuthorizeClusterAccess (Some user) cid) (clusterModel2Type ce))"

definition GetKubeConfig :: "context_user \<Rightarrow> int \<Rightarrow> ('m cluster_state_scheme, goerr, KubeConfigResponse) act" where
  "GetKubeConfig ctx cid = orInternal (clusterGet cid []) (\<lambda>object. case object of None \<Rightarrow> fail ErrClusterNotFound
     | Some obj \<Rightarrow> andThen (CheckResourceAccess ctx (clu_UserId obj) ResourceTypeCluster cid) (\<lambda>_.
         ret \<lparr>kr_ClusterName = clu_Name obj, kr_Content = clu_KubeConfig obj\<rparr>))"

definition clusterc_Ping :: "cluster_env \<Rightarrow> string \<Rightarrow> ('m cluster_state_scheme, goerr, unit) act" where
  "clusterc_Ping ce kubeConfig = andThen (fromSum (NewClientSetFromString ce kubeConfig)) (\<lambda>cl.
     onResult (kube ce cl ListNamespaces) (\<lambda>_. fail (Errorf ''failed to connect to the cluster'')) (\<lambda>_. ret ()))"

section \<open>Listing\<close>

text \<open>\<open>int\<close> has 64 bits. \<open>Inl\<close>: the error; a slice whose bounds are not in order panics.\<close>

definition Offset :: "int \<Rightarrow> int \<Rightarrow> int \<Rightarrow> goerr + int \<times> int" where
  "Offset page limit tot = (let offset = wrap64 (wrap64 (page - 1) * limit) in
     if tot < offset then Inl (Errorf ''invalid offset'')
     else let end1 = wrap64 (offset + limit) in Inr (offset, if tot < end1 then tot else end1))"

definition sliceOf :: "int \<Rightarrow> int \<Rightarrow> 'a list \<Rightarrow> 'a list option" where
  "sliceOf lo hi xs = (if 0 \<le> lo \<and> lo \<le> hi \<and> hi \<le> int (length xs) then Some (take (nat (hi - lo)) (drop (nat lo) xs)) else None)"

definition visibleClusters :: "Cluster list \<Rightarrow> Cluster list" where
  "visibleClusters all = (let masters = filter (\<lambda>r. clu_PermissionId r = 0) all
     in masters @ filter (\<lambda>r. clu_PermissionId r \<noteq> 0 \<and> clu_OwnerReference r \<notin> Oid ` set masters) all)"

fun collect :: "('x \<Rightarrow> ('w, 'e, 'y) act) \<Rightarrow> 'x list \<Rightarrow> ('w, 'e, 'y list) act" where
  "collect f [] = ret []"
| "collect f (x # xs) = andThen (f x) (\<lambda>y. andThen (collect f xs) (\<lambda>ys. ret (y # ys)))"

definition clusterc_List :: "cluster_env \<Rightarrow> context_user \<Rightarrow> ListOptions \<Rightarrow> ('m cluster_state_scheme, goerr, types_Cluster PageResult) act" where
  "clusterc_List ce ctx lo0 = (let lo = SetDefaultPageOption lo0 in
     andThen (AuthorizedResourceIDs ctx ResourceTypeCluster) (\<lambda>ids.
     andThen (clusterList [WithUserOrResourceIDs clu_UserId (lo_UserId lo) (case ids of None \<Rightarrow> [] | Some is1 \<Rightarrow> is1), WithAliasNameLike (lo_NameSelector lo)]) (\<lambda>all.
       let objects = visibleClusters all; page = (\<lambda>items. \<lparr>pr_Page = lo_Page lo, pr_Limit = lo_Limit lo, pr_Total = int (length objects), pr_Items = items\<rparr>)
       in case Offset (lo_Page lo) (lo_Limit lo) (int (length objects)) of Inl _ \<Rightarrow> ret (page [])
        | Inr (offset, end1) \<Rightarrow> (case sliceOf offset end1 objects of None \<Rightarrow> fail (Errorf ''panic: slice bounds out of range'')
            | Some pagedObjects \<Rightarrow> andThen (collect (clusterModel2Type ce) pagedObjects) (\<lambda>items. ret (page items))))))"

record KubernetesMeta =
  km_KubernetesVersion :: string
  km_Nodes :: int

definition GetKubernetesMeta :: "cluster_env \<Rightarrow> string \<Rightarrow> ('m cluster_state_scheme, goerr, KubernetesMeta) act" where
  "GetKubernetesMeta ce clusterName = andThen (GetClusterSetByName ce clusterName) (\<lambda>cs.
     onResult (kube ce (Client cs) ListNodes) (\<lambda>err. fail (kubeErr err)) (\<lambda>r. case respNodes r of
         [] \<Rightarrow> fail (Errorf ''no nodes found'')
       | n # ns \<Rightarrow> ret \<lparr>km_KubernetesVersion = ni_KubeletVersion n, km_Nodes = int (length (n # ns))\<rparr>))"

definition GetKubernetesMetaFromPlan :: "int \<Rightarrow> ('m cluster_state_scheme, goerr, KubernetesMeta) act" where
  "GetKubernetesMetaFromPlan planId = andThen (GetConfigByPlan planId) (\<lambda>cfg.
     case KubernetesSpec_Unmarshal (cf_Kubernetes cfg) zeroKubernetesSpec of None \<Rightarrow> fail unmarshalErr
     | Some ks \<Rightarrow> andThen (dbListNodes planId []) (\<lambda>ns. ret \<lparr>km_KubernetesVersion = ''v'' @ k8_KubernetesVersion ks, km_Nodes = int (length ns)\<rparr>))"

end
