(* ===== verification/ClusterSync.thy ===== *)
theory ClusterSync
  imports ClusterController PlanWorker
begin

text \<open>
  The probes of the clusters: the back-off of \<open>pkg/jobmanager/backoff.go\<close>, the state the tunnel manager keeps of the
  agents (\<open>pkg/tunnel\<close>), and a round of the two syncers, of the clusters that are reached directly
  (\<open>cluster_syncer.go\<close>) and of those behind a tunnel (\<open>tunnel_syncer.go\<close>). The library that holds the sessions of
  the tunnels is a parameter, as is the order in which the goroutines of a round run: each of them works on its own
  cluster.
\<close>

section \<open>Back-off\<close>

definition backoffBaseInterval :: int where "backoffBaseInterval = 30 * second"
definition backoffMaxInterval :: int where "backoffMaxInterval = 8 * 60 * second"
definition backoffMaxFailures :: int where "backoffMaxFailures = 8"
definition maxProbeMessageLen :: nat where "maxProbeMessageLen = 500"

text \<open>A name without an entry has the zero value: no failure, and the zero time.\<close>

record probeBackoff =
  failures :: "string \<rightharpoonup> int"
  lastAttempt :: "string \<rightharpoonup> int"

definition newProbeBackoff :: probeBackoff where
  "newProbeBackoff = \<lparr>failures = (\<lambda>_. None), lastAttempt = (\<lambda>_. None)\<rparr>"

definition failuresOf :: "probeBackoff \<Rightarrow> string \<Rightarrow> int" where
  "failuresOf p name = (case failures p name of None \<Rightarrow> 0 | Some f \<Rightarrow> f)"

definition probeInterval :: "int \<Rightarrow> int" where
  "probeInterval n = (let f = (if 4 < n then 4 else n); d = push_bit (nat f) backoffBaseInterval
     in if backoffMaxInterval < d then backoffMaxInterval else d)"

definition shouldProbe :: "string \<Rightarrow> int \<Rightarrow> probeBackoff \<Rightarrow> bool \<times> probeBackoff" where
  "shouldProbe name now p = (let dueNow = (case lastAttempt p name of None \<Rightarrow> True | Some t \<Rightarrow> probeInterval (failuresOf p name) \<le> now - t)
     in if dueNow then (True, p\<lparr>lastAttempt := (lastAttempt p)(name \<mapsto> now)\<rparr>) else (False, p))"

definition markResult :: "string \<Rightarrow> bool \<Rightarrow> probeBackoff \<Rightarrow> probeBackoff" where
  "markResult name success p = (if success then p\<lparr>failures := (failures p)(name := None)\<rparr>
     else (let f = failuresOf p name + 1; f = (if backoffMaxFailures < f then backoffMaxFailures else f)
       in p\<lparr>failures := (failures p)(name \<mapsto> f)\<rparr>))"

definition cleanup :: "string set \<Rightarrow> probeBackoff \<Rightarrow> probeBackoff" where
  "cleanup exist p = \<lparr>failures = failures p |` exist, lastAttempt = lastAttempt p |` exist\<rparr>"

section \<open>What a probe writes\<close>

text \<open>\<open>[]rune(msg)\<close>: the number are the bytes of the current rune that are still to be skipped.\<close>

fun runesOf :: "nat \<Rightarrow> string \<Rightarrow> nat list" where
  "runesOf k [] = []"
| "runesOf (Suc k) (c # cs) = runesOf k cs"
| "runesOf 0 (c # cs) = (case decodeRune (c # cs) of (r, n) \<Rightarrow> r # runesOf (n - 1) cs)"

definition truncateProbeMessage :: "string \<Rightarrow> string" where
  "truncateProbeMessage msg = (if length msg \<le> maxProbeMessageLen then msg else utf8 (take maxProbeMessageLen (runesOf 0 msg)))"

definition ClusterProbeHealthy :: int where "ClusterProbeHealthy = 1"
definition ClusterProbeUnhealthy :: int where "ClusterProbeUnhealthy = 2"

definition probeConditionUpdates :: "bool \<Rightarrow> string \<Rightarrow> string \<Rightarrow> int \<Rightarrow> Cluster updates" where
  "probeConditionUpdates up reason message now =
    [(''probe_status'', clu_ProbeStatus_update (\<lambda>_. if up then ClusterProbeHealthy else ClusterProbeUnhealthy)),
     (''probe_reason'', clu_ProbeReason_update (\<lambda>_. reason)),
     (''probe_message'', clu_ProbeMessage_update (\<lambda>_. truncateProbeMessage message)),
     (''last_probe_time'', clu_LastProbeTime_update (\<lambda>_. Some now))]"

section \<open>The tunnel manager\<close>

record sync_env =
  se_ce :: cluster_env
  se_order :: "nat \<Rightarrow> Cluster list \<Rightarrow> Cluster list"
  se_hasSession :: "string \<Rightarrow> nat \<Rightarrow> bool"

record sync_state = cluster_state +
  directBackoff :: probeBackoff
  tunnelBackoff :: probeBackoff
  tm_connected :: "string \<rightharpoonup> bool"
  tm_seen :: "string set"

text \<open>The headers and the query of a request to connect, as far as they are read.\<close>

record connect_request =
  cr_TokenHeader :: string
  cr_TokenQuery :: string

definition extractToken :: "connect_request \<Rightarrow> string" where
  "extractToken req = (let t = TrimSpace (cr_TokenHeader req) in if t \<noteq> [] then t else
     (let q = TrimSpace (cr_TokenQuery req) in if q \<noteq> [] then q else []))"

definition WithAgentToken :: "string \<Rightarrow> Cluster options" where
  "WithAgentToken t q = (if t = [] then q else Where (\<lambda>r. clu_AgentToken r = t) q)"

definition lookupClusterName :: "string \<Rightarrow> ('m plan_db_scheme, goerr, string) act" where
  "lookupClusterName t = (if t = [] then ret []
     else andThen (clusterGetBy [WithAgentToken t]) (\<lambda>obj. ret (case obj of None \<Rightarrow> [] | Some c \<Rightarrow> clu_Name c)))"

text \<open>\<open>None\<close> is a connection that is denied.\<close>

definition tm_authorize :: "connect_request \<Rightarrow> ('m sync_state_scheme, goerr, string option) act" where
  "tm_authorize req = (let t = extractToken req in
     if t = [] then ret None
     else andThen (lookupClusterName t) (\<lambda>name. if name = [] then ret None
       else andThen (modify (\<lambda>w. w\<lparr>tm_seen := insert name (tm_seen w)\<rparr>)) (\<lambda>_. ret (Some name))))"

definition HasSession :: "sync_env \<Rightarrow> string \<Rightarrow> ('m sync_state_scheme, 'e, bool) act" where
  "HasSession se name = gets (\<lambda>w. se_hasSession se name (tick w))"

definition SeenSession :: "string \<Rightarrow> ('m sync_state_scheme, 'e, bool) act" where
  "SeenSession name = gets (\<lambda>w. name \<in> tm_seen w)"

definition AgentConnected :: "sync_env \<Rightarrow> string \<Rightarrow> ('m sync_state_scheme, 'e, bool) act" where
  "AgentConnected se name = andThen (gets tm_connected) (\<lambda>m. case m name of Some v \<Rightarrow> ret v | None \<Rightarrow> HasSession se name)"

definition SetAgentConnected :: "string \<Rightarrow> bool \<Rightarrow> ('m sync_state_scheme, 'e, unit) act" where
  "SetAgentConnected name up = (if name = [] then ret ()
     else modify (\<lambda>w. w\<lparr>tm_connected := (tm_connected w)(name \<mapsto> up)\<rparr>))"

definition ClearAgentConnected :: "string \<Rightarrow> ('m sync_state_scheme, 'e, unit) act" where
  "ClearAgentConnected name = (if name = [] then ret () else modify (\<lambda>w. w\<lparr>tm_connected := (tm_connected w)(name := None)\<rparr>))"

section \<open>Clusters that are reached directly\<close>

definition parseKubeNodeStatus :: "KubeNodeItem \<Rightarrow> string" where
  "parseKubeNodeStatus node = foldl (\<lambda>status (ctype, cstatus). if ctype \<noteq> ''Ready'' then status
     else if cstatus \<noteq> ''True'' then ''NotReady'' else status) ''Ready'' (ni_Conditions node)"

definition kubeNodesOf :: "KubeNodeItem list \<Rightarrow> KubeNode" where
  "kubeNodesOf ns = \<lparr>kn_Ready = Some (map ni_Name (filter (\<lambda>n. parseKubeNodeStatus n = ''Ready'') ns)),
     kn_NotReady = Some (map ni_Name (filter (\<lambda>n. parseKubeNodeStatus n = ''NotReady'') ns))\<rparr>"

definition getNewestKubeStatus :: "cluster_env \<Rightarrow> Cluster \<Rightarrow> ('m cluster_state_scheme, goerr, string \<times> string) act" where
  "getNewestKubeStatus ce c = andThen (fromSum (NewClusterSetWithOptions ce (clu_KubeConfig c) (clu_Name c) (clu_ConnectMode c))) (\<lambda>cs.
     onResult (kube ce (Client cs) ListNodes) (\<lambda>err. fail (kubeErr err)) (\<lambda>r. let ns = respNodes r in
       ret (KubeNode_Marshal (kubeNodesOf ns), if ns = [] then [] else ni_KubeletVersion (hd ns))))"

definition parseStatus :: "int \<Rightarrow> string \<Rightarrow> string \<Rightarrow> Cluster \<Rightarrow> Cluster updates" where
  "parseStatus status kubernetesVersion nodeData c =
     (if status \<noteq> clu_ClusterStatus c then [(''status'', clu_ClusterStatus_update (\<lambda>_. status))] else []) @
     (if kubernetesVersion \<noteq> clu_KubernetesVersion c then [(''kubernetes_version'', clu_KubernetesVersion_update (\<lambda>_. kubernetesVersion))] else []) @
     (if nodeData \<noteq> clu_Nodes c then [(''nodes'', clu_Nodes_update (\<lambda>_. nodeData))] else [])"

definition beingDeployed :: "Cluster \<Rightarrow> bool" where
  "beingDeployed c \<longleftrightarrow> clu_ClusterType c = ClusterTypeCustom \<and>
     clu_ClusterStatus c \<in> {ClusterStatusUnStart, ClusterStatusDeploy, ClusterStatusFailed, ClusterStatusPending}"

definition doSync :: "cluster_env \<Rightarrow> Cluster \<Rightarrow> ('m sync_state_scheme, goerr, unit) act" where
  "doSync ce c = (if clu_PermissionId c \<noteq> 0 then ret () else if beingDeployed c then ret ()
     else andThen timeNow (\<lambda>now. andThen (gets (\<lambda>w. shouldProbe (clu_Name c) now (directBackoff w))) (\<lambda>(go, p).
       andThen (modify (\<lambda>w. w\<lparr>directBackoff := p\<rparr>)) (\<lambda>_. if \<not> go then ret ()
       else andThen (attempt (getNewestKubeStatus ce c)) (\<lambda>res.
         let (status, up, reason, message, nodeData, version) = (case res of
               Inl err \<Rightarrow> (ClusterStatusError, False, ''ProbeFailed'', ce_errText ce err, [], [])
             | Inr (nodeData, version) \<Rightarrow> (ClusterStatusRunning, True, ''Healthy'', [], nodeData, version))
         in andThen (modify (\<lambda>w. w\<lparr>directBackoff := markResult (clu_Name c) up (directBackoff w)\<rparr>)) (\<lambda>_.
            ignoring (clusterInternalUpdate (Oid c) (parseStatus status version nodeData c @ probeConditionUpdates up reason message now))))))))"

text \<open>What a goroutine returns is \<open>nil\<close> (\<open>doSync\<close> only logs), so a round fails only where the clusters cannot be listed.\<close>

definition ClusterSyncer_Do :: "sync_env \<Rightarrow> bool \<Rightarrow> ('m sync_state_scheme, goerr, unit) act" where
  "ClusterSyncer_Do se disabled = (if disabled then ret ()
     else andThen (clusterList [WithPermissionID 0, WithConnectMode ConnectModeDirect]) (\<lambda>cs.
       andThen (gets tick) (\<lambda>n. andThen (forEach (doSync (se_ce se)) (se_order se n cs)) (\<lambda>_.
       modify (\<lambda>w. w\<lparr>directBackoff := cleanup (clu_Name ` set cs) (directBackoff w)\<rparr>)))))"

section \<open>Clusters behind a tunnel\<close>

definition probeTunnelL7 :: "sync_env \<Rightarrow> Cluster \<Rightarrow> ('m sync_state_scheme, goerr, bool \<times> string \<times> string) act" where
  "probeTunnelL7 se c = andThen (HasSession se (clu_Name c)) (\<lambda>there. if \<not> there
     then ret (False, ''AgentDisconnected'', utf8 [0x61, 0x67, 0x65, 0x6E, 0x74, 0x20, 0x96A7, 0x9053, 0x672A, 0x8FDE, 0x63A5])
     else (case NewClusterSetWithOptions (se_ce se) (clu_KubeConfig c) (clu_Name c) (clu_ConnectMode c) of
         Inl err \<Rightarrow> ret (False, ''KubeConfigInvalid'', ce_errText (se_ce se) err)
       | Inr cs \<Rightarrow> onResult (kube (se_ce se) (Client cs) GetVersion)
           (\<lambda>err. ret (False, ''ProbeFailed'', ce_errText (se_ce se) (kubeErr err))) (\<lambda>_. ret (True, ''Healthy'', []))))"

definition desiredStatus :: "bool \<Rightarrow> int \<Rightarrow> int" where
  "desiredStatus up status = (if up \<and> (status = ClusterStatusPending \<or> status = ClusterStatusError) then ClusterStatusRunning
     else if \<not> up \<and> status = ClusterStatusRunning then ClusterStatusError else status)"

definition probeTunnelCluster :: "sync_env \<Rightarrow> Cluster \<Rightarrow> ('m sync_state_scheme, goerr, unit) act" where
  "probeTunnelCluster se obj = andThen timeNow (\<lambda>now. andThen (gets (\<lambda>w. shouldProbe (clu_Name obj) now (tunnelBackoff w))) (\<lambda>gp.
     andThen (modify (\<lambda>w. w\<lparr>tunnelBackoff := snd gp\<rparr>)) (\<lambda>_. if \<not> fst gp then ret ()
     else andThen (probeTunnelL7 se obj) (\<lambda>(up, reason, message).
       andThen (modify (\<lambda>w. w\<lparr>tunnelBackoff := markResult (clu_Name obj) up (tunnelBackoff w)\<rparr>)) (\<lambda>_.
       andThen (AgentConnected se (clu_Name obj)) (\<lambda>prev.
       andThen (SetAgentConnected (clu_Name obj) up) (\<lambda>_.
         let desired = desiredStatus up (clu_ClusterStatus obj);
             updates = probeConditionUpdates up reason message now @
               (if desired \<noteq> clu_ClusterStatus obj then [(''status'', clu_ClusterStatus_update (\<lambda>_. desired))] else [])
         in onResult (clusterInternalUpdate (Oid obj) updates) (\<lambda>err. if IsNotUpdated err then ret () else fail err) ret)))))))"

definition checkTunnelCluster :: "sync_env \<Rightarrow> Cluster \<Rightarrow> ('m sync_state_scheme, goerr, unit) act" where
  "checkTunnelCluster se obj = (if clu_PermissionId obj \<noteq> 0 then ret ()
     else if clu_ClusterStatus obj \<in> {ClusterStatusDeploy, ClusterStatusUnStart, ClusterStatusFailed} then SetAgentConnected (clu_Name obj) False
     else andThen (HasSession se (clu_Name obj)) (\<lambda>has. andThen (SeenSession (clu_Name obj)) (\<lambda>saw.
       if \<not> has \<and> \<not> saw then SetAgentConnected (clu_Name obj) False else probeTunnelCluster se obj)))"

definition TunnelSyncer_Do :: "sync_env \<Rightarrow> ('m sync_state_scheme, goerr, unit) act" where
  "TunnelSyncer_Do se = (if \<not> ce_tunnel (se_ce se) then ret ()
     else andThen (clusterList [WithConnectMode ConnectModeTunnel, WithPermissionID 0]) (\<lambda>cs.
       andThen (forEach (\<lambda>obj. ignoring (checkTunnelCluster se obj)) cs) (\<lambda>_.
       modify (\<lambda>w. w\<lparr>tunnelBackoff := cleanup (clu_Name ` set cs) (tunnelBackoff w)\<rparr>))))"

end
