(* ===== verification/ClusterPermission.thy ===== *)
theory ClusterPermission
  imports ClusterController DeployAgent AlertControllers
begin

text \<open>
  Grants on clusters (\<open>pkg/controller/cluster/permission.go\<close>): a grant is a row, a service account with its
  bindings in the cluster of the owner, and a sub-cluster whose kubeconfig carries the token of the account. And
  the kubeconfigs that lead through the gateway (\<open>proxy_kubeconfig.go\<close>, \<open>gateway_url.go\<close>,
  \<open>pkg/util/token/kube_access.go\<close>).
\<close>

section \<open>Requests and answers\<close>

record CreatePermissionRequest =
  cp_ClusterId :: int
  cp_UserId :: int
  cp_Name :: string
  cp_ExpirationSeconds :: int
  cp_Description :: string
  cp_PType :: int
  cp_Rules :: "PolicyRule list"
  cp_SAName :: string
  cp_SANamespace :: string
  cp_ClusterRoleName :: string
  cp_RoleBindingName :: string
  cp_TargetNamespaces :: "string list"

record UpdatePermissionRequest =
  pu_Id :: int
  pu_ResourceVersion :: int
  pu_Name :: string
  pu_ExpirationSeconds :: int
  pu_Description :: string
  pu_PType :: int
  pu_Rules :: "PolicyRule list"
  pu_TargetNamespaces :: "string list"
  pu_Force :: bool

record types_Permission =
  tp_Id :: int
  tp_ResourceVersion :: int
  tp_GmtCreate :: int
  tp_GmtModified :: int
  tp_UserId :: int
  tp_UserName :: string
  tp_ClusterId :: int
  tp_ClusterName :: string
  tp_ClusterAliasName :: string
  tp_Name :: string
  tp_ExpirationSeconds :: int
  tp_PType :: int
  tp_Rules :: "PolicyRule list"
  tp_SAName :: string
  tp_SANamespace :: string
  tp_TargetNamespaces :: "string list"
  tp_Description :: string

definition defaultExpirationSeconds :: int where "defaultExpirationSeconds = 365 * 24 * 3600"
definition defaultNamespace :: string where "defaultNamespace = ''pixiu-system''"

definition orDefault :: "string \<Rightarrow> string \<Rightarrow> string" where
  "orDefault s d = (if s = [] then d else s)"

definition SetDefaultOptions :: "CreatePermissionRequest \<Rightarrow> CreatePermissionRequest" where
  "SetDefaultOptions o1 = o1\<lparr>
     cp_ExpirationSeconds := (if cp_ExpirationSeconds o1 \<le> 0 then defaultExpirationSeconds else cp_ExpirationSeconds o1),
     cp_SANamespace := orDefault (cp_SANamespace o1) defaultNamespace,
     cp_SAName := orDefault (cp_SAName o1) (''pixiu-sa-'' @ FormatInt (cp_UserId o1)),
     cp_ClusterRoleName := (if cp_PType o1 = 0 then ''pixiu-view'' else if cp_PType o1 = 2 then ''cluster-admin''
       else orDefault (cp_ClusterRoleName o1) (''pixiu-cr-'' @ FormatInt (cp_UserId o1))),
     cp_RoleBindingName := orDefault (cp_RoleBindingName o1) (''pixiu-rb-'' @ FormatInt (cp_UserId o1))\<rparr>"

definition encodeRules :: "cluster_env \<Rightarrow> PolicyRule list \<Rightarrow> string" where
  "encodeRules ce rules = (if rules = [] then [] else ce_marshalRules ce rules)"

definition encodeStringSlice :: "string list \<Rightarrow> string" where
  "encodeStringSlice items = (if items = [] then [] else jsonPrint (JArr (map JStr items)))"

definition decodeRules :: "cluster_env \<Rightarrow> string \<Rightarrow> PolicyRule list" where
  "decodeRules ce raw = (if raw = [] then [] else case ce_unmarshalRules ce raw of None \<Rightarrow> [] | Some rules \<Rightarrow> rules)"

definition decodeStringSlice :: "string \<Rightarrow> string list" where
  "decodeStringSlice raw = (if raw = [] then [] else case unmarshalWith (decSlice decString []) raw [] of None \<Rightarrow> [] | Some items \<Rightarrow> items)"

definition permissionModel2Type :: "cluster_env \<Rightarrow> Permission \<Rightarrow> types_Permission" where
  "permissionModel2Type ce r = \<lparr>tp_Id = Oid r, tp_ResourceVersion = ResourceVersion r, tp_GmtCreate = GmtCreate r, tp_GmtModified = GmtModified r,
     tp_UserId = gt_UserId r, tp_UserName = gt_UserName r, tp_ClusterId = gt_ClusterId r, tp_ClusterName = gt_OwnerClusterName r,
     tp_ClusterAliasName = gt_OwnerClusterAliasName r, tp_Name = gt_Name r, tp_ExpirationSeconds = gt_ExpirationSeconds r, tp_PType = gt_PType r,
     tp_Rules = decodeRules ce (gt_Rules r), tp_SAName = gt_SAName r, tp_SANamespace = gt_SANamespace r,
     tp_TargetNamespaces = decodeStringSlice (gt_TargetNamespaces r), tp_Description = gt_Description r\<rparr>"

section \<open>The objects in the cluster of the owner\<close>

definition ensureServiceAccount :: "cluster_env \<Rightarrow> CreatePermissionRequest \<Rightarrow> rest_config \<Rightarrow> ('m cluster_state_scheme, goerr, unit) act" where
  "ensureServiceAccount ce req cl = onResult (kube ce cl (GetServiceAccount (cp_SANamespace req) (cp_SAName req)))
     (\<lambda>err. if err \<noteq> KNotFound then fail (kubeErr err)
       else onResult (kube ce cl (CreateServiceAccount (cp_SANamespace req) (cp_SAName req)))
         (\<lambda>err. if err = KAlreadyExists then ret () else fail (kubeErr err)) (\<lambda>_. ret ()))
     (\<lambda>_. ret ())"

definition createClusterRole :: "cluster_env \<Rightarrow> CreatePermissionRequest \<Rightarrow> rest_config \<Rightarrow> ('m cluster_state_scheme, goerr, unit) act" where
  "createClusterRole ce req cl = (if cp_PType req \<noteq> 1 then ret ()
     else onResult (kube ce cl (GetClusterRole (cp_ClusterRoleName req)))
       (\<lambda>_. onResult (kube ce cl (CreateClusterRole (cp_ClusterRoleName req) (cp_Rules req))) (\<lambda>_. fail (Errorf ''failed to create ClusterRole'')) (\<lambda>_. ret ()))
       (\<lambda>_. ret ()))"

definition createClusterRoleBinding :: "cluster_env \<Rightarrow> CreatePermissionRequest \<Rightarrow> rest_config \<Rightarrow> ('m cluster_state_scheme, goerr, unit) act" where
  "createClusterRoleBinding ce req cl = onResult (kube ce cl (GetClusterRoleBinding (cp_RoleBindingName req)))
     (\<lambda>err. if err \<noteq> KNotFound then fail (Errorf ''failed to check ClusterRoleBinding'')
       else onResult (kube ce cl (CreateClusterRoleBinding (cp_RoleBindingName req) (cp_SANamespace req) (cp_SAName req) (cp_ClusterRoleName req)))
         (\<lambda>_. fail (Errorf ''failed to create ClusterRoleBinding'')) (\<lambda>_. ret ()))
     (\<lambda>_. ret ())"

definition createRoleBinding :: "cluster_env \<Rightarrow> CreatePermissionRequest \<Rightarrow> rest_config \<Rightarrow> string \<Rightarrow> ('m cluster_state_scheme, goerr, unit) act" where
  "createRoleBinding ce req cl namespace = onResult (kube ce cl (GetRoleBinding namespace (cp_RoleBindingName req)))
     (\<lambda>err. if err \<noteq> KNotFound then fail (Errorf ''failed to check RoleBinding'')
       else onResult (kube ce cl (CreateRoleBinding namespace (cp_RoleBindingName req) (cp_SANamespace req) (cp_SAName req) (cp_ClusterRoleName req)))
         (\<lambda>_. fail (Errorf ''failed to create RoleBinding'')) (\<lambda>_. ret ()))
     (\<lambda>_. ret ())"

text \<open>\<open>legacyTokenPollTimes\<close> polls, half a second apart, unless the context ends.\<close>

definition legacyTokenPollTimes :: nat where "legacyTokenPollTimes = 10"

fun pollSecret :: "cluster_env \<Rightarrow> rest_config \<Rightarrow> string \<Rightarrow> string \<Rightarrow> nat \<Rightarrow> ('m cluster_state_scheme, goerr, string) act" where
  "pollSecret ce cl ns name 0 = fail (Errorf ''timed out waiting for the SA token'')"
| "pollSecret ce cl ns name (Suc n) = onResult (kube ce cl (GetSecret ns name)) (\<lambda>err. fail (Wrapf ''failed to get the SA token secret'' (kubeErr err)))
     (\<lambda>r. if sec_Token (respSecret r) \<noteq> [] then ret (sec_Token (respSecret r))
       else andThen (gets tick) (\<lambda>now. case ce_ctxErr ce now of Some err \<Rightarrow> fail err
         | None \<Rightarrow> andThen (modify (\<lambda>w. w\<lparr>tick := Suc (tick w)\<rparr>)) (\<lambda>_. pollSecret ce cl ns name n)))"

definition accountSecret :: "string \<Rightarrow> Secret \<Rightarrow> bool" where
  "accountSecret name s \<longleftrightarrow> sec_IsAccountToken s \<and> sec_AccountName s = name \<and> sec_Token s \<noteq> []"

definition createLegacyToken :: "cluster_env \<Rightarrow> rest_config \<Rightarrow> string \<Rightarrow> string \<Rightarrow> ('m cluster_state_scheme, goerr, string) act" where
  "createLegacyToken ce cl ns name = onResult (kube ce cl (ListSecrets ns)) (\<lambda>err. fail (Wrapf ''failed to list the SA token secrets'' (kubeErr err)))
     (\<lambda>existing. case find (accountSecret name) (respSecrets existing) of
         Some sec \<Rightarrow> ret (sec_Token sec)
       | None \<Rightarrow> onResult (kube ce cl (CreateTokenSecret ns (name @ ''-token-'') name)) (\<lambda>err. fail (Wrapf ''failed to create the SA token secret'' (kubeErr err)))
           (\<lambda>secret. pollSecret ce cl ns (sec_Name (respSecret secret)) legacyTokenPollTimes))"

text \<open>\<open>int64(duration.Seconds())\<close> of \<open>time.Duration(s) * time.Second\<close>, which has 64 bits: the seconds and the fraction
  are added as \<open>float64\<close> and cut off.\<close>

definition finiteValue :: "float64 option \<Rightarrow> rat" where
  "finiteValue f = (case f of Some (Fin q) \<Rightarrow> q | _ \<Rightarrow> 0)"

definition towardZero :: "rat \<Rightarrow> int" where
  "towardZero q = (if 0 \<le> q then \<lfloor>q\<rfloor> else - \<lfloor>- q\<rfloor>)"

definition durationSeconds :: "int \<Rightarrow> int" where
  "durationSeconds d = (let sec = sgn d * (\<bar>d\<bar> div 10 ^ 9); nsec = d - sec * 10 ^ 9
     in towardZero (finiteValue (roundDouble (of_int sec + finiteValue (roundDouble (of_int nsec / 10 ^ 9))))))"

definition createToken :: "cluster_env \<Rightarrow> rest_config \<Rightarrow> string \<Rightarrow> string \<Rightarrow> int \<Rightarrow> ('m cluster_state_scheme, goerr, string) act" where
  "createToken ce cl ns name duration = onResult (kube ce cl (CreateToken ns name (durationSeconds duration)))
     (\<lambda>err. if err = KNotFound then createLegacyToken ce cl ns name else fail (kubeErr err)) (\<lambda>r. ret (respToken r))"

definition buildKubeconfig :: "cluster_env \<Rightarrow> string \<Rightarrow> string \<Rightarrow> string \<Rightarrow> string \<Rightarrow> string" where
  "buildKubeconfig ce name server caData tok = base64Encode (case ce_writeConfig ce \<lparr>ac_Cluster = name, ac_Server = server, ac_CAData = caData,
     ac_InsecureSkipTLSVerify = (caData = []), ac_User = name, ac_Token = tok\<rparr> of Inl _ \<Rightarrow> [] | Inr b \<Rightarrow> b)"

definition bindRoles :: "cluster_env \<Rightarrow> CreatePermissionRequest \<Rightarrow> rest_config \<Rightarrow> ('m cluster_state_scheme, goerr, unit) act" where
  "bindRoles ce req cl = (if cp_PType req = 0 \<or> cp_PType req = 2 then createClusterRoleBinding ce req cl
     else forEach (createRoleBinding ce req cl) (cp_TargetNamespaces req))"

definition addKubernetesRule :: "cluster_env \<Rightarrow> CreatePermissionRequest \<Rightarrow> client_set \<Rightarrow> ('m cluster_state_scheme, goerr, string) act" where
  "addKubernetesRule ce req cs = (let cl = Client cs in
     onResult (ensureServiceAccount ce req cl) (\<lambda>err. fail (Wrapf ''failed to create SA'' err)) (\<lambda>_.
     andThen (createClusterRole ce req cl) (\<lambda>_.
     andThen (bindRoles ce req cl) (\<lambda>_.
     onResult (createToken ce cl (cp_SANamespace req) (cp_SAName req) (wrap64 (cp_ExpirationSeconds req * 10 ^ 9)))
       (\<lambda>err. fail (Wrapf ''failed to create token'' err)) (\<lambda>tok.
     ret (buildKubeconfig ce (cp_Name req) (rc_Host (Config cs)) (case rc_CAData (Config cs) of None \<Rightarrow> [] | Some ca \<Rightarrow> ca) tok))))))"

definition deleteBinding :: "cluster_env \<Rightarrow> rest_config \<Rightarrow> string \<Rightarrow> string \<Rightarrow> ('m cluster_state_scheme, goerr, unit) act" where
  "deleteBinding ce cl bindingName namespace = ignoring (kube ce cl (DeleteRoleBinding namespace bindingName))"

definition deleteKubernetesRule :: "cluster_env \<Rightarrow> Permission \<Rightarrow> ('m cluster_state_scheme, goerr, unit) act" where
  "deleteKubernetesRule ce object = onResult (GetClusterSetByName ce (gt_OwnerClusterName object)) (\<lambda>err. fail (Wrapf ''failed to get the cluster'' err))
     (\<lambda>cs. let cl = Client cs in
       andThen (ignoring (kube ce cl (DeleteServiceAccount (gt_SANamespace object) (gt_SAName object)))) (\<lambda>_.
         if gt_PType object = 1
         then andThen (ignoring (kube ce cl (DeleteClusterRole (gt_ClusterRoleName object)))) (\<lambda>_.
           forEach (deleteBinding ce cl (gt_RoleBindingName object)) (decodeStringSlice (gt_TargetNamespaces object)))
         else ignoring (kube ce cl (DeleteClusterRoleBinding (gt_RoleBindingName object)))))"

section \<open>The operations\<close>

definition preDeletePermission :: "context_user \<Rightarrow> int \<Rightarrow> ('m cluster_state_scheme, goerr, Permission) act" where
  "preDeletePermission ctx permissionId = onResult (permissionGet permissionId) (\<lambda>_. fail (Util ErrInternal)) (\<lambda>found. case found of
       None \<Rightarrow> fail (Util ErrPermissionNotFound)
     | Some object \<Rightarrow> andThen (clusterGet (gt_OwnerClusterId object) []) (\<lambda>master. case master of
         None \<Rightarrow> fail ErrClusterNotFound
       | Some masterCluster \<Rightarrow> andThen (CheckResourceOwner ctx (clu_UserId masterCluster)) (\<lambda>_. ret object)))"

definition DeletePermission :: "cluster_env \<Rightarrow> context_user \<Rightarrow> int \<Rightarrow> ('m cluster_state_scheme, goerr, unit) act" where
  "DeletePermission ce ctx permissionId = andThen (preDeletePermission ctx permissionId) (\<lambda>object.
     onResult (permissionDelete permissionId) (\<lambda>_. fail (Util ErrInternal)) (\<lambda>_.
     andThen (ignoring (deleteKubernetesRule ce object)) (\<lambda>_.
     clusterc_Delete ce ctx (gt_ClusterId object) True)))"

definition preCreatePermission :: "int \<Rightarrow> int \<Rightarrow> ('m cluster_state_scheme, goerr, unit) act" where
  "preCreatePermission uid clusterId = onResult (permissionGetBy [WithUser gt_UserId uid, WithOwnerCluster clusterId])
     (\<lambda>err. if IsRecordNotFound err then ret () else fail (Errorf ''check before creation failed''))
     (\<lambda>_. fail (Errorf ''cluster is already granted to the user''))"

definition newPermission :: "cluster_env \<Rightarrow> CreatePermissionRequest \<Rightarrow> int \<Rightarrow> string \<Rightarrow> Cluster \<Rightarrow> Permission" where
  "newPermission ce req uid userName old = pixiu_model.extend newModel \<lparr>gt_Name = cp_Name req, gt_UserId = uid, gt_UserName = userName,
     gt_ClusterId = 0, gt_ClusterName = [], gt_OwnerClusterId = cp_ClusterId req, gt_OwnerClusterName = clu_Name old,
     gt_OwnerClusterAliasName = clu_AliasName old, gt_ExpirationSeconds = cp_ExpirationSeconds req, gt_PType = cp_PType req,
     gt_Rules = encodeRules ce (cp_Rules req), gt_SAName = cp_SAName req, gt_SANamespace = cp_SANamespace req,
     gt_ClusterRoleName = cp_ClusterRoleName req, gt_RoleBindingName = cp_RoleBindingName req,
     gt_TargetNamespaces = encodeStringSlice (cp_TargetNamespaces req), gt_Description = cp_Description req\<rparr>"

definition subCluster :: "int \<Rightarrow> Cluster \<Rightarrow> string \<Rightarrow> int \<Rightarrow> CreateClusterRequest" where
  "subCluster uid old kubeConfig pid = \<lparr>cc_Name = [], cc_AliasName = [], cc_UserId = uid, cc_Type = clu_ClusterType old, cc_KubeConfig = kubeConfig,
     cc_ConnectMode = 0, cc_AgentToken = [], cc_Description = [], cc_Protected = False, cc_PermissionId = pid, cc_OwnerReference = Oid old\<rparr>"

text \<open>A step of the creation after the row: if it fails, the grant is deleted again.\<close>

definition orRevoke :: "cluster_env \<Rightarrow> context_user \<Rightarrow> int \<Rightarrow> ('m cluster_state_scheme, goerr, 'a) act \<Rightarrow> ('a \<Rightarrow> ('m cluster_state_scheme, goerr, 'b) act) \<Rightarrow> ('m cluster_state_scheme, goerr, 'b) act" where
  "orRevoke ce ctx pid m f = onResult m (\<lambda>err. andThen (ignoring (DeletePermission ce ctx pid)) (\<lambda>_. fail err)) f"

definition grantCluster :: "cluster_env \<Rightarrow> context_user \<Rightarrow> CreatePermissionRequest \<Rightarrow> int \<Rightarrow> Cluster \<Rightarrow> client_set \<Rightarrow> Permission \<Rightarrow> ('m cluster_state_scheme, goerr, unit) act" where
  "grantCluster ce ctx req uid old cs p =
     orRevoke ce ctx (Oid p) (addKubernetesRule ce req cs) (\<lambda>kubeConfig.
     orRevoke ce ctx (Oid p) (clusterc_Create ce ctx (subCluster uid old kubeConfig (Oid p))) (\<lambda>newObj.
     orRevoke ce ctx (Oid p) (permissionUpdate (Oid p) (ResourceVersion p)
       [(''cluster_id'', gt_ClusterId_update (\<lambda>_. Oid newObj)), (''cluster_name'', gt_ClusterName_update (\<lambda>_. clu_Name newObj))]) ret))"

definition uniqueOr :: "goerr \<Rightarrow> goerr" where
  "uniqueOr err = (if IsUniqueConstraintError err then Errorf ''a grant of this name exists'' else Util ErrInternal)"

definition CreatePermission :: "cluster_env \<Rightarrow> context_user \<Rightarrow> CreatePermissionRequest \<Rightarrow> ('m cluster_state_scheme, goerr, unit) act" where
  "CreatePermission ce ctx req0 = onResult (EffectiveUserID ctx (cp_UserId req0)) (\<lambda>_. fail (Util ErrInternal)) (\<lambda>uid.
     if uid = 0 \<or> cp_ClusterId req0 = 0 then fail (Util ErrReqParams)
     else andThen (preCreatePermission uid (cp_ClusterId req0)) (\<lambda>_. let req = SetDefaultOptions req0 in
       andThen (clusterGet (cp_ClusterId req) []) (\<lambda>found. case found of None \<Rightarrow> fail ErrClusterNotFound | Some old \<Rightarrow>
       andThen (CheckResourceOwner ctx (clu_UserId old)) (\<lambda>_.
       onResult (GetClusterSetByName ce (clu_Name old)) (\<lambda>err. fail (Wrapf ''failed to get the cluster'' err)) (\<lambda>cs.
       andThen (userGet uid) (\<lambda>userObj. case userObj of None \<Rightarrow> fail nilPanic | Some u \<Rightarrow>
       onResult (permissionCreate (newPermission ce req uid (u_Name u) old)) (\<lambda>err. fail (uniqueOr err)) (\<lambda>p.
       grantCluster ce ctx req uid old cs p)))))))"

definition preUpdatePermission :: "int \<Rightarrow> ('m cluster_state_scheme, goerr, Permission) act" where
  "preUpdatePermission permissionId = onResult (permissionGet permissionId) (\<lambda>_. fail (Util ErrInternal)) (\<lambda>found. case found of
     None \<Rightarrow> fail (Util ErrPermissionNotFound) | Some oldP \<Rightarrow> ret oldP)"

definition permissionUpdates :: "cluster_env \<Rightarrow> UpdatePermissionRequest \<Rightarrow> Permission \<Rightarrow> Permission updates" where
  "permissionUpdates ce req oldP =
     (let ns = encodeStringSlice (pu_TargetNamespaces req); rules = encodeRules ce (pu_Rules req)
      in (if ns \<noteq> gt_TargetNamespaces oldP then [(''target_namespaces'', gt_TargetNamespaces_update (\<lambda>_. ns))] else [])
       @ (if gt_Rules oldP \<noteq> rules then [(''rules'', gt_Rules_update (\<lambda>_. rules))] else [])
       @ (if gt_ExpirationSeconds oldP \<noteq> pu_ExpirationSeconds req then [(''expiration_seconds'', gt_ExpirationSeconds_update (\<lambda>_. pu_ExpirationSeconds req))] else []))"

definition addRuleReq :: "UpdatePermissionRequest \<Rightarrow> Permission \<Rightarrow> CreatePermissionRequest" where
  "addRuleReq req oldP = \<lparr>cp_ClusterId = 0, cp_UserId = 0, cp_Name = [], cp_ExpirationSeconds = pu_ExpirationSeconds req, cp_Description = [],
     cp_PType = gt_PType oldP, cp_Rules = pu_Rules req, cp_SAName = gt_SAName oldP, cp_SANamespace = gt_SANamespace oldP,
     cp_ClusterRoleName = gt_ClusterRoleName oldP, cp_RoleBindingName = gt_RoleBindingName oldP, cp_TargetNamespaces = pu_TargetNamespaces req\<rparr>"

definition UpdatePermission :: "cluster_env \<Rightarrow> UpdatePermissionRequest \<Rightarrow> ('m cluster_state_scheme, goerr, unit) act" where
  "UpdatePermission ce req = andThen (preUpdatePermission (pu_Id req)) (\<lambda>oldP. let updates = permissionUpdates ce req oldP in
     if updates = [] \<and> \<not> pu_Force req then ret ()
     else onResult (GetClusterSetByName ce (gt_OwnerClusterName oldP)) (\<lambda>err. fail (Wrapf ''failed to get the cluster'' err)) (\<lambda>cs.
       andThen (ignoring (deleteKubernetesRule ce oldP)) (\<lambda>_.
       andThen (addKubernetesRule ce (addRuleReq req oldP) cs) (\<lambda>kubeConfig.
       andThen (clusterInternalUpdate (gt_ClusterId oldP) [(''kube_config'', clu_KubeConfig_update (\<lambda>_. kubeConfig))]) (\<lambda>_.
       andThen (dropClient (gt_ClusterName oldP)) (\<lambda>_.
       onResult (permissionUpdate (pu_Id req) (pu_ResourceVersion req) updates)
         (\<lambda>err. if IsNotUpdated err then fail (Util ErrRecordNotUpdate) else fail (uniqueOr err)) ret))))))"

definition GetPermission :: "cluster_env \<Rightarrow> int \<Rightarrow> ('m cluster_state_scheme, goerr, types_Permission) act" where
  "GetPermission ce permissionId = onResult (permissionGet permissionId) (\<lambda>_. fail (Util ErrInternal)) (\<lambda>found. case found of
     None \<Rightarrow> fail (Util ErrPermissionNotFound) | Some object \<Rightarrow> ret (permissionModel2Type ce object))"

definition ListPermissions :: "cluster_env \<Rightarrow> ListOptions \<Rightarrow> ('m cluster_state_scheme, goerr, types_Permission MessagePage) act" where
  "ListPermissions ce lo0 = (let lo = SetDefaultPageOption lo0; opts = [WithNameLike gt_Name (lo_NameSelector lo)] in
     andThen (onResult (permissionCount opts) (\<lambda>err. ret (0, ce_errText ce err)) (\<lambda>tot. ret (tot, []))) (\<lambda>(tot, message).
     onResult (permissionList (opts @ pageOptions lo)) (\<lambda>_. fail (Util ErrInternal)) (\<lambda>objects.
       ret \<lparr>pr_Page = lo_Page lo, pr_Limit = lo_Limit lo, pr_Total = tot, pr_Items = map (permissionModel2Type ce) objects, pr_Message = message\<rparr>)))"

section \<open>Kubeconfigs for the gateway\<close>

record KubeGatewayOptions =
  kg_Enabled :: "bool option"
  kg_DefaultExpireHours :: int
  kg_MaxExpireHours :: int
  kg_InsecureSkipTLSVerify :: bool

definition IsEnabled :: "KubeGatewayOptions \<Rightarrow> bool" where
  "IsEnabled o1 = (case kg_Enabled o1 of None \<Rightarrow> True | Some b \<Rightarrow> b)"

definition kg_SetDefaults :: "KubeGatewayOptions \<Rightarrow> KubeGatewayOptions" where
  "kg_SetDefaults o1 = (let d = (if kg_DefaultExpireHours o1 \<le> 0 then 720 else kg_DefaultExpireHours o1);
       m = (if kg_MaxExpireHours o1 \<le> 0 then 8760 else kg_MaxExpireHours o1)
     in o1\<lparr>kg_DefaultExpireHours := (if m < d then m else d), kg_MaxExpireHours := m\<rparr>)"

text \<open>What the address of the gateway depends on: \<open>url.Parse\<close> and the form of a URL are parameters, and so are
  \<open>net.SplitHostPort\<close> and \<open>net.ParseIP\<close>; the last member is the zone in which times are written.\<close>

record url =
  url_Scheme :: string
  url_Host :: string
  url_Rest :: string

record gateway_env =
  ge_gateway :: KubeGatewayOptions
  ge_PublicURL :: string
  ge_TLSListen :: int
  ge_parseURL :: "string \<Rightarrow> goerr + url"
  ge_urlString :: "url \<Rightarrow> string"
  ge_hostname :: "string \<Rightarrow> string"
  ge_splitHostPort :: "string \<Rightarrow> string option"
  ge_isLoopbackIP :: "string \<Rightarrow> bool"
  ge_sha256 :: "string \<Rightarrow> string"
  ge_zone :: "int \<Rightarrow> int"

text \<open>The headers of the request from which the address may be inferred; \<open>None\<close> outside of a request.\<close>

record request_origin =
  ro_ForwardedProto :: string
  ro_TLS :: bool
  ro_ForwardedHost :: string
  ro_Host :: string

definition KubeAccessTokenPrefix :: string where "KubeAccessTokenPrefix = ''pxk_''"

definition rawURLEncode :: "string \<Rightarrow> string" where
  "rawURLEncode s = map (\<lambda>c. if c = CHR ''+'' then CHR ''-'' else if c = CHR ''/'' then CHR ''_'' else c) (filter (\<lambda>c. c \<noteq> CHR ''='') (base64Encode s))"

definition HashKubeAccessToken :: "gateway_env \<Rightarrow> string \<Rightarrow> string" where
  "HashKubeAccessToken ge plaintext = hexEncodeToString (ge_sha256 ge plaintext)"

definition IsKubeAccessToken :: "string \<Rightarrow> bool" where
  "IsKubeAccessToken plaintext = HasPrefix plaintext KubeAccessTokenPrefix"

definition GenerateKubeAccessToken :: "cluster_env \<Rightarrow> gateway_env \<Rightarrow> ('m cluster_state_scheme, goerr, string \<times> string \<times> string) act" where
  "GenerateKubeAccessToken ce ge = andThen (external (pv_randRead (ce_rand ce))) (\<lambda>jtiBytes.
     andThen (external (pv_randRead (ce_rand ce))) (\<lambda>secret.
       let jti = hexEncodeToString jtiBytes; plaintext = KubeAccessTokenPrefix @ jti @ ''.'' @ rawURLEncode secret
       in ret (plaintext, jti, HashKubeAccessToken ge plaintext)))"

definition StatusServiceUnavailable :: int where "StatusServiceUnavailable = 503"

definition hours :: "int \<Rightarrow> int" where "hours h = wrap64 (h * 3600 * 10 ^ 9)"

definition tokenExpiry :: "KubeGatewayOptions \<Rightarrow> int option \<Rightarrow> int \<Rightarrow> goerr + int" where
  "tokenExpiry gw expiresAt now = (case expiresAt of
       None \<Rightarrow> Inr (now + hours (kg_DefaultExpireHours gw))
     | Some e \<Rightarrow> if e \<le> now then Inl (NewError (Errorf ''expires_at must be in the future'') StatusBadRequest)
         else if now + hours (kg_MaxExpireHours gw) < e then Inl (NewError (Errorf ''expires_at exceeds max hours'') StatusBadRequest)
         else Inr e)"

definition proxyCreate :: "cluster_env \<Rightarrow> gateway_env \<Rightarrow> context_user \<Rightarrow> int \<Rightarrow> int option \<Rightarrow> ('m cluster_state_scheme, goerr, unit) act" where
  "proxyCreate ce ge ctx clusterId expiresAt =
     (if \<not> IsEnabled (ge_gateway ge) then fail (NewError (Errorf ''kube-gateway is disabled'') StatusServiceUnavailable)
      else onResult (GetUserFromContext ctx) (\<lambda>_. fail ErrUnauthorized) (\<lambda>user.
        andThen (AuthorizeClusterAccess (Some user) clusterId) (\<lambda>obj.
        andThen (onResult (accessTokenList [WithClusterId (Oid obj), WithUser at_UserId (Oid user)]) (\<lambda>_. ret []) ret) (\<lambda>existing.
        if existing \<noteq> [] then fail (NewError (Errorf ''proxy kubeconfig already exists'') StatusConflict)
        else andThen timeNow (\<lambda>now. case tokenExpiry (kg_SetDefaults (ge_gateway ge)) expiresAt now of Inl err \<Rightarrow> fail err
          | Inr expireAt \<Rightarrow> orInternal (GenerateKubeAccessToken ce ge) (\<lambda>(_, jti, hash).
              orInternal (accessTokenCreate (pixiu_model.extend newModel \<lparr>at_JTI = jti, at_UserId = Oid user, at_ClusterId = Oid obj,
                at_ClusterName = clu_Name obj, at_Name = [], at_TokenHash = hash, at_ExpiresAt = Some expireAt, at_RevokedAt = None, at_LastUsedAt = None\<rparr>))
                (\<lambda>_. ret ())))))))"

definition proxyRevoke :: "context_user \<Rightarrow> int \<Rightarrow> string \<Rightarrow> ('m cluster_state_scheme, goerr, unit) act" where
  "proxyRevoke ctx clusterId jti0 = onResult (GetUserFromContext ctx) (\<lambda>_. fail ErrUnauthorized) (\<lambda>user.
     andThen (AuthorizeClusterAccess (Some user) clusterId) (\<lambda>_. let jti = TrimSpace jti0 in
       if jti = [] then fail ErrInvalidRequest
       else onResult (accessTokenDelete [WithJTI jti, WithUser at_UserId (Oid user)])
         (\<lambda>err. if IsRecordNotFound err then fail (NewError (Errorf ''access token not found'') StatusNotFound) else fail ErrServerInternal) ret))"

definition isLoopbackHost :: "gateway_env \<Rightarrow> string \<Rightarrow> bool" where
  "isLoopbackHost ge host = (let h = TrimSpace (ToLower host) in h = [] \<or> h = ''localhost'' \<or> ge_isLoopbackIP ge h)"

definition inferPublicURL :: "gateway_env \<Rightarrow> request_origin option \<Rightarrow> string" where
  "inferPublicURL ge origin = (case origin of None \<Rightarrow> [] | Some r \<Rightarrow>
     (let proto = (if ro_ForwardedProto r = [] then (if ro_TLS r then ''https'' else ''http'') else ro_ForwardedProto r);
          host = (if ro_ForwardedHost r = [] then ro_Host r else ro_ForwardedHost r);
          hostname = (case ge_splitHostPort ge host of None \<Rightarrow> host | Some h \<Rightarrow> h)
      in if host = [] then [] else if isLoopbackHost ge hostname then [] else proto @ ''://'' @ host))"

definition JoinHostPort :: "string \<Rightarrow> string \<Rightarrow> string" where
  "JoinHostPort host port = (if CHR '':'' \<in> set host then ''['' @ host @ '']:'' @ port else host @ '':'' @ port)"

definition ensureHTTPSGatewayBase :: "gateway_env \<Rightarrow> string \<Rightarrow> int \<Rightarrow> goerr + string" where
  "ensureHTTPSGatewayBase ge base0 httpsPort0 = (let base = TrimSpace base0; httpsPort = (if httpsPort0 \<le> 0 then 8443 else httpsPort0) in
     if base = [] then Inl (Errorf ''empty gateway base url'')
     else (case ge_parseURL ge base of Inl err \<Rightarrow> Inl (Wrapf ''invalid gateway base url'' err)
       | Inr u0 \<Rightarrow> (let u = (if url_Scheme u0 = [] then u0\<lparr>url_Scheme := ''https''\<rparr> else u0) in
           if url_Host u = [] then Inl (Errorf ''invalid gateway base url: missing host'')
           else if ToLower (url_Scheme u) = ''https'' then Inr (TrimRight (ge_urlString ge u) ''/'')
           else if ToLower (url_Scheme u) \<noteq> ''http'' then Inl (Errorf ''unsupported gateway url scheme'')
           else Inr (TrimRight (ge_urlString ge (u\<lparr>url_Scheme := ''https'', url_Host := JoinHostPort (ge_hostname ge (url_Host u)) (FormatInt httpsPort)\<rparr>)) ''/''))))"

definition buildGatewayServer :: "gateway_env \<Rightarrow> request_origin option \<Rightarrow> string \<Rightarrow> goerr + string" where
  "buildGatewayServer ge origin clusterName =
     (let configured = TrimRight (TrimSpace (ge_PublicURL ge)) ''/'';
          base = (if configured = [] then inferPublicURL ge origin else configured);
          httpsPort = (if 0 < ge_TLSListen ge then ge_TLSListen ge else 8443)
      in if base = [] then Inl (Errorf ''default.public_url is not configured'')
         else (case ensureHTTPSGatewayBase ge base httpsPort of Inl err \<Rightarrow> Inl err | Inr b \<Rightarrow> Inr (b @ ''/k8s/'' @ clusterName)))"

definition renderProxyKubeconfig :: "cluster_env \<Rightarrow> Cluster \<Rightarrow> int \<Rightarrow> string \<Rightarrow> string \<Rightarrow> bool \<Rightarrow> goerr + string" where
  "renderProxyKubeconfig ce obj userId server accessToken insecureSkipTLS =
     (let ctxName = orDefault (TrimSpace (clu_Name obj)) (orDefault (TrimSpace (clu_AliasName obj)) ''pixiu-cluster'')
      in ce_writeConfig ce \<lparr>ac_Cluster = ctxName, ac_Server = server, ac_CAData = [], ac_InsecureSkipTLSVerify = insecureSkipTLS,
           ac_User = ''pixiu-'' @ FormatInt userId, ac_Token = accessToken\<rparr>)"

record ProxyKubeconfigResponse =
  pk_ClusterId :: int
  pk_ClusterName :: string
  pk_AliasName :: string
  pk_JTI :: string
  pk_ExpireAt :: string
  pk_Server :: string
  pk_Token :: string
  pk_KubeConfig :: string
  pk_KubeConfigEncoding :: string

definition proxyGet :: "cluster_env \<Rightarrow> gateway_env \<Rightarrow> request_origin option \<Rightarrow> context_user \<Rightarrow> int \<Rightarrow> ('m cluster_state_scheme, goerr, ProxyKubeconfigResponse option) act" where
  "proxyGet ce ge origin ctx clusterId = onResult (GetUserFromContext ctx) (\<lambda>_. fail ErrUnauthorized) (\<lambda>user.
     andThen (AuthorizeClusterAccess (Some user) clusterId) (\<lambda>obj.
     orInternal (accessTokenList [WithClusterId clusterId, WithUser at_UserId (Oid user)]) (\<lambda>tokens. case tokens of [] \<Rightarrow> ret None
       | t # _ \<Rightarrow> orInternal (GenerateKubeAccessToken ce ge) (\<lambda>(plaintext, _, hash).
           orInternal (accessTokenInternalUpdate (Oid t) [(''token_hash'', at_TokenHash_update (\<lambda>_. hash))]) (\<lambda>_.
           case buildGatewayServer ge origin (at_ClusterName t) of Inl err \<Rightarrow> fail (NewError err StatusInternalServerError)
           | Inr server \<Rightarrow> orInternal (fromSum (renderProxyKubeconfig ce obj (Oid user) server plaintext (kg_InsecureSkipTLSVerify (ge_gateway ge)))) (\<lambda>yaml.
               ret (Some \<lparr>pk_ClusterId = Oid obj, pk_ClusterName = clu_Name obj, pk_AliasName = clu_AliasName obj, pk_JTI = at_JTI t,
                 pk_ExpireAt = (case at_ExpiresAt t of None \<Rightarrow> [] | Some e \<Rightarrow> formatRFC3339 (ge_zone ge) e), pk_Server = server,
                 pk_Token = plaintext, pk_KubeConfig = yaml, pk_KubeConfigEncoding = ''yaml''\<rparr>)))))))"

text \<open>The last use is written by a goroutine of its own; the model writes it before it answers.\<close>

definition proxyValidate :: "gateway_env \<Rightarrow> string \<Rightarrow> ('m cluster_state_scheme, goerr, User \<times> ClusterAccessToken) act" where
  "proxyValidate ge plaintext0 = (let plaintext = TrimSpace plaintext0 in
     if \<not> IsKubeAccessToken plaintext then fail ErrUnauthorized
     else orInternal (accessTokenGetBy [WithTokenHash (HashKubeAccessToken ge plaintext)]) (\<lambda>found. case found of None \<Rightarrow> fail ErrUnauthorized
       | Some r \<Rightarrow> andThen timeNow (\<lambda>now. if \<not> IsActive now r then fail ErrUnauthorized
           else onResult (userGet (at_UserId r)) (\<lambda>_. fail ErrUnauthorized) (\<lambda>u. case u of None \<Rightarrow> fail ErrUnauthorized
             | Some user \<Rightarrow> if u_Status user = UserStatusForbidden then fail ErrForbidden
                 else andThen (ignoring (TouchLastUsed (Oid r))) (\<lambda>_. ret (user, r))))))"

section \<open>The gateway\<close>

text \<open>\<open>kubeGatewayHandler\<close> and \<open>proxyHandler\<close> (\<open>api/server/router/proxy\<close>) up to the configuration with which a request is
  forwarded and the path it asks for; the transport itself and the authenticated upstreams of data sources are left
  out. \<open>accessCluster\<close> is the cluster of the token of the request, if it came with one.\<close>

definition kubeGatewayBaseURL :: string where "kubeGatewayBaseURL = ''/k8s''"
definition proxyBaseURL :: string where "proxyBaseURL = ''/pixiu/proxy''"

definition parseKubeGatewayTarget :: "string \<Rightarrow> string \<Rightarrow> string option" where
  "parseKubeGatewayTarget path name = (let prefix1 = kubeGatewayBaseURL @ ''/'' @ name in
     if \<not> HasPrefix path prefix1 then None else Some (orDefault (drop (length prefix1) path) ''/''))"

definition forwardToCluster :: "cluster_env \<Rightarrow> string \<Rightarrow> string \<Rightarrow> ('m cluster_state_scheme, goerr, rest_config \<times> string) act" where
  "forwardToCluster ce clusterName target = onResult (GetClusterSetByName ce clusterName) (\<lambda>err. fail (Wrapf ''failed to get cluster'' err))
     (\<lambda>cs. ret (Config cs, target))"

definition kubeGatewayHandler :: "cluster_env \<Rightarrow> context_user \<Rightarrow> string option \<Rightarrow> string \<Rightarrow> string \<Rightarrow> ('m cluster_state_scheme, goerr, rest_config \<times> string) act" where
  "kubeGatewayHandler ce ctx accessCluster name path =
     (if name = [] then fail (NewError (Errorf ''cluster name is required'') StatusBadRequest)
      else onResult (GetUserFromContext ctx) (\<lambda>_. fail ErrUnauthorized) (\<lambda>user.
        if (case accessCluster of None \<Rightarrow> False | Some c \<Rightarrow> c \<noteq> name) then fail (NewError (Errorf ''token is not allowed for this cluster'') StatusForbidden)
        else andThen (AuthorizeClusterAccessByName (Some user) name) (\<lambda>obj. andThen (gets tick) (\<lambda>now.
          if clu_ConnectMode obj = ConnectModeTunnel \<and> \<not> (ce_tunnel ce \<and> ce_agentConnected ce (clu_Name obj) now)
          then fail (NewError (Errorf ''cluster agent is not connected'') StatusServiceUnavailable)
          else (case parseKubeGatewayTarget path (clu_Name obj) of None \<Rightarrow> fail (NewError (Errorf ''invalid gateway path'') StatusBadRequest)
            | Some target \<Rightarrow> forwardToCluster ce name target)))))"

definition proxyHandler :: "cluster_env \<Rightarrow> context_user \<Rightarrow> string \<Rightarrow> string \<Rightarrow> ('m cluster_state_scheme, goerr, rest_config \<times> string) act" where
  "proxyHandler ce ctx name path =
     (if name = [] then fail (NewError (Errorf ''cluster name is required'') StatusBadRequest)
      else andThen (case ctx of None \<Rightarrow> ret () | Some user \<Rightarrow> andThen (AuthorizeClusterAccessByName (Some user) name) (\<lambda>_. ret ())) (\<lambda>_.
     onResult (GetClusterSetByName ce name) (\<lambda>_. fail (Errorf ''failed to get the cluster'')) (\<lambda>_.
     forwardToCluster ce name (drop (length (proxyBaseURL @ ''/'' @ name)) path))))"

end
