(* ===== verification/ClusterProps.thy ===== *)
theory ClusterProps
  imports ClusterPermission
begin

text \<open>
  Access to clusters and the grants on them: how long a revoked grant is still good for, what a revocation leaves
  behind, whose client serves a granted user, and what a failed creation reports.
\<close>

section \<open>Access\<close>

lemma underscore_not_in_FormatInt: "CHR ''_'' \<notin> set (FormatInt i)"
proof
  assume "CHR ''_'' \<in> set (FormatInt i)"
  from FormatInt_chars [OF this] show False by (auto simp: charDigit_def split: if_splits)
qed

lemma accessKey_inj: "accessKey u c = accessKey v d \<longleftrightarrow> u = v \<and> c = d"
  using split_first [OF underscore_not_in_FormatInt underscore_not_in_FormatInt, of u "FormatInt c" v "FormatInt d"]
  by (auto simp: accessKey_def dest: FormatInt_inj)

definition granted :: "Permission list \<Rightarrow> int \<Rightarrow> int \<Rightarrow> bool" where
  "granted ps u c \<longleftrightarrow> (\<exists>p \<in> set ps. gt_UserId p = u \<and> gt_OwnerClusterId p = c)"

text \<open>The readings of the clock between two states, with the grants in the table.\<close>

definition moments :: "'m cluster_state_scheme \<Rightarrow> 'm cluster_state_scheme \<Rightarrow> (int \<times> Permission list) set" where
  "moments w w' = {(clock w n, rows (permissions w)) | n. tick w \<le> n \<and> n < tick w'}"

definition cacheOK :: "(int \<times> Permission list) set \<Rightarrow> 'm cluster_state_scheme \<Rightarrow> bool" where
  "cacheOK H w \<longleftrightarrow> (\<forall>u c e. u \<noteq> 0 \<longrightarrow> c \<noteq> 0 \<longrightarrow> accessCache w (accessKey u c) = Some e \<longrightarrow>
     (\<exists>t ps. (t, ps) \<in> H \<and> e = t + accessCacheTTL \<and> granted ps u c))"

lemma cacheOK_mono: "cacheOK H w \<Longrightarrow> H \<subseteq> H' \<Longrightarrow> accessCache v = accessCache w \<Longrightarrow> cacheOK H' v"
  unfolding cacheOK_def by (metis subsetD)

lemma cacheOK_drop: "cacheOK H w \<Longrightarrow> cacheOK H (w\<lparr>accessCache := (accessCache w)(k := None)\<rparr>)"
  unfolding cacheOK_def by simp

lemma cacheOK_put:
  assumes "cacheOK H w" and "u \<noteq> 0 \<and> c \<noteq> 0 \<Longrightarrow> granted ps u c" and "(t, ps) \<in> H"
  shows "cacheOK H (w\<lparr>accessCache := (accessCache w)(accessKey u c \<mapsto> t + accessCacheTTL)\<rparr>)"
  using assms unfolding cacheOK_def by (auto simp: accessKey_inj)

text \<open>An access that is good: a grant was in the table less than the lifetime of an entry ago.\<close>

definition recent :: "(int \<times> Permission list) set \<Rightarrow> 'm cluster_state_scheme \<Rightarrow> 'm cluster_state_scheme \<Rightarrow> int \<Rightarrow> int \<Rightarrow> bool" where
  "recent H w w' u c \<longleftrightarrow> (\<exists>t ps n. (t, ps) \<in> H \<and> granted ps u c \<and> tick w \<le> n \<and> n < tick w' \<and> clock w n < t + accessCacheTTL)"

definition sameGrants :: "'m cluster_state_scheme \<Rightarrow> 'm cluster_state_scheme \<Rightarrow> bool" where
  "sameGrants w w' \<longleftrightarrow> permissions w' = permissions w \<and> clock w' = clock w \<and> tick w \<le> tick w'"

lemma moments_mono: "sameGrants w v \<Longrightarrow> tick v' \<le> tick w' \<Longrightarrow> moments v v' \<subseteq> moments w w'"
  by (auto simp: moments_def sameGrants_def)

lemma recent_mono: "recent H v w' u c \<Longrightarrow> H \<subseteq> H' \<Longrightarrow> sameGrants w v \<Longrightarrow> recent H' w w' u c"
  unfolding recent_def sameGrants_def by (metis order_trans subsetD)

lemma runQuery_grants: "runQuery (buildQuery [WithUser gt_UserId u, WithOwnerCluster c]) ps \<noteq> [] \<Longrightarrow> u \<noteq> 0 \<Longrightarrow> c \<noteq> 0 \<Longrightarrow> granted ps u c"
  using set_runQuery [of "hd (runQuery (buildQuery [WithUser gt_UserId u, WithOwnerCluster c]) ps)" "buildQuery [WithUser gt_UserId u, WithOwnerCluster c]" ps]
  by (auto simp: granted_def buildQuery_def emptyQuery_def WithUser_def WithOwnerCluster_def Where_def)

lemma wp_lookupGrants:
  assumes "cacheOK H w"
  shows "wp (lookupGrants user obj) (\<lambda>_ w'. sameGrants w w' \<and> cacheOK (H \<union> moments w w') w' \<and>
       (Oid user \<noteq> 0 \<longrightarrow> Oid obj \<noteq> 0 \<longrightarrow> recent (moments w w') w w' (Oid user) (Oid obj)))
     (\<lambda>_ w'. sameGrants w w' \<and> cacheOK (H \<union> moments w w') w') w"
proof -
  let ?t = "clock w (Suc (tick w))" and ?ps = "rows (permissions w)"
  let ?w = "w\<lparr>tick := Suc (Suc (tick w))\<rparr>"
  have t: "(?t, ?ps) \<in> moments w (?w\<lparr>accessCache := c\<rparr>)" for c unfolding moments_def by force
  have put: "cacheOK (H \<union> moments w (?w\<lparr>accessCache := a\<rparr>)) (?w\<lparr>accessCache := (accessCache w)(accessKey (Oid user) (Oid obj) \<mapsto> ?t + accessCacheTTL)\<rparr>)"
    if "Oid user \<noteq> 0 \<and> Oid obj \<noteq> 0 \<Longrightarrow> granted ?ps (Oid user) (Oid obj)" for a
    using cacheOK_put [OF cacheOK_mono [OF assms, of _ ?w] that, of "H \<union> moments w (?w\<lparr>accessCache := a\<rparr>)" ?t] t by auto
  have fail: "cacheOK (H \<union> moments w v) (w\<lparr>tick := k\<rparr>)" for v k by (rule cacheOK_mono [OF assms]) auto
  show ?thesis
  proof (cases "fault w (tick w)")
    case None
    then show ?thesis
      using t runQuery_grants [of "Oid user" "Oid obj" ?ps] fail
      by (auto simp: lookupGrants_def permissionList_def wp_simps Let_def sameGrants_def recent_def
          intro!: put exI [of _ ?t] exI [of _ ?ps] exI [of _ "Suc (tick w)"]) (simp_all add: accessCacheTTL_def)
  next
    case (Some x)
    then show ?thesis using fail by (auto simp: lookupGrants_def permissionList_def wp_simps sameGrants_def)
  qed
qed

lemma wp_ensureClusterAccess:
  assumes "cacheOK H w"
  shows "wp (ensureClusterAccess user obj) (\<lambda>_ w'. sameGrants w w' \<and> cacheOK (H \<union> moments w w') w' \<and>
       (u_Role user = RoleRoot \<or> clu_UserId obj = Oid user \<or> Oid user = 0 \<or> Oid obj = 0 \<or> recent (H \<union> moments w w') w w' (Oid user) (Oid obj)))
     (\<lambda>_ w'. sameGrants w w' \<and> cacheOK (H \<union> moments w w') w') w"
proof -
  let ?key = "accessKey (Oid user) (Oid obj)" and ?w = "w\<lparr>tick := Suc (tick w)\<rparr>"
  have "sameGrants w v \<Longrightarrow> accessCache v = accessCache w \<or> accessCache v = (accessCache w)(?key := None) \<Longrightarrow>
     wp (lookupGrants user obj) (\<lambda>_ w'. sameGrants w w' \<and> cacheOK (H \<union> moments w w') w' \<and>
       (Oid user = 0 \<or> Oid obj = 0 \<or> recent (H \<union> moments w w') w w' (Oid user) (Oid obj)))
     (\<lambda>_ w'. sameGrants w w' \<and> cacheOK (H \<union> moments w w') w') v" for v
  proof -
    assume v: "sameGrants w v" and "accessCache v = accessCache w \<or> accessCache v = (accessCache w)(?key := None)"
    then have c: "cacheOK H v" using assms unfolding cacheOK_def by (auto split: if_splits)
    have m: "recent (moments v w') v w' a b \<Longrightarrow> recent (H \<union> moments w w') w w' a b" for w' a b
      using recent_mono [OF _ _ v] moments_mono [OF v, of w' w'] by blast
    have k: "cacheOK (H \<union> moments v w') w' \<Longrightarrow> cacheOK (H \<union> moments w w') w'" for w'
      using cacheOK_mono moments_mono [OF v, of w' w'] by (metis Un_mono order_refl)
    show ?thesis
      by (rule wp_mono [OF wp_lookupGrants [OF c]]) (use v m k in \<open>auto simp: sameGrants_def\<close>)
  qed
  note look = this
  have found: "accessCache w ?key = Some e \<Longrightarrow> Oid user \<noteq> 0 \<Longrightarrow> Oid obj \<noteq> 0 \<Longrightarrow> clock w (tick w) < e \<Longrightarrow>
     recent (H \<union> moments w ?w) w ?w (Oid user) (Oid obj)" for e
    using assms unfolding cacheOK_def recent_def by fastforce
  show ?thesis
    using look [of w] look [of "?w\<lparr>accessCache := (accessCache w)(?key := None)\<rparr>"] found assms
    by (auto simp: ensureClusterAccess_def Let_def wp_simps sameGrants_def intro: cacheOK_mono wp_mono split: option.split)
qed


lemma wp_authorizeFound:
  assumes "cacheOK H w" and lookup: "wp lookup (\<lambda>r v. r = result \<and> v = w\<lparr>tick := Suc (tick w)\<rparr>) (\<lambda>_ v. v = w\<lparr>tick := Suc (tick w)\<rparr>) w"
  shows "wp (authorizeFound user lookup) (\<lambda>obj w'. sameGrants w w' \<and> cacheOK (H \<union> moments w w') w' \<and> result = Some obj \<and>
       (u_Role user = RoleRoot \<or> clu_UserId obj = Oid user \<or> Oid user = 0 \<or> Oid obj = 0 \<or> recent (H \<union> moments w w') w w' (Oid user) (Oid obj)))
     (\<lambda>_ w'. sameGrants w w' \<and> cacheOK (H \<union> moments w w') w') w"
proof -
  let ?w = "w\<lparr>tick := Suc (tick w)\<rparr>"
  have c: "cacheOK H ?w" by (rule cacheOK_mono [OF assms(1)]) auto
  have same: "sameGrants w ?w" by (simp add: sameGrants_def)
  have m: "recent (H \<union> moments ?w w') ?w w' a b \<Longrightarrow> recent (H \<union> moments w w') w w' a b" for w' :: "'a cluster_state_scheme" and a b
    using recent_mono [OF _ _ same] moments_mono [OF same, of w' w'] by blast
  have k: "cacheOK (H \<union> moments ?w w') w' \<Longrightarrow> cacheOK (H \<union> moments w w') w'" for w'
    using cacheOK_mono moments_mono [OF same, of w' w'] by (metis Un_mono order_refl)
  have c': "cacheOK (H \<union> moments w ?w) ?w" by (rule cacheOK_mono [OF assms(1)]) auto
  have t: "sameGrants ?w w' \<Longrightarrow> sameGrants w w'" for w' by (auto simp: sameGrants_def)
  have ok: "wp (ensureClusterAccess user obj) (\<lambda>_ w'. sameGrants w w' \<and> cacheOK (H \<union> moments w w') w' \<and>
       (u_Role user = RoleRoot \<or> clu_UserId obj = Oid user \<or> Oid user = 0 \<or> Oid obj = 0 \<or> recent (H \<union> moments w w') w w' (Oid user) (Oid obj)))
     (\<lambda>_ w'. sameGrants w w' \<and> cacheOK (H \<union> moments w w') w') ?w" for obj
    by (rule wp_mono [OF wp_ensureClusterAccess [OF c]]) (use m k t in auto)
  show ?thesis
    unfolding authorizeFound_def wp_orInternal
    by (rule wp_mono [OF lookup]) (use ok c' same in \<open>auto simp: wp_andThen wp_ret wp_fail split: option.split\<close>)
qed

definition clusterOf :: "Cluster options list \<Rightarrow> 'm cluster_state_scheme \<Rightarrow> Cluster option" where
  "clusterOf opts w = (case runQuery (buildQuery (opts @ [WithOrderByASC])) (rows (clusters w)) of [] \<Rightarrow> None | r # _ \<Rightarrow> Some r)"

lemma wp_clusterLookup:
  "wp (clusterGetBy opts) (\<lambda>r v. r = clusterOf opts w \<and> v = w\<lparr>tick := Suc (tick w)\<rparr>) (\<lambda>_ v. v = w\<lparr>tick := Suc (tick w)\<rparr>) w"
  by (auto simp: clusterGetBy_def wp_simps Let_def clusterOf_def split: option.split list.split)

lemma clusterGet_By: "clusterGet cid [] = clusterGetBy [Where (\<lambda>r. Oid r = cid)]"
  by (simp add: clusterGet_def clusterGetBy_def)

lemma wp_Authorize:
  assumes "cacheOK H w"
  shows "wp (case user of None \<Rightarrow> fail ErrUnauthorized | Some u \<Rightarrow> authorizeFound u (clusterGetBy opts))
     (\<lambda>obj w'. sameGrants w w' \<and> cacheOK (H \<union> moments w w') w' \<and> clusterOf opts w = Some obj \<and>
       (\<exists>u. user = Some u \<and> (u_Role u = RoleRoot \<or> clu_UserId obj = Oid u \<or> Oid u = 0 \<or> Oid obj = 0 \<or> recent (H \<union> moments w w') w w' (Oid u) (Oid obj))))
     (\<lambda>_ w'. sameGrants w w' \<and> cacheOK (H \<union> moments w w') w') w"
proof (cases user)
  case None
  then show ?thesis by (auto simp: wp_fail sameGrants_def intro: cacheOK_mono [OF assms])
next
  case (Some u)
  show ?thesis unfolding Some option.case by (rule wp_mono [OF wp_authorizeFound [OF assms wp_clusterLookup]]) auto
qed

text \<open>The life of a server process: accesses, in any order with anything that leaves its cache alone (grants, revocations,
  other processes, the passing of time). \<open>H\<close> collects what was in the table at the moments of the accesses.\<close>

inductive access_run :: "(int \<times> Permission list) set \<Rightarrow> 'm cluster_state_scheme \<Rightarrow> bool" where
  start: "accessCache w = Map.empty \<Longrightarrow> access_run {} w"
| by_id: "access_run H w \<Longrightarrow> AuthorizeClusterAccess user cid w = (r, w') \<Longrightarrow> access_run (H \<union> moments w w') w'"
| by_name: "access_run H w \<Longrightarrow> AuthorizeClusterAccessByName user name w = (r, w') \<Longrightarrow> access_run (H \<union> moments w w') w'"
| other: "access_run H w \<Longrightarrow> accessCache w' = accessCache w \<Longrightarrow> access_run H w'"

lemma fst_wp_Inr: "fst (m w) = Inr x \<longleftrightarrow> wp m (\<lambda>y _. y = x) (\<lambda>_ _. False) w"
  by (auto simp: wp_def split: prod.splits sum.splits)

lemma wp_result: "wp m (\<lambda>_. P) (\<lambda>_. P) w \<Longrightarrow> m w = (r, w') \<Longrightarrow> P w'"
  by (auto simp: wp_def split: sum.splits)

lemma access_run_cacheOK: "access_run H w \<Longrightarrow> cacheOK H w"
proof (induction rule: access_run.induct)
  case (start w)
  then show ?case by (simp add: cacheOK_def)
next
  case (by_id H w user cid r w')
  have "wp (AuthorizeClusterAccess user cid) (\<lambda>_ w'. cacheOK (H \<union> moments w w') w') (\<lambda>_ w'. cacheOK (H \<union> moments w w') w') w"
    unfolding AuthorizeClusterAccess_def clusterGet_By by (rule wp_mono [OF wp_Authorize [OF by_id.IH]]) auto
  then show ?case using by_id.hyps(2) by (rule wp_result)
next
  case (by_name H w user name r w')
  have "wp (AuthorizeClusterAccessByName user name) (\<lambda>_ w'. cacheOK (H \<union> moments w w') w') (\<lambda>_ w'. cacheOK (H \<union> moments w w') w') w"
    unfolding AuthorizeClusterAccessByName_def by (rule wp_mono [OF wp_Authorize [OF by_name.IH]]) auto
  then show ?case using by_name.hyps(2) by (rule wp_result)
next
  case (other H w w')
  then show ?case by (auto intro: cacheOK_mono)
qed

lemma clusterOf_Get: "clusterOf [Where (\<lambda>r. Oid r = cid)] w = Some obj \<Longrightarrow> obj \<in> set (rows (clusters w)) \<and> Oid obj = cid"
  using set_runQuery [of obj "buildQuery [Where (\<lambda>r. Oid r = cid), WithOrderByASC]" "rows (clusters w)"]
  by (auto simp: clusterOf_def buildQuery_def emptyQuery_def Where_def WithOrderByASC_def split: list.splits)

text \<open>C5: Whoever is let into a cluster is the root user, its owner, or held a grant on it: at a moment less than thirty seconds
  before the check the grant was in the table. So a revocation takes effect within thirty seconds, in whatever order
  accesses, grants and revocations happen.\<close>

theorem access_bounded:
  assumes "access_run H w" and "AuthorizeClusterAccess (Some u) cid w = (Inr obj, w')"
    and "u_Role u \<noteq> RoleRoot" and "clu_UserId obj \<noteq> Oid u" and "Oid u \<noteq> 0" and "cid \<noteq> 0"
  shows "\<exists>t ps n. (t, ps) \<in> H \<union> moments w w' \<and> (\<exists>p \<in> set ps. gt_UserId p = Oid u \<and> gt_OwnerClusterId p = cid) \<and>
     tick w \<le> n \<and> n < tick w' \<and> clock w n < t + accessCacheTTL"
proof -
  have "wp (AuthorizeClusterAccess (Some u) cid) (\<lambda>obj w'. clusterOf [Where (\<lambda>r. Oid r = cid)] w = Some obj \<and>
      (u_Role u = RoleRoot \<or> clu_UserId obj = Oid u \<or> Oid u = 0 \<or> Oid obj = 0 \<or> recent (H \<union> moments w w') w w' (Oid u) (Oid obj))) (\<lambda>_ _. True) w"
    unfolding AuthorizeClusterAccess_def clusterGet_By by (rule wp_mono [OF wp_Authorize [OF access_run_cacheOK [OF assms(1)]]]) auto
  from wp_Inr [OF this assms(2)] assms(3-6) clusterOf_Get [of cid w obj]
  have "recent (H \<union> moments w w') w w' (Oid u) cid" by auto
  then show ?thesis unfolding recent_def granted_def by blast
qed


text \<open>A world with one cluster of user 1 and a grant on it for user 7.\<close>

definition demoMaster :: Cluster where
  "demoMaster = (newClusterRow \<lparr>cc_Name = ''prod'', cc_AliasName = ''prod'', cc_UserId = 1, cc_Type = 0, cc_KubeConfig = ''YWRtaW4='', cc_ConnectMode = 0,
     cc_AgentToken = [], cc_Description = [], cc_Protected = False, cc_PermissionId = 0, cc_OwnerReference = 0\<rparr> ''prod'' [])\<lparr>Oid := 4\<rparr>"

definition demoSlave :: Cluster where
  "demoSlave = demoMaster\<lparr>Oid := 5, clu_Name := ''pixiu-sub'', clu_UserId := 7, clu_PermissionId := 9, clu_OwnerReference := 4, clu_KubeConfig := ''dXNlcg==''\<rparr>"

definition demoGrant :: Permission where
  "demoGrant = pixiu_model.extend (newModel\<lparr>Oid := 9\<rparr>) \<lparr>gt_Name = ''view'', gt_UserId = 7, gt_UserName = ''user'', gt_ClusterId = 5, gt_ClusterName = ''pixiu-sub'',
     gt_OwnerClusterId = 4, gt_OwnerClusterName = ''prod'', gt_OwnerClusterAliasName = ''prod'', gt_ExpirationSeconds = 3600, gt_PType = 0, gt_Rules = [],
     gt_SAName = ''pixiu-sa-7'', gt_SANamespace = ''pixiu-system'', gt_ClusterRoleName = ''pixiu-view'', gt_RoleBindingName = ''pixiu-rb-7'', gt_TargetNamespaces = [],
     gt_Description = []\<rparr>"

definition demoAdmin :: client_set where
  "demoAdmin = (let rc = \<lparr>rc_Raw = ''admin'', rc_Host = ''https://prod'', rc_CAData = None, rc_Tunnel = None\<rparr> in \<lparr>Client = rc, Config = rc, Informer = ()\<rparr>)"

definition demoClusters :: cluster_state where
  "demoClusters = cluster_db.extend (plan_db.extend (demoPlanDb\<lparr>clusters := \<lparr>rows = [demoMaster, demoSlave], next_id = 6\<rparr>\<rparr>)
       \<lparr>permissions = \<lparr>rows = [demoGrant], next_id = 10\<rparr>, cluster_access_tokens = \<lparr>rows = [], next_id = 1\<rparr>\<rparr>)
     \<lparr>clusterIndexer = [(''prod'', demoAdmin)], accessCache = Map.empty, kube_calls = []\<rparr>"

lemma demo_rows [simp]:
  "Oid demoMaster = 4" "clu_Name demoMaster = ''prod''" "clu_UserId demoMaster = 1" "clu_PermissionId demoMaster = 0"
  "Oid demoSlave = 5" "clu_Name demoSlave = ''pixiu-sub''" "clu_UserId demoSlave = 7" "clu_PermissionId demoSlave = 9"
  "Oid demoGrant = 9" "gt_UserId demoGrant = 7" "gt_OwnerClusterId demoGrant = 4" "gt_ClusterId demoGrant = 5" "gt_OwnerClusterName demoGrant = ''prod''"
  by (simp_all add: demoMaster_def demoSlave_def demoGrant_def newClusterRow_def pixiu_model.defs newModel_def)

lemma demo_world [simp]:
  "fault demoClusters n = None" "faultless demoClusters" "accessCache demoClusters = Map.empty" "clusterIndexer demoClusters = [(''prod'', demoAdmin)]"
  "clusters demoClusters = \<lparr>rows = [demoMaster, demoSlave], next_id = 6\<rparr>" "permissions demoClusters = \<lparr>rows = [demoGrant], next_id = 10\<rparr>"
  "role_api_scopes demoClusters = role_api_scopes demoDb" "kube_calls demoClusters = []"
  by (simp_all add: demoClusters_def cluster_db.defs plan_db.defs demoPlanDb_def iam_db.defs demoDb_def faultless_def)

lemma access_bounded_witness:
  "\<exists>t ps n. (t, ps) \<in> {} \<union> moments demoClusters (snd (AuthorizeClusterAccess (Some (demoUser 7 2)) 4 demoClusters)) \<and>
     (\<exists>p \<in> set ps. gt_UserId p = 7 \<and> gt_OwnerClusterId p = 4) \<and> tick demoClusters \<le> n \<and>
     n < tick (snd (AuthorizeClusterAccess (Some (demoUser 7 2)) 4 demoClusters)) \<and> clock demoClusters n < t + accessCacheTTL"
proof -
  have "fst (AuthorizeClusterAccess (Some (demoUser 7 2)) 4 demoClusters) = Inr demoMaster"
    by (simp add: fst_wp_Inr AuthorizeClusterAccess_def authorizeFound_def ensureClusterAccess_def lookupGrants_def permissionList_def clusterGet_def wp_simps
        Let_def runQuery_def buildQuery_def emptyQuery_def Where_def WithUser_def WithOwnerCluster_def WithOrderByASC_def demoUser_def RoleRoot_def)
  then have "AuthorizeClusterAccess (Some (demoUser 7 2)) 4 demoClusters = (Inr demoMaster, snd (AuthorizeClusterAccess (Some (demoUser 7 2)) 4 demoClusters))"
    by (metis prod.collapse)
  from access_bounded [OF access_run.start this] show ?thesis by (simp add: demoUser_def RoleRoot_def)
qed


section \<open>Whose client serves a granted user\<close>

lemma clusterOf_name:
  assumes "m \<in> set (rows (clusters w))" and "\<forall>r \<in> set (rows (clusters w)). clu_Name r = clu_Name m \<longrightarrow> r = m" and "clu_Name m \<noteq> []"
  shows "clusterOf [WithName clu_Name (clu_Name m)] w = Some m"
proof -
  let ?q = "buildQuery [WithName clu_Name (clu_Name m), WithOrderByASC]"
  have q: "qWhere ?q r = (clu_Name r = clu_Name m)" "qLimit ?q \<le> 0" "qOffset ?q \<le> 0" for r
    using assms(3) by (simp_all add: buildQuery_def emptyQuery_def WithName_def Where_def WithOrderByASC_def)
  have "set (runQuery ?q (rows (clusters w))) = {m}"
    using assms(1,2) unfolding set_runQuery_nolimit [OF q(2,3)] q(1) by blast
  then show ?thesis by (cases "runQuery ?q (rows (clusters w))") (simp_all add: clusterOf_def)
qed

lemma wp_clusterGetBy_up: "faultless w \<Longrightarrow> wp (clusterGetBy opts) Q E w = Q (clusterOf opts w) (w\<lparr>tick := Suc (tick w)\<rparr>)"
  by (simp add: clusterGetBy_def wp_simps Let_def clusterOf_def split: list.split)

lemma clusterOf_same: "clusters v = clusters w \<Longrightarrow> clusterOf opts v = clusterOf opts w"
  by (simp add: clusterOf_def)

definition unchanged :: "'m cluster_state_scheme \<Rightarrow> 'm cluster_state_scheme \<Rightarrow> bool" where
  "unchanged w w' \<longleftrightarrow> clusters w' = clusters w \<and> permissions w' = permissions w \<and> clusterIndexer w' = clusterIndexer w \<and> fault w' = fault w"

lemma runQuery_granted:
  assumes "p \<in> set ps" and "gt_UserId p = u" and "gt_OwnerClusterId p = c"
  shows "runQuery (buildQuery [WithUser gt_UserId u, WithOwnerCluster c]) ps \<noteq> []"
proof -
  let ?q = "buildQuery [WithUser gt_UserId u, WithOwnerCluster c]"
  have q: "qWhere ?q p" "qLimit ?q \<le> 0" "qOffset ?q \<le> 0"
    using assms by (simp_all add: buildQuery_def emptyQuery_def WithUser_def WithOwnerCluster_def Where_def)
  have "p \<in> set (runQuery ?q ps)" unfolding set_runQuery_nolimit [OF q(2,3)] using q(1) assms(1) by simp
  then show ?thesis by auto
qed

lemma wp_granted_access:
  assumes "faultless w" and "p \<in> set (rows (permissions w))" and "gt_UserId p = Oid u" and "gt_OwnerClusterId p = Oid obj"
  shows "wp (ensureClusterAccess u obj) (\<lambda>_. unchanged w) (\<lambda>_ _. False) w"
  using assms runQuery_granted [OF assms(2-4)]
  by (auto simp: ensureClusterAccess_def lookupGrants_def permissionList_def wp_simps Let_def unchanged_def split: option.split)

text \<open>C13: A user with any grant on a cluster, be it read-only or for one namespace, is served by the proxy with the client of
  the cluster itself: the requests he sends to the name of the cluster are forwarded with the credentials of its
  owner, not with those of the service account of the grant.\<close>

theorem grant_opens_owner:
  assumes "faultless w" and "p \<in> set (rows (permissions w))" and "gt_UserId p = Oid u" and "gt_OwnerClusterId p = Oid m"
    and "m \<in> set (rows (clusters w))" and "\<forall>r \<in> set (rows (clusters w)). clu_Name r = clu_Name m \<longrightarrow> r = m" and "clu_Name m \<noteq> []"
    and "ccGet (clusterIndexer w) (clu_Name m) = None" and "NewClusterSetWithOptions ce (clu_KubeConfig m) (clu_Name m) (clu_ConnectMode m) = Inr cs"
  shows "fst (proxyHandler ce (Some u) (clu_Name m) (proxyBaseURL @ ''/'' @ clu_Name m @ path) w) = Inr (Config cs, path)"
proof -
  note name = clusterOf_name [OF assms(5-7)]
  have cached: "wp (forwardToCluster ce (clu_Name m) path) (\<lambda>r _. r = (Config cs, path)) (\<lambda>_ _. False) v"
    if "ccGet (clusterIndexer v) (clu_Name m) = Some cs" for v :: "'a cluster_state_scheme"
    using that by (simp add: forwardToCluster_def GetClusterSetByName_def wp_simps)
  have client: "wp (onResult (GetClusterSetByName ce (clu_Name m)) (\<lambda>_. fail (Errorf ''failed to get the cluster'')) (\<lambda>_. forwardToCluster ce (clu_Name m) path))
      (\<lambda>r _. r = (Config cs, path)) (\<lambda>_ _. False) v" if v: "unchanged w v" for v
  proof -
    have "faultless v" "clusterOf [WithName clu_Name (clu_Name m)] v = Some m" "ccGet (clusterIndexer v) (clu_Name m) = None"
      using v assms(1,8) name by (auto simp: unchanged_def faultless_def clusterOf_def)
    then show ?thesis
      using assms(9) cached by (simp add: GetClusterSetByName_def wp_onResult wp_andThen wp_gets wp_clusterGetBy_up wp_modify wp_ret fromSum_def ccGet_def ccSet_def update_conv')
  qed
  have access: "wp (AuthorizeClusterAccessByName (Some u) (clu_Name m)) (\<lambda>_. unchanged w) (\<lambda>_ _. False) w"
  proof -
    have "wp (ensureClusterAccess u m) (\<lambda>_. unchanged w) (\<lambda>_ _. False) (w\<lparr>tick := Suc (tick w)\<rparr>)"
      by (rule wp_mono [OF wp_granted_access [of _ p]]) (use assms in \<open>auto simp: unchanged_def\<close>)
    then show ?thesis
      using assms(1) name by (simp add: AuthorizeClusterAccessByName_def authorizeFound_def wp_orInternal wp_clusterGetBy_up wp_andThen wp_ret)
  qed
  show ?thesis
    unfolding fst_wp_Inr proxyHandler_def using assms(7)
    by (simp add: wp_andThen wp_ret) (rule wp_mono [OF access], simp_all add: client)
qed


definition demoCe :: cluster_env where
  "demoCe = \<lparr>ce_rand = \<lparr>pv_randRead = (\<lambda>_. Inr ''0123''), pv_randIntn = (\<lambda>_. [0, 1, 2, 3, 4, 5, 6, 7]), pv_errText = (\<lambda>_. ''error'')\<rparr>,
     ce_restConfig = (\<lambda>b. Inr \<lparr>rc_Raw = b, rc_Host = ''https://prod'', rc_CAData = None, rc_Tunnel = None\<rparr>), ce_newForConfig = (\<lambda>_. Inr ()),
     ce_tunnel = False, ce_agentConnected = (\<lambda>_ _. False), ce_kube = (\<lambda>_ req _. case req of GetNamespace _ \<Rightarrow> Inl KOther | CreateToken _ _ _ \<Rightarrow> Inr (RToken ''t'') | _ \<Rightarrow> Inr RDone),
     ce_marshalRules = (\<lambda>_. ''[]''), ce_unmarshalRules = (\<lambda>_. Some []), ce_writeConfig = (\<lambda>c. Inr (ac_Token c)), ce_ctxErr = (\<lambda>_. None), ce_errText = (\<lambda>_. ''error'')\<rparr>"

lemma demo_kubeconfig: "base64Decode ''YWRtaW4='' = Inr ''admin''"
proof -
  have "base64Encode ''admin'' = ''YWRtaW4=''" by code_simp
  with base64Decode_Encode [of "''admin''"] show ?thesis by simp
qed

lemma demo_client: "NewClusterSetWithOptions demoCe (clu_KubeConfig demoMaster) (clu_Name demoMaster) (clu_ConnectMode demoMaster) = Inr demoAdmin"
  by (simp add: NewClusterSetWithOptions_def demo_kubeconfig CompleteWithOptions_def demoCe_def demoMaster_def demoAdmin_def newClusterRow_def
      pixiu_model.defs newModel_def ConnectModeTunnel_def Let_def)

lemma grant_opens_owner_witness:
  "fst (proxyHandler demoCe (Some (demoUser 7 2)) ''prod'' (proxyBaseURL @ ''/'' @ ''prod'' @ ''/api/v1/secrets'') (demoClusters\<lparr>clusterIndexer := []\<rparr>)) =
     Inr (Config demoAdmin, ''/api/v1/secrets'')"
  using grant_opens_owner [of "demoClusters\<lparr>clusterIndexer := []\<rparr>" demoGrant "demoUser 7 2" demoMaster demoCe demoAdmin "''/api/v1/secrets''"] demo_client
  by (simp add: demoUser_def ccGet_def faultless_def)

section \<open>What a revocation does\<close>

definition revocation :: "Permission \<Rightarrow> kube_req list" where
  "revocation p = DeleteServiceAccount (gt_SANamespace p) (gt_SAName p) #
     (if gt_PType p = 1 then DeleteClusterRole (gt_ClusterRoleName p) # map (\<lambda>ns. DeleteRoleBinding ns (gt_RoleBindingName p)) (decodeStringSlice (gt_TargetNamespaces p))
      else [DeleteClusterRoleBinding (gt_RoleBindingName p)])"

definition called :: "rest_config \<Rightarrow> kube_req list \<Rightarrow> 'm cluster_state_scheme \<Rightarrow> 'm cluster_state_scheme \<Rightarrow> bool" where
  "called cl reqs w w' \<longleftrightarrow> (\<exists>n. w' = w\<lparr>tick := n, kube_calls := kube_calls w @ map (Pair cl) reqs\<rparr>)"

lemma wp_ignored_call: "wp (ignoring (kube ce cl req)) Q E w = Q () (w\<lparr>tick := Suc (tick w), kube_calls := kube_calls w @ [(cl, req)]\<rparr>)"
  by (simp add: wp_ignoring wp_def kube_def split: sum.split)

lemma called_Nil: "called cl [] w (w\<lparr>tick := n\<rparr>)"
  by (auto simp: called_def)

lemma called_self: "called cl [] w w"
  using called_Nil [of cl w "tick w"] by simp

lemma called_step: "called cl (reqs @ [r]) w v" if "called cl reqs w u" and "v = u\<lparr>tick := Suc (tick u), kube_calls := kube_calls u @ [(cl, r)]\<rparr>"
  using that by (auto simp: called_def)

lemma wp_deleteBindings:
  "called cl reqs w u \<Longrightarrow> wp (forEach (deleteBinding ce cl b) nss) (\<lambda>_. called cl (reqs @ map (\<lambda>ns. DeleteRoleBinding ns b) nss) w) (\<lambda>_ _. False) u"
proof (induction nss arbitrary: reqs u)
  case (Cons ns nss)
  show ?case
    using Cons.IH [OF called_step [OF Cons.prems refl], of "DeleteRoleBinding ns b"] by (simp add: wp_andThen deleteBinding_def wp_ignored_call)
qed (simp add: wp_ret)

lemma wp_deleteKubernetesRule:
  assumes "ccGet (clusterIndexer w) (gt_OwnerClusterName p) = Some cs"
  shows "wp (deleteKubernetesRule ce p) (\<lambda>_. called (Client cs) (revocation p) w) (\<lambda>_ _. False) w"
proof -
  let ?cl = "Client cs" and ?sa = "DeleteServiceAccount (gt_SANamespace p) (gt_SAName p)"
  have one: "called ?cl [r] w (w\<lparr>tick := Suc (tick w), kube_calls := kube_calls w @ [(?cl, r)]\<rparr>)" for r
    by (auto simp: called_def)
  have b: "wp (forEach (deleteBinding ce ?cl (gt_RoleBindingName p)) (decodeStringSlice (gt_TargetNamespaces p)))
      (\<lambda>_. called ?cl ([?sa, DeleteClusterRole (gt_ClusterRoleName p)] @ map (\<lambda>ns. DeleteRoleBinding ns (gt_RoleBindingName p)) (decodeStringSlice (gt_TargetNamespaces p))) w)
      (\<lambda>_ _. False) u" if "called ?cl [?sa, DeleteClusterRole (gt_ClusterRoleName p)] w u" for u
    by (rule wp_deleteBindings [OF that])
  show ?thesis
    using assms b called_step [OF one [of ?sa] refl]
    by (auto simp: deleteKubernetesRule_def GetClusterSetByName_def wp_onResult wp_andThen wp_gets wp_ret Let_def wp_ignored_call revocation_def intro: called_step)
qed


lemma clusterOf_id:
  assumes "table_ok (clusters w)" and "m \<in> set (rows (clusters w))" and "Oid m = i"
  shows "clusterOf [Where (\<lambda>r. Oid r = i)] w = Some m"
proof -
  let ?q = "buildQuery [Where (\<lambda>r. Oid r = i), WithOrderByASC]"
  have q: "qWhere ?q r = (Oid r = i)" "qLimit ?q \<le> 0" "qOffset ?q \<le> 0" for r :: Cluster
    by (simp_all add: buildQuery_def emptyQuery_def Where_def WithOrderByASC_def)
  have "set (runQuery ?q (rows (clusters w))) = {m}"
    using assms(2,3) table_ok_Oid_eq [OF assms(1)] unfolding set_runQuery_nolimit [OF q(2,3)] q(1) by blast
  then show ?thesis by (cases "runQuery ?q (rows (clusters w))") (simp_all add: clusterOf_def)
qed

definition mayAccess :: "User \<Rightarrow> Cluster \<Rightarrow> 'm cluster_state_scheme \<Rightarrow> bool" where
  "mayAccess u c w \<longleftrightarrow> u_Role u = RoleRoot \<or> Oid u = clu_UserId c \<or>
     (\<exists>s \<in> set (rows (role_api_scopes w)). rs_RoleId s = u_Role u \<and> rs_ResourceType s = ResourceTypeCluster \<and> rs_ResourceId s = Oid c)"

lemma wp_CheckResourceAccess_up:
  assumes "faultless w" and "\<And>n. Q () (w\<lparr>tick := n\<rparr>) = Q () w" and "\<And>n. E ErrForbidden (w\<lparr>tick := n\<rparr>) = E ErrForbidden w"
  shows "wp (CheckResourceAccess (Some u) (clu_UserId c) ResourceTypeCluster (Oid c)) Q E w = (if mayAccess u c w then Q () w else E ErrForbidden w)"
  using assms by (auto simp: CheckResourceAccess_def GetUserFromContext_def CanAccess_def HasScope_def wp_simps Let_def filter_empty_conv mayAccess_def)

definition erased :: "int \<Rightarrow> Permission table \<Rightarrow> (rest_config \<times> kube_req) list \<Rightarrow> 'm cluster_state_scheme \<Rightarrow> bool" where
  "erased i P K w \<longleftrightarrow> i \<notin> Oid ` set (rows (clusters w)) \<and> permissions w = P \<and> kube_calls w = K"

lemma erased_basic [simp]:
  "erased i P K (w\<lparr>tick := n\<rparr>) = erased i P K w" "erased i P K (w\<lparr>clusterIndexer := x\<rparr>) = erased i P K w"
  "erased i P K w \<Longrightarrow> erased i P K (clusters_update (delTable R) w)"
  by (auto simp: erased_def delTable_rows)

lemma keeps_erased_delete: "keeps (erased i P K) (clusterDelete c [])"
  by (rule keepsI) (auto simp: clusterDelete_def wp_transaction wp_simps Let_def split: option.split)

lemma keeps_erased_client: "keeps (erased i P K) (GetClusterSetByName ce name)"
  by (rule keepsI) (auto simp: GetClusterSetByName_def clusterGetBy_def fromSum_def wp_simps Let_def split: option.split list.split sum.split)

lemma keeps_erased_list: "keeps (erased i P K) (clusterList opts)"
  by (rule keepsI) (auto simp: clusterList_def wp_simps Let_def split: option.split)

lemma keeps_erased_drop: "keeps (erased i P K) (dropClient name)"
  by (rule keepsI) (simp add: dropClient_def wp_simps)

lemma keeps_erased_slave: "keeps (erased i P K) (deleteSlave c)"
  unfolding deleteSlave_def by (intro keeps_intros keeps_erased_delete keeps_erased_drop)

lemma wp_deleteSlaves: "wp (forEach deleteSlave cs) Q (\<lambda>_ _. False) w = Q () (snd (forEach deleteSlave cs w))"
proof -
  have "\<exists>v. forEach deleteSlave cs w = (Inr (), v)"
  proof (induction cs arbitrary: w)
    case (Cons c cs)
    have "wp (deleteSlave c) (\<lambda>_ _. True) (\<lambda>_ _. False) w"
      by (rule wp_mono [where Q = "\<lambda>_ _. True" and E = "\<lambda>_ _. False"]) (auto simp: deleteSlave_def dropClient_def wp_simps wp_def split: prod.split sum.split)
    with Cons show ?case by (auto simp: wp_def andThen_def onResult_def split: prod.splits sum.splits)
  qed (simp add: ret_def)
  then show ?thesis by (auto simp: wp_def)
qed


text \<open>What comes after the row of a cluster is gone: it does not come back, and no error is left.\<close>

definition afterDelete :: "cluster_env \<Rightarrow> Cluster \<Rightarrow> int \<Rightarrow> ('m cluster_state_scheme, goerr, unit) act" where
  "afterDelete ce clu cid = andThen (onResult (GetClusterSetByName ce (clu_Name clu)) (\<lambda>_. ret ()) (\<lambda>cs. deletePixiuClusterRole ce clu (Client cs))) (\<lambda>_.
     andThen (dropClient (clu_Name clu)) (\<lambda>_.
     onResult (clusterList [WithOwnerReference cid]) (\<lambda>_. ret ()) (forEach deleteSlave)))"

lemma wp_deleteSlaves_erased: "erased i P K w \<Longrightarrow> wp (forEach deleteSlave cs) (\<lambda>_. erased i P K) (\<lambda>_ _. False) w"
  unfolding wp_deleteSlaves by (rule keepsD [OF keeps_forEach [OF keeps_erased_slave]])

lemma wp_afterDelete:
  assumes "erased i P K w" and "clu_PermissionId c \<noteq> 0"
  shows "wp (afterDelete ce c cid) (\<lambda>_. erased i P K) (\<lambda>_ _. False) w"
proof -
  have list: "wp (onResult (clusterList opts) (\<lambda>_. ret ()) (forEach deleteSlave)) (\<lambda>_. erased i P K) (\<lambda>_ _. False) v" if "erased i P K v" for opts v
    unfolding wp_onResult wp_ret by (rule wp_mono [OF keeps_wp [OF keeps_erased_list that]]) (simp_all add: wp_deleteSlaves_erased)
  have tail: "wp (andThen (dropClient n) (\<lambda>_. onResult (clusterList opts) (\<lambda>_. ret ()) (forEach deleteSlave))) (\<lambda>_. erased i P K) (\<lambda>_ _. False) v"
    if "erased i P K v" for n opts v
    unfolding dropClient_def wp_andThen wp_modify by (rule list) (simp add: that)
  show ?thesis
    unfolding afterDelete_def deletePixiuClusterRole_def if_P [OF assms(2)] wp_andThen [of "onResult _ _ _"] wp_onResult [of "GetClusterSetByName _ _"] wp_ret
    by (rule wp_mono [OF keeps_wp [OF keeps_erased_client assms(1)]]) (simp_all only: tail)
qed

lemma wp_clusterGet_up: "faultless w \<Longrightarrow> wp (clusterGet i []) Q E w = Q (clusterOf [Where (\<lambda>r. Oid r = i)] w) (w\<lparr>tick := Suc (tick w)\<rparr>)"
  unfolding clusterGet_By by (rule wp_clusterGetBy_up)

lemma clusterOf_tick [simp]: "clusterOf opts (w\<lparr>tick := n\<rparr>) = clusterOf opts w"
  by (simp add: clusterOf_def)

lemma mayAccess_tick [simp]: "mayAccess u c (w\<lparr>tick := n\<rparr>) = mayAccess u c w"
  by (simp add: mayAccess_def)

lemma wp_preDelete_skip:
  assumes "faultless w" and "table_ok (clusters w)" and "c \<in> set (rows (clusters w))"
  shows "wp (clusterc_preDelete (Some u) (Oid c) True) (\<lambda>r w'. mayAccess u c w \<and> r = c \<and> (\<exists>n. w' = w\<lparr>tick := n\<rparr>))
     (\<lambda>e w'. \<not> mayAccess u c w \<and> e = ErrForbidden \<and> (\<exists>n. w' = w\<lparr>tick := n\<rparr>)) w"
proof -
  have tick: "(\<exists>n'. w\<lparr>tick := n\<rparr> = w\<lparr>tick := n'\<rparr>)" for n by blast
  have "wp (CheckResourceAccess (Some u) (clu_UserId c) ResourceTypeCluster (Oid c)) (\<lambda>_ w'. mayAccess u c w \<and> (\<exists>n. w' = w\<lparr>tick := n\<rparr>))
     (\<lambda>e w'. \<not> mayAccess u c w \<and> e = ErrForbidden \<and> (\<exists>n. w' = w\<lparr>tick := n\<rparr>)) (w\<lparr>tick := k\<rparr>)" for k
    using assms(1) tick by (subst wp_CheckResourceAccess_up) auto
  with assms show ?thesis
    by (simp add: clusterc_preDelete_def wp_andThen wp_clusterGet_up clusterOf_id [OF assms(2,3) refl] wp_ret)
qed

lemma wp_clusterDelete_up:
  "faultless w \<Longrightarrow> wp (clusterDelete c []) Q E w = Q () (clusters_update (delTable (\<lambda>r. Oid r = Oid c)) w\<lparr>tick := Suc (Suc (Suc (tick w)))\<rparr>)"
  by (simp add: clusterDelete_def wp_transaction wp_simps Let_def faultless_def)

lemma wp_Delete_skip:
  assumes "faultless w" and "table_ok (clusters w)" and "c \<in> set (rows (clusters w))" and "clu_PermissionId c \<noteq> 0"
  shows "wp (clusterc_Delete ce (Some u) (Oid c) True) (\<lambda>_ w'. mayAccess u c w \<and> erased (Oid c) (permissions w) (kube_calls w) w')
     (\<lambda>e w'. \<not> mayAccess u c w \<and> e = ErrForbidden \<and> (\<exists>n. w' = w\<lparr>tick := n\<rparr>)) w"
proof -
  have gone: "erased (Oid c) (permissions w) (kube_calls w) (clusters_update (delTable (\<lambda>r. Oid r = Oid c)) w\<lparr>tick := n\<rparr>)" for n
    by (auto simp: erased_def delTable_rows)
  show ?thesis
    unfolding clusterc_Delete_def afterDelete_def [symmetric] wp_andThen wp_orInternal
    by (rule wp_mono [OF wp_preDelete_skip [OF assms(1-3)]])
      (use assms(1) in \<open>auto simp: wp_clusterDelete_up intro!: wp_mono [OF wp_afterDelete [OF gone assms(4)]]\<close>)
qed


lemma wp_permissionGet_up: "faultless w \<Longrightarrow> wp (permissionGet i) Q E w = Q (find (\<lambda>r. Oid r = i) (rows (permissions w))) (w\<lparr>tick := Suc (tick w)\<rparr>)"
  by (simp add: permissionGet_def daoGet_def wp_simps Let_def split: option.split)

lemma wp_CheckResourceOwner: "wp (CheckResourceOwner (Some u) owner) Q E w = (if u_Role u = RoleRoot \<or> Oid u = owner then Q () w else E ErrForbidden w)"
  by (simp add: CheckResourceOwner_def GetUserFromContext_def wp_simps)

definition revoked :: "int \<Rightarrow> rest_config \<Rightarrow> Permission \<Rightarrow> 'm cluster_state_scheme \<Rightarrow> 'm cluster_state_scheme \<Rightarrow> bool" where
  "revoked pid cl p w w' \<longleftrightarrow> rows (permissions w') = filter (\<lambda>r. Oid r \<noteq> pid) (rows (permissions w)) \<and>
     kube_calls w' = kube_calls w @ map (Pair cl) (revocation p)"

lemma wp_revokeRow:
  assumes "faultless w" and "find (\<lambda>r. Oid r = pid) (rows (permissions w)) = Some p" and "ccGet (clusterIndexer w) (gt_OwnerClusterName p) = Some cs"
    and next1: "\<And>v. called (Client cs) (revocation p) (permissions_update (delTable (\<lambda>r. Oid r = pid)) w) v \<Longrightarrow> wp f Q E v"
  shows "wp (onResult (permissionDelete pid) h (\<lambda>_. andThen (ignoring (deleteKubernetesRule ce p)) (\<lambda>_. f))) Q E (w\<lparr>tick := k\<rparr>)"
proof -
  let ?d = "permissions_update (delTable (\<lambda>r. Oid r = pid)) w\<lparr>tick := Suc (Suc k)\<rparr>"
  have d: "wp (permissionDelete pid) (\<lambda>_ v. v = ?d) (\<lambda>_ _. False) (w\<lparr>tick := k\<rparr>)"
    using assms(1,2) by (simp add: permissionDelete_def wp_andThen wp_permissionGet_up wp_sqlDelete wp_ret Let_def)
  have c: "wp (deleteKubernetesRule ce p) (\<lambda>_. called (Client cs) (revocation p) ?d) (\<lambda>_ _. False) ?d"
    by (rule wp_deleteKubernetesRule) (simp add: assms(3))
  have t: "called (Client cs) r ?d v \<Longrightarrow> called (Client cs) r (permissions_update (delTable (\<lambda>r. Oid r = pid)) w) v" for r v by (auto simp: called_def)
  have rest: "wp (andThen (ignoring (deleteKubernetesRule ce p)) (\<lambda>_. f)) Q E ?d"
    unfolding wp_andThen wp_ignoring by (rule wp_mono [OF c]) (blast intro: next1 t)+
  show ?thesis unfolding wp_onResult by (rule wp_mono [OF d]) (simp_all add: rest)
qed

text \<open>C39: Where no statement fails, the owner of a cluster, or the root user, who revokes a grant on it deletes the row of the grant
  and sends the requests that delete its service account and its bindings. The sub-cluster of the grant is deleted only
  if he may access that, too; the owner of the cluster in general may not, because it belongs to the user of the grant,
  and then the revocation answers that it is forbidden, after it was made, and leaves the sub-cluster behind.\<close>

theorem DeletePermission_spec:
  assumes "faultless w" and "table_ok (clusters w)" and "find (\<lambda>r. Oid r = pid) (rows (permissions w)) = Some p"
    and "m \<in> set (rows (clusters w))" and "Oid m = gt_OwnerClusterId p" and "u_Role u = RoleRoot \<or> Oid u = clu_UserId m"
    and "s \<in> set (rows (clusters w))" and "Oid s = gt_ClusterId p" and "clu_PermissionId s \<noteq> 0"
    and "ccGet (clusterIndexer w) (gt_OwnerClusterName p) = Some cs"
  shows "\<exists>w'. rows (permissions w') = filter (\<lambda>r. Oid r \<noteq> pid) (rows (permissions w)) \<and>
     kube_calls w' = kube_calls w @ map (Pair (Client cs)) (revocation p) \<and>
     (if mayAccess u s w then DeletePermission ce (Some u) pid w = (Inr (), w') \<and> gt_ClusterId p \<notin> Oid ` set (rows (clusters w'))
      else DeletePermission ce (Some u) pid w = (Inl ErrForbidden, w') \<and> clusters w' = clusters w)"
proof -
  define Q where "Q (b :: bool) w' \<longleftrightarrow> (if b then mayAccess u s w \<and> gt_ClusterId p \<notin> Oid ` set (rows (clusters w')) else \<not> mayAccess u s w \<and> clusters w' = clusters w)
     \<and> revoked pid (Client cs) p w w'" for b and w' :: "'a cluster_state_scheme"
  have last: "wp (clusterc_Delete ce (Some u) (Oid s) True) (\<lambda>_. Q True) (\<lambda>e w'. e = ErrForbidden \<and> Q False w') v"
    if v: "called (Client cs) (revocation p) (permissions_update (delTable (\<lambda>r. Oid r = pid)) w) v" for v
  proof -
    from v have "faultless v" "clusters v = clusters w" "mayAccess u s v = mayAccess u s w" "revoked pid (Client cs) p w v"
      using assms(1) by (auto simp: called_def faultless_def mayAccess_def revoked_def delTable_rows)
    with assms(2,7,8,9) wp_Delete_skip [of v s ce u] have
      "wp (clusterc_Delete ce (Some u) (Oid s) True) (\<lambda>_ w'. mayAccess u s v \<and> erased (Oid s) (permissions v) (kube_calls v) w')
         (\<lambda>e w'. \<not> mayAccess u s v \<and> e = ErrForbidden \<and> (\<exists>n. w' = v\<lparr>tick := n\<rparr>)) v" by simp
    then show ?thesis
      by (rule wp_mono) (use \<open>clusters v = clusters w\<close> \<open>mayAccess u s v = mayAccess u s w\<close> \<open>revoked pid (Client cs) p w v\<close> assms(8) in
        \<open>auto simp: Q_def revoked_def erased_def\<close>)
  qed
  have pre: "wp (preDeletePermission (Some u) pid) (\<lambda>r w'. r = p \<and> (\<exists>k. w' = w\<lparr>tick := k\<rparr>)) (\<lambda>_ _. False) w"
    using assms(1,3,6) clusterOf_id [OF assms(2,4,5)]
    by (auto simp: preDeletePermission_def wp_onResult wp_andThen wp_permissionGet_up wp_clusterGet_up wp_CheckResourceOwner wp_ret)
  have rest: "wp (onResult (permissionDelete pid) (\<lambda>_. fail (Util ErrInternal)) (\<lambda>_. andThen (ignoring (deleteKubernetesRule ce p)) (\<lambda>_. clusterc_Delete ce (Some u) (gt_ClusterId p) True)))
      (\<lambda>_. Q True) (\<lambda>e w'. e = ErrForbidden \<and> Q False w') (w\<lparr>tick := k\<rparr>)" for k
    by (rule wp_revokeRow [OF assms(1,3,10)]) (use last assms(8) in simp)
  have "wp (DeletePermission ce (Some u) pid) (\<lambda>_. Q True) (\<lambda>e w'. e = ErrForbidden \<and> Q False w') w"
    unfolding DeletePermission_def wp_andThen by (rule wp_mono [OF pre]) (use rest in auto)
  then show ?thesis
    by (auto simp: wp_def Q_def revoked_def split: prod.splits sum.splits)
qed


lemma demo_table [simp]: "table_ok \<lparr>rows = [demoMaster, demoSlave], next_id = 6\<rparr>"
  by (simp add: table_ok_def)

lemma demo_forbidden: "\<not> mayAccess (demoUser 1 2) demoSlave demoClusters"
  by (simp add: mayAccess_def demoUser_def RoleRoot_def demoDb_def ResourceTypeCluster_def)

lemma DeletePermission_spec_witness:
  "\<exists>w'. rows (permissions w') = [] \<and> kube_calls w' = map (Pair (Client demoAdmin)) (revocation demoGrant) \<and>
     DeletePermission demoCe (Some (demoUser 1 2)) 9 demoClusters = (Inl ErrForbidden, w') \<and> clusters w' = clusters demoClusters"
  using DeletePermission_spec [of demoClusters 9 demoGrant demoMaster "demoUser 1 2" demoSlave demoAdmin demoCe] demo_forbidden
  by (simp add: demoUser_def ccGet_def)

section \<open>What a creation reports\<close>

definition gone :: "int \<Rightarrow> 'm cluster_state_scheme \<Rightarrow> bool" where
  "gone i w \<longleftrightarrow> i \<notin> Oid ` set (rows (clusters w))"

lemma keeps_gone_erased: "(\<And>P K. keeps (erased i P K) m) \<Longrightarrow> keeps (gone i) m"
  unfolding keeps_def erased_def gone_def by blast

lemma keeps_gone_kube: "keeps (gone i) (ignoring (kube ce cl req))"
  by (rule keepsI) (simp add: wp_ignored_call gone_def)

lemma keeps_gone_afterDelete: "keeps (gone i) (afterDelete ce c cid)"
  unfolding afterDelete_def deletePixiuClusterRole_def
  by (intro keeps_intros keeps_gone_kube keeps_gone_erased [OF keeps_erased_client] keeps_gone_erased [OF keeps_erased_drop]
      keeps_gone_erased [OF keeps_erased_list] keeps_gone_erased [OF keeps_erased_slave])

lemma keeps_gone_preDelete: "keeps (gone i) (clusterc_preDelete ctx cid skip)"
proof -
  have "keeps (gone i) (clusterGet j [])" for j :: int
    unfolding clusterGet_By by (rule keepsI) (auto simp: clusterGetBy_def wp_simps Let_def gone_def split: option.split list.split)
  moreover have "keeps (gone i) (CheckResourceAccess ctx o1 rt j)" for o1 rt j
    by (rule keepsI) (auto simp: CheckResourceAccess_def GetUserFromContext_def HasScope_def wp_simps Let_def gone_def split: option.split)
  moreover have "keeps (gone i) (permissionList os)" for os
    by (rule keepsI) (auto simp: permissionList_def wp_simps Let_def gone_def split: option.split)
  ultimately show ?thesis unfolding clusterc_preDelete_def by (intro keeps_intros)
qed

lemma keeps_gone_Delete: "keeps (gone i) (clusterc_Delete ce ctx cid skip)"
  unfolding clusterc_Delete_def afterDelete_def [symmetric]
  by (intro keeps_intros keeps_gone_preDelete keeps_gone_erased [OF keeps_erased_delete] keeps_gone_afterDelete)

lemma wp_Delete_gone:
  assumes "faultless w" and "table_ok (clusters w)" and "c \<in> set (rows (clusters w))" and "u_Role u = RoleRoot \<or> Oid u = clu_UserId c"
  shows "wp (clusterc_Delete ce (Some u) (Oid c) True) (\<lambda>_. gone (Oid c)) (\<lambda>_. gone (Oid c)) w"
proof -
  have may: "mayAccess u c w" using assms(4) by (auto simp: mayAccess_def)
  have g: "gone (Oid c) (clusters_update (delTable (\<lambda>r. Oid r = Oid c)) w\<lparr>tick := n\<rparr>)" for n
    by (auto simp: gone_def delTable_rows)
  show ?thesis
    unfolding clusterc_Delete_def afterDelete_def [symmetric] wp_andThen wp_orInternal
    by (rule wp_mono [OF wp_preDelete_skip [OF assms(1-3)]])
      (use assms(1) may keeps_wp [OF keeps_gone_afterDelete g] in \<open>auto simp: wp_clusterDelete_up\<close>)
qed

lemma wp_clusterCreate_up:
  assumes "faultless w" and "\<forall>r \<in> set (rows (clusters w)). clu_Name r \<noteq> clu_Name row"
  shows "wp (clusterCreate row [\<lambda>_. andThen (fromSum (Inr cs)) (\<lambda>_. ret ())])
     (\<lambda>obj v. \<exists>now n. let r = row\<lparr>GmtCreate := now, GmtModified := now\<rparr> in obj = r\<lparr>Oid := next_id (clusters w)\<rparr> \<and> v = clusters_update (insTable r) w\<lparr>tick := n\<rparr>) (\<lambda>_ _. False) w"
  using assms by (auto simp: clusterCreate_def wp_simps wp_transaction fromSum_def Let_def list_ex_iff faultless_def)


lemma keeps_gone_role: "keeps (gone i) (clusterc_addPixiuClusterRole ce req cl)"
proof -
  have "keeps (gone i) (kube ce cl r)" for r by (rule keepsI) (auto simp: wp_def kube_def gone_def split: sum.split)
  then show ?thesis unfolding clusterc_addPixiuClusterRole_def by (intro keeps_intros)
qed

lemma wp_prepareCluster_gone:
  assumes "faultless w" and "table_ok (clusters w)" and "c \<in> set (rows (clusters w))" and "u_Role u = RoleRoot \<or> Oid u = clu_UserId c"
    and "cc_ConnectMode req \<noteq> ConnectModeTunnel" and "\<And>n. ce_kube ce cl (GetNamespace pixiuSystemNamespace) n = Inl KOther"
  shows "wp (prepareCluster ce (Some u) req c cl) (\<lambda>_. gone (Oid c)) (\<lambda>_ _. False) w"
proof -
  let ?del = "ignoring (clusterc_Delete ce (Some u) (Oid c) True)" and ?role = "clusterc_addPixiuClusterRole ce req cl"
  have e: "wp (ensurePixiuSystemNamespace ce cl) Q E w = E (Errorf ''failed to check the namespace'') (w\<lparr>tick := Suc (tick w), kube_calls := kube_calls w @ [(cl, GetNamespace pixiuSystemNamespace)]\<rparr>)" for Q E
    using assms(6) by (simp add: ensurePixiuSystemNamespace_def wp_onResult wp_fail wp_def kube_def)
  have del: "wp ?del (\<lambda>_. gone (Oid c)) (\<lambda>_ _. False) v" if "faultless v" "clusters v = clusters w" for v
    unfolding wp_ignoring by (rule wp_mono [OF wp_Delete_gone [of v]]) (use assms that in simp_all)
  have again: "wp ?del (\<lambda>_. gone (Oid c)) (\<lambda>_ _. False) v" if "gone (Oid c) v" for v
    unfolding wp_ignoring by (rule keeps_wp [OF keeps_gone_Delete that])
  have role: "wp (onResult ?role (\<lambda>_. ?del) ret) (\<lambda>_. gone (Oid c)) (\<lambda>_ _. False) v" if "gone (Oid c) v" for v
    unfolding wp_onResult wp_ret by (rule wp_mono [OF keeps_wp [OF keeps_gone_role that]]) (simp_all add: again)
  show ?thesis
    unfolding prepareCluster_def if_not_P [OF assms(5)] wp_andThen [of "onResult _ _ _"] wp_onResult [of "ensurePixiuSystemNamespace _ _"] e
    by (rule wp_mono [OF del]) (use assms(1) role in \<open>simp_all add: faultless_def\<close>)
qed

text \<open>C40: The creation of a cluster that cannot be prepared, because its API server does not answer, deletes the cluster again
  and reports success all the same: the caller gets a cluster that is not in the database, and its client is in the
  cache of the server under its name.\<close>

theorem Create_reports_deleted:
  assumes "faultless w" and "table_ok (clusters w)" and "\<forall>r \<in> set (rows (clusters w)). clu_Name r \<noteq> cc_Name req"
    and "cc_Name req \<noteq> []" and "cc_KubeConfig req \<noteq> []" and "cc_ConnectMode req \<noteq> ConnectModeTunnel" and "u_Role u = RoleRoot \<or> Oid u = cc_UserId req"
    and "NewClusterSetWithOptions ce (cc_KubeConfig req) (cc_Name req) (cc_ConnectMode req) = Inr cs"
    and "\<And>n. ce_kube ce (Client cs) (GetNamespace pixiuSystemNamespace) n = Inl KOther"
  shows "\<exists>obj w'. clusterc_Create ce (Some u) req w = (Inr obj, w') \<and> Oid obj \<notin> Oid ` set (rows (clusters w')) \<and>
     ccGet (clusterIndexer w') (cc_Name req) = Some cs"
proof -
  let ?row = "newClusterRow req (cc_Name req) []"
  let ?Q = "\<lambda>obj w'. gone (Oid obj) w' \<and> ccGet (clusterIndexer w') (cc_Name req) = Some cs"
  let ?rest = "\<lambda>obj. andThen (prepareCluster ce (Some u) req obj (Client cs)) (\<lambda>_. andThen (modify (\<lambda>w. w\<lparr>clusterIndexer := ccSet (clusterIndexer w) (cc_Name req) cs\<rparr>)) (\<lambda>_. ret obj))"
  have row: "clu_Name ?row = cc_Name req" "clu_UserId ?row = cc_UserId req" by (simp_all add: newClusterRow_def pixiu_model.defs newModel_def)
  have rest: "wp (?rest obj) ?Q (\<lambda>_ _. False) v"
    if "obj = r\<lparr>Oid := next_id (clusters w)\<rparr>" "v = clusters_update (insTable r) w\<lparr>tick := n\<rparr>" "clu_UserId r = cc_UserId req" for obj v n and r :: Cluster
  proof -
    have "table_ok (clusters v)" "obj \<in> set (rows (clusters v))" "clu_UserId obj = cc_UserId req" "faultless v"
      using that assms(1) table_ok_insTable [OF assms(2), of r] by (simp_all add: insTable_def faultless_def)
    then have "wp (prepareCluster ce (Some u) req obj (Client cs)) (\<lambda>_. gone (Oid obj)) (\<lambda>_ _. False) v"
      by (intro wp_prepareCluster_gone) (use assms in auto)
    then show ?thesis unfolding wp_andThen wp_modify wp_ret by (rule wp_mono) (auto simp: gone_def ccGet_def ccSet_def update_conv')
  qed
  have "wp (clusterCreate ?row [\<lambda>_. andThen (fromSum (Inr cs)) (\<lambda>_. ret ())]) (\<lambda>obj. wp (?rest obj) ?Q (\<lambda>_ _. False)) (\<lambda>_ _. False) w"
    by (rule wp_mono [OF wp_clusterCreate_up [OF assms(1)]]) (use assms(3) row rest in \<open>auto simp: Let_def\<close>)
  then have "wp (clusterc_Create ce (Some u) req) ?Q (\<lambda>_ _. False) w"
    using assms(4-6,8) by (simp add: clusterc_Create_def createAgentToken_def wp_andThen [of "if _ then _ else _"] wp_andThen [of "ret _"] wp_ret wp_orInternal Let_def wp_mono)
  then show ?thesis by (auto simp: wp_def gone_def split: prod.splits sum.splits)
qed


definition demoCreate :: CreateClusterRequest where
  "demoCreate = \<lparr>cc_Name = ''test'', cc_AliasName = ''test'', cc_UserId = 7, cc_Type = 0, cc_KubeConfig = ''YWRtaW4='', cc_ConnectMode = 0,
     cc_AgentToken = [], cc_Description = [], cc_Protected = False, cc_PermissionId = 0, cc_OwnerReference = 0\<rparr>"

lemma Create_reports_deleted_witness:
  "\<exists>obj w'. clusterc_Create demoCe (Some (demoUser 7 2)) demoCreate demoClusters = (Inr obj, w') \<and> Oid obj \<notin> Oid ` set (rows (clusters w')) \<and>
     ccGet (clusterIndexer w') ''test'' = Some demoAdmin"
proof -
  have "NewClusterSetWithOptions demoCe ''YWRtaW4='' ''test'' 0 = Inr demoAdmin"
    by (simp add: NewClusterSetWithOptions_def demo_kubeconfig CompleteWithOptions_def demoCe_def demoAdmin_def ConnectModeTunnel_def Let_def)
  then show ?thesis
    using Create_reports_deleted [of demoClusters demoCreate "demoUser 7 2" demoCe demoAdmin]
    by (simp add: demoCreate_def demoUser_def ConnectModeTunnel_def demoCe_def)
qed


section \<open>Deleting a cluster\<close>

lemma wp_clusterGet:
  "wp (clusterGet i []) (\<lambda>r v. r = clusterOf [Where (\<lambda>r. Oid r = i)] w \<and> v = w\<lparr>tick := Suc (tick w)\<rparr>) (\<lambda>_ v. v = w\<lparr>tick := Suc (tick w)\<rparr>) w"
  unfolding clusterGet_By by (rule wp_clusterLookup)

lemma wp_CheckResourceAccess:
  "wp (CheckResourceAccess ctx (clu_UserId c) ResourceTypeCluster (Oid c)) (\<lambda>_ v. (\<exists>u. ctx = Some u \<and> mayAccess u c w) \<and> (\<exists>n. v = w\<lparr>tick := n\<rparr>)) (\<lambda>_ _. True) (w\<lparr>tick := k\<rparr>)"
  by (auto simp: CheckResourceAccess_def GetUserFromContext_def CanAccess_def HasScope_def wp_simps Let_def filter_empty_conv mayAccess_def split: option.split)

lemma runQuery_owned: "runQuery (buildQuery [WithOwnerCluster c]) ps = [] \<Longrightarrow> c \<noteq> 0 \<Longrightarrow> \<forall>p \<in> set ps. gt_OwnerClusterId p \<noteq> c"
proof -
  let ?q = "buildQuery [WithOwnerCluster c]"
  assume e: "runQuery ?q ps = []" and c: "c \<noteq> 0"
  have q: "qWhere ?q p = (gt_OwnerClusterId p = c)" "qLimit ?q \<le> 0" "qOffset ?q \<le> 0" for p
    using c by (simp_all add: buildQuery_def emptyQuery_def WithOwnerCluster_def Where_def)
  from set_runQuery_nolimit [OF q(2,3), of ps] e q(1) show ?thesis by auto
qed

definition deletable :: "context_user \<Rightarrow> Cluster \<Rightarrow> 'm cluster_state_scheme \<Rightarrow> bool" where
  "deletable ctx c w \<longleftrightarrow> (\<exists>u. ctx = Some u \<and> mayAccess u c w) \<and> clu_PermissionId c = 0 \<and> \<not> clu_Protected c \<and>
     (\<forall>p \<in> set (rows (permissions w)). gt_OwnerClusterId p \<noteq> Oid c)"

lemma wp_listOwned:
  "i \<noteq> 0 \<Longrightarrow> wp (permissionList [WithOwnerCluster i]) (\<lambda>ps v. (ps = [] \<longrightarrow> (\<forall>p \<in> set (rows (permissions w)). gt_OwnerClusterId p \<noteq> i)) \<and> (\<exists>n. v = w\<lparr>tick := n\<rparr>)) (\<lambda>_ _. True) (w\<lparr>tick := k\<rparr>)"
  using runQuery_owned [of i] by (auto simp: permissionList_def wp_daoList Let_def split: option.split)

lemma wp_preDelete:
  assumes "cid \<noteq> 0"
  shows "wp (clusterc_preDelete ctx cid False) (\<lambda>c v. c \<in> set (rows (clusters w)) \<and> Oid c = cid \<and> deletable ctx c w \<and> (\<exists>n. v = w\<lparr>tick := n\<rparr>)) (\<lambda>_ _. True) w"
proof -
  have found: "wp (andThen (CheckResourceAccess ctx (clu_UserId c) ResourceTypeCluster cid) (\<lambda>_. if clu_PermissionId c \<noteq> 0 then fail (NewError (Errorf ''authorized sub-cluster'') StatusForbidden)
      else if clu_Protected c then fail (NewError (Errorf ''cluster is protected'') StatusForbidden)
      else andThen (permissionList [WithOwnerCluster cid]) (\<lambda>objs. if objs \<noteq> [] then fail (NewError (Errorf ''cluster has permissions'') StatusForbidden) else ret c)))
    (\<lambda>r v. r \<in> set (rows (clusters w)) \<and> Oid r = cid \<and> deletable ctx r w \<and> (\<exists>n. v = w\<lparr>tick := n\<rparr>)) (\<lambda>_ _. True) (w\<lparr>tick := k\<rparr>)"
    if c: "c \<in> set (rows (clusters w))" "Oid c = cid" for c k
  proof -
    have "wp (if clu_PermissionId c \<noteq> 0 then fail e else if clu_Protected c then fail e' else andThen (permissionList [WithOwnerCluster cid]) (\<lambda>objs. if objs \<noteq> [] then fail e'' else ret c))
      (\<lambda>r v. r \<in> set (rows (clusters w)) \<and> Oid r = cid \<and> deletable ctx r w \<and> (\<exists>n. v = w\<lparr>tick := n\<rparr>)) (\<lambda>_ _. True) (w\<lparr>tick := n\<rparr>)"
      if "\<exists>u. ctx = Some u \<and> mayAccess u c w" for n e e' e''
      using that c assms unfolding deletable_def
      by (simp add: wp_fail wp_andThen) (intro impI wp_mono [OF wp_listOwned], auto simp: wp_fail wp_ret)
    then show ?thesis
      unfolding wp_andThen [of "CheckResourceAccess _ _ _ _"] using c(2) by (auto intro!: wp_mono [OF wp_CheckResourceAccess [of ctx c w k]])
  qed
  show ?thesis
    unfolding clusterc_preDelete_def wp_andThen [of "clusterGet _ _"] if_False
  proof (rule wp_mono [OF wp_clusterGet])
    fix r v assume "r = clusterOf [Where (\<lambda>r. Oid r = cid)] w \<and> v = w\<lparr>tick := Suc (tick w)\<rparr>"
    then have r: "clusterOf [Where (\<lambda>r. Oid r = cid)] w = r" and v: "v = w\<lparr>tick := Suc (tick w)\<rparr>" by simp_all
    show "wp (case r of None \<Rightarrow> fail ErrClusterNotFound | Some c \<Rightarrow>
        andThen (CheckResourceAccess ctx (clu_UserId c) ResourceTypeCluster cid) (\<lambda>_. if clu_PermissionId c \<noteq> 0 then fail (NewError (Errorf ''authorized sub-cluster'') StatusForbidden)
        else if clu_Protected c then fail (NewError (Errorf ''cluster is protected'') StatusForbidden)
        else andThen (permissionList [WithOwnerCluster cid]) (\<lambda>objs. if objs \<noteq> [] then fail (NewError (Errorf ''cluster has permissions'') StatusForbidden) else ret c)))
      (\<lambda>c v. c \<in> set (rows (clusters w)) \<and> Oid c = cid \<and> deletable ctx c w \<and> (\<exists>n. v = w\<lparr>tick := n\<rparr>)) (\<lambda>_ _. True) v"
    proof (cases r)
      case (Some c)
      show ?thesis unfolding Some option.case v by (rule found) (use clusterOf_Get [OF r [unfolded Some]] in simp_all)
    qed (simp add: wp_fail)
  qed simp
qed

text \<open>C10: A cluster is deleted by a request only where the user may access it, it is not protected, it is not the sub-cluster of a
  grant, and there is no grant on it; and then it is gone, whichever of the later steps fail.\<close>

theorem cluster_Delete_guarded:
  assumes "clusterc_Delete ce ctx cid False w = (Inr (), w')" and "cid \<noteq> 0"
  shows "\<exists>c u. c \<in> set (rows (clusters w)) \<and> Oid c = cid \<and> ctx = Some u \<and> mayAccess u c w \<and> clu_PermissionId c = 0 \<and> \<not> clu_Protected c \<and>
     (\<forall>p \<in> set (rows (permissions w)). gt_OwnerClusterId p \<noteq> cid) \<and> cid \<notin> Oid ` set (rows (clusters w'))"
proof -
  let ?Q = "\<lambda>c. c \<in> set (rows (clusters w)) \<and> Oid c = cid \<and> deletable ctx c w"
  have del: "wp (clusterDelete c []) (\<lambda>_. gone (Oid c)) (\<lambda>_ _. True) v" for c v
    by (auto simp: clusterDelete_def wp_transaction wp_simps Let_def gone_def delTable_rows split: option.split)
  have rest: "wp (orInternal (clusterDelete c []) (\<lambda>_. afterDelete ce c cid)) (\<lambda>_ v. \<exists>c. ?Q c \<and> gone cid v) (\<lambda>_ _. True) v" if "?Q c" for c v
    unfolding wp_orInternal
    by (rule wp_mono [OF del]) (use that in \<open>auto intro!: wp_mono [OF keeps_wp [OF keeps_gone_afterDelete]]\<close>)
  have "wp (clusterc_Delete ce ctx cid False) (\<lambda>_ v. \<exists>c. ?Q c \<and> gone cid v) (\<lambda>_ _. True) w"
    unfolding clusterc_Delete_def afterDelete_def [symmetric] wp_andThen
    by (rule wp_mono [OF wp_preDelete [OF assms(2)]]) (use rest in auto)
  from wp_Inr [OF this assms(1)] show ?thesis unfolding deletable_def gone_def by blast
qed


lemma wp_anything: "wp m (\<lambda>_ _. True) (\<lambda>_ _. True) w"
  by (simp add: wp_def split: prod.split sum.split)

lemma afterDelete_never_fails: "wp (afterDelete ce c cid) (\<lambda>_ _. True) (\<lambda>_ _. False) w"
proof -
  have k: "wp (deletePixiuClusterRole ce c cl) (\<lambda>_. Q) E v = Q (snd (deletePixiuClusterRole ce c cl v))" for cl Q E and v :: "'a cluster_state_scheme"
    by (simp add: deletePixiuClusterRole_def wp_ignored_call wp_ret ignoring_def onResult_def ret_def kube_def wp_def split: sum.split)
  show ?thesis
    unfolding afterDelete_def wp_andThen dropClient_def wp_onResult wp_ret wp_modify k
    by (rule wp_mono [OF wp_anything]; rule wp_mono [OF wp_anything]) (simp_all add: wp_deleteSlaves)
qed

lemma cluster_Delete_guarded_witness:
  "\<exists>w'. clusterc_Delete demoCe (Some (demoUser 1 2)) 4 False (demoClusters\<lparr>clusters := \<lparr>rows = [demoMaster], next_id = 6\<rparr>, permissions := \<lparr>rows = [], next_id = 10\<rparr>\<rparr>) = (Inr (), w') \<and>
     4 \<notin> Oid ` set (rows (clusters w'))"
proof -
  let ?w = "demoClusters\<lparr>clusters := \<lparr>rows = [demoMaster], next_id = 6\<rparr>, permissions := \<lparr>rows = [], next_id = 10\<rparr>\<rparr>"
  have "\<not> clu_Protected demoMaster" by (simp add: demoMaster_def newClusterRow_def pixiu_model.defs)
  then have "fst (clusterc_Delete demoCe (Some (demoUser 1 2)) 4 False ?w) = Inr ()"
    unfolding fst_wp_Inr clusterc_Delete_def afterDelete_def [symmetric]
    by (simp add: wp_mono [OF afterDelete_never_fails] clusterc_preDelete_def CheckResourceAccess_def GetUserFromContext_def CanAccess_def permissionList_def clusterGet_def
        clusterDelete_def wp_simps wp_transaction Let_def runQuery_def buildQuery_def emptyQuery_def Where_def WithOwnerCluster_def WithOrderByASC_def demoUser_def RoleRoot_def)
  then have "clusterc_Delete demoCe (Some (demoUser 1 2)) 4 False ?w = (Inr (), snd (clusterc_Delete demoCe (Some (demoUser 1 2)) 4 False ?w))"
    by (metis prod.collapse)
  from cluster_Delete_guarded [OF this] this show ?thesis by auto
qed

end
