(* ===== verification/ClusterSyncProps.thy ===== *)
theory ClusterSyncProps
  imports ClusterSync ClusterProps
begin

text \<open>
  The probes of the clusters: when one is due, and which columns of which clusters a round of the syncers may change.
\<close>

section \<open>When a probe is due\<close>

text \<open>What happens to the back-off of a syncer: the turn of a cluster, with the time and whether its probe would
  succeed, and the clean-up after a round.\<close>

datatype backoff_step = Turn string int bool | Cleanup "string set"

fun backoffStep :: "probeBackoff \<Rightarrow> backoff_step \<Rightarrow> probeBackoff" where
  "backoffStep p (Turn name now ok) = (case shouldProbe name now p of (go, p') \<Rightarrow> if go then markResult name ok p' else p')"
| "backoffStep p (Cleanup exist) = cleanup exist p"

text \<open>The reference: the probes of one cluster, the latest first. One is due when the previous one is 30 seconds past,
  or 1, 2, 4 or 8 minutes where the last 1, 2, 3 or at least 4 probes have failed.\<close>

definition losses :: "(int \<times> bool) list \<Rightarrow> nat" where
  "losses ps = length (takeWhile (\<lambda>(_, ok). \<not> ok) ps)"

definition waitOf :: "nat \<Rightarrow> int" where
  "waitOf k = 30 * second * 2 ^ min 4 k"

definition due :: "(int \<times> bool) list \<Rightarrow> int \<Rightarrow> bool" where
  "due ps now \<longleftrightarrow> ps = [] \<or> waitOf (losses ps) \<le> now - fst (hd ps)"

fun probeStep :: "string \<Rightarrow> (int \<times> bool) list \<Rightarrow> backoff_step \<Rightarrow> (int \<times> bool) list" where
  "probeStep name ps (Turn n now ok) = (if n = name \<and> due ps now then (now, ok) # ps else ps)"
| "probeStep name ps (Cleanup exist) = (if name \<in> exist then ps else [])"

definition paced :: "string \<Rightarrow> probeBackoff \<Rightarrow> (int \<times> bool) list \<Rightarrow> bool" where
  "paced name p ps \<longleftrightarrow> lastAttempt p name = (if ps = [] then None else Some (fst (hd ps))) \<and> failuresOf p name = min 8 (int (losses ps))"

lemma probeInterval_wait: "probeInterval (min 8 (int k)) = waitOf k"
proof -
  have "waitOf k = 30 * second * 2 ^ k" if "k < 4" using that by (simp add: waitOf_def)
  moreover have "k = 0 \<or> k = 1 \<or> k = 2 \<or> k = 3 \<or> 4 \<le> k" by linarith
  ultimately show ?thesis
    by (auto simp: probeInterval_def Let_def backoffBaseInterval_def backoffMaxInterval_def second_def waitOf_def push_bit_eq_mult min_def)
qed

lemma paced_due: "paced name p ps \<Longrightarrow> fst (shouldProbe name now p) = due ps now"
  by (auto simp: paced_def shouldProbe_def Let_def due_def probeInterval_wait)

lemma paced_new: "paced name newProbeBackoff []"
  by (simp add: paced_def newProbeBackoff_def failuresOf_def losses_def)

lemma paced_step: "paced name p ps \<Longrightarrow> paced name (backoffStep p s) (probeStep name ps s)"
proof (cases s)
  case (Turn n now ok)
  assume p: "paced name p ps"
  show ?thesis
  proof (cases "n = name")
    case True
    with p Turn paced_due [OF p, of now] show ?thesis
      by (auto simp: shouldProbe_def Let_def paced_def markResult_def failuresOf_def losses_def backoffMaxFailures_def min_def split: if_splits option.splits)
  qed (use p Turn in \<open>auto simp: shouldProbe_def Let_def paced_def markResult_def failuresOf_def split: if_splits\<close>)
qed (auto simp: paced_def cleanup_def failuresOf_def losses_def)

text \<open>C11: The back-off of a syncer keeps to its schedule in every history of turns and clean-ups: a cluster is probed exactly
  when the reference says so, that is, never within 30 seconds of its previous probe, at the latest after 8 minutes, and
  with the interval doubled by every failure in a row.\<close>

theorem probe_schedule:
  "let p = foldl backoffStep newProbeBackoff steps; ps = foldl (probeStep name) [] steps in
     fst (shouldProbe name now p) = due ps now \<and> 0 \<le> failuresOf p name \<and> failuresOf p name \<le> backoffMaxFailures \<and>
     (ps \<noteq> [] \<longrightarrow> (now - fst (hd ps) < 30 * second \<longrightarrow> \<not> fst (shouldProbe name now p)) \<and>
        (8 * 60 * second \<le> now - fst (hd ps) \<longrightarrow> fst (shouldProbe name now p)))"
proof -
  have "paced name p0 ps0 \<Longrightarrow> paced name (foldl backoffStep p0 steps) (foldl (probeStep name) ps0 steps)" for p0 ps0
    by (induction steps arbitrary: p0 ps0) (auto intro: paced_step)
  note * = this [OF paced_new]
  have w: "30 * second \<le> waitOf k \<and> waitOf k \<le> 8 * 60 * second" for k
    using power_increasing [of "min 4 k" 4 "2::int"] one_le_power [of "2::int" "min 4 k"] by (simp add: waitOf_def second_def)
  show ?thesis
    using * w [of "losses (foldl (probeStep name) [] steps)"] by (auto simp: Let_def paced_due [OF *] due_def paced_def backoffMaxFailures_def)
qed

lemma probe_schedule_witness:
  "let p = foldl backoffStep newProbeBackoff [Turn ''c'' (100 * second) False, Turn ''c'' (130 * second) True, Turn ''c'' (160 * second) False] in
     \<not> fst (shouldProbe ''c'' (219 * second) p) \<and> fst (shouldProbe ''c'' (280 * second) p)"
proof -
  have "foldl (probeStep ''c'') [] [Turn ''c'' (100 * second) False, Turn ''c'' (130 * second) True, Turn ''c'' (160 * second) False] =
      [(160 * second, False), (100 * second, False)]"
    by (simp add: due_def waitOf_def losses_def second_def)
  moreover have "\<not> due [(160 * second, False), (100 * second, False)] (219 * second)" "due [(160 * second, False), (100 * second, False)] (280 * second)"
    by (simp_all add: due_def waitOf_def losses_def second_def)
  ultimately show ?thesis
    using probe_schedule [where steps = "[Turn ''c'' (100 * second) False, Turn ''c'' (130 * second) True, Turn ''c'' (160 * second) False]" and name = "''c''"]
    unfolding Let_def by metis
qed

section \<open>What a round changes\<close>

text \<open>The columns that a probe never writes.\<close>

definition observedOnly :: "Cluster \<Rightarrow> Cluster \<Rightarrow> bool" where
  "observedOnly c c' \<longleftrightarrow> Oid c' = Oid c \<and> ResourceVersion c' = ResourceVersion c \<and> GmtCreate c' = GmtCreate c \<and> clu_Name c' = clu_Name c \<and>
     clu_AliasName c' = clu_AliasName c \<and> clu_ClusterType c' = clu_ClusterType c \<and> clu_PlanId c' = clu_PlanId c \<and> clu_UserId c' = clu_UserId c \<and>
     clu_PermissionId c' = clu_PermissionId c \<and> clu_OwnerReference c' = clu_OwnerReference c \<and> clu_Protected c' = clu_Protected c \<and>
     clu_KubeConfig c' = clu_KubeConfig c \<and> clu_ConnectMode c' = clu_ConnectMode c \<and> clu_Description c' = clu_Description c \<and>
     clu_AgentToken c' = clu_AgentToken c"

definition directChange :: "Cluster \<Rightarrow> Cluster \<Rightarrow> bool" where
  "directChange c c' \<longleftrightarrow> observedOnly c c' \<and> clu_PermissionId c = 0 \<and> clu_ConnectMode c = ConnectModeDirect \<and> \<not> beingDeployed c \<and>
     clu_ClusterStatus c' \<in> {ClusterStatusRunning, ClusterStatusError}"

definition tunnelChange :: "Cluster \<Rightarrow> Cluster \<Rightarrow> bool" where
  "tunnelChange c c' \<longleftrightarrow> observedOnly c c' \<and> clu_KubernetesVersion c' = clu_KubernetesVersion c \<and> clu_Nodes c' = clu_Nodes c \<and>
     clu_PermissionId c = 0 \<and> clu_ConnectMode c = ConnectModeTunnel \<and>
     clu_ClusterStatus c \<in> {ClusterStatusRunning, ClusterStatusError, ClusterStatusPending} \<and>
     (clu_ClusterStatus c' = clu_ClusterStatus c \<or> (\<exists>b. clu_ClusterStatus c' = desiredStatus b (clu_ClusterStatus c)))"

definition changedBy :: "(Cluster \<Rightarrow> Cluster \<Rightarrow> bool) \<Rightarrow> Cluster list \<Rightarrow> string set \<Rightarrow> 'm sync_state_scheme \<Rightarrow> bool" where
  "changedBy R cs0 S v \<longleftrightarrow> tm_seen v = S \<and> list_all2 (\<lambda>c c'. c' = c \<or> R c c') cs0 (rows (clusters v))"

lemma changedBy_refl: "changedBy R (rows (clusters w)) (tm_seen w) w"
  by (simp add: changedBy_def list_all2_refl)

lemma changedBy_simps [simp]:
  "changedBy R cs0 S (v\<lparr>tick := n\<rparr>) = changedBy R cs0 S v" "changedBy R cs0 S (v\<lparr>kube_calls := k\<rparr>) = changedBy R cs0 S v"
  "changedBy R cs0 S (v\<lparr>directBackoff := p\<rparr>) = changedBy R cs0 S v" "changedBy R cs0 S (v\<lparr>tunnelBackoff := p\<rparr>) = changedBy R cs0 S v"
  "changedBy R cs0 S (v\<lparr>tm_connected := m\<rparr>) = changedBy R cs0 S v"
  by (simp_all add: changedBy_def)


lemma changedBy_update:
  assumes "changedBy R cs0 S v" "c \<in> set cs0" "inj_on Oid (set cs0)" "\<And>c r. R c r \<Longrightarrow> Oid r = Oid c"
    and "\<And>r. r = c \<or> R c r \<Longrightarrow> R c (applyUpdates us r)"
  shows "changedBy R cs0 S (clusters_update (updTable (\<lambda>r. Oid r = Oid c) us) v)"
proof -
  have "(updRow (\<lambda>r. Oid r = Oid c) us r = r0 \<or> R r0 (updRow (\<lambda>r. Oid r = Oid c) us r))" if "r0 \<in> set cs0" "r = r0 \<or> R r0 r" for r0 r
  proof (cases "Oid r = Oid c")
    case True
    then have "r0 = c" using that assms(2,3,4) by (metis inj_onD)
    then show ?thesis using assms(5) that(2) True by (simp add: updRow_def)
  qed (use that in \<open>simp add: updRow_def\<close>)
  then show ?thesis
    using assms(1) unfolding changedBy_def
    by (auto simp: updTable_def list.rel_map intro: list.rel_mono_strong)
qed

lemma keeps_update:
  assumes "c \<in> set cs0" "inj_on Oid (set cs0)" "\<And>c r. R c r \<Longrightarrow> Oid r = Oid c"
    and "\<And>r now. r = c \<or> R c r \<Longrightarrow> R c (applyUpdates (us @ [(''gmt_modified'', GmtModified_update (\<lambda>_. now))]) r)"
  shows "keeps (changedBy R cs0 S) (clusterInternalUpdate (Oid c) us)"
  by (rule keepsI) (auto simp: clusterInternalUpdate_def wp_simps Let_def clusters_t_def split: option.split
      intro!: changedBy_update [where R = R, OF _ assms(1,2)] assms(3,4))

lemma keeps_time: "(\<And>v n. I v \<Longrightarrow> I (v\<lparr>tick := n\<rparr>)) \<Longrightarrow> keeps I timeNow"
  by (rule keepsI) (auto simp: wp_timeNow)

lemma keeps_state: "(\<And>v. I v \<Longrightarrow> I (f v)) \<Longrightarrow> keeps I (modify f)"
  by (rule keepsI) (auto simp: wp_modify)

lemma keeps_kube: "(\<And>v n k. I v \<Longrightarrow> I (v\<lparr>tick := n, kube_calls := k\<rparr>)) \<Longrightarrow> keeps I (kube ce cl req)"
  by (rule keepsI) (auto simp: kube_def wp_def)

lemma keeps_let: "keeps I (f x) \<Longrightarrow> keeps I (let y = x in f y)"
  by simp

lemma observedOnly_Oid: "observedOnly c r \<Longrightarrow> Oid r = Oid c"
  by (simp add: observedOnly_def)

lemma keeps_newest: "keeps (changedBy R cs0 S) (getNewestKubeStatus ce c)"
  unfolding getNewestKubeStatus_def fromSum_def Let_def by (intro keeps_intros keeps_kube allI) (simp_all split: sum.split add: keeps_intros)

lemma keeps_doSync:
  assumes "c \<in> set cs0" "inj_on Oid (set cs0)" "clu_PermissionId c = 0" "clu_ConnectMode c = ConnectModeDirect"
  shows "keeps (changedBy directChange cs0 S) (doSync ce c)"
proof -
  have up: "keeps (changedBy directChange cs0 S) (clusterInternalUpdate (Oid c) (parseStatus status version nodeData c @ probeConditionUpdates ok reason msg now))"
    if "status \<in> {ClusterStatusRunning, ClusterStatusError}" "\<not> beingDeployed c" for status version nodeData ok reason msg now
  proof (rule keeps_update [OF assms(1,2)])
    show "Oid r = Oid c'" if "directChange c' r" for c' r using that by (auto simp: directChange_def observedOnly_Oid)
    show "directChange c (applyUpdates ((parseStatus status version nodeData c @ probeConditionUpdates ok reason msg now) @ [(''gmt_modified'', GmtModified_update (\<lambda>_. n))]) r)"
      if "r = c \<or> directChange c r" for r n
      using that assms(3,4) \<open>status \<in> _\<close> \<open>\<not> beingDeployed c\<close>
      by (auto simp: directChange_def observedOnly_def applyUpdates_def parseStatus_def probeConditionUpdates_def)
  qed
  show ?thesis
    unfolding doSync_def Let_def
    by (intro keeps_if keeps_andThen keeps_ret keeps_time keeps_attempt keeps_newest)
      (auto simp: case_prod_beta split: sum.split intro!: keeps_intros keeps_state up keeps_newest)
qed


lemma keeps_gets_bind: "(\<And>v. I v \<Longrightarrow> keeps I (f (g v))) \<Longrightarrow> keeps I (andThen (gets g) f)"
  by (auto simp: keeps_def andThen_def onResult_def gets_def)

lemma keeps_set_connected: "keeps (changedBy R cs0 S) (SetAgentConnected name up)"
  unfolding SetAgentConnected_def by (intro keeps_intros keeps_state) simp_all

lemma keeps_HasSession: "keeps (changedBy R cs0 S) (HasSession se name)"
  unfolding HasSession_def by (rule keeps_gets)

lemma keeps_probe: "keeps (changedBy R cs0 S) (probeTunnelL7 se c)"
  unfolding probeTunnelL7_def by (intro keeps_intros keeps_HasSession keeps_kube) simp_all

lemma keeps_AgentConnected: "keeps (changedBy R cs0 S) (AgentConnected se name)"
  unfolding AgentConnected_def by (intro keeps_intros keeps_HasSession)

definition watchedChange :: "sync_env \<Rightarrow> string set \<Rightarrow> Cluster \<Rightarrow> Cluster \<Rightarrow> bool" where
  "watchedChange se S c c' \<longleftrightarrow> tunnelChange c c' \<and> ((\<exists>n. se_hasSession se (clu_Name c) n) \<or> clu_Name c \<in> S)"

lemma desiredStatus_cases: "desiredStatus up s = s \<or> desiredStatus up s = desiredStatus True s \<or> desiredStatus up s = desiredStatus False s"
  by (cases up) simp_all

lemma keeps_probeTunnel:
  assumes "c \<in> set cs0" "inj_on Oid (set cs0)" "clu_PermissionId c = 0" "clu_ConnectMode c = ConnectModeTunnel"
    and "clu_ClusterStatus c \<in> {ClusterStatusRunning, ClusterStatusError, ClusterStatusPending}" "(\<exists>n. se_hasSession se (clu_Name c) n) \<or> clu_Name c \<in> S"
  shows "keeps (changedBy (watchedChange se S) cs0 S) (probeTunnelCluster se c)"
proof -
  let ?us = "\<lambda>up reason msg now. probeConditionUpdates up reason msg now @
      (if desiredStatus up (clu_ClusterStatus c) \<noteq> clu_ClusterStatus c then [(''status'', clu_ClusterStatus_update (\<lambda>_. desiredStatus up (clu_ClusterStatus c)))] else [])"
  have up: "keeps (changedBy (watchedChange se S) cs0 S) (clusterInternalUpdate (Oid c) (?us up reason msg now))" for up reason msg now
  proof (rule keeps_update [OF assms(1,2)])
    show "Oid r = Oid c'" if "watchedChange se S c' r" for c' r using that by (auto simp: watchedChange_def tunnelChange_def observedOnly_Oid)
    show "watchedChange se S c (applyUpdates (?us up reason msg now @ [(''gmt_modified'', GmtModified_update (\<lambda>_. n))]) r)"
      if "r = c \<or> watchedChange se S c r" for r n
      using that assms(3-6) by (auto simp: watchedChange_def tunnelChange_def observedOnly_def applyUpdates_def probeConditionUpdates_def)
  qed
  show ?thesis
    unfolding probeTunnelCluster_def Let_def case_prod_beta
    by (intro keeps_andThen keeps_if keeps_onResult keeps_ret keeps_fail keeps_gets keeps_state keeps_time keeps_probe keeps_AgentConnected keeps_set_connected up) simp_all
qed

lemma keeps_check:
  assumes "c \<in> set cs0" "inj_on Oid (set cs0)" "clu_PermissionId c = 0" "clu_ConnectMode c = ConnectModeTunnel" "0 \<le> clu_ClusterStatus c" "clu_ClusterStatus c \<le> 5"
  shows "keeps (changedBy (watchedChange se S) cs0 S) (checkTunnelCluster se c)"
proof -
  have st: "clu_ClusterStatus c \<in> {ClusterStatusRunning, ClusterStatusError, ClusterStatusPending}"
    if "clu_ClusterStatus c \<notin> {ClusterStatusDeploy, ClusterStatusUnStart, ClusterStatusFailed}"
    using that assms(5,6) by (auto simp: ClusterStatusDeploy_def ClusterStatusUnStart_def ClusterStatusFailed_def ClusterStatusRunning_def
        ClusterStatusError_def ClusterStatusPending_def)
  show ?thesis
    unfolding checkTunnelCluster_def HasSession_def SeenSession_def
    by (intro keeps_if keeps_gets_bind keeps_ret keeps_set_connected keeps_probeTunnel [OF assms(1-4) st]) (auto simp: changedBy_def)
qed

text \<open>The status column holds one of the six states.\<close>

definition statusesKnown :: "Cluster table \<Rightarrow> bool" where
  "statusesKnown T \<longleftrightarrow> (\<forall>c \<in> set (rows T). 0 \<le> clu_ClusterStatus c \<and> clu_ClusterStatus c \<le> 5)"

lemma listed:
  assumes "c \<in> set (runQuery (buildQuery [WithConnectMode m, WithPermissionID 0]) rs) \<or> c \<in> set (runQuery (buildQuery [WithPermissionID 0, WithConnectMode m]) rs)"
  shows "c \<in> set rs \<and> clu_PermissionId c = 0 \<and> clu_ConnectMode c = m"
proof -
  have "qWhere (buildQuery [WithConnectMode m, WithPermissionID 0]) c = (clu_ConnectMode c = m \<and> clu_PermissionId c = 0)"
    "qWhere (buildQuery [WithPermissionID 0, WithConnectMode m]) c = (clu_PermissionId c = 0 \<and> clu_ConnectMode c = m)"
    by (simp_all add: buildQuery_def emptyQuery_def WithConnectMode_def WithPermissionID_def Where_def)
  then show ?thesis using assms by (auto dest!: set_runQuery)
qed

lemma table_ok_inj: "table_ok T \<Longrightarrow> inj_on Oid (set (rows T))"
  by (meson inj_onI table_ok_Oid_eq)

text \<open>C12: A round of the two syncers changes only what a probe observes (status, version, nodes, the result of the probe), and
  only of clusters that are no sub-cluster of a grant: of those reached directly that are not being deployed, whose status
  becomes running or unreachable, and of those behind a tunnel whose agent this process has a session of or has seen, where
  a waiting or unreachable cluster may become running and a running one unreachable. No cluster appears or disappears.\<close>

theorem sync_changes:
  assumes "table_ok (clusters w)" and "\<And>n cs. set (se_order se n cs) \<subseteq> set cs" and "statusesKnown (clusters w)"
  shows "list_all2 (\<lambda>c c'. c' = c \<or> directChange c c') (rows (clusters w)) (rows (clusters (snd (ClusterSyncer_Do se disabled w)))) \<and>
    list_all2 (\<lambda>c c'. c' = c \<or> watchedChange se (tm_seen w) c c') (rows (clusters w)) (rows (clusters (snd (TunnelSyncer_Do se w))))"
proof -
  let ?I = "\<lambda>R. changedBy R (rows (clusters w)) (tm_seen w)"
  have round: "wp (andThen (clusterList opts) f) (\<lambda>_. ?I R) (\<lambda>_. ?I R) w"
    if "keeps (?I R) (f (runQuery (buildQuery opts) (rows (clusters w))))" for R opts and f :: "Cluster list \<Rightarrow> (_, goerr, unit) act"
    using keeps_wp [OF that] changedBy_refl [of R w]
    by (auto simp: clusterList_def wp_andThen wp_daoList Let_def clusters_t_def split: option.split)
  note inj = table_ok_inj [OF assms(1)]
  have ordered: "c \<in> set (rows (clusters w)) \<and> clu_PermissionId c = 0 \<and> clu_ConnectMode c = ConnectModeDirect"
    if "c \<in> set (se_order se n (runQuery (buildQuery [WithPermissionID 0, WithConnectMode ConnectModeDirect]) (rows (clusters w))))" for c n
    using that assms(2) by (intro listed) blast
  have "wp (ClusterSyncer_Do se disabled) (\<lambda>_. ?I directChange) (\<lambda>_. ?I directChange) w"
    unfolding ClusterSyncer_Do_def using changedBy_refl
    by (auto simp: wp_ret intro!: round keeps_andThen keeps_gets keeps_forEach keeps_state keeps_doSync [OF _ inj] dest!: ordered)
  moreover have "wp (TunnelSyncer_Do se) (\<lambda>_. ?I (watchedChange se (tm_seen w))) (\<lambda>_. ?I (watchedChange se (tm_seen w))) w"
    unfolding TunnelSyncer_Do_def using changedBy_refl assms(3)
    by (auto simp: wp_ret statusesKnown_def intro!: round keeps_andThen keeps_ignoring keeps_forEach keeps_state keeps_check [OF _ inj] dest!: listed [OF disjI1])
  ultimately show ?thesis unfolding wp_snd changedBy_def by blast
qed


definition demoSync :: sync_state where
  "demoSync = cluster_state.extend demoClusters \<lparr>directBackoff = newProbeBackoff, tunnelBackoff = newProbeBackoff, tm_connected = Map.empty, tm_seen = {}\<rparr>"

definition demoSe :: sync_env where
  "demoSe = \<lparr>se_ce = demoCe, se_order = (\<lambda>_. rev), se_hasSession = (\<lambda>_ _. True)\<rparr>"

lemma demo_sync: "clusters demoSync = clusters demoClusters" "tm_seen demoSync = {}"
  by (simp_all add: demoSync_def cluster_state.defs)

lemma sync_changes_witness:
  "list_all2 (\<lambda>c c'. c' = c \<or> directChange c c') [demoMaster, demoSlave] (rows (clusters (snd (ClusterSyncer_Do demoSe False demoSync)))) \<and>
    list_all2 (\<lambda>c c'. c' = c \<or> watchedChange demoSe {} c c') [demoMaster, demoSlave] (rows (clusters (snd (TunnelSyncer_Do demoSe demoSync))))"
proof -
  have "table_ok (clusters demoSync)" by (simp add: demo_sync table_ok_def)
  moreover have "statusesKnown (clusters demoSync)"
    by (simp add: demo_sync statusesKnown_def demoSlave_def demoMaster_def newClusterRow_def pixiu_model.defs ClusterStatusRunning_def)
  ultimately show ?thesis using sync_changes [of demoSync demoSe False] by (simp add: demo_sync demoSe_def)
qed

end
