(* ===== verification/Resources.thy ===== *)
theory Resources
  imports PlanHandlers AlertControllers
begin

text \<open>
  The controllers of what a deployment is made of: nodes (\<open>pkg/controller/node\<close>), runner images
  (\<open>pkg/controller/runner\<close>) and distributions (\<open>pkg/controller/distribution\<close>), on the DAO methods of \<open>PlanDb\<close>.
  Docker and SSH are parameters. The goroutine a handler of a runner leaves behind is a function of its own.
\<close>

section \<open>Requests and answers\<close>

record NodeAuthResult =
  nr_Type :: string
  nr_Port :: int

record NodeResult =
  nr_Id :: int
  nr_ResourceVersion :: int
  nr_GmtCreate :: int
  nr_GmtModified :: int
  nr_Name :: string
  nr_UserId :: int
  nr_Ip :: string
  nr_Auth :: NodeAuthResult

record CreateNodeRequest =
  cn_Name :: string
  cn_UserId :: int
  cn_Ip :: string
  cn_Auth :: PlanNodeAuth

record UpdateNodeRequest =
  un_ResourceVersion :: int
  un_Name :: "string option"
  un_Ip :: "string option"
  un_Auth :: "PlanNodeAuth option"

record WebSSHRequest =
  ws_Host :: string
  ws_Port :: int
  ws_User :: string
  ws_Password :: string
  ws_PrivateKey :: string

record NodeConnectivityRequest =
  nq_NodeId :: int
  nq_Host :: string
  nq_Port :: int
  nq_User :: string
  nq_Password :: string
  nq_PrivateKey :: string

record NodeConnectivityResult =
  nx_Connected :: bool
  nx_Host :: string
  nx_Port :: int
  nx_User :: string
  nx_Message :: string

record types_Runner =
  xu_Id :: int
  xu_ResourceVersion :: int
  xu_GmtCreate :: int
  xu_GmtModified :: int
  xu_Name :: string
  xu_EngineImage :: string
  xu_Status :: int
  xu_Description :: string

record CreateRunnerRequest =
  cru_Name :: string
  cru_EngineImage :: string
  cru_Status :: int
  cru_Description :: string

record UpdateRunnerRequest =
  uru_Id :: int
  uru_ResourceVersion :: "int option"
  uru_Name :: "string option"
  uru_EngineImage :: "string option"
  uru_Status :: "int option"
  uru_Description :: "string option"

record types_Distribution =
  xd_Id :: int
  xd_ResourceVersion :: int
  xd_GmtCreate :: int
  xd_GmtModified :: int
  xd_Family :: string
  xd_Name :: string
  xd_Runner :: string

record CreateDistributionRequest =
  cdi_Family :: string
  cdi_Name :: string
  cdi_Runner :: string

record UpdateDistributionRequest =
  udi_Id :: int
  udi_ResourceVersion :: "int option"
  udi_Family :: "string option"
  udi_Name :: "string option"
  udi_Runner :: "string option"

text \<open>\<open>if req.F != nil { updates[col] = *req.F }\<close>\<close>

definition optUpdate :: "string \<Rightarrow> ('a \<Rightarrow> 'r \<Rightarrow> 'r) \<Rightarrow> 'a option \<Rightarrow> 'r updates" where
  "optUpdate col upd x = (case x of None \<Rightarrow> [] | Some v \<Rightarrow> [(col, upd v)])"

text \<open>A missing row is the given error, every other one an internal error.\<close>

definition getOr :: "goerr \<Rightarrow> ('w, goerr, 'a) act \<Rightarrow> ('w, goerr, 'a) act" where
  "getOr missing m = onResult m (\<lambda>err. if IsRecordNotFound err then fail missing else fail ErrServerInternal) ret"

text \<open>The count, then the rows of the page.\<close>

definition listPage :: "ListOptions \<Rightarrow> ('w, goerr, int) act \<Rightarrow> ('w, goerr, 'r list) act \<Rightarrow> ('r \<Rightarrow> 'a) \<Rightarrow> ('w, goerr, 'a PageResult) act" where
  "listPage lo count objects conv = andThen count (\<lambda>total. orInternal objects (\<lambda>os.
     ret \<lparr>pr_Page = lo_Page lo, pr_Limit = lo_Limit lo, pr_Total = total, pr_Items = map conv os\<rparr>))"

section \<open>Nodes\<close>

definition model2Node :: "Node \<Rightarrow> NodeResult" where
  "model2Node o1 = (let auth = (if nd_Auth o1 = [] then \<lparr>nr_Type = [], nr_Port = 0\<rparr>
       else (case PlanNodeAuth_Unmarshal (nd_Auth o1) zeroPlanNodeAuth of None \<Rightarrow> \<lparr>nr_Type = [], nr_Port = 0\<rparr>
         | Some spec \<Rightarrow> \<lparr>nr_Type = na_Type spec, nr_Port = na_Port spec\<rparr>))
     in \<lparr>nr_Id = Oid o1, nr_ResourceVersion = ResourceVersion o1, nr_GmtCreate = GmtCreate o1, nr_GmtModified = GmtModified o1,
         nr_Name = nd_Name o1, nr_UserId = nd_UserId o1, nr_Ip = nd_Ip o1, nr_Auth = auth\<rparr>)"

definition nodec_preCreate :: "CreateNodeRequest \<Rightarrow> ('m plan_db_scheme, goerr, unit) act" where
  "nodec_preCreate req = onResult (GetNodeByIP (cn_Ip req)) (\<lambda>err. if IsRecordNotFound err then ret () else fail ErrServerInternal)
     (\<lambda>_. fail ErrNodeIPExists)"

definition newNodeRow :: "CreateNodeRequest \<Rightarrow> Node" where
  "newNodeRow req = pixiu_model.extend newModel \<lparr>nd_Name = cn_Name req, nd_UserId = cn_UserId req, nd_PlanId = 0, nd_Role = [], nd_CRI = [],
     nd_Ip = cn_Ip req, nd_Auth = PlanNodeAuth_Marshal (cn_Auth req)\<rparr>"

definition nodec_Create :: "CreateNodeRequest \<Rightarrow> ('m plan_db_scheme, goerr, unit) act" where
  "nodec_Create req = andThen (nodec_preCreate req) (\<lambda>_. orInternal (CreateNode (newNodeRow req)) (\<lambda>_. ret ()))"

definition nodec_preUpdate :: "context_user \<Rightarrow> int \<Rightarrow> ('m plan_db_scheme, goerr, unit) act" where
  "nodec_preUpdate ctx nodeId = andThen (getOr ErrNodeNotFound (GetNode nodeId)) (\<lambda>object.
     CheckResourceAccess ctx (nd_UserId object) ResourceTypeNode nodeId)"

definition nodeUpdates :: "UpdateNodeRequest \<Rightarrow> Node updates" where
  "nodeUpdates req = optUpdate ''name'' (\<lambda>v. nd_Name_update (\<lambda>_. v)) (un_Name req) @ optUpdate ''ip'' (\<lambda>v. nd_Ip_update (\<lambda>_. v)) (un_Ip req) @
     optUpdate ''auth'' (\<lambda>v. nd_Auth_update (\<lambda>_. PlanNodeAuth_Marshal v)) (un_Auth req)"

definition nodec_Update :: "context_user \<Rightarrow> int \<Rightarrow> UpdateNodeRequest \<Rightarrow> ('m plan_db_scheme, goerr, unit) act" where
  "nodec_Update ctx nodeId req = andThen (nodec_preUpdate ctx nodeId) (\<lambda>_. if nodeUpdates req = [] then ret ()
     else onResult (UpdateNode nodeId (un_ResourceVersion req) (nodeUpdates req))
       (\<lambda>err. if err = Util ErrRecordNotFound then fail ErrNodeNotFound else fail ErrServerInternal) ret)"

definition nodec_Delete :: "context_user \<Rightarrow> int \<Rightarrow> ('m plan_db_scheme, goerr, unit) act" where
  "nodec_Delete ctx nodeId = andThen (getOr ErrNodeNotFound (GetNode nodeId)) (\<lambda>object.
     andThen (CheckResourceAccess ctx (nd_UserId object) ResourceTypeNode nodeId) (\<lambda>_.
     andThen (getOr ErrNodeNotFound (DeleteNode nodeId)) (\<lambda>_. ret ())))"

definition nodec_Get :: "context_user \<Rightarrow> int \<Rightarrow> ('m plan_db_scheme, goerr, NodeResult) act" where
  "nodec_Get ctx nodeId = andThen (getOr ErrNodeNotFound (GetNode nodeId)) (\<lambda>object.
     andThen (CheckResourceAccess ctx (nd_UserId object) ResourceTypeNode nodeId) (\<lambda>_. ret (model2Node object)))"

definition nodec_List :: "context_user \<Rightarrow> ListOptions \<Rightarrow> ('m plan_db_scheme, goerr, NodeResult PageResult) act" where
  "nodec_List ctx listOption = (let lo = SetDefaultPageOption listOption in
     andThen (AuthorizedResourceIDs ctx ResourceTypeNode) (\<lambda>ids.
       let opts = [WithUserOrResourceIDs nd_UserId (lo_UserId lo) (case ids of None \<Rightarrow> [] | Some is1 \<Rightarrow> is1), WithNameLike nd_Name (lo_NameSelector lo)]
       in listPage lo (orInternal (CountNodes opts) ret) (ListAllNodes (opts @ pageOptions lo)) model2Node))"

text \<open>The connection a stored or a given credential calls for.\<close>

definition ResolveAuth :: "PlanNodeAuth \<Rightarrow> goerr + WebSSHRequest" where
  "ResolveAuth auth = (if na_Type auth = PasswordAuth then (case na_Password auth of None \<Rightarrow> Inl (Errorf ''no SSH password'')
       | Some p \<Rightarrow> if ps_Password p = [] then Inl (Errorf ''no SSH password'')
           else Inr \<lparr>ws_Host = [], ws_Port = SSHPort auth, ws_User = (if ps_User p = [] then ''root'' else ps_User p), ws_Password = ps_Password p, ws_PrivateKey = []\<rparr>)
     else if na_Type auth = KeyAuth then (case na_Key auth of None \<Rightarrow> Inl (Errorf ''no SSH key'')
       | Some k \<Rightarrow> if ks_Data k = [] then Inl (Errorf ''no SSH key'')
           else Inr \<lparr>ws_Host = [], ws_Port = SSHPort auth, ws_User = ''root'', ws_Password = [], ws_PrivateKey = ks_Data k\<rparr>)
     else Inl (Errorf ''unsupported type of authentication''))"

definition NewSSHClient :: "ssh_env \<Rightarrow> WebSSHRequest \<Rightarrow> ('m plan_db_scheme, goerr, unit) act" where
  "NewSSHClient sh req = (let p = (if ws_Port req = 0 then 22 else ws_Port req); addr = ws_Host req @ '':'' @ FormatInt p in
     if ws_PrivateKey req \<noteq> [] then (case sh_parseKey sh (ws_PrivateKey req) of Inl err \<Rightarrow> fail (Errorf ''parse private key'')
       | Inr signer \<Rightarrow> external (sh_dial sh addr (SshSigner (ws_User req) signer)))
     else external (sh_dial sh addr (SshPassword (ws_User req) (ws_Password req))))"

definition connectivityTarget :: "context_user \<Rightarrow> NodeConnectivityRequest \<Rightarrow> ('m plan_db_scheme, goerr, WebSSHRequest) act" where
  "connectivityTarget ctx req = (if 0 < nq_NodeId req
     then andThen (getOr ErrNodeNotFound (GetNode (nq_NodeId req))) (\<lambda>object.
       andThen (CheckResourceAccess ctx (nd_UserId object) ResourceTypeNode (nq_NodeId req)) (\<lambda>_.
         case PlanNodeAuth_Unmarshal (nd_Auth object) zeroPlanNodeAuth of None \<Rightarrow> fail ErrInvalidRequest
         | Some auth \<Rightarrow> (case ResolveAuth auth of Inl _ \<Rightarrow> fail ErrInvalidRequest | Inr ssh \<Rightarrow> ret (ssh\<lparr>ws_Host := nd_Ip object\<rparr>))))
     else if nq_Host req = [] then fail ErrInvalidRequest
     else ret \<lparr>ws_Host = nq_Host req, ws_Port = nq_Port req, ws_User = (if nq_User req = [] then ''root'' else nq_User req),
       ws_Password = nq_Password req, ws_PrivateKey = nq_PrivateKey req\<rparr>)"

definition CheckConnectivity :: "ssh_env \<Rightarrow> (goerr \<Rightarrow> string) \<Rightarrow> context_user \<Rightarrow> NodeConnectivityRequest \<Rightarrow> ('m plan_db_scheme, goerr, NodeConnectivityResult) act" where
  "CheckConnectivity sh errText ctx req = andThen (connectivityTarget ctx req) (\<lambda>ssh.
     let p = (if ws_Port ssh = 0 then 22 else ws_Port ssh);
         result = \<lparr>nx_Connected = False, nx_Host = ws_Host ssh, nx_Port = p, nx_User = ws_User ssh, nx_Message = []\<rparr>
     in onResult (NewSSHClient sh (ssh\<lparr>ws_Port := p\<rparr>)) (\<lambda>e. ret (result\<lparr>nx_Message := errText e\<rparr>)) (\<lambda>_. ret (result\<lparr>nx_Connected := True\<rparr>)))"

section \<open>Runners\<close>

record runner_env =
  rn_newClient :: "nat \<Rightarrow> goerr + unit"
  rn_pull :: "string \<Rightarrow> nat \<Rightarrow> goerr + unit"
  rn_read :: "string \<Rightarrow> nat \<Rightarrow> goerr + unit"
  rn_remove :: "string \<Rightarrow> nat \<Rightarrow> goerr + unit"

definition runnerModel2Type :: "Runner \<Rightarrow> types_Runner" where
  "runnerModel2Type o1 = \<lparr>xu_Id = Oid o1, xu_ResourceVersion = ResourceVersion o1, xu_GmtCreate = GmtCreate o1, xu_GmtModified = GmtModified o1,
     xu_Name = ru_Name o1, xu_EngineImage = ru_EngineImage o1, xu_Status = ru_Status o1, xu_Description = ru_Description o1\<rparr>"

definition runnerc_Create :: "CreateRunnerRequest \<Rightarrow> ('m plan_db_scheme, goerr, unit) act" where
  "runnerc_Create req = orInternal (runnerCreate (pixiu_model.extend newModel \<lparr>ru_Name = cru_Name req, ru_EngineImage = cru_EngineImage req,
     ru_Status = cru_Status req, ru_Description = cru_Description req\<rparr>)) (\<lambda>_. ret ())"

text \<open>\<open>Get\<close> of the DAO reports a missing row as an error, so the branch of the code for \<open>nil\<close> is never taken.\<close>

definition runnerc_preUpdate :: "int \<Rightarrow> ('m plan_db_scheme, goerr, unit) act" where
  "runnerc_preUpdate runnerId = orInternal (runnerGet runnerId) (\<lambda>_. ret ())"

definition runnerUpdates :: "UpdateRunnerRequest \<Rightarrow> Runner updates" where
  "runnerUpdates req = optUpdate ''name'' (\<lambda>v. ru_Name_update (\<lambda>_. v)) (uru_Name req) @ optUpdate ''engine_image'' (\<lambda>v. ru_EngineImage_update (\<lambda>_. v)) (uru_EngineImage req) @
     optUpdate ''status'' (\<lambda>v. ru_Status_update (\<lambda>_. v)) (uru_Status req) @ optUpdate ''description'' (\<lambda>v. ru_Description_update (\<lambda>_. v)) (uru_Description req)"

definition runnerc_Update :: "UpdateRunnerRequest \<Rightarrow> ('m plan_db_scheme, goerr, unit) act" where
  "runnerc_Update req = andThen (runnerc_preUpdate (uru_Id req)) (\<lambda>_. case uru_ResourceVersion req of None \<Rightarrow> fail nilPanic
     | Some v \<Rightarrow> orInternal (runnerUpdate (uru_Id req) v (runnerUpdates req)) ret)"

definition runnerc_Delete :: "int \<Rightarrow> ('m plan_db_scheme, goerr, unit) act" where
  "runnerc_Delete runnerId = andThen (getOr ErrRunnerNotFound (runnerGet runnerId)) (\<lambda>_.
     andThen (getOr ErrRunnerNotFound (runnerDelete runnerId)) (\<lambda>_. ret ()))"

definition runnerc_Get :: "int \<Rightarrow> ('m plan_db_scheme, goerr, types_Runner) act" where
  "runnerc_Get runnerId = orInternal (runnerGet runnerId) (\<lambda>object. ret (runnerModel2Type object))"

definition runnerc_List :: "ListOptions \<Rightarrow> ('m plan_db_scheme, goerr, types_Runner PageResult) act" where
  "runnerc_List listOption = (let lo = SetDefaultPageOption listOption; opts = [WithNameLike ru_Name (lo_NameSelector lo)] in
     listPage lo (runnerCount opts) (runnerList (opts @ pageOptions lo)) runnerModel2Type)"

definition runnerc_updateStatus :: "int \<Rightarrow> int \<Rightarrow> ('m plan_db_scheme, goerr, unit) act" where
  "runnerc_updateStatus runnerId status = runnerInternalUpdate runnerId [(''status'', ru_Status_update (\<lambda>_. status))]"

definition runnerc_pullImage :: "runner_env \<Rightarrow> string \<Rightarrow> ('m plan_db_scheme, goerr, unit) act" where
  "runnerc_pullImage rn img = andThen (external (rn_newClient rn)) (\<lambda>_. andThen (external (rn_pull rn img)) (\<lambda>_. external (rn_read rn img)))"

definition runnerc_removeImage :: "runner_env \<Rightarrow> string \<Rightarrow> ('m plan_db_scheme, goerr, unit) act" where
  "runnerc_removeImage rn img = andThen (external (rn_newClient rn)) (\<lambda>_. external (rn_remove rn img))"

text \<open>The answer of a handler, and the image its goroutine is to work on.\<close>

definition runnerc_Install :: "int \<Rightarrow> ('m plan_db_scheme, goerr, string) act" where
  "runnerc_Install i = orInternal (runnerGet i) (\<lambda>obj. andThen (runnerc_updateStatus i RunnerStatusInstalling) (\<lambda>_. ret (ru_EngineImage obj)))"

definition installInBackground :: "runner_env \<Rightarrow> int \<Rightarrow> string \<Rightarrow> ('m plan_db_scheme, goerr, unit) act" where
  "installInBackground rn i img = andThen (attempt (runnerc_pullImage rn img)) (\<lambda>res.
     ignoring (runnerc_updateStatus i (case res of Inl _ \<Rightarrow> RunnerStatusUnknown | Inr _ \<Rightarrow> RunnerStatusInstalled)))"

definition runnerc_UnInstall :: "int \<Rightarrow> ('m plan_db_scheme, goerr, string) act" where
  "runnerc_UnInstall i = orInternal (runnerGet i) (\<lambda>obj. andThen (runnerc_updateStatus i RunnerStatusUnInstalling) (\<lambda>_. ret (ru_EngineImage obj)))"

definition uninstallInBackground :: "runner_env \<Rightarrow> int \<Rightarrow> string \<Rightarrow> ('m plan_db_scheme, goerr, unit) act" where
  "uninstallInBackground rn i img = andThen (ignoring (runnerc_removeImage rn img)) (\<lambda>_. ignoring (runnerc_updateStatus i RunnerStatusUnstart))"

section \<open>Distributions\<close>

definition distributionModel2Type :: "Distribution \<Rightarrow> types_Distribution" where
  "distributionModel2Type o1 = \<lparr>xd_Id = Oid o1, xd_ResourceVersion = ResourceVersion o1, xd_GmtCreate = GmtCreate o1, xd_GmtModified = GmtModified o1,
     xd_Family = di_Family o1, xd_Name = di_Name o1, xd_Runner = di_Runner o1\<rparr>"

definition distc_Create :: "CreateDistributionRequest \<Rightarrow> ('m plan_db_scheme, goerr, unit) act" where
  "distc_Create req = orInternal (GetDistributionByFamilyName (cdi_Family req) (cdi_Name req)) (\<lambda>existing.
     if existing \<noteq> None then fail ErrDistributionExists
     else onResult (CreateDistribution (pixiu_model.extend newModel \<lparr>di_Family = cdi_Family req, di_Name = cdi_Name req, di_Runner = cdi_Runner req\<rparr>))
       (\<lambda>err. if IsUniqueConstraintError err then fail ErrDistributionExists else fail ErrServerInternal) (\<lambda>_. ret ()))"

definition distc_preUpdate :: "int \<Rightarrow> ('m plan_db_scheme, goerr, Distribution) act" where
  "distc_preUpdate i = orInternal (GetDistribution i) (\<lambda>object. case object of None \<Rightarrow> fail ErrDistributionNotFound | Some d \<Rightarrow> ret d)"

definition distc_checkDup :: "int \<Rightarrow> Distribution \<Rightarrow> string \<Rightarrow> string \<Rightarrow> ('m plan_db_scheme, goerr, unit) act" where
  "distc_checkDup i object family name = (if family \<noteq> di_Family object \<or> name \<noteq> di_Name object
     then orInternal (GetDistributionByFamilyName family name) (\<lambda>dup. case dup of None \<Rightarrow> ret ()
       | Some d \<Rightarrow> if Oid d \<noteq> i then fail ErrDistributionExists else ret ())
     else ret ())"

definition distributionUpdates :: "UpdateDistributionRequest \<Rightarrow> Distribution updates" where
  "distributionUpdates req = optUpdate ''family'' (\<lambda>v. di_Family_update (\<lambda>_. v)) (udi_Family req) @ optUpdate ''name'' (\<lambda>v. di_Name_update (\<lambda>_. v)) (udi_Name req) @
     optUpdate ''runner'' (\<lambda>v. di_Runner_update (\<lambda>_. v)) (udi_Runner req)"

definition distc_Update :: "UpdateDistributionRequest \<Rightarrow> ('m plan_db_scheme, goerr, unit) act" where
  "distc_Update req = andThen (distc_preUpdate (udi_Id req)) (\<lambda>object.
     let family = (case udi_Family req of None \<Rightarrow> di_Family object | Some f \<Rightarrow> f); name = (case udi_Name req of None \<Rightarrow> di_Name object | Some n \<Rightarrow> n)
     in andThen (distc_checkDup (udi_Id req) object family name) (\<lambda>_.
       if distributionUpdates req = [] then fail ErrInvalidRequest
       else case udi_ResourceVersion req of None \<Rightarrow> fail nilPanic
         | Some v \<Rightarrow> onResult (UpdateDistribution (udi_Id req) v (distributionUpdates req))
             (\<lambda>err. if IsNotUpdated err then fail ErrInvalidRequest else fail ErrServerInternal) ret))"

definition distc_Delete :: "int \<Rightarrow> ('m plan_db_scheme, goerr, unit) act" where
  "distc_Delete i = orInternal (DeleteDistribution i) (\<lambda>object. case object of None \<Rightarrow> fail ErrDistributionNotFound | Some _ \<Rightarrow> ret ())"

definition distc_Get :: "int \<Rightarrow> ('m plan_db_scheme, goerr, types_Distribution) act" where
  "distc_Get i = andThen (distc_preUpdate i) (\<lambda>object. ret (distributionModel2Type object))"

definition distc_List :: "ListOptions \<Rightarrow> ('m plan_db_scheme, goerr, types_Distribution PageResult) act" where
  "distc_List listOption = (let lo = SetDefaultPageOption listOption;
       opts = [WithDistributionNameLike (lo_NameSelector lo), WithDistributionFamily (lo_Family lo)]
     in listPage lo (CountDistributions opts) (ListDistributions (opts @ [WithOffset ((lo_Page lo - 1) * lo_Limit lo), WithLimit (lo_Limit lo)])) distributionModel2Type)"

end
