(* ===== verification/Assistants.thy ===== *)
theory Assistants
  imports Resources DeployAgent
begin

text \<open>
  The administration of the assistant: its rows and DAO methods (\<open>pkg/db/model/assistant.go\<close>, \<open>pkg/db/ai_provider.go\<close>,
  \<open>ai_account.go\<close>, \<open>conversation.go\<close>, \<open>message.go\<close>, \<open>execution.go\<close>), and the controllers of providers, accounts,
  conversations and messages (\<open>pkg/controller/{provider,account,conversation,message}\<close>).
\<close>

section \<open>Rows\<close>

record AIProvider = pixiu_model +
  ap_Name :: string
  ap_BaseURL :: string
  ap_Protocol :: string
  ap_Description :: string
  ap_MaxTokens :: int
  ap_Builtin :: bool

record AIAccount = pixiu_model +
  aa_UserId :: int
  aa_ProviderId :: int
  aa_Name :: string
  aa_APIKey :: string
  aa_ModelName :: string

record Conversation = pixiu_model +
  cv_ProviderId :: int
  cv_Provider :: string
  cv_ModelName :: string
  cv_Title :: string
  cv_PreviousResponseId :: string
  cv_History :: string

record Message = pixiu_model +
  ms_RequestId :: string
  ms_ProviderId :: int
  ms_ConversationId :: int
  ms_Provider :: string
  ms_ModelName :: string
  ms_ResponseId :: string
  ms_InputText :: string
  ms_OutputText :: string
  ms_Success :: bool
  ms_ErrorMessage :: string
  ms_Duration :: int
  ms_InputTokens :: int
  ms_OutputTokens :: int
  ms_TotalTokens :: int
  ms_CachedTokens :: int
  ms_ReasoningTokens :: int

record Execution = pixiu_model +
  xq_RequestId :: string
  xq_ProviderId :: int
  xq_ConversationId :: int
  xq_Provider :: string
  xq_ModelName :: string
  xq_ToolName :: string
  xq_CallId :: string
  xq_Arguments :: string
  xq_Output :: string
  xq_Success :: bool
  xq_ErrorMessage :: string
  xq_Duration :: int

record assistant_db = iam_db +
  ai_providers :: "AIProvider table"
  ai_accounts :: "AIAccount table"
  conversations :: "Conversation table"
  messages :: "Message table"
  executions :: "Execution table"

text \<open>The column \<open>max_tokens\<close> has a default, which gorm takes for a zero.\<close>

definition ai_providers_t :: "('m assistant_db_scheme, AIProvider) tref" where
  "ai_providers_t = \<lparr>tget = ai_providers, tupd = ai_providers_update, tuniq = (\<lambda>r s. ap_Name r = ap_Name s),
     tdefaults = (\<lambda>r. if ap_MaxTokens r = 0 then r\<lparr>ap_MaxTokens := 4096\<rparr> else r)\<rparr>"

definition ai_accounts_t :: "('m assistant_db_scheme, AIAccount) tref" where
  "ai_accounts_t = \<lparr>tget = ai_accounts, tupd = ai_accounts_update,
     tuniq = (\<lambda>r s. aa_UserId r = aa_UserId s \<and> aa_ProviderId r = aa_ProviderId s \<and> aa_Name r = aa_Name s), tdefaults = (\<lambda>r. r)\<rparr>"

definition conversations_t :: "('m assistant_db_scheme, Conversation) tref" where
  "conversations_t = \<lparr>tget = conversations, tupd = conversations_update, tuniq = (\<lambda>r s. False), tdefaults = (\<lambda>r. r)\<rparr>"

definition messages_t :: "('m assistant_db_scheme, Message) tref" where
  "messages_t = \<lparr>tget = messages, tupd = messages_update, tuniq = (\<lambda>r s. False), tdefaults = (\<lambda>r. r)\<rparr>"

definition executions_t :: "('m assistant_db_scheme, Execution) tref" where
  "executions_t = \<lparr>tget = executions, tupd = executions_update, tuniq = (\<lambda>r s. False), tdefaults = (\<lambda>r. r)\<rparr>"

lemmas assistant_tables = ai_providers_t_def ai_accounts_t_def conversations_t_def messages_t_def executions_t_def

interpretation ai_providers_tab: db_table "ai_providers_t :: ('m assistant_db_scheme, AIProvider) tref" by unfold_locales (simp_all add: assistant_tables)
interpretation ai_accounts_tab: db_table "ai_accounts_t :: ('m assistant_db_scheme, AIAccount) tref" by unfold_locales (simp_all add: assistant_tables)
interpretation conversations_tab: db_table "conversations_t :: ('m assistant_db_scheme, Conversation) tref" by unfold_locales (simp_all add: assistant_tables)
interpretation messages_tab: db_table "messages_t :: ('m assistant_db_scheme, Message) tref" by unfold_locales (simp_all add: assistant_tables)
interpretation executions_tab: db_table "executions_t :: ('m assistant_db_scheme, Execution) tref" by unfold_locales (simp_all add: assistant_tables)

section \<open>DAO methods\<close>

definition aiProviderCreate :: "AIProvider \<Rightarrow> ('m assistant_db_scheme, goerr, AIProvider) act" where
  "aiProviderCreate object = daoCreate ai_providers_t object"

text \<open>One statement: a row of that name is marked as built in, or the new row is inserted.\<close>

definition EnsureBuiltin :: "AIProvider \<Rightarrow> ('m assistant_db_scheme, goerr, unit) act" where
  "EnsureBuiltin object = andThen timeNow (\<lambda>now. stmt (\<lambda>w. (Inr (),
     if list_ex (\<lambda>r. ap_Name r = ap_Name object) (rows (ai_providers w))
     then ai_providers_update (updTable (\<lambda>r. ap_Name r = ap_Name object) [(''builtin'', ap_Builtin_update (\<lambda>_. True))]) w
     else ai_providers_update (insTable (tdefaults (ai_providers_t :: ('m assistant_db_scheme, AIProvider) tref) (object\<lparr>GmtCreate := now, GmtModified := now\<rparr>))) w)))"

definition aiProviderUpdate :: "int \<Rightarrow> int \<Rightarrow> AIProvider updates \<Rightarrow> ('m assistant_db_scheme, goerr, unit) act" where
  "aiProviderUpdate = daoUpdate ai_providers_t (Util ErrRecordNotFound)"

definition aiProviderDelete :: "int \<Rightarrow> ('m assistant_db_scheme, goerr, unit) act" where
  "aiProviderDelete i = daoDelete ai_providers_t i"

definition aiProviderGet :: "int \<Rightarrow> ('m assistant_db_scheme, goerr, AIProvider option) act" where
  "aiProviderGet i = daoGet ai_providers_t i"

definition aiProviderList :: "AIProvider options list \<Rightarrow> ('m assistant_db_scheme, goerr, AIProvider list) act" where
  "aiProviderList opts = daoList ai_providers_t opts"

definition aiProviderCount :: "AIProvider options list \<Rightarrow> ('m assistant_db_scheme, goerr, int) act" where
  "aiProviderCount opts = daoCount ai_providers_t opts"

definition WithAIProviderId :: "int \<Rightarrow> AIAccount options" where
  "WithAIProviderId providerId q = (if providerId = 0 then q else Where (\<lambda>r. aa_ProviderId r = providerId) q)"

definition aiAccountCreate :: "AIAccount \<Rightarrow> ('m assistant_db_scheme, goerr, AIAccount) act" where
  "aiAccountCreate object = daoCreate ai_accounts_t object"

definition aiAccountUpdate :: "int \<Rightarrow> int \<Rightarrow> AIAccount updates \<Rightarrow> ('m assistant_db_scheme, goerr, unit) act" where
  "aiAccountUpdate = daoUpdate ai_accounts_t (Util ErrRecordNotFound)"

definition aiAccountDelete :: "int \<Rightarrow> ('m assistant_db_scheme, goerr, unit) act" where
  "aiAccountDelete i = daoDelete ai_accounts_t i"

text \<open>\<open>Preload("Provider")\<close>: a second statement loads the providers of the rows that were found.\<close>

definition preloadProvider :: "AIAccount list \<Rightarrow> ('m assistant_db_scheme, goerr, (AIAccount \<times> AIProvider option) list) act" where
  "preloadProvider as = (if as = [] then ret []
     else andThen (sqlFind ai_providers_t (\<lambda>p. Oid p \<in> aa_ProviderId ` set as)) (\<lambda>ps.
       ret (map (\<lambda>a. (a, find (\<lambda>p. Oid p = aa_ProviderId a) ps)) as)))"

definition aiAccountGet :: "int \<Rightarrow> ('m assistant_db_scheme, goerr, (AIAccount \<times> AIProvider option) option) act" where
  "aiAccountGet i = orNil (andThen (sqlFirst ai_accounts_t (\<lambda>r. Oid r = i)) (\<lambda>a. andThen (preloadProvider [a]) (\<lambda>xs. ret (hd xs))))"

definition aiAccountList :: "AIAccount options list \<Rightarrow> ('m assistant_db_scheme, goerr, (AIAccount \<times> AIProvider option) list) act" where
  "aiAccountList opts = andThen (daoList ai_accounts_t opts) preloadProvider"

definition aiAccountCount :: "AIAccount options list \<Rightarrow> ('m assistant_db_scheme, goerr, int) act" where
  "aiAccountCount opts = daoCount ai_accounts_t opts"

definition conversationCreate :: "Conversation \<Rightarrow> ('m assistant_db_scheme, goerr, Conversation) act" where
  "conversationCreate object = daoCreate conversations_t object"

definition conversationUpdate :: "int \<Rightarrow> int \<Rightarrow> Conversation updates \<Rightarrow> ('m assistant_db_scheme, goerr, unit) act" where
  "conversationUpdate = daoUpdate conversations_t (Util ErrRecordNotFound)"

definition conversationDelete :: "int \<Rightarrow> ('m assistant_db_scheme, goerr, unit) act" where
  "conversationDelete i = daoDelete conversations_t i"

definition conversationGet :: "int \<Rightarrow> ('m assistant_db_scheme, goerr, Conversation option) act" where
  "conversationGet i = daoGet conversations_t i"

definition conversationList :: "Conversation options list \<Rightarrow> ('m assistant_db_scheme, goerr, Conversation list) act" where
  "conversationList opts = daoList conversations_t opts"

definition conversationCount :: "Conversation options list \<Rightarrow> ('m assistant_db_scheme, goerr, int) act" where
  "conversationCount opts = daoCount conversations_t opts"

definition messageCreate :: "Message \<Rightarrow> ('m assistant_db_scheme, goerr, Message) act" where
  "messageCreate object = daoCreate messages_t object"

definition messageDelete :: "int \<Rightarrow> ('m assistant_db_scheme, goerr, unit) act" where
  "messageDelete i = daoDelete messages_t i"

definition messageGet :: "int \<Rightarrow> ('m assistant_db_scheme, goerr, Message option) act" where
  "messageGet i = daoGet messages_t i"

definition messageList :: "Message options list \<Rightarrow> ('m assistant_db_scheme, goerr, Message list) act" where
  "messageList opts = daoList messages_t opts"

definition messageCount :: "Message options list \<Rightarrow> ('m assistant_db_scheme, goerr, int) act" where
  "messageCount opts = daoCount messages_t opts"

definition executionCreate :: "Execution \<Rightarrow> ('m assistant_db_scheme, goerr, Execution) act" where
  "executionCreate object = daoCreate executions_t object"

definition WithProvider :: "('r \<Rightarrow> string) \<Rightarrow> string \<Rightarrow> 'r options" where
  "WithProvider provider_col provider q = (if provider = [] then q else Where (\<lambda>r. provider_col r = provider) q)"

definition WithConversationId :: "int \<Rightarrow> Message options" where
  "WithConversationId conversationId q = (if conversationId = 0 then q else Where (\<lambda>r. ms_ConversationId r = conversationId) q)"

interpretation ai_providers_lock: versioned_dao "\<lambda>w :: 'm assistant_db_scheme. rows (ai_providers w)" aiProviderUpdate "\<lambda>w. table_ok (ai_providers w)"
  using ai_providers_tab.versioned [of "Util ErrRecordNotFound"] by (simp add: aiProviderUpdate_def assistant_tables)

interpretation ai_accounts_lock: versioned_dao "\<lambda>w :: 'm assistant_db_scheme. rows (ai_accounts w)" aiAccountUpdate "\<lambda>w. table_ok (ai_accounts w)"
  using ai_accounts_tab.versioned [of "Util ErrRecordNotFound"] by (simp add: aiAccountUpdate_def assistant_tables)

interpretation conversations_lock: versioned_dao "\<lambda>w :: 'm assistant_db_scheme. rows (conversations w)" conversationUpdate "\<lambda>w. table_ok (conversations w)"
  using conversations_tab.versioned [of "Util ErrRecordNotFound"] by (simp add: conversationUpdate_def assistant_tables)

end
