(* ===== verification/AssistantControllers.thy ===== *)
theory AssistantControllers
  imports Assistants
begin

text \<open>
  The controllers of the assistant's providers, accounts, conversations and messages
  (\<open>pkg/controller/{provider,account,conversation,message}\<close>).
\<close>

section \<open>Requests and answers\<close>

record types_AIProvider =
  xp_Id :: int
  xp_ResourceVersion :: int
  xp_GmtCreate :: int
  xp_GmtModified :: int
  xp_Name :: string
  xp_BaseURL :: string
  xp_Protocol :: string
  xp_Description :: string
  xp_MaxTokens :: int
  xp_Builtin :: bool

record types_AIAccount =
  xa_Id :: int
  xa_ResourceVersion :: int
  xa_GmtCreate :: int
  xa_GmtModified :: int
  xa_Name :: string
  xa_APIKey :: string
  xa_Model :: string
  xa_ProviderId :: int
  xa_UserId :: int
  xa_Provider :: "types_AIProvider option"

record types_Conversation =
  xv_Id :: int
  xv_ResourceVersion :: int
  xv_GmtCreate :: int
  xv_GmtModified :: int
  xv_ProviderId :: int
  xv_Provider :: string
  xv_Model :: string
  xv_Title :: string
  xv_PreviousResponseId :: string
  xv_History :: string

record types_Message =
  xm_Id :: int
  xm_ResourceVersion :: int
  xm_GmtCreate :: int
  xm_GmtModified :: int
  xm_RequestId :: string
  xm_ProviderId :: int
  xm_ConversationId :: int
  xm_Provider :: string
  xm_Model :: string
  xm_ResponseId :: string
  xm_InputText :: string
  xm_OutputText :: string
  xm_Success :: bool
  xm_ErrorMessage :: string
  xm_Duration :: int
  xm_InputTokens :: int
  xm_OutputTokens :: int
  xm_TotalTokens :: int
  xm_CachedTokens :: int
  xm_ReasoningTokens :: int

record CreateProviderRequest =
  cp_Name :: string
  cp_BaseURL :: string
  cp_Protocol :: string
  cp_Description :: string
  cp_MaxTokens :: int

record UpdateProviderRequest = CreateProviderRequest +
  up_Id :: int
  up_ResourceVersion :: int

record CreateAIAccountRequest =
  cac_Name :: string
  cac_APIKey :: string
  cac_Model :: string
  cac_ProviderId :: int

record UpdateAIAccountRequest = CreateAIAccountRequest +
  uac_Id :: int
  uac_ResourceVersion :: int

definition invalidField :: "string \<Rightarrow> goerr" where
  "invalidField msg = NewError (Errorf msg) StatusBadRequest"

definition fromCheck :: "goerr option \<Rightarrow> ('w, goerr, unit) act" where
  "fromCheck c = (case c of None \<Rightarrow> ret () | Some err \<Rightarrow> fail err)"

section \<open>Providers\<close>

definition normalizeProtocol :: "string \<Rightarrow> string" where
  "normalizeProtocol protocol = ToLower (TrimSpace protocol)"

definition validateProviderFields :: "string \<Rightarrow> string \<Rightarrow> string \<Rightarrow> goerr option" where
  "validateProviderFields name baseURL protocol =
     (if TrimSpace name = [] then Some (invalidField ''name is required'')
      else if TrimSpace baseURL = [] then Some (invalidField ''base_url is required'')
      else if TrimSpace protocol = [] then Some (invalidField ''protocol is required'')
      else if normalizeProtocol protocol = ''openai_chat'' \<or> normalizeProtocol protocol = ''openai_responses'' then None
      else Some (invalidField ''unsupported protocol''))"

definition resolveMaxTokens :: "int \<Rightarrow> int \<Rightarrow> int" where
  "resolveMaxTokens value fallback = (if 0 < value then value else if 0 < fallback then fallback else 4096)"

definition providerModel2Type :: "AIProvider \<Rightarrow> types_AIProvider" where
  "providerModel2Type o1 = \<lparr>xp_Id = Oid o1, xp_ResourceVersion = ResourceVersion o1, xp_GmtCreate = GmtCreate o1, xp_GmtModified = GmtModified o1,
     xp_Name = ap_Name o1, xp_BaseURL = ap_BaseURL o1, xp_Protocol = ap_Protocol o1, xp_Description = ap_Description o1,
     xp_MaxTokens = resolveMaxTokens (ap_MaxTokens o1) 0, xp_Builtin = ap_Builtin o1\<rparr>"

definition newProviderRow :: "CreateProviderRequest \<Rightarrow> AIProvider" where
  "newProviderRow req = pixiu_model.extend newModel \<lparr>ap_Name = TrimSpace (cp_Name req), ap_BaseURL = TrimRight (TrimSpace (cp_BaseURL req)) ''/'',
     ap_Protocol = normalizeProtocol (cp_Protocol req), ap_Description = cp_Description req, ap_MaxTokens = resolveMaxTokens (cp_MaxTokens req) 0, ap_Builtin = False\<rparr>"

definition providerc_Create :: "CreateProviderRequest \<Rightarrow> ('m assistant_db_scheme, goerr, unit) act" where
  "providerc_Create req = andThen (fromCheck (validateProviderFields (cp_Name req) (cp_BaseURL req) (cp_Protocol req))) (\<lambda>_.
     orInternal (aiProviderCreate (newProviderRow req)) (\<lambda>_. ret ()))"

definition providerc_preUpdate :: "UpdateProviderRequest \<Rightarrow> ('m assistant_db_scheme, goerr, unit) act" where
  "providerc_preUpdate req = andThen (fromCheck (validateProviderFields (cp_Name req) (cp_BaseURL req) (cp_Protocol req))) (\<lambda>_.
     andThen (foundOr ''assistant provider'' (aiProviderGet (up_Id req))) (\<lambda>old.
       if ap_Builtin old then fail (NewError (Errorf ''builtin assistant provider cannot be updated'') StatusForbidden) else ret ()))"

definition providerUpdates :: "UpdateProviderRequest \<Rightarrow> AIProvider updates" where
  "providerUpdates req = [(''name'', ap_Name_update (\<lambda>_. TrimSpace (cp_Name req))), (''base_url'', ap_BaseURL_update (\<lambda>_. TrimRight (TrimSpace (cp_BaseURL req)) ''/'')),
     (''protocol'', ap_Protocol_update (\<lambda>_. normalizeProtocol (cp_Protocol req))), (''description'', ap_Description_update (\<lambda>_. cp_Description req))] @
     (if 0 < cp_MaxTokens req then [(''max_tokens'', ap_MaxTokens_update (\<lambda>_. cp_MaxTokens req))] else [])"

definition conflictOr :: "string \<Rightarrow> ('w, goerr, unit) act \<Rightarrow> ('w, goerr, unit) act" where
  "conflictOr what m = onResult m (\<lambda>err. if IsRecordNotFound err then fail (NewError (Errorf (what @ '' not found or resource version conflict'')) StatusConflict)
     else fail ErrServerInternal) ret"

definition providerc_Update :: "UpdateProviderRequest \<Rightarrow> ('m assistant_db_scheme, goerr, unit) act" where
  "providerc_Update req = andThen (providerc_preUpdate req) (\<lambda>_.
     conflictOr ''assistant provider'' (aiProviderUpdate (up_Id req) (up_ResourceVersion req) (providerUpdates req)))"

definition providerc_Delete :: "int \<Rightarrow> ('m assistant_db_scheme, goerr, unit) act" where
  "providerc_Delete i = andThen (foundOr ''assistant provider'' (aiProviderGet i)) (\<lambda>old.
     if ap_Builtin old then fail (NewError (Errorf ''builtin assistant provider cannot be deleted'') StatusForbidden)
     else orInternal (aiAccountCount [WithAIProviderId i]) (\<lambda>accountCount.
       if 0 < accountCount then fail (NewError (Errorf ''assistant provider still has accounts'') StatusConflict)
       else writeOr ''assistant provider'' (aiProviderDelete i)))"

definition providerc_Get :: "int \<Rightarrow> ('m assistant_db_scheme, goerr, types_AIProvider) act" where
  "providerc_Get i = andThen (foundOr ''assistant provider'' (aiProviderGet i)) (\<lambda>object. ret (providerModel2Type object))"

definition providerc_List :: "ListOptions \<Rightarrow> ('m assistant_db_scheme, goerr, types_AIProvider PageResult) act" where
  "providerc_List listOption = (let lo = SetDefaultPageOption listOption; opts = [WithNameLike ap_Name (lo_NameSelector lo)] in
     listPage lo (orInternal (aiProviderCount opts) ret) (aiProviderList (opts @ pageOptions lo)) providerModel2Type)"

section \<open>Accounts\<close>

definition maskAPIKey :: "string \<Rightarrow> string" where
  "maskAPIKey apiKey0 = (let apiKey = TrimSpace apiKey0 in
     if length apiKey \<le> 8 then ''********'' else take 4 apiKey @ ''****'' @ drop (length apiKey - 4) apiKey)"

definition validateAccountFields :: "string \<Rightarrow> string \<Rightarrow> string \<Rightarrow> int \<Rightarrow> bool \<Rightarrow> goerr option" where
  "validateAccountFields name apiKey mdl providerId requireAPIKey =
     (if TrimSpace name = [] then Some (invalidField ''name is required'')
      else if requireAPIKey \<and> TrimSpace apiKey = [] then Some (invalidField ''api_key is required'')
      else if TrimSpace mdl = [] then Some (invalidField ''model is required'')
      else if providerId \<le> 0 then Some (invalidField ''provider_id is required'') else None)"

definition ensureProvider :: "int \<Rightarrow> ('m assistant_db_scheme, goerr, unit) act" where
  "ensureProvider providerId = orInternal (aiProviderGet providerId) (\<lambda>p. case p of None \<Rightarrow> fail (invalidField ''ai provider not found'') | Some _ \<Rightarrow> ret ())"

definition currentUserId :: "context_user \<Rightarrow> ('w, goerr, int) act" where
  "currentUserId ctx = onResult (GetUserIdFromContext ctx) (\<lambda>err. fail (NewError (Errorf ''failed to get current user'') StatusUnauthorized)) ret"

definition ensureAccountOwner :: "context_user \<Rightarrow> AIAccount \<Rightarrow> ('w, goerr, unit) act" where
  "ensureAccountOwner ctx object = andThen (currentUserId ctx) (\<lambda>userId.
     if aa_UserId object \<noteq> userId then fail (notFoundError ''ai account'') else ret ())"

text \<open>\<open>BuiltIn\<close> is not copied into the provider of an account.\<close>

definition accountModel2Type :: "AIAccount \<times> AIProvider option \<Rightarrow> types_AIAccount" where
  "accountModel2Type x = (case x of (o1, p) \<Rightarrow> \<lparr>xa_Id = Oid o1, xa_ResourceVersion = ResourceVersion o1, xa_GmtCreate = GmtCreate o1, xa_GmtModified = GmtModified o1,
     xa_Name = aa_Name o1, xa_APIKey = maskAPIKey (aa_APIKey o1), xa_Model = aa_ModelName o1, xa_ProviderId = aa_ProviderId o1, xa_UserId = aa_UserId o1,
     xa_Provider = map_option (\<lambda>q. \<lparr>xp_Id = Oid q, xp_ResourceVersion = ResourceVersion q, xp_GmtCreate = GmtCreate q, xp_GmtModified = GmtModified q,
       xp_Name = ap_Name q, xp_BaseURL = ap_BaseURL q, xp_Protocol = ap_Protocol q, xp_Description = ap_Description q, xp_MaxTokens = ap_MaxTokens q, xp_Builtin = False\<rparr>) p\<rparr>)"

definition newAccountRow :: "int \<Rightarrow> CreateAIAccountRequest \<Rightarrow> AIAccount" where
  "newAccountRow userId req = pixiu_model.extend newModel \<lparr>aa_UserId = userId, aa_ProviderId = cac_ProviderId req, aa_Name = TrimSpace (cac_Name req),
     aa_APIKey = TrimSpace (cac_APIKey req), aa_ModelName = TrimSpace (cac_Model req)\<rparr>"

definition accountc_Create :: "context_user \<Rightarrow> CreateAIAccountRequest \<Rightarrow> ('m assistant_db_scheme, goerr, unit) act" where
  "accountc_Create ctx req = andThen (fromCheck (validateAccountFields (cac_Name req) (cac_APIKey req) (cac_Model req) (cac_ProviderId req) True)) (\<lambda>_.
     andThen (ensureProvider (cac_ProviderId req)) (\<lambda>_. andThen (currentUserId ctx) (\<lambda>userId.
     orInternal (aiAccountCreate (newAccountRow userId req)) (\<lambda>_. ret ()))))"

definition accountc_preUpdate :: "context_user \<Rightarrow> UpdateAIAccountRequest \<Rightarrow> ('m assistant_db_scheme, goerr, unit) act" where
  "accountc_preUpdate ctx req = andThen (fromCheck (validateAccountFields (cac_Name req) (cac_APIKey req) (cac_Model req) (cac_ProviderId req) False)) (\<lambda>_.
     andThen (ensureProvider (cac_ProviderId req)) (\<lambda>_.
     andThen (foundOr ''ai account'' (aiAccountGet (uac_Id req))) (\<lambda>old. ensureAccountOwner ctx (fst old))))"

definition accountUpdates :: "UpdateAIAccountRequest \<Rightarrow> AIAccount updates" where
  "accountUpdates req = [(''name'', aa_Name_update (\<lambda>_. TrimSpace (cac_Name req))), (''model'', aa_ModelName_update (\<lambda>_. TrimSpace (cac_Model req))),
     (''provider_id'', aa_ProviderId_update (\<lambda>_. cac_ProviderId req))] @
     (if TrimSpace (cac_APIKey req) \<noteq> [] then [(''api_key'', aa_APIKey_update (\<lambda>_. TrimSpace (cac_APIKey req)))] else [])"

definition accountc_Update :: "context_user \<Rightarrow> UpdateAIAccountRequest \<Rightarrow> ('m assistant_db_scheme, goerr, unit) act" where
  "accountc_Update ctx req = andThen (accountc_preUpdate ctx req) (\<lambda>_.
     conflictOr ''ai account'' (aiAccountUpdate (uac_Id req) (uac_ResourceVersion req) (accountUpdates req)))"

definition accountc_Delete :: "context_user \<Rightarrow> int \<Rightarrow> ('m assistant_db_scheme, goerr, unit) act" where
  "accountc_Delete ctx i = andThen (foundOr ''ai account'' (aiAccountGet i)) (\<lambda>object.
     andThen (CheckResourceAccess ctx (aa_UserId (fst object)) ResourceTypeAccount i) (\<lambda>_. writeOr ''ai account'' (aiAccountDelete i)))"

definition accountc_Get :: "context_user \<Rightarrow> int \<Rightarrow> ('m assistant_db_scheme, goerr, types_AIAccount) act" where
  "accountc_Get ctx i = andThen (foundOr ''ai account'' (aiAccountGet i)) (\<lambda>object.
     andThen (ensureAccountOwner ctx (fst object)) (\<lambda>_. ret (accountModel2Type object)))"

definition accountc_List :: "context_user \<Rightarrow> ListOptions \<Rightarrow> ('m assistant_db_scheme, goerr, types_AIAccount PageResult) act" where
  "accountc_List ctx listOption = (let lo = SetDefaultPageOption listOption in andThen (currentUserId ctx) (\<lambda>userId.
     orInternal (AuthorizedResourceIDs ctx ResourceTypeAccount) (\<lambda>ids.
       let opts = [WithUserOrResourceIDs aa_UserId userId (case ids of None \<Rightarrow> [] | Some is1 \<Rightarrow> is1), WithAIProviderId (lo_ProviderId lo), WithNameLike aa_Name (lo_NameSelector lo)]
       in listPage lo (orInternal (aiAccountCount opts) ret) (aiAccountList (opts @ pageOptions lo)) accountModel2Type)))"

section \<open>Conversations and messages\<close>

definition conversationModel2Type :: "Conversation \<Rightarrow> types_Conversation" where
  "conversationModel2Type o1 = \<lparr>xv_Id = Oid o1, xv_ResourceVersion = ResourceVersion o1, xv_GmtCreate = GmtCreate o1, xv_GmtModified = GmtModified o1,
     xv_ProviderId = cv_ProviderId o1, xv_Provider = cv_Provider o1, xv_Model = cv_ModelName o1, xv_Title = cv_Title o1,
     xv_PreviousResponseId = cv_PreviousResponseId o1, xv_History = cv_History o1\<rparr>"

definition conversationc_Delete :: "int \<Rightarrow> ('m assistant_db_scheme, goerr, unit) act" where
  "conversationc_Delete i = andThen (foundOr ''conversation'' (conversationGet i)) (\<lambda>_. writeOr ''conversation'' (conversationDelete i))"

definition conversationc_Get :: "int \<Rightarrow> ('m assistant_db_scheme, goerr, types_Conversation) act" where
  "conversationc_Get i = andThen (foundOr ''conversation'' (conversationGet i)) (\<lambda>object. ret (conversationModel2Type object))"

definition conversationc_List :: "ListOptions \<Rightarrow> ('m assistant_db_scheme, goerr, types_Conversation PageResult) act" where
  "conversationc_List listOption = (let lo = SetDefaultPageOption listOption; opts = [WithProvider cv_Provider (lo_Provider lo)] in
     listPage lo (orInternal (conversationCount opts) ret) (conversationList (opts @ pageOptions lo)) conversationModel2Type)"

definition messageModel2Type :: "Message \<Rightarrow> types_Message" where
  "messageModel2Type o1 = \<lparr>xm_Id = Oid o1, xm_ResourceVersion = ResourceVersion o1, xm_GmtCreate = GmtCreate o1, xm_GmtModified = GmtModified o1,
     xm_RequestId = ms_RequestId o1, xm_ProviderId = ms_ProviderId o1, xm_ConversationId = ms_ConversationId o1, xm_Provider = ms_Provider o1,
     xm_Model = ms_ModelName o1, xm_ResponseId = ms_ResponseId o1, xm_InputText = ms_InputText o1, xm_OutputText = ms_OutputText o1, xm_Success = ms_Success o1,
     xm_ErrorMessage = ms_ErrorMessage o1, xm_Duration = ms_Duration o1, xm_InputTokens = ms_InputTokens o1, xm_OutputTokens = ms_OutputTokens o1,
     xm_TotalTokens = ms_TotalTokens o1, xm_CachedTokens = ms_CachedTokens o1, xm_ReasoningTokens = ms_ReasoningTokens o1\<rparr>"

definition messagec_Delete :: "int \<Rightarrow> ('m assistant_db_scheme, goerr, unit) act" where
  "messagec_Delete i = andThen (foundOr ''message'' (messageGet i)) (\<lambda>_. writeOr ''message'' (messageDelete i))"

definition messagec_Get :: "int \<Rightarrow> ('m assistant_db_scheme, goerr, types_Message) act" where
  "messagec_Get i = andThen (foundOr ''message'' (messageGet i)) (\<lambda>object. ret (messageModel2Type object))"

definition messagec_List :: "ListOptions \<Rightarrow> ('m assistant_db_scheme, goerr, types_Message PageResult) act" where
  "messagec_List listOption = (let lo = SetDefaultPageOption listOption;
       opts = [WithProvider ms_Provider (lo_Provider lo), WithConversationId (lo_ConversationId lo)]
     in listPage lo (orInternal (messageCount opts) ret) (messageList (opts @ pageOptions lo)) messageModel2Type)"

end
