(* ===== verification/AssistantProps.thy ===== *)
theory AssistantProps
  imports AssistantControllers
begin

text \<open>
  The rows of the assistant: every account belongs to a provider that exists, and the built-in providers stay as they
  are, whatever requests arrive and whatever statements fail.
\<close>

definition intact :: "'m assistant_db_scheme \<Rightarrow> bool" where
  "intact w \<longleftrightarrow> (\<forall>a \<in> set (rows (ai_accounts w)). \<exists>p \<in> set (rows (ai_providers w)). Oid p = aa_ProviderId a)"

definition kept :: "AIProvider set \<Rightarrow> 'm assistant_db_scheme \<Rightarrow> bool" where
  "kept B w \<longleftrightarrow> intact w \<and> table_ok (ai_providers w) \<and> B \<subseteq> set (rows (ai_providers w)) \<and> (\<forall>p \<in> B. ap_Builtin p)"

lemma kept_basic [simp]:
  "kept B (w\<lparr>tick := n\<rparr>) = kept B w" "kept B (conversations_update f w) = kept B w" "kept B (messages_update g w) = kept B w"
  by (simp_all add: kept_def intact_def)

datatype assistant_request =
    ProviderCreate CreateProviderRequest | ProviderUpdate UpdateProviderRequest | ProviderDelete int | ProviderGet int | ProviderList ListOptions
  | BuiltinEnsured AIProvider
  | AccountCreate context_user CreateAIAccountRequest | AccountUpdate context_user UpdateAIAccountRequest | AccountDelete context_user int
  | AccountGet context_user int | AccountList context_user ListOptions
  | ConversationDelete int | MessageDelete int

fun handle :: "assistant_request \<Rightarrow> 'm assistant_db_scheme \<Rightarrow> 'm assistant_db_scheme" where
  "handle (ProviderCreate req) w = snd (providerc_Create req w)"
| "handle (ProviderUpdate req) w = snd (providerc_Update req w)"
| "handle (ProviderDelete i) w = snd (providerc_Delete i w)"
| "handle (ProviderGet i) w = snd (providerc_Get i w)"
| "handle (ProviderList lo) w = snd (providerc_List lo w)"
| "handle (BuiltinEnsured p) w = snd (EnsureBuiltin p w)"
| "handle (AccountCreate ctx req) w = snd (accountc_Create ctx req w)"
| "handle (AccountUpdate ctx req) w = snd (accountc_Update ctx req w)"
| "handle (AccountDelete ctx i) w = snd (accountc_Delete ctx i w)"
| "handle (AccountGet ctx i) w = snd (accountc_Get ctx i w)"
| "handle (AccountList ctx lo) w = snd (accountc_List ctx lo w)"
| "handle (ConversationDelete i) w = snd (conversationc_Delete i w)"
| "handle (MessageDelete i) w = snd (messagec_Delete i w)"

section \<open>Readings\<close>

lemma wp_aiProviderGet [wp_simps]:
  "wp (aiProviderGet i) Q E = (\<lambda>w. case fault w (tick w) of Some f \<Rightarrow> E (faultErr f) (w\<lparr>tick := Suc (tick w)\<rparr>)
     | None \<Rightarrow> Q (find (\<lambda>r. Oid r = i) (rows (ai_providers w))) (w\<lparr>tick := Suc (tick w)\<rparr>))"
  by (auto simp: aiProviderGet_def daoGet_def orNil_def ai_providers_t_def wp_simps fun_eq_iff Let_def split: option.split)

lemma wp_foundOr:
  "wp (foundOr what m) Q E = wp m (\<lambda>x. case x of None \<Rightarrow> E (notFoundError what) | Some y \<Rightarrow> Q y) (\<lambda>_. E ErrServerInternal)"
  by (auto simp: foundOr_def orInternal_def wp_simps fun_eq_iff split: option.split intro!: arg_cong2 [where f = "wp m"])

lemma keeps_fromCheck [keeps_intros]: "keeps I (fromCheck c)"
  unfolding fromCheck_def by (intro keeps_intros)

lemma keeps_read:
  "keeps (kept B) (aiProviderGet i)" "keeps (kept B) (aiAccountGet j)" "keeps (kept B) (aiProviderCount o1)" "keeps (kept B) (aiProviderList o1)"
  "keeps (kept B) (aiAccountCount o2)" "keeps (kept B) (aiAccountList o2)" "keeps (kept B) (conversationGet i)" "keeps (kept B) (messageGet i)"
  by (rule keepsI; auto simp: aiAccountGet_def preloadProvider_def aiProviderCount_def aiProviderList_def aiAccountCount_def aiAccountList_def conversationGet_def messageGet_def
      daoGet_def orNil_def wp_simps Let_def assistant_tables split: option.split)+


section \<open>Changes of the tables\<close>

lemma kept_insProvider: "kept B w \<Longrightarrow> kept B (ai_providers_update (insTable r) w)"
  by (auto simp: kept_def intact_def table_ok_insTable) (auto simp: insTable_def)

lemma kept_updProvider:
  assumes "kept B w" "keepsOid us" "\<And>p. p \<in> B \<Longrightarrow> updRow P us p = p"
  shows "kept B (ai_providers_update (updTable P us) w)"
proof -
  have "Oid ` set (rows (updTable P us (ai_providers w))) = Oid ` set (rows (ai_providers w))"
    using arg_cong [OF updTable_Oids [OF assms(2), of P "ai_providers w"], of set] by simp
  then have "intact (ai_providers_update (updTable P us) w)"
    using assms(1) unfolding kept_def intact_def by simp (metis (no_types, lifting) image_iff)
  moreover have "B \<subseteq> set (rows (updTable P us (ai_providers w)))"
    using assms(1,3) by (force simp: kept_def updTable_def image_iff)
  ultimately show ?thesis using assms(1,2) by (simp add: kept_def table_ok_updTable)
qed

lemma kept_delProvider:
  assumes "kept B w" "\<And>p. p \<in> set (rows (ai_providers w)) \<Longrightarrow> P p \<Longrightarrow> p \<notin> B \<and> (\<forall>a \<in> set (rows (ai_accounts w)). aa_ProviderId a \<noteq> Oid p)"
  shows "kept B (ai_providers_update (delTable P) w)"
proof -
  have "intact (ai_providers_update (delTable P) w)"
    using assms unfolding kept_def intact_def by (auto simp: delTable_def) metis
  then show ?thesis using assms by (auto simp: kept_def table_ok_delTable) (auto simp: delTable_def)
qed

lemma kept_insAccount:
  "kept B w \<Longrightarrow> p \<in> set (rows (ai_providers w)) \<Longrightarrow> Oid p = aa_ProviderId r \<Longrightarrow> kept B (ai_accounts_update (insTable r) w)"
  by (auto simp: kept_def intact_def insTable_def)

lemma kept_updAccount:
  "kept B w \<Longrightarrow> p \<in> set (rows (ai_providers w)) \<Longrightarrow> (\<And>a. aa_ProviderId (applyUpdates us a) = Oid p) \<Longrightarrow> kept B (ai_accounts_update (updTable P us) w)"
  by (auto simp: kept_def intact_def updTable_def updRow_def)

lemma kept_delAccount: "kept B w \<Longrightarrow> kept B (ai_accounts_update (delTable P) w)"
  by (auto simp: kept_def intact_def delTable_def)

lemma keptD: "kept B w \<Longrightarrow> p \<in> B \<Longrightarrow> q \<in> set (rows (ai_providers w)) \<Longrightarrow> Oid q = Oid p \<Longrightarrow> ap_Builtin q"
  using table_ok_Oid_eq [of "ai_providers w" p q] by (auto simp: kept_def)

lemma find_in: "find P xs = Some x \<Longrightarrow> x \<in> set xs \<and> P x"
  by (auto simp: find_Some_iff)

section \<open>The requests\<close>

lemma keeps_access: "keeps (kept B) (CheckResourceAccess ctx i rt r)" "keeps (kept B) (AuthorizedResourceIDs ctx rt)"
  by (rule keepsI; auto simp: CheckResourceAccess_def AuthorizedResourceIDs_def GetUserFromContext_def CanAccess_def HasScope_def ListResourceIDsByRole_def wp_simps Let_def
      split: option.split)+

lemma keeps_user: "keeps (kept B) (currentUserId ctx)"
  unfolding currentUserId_def GetUserIdFromContext_def GetUserFromContext_def by (intro keeps_intros)

lemma keeps_aiProviderCreate: "keeps (kept B) (aiProviderCreate r)"
  by (rule keepsI) (auto simp: aiProviderCreate_def daoCreate_def ai_providers_t_def wp_simps Let_def kept_insProvider split: option.split)

lemma keeps_EnsureBuiltin: "keeps (kept B) (EnsureBuiltin r)"
proof (rule keepsI)
  fix w :: "'a assistant_db_scheme" assume w: "kept B w"
  have "kept B (ai_providers_update (updTable (\<lambda>q. ap_Name q = ap_Name r) [(''builtin'', ap_Builtin_update (\<lambda>_. True))]) v)" if "kept B v" for v :: "'a assistant_db_scheme"
    using that by (intro kept_updProvider) (auto simp: keepsOid_def updRow_def applyUpdates_def kept_def)
  then show "wp (EnsureBuiltin r) (\<lambda>_. kept B) (\<lambda>_. kept B) w"
    using w by (auto simp: EnsureBuiltin_def wp_simps wp_stmt wp_def [of "\<lambda>w. (Inr (), _ w)"] Let_def kept_insProvider split: option.split)
qed

lemma keeps_foundOr: "keeps I m \<Longrightarrow> keeps I (foundOr what m)"
  unfolding foundOr_def by (intro keeps_intros)

lemma keeps_listPage: "keeps I m \<Longrightarrow> keeps I n \<Longrightarrow> keeps I (listPage lo m n conv)"
  unfolding listPage_def by (intro keeps_intros)


lemma keeps_providerUpdate: "keeps (kept B) (providerc_Update req)"
proof (rule keepsI)
  fix w :: "'a assistant_db_scheme" assume w: "kept B w"
  let ?us = "\<lambda>now. versionedUpdates now (up_ResourceVersion req) (providerUpdates req)"
  have oid: "keepsOid (?us now)" for now
    by (rule keepsOid_versioned) (simp add: keepsOid_def providerUpdates_def applyUpdates_def)
  have up: "wp (aiProviderUpdate (up_Id req) (up_ResourceVersion req) (providerUpdates req)) (\<lambda>_. kept B) (\<lambda>_. kept B) v"
    if v: "kept B v" "p \<in> set (rows (ai_providers v))" "Oid p = up_Id req" "\<not> ap_Builtin p" for v :: "'a assistant_db_scheme" and p
  proof -
    have no: "Oid q \<noteq> up_Id req" if "q \<in> B" for q using keptD [OF v(1) that v(2)] v(3,4) by auto
    have "kept B (ai_providers_update (updTable (versionMatch (up_Id req) (up_ResourceVersion req)) (?us now)) u)" if "kept B u" "ai_providers u = ai_providers v" for now and u :: "'a assistant_db_scheme"
      by (rule kept_updProvider [OF that(1) oid]) (use no in \<open>auto simp: updRow_def versionMatch_def\<close>)
    then show ?thesis
      using v(1) by (auto simp: aiProviderUpdate_def daoUpdate_def ai_providers_t_def wp_simps Let_def split: option.split)
  qed
  show "wp (providerc_Update req) (\<lambda>_. kept B) (\<lambda>_. kept B) w"
    using w unfolding providerc_Update_def providerc_preUpdate_def conflictOr_def
    by (auto simp: fromCheck_def wp_foundOr wp_simps dest!: find_in split: option.split intro!: wp_mono [OF up])
qed

lemma keeps_providerDelete: "keeps (kept B) (providerc_Delete i)"
proof (rule keepsI)
  fix w :: "'a assistant_db_scheme" assume w: "kept B w"
  have unused: "\<forall>a \<in> set (rows (ai_accounts w)). aa_ProviderId a \<noteq> j"
    if "filter (qWhere (buildQuery [WithAIProviderId j])) (rows (ai_accounts w)) = []" for j
    using that by (cases "j = 0") (auto simp: buildQuery_def emptyQuery_def WithAIProviderId_def Where_def filter_empty_conv)
  have del: "kept B (ai_providers_update (delTable (\<lambda>r. Oid r = Oid p)) u)"
    if "kept B u" "ai_providers u = ai_providers w" "ai_accounts u = ai_accounts w" "filter (qWhere (buildQuery [WithAIProviderId (Oid p)])) (rows (ai_accounts w)) = []"
      "p \<in> set (rows (ai_providers w))" "\<not> ap_Builtin p" for u :: "'a assistant_db_scheme" and p
  proof (rule kept_delProvider [OF that(1)])
    fix q assume "q \<in> set (rows (ai_providers u))" "Oid q = Oid p"
    then show "q \<notin> B \<and> (\<forall>a \<in> set (rows (ai_accounts u)). aa_ProviderId a \<noteq> Oid q)"
      using that unused [OF that(4)] keptD [OF that(1), of q p] by auto
  qed
  show "wp (providerc_Delete i) (\<lambda>_. kept B) (\<lambda>_. kept B) w"
    using w unfolding providerc_Delete_def writeOr_def orInternal_def aiAccountCount_def aiProviderDelete_def daoDelete_def
    by (auto simp: wp_foundOr wp_simps Let_def ai_accounts_t_def ai_providers_t_def dest!: find_in split: option.split intro!: del)
qed

lemma keeps_accountCreate: "keeps (kept B) (accountc_Create ctx req)"
proof (rule keepsI)
  fix w :: "'a assistant_db_scheme" assume w: "kept B w"
  have row: "aa_ProviderId (newAccountRow u req) = cac_ProviderId req" for u by (simp add: newAccountRow_def pixiu_model.defs)
  show "wp (accountc_Create ctx req) (\<lambda>_. kept B) (\<lambda>_. kept B) w"
    using w unfolding accountc_Create_def ensureProvider_def orInternal_def aiAccountCreate_def daoCreate_def currentUserId_def GetUserIdFromContext_def GetUserFromContext_def
    by (auto simp: fromCheck_def wp_simps Let_def ai_accounts_t_def row dest!: find_in split: option.split intro!: kept_insAccount)
qed

lemma keeps_accountUpdate: "keeps (kept B) (accountc_Update ctx req)"
proof (rule keepsI)
  fix w :: "'a assistant_db_scheme" assume w: "kept B w"
  let ?J = "\<lambda>p v. kept B v \<and> p \<in> set (rows (ai_providers v))"
  have prov: "aa_ProviderId (applyUpdates (versionedUpdates now v (accountUpdates req)) a) = cac_ProviderId req" for now v a
    by (simp add: versionedUpdates_def accountUpdates_def applyUpdates_def)
  have up: "wp (aiAccountUpdate i v (accountUpdates req)) (\<lambda>_. kept B) (\<lambda>_. kept B) u" if "?J p u" "Oid p = cac_ProviderId req" for i v p and u :: "'a assistant_db_scheme"
    using that by (auto simp: aiAccountUpdate_def daoUpdate_def ai_accounts_t_def wp_simps Let_def prov split: option.split intro!: kept_updAccount)
  have get: "keeps (?J p) (aiAccountGet i)" for p i
    by (rule keepsI) (auto simp: aiAccountGet_def preloadProvider_def orNil_def wp_simps Let_def assistant_tables split: option.split)
  have "wp (foundOr ''ai account'' (aiAccountGet i)) (\<lambda>x. wp (ensureAccountOwner ctx (fst x)) (\<lambda>_. wp (conflictOr what (aiAccountUpdate i v (accountUpdates req))) (\<lambda>_. kept B) (\<lambda>_. kept B)) (\<lambda>_. kept B)) (\<lambda>_. kept B) u"
    if "?J p u" "Oid p = cac_ProviderId req" for p what i v and u :: "'a assistant_db_scheme"
    by (rule wp_mono [OF keeps_wp [OF keeps_foundOr [OF get] that(1)]])
      (auto simp: ensureAccountOwner_def currentUserId_def GetUserIdFromContext_def GetUserFromContext_def conflictOr_def wp_simps split: option.split
        intro!: wp_mono [OF up [OF _ that(2)]])
  then show "wp (accountc_Update ctx req) (\<lambda>_. kept B) (\<lambda>_. kept B) w"
    using w unfolding accountc_Update_def accountc_preUpdate_def ensureProvider_def orInternal_def
    by (auto simp: fromCheck_def wp_simps dest!: find_in split: option.split)
qed

lemma keeps_deletes:
  "keeps (kept B) (accountc_Delete ctx i)" "keeps (kept B) (conversationc_Delete i)" "keeps (kept B) (messagec_Delete i)"
proof -
  have d: "keeps (kept B) (aiAccountDelete i)" "keeps (kept B) (conversationDelete i)" "keeps (kept B) (messageDelete i)"
    by (rule keepsI; auto simp: aiAccountDelete_def conversationDelete_def messageDelete_def daoDelete_def assistant_tables wp_simps Let_def kept_delAccount split: option.split)+
  show "keeps (kept B) (accountc_Delete ctx i)" "keeps (kept B) (conversationc_Delete i)" "keeps (kept B) (messagec_Delete i)"
    unfolding accountc_Delete_def conversationc_Delete_def messagec_Delete_def writeOr_def by (intro keeps_intros keeps_foundOr keeps_read keeps_access d)+
qed

lemma keeps_reads:
  "keeps (kept B) (providerc_Get i)" "keeps (kept B) (providerc_List lo)" "keeps (kept B) (accountc_Get ctx i)" "keeps (kept B) (accountc_List ctx lo)"
  unfolding providerc_Get_def providerc_List_def accountc_Get_def accountc_List_def ensureAccountOwner_def Let_def
  by (intro keeps_intros keeps_foundOr keeps_listPage keeps_read keeps_access keeps_user)+

lemma keeps_providerCreate: "keeps (kept B) (providerc_Create req)"
  unfolding providerc_Create_def by (intro keeps_intros keeps_aiProviderCreate)

text \<open>C14: In every sequence of requests, and whatever statements fail, every account of the assistant belongs to a provider that
  exists, ids stay unique, and a built-in provider that exists stays as it is.\<close>

theorem assistant_integrity:
  assumes "intact w" and "table_ok (ai_providers w)"
    and "w' = foldl (\<lambda>v r. handle r v) w reqs"
  shows "intact w' \<and> table_ok (ai_providers w') \<and> {p \<in> set (rows (ai_providers w)). ap_Builtin p} \<subseteq> set (rows (ai_providers w'))"
proof -
  have "kept B (handle r v)" if "kept B v" for B r v
    using that by (cases r) (simp_all add: keeps_providerCreate [THEN keepsD] keeps_providerUpdate [THEN keepsD] keeps_providerDelete [THEN keepsD]
        keeps_EnsureBuiltin [THEN keepsD] keeps_accountCreate [THEN keepsD] keeps_accountUpdate [THEN keepsD] keeps_deletes [THEN keepsD] keeps_reads [THEN keepsD])
  then have "kept B v \<Longrightarrow> kept B (foldl (\<lambda>v r. handle r v) v reqs)" for B v by (induction reqs arbitrary: v) auto
  from this [of "{p \<in> set (rows (ai_providers w)). ap_Builtin p}"] show ?thesis using assms by (auto simp: kept_def)
qed


definition demoProvider :: AIProvider where
  "demoProvider = pixiu_model.extend (newModel\<lparr>Oid := 1\<rparr>) \<lparr>ap_Name = ''openai'', ap_BaseURL = ''https://api'', ap_Protocol = ''openai_chat'', ap_Description = [],
     ap_MaxTokens = 4096, ap_Builtin = True\<rparr>"

definition demoAssistant :: assistant_db where
  "demoAssistant = iam_db.extend demoDb \<lparr>ai_providers = \<lparr>rows = [demoProvider], next_id = 2\<rparr>, ai_accounts = \<lparr>rows = [], next_id = 1\<rparr>,
     conversations = \<lparr>rows = [], next_id = 1\<rparr>, messages = \<lparr>rows = [], next_id = 1\<rparr>, executions = \<lparr>rows = [], next_id = 1\<rparr>\<rparr>"

lemma assistant_integrity_witness:
  "let w' = foldl (\<lambda>v r. handle r v) demoAssistant
       [ProviderDelete 1, AccountCreate None \<lparr>cac_Name = ''a'', cac_APIKey = ''k'', cac_Model = ''m'', cac_ProviderId = 1\<rparr>, ProviderDelete 1]
   in intact w' \<and> demoProvider \<in> set (rows (ai_providers w'))"
proof -
  have "intact demoAssistant" "table_ok (ai_providers demoAssistant)" "ai_providers demoAssistant = \<lparr>rows = [demoProvider], next_id = 2\<rparr>" "ap_Builtin demoProvider"
    by (simp_all add: demoAssistant_def demoProvider_def intact_def iam_db.defs table_ok_def pixiu_model.defs newModel_def)
  with assistant_integrity [OF this(1,2) refl] show ?thesis unfolding Let_def by fastforce
qed

end
