(* ===== verification/MetricProvider.thy ===== *)
theory MetricProvider
  imports Engine Datasource ClusterController GoNet DeployAgent
begin

text \<open>
  Where the samples of the alert engine come from (\<open>alert/engine/prometheus_provider.go\<close>, \<open>pkg/util/datasource/endpoint.go\<close>):
  a rule names a data source, which is asked over HTTP, or through the service proxy of its cluster, for the value of an
  expression, and the answer of Prometheus or Loki becomes a list of samples. The network and the parsing of URLs are
  parameters; every request is recorded in the order in which it is made.
\<close>

section \<open>Addresses\<close>

record URL =
  ul_Scheme :: string
  ul_Host :: string
  ul_Path :: string
  ul_RawQuery :: string
  ul_Rest :: string

record InClusterEndpoint =
  ie_ServiceName :: string
  ie_Namespace :: string
  ie_Port :: int
  ie_Protocol :: string
  ie_BasePath :: string

record proxy_target =
  pt_Namespace :: string
  pt_Scheme :: string
  pt_Name :: string
  pt_Port :: string
  pt_Path :: string
  pt_Params :: "(string \<times> string) list"

record metric_env =
  me_ce :: cluster_env
  me_parseURL :: "string \<Rightarrow> goerr + URL"
  me_urlString :: "URL \<Rightarrow> string"
  me_hostname :: "string \<Rightarrow> string"
  me_port :: "string \<Rightarrow> string"
  me_isIP :: "string \<Rightarrow> bool"
  me_newRequest :: "string \<Rightarrow> goerr option"
  me_http :: "string \<Rightarrow> (string \<times> string) list \<Rightarrow> nat \<Rightarrow> goerr + nat \<times> string"
  me_proxyGet :: "rest_config \<Rightarrow> proxy_target \<Rightarrow> nat \<Rightarrow> goerr + string"
  me_sprint :: "json \<Rightarrow> string"

definition isIPAddress :: "metric_env \<Rightarrow> string \<Rightarrow> bool" where
  "isIPAddress me hostname \<longleftrightarrow> me_isIP me hostname \<or> (CHR '':'' \<in> set hostname \<and> CHR ''.'' \<notin> set hostname)"

definition normalizeBasePath :: "string \<Rightarrow> string" where
  "normalizeBasePath pathname = (let normalized = TrimRight (TrimSpace pathname) ''/'' in
     if normalized = [] then [] else if \<not> HasPrefix normalized ''/'' then CHR ''/'' # normalized else normalized)"

text \<open>The index of the first label \<open>svc\<close>.\<close>

definition svcIndex :: "string list \<Rightarrow> nat option" where
  "svcIndex parts = (let n = length (takeWhile (\<lambda>p. p \<noteq> ''svc'') parts) in if n < length parts then Some n else None)"

definition endpointNamespace :: "string list \<Rightarrow> string option" where
  "endpointNamespace parts = (case svcIndex parts of Some i \<Rightarrow> if 2 \<le> i then Some (parts ! 1) else None
     | None \<Rightarrow> if 2 \<le> length parts then Some (parts ! 1) else None)"

definition endpointPort :: "string \<Rightarrow> string \<Rightarrow> goerr + int" where
  "endpointPort p protocol = (if p \<noteq> [] then (case ParseInt p of Some n \<Rightarrow> if n \<le> 0 then Inl (Errorf ''invalid port in datasource url'') else Inr n
       | None \<Rightarrow> Inl (Errorf ''invalid port in datasource url''))
     else if protocol = ''https'' then Inr 443 else Inr 80)"

definition ParseInClusterEndpoint :: "metric_env \<Rightarrow> string \<Rightarrow> goerr + InClusterEndpoint" where
  "ParseInClusterEndpoint me rawURL0 = (let rawURL = TrimSpace rawURL0 in
     if rawURL = [] then Inl (Errorf ''empty datasource url'')
     else (case me_parseURL me rawURL of Inl _ \<Rightarrow> Inl (Errorf ''invalid datasource url'') | Inr parsed \<Rightarrow>
       let protocol = ToLower (ul_Scheme parsed); host = me_hostname me (ul_Host parsed); filtered = filter (\<lambda>p. p \<noteq> []) (Split host CHR ''.'') in
       if protocol \<noteq> ''http'' \<and> protocol \<noteq> ''https'' then Inl (Errorf ''datasource url must use http or https'')
       else if host = [] \<or> isIPAddress me host then Inl (Errorf ''datasource url host must be a cluster DNS name'')
       else if filtered = [] then Inl (Errorf ''datasource url host is empty'')
       else (case endpointNamespace filtered of None \<Rightarrow> Inl (Errorf ''cannot resolve namespace'')
         | Some ns \<Rightarrow> (case endpointPort (me_port me (ul_Host parsed)) protocol of Inl err \<Rightarrow> Inl err
             | Inr p \<Rightarrow> Inr \<lparr>ie_ServiceName = filtered ! 0, ie_Namespace = ns, ie_Port = p, ie_Protocol = protocol, ie_BasePath = normalizeBasePath (ul_Path parsed)\<rparr>))))"

definition JoinProxyPath :: "InClusterEndpoint \<Rightarrow> string \<Rightarrow> string" where
  "JoinProxyPath e apiPath0 = (let apiPath = TrimSpace apiPath0; apiPath = (if HasPrefix apiPath ''/'' then apiPath else CHR ''/'' # apiPath)
     in if ie_BasePath e = [] then TrimPrefix apiPath ''/'' else TrimPrefix (ie_BasePath e @ apiPath) ''/'')"

section \<open>Samples\<close>

definition firstNonBlank :: "string list \<Rightarrow> string" where
  "firstNonBlank vs = (case find (\<lambda>v. TrimSpace v \<noteq> []) vs of None \<Rightarrow> [] | Some v \<Rightarrow> v)"

definition labelsFingerprint :: "labels \<Rightarrow> string" where
  "labelsFingerprint m = (if m = [] then ''scalar''
     else (let parts = map (\<lambda>(k, v). k @ ''='' @ v) (filter (\<lambda>(k, v). k \<noteq> ''__name__'') m)
       in if parts = [] then (if getLabel m ''__name__'' \<noteq> [] then getLabel m ''__name__'' else ''series'') else Join parts '',''))"

definition inferResource :: "labels \<Rightarrow> string \<times> string" where
  "inferResource m = (case find (\<lambda>k. getLabel m k \<noteq> []) [''pod'', ''node'', ''deployment'', ''container'', ''instance'', ''job''] of
       Some k \<Rightarrow> (k, getLabel m k) | None \<Rightarrow> (''series'', labelsFingerprint m))"

definition metricSampleFromLabels :: "labels \<Rightarrow> string \<Rightarrow> MetricSample" where
  "metricSampleFromLabels m value = (case inferResource m of (rtype, rname) \<Rightarrow>
     \<lparr>ms_Value = value, ms_ResourceType = rtype, ms_ResourceName = rname, ms_Namespace = firstNonBlank [getLabel m ''namespace'', getLabel m ''Namespace''],
      ms_ClusterId = 0, ms_TenantId = 0, ms_Labels = m, ms_Annotations = []\<rparr>)"

section \<open>Answers\<close>

text \<open>A \<open>json.RawMessage\<close> holds the text of a value, which is read again later: it is modelled by the value. \<open>None\<close> is an
  empty one.\<close>

record prometheusInstantResponse =
  pm_Status :: string
  pm_Error :: string
  pm_ResultType :: string
  pm_Result :: "json option"

record prometheusVectorItem =
  vi_Metric :: labels
  vi_Value :: "json list"

record prometheusMatrixItem =
  mi_Metric :: labels
  mi_Values :: "json list list"

record lokiStreamItem =
  si_Stream :: labels
  si_Values :: "string list list"

definition zeroResponse :: prometheusInstantResponse where
  "zeroResponse = \<lparr>pm_Status = [], pm_Error = [], pm_ResultType = [], pm_Result = None\<rparr>"

definition decRaw :: "json option decoder" where
  "decRaw j old = (Some j, True)"

text \<open>Names of fields are given as \<open>foldName\<close> leaves them. \<open>any\<close>: every number in the value has to be a \<open>float64\<close>.\<close>

fun anyReadable :: "json \<Rightarrow> bool" where
  "anyReadable (JNum n) = (ParseFloat n \<noteq> None)"
| "anyReadable (JArr js) = list_all anyReadable js"
| "anyReadable (JObj ms) = list_all (\<lambda>(k, j). anyReadable j) ms"
| "anyReadable _ = True"

definition decAny :: "json decoder" where
  "decAny j old = (if anyReadable j then (j, True) else (old, False))"

definition decLabels :: "labels decoder" where
  "decLabels j old = (case j of JObj ms \<Rightarrow> (case decodeStringMap j of (m, ok) \<Rightarrow> (foldl (\<lambda>a (k, v). putLabel k v a) old m, ok))
     | JNull \<Rightarrow> ([], True) | _ \<Rightarrow> (old, False))"

definition decData :: "prometheusInstantResponse decoder" where
  "decData = decStruct [(''resulttype'', field pm_ResultType (\<lambda>x. pm_ResultType_update (\<lambda>_. x)) decString),
     (''result'', field pm_Result (\<lambda>x. pm_Result_update (\<lambda>_. x)) decRaw)]"

definition decResponse :: "prometheusInstantResponse decoder" where
  "decResponse = decStruct [(''status'', field pm_Status (\<lambda>x. pm_Status_update (\<lambda>_. x)) decString),
     (''error'', field pm_Error (\<lambda>x. pm_Error_update (\<lambda>_. x)) decString), (''data'', decData)]"

definition decVectorItem :: "prometheusVectorItem decoder" where
  "decVectorItem = decStruct [(''metric'', field vi_Metric (\<lambda>x. vi_Metric_update (\<lambda>_. x)) decLabels),
     (''value'', field vi_Value (\<lambda>x. vi_Value_update (\<lambda>_. x)) (decSlice decAny JNull))]"

definition decMatrixItem :: "prometheusMatrixItem decoder" where
  "decMatrixItem = decStruct [(''metric'', field mi_Metric (\<lambda>x. mi_Metric_update (\<lambda>_. x)) decLabels),
     (''values'', field mi_Values (\<lambda>x. mi_Values_update (\<lambda>_. x)) (decSlice (decSlice decAny JNull) []))]"

definition decStreamItem :: "lokiStreamItem decoder" where
  "decStreamItem = decStruct [(''stream'', field si_Stream (\<lambda>x. si_Stream_update (\<lambda>_. x)) decLabels),
     (''values'', field si_Values (\<lambda>x. si_Values_update (\<lambda>_. x)) (decSlice (decSlice decString []) []))]"

text \<open>\<open>json.Unmarshal\<close> of a raw message into a slice.\<close>

definition readItems :: "'a decoder \<Rightarrow> 'a \<Rightarrow> json option \<Rightarrow> 'a list option" where
  "readItems dec zero raw = (case raw of None \<Rightarrow> None | Some j \<Rightarrow> (case decSlice dec zero j [] of (xs, ok) \<Rightarrow> if ok then Some xs else None))"

definition responseError :: "string \<Rightarrow> prometheusInstantResponse \<Rightarrow> goerr option" where
  "responseError what resp = (if pm_Status resp \<noteq> [] \<and> pm_Status resp \<noteq> ''success'' then
     Some (if pm_Error resp \<noteq> [] then Errorf (what @ '' query failed: '' @ pm_Error resp) else Errorf (what @ '' query status='' @ pm_Status resp)) else None)"

definition extractPrometheusValue :: "metric_env \<Rightarrow> json list \<Rightarrow> string option" where
  "extractPrometheusValue me pair = (if length pair < 2 then None else (case pair ! 1 of JStr v \<Rightarrow> Some v | j \<Rightarrow> Some (me_sprint me j)))"

definition vectorSamples :: "metric_env \<Rightarrow> prometheusVectorItem list \<Rightarrow> MetricSample list" where
  "vectorSamples me items = List.map_filter (\<lambda>item. map_option (metricSampleFromLabels (vi_Metric item)) (extractPrometheusValue me (vi_Value item))) items"

definition matrixSamples :: "metric_env \<Rightarrow> prometheusMatrixItem list \<Rightarrow> MetricSample list" where
  "matrixSamples me items = List.map_filter (\<lambda>item. if mi_Values item = [] then None
     else map_option (metricSampleFromLabels (mi_Metric item)) (extractPrometheusValue me (last (mi_Values item)))) items"

definition streamSample :: "lokiStreamItem \<Rightarrow> MetricSample" where
  "streamSample item = (let s = metricSampleFromLabels (si_Stream item) (FormatInt (int (length (si_Values item)))); s = s\<lparr>ms_ResourceType := ''log''\<rparr>
     in if ms_ResourceName s = [] \<or> ms_ResourceName s = ''scalar'' then s\<lparr>ms_ResourceName := labelsFingerprint (si_Stream item)\<rparr> else s)"

definition parsePrometheusInstantSamples :: "metric_env \<Rightarrow> string \<Rightarrow> goerr + MetricSample list" where
  "parsePrometheusInstantSamples me raw = (case unmarshalWith decResponse raw zeroResponse of None \<Rightarrow> Inl (Errorf ''decode prometheus response'')
     | Some resp \<Rightarrow> (case responseError ''prometheus'' resp of Some err \<Rightarrow> Inl err | None \<Rightarrow>
         if pm_ResultType resp = [] \<or> pm_ResultType resp = ''vector'' then
           (if pm_Result resp = None \<or> pm_Result resp = Some JNull then Inr []
            else (case readItems decVectorItem \<lparr>vi_Metric = [], vi_Value = []\<rparr> (pm_Result resp) of None \<Rightarrow> Inl (Errorf ''decode prometheus vector'')
              | Some items \<Rightarrow> Inr (vectorSamples me items)))
         else if pm_ResultType resp = ''scalar'' then
           (case readItems decAny JNull (pm_Result resp) of None \<Rightarrow> Inl (Errorf ''decode prometheus scalar'')
             | Some pair \<Rightarrow> (case extractPrometheusValue me pair of None \<Rightarrow> Inr [] | Some v \<Rightarrow> Inr [metricSampleFromLabels [] v]))
         else Inl (Errorf ''unsupported prometheus resultType'')))"

definition parseLokiRangeSamples :: "metric_env \<Rightarrow> string \<Rightarrow> goerr + MetricSample list" where
  "parseLokiRangeSamples me raw = (case unmarshalWith decResponse raw zeroResponse of None \<Rightarrow> Inl (Errorf ''decode loki response'')
     | Some resp \<Rightarrow> (case responseError ''loki'' resp of Some err \<Rightarrow> Inl err | None \<Rightarrow>
         if pm_Result resp = None \<or> pm_Result resp = Some JNull then Inr []
         else if pm_ResultType resp = ''streams'' then
           (case readItems decStreamItem \<lparr>si_Stream = [], si_Values = []\<rparr> (pm_Result resp) of None \<Rightarrow> Inl (Errorf ''decode loki streams'')
             | Some items \<Rightarrow> Inr (map streamSample items))
         else if pm_ResultType resp = ''matrix'' then
           (case readItems decMatrixItem \<lparr>mi_Metric = [], mi_Values = []\<rparr> (pm_Result resp) of None \<Rightarrow> Inl (Errorf ''decode loki matrix'')
             | Some items \<Rightarrow> Inr (matrixSamples me items))
         else if pm_ResultType resp = ''vector'' then parsePrometheusInstantSamples me raw
         else Inl (Errorf ''unsupported loki resultType'')))"


section \<open>Requests\<close>

datatype metric_call = HttpGet string "(string \<times> string) list" | ServiceGet rest_config proxy_target

text \<open>The provider keeps the clients of the clusters it has asked; the table of the clusters is in the same database.\<close>

record metric_state = datasource_db +
  mp_table :: "Cluster table"
  mp_clusters :: "string \<rightharpoonup> rest_config"
  mp_calls :: "metric_call list"

definition mp_clusters_t :: "('m metric_state_scheme, Cluster) tref" where
  "mp_clusters_t = \<lparr>tget = mp_table, tupd = mp_table_update, tuniq = (\<lambda>r s. clu_Name r = clu_Name s), tdefaults = (\<lambda>r. r)\<rparr>"

definition prometheusInstantAPI :: string where "prometheusInstantAPI = ''/api/v1/query''"
definition lokiQueryRangeAPI :: string where "lokiQueryRangeAPI = ''/loki/api/v1/query_range''"
definition lokiQueryLimit :: string where "lokiQueryLimit = ''500''"

definition resolveDatasourceURL :: "int \<Rightarrow> DatasourceConfig \<Rightarrow> string" where
  "resolveDatasourceURL dsType cfg =
     (if dsType = DatasourceTypeAlert then (case dc_Alert cfg of None \<Rightarrow> [] | Some a \<Rightarrow> TrimRight (TrimSpace (al_URL a)) ''/'')
      else if dsType = DatasourceTypeLog then (case dc_Log cfg of None \<Rightarrow> [] | Some l \<Rightarrow> TrimRight (TrimSpace (lc_URL l)) ''/'') else [])"

definition buildDatasourceAPIURL :: "metric_env \<Rightarrow> string \<Rightarrow> string \<Rightarrow> (string \<times> string) list \<Rightarrow> goerr + string" where
  "buildDatasourceAPIURL me baseURL apiPath params =
     (case me_parseURL me (TrimRight (TrimSpace baseURL) ''/'') of Inl _ \<Rightarrow> Inl (Errorf ''invalid datasource url'')
      | Inr u \<Rightarrow> if ul_Scheme u = [] \<or> ul_Host u = [] then Inl (Errorf ''datasource url must include scheme and host'')
         else Inr (me_urlString me (u\<lparr>ul_Path := TrimRight (ul_Path u) ''/'' @ (if HasPrefix apiPath ''/'' then apiPath else CHR ''/'' # apiPath),
           ul_RawQuery := encodeQuery (foldl (\<lambda>q (k, v). qSet k v q) (parseQuery (ul_RawQuery u)) params)\<rparr>)))"

definition basicAuth :: "DatasourceConfig \<Rightarrow> string \<times> string" where
  "basicAuth cfg = (let up = (case dc_Alert cfg of None \<Rightarrow> ([], []) | Some a \<Rightarrow> (al_UserName a, al_Password a)) in
     if fst up = [] \<and> snd up = [] then (case dc_Log cfg of None \<Rightarrow> up | Some l \<Rightarrow> (lc_UserName l, lc_Password l)) else up)"

text \<open>The calls of \<open>Header.Set\<close> in their order.\<close>

definition applyDatasourceAuth :: "DatasourceConfig \<Rightarrow> (string \<times> string) list" where
  "applyDatasourceAuth cfg = (case basicAuth cfg of (u, p) \<Rightarrow> if u = [] \<and> p = [] then [] else [(''Authorization'', ''Basic '' @ base64Encode (u @ '':'' @ p))])"

definition applyDatasourceHeaders :: "DatasourceConfig \<Rightarrow> (string \<times> string) list" where
  "applyDatasourceHeaders cfg = (case dc_Headers cfg of None \<Rightarrow> []
     | Some hs \<Rightarrow> map (\<lambda>h. (TrimSpace (hh_Key h), hh_Value h)) (filter (\<lambda>h. TrimSpace (hh_Key h) \<noteq> []) hs))"

definition httpGet :: "metric_env \<Rightarrow> string \<Rightarrow> (string \<times> string) list \<Rightarrow> ('m metric_state_scheme, goerr, nat \<times> string) act" where
  "httpGet me url hs = (\<lambda>w. (me_http me url hs (tick w), w\<lparr>tick := Suc (tick w), mp_calls := mp_calls w @ [HttpGet url hs]\<rparr>))"

definition serviceGet :: "metric_env \<Rightarrow> rest_config \<Rightarrow> proxy_target \<Rightarrow> ('m metric_state_scheme, goerr, string) act" where
  "serviceGet me cl pt = (\<lambda>w. (me_proxyGet me cl pt (tick w), w\<lparr>tick := Suc (tick w), mp_calls := mp_calls w @ [ServiceGet cl pt]\<rparr>))"

definition fetchExternal :: "metric_env \<Rightarrow> string \<Rightarrow> string \<Rightarrow> (string \<times> string) list \<Rightarrow> DatasourceConfig \<Rightarrow> ('m metric_state_scheme, goerr, string) act" where
  "fetchExternal me baseURL apiPath params cfg = andThen (fromSum (buildDatasourceAPIURL me baseURL apiPath params)) (\<lambda>endpoint.
     case me_newRequest me endpoint of Some err \<Rightarrow> fail err
     | None \<Rightarrow> andThen (httpGet me endpoint (applyDatasourceAuth cfg @ applyDatasourceHeaders cfg)) (\<lambda>(status, body).
         if status < 200 \<or> 300 \<le> status then fail (Errorf ''datasource external query status'') else ret (take (8 * 2 ^ 20) body)))"

definition getClusterSet :: "metric_env \<Rightarrow> string \<Rightarrow> ('m metric_state_scheme, goerr, rest_config) act" where
  "getClusterSet me clusterName = andThen (gets mp_clusters) (\<lambda>m. case m clusterName of Some cs \<Rightarrow> ret cs
     | None \<Rightarrow> onResult (daoGetBy mp_clusters_t [WithName clu_Name clusterName]) (\<lambda>err. fail (Errorf ''load cluster'')) (\<lambda>object. case object of
         None \<Rightarrow> fail (Errorf ''cluster not found'')
       | Some c \<Rightarrow> (case NewClusterSetWithOptions (me_ce me) (clu_KubeConfig c) [] 0 of Inl err \<Rightarrow> fail (Errorf ''build cluster client'')
           | Inr cs \<Rightarrow> andThen (modify (\<lambda>w. w\<lparr>mp_clusters := (mp_clusters w)(clusterName \<mapsto> Client cs)\<rparr>)) (\<lambda>_. ret (Client cs)))))"

definition fetchInternal :: "metric_env \<Rightarrow> string \<Rightarrow> string \<Rightarrow> string \<Rightarrow> (string \<times> string) list \<Rightarrow> ('m metric_state_scheme, goerr, string) act" where
  "fetchInternal me clusterName0 baseURL apiPath params = (let clusterName = TrimSpace clusterName0 in
     if clusterName = [] then fail (Errorf ''internal datasource missing cluster_name'')
     else (case ParseInClusterEndpoint me baseURL of Inl err \<Rightarrow> fail (Errorf ''parse internal datasource url'')
       | Inr ep \<Rightarrow> andThen (getClusterSet me clusterName) (\<lambda>cl.
           onResult (serviceGet me cl \<lparr>pt_Namespace = ie_Namespace ep, pt_Scheme = ie_Protocol ep, pt_Name = ie_ServiceName ep, pt_Port = FormatInt (ie_Port ep),
             pt_Path = JoinProxyPath ep apiPath, pt_Params = params\<rparr>) (\<lambda>err. fail (Errorf ''datasource internal query'')) ret)))"

definition fetch :: "metric_env \<Rightarrow> Datasource \<Rightarrow> DatasourceConfig \<Rightarrow> string \<Rightarrow> string \<Rightarrow> (string \<times> string) list \<Rightarrow> ('m metric_state_scheme, goerr, string) act" where
  "fetch me ds cfg baseURL apiPath params = (if ds_External ds then fetchExternal me baseURL apiPath params cfg
     else fetchInternal me (ds_ClusterName ds) baseURL apiPath params)"

text \<open>The data source, its configuration, its address and the expression; \<open>None\<close> where there is no expression.\<close>

definition loadQueryContext :: "AlertRule \<Rightarrow> string \<Rightarrow> ('m metric_state_scheme, goerr, (Datasource \<times> DatasourceConfig \<times> string \<times> string) option) act" where
  "loadQueryContext rule wantSubType = (if ar_DatasourceId rule \<le> 0 then fail (Errorf ''alert rule missing datasource_id'')
     else if GetRulePromQl rule = [] then ret None
     else onResult (datasourceGet (ar_DatasourceId rule)) (\<lambda>err. fail (Errorf ''load datasource'')) (\<lambda>found. case found of
         None \<Rightarrow> fail (Errorf ''datasource not found'')
       | Some ds \<Rightarrow> if ds_SubType ds \<noteq> wantSubType then fail (Errorf ''datasource has another subtype'')
           else (case DatasourceConfig_Unmarshal (ds_Config ds) of None \<Rightarrow> fail (Errorf ''parse datasource config'')
             | Some cfg \<Rightarrow> (let baseURL = resolveDatasourceURL (ds_Type ds) cfg in
                 if baseURL = [] then fail (Errorf ''datasource has empty url'') else ret (Some (ds, cfg, baseURL, GetRulePromQl rule))))))"

definition queryPrometheus :: "metric_env \<Rightarrow> AlertRule \<Rightarrow> ('m metric_state_scheme, goerr, MetricSample list) act" where
  "queryPrometheus me rule = andThen (loadQueryContext rule DatasourceSubTypePrometheus) (\<lambda>q. case q of None \<Rightarrow> ret []
     | Some (ds, cfg, baseURL, expr) \<Rightarrow> andThen (fetch me ds cfg baseURL prometheusInstantAPI [(''query'', expr)]) (\<lambda>raw.
         fromSum (parsePrometheusInstantSamples me raw)))"

definition lokiParams :: "AlertRule \<Rightarrow> string \<Rightarrow> int \<Rightarrow> (string \<times> string) list" where
  "lokiParams rule expr now = [(''query'', expr), (''limit'', lokiQueryLimit),
     (''start'', FormatInt (now - wrap64 (NormalizeEvalInterval (ar_EvalInterval rule) * 1000000000))), (''end'', FormatInt now), (''direction'', ''BACKWARD'')]"

definition queryLoki :: "metric_env \<Rightarrow> AlertRule \<Rightarrow> ('m metric_state_scheme, goerr, MetricSample list) act" where
  "queryLoki me rule = andThen (loadQueryContext rule DatasourceSubTypeLoki) (\<lambda>q. case q of None \<Rightarrow> ret []
     | Some (ds, cfg, baseURL, expr) \<Rightarrow> andThen timeNow (\<lambda>now. andThen (fetch me ds cfg baseURL lokiQueryRangeAPI (lokiParams rule expr now)) (\<lambda>raw.
         fromSum (parseLokiRangeSamples me raw))))"

definition Query :: "metric_env \<Rightarrow> AlertRule \<Rightarrow> ('m metric_state_scheme, goerr, MetricSample list) act" where
  "Query me rule = (if ar_RuleType rule = AlertRuleTypeMetric then queryPrometheus me rule
     else if ar_RuleType rule = AlertRuleTypeLog then queryLoki me rule else ret [])"

end
