(* ===== verification/MetricProps.thy ===== *)
theory MetricProps
  imports MetricProvider AlertRuleFiles
begin

text \<open>
  What the metric provider makes of an answer: it reads back every series that Prometheus sends.
\<close>

section \<open>The answer of Prometheus\<close>

text \<open>The instant vector that Prometheus sends: for every series its labels, a time and its value.\<close>

definition vectorItemJson :: "labels \<times> int \<times> string \<Rightarrow> json" where
  "vectorItemJson x = (case x of (m, ts, v) \<Rightarrow> JObj [(''metric'', JObj (map (\<lambda>(k, v). (k, JStr v)) m)), (''value'', JArr [JNum (FormatInt ts), JStr v])])"

definition vectorResponse :: "(labels \<times> int \<times> string) list \<Rightarrow> json" where
  "vectorResponse items = JObj [(''status'', JStr ''success''),
     (''data'', JObj [(''resultType'', JStr ''vector''), (''result'', JArr (map vectorItemJson items))])]"

definition seriesOK :: "labels \<times> int \<times> string \<Rightarrow> bool" where
  "seriesOK x \<longleftrightarrow> (case x of (m, ts, v) \<Rightarrow> isMap m \<and> validLabels m \<and> validUTF8 v \<and> ParseFloat (FormatInt ts) \<noteq> None)"

lemma putLabel_append: "isMap (out @ (k, v) # m) \<Longrightarrow> putLabel k v out = out @ [(k, v)]"
  by (induction out) (auto simp: isMap_def)

lemma foldl_putLabel: "isMap (out @ m) \<Longrightarrow> foldl (\<lambda>a (k, v). putLabel k v a) out m = out @ m"
proof (induction m arbitrary: out)
  case (Cons x m)
  obtain k v where x: "x = (k, v)" by fastforce
  with Cons.IH [of "out @ [(k, v)]"] Cons.prems putLabel_append [of out k v m] show ?case by simp
qed simp

lemma decodeStringMap_print:
  "isMap (out @ m) \<Longrightarrow> foldl (\<lambda>(m, ok) (k, j). (putLabel k (fst (stringValue j)) m, ok \<and> snd (stringValue j))) (out, True) (map (\<lambda>(k, v). (k, JStr v)) m) = (out @ m, True)"
proof (induction m arbitrary: out)
  case (Cons x m)
  obtain k v where x: "x = (k, v)" by fastforce
  with Cons.IH [of "out @ [(k, v)]"] Cons.prems putLabel_append [of out k v m] show ?case by simp
qed simp

lemma decLabels_print: "isMap m \<Longrightarrow> decLabels (JObj (map (\<lambda>(k, v). (k, JStr v)) m)) [] = (m, True)"
  using decodeStringMap_print [of "[]" m] foldl_putLabel [of "[]" m] by (simp add: decLabels_def)

lemma folded_lower:
  "foldName ''metric'' = ''metric''" "foldName ''value'' = ''value''" "foldName ''status'' = ''status''" "foldName ''data'' = ''data''"
  "foldName ''result'' = ''result''"
  by (rule foldName_lower, simp add: byteOf_def)+

lemma folded_type: "foldName ''resultType'' = ''resulttype''"
proof -
  have "toLowerChar (CHR ''T'') = CHR ''t''" by code_simp
  then show ?thesis by (simp add: foldName_ascii byteOf_def toLowerChar_fixed del: foldName.simps(2))
qed

lemmas folded = folded_lower folded_type

lemma vectorItem_fields:
  "fieldDecoder [(''metric'', dm), (''value'', dv)] ''metric'' = Some dm"
  "fieldDecoder [(''metric'', dm), (''value'', dv)] ''value'' = Some dv"
  by (simp_all add: fieldDecoder_def folded del: foldName.simps)

lemma response_fields:
  "fieldDecoder [(''status'', ds), (''error'', de), (''data'', dd)] ''status'' = Some ds"
  "fieldDecoder [(''status'', ds), (''error'', de), (''data'', dd)] ''data'' = Some dd"
  "fieldDecoder [(''resulttype'', dt), (''result'', dr)] ''resultType'' = Some dt"
  "fieldDecoder [(''resulttype'', dt), (''result'', dr)] ''result'' = Some dr"
  by (simp_all add: fieldDecoder_def folded del: foldName.simps)

lemma decValue_print: "ParseFloat n \<noteq> None \<Longrightarrow> decSlice decAny JNull (JArr [JNum n, JStr v]) old = ([JNum n, JStr v], True)"
  by (simp add: decAny_def)

lemma decVectorItem_print: "seriesOK x \<Longrightarrow> decVectorItem (vectorItemJson x) \<lparr>vi_Metric = [], vi_Value = []\<rparr> =
    (case x of (m, ts, v) \<Rightarrow> (\<lparr>vi_Metric = m, vi_Value = [JNum (FormatInt ts), JStr v]\<rparr>, True))"
  by (cases x) (simp add: decVectorItem_def vectorItemJson_def seriesOK_def vectorItem_fields field_def decLabels_print decValue_print
      del: foldName.simps decSlice.simps)

lemma readItems_print:
  "list_all seriesOK items \<Longrightarrow> decElements decVectorItem \<lparr>vi_Metric = [], vi_Value = []\<rparr> (map vectorItemJson items) [] =
     (map (\<lambda>(m, ts, v). \<lparr>vi_Metric = m, vi_Value = [JNum (FormatInt ts), JStr v]\<rparr>) items, True)"
  by (induction items) (auto simp: decVectorItem_print Let_def split: prod.splits)

lemma decResponse_print: "decResponse (vectorResponse items) zeroResponse =
    (\<lparr>pm_Status = ''success'', pm_Error = [], pm_ResultType = ''vector'', pm_Result = Some (JArr (map vectorItemJson items))\<rparr>, True)"
  by (simp add: decResponse_def decData_def decRaw_def vectorResponse_def response_fields field_def zeroResponse_def del: foldName.simps)

lemma validUTF8_metric: "validUTF8 ''metric'' \<and> validUTF8 ''value'' \<and> validUTF8 ''status'' \<and> validUTF8 ''data'' \<and> validUTF8 ''result'' \<and>
    validUTF8 ''resultType'' \<and> validUTF8 ''success'' \<and> validUTF8 ''vector''"
  by (simp add: validUTF8_ascii byteOf_def del: validUTF8.simps(2))

lemma parse_vectorResponse:
  assumes "list_all seriesOK items"
  shows "jsonParse (jsonPrint (vectorResponse items)) = Some (vectorResponse items)"
proof (rule jsonParse_jsonPrint)
  have depth: "foldr (\<lambda>(k, v). max (depthJson v)) (map (\<lambda>(k, v). (k, JStr v)) m) 0 = 0" for m by (induction m) auto
  have "foldr (max \<circ> depthJson) (map vectorItemJson items) 0 \<le> 2"
    by (induction items) (auto simp: vectorItemJson_def depth split: prod.splits)
  then show "depthJson (vectorResponse items) \<le> maxNestingDepth" by (simp add: vectorResponse_def maxNestingDepth_def)
  have "wfJson (vectorItemJson x)" if "seriesOK x" for x
    using that by (cases x) (auto simp: vectorItemJson_def seriesOK_def validLabels_def validUTF8_metric simp del: validUTF8.simps(2))
  then show "wfJson (vectorResponse items)"
    using assms by (auto simp: vectorResponse_def validUTF8_metric list_all_iff simp del: validUTF8.simps(2))
qed

text \<open>
  From the instant vector that Prometheus sends the provider reads exactly one sample for every series, in order, with
  its labels, its value, and the resource the labels name.\<close>

theorem vector_read_back:
  assumes "list_all seriesOK items"
  shows "parsePrometheusInstantSamples me (jsonPrint (vectorResponse items)) = Inr (map (\<lambda>(m, ts, v). metricSampleFromLabels m v) items)"
proof -
  have "vectorSamples me (map (\<lambda>(m, ts, v). \<lparr>vi_Metric = m, vi_Value = [JNum (FormatInt ts), JStr v]\<rparr>) items) = map (\<lambda>(m, ts, v). metricSampleFromLabels m v) items"
    by (induction items) (auto simp: vectorSamples_def extractPrometheusValue_def map_filter_simps)
  then show ?thesis
    using parse_vectorResponse [OF assms] readItems_print [OF assms]
    by (simp add: parsePrometheusInstantSamples_def unmarshalWith_def decResponse_print responseError_def readItems_def)
qed

end
