(* ===== verification/Spec2Isabelle.thy ===== *)
theory Spec2Isabelle
  imports LruCache RoleController AlertRuleProps EventLife PlanNodes PlanWait AgentProps AlertRuleFiles DatasourceProps ClusterSyncProps AssistantProps MetricProps
begin

text \<open>
  Verification of pixiu, a control plane for Kubernetes clusters. The program is a server of HTTP routes over one MySQL
  database, with background jobs, and an agent that performs deployments elsewhere. This development translates its
  logic function by function: the rows and DAO methods, the controllers, the policy engine, the caches, the deployment
  of clusters, the alert engine with its notifications, the access to clusters, and the probes of the clusters.

  \<^bold>\<open>How a Go function is written.\<close> A function that may fail and works on the database, a cache or the network is a
  value of type \<open>('w, 'e, 'a) act\<close> (theory \<open>Prelude\<close>): from a world to an error or a result, and the world after it.
  \<open>andThen\<close>, \<open>onResult\<close>, \<open>ignoring\<close>, \<open>orInternal\<close>, \<open>forEach\<close> are Go's idioms around \<open>if err != nil\<close>. The world is a
  record that grows by extension: the clock and the faults of the environment, the tables (theories \<open>IamDb\<close>,
  \<open>AlertDb\<close>, \<open>PlanDb\<close>, \<open>Datasource\<close>, \<open>ClusterDb\<close>), then caches, queues, sent requests. Every statement of SQL and every
  reading of the clock takes one tick; \<open>fault\<close> says which statements fail and \<open>clock\<close> what the clock shows, so a
  theorem about all worlds is one about all failures and all times. Times are nanoseconds. \<open>wp m Q E w\<close> says that
  \<open>m\<close> ends in \<open>Q\<close> or with an error in \<open>E\<close>; \<open>keeps I m\<close> that it preserves \<open>I\<close>.

  \<^bold>\<open>The database\<close> (\<open>pkg/db\<close>). \<open>Store\<close>: tables with ids, unique indexes, INSERT, UPDATE with the number of changed rows,
  DELETE, queries with conditions, order, offset and limit, LIKE patterns, transactions that roll back. \<open>Dao\<close>: the four
  shapes of the DAO methods, among them the update guarded by \<open>resource_version\<close>; its locale \<open>versioned_dao\<close> states
  what every guarded update promises and is interpreted on the DAOs of users, roles, APIs, tenants, alerts and so on.

  \<^bold>\<open>Identity and access.\<close> \<open>RbacPolicy\<close>: the menus of \<open>pkg/rbac/menu\<close> with their fixpoint loop, shown equal to the least
  closed set for every order of the map iterations, and the decisions of \<open>rbac/scope\<close>, \<open>rbac/api\<close>, \<open>rbac/access\<close>.
  \<open>Caches\<close> and \<open>LruCache\<close>: \<open>pkg/client/token_cache.go\<close>, \<open>user_cache.go\<close>, \<open>cache.go\<close>, \<open>task.go\<close> and
  \<open>pkg/util/lru\<close> with the limiter of requests; the linked list of the LRU cache refines a list of pairs.
  \<open>UserController\<close>: log-in, passwords, users (\<open>controller/user\<close>), the ownership checks of \<open>controller/util\<close>, and the
  middlewares for authentication and authorization. \<open>RoleController\<close>: roles, tenants, API resources.

  \<^bold>\<open>Texts.\<close> Strings are lists of bytes. \<open>GoStrings\<close>, \<open>GoFloat\<close>, \<open>GoNet\<close>: the parts of \<open>strings\<close>, \<open>strconv\<close>, \<open>time\<close>,
  \<open>net/url\<close>, \<open>encoding/base64\<close> in use. \<open>Json\<close>, \<open>JsonStruct\<close>, \<open>JsonValid\<close>, \<open>JsonIndent\<close>: \<open>encoding/json\<close>, a parser
  with fuel twice the length of its text (enough: more fuel never changes the result) and the printer, which are
  inverse to each other.

  \<^bold>\<open>Alerts\<close> (\<open>pkg/controller/alert\<close>). \<open>LabelMap\<close>, \<open>AlertRules\<close>: labels, rule configurations, thresholds, effective times,
  silences. \<open>Engine\<close>: the trigger, the evaluation and the scheduler; \<open>EventLife\<close> shows that the trigger implements an
  abstract machine (an episode begins, is notified, recovers). \<open>Notify\<close>, \<open>NotifyQueue\<close>, \<open>NotifyProps\<close>,
  \<open>DispatchRace\<close>: the queue of notifications, its dispatcher, alone and beside others, and the requests it posts.
  \<open>AlertControllers\<close>, \<open>AlertRuleController\<close>, \<open>AlertRuleFiles\<close>: the administration, with export and import.
  \<open>Datasource\<close>, \<open>DatasourceProps\<close>: data sources. \<open>MetricProvider\<close>, \<open>MetricProps\<close>: the queries
  to Prometheus and Loki that give the engine its samples.

  \<^bold>\<open>Deployments\<close> (\<open>pkg/controller/plan\<close>). \<open>PlanSpecs\<close>, \<open>PlanController\<close>: plans, their configuration and nodes.
  \<open>PlanTasks\<close>, \<open>PlanWorker\<close>, \<open>PlanHandlers\<close>: the loop over the steps, the handing over to an agent, and the steps
  with \<open>pkg/planrender\<close> and \<open>pkg/util/container\<close>. \<open>AgentController\<close>, \<open>DeployAgent\<close>: both ends of the calls of an agent.
  \<open>PlanProps\<close>, \<open>PlanTaskProps\<close>, \<open>PlanStuck\<close>, \<open>PlanNodes\<close>, \<open>PlanFiles\<close>, \<open>PlanWait\<close>, \<open>AgentProps\<close>: which plans may be
  started and deleted, what a run writes, what a crash leaves, and that the waits end.

  \<^bold>\<open>Clusters\<close> (\<open>pkg/controller/cluster\<close>). \<open>ClusterController\<close>: clusters, their clients and the cache of these, and who may
  access a cluster. \<open>ClusterPermission\<close>: grants, access tokens, kubeconfigs and the two proxies. \<open>ClusterSync\<close>: the
  back-off and the two syncers of \<open>pkg/jobmanager\<close>, and the tunnel manager. \<open>ClusterProps\<close>, \<open>ClusterSyncProps\<close>: how
  long a revoked grant lives on, whose credentials a grantee uses, what deletions and probes may change.

  \<^bold>\<open>Other rows.\<close> \<open>Resources\<close>: nodes, runner images and distributions. \<open>Assistants\<close>, \<open>AssistantControllers\<close>,
  \<open>AssistantProps\<close>: providers, accounts, conversations and messages of the assistant, and that accounts never lose
  their provider.

  \<^bold>\<open>How the parts meet.\<close> A request passes \<open>Authentication\<close>, which asks the token cache, the user and his role's APIs, and
  reaches a controller, which asks \<open>CheckResourceAccess\<close> or \<open>AuthorizeClusterAccess\<close> and then the DAOs. A started plan is
  queued; the worker runs its tasks or creates a job, which a turn of the agent claims and reports, and the worker's
  wait sees the report. A rule the scheduler evaluates makes \<open>Fire\<close> write an event and queue notifications, which
  \<open>DispatchPending\<close> claims and sends. The properties follow these paths.

  \<^bold>\<open>Bounds and fuel.\<close> The parser of JSON has fuel from the length of its text. The wait for the job of an agent polls with
  the fuel \<open>pollBound\<close> computed from its deadline; it is proved to suffice when the clock advances by the pause between
  polls. \<open>WaitContainer\<close> makes the 180 rounds of the code, the legacy token of a service account the 10 of the code, a
  notification three attempts. The fixpoint of the menus ends by a measure. Everything else is structural.

  \<^bold>\<open>Parameters.\<close> Faults, clock and random bytes; HMAC, SHA-256, bcrypt and JWT signatures; the template engine; URL and
  address parsing; the answers of docker, SSH, HTTP receivers, Prometheus and the API servers (every request to these
  is recorded in the order it is made); the order of map iterations; the sessions of the tunnels.

  \<^bold>\<open>Not modelled.\<close> The rounding of DATETIME columns and the collation of MySQL; white space and letter case beyond ASCII;
  the routers, which bind requests and call one controller method each; helm, redis, shells, the dialogue of the assistant, mails,
  audits, and whatever only passes objects of a library on; interleavings of goroutines other than those of
  \<open>DispatchRace\<close>, of the scheduler's workers and of a round of probes; a nil dereference is the error \<open>nilPanic\<close> where the
  code can reach one, and the end of the process is left out. Versions of rows and counters such as \<open>retry_count\<close> are
  unbounded integers; errors made with a format keep their kind and code, not always their whole text. The transport of the calls of an agent is taken to be the
  identity on UTF-8 texts.
\<close>

end
